(* ===== verification/DC_Prelude.thy ===== *)
theory DC_Prelude
  imports Main "HOL-Library.Sublist"
begin

text \<open>
  The library every component theory rests on.

  \<^item> \<open>exn\<close>: the exceptions the program raises or catches by class
    (\<open>dcmanager/common/exceptions.py\<close>, the keystone exceptions it catches, and the Python
    exceptions that the modelled code can run into), with the text \<open>str(ex)\<close> gives.
  \<^item> \<open>io\<close>: computations over a state \<open>'s\<close> that return a value or raise, with
    \<open>bnd\<close>, \<open>raise\<close>, \<open>try_catch\<close>, \<open>for_each\<close>; an exception keeps the state reached so
    far, as in the source.
  \<^item> \<open>keeps\<close> and \<open>returns\<close>: an invariant a computation keeps on every exit, and a
    predicate every returned value satisfies, each with a collection of composition rules.
  \<^item> tables: rows kept in a list, looked up and updated by a key.
\<close>

section \<open>Text\<close>

fun show_nat :: "nat \<Rightarrow> string" where
  "show_nat n =
     (if n < 10 then [char_of (48 + n)]
      else show_nat (n div 10) @ [char_of (48 + n mod 10)])"

declare show_nat.simps [simp del]

definition show_nat_opt :: "nat option \<Rightarrow> string" where
  "show_nat_opt x = (case x of None \<Rightarrow> ''None'' | Some n \<Rightarrow> show_nat n)"

definition show_str_opt :: "string option \<Rightarrow> string" where
  "show_str_opt x = (case x of None \<Rightarrow> ''None'' | Some s \<Rightarrow> s)"

text \<open>Python's truth value of an optional string: neither None nor empty.\<close>

definition truthy_str :: "string option \<Rightarrow> bool" where
  "truthy_str x = (case x of None \<Rightarrow> False | Some s \<Rightarrow> s \<noteq> [])"

text \<open>\<open>str.isdigit()\<close> on ASCII text, and \<open>int(s)\<close> on the texts it accepts.\<close>

definition is_digit :: "char \<Rightarrow> bool" where
  "is_digit c = (48 \<le> (of_char c :: nat) \<and> (of_char c :: nat) \<le> 57)"

definition isdigit :: "string \<Rightarrow> bool" where
  "isdigit s = (s \<noteq> [] \<and> list_all is_digit s)"

definition nat_of_digits :: "string \<Rightarrow> nat" where
  "nat_of_digits s = foldl (\<lambda>n c. 10 * n + (of_char c - 48)) 0 s"

section \<open>Exceptions\<close>

text \<open>The classes of \<open>dcorch/common/exceptions.py\<close> that the orchestrator engine raises or
  catches; those it shares with \<open>dcmanager\<close> by name and text are constructors of \<open>exn\<close>.
  \<open>SyncTimeout\<close> is eventlet's \<open>Timeout\<close>, which is not an \<open>Exception\<close>.\<close>

datatype dcorch_exn =
    ProjectQuotaNotFound string
  | QuotaClassNotFound "string option"
  | InvalidInputError
  | Invalid
  | SubcloudRegionNotFound string
  | ResourceNotFound
  | SubcloudResourceNotFound string
  | OrchJobNotFound string
  | OrchRequestNotFound string
  | SubcloudSyncNotFound string string
  | EndpointNotReachable
  | EndpointNotSupported string
  | SyncRequestFailed
  | SyncRequestAbortedBySystem
  | SyncRequestFailedRetry
  | SyncRequestTimeout
  | CertificateExpiredException
  | ConnectionRefused
  | TimeOut
  | CertificateNotFound string string
  | SyncTimeout

fun dcorch_exn_str :: "dcorch_exn \<Rightarrow> string" where
  "dcorch_exn_str (ProjectQuotaNotFound p) = ''Quota for project '' @ p @ '' doesn't exist.''"
| "dcorch_exn_str (QuotaClassNotFound c) =
     (case c of None \<Rightarrow> ''Quota class %(class_name)s doesn't exist.''
      | Some n \<Rightarrow> ''Quota class '' @ n @ '' doesn't exist.'')"
| "dcorch_exn_str InvalidInputError = ''An invalid value was provided''"
| "dcorch_exn_str Invalid = ''Unacceptable parameters.''"
| "dcorch_exn_str (SubcloudRegionNotFound r) = ''Subcloud '' @ r @ '' not found''"
| "dcorch_exn_str ResourceNotFound = ''Resource not available''"
| "dcorch_exn_str (SubcloudResourceNotFound r) = ''SubcloudResource '' @ r @ '' not available''"
| "dcorch_exn_str (OrchJobNotFound j) = ''OrchJob  '' @ j @ '' not found''"
| "dcorch_exn_str (OrchRequestNotFound r) = ''OrchRequest  '' @ r @ '' not found''"
| "dcorch_exn_str (SubcloudSyncNotFound s e) =
     ''SubcloudSync subcloud: '' @ s @ '' endpoint_type: '' @ e @ '' not found''"
| "dcorch_exn_str EndpointNotReachable = ''The specified resource endpoint is not reachable''"
| "dcorch_exn_str (EndpointNotSupported e) =
     ''The specified resource endpoint '' @ e @ '' is not supported''"
| "dcorch_exn_str SyncRequestFailed = ''The sync operation failed''"
| "dcorch_exn_str SyncRequestAbortedBySystem =
     ''The sync operation was aborted by the system because some condition was not met''"
| "dcorch_exn_str SyncRequestFailedRetry = ''The sync operation failed, will retry''"
| "dcorch_exn_str SyncRequestTimeout = ''The sync operation timed out''"
| "dcorch_exn_str CertificateExpiredException = ''Certificate is expired and will not be synced''"
| "dcorch_exn_str ConnectionRefused = ''Connection to the service endpoint is refused''"
| "dcorch_exn_str TimeOut = ''Timeout when connecting to OpenStack Service''"
| "dcorch_exn_str (CertificateNotFound r s) =
     ''Certificate in region='' @ r @ '' with signature '' @ s @ '' not found''"
| "dcorch_exn_str SyncTimeout = ''600 seconds''"

datatype exn =
    BadRequest string string
  | ValidateFail string
  | NotFound
  | NotAuthorized
  | AdminRequired
  | InvalidParameterValue string
  | SubcloudNotFound nat
  | SubcloudNameNotFound string
  | SubcloudNotOnline
  | SubcloudNotUnmanaged
  | SubcloudNotOffline
  | SubcloudBackupOperationFailed string
  | SubcloudStatusNotFound nat string
  | SubcloudPatchOptsNotFound nat
  | SubcloudGroupNotFound nat
  | SubcloudGroupNameNotFound string
  | SubcloudGroupNameViolation
  | SubcloudGroupDefaultNotDeletable nat
  | InternalError
  | CertificateUploadError string
  | VaultLoadMissingError string string
  | PrestagePreCheckFailedException "string option" string bool
  | StrategyStepNotFound "nat option"
  | StrategyStepNameNotFound string
  | StrategySkippedException string
  | StrategyStoppedException
  | ConnectTimeout
  | ConnectFailure
  | EndpointNotFound
  | IndexError
  | KeyError
  | TypeError
  | AttributeError
  | ValueError
  | DBDuplicateEntry
  | DBReferenceError
  | UnboundLocalError
  | PlaybookExecutionFailed string
  | PlaybookExecutionTimeout nat string
  | LicenseInstallError string string
  | ManualRecoveryRequiredException string string
  | PreCheckFailedException string string
  | LoadMaxReached string
  | SocketTimeout
  | ServiceUnavailable
  | RemoteError string
  | IOError string
  | HTTPAbort nat string
  | Dcorch dcorch_exn
  | PyException string

text \<open>\<open>str(ex)\<close>: the message template of the class with its arguments filled in.
  \<open>AdminRequired\<close> is raised without its \<open>reason\<close>, so the template itself is the text.\<close>

fun exn_str :: "exn \<Rightarrow> string" where
  "exn_str (BadRequest r m) = ''Bad '' @ r @ '' request: '' @ m"
| "exn_str (ValidateFail m) = m"
| "exn_str NotFound = ''Not found''"
| "exn_str NotAuthorized = ''Not authorized.''"
| "exn_str AdminRequired = ''User does not have admin privileges: %(reason)s''"
| "exn_str (InvalidParameterValue e) = e"
| "exn_str (SubcloudNotFound i) = ''Subcloud with id '' @ show_nat i @ '' doesn't exist.''"
| "exn_str (SubcloudNameNotFound n) = ''Subcloud with name '' @ n @ '' doesn't exist.''"
| "exn_str SubcloudNotOnline = ''Subcloud is not online.''"
| "exn_str SubcloudNotUnmanaged = ''Subcloud must be unmanaged to perform this operation.''"
| "exn_str SubcloudNotOffline = ''Subcloud must be powered down to perform this operation.''"
| "exn_str (SubcloudBackupOperationFailed op) = ''Failed to run subcloud-backup '' @ op @ ''. Please run '' @
     [CHR 0x27] @ ''dcmanager subcloud error'' @ [CHR 0x27] @ '' command for details''"
| "exn_str (SubcloudStatusNotFound i e) =
     ''SubcloudStatus with subcloud_id '' @ show_nat i @ '' and endpoint_type '' @ e
       @ '' doesn't exist.''"
| "exn_str (SubcloudPatchOptsNotFound i) =
     ''No options found for Subcloud with id '' @ show_nat i @ '', defaults will be used.''"
| "exn_str (SubcloudGroupNotFound i) = ''Subcloud Group with id '' @ show_nat i @ '' doesn't exist.''"
| "exn_str (SubcloudGroupNameNotFound n) = ''Subcloud Group with name '' @ n @ '' doesn't exist.''"
| "exn_str SubcloudGroupNameViolation = ''Default Subcloud Group name cannot be changed or reused.''"
| "exn_str (SubcloudGroupDefaultNotDeletable i) =
     ''Default Subcloud Group '' @ show_nat i @ '' may not be deleted.''"
| "exn_str InternalError = ''Error when performing operation''"
| "exn_str (CertificateUploadError e) = ''Error while uploading rootca certificate. '' @ e"
| "exn_str (VaultLoadMissingError t d) = ''No matching: '' @ t @ '' found in vault: '' @ d"
| "exn_str (PrestagePreCheckFailedException sc d skip) =
     (case sc of None \<Rightarrow> ''Prestage failed: '' @ d
      | Some n \<Rightarrow> (if skip then ''Prestage skipped '' else ''Prestage failed '')
                  @ [CHR 0x27] @ n @ [CHR 0x27] @ '': '' @ d)"
| "exn_str (StrategyStepNotFound i) = ''StrategyStep with subcloud_id '' @ show_nat_opt i @ '' doesn't exist.''"
| "exn_str (StrategyStepNameNotFound n) = ''StrategyStep with name '' @ n @ '' doesn't exist.''"
| "exn_str (StrategySkippedException d) = d"
| "exn_str StrategyStoppedException = ''Strategy has been stopped''"
| "exn_str ConnectTimeout = ''ConnectTimeout''"
| "exn_str ConnectFailure = ''ConnectFailure''"
| "exn_str EndpointNotFound = ''EndpointNotFound''"
| "exn_str IndexError = ''IndexError''"
| "exn_str KeyError = ''KeyError''"
| "exn_str TypeError = ''TypeError''"
| "exn_str AttributeError = ''AttributeError''"
| "exn_str ValueError = ''ValueError''"
| "exn_str DBDuplicateEntry = ''DBDuplicateEntry''"
| "exn_str DBReferenceError = ''DBReferenceError''"
| "exn_str UnboundLocalError = ''UnboundLocalError''"
| "exn_str (PlaybookExecutionFailed c) = ''Playbook execution failed, command='' @ c"
| "exn_str (PlaybookExecutionTimeout t c) =
     ''Playbook execution failed [TIMEOUT ('' @ show_nat t @ '')], command='' @ c"
| "exn_str (LicenseInstallError i m) = ''Error while installing license on subcloud: '' @ i @ ''. '' @ m"
| "exn_str (ManualRecoveryRequiredException s m) = ''Subcloud: '' @ s @ '' needs manual recovery from '' @ m"
| "exn_str (PreCheckFailedException s d) = ''Subcloud '' @ s @ '' upgrade precheck failed: '' @ d"
| "exn_str (LoadMaxReached r) = ''Load in region='' @ r @ '' at maximum number of loads''"
| "exn_str SocketTimeout = ''timed out''"
| "exn_str ServiceUnavailable = ''Service Unavailable''"
| "exn_str (RemoteError m) = m"
| "exn_str (IOError m) = m"
| "exn_str (HTTPAbort status detail) = detail"
| "exn_str (Dcorch e) = dcorch_exn_str e"
| "exn_str (PyException m) = m"

text \<open>The subclasses of \<open>exceptions.NotFound\<close>, which \<open>except NotFound\<close> catches.\<close>

fun is_NotFound :: "exn \<Rightarrow> bool" where
  "is_NotFound NotFound = True"
| "is_NotFound (SubcloudNotFound _) = True"
| "is_NotFound (SubcloudNameNotFound _) = True"
| "is_NotFound (SubcloudStatusNotFound _ _) = True"
| "is_NotFound (SubcloudPatchOptsNotFound _) = True"
| "is_NotFound (SubcloudGroupNotFound _) = True"
| "is_NotFound (SubcloudGroupNameNotFound _) = True"
| "is_NotFound (StrategyStepNotFound _) = True"
| "is_NotFound (StrategyStepNameNotFound _) = True"
| "is_NotFound _ = False"

section \<open>Computations with state and exceptions\<close>

type_synonym ('s, 'a) io = "'s \<Rightarrow> (exn + 'a) \<times> 's"

definition ret :: "'a \<Rightarrow> ('s, 'a) io" where
  "ret x = (\<lambda>s. (Inr x, s))"

definition raise :: "exn \<Rightarrow> ('s, 'a) io" where
  "raise e = (\<lambda>s. (Inl e, s))"

definition bnd :: "('s, 'a) io \<Rightarrow> ('a \<Rightarrow> ('s, 'b) io) \<Rightarrow> ('s, 'b) io" where
  "bnd m f = (\<lambda>s. case m s of (Inl e, t) \<Rightarrow> (Inl e, t) | (Inr x, t) \<Rightarrow> f x t)"

definition seq :: "('s, 'a) io \<Rightarrow> ('s, 'b) io \<Rightarrow> ('s, 'b) io" where
  "seq m n = bnd m (\<lambda>_. n)"

definition try_catch :: "('s, 'a) io \<Rightarrow> (exn \<Rightarrow> ('s, 'a) io) \<Rightarrow> ('s, 'a) io" where
  "try_catch m h = (\<lambda>s. case m s of (Inl e, t) \<Rightarrow> h e t | (Inr x, t) \<Rightarrow> (Inr x, t))"

text \<open>\<open>try: m / except: h / else: k\<close>: what \<open>k\<close> raises is not caught by \<open>h\<close>.\<close>

definition try_else :: "('s, 'a) io \<Rightarrow> (exn \<Rightarrow> ('s, 'b) io) \<Rightarrow> ('a \<Rightarrow> ('s, 'b) io) \<Rightarrow> ('s, 'b) io" where
  "try_else m h k = (\<lambda>s. case m s of (Inl e, t) \<Rightarrow> h e t | (Inr x, t) \<Rightarrow> k x t)"

definition gets :: "('s \<Rightarrow> 'a) \<Rightarrow> ('s, 'a) io" where
  "gets f = (\<lambda>s. (Inr (f s), s))"

definition modify :: "('s \<Rightarrow> 's) \<Rightarrow> ('s, unit) io" where
  "modify f = (\<lambda>s. (Inr (), f s))"

definition unless_io :: "bool \<Rightarrow> ('s, unit) io \<Rightarrow> ('s, unit) io" where
  "unless_io b m = (if b then ret () else m)"

definition when_io :: "bool \<Rightarrow> ('s, unit) io \<Rightarrow> ('s, unit) io" where
  "when_io b m = (if b then m else ret ())"

text \<open>A database transaction: what an exception leaves behind is rolled back.\<close>

definition write_session :: "('s, 'a) io \<Rightarrow> ('s, 'a) io" where
  "write_session m = (\<lambda>s. case m s of (Inl e, _) \<Rightarrow> (Inl e, s) | (Inr x, t) \<Rightarrow> (Inr x, t))"

fun for_each :: "('a \<Rightarrow> ('s, unit) io) \<Rightarrow> 'a list \<Rightarrow> ('s, unit) io" where
  "for_each f [] = ret ()"
| "for_each f (x # xs) = seq (f x) (for_each f xs)"

fun fold_io :: "('a \<Rightarrow> 'b \<Rightarrow> ('s, 'b) io) \<Rightarrow> 'a list \<Rightarrow> 'b \<Rightarrow> ('s, 'b) io" where
  "fold_io f [] acc = ret acc"
| "fold_io f (x # xs) acc = bnd (f x acc) (fold_io f xs)"

lemma bnd_ret [simp]: "bnd (ret x) f = f x"
  by (simp add: bnd_def ret_def)

lemma bnd_raise [simp]: "bnd (raise e) f = raise e"
  by (simp add: bnd_def raise_def)

lemma bnd_ret_right [simp]: "bnd m ret = m"
  by (rule ext) (simp add: bnd_def ret_def split: prod.splits sum.splits)

lemma bnd_assoc: "bnd (bnd m f) g = bnd m (\<lambda>x. bnd (f x) g)"
  by (rule ext) (simp add: bnd_def split: prod.splits sum.splits)

lemma bnd_apply:
  "bnd m f s = (case m s of (Inl e, t) \<Rightarrow> (Inl e, t) | (Inr x, t) \<Rightarrow> f x t)"
  by (simp add: bnd_def)

lemmas io_defs = ret_def raise_def bnd_def seq_def try_catch_def try_else_def gets_def
  modify_def unless_io_def when_io_def write_session_def

lemma seq_apply: "seq m n s = (case m s of (Inl e, t) \<Rightarrow> (Inl e, t) | (Inr x, t) \<Rightarrow> n t)"
  by (simp add: seq_def bnd_def)

lemma seq_ret [simp]: "seq (ret x) n = n"
  by (simp add: seq_def)

lemma seq_raise [simp]: "seq (raise e) n = raise e"
  by (simp add: seq_def)

lemma ret_apply [simp]: "ret x s = (Inr x, s)"
  by (simp add: ret_def)

lemma raise_apply [simp]: "raise e s = (Inl e, s)"
  by (simp add: raise_def)

lemma gets_apply [simp]: "gets f s = (Inr (f s), s)"
  by (simp add: gets_def)

lemma modify_apply [simp]: "modify f s = (Inr (), f s)"
  by (simp add: modify_def)

subsection \<open>Invariants kept on every exit\<close>

definition keeps :: "('s \<Rightarrow> bool) \<Rightarrow> ('s, 'a) io \<Rightarrow> bool" where
  "keeps I m \<longleftrightarrow> (\<forall>s. I s \<longrightarrow> I (snd (m s)))"

named_theorems keeps_intros

lemma keepsI: "(\<And>s. I s \<Longrightarrow> I (snd (m s))) \<Longrightarrow> keeps I m"
  by (simp add: keeps_def)

lemma keepsD: "keeps I m \<Longrightarrow> I s \<Longrightarrow> I (snd (m s))"
  by (simp add: keeps_def)

lemma keeps_ret [keeps_intros]: "keeps I (ret x)"
  by (simp add: keeps_def ret_def)

lemma keeps_raise [keeps_intros]: "keeps I (raise e)"
  by (simp add: keeps_def raise_def)

lemma keeps_gets [keeps_intros]: "keeps I (gets f)"
  by (simp add: keeps_def gets_def)

lemma keeps_bnd [keeps_intros]: "keeps I m \<Longrightarrow> (\<And>x. keeps I (f x)) \<Longrightarrow> keeps I (bnd m f)"
  by (auto simp: keeps_def bnd_def split: prod.splits sum.splits)

lemma keeps_seq [keeps_intros]: "keeps I m \<Longrightarrow> keeps I n \<Longrightarrow> keeps I (seq m n)"
  by (simp add: seq_def keeps_bnd)

lemma keeps_try_catch [keeps_intros]:
  "keeps I m \<Longrightarrow> (\<And>e. keeps I (h e)) \<Longrightarrow> keeps I (try_catch m h)"
  by (auto simp: keeps_def try_catch_def split: prod.splits sum.splits)

lemma keeps_try_else [keeps_intros]:
  "keeps I m \<Longrightarrow> (\<And>e. keeps I (h e)) \<Longrightarrow> (\<And>x. keeps I (k x)) \<Longrightarrow> keeps I (try_else m h k)"
  by (auto simp: keeps_def try_else_def split: prod.splits sum.splits)

lemma keeps_write_session [keeps_intros]: "keeps I m \<Longrightarrow> keeps I (write_session m)"
  by (auto simp: keeps_def write_session_def split: prod.splits sum.splits)

lemma keeps_if [keeps_intros]: "(b \<Longrightarrow> keeps I m) \<Longrightarrow> (\<not> b \<Longrightarrow> keeps I n) \<Longrightarrow> keeps I (if b then m else n)"
  by simp

lemma keeps_when [keeps_intros]: "(b \<Longrightarrow> keeps I m) \<Longrightarrow> keeps I (when_io b m)"
  by (simp add: when_io_def keeps_ret)

lemma keeps_unless [keeps_intros]: "(\<not> b \<Longrightarrow> keeps I m) \<Longrightarrow> keeps I (unless_io b m)"
  by (simp add: unless_io_def keeps_ret)

lemma keeps_case_option [keeps_intros]:
  "(x = None \<Longrightarrow> keeps I m) \<Longrightarrow> (\<And>y. x = Some y \<Longrightarrow> keeps I (f y)) \<Longrightarrow>
   keeps I (case x of None \<Rightarrow> m | Some y \<Rightarrow> f y)"
  by (simp split: option.splits)

lemma keeps_case_prod [keeps_intros]:
  "(\<And>a b. x = (a, b) \<Longrightarrow> keeps I (f a b)) \<Longrightarrow> keeps I (case x of (a, b) \<Rightarrow> f a b)"
  by (simp split: prod.splits)

lemma keeps_for_each [keeps_intros]:
  "(\<And>x. x \<in> set xs \<Longrightarrow> keeps I (f x)) \<Longrightarrow> keeps I (for_each f xs)"
  by (induction xs) (auto intro!: keeps_intros)

lemma keeps_fold_io [keeps_intros]:
  "(\<And>x a. x \<in> set xs \<Longrightarrow> keeps I (f x a)) \<Longrightarrow> keeps I (fold_io f xs acc)"
  by (induction xs arbitrary: acc) (auto intro!: keeps_intros)

lemma keeps_modify: "(\<And>s. I s \<Longrightarrow> I (f s)) \<Longrightarrow> keeps I (modify f)"
  by (simp add: keeps_def modify_def)

subsection \<open>Rules for a precondition, a result and an exception\<close>

definition triple :: "('s \<Rightarrow> bool) \<Rightarrow> ('s, 'a) io \<Rightarrow> ('a \<Rightarrow> 's \<Rightarrow> bool) \<Rightarrow> ('s \<Rightarrow> bool) \<Rightarrow> bool" where
  "triple P m Q E \<longleftrightarrow>
     (\<forall>s. P s \<longrightarrow> (case m s of (Inl e, t) \<Rightarrow> E t | (Inr x, t) \<Rightarrow> Q x t))"

lemma tripleI:
  assumes "\<And>s e t. P s \<Longrightarrow> m s = (Inl e, t) \<Longrightarrow> E t" and "\<And>s x t. P s \<Longrightarrow> m s = (Inr x, t) \<Longrightarrow> Q x t"
  shows "triple P m Q E"
  unfolding triple_def using assms by (auto split: prod.splits sum.splits)

lemma tripleD:
  assumes "triple P m Q E" and "P s" and "m s = (r, t)"
  shows "case r of Inl e \<Rightarrow> E t | Inr x \<Rightarrow> Q x t"
  using assms unfolding triple_def by (fastforce split: sum.splits)

lemma triple_ret: "(\<And>s. P s \<Longrightarrow> Q x s) \<Longrightarrow> triple P (ret x) Q E"
  by (simp add: triple_def)

lemma triple_raise: "(\<And>s. P s \<Longrightarrow> E s) \<Longrightarrow> triple P (raise e) Q E"
  by (simp add: triple_def)

lemma triple_bnd: "triple P m R E \<Longrightarrow> (\<And>x. triple (R x) (f x) Q E) \<Longrightarrow> triple P (bnd m f) Q E"
  by (fastforce simp: triple_def bnd_apply split: prod.splits sum.splits)

lemma triple_seq: "triple P m (\<lambda>_. R) E \<Longrightarrow> triple R n Q E \<Longrightarrow> triple P (seq m n) Q E"
  unfolding seq_def by (rule triple_bnd)

lemma triple_gets: "(\<And>s. P s \<Longrightarrow> Q (f s) s) \<Longrightarrow> triple P (gets f) Q E"
  by (simp add: triple_def)

lemma triple_modify: "(\<And>s. P s \<Longrightarrow> Q () (f s)) \<Longrightarrow> triple P (modify f) Q E"
  by (simp add: triple_def)

lemma triple_pre: "triple P m Q E \<Longrightarrow> (\<And>s. P' s \<Longrightarrow> P s) \<Longrightarrow> triple P' m Q E"
  by (simp add: triple_def)

lemma triple_post:
  assumes "triple P m Q E" and "\<And>x s. Q x s \<Longrightarrow> Q' x s" and "\<And>s. E s \<Longrightarrow> E' s"
  shows "triple P m Q' E'"
  using assms by (fastforce simp: triple_def split: prod.splits sum.splits)

lemma triple_case_option:
  assumes "x = None \<Longrightarrow> triple P m Q E" and "\<And>y. x = Some y \<Longrightarrow> triple P (f y) Q E"
  shows "triple P (case x of None \<Rightarrow> m | Some y \<Rightarrow> f y) Q E"
  using assms by (cases x) auto

lemma triple_if:
  "(b \<Longrightarrow> triple P m Q E) \<Longrightarrow> (\<not> b \<Longrightarrow> triple P n Q E) \<Longrightarrow> triple P (if b then m else n) Q E"
  by simp

lemma triple_keeps: "keeps I m \<Longrightarrow> triple I m (\<lambda>_. I) I"
  by (fastforce simp: triple_def keeps_def split: prod.splits sum.splits)

lemma triple_try_catch:
  "triple P m Q R \<Longrightarrow> (\<And>e. triple R (h e) Q E) \<Longrightarrow> triple P (try_catch m h) Q E"
  by (fastforce simp: triple_def try_catch_def split: prod.splits sum.splits)

lemma triple_try_else:
  "triple P m R F \<Longrightarrow> (\<And>e. triple F (h e) Q E) \<Longrightarrow> (\<And>x. triple (R x) (k x) Q E) \<Longrightarrow>
   triple P (try_else m h k) Q E"
  by (fastforce simp: triple_def try_else_def split: prod.splits sum.splits)

lemma keeps_conj: "keeps I m \<Longrightarrow> keeps J m \<Longrightarrow> keeps (\<lambda>s. I s \<and> J s) m"
  by (simp add: keeps_def)

text \<open>An invariant, with what the first part says of its result known in the second.\<close>

lemma keeps_bnd_result:
  assumes "keeps I m" and "\<And>s x t. I s \<Longrightarrow> m s = (Inr x, t) \<Longrightarrow> I t \<Longrightarrow> I (snd (f x t))"
  shows "keeps I (bnd m f)"
proof (rule keepsI)
  fix s assume I: "I s"
  obtain r t where m: "m s = (r, t)" by fastforce
  have "I t" using keepsD [OF assms(1) I] m by simp
  then show "I (snd (bnd m f s))"
    using assms(2) [OF I] m by (simp add: bnd_def split: sum.splits)
qed

subsection \<open>What a computation can return\<close>

definition returns :: "('s, 'a) io \<Rightarrow> ('a \<Rightarrow> bool) \<Rightarrow> bool" where
  "returns m R \<longleftrightarrow> (\<forall>s x t. m s = (Inr x, t) \<longrightarrow> R x)"

named_theorems returns_intros

lemma returnsD: "returns m R \<Longrightarrow> m s = (Inr x, t) \<Longrightarrow> R x"
  by (auto simp: returns_def)

lemma returns_ret [returns_intros]: "R x \<Longrightarrow> returns (ret x) R"
  by (simp add: returns_def ret_def)

lemma returns_raise [returns_intros]: "returns (raise e) R"
  by (simp add: returns_def raise_def)

lemma returns_bnd [returns_intros]: "(\<And>x. returns (f x) R) \<Longrightarrow> returns (bnd m f) R"
  by (force simp: returns_def bnd_def split: prod.splits sum.splits)

lemma returns_seq [returns_intros]: "returns n R \<Longrightarrow> returns (seq m n) R"
  by (simp add: seq_def returns_bnd)

lemma returns_try_catch [returns_intros]:
  "returns m R \<Longrightarrow> (\<And>e. returns (h e) R) \<Longrightarrow> returns (try_catch m h) R"
  by (force simp: returns_def try_catch_def split: prod.splits sum.splits)

lemma returns_try_else [returns_intros]:
  "(\<And>e. returns (h e) R) \<Longrightarrow> (\<And>x. returns (k x) R) \<Longrightarrow> returns (try_else m h k) R"
  by (force simp: returns_def try_else_def split: prod.splits sum.splits)

lemma returns_if [returns_intros]:
  "(b \<Longrightarrow> returns m R) \<Longrightarrow> (\<not> b \<Longrightarrow> returns n R) \<Longrightarrow> returns (if b then m else n) R"
  by simp

lemma returns_case_option [returns_intros]:
  "(x = None \<Longrightarrow> returns m R) \<Longrightarrow> (\<And>y. x = Some y \<Longrightarrow> returns (f y) R) \<Longrightarrow>
   returns (case x of None \<Rightarrow> m | Some y \<Rightarrow> f y) R"
  by (simp split: option.splits)

lemma returns_case_prod [returns_intros]:
  "(\<And>a b. x = (a, b) \<Longrightarrow> returns (f a b) R) \<Longrightarrow> returns (case x of (a, b) \<Rightarrow> f a b) R"
  by (simp split: prod.splits)

section \<open>Tables\<close>

text \<open>A table is the list of its rows in the order they were added, and the next value of its
  \<open>id\<close> sequence. Rows are addressed by the value of a key column.\<close>

record 'r table =
  rows :: "'r list"
  next_id :: nat

definition empty_table :: "'r table" where
  "empty_table = \<lparr>rows = [], next_id = 1\<rparr>"

definition insert_row :: "(nat \<Rightarrow> 'r) \<Rightarrow> 'r table \<Rightarrow> 'r table" where
  "insert_row mk t = t\<lparr>rows := rows t @ [mk (next_id t)], next_id := Suc (next_id t)\<rparr>"

definition map_rows :: "('r \<Rightarrow> 'r) \<Rightarrow> 'r table \<Rightarrow> 'r table" where
  "map_rows f t = t\<lparr>rows := map f (rows t)\<rparr>"

definition filter_rows :: "('r \<Rightarrow> bool) \<Rightarrow> 'r table \<Rightarrow> 'r table" where
  "filter_rows p t = t\<lparr>rows := filter p (rows t)\<rparr>"

definition update_row :: "('r \<Rightarrow> nat) \<Rightarrow> nat \<Rightarrow> ('r \<Rightarrow> 'r) \<Rightarrow> 'r table \<Rightarrow> 'r table" where
  "update_row key k f t = map_rows (\<lambda>r. if key r = k then f r else r) t"

definition delete_row :: "('r \<Rightarrow> nat) \<Rightarrow> nat \<Rightarrow> 'r table \<Rightarrow> 'r table" where
  "delete_row key k t = filter_rows (\<lambda>r. key r \<noteq> k) t"

text \<open>\<open>query.first()\<close>, \<open>query.all()\<close>, and \<open>query.one()\<close> with its two exceptions.\<close>

definition query_first :: "('r \<Rightarrow> bool) \<Rightarrow> 'r table \<Rightarrow> 'r option" where
  "query_first p t = find p (rows t)"

definition query_all :: "('r \<Rightarrow> bool) \<Rightarrow> 'r table \<Rightarrow> 'r list" where
  "query_all p t = filter p (rows t)"

definition query_one :: "exn \<Rightarrow> exn \<Rightarrow> ('r \<Rightarrow> bool) \<Rightarrow> 'r table \<Rightarrow> exn + 'r" where
  "query_one none_exn many_exn p t =
     (case filter p (rows t) of
        [] \<Rightarrow> Inl none_exn
      | [r] \<Rightarrow> Inr r
      | _ \<Rightarrow> Inl many_exn)"

text \<open>A well-formed table: ids positive, strictly increasing, all below the sequence.\<close>

definition table_wf :: "('r \<Rightarrow> nat) \<Rightarrow> 'r table \<Rightarrow> bool" where
  "table_wf key t \<longleftrightarrow>
     0 < next_id t \<and> sorted_wrt (<) (map key (rows t)) \<and>
     (\<forall>r \<in> set (rows t). 0 < key r \<and> key r < next_id t)"

lemma table_wf_empty [simp]: "table_wf key empty_table"
  by (simp add: table_wf_def empty_table_def)

lemma table_wf_insert [intro]:
  "table_wf key t \<Longrightarrow> (\<And>i. key (mk i) = i) \<Longrightarrow> table_wf key (insert_row mk t)"
  by (auto simp: table_wf_def insert_row_def sorted_wrt_append less_Suc_eq)

lemma table_wf_map [intro]:
  assumes "table_wf key t" and "\<And>r. key (f r) = key r"
  shows "table_wf key (map_rows f t)"
proof -
  have "key \<circ> f = key" by (simp add: assms(2) fun_eq_iff)
  then show ?thesis using assms by (auto simp: table_wf_def map_rows_def)
qed

lemma table_wf_filter [intro]: "table_wf key t \<Longrightarrow> table_wf key (filter_rows p t)"
  by (auto simp: table_wf_def filter_rows_def sorted_wrt_map sorted_wrt_filter)

lemma table_wf_update [intro]:
  "table_wf key t \<Longrightarrow> (\<And>r. key (f r) = key r) \<Longrightarrow> table_wf key (update_row k_col k f t)"
  by (simp add: update_row_def table_wf_map)

lemma table_wf_delete [intro]: "table_wf key t \<Longrightarrow> table_wf key (delete_row k_col k t)"
  by (simp add: delete_row_def table_wf_filter)

lemma rows_insert [simp]: "rows (insert_row mk t) = rows t @ [mk (next_id t)]"
  by (simp add: insert_row_def)

lemma rows_map [simp]: "rows (map_rows f t) = map f (rows t)"
  by (simp add: map_rows_def)

lemma rows_filter [simp]: "rows (filter_rows p t) = filter p (rows t)"
  by (simp add: filter_rows_def)

lemma rows_update: "rows (update_row key k f t) = map (\<lambda>r. if key r = k then f r else r) (rows t)"
  by (simp add: update_row_def)

lemma rows_delete [simp]: "rows (delete_row key k t) = filter (\<lambda>r. key r \<noteq> k) (rows t)"
  by (simp add: delete_row_def)

lemma rows_empty [simp]: "rows empty_table = []"
  by (simp add: empty_table_def)

lemma table_wf_sorted: "table_wf key t \<Longrightarrow> sorted (map key (rows t))"
  by (simp add: table_wf_def strict_sorted_iff)

lemma table_wf_distinct: "table_wf key t \<Longrightarrow> distinct (map key (rows t))"
  by (simp add: table_wf_def strict_sorted_iff)

lemma table_wf_order_by: "table_wf key t \<Longrightarrow> sort_key key (query_all p t) = query_all p t"
  by (simp add: table_wf_sorted query_all_def sort_key_id_if_sorted sorted_filter)

lemma query_first_Some: "query_first p t = Some r \<Longrightarrow> r \<in> set (rows t) \<and> p r"
  by (auto simp: query_first_def find_Some_iff)

lemma query_first_None: "query_first p t = None \<longleftrightarrow> (\<forall>r \<in> set (rows t). \<not> p r)"
  by (auto simp: query_first_def find_None_iff)

lemma query_one_Inr: "query_one e1 e2 p t = Inr r \<Longrightarrow> r \<in> set (rows t) \<and> p r"
proof -
  assume a: "query_one e1 e2 p t = Inr r"
  then have "filter p (rows t) = [r]"
    by (auto simp: query_one_def split: list.splits)
  then have "r \<in> set (filter p (rows t))" by simp
  then show ?thesis by simp
qed

lemma find_unique:
  "distinct (map key rs) \<Longrightarrow> r \<in> set rs \<Longrightarrow> find (\<lambda>x. key x = key r) rs = Some r"
  by (induction rs) auto

lemma query_first_key:
  "table_wf key t \<Longrightarrow> r \<in> set (rows t) \<Longrightarrow> query_first (\<lambda>x. key x = key r) t = Some r"
  by (simp add: query_first_def find_unique table_wf_distinct)

lemma table_wf_key_inj:
  "table_wf key t \<Longrightarrow> r \<in> set (rows t) \<Longrightarrow> q \<in> set (rows t) \<Longrightarrow> key r = key q \<Longrightarrow> r = q"
  by (metis option.inject query_first_key)

end
