(* ===== verification/DC_Consts.thy ===== *)
theory DC_Consts
  imports DC_Prelude "HOL-Library.List_Lexorder" "HOL-Library.Char_ord"
begin

text \<open>
  The closed sets of strings the program stores in its database and compares against
  (\<open>dcmanager/common/consts.py\<close>, \<open>dccommon/consts.py\<close>, \<open>dccommon/drivers/openstack/vim.py\<close>),
  each as a datatype whose constructors carry the names of the constants. \<open>T_str\<close> gives the
  string of the source and \<open>T_of_str\<close> reads it back; \<open>T_of_str_str\<close> is the round trip, so
  keeping the datatype instead of the string loses nothing and no two constants coincide.
\<close>

section \<open>Enumerations\<close>

subsection \<open>Software update strategy types\<close>

datatype sw_type =
    SW_UPDATE_TYPE_FIRMWARE
  | SW_UPDATE_TYPE_KUBE_ROOTCA_UPDATE
  | SW_UPDATE_TYPE_KUBERNETES
  | SW_UPDATE_TYPE_PATCH
  | SW_UPDATE_TYPE_PRESTAGE
  | SW_UPDATE_TYPE_UPGRADE

fun sw_type_str :: "sw_type \<Rightarrow> string" where
  "sw_type_str SW_UPDATE_TYPE_FIRMWARE = ''firmware''"
| "sw_type_str SW_UPDATE_TYPE_KUBE_ROOTCA_UPDATE = ''kube-rootca-update''"
| "sw_type_str SW_UPDATE_TYPE_KUBERNETES = ''kubernetes''"
| "sw_type_str SW_UPDATE_TYPE_PATCH = ''patch''"
| "sw_type_str SW_UPDATE_TYPE_PRESTAGE = ''prestage''"
| "sw_type_str SW_UPDATE_TYPE_UPGRADE = ''upgrade''"

definition all_sw_types :: "sw_type list" where
  "all_sw_types =
     [SW_UPDATE_TYPE_FIRMWARE,
      SW_UPDATE_TYPE_KUBE_ROOTCA_UPDATE,
      SW_UPDATE_TYPE_KUBERNETES,
      SW_UPDATE_TYPE_PATCH,
      SW_UPDATE_TYPE_PRESTAGE,
      SW_UPDATE_TYPE_UPGRADE]"

definition sw_type_of_str :: "string \<Rightarrow> sw_type option" where
  "sw_type_of_str s = find (\<lambda>x. sw_type_str x = s) all_sw_types"

lemma sw_type_of_str_str [simp]: "sw_type_of_str (sw_type_str x) = Some x"
  by (cases x) (simp_all add: sw_type_of_str_def all_sw_types_def)

lemma sw_type_str_inj [simp]: "sw_type_str x = sw_type_str y \<longleftrightarrow> x = y"
  by (metis sw_type_of_str_str option.inject)

subsection \<open>Software update states\<close>

datatype sw_state =
    SW_UPDATE_STATE_INITIAL
  | SW_UPDATE_STATE_APPLYING
  | SW_UPDATE_STATE_ABORT_REQUESTED
  | SW_UPDATE_STATE_ABORTING
  | SW_UPDATE_STATE_COMPLETE
  | SW_UPDATE_STATE_ABORTED
  | SW_UPDATE_STATE_FAILED
  | SW_UPDATE_STATE_DELETING
  | SW_UPDATE_STATE_DELETED

fun sw_state_str :: "sw_state \<Rightarrow> string" where
  "sw_state_str SW_UPDATE_STATE_INITIAL = ''initial''"
| "sw_state_str SW_UPDATE_STATE_APPLYING = ''applying''"
| "sw_state_str SW_UPDATE_STATE_ABORT_REQUESTED = ''abort requested''"
| "sw_state_str SW_UPDATE_STATE_ABORTING = ''aborting''"
| "sw_state_str SW_UPDATE_STATE_COMPLETE = ''complete''"
| "sw_state_str SW_UPDATE_STATE_ABORTED = ''aborted''"
| "sw_state_str SW_UPDATE_STATE_FAILED = ''failed''"
| "sw_state_str SW_UPDATE_STATE_DELETING = ''deleting''"
| "sw_state_str SW_UPDATE_STATE_DELETED = ''deleted''"

definition all_sw_states :: "sw_state list" where
  "all_sw_states =
     [SW_UPDATE_STATE_INITIAL,
      SW_UPDATE_STATE_APPLYING,
      SW_UPDATE_STATE_ABORT_REQUESTED,
      SW_UPDATE_STATE_ABORTING,
      SW_UPDATE_STATE_COMPLETE,
      SW_UPDATE_STATE_ABORTED,
      SW_UPDATE_STATE_FAILED,
      SW_UPDATE_STATE_DELETING,
      SW_UPDATE_STATE_DELETED]"

definition sw_state_of_str :: "string \<Rightarrow> sw_state option" where
  "sw_state_of_str s = find (\<lambda>x. sw_state_str x = s) all_sw_states"

lemma sw_state_of_str_str [simp]: "sw_state_of_str (sw_state_str x) = Some x"
  by (cases x) (simp_all add: sw_state_of_str_def all_sw_states_def)

lemma sw_state_str_inj [simp]: "sw_state_str x = sw_state_str y \<longleftrightarrow> x = y"
  by (metis sw_state_of_str_str option.inject)

subsection \<open>Strategy step states\<close>

datatype step_state =
    STRATEGY_STATE_INITIAL
  | STRATEGY_STATE_COMPLETE
  | STRATEGY_STATE_ABORTED
  | STRATEGY_STATE_FAILED
  | STRATEGY_STATE_CREATING_VIM_PATCH_STRATEGY
  | STRATEGY_STATE_DELETING_VIM_PATCH_STRATEGY
  | STRATEGY_STATE_APPLYING_VIM_PATCH_STRATEGY
  | STRATEGY_STATE_PRE_CHECK
  | STRATEGY_STATE_INSTALLING_LICENSE
  | STRATEGY_STATE_IMPORTING_LOAD
  | STRATEGY_STATE_UPDATING_PATCHES
  | STRATEGY_STATE_FINISHING_PATCH_STRATEGY
  | STRATEGY_STATE_STARTING_UPGRADE
  | STRATEGY_STATE_TRANSFERRING_CA_CERTIFICATE
  | STRATEGY_STATE_LOCKING_CONTROLLER_0
  | STRATEGY_STATE_LOCKING_CONTROLLER_1
  | STRATEGY_STATE_UPGRADING_SIMPLEX
  | STRATEGY_STATE_UPGRADING_DUPLEX
  | STRATEGY_STATE_MIGRATING_DATA
  | STRATEGY_STATE_UNLOCKING_CONTROLLER_0
  | STRATEGY_STATE_UNLOCKING_CONTROLLER_1
  | STRATEGY_STATE_SWACTING_TO_CONTROLLER_0
  | STRATEGY_STATE_SWACTING_TO_CONTROLLER_1
  | STRATEGY_STATE_ACTIVATING_UPGRADE
  | STRATEGY_STATE_COMPLETING_UPGRADE
  | STRATEGY_STATE_CREATING_VIM_UPGRADE_STRATEGY
  | STRATEGY_STATE_APPLYING_VIM_UPGRADE_STRATEGY
  | STRATEGY_STATE_DELETING_LOAD
  | STRATEGY_STATE_IMPORTING_FIRMWARE
  | STRATEGY_STATE_CREATING_FW_UPDATE_STRATEGY
  | STRATEGY_STATE_APPLYING_FW_UPDATE_STRATEGY
  | STRATEGY_STATE_FINISHING_FW_UPDATE
  | STRATEGY_STATE_KUBE_UPGRADE_PRE_CHECK
  | STRATEGY_STATE_KUBE_CREATING_VIM_KUBE_UPGRADE_STRATEGY
  | STRATEGY_STATE_KUBE_APPLYING_VIM_KUBE_UPGRADE_STRATEGY
  | STRATEGY_STATE_KUBE_ROOTCA_UPDATE_PRE_CHECK
  | STRATEGY_STATE_KUBE_ROOTCA_UPDATE_START
  | STRATEGY_STATE_KUBE_ROOTCA_UPDATE_UPLOAD_CERT
  | STRATEGY_STATE_CREATING_VIM_KUBE_ROOTCA_UPDATE_STRATEGY
  | STRATEGY_STATE_APPLYING_VIM_KUBE_ROOTCA_UPDATE_STRATEGY
  | STRATEGY_STATE_PRESTAGE_PRE_CHECK
  | STRATEGY_STATE_PRESTAGE_PREPARE
  | STRATEGY_STATE_PRESTAGE_PACKAGES
  | STRATEGY_STATE_PRESTAGE_IMAGES

fun step_state_str :: "step_state \<Rightarrow> string" where
  "step_state_str STRATEGY_STATE_INITIAL = ''initial''"
| "step_state_str STRATEGY_STATE_COMPLETE = ''complete''"
| "step_state_str STRATEGY_STATE_ABORTED = ''aborted''"
| "step_state_str STRATEGY_STATE_FAILED = ''failed''"
| "step_state_str STRATEGY_STATE_CREATING_VIM_PATCH_STRATEGY = ''creating VIM patch strategy''"
| "step_state_str STRATEGY_STATE_DELETING_VIM_PATCH_STRATEGY = ''deleting VIM patch strategy''"
| "step_state_str STRATEGY_STATE_APPLYING_VIM_PATCH_STRATEGY = ''applying VIM patch strategy''"
| "step_state_str STRATEGY_STATE_PRE_CHECK = ''pre check''"
| "step_state_str STRATEGY_STATE_INSTALLING_LICENSE = ''installing license''"
| "step_state_str STRATEGY_STATE_IMPORTING_LOAD = ''importing load''"
| "step_state_str STRATEGY_STATE_UPDATING_PATCHES = ''updating patches''"
| "step_state_str STRATEGY_STATE_FINISHING_PATCH_STRATEGY = ''finishing patch strategy''"
| "step_state_str STRATEGY_STATE_STARTING_UPGRADE = ''starting upgrade''"
| "step_state_str STRATEGY_STATE_TRANSFERRING_CA_CERTIFICATE = ''transferring CA certificate''"
| "step_state_str STRATEGY_STATE_LOCKING_CONTROLLER_0 = ''locking controller-0''"
| "step_state_str STRATEGY_STATE_LOCKING_CONTROLLER_1 = ''locking controller-1''"
| "step_state_str STRATEGY_STATE_UPGRADING_SIMPLEX = ''upgrading simplex''"
| "step_state_str STRATEGY_STATE_UPGRADING_DUPLEX = ''upgrading duplex''"
| "step_state_str STRATEGY_STATE_MIGRATING_DATA = ''migrating data''"
| "step_state_str STRATEGY_STATE_UNLOCKING_CONTROLLER_0 = ''unlocking controller-0''"
| "step_state_str STRATEGY_STATE_UNLOCKING_CONTROLLER_1 = ''unlocking controller-1''"
| "step_state_str STRATEGY_STATE_SWACTING_TO_CONTROLLER_0 = ''swacting to controller-0''"
| "step_state_str STRATEGY_STATE_SWACTING_TO_CONTROLLER_1 = ''swacting to controller-1''"
| "step_state_str STRATEGY_STATE_ACTIVATING_UPGRADE = ''activating upgrade''"
| "step_state_str STRATEGY_STATE_COMPLETING_UPGRADE = ''completing upgrade''"
| "step_state_str STRATEGY_STATE_CREATING_VIM_UPGRADE_STRATEGY = ''creating VIM upgrade strategy''"
| "step_state_str STRATEGY_STATE_APPLYING_VIM_UPGRADE_STRATEGY = ''applying VIM upgrade strategy''"
| "step_state_str STRATEGY_STATE_DELETING_LOAD = ''deleting load''"
| "step_state_str STRATEGY_STATE_IMPORTING_FIRMWARE = ''importing firmware''"
| "step_state_str STRATEGY_STATE_CREATING_FW_UPDATE_STRATEGY = ''creating fw update strategy''"
| "step_state_str STRATEGY_STATE_APPLYING_FW_UPDATE_STRATEGY = ''applying fw update strategy''"
| "step_state_str STRATEGY_STATE_FINISHING_FW_UPDATE = ''finishing fw update''"
| "step_state_str STRATEGY_STATE_KUBE_UPGRADE_PRE_CHECK = ''kube upgrade pre check''"
| "step_state_str STRATEGY_STATE_KUBE_CREATING_VIM_KUBE_UPGRADE_STRATEGY = ''kube creating vim kube upgrade strategy''"
| "step_state_str STRATEGY_STATE_KUBE_APPLYING_VIM_KUBE_UPGRADE_STRATEGY = ''kube applying vim kube upgrade strategy''"
| "step_state_str STRATEGY_STATE_KUBE_ROOTCA_UPDATE_PRE_CHECK = ''kube rootca update pre check''"
| "step_state_str STRATEGY_STATE_KUBE_ROOTCA_UPDATE_START = ''kube rootca update start''"
| "step_state_str STRATEGY_STATE_KUBE_ROOTCA_UPDATE_UPLOAD_CERT = ''kube rootca update upload cert''"
| "step_state_str STRATEGY_STATE_CREATING_VIM_KUBE_ROOTCA_UPDATE_STRATEGY = ''creating vim kube rootca update strategy''"
| "step_state_str STRATEGY_STATE_APPLYING_VIM_KUBE_ROOTCA_UPDATE_STRATEGY = ''applying vim kube rootca update strategy''"
| "step_state_str STRATEGY_STATE_PRESTAGE_PRE_CHECK = ''prestage-precheck''"
| "step_state_str STRATEGY_STATE_PRESTAGE_PREPARE = ''prestage-prepare''"
| "step_state_str STRATEGY_STATE_PRESTAGE_PACKAGES = ''prestaging-packages''"
| "step_state_str STRATEGY_STATE_PRESTAGE_IMAGES = ''prestaging-images''"

definition all_step_states :: "step_state list" where
  "all_step_states =
     [STRATEGY_STATE_INITIAL,
      STRATEGY_STATE_COMPLETE,
      STRATEGY_STATE_ABORTED,
      STRATEGY_STATE_FAILED,
      STRATEGY_STATE_CREATING_VIM_PATCH_STRATEGY,
      STRATEGY_STATE_DELETING_VIM_PATCH_STRATEGY,
      STRATEGY_STATE_APPLYING_VIM_PATCH_STRATEGY,
      STRATEGY_STATE_PRE_CHECK,
      STRATEGY_STATE_INSTALLING_LICENSE,
      STRATEGY_STATE_IMPORTING_LOAD,
      STRATEGY_STATE_UPDATING_PATCHES,
      STRATEGY_STATE_FINISHING_PATCH_STRATEGY,
      STRATEGY_STATE_STARTING_UPGRADE,
      STRATEGY_STATE_TRANSFERRING_CA_CERTIFICATE,
      STRATEGY_STATE_LOCKING_CONTROLLER_0,
      STRATEGY_STATE_LOCKING_CONTROLLER_1,
      STRATEGY_STATE_UPGRADING_SIMPLEX,
      STRATEGY_STATE_UPGRADING_DUPLEX,
      STRATEGY_STATE_MIGRATING_DATA,
      STRATEGY_STATE_UNLOCKING_CONTROLLER_0,
      STRATEGY_STATE_UNLOCKING_CONTROLLER_1,
      STRATEGY_STATE_SWACTING_TO_CONTROLLER_0,
      STRATEGY_STATE_SWACTING_TO_CONTROLLER_1,
      STRATEGY_STATE_ACTIVATING_UPGRADE,
      STRATEGY_STATE_COMPLETING_UPGRADE,
      STRATEGY_STATE_CREATING_VIM_UPGRADE_STRATEGY,
      STRATEGY_STATE_APPLYING_VIM_UPGRADE_STRATEGY,
      STRATEGY_STATE_DELETING_LOAD,
      STRATEGY_STATE_IMPORTING_FIRMWARE,
      STRATEGY_STATE_CREATING_FW_UPDATE_STRATEGY,
      STRATEGY_STATE_APPLYING_FW_UPDATE_STRATEGY,
      STRATEGY_STATE_FINISHING_FW_UPDATE,
      STRATEGY_STATE_KUBE_UPGRADE_PRE_CHECK,
      STRATEGY_STATE_KUBE_CREATING_VIM_KUBE_UPGRADE_STRATEGY,
      STRATEGY_STATE_KUBE_APPLYING_VIM_KUBE_UPGRADE_STRATEGY,
      STRATEGY_STATE_KUBE_ROOTCA_UPDATE_PRE_CHECK,
      STRATEGY_STATE_KUBE_ROOTCA_UPDATE_START,
      STRATEGY_STATE_KUBE_ROOTCA_UPDATE_UPLOAD_CERT,
      STRATEGY_STATE_CREATING_VIM_KUBE_ROOTCA_UPDATE_STRATEGY,
      STRATEGY_STATE_APPLYING_VIM_KUBE_ROOTCA_UPDATE_STRATEGY,
      STRATEGY_STATE_PRESTAGE_PRE_CHECK,
      STRATEGY_STATE_PRESTAGE_PREPARE,
      STRATEGY_STATE_PRESTAGE_PACKAGES,
      STRATEGY_STATE_PRESTAGE_IMAGES]"

definition step_state_of_str :: "string \<Rightarrow> step_state option" where
  "step_state_of_str s = find (\<lambda>x. step_state_str x = s) all_step_states"

lemma step_state_of_str_str [simp]: "step_state_of_str (step_state_str x) = Some x"
  by (cases x) (simp_all add: step_state_of_str_def all_step_states_def)

lemma step_state_str_inj [simp]: "step_state_str x = step_state_str y \<longleftrightarrow> x = y"
  by (metis step_state_of_str_str option.inject)

subsection \<open>Subcloud deploy status states, the prestage states among them\<close>

datatype deploy_state =
    DEPLOY_STATE_NONE
  | DEPLOY_STATE_PRE_DEPLOY
  | DEPLOY_STATE_DEPLOY_PREP_FAILED
  | DEPLOY_STATE_PRE_INSTALL
  | DEPLOY_STATE_PRE_INSTALL_FAILED
  | DEPLOY_STATE_INSTALLING
  | DEPLOY_STATE_INSTALL_FAILED
  | DEPLOY_STATE_INSTALLED
  | DEPLOY_STATE_BOOTSTRAPPING
  | DEPLOY_STATE_BOOTSTRAP_FAILED
  | DEPLOY_STATE_DEPLOYING
  | DEPLOY_STATE_DEPLOY_FAILED
  | DEPLOY_STATE_MIGRATING_DATA
  | DEPLOY_STATE_DATA_MIGRATION_FAILED
  | DEPLOY_STATE_MIGRATED
  | DEPLOY_STATE_PRE_RESTORE
  | DEPLOY_STATE_RESTORE_PREP_FAILED
  | DEPLOY_STATE_RESTORING
  | DEPLOY_STATE_RESTORE_FAILED
  | DEPLOY_STATE_PRE_REHOME
  | DEPLOY_STATE_REHOMING
  | DEPLOY_STATE_REHOME_FAILED
  | DEPLOY_STATE_REHOME_PREP_FAILED
  | DEPLOY_STATE_DONE
  | DEPLOY_STATE_RECONFIGURING_NETWORK
  | DEPLOY_STATE_RECONFIGURING_NETWORK_FAILED
  | PRESTAGE_STATE_FAILED
  | PRESTAGE_STATE_COMPLETE
  | PRESTAGE_STATE_PREPARE
  | PRESTAGE_STATE_PACKAGES
  | PRESTAGE_STATE_IMAGES

fun deploy_state_str :: "deploy_state \<Rightarrow> string" where
  "deploy_state_str DEPLOY_STATE_NONE = ''not-deployed''"
| "deploy_state_str DEPLOY_STATE_PRE_DEPLOY = ''pre-deploy''"
| "deploy_state_str DEPLOY_STATE_DEPLOY_PREP_FAILED = ''deploy-prep-failed''"
| "deploy_state_str DEPLOY_STATE_PRE_INSTALL = ''pre-install''"
| "deploy_state_str DEPLOY_STATE_PRE_INSTALL_FAILED = ''pre-install-failed''"
| "deploy_state_str DEPLOY_STATE_INSTALLING = ''installing''"
| "deploy_state_str DEPLOY_STATE_INSTALL_FAILED = ''install-failed''"
| "deploy_state_str DEPLOY_STATE_INSTALLED = ''installed''"
| "deploy_state_str DEPLOY_STATE_BOOTSTRAPPING = ''bootstrapping''"
| "deploy_state_str DEPLOY_STATE_BOOTSTRAP_FAILED = ''bootstrap-failed''"
| "deploy_state_str DEPLOY_STATE_DEPLOYING = ''deploying''"
| "deploy_state_str DEPLOY_STATE_DEPLOY_FAILED = ''deploy-failed''"
| "deploy_state_str DEPLOY_STATE_MIGRATING_DATA = ''migrating-data''"
| "deploy_state_str DEPLOY_STATE_DATA_MIGRATION_FAILED = ''data-migration-failed''"
| "deploy_state_str DEPLOY_STATE_MIGRATED = ''migrated''"
| "deploy_state_str DEPLOY_STATE_PRE_RESTORE = ''pre-restore''"
| "deploy_state_str DEPLOY_STATE_RESTORE_PREP_FAILED = ''restore-prep-failed''"
| "deploy_state_str DEPLOY_STATE_RESTORING = ''restoring''"
| "deploy_state_str DEPLOY_STATE_RESTORE_FAILED = ''restore-failed''"
| "deploy_state_str DEPLOY_STATE_PRE_REHOME = ''pre-rehome''"
| "deploy_state_str DEPLOY_STATE_REHOMING = ''rehoming''"
| "deploy_state_str DEPLOY_STATE_REHOME_FAILED = ''rehome-failed''"
| "deploy_state_str DEPLOY_STATE_REHOME_PREP_FAILED = ''rehome-prep-failed''"
| "deploy_state_str DEPLOY_STATE_DONE = ''complete''"
| "deploy_state_str DEPLOY_STATE_RECONFIGURING_NETWORK = ''reconfiguring-network''"
| "deploy_state_str DEPLOY_STATE_RECONFIGURING_NETWORK_FAILED = ''network-reconfiguration-failed''"
| "deploy_state_str PRESTAGE_STATE_FAILED = ''prestage-failed''"
| "deploy_state_str PRESTAGE_STATE_COMPLETE = ''prestage-complete''"
| "deploy_state_str PRESTAGE_STATE_PREPARE = ''prestage-prepare''"
| "deploy_state_str PRESTAGE_STATE_PACKAGES = ''prestaging-packages''"
| "deploy_state_str PRESTAGE_STATE_IMAGES = ''prestaging-images''"

definition all_deploy_states :: "deploy_state list" where
  "all_deploy_states =
     [DEPLOY_STATE_NONE,
      DEPLOY_STATE_PRE_DEPLOY,
      DEPLOY_STATE_DEPLOY_PREP_FAILED,
      DEPLOY_STATE_PRE_INSTALL,
      DEPLOY_STATE_PRE_INSTALL_FAILED,
      DEPLOY_STATE_INSTALLING,
      DEPLOY_STATE_INSTALL_FAILED,
      DEPLOY_STATE_INSTALLED,
      DEPLOY_STATE_BOOTSTRAPPING,
      DEPLOY_STATE_BOOTSTRAP_FAILED,
      DEPLOY_STATE_DEPLOYING,
      DEPLOY_STATE_DEPLOY_FAILED,
      DEPLOY_STATE_MIGRATING_DATA,
      DEPLOY_STATE_DATA_MIGRATION_FAILED,
      DEPLOY_STATE_MIGRATED,
      DEPLOY_STATE_PRE_RESTORE,
      DEPLOY_STATE_RESTORE_PREP_FAILED,
      DEPLOY_STATE_RESTORING,
      DEPLOY_STATE_RESTORE_FAILED,
      DEPLOY_STATE_PRE_REHOME,
      DEPLOY_STATE_REHOMING,
      DEPLOY_STATE_REHOME_FAILED,
      DEPLOY_STATE_REHOME_PREP_FAILED,
      DEPLOY_STATE_DONE,
      DEPLOY_STATE_RECONFIGURING_NETWORK,
      DEPLOY_STATE_RECONFIGURING_NETWORK_FAILED,
      PRESTAGE_STATE_FAILED,
      PRESTAGE_STATE_COMPLETE,
      PRESTAGE_STATE_PREPARE,
      PRESTAGE_STATE_PACKAGES,
      PRESTAGE_STATE_IMAGES]"

definition deploy_state_of_str :: "string \<Rightarrow> deploy_state option" where
  "deploy_state_of_str s = find (\<lambda>x. deploy_state_str x = s) all_deploy_states"

lemma deploy_state_of_str_str [simp]: "deploy_state_of_str (deploy_state_str x) = Some x"
  by (cases x) (simp_all add: deploy_state_of_str_def all_deploy_states_def)

lemma deploy_state_str_inj [simp]: "deploy_state_str x = deploy_state_str y \<longleftrightarrow> x = y"
  by (metis deploy_state_of_str_str option.inject)

subsection \<open>Subcloud backup status states\<close>

datatype backup_state =
    BACKUP_STATE_INITIAL
  | BACKUP_STATE_VALIDATING
  | BACKUP_STATE_VALIDATE_FAILED
  | BACKUP_STATE_PRE_BACKUP
  | BACKUP_STATE_PREP_FAILED
  | BACKUP_STATE_IN_PROGRESS
  | BACKUP_STATE_FAILED
  | BACKUP_STATE_UNKNOWN
  | BACKUP_STATE_COMPLETE_LOCAL
  | BACKUP_STATE_COMPLETE_CENTRAL

fun backup_state_str :: "backup_state \<Rightarrow> string" where
  "backup_state_str BACKUP_STATE_INITIAL = ''initial''"
| "backup_state_str BACKUP_STATE_VALIDATING = ''validating''"
| "backup_state_str BACKUP_STATE_VALIDATE_FAILED = ''validate-failed''"
| "backup_state_str BACKUP_STATE_PRE_BACKUP = ''pre-backup''"
| "backup_state_str BACKUP_STATE_PREP_FAILED = ''backup-prep-failed''"
| "backup_state_str BACKUP_STATE_IN_PROGRESS = ''backing-up''"
| "backup_state_str BACKUP_STATE_FAILED = ''failed''"
| "backup_state_str BACKUP_STATE_UNKNOWN = ''unknown''"
| "backup_state_str BACKUP_STATE_COMPLETE_LOCAL = ''complete-local''"
| "backup_state_str BACKUP_STATE_COMPLETE_CENTRAL = ''complete-central''"

definition all_backup_states :: "backup_state list" where
  "all_backup_states =
     [BACKUP_STATE_INITIAL,
      BACKUP_STATE_VALIDATING,
      BACKUP_STATE_VALIDATE_FAILED,
      BACKUP_STATE_PRE_BACKUP,
      BACKUP_STATE_PREP_FAILED,
      BACKUP_STATE_IN_PROGRESS,
      BACKUP_STATE_FAILED,
      BACKUP_STATE_UNKNOWN,
      BACKUP_STATE_COMPLETE_LOCAL,
      BACKUP_STATE_COMPLETE_CENTRAL]"

definition backup_state_of_str :: "string \<Rightarrow> backup_state option" where
  "backup_state_of_str s = find (\<lambda>x. backup_state_str x = s) all_backup_states"

lemma backup_state_of_str_str [simp]: "backup_state_of_str (backup_state_str x) = Some x"
  by (cases x) (simp_all add: backup_state_of_str_def all_backup_states_def)

lemma backup_state_str_inj [simp]: "backup_state_str x = backup_state_str y \<longleftrightarrow> x = y"
  by (metis backup_state_of_str_str option.inject)

subsection \<open>Endpoint types\<close>

datatype endpoint_type =
    ENDPOINT_TYPE_IDENTITY_OS
  | ENDPOINT_TYPE_PLATFORM
  | ENDPOINT_TYPE_PATCHING
  | ENDPOINT_TYPE_IDENTITY
  | ENDPOINT_TYPE_FM
  | ENDPOINT_TYPE_NFV
  | ENDPOINT_TYPE_LOAD
  | ENDPOINT_TYPE_DC_CERT
  | ENDPOINT_TYPE_FIRMWARE
  | ENDPOINT_TYPE_KUBERNETES
  | ENDPOINT_TYPE_KUBE_ROOTCA

fun endpoint_type_str :: "endpoint_type \<Rightarrow> string" where
  "endpoint_type_str ENDPOINT_TYPE_IDENTITY_OS = ''identity_openstack''"
| "endpoint_type_str ENDPOINT_TYPE_PLATFORM = ''platform''"
| "endpoint_type_str ENDPOINT_TYPE_PATCHING = ''patching''"
| "endpoint_type_str ENDPOINT_TYPE_IDENTITY = ''identity''"
| "endpoint_type_str ENDPOINT_TYPE_FM = ''faultmanagement''"
| "endpoint_type_str ENDPOINT_TYPE_NFV = ''nfv''"
| "endpoint_type_str ENDPOINT_TYPE_LOAD = ''load''"
| "endpoint_type_str ENDPOINT_TYPE_DC_CERT = ''dc-cert''"
| "endpoint_type_str ENDPOINT_TYPE_FIRMWARE = ''firmware''"
| "endpoint_type_str ENDPOINT_TYPE_KUBERNETES = ''kubernetes''"
| "endpoint_type_str ENDPOINT_TYPE_KUBE_ROOTCA = ''kube-rootca''"

definition all_endpoint_types :: "endpoint_type list" where
  "all_endpoint_types =
     [ENDPOINT_TYPE_IDENTITY_OS,
      ENDPOINT_TYPE_PLATFORM,
      ENDPOINT_TYPE_PATCHING,
      ENDPOINT_TYPE_IDENTITY,
      ENDPOINT_TYPE_FM,
      ENDPOINT_TYPE_NFV,
      ENDPOINT_TYPE_LOAD,
      ENDPOINT_TYPE_DC_CERT,
      ENDPOINT_TYPE_FIRMWARE,
      ENDPOINT_TYPE_KUBERNETES,
      ENDPOINT_TYPE_KUBE_ROOTCA]"

definition endpoint_type_of_str :: "string \<Rightarrow> endpoint_type option" where
  "endpoint_type_of_str s = find (\<lambda>x. endpoint_type_str x = s) all_endpoint_types"

lemma endpoint_type_of_str_str [simp]: "endpoint_type_of_str (endpoint_type_str x) = Some x"
  by (cases x) (simp_all add: endpoint_type_of_str_def all_endpoint_types_def)

lemma endpoint_type_str_inj [simp]: "endpoint_type_str x = endpoint_type_str y \<longleftrightarrow> x = y"
  by (metis endpoint_type_of_str_str option.inject)

subsection \<open>Subcloud management state\<close>

text \<open>The column can also hold the empty text: a request that asks for it passes every check and the
  text is written (\<open>update_subcloud\<close> of the manager).\<close>

datatype management =
    MANAGEMENT_UNMANAGED
  | MANAGEMENT_MANAGED
  | MANAGEMENT_EMPTY

fun management_str :: "management \<Rightarrow> string" where
  "management_str MANAGEMENT_UNMANAGED = ''unmanaged''"
| "management_str MANAGEMENT_MANAGED = ''managed''"
| "management_str MANAGEMENT_EMPTY = []"

definition all_managements :: "management list" where
  "all_managements =
     [MANAGEMENT_UNMANAGED,
      MANAGEMENT_MANAGED,
      MANAGEMENT_EMPTY]"

definition management_of_str :: "string \<Rightarrow> management option" where
  "management_of_str s = find (\<lambda>x. management_str x = s) all_managements"

lemma management_of_str_str [simp]: "management_of_str (management_str x) = Some x"
  by (cases x) (simp_all add: management_of_str_def all_managements_def)

lemma management_str_inj [simp]: "management_str x = management_str y \<longleftrightarrow> x = y"
  by (metis management_of_str_str option.inject)

subsection \<open>Subcloud availability status\<close>

datatype availability =
    AVAILABILITY_OFFLINE
  | AVAILABILITY_ONLINE

fun availability_str :: "availability \<Rightarrow> string" where
  "availability_str AVAILABILITY_OFFLINE = ''offline''"
| "availability_str AVAILABILITY_ONLINE = ''online''"

definition all_availabilitys :: "availability list" where
  "all_availabilitys =
     [AVAILABILITY_OFFLINE,
      AVAILABILITY_ONLINE]"

definition availability_of_str :: "string \<Rightarrow> availability option" where
  "availability_of_str s = find (\<lambda>x. availability_str x = s) all_availabilitys"

lemma availability_of_str_str [simp]: "availability_of_str (availability_str x) = Some x"
  by (cases x) (simp_all add: availability_of_str_def all_availabilitys_def)

lemma availability_str_inj [simp]: "availability_str x = availability_str y \<longleftrightarrow> x = y"
  by (metis availability_of_str_str option.inject)

subsection \<open>Subcloud sync status\<close>

datatype sync_status =
    SYNC_STATUS_UNKNOWN
  | SYNC_STATUS_IN_SYNC
  | SYNC_STATUS_OUT_OF_SYNC

fun sync_status_str :: "sync_status \<Rightarrow> string" where
  "sync_status_str SYNC_STATUS_UNKNOWN = ''unknown''"
| "sync_status_str SYNC_STATUS_IN_SYNC = ''in-sync''"
| "sync_status_str SYNC_STATUS_OUT_OF_SYNC = ''out-of-sync''"

definition all_sync_statuss :: "sync_status list" where
  "all_sync_statuss =
     [SYNC_STATUS_UNKNOWN,
      SYNC_STATUS_IN_SYNC,
      SYNC_STATUS_OUT_OF_SYNC]"

definition sync_status_of_str :: "string \<Rightarrow> sync_status option" where
  "sync_status_of_str s = find (\<lambda>x. sync_status_str x = s) all_sync_statuss"

lemma sync_status_of_str_str [simp]: "sync_status_of_str (sync_status_str x) = Some x"
  by (cases x) (simp_all add: sync_status_of_str_def all_sync_statuss_def)

lemma sync_status_str_inj [simp]: "sync_status_str x = sync_status_str y \<longleftrightarrow> x = y"
  by (metis sync_status_of_str_str option.inject)

subsection \<open>VIM strategy states\<close>

datatype vim_state =
    VIM_STATE_INITIAL
  | VIM_STATE_BUILDING
  | VIM_STATE_BUILD_FAILED
  | VIM_STATE_BUILD_TIMEOUT
  | VIM_STATE_READY_TO_APPLY
  | VIM_STATE_APPLYING
  | VIM_STATE_APPLY_FAILED
  | VIM_STATE_APPLY_TIMEOUT
  | VIM_STATE_APPLIED
  | VIM_STATE_ABORTING
  | VIM_STATE_ABORT_FAILED
  | VIM_STATE_ABORT_TIMEOUT
  | VIM_STATE_ABORTED

fun vim_state_str :: "vim_state \<Rightarrow> string" where
  "vim_state_str VIM_STATE_INITIAL = ''initial''"
| "vim_state_str VIM_STATE_BUILDING = ''building''"
| "vim_state_str VIM_STATE_BUILD_FAILED = ''build-failed''"
| "vim_state_str VIM_STATE_BUILD_TIMEOUT = ''build-timeout''"
| "vim_state_str VIM_STATE_READY_TO_APPLY = ''ready-to-apply''"
| "vim_state_str VIM_STATE_APPLYING = ''applying''"
| "vim_state_str VIM_STATE_APPLY_FAILED = ''apply-failed''"
| "vim_state_str VIM_STATE_APPLY_TIMEOUT = ''apply-timeout''"
| "vim_state_str VIM_STATE_APPLIED = ''applied''"
| "vim_state_str VIM_STATE_ABORTING = ''aborting''"
| "vim_state_str VIM_STATE_ABORT_FAILED = ''abort-failed''"
| "vim_state_str VIM_STATE_ABORT_TIMEOUT = ''abort-timeout''"
| "vim_state_str VIM_STATE_ABORTED = ''aborted''"

definition all_vim_states :: "vim_state list" where
  "all_vim_states =
     [VIM_STATE_INITIAL,
      VIM_STATE_BUILDING,
      VIM_STATE_BUILD_FAILED,
      VIM_STATE_BUILD_TIMEOUT,
      VIM_STATE_READY_TO_APPLY,
      VIM_STATE_APPLYING,
      VIM_STATE_APPLY_FAILED,
      VIM_STATE_APPLY_TIMEOUT,
      VIM_STATE_APPLIED,
      VIM_STATE_ABORTING,
      VIM_STATE_ABORT_FAILED,
      VIM_STATE_ABORT_TIMEOUT,
      VIM_STATE_ABORTED]"

definition vim_state_of_str :: "string \<Rightarrow> vim_state option" where
  "vim_state_of_str s = find (\<lambda>x. vim_state_str x = s) all_vim_states"

lemma vim_state_of_str_str [simp]: "vim_state_of_str (vim_state_str x) = Some x"
  by (cases x) (simp_all add: vim_state_of_str_def all_vim_states_def)

lemma vim_state_str_inj [simp]: "vim_state_str x = vim_state_str y \<longleftrightarrow> x = y"
  by (metis vim_state_of_str_str option.inject)

subsection \<open>VIM strategy names\<close>

datatype vim_strategy_name =
    VIM_STRATEGY_NAME_FW_UPDATE
  | VIM_STRATEGY_NAME_KUBE_ROOTCA_UPDATE
  | VIM_STRATEGY_NAME_KUBE_UPGRADE
  | VIM_STRATEGY_NAME_SW_PATCH
  | VIM_STRATEGY_NAME_SW_UPGRADE

fun vim_strategy_name_str :: "vim_strategy_name \<Rightarrow> string" where
  "vim_strategy_name_str VIM_STRATEGY_NAME_FW_UPDATE = ''fw-update''"
| "vim_strategy_name_str VIM_STRATEGY_NAME_KUBE_ROOTCA_UPDATE = ''kube-rootca-update''"
| "vim_strategy_name_str VIM_STRATEGY_NAME_KUBE_UPGRADE = ''kube-upgrade''"
| "vim_strategy_name_str VIM_STRATEGY_NAME_SW_PATCH = ''sw-patch''"
| "vim_strategy_name_str VIM_STRATEGY_NAME_SW_UPGRADE = ''sw-upgrade''"

definition all_vim_strategy_names :: "vim_strategy_name list" where
  "all_vim_strategy_names =
     [VIM_STRATEGY_NAME_FW_UPDATE,
      VIM_STRATEGY_NAME_KUBE_ROOTCA_UPDATE,
      VIM_STRATEGY_NAME_KUBE_UPGRADE,
      VIM_STRATEGY_NAME_SW_PATCH,
      VIM_STRATEGY_NAME_SW_UPGRADE]"

definition vim_strategy_name_of_str :: "string \<Rightarrow> vim_strategy_name option" where
  "vim_strategy_name_of_str s = find (\<lambda>x. vim_strategy_name_str x = s) all_vim_strategy_names"

lemma vim_strategy_name_of_str_str [simp]: "vim_strategy_name_of_str (vim_strategy_name_str x) = Some x"
  by (cases x) (simp_all add: vim_strategy_name_of_str_def all_vim_strategy_names_def)

lemma vim_strategy_name_str_inj [simp]: "vim_strategy_name_str x = vim_strategy_name_str y \<longleftrightarrow> x = y"
  by (metis vim_strategy_name_of_str_str option.inject)

text \<open>\<open>ORDER BY endpoint_type\<close> compares the stored strings.\<close>

instantiation endpoint_type :: linorder
begin

definition less_eq_endpoint_type :: "endpoint_type \<Rightarrow> endpoint_type \<Rightarrow> bool" where
  "less_eq_endpoint_type a b \<longleftrightarrow> endpoint_type_str a \<le> endpoint_type_str b"

definition less_endpoint_type :: "endpoint_type \<Rightarrow> endpoint_type \<Rightarrow> bool" where
  "less_endpoint_type a b \<longleftrightarrow> endpoint_type_str a < endpoint_type_str b"

instance
  by standard (auto simp: less_eq_endpoint_type_def less_endpoint_type_def intro: le_neq_trans)

end

section \<open>Groups of constants and defaults\<close>

text \<open>\<open>ENDPOINT_TYPES_LIST\<close> and \<open>ENDPOINT_TYPES_LIST_OS\<close> of \<open>dccommon/consts.py\<close>.\<close>

definition ENDPOINT_TYPES_LIST :: "endpoint_type list" where
  "ENDPOINT_TYPES_LIST =
     [ENDPOINT_TYPE_PLATFORM, ENDPOINT_TYPE_PATCHING, ENDPOINT_TYPE_IDENTITY,
      ENDPOINT_TYPE_LOAD, ENDPOINT_TYPE_DC_CERT, ENDPOINT_TYPE_FIRMWARE,
      ENDPOINT_TYPE_KUBERNETES, ENDPOINT_TYPE_KUBE_ROOTCA]"

definition ENDPOINT_TYPES_LIST_OS :: "endpoint_type list" where
  "ENDPOINT_TYPES_LIST_OS = [ENDPOINT_TYPE_IDENTITY_OS]"

lemma distinct_endpoint_types: "distinct ENDPOINT_TYPES_LIST"
  by (simp add: ENDPOINT_TYPES_LIST_def)

definition SYSTEM_CONTROLLER_NAME :: string where
  "SYSTEM_CONTROLLER_NAME = ''SystemController''"

definition DEFAULT_REGION_NAME :: string where
  "DEFAULT_REGION_NAME = ''RegionOne''"

definition SW_UPDATE_DEFAULT_TITLE :: string where
  "SW_UPDATE_DEFAULT_TITLE = ''all clouds default''"

definition SUBCLOUD_APPLY_TYPE_PARALLEL :: string where
  "SUBCLOUD_APPLY_TYPE_PARALLEL = ''parallel''"

definition SUBCLOUD_APPLY_TYPE_SERIAL :: string where
  "SUBCLOUD_APPLY_TYPE_SERIAL = ''serial''"

definition DEFAULT_SUBCLOUD_GROUP_ID :: nat where
  "DEFAULT_SUBCLOUD_GROUP_ID = 1"

definition DEFAULT_SUBCLOUD_GROUP_NAME :: string where
  "DEFAULT_SUBCLOUD_GROUP_NAME = ''Default''"

definition DEFAULT_SUBCLOUD_GROUP_DESCRIPTION :: string where
  "DEFAULT_SUBCLOUD_GROUP_DESCRIPTION = ''Default Subcloud Group''"

definition DEFAULT_SUBCLOUD_GROUP_MAX_PARALLEL_SUBCLOUDS :: int where
  "DEFAULT_SUBCLOUD_GROUP_MAX_PARALLEL_SUBCLOUDS = 2"

definition AVAIL_FAIL_COUNT_TO_ALARM :: nat where
  "AVAIL_FAIL_COUNT_TO_ALARM = 2"

definition AVAIL_FAIL_COUNT_MAX :: nat where
  "AVAIL_FAIL_COUNT_MAX = 9999"

definition ERROR_DESC_EMPTY :: string where
  "ERROR_DESC_EMPTY = ''No errors present''"

definition CERTS_VAULT_DIR :: string where
  "CERTS_VAULT_DIR = ''/opt/dc-vault/certs''"

definition PATCH_VAULT_DIR :: string where
  "PATCH_VAULT_DIR = ''/opt/dc-vault/patches''"

text \<open>Deploy states that admit a backup, or refuse a restore.\<close>

definition VALID_DEPLOY_STATES_FOR_BACKUP :: "deploy_state list" where
  "VALID_DEPLOY_STATES_FOR_BACKUP = [DEPLOY_STATE_DONE, PRESTAGE_STATE_COMPLETE]"

definition INVALID_DEPLOY_STATES_FOR_RESTORE :: "deploy_state list" where
  "INVALID_DEPLOY_STATES_FOR_RESTORE =
     [DEPLOY_STATE_INSTALLING, DEPLOY_STATE_BOOTSTRAPPING, DEPLOY_STATE_DEPLOYING,
      DEPLOY_STATE_REHOMING, DEPLOY_STATE_PRE_RESTORE, DEPLOY_STATE_RESTORING]"

definition STATES_FOR_ONGOING_BACKUP :: "backup_state list" where
  "STATES_FOR_ONGOING_BACKUP =
     [BACKUP_STATE_INITIAL, BACKUP_STATE_VALIDATING, BACKUP_STATE_PRE_BACKUP,
      BACKUP_STATE_IN_PROGRESS]"

text \<open>The states in which a step needs no further work.\<close>

definition terminal_step_states :: "step_state list" where
  "terminal_step_states =
     [STRATEGY_STATE_COMPLETE, STRATEGY_STATE_ABORTED, STRATEGY_STATE_FAILED]"

definition terminal_step :: "step_state \<Rightarrow> bool" where
  "terminal_step st \<longleftrightarrow> st \<in> set terminal_step_states"

lemma terminal_step_iff [simp]:
  "terminal_step st \<longleftrightarrow>
     st = STRATEGY_STATE_COMPLETE \<or> st = STRATEGY_STATE_ABORTED \<or> st = STRATEGY_STATE_FAILED"
  by (simp add: terminal_step_def terminal_step_states_def)

end
