(* ===== verification/DC_Models.thy ===== *)
theory DC_Models
  imports DC_Consts
begin

text \<open>
  The database of \<open>dcmanager/db/sqlalchemy/models.py\<close>: one record per table, one field per
  column that the program reads or writes (the bookkeeping columns \<open>created_at\<close>, \<open>updated_at\<close>,
  \<open>deleted_at\<close> and the unused \<open>spare\<close> and \<open>reserved\<close> columns are left out). A table holds the
  rows whose \<open>deleted\<close> column is 0: no statement of the program sets that column, rows are
  removed with \<open>session.delete\<close>. \<open>db_wf\<close> is the schema: primary keys, the unique columns of the
  migrations, and the foreign keys.
\<close>

section \<open>Values\<close>

text \<open>The values kept in the JSON column \<open>extra_args\<close> and in a request's payload.\<close>

datatype jval = JNone | JStr string | JBool bool | JDict "(string \<times> string) list"

type_synonym extra_args = "string \<rightharpoonup> jval"

text \<open>\<open>d.get(k)\<close> and \<open>bool(v)\<close>.\<close>

definition jget :: "extra_args \<Rightarrow> string \<Rightarrow> jval" where
  "jget d k = (case d k of None \<Rightarrow> JNone | Some v \<Rightarrow> v)"

fun truthy :: "jval \<Rightarrow> bool" where
  "truthy JNone = False"
| "truthy (JStr s) = (s \<noteq> [])"
| "truthy (JBool b) = b"
| "truthy (JDict d) = (d \<noteq> [])"

section \<open>Rows\<close>

record subcloud_group =
  g_id :: nat
  g_name :: string
  g_description :: string
  g_update_apply_type :: string
  g_max_parallel_subclouds :: int

record subcloud =
  sc_id :: nat
  sc_name :: string
  sc_description :: string
  sc_location :: string
  sc_software_version :: string
  sc_management_state :: management
  sc_availability_status :: availability
  sc_data_install :: "string option"
  sc_deploy_status :: deploy_state
  sc_backup_status :: "backup_state option"
  sc_backup_datetime :: "int option"
  sc_error_description :: string
  sc_data_upgrade :: "string option"
  sc_management_subnet :: string
  sc_management_gateway_ip :: string
  sc_management_start_ip :: string
  sc_management_end_ip :: string
  sc_openstack_installed :: bool
  sc_systemcontroller_gateway_ip :: string
  sc_audit_fail_count :: nat
  sc_group_id :: "nat option"

record subcloud_audits =
  sa_id :: nat
  sa_subcloud_id :: nat
  sa_audit_started_at :: int
  sa_audit_finished_at :: int
  sa_state_update_requested :: bool
  sa_patch_audit_requested :: bool
  sa_load_audit_requested :: bool
  sa_firmware_audit_requested :: bool
  sa_kubernetes_audit_requested :: bool
  sa_kube_rootca_update_audit_requested :: bool

record subcloud_status =
  ss_id :: nat
  ss_subcloud_id :: nat
  ss_endpoint_type :: endpoint_type
  ss_sync_status :: sync_status

record sw_update_strategy =
  st_id :: nat
  st_type :: sw_type
  st_subcloud_apply_type :: "string option"
  st_max_parallel_subclouds :: "int option"
  st_stop_on_failure :: bool
  st_state :: sw_state
  st_extra_args :: "extra_args option"

record sw_update_opts =
  so_id :: nat
  so_subcloud_id :: nat
  so_storage_apply_type :: string
  so_worker_apply_type :: string
  so_max_parallel_workers :: int
  so_alarm_restriction_type :: string
  so_default_instance_action :: string

record strategy_step =
  sp_id :: nat
  sp_subcloud_id :: "nat option"
  sp_stage :: nat
  sp_state :: step_state
  sp_details :: string
  sp_started_at :: "int option"
  sp_finished_at :: "int option"

record subcloud_alarm_summary =
  al_id :: nat
  al_uuid :: string
  al_name :: string
  al_critical_alarms :: int
  al_major_alarms :: int
  al_minor_alarms :: int
  al_warnings :: int
  al_cloud_status :: string

section \<open>The database\<close>

record db =
  subclouds :: "subcloud table"
  subcloud_audits_t :: "subcloud_audits table"
  subcloud_status_t :: "subcloud_status table"
  sw_update_strategies :: "sw_update_strategy table"
  sw_update_opts_t :: "sw_update_opts table"
  sw_update_opts_default_t :: "sw_update_opts table"
  strategy_steps :: "strategy_step table"
  subcloud_groups :: "subcloud_group table"
  subcloud_alarms_t :: "subcloud_alarm_summary table"

definition subcloud_ids :: "db \<Rightarrow> nat set" where
  "subcloud_ids d = sc_id ` set (rows (subclouds d))"

definition group_ids :: "db \<Rightarrow> nat set" where
  "group_ids d = g_id ` set (rows (subcloud_groups d))"

text \<open>The subcloud ids of the steps, in the order of the steps.\<close>

definition step_subcloud_ids :: "strategy_step list \<Rightarrow> nat list" where
  "step_subcloud_ids ss = List.map_filter sp_subcloud_id ss"

definition keys_wf :: "db \<Rightarrow> bool" where
  "keys_wf d \<longleftrightarrow>
     table_wf sc_id (subclouds d) \<and> table_wf sa_id (subcloud_audits_t d) \<and>
     table_wf ss_id (subcloud_status_t d) \<and> table_wf st_id (sw_update_strategies d) \<and>
     table_wf so_id (sw_update_opts_t d) \<and> table_wf so_id (sw_update_opts_default_t d) \<and>
     table_wf sp_id (strategy_steps d) \<and> table_wf g_id (subcloud_groups d) \<and>
     table_wf al_id (subcloud_alarms_t d)"

definition unique_wf :: "db \<Rightarrow> bool" where
  "unique_wf d \<longleftrightarrow>
     distinct (map sc_name (rows (subclouds d))) \<and>
     distinct (map sa_subcloud_id (rows (subcloud_audits_t d))) \<and>
     distinct (map st_type (rows (sw_update_strategies d))) \<and>
     distinct (step_subcloud_ids (rows (strategy_steps d))) \<and>
     distinct (map g_name (rows (subcloud_groups d)))"

definition refs_wf :: "db \<Rightarrow> bool" where
  "refs_wf d \<longleftrightarrow>
     sa_subcloud_id ` set (rows (subcloud_audits_t d)) \<subseteq> subcloud_ids d \<and>
     ss_subcloud_id ` set (rows (subcloud_status_t d)) \<subseteq> subcloud_ids d \<and>
     so_subcloud_id ` set (rows (sw_update_opts_t d)) \<subseteq> subcloud_ids d \<and>
     set (step_subcloud_ids (rows (strategy_steps d))) \<subseteq> subcloud_ids d \<and>
     set (List.map_filter sc_group_id (rows (subclouds d))) \<subseteq> group_ids d"

definition db_wf :: "db \<Rightarrow> bool" where
  "db_wf d \<longleftrightarrow> keys_wf d \<and> unique_wf d \<and> refs_wf d"

lemmas db_wf_defs = db_wf_def keys_wf_def unique_wf_def refs_wf_def subcloud_ids_def group_ids_def

definition empty_db :: db where
  "empty_db = \<lparr>subclouds = empty_table, subcloud_audits_t = empty_table,
     subcloud_status_t = empty_table, sw_update_strategies = empty_table,
     sw_update_opts_t = empty_table, sw_update_opts_default_t = empty_table,
     strategy_steps = empty_table, subcloud_groups = empty_table,
     subcloud_alarms_t = empty_table\<rparr>"

lemma step_subcloud_ids_simps [simp]:
  "step_subcloud_ids [] = []"
  "step_subcloud_ids (s # ss) =
     (case sp_subcloud_id s of None \<Rightarrow> step_subcloud_ids ss | Some i \<Rightarrow> i # step_subcloud_ids ss)"
  "step_subcloud_ids (xs @ ys) = step_subcloud_ids xs @ step_subcloud_ids ys"
  by (simp_all add: step_subcloud_ids_def map_filter_def split: option.splits)

lemma set_step_subcloud_ids: "set (step_subcloud_ids ss) = {i. \<exists>s \<in> set ss. sp_subcloud_id s = Some i}"
  by (induction ss) (auto split: option.splits)

lemma step_subcloud_ids_map:
  "(\<And>s. sp_subcloud_id (f s) = sp_subcloud_id s) \<Longrightarrow> step_subcloud_ids (map f ss) = step_subcloud_ids ss"
  by (induction ss) (auto split: option.splits)

lemma distinct_step_subcloud_ids_filter:
  "distinct (step_subcloud_ids ss) \<Longrightarrow> distinct (step_subcloud_ids (filter p ss))"
  by (induction ss) (auto split: option.splits simp: set_step_subcloud_ids)

lemma empty_db_wf: "db_wf empty_db"
  by (simp add: db_wf_defs empty_db_def map_filter_def)

subsection \<open>Replacing one table keeps the schema\<close>

lemma db_wf_set_status:
  assumes "db_wf d" and "table_wf ss_id t" and "ss_subcloud_id ` set (rows t) \<subseteq> subcloud_ids d"
  shows "db_wf (d\<lparr>subcloud_status_t := t\<rparr>)"
  using assms by (simp add: db_wf_defs)

lemma db_wf_set_audits:
  assumes "db_wf d" and "table_wf sa_id t" and "sa_subcloud_id ` set (rows t) \<subseteq> subcloud_ids d"
    and "distinct (map sa_subcloud_id (rows t))"
  shows "db_wf (d\<lparr>subcloud_audits_t := t\<rparr>)"
  using assms by (simp add: db_wf_defs)

lemma db_wf_set_strategies:
  assumes "db_wf d" and "table_wf st_id t" and "distinct (map st_type (rows t))"
  shows "db_wf (d\<lparr>sw_update_strategies := t\<rparr>)"
  using assms by (simp add: db_wf_defs)

lemma db_wf_set_opts:
  assumes "db_wf d" and "table_wf so_id t" and "so_subcloud_id ` set (rows t) \<subseteq> subcloud_ids d"
  shows "db_wf (d\<lparr>sw_update_opts_t := t\<rparr>)"
  using assms by (simp add: db_wf_defs)

lemma db_wf_set_opts_default:
  assumes "db_wf d" and "table_wf so_id t"
  shows "db_wf (d\<lparr>sw_update_opts_default_t := t\<rparr>)"
  using assms by (simp add: db_wf_defs)

lemma db_wf_set_steps:
  assumes "db_wf d" and "table_wf sp_id t" and "distinct (step_subcloud_ids (rows t))"
    and "set (step_subcloud_ids (rows t)) \<subseteq> subcloud_ids d"
  shows "db_wf (d\<lparr>strategy_steps := t\<rparr>)"
  using assms by (simp add: db_wf_defs)

lemma db_wf_set_alarms:
  assumes "db_wf d" and "table_wf al_id t"
  shows "db_wf (d\<lparr>subcloud_alarms_t := t\<rparr>)"
  using assms by (simp add: db_wf_defs)

lemma db_wf_set_groups:
  assumes "db_wf d" and "table_wf g_id t" and "distinct (map g_name (rows t))"
    and "set (List.map_filter sc_group_id (rows (subclouds d))) \<subseteq> g_id ` set (rows t)"
  shows "db_wf (d\<lparr>subcloud_groups := t\<rparr>)"
  using assms by (simp add: db_wf_defs)

text \<open>Subclouds rewritten row by row, their ids and names kept.\<close>

lemma set_map_filter_map_rows:
  "set (List.map_filter g (map f rs)) = {y. \<exists>r \<in> set rs. g (f r) = Some y}"
  by (induction rs) (auto simp: map_filter_def split: option.splits)

lemma db_wf_map_subclouds:
  assumes "db_wf d" and "\<And>r. sc_id (f r) = sc_id r" and "\<And>r. sc_name (f r) = sc_name r"
    and "\<And>r g. r \<in> set (rows (subclouds d)) \<Longrightarrow> sc_group_id (f r) = Some g \<Longrightarrow> g \<in> group_ids d"
  shows "db_wf (d\<lparr>subclouds := map_rows f (subclouds d)\<rparr>)"
proof -
  have ids: "sc_id ` f ` X = sc_id ` X" for X by (auto simp: image_iff assms(2))
  have names: "map (sc_name \<circ> f) xs = map sc_name xs" for xs by (simp add: assms(3))
  have "table_wf sc_id (map_rows f (subclouds d))"
    using assms(1,2) by (intro table_wf_map) (auto simp: db_wf_defs)
  moreover have "set (List.map_filter sc_group_id (map f (rows (subclouds d)))) \<subseteq> group_ids d"
    using assms(4) by (auto simp: set_map_filter_map_rows)
  ultimately show ?thesis
    using assms(1) by (simp add: db_wf_defs ids names)
qed

end
