(* ===== verification/DC_DB_Subclouds.thy ===== *)
theory DC_DB_Subclouds
  imports DC_Models "HOL-Library.Option_ord"
begin

text \<open>
  \<open>dcmanager/db/sqlalchemy/api.py\<close>, first half: the request context and its two decorators,
  and the operations on subclouds, their audit records and their endpoint statuses. Each
  operation is a computation over the database; \<open>with write_session()\<close> is a transaction. A
  violated unique column or foreign key raises. \<open>filter_by(deleted=0)\<close> is the table itself.
\<close>

section \<open>Contexts\<close>

record request_context =
  rc_is_admin :: bool
  rc_user :: "string option"
  rc_project :: "string option"

definition admin_context :: "request_context option" where
  "admin_context = Some \<lparr>rc_is_admin = True, rc_user = None, rc_project = None\<rparr>"

definition is_admin_context :: "request_context option \<Rightarrow> ('s, bool) io" where
  "is_admin_context ctx =
     (case ctx of None \<Rightarrow> raise (PyException ''die'') | Some c \<Rightarrow> ret (rc_is_admin c))"

definition is_user_context :: "request_context option \<Rightarrow> bool" where
  "is_user_context ctx =
     (case ctx of None \<Rightarrow> False
      | Some c \<Rightarrow> \<not> rc_is_admin c \<and> truthy_str (rc_user c) \<and> truthy_str (rc_project c))"

definition require_admin_context :: "request_context option \<Rightarrow> ('s, 'a) io \<Rightarrow> ('s, 'a) io" where
  "require_admin_context ctx f =
     bnd (is_admin_context ctx) (\<lambda>adm. if \<not> adm then raise AdminRequired else f)"

definition require_context :: "request_context option \<Rightarrow> ('s, 'a) io \<Rightarrow> ('s, 'a) io" where
  "require_context ctx f =
     bnd (is_admin_context ctx)
       (\<lambda>adm. if \<not> adm \<and> \<not> is_user_context ctx then raise NotAuthorized else f)"

lemma require_admin_simp [simp]: "require_admin_context admin_context f = f"
  by (simp add: require_admin_context_def is_admin_context_def admin_context_def)

lemma require_context_simp [simp]: "require_context admin_context f = f"
  by (simp add: require_context_def is_admin_context_def admin_context_def)

lemma keeps_is_admin [keeps_intros]: "keeps I (is_admin_context ctx)"
  by (auto simp: is_admin_context_def split: option.splits intro!: keeps_intros)

lemma keeps_require_admin [keeps_intros]: "keeps I f \<Longrightarrow> keeps I (require_admin_context ctx f)"
  by (auto simp: require_admin_context_def intro!: keeps_intros)

lemma keeps_require_context [keeps_intros]: "keeps I f \<Longrightarrow> keeps I (require_context ctx f)"
  by (auto simp: require_context_def intro!: keeps_intros)

text \<open>\<open>first()\<close> followed by the raise when there is no row.\<close>

definition first_or :: "(db \<Rightarrow> 'r option) \<Rightarrow> exn \<Rightarrow> (db, 'r) io" where
  "first_or q e = bnd (gets q) (\<lambda>r. case r of None \<Rightarrow> raise e | Some x \<Rightarrow> ret x)"

definition lift_result :: "(db \<Rightarrow> exn + 'r) \<Rightarrow> (db, 'r) io" where
  "lift_result q = bnd (gets q) (\<lambda>r. case r of Inl e \<Rightarrow> raise e | Inr x \<Rightarrow> ret x)"

lemma first_or_apply:
  "first_or q e d = (case q d of None \<Rightarrow> (Inl e, d) | Some x \<Rightarrow> (Inr x, d))"
  by (simp add: first_or_def bnd_apply split: option.splits)

lemma keeps_first_or [keeps_intros]: "keeps I (first_or q e)"
  by (auto simp: first_or_def intro!: keeps_intros)

lemma keeps_lift_result [keeps_intros]: "keeps I (lift_result q)"
  by (auto simp: lift_result_def intro!: keeps_intros split: sum.splits)

section \<open>Audit records\<close>

definition subcloud_audits_get ::
  "request_context option \<Rightarrow> nat \<Rightarrow> (db, subcloud_audits) io" where
  "subcloud_audits_get ctx subcloud_id = require_context ctx
     (first_or (\<lambda>d. query_first (\<lambda>r. sa_subcloud_id r = subcloud_id) (subcloud_audits_t d))
        (SubcloudNotFound subcloud_id))"

definition subcloud_audits_get_all :: "request_context option \<Rightarrow> (db, subcloud_audits list) io" where
  "subcloud_audits_get_all ctx = require_context ctx
     (gets (\<lambda>d. query_all (\<lambda>_. True) (subcloud_audits_t d)))"

text \<open>The flags of a \<open>values\<close> dictionary; a missing key leaves the column alone.\<close>

record audit_values =
  av_state_update_requested :: "bool option"
  av_patch_audit_requested :: "bool option"
  av_load_audit_requested :: "bool option"
  av_firmware_audit_requested :: "bool option"
  av_kubernetes_audit_requested :: "bool option"
  av_kube_rootca_update_audit_requested :: "bool option"

definition no_audit_values :: audit_values where
  "no_audit_values = \<lparr>av_state_update_requested = None, av_patch_audit_requested = None,
     av_load_audit_requested = None, av_firmware_audit_requested = None,
     av_kubernetes_audit_requested = None, av_kube_rootca_update_audit_requested = None\<rparr>"

definition opt_upd :: "('a \<Rightarrow> 'r \<Rightarrow> 'r) \<Rightarrow> 'a option \<Rightarrow> 'r \<Rightarrow> 'r" where
  "opt_upd f v r = (case v of None \<Rightarrow> r | Some x \<Rightarrow> f x r)"

lemma opt_upd_simps [simp]: "opt_upd f None r = r" "opt_upd f (Some x) r = f x r"
  by (simp_all add: opt_upd_def)

lemma opt_upd_frame: "(\<And>x r. g (f x r) = g r) \<Longrightarrow> g (opt_upd f v r) = g r"
  by (simp add: opt_upd_def split: option.splits)

definition apply_audit_values :: "audit_values \<Rightarrow> subcloud_audits \<Rightarrow> subcloud_audits" where
  "apply_audit_values v =
     opt_upd (\<lambda>b r. r\<lparr>sa_state_update_requested := b\<rparr>) (av_state_update_requested v) \<circ>
     opt_upd (\<lambda>b r. r\<lparr>sa_patch_audit_requested := b\<rparr>) (av_patch_audit_requested v) \<circ>
     opt_upd (\<lambda>b r. r\<lparr>sa_load_audit_requested := b\<rparr>) (av_load_audit_requested v) \<circ>
     opt_upd (\<lambda>b r. r\<lparr>sa_firmware_audit_requested := b\<rparr>) (av_firmware_audit_requested v) \<circ>
     opt_upd (\<lambda>b r. r\<lparr>sa_kubernetes_audit_requested := b\<rparr>) (av_kubernetes_audit_requested v) \<circ>
     opt_upd (\<lambda>b r. r\<lparr>sa_kube_rootca_update_audit_requested := b\<rparr>)
       (av_kube_rootca_update_audit_requested v)"

text \<open>An \<open>UPDATE\<close> of the rows that match; its result is the number of rows matched.\<close>

definition update_audits_where ::
  "(subcloud_audits \<Rightarrow> bool) \<Rightarrow> (subcloud_audits \<Rightarrow> subcloud_audits) \<Rightarrow> (db, nat) io" where
  "update_audits_where p f =
     bnd (gets (\<lambda>d. length (query_all p (subcloud_audits_t d)))) (\<lambda>n.
     seq (modify (\<lambda>d. d\<lparr>subcloud_audits_t :=
            map_rows (\<lambda>r. if p r then f r else r) (subcloud_audits_t d)\<rparr>))
       (ret n))"

definition subcloud_audits_update_all ::
  "request_context option \<Rightarrow> audit_values \<Rightarrow> (db, nat) io" where
  "subcloud_audits_update_all ctx v = require_context ctx
     (write_session (update_audits_where (\<lambda>_. True) (apply_audit_values v)))"

definition datetime_min :: int where
  "datetime_min = 0"

definition subcloud_audits_create :: "request_context option \<Rightarrow> nat \<Rightarrow> (db, unit) io" where
  "subcloud_audits_create ctx subcloud_id = require_admin_context ctx
     (write_session
       (bnd (gets (\<lambda>d. (subcloud_id \<in> subcloud_ids d,
                        subcloud_id \<in> sa_subcloud_id ` set (rows (subcloud_audits_t d)))))
          (\<lambda>(known, dup).
             if \<not> known then raise DBReferenceError
             else if dup then raise DBDuplicateEntry
             else modify (\<lambda>d. d\<lparr>subcloud_audits_t := insert_row (\<lambda>i.
                 \<lparr>sa_id = i, sa_subcloud_id = subcloud_id,
                  sa_audit_started_at = datetime_min, sa_audit_finished_at = datetime_min,
                  sa_state_update_requested = False, sa_patch_audit_requested = False,
                  sa_load_audit_requested = False, sa_firmware_audit_requested = False,
                  sa_kubernetes_audit_requested = False,
                  sa_kube_rootca_update_audit_requested = False\<rparr>)
                 (subcloud_audits_t d)\<rparr>))))"

text \<open>Fetch a row, rewrite it, save it: the pattern of every single-row update.\<close>

definition save_audits ::
  "(subcloud_audits \<Rightarrow> subcloud_audits) \<Rightarrow> subcloud_audits \<Rightarrow> (db, subcloud_audits) io" where
  "save_audits f r =
     seq (modify (\<lambda>d. d\<lparr>subcloud_audits_t := update_row sa_id (sa_id r) f (subcloud_audits_t d)\<rparr>))
       (ret (f r))"

definition subcloud_audits_update ::
  "request_context option \<Rightarrow> nat \<Rightarrow> audit_values \<Rightarrow> (db, subcloud_audits) io" where
  "subcloud_audits_update ctx subcloud_id v = require_admin_context ctx
     (write_session
       (bnd (subcloud_audits_get ctx subcloud_id) (save_audits (apply_audit_values v))))"

definition need_audit :: "int \<Rightarrow> subcloud_audits \<Rightarrow> bool" where
  "need_audit last_audit_threshold r \<longleftrightarrow>
     sa_audit_started_at r \<le> sa_audit_finished_at r \<and>
     (sa_audit_finished_at r < last_audit_threshold \<or>
      sa_patch_audit_requested r \<or> sa_firmware_audit_requested r \<or>
      sa_load_audit_requested r \<or> sa_kube_rootca_update_audit_requested r \<or>
      sa_kubernetes_audit_requested r)"

definition subcloud_audits_get_all_need_audit ::
  "request_context option \<Rightarrow> int \<Rightarrow> (db, subcloud_audits list) io" where
  "subcloud_audits_get_all_need_audit ctx last_audit_threshold = require_context ctx
     (gets (\<lambda>d. query_all (need_audit last_audit_threshold) (subcloud_audits_t d)))"

definition subcloud_audits_get_and_start_audit ::
  "request_context option \<Rightarrow> int \<Rightarrow> nat \<Rightarrow> (db, subcloud_audits) io" where
  "subcloud_audits_get_and_start_audit ctx utcnow subcloud_id = require_context ctx
     (write_session
       (bnd (subcloud_audits_get ctx subcloud_id)
          (save_audits (\<lambda>r. r\<lparr>sa_audit_started_at := utcnow\<rparr>))))"

text \<open>The audits a worker reports as done, by the names it uses for them.\<close>

definition end_audit_row :: "int \<Rightarrow> string list \<Rightarrow> subcloud_audits \<Rightarrow> subcloud_audits" where
  "end_audit_row utcnow audits_done r =
     (let r = r\<lparr>sa_audit_finished_at := utcnow, sa_state_update_requested := False\<rparr>;
          r = (if ''patch'' \<in> set audits_done then r\<lparr>sa_patch_audit_requested := False\<rparr> else r);
          r = (if ''firmware'' \<in> set audits_done then r\<lparr>sa_firmware_audit_requested := False\<rparr> else r);
          r = (if ''load'' \<in> set audits_done then r\<lparr>sa_load_audit_requested := False\<rparr> else r);
          r = (if ''kube-rootca-update'' \<in> set audits_done
               then r\<lparr>sa_kube_rootca_update_audit_requested := False\<rparr> else r);
          r = (if ''kubernetes'' \<in> set audits_done
               then r\<lparr>sa_kubernetes_audit_requested := False\<rparr> else r)
      in r)"

definition subcloud_audits_end_audit ::
  "request_context option \<Rightarrow> int \<Rightarrow> nat \<Rightarrow> string list \<Rightarrow> (db, subcloud_audits) io" where
  "subcloud_audits_end_audit ctx utcnow subcloud_id audits_done = require_context ctx
     (write_session
       (bnd (subcloud_audits_get ctx subcloud_id) (save_audits (end_audit_row utcnow audits_done))))"

definition expired_audit :: "int \<Rightarrow> subcloud_audits \<Rightarrow> bool" where
  "expired_audit last_audit_threshold r \<longleftrightarrow>
     sa_audit_finished_at r < last_audit_threshold \<and>
     sa_audit_started_at r > sa_audit_finished_at r"

definition fix_expired_row :: "bool \<Rightarrow> subcloud_audits \<Rightarrow> subcloud_audits" where
  "fix_expired_row trigger_audits r =
     (let r = r\<lparr>sa_audit_finished_at := sa_audit_started_at r\<rparr>
      in if trigger_audits
         then r\<lparr>sa_patch_audit_requested := True, sa_firmware_audit_requested := True,
                sa_load_audit_requested := True, sa_kubernetes_audit_requested := True,
                sa_kube_rootca_update_audit_requested := True\<rparr>
         else r)"

definition subcloud_audits_fix_expired_audits ::
  "request_context option \<Rightarrow> int \<Rightarrow> bool \<Rightarrow> (db, nat) io" where
  "subcloud_audits_fix_expired_audits ctx last_audit_threshold trigger_audits = require_context ctx
     (write_session
       (update_audits_where (expired_audit last_audit_threshold) (fix_expired_row trigger_audits)))"

section \<open>Subclouds\<close>

definition subcloud_get :: "request_context option \<Rightarrow> nat \<Rightarrow> (db, subcloud) io" where
  "subcloud_get ctx subcloud_id = require_context ctx
     (first_or (\<lambda>d. query_first (\<lambda>r. sc_id r = subcloud_id) (subclouds d))
        (SubcloudNotFound subcloud_id))"

text \<open>The outer join of subclouds and statuses: a subcloud with no status row is paired with
  None. (\<open>not models.SubcloudStatus.subcloud_id\<close> is the Python constant False.)\<close>

definition outer_join_status :: "db \<Rightarrow> subcloud \<Rightarrow> (subcloud \<times> subcloud_status option) list" where
  "outer_join_status d s =
     (case query_all (\<lambda>r. ss_subcloud_id r = sc_id s) (subcloud_status_t d) of
        [] \<Rightarrow> [(s, None)]
      | sts \<Rightarrow> map (\<lambda>r. (s, Some r)) sts)"

definition subcloud_get_with_status ::
  "request_context option \<Rightarrow> nat \<Rightarrow> (db, (subcloud \<times> subcloud_status option) list) io" where
  "subcloud_get_with_status ctx subcloud_id = require_context ctx
     (bnd (gets (\<lambda>d. concat (map
                 (\<lambda>s. sort_key (map_option ss_endpoint_type \<circ> snd) (outer_join_status d s))
                 (query_all (\<lambda>r. sc_id r = subcloud_id) (subclouds d)))))
        (\<lambda>res. if res = [] then raise (SubcloudNotFound subcloud_id) else ret res))"

definition subcloud_get_by_name :: "request_context option \<Rightarrow> string \<Rightarrow> (db, subcloud) io" where
  "subcloud_get_by_name ctx name = require_context ctx
     (first_or (\<lambda>d. query_first (\<lambda>r. sc_name r = name) (subclouds d)) (SubcloudNameNotFound name))"

definition subcloud_get_all :: "request_context option \<Rightarrow> (db, subcloud list) io" where
  "subcloud_get_all ctx = require_context ctx (gets (\<lambda>d. query_all (\<lambda>_. True) (subclouds d)))"

definition subcloud_get_all_with_status ::
  "request_context option \<Rightarrow> (db, (subcloud \<times> subcloud_status option) list) io" where
  "subcloud_get_all_with_status ctx = require_context ctx
     (gets (\<lambda>d. concat (map (outer_join_status d) (sort_key sc_id (rows (subclouds d))))))"

text \<open>The columns of a new subcloud, and those an update can change; None leaves a column.\<close>

record subcloud_values =
  sv_management_state :: "management option"
  sv_availability_status :: "availability option"
  sv_software_version :: "string option"
  sv_description :: "string option"
  sv_management_subnet :: "string option"
  sv_management_gateway_ip :: "string option"
  sv_management_start_ip :: "string option"
  sv_management_end_ip :: "string option"
  sv_location :: "string option"
  sv_audit_fail_count :: "nat option"
  sv_deploy_status :: "deploy_state option"
  sv_backup_status :: "backup_state option"
  sv_backup_datetime :: "int option"
  sv_error_description :: "string option"
  sv_openstack_installed :: "bool option"
  sv_group_id :: "nat option"
  sv_data_install :: "string option"
  sv_data_upgrade :: "string option"

definition no_values :: subcloud_values where
  "no_values = \<lparr>sv_management_state = None, sv_availability_status = None,
     sv_software_version = None, sv_description = None, sv_management_subnet = None,
     sv_management_gateway_ip = None, sv_management_start_ip = None,
     sv_management_end_ip = None, sv_location = None, sv_audit_fail_count = None,
     sv_deploy_status = None, sv_backup_status = None, sv_backup_datetime = None,
     sv_error_description = None, sv_openstack_installed = None, sv_group_id = None,
     sv_data_install = None, sv_data_upgrade = None\<rparr>"

definition apply_subcloud_values :: "subcloud_values \<Rightarrow> subcloud \<Rightarrow> subcloud" where
  "apply_subcloud_values v r = r\<lparr>
     sc_management_state := (case sv_management_state v of None \<Rightarrow> sc_management_state r | Some x \<Rightarrow> x),
     sc_availability_status :=
       (case sv_availability_status v of None \<Rightarrow> sc_availability_status r | Some x \<Rightarrow> x),
     sc_software_version := (case sv_software_version v of None \<Rightarrow> sc_software_version r | Some x \<Rightarrow> x),
     sc_description := (case sv_description v of None \<Rightarrow> sc_description r | Some x \<Rightarrow> x),
     sc_management_subnet := (case sv_management_subnet v of None \<Rightarrow> sc_management_subnet r | Some x \<Rightarrow> x),
     sc_management_gateway_ip :=
       (case sv_management_gateway_ip v of None \<Rightarrow> sc_management_gateway_ip r | Some x \<Rightarrow> x),
     sc_management_start_ip :=
       (case sv_management_start_ip v of None \<Rightarrow> sc_management_start_ip r | Some x \<Rightarrow> x),
     sc_management_end_ip := (case sv_management_end_ip v of None \<Rightarrow> sc_management_end_ip r | Some x \<Rightarrow> x),
     sc_location := (case sv_location v of None \<Rightarrow> sc_location r | Some x \<Rightarrow> x),
     sc_audit_fail_count := (case sv_audit_fail_count v of None \<Rightarrow> sc_audit_fail_count r | Some x \<Rightarrow> x),
     sc_data_install := (case sv_data_install v of None \<Rightarrow> sc_data_install r | Some x \<Rightarrow> Some x),
     sc_deploy_status := (case sv_deploy_status v of None \<Rightarrow> sc_deploy_status r | Some x \<Rightarrow> x),
     sc_backup_status := (case sv_backup_status v of None \<Rightarrow> sc_backup_status r | Some x \<Rightarrow> Some x),
     sc_backup_datetime := (case sv_backup_datetime v of None \<Rightarrow> sc_backup_datetime r | Some x \<Rightarrow> Some x),
     sc_error_description := (case sv_error_description v of None \<Rightarrow> sc_error_description r | Some x \<Rightarrow> x),
     sc_data_upgrade := (case sv_data_upgrade v of None \<Rightarrow> sc_data_upgrade r | Some x \<Rightarrow> Some x),
     sc_openstack_installed :=
       (case sv_openstack_installed v of None \<Rightarrow> sc_openstack_installed r | Some x \<Rightarrow> x),
     sc_group_id := (case sv_group_id v of None \<Rightarrow> sc_group_id r | Some x \<Rightarrow> Some x)\<rparr>"

definition group_known :: "nat option \<Rightarrow> db \<Rightarrow> bool" where
  "group_known g d = (case g of None \<Rightarrow> True | Some i \<Rightarrow> i \<in> group_ids d)"

text \<open>The rows the update form applies to, once the foreign key of the new group is checked.\<close>

definition update_subclouds_where ::
  "(subcloud \<Rightarrow> bool) \<Rightarrow> subcloud_values \<Rightarrow> (db, unit) io" where
  "update_subclouds_where p v =
     bnd (gets (group_known (sv_group_id v))) (\<lambda>ok.
       if \<not> ok then raise DBReferenceError
       else modify (\<lambda>d. d\<lparr>subclouds :=
              map_rows (\<lambda>r. if p r then apply_subcloud_values v r else r) (subclouds d)\<rparr>))"

definition subcloud_update ::
  "request_context option \<Rightarrow> nat \<Rightarrow> subcloud_values \<Rightarrow> (db, subcloud) io" where
  "subcloud_update ctx subcloud_id v = require_admin_context ctx
     (write_session
       (bnd (subcloud_get ctx subcloud_id) (\<lambda>r.
          seq (update_subclouds_where (\<lambda>q. sc_id q = sc_id r) v)
            (ret (apply_subcloud_values v r)))))"

definition subcloud_bulk_update_by_ids ::
  "request_context option \<Rightarrow> nat list \<Rightarrow> subcloud_values \<Rightarrow> (db, unit) io" where
  "subcloud_bulk_update_by_ids ctx ids v = require_admin_context ctx
     (write_session (update_subclouds_where (\<lambda>q. sc_id q \<in> set ids) v))"

section \<open>Endpoint statuses\<close>

definition status_matches :: "nat \<Rightarrow> endpoint_type \<Rightarrow> subcloud_status \<Rightarrow> bool" where
  "status_matches subcloud_id e r \<longleftrightarrow> ss_subcloud_id r = subcloud_id \<and> ss_endpoint_type r = e"

definition subcloud_status_get ::
  "request_context option \<Rightarrow> nat \<Rightarrow> endpoint_type \<Rightarrow> (db, subcloud_status) io" where
  "subcloud_status_get ctx subcloud_id e = require_context ctx
     (first_or (\<lambda>d. query_first (status_matches subcloud_id e) (subcloud_status_t d))
        (SubcloudStatusNotFound subcloud_id (endpoint_type_str e)))"

definition subcloud_status_get_all ::
  "request_context option \<Rightarrow> nat \<Rightarrow> (db, subcloud_status list) io" where
  "subcloud_status_get_all ctx subcloud_id = require_context ctx
     (gets (\<lambda>d. if subcloud_id \<in> subcloud_ids d
                then query_all (\<lambda>r. ss_subcloud_id r = subcloud_id) (subcloud_status_t d) else []))"

definition subcloud_status_get_all_by_name ::
  "request_context option \<Rightarrow> string \<Rightarrow> (db, subcloud_status list) io" where
  "subcloud_status_get_all_by_name ctx name = require_context ctx
     (gets (\<lambda>d. query_all
        (\<lambda>r. \<exists>s \<in> set (rows (subclouds d)). sc_id s = ss_subcloud_id r \<and> sc_name s = name)
        (subcloud_status_t d)))"

definition add_status :: "nat \<Rightarrow> endpoint_type \<Rightarrow> (db, unit) io" where
  "add_status subcloud_id e =
     bnd (gets (\<lambda>d. subcloud_id \<in> subcloud_ids d)) (\<lambda>known.
       if \<not> known then raise DBReferenceError
       else modify (\<lambda>d. d\<lparr>subcloud_status_t := insert_row
              (\<lambda>i. \<lparr>ss_id = i, ss_subcloud_id = subcloud_id, ss_endpoint_type = e,
                    ss_sync_status = SYNC_STATUS_UNKNOWN\<rparr>) (subcloud_status_t d)\<rparr>))"

definition subcloud_status_create ::
  "request_context option \<Rightarrow> nat \<Rightarrow> endpoint_type \<Rightarrow> (db, unit) io" where
  "subcloud_status_create ctx subcloud_id e = require_admin_context ctx
     (write_session (add_status subcloud_id e))"

definition subcloud_status_create_all :: "request_context option \<Rightarrow> nat \<Rightarrow> (db, unit) io" where
  "subcloud_status_create_all ctx subcloud_id = require_admin_context ctx
     (write_session (for_each (add_status subcloud_id) ENDPOINT_TYPES_LIST))"

definition subcloud_status_delete ::
  "request_context option \<Rightarrow> nat \<Rightarrow> endpoint_type \<Rightarrow> (db, unit) io" where
  "subcloud_status_delete ctx subcloud_id e = require_admin_context ctx
     (write_session
       (bnd (subcloud_status_get ctx subcloud_id e) (\<lambda>r.
          modify (\<lambda>d. d\<lparr>subcloud_status_t := delete_row ss_id (ss_id r) (subcloud_status_t d)\<rparr>))))"

definition subcloud_status_update ::
  "request_context option \<Rightarrow> nat \<Rightarrow> endpoint_type \<Rightarrow> sync_status \<Rightarrow> (db, subcloud_status) io" where
  "subcloud_status_update ctx subcloud_id e sync = require_admin_context ctx
     (write_session
       (bnd (subcloud_status_get ctx subcloud_id e) (\<lambda>r.
          seq (modify (\<lambda>d. d\<lparr>subcloud_status_t :=
                 update_row ss_id (ss_id r) (\<lambda>r. r\<lparr>ss_sync_status := sync\<rparr>) (subcloud_status_t d)\<rparr>))
            (ret (r\<lparr>ss_sync_status := sync\<rparr>)))))"

text \<open>The raise for no matched row comes after the session, with nothing written.\<close>

definition subcloud_status_update_endpoints ::
  "request_context option \<Rightarrow> nat \<Rightarrow> endpoint_type list \<Rightarrow> sync_status \<Rightarrow> (db, nat) io" where
  "subcloud_status_update_endpoints ctx subcloud_id es sync = require_admin_context ctx
     (let p = (\<lambda>r. ss_subcloud_id r = subcloud_id \<and> ss_endpoint_type r \<in> set es) in
      bnd (write_session
        (bnd (gets (\<lambda>d. length (query_all p (subcloud_status_t d)))) (\<lambda>n.
         seq (modify (\<lambda>d. d\<lparr>subcloud_status_t :=
                map_rows (\<lambda>r. if p r then r\<lparr>ss_sync_status := sync\<rparr> else r) (subcloud_status_t d)\<rparr>))
           (ret n))))
        (\<lambda>n. if n = 0 then raise (SubcloudStatusNotFound subcloud_id ''any'') else ret n))"

definition subcloud_status_destroy_all :: "request_context option \<Rightarrow> nat \<Rightarrow> (db, unit) io" where
  "subcloud_status_destroy_all ctx subcloud_id = require_admin_context ctx
     (write_session
       (bnd (subcloud_status_get_all ctx subcloud_id) (\<lambda>rs.
          if rs = [] then raise (SubcloudStatusNotFound subcloud_id ''any'')
          else for_each (\<lambda>r. modify (\<lambda>d. d\<lparr>subcloud_status_t :=
                 delete_row ss_id (ss_id r) (subcloud_status_t d)\<rparr>)) rs)))"

section \<open>Creating and destroying a subcloud\<close>

text \<open>A new subcloud is unmanaged and offline, with every endpoint unknown.\<close>

record new_subcloud =
  ns_name :: string
  ns_description :: string
  ns_location :: string
  ns_software_version :: string
  ns_management_subnet :: string
  ns_management_gateway_ip :: string
  ns_management_start_ip :: string
  ns_management_end_ip :: string
  ns_systemcontroller_gateway_ip :: string
  ns_deploy_status :: deploy_state
  ns_error_description :: string
  ns_openstack_installed :: bool
  ns_group_id :: nat
  ns_data_install :: "string option"

definition new_subcloud_row :: "new_subcloud \<Rightarrow> nat \<Rightarrow> subcloud" where
  "new_subcloud_row n i =
     \<lparr>sc_id = i, sc_name = ns_name n, sc_description = ns_description n,
      sc_location = ns_location n, sc_software_version = ns_software_version n,
      sc_management_state = MANAGEMENT_UNMANAGED,
      sc_availability_status = AVAILABILITY_OFFLINE,
      sc_data_install = ns_data_install n, sc_deploy_status = ns_deploy_status n,
      sc_backup_status = None, sc_backup_datetime = None,
      sc_error_description = ns_error_description n, sc_data_upgrade = None,
      sc_management_subnet = ns_management_subnet n,
      sc_management_gateway_ip = ns_management_gateway_ip n,
      sc_management_start_ip = ns_management_start_ip n,
      sc_management_end_ip = ns_management_end_ip n,
      sc_openstack_installed = ns_openstack_installed n,
      sc_systemcontroller_gateway_ip = ns_systemcontroller_gateway_ip n,
      sc_audit_fail_count = 0, sc_group_id = Some (ns_group_id n)\<rparr>"

definition subcloud_create ::
  "request_context option \<Rightarrow> new_subcloud \<Rightarrow> (db, subcloud) io" where
  "subcloud_create ctx n = require_admin_context ctx
     (write_session
       (bnd (gets (\<lambda>d. (ns_name n \<in> sc_name ` set (rows (subclouds d)),
                        ns_group_id n \<in> group_ids d, next_id (subclouds d))))
          (\<lambda>(dup, known, i).
             if dup then raise DBDuplicateEntry
             else if \<not> known then raise DBReferenceError
             else seq (modify (\<lambda>d. d\<lparr>subclouds := insert_row (new_subcloud_row n) (subclouds d)\<rparr>))
                  (seq (subcloud_status_create_all ctx i)
                  (seq (subcloud_audits_create ctx i)
                       (ret (new_subcloud_row n i)))))))"

text \<open>Deleting a subcloud deletes the rows that refer to it (\<open>ON DELETE CASCADE\<close>).\<close>

definition subcloud_destroy :: "request_context option \<Rightarrow> nat \<Rightarrow> (db, unit) io" where
  "subcloud_destroy ctx subcloud_id = require_admin_context ctx
     (write_session
       (bnd (subcloud_get ctx subcloud_id) (\<lambda>r. modify (\<lambda>d. d\<lparr>
          subclouds := delete_row sc_id (sc_id r) (subclouds d),
          subcloud_audits_t := delete_row sa_subcloud_id (sc_id r) (subcloud_audits_t d),
          subcloud_status_t := delete_row ss_subcloud_id (sc_id r) (subcloud_status_t d),
          sw_update_opts_t := delete_row so_subcloud_id (sc_id r) (sw_update_opts_t d),
          strategy_steps := filter_rows (\<lambda>s. sp_subcloud_id s \<noteq> Some (sc_id r)) (strategy_steps d)\<rparr>))))"

end
