(* ===== verification/DC_DB_Strategy.thy ===== *)
theory DC_DB_Strategy
  imports DC_DB_Subclouds
begin

text \<open>
  \<open>dcmanager/db/sqlalchemy/api.py\<close>, second half: the software update strategy and its steps, the
  software update options, the subcloud groups and the alarm summaries. A step is returned with
  the subcloud it refers to, as the joined load of the relationship \<open>strategy_step.subcloud\<close>.
\<close>

section \<open>Strategies\<close>

definition strategy_matches :: "sw_type option \<Rightarrow> sw_update_strategy \<Rightarrow> bool" where
  "strategy_matches update_type r \<longleftrightarrow>
     (case update_type of None \<Rightarrow> True | Some t \<Rightarrow> st_type r = t)"

definition sw_update_strategy_get ::
  "request_context option \<Rightarrow> sw_type option \<Rightarrow> (db, sw_update_strategy) io" where
  "sw_update_strategy_get ctx update_type = require_context ctx
     (first_or (\<lambda>d. query_first (strategy_matches update_type) (sw_update_strategies d)) NotFound)"

definition sw_update_strategy_create ::
  "request_context option \<Rightarrow> sw_type \<Rightarrow> string option \<Rightarrow> int option \<Rightarrow> bool \<Rightarrow> sw_state \<Rightarrow>
   extra_args option \<Rightarrow> (db, sw_update_strategy) io" where
  "sw_update_strategy_create ctx type subcloud_apply_type max_parallel stop_on_failure state extra =
     require_admin_context ctx
       (write_session
         (bnd (gets (\<lambda>d. (type \<in> st_type ` set (rows (sw_update_strategies d)),
                          next_id (sw_update_strategies d)))) (\<lambda>(dup, i).
            let mk = (\<lambda>i. \<lparr>st_id = i, st_type = type, st_subcloud_apply_type = subcloud_apply_type,
                       st_max_parallel_subclouds = max_parallel,
                       st_stop_on_failure = stop_on_failure, st_state = state,
                       st_extra_args = extra\<rparr>)
            in if dup then raise DBDuplicateEntry
               else seq (modify (\<lambda>d. d\<lparr>sw_update_strategies :=
                          insert_row mk (sw_update_strategies d)\<rparr>))
                    (ret (mk i)))))"

definition strategy_values ::
  "sw_state option \<Rightarrow> extra_args option \<Rightarrow> sw_update_strategy \<Rightarrow> sw_update_strategy" where
  "strategy_values state additional_args r =
     (let r = (case state of None \<Rightarrow> r | Some s \<Rightarrow> r\<lparr>st_state := s\<rparr>)
      in case additional_args of None \<Rightarrow> r
         | Some a \<Rightarrow> (case st_extra_args r of
              None \<Rightarrow> r\<lparr>st_extra_args := Some a\<rparr>
            | Some old \<Rightarrow> r\<lparr>st_extra_args := Some (old ++ a)\<rparr>))"

definition sw_update_strategy_update ::
  "request_context option \<Rightarrow> sw_state option \<Rightarrow> sw_type option \<Rightarrow> extra_args option \<Rightarrow>
   (db, sw_update_strategy) io" where
  "sw_update_strategy_update ctx state update_type additional_args = require_admin_context ctx
     (write_session
       (bnd (sw_update_strategy_get ctx update_type) (\<lambda>r.
          seq (modify (\<lambda>d. d\<lparr>sw_update_strategies :=
                 update_row st_id (st_id r) (strategy_values state additional_args)
                   (sw_update_strategies d)\<rparr>))
            (ret (strategy_values state additional_args r)))))"

definition sw_update_strategy_destroy ::
  "request_context option \<Rightarrow> sw_type option \<Rightarrow> (db, unit) io" where
  "sw_update_strategy_destroy ctx update_type = require_admin_context ctx
     (write_session
       (bnd (sw_update_strategy_get ctx update_type) (\<lambda>r.
          modify (\<lambda>d. d\<lparr>sw_update_strategies :=
            delete_row st_id (st_id r) (sw_update_strategies d)\<rparr>))))"

section \<open>Update options\<close>

definition sw_update_opts_get ::
  "request_context option \<Rightarrow> nat \<Rightarrow> (db, sw_update_opts option) io" where
  "sw_update_opts_get ctx subcloud_id = require_context ctx
     (gets (\<lambda>d. query_first (\<lambda>r. so_subcloud_id r = subcloud_id) (sw_update_opts_t d)))"

definition sw_update_opts_get_all_plus_subcloud_info ::
  "request_context option \<Rightarrow> (db, (subcloud \<times> sw_update_opts option) list) io" where
  "sw_update_opts_get_all_plus_subcloud_info ctx = require_context ctx
     (gets (\<lambda>d. concat (map
        (\<lambda>s. case query_all (\<lambda>r. so_subcloud_id r = sc_id s) (sw_update_opts_t d) of
               [] \<Rightarrow> [(s, None)] | os \<Rightarrow> map (\<lambda>r. (s, Some r)) os)
        (sort_key sc_id (rows (subclouds d))))))"

record opts_values =
  ov_storage_apply_type :: "string option"
  ov_worker_apply_type :: "string option"
  ov_max_parallel_workers :: "int option"
  ov_alarm_restriction_type :: "string option"
  ov_default_instance_action :: "string option"

definition apply_opts_values :: "opts_values \<Rightarrow> sw_update_opts \<Rightarrow> sw_update_opts" where
  "apply_opts_values v r = r\<lparr>
     so_storage_apply_type :=
       (case ov_storage_apply_type v of None \<Rightarrow> so_storage_apply_type r | Some x \<Rightarrow> x),
     so_worker_apply_type :=
       (case ov_worker_apply_type v of None \<Rightarrow> so_worker_apply_type r | Some x \<Rightarrow> x),
     so_max_parallel_workers :=
       (case ov_max_parallel_workers v of None \<Rightarrow> so_max_parallel_workers r | Some x \<Rightarrow> x),
     so_alarm_restriction_type :=
       (case ov_alarm_restriction_type v of None \<Rightarrow> so_alarm_restriction_type r | Some x \<Rightarrow> x),
     so_default_instance_action :=
       (case ov_default_instance_action v of None \<Rightarrow> so_default_instance_action r | Some x \<Rightarrow> x)\<rparr>"

definition sw_update_opts_create ::
  "request_context option \<Rightarrow> nat \<Rightarrow> string \<Rightarrow> string \<Rightarrow> int \<Rightarrow> string \<Rightarrow> string \<Rightarrow> (db, unit) io" where
  "sw_update_opts_create ctx subcloud_id storage worker max_workers alarm action =
     require_admin_context ctx
       (write_session
         (bnd (gets (\<lambda>d. subcloud_id \<in> subcloud_ids d)) (\<lambda>known.
            if \<not> known then raise DBReferenceError
            else modify (\<lambda>d. d\<lparr>sw_update_opts_t := insert_row
               (\<lambda>i. \<lparr>so_id = i, so_subcloud_id = subcloud_id, so_storage_apply_type = storage,
                     so_worker_apply_type = worker, so_max_parallel_workers = max_workers,
                     so_alarm_restriction_type = alarm, so_default_instance_action = action\<rparr>)
               (sw_update_opts_t d)\<rparr>))))"

text \<open>A lookup that found None has no attributes to set: \<open>sw_update_opts_ref\<close> is used unchecked.\<close>

definition sw_update_opts_update ::
  "request_context option \<Rightarrow> nat \<Rightarrow> opts_values \<Rightarrow> (db, sw_update_opts) io" where
  "sw_update_opts_update ctx subcloud_id v = require_admin_context ctx
     (write_session
       (bnd (sw_update_opts_get ctx subcloud_id) (\<lambda>r. case r of
          None \<Rightarrow> raise AttributeError
        | Some r \<Rightarrow> seq (modify (\<lambda>d. d\<lparr>sw_update_opts_t :=
              update_row so_id (so_id r) (apply_opts_values v) (sw_update_opts_t d)\<rparr>))
            (ret (apply_opts_values v r)))))"

definition sw_update_opts_destroy :: "request_context option \<Rightarrow> nat \<Rightarrow> (db, unit) io" where
  "sw_update_opts_destroy ctx subcloud_id = require_admin_context ctx
     (write_session
       (bnd (sw_update_opts_get ctx subcloud_id) (\<lambda>r. case r of
          None \<Rightarrow> raise (PyException ''UnmappedInstanceError'')
        | Some r \<Rightarrow> modify (\<lambda>d. d\<lparr>sw_update_opts_t :=
              delete_row so_id (so_id r) (sw_update_opts_t d)\<rparr>))))"

definition sw_update_opts_default_get ::
  "request_context option \<Rightarrow> (db, sw_update_opts option) io" where
  "sw_update_opts_default_get ctx = require_context ctx
     (gets (\<lambda>d. query_first (\<lambda>_. True) (sw_update_opts_default_t d)))"

definition sw_update_opts_default_create ::
  "request_context option \<Rightarrow> string \<Rightarrow> string \<Rightarrow> int \<Rightarrow> string \<Rightarrow> string \<Rightarrow> (db, unit) io" where
  "sw_update_opts_default_create ctx storage worker max_workers alarm action =
     require_admin_context ctx
       (write_session
         (modify (\<lambda>d. d\<lparr>sw_update_opts_default_t := insert_row
            (\<lambda>i. \<lparr>so_id = i, so_subcloud_id = 0, so_storage_apply_type = storage,
                  so_worker_apply_type = worker, so_max_parallel_workers = max_workers,
                  so_alarm_restriction_type = alarm, so_default_instance_action = action\<rparr>)
            (sw_update_opts_default_t d)\<rparr>)))"

definition sw_update_opts_default_update ::
  "request_context option \<Rightarrow> opts_values \<Rightarrow> (db, sw_update_opts) io" where
  "sw_update_opts_default_update ctx v = require_admin_context ctx
     (write_session
       (bnd (sw_update_opts_default_get ctx) (\<lambda>r. case r of
          None \<Rightarrow> raise AttributeError
        | Some r \<Rightarrow> seq (modify (\<lambda>d. d\<lparr>sw_update_opts_default_t :=
              update_row so_id (so_id r) (apply_opts_values v) (sw_update_opts_default_t d)\<rparr>))
            (ret (apply_opts_values v r)))))"

definition sw_update_opts_default_destroy :: "request_context option \<Rightarrow> (db, unit) io" where
  "sw_update_opts_default_destroy ctx = require_admin_context ctx
     (write_session
       (bnd (sw_update_opts_default_get ctx) (\<lambda>r. case r of
          None \<Rightarrow> raise (PyException ''UnmappedInstanceError'')
        | Some r \<Rightarrow> modify (\<lambda>d. d\<lparr>sw_update_opts_default_t :=
              delete_row so_id (so_id r) (sw_update_opts_default_t d)\<rparr>))))"

section \<open>Subcloud groups\<close>

definition subcloud_group_get :: "request_context option \<Rightarrow> nat \<Rightarrow> (db, subcloud_group) io" where
  "subcloud_group_get ctx group_id = require_context ctx
     (lift_result (\<lambda>d. query_one (SubcloudGroupNotFound group_id)
        (InvalidParameterValue (''Multiple entries found for subcloud group '' @ show_nat group_id))
        (\<lambda>r. g_id r = group_id) (subcloud_groups d)))"

definition subcloud_group_get_by_name ::
  "request_context option \<Rightarrow> string \<Rightarrow> (db, subcloud_group) io" where
  "subcloud_group_get_by_name ctx name = require_context ctx
     (lift_result (\<lambda>d. query_one (SubcloudGroupNameNotFound name)
        (InvalidParameterValue (''Multiple entries found for subcloud group '' @ name))
        (\<lambda>r. g_name r = name) (subcloud_groups d)))"

definition subcloud_get_for_group :: "request_context option \<Rightarrow> nat \<Rightarrow> (db, subcloud list) io" where
  "subcloud_get_for_group ctx group_id = require_context ctx
     (gets (\<lambda>d. sort_key sc_id (query_all (\<lambda>r. sc_group_id r = Some group_id) (subclouds d))))"

definition subcloud_group_get_all :: "request_context option \<Rightarrow> (db, subcloud_group list) io" where
  "subcloud_group_get_all ctx = require_context ctx
     (gets (\<lambda>d. sort_key g_id (rows (subcloud_groups d))))"

definition add_group :: "string \<Rightarrow> string \<Rightarrow> string \<Rightarrow> int \<Rightarrow> (db, unit) io" where
  "add_group name description apply_type max_parallel =
     bnd (gets (\<lambda>d. name \<in> g_name ` set (rows (subcloud_groups d)))) (\<lambda>dup.
       if dup then raise DBDuplicateEntry
       else modify (\<lambda>d. d\<lparr>subcloud_groups := insert_row
          (\<lambda>i. \<lparr>g_id = i, g_name = name, g_description = description,
                g_update_apply_type = apply_type, g_max_parallel_subclouds = max_parallel\<rparr>)
          (subcloud_groups d)\<rparr>))"

definition subcloud_group_create ::
  "request_context option \<Rightarrow> string \<Rightarrow> string \<Rightarrow> string \<Rightarrow> int \<Rightarrow> (db, unit) io" where
  "subcloud_group_create ctx name description apply_type max_parallel = require_admin_context ctx
     (write_session (add_group name description apply_type max_parallel))"

definition subcloud_group_update ::
  "request_context option \<Rightarrow> nat \<Rightarrow> string option \<Rightarrow> string option \<Rightarrow> string option \<Rightarrow>
   int option \<Rightarrow> (db, subcloud_group) io" where
  "subcloud_group_update ctx group_id name description apply_type max_parallel =
     require_admin_context ctx
       (write_session
         (bnd (subcloud_group_get ctx group_id) (\<lambda>r.
          bnd (gets (\<lambda>d. case name of None \<Rightarrow> False
                 | Some n \<Rightarrow> \<exists>q \<in> set (rows (subcloud_groups d)). g_id q \<noteq> g_id r \<and> g_name q = n))
          (\<lambda>dup.
            let f = (\<lambda>r. r\<lparr>
                  g_name := (case name of None \<Rightarrow> g_name r | Some x \<Rightarrow> x),
                  g_description := (case description of None \<Rightarrow> g_description r | Some x \<Rightarrow> x),
                  g_update_apply_type :=
                    (case apply_type of None \<Rightarrow> g_update_apply_type r | Some x \<Rightarrow> x),
                  g_max_parallel_subclouds :=
                    (case max_parallel of None \<Rightarrow> g_max_parallel_subclouds r | Some x \<Rightarrow> x)\<rparr>)
            in if name \<noteq> None \<and> g_id r = DEFAULT_SUBCLOUD_GROUP_ID
               then raise SubcloudGroupNameViolation
               else if name = Some DEFAULT_SUBCLOUD_GROUP_NAME
               then raise SubcloudGroupNameViolation
               else if dup then raise DBDuplicateEntry
               else seq (modify (\<lambda>d. d\<lparr>subcloud_groups :=
                          update_row g_id (g_id r) f (subcloud_groups d)\<rparr>))
                    (ret (f r))))))"

text \<open>The relationship \<open>SubcloudGroup.subcloud\<close> has no delete cascade: the group of the
  subclouds left behind is set to NULL.\<close>

definition subcloud_group_destroy :: "request_context option \<Rightarrow> nat \<Rightarrow> (db, unit) io" where
  "subcloud_group_destroy ctx group_id = require_admin_context ctx
     (write_session
       (bnd (subcloud_group_get ctx group_id) (\<lambda>r.
          if g_id r = DEFAULT_SUBCLOUD_GROUP_ID
          then raise (SubcloudGroupDefaultNotDeletable group_id)
          else modify (\<lambda>d. d\<lparr>
             subclouds := map_rows (\<lambda>s. if sc_group_id s = Some (g_id r)
                                        then s\<lparr>sc_group_id := None\<rparr> else s) (subclouds d),
             subcloud_groups := delete_row g_id (g_id r) (subcloud_groups d)\<rparr>))))"

text \<open>The insert names its own id; it fails when the id or the name is taken, and that and any
  other failure is swallowed.\<close>

definition initialize_subcloud_group_default :: "(db, unit) io" where
  "initialize_subcloud_group_default =
     modify (\<lambda>d.
       if DEFAULT_SUBCLOUD_GROUP_ID \<in> group_ids d \<or>
          DEFAULT_SUBCLOUD_GROUP_NAME \<in> g_name ` set (rows (subcloud_groups d))
       then d
       else d\<lparr>subcloud_groups := (subcloud_groups d)\<lparr>
              rows := \<lparr>g_id = DEFAULT_SUBCLOUD_GROUP_ID, g_name = DEFAULT_SUBCLOUD_GROUP_NAME,
                      g_description = DEFAULT_SUBCLOUD_GROUP_DESCRIPTION,
                      g_update_apply_type = SUBCLOUD_APPLY_TYPE_PARALLEL,
                      g_max_parallel_subclouds = DEFAULT_SUBCLOUD_GROUP_MAX_PARALLEL_SUBCLOUDS\<rparr>
                      # rows (subcloud_groups d),
              next_id := max 2 (next_id (subcloud_groups d))\<rparr>\<rparr>)"

section \<open>Strategy steps\<close>

text \<open>A loaded step: its columns and the subcloud row it refers to.\<close>

type_synonym step_view = "strategy_step \<times> subcloud option"

definition load_step :: "db \<Rightarrow> strategy_step \<Rightarrow> step_view" where
  "load_step d s =
     (s, case sp_subcloud_id s of None \<Rightarrow> None
         | Some i \<Rightarrow> query_first (\<lambda>r. sc_id r = i) (subclouds d))"

text \<open>\<open>filter_by(subcloud_id=None)\<close> compares with NULL by \<open>IS NULL\<close>.\<close>

definition strategy_step_get ::
  "request_context option \<Rightarrow> nat option \<Rightarrow> (db, step_view) io" where
  "strategy_step_get ctx subcloud_id = require_context ctx
     (first_or (\<lambda>d. map_option (load_step d)
          (query_first (\<lambda>s. sp_subcloud_id s = subcloud_id) (strategy_steps d)))
        (StrategyStepNotFound subcloud_id))"

definition strategy_step_get_by_name ::
  "request_context option \<Rightarrow> string \<Rightarrow> (db, step_view) io" where
  "strategy_step_get_by_name ctx name = require_context ctx
     (first_or (\<lambda>d. map_option (load_step d)
          (query_first (\<lambda>s. \<exists>r \<in> set (rows (subclouds d)).
               sp_subcloud_id s = Some (sc_id r) \<and> sc_name r = name) (strategy_steps d)))
        (StrategyStepNameNotFound name))"

definition strategy_step_get_all :: "request_context option \<Rightarrow> (db, step_view list) io" where
  "strategy_step_get_all ctx = require_context ctx
     (gets (\<lambda>d. map (load_step d) (sort_key sp_id (rows (strategy_steps d)))))"

definition strategy_step_create ::
  "request_context option \<Rightarrow> nat \<Rightarrow> nat \<Rightarrow> step_state \<Rightarrow> string \<Rightarrow> (db, unit) io" where
  "strategy_step_create ctx subcloud_id stage state details = require_admin_context ctx
     (write_session
       (bnd (gets (\<lambda>d. (subcloud_id \<in> subcloud_ids d,
                        Some subcloud_id \<in> sp_subcloud_id ` set (rows (strategy_steps d)))))
          (\<lambda>(known, dup).
            if \<not> known then raise DBReferenceError
            else if dup then raise DBDuplicateEntry
            else modify (\<lambda>d. d\<lparr>strategy_steps := insert_row
               (\<lambda>i. \<lparr>sp_id = i, sp_subcloud_id = Some subcloud_id, sp_stage = stage,
                     sp_state = state, sp_details = details,
                     sp_started_at = None, sp_finished_at = None\<rparr>) (strategy_steps d)\<rparr>))))"

record step_values =
  pv_stage :: "nat option"
  pv_state :: "step_state option"
  pv_details :: "string option"
  pv_started_at :: "int option"
  pv_finished_at :: "int option"

definition no_step_values :: step_values where
  "no_step_values = \<lparr>pv_stage = None, pv_state = None, pv_details = None,
     pv_started_at = None, pv_finished_at = None\<rparr>"

definition apply_step_values :: "step_values \<Rightarrow> strategy_step \<Rightarrow> strategy_step" where
  "apply_step_values v r = r\<lparr>
     sp_stage := (case pv_stage v of None \<Rightarrow> sp_stage r | Some x \<Rightarrow> x),
     sp_state := (case pv_state v of None \<Rightarrow> sp_state r | Some x \<Rightarrow> x),
     sp_details := (case pv_details v of None \<Rightarrow> sp_details r | Some x \<Rightarrow> x),
     sp_started_at := (case pv_started_at v of None \<Rightarrow> sp_started_at r | Some x \<Rightarrow> Some x),
     sp_finished_at := (case pv_finished_at v of None \<Rightarrow> sp_finished_at r | Some x \<Rightarrow> Some x)\<rparr>"

definition strategy_step_update ::
  "request_context option \<Rightarrow> nat option \<Rightarrow> step_values \<Rightarrow> (db, step_view) io" where
  "strategy_step_update ctx subcloud_id v = require_admin_context ctx
     (write_session
       (bnd (strategy_step_get ctx subcloud_id) (\<lambda>(r, sc).
          seq (modify (\<lambda>d. d\<lparr>strategy_steps :=
                 update_row sp_id (sp_id r) (apply_step_values v) (strategy_steps d)\<rparr>))
            (ret (apply_step_values v r, sc)))))"

definition strategy_step_destroy_all :: "request_context option \<Rightarrow> (db, unit) io" where
  "strategy_step_destroy_all ctx = require_admin_context ctx
     (write_session
       (bnd (strategy_step_get_all ctx) (\<lambda>ss.
          for_each (\<lambda>(s, _). modify (\<lambda>d. d\<lparr>strategy_steps :=
            delete_row sp_id (sp_id s) (strategy_steps d)\<rparr>)) ss)))"

section \<open>Alarm summaries\<close>

text \<open>\<open>add_identity_filter\<close>: a text that is an integer selects by id, one that is a UUID by
  uuid, any other by name. An id is never negative. \<open>is_uuid_like\<close> and \<open>generate_uuid\<close> belong to \<open>oslo_utils\<close>.\<close>

definition is_negative_int :: "string \<Rightarrow> bool" where
  "is_negative_int s =
     (case s of [] \<Rightarrow> False
      | c # ds \<Rightarrow> c = CHR ''-'' \<and> isdigit ds \<and> ds \<noteq> ''0'' \<and> show_nat (nat_of_digits ds) = ds)"

definition identity_filter ::
  "(string \<Rightarrow> bool) \<Rightarrow> string \<Rightarrow> subcloud_alarm_summary \<Rightarrow> bool" where
  "identity_filter is_uuid_like value r \<longleftrightarrow>
     (if isdigit value \<and> show_nat (nat_of_digits value) = value then al_id r = nat_of_digits value
      else if is_negative_int value then False
      else if is_uuid_like value then al_uuid r = value
      else al_name r = value)"

definition subcloud_alarms_get ::
  "(string \<Rightarrow> bool) \<Rightarrow> request_context option \<Rightarrow> string \<Rightarrow> (db, subcloud_alarm_summary) io" where
  "subcloud_alarms_get is_uuid_like ctx name = require_context ctx
     (lift_result (\<lambda>d. query_one (SubcloudNameNotFound name)
        (InvalidParameterValue (''Multiple entries found for subcloud '' @ name))
        (identity_filter is_uuid_like name) (subcloud_alarms_t d)))"

definition subcloud_alarms_get_all ::
  "(string \<Rightarrow> bool) \<Rightarrow> request_context option \<Rightarrow> string option \<Rightarrow>
   (db, subcloud_alarm_summary list) io" where
  "subcloud_alarms_get_all is_uuid_like ctx name = require_context ctx
     (gets (\<lambda>d. rev (sort_key al_id (query_all
        (\<lambda>r. case name of None \<Rightarrow> True
             | Some n \<Rightarrow> if n = [] then True else identity_filter is_uuid_like n r)
        (subcloud_alarms_t d)))))"

record alarm_values =
  lv_critical_alarms :: int
  lv_major_alarms :: int
  lv_minor_alarms :: int
  lv_warnings :: int
  lv_cloud_status :: string

definition subcloud_alarms_create ::
  "string \<Rightarrow> request_context option \<Rightarrow> string \<Rightarrow> alarm_values \<Rightarrow> (db, unit) io" where
  "subcloud_alarms_create uuid ctx name v = require_admin_context ctx
     (write_session
       (bnd (gets (\<lambda>d. name \<in> al_name ` set (rows (subcloud_alarms_t d)) \<or>
                       uuid \<in> al_uuid ` set (rows (subcloud_alarms_t d)))) (\<lambda>dup.
          if dup then raise DBDuplicateEntry
          else modify (\<lambda>d. d\<lparr>subcloud_alarms_t := insert_row
             (\<lambda>i. \<lparr>al_id = i, al_uuid = uuid, al_name = name,
                   al_critical_alarms = lv_critical_alarms v, al_major_alarms = lv_major_alarms v,
                   al_minor_alarms = lv_minor_alarms v, al_warnings = lv_warnings v,
                   al_cloud_status = lv_cloud_status v\<rparr>) (subcloud_alarms_t d)\<rparr>))))"

definition subcloud_alarms_update ::
  "(string \<Rightarrow> bool) \<Rightarrow> request_context option \<Rightarrow> string \<Rightarrow> alarm_values \<Rightarrow> (db, unit) io" where
  "subcloud_alarms_update is_uuid_like ctx name v = require_admin_context ctx
     (write_session
       (bnd (subcloud_alarms_get is_uuid_like ctx name) (\<lambda>r.
          modify (\<lambda>d. d\<lparr>subcloud_alarms_t := update_row al_id (al_id r)
             (\<lambda>r. r\<lparr>al_critical_alarms := lv_critical_alarms v,
                    al_major_alarms := lv_major_alarms v, al_minor_alarms := lv_minor_alarms v,
                    al_warnings := lv_warnings v, al_cloud_status := lv_cloud_status v\<rparr>)
             (subcloud_alarms_t d)\<rparr>))))"

definition subcloud_alarms_delete :: "request_context option \<Rightarrow> string \<Rightarrow> (db, unit) io" where
  "subcloud_alarms_delete ctx name = require_admin_context ctx
     (write_session
       (modify (\<lambda>d. d\<lparr>subcloud_alarms_t :=
          filter_rows (\<lambda>r. al_name r \<noteq> name) (subcloud_alarms_t d)\<rparr>)))"

end
