(* ===== verification/DC_DB_Wf.thy ===== *)
theory DC_DB_Wf
  imports DC_DB_Strategy
begin

text \<open>
  Every operation of the database layer keeps the schema \<open>db_wf\<close>, on every exit: one lemma per
  operation that writes, collected in \<open>db_wf_keeps\<close>.
\<close>

named_theorems db_wf_keeps

text \<open>A read followed by a computation that depends on what was read.\<close>

lemma keeps_gets_bnd:
  "(\<And>s. I s \<Longrightarrow> I (snd (f (q s) s))) \<Longrightarrow> keeps I (bnd (gets q) f)"
  by (simp add: keeps_def bnd_apply)

lemma set_map_filter: "set (List.map_filter f xs) = {y. \<exists>x \<in> set xs. f x = Some y}"
  by (induction xs) (auto simp: map_filter_def split: option.splits)

lemma db_wf_tables:
  assumes "db_wf d"
  shows "table_wf sc_id (subclouds d)" "table_wf sa_id (subcloud_audits_t d)"
    "table_wf ss_id (subcloud_status_t d)" "table_wf st_id (sw_update_strategies d)"
    "table_wf so_id (sw_update_opts_t d)" "table_wf so_id (sw_update_opts_default_t d)"
    "table_wf sp_id (strategy_steps d)" "table_wf g_id (subcloud_groups d)"
    "table_wf al_id (subcloud_alarms_t d)"
  using assms by (simp_all add: db_wf_defs)

section \<open>Audit records\<close>

lemma audits_map_wf:
  assumes "db_wf d" and "\<And>r. sa_id (f r) = sa_id r"
    and "\<And>r. sa_subcloud_id (f r) = sa_subcloud_id r"
  shows "db_wf (d\<lparr>subcloud_audits_t := map_rows f (subcloud_audits_t d)\<rparr>)"
proof -
  have "sa_subcloud_id \<circ> f = sa_subcloud_id" using assms(3) by (simp add: fun_eq_iff)
  then show ?thesis
    using assms by (intro db_wf_set_audits) (auto simp: db_wf_defs)
qed

lemma apply_audit_values_ids [simp]:
  "sa_id (apply_audit_values v r) = sa_id r"
  "sa_subcloud_id (apply_audit_values v r) = sa_subcloud_id r"
  by (simp_all add: apply_audit_values_def opt_upd_def split: option.splits)

lemma end_audit_row_ids [simp]:
  "sa_id (end_audit_row now ds r) = sa_id r"
  "sa_subcloud_id (end_audit_row now ds r) = sa_subcloud_id r"
  by (simp_all add: end_audit_row_def Let_def)

lemma fix_expired_row_ids [simp]:
  "sa_id (fix_expired_row b r) = sa_id r"
  "sa_subcloud_id (fix_expired_row b r) = sa_subcloud_id r"
  by (simp_all add: fix_expired_row_def Let_def)

lemma update_audits_where_wf:
  assumes "\<And>r. sa_id (f r) = sa_id r" and "\<And>r. sa_subcloud_id (f r) = sa_subcloud_id r"
  shows "keeps db_wf (update_audits_where p f)"
  unfolding update_audits_where_def
  by (intro keeps_intros keeps_modify audits_map_wf) (auto simp: assms)

lemma save_audits_wf:
  assumes "\<And>r. sa_id (f r) = sa_id r" and "\<And>r. sa_subcloud_id (f r) = sa_subcloud_id r"
  shows "keeps db_wf (save_audits f r)"
  unfolding save_audits_def update_row_def
  by (intro keeps_intros keeps_modify audits_map_wf) (auto simp: assms)

lemma keeps_subcloud_audits_get [keeps_intros]: "keeps I (subcloud_audits_get ctx i)"
  unfolding subcloud_audits_get_def by (intro keeps_intros)

lemma subcloud_audits_update_all_wf [db_wf_keeps]: "keeps db_wf (subcloud_audits_update_all ctx v)"
  unfolding subcloud_audits_update_all_def by (intro keeps_intros update_audits_where_wf) auto

lemma subcloud_audits_create_wf [db_wf_keeps]: "keeps db_wf (subcloud_audits_create ctx i)"
  unfolding subcloud_audits_create_def
proof (intro keeps_require_admin keeps_write_session keeps_gets_bnd)
  fix d assume d: "db_wf d"
  show "db_wf (snd ((case (i \<in> subcloud_ids d, i \<in> sa_subcloud_id ` set (rows (subcloud_audits_t d))) of
      (known, dup) \<Rightarrow> if \<not> known then raise DBReferenceError
        else if dup then raise DBDuplicateEntry
        else modify (\<lambda>d. d\<lparr>subcloud_audits_t := insert_row (\<lambda>ia.
           \<lparr>sa_id = ia, sa_subcloud_id = i, sa_audit_started_at = datetime_min,
            sa_audit_finished_at = datetime_min, sa_state_update_requested = False,
            sa_patch_audit_requested = False, sa_load_audit_requested = False,
            sa_firmware_audit_requested = False, sa_kubernetes_audit_requested = False,
            sa_kube_rootca_update_audit_requested = False\<rparr>) (subcloud_audits_t d)\<rparr>)) d))"
    using d db_wf_tables(2) [OF d]
    by (auto intro!: db_wf_set_audits table_wf_insert) (auto simp: db_wf_defs)
qed

lemma subcloud_audits_update_wf [db_wf_keeps]: "keeps db_wf (subcloud_audits_update ctx i v)"
  unfolding subcloud_audits_update_def by (intro keeps_intros save_audits_wf) auto

lemma subcloud_audits_get_and_start_audit_wf [db_wf_keeps]:
  "keeps db_wf (subcloud_audits_get_and_start_audit ctx now i)"
  unfolding subcloud_audits_get_and_start_audit_def by (intro keeps_intros save_audits_wf) auto

lemma subcloud_audits_end_audit_wf [db_wf_keeps]:
  "keeps db_wf (subcloud_audits_end_audit ctx now i ds)"
  unfolding subcloud_audits_end_audit_def by (intro keeps_intros save_audits_wf) auto

lemma subcloud_audits_fix_expired_audits_wf [db_wf_keeps]:
  "keeps db_wf (subcloud_audits_fix_expired_audits ctx t b)"
  unfolding subcloud_audits_fix_expired_audits_def
  by (intro keeps_intros update_audits_where_wf) auto

section \<open>Subclouds and statuses\<close>

lemma apply_subcloud_values_ids [simp]:
  "sc_id (apply_subcloud_values v r) = sc_id r"
  "sc_name (apply_subcloud_values v r) = sc_name r"
  by (simp_all add: apply_subcloud_values_def)

lemma apply_subcloud_values_group:
  "sc_group_id (apply_subcloud_values v r) =
     (case sv_group_id v of None \<Rightarrow> sc_group_id r | Some x \<Rightarrow> Some x)"
  by (simp add: apply_subcloud_values_def)

lemma db_wf_group_ref:
  "db_wf d \<Longrightarrow> r \<in> set (rows (subclouds d)) \<Longrightarrow> sc_group_id r = Some g \<Longrightarrow> g \<in> group_ids d"
  by (force simp: db_wf_def refs_wf_def set_map_filter)

lemma update_subclouds_where_wf: "keeps db_wf (update_subclouds_where p v)"
  unfolding update_subclouds_where_def
proof (rule keeps_gets_bnd)
  fix d assume d: "db_wf d"
  have "db_wf (d\<lparr>subclouds :=
      map_rows (\<lambda>r. if p r then apply_subcloud_values v r else r) (subclouds d)\<rparr>)"
    if "group_known (sv_group_id v) d"
    using that d
    by (intro db_wf_map_subclouds)
      (auto simp: group_known_def apply_subcloud_values_group
         dest: db_wf_group_ref split: option.splits if_splits)
  then show "db_wf (snd ((if \<not> group_known (sv_group_id v) d then raise DBReferenceError
      else modify (\<lambda>d. d\<lparr>subclouds :=
        map_rows (\<lambda>r. if p r then apply_subcloud_values v r else r) (subclouds d)\<rparr>)) d))"
    using d by simp
qed

lemma keeps_subcloud_get [keeps_intros]: "keeps I (subcloud_get ctx i)"
  unfolding subcloud_get_def by (intro keeps_intros)

lemma keeps_subcloud_get_by_name [keeps_intros]: "keeps I (subcloud_get_by_name ctx n)"
  unfolding subcloud_get_by_name_def by (intro keeps_intros)

lemma keeps_subcloud_get_all [keeps_intros]: "keeps I (subcloud_get_all ctx)"
  unfolding subcloud_get_all_def by (intro keeps_intros)

lemma keeps_subcloud_get_with_status [keeps_intros]: "keeps I (subcloud_get_with_status ctx i)"
  unfolding subcloud_get_with_status_def by (intro keeps_intros)

lemma keeps_subcloud_get_all_with_status [keeps_intros]: "keeps I (subcloud_get_all_with_status ctx)"
  unfolding subcloud_get_all_with_status_def by (intro keeps_intros)

lemma keeps_subcloud_status_get [keeps_intros]: "keeps I (subcloud_status_get ctx i e)"
  unfolding subcloud_status_get_def by (intro keeps_intros)

lemma keeps_subcloud_status_get_all [keeps_intros]: "keeps I (subcloud_status_get_all ctx i)"
  unfolding subcloud_status_get_all_def by (intro keeps_intros)

lemma subcloud_update_wf [db_wf_keeps]: "keeps db_wf (subcloud_update ctx i v)"
  unfolding subcloud_update_def by (intro keeps_intros update_subclouds_where_wf)

lemma subcloud_bulk_update_by_ids_wf [db_wf_keeps]: "keeps db_wf (subcloud_bulk_update_by_ids ctx is v)"
  unfolding subcloud_bulk_update_by_ids_def by (intro keeps_intros update_subclouds_where_wf)

lemma status_map_wf:
  assumes "db_wf d" and "\<And>r. ss_id (f r) = ss_id r"
    and "\<And>r. ss_subcloud_id (f r) = ss_subcloud_id r"
  shows "db_wf (d\<lparr>subcloud_status_t := map_rows f (subcloud_status_t d)\<rparr>)"
  using assms by (intro db_wf_set_status) (auto simp: db_wf_defs)

lemma status_filter_wf:
  "db_wf d \<Longrightarrow> db_wf (d\<lparr>subcloud_status_t := delete_row ss_id k (subcloud_status_t d)\<rparr>)"
  by (intro db_wf_set_status) (auto simp: db_wf_defs)

lemma add_status_wf: "keeps db_wf (add_status i e)"
  unfolding add_status_def
proof (rule keeps_gets_bnd)
  fix d assume d: "db_wf d"
  show "db_wf (snd ((if i \<notin> subcloud_ids d then raise DBReferenceError
      else modify (\<lambda>d. d\<lparr>subcloud_status_t := insert_row
        (\<lambda>ia. \<lparr>ss_id = ia, ss_subcloud_id = i, ss_endpoint_type = e,
               ss_sync_status = SYNC_STATUS_UNKNOWN\<rparr>) (subcloud_status_t d)\<rparr>)) d))"
    using d db_wf_tables(3) [OF d]
    by (auto intro!: db_wf_set_status table_wf_insert) (auto simp: db_wf_defs)
qed

lemma subcloud_status_create_wf [db_wf_keeps]: "keeps db_wf (subcloud_status_create ctx i e)"
  unfolding subcloud_status_create_def by (intro keeps_intros add_status_wf)

lemma subcloud_status_create_all_wf [db_wf_keeps]: "keeps db_wf (subcloud_status_create_all ctx i)"
  unfolding subcloud_status_create_all_def by (intro keeps_intros add_status_wf)

lemma subcloud_status_delete_wf [db_wf_keeps]: "keeps db_wf (subcloud_status_delete ctx i e)"
  unfolding subcloud_status_delete_def by (intro keeps_intros keeps_modify status_filter_wf)

lemma subcloud_status_update_wf [db_wf_keeps]: "keeps db_wf (subcloud_status_update ctx i e s)"
  unfolding subcloud_status_update_def update_row_def
  by (intro keeps_intros keeps_modify status_map_wf) auto

lemma subcloud_status_update_endpoints_wf [db_wf_keeps]:
  "keeps db_wf (subcloud_status_update_endpoints ctx i es s)"
  unfolding subcloud_status_update_endpoints_def Let_def
  by (intro keeps_intros keeps_modify status_map_wf) auto

lemma subcloud_status_destroy_all_wf [db_wf_keeps]:
  "keeps db_wf (subcloud_status_destroy_all ctx i)"
  unfolding subcloud_status_destroy_all_def by (intro keeps_intros keeps_modify status_filter_wf)

lemma insert_subcloud_wf:
  assumes d: "db_wf d" and "ns_name n \<notin> sc_name ` set (rows (subclouds d))"
    and "ns_group_id n \<in> group_ids d"
  shows "db_wf (d\<lparr>subclouds := insert_row (new_subcloud_row n) (subclouds d)\<rparr>)"
  using assms db_wf_tables(1) [OF d]
  by (auto simp: db_wf_defs new_subcloud_row_def map_filter_def intro!: table_wf_insert)

lemma subcloud_create_wf [db_wf_keeps]: "keeps db_wf (subcloud_create ctx n)"
  unfolding subcloud_create_def
proof (intro keeps_require_admin keeps_write_session keeps_gets_bnd)
  fix d assume d: "db_wf d"
  let ?rest = "\<lambda>i. seq (subcloud_status_create_all ctx i)
      (seq (subcloud_audits_create ctx i) (ret (new_subcloud_row n i)))"
  have rest: "keeps db_wf (?rest i)" for i
    by (intro keeps_intros db_wf_keeps)
  show "db_wf (snd ((case (ns_name n \<in> sc_name ` set (rows (subclouds d)),
        ns_group_id n \<in> group_ids d, next_id (subclouds d)) of
      (dup, known, i) \<Rightarrow> if dup then raise DBDuplicateEntry
        else if \<not> known then raise DBReferenceError
        else seq (modify (\<lambda>d. d\<lparr>subclouds := insert_row (new_subcloud_row n) (subclouds d)\<rparr>))
             (?rest i)) d))"
    using d keepsD [OF rest insert_subcloud_wf [OF d]] by (simp add: seq_apply)
qed

lemma set_map_filter_filter:
  "set (List.map_filter g (filter p rs)) \<subseteq> set (List.map_filter g rs)"
  by (induction rs) (auto simp: map_filter_def)

lemma image_filter_neq: "key ` set rs \<subseteq> X \<Longrightarrow> key ` set (filter (\<lambda>r. key r \<noteq> k) rs) \<subseteq> X - {k}"
  by auto

lemma delete_subcloud_refs:
  assumes "refs_wf d"
  shows "refs_wf (d\<lparr>subclouds := delete_row sc_id k (subclouds d),
      subcloud_audits_t := delete_row sa_subcloud_id k (subcloud_audits_t d),
      subcloud_status_t := delete_row ss_subcloud_id k (subcloud_status_t d),
      sw_update_opts_t := delete_row so_subcloud_id k (sw_update_opts_t d),
      strategy_steps := filter_rows (\<lambda>s. sp_subcloud_id s \<noteq> Some k) (strategy_steps d)\<rparr>)"
proof -
  have del: "sc_id ` set (filter (\<lambda>r. sc_id r \<noteq> k) rs) = sc_id ` set rs - {k}" for rs by auto
  have steps: "set (step_subcloud_ids (filter (\<lambda>s. sp_subcloud_id s \<noteq> Some k) ss))
      = set (step_subcloud_ids ss) - {k}" for ss by (auto simp: set_step_subcloud_ids)
  show ?thesis
    using assms set_map_filter_filter [of sc_group_id "\<lambda>r. sc_id r \<noteq> k" "rows (subclouds d)"]
    by (auto simp: refs_wf_def subcloud_ids_def group_ids_def del steps)
qed

lemma subcloud_destroy_wf [db_wf_keeps]: "keeps db_wf (subcloud_destroy ctx i)"
  unfolding subcloud_destroy_def
proof (intro keeps_intros keeps_modify)
  fix r d assume d: "db_wf d"
  then show "db_wf (d\<lparr>subclouds := delete_row sc_id (sc_id r) (subclouds d),
      subcloud_audits_t := delete_row sa_subcloud_id (sc_id r) (subcloud_audits_t d),
      subcloud_status_t := delete_row ss_subcloud_id (sc_id r) (subcloud_status_t d),
      sw_update_opts_t := delete_row so_subcloud_id (sc_id r) (sw_update_opts_t d),
      strategy_steps := filter_rows (\<lambda>s. sp_subcloud_id s \<noteq> Some (sc_id r)) (strategy_steps d)\<rparr>)"
    using delete_subcloud_refs [of d "sc_id r"]
    by (auto simp: db_wf_def keys_wf_def unique_wf_def distinct_map_filter
        distinct_step_subcloud_ids_filter)
qed

section \<open>Strategies and options\<close>

lemma keeps_sw_update_strategy_get [keeps_intros]: "keeps I (sw_update_strategy_get ctx t)"
  unfolding sw_update_strategy_get_def by (intro keeps_intros)

lemma strategy_values_ids [simp]:
  "st_id (strategy_values s a r) = st_id r" "st_type (strategy_values s a r) = st_type r"
  by (simp_all add: strategy_values_def Let_def split: option.splits)

lemma strategy_map_wf:
  assumes "db_wf d" and "\<And>r. st_id (f r) = st_id r" and "\<And>r. st_type (f r) = st_type r"
  shows "db_wf (d\<lparr>sw_update_strategies := map_rows f (sw_update_strategies d)\<rparr>)"
proof -
  have "st_type \<circ> f = st_type" using assms(3) by (simp add: fun_eq_iff)
  then show ?thesis using assms by (intro db_wf_set_strategies) (auto simp: db_wf_defs)
qed

lemma sw_update_strategy_create_wf [db_wf_keeps]:
  "keeps db_wf (sw_update_strategy_create ctx t a m f s x)"
  unfolding sw_update_strategy_create_def Let_def
  by (intro keeps_require_admin keeps_write_session keeps_gets_bnd)
    (auto simp: seq_apply db_wf_tables intro!: db_wf_set_strategies table_wf_insert,
     auto simp: db_wf_defs)

lemma sw_update_strategy_update_wf [db_wf_keeps]: "keeps db_wf (sw_update_strategy_update ctx s t a)"
  unfolding sw_update_strategy_update_def update_row_def
  by (intro keeps_intros keeps_modify strategy_map_wf) auto

lemma sw_update_strategy_destroy_wf [db_wf_keeps]: "keeps db_wf (sw_update_strategy_destroy ctx t)"
  unfolding sw_update_strategy_destroy_def
  by (intro keeps_intros keeps_modify db_wf_set_strategies)
    (auto simp: db_wf_defs distinct_map_filter)

lemma keeps_sw_update_opts_get [keeps_intros]: "keeps I (sw_update_opts_get ctx i)"
  unfolding sw_update_opts_get_def by (intro keeps_intros)

lemma keeps_sw_update_opts_default_get [keeps_intros]: "keeps I (sw_update_opts_default_get ctx)"
  unfolding sw_update_opts_default_get_def by (intro keeps_intros)

lemma apply_opts_values_ids [simp]:
  "so_id (apply_opts_values v r) = so_id r"
  "so_subcloud_id (apply_opts_values v r) = so_subcloud_id r"
  by (simp_all add: apply_opts_values_def)

lemma sw_update_opts_create_wf [db_wf_keeps]: "keeps db_wf (sw_update_opts_create ctx i s w m a x)"
  unfolding sw_update_opts_create_def
  by (intro keeps_require_admin keeps_write_session keeps_gets_bnd)
    (auto simp: db_wf_tables intro!: db_wf_set_opts table_wf_insert, auto simp: db_wf_defs)

lemma sw_update_opts_update_wf [db_wf_keeps]: "keeps db_wf (sw_update_opts_update ctx i v)"
  unfolding sw_update_opts_update_def update_row_def
  by (intro keeps_intros keeps_modify db_wf_set_opts) (auto simp: db_wf_defs)

lemma sw_update_opts_destroy_wf [db_wf_keeps]: "keeps db_wf (sw_update_opts_destroy ctx i)"
  unfolding sw_update_opts_destroy_def
  by (intro keeps_intros keeps_modify db_wf_set_opts) (auto simp: db_wf_defs)

lemma sw_update_opts_default_create_wf [db_wf_keeps]:
  "keeps db_wf (sw_update_opts_default_create ctx s w m a x)"
  unfolding sw_update_opts_default_create_def
  by (intro keeps_intros keeps_modify db_wf_set_opts_default) (auto simp: db_wf_tables)

lemma sw_update_opts_default_update_wf [db_wf_keeps]:
  "keeps db_wf (sw_update_opts_default_update ctx v)"
  unfolding sw_update_opts_default_update_def
  by (intro keeps_intros keeps_modify db_wf_set_opts_default) (auto simp: db_wf_tables)

lemma sw_update_opts_default_destroy_wf [db_wf_keeps]:
  "keeps db_wf (sw_update_opts_default_destroy ctx)"
  unfolding sw_update_opts_default_destroy_def
  by (intro keeps_intros keeps_modify db_wf_set_opts_default) (auto simp: db_wf_tables)

section \<open>Groups\<close>

lemma keeps_subcloud_group_get [keeps_intros]: "keeps I (subcloud_group_get ctx i)"
  unfolding subcloud_group_get_def by (intro keeps_intros)

lemma keeps_subcloud_group_get_by_name [keeps_intros]: "keeps I (subcloud_group_get_by_name ctx n)"
  unfolding subcloud_group_get_by_name_def by (intro keeps_intros)

lemma keeps_subcloud_group_get_all [keeps_intros]: "keeps I (subcloud_group_get_all ctx)"
  unfolding subcloud_group_get_all_def by (intro keeps_intros)

lemma keeps_subcloud_get_for_group [keeps_intros]: "keeps I (subcloud_get_for_group ctx i)"
  unfolding subcloud_get_for_group_def by (intro keeps_intros)

lemma subcloud_group_create_wf [db_wf_keeps]: "keeps db_wf (subcloud_group_create ctx n s a m)"
  unfolding subcloud_group_create_def add_group_def
  by (intro keeps_require_admin keeps_write_session keeps_gets_bnd)
    (auto simp: db_wf_tables intro!: db_wf_set_groups table_wf_insert, auto simp: db_wf_defs)

lemma distinct_names_update:
  assumes "distinct (map key rs)" and "distinct (map name rs)"
    and "\<And>r. r \<in> set rs \<Longrightarrow> key r = k \<Longrightarrow> name (f r) = name r \<or> (\<forall>q \<in> set rs. key q \<noteq> k \<longrightarrow> name q \<noteq> name (f r))"
  shows "distinct (map (\<lambda>r. name (if key r = k then f r else r)) rs)"
  using assms
proof (induction rs)
  case Nil
  then show ?case by simp
next
  case (Cons a rs)
  have IH: "distinct (map (\<lambda>r. name (if key r = k then f r else r)) rs)"
    using Cons.prems by (intro Cons.IH) auto
  show ?case
  proof (cases "key a = k")
    case True
    then have "\<forall>r \<in> set rs. key r \<noteq> k" using Cons.prems(1) by (auto simp: image_iff)
    have "name (f a) \<notin> set (map name rs)"
      using Cons.prems(2) Cons.prems(3) [of a] True \<open>\<forall>r \<in> set rs. key r \<noteq> k\<close> by auto
    moreover have "set (map (\<lambda>r. name (if key r = k then f r else r)) rs) = set (map name rs)"
      using \<open>\<forall>r \<in> set rs. key r \<noteq> k\<close> by auto
    ultimately show ?thesis using True IH by simp
  next
    case False
    have "name a \<noteq> name (if key r = k then f r else r)" if "r \<in> set rs" for r
      using that False Cons.prems(2) Cons.prems(3) [of r] by (cases "key r = k") force+
    then show ?thesis using IH False by auto
  qed
qed

lemma subcloud_group_update_wf [db_wf_keeps]: "keeps db_wf (subcloud_group_update ctx i n s a m)"
  unfolding subcloud_group_update_def
proof (rule keeps_require_admin, rule keeps_write_session, rule keeps_bnd,
    rule keeps_subcloud_group_get, rule keeps_gets_bnd)
  fix r :: subcloud_group and d assume d: "db_wf d"
  let ?f = "\<lambda>r::subcloud_group. r\<lparr>g_name := case n of None \<Rightarrow> g_name r | Some x \<Rightarrow> x,
      g_description := case s of None \<Rightarrow> g_description r | Some x \<Rightarrow> x,
      g_update_apply_type := case a of None \<Rightarrow> g_update_apply_type r | Some x \<Rightarrow> x,
      g_max_parallel_subclouds := case m of None \<Rightarrow> g_max_parallel_subclouds r | Some x \<Rightarrow> x\<rparr>"
  let ?dup = "case n of None \<Rightarrow> False
      | Some n \<Rightarrow> \<exists>q \<in> set (rows (subcloud_groups d)). g_id q \<noteq> g_id r \<and> g_name q = n"
  have "db_wf (d\<lparr>subcloud_groups := update_row g_id (g_id r) ?f (subcloud_groups d)\<rparr>)" if "\<not> ?dup"
  proof (rule db_wf_set_groups [OF d])
    show "table_wf g_id (update_row g_id (g_id r) ?f (subcloud_groups d))"
      using db_wf_tables(8) [OF d] by auto
    have "distinct (map (\<lambda>q. g_name (if g_id q = g_id r then ?f q else q)) (rows (subcloud_groups d)))"
      using d that table_wf_distinct [OF db_wf_tables(8) [OF d]]
      by (intro distinct_names_update) (auto simp: db_wf_defs split: option.splits)
    then show "distinct (map g_name (rows (update_row g_id (g_id r) ?f (subcloud_groups d))))"
      by (simp add: rows_update comp_def)
    show "set (List.map_filter sc_group_id (rows (subclouds d)))
        \<subseteq> g_id ` set (rows (update_row g_id (g_id r) ?f (subcloud_groups d)))"
    proof -
      have "g_id \<circ> (\<lambda>q::subcloud_group. if g_id q = g_id r then ?f q else q) = g_id" by (simp add: fun_eq_iff)
      then have "g_id ` set (rows (update_row g_id (g_id r) ?f (subcloud_groups d)))
          = g_id ` set (rows (subcloud_groups d))"
        by (simp only: rows_update set_map image_comp)
      then show ?thesis using d by (simp only: db_wf_def refs_wf_def group_ids_def)
    qed
  qed
  then show "db_wf (snd ((let f = ?f in
      if n \<noteq> None \<and> g_id r = DEFAULT_SUBCLOUD_GROUP_ID then raise SubcloudGroupNameViolation
      else if n = Some DEFAULT_SUBCLOUD_GROUP_NAME then raise SubcloudGroupNameViolation
      else if ?dup then raise DBDuplicateEntry
      else seq (modify (\<lambda>d. d\<lparr>subcloud_groups := update_row g_id (g_id r) f (subcloud_groups d)\<rparr>))
            (ret (f r))) d))"
    using d by (cases n) (simp_all add: Let_def seq_apply)
qed

lemma subcloud_group_destroy_wf [db_wf_keeps]: "keeps db_wf (subcloud_group_destroy ctx i)"
  unfolding subcloud_group_destroy_def
proof (intro keeps_intros keeps_modify)
  fix r d assume d: "db_wf d"
  let ?f = "\<lambda>s. if sc_group_id s = Some (g_id r) then s\<lparr>sc_group_id := None\<rparr> else s"
  have fs: "sc_id \<circ> ?f = sc_id" "sc_name \<circ> ?f = sc_name" by (auto simp: fun_eq_iff)
  have ids: "sc_id ` ?f ` X = sc_id ` X" for X by (simp only: image_comp fs)
  have groups: "set (List.map_filter sc_group_id (map ?f (rows (subclouds d))))
      \<subseteq> g_id ` set (filter (\<lambda>q. g_id q \<noteq> g_id r) (rows (subcloud_groups d)))"
    using d by (auto simp: db_wf_defs set_map_filter_map_rows set_map_filter image_iff subset_iff
        split: if_splits) metis
  have "table_wf sc_id (map_rows ?f (subclouds d))"
    using db_wf_tables(1) [OF d] by auto
  moreover have "distinct (map (sc_name \<circ> ?f) (rows (subclouds d)))"
    using d by (simp only: fs) (simp add: db_wf_defs)
  moreover have "subcloud_ids (d\<lparr>subclouds := map_rows ?f (subclouds d)\<rparr>) = subcloud_ids d"
    by (simp add: subcloud_ids_def ids del: if_image_distrib)
  ultimately show "db_wf (d\<lparr>subclouds := map_rows ?f (subclouds d),
      subcloud_groups := delete_row g_id (g_id r) (subcloud_groups d)\<rparr>)"
    using d groups
    by (auto simp: db_wf_def keys_wf_def unique_wf_def refs_wf_def subcloud_ids_def group_ids_def
        distinct_map_filter simp del: set_filter if_image_distrib)
qed

lemma initialize_subcloud_group_default_wf [db_wf_keeps]:
  "keeps db_wf initialize_subcloud_group_default"
  unfolding initialize_subcloud_group_default_def
proof (rule keeps_modify)
  fix d assume d: "db_wf d"
  show "db_wf (if DEFAULT_SUBCLOUD_GROUP_ID \<in> group_ids d \<or>
          DEFAULT_SUBCLOUD_GROUP_NAME \<in> g_name ` set (rows (subcloud_groups d))
       then d
       else d\<lparr>subcloud_groups := (subcloud_groups d)\<lparr>
              rows := \<lparr>g_id = DEFAULT_SUBCLOUD_GROUP_ID, g_name = DEFAULT_SUBCLOUD_GROUP_NAME,
                      g_description = DEFAULT_SUBCLOUD_GROUP_DESCRIPTION,
                      g_update_apply_type = SUBCLOUD_APPLY_TYPE_PARALLEL,
                      g_max_parallel_subclouds = DEFAULT_SUBCLOUD_GROUP_MAX_PARALLEL_SUBCLOUDS\<rparr>
                      # rows (subcloud_groups d),
              next_id := max 2 (next_id (subcloud_groups d))\<rparr>\<rparr>)"
    using d
    by (auto intro!: db_wf_set_groups
        simp: table_wf_def db_wf_defs DEFAULT_SUBCLOUD_GROUP_ID_def less_max_iff_disj
        dest!: neq_le_trans) (metis Suc_lessI One_nat_def image_eqI)+
qed

section \<open>Steps and alarms\<close>

lemma keeps_strategy_step_get [keeps_intros]: "keeps I (strategy_step_get ctx i)"
  unfolding strategy_step_get_def by (intro keeps_intros)

lemma keeps_strategy_step_get_all [keeps_intros]: "keeps I (strategy_step_get_all ctx)"
  unfolding strategy_step_get_all_def by (intro keeps_intros)

lemma apply_step_values_ids [simp]:
  "sp_id (apply_step_values v r) = sp_id r"
  "sp_subcloud_id (apply_step_values v r) = sp_subcloud_id r"
  by (simp_all add: apply_step_values_def)

lemma strategy_step_create_wf [db_wf_keeps]: "keeps db_wf (strategy_step_create ctx i st s x)"
  unfolding strategy_step_create_def
  by (intro keeps_require_admin keeps_write_session keeps_gets_bnd)
    (auto simp: db_wf_tables set_step_subcloud_ids intro!: db_wf_set_steps table_wf_insert,
     auto simp: db_wf_defs set_step_subcloud_ids image_iff)

lemma strategy_step_update_wf [db_wf_keeps]: "keeps db_wf (strategy_step_update ctx i v)"
  unfolding strategy_step_update_def
proof (intro keeps_intros keeps_modify)
  fix x r sc d assume d: "db_wf d"
  have "step_subcloud_ids (map (\<lambda>q. if sp_id q = sp_id r then apply_step_values v q else q) ss)
      = step_subcloud_ids ss" for ss
    by (rule step_subcloud_ids_map) simp
  then show "db_wf (d\<lparr>strategy_steps := update_row sp_id (sp_id r) (apply_step_values v) (strategy_steps d)\<rparr>)"
    using d db_wf_tables(7) [OF d]
    by (intro db_wf_set_steps) (auto simp: db_wf_defs rows_update)
qed

lemma strategy_step_destroy_all_wf [db_wf_keeps]: "keeps db_wf (strategy_step_destroy_all ctx)"
  unfolding strategy_step_destroy_all_def
proof (intro keeps_intros keeps_modify)
  fix ss x s sc d assume d: "db_wf d"
  show "db_wf (d\<lparr>strategy_steps := delete_row sp_id (sp_id s) (strategy_steps d)\<rparr>)"
    using d db_wf_tables(7) [OF d]
    by (intro db_wf_set_steps)
      (auto simp: db_wf_defs distinct_step_subcloud_ids_filter set_step_subcloud_ids)
qed

lemma keeps_subcloud_alarms_get [keeps_intros]: "keeps I (subcloud_alarms_get u ctx n)"
  unfolding subcloud_alarms_get_def by (intro keeps_intros)

lemma subcloud_alarms_create_wf [db_wf_keeps]: "keeps db_wf (subcloud_alarms_create uuid ctx n v)"
  unfolding subcloud_alarms_create_def
  by (intro keeps_intros keeps_modify db_wf_set_alarms) (auto simp: db_wf_tables)

lemma subcloud_alarms_update_wf [db_wf_keeps]: "keeps db_wf (subcloud_alarms_update u ctx n v)"
  unfolding subcloud_alarms_update_def
  by (intro keeps_intros keeps_modify db_wf_set_alarms) (auto simp: db_wf_tables)

lemma subcloud_alarms_delete_wf [db_wf_keeps]: "keeps db_wf (subcloud_alarms_delete ctx n)"
  unfolding subcloud_alarms_delete_def
  by (intro keeps_intros keeps_modify db_wf_set_alarms) (auto simp: db_wf_tables)

end
