(* ===== verification/DC_World.thy ===== *)
theory DC_World
  imports DC_DB_Wf
begin

text \<open>
  What a service of the system controller acts on: the database, the local file system, the
  calls it makes to other services, and a state \<open>w_ext\<close> that stands for those services. A client
  method (\<open>sysinv\<close>, \<open>patching\<close>, \<open>nfv_client\<close>, rpc) is a parameter of type \<open>('x, 'a) io\<close>: it can
  answer anything and raise anything, and can change only \<open>w_ext\<close>. The calls that change another
  service, and the sleeps, are logged in \<open>w_log\<close> in the order they are made.
\<close>

section \<open>Paths\<close>

text \<open>\<open>os.path.join(a, b)\<close>, \<open>os.path.basename\<close>, and \<open>os.path.abspath\<close> of a POSIX path.\<close>

definition path_join :: "string \<Rightarrow> string \<Rightarrow> string" where
  "path_join a b =
     (if take 1 b = ''/'' then b
      else if a = [] \<or> last a = CHR ''/'' then a @ b
      else a @ ''/'' @ b)"

definition basename :: "string \<Rightarrow> string" where
  "basename p = rev (takeWhile (\<lambda>c. c \<noteq> CHR ''/'') (rev p))"

text \<open>\<open>s.split(sep)\<close> for a one-character separator.\<close>

fun split_on :: "char \<Rightarrow> string \<Rightarrow> string list" where
  "split_on c [] = [[]]"
| "split_on c (x # xs) =
     (if x = c then [] # split_on c xs
      else case split_on c xs of [] \<Rightarrow> [[x]] | w # ws \<Rightarrow> (x # w) # ws)"

text \<open>The components of an absolute path: empty ones and \<open>.\<close> dropped, \<open>..\<close> drops the one before.\<close>

definition norm_step :: "string list \<Rightarrow> string \<Rightarrow> string list" where
  "norm_step acc c =
     (if c = [] \<or> c = ''.'' then acc else if c = ''..'' then butlast acc else acc @ [c])"

definition abspath :: "string \<Rightarrow> string \<Rightarrow> string" where
  "abspath cwd p =
     (let cs = foldl norm_step [] (split_on (CHR ''/'') (path_join cwd p))
      in if cs = [] then ''/'' else concat (map (\<lambda>c. ''/'' @ c) cs))"

lemma split_on_nonempty [simp]: "split_on c s \<noteq> []"
  by (cases s) (simp_all split: list.splits)

lemma basename_no_slash: "CHR ''/'' \<notin> set (basename p)"
  by (auto simp: basename_def dest: set_takeWhileD)

lemma path_join_relative: "a \<noteq> [] \<Longrightarrow> last a \<noteq> CHR ''/'' \<Longrightarrow> CHR ''/'' \<notin> set b \<Longrightarrow>
  path_join a b = a @ ''/'' @ b"
  by (cases b) (auto simp: path_join_def)

section \<open>Files\<close>

record fs =
  fs_files :: "string \<rightharpoonup> string"
  fs_dirs :: "string set"

definition isfile :: "string \<Rightarrow> fs \<Rightarrow> bool" where
  "isfile p f \<longleftrightarrow> fs_files f p \<noteq> None"

definition isdir :: "string \<Rightarrow> fs \<Rightarrow> bool" where
  "isdir p f \<longleftrightarrow> p \<in> fs_dirs f"

text \<open>\<open>shutil.copy\<close> to a path that names the file itself, or of a file that is not there, raises.\<close>

definition copy_file :: "string \<Rightarrow> string \<Rightarrow> (fs, unit) io" where
  "copy_file src dest = (\<lambda>f. case fs_files f src of
       None \<Rightarrow> (Inl (IOError (''No such file or directory: '' @ src)), f)
     | Some content \<Rightarrow>
         if src = dest then (Inl (IOError (src @ '' and '' @ dest @ '' are the same file'')), f)
         else (Inr (), f\<lparr>fs_files := (fs_files f)(dest \<mapsto> content)\<rparr>))"

definition makedirs :: "string \<Rightarrow> (fs, unit) io" where
  "makedirs d = modify (\<lambda>f. f\<lparr>fs_dirs := insert d (fs_dirs f)\<rparr>)"

definition remove_file :: "string \<Rightarrow> (fs, unit) io" where
  "remove_file p = modify (\<lambda>f. f\<lparr>fs_files := (fs_files f)(p := None)\<rparr>)"

section \<open>The world of a service\<close>

datatype action =
    Sleep nat
  | HostAction string string string
  | PatchAction string string "string list"
  | VimAction string string
  | SysinvAction string string
  | AuditRpc string "nat option"
  | OrchRpc string
  | FaultSet string
  | FaultClear string
  | StateRpc string endpoint_type sync_status
  | OnlineNotification string
  | ManagedNotification string
  | Playbook "string list"
  | KeystoneAction string string
  | RouteAction string string string
  | KubeAction string string
  | ManagerRpc string string
  | ShellCommand string

record 'x world =
  w_db :: db
  w_fs :: fs
  w_log :: "action list"
  w_ext :: 'x

definition zoom :: "('w \<Rightarrow> 's) \<Rightarrow> ('s \<Rightarrow> 'w \<Rightarrow> 'w) \<Rightarrow> ('s, 'a) io \<Rightarrow> ('w, 'a) io" where
  "zoom get put m = (\<lambda>w. case m (get w) of (r, s) \<Rightarrow> (r, put s w))"

definition db_io :: "(db, 'a) io \<Rightarrow> ('x world, 'a) io" where
  "db_io = zoom w_db (\<lambda>d w. w\<lparr>w_db := d\<rparr>)"

definition fs_io :: "(fs, 'a) io \<Rightarrow> ('x world, 'a) io" where
  "fs_io = zoom w_fs (\<lambda>f w. w\<lparr>w_fs := f\<rparr>)"

text \<open>A call that only asks, and a call that asks another service to do something.\<close>

definition ask :: "('x, 'a) io \<Rightarrow> ('x world, 'a) io" where
  "ask = zoom w_ext (\<lambda>x w. w\<lparr>w_ext := x\<rparr>)"

definition log_action :: "action \<Rightarrow> ('x world, unit) io" where
  "log_action a = modify (\<lambda>w. w\<lparr>w_log := w_log w @ [a]\<rparr>)"

definition call :: "action \<Rightarrow> ('x, 'a) io \<Rightarrow> ('x world, 'a) io" where
  "call a m = seq (log_action a) (ask m)"

lemma zoom_apply: "zoom g p m w = (case m (g w) of (r, s) \<Rightarrow> (r, p s w))"
  by (simp add: zoom_def)

lemma db_io_apply: "db_io m w = (case m (w_db w) of (r, s) \<Rightarrow> (r, w\<lparr>w_db := s\<rparr>))"
  by (simp add: db_io_def zoom_def)

lemma fs_io_apply: "fs_io m w = (case m (w_fs w) of (r, s) \<Rightarrow> (r, w\<lparr>w_fs := s\<rparr>))"
  by (simp add: fs_io_def zoom_def)

lemma ask_apply: "ask m w = (case m (w_ext w) of (r, s) \<Rightarrow> (r, w\<lparr>w_ext := s\<rparr>))"
  by (simp add: ask_def zoom_def)

lemma call_apply:
  "call a m w = (case m (w_ext w) of (r, s) \<Rightarrow> (r, w\<lparr>w_log := w_log w @ [a], w_ext := s\<rparr>))"
  by (simp add: call_def log_action_def seq_def bnd_def modify_def ask_apply split: prod.splits)

lemmas world_io_defs = db_io_apply fs_io_apply ask_apply call_apply

section \<open>Invariants of the parts\<close>

text \<open>A computation on one part keeps what it keeps of that part, and all of the others.\<close>

lemma keeps_db_io: "keeps I m \<Longrightarrow> keeps (\<lambda>w. I (w_db w)) (db_io m)"
  by (auto simp: keeps_def db_io_apply split: prod.splits)

lemma keeps_db_fs_io [keeps_intros]: "keeps (\<lambda>w. I (w_db w)) (fs_io m)"
  by (simp add: keeps_def fs_io_apply split: prod.splits)

lemma keeps_db_ask [keeps_intros]: "keeps (\<lambda>w. I (w_db w)) (ask m)"
  by (simp add: keeps_def ask_apply split: prod.splits)

lemma keeps_db_call [keeps_intros]: "keeps (\<lambda>w. I (w_db w)) (call a m)"
  by (simp add: keeps_def call_apply split: prod.splits)

lemma keeps_db_log_action [keeps_intros]: "keeps (\<lambda>w. I (w_db w)) (log_action a)"
  by (simp add: keeps_def log_action_def)

text \<open>The invariant under which the services are proved: the schema of the database.\<close>

definition world_wf :: "'x world \<Rightarrow> bool" where
  "world_wf w \<longleftrightarrow> db_wf (w_db w)"

named_theorems world_wf_keeps

lemma keeps_world_db_io [keeps_intros]: "keeps db_wf m \<Longrightarrow> keeps world_wf (db_io m)"
  unfolding world_wf_def by (rule keeps_db_io)

lemma keeps_world_fs_io [keeps_intros]: "keeps world_wf (fs_io m)"
  unfolding world_wf_def by (rule keeps_db_fs_io)

lemma keeps_world_ask [keeps_intros]: "keeps world_wf (ask m)"
  unfolding world_wf_def by (rule keeps_db_ask)

lemma keeps_world_call [keeps_intros]: "keeps world_wf (call a m)"
  unfolding world_wf_def by (rule keeps_db_call)

lemma keeps_world_log_action [keeps_intros]: "keeps world_wf (log_action a)"
  unfolding world_wf_def by (rule keeps_db_log_action)

section \<open>What a computation establishes when it returns\<close>

definition ensures :: "('s \<Rightarrow> bool) \<Rightarrow> ('s, 'a) io \<Rightarrow> ('a \<Rightarrow> 's \<Rightarrow> bool) \<Rightarrow> bool" where
  "ensures P m Q \<longleftrightarrow> (\<forall>s x t. P s \<longrightarrow> m s = (Inr x, t) \<longrightarrow> Q x t)"

lemma ensuresI: "(\<And>s x t. P s \<Longrightarrow> m s = (Inr x, t) \<Longrightarrow> Q x t) \<Longrightarrow> ensures P m Q"
  by (simp add: ensures_def)

lemma ensuresD: "ensures P m Q \<Longrightarrow> P s \<Longrightarrow> m s = (Inr x, t) \<Longrightarrow> Q x t"
  by (simp add: ensures_def)

lemma ensures_ret: "(\<And>s. P s \<Longrightarrow> Q x s) \<Longrightarrow> ensures P (ret x) Q"
  by (simp add: ensures_def)

lemma ensures_raise: "ensures P (raise e) Q"
  by (simp add: ensures_def)

lemma bnd_Inr_iff: "bnd m f s = (Inr y, t) \<longleftrightarrow> (\<exists>x s'. m s = (Inr x, s') \<and> f x s' = (Inr y, t))"
  by (auto simp: bnd_apply split: prod.splits sum.splits)

lemma seq_Inr_iff: "seq m n s = (Inr y, t) \<longleftrightarrow> (\<exists>x s'. m s = (Inr x, s') \<and> n s' = (Inr y, t))"
  by (simp add: seq_def bnd_Inr_iff)

lemma db_io_Inr_iff:
  "db_io m w = (Inr x, w') \<longleftrightarrow> (\<exists>d. m (w_db w) = (Inr x, d) \<and> w' = w\<lparr>w_db := d\<rparr>)"
  by (auto simp: db_io_apply split: prod.splits)

lemma ensures_bnd: "ensures P m R \<Longrightarrow> (\<And>x. ensures (R x) (f x) Q) \<Longrightarrow> ensures P (bnd m f) Q"
  by (auto simp: ensures_def bnd_Inr_iff)

lemma ensures_seq: "ensures P m (\<lambda>_. R) \<Longrightarrow> ensures R n Q \<Longrightarrow> ensures P (seq m n) Q"
  by (auto simp: seq_def intro: ensures_bnd)

lemma ensures_fold_io:
  "(\<And>x a. x \<in> set xs \<Longrightarrow> ensures (I a) (f x a) I) \<Longrightarrow> ensures (I a) (fold_io f xs a) I"
proof (induction xs arbitrary: a)
  case Nil
  then show ?case by (auto simp: ensures_def)
next
  case (Cons x xs)
  then show ?case by (auto intro!: ensures_bnd)
qed

lemma ensures_pre: "ensures P m Q \<Longrightarrow> (\<And>s. P' s \<Longrightarrow> P s) \<Longrightarrow> ensures P' m Q"
  by (auto simp: ensures_def)

lemma ensures_post: "ensures P m Q \<Longrightarrow> (\<And>x s. Q x s \<Longrightarrow> Q' x s) \<Longrightarrow> ensures P m Q'"
  by (auto simp: ensures_def)

end
