(* ===== verification/DC_StateManager.thy ===== *)
theory DC_StateManager
  imports DC_World
begin

text \<open>
  \<open>SubcloudStateManager\<close> of \<open>dcmanager/state/subcloud_state_manager.py\<close>: it records the sync status of
  the endpoints and the availability of the subclouds, raises and clears the alarms, and tells
  dcorch, cert-mon and the audit service. \<open>state_env\<close> holds those services.

  The lock per subcloud that the source takes covers \<open>update_named_endpoint_status\<close> only, so only
  that is one step for the other callers. \<open>update_subcloud_availability\<close> is not: its parts
  \<open>announce_availability\<close> and \<open>write_availability\<close> are separate transactions, and an update of a
  status can run in between (\<open>DC_ManageProps.offline_race\<close>).
\<close>

section \<open>The services\<close>

text \<open>The alarms \<open>FM_ALARM_ID_DC_SUBCLOUD_...\<close> of \<open>fm_api\<close>.\<close>

datatype alarm_id = SUBCLOUD_OFFLINE | SUBCLOUD_RESOURCE_OUT_OF_SYNC | SUBCLOUD_BACKUP_FAILED

record 'x state_env =
  se_get_fault :: "alarm_id \<Rightarrow> string \<Rightarrow> ('x, bool) io"
  se_clear_fault :: "alarm_id \<Rightarrow> string \<Rightarrow> ('x, unit) io"
  se_set_fault :: "alarm_id \<Rightarrow> string \<Rightarrow> ('x, unit) io"
  se_update_subcloud_states :: "string \<Rightarrow> management \<Rightarrow> availability option \<Rightarrow> ('x, unit) io"
  se_add_sync_endpoint_type :: "string \<Rightarrow> endpoint_type list \<Rightarrow> ('x, unit) io"
  se_remove_sync_endpoint_type :: "string \<Rightarrow> endpoint_type list \<Rightarrow> ('x, unit) io"
  se_subcloud_online :: "string \<Rightarrow> ('x, unit) io"
  se_trigger_subcloud_audits :: "nat \<Rightarrow> ('x, unit) io"
  se_trigger_patch_load_audits :: "nat \<Rightarrow> ('x, unit) io"

section \<open>Alarms\<close>

definition endpoint_entity :: "string \<Rightarrow> endpoint_type \<Rightarrow> string" where
  "endpoint_entity name e = ''subcloud='' @ name @ ''.resource='' @ endpoint_type_str e"

definition subcloud_entity :: "string \<Rightarrow> string" where
  "subcloud_entity name = ''subcloud='' @ name"

text \<open>A failure to set or to clear an alarm is logged; one to query it is not caught.\<close>

definition set_or_clear ::
  "'x state_env \<Rightarrow> alarm_id \<Rightarrow> string \<Rightarrow> bool \<Rightarrow> bool \<Rightarrow> ('x world, unit) io" where
  "set_or_clear env alarm entity clear set_it =
     bnd (ask (se_get_fault env alarm entity)) (\<lambda>fault.
       if clear \<and> fault then
         try_catch (call (FaultClear entity) (se_clear_fault env alarm entity)) (\<lambda>_. ret ())
       else if \<not> fault \<and> set_it then
         try_catch (call (FaultSet entity) (se_set_fault env alarm entity)) (\<lambda>_. ret ())
       else ret ())"

definition update_sync_alarm ::
  "'x state_env \<Rightarrow> string \<Rightarrow> endpoint_type \<Rightarrow> sync_status \<Rightarrow> bool \<Rightarrow> ('x world, unit) io" where
  "update_sync_alarm env name e sync alarmable =
     set_or_clear env SUBCLOUD_RESOURCE_OUT_OF_SYNC (endpoint_entity name e)
       (sync \<noteq> SYNC_STATUS_OUT_OF_SYNC) (alarmable \<and> sync = SYNC_STATUS_OUT_OF_SYNC)"

definition raise_or_clear_subcloud_status_alarm ::
  "'x state_env \<Rightarrow> string \<Rightarrow> availability \<Rightarrow> ('x world, unit) io" where
  "raise_or_clear_subcloud_status_alarm env name avail =
     set_or_clear env SUBCLOUD_OFFLINE (subcloud_entity name)
       (avail = AVAILABILITY_ONLINE) (avail = AVAILABILITY_OFFLINE)"

section \<open>The sync status of endpoints\<close>

definition original_identity_status :: "subcloud_status list \<Rightarrow> sync_status option" where
  "original_identity_status sts =
     map_option ss_sync_status
       (find (\<lambda>r. ss_endpoint_type r = ENDPOINT_TYPE_IDENTITY) (rev sts))"

definition update_one_endpoint ::
  "'x state_env \<Rightarrow> request_context option \<Rightarrow> subcloud \<Rightarrow> subcloud_status list \<Rightarrow> endpoint_type \<Rightarrow>
   sync_status \<Rightarrow> bool \<Rightarrow> ('x world, unit) io" where
  "update_one_endpoint env ctx sc sts e sync alarmable =
     (case find (\<lambda>r. ss_endpoint_type r = e) sts of
        None \<Rightarrow> raise (BadRequest ''subcloud''
                  (''Endpoint '' @ endpoint_type_str e @ '' not found for subcloud''))
      | Some r \<Rightarrow>
          if ss_sync_status r = sync then ret ()
          else seq (db_io (subcloud_status_update ctx (sc_id sc) e sync))
              (seq (when_io (e = ENDPOINT_TYPE_IDENTITY \<and> sync \<noteq> SYNC_STATUS_UNKNOWN \<and>
                      original_identity_status sts = Some SYNC_STATUS_UNKNOWN)
                    (call (AuditRpc ''trigger_subcloud_patch_load_audits'' (Some (sc_id sc)))
                      (se_trigger_patch_load_audits env (sc_id sc))))
                (update_sync_alarm env (sc_name sc) e sync alarmable)))"

definition update_all_endpoints ::
  "'x state_env \<Rightarrow> request_context option \<Rightarrow> subcloud \<Rightarrow> subcloud_status list \<Rightarrow> sync_status \<Rightarrow> bool \<Rightarrow>
   endpoint_type list \<Rightarrow> ('x world, unit) io" where
  "update_all_endpoints env ctx sc sts sync alarmable ignore_endpoints =
     (let es = filter (\<lambda>e. e \<notin> set ignore_endpoints) (map ss_endpoint_type sts)
      in seq (for_each (\<lambda>e. update_sync_alarm env (sc_name sc) e sync alarmable) es)
           (when_io (es \<noteq> [])
             (try_catch (seq (db_io (subcloud_status_update_endpoints ctx (sc_id sc) es sync)) (ret ()))
               (\<lambda>_. ret ()))))"

definition do_update_subcloud_endpoint_status ::
  "'x state_env \<Rightarrow> request_context option \<Rightarrow> nat \<Rightarrow> endpoint_type option \<Rightarrow> sync_status \<Rightarrow> bool \<Rightarrow>
   endpoint_type list \<Rightarrow> ('x world, unit) io" where
  "do_update_subcloud_endpoint_status env ctx subcloud_id e sync alarmable ignore_endpoints =
     bnd (db_io (subcloud_get_with_status ctx subcloud_id)) (\<lambda>pairs.
       let sc = fst (last pairs); sts = List.map_filter snd pairs
       in case e of
            Some e \<Rightarrow> update_one_endpoint env ctx sc sts e sync alarmable
          | None \<Rightarrow> update_all_endpoints env ctx sc sts sync alarmable ignore_endpoints)"

text \<open>Whether the rules admit an update of the status.\<close>

definition sync_update_allowed :: "subcloud \<Rightarrow> endpoint_type option \<Rightarrow> sync_status \<Rightarrow> bool" where
  "sync_update_allowed sc e sync \<longleftrightarrow>
     sync \<noteq> SYNC_STATUS_IN_SYNC \<or>
     sc_availability_status sc = AVAILABILITY_ONLINE \<and>
     (sc_management_state sc = MANAGEMENT_MANAGED \<or> e = Some ENDPOINT_TYPE_DC_CERT)"

definition update_named_endpoint_status ::
  "'x state_env \<Rightarrow> request_context option \<Rightarrow> string \<Rightarrow> endpoint_type option \<Rightarrow> sync_status \<Rightarrow> bool \<Rightarrow>
   endpoint_type list \<Rightarrow> ('x world, unit) io" where
  "update_named_endpoint_status env ctx name e sync alarmable ignore_endpoints =
     (if name = [] then raise (BadRequest ''subcloud'' ''Subcloud name not provided'')
      else bnd (db_io (subcloud_get_by_name ctx name)) (\<lambda>sc.
        if sync_update_allowed sc e sync then
          do_update_subcloud_endpoint_status env ctx (sc_id sc) e sync alarmable ignore_endpoints
        else ret ()))"

definition update_subcloud_endpoint_status ::
  "'x state_env \<Rightarrow> request_context option \<Rightarrow> string option \<Rightarrow> endpoint_type option \<Rightarrow> sync_status \<Rightarrow> bool \<Rightarrow>
   endpoint_type list \<Rightarrow> ('x world, unit) io" where
  "update_subcloud_endpoint_status env ctx name e sync alarmable ignore_endpoints =
     (if truthy_str name then
        update_named_endpoint_status env ctx (the name) e sync alarmable ignore_endpoints
      else bnd (db_io (subcloud_get_all ctx)) (for_each (\<lambda>sc.
             update_named_endpoint_status env ctx (sc_name sc) e sync alarmable ignore_endpoints)))"

section \<open>The availability of a subcloud\<close>

definition update_subcloud_state ::
  "'x state_env \<Rightarrow> string \<Rightarrow> management \<Rightarrow> availability option \<Rightarrow> ('x world, unit) io" where
  "update_subcloud_state env name mgmt avail =
     try_catch (call (OrchRpc name) (se_update_subcloud_states env name mgmt avail)) (\<lambda>_. ret ())"

text \<open>First the alarm and, for a subcloud that goes offline, the statuses of its endpoints; then, in a
  transaction of its own, the availability. Nothing keeps other updates from running in between.\<close>

definition announce_availability ::
  "'x state_env \<Rightarrow> request_context option \<Rightarrow> string \<Rightarrow> availability \<Rightarrow> ('x world, unit) io" where
  "announce_availability env ctx name avail =
     seq (raise_or_clear_subcloud_status_alarm env name avail)
       (when_io (avail = AVAILABILITY_OFFLINE)
          (update_named_endpoint_status env ctx name None SYNC_STATUS_UNKNOWN True []))"

definition write_availability ::
  "'x state_env \<Rightarrow> request_context option \<Rightarrow> subcloud \<Rightarrow> string \<Rightarrow> availability \<Rightarrow> nat option \<Rightarrow>
   ('x world, unit) io" where
  "write_availability env ctx sc name avail fail_count =
      (try_else (db_io (subcloud_update ctx (sc_id sc)
            (no_values\<lparr>sv_availability_status := Some avail, sv_audit_fail_count := fail_count\<rparr>)))
        (\<lambda>e. case e of SubcloudNotFound _ \<Rightarrow> ret () | _ \<Rightarrow> raise e)
        (\<lambda>updated.
          seq (when_io (avail = AVAILABILITY_ONLINE)
                (seq (call (OnlineNotification name) (se_subcloud_online env name))
                  (call (AuditRpc ''trigger_subcloud_audits'' (Some (sc_id sc)))
                    (se_trigger_subcloud_audits env (sc_id sc)))))
            (update_subcloud_state env name (sc_management_state updated) (Some avail))))"

definition subcloud_goes ::
  "'x state_env \<Rightarrow> request_context option \<Rightarrow> subcloud \<Rightarrow> string \<Rightarrow> availability \<Rightarrow> nat option \<Rightarrow>
   ('x world, unit) io" where
  "subcloud_goes env ctx sc name avail fail_count =
     seq (announce_availability env ctx name avail) (write_availability env ctx sc name avail fail_count)"

definition update_subcloud_availability ::
  "'x state_env \<Rightarrow> request_context option \<Rightarrow> string \<Rightarrow> availability option \<Rightarrow> bool \<Rightarrow> nat option \<Rightarrow>
   ('x world, unit) io" where
  "update_subcloud_availability env ctx name avail update_state_only fail_count =
     bnd (db_io (subcloud_get_by_name ctx name)) (\<lambda>sc.
       if update_state_only then
         update_subcloud_state env name (sc_management_state sc) avail
       else case avail of
         None \<Rightarrow> try_else (db_io (subcloud_update admin_context (sc_id sc)
                  (no_values\<lparr>sv_audit_fail_count := fail_count\<rparr>)))
               (\<lambda>e. case e of SubcloudNotFound _ \<Rightarrow> ret () | _ \<Rightarrow> raise e) (\<lambda>_. ret ())
       | Some a \<Rightarrow> subcloud_goes env ctx sc name a fail_count)"

section \<open>The endpoints that are synchronised\<close>

definition update_subcloud_sync_endpoint_type ::
  "'x state_env \<Rightarrow> request_context option \<Rightarrow> string \<Rightarrow> endpoint_type list \<Rightarrow> bool \<Rightarrow> ('x world, unit) io" where
  "update_subcloud_sync_endpoint_type env ctx name es installed =
     bnd (db_io (subcloud_get_by_name ctx name)) (\<lambda>sc.
       try_catch
         (seq (call (OrchRpc name)
                (if installed then se_add_sync_endpoint_type env name es
                 else se_remove_sync_endpoint_type env name es))
           (seq (for_each (\<lambda>e. db_io
                  (if installed then subcloud_status_create admin_context (sc_id sc) e
                   else subcloud_status_delete admin_context (sc_id sc) e)) es)
             (seq (db_io (subcloud_update admin_context (sc_id sc)
                     (no_values\<lparr>sv_openstack_installed := Some installed\<rparr>)))
               (ret ()))))
         (\<lambda>_. ret ()))"

end
