(* ===== verification/DC_Utils.thy ===== *)
theory DC_Utils
  imports DC_World
begin

text \<open>
  The pure helpers of \<open>dcmanager/common/utils.py\<close> and the lookups it makes on the database:
  parsing of certificate subjects and dates, kubernetes versions, vault load files, health
  reports, the checks before a backup operation, the update options of a subcloud.
\<close>

section \<open>Python texts\<close>

definition is_space :: "char \<Rightarrow> bool" where
  "is_space c = ((of_char c :: nat) \<in> {9, 10, 11, 12, 13, 28, 29, 30, 31, 32})"

definition strip :: "string \<Rightarrow> string" where
  "strip s = rev (dropWhile is_space (rev (dropWhile is_space s)))"

definition to_lower :: "char \<Rightarrow> char" where
  "to_lower c = (if 65 \<le> (of_char c :: nat) \<and> (of_char c :: nat) \<le> 90
                 then char_of ((of_char c :: nat) + 32) else c)"

definition lower :: "string \<Rightarrow> string" where
  "lower s = map to_lower s"

definition startswith :: "string \<Rightarrow> string \<Rightarrow> bool" where
  "startswith s p = (take (length p) s = p)"

definition endswith :: "string \<Rightarrow> string \<Rightarrow> bool" where
  "endswith s p = startswith (rev s) (rev p)"

text \<open>\<open>p in s\<close> on texts.\<close>

fun contains :: "string \<Rightarrow> string \<Rightarrow> bool" where
  "contains p [] = (p = [])"
| "contains p (c # s) = (startswith (c # s) p \<or> contains p s)"

lemma startswith_append [simp]: "startswith (p @ s) p"
  by (simp add: startswith_def)

lemma contains_iff: "contains p s \<longleftrightarrow> (\<exists>a b. s = a @ p @ b)"
proof (induction s)
  case Nil
  then show ?case by simp
next
  case (Cons c s)
  have "startswith (c # s) p \<longleftrightarrow> (\<exists>b. c # s = p @ b)"
    unfolding startswith_def by (metis append_eq_conv_conj append_take_drop_id)
  then show ?case using Cons by (auto simp: Cons_eq_append_conv)
qed

text \<open>\<open>int(text)\<close>: blanks around, one sign, digits with single underscores between them.\<close>

fun py_digits :: "string \<Rightarrow> string option" where
  "py_digits [] = None"
| "py_digits [c] = (if is_digit c then Some [c] else None)"
| "py_digits (c # d # cs) =
     (if \<not> is_digit c then None
      else if d = CHR ''_'' then map_option (Cons c) (py_digits cs)
      else map_option (Cons c) (py_digits (d # cs)))"

definition py_int :: "string \<Rightarrow> int option" where
  "py_int s =
     (case strip s of
        [] \<Rightarrow> None
      | c # cs \<Rightarrow>
          if c = CHR ''-'' then map_option (\<lambda>d. - int (nat_of_digits d)) (py_digits cs)
          else if c = CHR ''+'' then map_option (\<lambda>d. int (nat_of_digits d)) (py_digits cs)
          else map_option (\<lambda>d. int (nat_of_digits d)) (py_digits (c # cs)))"

text \<open>Batches of a fixed size, the last one filled up.\<close>

function get_batch_projects :: "nat \<Rightarrow> 'a list \<Rightarrow> 'a option list list" where
  "get_batch_projects n xs =
     (if n = 0 \<or> xs = [] then []
      else take n (map Some xs @ replicate n None) # get_batch_projects n (drop n xs))"
  by auto
termination by (relation "measure (\<lambda>(n, xs). length xs)") auto

declare get_batch_projects.simps [simp del]

lemma get_batch_projects_sizes: "b \<in> set (get_batch_projects n xs) \<Longrightarrow> length b = n"
proof (induction n xs rule: get_batch_projects.induct)
  case (1 n xs)
  then show ?case by (subst (asm) (2) get_batch_projects.simps) (auto split: if_splits)
qed

lemma get_batch_projects_all:
  "0 < n \<Longrightarrow> [x. Some x \<leftarrow> concat (get_batch_projects n xs)] = xs"
proof (induction n xs rule: get_batch_projects.induct)
  case (1 n xs)
  have some: "concat (map (case_option [] (\<lambda>x. [x]) \<circ> Some) ys) = ys" for ys :: "'a list"
    by (induction ys) auto
  have none: "[x. Some x \<leftarrow> replicate k None] = []" for k :: nat by (induction k) auto
  show ?case
  proof (cases "xs = []")
    case True
    then show ?thesis by (subst get_batch_projects.simps) simp
  next
    case False
    then have "[x. Some x \<leftarrow> concat (get_batch_projects n (drop n xs))] = drop n xs"
      using 1 by simp
    then show ?thesis using False "1.prems"
      by (subst get_batch_projects.simps) (simp add: take_map some none min_def split: if_splits)
  qed
qed

section \<open>Certificates of a kube rootca update\<close>

text \<open>One match of \<open>([^=]+=[^=]+)(?:\s|$)\<close> at the start of a text: the key up to the first
  equals sign; the value runs to the end of the text, or to the last blank before the next
  equals sign.\<close>

definition not_eq :: "char \<Rightarrow> bool" where
  "not_eq c = (c \<noteq> CHR ''='')"

definition match_pair :: "string \<Rightarrow> ((string \<times> string) \<times> string) option" where
  "match_pair s =
     (let key = takeWhile not_eq s;
          run = takeWhile not_eq (tl (dropWhile not_eq s));
          rest = dropWhile not_eq (tl (dropWhile not_eq s));
          value = rev (tl (dropWhile (\<lambda>c. \<not> is_space c) (rev run)))
      in if key = [] \<or> dropWhile not_eq s = [] \<or> run = [] then None
         else if rest = [] then Some ((key, run), [])
         else if value = [] then None
         else Some ((key, value), drop (Suc (length value)) run @ rest))"

lemma match_pair_shorter: "match_pair s = Some (kv, rest) \<Longrightarrow> length rest < length s"
proof -
  assume a: "match_pair s = Some (kv, rest)"
  let ?t = "tl (dropWhile not_eq s)"
  have len: "length (takeWhile not_eq s) + length (dropWhile not_eq s) = length s"
    by (metis length_append takeWhile_dropWhile_id)
  have len2: "length (takeWhile not_eq ?t) + length (dropWhile not_eq ?t) = length ?t"
    by (metis length_append takeWhile_dropWhile_id)
  show ?thesis using a len len2
    by (cases "takeWhile not_eq s") (auto simp: match_pair_def Let_def split: if_splits)
qed

function subject_pairs :: "string \<Rightarrow> (string \<times> string) list" where
  "subject_pairs s =
     (if s = [] then []
      else case match_pair s of
             None \<Rightarrow> subject_pairs (tl s)
           | Some (kv, rest) \<Rightarrow> kv # subject_pairs rest)"
  by auto
termination by (relation "measure length") (auto simp: match_pair_shorter)

declare subject_pairs.simps [simp del]

definition params_supported :: "string list" where
  "params_supported = [''C'', ''OU'', ''O'', ''ST'', ''CN'', ''L'']"

definition validate_certificate_subject :: "string option \<Rightarrow> bool \<times> string" where
  "validate_certificate_subject subject =
     (case subject of
        None \<Rightarrow> (True, [])
      | Some s \<Rightarrow>
          let keys = map fst (subject_pairs s)
          in if \<not> list_all (\<lambda>k. k \<in> set params_supported) keys
             then (False, ''There are parameters not supported '' @
                     ''for the certificate subject specification. '' @
                     ''The subject parameter has to be in the '' @
                     ''format of 'C=<Country> ST=<State/Province> '' @
                     ''L=<Locality> O=<Organization> OU=<OrganizationUnit> '' @
                     ''CN=<commonName>'')
             else if ''CN'' \<notin> set keys
             then (False, ''The CN=<commonName> parameter is required to be '' @
                     ''specified in subject argument'')
             else (True, []))"

text \<open>\<open>strptime(s, '%Y-%m-%d')\<close> as the days since 0001-01-01, and the check of the date against
  the clock, in microseconds since the same day.\<close>

definition is_leap :: "nat \<Rightarrow> bool" where
  "is_leap y = (y mod 4 = 0 \<and> (y mod 100 \<noteq> 0 \<or> y mod 400 = 0))"

definition days_in_month :: "nat \<Rightarrow> nat \<Rightarrow> nat" where
  "days_in_month y m =
     (if m = 2 then (if is_leap y then 29 else 28)
      else if m \<in> {4, 6, 9, 11} then 30 else 31)"

definition days_before_year :: "nat \<Rightarrow> nat" where
  "days_before_year y = (y - 1) * 365 + (y - 1) div 4 - (y - 1) div 100 + (y - 1) div 400"

definition days_of_date :: "nat \<Rightarrow> nat \<Rightarrow> nat \<Rightarrow> nat" where
  "days_of_date y m d = days_before_year y + sum_list (map (days_in_month y) [1..<m]) + (d - 1)"

definition month_field :: "string \<Rightarrow> nat option" where
  "month_field s =
     (if isdigit s \<and> length s \<le> 2 \<and> 1 \<le> nat_of_digits s \<and> nat_of_digits s \<le> 12
      then Some (nat_of_digits s) else None)"

definition day_field :: "string \<Rightarrow> nat option" where
  "day_field s =
     (let t = (if length s = 2 \<and> hd s = CHR '' '' then tl s else s)
      in if isdigit t \<and> length t \<le> 2 \<and> 1 \<le> nat_of_digits t \<and> nat_of_digits t \<le> 31
            \<and> (length s = length t \<or> nat_of_digits t \<le> 9)
         then Some (nat_of_digits t) else None)"

definition strptime_date :: "string \<Rightarrow> nat option" where
  "strptime_date s =
     (case split_on (CHR ''-'') s of
        [y, m, d] \<Rightarrow>
          if length y = 4 \<and> isdigit y then
            (case (month_field m, day_field d) of
               (Some m, Some d) \<Rightarrow>
                 if 1 \<le> nat_of_digits y \<and> d \<le> days_in_month (nat_of_digits y) m
                 then Some (days_of_date (nat_of_digits y) m d) else None
             | _ \<Rightarrow> None)
          else None
      | _ \<Rightarrow> None)"

definition microseconds_per_day :: int where
  "microseconds_per_day = 86400 * 1000000"

definition validate_expiry_date :: "int \<Rightarrow> string option \<Rightarrow> bool \<times> string" where
  "validate_expiry_date now expiry_date =
     (case expiry_date of
        None \<Rightarrow> (True, [])
      | Some s \<Rightarrow>
          (case strptime_date s of
             None \<Rightarrow> (False, ''expiry_date '' @ s @ '' doesn't match format YYYY-MM-DD'')
           | Some days \<Rightarrow>
               let delta_days = (int days * microseconds_per_day - now) div microseconds_per_day;
                   duration = delta_days * 24 + 24
               in if duration \<le> 24
                  then (False, ''New k8s rootCA should have at least 24 hours of '' @
                          ''validation before expiry.'')
                  else (True, [])))"

text \<open>A date is accepted exactly when its midnight is 24 hours or more away.\<close>

lemma validate_expiry_date_iff:
  "fst (validate_expiry_date now (Some s)) \<longleftrightarrow>
     (\<exists>days. strptime_date s = Some days \<and>
        now + microseconds_per_day \<le> int days * microseconds_per_day)"
proof -
  have "\<not> x div microseconds_per_day * 24 + 24 \<le> 24 \<longleftrightarrow> microseconds_per_day \<le> x" for x
  proof -
    have "0 < x div microseconds_per_day \<longleftrightarrow> microseconds_per_day \<le> x"
      by (rule pos_imp_zdiv_pos_iff) (simp add: microseconds_per_day_def)
    then show ?thesis by linarith
  qed
  then have "\<not> (int a * microseconds_per_day - now) div microseconds_per_day * 24 + 24 \<le> 24
      \<longleftrightarrow> now + microseconds_per_day \<le> int a * microseconds_per_day" for a
    by (simp only: le_diff_eq add.commute)
  then show ?thesis
    by (cases "strptime_date s") (simp_all add: validate_expiry_date_def Let_def, blast)
qed

section \<open>Kubernetes versions and loads\<close>

record kube_version =
  kv_version :: string
  kv_state :: string
  kv_target :: bool

definition get_active_kube_version :: "kube_version list \<Rightarrow> string option" where
  "get_active_kube_version ks =
     map_option kv_version (find (\<lambda>k. kv_target k \<and> kv_state k = ''active'') ks)"

definition get_available_kube_version :: "kube_version list \<Rightarrow> string option" where
  "get_available_kube_version ks =
     map_option kv_version (find (\<lambda>k. kv_state k = ''available'') ks)"

text \<open>Python's order of tuples.\<close>

fun tuple_less :: "int list \<Rightarrow> int list \<Rightarrow> bool" where
  "tuple_less [] [] = False"
| "tuple_less [] (_ # _) = True"
| "tuple_less (_ # _) [] = False"
| "tuple_less (a # as) (b # bs) = (if a = b then tuple_less as bs else a < b)"

fun ints_of :: "string list \<Rightarrow> int list option" where
  "ints_of [] = Some []"
| "ints_of (w # ws) =
     (case (py_int w, ints_of ws) of (Some i, Some is) \<Rightarrow> Some (i # is) | _ \<Rightarrow> None)"

definition version_fields :: "string \<Rightarrow> int list option" where
  "version_fields v = ints_of (split_on (CHR ''.'') (tl v))"

definition invalid_kube_versions :: "string option \<Rightarrow> string option \<Rightarrow> exn" where
  "invalid_kube_versions l r =
     PyException (''Invalid kube version(s), left: ('' @ show_str_opt l @ ''), right: ('' @
       show_str_opt r @ '')'')"

definition compare_fields :: "int list \<Rightarrow> int list \<Rightarrow> int" where
  "compare_fields l r =
     (let n = min (length l) (length r); l = take n l; r = take n r
      in of_bool (tuple_less r l) - of_bool (tuple_less l r))"

definition kube_version_compare :: "string option \<Rightarrow> string option \<Rightarrow> exn + int" where
  "kube_version_compare left right =
     (case (left, right) of
        (Some l, Some r) \<Rightarrow>
          if l = [] then Inl IndexError
          else if hd l \<noteq> CHR ''v'' then Inl (invalid_kube_versions left right)
          else if r = [] then Inl IndexError
          else if hd r \<noteq> CHR ''v'' then Inl (invalid_kube_versions left right)
          else (case (version_fields l, version_fields r) of
                  (Some ls, Some rs) \<Rightarrow> Inr (compare_fields ls rs)
                | _ \<Rightarrow> Inl ValueError)
      | _ \<Rightarrow> Inl (invalid_kube_versions left right))"

lemma tuple_less_irrefl [simp]: "\<not> tuple_less l l"
  by (induction l) auto

lemma tuple_less_asym: "tuple_less l r \<Longrightarrow> \<not> tuple_less r l"
  by (induction l r rule: tuple_less.induct) (auto split: if_splits)

lemma tuple_less_total: "length l = length r \<Longrightarrow> \<not> tuple_less l r \<Longrightarrow> \<not> tuple_less r l \<Longrightarrow> l = r"
  by (induction l r rule: tuple_less.induct) (auto split: if_splits)

lemma tuple_less_trans: "tuple_less l m \<Longrightarrow> tuple_less m r \<Longrightarrow> tuple_less l r"
proof (induction l r arbitrary: m rule: tuple_less.induct)
  case (4 a as b bs)
  then show ?case by (cases m) (auto split: if_splits)
qed (auto elim: tuple_less.elims)

lemma compare_fields_swap: "compare_fields r l = - compare_fields l r"
  by (simp add: compare_fields_def Let_def min.commute)

lemma compare_fields_range: "compare_fields l r \<in> {-1, 0, 1}"
  by (auto simp: compare_fields_def Let_def of_bool_def)

text \<open>Only the fields both versions have count.\<close>

lemma compare_fields_eq_iff:
  "compare_fields l r = 0 \<longleftrightarrow>
     take (min (length l) (length r)) l = take (min (length l) (length r)) r"
  (is "_ \<longleftrightarrow> ?l = ?r")
proof -
  have "length ?l = length ?r" by simp
  then show ?thesis
    using tuple_less_total [of ?l ?r] tuple_less_asym [of ?l ?r]
    by (auto simp: compare_fields_def Let_def of_bool_def split: if_splits)
qed

record load =
  ld_id :: nat
  ld_software_version :: string
  ld_state :: string
  ld_compatible_version :: string
  ld_required_patches :: string

definition get_loads_for_patching :: "load list \<Rightarrow> string list" where
  "get_loads_for_patching loads =
     map ld_software_version (filter (\<lambda>l. ld_state l \<in> {''active'', ''imported''}) loads)"

definition LOADS_VAULT_DIR :: string where
  "LOADS_VAULT_DIR = ''/opt/dc-vault/loads''"

text \<open>The directory is listed in an order the program does not choose; the last match wins.
  \<open>None\<close> is a directory that does not exist.\<close>

definition last_match :: "(string \<Rightarrow> bool) \<Rightarrow> string list \<Rightarrow> string option" where
  "last_match p fs = find p (rev fs)"

definition get_vault_load_files ::
  "(string \<Rightarrow> string list option) \<Rightarrow> string \<Rightarrow> exn + (string option \<times> string option)" where
  "get_vault_load_files listdir version =
     (let vault_dir = LOADS_VAULT_DIR @ ''/'' @ version @ ''/''
      in case listdir vault_dir of
           None \<Rightarrow> Inr (None, None)
         | Some fs \<Rightarrow>
             let iso_file = last_match (\<lambda>f. endswith (lower f) ''.iso'') fs;
                 sig = last_match (\<lambda>f. endswith (lower f) ''.sig'') fs
             in if iso_file = None then Inl (VaultLoadMissingError ''.iso'' vault_dir)
                else if sig = None then Inl (VaultLoadMissingError ''.sig'' vault_dir)
                else Inr (map_option (path_join vault_dir) iso_file, map_option (path_join vault_dir) sig))"

definition get_matching_iso ::
  "(string \<Rightarrow> string list option) \<Rightarrow> string \<Rightarrow> string option \<times> string option" where
  "get_matching_iso listdir sw_version =
     (case get_vault_load_files listdir sw_version of
        Inl e \<Rightarrow> (None, Some (exn_str e))
      | Inr (iso_file, _) \<Rightarrow>
          if \<not> truthy_str iso_file
          then (None, Some (''Failed to get active load image. Provide '' @
                  ''active load image via '' @
                  ''\"system --os-region-name SystemController '' @ ''load-import --active\"''))
          else (iso_file, None))"

lemma get_matching_iso_xor: "(fst (get_matching_iso ls v) = None) = (snd (get_matching_iso ls v) \<noteq> None)"
  by (auto simp: get_matching_iso_def truthy_str_def split: sum.splits prod.splits option.splits)

section \<open>Health and ansible messages\<close>

text \<open>\<open>len(re.findall(p, s))\<close> for a literal pattern: the matches that do not overlap.\<close>

function count_matches :: "string \<Rightarrow> string \<Rightarrow> nat" where
  "count_matches p s =
     (if p = [] \<or> s = [] then 0
      else if startswith s p then Suc (count_matches p (drop (length p) s))
      else count_matches p (tl s))"
  by auto
termination by (relation "measure (\<lambda>(p, s). length s)") auto

declare count_matches.simps [simp del]

lemma count_matches_0: "p \<noteq> [] \<Longrightarrow> count_matches p s = 0 \<longleftrightarrow> \<not> contains p s"
proof (induction p s rule: count_matches.induct)
  case (1 p s)
  show ?case
  proof (cases s)
    case Nil
    then show ?thesis using "1.prems" by (simp add: count_matches.simps)
  next
    case (Cons c t)
    then show ?thesis using 1 by (subst count_matches.simps) auto
  qed
qed

definition pre_check_management_affected_alarm :: "string \<Rightarrow> bool" where
  "pre_check_management_affected_alarm system_health =
     (\<not> (0 < count_matches ''No alarms: [Fail]'' system_health \<and>
         count_matches ''[0] of which are management affecting'' system_health = 0))"

definition is_health_ok :: "string \<Rightarrow> bool" where
  "is_health_ok system_health =
     (let fails = count_matches ''[Fail]'' system_health
      in fails = 0 \<or>
         fails = 1 \<and> 0 < count_matches ''No alarms: [Fail]'' system_health \<and>
         0 < count_matches ''[0] of which are management affecting'' system_health)"

definition MAX_LINES_MSG :: nat where
  "MAX_LINES_MSG = 10"

definition search_words :: "string list" where
  "search_words = [''msg:'', ''fail'', ''error'', ''cmd'', ''stderr'']"

fun add_line :: "string list \<Rightarrow> string \<Rightarrow> string list \<Rightarrow> string list" where
  "add_line [] line brief = brief"
| "add_line (w # ws) line brief =
     (if contains w (lower line) then
        (if MAX_LINES_MSG \<le> length brief then brief
         else add_line ws line (if line \<in> set brief then brief else brief @ [line]))
      else add_line ws line brief)"

definition summarize_message :: "string list \<Rightarrow> string list" where
  "summarize_message msg = foldl (\<lambda>brief line. add_line search_words line brief) [] msg"

definition interesting :: "string \<Rightarrow> bool" where
  "interesting line \<longleftrightarrow> (\<exists>w \<in> set search_words. contains w (lower line))"

lemma add_line_eq:
  "length brief \<le> MAX_LINES_MSG \<Longrightarrow>
   add_line ws line brief =
     (if (\<exists>w \<in> set ws. contains w (lower line)) \<and> line \<notin> set brief \<and> length brief < MAX_LINES_MSG
      then brief @ [line] else brief)"
  by (induction ws arbitrary: brief) (auto simp: not_le)

lemma summarize_message_eq:
  "summarize_message msg = take MAX_LINES_MSG (rev (remdups (rev (filter interesting msg))))"
proof (induction msg rule: rev_induct)
  case Nil
  then show ?case by (simp add: summarize_message_def)
next
  case (snoc l msg)
  let ?u = "rev (remdups (rev (filter interesting msg)))"
  have step: "summarize_message (msg @ [l]) = add_line search_words l (summarize_message msg)"
    by (simp add: summarize_message_def)
  show ?case
  proof (cases "interesting l \<and> l \<notin> set ?u")
    case True
    then have "l \<notin> set (take MAX_LINES_MSG ?u)" by (meson in_set_takeD)
    then show ?thesis using True snoc
      by (auto simp: step add_line_eq interesting_def [symmetric] min_def)
  next
    case False
    show ?thesis
    proof (cases "interesting l \<and> length ?u < MAX_LINES_MSG")
      case True
      then have "take MAX_LINES_MSG ?u = ?u" by simp
      then show ?thesis using False True snoc
        by (auto simp: step add_line_eq interesting_def [symmetric])
    next
      case long: False
      then show ?thesis using False snoc
        by (auto simp: step add_line_eq interesting_def [symmetric] min_def not_less)
    qed
  qed
qed

section \<open>Checks before a backup operation\<close>

definition is_valid_for_backup_create :: "subcloud \<Rightarrow> exn + bool" where
  "is_valid_for_backup_create sc =
     (if sc_availability_status sc \<noteq> AVAILABILITY_ONLINE
         \<or> sc_management_state sc \<noteq> MANAGEMENT_MANAGED
         \<or> sc_deploy_status sc \<notin> set VALID_DEPLOY_STATES_FOR_BACKUP
      then Inl (ValidateFail (''Subcloud '' @ sc_name sc @ '' must be online, managed and have valid '' @
             ''deploy-status for the subcloud-backup '' @ ''create operation.''))
      else Inr True)"

definition is_valid_for_backup_delete :: "subcloud \<Rightarrow> exn + bool" where
  "is_valid_for_backup_delete sc =
     (if sc_availability_status sc \<noteq> AVAILABILITY_ONLINE
         \<or> sc_management_state sc \<noteq> MANAGEMENT_MANAGED
      then Inl (ValidateFail (''Subcloud '' @ sc_name sc @ '' must be online and managed for the subcloud-backup'' @
             '' delete operation with --local-only option.''))
      else Inr True)"

definition is_valid_for_backup_restore :: "subcloud \<Rightarrow> exn + bool" where
  "is_valid_for_backup_restore sc =
     (if sc_management_state sc \<noteq> MANAGEMENT_UNMANAGED
         \<or> sc_deploy_status sc \<in> set INVALID_DEPLOY_STATES_FOR_RESTORE
      then Inl (ValidateFail (''Subcloud '' @ sc_name sc @ '' must be unmanaged and in a valid deploy state '' @
             ''for the subcloud-backup restore operation.''))
      else Inr True)"

definition is_valid_for_backup_operation :: "string \<Rightarrow> subcloud \<Rightarrow> exn + bool" where
  "is_valid_for_backup_operation operation sc =
     (if operation = ''create'' then is_valid_for_backup_create sc
      else if operation = ''delete'' then is_valid_for_backup_delete sc
      else if operation = ''restore'' then is_valid_for_backup_restore sc
      else Inl (ValidateFail (''Invalid operation '' @ operation)))"

section \<open>Management addresses of a payload\<close>

definition admin_or_management :: "string \<Rightarrow> string \<Rightarrow> extra_args \<Rightarrow> jval" where
  "admin_or_management admin mgmt payload =
     (if truthy (jget payload admin) then jget payload admin
      else case payload mgmt of None \<Rightarrow> JStr [] | Some v \<Rightarrow> v)"

definition get_management_subnet :: "extra_args \<Rightarrow> jval" where
  "get_management_subnet = admin_or_management ''admin_subnet'' ''management_subnet''"

definition get_management_start_address :: "extra_args \<Rightarrow> jval" where
  "get_management_start_address =
     admin_or_management ''admin_start_address'' ''management_start_address''"

definition get_management_end_address :: "extra_args \<Rightarrow> jval" where
  "get_management_end_address =
     admin_or_management ''admin_end_address'' ''management_end_address''"

definition get_management_gateway_address :: "extra_args \<Rightarrow> jval" where
  "get_management_gateway_address =
     admin_or_management ''admin_gateway_address'' ''management_gateway_address''"

section \<open>Lookups in the database\<close>

definition get_sw_update_strategy_extra_args ::
  "request_context option \<Rightarrow> sw_type option \<Rightarrow> (db, extra_args option) io" where
  "get_sw_update_strategy_extra_args ctx update_type =
     try_catch (bnd (sw_update_strategy_get ctx update_type) (\<lambda>s. ret (st_extra_args s)))
       (\<lambda>e. if is_NotFound e then ret (Some Map.empty) else raise e)"

text \<open>The dictionary of update options: that of a row with a name, or the constant default.\<close>

record update_opts =
  uo_name :: string
  uo_storage_apply_type :: string
  uo_worker_apply_type :: string
  uo_max_parallel_workers :: int
  uo_alarm_restriction_type :: string
  uo_default_instance_action :: string

definition SW_UPDATE_OPTS_CONST_DEFAULT :: update_opts where
  "SW_UPDATE_OPTS_CONST_DEFAULT =
     \<lparr>uo_name = SW_UPDATE_DEFAULT_TITLE, uo_storage_apply_type = ''parallel'',
      uo_worker_apply_type = ''parallel'', uo_max_parallel_workers = 10,
      uo_alarm_restriction_type = ''relaxed'', uo_default_instance_action = ''migrate''\<rparr>"

definition sw_update_opts_w_name_db_model_to_dict :: "sw_update_opts \<Rightarrow> string \<Rightarrow> update_opts" where
  "sw_update_opts_w_name_db_model_to_dict r name =
     \<lparr>uo_name = name, uo_storage_apply_type = so_storage_apply_type r,
      uo_worker_apply_type = so_worker_apply_type r,
      uo_max_parallel_workers = so_max_parallel_workers r,
      uo_alarm_restriction_type = so_alarm_restriction_type r,
      uo_default_instance_action = so_default_instance_action r\<rparr>"

definition default_update_opts :: "request_context option \<Rightarrow> (db, update_opts) io" where
  "default_update_opts ctx =
     bnd (sw_update_opts_default_get ctx) (\<lambda>r.
       ret (case r of
              None \<Rightarrow> SW_UPDATE_OPTS_CONST_DEFAULT
            | Some r \<Rightarrow> sw_update_opts_w_name_db_model_to_dict r SW_UPDATE_DEFAULT_TITLE))"

definition get_sw_update_opts ::
  "request_context option \<Rightarrow> bool \<Rightarrow> nat option \<Rightarrow> (db, update_opts) io" where
  "get_sw_update_opts ctx for_sw_update subcloud_id =
     (case subcloud_id of
        None \<Rightarrow> default_update_opts ctx
      | Some i \<Rightarrow>
          bnd (sw_update_opts_get ctx i) (\<lambda>r.
            case r of
              Some r \<Rightarrow>
                bnd (subcloud_get ctx i) (\<lambda>sc.
                  ret (sw_update_opts_w_name_db_model_to_dict r (sc_name sc)))
            | None \<Rightarrow>
                if for_sw_update then default_update_opts ctx
                else raise (SubcloudPatchOptsNotFound i)))"

definition subcloud_get_by_ref ::
  "request_context option \<Rightarrow> string \<Rightarrow> (db, subcloud option) io" where
  "subcloud_get_by_ref ctx ref =
     try_catch
       (bnd (if isdigit ref then subcloud_get ctx (nat_of_digits ref) else subcloud_get_by_name ctx ref)
         (\<lambda>sc. ret (Some sc)))
       (\<lambda>e. case e of SubcloudNotFound _ \<Rightarrow> ret None | SubcloudNameNotFound _ \<Rightarrow> ret None
             | _ \<Rightarrow> raise e)"

definition subcloud_group_get_by_ref ::
  "request_context option \<Rightarrow> string \<Rightarrow> (db, subcloud_group option) io" where
  "subcloud_group_get_by_ref ctx ref =
     (if isdigit ref
      then try_catch (bnd (subcloud_group_get ctx (nat_of_digits ref)) (\<lambda>g. ret (Some g)))
             (\<lambda>e. case e of SubcloudGroupNotFound _ \<Rightarrow> ret None | _ \<Rightarrow> raise e)
      else try_catch (bnd (subcloud_group_get_by_name ctx ref) (\<lambda>g. ret (Some g)))
             (\<lambda>e. case e of SubcloudGroupNameNotFound _ \<Rightarrow> ret None | _ \<Rightarrow> raise e))"

end
