(* ===== verification/DC_Prestage.thy ===== *)
theory DC_Prestage
  imports DC_Utils
begin

text \<open>
  The validation and the status transitions of \<open>dcmanager/common/prestage.py\<close>, shared by the
  subcloud manager and the orchestrator. The queries to the system controller and to the
  subcloud are parameters, gathered in \<open>prestage_env\<close>; running the ansible playbooks is not
  modelled.
\<close>

section \<open>Decoding a password\<close>

text \<open>\<open>base64.b64decode\<close> as the standard library does it: characters outside the alphabet are
  skipped, two of padding end the text.\<close>

definition b64_value :: "char \<Rightarrow> nat option" where
  "b64_value c =
     (let n = (of_char c :: nat)
      in if 65 \<le> n \<and> n \<le> 90 then Some (n - 65)
         else if 97 \<le> n \<and> n \<le> 122 then Some (n - 71)
         else if 48 \<le> n \<and> n \<le> 57 then Some (n + 4)
         else if n = 43 then Some 62
         else if n = 47 then Some 63
         else None)"

definition b64_emit :: "nat \<Rightarrow> nat \<Rightarrow> nat \<Rightarrow> nat list \<Rightarrow> nat list" where
  "b64_emit quad leftover v out =
     (if quad = 0 then out
      else if quad = 1 then out @ [(leftover * 4 + v div 16) mod 256]
      else if quad = 2 then out @ [(leftover * 16 + v div 4) mod 256]
      else out @ [(leftover * 64 + v) mod 256])"

definition b64_left :: "nat \<Rightarrow> nat \<Rightarrow> nat" where
  "b64_left quad v =
     (if quad = 0 then v else if quad = 1 then v mod 16 else if quad = 2 then v mod 4 else 0)"

fun a2b_base64 :: "string \<Rightarrow> nat \<Rightarrow> nat \<Rightarrow> nat \<Rightarrow> nat list \<Rightarrow> exn + nat list" where
  "a2b_base64 [] quad pads leftover out =
     (if quad = 0 then Inr out
      else if quad = 1 then
        Inl (PyException (''Invalid base64-encoded string: number of data characters ('' @
               show_nat (length out div 3 * 4 + 1) @ '') cannot be 1 more than a multiple of 4''))
      else Inl (PyException ''Incorrect padding''))"
| "a2b_base64 (c # cs) quad pads leftover out =
     (if c = CHR ''='' then
        (if 2 \<le> quad \<and> 4 \<le> quad + Suc pads then Inr out
         else a2b_base64 cs quad (if 2 \<le> quad then Suc pads else pads) leftover out)
      else case b64_value c of
        None \<Rightarrow> a2b_base64 cs quad pads leftover out
      | Some v \<Rightarrow>
          a2b_base64 cs ((quad + 1) mod 4) 0 (b64_left quad v) (b64_emit quad leftover v out))"

text \<open>Well-formed UTF-8.\<close>

definition is_cont :: "nat \<Rightarrow> bool" where
  "is_cont b = (128 \<le> b \<and> b \<le> 191)"

fun utf8_ok :: "nat list \<Rightarrow> bool" where
  "utf8_ok [] = True"
| "utf8_ok (a # bs) =
     (if a < 128 then utf8_ok bs
      else if 194 \<le> a \<and> a \<le> 223 then
        (case bs of b # bs \<Rightarrow> is_cont b \<and> utf8_ok bs | _ \<Rightarrow> False)
      else if 224 \<le> a \<and> a \<le> 239 then
        (case bs of b # c # bs \<Rightarrow>
            is_cont b \<and> (a = 224 \<longrightarrow> 160 \<le> b) \<and> (a = 237 \<longrightarrow> b \<le> 159) \<and> is_cont c \<and> utf8_ok bs
          | _ \<Rightarrow> False)
      else if 240 \<le> a \<and> a \<le> 244 then
        (case bs of b # c # d # bs \<Rightarrow>
            is_cont b \<and> (a = 240 \<longrightarrow> 144 \<le> b) \<and> (a = 244 \<longrightarrow> b \<le> 143) \<and> is_cont c \<and> is_cont d
            \<and> utf8_ok bs
          | _ \<Rightarrow> False)
      else False)"

text \<open>The text of a UTF-8 decoding error is abbreviated to the name of its class.\<close>

definition decode_password :: "string \<Rightarrow> exn + nat list" where
  "decode_password s =
     (case a2b_base64 s 0 0 0 [] of
        Inl e \<Rightarrow> Inl e
      | Inr bs \<Rightarrow> if utf8_ok bs then Inr bs else Inl (PyException ''UnicodeDecodeError''))"

section \<open>Validation\<close>

record 'x prestage_env =
  pe_sw_version :: string
  pe_system_controller_upgrades :: "('x, nat) io"
  pe_subcloud_info :: "string \<Rightarrow> ('x, string \<times> string \<times> string) io"

definition is_deploy_status_prestage :: "deploy_state \<Rightarrow> bool" where
  "is_deploy_status_prestage s =
     (s \<in> {PRESTAGE_STATE_PREPARE, PRESTAGE_STATE_PACKAGES, PRESTAGE_STATE_IMAGES,
           PRESTAGE_STATE_FAILED, PRESTAGE_STATE_COMPLETE})"

definition is_system_controller_upgrading :: "('x, 'y) prestage_env_scheme \<Rightarrow> ('x world, bool) io" where
  "is_system_controller_upgrading env =
     bnd (ask (pe_system_controller_upgrades env)) (\<lambda>n. ret (n \<noteq> 0))"

definition password_check :: "jval \<Rightarrow> ('s, unit) io" where
  "password_check p =
     (if p = JNone \<or> p = JStr [] then
        raise (PrestagePreCheckFailedException None
          (''Missing required parameter 'sysadmin_password'' @ [CHR 0x27]) False)
      else case p of
        JStr s \<Rightarrow>
          (case decode_password s of
             Inl e \<Rightarrow> raise (PrestagePreCheckFailedException None
                 (''Failed to decode subcloud sysadmin_password,'' @
                  '' verify the password is base64 encoded.'' @ '' Details: '' @ exn_str e) False)
           | Inr _ \<Rightarrow> ret ())
      | _ \<Rightarrow> raise (PrestagePreCheckFailedException None
                 (''Failed to decode subcloud sysadmin_password,'' @
                  '' verify the password is base64 encoded.'' @ '' Details: '' @ exn_str TypeError) False))"

definition global_prestage_validate :: "('x, 'y) prestage_env_scheme \<Rightarrow> extra_args \<Rightarrow> ('x world, unit) io" where
  "global_prestage_validate env payload =
     bnd (is_system_controller_upgrading env) (\<lambda>upgrading.
       if upgrading then
         raise (PrestagePreCheckFailedException (Some SYSTEM_CONTROLLER_NAME)
           (''Prestage operations not allowed while system'' @
            '' controller upgrade is in progress.'') False)
       else password_check (jget payload ''sysadmin_password''))"

definition allowed_deploy_states :: "deploy_state list" where
  "allowed_deploy_states = [DEPLOY_STATE_DONE, PRESTAGE_STATE_FAILED, PRESTAGE_STATE_COMPLETE]"

fun join :: "string \<Rightarrow> string list \<Rightarrow> string" where
  "join sep [] = []"
| "join sep [x] = x"
| "join sep (x # xs) = x @ sep @ join sep xs"

definition initial_subcloud_validate :: "subcloud \<Rightarrow> ('s, unit) io" where
  "initial_subcloud_validate sc =
     (if sc_availability_status sc \<noteq> AVAILABILITY_ONLINE then
        raise (PrestagePreCheckFailedException (Some (sc_name sc)) ''Subcloud is offline.'' True)
      else if sc_management_state sc \<noteq> MANAGEMENT_MANAGED then
        raise (PrestagePreCheckFailedException (Some (sc_name sc)) ''Subcloud is not managed.'' True)
      else if sc_deploy_status sc \<notin> set allowed_deploy_states then
        raise (PrestagePreCheckFailedException (Some (sc_name sc))
          (''Prestage operation is only allowed while'' @ '' subcloud deploy status is one of: '' @
           join '', '' (map deploy_state_str allowed_deploy_states) @
           ''. The current deploy status is '' @ deploy_state_str (sc_deploy_status sc) @ ''.'') True)
      else ret ())"

definition get_prestage_subcloud_info ::
  "('x, 'y) prestage_env_scheme \<Rightarrow> string \<Rightarrow> ('x world, string \<times> string \<times> string) io" where
  "get_prestage_subcloud_info env name =
     try_catch (ask (pe_subcloud_info env name))
       (\<lambda>_. raise (PrestagePreCheckFailedException (Some name)
          ''Failed to retrieve subcloud system mode and system health.'' False))"

definition SYSTEM_MODE_SIMPLEX :: string where
  "SYSTEM_MODE_SIMPLEX = ''simplex''"

definition validate_prestage ::
  "('x, 'y) prestage_env_scheme \<Rightarrow> subcloud \<Rightarrow> bool \<Rightarrow> ('x world, string) io" where
  "validate_prestage env sc force =
     seq (initial_subcloud_validate sc)
       (bnd (get_prestage_subcloud_info env (sc_name sc)) (\<lambda>(mode, health, oam).
          if mode \<noteq> SYSTEM_MODE_SIMPLEX then
            raise (PrestagePreCheckFailedException (Some (sc_name sc))
              (''Prestage operation is only accepted for a simplex'' @ '' subcloud.'') True)
          else if \<not> force \<and> \<not> pre_check_management_affected_alarm health then
            raise (PrestagePreCheckFailedException (Some (sc_name sc))
              (''Subcloud has management affecting alarm(s).'' @
               '' Please resolve the alarm condition(s)'' @
               '' or use --force option and try again.'') False)
          else ret oam))"

section \<open>Status transitions\<close>

definition set_deploy_status :: "request_context option \<Rightarrow> nat \<Rightarrow> deploy_state \<Rightarrow> (db, subcloud) io" where
  "set_deploy_status ctx i s = subcloud_update ctx i (no_values\<lparr>sv_deploy_status := Some s\<rparr>)"

definition prestage_start :: "request_context option \<Rightarrow> nat \<Rightarrow> (db, subcloud) io" where
  "prestage_start ctx i = set_deploy_status ctx i PRESTAGE_STATE_PREPARE"

definition prestage_complete :: "request_context option \<Rightarrow> nat \<Rightarrow> (db, unit) io" where
  "prestage_complete ctx i = seq (set_deploy_status ctx i PRESTAGE_STATE_COMPLETE) (ret ())"

definition prestage_fail :: "request_context option \<Rightarrow> nat \<Rightarrow> (db, unit) io" where
  "prestage_fail ctx i = seq (set_deploy_status ctx i PRESTAGE_STATE_FAILED) (ret ())"

definition is_upgrade :: "('x, 'y) prestage_env_scheme \<Rightarrow> string \<Rightarrow> bool" where
  "is_upgrade env subcloud_version = (pe_sw_version env \<noteq> subcloud_version)"

section \<open>What the validation promises\<close>

text \<open>A validated subcloud is online, managed, and in a deploy status that a prestage may
  follow; any other outcome is a failed pre-check that an orchestrated prestage skips.\<close>

lemma initial_subcloud_validate_ok:
  "initial_subcloud_validate sc s = (Inr (), t) \<longleftrightarrow>
     t = s \<and> sc_availability_status sc = AVAILABILITY_ONLINE \<and>
     sc_management_state sc = MANAGEMENT_MANAGED \<and>
     sc_deploy_status sc \<in> {DEPLOY_STATE_DONE, PRESTAGE_STATE_FAILED, PRESTAGE_STATE_COMPLETE}"
  by (auto simp: initial_subcloud_validate_def allowed_deploy_states_def)

lemma initial_subcloud_validate_err:
  "initial_subcloud_validate sc s = (Inl e, t) \<Longrightarrow>
     t = s \<and> (\<exists>d. e = PrestagePreCheckFailedException (Some (sc_name sc)) d True)"
  by (auto simp: initial_subcloud_validate_def split: if_splits)

lemma keeps_password_check [keeps_intros]: "keeps I (password_check p)"
  by (simp add: password_check_def keeps_raise keeps_ret split: jval.splits sum.splits)

lemma keeps_initial_subcloud_validate [keeps_intros]: "keeps I (initial_subcloud_validate sc)"
  unfolding initial_subcloud_validate_def by (intro keeps_intros)

lemma keeps_global_prestage_validate [keeps_intros]:
  "keeps world_wf (global_prestage_validate env payload)"
  "keeps (\<lambda>w. I (w_db w)) (global_prestage_validate env payload)"
  unfolding global_prestage_validate_def is_system_controller_upgrading_def
  by (intro keeps_intros)+

lemma keeps_validate_prestage [keeps_intros]: "keeps world_wf (validate_prestage env sc f)"
  unfolding validate_prestage_def get_prestage_subcloud_info_def
  by (intro keeps_intros)

lemma set_deploy_status_wf [db_wf_keeps]: "keeps db_wf (set_deploy_status ctx i s)"
  unfolding set_deploy_status_def by (intro db_wf_keeps)

end
