(* ===== verification/DC_Json.thy ===== *)
theory DC_Json
  imports DC_World
begin

text \<open>
  The payloads of the subcloud manager: Python dictionaries that come from JSON and are written to
  the override files with \<open>json.dumps\<close>. A dictionary keeps the order in which its keys were added.
\<close>

datatype json =
    JNull
  | JBoolean bool
  | JNumber int
  | JText string
  | JArray "json list"
  | JObject "(string \<times> json) list"

type_synonym dict = "(string \<times> json) list"

section \<open>Dictionaries\<close>

definition dict_get :: "string \<Rightarrow> dict \<Rightarrow> json option" where
  "dict_get k d = map_of d k"

fun dict_set :: "string \<Rightarrow> json \<Rightarrow> dict \<Rightarrow> dict" where
  "dict_set k v [] = [(k, v)]"
| "dict_set k v ((k', v') # d) = (if k' = k then (k, v) # d else (k', v') # dict_set k v d)"

definition dict_del :: "string \<Rightarrow> dict \<Rightarrow> dict" where
  "dict_del k d = filter (\<lambda>p. fst p \<noteq> k) d"

definition dict_update :: "dict \<Rightarrow> dict \<Rightarrow> dict" where
  "dict_update new d = fold (\<lambda>(k, v). dict_set k v) new d"

text \<open>\<open>d[k]\<close>, which raises when the key is missing, and \<open>d[k][k'] = v\<close>.\<close>

definition dict_at :: "string \<Rightarrow> dict \<Rightarrow> exn + json" where
  "dict_at k d = (case dict_get k d of None \<Rightarrow> Inl KeyError | Some v \<Rightarrow> Inr v)"

definition text_at :: "string \<Rightarrow> dict \<Rightarrow> exn + string" where
  "text_at k d = (case dict_get k d of None \<Rightarrow> Inl KeyError | Some (JText s) \<Rightarrow> Inr s | Some _ \<Rightarrow> Inl TypeError)"

definition set_at :: "string \<Rightarrow> string \<Rightarrow> json \<Rightarrow> dict \<Rightarrow> exn + dict" where
  "set_at k k' v d =
     (case dict_get k d of
        None \<Rightarrow> Inl KeyError
      | Some (JObject x) \<Rightarrow> Inr (dict_set k (JObject (dict_set k' v x)) d)
      | Some _ \<Rightarrow> Inl TypeError)"

fun truthy_json :: "json \<Rightarrow> bool" where
  "truthy_json JNull = False"
| "truthy_json (JBoolean b) = b"
| "truthy_json (JNumber n) = (n \<noteq> 0)"
| "truthy_json (JText s) = (s \<noteq> [])"
| "truthy_json (JArray xs) = (xs \<noteq> [])"
| "truthy_json (JObject d) = (d \<noteq> [])"

definition dict_has :: "string \<Rightarrow> dict \<Rightarrow> bool" where
  "dict_has k d \<longleftrightarrow> (case dict_get k d of None \<Rightarrow> False | Some v \<Rightarrow> truthy_json v)"

text \<open>The scalar entries, in the form that the utilities take.\<close>

definition scalars :: "dict \<Rightarrow> extra_args" where
  "scalars d k =
     (case dict_get k d of
        Some (JText s) \<Rightarrow> Some (JStr s)
      | Some (JBoolean b) \<Rightarrow> Some (JBool b)
      | Some JNull \<Rightarrow> Some JNone
      | _ \<Rightarrow> None)"

lemma dict_get_set [simp]: "dict_get k (dict_set k' v d) = (if k = k' then Some v else dict_get k d)"
  by (induction k' v d rule: dict_set.induct) (auto simp: dict_get_def)

lemma dict_get_del [simp]: "dict_get k (dict_del k' d) = (if k = k' then None else dict_get k d)"
  by (induction d) (auto simp: dict_get_def dict_del_def)

section \<open>\<open>json.dumps\<close>\<close>

definition hex_digit :: "nat \<Rightarrow> char" where
  "hex_digit n = ''0123456789abcdef'' ! n"

definition escape_char :: "char \<Rightarrow> string" where
  "escape_char c =
     (let n = (of_char c :: nat)
      in if c = CHR 0x22 then [CHR 0x5C, CHR 0x22]
         else if c = CHR 0x5C then [CHR 0x5C, CHR 0x5C]
         else if n = 10 then [CHR 0x5C, CHR ''n'']
         else if n = 13 then [CHR 0x5C, CHR ''r'']
         else if n = 9 then [CHR 0x5C, CHR ''t'']
         else if n = 8 then [CHR 0x5C, CHR ''b'']
         else if n = 12 then [CHR 0x5C, CHR ''f'']
         else if n < 32 \<or> 127 \<le> n then
           [CHR 0x5C, CHR ''u'', CHR ''0'', CHR ''0'', hex_digit (n div 16), hex_digit (n mod 16)]
         else [c])"

definition json_string :: "string \<Rightarrow> string" where
  "json_string s = [CHR 0x22] @ concat (map escape_char s) @ [CHR 0x22]"

definition show_int :: "int \<Rightarrow> string" where
  "show_int n = (if n < 0 then ''-'' @ show_nat (nat (- n)) else show_nat (nat n))"

fun join_with :: "string \<Rightarrow> string list \<Rightarrow> string" where
  "join_with sep [] = []"
| "join_with sep [s] = s"
| "join_with sep (s # ss) = s @ sep @ join_with sep ss"

fun json_dumps :: "json \<Rightarrow> string" where
  "json_dumps JNull = ''null''"
| "json_dumps (JBoolean b) = (if b then ''true'' else ''false'')"
| "json_dumps (JNumber n) = show_int n"
| "json_dumps (JText s) = json_string s"
| "json_dumps (JArray xs) = ''['' @ join_with '', '' (map json_dumps xs) @ '']''"
| "json_dumps (JObject d) =
     ''{'' @ join_with '', '' (map (\<lambda>(k, v). json_string k @ '': '' @ json_dumps v) d) @ ''}''"

text \<open>The lines \<open>key: value\<close> of an override file.\<close>

definition override_lines :: "dict \<Rightarrow> string" where
  "override_lines d = concat (map (\<lambda>(k, v). k @ '': '' @ json_dumps v @ [CHR 0x0A]) d)"

end
