(* ===== verification/DC_SubcloudManager.thy ===== *)
theory DC_SubcloudManager
  imports DC_StateManager DC_Prestage DC_Json
begin

text \<open>
  \<open>SubcloudManager\<close> of \<open>dcmanager/manager/subcloud_manager.py\<close>, first part: its state, the data of
  RegionOne that it caches, changing the management state of a subcloud, deleting a subcloud, and
  what is done at start-up with operations that were in progress. The deployment and the backups
  are in \<open>DC_Deploy\<close> and \<open>DC_Backups\<close>. What it relies on are the fields of \<open>sm_env\<close>: the other services,
  keystone, sysinv, kubernetes, \<open>netaddr\<close>, and the configuration path and release of \<open>tsconfig\<close>.
\<close>

section \<open>State and services\<close>

record address_pool =
  ap_floating_address :: string
  ap_network :: string
  ap_prefix :: nat

record oam_addresses =
  oam_floating_ip :: string
  oam_subnet :: string

text \<open>The class attribute \<open>regionone_data\<close>: a dictionary that starts empty; None is a key that is
  missing.\<close>

record regionone_data =
  rd_admin_user_id :: "string option"
  rd_sysinv_user_id :: "string option"
  rd_dcmanager_user_id :: "string option"
  rd_admin_project_id :: "string option"
  rd_services_project_id :: "string option"
  rd_mgmt_interface_uuids :: "string list option"
  rd_mgmt_pool :: "address_pool option"
  rd_oam_addresses :: "oam_addresses option"
  rd_expiry :: "int option"

definition no_regionone_data :: regionone_data where
  "no_regionone_data = \<lparr>rd_admin_user_id = None, rd_sysinv_user_id = None, rd_dcmanager_user_id = None,
     rd_admin_project_id = None, rd_services_project_id = None, rd_mgmt_interface_uuids = None,
     rd_mgmt_pool = None, rd_oam_addresses = None, rd_expiry = None\<rparr>"

record 'x sm_sys =
  sm_world :: "'x world"
  sm_cache :: regionone_data

definition on_world :: "('x world, 'a) io \<Rightarrow> ('x sm_sys, 'a) io" where
  "on_world = zoom sm_world (\<lambda>w s. s\<lparr>sm_world := w\<rparr>)"

definition set_cache :: "(regionone_data \<Rightarrow> regionone_data) \<Rightarrow> ('x sm_sys, unit) io" where
  "set_cache f = modify (\<lambda>s. s\<lparr>sm_cache := f (sm_cache s)\<rparr>)"

record 'x sm_env =
  sm_state :: "'x state_env"
  sm_config_path :: string
  sm_sw_version :: string
  sm_utcnow :: "('x, int) io"
  sm_state_rpc :: "string \<Rightarrow> ('x, unit) io"
  sm_subcloud_managed :: "string \<Rightarrow> ('x, unit) io"
  sm_trigger_subcloud_audits :: "nat \<Rightarrow> endpoint_type list \<Rightarrow> ('x, unit) io"
  sm_add_subcloud :: "string \<Rightarrow> string \<Rightarrow> ('x, unit) io"
  sm_del_subcloud :: "string \<Rightarrow> ('x, unit) io"
  sm_keystone :: "('x, unit) io"
  sm_endpoint :: "string \<Rightarrow> ('x, unit) io"
  sm_delete_endpoints :: "string \<Rightarrow> ('x, unit) io"
  sm_delete_region :: "string \<Rightarrow> ('x, unit) io"
  sm_enabled_users :: "('x, (string \<times> string) list) io"
  sm_enabled_projects :: "('x, (string \<times> string) list) io"
  sm_controller_hosts :: "('x, string list) io"
  sm_management_interface :: "string \<Rightarrow> ('x, string option) io"
  sm_management_address_pool :: "('x, address_pool) io"
  sm_oam_addresses :: "('x, oam_addresses) io"
  sm_create_route :: "string \<Rightarrow> string \<Rightarrow> nat \<Rightarrow> string option \<Rightarrow> ('x, unit) io"
  sm_delete_route :: "string \<Rightarrow> string \<Rightarrow> nat \<Rightarrow> string \<Rightarrow> ('x, unit) io"
  sm_ip_network :: "string \<Rightarrow> exn + (string \<times> nat)"
  sm_ip_address :: "string \<Rightarrow> exn + string"
  sm_kube_delete_certificate :: "string \<Rightarrow> ('x, unit) io"
  sm_kube_delete_secret :: "string \<Rightarrow> ('x, unit) io"
  sm_open :: "string \<Rightarrow> ('x, unit) io"
  sm_system :: "string \<Rightarrow> ('x, unit) io"
  sm_ip_version :: "string \<Rightarrow> exn + nat"
  sm_services :: "('x, (string \<times> string) list) io"
  sm_create_endpoint :: "string \<Rightarrow> string \<Rightarrow> string \<Rightarrow> ('x, unit) io"
  sm_uuid :: "('x, string) io"
  sm_keyring :: "string \<Rightarrow> string \<Rightarrow> ('x, string) io"
  sm_kube_apply_certificate :: "string \<Rightarrow> ('x, unit) io"
  sm_kube_get_secret :: "string \<Rightarrow> ('x, (string \<rightharpoonup> string) option) io"
  sm_listdir :: "string \<Rightarrow> ('x, string list option) io"
  sm_run_playbook :: "string \<Rightarrow> string list \<Rightarrow> ('x, unit) io"
  sm_ansible_error_msg :: "string \<Rightarrow> string \<Rightarrow> string \<Rightarrow> ('x, string) io"
  sm_install_new :: "string \<Rightarrow> ('x, unit) io"
  sm_install_prep :: "string \<Rightarrow> json \<Rightarrow> ('x, unit) io"
  sm_install_install :: "string \<Rightarrow> string list \<Rightarrow> ('x, unit) io"
  sm_install_cleanup :: "string \<Rightarrow> ('x, unit) io"
  sm_system_health :: "string \<Rightarrow> ('x, string) io"
  sm_subcloud_oam :: "string \<Rightarrow> ('x, oam_addresses option) io"
  sm_json_loads :: "string \<Rightarrow> exn + json"
  sm_second_address :: "string \<Rightarrow> exn + string"
  sm_list_endpoints :: "string \<Rightarrow> ('x, (string \<times> string) list) io"
  sm_service_type :: "string \<Rightarrow> ('x, string) io"
  sm_update_endpoint :: "string \<Rightarrow> string \<Rightarrow> ('x, unit) io"
  sm_trigger_endpoints_update :: "string \<Rightarrow> (string \<times> string) list \<Rightarrow> ('x, unit) io"
  sm_update_subcloud_endpoints :: "string \<Rightarrow> (string \<times> string) list \<Rightarrow> ('x, unit) io"
  sm_sysinv_endpoint_update :: "string \<Rightarrow> string \<Rightarrow> ('x, unit) io"

section \<open>Files\<close>

definition ADDN_HOSTS_DC :: string where "ADDN_HOSTS_DC = ''dnsmasq.addn_hosts_dc''"
definition ANSIBLE_OVERRIDES_PATH :: string where "ANSIBLE_OVERRIDES_PATH = ''/var/opt/dc/ansible''"
definition INVENTORY_FILE_POSTFIX :: string where "INVENTORY_FILE_POSTFIX = ''_inventory.yml''"
definition CENTRAL_BACKUP_DIR :: string where "CENTRAL_BACKUP_DIR = ''/opt/dc-vault/backups''"

text \<open>\<open>open(p, 'w')\<close> may raise; what is written replaces the file.\<close>

definition fill_file :: "string \<Rightarrow> string \<Rightarrow> ('x world, unit) io" where
  "fill_file p content = fs_io (modify (\<lambda>f. f\<lparr>fs_files := (fs_files f)(p \<mapsto> content)\<rparr>))"

definition put_file :: "'x sm_env \<Rightarrow> string \<Rightarrow> string \<Rightarrow> ('x world, unit) io" where
  "put_file env p content =
     seq (ask (sm_open env p)) (fill_file p content)"

definition get_ansible_filename :: "string \<Rightarrow> string \<Rightarrow> string" where
  "get_ansible_filename name postfix = path_join ANSIBLE_OVERRIDES_PATH (name @ postfix)"

definition delete_subcloud_inventory :: "string \<Rightarrow> ('x world, unit) io" where
  "delete_subcloud_inventory file =
     bnd (fs_io (gets (isfile file))) (\<lambda>there. when_io (file \<noteq> [] \<and> there) (fs_io (remove_file file)))"

text \<open>\<open>shutil.rmtree\<close>: the directory and all below it.\<close>

definition below :: "string \<Rightarrow> string \<Rightarrow> bool" where
  "below d p \<longleftrightarrow> prefix (d @ ''/'') p"

definition rmtree :: "string \<Rightarrow> (fs, unit) io" where
  "rmtree d = (\<lambda>f. if isfile d f then (Inl (IOError (''Not a directory: '' @ d)), f)
     else (Inr (), f\<lparr>fs_files := (\<lambda>p. if below d p then None else fs_files f p),
                      fs_dirs := {p \<in> fs_dirs f. p \<noteq> d \<and> \<not> below d p}\<rparr>))"

definition delete_subcloud_backup_data :: "string \<Rightarrow> ('x world, unit) io" where
  "delete_subcloud_backup_data name =
     (let backup_path = path_join CENTRAL_BACKUP_DIR name
      in try_catch (bnd (fs_io (gets (\<lambda>f. isfile backup_path f \<or> isdir backup_path f))) (\<lambda>there.
             when_io there (fs_io (rmtree backup_path))))
           (\<lambda>_. ret ()))"

text \<open>The names of the subclouds for dnsmasq, and its reload when they have changed.\<close>

definition addn_hosts_lines :: "subcloud list \<Rightarrow> string" where
  "addn_hosts_lines scs =
     (if scs = [] then '' ''
      else concat (map (\<lambda>sc. sc_management_start_ip sc @ '' '' @ sc_name sc @ [CHR 0x0A]) scs))"

definition create_addn_hosts_dc :: "'x sm_env \<Rightarrow> request_context option \<Rightarrow> ('x world, unit) io" where
  "create_addn_hosts_dc env ctx =
     (let addn_hosts_dc = path_join (sm_config_path env) ADDN_HOSTS_DC; temp = addn_hosts_dc @ ''.temp''
      in bnd (db_io (subcloud_get_all ctx)) (\<lambda>scs.
         seq (put_file env temp (addn_hosts_lines scs))
        (bnd (fs_io (gets (\<lambda>f. fs_files f addn_hosts_dc))) (\<lambda>current.
           case current of
             None \<Rightarrow> raise (IOError (''No such file or directory: '' @ addn_hosts_dc))
           | Some content \<Rightarrow>
               when_io (content \<noteq> addn_hosts_lines scs)
                 (seq (fs_io (modify (\<lambda>f. f\<lparr>fs_files :=
                        (fs_files f)(addn_hosts_dc \<mapsto> addn_hosts_lines scs, temp := None)\<rparr>)))
                   (call (ShellCommand ''pkill -HUP dnsmasq'') (sm_system env ''pkill -HUP dnsmasq'')))))))"

section \<open>The cached data of RegionOne\<close>

definition set_user_id :: "string \<times> string \<Rightarrow> regionone_data \<Rightarrow> regionone_data" where
  "set_user_id u c =
     (if fst u = ''admin'' then c\<lparr>rd_admin_user_id := Some (snd u)\<rparr>
      else if fst u = ''sysinv'' then c\<lparr>rd_sysinv_user_id := Some (snd u)\<rparr>
      else if fst u = ''dcmanager'' then c\<lparr>rd_dcmanager_user_id := Some (snd u)\<rparr>
      else c)"

definition set_project_id :: "string \<times> string \<Rightarrow> regionone_data \<Rightarrow> regionone_data" where
  "set_project_id p c =
     (if fst p = ''admin'' then c\<lparr>rd_admin_project_id := Some (snd p)\<rparr>
      else if fst p = ''services'' then c\<lparr>rd_services_project_id := Some (snd p)\<rparr>
      else c)"

fun interface_uuids :: "'x sm_env \<Rightarrow> string list \<Rightarrow> ('x world, string list) io" where
  "interface_uuids env [] = ret []"
| "interface_uuids env (h # hs) =
     bnd (ask (sm_management_interface env h)) (\<lambda>i.
     bnd (interface_uuids env hs) (\<lambda>us. ret (case i of None \<Rightarrow> us | Some u \<Rightarrow> u # us)))"

text \<open>The keys are set one after the other; the time of expiry is the last.\<close>

definition refresh_regionone_data :: "'x sm_env \<Rightarrow> bool \<Rightarrow> ('x sm_sys, unit) io" where
  "refresh_regionone_data env has_client =
     bnd (on_world (ask (sm_enabled_users env))) (\<lambda>users.
     seq (set_cache (fold set_user_id users))
    (bnd (on_world (ask (sm_enabled_projects env))) (\<lambda>projects.
     seq (set_cache (fold set_project_id projects))
    (seq (on_world (unless_io has_client (ask (sm_endpoint env ''sysinv''))))
    (bnd (on_world (bnd (ask (sm_controller_hosts env)) (interface_uuids env))) (\<lambda>uuids.
     seq (set_cache (\<lambda>c. c\<lparr>rd_mgmt_interface_uuids := Some uuids\<rparr>))
    (bnd (on_world (ask (sm_management_address_pool env))) (\<lambda>pool.
     seq (set_cache (\<lambda>c. c\<lparr>rd_mgmt_pool := Some pool\<rparr>))
    (bnd (on_world (ask (sm_oam_addresses env))) (\<lambda>oam.
     seq (set_cache (\<lambda>c. c\<lparr>rd_oam_addresses := Some oam\<rparr>))
    (bnd (on_world (ask (sm_utcnow env))) (\<lambda>now.
     set_cache (\<lambda>c. c\<lparr>rd_expiry := Some (now + 3600)\<rparr>)))))))))))))"

text \<open>A time of expiry that is missing from a dictionary that is not empty is the default value of
  the dictionary, \<open>{}\<close>, which cannot be compared with a time.\<close>

definition get_cached_regionone_data :: "'x sm_env \<Rightarrow> bool \<Rightarrow> ('x sm_sys, regionone_data) io" where
  "get_cached_regionone_data env has_client =
     bnd (gets sm_cache) (\<lambda>c.
     bnd (if c = no_regionone_data then ret True
          else bnd (on_world (ask (sm_utcnow env))) (\<lambda>now.
                 case rd_expiry c of None \<Rightarrow> raise TypeError | Some t \<Rightarrow> ret (t \<le> now))) (\<lambda>stale.
     seq (when_io stale (refresh_regionone_data env has_client))
       (gets sm_cache)))"

section \<open>Deleting a subcloud\<close>

definition of_sum :: "exn + 'a \<Rightarrow> ('s, 'a) io" where
  "of_sum x = (case x of Inl e \<Rightarrow> raise e | Inr y \<Rightarrow> ret y)"

definition delete_subcloud_routes :: "'x sm_env \<Rightarrow> subcloud \<Rightarrow> ('x sm_sys, unit) io" where
  "delete_subcloud_routes env sc =
     bnd (of_sum (sm_ip_network env (sc_management_subnet sc))) (\<lambda>(ip, prefixlen).
     seq (on_world (ask (sm_endpoint env ''sysinv'')))
    (bnd (get_cached_regionone_data env True) (\<lambda>c.
       for_each (\<lambda>uuid.
         bnd (of_sum (sm_ip_address env (sc_systemcontroller_gateway_ip sc))) (\<lambda>gateway.
           on_world (call (RouteAction ''delete'' uuid ip) (sm_delete_route env uuid ip prefixlen gateway))))
         (case rd_mgmt_interface_uuids c of None \<Rightarrow> [] | Some us \<Rightarrow> us))))"

definition get_subcloud_cert_name :: "string \<Rightarrow> string" where
  "get_subcloud_cert_name name = name @ ''-adminep-ca-certificate''"

definition get_subcloud_cert_secret_name :: "string \<Rightarrow> string" where
  "get_subcloud_cert_secret_name name = name @ ''-adminep-ca-certificate''"

definition delete_subcloud_cert :: "'x sm_env \<Rightarrow> string \<Rightarrow> ('x world, unit) io" where
  "delete_subcloud_cert env name =
     seq (call (KubeAction ''delete certificate'' (get_subcloud_cert_name name))
           (sm_kube_delete_certificate env (get_subcloud_cert_name name)))
       (call (KubeAction ''delete secret'' (get_subcloud_cert_secret_name name))
         (sm_kube_delete_secret env (get_subcloud_cert_secret_name name)))"

text \<open>Any \<open>RemoteError\<close> is dropped: the test for \<open>SubcloudNotFound\<close> in it decides nothing.\<close>

definition ignore_remote_error :: "('s, unit) io \<Rightarrow> ('s, unit) io" where
  "ignore_remote_error m = try_catch m (\<lambda>e. case e of RemoteError _ \<Rightarrow> ret () | _ \<Rightarrow> raise e)"

definition remove_subcloud_details ::
  "'x sm_env \<Rightarrow> request_context option \<Rightarrow> subcloud \<Rightarrow> string \<Rightarrow> ('x sm_sys, unit) io" where
  "remove_subcloud_details env ctx sc inventory_file =
     seq (on_world (ignore_remote_error (call (OrchRpc (sc_name sc)) (sm_del_subcloud env (sc_name sc)))))
    (seq (on_world (ignore_remote_error (db_io (subcloud_alarms_delete ctx (sc_name sc)))))
    (seq (on_world (ask (sm_keystone env)))
    (seq (on_world (call (KeystoneAction ''delete endpoints'' (sc_name sc)) (sm_delete_endpoints env (sc_name sc))))
    (seq (on_world (call (KeystoneAction ''delete region'' (sc_name sc)) (sm_delete_region env (sc_name sc))))
    (seq (delete_subcloud_routes env sc)
    (seq (on_world (db_io (subcloud_destroy ctx (sc_id sc))))
    (seq (on_world (delete_subcloud_inventory inventory_file))
    (seq (on_world (delete_subcloud_cert env (sc_name sc)))
    (seq (on_world (delete_subcloud_backup_data (sc_name sc)))
      (on_world (create_addn_hosts_dc env ctx)))))))))))"

definition clear_alarm :: "'x state_env \<Rightarrow> alarm_id \<Rightarrow> string \<Rightarrow> ('x world, unit) io" where
  "clear_alarm env alarm entity =
     try_catch (bnd (ask (se_get_fault env alarm entity)) (\<lambda>fault.
         when_io fault (call (FaultClear entity) (se_clear_fault env alarm entity))))
       (\<lambda>_. ret ())"

definition delete_subcloud :: "'x sm_env \<Rightarrow> request_context option \<Rightarrow> nat \<Rightarrow> ('x sm_sys, unit) io" where
  "delete_subcloud env ctx i =
     bnd (on_world (db_io (subcloud_get ctx i))) (\<lambda>sc.
       if sc_management_state sc \<noteq> MANAGEMENT_UNMANAGED then raise SubcloudNotUnmanaged
       else if sc_availability_status sc = AVAILABILITY_ONLINE then raise SubcloudNotOffline
       else seq (remove_subcloud_details env ctx sc (get_ansible_filename (sc_name sc) INVENTORY_FILE_POSTFIX))
              (on_world (for_each (\<lambda>(alarm, entity). clear_alarm (sm_state env) alarm entity)
                [(SUBCLOUD_OFFLINE, subcloud_entity (sc_name sc)),
                 (SUBCLOUD_RESOURCE_OUT_OF_SYNC, endpoint_entity (sc_name sc) ENDPOINT_TYPE_DC_CERT),
                 (SUBCLOUD_BACKUP_FAILED, subcloud_entity (sc_name sc))])))"

section \<open>Changing a subcloud\<close>

text \<open>The new management state comes as text; None leaves it alone. The empty text counts as no
  request for the checks and for what follows the update, but not for the update itself: it is
  written to the column.\<close>

definition check_management_change :: "string option \<Rightarrow> bool \<Rightarrow> subcloud \<Rightarrow> ('s, unit) io" where
  "check_management_change ms force sc =
     (if \<not> truthy_str ms then ret ()
      else case management_of_str (the ms) of
        None \<Rightarrow> raise InternalError
      | Some MANAGEMENT_UNMANAGED \<Rightarrow>
          if sc_management_state sc = MANAGEMENT_UNMANAGED
          then raise (BadRequest ''subcloud'' ''Subcloud is already unmanaged'') else ret ()
      | Some MANAGEMENT_MANAGED \<Rightarrow>
          if sc_management_state sc = MANAGEMENT_MANAGED
          then raise (BadRequest ''subcloud'' ''Subcloud is already managed'')
          else if force then ret ()
          else if sc_deploy_status sc \<noteq> DEPLOY_STATE_DONE \<and> \<not> is_deploy_status_prestage (sc_deploy_status sc)
          then raise (BadRequest ''subcloud'' ''Subcloud can be managed only if deploy status is complete'')
          else if sc_availability_status sc \<noteq> AVAILABILITY_ONLINE then raise SubcloudNotOnline
          else ret ()
      | Some MANAGEMENT_EMPTY \<Rightarrow> raise InternalError)"

record subcloud_change =
  uc_management_state :: "string option"
  uc_description :: "string option"
  uc_location :: "string option"
  uc_group_id :: "nat option"
  uc_data_install :: "string option"
  uc_force :: bool

text \<open>A synchronous call of the state service: what it raises comes back as a \<open>RemoteError\<close>.\<close>

definition endpoint_status_sync ::
  "'x sm_env \<Rightarrow> request_context option \<Rightarrow> string \<Rightarrow> sync_status \<Rightarrow> endpoint_type list \<Rightarrow> ('x world, unit) io" where
  "endpoint_status_sync env ctx name sync ignored =
     seq (ask (sm_state_rpc env name))
       (try_catch (update_subcloud_endpoint_status (sm_state env) ctx (Some name) None sync True ignored)
         (\<lambda>e. raise (RemoteError (exn_str e))))"

definition tell_dcorch ::
  "'x sm_env \<Rightarrow> request_context option \<Rightarrow> nat \<Rightarrow> subcloud_change \<Rightarrow> management \<Rightarrow> subcloud \<Rightarrow> management \<Rightarrow>
   ('x world, management \<times> subcloud) io" where
  "tell_dcorch env ctx i c original sc new =
     try_catch
       (seq (call (OrchRpc (sc_name sc))
              (se_update_subcloud_states (sm_state env) (sc_name sc) new (Some (sc_availability_status sc))))
         (ret (new, sc)))
       (\<lambda>_. bnd (db_io (subcloud_update ctx i (no_values\<lparr>sv_management_state := Some original,
               sv_description := uc_description c, sv_location := uc_location c\<rparr>)))
            (\<lambda>sc'. ret (original, sc')))"

definition after_management_change ::
  "'x sm_env \<Rightarrow> request_context option \<Rightarrow> nat \<Rightarrow> management \<times> subcloud \<Rightarrow> ('x world, subcloud) io" where
  "after_management_change env ctx i r =
     (case r of (m, sc) \<Rightarrow>
       seq (case m of
              MANAGEMENT_UNMANAGED \<Rightarrow>
                endpoint_status_sync env ctx (sc_name sc) SYNC_STATUS_UNKNOWN [ENDPOINT_TYPE_DC_CERT]
            | MANAGEMENT_MANAGED \<Rightarrow>
                seq (call (ManagedNotification (sc_name sc)) (sm_subcloud_managed env (sc_name sc)))
                  (call (AuditRpc ''trigger_subcloud_audits'' (Some i))
                    (sm_trigger_subcloud_audits env i [ENDPOINT_TYPE_PATCHING, ENDPOINT_TYPE_LOAD]))
            | MANAGEMENT_EMPTY \<Rightarrow> ret ())
         (ret sc))"

definition update_subcloud ::
  "'x sm_env \<Rightarrow> request_context option \<Rightarrow> nat \<Rightarrow> subcloud_change \<Rightarrow> ('x world, subcloud) io" where
  "update_subcloud env ctx i c =
     bnd (db_io (subcloud_get ctx i)) (\<lambda>sc.
     seq (check_management_change (uc_management_state c) (uc_force c) sc)
    (bnd (db_io (subcloud_update ctx i (no_values\<lparr>
            sv_management_state := Option.bind (uc_management_state c) management_of_str,
            sv_description := uc_description c, sv_location := uc_location c,
            sv_group_id := uc_group_id c, sv_data_install := uc_data_install c\<rparr>))) (\<lambda>sc'.
       case if truthy_str (uc_management_state c) then management_of_str (the (uc_management_state c)) else None of
         None \<Rightarrow> ret sc'
       | Some new \<Rightarrow> bnd (tell_dcorch env ctx i c (sc_management_state sc) sc' new)
                      (after_management_change env ctx i))))"

section \<open>Operations in progress at start-up\<close>

fun transitory_state :: "deploy_state \<Rightarrow> deploy_state option" where
  "transitory_state DEPLOY_STATE_NONE = Some DEPLOY_STATE_DEPLOY_PREP_FAILED"
| "transitory_state DEPLOY_STATE_PRE_DEPLOY = Some DEPLOY_STATE_DEPLOY_PREP_FAILED"
| "transitory_state DEPLOY_STATE_PRE_INSTALL = Some DEPLOY_STATE_PRE_INSTALL_FAILED"
| "transitory_state DEPLOY_STATE_INSTALLING = Some DEPLOY_STATE_INSTALL_FAILED"
| "transitory_state DEPLOY_STATE_BOOTSTRAPPING = Some DEPLOY_STATE_BOOTSTRAP_FAILED"
| "transitory_state DEPLOY_STATE_DEPLOYING = Some DEPLOY_STATE_DEPLOY_FAILED"
| "transitory_state DEPLOY_STATE_MIGRATING_DATA = Some DEPLOY_STATE_DATA_MIGRATION_FAILED"
| "transitory_state DEPLOY_STATE_PRE_RESTORE = Some DEPLOY_STATE_RESTORE_PREP_FAILED"
| "transitory_state DEPLOY_STATE_RESTORING = Some DEPLOY_STATE_RESTORE_FAILED"
| "transitory_state PRESTAGE_STATE_PREPARE = Some PRESTAGE_STATE_FAILED"
| "transitory_state PRESTAGE_STATE_PACKAGES = Some PRESTAGE_STATE_FAILED"
| "transitory_state PRESTAGE_STATE_IMAGES = Some PRESTAGE_STATE_FAILED"
| "transitory_state _ = None"

fun transitory_backup_state :: "backup_state \<Rightarrow> backup_state option" where
  "transitory_backup_state BACKUP_STATE_VALIDATING = Some BACKUP_STATE_VALIDATE_FAILED"
| "transitory_backup_state BACKUP_STATE_PRE_BACKUP = Some BACKUP_STATE_PREP_FAILED"
| "transitory_backup_state BACKUP_STATE_IN_PROGRESS = Some BACKUP_STATE_FAILED"
| "transitory_backup_state _ = None"

definition fail_operations_of :: "subcloud \<Rightarrow> ('x world, unit) io" where
  "fail_operations_of sc =
     (let deploy = transitory_state (sc_deploy_status sc);
          backup = Option.bind (sc_backup_status sc) transitory_backup_state
      in when_io (deploy \<noteq> None \<or> backup \<noteq> None)
           (seq (db_io (subcloud_update admin_context (sc_id sc) (no_values\<lparr>
               sv_deploy_status := (case deploy of None \<Rightarrow> Some (sc_deploy_status sc) | Some d \<Rightarrow> Some d),
               sv_backup_status := (case backup of None \<Rightarrow> sc_backup_status sc | Some b \<Rightarrow> Some b)\<rparr>)))
             (ret ())))"

definition handle_subcloud_operations_in_progress :: "('x world, unit) io" where
  "handle_subcloud_operations_in_progress =
     bnd (db_io (subcloud_get_all admin_context)) (for_each fail_operations_of)"

end
