(* ===== verification/DC_Deploy.thy ===== *)
theory DC_Deploy
  imports DC_SubcloudManager
begin

text \<open>
  The deployment of subclouds in \<open>dcmanager/manager/subcloud_manager.py\<close>: adding, reconfiguring and
  reinstalling a subcloud prepare the files of ansible and start a thread, \<open>run_deploy\<close>, which runs
  the playbooks and records how far it came. A thread that has been started is a \<open>deploy_job\<close>. The
  class \<open>SubcloudInstall\<close> and the search of the log of ansible are parameters (\<open>sm_install_...\<close>,
  \<open>sm_ansible_error_msg\<close>).
\<close>

section \<open>The commands of ansible\<close>

definition DC_ANSIBLE_LOG_DIR :: string where "DC_ANSIBLE_LOG_DIR = ''/var/log/dcmanager/ansible''"
definition ERROR_DESCRIPTION_LENGTH :: nat where "ERROR_DESCRIPTION_LENGTH = 2048"

definition log_file_of :: "string \<Rightarrow> string" where
  "log_file_of name = path_join DC_ANSIBLE_LOG_DIR name @ ''_playbook_output.log''"

definition overrides_and_region :: "string \<Rightarrow> string" where
  "overrides_and_region name =
     ''override_files_dir='' @ [CHR 0x27] @ ANSIBLE_OVERRIDES_PATH @ [CHR 0x27] @ '' region_name='' @ name"

definition compose_install_command :: "string \<Rightarrow> string \<Rightarrow> string list" where
  "compose_install_command name inventory =
     [''ansible-playbook'', ''/usr/share/ansible/stx-ansible/playbooks/install.yml'', ''-i'', inventory,
      ''--limit'', name, ''-e'', ''@'' @ ANSIBLE_OVERRIDES_PATH @ ''/'' @ name @ ''/'' @ ''install_values.yml'']"

definition compose_apply_command :: "string \<Rightarrow> string \<Rightarrow> string list" where
  "compose_apply_command name inventory =
     [''ansible-playbook'', ''/usr/share/ansible/stx-ansible/playbooks/bootstrap.yml'', ''-i'', inventory,
      ''--limit'', name] @ [''-e'', overrides_and_region name]"

definition compose_deploy_command :: "string \<Rightarrow> string \<Rightarrow> dict \<Rightarrow> exn + string list" where
  "compose_deploy_command name inventory payload =
     (case text_at ''deploy_playbook'' payload of
        Inl e \<Rightarrow> Inl e
      | Inr playbook \<Rightarrow> Inr [''ansible-playbook'', playbook,
          ''-e'', ''@'' @ ANSIBLE_OVERRIDES_PATH @ ''/'' @ name @ ''_deploy_values.yml'',
          ''-i'', inventory, ''--limit'', name])"

definition compose_rehome_command :: "string \<Rightarrow> string \<Rightarrow> string list" where
  "compose_rehome_command name inventory =
     [''ansible-playbook'', ''/usr/share/ansible/stx-ansible/playbooks/rehome_subcloud.yml'', ''-i'', inventory,
      ''--limit'', name, ''--timeout'', ''180'', ''-e'', overrides_and_region name]"

section \<open>The playbooks and the deploy status\<close>

definition set_deploy ::
  "request_context option \<Rightarrow> nat \<Rightarrow> deploy_state \<Rightarrow> string option \<Rightarrow> ('x world, unit) io" where
  "set_deploy ctx i st err =
     seq (db_io (subcloud_update ctx i (no_values\<lparr>sv_deploy_status := Some st, sv_error_description := err\<rparr>)))
       (ret ())"

definition run_playbook :: "'x sm_env \<Rightarrow> string \<Rightarrow> string list \<Rightarrow> ('x world, unit) io" where
  "run_playbook env log_file command = call (Playbook command) (sm_run_playbook env log_file command)"

definition error_text :: "'x sm_env \<Rightarrow> string \<Rightarrow> string \<Rightarrow> string \<Rightarrow> ('x world, string) io" where
  "error_text env name log_file stage =
     bnd (ask (sm_ansible_error_msg env name log_file stage))
       (\<lambda>msg. ret (take ERROR_DESCRIPTION_LENGTH msg))"

text \<open>The object of \<open>SubcloudInstall\<close> does not exist when its construction has raised: the clean-up
  that follows fails on the unbound variable.\<close>

definition run_subcloud_install ::
  "'x sm_env \<Rightarrow> request_context option \<Rightarrow> subcloud \<Rightarrow> string list \<Rightarrow> string \<Rightarrow> json \<Rightarrow> ('x world, bool) io" where
  "run_subcloud_install env ctx sc command log_file install_values =
     (let name = sc_name sc; set = set_deploy ctx (sc_id sc); cleanup = ask (sm_install_cleanup env name)
      in seq (set DEPLOY_STATE_PRE_INSTALL None)
           (try_else (ask (sm_install_new env name))
             (\<lambda>_. seq (set DEPLOY_STATE_PRE_INSTALL_FAILED None) (raise UnboundLocalError))
             (\<lambda>_. try_else (ask (sm_install_prep env ANSIBLE_OVERRIDES_PATH install_values))
               (\<lambda>_. seq (set DEPLOY_STATE_PRE_INSTALL_FAILED None) (seq cleanup (ret False)))
               (\<lambda>_. seq (set DEPLOY_STATE_INSTALLING (Some ERROR_DESC_EMPTY))
                 (try_else (call (Playbook command) (sm_install_install env DC_ANSIBLE_LOG_DIR command))
                   (\<lambda>_. bnd (error_text env name log_file (deploy_state_str DEPLOY_STATE_INSTALLING)) (\<lambda>msg.
                      seq (set DEPLOY_STATE_INSTALL_FAILED (Some msg)) (seq cleanup (ret False))))
                   (\<lambda>_. seq cleanup (ret True)))))))"

text \<open>One playbook: the status while it runs, and what happens when it fails. Other exceptions than
  a failed playbook end the thread.\<close>

definition on_playbook_failure :: "('s, 'a) io \<Rightarrow> exn \<Rightarrow> ('s, 'a) io" where
  "on_playbook_failure m e = (case e of
       PlaybookExecutionFailed _ \<Rightarrow> m | PlaybookExecutionTimeout _ _ \<Rightarrow> m | _ \<Rightarrow> raise e)"

definition deploy_stage ::
  "'x sm_env \<Rightarrow> request_context option \<Rightarrow> subcloud \<Rightarrow> string list \<Rightarrow> string \<Rightarrow> deploy_state \<Rightarrow> deploy_state \<Rightarrow>
   ('x world, bool) io" where
  "deploy_stage env ctx sc command log_file running failed =
     seq (set_deploy ctx (sc_id sc) running (Some ERROR_DESC_EMPTY))
       (try_else (run_playbook env log_file command)
         (on_playbook_failure (bnd (error_text env (sc_name sc) log_file (deploy_state_str running)) (\<lambda>msg.
            seq (set_deploy ctx (sc_id sc) failed (Some msg)) (ret False))))
         (\<lambda>_. ret True))"

definition rehome_stage ::
  "'x sm_env \<Rightarrow> request_context option \<Rightarrow> subcloud \<Rightarrow> string list \<Rightarrow> string \<Rightarrow> ('x world, bool) io" where
  "rehome_stage env ctx sc command log_file =
     seq (set_deploy ctx (sc_id sc) DEPLOY_STATE_REHOMING None)
       (try_else (run_playbook env log_file command)
         (on_playbook_failure (seq (set_deploy ctx (sc_id sc) DEPLOY_STATE_REHOME_FAILED None) (ret False)))
         (\<lambda>_. ret True))"

record deploy_job =
  dj_subcloud :: subcloud
  dj_payload :: dict
  dj_install :: "string list option"
  dj_apply :: "string list option"
  dj_deploy :: "string list option"
  dj_rehome :: "string list option"

text \<open>A stage without a command is left out; a stage that fails ends the thread.\<close>

definition optional_stage ::
  "string list option \<Rightarrow> (string list \<Rightarrow> ('x world, bool) io) \<Rightarrow> ('x world, unit) io \<Rightarrow> ('x world, unit) io" where
  "optional_stage command stage next_stage =
     (case command of
        None \<Rightarrow> next_stage
      | Some c \<Rightarrow> bnd (stage c) (\<lambda>ok. if ok then next_stage else ret ()))"

definition run_deploy :: "'x sm_env \<Rightarrow> request_context option \<Rightarrow> deploy_job \<Rightarrow> ('x world, unit) io" where
  "run_deploy env ctx j =
     (let sc = dj_subcloud j; log_file = log_file_of (sc_name sc)
      in optional_stage (dj_install j)
           (\<lambda>c. bnd (of_sum (dict_at ''install_values'' (dj_payload j)))
                  (run_subcloud_install env ctx sc c log_file))
        (optional_stage (dj_apply j)
           (\<lambda>c. deploy_stage env ctx sc c log_file DEPLOY_STATE_BOOTSTRAPPING DEPLOY_STATE_BOOTSTRAP_FAILED)
        (optional_stage (dj_deploy j)
           (\<lambda>c. deploy_stage env ctx sc c log_file DEPLOY_STATE_DEPLOYING DEPLOY_STATE_DEPLOY_FAILED)
        (optional_stage (dj_rehome j)
           (\<lambda>c. rehome_stage env ctx sc c log_file)
           (set_deploy ctx (sc_id sc) DEPLOY_STATE_DONE (Some ERROR_DESC_EMPTY))))))"

section \<open>Preparing a deployment\<close>

text \<open>Waiting for the certificate of the subcloud: 19 queries of the secret, a second apart.\<close>

definition secret_ready :: "(string \<rightharpoonup> string) \<Rightarrow> bool" where
  "secret_ready data \<longleftrightarrow> (\<forall>k \<in> {''ca.crt'', ''tls.crt'', ''tls.key''}. truthy_str (data k))"

fun wait_for_secret :: "'x sm_env \<Rightarrow> string \<Rightarrow> string \<Rightarrow> dict \<Rightarrow> nat \<Rightarrow> ('x world, dict) io" where
  "wait_for_secret env cert_name secret_name payload 0 =
     raise (PyException (''Secret for certificate '' @ cert_name @ '' is not ready.''))"
| "wait_for_secret env cert_name secret_name payload (Suc n) =
     bnd (ask (sm_kube_get_secret env secret_name)) (\<lambda>secret.
       case secret of
         Some data \<Rightarrow>
           if secret_ready data then
             ret (dict_set ''sc_ca_key'' (JText (the (data ''tls.key'')))
                   (dict_set ''sc_ca_cert'' (JText (the (data ''tls.crt'')))
                     (dict_set ''dc_root_ca_cert'' (JText (the (data ''ca.crt''))) payload)))
           else seq (log_action (Sleep 1)) (wait_for_secret env cert_name secret_name payload n)
       | None \<Rightarrow> seq (log_action (Sleep 1)) (wait_for_secret env cert_name secret_name payload n))"

definition create_intermediate_ca_cert :: "'x sm_env \<Rightarrow> dict \<Rightarrow> ('x world, dict) io" where
  "create_intermediate_ca_cert env payload =
     bnd (of_sum (text_at ''name'' payload)) (\<lambda>name.
       seq (call (KubeAction ''apply certificate'' (get_subcloud_cert_name name))
              (sm_kube_apply_certificate env (get_subcloud_cert_name name)))
         (wait_for_secret env (get_subcloud_cert_name name) (get_subcloud_cert_secret_name name) payload 19))"

definition write_deploy_files :: "'x sm_env \<Rightarrow> dict \<Rightarrow> string \<Rightarrow> ('x world, unit) io" where
  "write_deploy_files env payload name =
     bnd (of_sum (dict_at ''deploy_values'' payload)) (\<lambda>v.
       put_file env (path_join ANSIBLE_OVERRIDES_PATH (name @ ''_deploy_values.yml'')) (json_dumps v))"

definition prepare_for_deployment :: "'x sm_env \<Rightarrow> dict \<Rightarrow> string \<Rightarrow> ('x world, dict) io" where
  "prepare_for_deployment env payload name =
     bnd (of_sum (dict_at ''sysadmin_password'' payload)) (\<lambda>password.
     bnd (ask (sm_keyring env ''CGCS'' ''admin'')) (\<lambda>admin_password.
     bnd (of_sum (dict_at ''deploy_config'' payload)) (\<lambda>config.
     bnd (of_sum (dict_at ''deploy_chart'' payload)) (\<lambda>chart.
     bnd (of_sum (dict_at ''deploy_overrides'' payload)) (\<lambda>overrides.
       let payload = dict_set ''deploy_values'' (JObject
             [(''ansible_become_pass'', password), (''ansible_ssh_pass'', password),
              (''admin_password'', JText admin_password), (''deployment_config'', config),
              (''deployment_manager_chart'', chart), (''deployment_manager_overrides'', overrides)]) payload
       in seq (write_deploy_files env payload name) (ret payload))))))"

definition deploy_command_of ::
  "'x sm_env \<Rightarrow> dict \<Rightarrow> string \<Rightarrow> string \<Rightarrow> ('x world, dict \<times> string list option) io" where
  "deploy_command_of env payload name inventory =
     (if dict_get ''deploy_playbook'' payload = None then ret (payload, None)
      else bnd (prepare_for_deployment env payload name) (\<lambda>payload.
           bnd (of_sum (compose_deploy_command name inventory payload)) (\<lambda>c. ret (payload, Some c))))"

definition create_subcloud_inventory :: "'x sm_env \<Rightarrow> dict \<Rightarrow> string \<Rightarrow> ('x world, unit) io" where
  "create_subcloud_inventory env subcloud inventory_file =
     seq (delete_subcloud_inventory inventory_file)
    (seq (put_file env inventory_file [])
    (bnd (of_sum (text_at ''name'' subcloud)) (\<lambda>name.
     bnd (of_sum (text_at ''bootstrap-address'' subcloud)) (\<lambda>address.
       fill_file inventory_file
         (concat (map (\<lambda>l. l @ [CHR 0x0A])
           [''---'', ''all:'', ''  vars:'', ''    ansible_ssh_user: sysadmin'',
            ''    ansible_ssh_extra_args: '' @ [CHR 0x22] @ ''-o UserKnownHostsFile=/dev/null'' @ [CHR 0x22],
            ''  hosts:'', ''    '' @ name @ '':'', ''      ansible_host: '' @ address]))))))"

text \<open>A missing key of the cached data reads as the empty dictionary.\<close>

definition cached_id :: "string option \<Rightarrow> json" where
  "cached_id x = (case x of None \<Rightarrow> JObject [] | Some s \<Rightarrow> JText s)"

definition populate_payload :: "'x sm_env \<Rightarrow> regionone_data \<Rightarrow> dict \<Rightarrow> ('x world, dict) io" where
  "populate_payload env c payload =
     bnd (of_sum (dict_at ''sysadmin_password'' payload)) (\<lambda>password.
     bnd (ask (sm_keyring env ''CGCS'' ''admin'')) (\<lambda>admin_password.
       ret (dict_update
         [(''system_controller_keystone_admin_user_id'', cached_id (rd_admin_user_id c)),
          (''system_controller_keystone_admin_project_id'', cached_id (rd_admin_project_id c)),
          (''system_controller_keystone_services_project_id'', cached_id (rd_services_project_id c)),
          (''system_controller_keystone_sysinv_user_id'', cached_id (rd_sysinv_user_id c)),
          (''system_controller_keystone_dcmanager_user_id'', cached_id (rd_dcmanager_user_id c)),
          (''ansible_become_pass'', password), (''ansible_ssh_pass'', password),
          (''admin_password'', JText admin_password)] payload)))"

definition USERS_TO_REPLICATE :: "string list" where
  "USERS_TO_REPLICATE =
     [''sysinv'', ''patching'', ''vim'', ''mtce'', ''fm'', ''barbican'', ''dcmanager'']"

fun user_passwords :: "'x sm_env \<Rightarrow> string list \<Rightarrow> dict \<Rightarrow> ('x world, dict) io" where
  "user_passwords env [] users = ret users"
| "user_passwords env (u # us) users =
     bnd (ask (sm_keyring env u ''services'')) (\<lambda>p. user_passwords env us (dict_set u (JText p) users))"

definition write_subcloud_ansible_config :: "'x sm_env \<Rightarrow> regionone_data \<Rightarrow> dict \<Rightarrow> ('x world, unit) io" where
  "write_subcloud_ansible_config env c payload =
     bnd (of_sum (text_at ''name'' payload)) (\<lambda>name.
       case (rd_mgmt_pool c, rd_oam_addresses c) of
         (Some pool, Some oam) \<Rightarrow>
           put_file env (path_join ANSIBLE_OVERRIDES_PATH (name @ ''.yml''))
             (concat (map (\<lambda>l. l @ [CHR 0x0A])
                [''---'', ''region_config: yes'', ''distributed_cloud_role: subcloud'',
                 ''system_controller_subnet: '' @ ap_network pool @ ''/'' @ show_nat (ap_prefix pool),
                 ''system_controller_floating_address: '' @ ap_floating_address pool,
                 ''system_controller_oam_subnet: '' @ oam_subnet oam,
                 ''system_controller_oam_floating_address: '' @ oam_floating_ip oam])
              @ override_lines (filter (\<lambda>(k, v). k \<notin> {''deploy_playbook'', ''deploy_values'', ''deploy_config'',
                  ''deploy_chart'', ''deploy_overrides'', ''install_values''}) payload))
       | _ \<Rightarrow> raise AttributeError)"

section \<open>Adding, reconfiguring and reinstalling a subcloud\<close>

definition service_url :: "string \<Rightarrow> string \<Rightarrow> string option" where
  "service_url ip type =
     (if type = endpoint_type_str ENDPOINT_TYPE_PLATFORM then Some (''https://'' @ ip @ '':6386/v1'')
      else if type = endpoint_type_str ENDPOINT_TYPE_IDENTITY then Some (''https://'' @ ip @ '':5001/v3'')
      else if type = endpoint_type_str ENDPOINT_TYPE_PATCHING then Some (''https://'' @ ip @ '':5492'')
      else if type = endpoint_type_str ENDPOINT_TYPE_FM then Some (''https://'' @ ip @ '':18003'')
      else if type = endpoint_type_str ENDPOINT_TYPE_NFV then Some (''https://'' @ ip @ '':4546'')
      else None)"

definition endpoint_config :: "string \<Rightarrow> (string \<times> string) list \<Rightarrow> (string \<times> string) list" where
  "endpoint_config ip services =
     [(i, u). (i, type) \<leftarrow> services, Some u \<leftarrow> [service_url ip type]]"

definition bracketed :: "'x sm_env \<Rightarrow> string \<Rightarrow> exn + string" where
  "bracketed env ip =
     (case sm_ip_version env ip of
        Inl e \<Rightarrow> Inl e
      | Inr v \<Rightarrow> Inr (if v = 6 then ''['' @ ip @ '']'' else ip))"

text \<open>An endpoint that cannot be created is tried once more.\<close>

definition create_endpoint :: "'x sm_env \<Rightarrow> string \<Rightarrow> string \<times> string \<Rightarrow> ('x world, unit) io" where
  "create_endpoint env region e =
     (let create = call (KeystoneAction ''create endpoint'' (snd e)) (sm_create_endpoint env (fst e) (snd e) region)
      in try_catch create (\<lambda>_. create))"

definition text_of_jval :: "jval \<Rightarrow> exn + string" where
  "text_of_jval v = (case v of JStr s \<Rightarrow> Inr s | _ \<Rightarrow> Inl TypeError)"

definition create_routes :: "'x sm_env \<Rightarrow> regionone_data \<Rightarrow> string \<times> nat \<Rightarrow> dict \<Rightarrow> ('x world, unit) io" where
  "create_routes env c subnet payload =
     for_each (\<lambda>uuid.
       bnd (of_sum (text_at ''systemcontroller_gateway_address'' payload)) (\<lambda>gateway.
         call (RouteAction ''create'' uuid (fst subnet)) (sm_create_route env uuid (fst subnet) (snd subnet) (Some gateway))))
       (case rd_mgmt_interface_uuids c of None \<Rightarrow> [] | Some us \<Rightarrow> us)"

definition ALARMS_DISABLED :: string where "ALARMS_DISABLED = ''disabled''"

text \<open>What is set up for a new subcloud outside ansible.\<close>

definition register_subcloud ::
  "'x sm_env \<Rightarrow> request_context option \<Rightarrow> subcloud \<Rightarrow> dict \<Rightarrow> ('x sm_sys, regionone_data) io" where
  "register_subcloud env ctx sc payload =
     seq (on_world (ask (sm_keystone env)))
    (bnd (of_sum (case text_of_jval (get_management_subnet (scalars payload)) of
            Inl e \<Rightarrow> Inl e | Inr net \<Rightarrow> sm_ip_network env net)) (\<lambda>subnet.
     seq (on_world (ask (sm_endpoint env ''sysinv'')))
    (bnd (get_cached_regionone_data env True) (\<lambda>c.
     seq (on_world (create_routes env c subnet payload))
    (bnd (of_sum (case text_of_jval (get_management_start_address (scalars payload)) of
            Inl e \<Rightarrow> Inl e | Inr ip \<Rightarrow> bracketed env ip)) (\<lambda>ip.
     bnd (on_world (ask (sm_services env))) (\<lambda>services.
       if length (endpoint_config ip services) < 5
       then raise (BadRequest ''subcloud'' ''Missing service in SystemController'')
       else seq (on_world (for_each (create_endpoint env (sc_name sc)) (endpoint_config ip services)))
           (seq (on_world (call (OrchRpc (sc_name sc)) (sm_add_subcloud env (sc_name sc) (sc_software_version sc))))
           (seq (on_world (bnd (ask (sm_uuid env)) (\<lambda>uuid.
                   db_io (subcloud_alarms_create uuid ctx (sc_name sc)
                     \<lparr>lv_critical_alarms = - 1, lv_major_alarms = - 1, lv_minor_alarms = - 1,
                      lv_warnings = - 1, lv_cloud_status = ALARMS_DISABLED\<rparr>))))
           (seq (on_world (create_addn_hosts_dc env ctx))
             (ret c)))))))))))"

definition vault_image :: "'x sm_env \<Rightarrow> ('x world, json) io" where
  "vault_image env =
     bnd (ask (sm_listdir env (LOADS_VAULT_DIR @ ''/'' @ sm_sw_version env @ ''/''))) (\<lambda>files.
     bnd (of_sum (get_vault_load_files (\<lambda>_. files) (sm_sw_version env))) (\<lambda>(iso, sig).
       ret (case iso of None \<Rightarrow> JNull | Some s \<Rightarrow> JText s)))"

definition with_install_image :: "'x sm_env \<Rightarrow> dict \<Rightarrow> ('x world, dict) io" where
  "with_install_image env payload =
     (case dict_get ''install_values'' payload of
        None \<Rightarrow> ret payload
      | Some (JObject values) \<Rightarrow>
          bnd (of_sum (dict_at ''sysadmin_password'' payload)) (\<lambda>password.
            let values = dict_set ''ansible_ssh_pass'' password values
            in bnd (if dict_get ''image'' values \<noteq> None then ret values
                    else bnd (vault_image env) (\<lambda>iso. ret (dict_set ''image'' iso values)))
                 (\<lambda>values. ret (dict_set ''install_values'' (JObject values) payload)))
      | Some _ \<Rightarrow> raise TypeError)"

text \<open>The last steps that adding and reinstalling share: the passwords, the inventory, the
  certificate and the override file.\<close>

definition without_password :: "dict \<Rightarrow> exn + dict" where
  "without_password payload =
     (if dict_get ''sysadmin_password'' payload = None then Inl KeyError
      else Inr (dict_del ''sysadmin_password'' payload))"

definition finish_payload :: "'x sm_env \<Rightarrow> regionone_data \<Rightarrow> string \<Rightarrow> dict \<Rightarrow> ('x world, dict) io" where
  "finish_payload env c inventory payload =
     bnd (of_sum (without_password payload)) (\<lambda>payload.
     bnd (user_passwords env USERS_TO_REPLICATE []) (\<lambda>users.
       let payload = dict_set ''users'' (JObject users) payload
       in seq (create_subcloud_inventory env payload inventory)
         (bnd (create_intermediate_ca_cert env payload) (\<lambda>payload.
            seq (write_subcloud_ansible_config env c payload) (ret payload)))))"

definition is_migration :: "dict \<Rightarrow> exn + bool" where
  "is_migration payload =
     (case dict_get ''migrate'' payload of
        None \<Rightarrow> Inr False
      | Some (JText s) \<Rightarrow> Inr (lower s = ''true'')
      | Some _ \<Rightarrow> Inl AttributeError)"

definition prepare_addition ::
  "'x sm_env \<Rightarrow> request_context option \<Rightarrow> bool \<Rightarrow> subcloud \<Rightarrow> dict \<Rightarrow> ('x sm_sys, deploy_job) io" where
  "prepare_addition env ctx migrate sc payload =
     (let name = sc_name sc; inventory = get_ansible_filename name INVENTORY_FILE_POSTFIX
      in bnd (register_subcloud env ctx sc payload) (\<lambda>c.
         bnd (on_world (populate_payload env c payload)) (\<lambda>payload.
         bnd (on_world (with_install_image env payload)) (\<lambda>payload.
         bnd (on_world (deploy_command_of env payload name inventory)) (\<lambda>(payload, deploy).
         bnd (on_world (finish_payload env c inventory payload)) (\<lambda>payload.
           ret (if migrate then
                  \<lparr>dj_subcloud = sc, dj_payload = payload, dj_install = None, dj_apply = None,
                   dj_deploy = None, dj_rehome = Some (compose_rehome_command name inventory)\<rparr>
                else
                  \<lparr>dj_subcloud = sc, dj_payload = payload,
                   dj_install = (if dict_get ''install_values'' payload = None then None
                                 else Some (compose_install_command name inventory)),
                   dj_apply = Some (compose_apply_command name inventory),
                   dj_deploy = deploy, dj_rehome = None\<rparr>)))))))"

text \<open>None: the preparation failed, and the status says so.\<close>

definition add_subcloud :: "'x sm_env \<Rightarrow> request_context option \<Rightarrow> dict \<Rightarrow> ('x sm_sys, deploy_job option) io" where
  "add_subcloud env ctx payload =
     bnd (of_sum (text_at ''name'' payload)) (\<lambda>name.
     bnd (on_world (db_io (subcloud_get_by_name ctx name))) (\<lambda>found.
     bnd (of_sum (is_migration payload)) (\<lambda>migrate.
     bnd (on_world (db_io (subcloud_update ctx (sc_id found) (no_values\<lparr>sv_deploy_status :=
            Some (if migrate then DEPLOY_STATE_PRE_REHOME else DEPLOY_STATE_PRE_DEPLOY)\<rparr>)))) (\<lambda>sc.
       try_else (prepare_addition env ctx migrate sc payload)
         (\<lambda>_. seq (on_world (set_deploy ctx (sc_id sc)
                 (if migrate then DEPLOY_STATE_REHOME_PREP_FAILED else DEPLOY_STATE_DEPLOY_PREP_FAILED) None))
               (ret None))
         (\<lambda>j. ret (Some j))))))"

definition reconfigure_subcloud ::
  "'x sm_env \<Rightarrow> request_context option \<Rightarrow> nat \<Rightarrow> dict \<Rightarrow> ('x world, deploy_job option) io" where
  "reconfigure_subcloud env ctx i payload =
     bnd (db_io (subcloud_update ctx i (no_values\<lparr>sv_deploy_status := Some DEPLOY_STATE_PRE_DEPLOY\<rparr>))) (\<lambda>sc.
       try_else
         (bnd (deploy_command_of env payload (sc_name sc)
                 (get_ansible_filename (sc_name sc) INVENTORY_FILE_POSTFIX)) (\<lambda>(payload, deploy).
          bnd (of_sum (without_password payload)) (\<lambda>payload.
            ret \<lparr>dj_subcloud = sc, dj_payload = payload, dj_install = None, dj_apply = None,
                 dj_deploy = deploy, dj_rehome = None\<rparr>)))
         (\<lambda>_. seq (set_deploy ctx i DEPLOY_STATE_DEPLOY_PREP_FAILED None) (ret None))
         (\<lambda>j. ret (Some j)))"

definition install_passwords :: "dict \<Rightarrow> exn + dict" where
  "install_passwords payload =
     (case dict_get ''install_values'' payload of
        Some (JObject values) \<Rightarrow>
          (case dict_get ''sysadmin_password'' payload of
             None \<Rightarrow> Inl KeyError
           | Some password \<Rightarrow>
               (case dict_get ''bootstrap_address'' values of
                  None \<Rightarrow> Inl KeyError
                | Some address \<Rightarrow> Inr (dict_set ''bootstrap-address'' address (dict_set ''install_values''
                    (JObject (dict_set ''ansible_become_pass'' password
                      (dict_set ''ansible_ssh_pass'' password values))) payload))))
      | Some _ \<Rightarrow> Inl TypeError
      | None \<Rightarrow> Inl KeyError)"

definition prepare_reinstall :: "'x sm_env \<Rightarrow> subcloud \<Rightarrow> dict \<Rightarrow> ('x sm_sys, deploy_job) io" where
  "prepare_reinstall env sc payload =
     (let name = sc_name sc; inventory = get_ansible_filename name INVENTORY_FILE_POSTFIX
      in seq (on_world (ask (sm_keystone env)))
        (bnd (get_cached_regionone_data env False) (\<lambda>c.
         bnd (on_world (populate_payload env c payload)) (\<lambda>payload.
         bnd (of_sum (install_passwords payload)) (\<lambda>payload.
         bnd (on_world (deploy_command_of env payload name inventory)) (\<lambda>(payload, deploy).
         bnd (on_world (finish_payload env c inventory payload)) (\<lambda>payload.
           ret \<lparr>dj_subcloud = sc, dj_payload = payload,
                dj_install = Some (compose_install_command name inventory),
                dj_apply = Some (compose_apply_command name inventory),
                dj_deploy = deploy, dj_rehome = None\<rparr>)))))))"

definition reinstall_subcloud ::
  "'x sm_env \<Rightarrow> request_context option \<Rightarrow> nat \<Rightarrow> dict \<Rightarrow> ('x sm_sys, deploy_job option) io" where
  "reinstall_subcloud env ctx i payload =
     bnd (on_world (db_io (subcloud_get ctx i))) (\<lambda>sc.
       try_else (prepare_reinstall env sc payload)
         (\<lambda>_. seq (on_world (set_deploy ctx i DEPLOY_STATE_PRE_INSTALL_FAILED None)) (ret None))
         (\<lambda>j. ret (Some j)))"

end
