(* ===== verification/DC_Backups.thy ===== *)
theory DC_Backups
  imports DC_Deploy
begin

text \<open>
  The backups of subclouds in \<open>dcmanager/manager/subcloud_manager.py\<close>: creating, deleting and
  restoring them for one subcloud or a group. The threads of the pool run here one after the other,
  in the order of the subclouds. They share the dictionary \<open>override_values\<close> of the payload; each
  writes all the entries it needs in the same order before it uses them, so that each may start from
  the payload of the request.
\<close>

section \<open>The subclouds of a request\<close>

text \<open>The identifiers in the payload are numbers from 1; 0 stands for a missing one.\<close>

definition payload_id :: "string \<Rightarrow> dict \<Rightarrow> nat" where
  "payload_id k payload = (case dict_get k payload of Some (JNumber n) \<Rightarrow> nat n | _ \<Rightarrow> 0)"

definition subclouds_of_request :: "request_context option \<Rightarrow> dict \<Rightarrow> ('x world, subcloud list) io" where
  "subclouds_of_request ctx payload =
     (let i = payload_id ''subcloud'' payload
      in if i \<noteq> 0 then bnd (db_io (subcloud_get ctx i)) (\<lambda>sc. ret [sc])
         else db_io (subcloud_get_for_group ctx (payload_id ''group'' payload)))"

definition backup_ongoing :: "subcloud \<Rightarrow> bool" where
  "backup_ongoing sc \<longleftrightarrow> (case sc_backup_status sc of None \<Rightarrow> False | Some b \<Rightarrow> b \<in> set STATES_FOR_ONGOING_BACKUP)"

definition filter_subclouds_with_ongoing_backup :: "subcloud list \<Rightarrow> subcloud list" where
  "filter_subclouds_with_ongoing_backup scs = filter (\<lambda>sc. \<not> backup_ongoing sc) scs"

definition valid_for_backup :: "string \<Rightarrow> subcloud \<Rightarrow> bool" where
  "valid_for_backup operation sc \<longleftrightarrow>
     (case is_valid_for_backup_operation operation sc of Inl _ \<Rightarrow> False | Inr b \<Rightarrow> b)"

definition validate_subclouds_for_backup :: "subcloud list \<Rightarrow> string \<Rightarrow> subcloud list \<times> subcloud list" where
  "validate_subclouds_for_backup scs operation =
     (filter (valid_for_backup operation) scs, filter (\<lambda>sc. \<not> valid_for_backup operation sc) scs)"

definition update_backup_status ::
  "request_context option \<Rightarrow> subcloud list \<Rightarrow> backup_state \<Rightarrow> ('x world, unit) io" where
  "update_backup_status ctx scs b =
     db_io (subcloud_bulk_update_by_ids ctx (map sc_id scs) (no_values\<lparr>sv_backup_status := Some b\<rparr>))"

definition mark_invalid_subclouds_for_backup ::
  "request_context option \<Rightarrow> subcloud list \<Rightarrow> ('x world, unit) io" where
  "mark_invalid_subclouds_for_backup ctx invalid =
     when_io (invalid \<noteq> []) (update_backup_status ctx invalid BACKUP_STATE_VALIDATE_FAILED)"

text \<open>The subclouds whose thread reports a failure. An exception in a thread ends the operation.\<close>

fun run_parallel_group_operation ::
  "(subcloud \<Rightarrow> ('s, bool) io) \<Rightarrow> subcloud list \<Rightarrow> ('s, subcloud list) io" where
  "run_parallel_group_operation f [] = ret []"
| "run_parallel_group_operation f (sc # scs) =
     bnd (f sc) (\<lambda>ok. bnd (run_parallel_group_operation f scs) (\<lambda>failed.
       ret (if ok then failed else sc # failed)))"

section \<open>Inventory and overrides\<close>

definition bootstrap_address :: "'x sm_env \<Rightarrow> string \<Rightarrow> json option \<Rightarrow> ('x world, json) io" where
  "bootstrap_address env name data =
     (if (case data of None \<Rightarrow> False | Some d \<Rightarrow> truthy_json d) then
        (case the data of
           JObject d \<Rightarrow> ret (case dict_get ''bootstrap_address'' d of None \<Rightarrow> JNull | Some v \<Rightarrow> v)
         | _ \<Rightarrow> raise AttributeError)
      else bnd (ask (sm_subcloud_oam env name)) (\<lambda>oam.
             case oam of None \<Rightarrow> raise AttributeError | Some a \<Rightarrow> ret (JText (oam_floating_ip a))))"

definition create_subcloud_inventory_file ::
  "'x sm_env \<Rightarrow> subcloud \<Rightarrow> json option \<Rightarrow> ('x world, string) io" where
  "create_subcloud_inventory_file env sc data =
     (let file = get_ansible_filename (sc_name sc) INVENTORY_FILE_POSTFIX
      in bnd (bootstrap_address env (sc_name sc) data) (\<lambda>address.
           seq (create_subcloud_inventory env
                 [(''name'', JText (sc_name sc)), (''bootstrap-address'', address)] file)
             (ret file)))"

text \<open>\<open>payload[k] or False\<close>.\<close>

definition or_false :: "string \<Rightarrow> dict \<Rightarrow> exn + json" where
  "or_false k payload =
     (case dict_get k payload of
        None \<Rightarrow> Inl KeyError
      | Some v \<Rightarrow> Inr (if truthy_json v then v else JBoolean False))"

definition override_values :: "dict \<Rightarrow> exn + dict" where
  "override_values payload =
     (if \<not> dict_has ''override_values'' payload then Inr []
      else case dict_get ''override_values'' payload of Some (JObject d) \<Rightarrow> Inr d | _ \<Rightarrow> Inl TypeError)"

definition more_values :: "dict \<Rightarrow> dict \<Rightarrow> exn + dict" where
  "more_values payload d =
     (let add = (\<lambda>k. case dict_get k payload of Some (JObject new) \<Rightarrow> Inr (dict_update new d) | _ \<Rightarrow> Inl AttributeError)
      in if dict_has ''backup_values'' payload then add ''backup_values''
         else if dict_has ''restore_values'' payload then add ''restore_values''
         else Inr d)"

definition create_backup_overrides_file ::
  "'x sm_env \<Rightarrow> dict \<Rightarrow> string \<Rightarrow> string \<Rightarrow> ('x world, string) io" where
  "create_backup_overrides_file env values name file_suffix =
     (let file = path_join ANSIBLE_OVERRIDES_PATH (name @ ''_'' @ file_suffix @ ''.yml'')
      in seq (put_file env file (''---'' @ [CHR 0x0A] @ override_lines values)) (ret file))"

definition central_dir :: "json \<Rightarrow> dict \<Rightarrow> dict" where
  "central_dir local_only d =
     (if truthy_json local_only then d else dict_set ''central_backup_dir'' (JText CENTRAL_BACKUP_DIR) d)"

definition passwords :: "json \<Rightarrow> dict \<Rightarrow> dict" where
  "passwords p d = dict_set ''ansible_become_pass'' p (dict_set ''ansible_ssh_pass'' p d)"

definition create_overrides_for_backup_or_restore ::
  "'x sm_env \<Rightarrow> string \<Rightarrow> dict \<Rightarrow> string \<Rightarrow> ('x world, string) io" where
  "create_overrides_for_backup_or_restore env op payload name =
     (let (images, file_suffix) =
        (if op = ''create'' then (''backup_registry_images'', ''backup_create_values'')
         else (''restore_registry_images'', ''backup_restore_values''))
      in bnd (of_sum (override_values payload)) (\<lambda>d.
         bnd (of_sum (or_false ''local_only'' payload)) (\<lambda>local_only.
         bnd (of_sum (or_false ''registry_images'' payload)) (\<lambda>registry.
         bnd (of_sum (dict_at ''sysadmin_password'' payload)) (\<lambda>password.
         bnd (ask (sm_keyring env ''CGCS'' ''admin'')) (\<lambda>admin_password.
         bnd (of_sum (more_values payload (dict_set ''admin_password'' (JText admin_password)
                (passwords password (central_dir local_only
                  (dict_set images registry (dict_set ''local'' local_only d))))))) (\<lambda>values.
           create_backup_overrides_file env values name file_suffix)))))))"

definition create_overrides_for_backup_delete ::
  "'x sm_env \<Rightarrow> dict \<Rightarrow> string \<Rightarrow> string \<Rightarrow> ('x world, string) io" where
  "create_overrides_for_backup_delete env payload name release_version =
     bnd (of_sum (override_values payload)) (\<lambda>d.
     bnd (of_sum (or_false ''local_only'' payload)) (\<lambda>local_only.
       let d = dict_set ''local'' local_only (dict_set ''software_version'' (JText release_version) d)
       in bnd (if truthy_json local_only
               then bnd (of_sum (dict_at ''sysadmin_password'' payload)) (\<lambda>password. ret (passwords password d))
               else ret (central_dir local_only d))
            (\<lambda>values. create_backup_overrides_file env values name ''backup_delete_values'')))"

definition compose_bnr_command :: "string \<Rightarrow> string \<Rightarrow> string \<Rightarrow> string \<Rightarrow> string list" where
  "compose_bnr_command playbook values name inventory =
     [''ansible-playbook'', playbook, ''-i'', inventory, ''--limit'', name,
      ''-e'', ''subcloud_bnr_overrides='' @ ANSIBLE_OVERRIDES_PATH @ ''/'' @ name @ values]"

definition compose_backup_command :: "string \<Rightarrow> string \<Rightarrow> string list" where
  "compose_backup_command = compose_bnr_command
     ''/usr/share/ansible/stx-ansible/playbooks/create_subcloud_backup.yml'' ''_backup_create_values.yml''"

definition compose_backup_delete_command :: "string \<Rightarrow> string \<Rightarrow> string list" where
  "compose_backup_delete_command = compose_bnr_command
     ''/usr/share/ansible/stx-ansible/playbooks/delete_subcloud_backup.yml'' ''_backup_delete_values.yml''"

definition compose_backup_restore_command :: "string \<Rightarrow> string \<Rightarrow> string list" where
  "compose_backup_restore_command = compose_bnr_command
     ''/usr/share/ansible/stx-ansible/playbooks/restore_subcloud_backup.yml'' ''_backup_restore_values.yml''"

section \<open>One subcloud\<close>

definition is_subcloud_healthy :: "'x sm_env \<Rightarrow> string \<Rightarrow> ('x world, bool) io" where
  "is_subcloud_healthy env name = bnd (ask (sm_system_health env name)) (\<lambda>h. ret (is_health_ok h))"

definition set_backup :: "request_context option \<Rightarrow> nat \<Rightarrow> backup_state \<Rightarrow> ('x world, unit) io" where
  "set_backup ctx i b =
     seq (db_io (subcloud_update ctx i (no_values\<lparr>sv_backup_status := Some b\<rparr>))) (ret ())"

definition set_backup_failure_alarm :: "'x sm_env \<Rightarrow> subcloud \<Rightarrow> ('x world, unit) io" where
  "set_backup_failure_alarm env sc =
     try_catch (call (FaultSet (subcloud_entity (sc_name sc)))
         (se_set_fault (sm_state env) SUBCLOUD_BACKUP_FAILED (subcloud_entity (sc_name sc))))
       (\<lambda>_. ret ())"

definition fail_subcloud_backup_operation ::
  "'x sm_env \<Rightarrow> request_context option \<Rightarrow> string \<Rightarrow> subcloud \<Rightarrow> ('x world, unit) io" where
  "fail_subcloud_backup_operation env ctx log_file sc =
     bnd (error_text env (sc_name sc) log_file (backup_state_str BACKUP_STATE_IN_PROGRESS)) (\<lambda>msg.
     seq (db_io (subcloud_update ctx (sc_id sc) (no_values\<lparr>sv_backup_status := Some BACKUP_STATE_FAILED,
            sv_error_description := Some msg\<rparr>)))
       (set_backup_failure_alarm env sc))"

definition run_subcloud_backup_create_playbook ::
  "'x sm_env \<Rightarrow> subcloud \<Rightarrow> string list \<Rightarrow> request_context option \<Rightarrow> bool \<Rightarrow> ('x world, bool) io" where
  "run_subcloud_backup_create_playbook env sc command ctx local_only =
     (let log_file = log_file_of (sc_name sc)
      in seq (db_io (subcloud_update ctx (sc_id sc) (no_values\<lparr>sv_backup_status := Some BACKUP_STATE_IN_PROGRESS,
                 sv_error_description := Some ERROR_DESC_EMPTY\<rparr>)))
           (try_catch
             (seq (run_playbook env log_file command)
             (bnd (ask (sm_utcnow env)) (\<lambda>now.
              seq (db_io (subcloud_update ctx (sc_id sc) (no_values\<lparr>
                     sv_backup_status := Some (if local_only then BACKUP_STATE_COMPLETE_LOCAL
                                               else BACKUP_STATE_COMPLETE_CENTRAL),
                     sv_backup_datetime := Some now\<rparr>)))
                (ret True))))
             (on_playbook_failure (seq (fail_subcloud_backup_operation env ctx log_file sc) (ret False)))))"

definition prepare_backup ::
  "'x sm_env \<Rightarrow> request_context option \<Rightarrow> dict \<Rightarrow> subcloud \<Rightarrow> ('x world, (string \<times> string list) option) io" where
  "prepare_backup env ctx payload sc =
     bnd (is_subcloud_healthy env (sc_name sc)) (\<lambda>healthy.
       if \<not> healthy then seq (set_backup ctx (sc_id sc) BACKUP_STATE_VALIDATE_FAILED) (ret None)
       else seq (set_backup ctx (sc_id sc) BACKUP_STATE_PRE_BACKUP)
           (bnd (create_subcloud_inventory_file env sc None) (\<lambda>inventory.
            bnd (create_overrides_for_backup_or_restore env ''create'' payload (sc_name sc)) (\<lambda>overrides.
            seq (clear_alarm (sm_state env) SUBCLOUD_BACKUP_FAILED (subcloud_entity (sc_name sc)))
              (ret (Some (overrides, compose_backup_command (sc_name sc) inventory)))))))"

definition backup_subcloud ::
  "'x sm_env \<Rightarrow> request_context option \<Rightarrow> dict \<Rightarrow> subcloud \<Rightarrow> ('x world, bool) io" where
  "backup_subcloud env ctx payload sc =
     try_else (prepare_backup env ctx payload sc)
       (\<lambda>_. seq (set_backup ctx (sc_id sc) BACKUP_STATE_PREP_FAILED) (ret False))
       (\<lambda>r. case r of
          None \<Rightarrow> ret False
        | Some (overrides, command) \<Rightarrow>
            bnd (run_subcloud_backup_create_playbook env sc command ctx (dict_has ''local_only'' payload)) (\<lambda>ok.
              seq (when_io ok (delete_subcloud_inventory overrides)) (ret ok)))"

definition forget_backup :: "request_context option \<Rightarrow> nat \<Rightarrow> (db, unit) io" where
  "forget_backup ctx i = require_admin_context ctx (write_session (modify (\<lambda>d. d\<lparr>subclouds :=
     map_rows (\<lambda>q. if sc_id q = i
       then q\<lparr>sc_backup_status := Some BACKUP_STATE_UNKNOWN, sc_backup_datetime := None\<rparr> else q) (subclouds d)\<rparr>)))"

definition run_subcloud_backup_delete_playbook ::
  "'x sm_env \<Rightarrow> request_context option \<Rightarrow> subcloud \<Rightarrow> string list \<Rightarrow> ('x world, bool) io" where
  "run_subcloud_backup_delete_playbook env ctx sc command =
     (let log_file = log_file_of (sc_name sc)
      in try_catch
           (seq (run_playbook env log_file command)
           (seq (db_io (forget_backup ctx (sc_id sc))) (ret True)))
           (on_playbook_failure
             (bnd (error_text env (sc_name sc) log_file (backup_state_str BACKUP_STATE_FAILED)) (\<lambda>msg.
              seq (db_io (subcloud_update ctx (sc_id sc) (no_values\<lparr>sv_error_description := Some msg\<rparr>)))
                (ret False)))))"

definition delete_subcloud_backup ::
  "'x sm_env \<Rightarrow> request_context option \<Rightarrow> dict \<Rightarrow> string \<Rightarrow> subcloud \<Rightarrow> ('x world, bool) io" where
  "delete_subcloud_backup env ctx payload release_version sc =
     try_else
       (bnd (create_overrides_for_backup_delete env payload (sc_name sc) release_version) (\<lambda>overrides.
        bnd (create_subcloud_inventory_file env sc None) (\<lambda>inventory.
          ret (overrides, compose_backup_delete_command (sc_name sc) inventory))))
       (\<lambda>_. ret False)
       (\<lambda>(overrides, command). bnd (run_subcloud_backup_delete_playbook env ctx sc command) (\<lambda>ok.
          seq (when_io ok (delete_subcloud_inventory overrides)) (ret ok)))"

definition run_subcloud_backup_restore_playbook ::
  "'x sm_env \<Rightarrow> subcloud \<Rightarrow> string list \<Rightarrow> request_context option \<Rightarrow> string \<Rightarrow> ('x world, bool) io" where
  "run_subcloud_backup_restore_playbook env sc command ctx log_file =
     seq (set_deploy ctx (sc_id sc) DEPLOY_STATE_RESTORING (Some ERROR_DESC_EMPTY))
       (try_catch
         (seq (run_playbook env log_file command)
         (seq (set_deploy ctx (sc_id sc) DEPLOY_STATE_DONE None) (ret True)))
         (on_playbook_failure
           (bnd (error_text env (sc_name sc) log_file (deploy_state_str DEPLOY_STATE_RESTORING)) (\<lambda>msg.
            seq (set_deploy ctx (sc_id sc) DEPLOY_STATE_RESTORE_FAILED (Some msg)) (ret False)))))"

definition restore_install_values :: "'x sm_env \<Rightarrow> json \<Rightarrow> dict \<Rightarrow> ('x world, json) io" where
  "restore_install_values env data payload =
     bnd (vault_image env) (\<lambda>iso.
       case data of
         JObject d \<Rightarrow> bnd (of_sum (dict_at ''sysadmin_password'' payload)) (\<lambda>password.
           ret (JObject (passwords password (dict_set ''software_version'' (JText (sm_sw_version env))
             (dict_set ''image'' iso d)))))
       | _ \<Rightarrow> raise TypeError)"

definition restore_subcloud_backup ::
  "'x sm_env \<Rightarrow> request_context option \<Rightarrow> dict \<Rightarrow> subcloud \<Rightarrow> ('x world, bool) io" where
  "restore_subcloud_backup env ctx payload sc =
     (let log_file = log_file_of (sc_name sc)
      in bnd (of_sum (case sc_data_install sc of None \<Rightarrow> Inl TypeError | Some s \<Rightarrow> sm_json_loads env s)) (\<lambda>data.
         try_else
           (seq (set_deploy ctx (sc_id sc) DEPLOY_STATE_PRE_RESTORE None)
           (bnd (create_subcloud_inventory_file env sc (Some data)) (\<lambda>inventory.
            bnd (create_overrides_for_backup_or_restore env ''restore'' payload (sc_name sc)) (\<lambda>overrides.
              ret (inventory, overrides)))))
           (\<lambda>_. seq (set_deploy ctx (sc_id sc) DEPLOY_STATE_RESTORE_PREP_FAILED None) (ret False))
           (\<lambda>(inventory, overrides).
              bnd (if dict_has ''with_install'' payload
                   then bnd (restore_install_values env data payload)
                          (run_subcloud_install env ctx sc (compose_install_command (sc_name sc) inventory) log_file)
                   else ret True) (\<lambda>installed.
              if \<not> installed then ret False
              else bnd (run_subcloud_backup_restore_playbook env sc
                          (compose_backup_restore_command (sc_name sc) inventory) ctx log_file) (\<lambda>ok.
                   seq (when_io ok (delete_subcloud_inventory overrides)) (ret ok))))))"

section \<open>Requests\<close>

definition build_subcloud_operation_notice :: "string \<Rightarrow> subcloud list \<Rightarrow> subcloud list \<Rightarrow> string" where
  "build_subcloud_operation_notice operation failed invalid =
     ''Subcloud backup '' @ operation @ '' operation completed with warnings:'' @ [CHR 0x0A] @
     (if invalid = [] then []
      else ''The following subclouds were skipped for local backup '' @ operation @ '' operation: '' @
           join_with '' ,'' (map sc_name invalid) @ ''.'') @
     (if failed = [] then []
      else ''The following subclouds failed during backup '' @ operation @ '' operation: '' @
           join_with '' ,'' (map sc_name failed) @ ''.'')"

definition subcloud_operation_notice ::
  "string \<Rightarrow> subcloud list \<Rightarrow> subcloud list \<Rightarrow> subcloud list \<Rightarrow> exn + string option" where
  "subcloud_operation_notice operation scs failed invalid =
     (if scs \<noteq> [] \<and> set scs - set failed = {} then Inl (SubcloudBackupOperationFailed operation)
      else if invalid \<noteq> [] \<or> failed \<noteq> [] then
        Inr (Some (build_subcloud_operation_notice operation failed invalid))
      else Inr None)"

definition create_subcloud_backups ::
  "'x sm_env \<Rightarrow> request_context option \<Rightarrow> dict \<Rightarrow> ('x world, unit) io" where
  "create_subcloud_backups env ctx payload =
     bnd (subclouds_of_request ctx payload) (\<lambda>scs.
       let scs = filter_subclouds_with_ongoing_backup scs
       in seq (update_backup_status ctx scs BACKUP_STATE_INITIAL)
         (seq (update_backup_status ctx scs BACKUP_STATE_VALIDATING)
           (let (valid, invalid) = validate_subclouds_for_backup scs ''create''
            in seq (mark_invalid_subclouds_for_backup ctx invalid)
              (seq (run_parallel_group_operation (backup_subcloud env ctx payload) valid)
                (ret ())))))"

definition filter_subclouds_for_backup_delete ::
  "request_context option \<Rightarrow> dict \<Rightarrow> ('x world, subcloud list \<times> subcloud list) io" where
  "filter_subclouds_for_backup_delete ctx payload =
     bnd (subclouds_of_request ctx payload) (\<lambda>scs.
       ret (if dict_has ''local_only'' payload then validate_subclouds_for_backup scs ''delete'' else (scs, [])))"

definition delete_subcloud_backups ::
  "'x sm_env \<Rightarrow> request_context option \<Rightarrow> string \<Rightarrow> dict \<Rightarrow> ('x world, string option) io" where
  "delete_subcloud_backups env ctx release_version payload =
     bnd (filter_subclouds_for_backup_delete ctx payload) (\<lambda>(scs, invalid).
     bnd (run_parallel_group_operation (delete_subcloud_backup env ctx payload release_version) scs) (\<lambda>failed.
       of_sum (subcloud_operation_notice ''delete'' scs failed invalid)))"

definition restore_subcloud_backups ::
  "'x sm_env \<Rightarrow> request_context option \<Rightarrow> dict \<Rightarrow> ('x world, string option) io" where
  "restore_subcloud_backups env ctx payload =
     bnd (subclouds_of_request ctx payload) (\<lambda>scs.
       let (valid, invalid) = validate_subclouds_for_backup scs ''restore''
       in bnd (run_parallel_group_operation (restore_subcloud_backup env ctx payload) valid) (\<lambda>failed.
            of_sum (subcloud_operation_notice ''restore'' valid failed invalid)))"

end
