(* ===== verification/DC_Network.thy ===== *)
theory DC_Network
  imports DC_Backups
begin

text \<open>
  Changing the admin network of a subcloud, in \<open>dcmanager/manager/subcloud_manager.py\<close>: the request
  prepares the files of the playbook and starts a thread, a \<open>network_job\<close>, which runs it, creates the
  routes, moves the endpoints in keystone and records the new network.
\<close>

record network_job =
  nj_subcloud_name :: string
  nj_command :: "string list"
  nj_overrides :: string
  nj_payload :: dict
  nj_subcloud_id :: nat

definition compose_update_command :: "string \<Rightarrow> string \<Rightarrow> string list" where
  "compose_update_command name inventory =
     [''ansible-playbook'', ''/usr/share/ansible/stx-ansible/playbooks/update_subcloud.yml'', ''-i'', inventory,
      ''--limit'', name, ''--timeout'', ''180'',
      ''-e'', ''subcloud_update_overrides='' @ ANSIBLE_OVERRIDES_PATH @ ''/'' @ name @ ''_update_values.yml'']"

text \<open>The entries of the override file, in the order in which they are set, with the key of the
  payload from which each comes.\<close>

definition update_overrides :: "(string \<times> string) list" where
  "update_overrides =
     [(''ansible_ssh_pass'', ''sysadmin_password''), (''ansible_become_pass'', ''sysadmin_password''),
      (''admin_gateway_address'', ''admin_gateway_ip''), (''admin_floating_address'', ''admin_start_address''),
      (''admin_subnet'', ''admin_subnet''), (''dc_root_ca_cert'', ''dc_root_ca_cert''),
      (''sc_ca_cert'', ''sc_ca_cert''), (''sc_ca_key'', ''sc_ca_key'')]"

fun copy_entries :: "(string \<times> string) list \<Rightarrow> dict \<Rightarrow> dict \<Rightarrow> exn + dict" where
  "copy_entries [] payload d = Inr d"
| "copy_entries ((k, source) # ks) payload d =
     (case dict_get source payload of
        None \<Rightarrow> Inl KeyError
      | Some v \<Rightarrow> copy_entries ks payload (dict_set k v d))"

definition update_override_values :: "dict \<Rightarrow> exn + dict" where
  "update_override_values payload =
     (case override_values payload of Inl e \<Rightarrow> Inl e | Inr d \<Rightarrow> copy_entries update_overrides payload d)"

definition create_subcloud_update_overrides_file ::
  "'x sm_env \<Rightarrow> dict \<Rightarrow> string \<Rightarrow> string \<Rightarrow> ('x world, string) io" where
  "create_subcloud_update_overrides_file env payload name file_suffix =
     bnd (of_sum (update_override_values payload)) (\<lambda>values.
       create_backup_overrides_file env values name file_suffix)"

definition update_subcloud_with_network_reconfig ::
  "'x sm_env \<Rightarrow> nat \<Rightarrow> dict \<Rightarrow> ('x world, network_job option) io" where
  "update_subcloud_with_network_reconfig env i payload =
     bnd (of_sum (text_at ''name'' payload)) (\<lambda>name.
       let inventory = get_ansible_filename name INVENTORY_FILE_POSTFIX;
           address = (case dict_get ''bootstrap_address'' payload of None \<Rightarrow> JNull | Some v \<Rightarrow> v)
       in try_else
            (bnd (create_intermediate_ca_cert env payload) (\<lambda>payload.
             seq (create_subcloud_inventory env [(''name'', JText name), (''bootstrap-address'', address)] inventory)
               (bnd (create_subcloud_update_overrides_file env payload name ''update_values'') (\<lambda>overrides.
                  ret \<lparr>nj_subcloud_name = name, nj_command = compose_update_command name inventory,
                       nj_overrides = overrides, nj_payload = payload, nj_subcloud_id = i\<rparr>))))
            (\<lambda>_. ret None)
            (\<lambda>j. ret (Some j)))"

section \<open>Routes and endpoints\<close>

definition create_subcloud_admin_route :: "'x sm_env \<Rightarrow> dict \<Rightarrow> ('x sm_sys, unit) io" where
  "create_subcloud_admin_route env payload =
     bnd (of_sum (case text_of_jval (get_management_subnet (scalars payload)) of
            Inl e \<Rightarrow> Inl e | Inr net \<Rightarrow> sm_ip_network env net)) (\<lambda>(ip, prefixlen).
     seq (on_world (ask (sm_endpoint env ''sysinv'')))
    (bnd (get_cached_regionone_data env True) (\<lambda>c.
       for_each (\<lambda>uuid. on_world (call (RouteAction ''create'' uuid ip)
           (sm_create_route env uuid ip prefixlen
             (case dict_get ''systemcontroller_gateway_ip'' payload of Some (JText s) \<Rightarrow> Some s | _ \<Rightarrow> None))))
         (case rd_mgmt_interface_uuids c of None \<Rightarrow> [] | Some us \<Rightarrow> us))))"

definition services_endpoints :: "string \<Rightarrow> (string \<times> string) list" where
  "services_endpoints ip =
     [(''keystone'', ''https://'' @ ip @ '':5001/v3''), (''sysinv'', ''https://'' @ ip @ '':6386/v1''),
      (''fm'', ''https://'' @ ip @ '':18003''), (''patching'', ''https://'' @ ip @ '':5492''),
      (''vim'', ''https://'' @ ip @ '':4546'')]"

definition service_of_type :: "string \<Rightarrow> string option" where
  "service_of_type type =
     (if type = endpoint_type_str ENDPOINT_TYPE_PLATFORM then Some ''sysinv''
      else if type = endpoint_type_str ENDPOINT_TYPE_IDENTITY then Some ''keystone''
      else if type = endpoint_type_str ENDPOINT_TYPE_PATCHING then Some ''patching''
      else if type = endpoint_type_str ENDPOINT_TYPE_FM then Some ''fm''
      else if type = endpoint_type_str ENDPOINT_TYPE_NFV then Some ''vim''
      else None)"

text \<open>The local variable keeps the address of the previous endpoint when the type is none of these,
  and is unbound at the first one.\<close>

fun move_endpoints ::
  "'x sm_env \<Rightarrow> (string \<times> string) list \<Rightarrow> string option \<Rightarrow> (string \<times> string) list \<Rightarrow> ('x world, unit) io" where
  "move_endpoints env urls url [] = ret ()"
| "move_endpoints env urls url ((endpoint, service) # es) =
     bnd (ask (sm_service_type env service)) (\<lambda>type.
       let url = (case service_of_type type of Some s \<Rightarrow> map_of urls s | None \<Rightarrow> url)
       in case url of
            None \<Rightarrow> raise UnboundLocalError
          | Some u \<Rightarrow> seq (call (KeystoneAction ''update endpoint'' endpoint) (sm_update_endpoint env endpoint u))
                       (move_endpoints env urls url es))"

definition update_services_endpoint :: "'x sm_env \<Rightarrow> dict \<Rightarrow> string \<Rightarrow> ('x world, unit) io" where
  "update_services_endpoint env payload name =
     bnd (of_sum (text_at ''admin_subnet'' payload)) (\<lambda>subnet.
     bnd (of_sum (sm_second_address env subnet)) (\<lambda>address.
     bnd (of_sum (bracketed env address)) (\<lambda>ip.
       let urls = services_endpoints ip
       in bnd (ask (sm_list_endpoints env name)) (\<lambda>es.
          seq (move_endpoints env urls None es)
         (seq (call (AuditRpc ''trigger_subcloud_endpoints_update'' None) (sm_trigger_endpoints_update env name urls))
         (seq (call (OrchRpc name) (sm_update_subcloud_endpoints env name urls))
           (call (KeystoneAction ''sysinv endpoint'' name)
             (sm_sysinv_endpoint_update env name (the (map_of urls ''sysinv''))))))))))"

section \<open>The thread\<close>

definition payload_text :: "string \<Rightarrow> dict \<Rightarrow> string option" where
  "payload_text k payload = (case dict_get k payload of Some (JText s) \<Rightarrow> Some s | _ \<Rightarrow> None)"

definition payload_or :: "string \<Rightarrow> 'a option \<Rightarrow> (json \<Rightarrow> 'a option) \<Rightarrow> dict \<Rightarrow> 'a option" where
  "payload_or k old conv payload = (case dict_get k payload of None \<Rightarrow> old | Some v \<Rightarrow> conv v)"

definition json_text :: "json \<Rightarrow> string option" where
  "json_text v = (case v of JText s \<Rightarrow> Some s | _ \<Rightarrow> None)"

definition json_nat :: "json \<Rightarrow> nat option" where
  "json_nat v = (case v of JNumber n \<Rightarrow> Some (nat n) | _ \<Rightarrow> None)"

definition new_network :: "dict \<Rightarrow> subcloud \<Rightarrow> subcloud_values" where
  "new_network payload sc = no_values\<lparr>
     sv_description := payload_or ''description'' (Some (sc_description sc)) json_text payload,
     sv_management_subnet := payload_text ''admin_subnet'' payload,
     sv_management_gateway_ip := payload_text ''admin_gateway_ip'' payload,
     sv_management_start_ip := payload_text ''admin_start_address'' payload,
     sv_management_end_ip := payload_text ''admin_end_address'' payload,
     sv_location := payload_or ''location'' (Some (sc_location sc)) json_text payload,
     sv_group_id := payload_or ''group_id'' (sc_group_id sc) json_nat payload,
     sv_data_install := payload_or ''data_install'' (sc_data_install sc) json_text payload\<rparr>"

definition run_admin_network_update_playbook ::
  "'x sm_env \<Rightarrow> request_context option \<Rightarrow> network_job \<Rightarrow> ('x sm_sys, unit) io" where
  "run_admin_network_update_playbook env ctx j =
     (let name = nj_subcloud_name j; i = nj_subcloud_id j; log_file = log_file_of name;
          failed = (\<lambda>msg. on_world (set_deploy ctx i DEPLOY_STATE_RECONFIGURING_NETWORK_FAILED (Some msg)))
      in bnd (on_world (db_io (subcloud_get ctx i))) (\<lambda>sc.
         try_else
           (on_world (seq (run_playbook env log_file (nj_command j)) (delete_subcloud_inventory (nj_overrides j))))
           (on_playbook_failure
             (bnd (on_world (error_text env name log_file (deploy_state_str DEPLOY_STATE_RECONFIGURING_NETWORK))) failed))
           (\<lambda>_. try_else
             (seq (on_world (ask (sm_keystone env))) (create_subcloud_admin_route env (nj_payload j)))
             (\<lambda>_. failed ERROR_DESC_EMPTY)
             (\<lambda>_. try_else (on_world (update_services_endpoint env (nj_payload j) name))
               (\<lambda>_. failed ERROR_DESC_EMPTY)
               (\<lambda>_. seq (delete_subcloud_routes env sc)
                     (seq (on_world (set_deploy ctx i DEPLOY_STATE_DONE None))
                     (seq (on_world (db_io (subcloud_update ctx i (new_network (nj_payload j) sc))))
                       (ret ()))))))))"

end
