(* ===== verification/DC_Requests.thy ===== *)
theory DC_Requests
  imports DC_Network
begin

text \<open>
  What the requests for a subcloud carry and how \<open>dcmanager/api/controllers/v1/subclouds.py\<close> checks it:
  the networks, the payload with its uploaded files, and the install values.
\<close>

chapter \<open>Networks of a subcloud\<close>

text \<open>
  The validation of networks: \<open>validate_network_str\<close> and \<open>validate_address_str\<close> of
  \<open>dcmanager/common/utils.py\<close>, and the checks that \<open>dcmanager/api/controllers/v1/subclouds.py\<close> makes of
  the networks of a subcloud. Parsing and formatting is \<open>netaddr\<close>'s and a parameter.
\<close>

section \<open>Addresses and networks\<close>

record ip_address =
  ip_version :: nat
  ip_value :: nat

record ip_network =
  net_version :: nat
  net_ip :: nat
  net_first :: nat
  net_last :: nat
  net_prefixlen :: nat
  net_broadcast :: "ip_address option"

text \<open>\<open>IPAddress(x)\<close>, \<open>IPNetwork(x)\<close>, \<open>address == network\<close>, \<open>len(IPRange(a, b))\<close>, \<open>is_multicast()\<close>,
  \<open>format()\<close> and \<open>str(network)\<close>.\<close>

record net_env =
  na_address :: "json \<Rightarrow> exn + ip_address"
  na_network :: "json \<Rightarrow> exn + ip_network"
  na_same :: "ip_address \<Rightarrow> ip_network \<Rightarrow> bool"
  na_range_length :: "ip_address \<Rightarrow> ip_address \<Rightarrow> exn + nat"
  na_multicast :: "ip_network \<Rightarrow> bool"
  na_format :: "ip_address \<Rightarrow> string"
  na_network_str :: "ip_network \<Rightarrow> string"

definition AddrFormatError :: exn where
  "AddrFormatError = PyException ''netaddr: AddrFormatError''"

definition ip_less :: "ip_address \<Rightarrow> ip_address \<Rightarrow> bool" where
  "ip_less a b \<longleftrightarrow> ip_version a < ip_version b \<or> ip_version a = ip_version b \<and> ip_value a < ip_value b"

definition in_network :: "ip_address \<Rightarrow> ip_network \<Rightarrow> bool" where
  "in_network a n \<longleftrightarrow> ip_version a = net_version n \<and> net_first n \<le> ip_value a \<and> ip_value a \<le> net_last n"

definition network_address :: "ip_network \<Rightarrow> ip_address" where
  "network_address n = \<lparr>ip_version = net_version n, ip_value = net_ip n\<rparr>"

definition net_size :: "ip_network \<Rightarrow> nat" where
  "net_size n = Suc (net_last n - net_first n)"

definition ip_version_to_string :: "nat \<Rightarrow> string" where
  "ip_version_to_string v =
     (if v = 4 then ''IPv4'' else if v = 6 then ''IPv6'' else ''IP'')"

text \<open>The test for multicast is only reached when there are no other networks.\<close>

definition validate_network_str ::
  "net_env \<Rightarrow> json \<Rightarrow> nat \<Rightarrow> ip_network list \<Rightarrow> bool \<Rightarrow> exn + ip_network" where
  "validate_network_str N network_str minimum_size existing_networks multicast =
     (case na_network N network_str of
        Inl e \<Rightarrow> Inl (if e = AddrFormatError then ValidateFail ''Invalid subnet - not a valid IP subnet'' else e)
      | Inr network \<Rightarrow>
          if net_size network < minimum_size then
            Inl (ValidateFail (''Subnet too small - must have at least '' @ show_nat minimum_size @ '' addresses''))
          else if net_version network = 6 \<and> net_prefixlen network < 64 then
            Inl (ValidateFail ''IPv6 minimum prefix length is 64'')
          else if existing_networks \<noteq> [] then
            (if list_ex (in_network (network_address network)) existing_networks
             then Inl (ValidateFail ''Subnet overlaps with another configured subnet'')
             else Inr network)
          else if multicast \<and> \<not> na_multicast N network then
            Inl (ValidateFail ''Invalid subnet - must be multicast'')
          else Inr network)"

definition validate_address_str :: "net_env \<Rightarrow> json \<Rightarrow> ip_network \<Rightarrow> exn + ip_address" where
  "validate_address_str N ip_address_str network =
     (case na_address N ip_address_str of
        Inl e \<Rightarrow> Inl (if e = AddrFormatError then ValidateFail ''Invalid address - not a valid IP address'' else e)
      | Inr a \<Rightarrow>
          if ip_version a \<noteq> net_version network then
            Inl (ValidateFail (''Invalid IP version - must match network version '' @
              ip_version_to_string (net_version network)))
          else if na_same N a network then Inl (ValidateFail ''Cannot use network address'')
          else if Some a = net_broadcast network then Inl (ValidateFail ''Cannot use broadcast address'')
          else if \<not> in_network a network then
            Inl (ValidateFail (''Address must be in subnet '' @ na_network_str N network))
          else Inr a)"

section \<open>The networks of a subcloud\<close>

text \<open>\<open>pecan.abort\<close>: an exception with the status and the detail of the answer.\<close>

definition http_abort :: "nat \<Rightarrow> string \<Rightarrow> ('s, 'a) io" where
  "http_abort status detail = raise (HTTPAbort status detail)"

definition valid_or_abort :: "string \<Rightarrow> exn + 'a \<Rightarrow> ('s, 'a) io" where
  "valid_or_abort what r = try_catch (of_sum r) (\<lambda>e. case e of
     ValidateFail m \<Rightarrow> http_abort 400 (what @ '' invalid: '' @ m) | _ \<Rightarrow> raise e)"

definition abort_if :: "bool \<Rightarrow> nat \<Rightarrow> string \<Rightarrow> ('s, unit) io" where
  "abort_if b status detail = (if b then http_abort status detail else ret ())"

definition given :: "json option \<Rightarrow> bool" where
  "given v = (case v of None \<Rightarrow> False | Some x \<Rightarrow> truthy_json x)"

definition or_none :: "json option \<Rightarrow> json" where
  "or_none v = (case v of None \<Rightarrow> JNull | Some x \<Rightarrow> x)"

text \<open>The range of a network's addresses: in order, and with at least so many of them.\<close>

definition check_range :: "net_env \<Rightarrow> string \<Rightarrow> nat \<Rightarrow> ip_address \<Rightarrow> ip_address \<Rightarrow> ('s, unit) io" where
  "check_range N what minimum a b =
     seq (abort_if (\<not> ip_less a b) 400 (what @ ''_start_address  not less than '' @ what @ ''_end_address''))
     (bnd (of_sum (na_range_length N a b)) (\<lambda>n.
      abort_if (n < minimum) 400 (what @ '' address range must contain at least '' @ show_nat minimum @ '' addresses'')))"

definition between :: "ip_address \<Rightarrow> ip_address \<Rightarrow> ip_address \<Rightarrow> bool" where
  "between a x b \<longleftrightarrow> \<not> ip_less x a \<and> \<not> ip_less b x"

definition range_text :: "net_env \<Rightarrow> ip_address \<Rightarrow> ip_address \<Rightarrow> string" where
  "range_text N a b = na_format N a @ '' - '' @ na_format N b"

record admin_config =
  ac_subnet :: "json option"
  ac_start :: "json option"
  ac_end :: "json option"
  ac_gateway :: "json option"

definition validate_admin_network_config ::
  "net_env \<Rightarrow> admin_config \<Rightarrow> ip_network list \<Rightarrow> ('s, unit) io" where
  "validate_admin_network_config N c existing_networks =
     (if \<not> (given (ac_subnet c) \<or> given (ac_start c) \<or> given (ac_end c) \<or> given (ac_gateway c)) then ret ()
      else
        bnd (valid_or_abort ''admin_subnet''
          (validate_network_str N (or_none (ac_subnet c)) 5 existing_networks False)) (\<lambda>admin_subnet.
        bnd (valid_or_abort ''admin_start_address'' (validate_address_str N (or_none (ac_start c)) admin_subnet)) (\<lambda>start_ip.
        bnd (valid_or_abort ''admin_end_address'' (validate_address_str N (or_none (ac_end c)) admin_subnet)) (\<lambda>end_ip.
        seq (check_range N ''admin'' 2 start_ip end_ip)
        (bnd (valid_or_abort ''admin_gateway_address''
           (validate_address_str N (or_none (ac_gateway c)) admin_subnet)) (\<lambda>gw.
         abort_if (between start_ip gw end_ip) 400
           (''admin_gateway_address invalid, is within admin pool: '' @ range_text N start_ip end_ip)))))))"

definition validate_oam_network_config ::
  "net_env \<Rightarrow> json \<Rightarrow> json \<Rightarrow> json \<Rightarrow> ip_network list \<Rightarrow> ('s, unit) io" where
  "validate_oam_network_config N subnet gateway floating existing_networks =
     bnd (valid_or_abort ''external_oam_subnet'' (validate_network_str N subnet 3 existing_networks False)) (\<lambda>oam_subnet.
     seq (valid_or_abort ''oam_gateway_address'' (validate_address_str N gateway oam_subnet))
     (seq (valid_or_abort ''oam_floating_address'' (validate_address_str N floating oam_subnet)) (ret ())))"

fun networks_of :: "net_env \<Rightarrow> subcloud list \<Rightarrow> exn + ip_network list" where
  "networks_of N [] = Inr []"
| "networks_of N (sc # scs) =
     (case na_network N (JText (sc_management_subnet sc)) of
        Inl e \<Rightarrow> Inl e
      | Inr n \<Rightarrow> (case networks_of N scs of Inl e \<Rightarrow> Inl e | Inr ns \<Rightarrow> Inr (n # ns)))"

record subcloud_config =
  cf_name :: string
  cf_admin :: admin_config
  cf_management_subnet :: json
  cf_management_start :: json
  cf_management_end :: json
  cf_management_gateway :: json
  cf_oam_subnet :: json
  cf_oam_gateway :: json
  cf_oam_floating :: json
  cf_systemcontroller_gateway :: json
  cf_group_id :: json

text \<open>A group by its number; a text that is no number matches no group.\<close>

definition group_number :: "json \<Rightarrow> nat option" where
  "group_number v =
     (case v of
        JNumber n \<Rightarrow> (if n < 0 then None else Some (nat n))
      | JText s \<Rightarrow> (if isdigit s then Some (nat_of_digits s) else None)
      | _ \<Rightarrow> None)"

definition validate_group_id :: "request_context option \<Rightarrow> json \<Rightarrow> ('x world, unit) io" where
  "validate_group_id ctx group_id = try_catch
     (case group_number group_id of
        None \<Rightarrow> raise (SubcloudGroupNotFound 0)
      | Some g \<Rightarrow> bnd (db_io (subcloud_group_get ctx g)) (\<lambda>_. ret ()))
     (\<lambda>_. http_abort 400 ''Invalid group_id'')"

text \<open>The management network and its gateway: the one of the admin network, if it is given, is the
  one that has to lie outside the addresses of the subcloud.\<close>

definition validate_management_config ::
  "net_env \<Rightarrow> subcloud_config \<Rightarrow> ip_network list \<Rightarrow> ('s, unit) io" where
  "validate_management_config N c existing =
     bnd (valid_or_abort ''management_subnet''
       (validate_network_str N (cf_management_subnet c) 8 existing False)) (\<lambda>subnet.
     bnd (valid_or_abort ''management_start_address''
       (validate_address_str N (cf_management_start c) subnet)) (\<lambda>start_ip.
     bnd (valid_or_abort ''management_end_address''
       (validate_address_str N (cf_management_end c) subnet)) (\<lambda>end_ip.
     seq (check_range N ''management'' 5 start_ip end_ip)
     (seq (if given (ac_gateway (cf_admin c)) then ret ()
           else seq (valid_or_abort ''management_gateway_address''
             (validate_address_str N (cf_management_gateway c) subnet)) (ret ()))
     (seq (validate_admin_network_config N (cf_admin c) existing)
     (let pick = (\<lambda>v d. of_sum (na_address N (if given v then or_none v else d))) in
      bnd (pick (ac_start (cf_admin c)) (cf_management_start c)) (\<lambda>a.
      bnd (pick (ac_end (cf_admin c)) (cf_management_end c)) (\<lambda>b.
      bnd (pick (ac_gateway (cf_admin c)) (cf_management_gateway c)) (\<lambda>gw.
      abort_if (between a gw b) 400
        ((if given (ac_gateway (cf_admin c)) then ''admin'' else ''management'') @
          ''_gateway_address invalid, is within management pool: '' @ range_text N a b))))))))))"

text \<open>The gateway of the system controller lies in its management subnet, outside the addresses that
  its pool hands out.\<close>

definition validate_systemcontroller_gateway ::
  "net_env \<Rightarrow> ('x, address_pool \<times> string \<times> string) io \<Rightarrow> json \<Rightarrow> ('x world, unit) io" where
  "validate_systemcontroller_gateway N get_pool gateway =
     bnd (ask get_pool) (\<lambda>(pool, first, last).
     bnd (of_sum (na_network N (JText (ap_network pool @ ''/'' @ show_nat (ap_prefix pool))))) (\<lambda>subnet.
     seq (valid_or_abort ''systemcontroller_gateway_address'' (validate_address_str N gateway subnet))
     (bnd (of_sum (na_address N (JText first))) (\<lambda>a.
      bnd (of_sum (na_address N (JText last))) (\<lambda>b.
      bnd (of_sum (na_address N gateway)) (\<lambda>gw.
      abort_if (between a gw b) 400
        (''systemcontroller_gateway_address invalid, is within management pool: '' @ range_text N a b)))))))"

definition validate_subcloud_config ::
  "net_env \<Rightarrow> ('x, address_pool \<times> string \<times> string) io \<Rightarrow> request_context option \<Rightarrow> subcloud_config \<Rightarrow>
   ('x world, unit) io" where
  "validate_subcloud_config N get_pool ctx c =
     seq (abort_if (isdigit (cf_name c)) 400 ''name must contain alphabetic characters'')
     (seq (abort_if (cf_name c \<in> {DEFAULT_REGION_NAME, SYSTEM_CONTROLLER_NAME}) 400
        (''name cannot be '' @ DEFAULT_REGION_NAME @ '' or '' @ SYSTEM_CONTROLLER_NAME))
     (bnd (db_io (subcloud_get_all ctx)) (\<lambda>scs.
      bnd (of_sum (networks_of N scs)) (\<lambda>existing.
      seq (validate_management_config N c existing)
      (seq (validate_systemcontroller_gateway N get_pool (cf_systemcontroller_gateway c))
      (seq (validate_oam_network_config N (cf_oam_subnet c) (cf_oam_gateway c) (cf_oam_floating c) existing)
        (validate_group_id ctx (cf_group_id c))))))))"

chapter \<open>Requests for a subcloud\<close>

text \<open>
  The requests of \<open>dcmanager/api/controllers/v1/subclouds.py\<close>: reading the payload of each, uploading
  its files, and checking the install values and the addresses in it. The state is the one of the
  subcloud manager, to which the controller sends its remote calls. \<open>pecan\<close>, the YAML and multipart
  parsers and \<open>netaddr\<close> are parameters. The text in a request is kept as its UTF-8 bytes.
\<close>

section \<open>The services of the API\<close>

text \<open>A remote call that waits brings the exception of the manager back as a \<open>RemoteError\<close>.\<close>

record 'x manager_rpc =
  mr_add_subcloud :: "request_context option \<Rightarrow> dict \<Rightarrow> ('x sm_sys, unit) io"
  mr_delete_subcloud :: "request_context option \<Rightarrow> nat \<Rightarrow> ('x sm_sys, json) io"
  mr_update_subcloud :: "request_context option \<Rightarrow> nat \<Rightarrow> subcloud_change \<Rightarrow> ('x sm_sys, json) io"
  mr_network_reconfig :: "request_context option \<Rightarrow> nat \<Rightarrow> dict \<Rightarrow> ('x sm_sys, unit) io"
  mr_reconfigure_subcloud :: "request_context option \<Rightarrow> nat \<Rightarrow> dict \<Rightarrow> ('x sm_sys, json) io"
  mr_reinstall_subcloud :: "request_context option \<Rightarrow> nat \<Rightarrow> dict \<Rightarrow> ('x sm_sys, unit) io"
  mr_prestage_subcloud :: "request_context option \<Rightarrow> dict \<Rightarrow> ('x sm_sys, unit) io"
  mr_endpoint_status :: "request_context option \<Rightarrow> string \<Rightarrow> endpoint_type \<Rightarrow> sync_status \<Rightarrow> ('x sm_sys, unit) io"
  mr_backup_subclouds :: "request_context option \<Rightarrow> dict \<Rightarrow> ('x sm_sys, unit) io"
  mr_delete_backups :: "request_context option \<Rightarrow> string \<Rightarrow> dict \<Rightarrow> ('x sm_sys, json) io"
  mr_restore_backups :: "request_context option \<Rightarrow> dict \<Rightarrow> ('x sm_sys, unit) io"

datatype form_item = Field string | Upload string string

record part =
  pt_headers :: "(string \<times> string) list"
  pt_content :: string

record request =
  rq_post :: "(string \<times> form_item) list"
  rq_body :: string
  rq_content_type :: "string option"

record 'x api_env =
  ae_sm :: "'x sm_env"
  ae_rpc :: "'x manager_rpc"
  ae_authorize :: "string \<Rightarrow> ('x, unit) io"
  ae_context :: "('x, request_context option) io"
  ae_net :: net_env
  ae_prestage :: "'x prestage_env"
  ae_yaml_load :: "string \<Rightarrow> exn + json"
  ae_eval :: "string \<Rightarrow> exn + json"
  ae_multipart :: "string \<Rightarrow> string option \<Rightarrow> exn + part list"
  ae_form_object :: "string \<Rightarrow> string \<Rightarrow> json"
  ae_repr :: "json \<Rightarrow> string"
  ae_deploy_path :: string
  ae_patch_states :: "('x, string list) io"
  ae_management_pool :: "('x, address_pool \<times> string \<times> string) io"
  ae_oam_floating_ip :: "string \<Rightarrow> ('x, string) io"

definition to_str :: "'x api_env \<Rightarrow> json \<Rightarrow> string" where
  "to_str env v =
     (case v of
        JText s \<Rightarrow> s | JNumber n \<Rightarrow> show_int n | JBoolean b \<Rightarrow> (if b then ''True'' else ''False'')
      | JNull \<Rightarrow> ''None'' | _ \<Rightarrow> ae_repr env v)"

section \<open>Files\<close>

definition DEPLOY_CONFIG :: string where "DEPLOY_CONFIG = ''deploy_config''"
definition DEPLOY_PRESTAGE :: string where "DEPLOY_PRESTAGE = ''prestage_images''"
definition DEPLOY_COMMON_FILE_OPTIONS :: "string list" where
  "DEPLOY_COMMON_FILE_OPTIONS = [''deploy_playbook'', ''deploy_overrides'', ''deploy_chart'', DEPLOY_PRESTAGE]"

definition BOOTSTRAP_VALUES :: string where "BOOTSTRAP_VALUES = ''bootstrap_values''"
definition INSTALL_VALUES :: string where "INSTALL_VALUES = ''install_values''"

definition get_config_file_path :: "string \<Rightarrow> string \<Rightarrow> string" where
  "get_config_file_path name config_file_type =
     (if config_file_type = DEPLOY_CONFIG then path_join ANSIBLE_OVERRIDES_PATH (name @ ''_'' @ config_file_type @ ''.yml'')
      else if config_file_type = INSTALL_VALUES then
        path_join (ANSIBLE_OVERRIDES_PATH @ ''/'' @ name) (config_file_type @ ''.yml'')
      else path_join ANSIBLE_OVERRIDES_PATH (name @ ''.yml''))"

definition find_deploy_file :: "'x api_env \<Rightarrow> string \<Rightarrow> ('x sm_sys, string) io" where
  "find_deploy_file env f =
     bnd (on_world (ask (sm_listdir (ae_sm env) (ae_deploy_path env)))) (\<lambda>files.
       case Option.bind files (find (\<lambda>name. startswith name (f @ ''_''))) of
         None \<Rightarrow> http_abort 400 (''Missing required deploy file for '' @ f)
       | Some name \<Rightarrow> ret (path_join (ae_deploy_path env) name))"

definition get_common_deploy_files :: "'x api_env \<Rightarrow> dict \<Rightarrow> ('x sm_sys, dict) io" where
  "get_common_deploy_files env =
     fold_io (\<lambda>f payload. bnd (find_deploy_file env f) (\<lambda>path. ret (dict_set f (JText path) payload)))
       (filter (\<lambda>f. f \<noteq> DEPLOY_PRESTAGE) DEPLOY_COMMON_FILE_OPTIONS)"

text \<open>The file is opened, and so emptied, before its content is decoded.\<close>

definition upload_config_file :: "'x api_env \<Rightarrow> string \<Rightarrow> string \<Rightarrow> string \<Rightarrow> ('x sm_sys, unit) io" where
  "upload_config_file env content config_file config_type =
     try_catch
       (seq (on_world (put_file (ae_sm env) config_file []))
         (if utf8_ok (map of_char content) then on_world (fill_file config_file content)
          else raise (PyException ''UnicodeDecodeError'')))
       (\<lambda>_. http_abort 400 (''Failed to upload '' @ config_type @ '' file''))"

definition upload_deploy_config_file ::
  "'x api_env \<Rightarrow> (string \<times> form_item) list \<Rightarrow> dict \<Rightarrow> ('x sm_sys, dict) io" where
  "upload_deploy_config_file env post payload =
     (case map_of (rev post) DEPLOY_CONFIG of
        None \<Rightarrow> ret payload
      | Some (Field _) \<Rightarrow> http_abort 400 (''No '' @ DEPLOY_CONFIG @ '' file uploaded'')
      | Some (Upload filename contents) \<Rightarrow>
          if filename = [] then http_abort 400 (''No '' @ DEPLOY_CONFIG @ '' file uploaded'')
          else bnd (of_sum (text_at ''name'' payload)) (\<lambda>name.
            let fn = get_config_file_path name DEPLOY_CONFIG
            in seq (upload_config_file env contents fn DEPLOY_CONFIG)
                 (get_common_deploy_files env (dict_set DEPLOY_CONFIG (JText fn) payload))))"

section \<open>Payloads\<close>

definition form_value :: "'x api_env \<Rightarrow> form_item \<Rightarrow> json" where
  "form_value env v = (case v of Field s \<Rightarrow> JText s | Upload filename contents \<Rightarrow> ae_form_object env filename contents)"

text \<open>The form's item with a name; a plain field has no file to read. A document that is not a
  mapping is no argument of \<open>dict.update\<close>.\<close>

definition load_file :: "'x api_env \<Rightarrow> form_item \<Rightarrow> exn + json" where
  "load_file env v =
     (case v of
        Field _ \<Rightarrow> Inl AttributeError
      | Upload _ contents \<Rightarrow>
          if utf8_ok (map of_char contents) then ae_yaml_load env contents
          else Inl (PyException ''UnicodeDecodeError''))"

definition dict_of :: "json \<Rightarrow> exn + dict" where
  "dict_of v = (case v of JObject d \<Rightarrow> Inr d | _ \<Rightarrow> Inl TypeError)"

definition get_request_data ::
  "'x api_env \<Rightarrow> (string \<times> form_item) list \<Rightarrow> ('x sm_sys, dict \<times> (string \<times> form_item) list) io" where
  "get_request_data env post =
     (case map_of (rev post) BOOTSTRAP_VALUES of
        None \<Rightarrow> http_abort 400 (''Missing required file for '' @ BOOTSTRAP_VALUES)
      | Some bootstrap \<Rightarrow>
          bnd (of_sum (load_file env bootstrap)) (\<lambda>data.
          bnd (of_sum (dict_of data)) (\<lambda>values.
          bnd (case map_of (rev post) INSTALL_VALUES of
                 None \<Rightarrow> ret (dict_update values [])
               | Some install \<Rightarrow>
                   bnd (of_sum (load_file env install)) (\<lambda>data.
                     ret (dict_set INSTALL_VALUES data (dict_update values [])))) (\<lambda>payload.
            let rest = filter (\<lambda>(k, v). k \<noteq> BOOTSTRAP_VALUES \<and> k \<noteq> INSTALL_VALUES) post
            in ret (dict_update (map (\<lambda>(k, v). (k, form_value env v)) rest) payload, rest)))))"

text \<open>The regular expression \<open>name="([^"]*)"\<close>: its leftmost match.\<close>

definition quote :: char where "quote = CHR 0x22"

fun multipart_field_name :: "string \<Rightarrow> exn + string" where
  "multipart_field_name [] = Inl AttributeError"
| "multipart_field_name (c # cs) =
     (if startswith (c # cs) (''name='' @ [quote]) \<and> quote \<in> set (drop 6 (c # cs))
      then Inr (takeWhile (\<lambda>x. x \<noteq> quote) (drop 6 (c # cs)))
      else multipart_field_name cs)"

definition get_multipart_field_name :: "part \<Rightarrow> exn + string" where
  "get_multipart_field_name p =
     (case map_of (pt_headers p) ''Content-Disposition'' of
        None \<Rightarrow> Inl KeyError
      | Some content \<Rightarrow> multipart_field_name content)"

definition get_patch_data :: "'x api_env \<Rightarrow> request \<Rightarrow> ('x sm_sys, dict) io" where
  "get_patch_data env rq =
     bnd (of_sum (ae_multipart env (rq_body rq) (rq_content_type rq))) (\<lambda>parts.
       fold_io (\<lambda>p payload.
           bnd (of_sum (get_multipart_field_name p)) (\<lambda>field_name.
           bnd (if field_name \<in> {INSTALL_VALUES, ''force''} then of_sum (ae_yaml_load env (pt_content p))
                else ret (JText (pt_content p))) (\<lambda>content.
             ret (dict_set field_name content payload))))
         parts [])"

definition decode_text :: "json \<Rightarrow> exn + string" where
  "decode_text v =
     (case v of
        JText s \<Rightarrow> (case decode_password s of Inl e \<Rightarrow> Inl e | Inr bs \<Rightarrow> Inr (map char_of bs))
      | _ \<Rightarrow> Inl TypeError)"

definition password_or_abort :: "string \<Rightarrow> json \<Rightarrow> ('s, string) io" where
  "password_or_abort what v =
     (case decode_text v of
        Inl _ \<Rightarrow> http_abort 400 (''Failed to decode subcloud '' @ what @ '', verify the password is base64 encoded'')
      | Inr s \<Rightarrow> ret s)"

definition force_value :: "json \<Rightarrow> ('s, bool) io" where
  "force_value v =
     (case v of
        JText s \<Rightarrow>
          if lower s \<in> {''true'', ''false'', ''t'', ''f''} then ret (lower s \<in> {''true'', ''t''})
          else http_abort 400 (''Invalid value for force option: '' @ s)
      | _ \<Rightarrow> raise AttributeError)"

definition get_prestage_payload :: "'x api_env \<Rightarrow> request \<Rightarrow> ('x sm_sys, dict) io" where
  "get_prestage_payload env rq =
     (case sm_json_loads (ae_sm env) (rq_body rq) of
        Inl _ \<Rightarrow> http_abort 400 ''Request body is malformed.''
      | Inr (JObject body) \<Rightarrow>
          let value = (\<lambda>k. or_none (dict_get k body))
          in if value ''sysadmin_password'' = JNull then http_abort 400 ''sysadmin_password is required.''
             else seq (password_or_abort ''sysadmin_password'' (value ''sysadmin_password''))
              (let payload = [(''force'', JBoolean False), (''sysadmin_password'', value ''sysadmin_password'')]
               in if value ''force'' = JNull then ret payload
                  else bnd (force_value (value ''force'')) (\<lambda>b. ret (dict_set ''force'' (JBoolean b) payload)))
      | Inr _ \<Rightarrow> raise AttributeError)"

text \<open>The value of the header \<open>Content-Disposition\<close> decides what a part is. (A name of a header that is
  not UTF-8 would raise.)\<close>

definition reconfig_part :: "'x api_env \<Rightarrow> string \<Rightarrow> part \<Rightarrow> string \<times> string \<Rightarrow> dict \<Rightarrow> ('x sm_sys, dict) io" where
  "reconfig_part env name p h payload =
     (case h of (hk, hv) \<Rightarrow>
       if \<not> utf8_ok (map of_char hv) then raise (PyException ''UnicodeDecodeError'')
       else if hk \<noteq> ''Content-Disposition'' then ret payload
       else if contains DEPLOY_CONFIG hv then
         (let fn = get_config_file_path name DEPLOY_CONFIG
          in seq (upload_config_file env (pt_content p) fn DEPLOY_CONFIG)
               (ret (dict_set DEPLOY_CONFIG (JText fn) payload)))
       else if contains ''sysadmin_password'' hv then ret (dict_set ''sysadmin_password'' (JText (pt_content p)) payload)
       else ret payload)"

definition get_reconfig_payload :: "'x api_env \<Rightarrow> request \<Rightarrow> string \<Rightarrow> ('x sm_sys, dict) io" where
  "get_reconfig_payload env rq name =
     bnd (of_sum (ae_multipart env (rq_body rq) (rq_content_type rq))) (\<lambda>parts.
     bnd (fold_io (\<lambda>p. fold_io (reconfig_part env name p) (pt_headers p)) parts [])
       (get_common_deploy_files env))"

definition get_updatestatus_payload :: "'x api_env \<Rightarrow> request \<Rightarrow> exn + dict" where
  "get_updatestatus_payload env rq =
     (case sm_json_loads (ae_sm env) (rq_body rq) of
        Inl e \<Rightarrow> Inl e
      | Inr v \<Rightarrow> (case dict_of v of Inl e \<Rightarrow> Inl e | Inr d \<Rightarrow> Inr (dict_update d [])))"

chapter \<open>Install values\<close>

text \<open>
  The install values of a subcloud in \<open>dcmanager/api/controllers/v1/subclouds.py\<close>: what a request may
  carry (\<open>_validate_install_values\<close>, with the mandatory values of \<open>dccommon/install_consts.py\<close>), the
  formatting of the addresses, and reading them back from the database.
\<close>

section \<open>Install values of a request\<close>

definition SUPPORTED_INSTALL_TYPES :: int where "SUPPORTED_INSTALL_TYPES = 6"
definition DEFAULT_PERSISTENT_SIZE :: int where "DEFAULT_PERSISTENT_SIZE = 30000"

definition MANDATORY_INSTALL_VALUES :: "string list" where
  "MANDATORY_INSTALL_VALUES =
     [''image'', ''software_version'', ''bootstrap_interface'', ''bootstrap_address'', ''bootstrap_address_prefix'',
      ''bmc_address'', ''bmc_username'', ''bmc_password'', ''install_type'']"

text \<open>Python's Booleans are whole numbers.\<close>

definition whole_number :: "json \<Rightarrow> int option" where
  "whole_number v = (case v of JNumber n \<Rightarrow> Some n | JBoolean b \<Rightarrow> Some (of_bool b) | _ \<Rightarrow> None)"

definition matching_iso :: "'x api_env \<Rightarrow> ('x sm_sys, string option \<times> string option) io" where
  "matching_iso env = try_catch
     (bnd (on_world (ask (sm_listdir (ae_sm env) (LOADS_VAULT_DIR @ ''/'' @ sm_sw_version (ae_sm env) @ ''/''))))
       (\<lambda>files. ret (get_matching_iso (\<lambda>_. files) (sm_sw_version (ae_sm env)))))
     (\<lambda>e. ret (None, Some (exn_str e)))"

text \<open>\<open>data_install\<close> of the subcloud; a null there counts as none.\<close>

definition original_values :: "'x api_env \<Rightarrow> subcloud option \<Rightarrow> exn + json" where
  "original_values env sc =
     (case sc of
        None \<Rightarrow> Inr JNull
      | Some r \<Rightarrow> if truthy_str (sc_data_install r) then sm_json_loads (ae_sm env) (the (sc_data_install r)) else Inr JNull)"

definition original_of :: "'x api_env \<Rightarrow> json \<Rightarrow> string \<Rightarrow> exn + string" where
  "original_of env original k =
     (case original of JObject d \<Rightarrow> Inr (to_str env (or_none (dict_get k d))) | _ \<Rightarrow> Inl AttributeError)"

definition missing_value :: "'x api_env \<Rightarrow> json \<Rightarrow> string \<Rightarrow> ('s, unit) io" where
  "missing_value env original k =
     (if truthy_json original then
        bnd (of_sum (original_of env original k)) (\<lambda>old.
          http_abort 400 (''Mandatory install value '' @ k @ '' not present, existing '' @ k @ '' in DB: '' @ old))
      else http_abort 400 (''Mandatory install value '' @ k @ '' not present''))"

definition check_size :: "'x api_env \<Rightarrow> dict \<Rightarrow> ('s, unit) io" where
  "check_size env values =
     (case dict_get ''persistent_size'' values of
        None \<Rightarrow> ret ()
      | Some v \<Rightarrow>
          (case whole_number v of
             None \<Rightarrow> http_abort 400 (''The install value persistent_size (in MB) must be a '' @
               ''whole number greater than or equal to '' @ show_int DEFAULT_PERSISTENT_SIZE)
           | Some n \<Rightarrow> abort_if (n < DEFAULT_PERSISTENT_SIZE) 400
               (''persistent_size of '' @ to_str env v @ '' MB is less than the permitted minimum '' @
                show_int DEFAULT_PERSISTENT_SIZE @ '' MB '')))"

definition check_settle :: "'x api_env \<Rightarrow> dict \<Rightarrow> ('s, unit) io" where
  "check_settle env values =
     (case dict_get ''hw_settle'' values of
        None \<Rightarrow> ret ()
      | Some v \<Rightarrow>
          (case whole_number v of
             None \<Rightarrow> http_abort 400 (''The install value hw_settle (in seconds) must '' @
               ''be a whole number greater than or equal to 0'')
           | Some n \<Rightarrow> abort_if (n < 0) 400 (''hw_settle of '' @ to_str env v @ '' seconds is less than 0'')))"

text \<open>Only the image may be missing, when the release is the active one and its image is in the vault.\<close>

definition check_mandatory :: "'x api_env \<Rightarrow> json \<Rightarrow> string \<Rightarrow> dict \<Rightarrow> string \<Rightarrow> ('x sm_sys, unit) io" where
  "check_mandatory env original software_version values k =
     (if dict_get k values \<noteq> None then ret ()
      else if k = ''image'' then
        (if software_version = sm_sw_version (ae_sm env) then
           bnd (matching_iso env) (\<lambda>(iso, err). if truthy_str err then http_abort 400 (the err) else ret ())
         else http_abort 400 (''Image was not in install_values, and software version '' @ software_version @
           '' in install values did not match the active load '' @ sm_sw_version (ae_sm env)))
      else missing_value env original k)"

definition address_version :: "'x api_env \<Rightarrow> string \<Rightarrow> json \<Rightarrow> ('s, nat) io" where
  "address_version env what v =
     try_catch (bnd (of_sum (na_address (ae_net env) v)) (\<lambda>a. ret (ip_version a)))
       (\<lambda>e. if e = AddrFormatError then http_abort 400 (what @ '' invalid: '' @ exn_str e) else raise e)"

definition check_network :: "'x api_env \<Rightarrow> nat \<Rightarrow> dict \<Rightarrow> ('s, unit) io" where
  "check_network env version values =
     (case dict_get ''network_address'' values of
        None \<Rightarrow> ret ()
      | Some address \<Rightarrow>
          (case dict_get ''network_mask'' values of
             None \<Rightarrow> http_abort 400 ''The network mask is required when network address is present''
           | Some netmask \<Rightarrow>
               (case address of
                  JText s \<Rightarrow>
                    bnd (valid_or_abort ''network address''
                      (validate_network_str (ae_net env) (JText (s @ ''/'' @ to_str env netmask)) 1 [] False)) (\<lambda>network.
                    abort_if (net_version network \<noteq> version) 400
                      ''network address and bootstrap address must be the same IP version'')
                | _ \<Rightarrow> raise TypeError)))"

definition check_gateway :: "'x api_env \<Rightarrow> nat \<Rightarrow> dict \<Rightarrow> ('s, unit) io" where
  "check_gateway env version values =
     seq (case dict_get ''nexthop_gateway'' values of
            None \<Rightarrow> ret ()
          | Some v \<Rightarrow> bnd (address_version env ''nexthop_gateway address'' v) (\<lambda>w.
              abort_if (w \<noteq> version) 400 ''nexthop_gateway and bootstrap_address must be the same IP version''))
    (seq (abort_if (dict_get ''network_address'' values \<noteq> None \<and> dict_get ''nexthop_gateway'' values = None) 400
            ''nexthop_gateway is required when network_address is present'')
      (check_network env version values))"

text \<open>\<open>int(v)\<close>\<close>

definition to_int :: "json \<Rightarrow> exn + int" where
  "to_int v =
     (case v of
        JText s \<Rightarrow> (case py_int s of None \<Rightarrow> Inl ValueError | Some n \<Rightarrow> Inr n)
      | _ \<Rightarrow> (case whole_number v of None \<Rightarrow> Inl TypeError | Some n \<Rightarrow> Inr n))"

definition check_timeout :: "dict \<Rightarrow> ('s, unit) io" where
  "check_timeout values =
     (case dict_get ''rd.net.timeout.ipv6dad'' values of
        None \<Rightarrow> ret ()
      | Some v \<Rightarrow>
          (case to_int v of
             Inl e \<Rightarrow> if e = ValueError then http_abort 400 (''rd.net.timeout.ipv6dad invalid: '' @ exn_str e) else raise e
           | Inr n \<Rightarrow> abort_if (n \<le> 0) 400 (''rd.net.timeout.ipv6dad must be greater than 0: '' @ show_int n)))"

definition check_values :: "'x api_env \<Rightarrow> json \<Rightarrow> dict \<Rightarrow> ('x sm_sys, unit) io" where
  "check_values env original values =
     seq (case dict_get ''software_version'' values of
            None \<Rightarrow>
              if truthy_json original then
                bnd (of_sum (original_of env original ''software_version'')) (\<lambda>old. http_abort 400
                  (''Mandatory install value software_version not present, existing software_version in DB: '' @ old))
              else http_abort 400 ''Mandatory install value software_version not present''
          | Some _ \<Rightarrow> ret ())
    (let software_version = to_str env (or_none (dict_get ''software_version'' values))
     in seq (check_size env values)
       (seq (check_settle env values)
       (seq (for_each (check_mandatory env original software_version values) MANDATORY_INSTALL_VALUES)
       (seq (let v = or_none (dict_get ''install_type'' values)
             in abort_if (case whole_number v of None \<Rightarrow> True | Some n \<Rightarrow> n < 0 \<or> SUPPORTED_INSTALL_TYPES \<le> n) 400
                  (''install_type invalid: '' @ to_str env v))
       (bnd (address_version env ''bootstrap_address'' (or_none (dict_get ''bootstrap_address'' values))) (\<lambda>version.
        bnd (address_version env ''bmc_address'' (or_none (dict_get ''bmc_address'' values))) (\<lambda>bmc.
        seq (abort_if (bmc \<noteq> version) 400 ''bmc_address and bootstrap_address must be the same IP version'')
       (seq (check_gateway env version values)
         (check_timeout values)))))))))"

text \<open>The password of the board management controller goes into the values, before they are checked.\<close>

definition validate_install_values ::
  "'x api_env \<Rightarrow> dict \<Rightarrow> subcloud option \<Rightarrow> ('x sm_sys, bool \<times> dict) io" where
  "validate_install_values env payload sc =
     (let install_values = or_none (dict_get INSTALL_VALUES payload);
          bmc_password = or_none (dict_get ''bmc_password'' payload)
      in if \<not> truthy_json install_values then ret (False, payload)
         else bnd (of_sum (original_values env sc)) (\<lambda>original.
           seq (abort_if (\<not> truthy_json bmc_password) 400 ''subcloud bmc_password required'')
          (seq (password_or_abort ''bmc_password'' bmc_password)
          (case install_values of
             JObject values \<Rightarrow>
               let values = dict_set ''bmc_password'' bmc_password values
               in seq (check_values env original values)
                    (ret (True, dict_set INSTALL_VALUES (JObject values) payload))
           | _ \<Rightarrow> raise AttributeError))))"

section \<open>Addresses in their one form\<close>

definition BOOTSTRAP_VALUES_ADDRESSES :: "string list" where
  "BOOTSTRAP_VALUES_ADDRESSES =
     [''bootstrap-address'', ''management_start_address'', ''management_end_address'',
      ''management_gateway_address'', ''systemcontroller_gateway_address'',
      ''external_oam_gateway_address'', ''external_oam_floating_address'',
      ''admin_start_address'', ''admin_end_address'', ''admin_gateway_address'']"

definition INSTALL_VALUES_ADDRESSES :: "string list" where
  "INSTALL_VALUES_ADDRESSES = [''bootstrap_address'', ''bmc_address'', ''nexthop_gateway'', ''network_address'']"

definition format_address :: "'x api_env \<Rightarrow> string \<Rightarrow> dict \<Rightarrow> ('s, dict) io" where
  "format_address env k d =
     (case dict_get k d of
        None \<Rightarrow> ret d
      | Some v \<Rightarrow> try_catch
          (bnd (of_sum (na_address (ae_net env) v)) (\<lambda>a. ret (dict_set k (JText (na_format (ae_net env) a)) d)))
          (\<lambda>e. if e = AddrFormatError then http_abort 400 (k @ '' invalid: '' @ exn_str e) else raise e))"

definition format_ip_address :: "'x api_env \<Rightarrow> dict \<Rightarrow> ('s, dict) io" where
  "format_ip_address env payload =
     bnd (case dict_get INSTALL_VALUES payload of
            None \<Rightarrow> ret payload
          | Some (JObject values) \<Rightarrow>
              bnd (fold_io (format_address env) INSTALL_VALUES_ADDRESSES values) (\<lambda>values.
                ret (dict_set INSTALL_VALUES (JObject values) payload))
          | Some (JText []) \<Rightarrow> ret payload
          | Some (JArray []) \<Rightarrow> ret payload
          | Some _ \<Rightarrow> raise TypeError)
       (fold_io (format_address env) BOOTSTRAP_VALUES_ADDRESSES)"

section \<open>Install values of the database\<close>

definition mandatory_bootstrap_parameters :: "string list" where
  "mandatory_bootstrap_parameters =
     [''bootstrap_interface'', ''bootstrap_address'', ''bootstrap_address_prefix'',
      ''bmc_username'', ''bmc_address'', ''bmc_password'']"

definition TEMP_SYSADMIN_PASSWORD :: string where "TEMP_SYSADMIN_PASSWORD = ''St8rlingX*''"

definition get_subcloud_db_install_values :: "'x api_env \<Rightarrow> subcloud \<Rightarrow> ('s, dict) io" where
  "get_subcloud_db_install_values env sc =
     (if \<not> truthy_str (sc_data_install sc) then http_abort 400 ''Failed to read data install from db''
      else bnd (of_sum (sm_json_loads (ae_sm env) (the (sc_data_install sc)))) (\<lambda>v.
        bnd (of_sum (dict_of v)) (\<lambda>values.
        seq (for_each (\<lambda>p. abort_if (dict_get p values = None) 400 (''Failed to get '' @ p @ '' from data_install''))
               mandatory_bootstrap_parameters)
          (ret (dict_set ''ansible_ssh_pass'' (JText TEMP_SYSADMIN_PASSWORD)
            (dict_set ''ansible_become_pass'' (JText TEMP_SYSADMIN_PASSWORD) values))))))"

end
