(* ===== verification/DC_Api.thy ===== *)
theory DC_Api
  imports DC_Requests
begin

text \<open>
  The operations of \<open>SubcloudsController\<close>, first those that show subclouds, then those that change them,
  with the subcloud manager as the server of the remote calls.
\<close>

chapter \<open>Showing subclouds\<close>

text \<open>
  The operations of \<open>SubcloudsController\<close> in \<open>dcmanager/api/controllers/v1/subclouds.py\<close>: one definition per
  method, and per verb of \<open>PATCH\<close>. An answer is the JSON value that the method returns, an error the
  exception that reaches \<open>pecan\<close>. A write holds the lock of the controller for its whole length.
\<close>

section \<open>Answers\<close>

definition opt_text :: "string option \<Rightarrow> json" where
  "opt_text s = (case s of None \<Rightarrow> JNull | Some x \<Rightarrow> JText x)"

text \<open>The row of a subcloud. The columns \<open>created_at\<close> and \<open>updated_at\<close> are left out.\<close>

definition subcloud_db_model_to_dict :: "subcloud \<Rightarrow> dict" where
  "subcloud_db_model_to_dict sc =
     [(''id'', JNumber (int (sc_id sc))), (''name'', JText (sc_name sc)),
      (''description'', JText (sc_description sc)), (''location'', JText (sc_location sc)),
      (''software-version'', JText (sc_software_version sc)),
      (''management-state'', JText (management_str (sc_management_state sc))),
      (''availability-status'', JText (availability_str (sc_availability_status sc))),
      (''deploy-status'', JText (deploy_state_str (sc_deploy_status sc))),
      (''backup-status'', opt_text (map_option backup_state_str (sc_backup_status sc))),
      (''backup-datetime'', (case sc_backup_datetime sc of None \<Rightarrow> JNull | Some t \<Rightarrow> JNumber t)),
      (''error-description'', JText (sc_error_description sc)),
      (''management-subnet'', JText (sc_management_subnet sc)),
      (''management-start-ip'', JText (sc_management_start_ip sc)),
      (''management-end-ip'', JText (sc_management_end_ip sc)),
      (''management-gateway-ip'', JText (sc_management_gateway_ip sc)),
      (''openstack-installed'', JBoolean (sc_openstack_installed sc)),
      (''systemcontroller-gateway-ip'', JText (sc_systemcontroller_gateway_ip sc)),
      (''data_install'', opt_text (sc_data_install sc)), (''data_upgrade'', opt_text (sc_data_upgrade sc)),
      (''group_id'', (case sc_group_id sc of None \<Rightarrow> JNull | Some g \<Rightarrow> JNumber (int g)))]"

definition subcloud_status_db_model_to_dict :: "subcloud_status option \<Rightarrow> dict" where
  "subcloud_status_db_model_to_dict st =
     (case st of
        None \<Rightarrow> [(''subcloud_id'', JNumber 0), (''sync_status'', JText ''unknown'')]
      | Some r \<Rightarrow> [(''subcloud_id'', JNumber (int (ss_subcloud_id r))),
                   (''sync_status'', JText (sync_status_str (ss_sync_status r)))])"

definition subcloud_endpoint_status_db_model_to_dict :: "subcloud_status option \<Rightarrow> dict" where
  "subcloud_endpoint_status_db_model_to_dict st =
     (case st of
        None \<Rightarrow> []
      | Some r \<Rightarrow> [(''endpoint_type'', JText (endpoint_type_str (ss_endpoint_type r))),
                   (''sync_status'', JText (sync_status_str (ss_sync_status r)))])"

section \<open>Advice for failures\<close>

definition newline :: string where "newline = [CHR 0x0A]"

definition ERR_MSG_DICT :: "(string \<times> string) list" where
  "ERR_MSG_DICT =
     [(''bootstrap-failed'', ''For bootstrap failures, please delete and re-add '' @
         ''the subcloud after the cause of failure has been '' @ ''resolved.''),
      (''deploy-failed'', ''For deployment failures, please use dcmanager subcloud '' @
         ''reconfig command to reconfigure the subcloud after the '' @ ''cause of failure has been resolved.''),
      (''bmc_cred'', ''Check BMC credentials in install-values.yml. Check basic '' @
         ''authenticacion to the BMC: curl -u <<user:pass>> '' @ ''<<BMC_URL>>''),
      (''ping_bmc'', ''Check reachability to the BMC: ping <<BMC_URL>>''),
      (''dm_pod_failed'',
         ''-  Ensure you are using the correct tarball that corresponds to the image.'' @ newline @
         ''-  Check helm overrides files, ensure the deployment manager images exist in '' @
         ''the specified registry and you can manually pull them from the registry.'' @ newline @
         ''-  Ensure you have installed the correct certificate.'' @ newline @
         ''-  Ensure you have logged in: sudo docker login registry.local:9001 '' @
         ''-u <<registry_user>> -p <<registry_password>>''),
      (''dm_apply_failed'', ''Check deployment yaml file and ensure the content is '' @
         ''syntactically and semantically correct.''),
      (''images_download_failure'', ''Check docker_registries and docker proxy '' @
         ''configurations in bootstrap values yaml '' @ ''file. Ensure you can manually log into the '' @
         ''registry e.g. sudo docker login '' @ ''registry.local:9001 -u <registry-user> '' @
         ''-p <registry-password>''),
      (''failed_ssl_cert'', ''Check if the right certificate was installed.'')]"

text \<open>The leftmost match of \<open>err_code\s*=\s*(\S*)\<close>, in either case.\<close>

fun err_code :: "string \<Rightarrow> string option" where
  "err_code [] = None"
| "err_code (c # cs) =
     (let rest = dropWhile is_space (drop 8 (c # cs))
      in if lower (take 8 (c # cs)) = ''err_code'' \<and> take 1 rest = ''=''
         then Some (takeWhile (\<lambda>x. \<not> is_space x) (dropWhile is_space (tl rest)))
         else err_code cs)"

definition static_err_content :: "deploy_state \<Rightarrow> string \<Rightarrow> string" where
  "static_err_content status description =
     join_with newline ([description]
       @ (case Option.bind (err_code description) (map_of ERR_MSG_DICT) of None \<Rightarrow> [] | Some m \<Rightarrow> [m])
       @ (if status \<in> {DEPLOY_STATE_DEPLOY_FAILED, DEPLOY_STATE_BOOTSTRAP_FAILED}
          then [the (map_of ERR_MSG_DICT (deploy_state_str status))] else []))"

definition append_static_err_content :: "subcloud \<Rightarrow> dict \<Rightarrow> dict" where
  "append_static_err_content sc d =
     dict_set ''error-description'' (JText (static_err_content (sc_deploy_status sc) (sc_error_description sc))) d"

section \<open>Reading subclouds\<close>

definition API_POLICY_ROOT :: string where "API_POLICY_ROOT = ''dc_api:subclouds:''"

definition authorized_as :: "'x api_env \<Rightarrow> string \<Rightarrow> ('x sm_sys, request_context option) io" where
  "authorized_as env rule = seq (on_world (ask (ae_authorize env rule))) (on_world (ask (ae_context env)))"

definition authorized :: "'x api_env \<Rightarrow> string \<Rightarrow> ('x sm_sys, request_context option) io" where
  "authorized env verb = authorized_as env (API_POLICY_ROOT @ verb)"

definition endpoint_statuses :: "subcloud_status option \<Rightarrow> json list" where
  "endpoint_statuses st =
     (case st of None \<Rightarrow> [] | Some _ \<Rightarrow> [JObject (subcloud_endpoint_status_db_model_to_dict st)])"

definition listed_row :: "subcloud \<Rightarrow> subcloud_status option \<Rightarrow> dict" where
  "listed_row sc st = append_static_err_content sc
     (dict_update (subcloud_status_db_model_to_dict st) (subcloud_db_model_to_dict sc))"

text \<open>A row of the join is added to the list of answers: the rows of one subcloud follow each other, and
  only the second of them adds the list of the endpoints to the answer.\<close>

definition list_row ::
  "dict list \<times> json list \<Rightarrow> subcloud \<times> subcloud_status option \<Rightarrow> dict list \<times> json list" where
  "list_row acc r =
     (case (acc, r) of ((subcloud_list, statuses), (sc, st)) \<Rightarrow>
       let d = listed_row sc st
       in if subcloud_list \<noteq> [] \<and> dict_get ''id'' (last subcloud_list) = dict_get ''id'' d then
            (let old = last subcloud_list;
                 merged = (if dict_get ''sync_status'' old \<noteq> dict_get ''sync_status'' d
                           then dict_set ''sync_status'' (JText (sync_status_str SYNC_STATUS_OUT_OF_SYNC)) old
                           else old);
                 statuses = statuses @ endpoint_statuses st
             in (butlast subcloud_list @ [dict_set ''endpoint_sync_status'' (JArray statuses) merged], statuses))
          else (subcloud_list @ [d], endpoint_statuses st))"

definition list_subclouds :: "(subcloud \<times> subcloud_status option) list \<Rightarrow> dict list" where
  "list_subclouds rs = fst (foldl list_row ([], []) rs)"

definition lookup_subcloud :: "request_context option \<Rightarrow> string \<Rightarrow> ('x world, subcloud) io" where
  "lookup_subcloud ctx ref =
     (if isdigit ref then
        try_catch (db_io (subcloud_get ctx (nat_of_digits ref)))
          (\<lambda>e. case e of SubcloudNotFound _ \<Rightarrow> http_abort 404 ''Subcloud not found'' | _ \<Rightarrow> raise e)
      else
        try_catch (db_io (subcloud_get_by_name ctx ref))
          (\<lambda>e. case e of SubcloudNameNotFound _ \<Rightarrow> http_abort 404 ''Subcloud not found'' | _ \<Rightarrow> raise e))"

text \<open>The floating address: none when the endpoint or the addresses of the subcloud are not there.\<close>

definition OAMAddressesNotFound :: exn where
  "OAMAddressesNotFound = PyException ''dccommon: OAMAddressesNotFound''"

definition oam_floating :: "'x api_env \<Rightarrow> subcloud \<Rightarrow> ('x world, string) io" where
  "oam_floating env sc =
     (if sc_availability_status sc = AVAILABILITY_ONLINE then
        try_catch (ask (ae_oam_floating_ip env (sc_name sc)))
          (\<lambda>e. if e \<in> {EndpointNotFound, IndexError, OAMAddressesNotFound} then ret ''unavailable'' else raise e)
      else ret ''unavailable'')"

definition get_one :: "'x api_env \<Rightarrow> request_context option \<Rightarrow> string \<Rightarrow> bool \<Rightarrow> ('x world, dict) io" where
  "get_one env ctx ref detail =
     bnd (lookup_subcloud ctx ref) (\<lambda>found.
     bnd (db_io (subcloud_get_with_status ctx (sc_id found))) (\<lambda>rs.
       let sc = fst (last rs);
           d = append_static_err_content sc
             (dict_set ''endpoint_sync_status'' (JArray (concat (map (endpoint_statuses \<circ> snd) rs)))
               (subcloud_db_model_to_dict sc))
       in if detail then bnd (oam_floating env sc) (\<lambda>ip. ret (dict_set ''oam_floating_ip'' (JText ip) d))
          else ret d))"

definition get_subclouds ::
  "'x api_env \<Rightarrow> string option \<Rightarrow> bool \<Rightarrow> ('x sm_sys, json) io" where
  "get_subclouds env ref detail =
     bnd (authorized env ''get'') (\<lambda>ctx.
       case ref of
         None \<Rightarrow> bnd (on_world (db_io (subcloud_get_all_with_status ctx))) (\<lambda>rs.
           ret (JObject [(''subclouds'', JArray (map JObject (list_subclouds rs)))]))
       | Some r \<Rightarrow> bnd (on_world (get_one env ctx r detail)) (\<lambda>d. ret (JObject d)))"

chapter \<open>Changing subclouds\<close>

text \<open>
  The requests of \<open>SubcloudsController\<close> that change something: adding, updating, reconfiguring,
  reinstalling, prestaging and deleting a subcloud, and reporting the status of its certificate.
\<close>

section \<open>Remote calls\<close>

text \<open>What the caller of a remote method makes of an exception: also the answers 400 and 422 that are
  raised within the same \<open>try\<close> end here.\<close>

definition remote_or :: "string \<Rightarrow> ('s, 'a) io \<Rightarrow> ('s, 'a) io" where
  "remote_or msg m = try_catch m (\<lambda>e. case e of RemoteError v \<Rightarrow> http_abort 422 v | _ \<Rightarrow> http_abort 500 msg)"

definition rpc :: "string \<Rightarrow> string \<Rightarrow> ('x sm_sys, 'a) io \<Rightarrow> ('x sm_sys, 'a) io" where
  "rpc name subject m = seq (on_world (log_action (ManagerRpc name subject))) m"

definition payload_value :: "string \<Rightarrow> dict \<Rightarrow> json" where
  "payload_value k payload = or_none (dict_get k payload)"

definition require_key :: "dict \<Rightarrow> string \<Rightarrow> ('s, unit) io" where
  "require_key payload k = abort_if (\<not> truthy_json (payload_value k payload)) 400 (k @ '' required'')"

section \<open>Adding a subcloud\<close>

definition admin_keys :: "string list" where
  "admin_keys = [''admin_subnet'', ''admin_start_address'', ''admin_end_address'', ''admin_gateway_address'']"

definition check_gateways :: "dict \<Rightarrow> ('s, unit) io" where
  "check_gateways payload =
     (let admin = truthy_json (payload_value ''admin_gateway_address'' payload);
          mgmt = truthy_json (payload_value ''management_gateway_address'' payload)
      in if admin \<and> mgmt then
           http_abort 400 (''admin_gateway_address and management_gateway_address cannot be '' @
             ''specified at the same time'')
         else abort_if (\<not> admin \<and> \<not> mgmt) 400 ''management_gateway_address required'')"

definition check_payload :: "dict \<Rightarrow> ('s, unit) io" where
  "check_payload payload =
     seq (abort_if (payload = []) 400 ''Body required'')
    (seq (for_each (require_key payload) [''name'', ''system_mode''])
    (seq (when_io (list_ex (\<lambda>k. truthy_json (payload_value k payload)) admin_keys)
            (for_each (require_key payload) admin_keys))
    (seq (for_each (require_key payload) [''management_subnet'', ''management_start_address'', ''management_end_address''])
    (seq (check_gateways payload)
      (for_each (require_key payload)
        [''systemcontroller_gateway_address'', ''external_oam_subnet'', ''external_oam_gateway_address'',
         ''external_oam_floating_address''])))))"

definition decode_sysadmin_password :: "dict \<Rightarrow> ('s, dict) io" where
  "decode_sysadmin_password payload =
     (let v = payload_value ''sysadmin_password'' payload
      in seq (abort_if (\<not> truthy_json v) 400 ''subcloud sysadmin_password required'')
           (bnd (password_or_abort ''sysadmin_password'' v) (\<lambda>s.
             ret (dict_set ''sysadmin_password'' (JText s) payload))))"

definition check_migrate :: "(string \<times> form_item) list \<Rightarrow> dict \<Rightarrow> ('s, unit) io" where
  "check_migrate post payload =
     (let v = payload_value ''migrate'' payload
      in when_io (v \<noteq> JNull)
           (seq (abort_if (v \<notin> {JText ''true'', JText ''false''}) 400
                   ''The migrate option is invalid, valid options are true and false.'')
             (abort_if (DEPLOY_CONFIG \<in> fst ` set post) 400 ''migrate with deploy-config is not allowed'')))"

definition validate_system_controller_patch_status :: "'x api_env \<Rightarrow> ('x sm_sys, unit) io" where
  "validate_system_controller_patch_status env =
     bnd (on_world (ask (ae_patch_states env))) (\<lambda>states.
       abort_if (list_ex (\<lambda>s. s \<in> {''Partial-Apply'', ''Partial-Remove''}) states) 422
         ''Subcloud add is not allowed while system controller patching is still in progress.'')"

definition config_of :: "string \<Rightarrow> dict \<Rightarrow> subcloud_config" where
  "config_of name payload =
     \<lparr>cf_name = name,
      cf_admin = \<lparr>ac_subnet = dict_get ''admin_subnet'' payload, ac_start = dict_get ''admin_start_address'' payload,
        ac_end = dict_get ''admin_end_address'' payload, ac_gateway = dict_get ''admin_gateway_address'' payload\<rparr>,
      cf_management_subnet = payload_value ''management_subnet'' payload,
      cf_management_start = payload_value ''management_start_address'' payload,
      cf_management_end = payload_value ''management_end_address'' payload,
      cf_management_gateway = payload_value ''management_gateway_address'' payload,
      cf_oam_subnet = payload_value ''external_oam_subnet'' payload,
      cf_oam_gateway = payload_value ''external_oam_gateway_address'' payload,
      cf_oam_floating = payload_value ''external_oam_floating_address'' payload,
      cf_systemcontroller_gateway = payload_value ''systemcontroller_gateway_address'' payload,
      cf_group_id = (case dict_get ''group_id'' payload of
          None \<Rightarrow> JNumber (int DEFAULT_SUBCLOUD_GROUP_ID) | Some v \<Rightarrow> v)\<rparr>"

text \<open>A column without a value reads as the empty text.\<close>

definition column_text :: "'x api_env \<Rightarrow> json \<Rightarrow> string" where
  "column_text env v = (if v = JNull then [] else to_str env v)"

definition install_columns :: "'x api_env \<Rightarrow> dict \<Rightarrow> exn + (string \<times> string option)" where
  "install_columns env payload =
     (case dict_get INSTALL_VALUES payload of
        None \<Rightarrow> Inr (sm_sw_version (ae_sm env), None)
      | Some (JObject values) \<Rightarrow>
          (case dict_get ''software_version'' values of
             None \<Rightarrow> Inl KeyError
           | Some v \<Rightarrow> Inr (to_str env v, Some (json_dumps (JObject values))))
      | Some _ \<Rightarrow> Inl TypeError)"

definition new_subcloud_of :: "'x api_env \<Rightarrow> string \<Rightarrow> dict \<Rightarrow> exn + new_subcloud" where
  "new_subcloud_of env name payload =
     (let value = (\<lambda>k. column_text env (payload_value k payload));
          address = (\<lambda>admin mgmt. if truthy_json (payload_value admin payload) then value admin else value mgmt)
      in case (install_columns env payload, group_number (cf_group_id (config_of name payload))) of
           (Inl e, _) \<Rightarrow> Inl e
         | (_, None) \<Rightarrow> Inl (PyException ''DataError'')
         | (Inr (software_version, data_install), Some g) \<Rightarrow> Inr
             \<lparr>ns_name = name, ns_description = value ''description'', ns_location = value ''location'',
              ns_software_version = software_version,
              ns_management_subnet = address ''admin_subnet'' ''management_subnet'',
              ns_management_gateway_ip = address ''admin_gateway_address'' ''management_gateway_address'',
              ns_management_start_ip = address ''admin_start_address'' ''management_start_address'',
              ns_management_end_ip = address ''admin_end_address'' ''management_end_address'',
              ns_systemcontroller_gateway_ip = value ''systemcontroller_gateway_address'',
              ns_deploy_status = DEPLOY_STATE_NONE, ns_error_description = ERROR_DESC_EMPTY,
              ns_openstack_installed = False, ns_group_id = g, ns_data_install = data_install\<rparr>)"

definition add_subcloud_to_database ::
  "'x api_env \<Rightarrow> request_context option \<Rightarrow> string \<Rightarrow> dict \<Rightarrow> ('x sm_sys, subcloud) io" where
  "add_subcloud_to_database env ctx name payload =
     seq (try_else (on_world (db_io (subcloud_get_by_name ctx name)))
            (\<lambda>e. case e of SubcloudNameNotFound _ \<Rightarrow> ret () | _ \<Rightarrow> raise e)
            (\<lambda>_. raise (BadRequest ''subcloud'' ''Subcloud with that name already exists'')))
       (bnd (of_sum (new_subcloud_of env name payload)) (\<lambda>n. on_world (db_io (subcloud_create ctx n))))"

text \<open>The checks of the request, in order; the payload they leave, and the name.\<close>

definition validated_addition ::
  "'x api_env \<Rightarrow> request_context option \<Rightarrow> request \<Rightarrow> ('x sm_sys, string \<times> dict \<times> (string \<times> form_item) list) io" where
  "validated_addition env ctx rq =
     bnd (get_request_data env (rq_post rq)) (\<lambda>(payload, post).
     seq (check_payload payload)
    (bnd (decode_sysadmin_password payload) (\<lambda>payload.
     seq (check_migrate post payload)
    (seq (validate_system_controller_patch_status env)
    (bnd (of_sum (case payload_value ''name'' payload of JText s \<Rightarrow> Inr s | _ \<Rightarrow> Inl AttributeError)) (\<lambda>name.
     seq (on_world (validate_subcloud_config (ae_net env) (ae_management_pool env) ctx (config_of name payload)))
    (bnd (validate_install_values env payload None) (\<lambda>(_, payload).
     bnd (format_ip_address env payload) (\<lambda>payload.
       ret (name, payload, post))))))))))"

definition post_subcloud :: "'x api_env \<Rightarrow> string option \<Rightarrow> request \<Rightarrow> ('x sm_sys, json) io" where
  "post_subcloud env ref rq =
     bnd (authorized env ''create'') (\<lambda>ctx.
       if ref \<noteq> None then http_abort 400 ''Invalid request''
       else bnd (validated_addition env ctx rq) (\<lambda>(name, payload, post).
         bnd (upload_deploy_config_file env post payload) (\<lambda>payload.
           remote_or ''Unable to create subcloud''
             (bnd (add_subcloud_to_database env ctx name payload) (\<lambda>sc.
              seq (rpc ''add_subcloud'' name (mr_add_subcloud (ae_rpc env) ctx payload))
                (ret (JObject (subcloud_db_model_to_dict sc))))))))"

section \<open>Updating a subcloud\<close>

text \<open>The subnets of all subclouds, and the subcloud that the loop over them leaves in its variable.\<close>

definition existing_subnets ::
  "'x api_env \<Rightarrow> request_context option \<Rightarrow> ('x sm_sys, subcloud list \<times> ip_network list) io" where
  "existing_subnets env ctx =
     bnd (on_world (db_io (subcloud_get_all ctx))) (\<lambda>scs.
     bnd (of_sum (networks_of (ae_net env) scs)) (\<lambda>ns. ret (scs, ns)))"

definition update_admin_keys :: "string list" where
  "update_admin_keys = [''admin_subnet'', ''admin_gateway_ip'', ''admin_start_address'', ''admin_end_address'']"

definition check_admin_update ::
  "'x api_env \<Rightarrow> request_context option \<Rightarrow> subcloud \<Rightarrow> dict \<Rightarrow> ('x sm_sys, subcloud \<times> dict) io" where
  "check_admin_update env ctx sc payload =
     (if list_all (\<lambda>k. truthy_json (payload_value k payload)) update_admin_keys then
        let payload = dict_set ''systemcontroller_gateway_ip'' (JText (sc_systemcontroller_gateway_ip sc))
              (dict_set ''name'' (JText (sc_name sc)) payload);
            c = \<lparr>ac_subnet = dict_get ''admin_subnet'' payload, ac_start = dict_get ''admin_start_address'' payload,
                 ac_end = dict_get ''admin_end_address'' payload, ac_gateway = dict_get ''admin_gateway_ip'' payload\<rparr>
        in bnd (existing_subnets env ctx) (\<lambda>(scs, existing).
           seq (validate_admin_network_config (ae_net env) c existing)
          (bnd (decode_sysadmin_password payload) (\<lambda>payload.
             ret (if scs = [] then sc else last scs, payload))))
      else ret (sc, payload))"

definition check_state_and_force :: "dict \<Rightarrow> ('s, unit) io" where
  "check_state_and_force payload =
     (let ms = payload_value ''management-state'' payload; force = payload_value ''force'' payload
      in seq (abort_if (truthy_json ms \<and> ms \<notin> {JText ''unmanaged'', JText ''managed''}) 400 ''Invalid management-state'')
           (if force = JNull then ret ()
            else if whole_number force \<notin> {Some 0, Some 1} then http_abort 400 ''Invalid force value''
            else abort_if (ms \<noteq> JText ''managed'') 400 ''Invalid option: force''))"

definition find_group :: "'x api_env \<Rightarrow> request_context option \<Rightarrow> dict \<Rightarrow> ('x sm_sys, nat option) io" where
  "find_group env ctx payload =
     (let v = payload_value ''group_id'' payload; s = to_str env v
      in if v = JNull then ret None
         else try_catch
           (bnd (on_world (db_io (if isdigit s then subcloud_group_get ctx (nat_of_digits s)
                                  else subcloud_group_get_by_name ctx s))) (\<lambda>g. ret (Some (g_id g))))
           (\<lambda>e. case e of
               SubcloudGroupNotFound _ \<Rightarrow> http_abort 400 ''Invalid group''
             | SubcloudGroupNameNotFound _ \<Rightarrow> http_abort 400 ''Invalid group''
             | _ \<Rightarrow> raise e))"

definition change_of :: "dict \<Rightarrow> nat option \<Rightarrow> subcloud_change" where
  "change_of payload g =
     \<lparr>uc_management_state = payload_text ''management-state'' payload,
      uc_description = payload_text ''description'' payload, uc_location = payload_text ''location'' payload,
      uc_group_id = g, uc_data_install = payload_text ''data_install'' payload,
      uc_force = truthy_json (payload_value ''force'' payload)\<rparr>"

text \<open>\<open>checked\<close> is the subcloud whose management state is looked at.\<close>

definition send_update ::
  "'x api_env \<Rightarrow> request_context option \<Rightarrow> nat \<Rightarrow> subcloud \<Rightarrow> nat option \<Rightarrow> dict \<Rightarrow> ('x sm_sys, json) io" where
  "send_update env ctx i checked g payload =
     remote_or ''Unable to update subcloud''
       (if truthy_json (payload_value ''admin_subnet'' payload) then
          seq (abort_if (truthy_json (payload_value ''management-state'' payload)) 422
                 ''Management state and network configuration must be updated separately'')
         (seq (abort_if (sc_management_state checked \<noteq> MANAGEMENT_UNMANAGED) 422
                 ''Subcloud must be unmanaged to update admin network'')
         (bnd (on_world (db_io (subcloud_update ctx i
                 (no_values\<lparr>sv_deploy_status := Some DEPLOY_STATE_RECONFIGURING_NETWORK\<rparr>)))) (\<lambda>sc.
          seq (rpc ''update_subcloud_with_network_reconfig'' (sc_name sc) (mr_network_reconfig (ae_rpc env) ctx i payload))
            (ret (JObject (subcloud_db_model_to_dict sc))))))
        else rpc ''update_subcloud'' (show_nat i) (mr_update_subcloud (ae_rpc env) ctx i (change_of payload g)))"

definition patch_update ::
  "'x api_env \<Rightarrow> request_context option \<Rightarrow> subcloud \<Rightarrow> request \<Rightarrow> ('x sm_sys, json) io" where
  "patch_update env ctx sc rq =
     bnd (get_patch_data env rq) (\<lambda>payload.
     seq (abort_if (payload = []) 400 ''Body required'')
    (bnd (check_admin_update env ctx sc payload) (\<lambda>(checked, payload).
     seq (check_state_and_force payload)
    (bnd (find_group env ctx payload) (\<lambda>g.
     bnd (validate_install_values env payload (Some checked)) (\<lambda>(installs, payload).
       send_update env ctx (sc_id sc) checked g
         (if installs then dict_set ''data_install'' (JText (json_dumps (payload_value INSTALL_VALUES payload))) payload
          else payload)))))))"

section \<open>Reconfiguring a subcloud\<close>

definition may_be_reconfigured :: "subcloud \<Rightarrow> bool" where
  "may_be_reconfigured sc \<longleftrightarrow>
     sc_deploy_status sc \<in> {DEPLOY_STATE_DONE, DEPLOY_STATE_DEPLOY_PREP_FAILED, DEPLOY_STATE_DEPLOY_FAILED} \<or>
     is_deploy_status_prestage (sc_deploy_status sc)"

definition patch_reconfigure ::
  "'x api_env \<Rightarrow> request_context option \<Rightarrow> subcloud \<Rightarrow> request \<Rightarrow> ('x sm_sys, json) io" where
  "patch_reconfigure env ctx sc rq =
     bnd (get_reconfig_payload env rq (sc_name sc)) (\<lambda>payload.
     seq (abort_if (payload = []) 400 ''Body required'')
    (seq (abort_if (\<not> may_be_reconfigured sc) 400 (''Subcloud deploy status must be either '' @
            ''complete, deploy-prep-failed, deploy-failed, '' @ ''or prestage-...''))
    (bnd (decode_sysadmin_password payload) (\<lambda>payload.
       remote_or ''Unable to reconfigure subcloud''
         (rpc ''reconfigure_subcloud'' (sc_name sc) (mr_reconfigure_subcloud (ae_rpc env) ctx (sc_id sc) payload))))))"

section \<open>Reinstalling a subcloud\<close>

text \<open>A value of the request has to be the one of the database, which is also the default.\<close>

definition same_as_column :: "string \<times> string \<times> string \<Rightarrow> dict \<Rightarrow> ('s, dict) io" where
  "same_as_column p payload =
     (case p of (k, column, msg) \<Rightarrow>
       let v = (case dict_get k payload of None \<Rightarrow> JText column | Some x \<Rightarrow> x)
       in if v \<noteq> JText column then http_abort 400 msg else ret (dict_set k v payload))"

definition network_columns :: "subcloud \<Rightarrow> (string \<times> string \<times> string) list" where
  "network_columns sc =
     [(''management_subnet'', sc_management_subnet sc, ''management_subnet is incorrect  for subcloud''),
      (''management_start_address'', sc_management_start_ip sc,
         ''management_start_address is incorrect for the subcloud''),
      (''management_end_address'', sc_management_end_ip sc, ''management_end_address is incorrect for the subcloud''),
      (''management_gateway_address'', sc_management_gateway_ip sc,
         ''management_gateway_address is incorrect for the subcloud''),
      (''systemcontroller_gateway_address'', sc_systemcontroller_gateway_ip sc,
         ''systemcontroller_gateway_address is incorrect for the subcloud'')]"

definition reinstall_payload :: "subcloud \<Rightarrow> dict \<Rightarrow> ('s, dict) io" where
  "reinstall_payload sc payload =
     bnd (same_as_column (''name'', sc_name sc, ''name is incorrect for the subcloud'') payload) (\<lambda>payload.
     seq (require_key payload ''system_mode'')
    (bnd (fold_io same_as_column (network_columns sc) payload) (\<lambda>payload.
     seq (for_each (require_key payload)
            [''external_oam_subnet'', ''external_oam_gateway_address'', ''external_oam_floating_address''])
       (decode_sysadmin_password payload))))"

text \<open>The install values of another release are taken to the active one, whose image is in the vault.\<close>

definition reinstall_values :: "'x api_env \<Rightarrow> dict \<Rightarrow> ('x sm_sys, dict) io" where
  "reinstall_values env values =
     (let version = JText (sm_sw_version (ae_sm env));
          values = (if payload_value ''software_version'' values \<noteq> version
                    then dict_del ''image'' (dict_set ''software_version'' version values) else values)
      in if dict_get ''image'' values \<noteq> None then ret values
         else bnd (matching_iso env) (\<lambda>(iso, err).
           if truthy_str err then http_abort 400 (the err)
           else ret (dict_set ''image'' (opt_text iso) values)))"

definition reinstall_columns :: "'x api_env \<Rightarrow> subcloud \<Rightarrow> dict \<Rightarrow> dict \<Rightarrow> subcloud_values" where
  "reinstall_columns env sc payload values =
     (let conv = (\<lambda>v. if v = JNull then None else Some (to_str env v))
      in no_values\<lparr>
        sv_description := payload_or ''description'' (Some (sc_description sc)) conv payload,
        sv_location := payload_or ''location'' (Some (sc_location sc)) conv payload,
        sv_software_version := Some (sm_sw_version (ae_sm env)),
        sv_management_state := Some MANAGEMENT_UNMANAGED,
        sv_deploy_status := Some DEPLOY_STATE_PRE_INSTALL,
        sv_data_install := Some (json_dumps (JObject values))\<rparr>)"

definition check_oam :: "'x api_env \<Rightarrow> request_context option \<Rightarrow> dict \<Rightarrow> ('x sm_sys, unit) io" where
  "check_oam env ctx payload =
     bnd (existing_subnets env ctx) (\<lambda>(scs, existing).
       validate_oam_network_config (ae_net env) (payload_value ''external_oam_subnet'' payload)
         (payload_value ''external_oam_gateway_address'' payload)
         (payload_value ''external_oam_floating_address'' payload) existing)"

definition patch_reinstall ::
  "'x api_env \<Rightarrow> request_context option \<Rightarrow> subcloud \<Rightarrow> request \<Rightarrow> ('x sm_sys, json) io" where
  "patch_reinstall env ctx sc rq =
     bnd (get_request_data env (rq_post rq)) (\<lambda>(payload, post).
     bnd (get_subcloud_db_install_values env sc) (\<lambda>values.
     seq (abort_if (sc_availability_status sc = AVAILABILITY_ONLINE) 400 ''Cannot re-install an online subcloud'')
    (bnd (reinstall_payload sc payload) (\<lambda>payload.
     seq (check_oam env ctx payload)
    (bnd (reinstall_values env values) (\<lambda>values.
       let payload = dict_set INSTALL_VALUES (JObject values)
             (dict_set ''bmc_password'' (payload_value ''bmc_password'' values) payload)
       in bnd (upload_deploy_config_file env post payload) (\<lambda>payload.
          remote_or ''Unable to reinstall subcloud''
            (seq (on_world (db_io (subcloud_update ctx (sc_id sc) (reinstall_columns env sc payload values))))
            (seq (rpc ''reinstall_subcloud'' (sc_name sc) (mr_reinstall_subcloud (ae_rpc env) ctx (sc_id sc) payload))
              (ret (JObject (subcloud_db_model_to_dict sc))))))))))))"

section \<open>Prestaging, the certificate status, and the verbs\<close>

definition precheck_or_abort :: "('s, 'a) io \<Rightarrow> ('s, 'a) io" where
  "precheck_or_abort m = try_catch m (\<lambda>e. case e of
     PrestagePreCheckFailedException _ _ _ \<Rightarrow> http_abort 400 (exn_str e) | _ \<Rightarrow> raise e)"

text \<open>The new status is only shown in the answer; the manager records it.\<close>

definition patch_prestage ::
  "'x api_env \<Rightarrow> request_context option \<Rightarrow> subcloud \<Rightarrow> request \<Rightarrow> ('x sm_sys, json) io" where
  "patch_prestage env ctx sc rq =
     bnd (get_prestage_payload env rq) (\<lambda>payload.
       let payload = dict_set ''subcloud_name'' (JText (sc_name sc)) payload
       in seq (on_world (precheck_or_abort (global_prestage_validate (ae_prestage env) (scalars payload))))
         (bnd (on_world (precheck_or_abort (validate_prestage (ae_prestage env) sc
                 (truthy_json (payload_value ''force'' payload))))) (\<lambda>oam.
          remote_or ''Unable to prestage subcloud''
            (seq (rpc ''prestage_subcloud'' (sc_name sc)
                   (mr_prestage_subcloud (ae_rpc env) ctx (dict_set ''oam_floating_ip'' (JText oam) payload)))
              (ret (JObject (subcloud_db_model_to_dict (sc\<lparr>sc_deploy_status := PRESTAGE_STATE_PREPARE\<rparr>))))))))"

definition updatestatus :: "'x api_env \<Rightarrow> string \<Rightarrow> request \<Rightarrow> ('x sm_sys, json) io" where
  "updatestatus env name rq =
     bnd (of_sum (get_updatestatus_payload env rq)) (\<lambda>payload.
     seq (abort_if (payload = []) 400 ''Body required'')
    (seq (require_key payload ''endpoint'')
    (seq (abort_if (payload_value ''endpoint'' payload \<noteq> JText (endpoint_type_str ENDPOINT_TYPE_DC_CERT)) 400
            (''updating endpoint '' @ to_str env (payload_value ''endpoint'' payload) @ '' status is not allowed''))
    (seq (require_key payload ''status'')
    (case find (\<lambda>s. payload_value ''status'' payload = JText (sync_status_str s))
            [SYNC_STATUS_IN_SYNC, SYNC_STATUS_OUT_OF_SYNC, SYNC_STATUS_UNKNOWN] of
       None \<Rightarrow> http_abort 400 (''status '' @ to_str env (payload_value ''status'' payload) @ '' in invalid.'')
     | Some sync \<Rightarrow>
         bnd (on_world (ask (ae_context env))) (\<lambda>ctx.
         seq (rpc ''update_subcloud_endpoint_status'' name
               (mr_endpoint_status (ae_rpc env) ctx name ENDPOINT_TYPE_DC_CERT sync))
           (ret (JObject [(''result'', JText ''OK'')]))))))))"

definition patch_verb ::
  "'x api_env \<Rightarrow> request_context option \<Rightarrow> subcloud \<Rightarrow> string option \<Rightarrow> request \<Rightarrow> ('x sm_sys, json) io" where
  "patch_verb env ctx sc verb rq =
     (case verb of
        None \<Rightarrow> patch_update env ctx sc rq
      | Some v \<Rightarrow>
          if v = ''reconfigure'' then patch_reconfigure env ctx sc rq
          else if v = ''reinstall'' then patch_reinstall env ctx sc rq
          else if v = ''restore'' then
            http_abort 410 (''This API is deprecated. '' @ ''Please use /v1.0/subcloud-backup/restore'')
          else if v = ''update_status'' then updatestatus env (sc_name sc) rq
          else if v = ''prestage'' then patch_prestage env ctx sc rq
          else ret JNull)"

definition patch_subcloud ::
  "'x api_env \<Rightarrow> string option \<Rightarrow> string option \<Rightarrow> request \<Rightarrow> ('x sm_sys, json) io" where
  "patch_subcloud env ref verb rq =
     bnd (authorized env ''modify'') (\<lambda>ctx.
       case ref of
         None \<Rightarrow> http_abort 400 ''Subcloud ID required''
       | Some r \<Rightarrow> bnd (on_world (lookup_subcloud ctx r)) (\<lambda>sc. patch_verb env ctx sc verb rq))"

section \<open>Deleting a subcloud\<close>

definition api_delete_subcloud :: "'x api_env \<Rightarrow> string \<Rightarrow> ('x sm_sys, json) io" where
  "api_delete_subcloud env ref =
     bnd (authorized env ''delete'') (\<lambda>ctx.
     bnd (on_world (lookup_subcloud ctx ref)) (\<lambda>sc.
       remote_or ''Unable to delete subcloud''
         (rpc ''delete_subcloud'' (sc_name sc) (mr_delete_subcloud (ae_rpc env) ctx (sc_id sc)))))"

section \<open>The manager as the server of the calls\<close>

text \<open>\<open>RPCClient.call\<close> and \<open>RPCClient.cast\<close> of \<open>dcmanager/rpc/client.py\<close> with the handlers of
  \<open>dcmanager/manager/service.py\<close>: a call brings an exception back, a cast drops it. The handler of a cast
  is run here at once, one of the orders in which the two services can proceed.\<close>

definition rpc_call :: "('s, 'a) io \<Rightarrow> ('s, 'a) io" where
  "rpc_call m = try_catch m (\<lambda>e. raise (RemoteError (exn_str e)))"

definition rpc_cast :: "('s, 'a) io \<Rightarrow> ('s, unit) io" where
  "rpc_cast m = try_else m (\<lambda>_. ret ()) (\<lambda>_. ret ())"

definition start_deploy ::
  "'x sm_env \<Rightarrow> request_context option \<Rightarrow> deploy_job option \<Rightarrow> ('x sm_sys, unit) io" where
  "start_deploy env ctx j = (case j of None \<Rightarrow> ret () | Some x \<Rightarrow> on_world (run_deploy env ctx x))"

definition with_manager :: "'x sm_env \<Rightarrow> 'x manager_rpc \<Rightarrow> 'x manager_rpc" where
  "with_manager env R = R\<lparr>
     mr_add_subcloud := (\<lambda>ctx payload. rpc_cast (bnd (add_subcloud env ctx payload) (start_deploy env ctx))),
     mr_delete_subcloud := (\<lambda>ctx i. rpc_call (seq (delete_subcloud env ctx i) (ret JNull))),
     mr_update_subcloud := (\<lambda>ctx i c. rpc_call (bnd (on_world (update_subcloud env ctx i c))
       (\<lambda>sc. ret (JObject (subcloud_db_model_to_dict sc))))),
     mr_network_reconfig := (\<lambda>ctx i payload. rpc_cast
       (bnd (on_world (update_subcloud_with_network_reconfig env i payload))
         (\<lambda>j. case j of None \<Rightarrow> ret () | Some x \<Rightarrow> run_admin_network_update_playbook env ctx x))),
     mr_reconfigure_subcloud := (\<lambda>ctx i payload. rpc_call
       (bnd (on_world (reconfigure_subcloud env ctx i payload)) (\<lambda>j.
        seq (start_deploy env ctx j)
          (ret (case j of None \<Rightarrow> JNull | Some x \<Rightarrow> JObject (subcloud_db_model_to_dict (dj_subcloud x))))))),
     mr_reinstall_subcloud := (\<lambda>ctx i payload. rpc_cast (bnd (reinstall_subcloud env ctx i payload) (start_deploy env ctx))),
     mr_endpoint_status := (\<lambda>ctx name e sync. rpc_cast
       (on_world (update_subcloud_endpoint_status (sm_state env) ctx (Some name) (Some e) sync True [])))\<rparr>"

end
