(* ===== verification/DC_SwUpdateManager.thy ===== *)
theory DC_SwUpdateManager
  imports DC_Prestage
begin

text \<open>
  \<open>SwUpdateManager\<close> of \<open>dcmanager/orchestrator/sw_update_manager.py\<close>: the operations a user has
  on the one software update strategy of the system. \<open>create_sw_update_strategy\<close> is cut at the
  places where the source changes subject: reading the payload, checking the subcloud the user
  named, the extra arguments, the check that no sync status is unknown, and the two loops that
  hand out stages. The start and stop of the worker threads is not modelled; the lock around
  the read and update of the strategy is the atomicity of one operation.
\<close>

section \<open>Which subclouds a strategy is for\<close>

definition is_status :: "subcloud_status \<Rightarrow> endpoint_type \<Rightarrow> sync_status \<Rightarrow> bool" where
  "is_status ss e s = (ss_endpoint_type ss = e \<and> ss_sync_status ss = s)"

fun validate_subcloud_status_sync ::
  "sw_type \<Rightarrow> subcloud_status \<Rightarrow> bool \<Rightarrow> availability \<Rightarrow> bool" where
  "validate_subcloud_status_sync SW_UPDATE_TYPE_PATCH ss force avail =
     is_status ss ENDPOINT_TYPE_PATCHING SYNC_STATUS_OUT_OF_SYNC"
| "validate_subcloud_status_sync SW_UPDATE_TYPE_UPGRADE ss force avail =
     (if force \<and> avail \<noteq> AVAILABILITY_ONLINE
      then ss_endpoint_type ss = ENDPOINT_TYPE_LOAD \<and> ss_sync_status ss \<noteq> SYNC_STATUS_IN_SYNC
      else is_status ss ENDPOINT_TYPE_LOAD SYNC_STATUS_OUT_OF_SYNC)"
| "validate_subcloud_status_sync SW_UPDATE_TYPE_FIRMWARE ss force avail =
     is_status ss ENDPOINT_TYPE_FIRMWARE SYNC_STATUS_OUT_OF_SYNC"
| "validate_subcloud_status_sync SW_UPDATE_TYPE_KUBERNETES ss force avail =
     (if force
      then ss_endpoint_type ss = ENDPOINT_TYPE_KUBERNETES \<and> ss_sync_status ss \<noteq> SYNC_STATUS_UNKNOWN
      else is_status ss ENDPOINT_TYPE_KUBERNETES SYNC_STATUS_OUT_OF_SYNC)"
| "validate_subcloud_status_sync SW_UPDATE_TYPE_KUBE_ROOTCA_UPDATE ss force avail =
     (if force
      then ss_endpoint_type ss = ENDPOINT_TYPE_KUBE_ROOTCA \<and> ss_sync_status ss \<noteq> SYNC_STATUS_UNKNOWN
      else is_status ss ENDPOINT_TYPE_KUBE_ROOTCA SYNC_STATUS_OUT_OF_SYNC)"
| "validate_subcloud_status_sync SW_UPDATE_TYPE_PRESTAGE ss force avail =
     (ss_endpoint_type ss = ENDPOINT_TYPE_LOAD)"

section \<open>The certificate vault\<close>

definition vault_upload :: "string \<Rightarrow> string \<Rightarrow> (fs, string) io" where
  "vault_upload vault_dir src_file =
     bnd (gets (isdir vault_dir)) (\<lambda>there.
       seq (unless_io there (makedirs vault_dir))
         (let dest_file = path_join vault_dir (basename src_file)
          in seq (copy_file src_file dest_file) (ret dest_file)))"

definition vault_remove :: "string \<Rightarrow> string \<Rightarrow> string \<Rightarrow> (fs, unit) io" where
  "vault_remove cwd vault_dir vault_file =
     bnd (gets (isfile vault_file)) (\<lambda>there.
       when_io (there \<and> startswith vault_file (abspath cwd vault_dir @ ''/''))
         (remove_file vault_file))"

record 'x manager_env = "'x prestage_env" +
  me_now :: "('x, int) io"
  me_cwd :: string

definition EXTRA_ARGS_CERT_FILE :: string where
  "EXTRA_ARGS_CERT_FILE = ''cert-file''"

definition EXTRA_ARGS_EXPIRY_DATE :: string where
  "EXTRA_ARGS_EXPIRY_DATE = ''expiry-date''"

definition EXTRA_ARGS_SUBJECT :: string where
  "EXTRA_ARGS_SUBJECT = ''subject''"

definition EXTRA_ARGS_TO_VERSION :: string where
  "EXTRA_ARGS_TO_VERSION = ''to-version''"

definition EXTRA_ARGS_SYSADMIN_PASSWORD :: string where
  "EXTRA_ARGS_SYSADMIN_PASSWORD = ''sysadmin_password''"

definition EXTRA_ARGS_FORCE :: string where
  "EXTRA_ARGS_FORCE = ''force''"

definition EXTRA_ARGS_UPLOAD_ONLY :: string where
  "EXTRA_ARGS_UPLOAD_ONLY = ''upload-only''"

lemmas extra_args_keys = EXTRA_ARGS_CERT_FILE_def EXTRA_ARGS_EXPIRY_DATE_def EXTRA_ARGS_SUBJECT_def
  EXTRA_ARGS_TO_VERSION_def EXTRA_ARGS_SYSADMIN_PASSWORD_def EXTRA_ARGS_FORCE_def
  EXTRA_ARGS_UPLOAD_ONLY_def

definition strategy_error :: "string \<Rightarrow> exn" where
  "strategy_error m = BadRequest ''strategy'' m"

definition text_of :: "jval \<Rightarrow> ('s, string) io" where
  "text_of v = (case v of JStr s \<Rightarrow> ret s | _ \<Rightarrow> raise TypeError)"

definition require_valid :: "bool \<times> string \<Rightarrow> ('s, unit) io" where
  "require_valid r = (if fst r then ret () else raise (strategy_error (snd r)))"

definition process_extra_args_creation ::
  "'x manager_env \<Rightarrow> sw_type \<Rightarrow> extra_args option \<Rightarrow> ('x world, extra_args option) io" where
  "process_extra_args_creation env strategy_type extra_args =
     (case extra_args of
        None \<Rightarrow> ret None
      | Some args \<Rightarrow>
          if strategy_type \<noteq> SW_UPDATE_TYPE_KUBE_ROOTCA_UPDATE then ret (Some args)
          else
            let cert_file = jget args EXTRA_ARGS_CERT_FILE;
                expiry_date = jget args EXTRA_ARGS_EXPIRY_DATE;
                subject = jget args EXTRA_ARGS_SUBJECT
            in seq (when_io (truthy expiry_date)
                 (bnd (text_of expiry_date) (\<lambda>d. bnd (ask (me_now env)) (\<lambda>now.
                    require_valid (validate_expiry_date now (Some d))))))
               (seq (when_io (truthy subject)
                 (bnd (text_of subject) (\<lambda>s.
                    require_valid (validate_certificate_subject (Some s)))))
               (if \<not> truthy cert_file then ret (Some args)
                else if truthy expiry_date \<or> truthy subject then
                  raise (strategy_error (''Invalid extra args.'' @
                    '' <cert-file> cannot be specified'' @
                    '' along with <subject> or <expiry-date>.''))
                else bnd (text_of cert_file) (\<lambda>f.
                  bnd (fs_io (vault_upload CERTS_VAULT_DIR f)) (\<lambda>vault_file.
                    ret (Some (args(EXTRA_ARGS_CERT_FILE \<mapsto> JStr vault_file))))))))"

definition process_extra_args_deletion ::
  "'x manager_env \<Rightarrow> sw_update_strategy \<Rightarrow> ('x world, unit) io" where
  "process_extra_args_deletion env strategy =
     (case st_extra_args strategy of
        None \<Rightarrow> ret ()
      | Some args \<Rightarrow>
          when_io (st_type strategy = SW_UPDATE_TYPE_KUBE_ROOTCA_UPDATE \<and>
                   truthy (jget args EXTRA_ARGS_CERT_FILE))
            (bnd (text_of (jget args EXTRA_ARGS_CERT_FILE)) (\<lambda>f.
               fs_io (vault_remove (me_cwd env) CERTS_VAULT_DIR f))))"

section \<open>Reading the request\<close>

record create_params =
  cp_single_group :: "subcloud_group option"
  cp_apply_type :: "string option"
  cp_max_parallel :: "int option"
  cp_use_group_apply_type :: bool
  cp_use_group_max_parallel :: bool
  cp_stop_on_failure :: bool
  cp_force :: bool
  cp_cloud_name :: "string option"

text \<open>A flag is on when its text is \<open>true\<close>; a value that is not there or false is None.\<close>

definition payload_flag :: "extra_args \<Rightarrow> string \<Rightarrow> bool" where
  "payload_flag payload k = (jget payload k = JStr ''true'')"

definition payload_text :: "extra_args \<Rightarrow> string \<Rightarrow> string option" where
  "payload_text payload k =
     (case jget payload k of JStr s \<Rightarrow> if s = [] then None else Some s | _ \<Rightarrow> None)"

definition read_int :: "string \<Rightarrow> ('s, int) io" where
  "read_int s = (case py_int s of None \<Rightarrow> raise ValueError | Some i \<Rightarrow> ret i)"

definition parse_strategy_payload ::
  "request_context option \<Rightarrow> extra_args \<Rightarrow> ('x world, create_params) io" where
  "parse_strategy_payload ctx payload =
     (let common = \<lambda>g at mp uga ugm.
            \<lparr>cp_single_group = g, cp_apply_type = at, cp_max_parallel = mp,
             cp_use_group_apply_type = uga, cp_use_group_max_parallel = ugm,
             cp_stop_on_failure = payload_flag payload ''stop-on-failure'',
             cp_force = payload_flag payload ''force'',
             cp_cloud_name = payload_text payload ''cloud_name''\<rparr>
      in case payload_text payload ''subcloud_group'' of
           Some ref \<Rightarrow>
             bnd (db_io (subcloud_group_get_by_ref ctx ref)) (\<lambda>g.
               case g of
                 None \<Rightarrow> raise AttributeError
               | Some g \<Rightarrow> ret (common (Some g) (Some (g_update_apply_type g))
                               (Some (g_max_parallel_subclouds g)) True True))
         | None \<Rightarrow>
             let at = payload_text payload ''subcloud-apply-type''
             in case payload_text payload ''max-parallel-subclouds'' of
                  None \<Rightarrow> ret (common None at None (at = None) True)
                | Some s \<Rightarrow> bnd (read_int s) (\<lambda>n. ret (common None at (Some n) (at = None) False)))"

text \<open>The endpoint whose sync status decides, and the words of its messages.\<close>

fun strategy_endpoint :: "sw_type \<Rightarrow> endpoint_type" where
  "strategy_endpoint SW_UPDATE_TYPE_UPGRADE = ENDPOINT_TYPE_LOAD"
| "strategy_endpoint SW_UPDATE_TYPE_FIRMWARE = ENDPOINT_TYPE_FIRMWARE"
| "strategy_endpoint SW_UPDATE_TYPE_KUBERNETES = ENDPOINT_TYPE_KUBERNETES"
| "strategy_endpoint SW_UPDATE_TYPE_KUBE_ROOTCA_UPDATE = ENDPOINT_TYPE_KUBE_ROOTCA"
| "strategy_endpoint SW_UPDATE_TYPE_PATCH = ENDPOINT_TYPE_PATCHING"
| "strategy_endpoint SW_UPDATE_TYPE_PRESTAGE = ENDPOINT_TYPE_LOAD"

fun not_required_words :: "sw_type \<Rightarrow> string" where
  "not_required_words SW_UPDATE_TYPE_UPGRADE = ''upgrade''"
| "not_required_words SW_UPDATE_TYPE_FIRMWARE = ''firmware update''"
| "not_required_words SW_UPDATE_TYPE_KUBERNETES = ''kubernetes update''"
| "not_required_words SW_UPDATE_TYPE_KUBE_ROOTCA_UPDATE = ''kube rootca update''"
| "not_required_words SW_UPDATE_TYPE_PATCH = ''patching''"
| "not_required_words SW_UPDATE_TYPE_PRESTAGE = []"

fun unknown_words :: "sw_type \<Rightarrow> string" where
  "unknown_words SW_UPDATE_TYPE_UPGRADE = ''Upgrade sync status is unknown for one or more subclouds''"
| "unknown_words SW_UPDATE_TYPE_FIRMWARE = ''Firmware sync status is unknown for one or more subclouds''"
| "unknown_words SW_UPDATE_TYPE_KUBERNETES =
     ''Kubernetes sync status is unknown for one or more subclouds''"
| "unknown_words SW_UPDATE_TYPE_KUBE_ROOTCA_UPDATE =
     ''Kube rootca update sync status is unknown for one or more subclouds''"
| "unknown_words SW_UPDATE_TYPE_PATCH = ''Patching sync status is unknown for one or more subclouds''"
| "unknown_words SW_UPDATE_TYPE_PRESTAGE = []"

section \<open>Checks before a strategy is created\<close>

definition prestage_error_to_bad_request :: "('s, unit) io \<Rightarrow> ('s, unit) io" where
  "prestage_error_to_bad_request m =
     try_catch m (\<lambda>e. case e of
         PrestagePreCheckFailedException a b c \<Rightarrow> raise (strategy_error (exn_str e))
       | _ \<Rightarrow> raise e)"

definition check_named_subcloud ::
  "'x manager_env \<Rightarrow> request_context option \<Rightarrow> extra_args \<Rightarrow> sw_type \<Rightarrow> create_params \<Rightarrow>
   ('x world, bool) io" where
  "check_named_subcloud env ctx payload strategy_type p =
     (case cp_cloud_name p of
        None \<Rightarrow> ret False
      | Some cloud_name \<Rightarrow>
          if cloud_name = SYSTEM_CONTROLLER_NAME then ret False
          else bnd (try_catch (db_io (subcloud_get_by_name ctx cloud_name))
                 (\<lambda>e. case e of
                    SubcloudNameNotFound n \<Rightarrow>
                      raise (strategy_error (''Subcloud '' @ cloud_name @ '' does not exist''))
                  | _ \<Rightarrow> raise e))
               (\<lambda>sc.
            if strategy_type = SW_UPDATE_TYPE_PRESTAGE then
              seq (prestage_error_to_bad_request
                    (seq (global_prestage_validate env payload)
                      (initial_subcloud_validate sc)))
                  (ret True)
            else if cp_force p \<and> strategy_type \<in> {SW_UPDATE_TYPE_KUBERNETES, SW_UPDATE_TYPE_KUBE_ROOTCA_UPDATE}
            then ret False
            else bnd (db_io (subcloud_status_get ctx (sc_id sc) (strategy_endpoint strategy_type)))
              (\<lambda>ss. if ss_sync_status ss = SYNC_STATUS_IN_SYNC
                    then raise (strategy_error (''Subcloud '' @ cloud_name @
                           '' does not require '' @ not_required_words strategy_type))
                    else ret False)))"

definition build_extra_args ::
  "'x manager_env \<Rightarrow> extra_args \<Rightarrow> sw_type \<Rightarrow> create_params \<Rightarrow> bool \<Rightarrow>
   ('x world, extra_args option) io" where
  "build_extra_args env payload strategy_type p prestage_global_validated =
     (if strategy_type = SW_UPDATE_TYPE_KUBE_ROOTCA_UPDATE then
        ret (Some [EXTRA_ARGS_EXPIRY_DATE \<mapsto> jget payload EXTRA_ARGS_EXPIRY_DATE,
                   EXTRA_ARGS_SUBJECT \<mapsto> jget payload EXTRA_ARGS_SUBJECT,
                   EXTRA_ARGS_CERT_FILE \<mapsto> jget payload EXTRA_ARGS_CERT_FILE])
      else if strategy_type = SW_UPDATE_TYPE_KUBERNETES then
        ret (Some [EXTRA_ARGS_TO_VERSION \<mapsto> jget payload EXTRA_ARGS_TO_VERSION])
      else if strategy_type = SW_UPDATE_TYPE_PRESTAGE then
        seq (unless_io prestage_global_validated
              (prestage_error_to_bad_request
                (global_prestage_validate env payload)))
            (ret (Some [EXTRA_ARGS_SYSADMIN_PASSWORD \<mapsto> jget payload EXTRA_ARGS_SYSADMIN_PASSWORD,
                        EXTRA_ARGS_FORCE \<mapsto> JBool (cp_force p)]))
      else if strategy_type = SW_UPDATE_TYPE_PATCH then
        ret (Some [EXTRA_ARGS_UPLOAD_ONLY \<mapsto> JBool (payload_flag payload EXTRA_ARGS_UPLOAD_ONLY)])
      else ret None)"

text \<open>The subclouds and their statuses: those of the group, or all of them.\<close>

definition subclouds_with_status ::
  "request_context option \<Rightarrow> subcloud_group option \<Rightarrow> (db, (subcloud \<times> subcloud_status option) list) io" where
  "subclouds_with_status ctx single_group =
     (case single_group of
        None \<Rightarrow> subcloud_get_all_with_status ctx
      | Some g \<Rightarrow>
          bnd (subcloud_get_for_group ctx (g_id g)) (\<lambda>scs.
            fold_io (\<lambda>sb acc. bnd (subcloud_status_get_all ctx (sc_id sb)) (\<lambda>sts.
                ret (acc @ map (\<lambda>s. (sb, Some s)) sts))) scs []))"

definition not_targeted :: "create_params \<Rightarrow> subcloud \<Rightarrow> bool" where
  "not_targeted p sc =
     ((case cp_cloud_name p of None \<Rightarrow> False | Some n \<Rightarrow> sc_name sc \<noteq> n)
      \<or> sc_management_state sc \<noteq> MANAGEMENT_MANAGED)"

definition check_status_known ::
  "sw_type \<Rightarrow> create_params \<Rightarrow> subcloud \<times> subcloud_status option \<Rightarrow> string list \<Rightarrow>
   ('s, string list) io" where
  "check_status_known strategy_type p sb processed =
     (case sb of (sc, status) \<Rightarrow>
        if not_targeted p sc then ret processed
        else if strategy_type = SW_UPDATE_TYPE_PRESTAGE then
          (if sc_name sc \<in> set processed then ret (processed @ [sc_name sc])
           else try_else (initial_subcloud_validate sc)
                  (\<lambda>e. case e of PrestagePreCheckFailedException a b c \<Rightarrow> ret processed | _ \<Rightarrow> raise e)
                  (\<lambda>_. ret (processed @ [sc_name sc])))
        else if sc_availability_status sc \<noteq> AVAILABILITY_ONLINE then
          (if strategy_type = SW_UPDATE_TYPE_UPGRADE \<and> cp_force p
           then ret (processed @ [sc_name sc]) else ret processed)
        else case status of
               None \<Rightarrow> raise AttributeError
             | Some ss \<Rightarrow>
                 if is_status ss (strategy_endpoint strategy_type) SYNC_STATUS_UNKNOWN
                 then raise (strategy_error (unknown_words strategy_type))
                 else ret (processed @ [sc_name sc]))"

section \<open>Handing out the stages\<close>

record stage_alloc =
  gs_counter :: nat
  gs_size :: nat
  gs_updated :: bool
  gs_created :: bool

definition is_serial :: "string \<Rightarrow> bool" where
  "is_serial apply_type = contains SUBCLOUD_APPLY_TYPE_SERIAL apply_type"

text \<open>After a step was created in the current stage.\<close>

definition advance_stage :: "string \<Rightarrow> int \<Rightarrow> stage_alloc \<Rightarrow> stage_alloc" where
  "advance_stage apply_type max_parallel a =
     (let b = a\<lparr>gs_created := True, gs_size := Suc (gs_size a)\<rparr>
      in if is_serial apply_type then b\<lparr>gs_updated := True, gs_counter := Suc (gs_counter b)\<rparr>
         else if max_parallel \<le> int (gs_size b)
         then b\<lparr>gs_updated := True, gs_counter := Suc (gs_counter b), gs_size := 0\<rparr>
         else b)"

definition add_step_for_status ::
  "request_context option \<Rightarrow> sw_type \<Rightarrow> bool \<Rightarrow> string \<Rightarrow> int \<Rightarrow> subcloud \<Rightarrow> subcloud_status \<Rightarrow>
   stage_alloc \<Rightarrow> (db, stage_alloc) io" where
  "add_step_for_status ctx strategy_type force apply_type max_parallel sc status a =
     (if validate_subcloud_status_sync strategy_type status force (sc_availability_status sc)
      then seq (strategy_step_create ctx (sc_id sc) (gs_counter a) STRATEGY_STATE_INITIAL [])
             (ret (advance_stage apply_type max_parallel a))
      else ret a)"

definition add_steps_for_subcloud ::
  "request_context option \<Rightarrow> sw_type \<Rightarrow> create_params \<Rightarrow> string \<Rightarrow> int \<Rightarrow> subcloud \<Rightarrow>
   stage_alloc \<Rightarrow> (db, stage_alloc) io" where
  "add_steps_for_subcloud ctx strategy_type p apply_type max_parallel sc a =
     (let a = a\<lparr>gs_updated := False\<rparr>
      in if not_targeted p sc then ret a
         else if sc_availability_status sc \<noteq> AVAILABILITY_ONLINE \<and>
                 \<not> (strategy_type = SW_UPDATE_TYPE_UPGRADE \<and> cp_force p) then ret a
         else bnd (subcloud_status_get_all ctx (sc_id sc)) (\<lambda>sts.
                fold_io (add_step_for_status ctx strategy_type (cp_force p) apply_type max_parallel sc)
                  sts a))"

definition group_apply_type :: "create_params \<Rightarrow> subcloud_group \<Rightarrow> string" where
  "group_apply_type p g =
     (if cp_use_group_apply_type p then g_update_apply_type g
      else case cp_apply_type p of None \<Rightarrow> g_update_apply_type g | Some t \<Rightarrow> t)"

definition group_max_parallel :: "create_params \<Rightarrow> subcloud_group \<Rightarrow> int" where
  "group_max_parallel p g =
     (if cp_use_group_max_parallel p then g_max_parallel_subclouds g
      else case cp_max_parallel p of None \<Rightarrow> g_max_parallel_subclouds g | Some n \<Rightarrow> n)"

definition add_steps_for_group ::
  "request_context option \<Rightarrow> sw_type \<Rightarrow> create_params \<Rightarrow> subcloud_group \<Rightarrow> stage_alloc \<Rightarrow>
   (db, stage_alloc) io" where
  "add_steps_for_group ctx strategy_type p g a =
     bnd (subcloud_get_for_group ctx (g_id g)) (\<lambda>scs.
       bnd (fold_io (add_steps_for_subcloud ctx strategy_type p (group_apply_type p g)
              (group_max_parallel p g)) scs a) (\<lambda>a.
         let a = a\<lparr>gs_size := 0\<rparr>
         in ret (if gs_updated a then a else a\<lparr>gs_counter := Suc (gs_counter a)\<rparr>)))"

definition create_steps ::
  "request_context option \<Rightarrow> sw_type \<Rightarrow> create_params \<Rightarrow> (db, stage_alloc) io" where
  "create_steps ctx strategy_type p =
     bnd (case cp_single_group p of Some g \<Rightarrow> ret [g] | None \<Rightarrow> subcloud_group_get_all ctx) (\<lambda>groups.
       fold_io (add_steps_for_group ctx strategy_type p) groups
         \<lparr>gs_counter = 1, gs_size = 0, gs_updated = False, gs_created = False\<rparr>)"

section \<open>The operations on the strategy\<close>

definition strategy_checks ::
  "'x manager_env \<Rightarrow> request_context option \<Rightarrow> extra_args \<Rightarrow> sw_type \<Rightarrow>
   ('x world, create_params \<times> extra_args option) io" where
  "strategy_checks env ctx payload strategy_type =
     bnd (parse_strategy_payload ctx payload) (\<lambda>p.
     bnd (check_named_subcloud env ctx payload strategy_type p) (\<lambda>validated.
     bnd (build_extra_args env payload strategy_type p validated) (\<lambda>extra_args.
     bnd (db_io (subclouds_with_status ctx (cp_single_group p))) (\<lambda>sbs.
     seq (fold_io (check_status_known strategy_type p) sbs [])
     (bnd (process_extra_args_creation env strategy_type extra_args) (\<lambda>extra_args.
        ret (p, extra_args)))))))"

definition create_strategy_and_steps ::
  "'x manager_env \<Rightarrow> request_context option \<Rightarrow> sw_type \<Rightarrow> create_params \<Rightarrow> extra_args option \<Rightarrow>
   ('x world, sw_update_strategy) io" where
  "create_strategy_and_steps env ctx strategy_type p extra_args =
     bnd (db_io (sw_update_strategy_create ctx strategy_type (cp_apply_type p) (cp_max_parallel p)
           (cp_stop_on_failure p) SW_UPDATE_STATE_INITIAL extra_args)) (\<lambda>strategy.
     bnd (db_io (create_steps ctx strategy_type p)) (\<lambda>a.
       if gs_created a then ret strategy
       else bnd (db_io (sw_update_strategy_update ctx (Some SW_UPDATE_STATE_DELETING)
                  (Some strategy_type) None)) (\<lambda>strategy.
            seq (process_extra_args_deletion env strategy)
              (raise (strategy_error ''Strategy has no steps to apply'')))))"

definition create_sw_update_strategy ::
  "'x manager_env \<Rightarrow> request_context option \<Rightarrow> extra_args \<Rightarrow> sw_type \<Rightarrow>
   ('x world, sw_update_strategy) io" where
  "create_sw_update_strategy env ctx payload strategy_type =
     try_else (db_io (sw_update_strategy_get ctx None))
       (\<lambda>e. if is_NotFound e then
              bnd (strategy_checks env ctx payload strategy_type) (\<lambda>(p, extra_args).
                create_strategy_and_steps env ctx strategy_type p extra_args)
            else raise e)
       (\<lambda>strategy. raise (strategy_error (''Strategy of type: '' @ [CHR 0x27] @
          sw_type_str (st_type strategy) @ [CHR 0x27] @ '' already exists'')))"

text \<open>The read of the strategy, the check of its state and the new state, under the lock.\<close>

definition change_strategy_state ::
  "request_context option \<Rightarrow> sw_type option \<Rightarrow> sw_type option \<Rightarrow> sw_state list \<Rightarrow> string \<Rightarrow> sw_state \<Rightarrow>
   (db, sw_update_strategy) io" where
  "change_strategy_state ctx get_type update_type allowed verb new_state =
     bnd (sw_update_strategy_get ctx get_type) (\<lambda>s.
       if st_state s \<notin> set allowed then
         raise (strategy_error (''Strategy in state '' @ sw_state_str (st_state s) @
           '' cannot be '' @ verb))
       else sw_update_strategy_update ctx (Some new_state) update_type None)"

definition delete_sw_update_strategy ::
  "'x manager_env \<Rightarrow> request_context option \<Rightarrow> sw_type option \<Rightarrow> ('x world, sw_update_strategy) io" where
  "delete_sw_update_strategy env ctx update_type =
     bnd (db_io (change_strategy_state ctx update_type update_type
           [SW_UPDATE_STATE_INITIAL, SW_UPDATE_STATE_COMPLETE, SW_UPDATE_STATE_FAILED,
            SW_UPDATE_STATE_ABORTED] ''deleted'' SW_UPDATE_STATE_DELETING)) (\<lambda>strategy.
       seq (process_extra_args_deletion env strategy) (ret strategy))"

definition apply_sw_update_strategy ::
  "request_context option \<Rightarrow> sw_type option \<Rightarrow> ('x world, sw_update_strategy) io" where
  "apply_sw_update_strategy ctx update_type =
     db_io (change_strategy_state ctx update_type update_type
       [SW_UPDATE_STATE_INITIAL] ''applied'' SW_UPDATE_STATE_APPLYING)"

definition abort_sw_update_strategy ::
  "request_context option \<Rightarrow> sw_type option \<Rightarrow> ('x world, sw_update_strategy) io" where
  "abort_sw_update_strategy ctx update_type =
     db_io (change_strategy_state ctx update_type None
       [SW_UPDATE_STATE_APPLYING] ''aborted'' SW_UPDATE_STATE_ABORT_REQUESTED)"

end
