(* ===== verification/DC_ApiOthers.thy ===== *)
theory DC_ApiOthers
  imports DC_Api DC_SwUpdateManager
begin

text \<open>
  The other controllers of the REST API of dcmanager: subcloud groups, the options of software updates,
  backups, and the update strategy, whose remote calls the orchestrator's manager serves.
\<close>

chapter \<open>Groups and options\<close>

text \<open>
  The requests for subcloud groups and for the options of software updates:
  \<open>dcmanager/api/controllers/v1/subcloud_group.py\<close> and \<open>sw_update_options.py\<close>. Both read the body of a
  request with \<open>eval\<close>, which is a parameter.
\<close>

section \<open>Payloads\<close>

text \<open>\<open>payload.get(k)\<close>; what is not a mapping has no such method.\<close>

definition eval_payload :: "'x api_env \<Rightarrow> request \<Rightarrow> ('s, dict) io" where
  "eval_payload env rq =
     bnd (of_sum (ae_eval env (rq_body rq))) (\<lambda>v.
       if \<not> truthy_json v then http_abort 400 ''Body required''
       else case v of JObject d \<Rightarrow> ret d | _ \<Rightarrow> raise AttributeError)"

definition value_of :: "string \<Rightarrow> dict \<Rightarrow> json" where
  "value_of k payload = or_none (dict_get k payload)"

section \<open>Validation of a group\<close>

definition MAX_SUBCLOUD_GROUP_NAME_LEN :: nat where "MAX_SUBCLOUD_GROUP_NAME_LEN = 255"
definition MAX_SUBCLOUD_GROUP_DESCRIPTION_LEN :: nat where "MAX_SUBCLOUD_GROUP_DESCRIPTION_LEN = 255"
definition MIN_SUBCLOUD_GROUP_MAX_PARALLEL_SUBCLOUDS :: int where
  "MIN_SUBCLOUD_GROUP_MAX_PARALLEL_SUBCLOUDS = 1"
definition MAX_SUBCLOUD_GROUP_MAX_PARALLEL_SUBCLOUDS :: int where
  "MAX_SUBCLOUD_GROUP_MAX_PARALLEL_SUBCLOUDS = 500"

definition SUPPORTED_GROUP_APPLY_TYPES :: "string list" where
  "SUPPORTED_GROUP_APPLY_TYPES = [SUBCLOUD_APPLY_TYPE_PARALLEL, SUBCLOUD_APPLY_TYPE_SERIAL]"

definition validate_name :: "json \<Rightarrow> exn + bool" where
  "validate_name v =
     (if \<not> truthy_json v then Inr False
      else case v of
        JText s \<Rightarrow> Inr (\<not> isdigit s \<and> s \<noteq> DEFAULT_SUBCLOUD_GROUP_NAME \<and> length s < MAX_SUBCLOUD_GROUP_NAME_LEN)
      | _ \<Rightarrow> Inl AttributeError)"

text \<open>\<open>len\<close> of a text, a list or a mapping.\<close>

definition json_length :: "json \<Rightarrow> exn + nat" where
  "json_length v =
     (case v of JText s \<Rightarrow> Inr (length s) | JArray xs \<Rightarrow> Inr (length xs) | JObject d \<Rightarrow> Inr (length d) | _ \<Rightarrow> Inl TypeError)"

definition validate_description :: "json \<Rightarrow> exn + bool" where
  "validate_description v =
     (if \<not> truthy_json v then Inr False
      else case json_length v of Inl e \<Rightarrow> Inl e | Inr n \<Rightarrow> Inr (n < MAX_SUBCLOUD_GROUP_DESCRIPTION_LEN))"

definition validate_update_apply_type :: "json \<Rightarrow> exn + bool" where
  "validate_update_apply_type v = Inr (truthy_json v \<and> v \<in> JText ` set SUPPORTED_GROUP_APPLY_TYPES)"

text \<open>\<open>int(v)\<close> as in the install values of a subcloud.\<close>

definition validate_max_parallel_subclouds :: "json \<Rightarrow> exn + bool" where
  "validate_max_parallel_subclouds v =
     (if \<not> truthy_json v then Inr False
      else case to_int v of
        Inl e \<Rightarrow> if e = ValueError then Inr False else Inl e
      | Inr n \<Rightarrow> Inr (MIN_SUBCLOUD_GROUP_MAX_PARALLEL_SUBCLOUDS \<le> n \<and> n \<le> MAX_SUBCLOUD_GROUP_MAX_PARALLEL_SUBCLOUDS))"

definition require_validated :: "string \<Rightarrow> exn + bool \<Rightarrow> ('s, unit) io" where
  "require_validated msg r = bnd (of_sum r) (\<lambda>ok. abort_if (\<not> ok) 400 msg)"

section \<open>Groups\<close>

definition GROUP_POLICY_ROOT :: string where "GROUP_POLICY_ROOT = ''dc_api:subcloud_groups:''"

text \<open>The columns \<open>created_at\<close> and \<open>updated_at\<close> are left out.\<close>

definition subcloud_group_db_model_to_dict :: "subcloud_group \<Rightarrow> dict" where
  "subcloud_group_db_model_to_dict g =
     [(''id'', JNumber (int (g_id g))), (''name'', JText (g_name g)), (''description'', JText (g_description g)),
      (''update_apply_type'', JText (g_update_apply_type g)),
      (''max_parallel_subclouds'', JNumber (g_max_parallel_subclouds g))]"

definition subcloud_db_list_to_dict :: "subcloud list \<Rightarrow> json" where
  "subcloud_db_list_to_dict scs =
     JObject [(''subclouds'', JArray (map (\<lambda>sc. JObject (subcloud_db_model_to_dict sc)) scs))]"

definition get_subcloud_group_list :: "request_context option \<Rightarrow> (db, json) io" where
  "get_subcloud_group_list ctx =
     bnd (subcloud_group_get_all ctx) (\<lambda>gs.
       ret (JObject [(''subcloud_groups'', JArray (map (\<lambda>g. JObject (subcloud_group_db_model_to_dict g)) gs))]))"

definition found_group :: "request_context option \<Rightarrow> string \<Rightarrow> ('x sm_sys, subcloud_group) io" where
  "found_group ctx ref =
     bnd (on_world (db_io (subcloud_group_get_by_ref ctx ref))) (\<lambda>g.
       case g of None \<Rightarrow> http_abort 404 ''Subcloud Group not found'' | Some x \<Rightarrow> ret x)"

definition get_group :: "'x api_env \<Rightarrow> string option \<Rightarrow> bool \<Rightarrow> ('x sm_sys, json) io" where
  "get_group env ref only_subclouds =
     bnd (authorized_as env (GROUP_POLICY_ROOT @ ''get'')) (\<lambda>ctx.
       case ref of
         None \<Rightarrow> on_world (db_io (get_subcloud_group_list ctx))
       | Some r \<Rightarrow> bnd (found_group ctx r) (\<lambda>g.
           if only_subclouds then
             bnd (on_world (db_io (subcloud_get_for_group ctx (g_id g)))) (\<lambda>scs. ret (subcloud_db_list_to_dict scs))
           else ret (JObject (subcloud_group_db_model_to_dict g))))"

definition json_string_of :: "'x api_env \<Rightarrow> json \<Rightarrow> string option" where
  "json_string_of env v = (if v = JNull then None else Some (to_str env v))"

definition int_of :: "json \<Rightarrow> int option" where
  "int_of v = (case to_int v of Inl _ \<Rightarrow> None | Inr n \<Rightarrow> Some n)"

text \<open>The column of a group's limit: the database refuses what is no number.\<close>

definition limit_column :: "json \<Rightarrow> exn + int option" where
  "limit_column v =
     (if v = JNull then Inr None
      else case int_of v of None \<Rightarrow> Inl (PyException ''DataError'') | Some n \<Rightarrow> Inr (Some n))"

text \<open>The answer is the row that was added. A value that is text is turned into a number by the
  database.\<close>

definition add_group_row :: "request_context option \<Rightarrow> string \<Rightarrow> string \<Rightarrow> string \<Rightarrow> int \<Rightarrow> (db, json) io" where
  "add_group_row ctx name description apply_type n =
     seq (subcloud_group_create ctx name description apply_type n)
       (bnd (subcloud_group_get_by_name ctx name) (\<lambda>g. ret (JObject (subcloud_group_db_model_to_dict g))))"

definition unable_or :: "exn \<Rightarrow> string \<Rightarrow> ('s, 'a) io" where
  "unable_or e msg = (case e of RemoteError v \<Rightarrow> http_abort 422 v | _ \<Rightarrow> http_abort 500 msg)"

definition post_group :: "'x api_env \<Rightarrow> request \<Rightarrow> ('x sm_sys, json) io" where
  "post_group env rq =
     bnd (authorized_as env (GROUP_POLICY_ROOT @ ''create'')) (\<lambda>ctx.
     bnd (eval_payload env rq) (\<lambda>payload.
       let v = (\<lambda>k. value_of k payload)
       in seq (require_validated ''Invalid group name'' (validate_name (v ''name'')))
         (seq (require_validated ''Invalid group description'' (validate_description (v ''description'')))
         (seq (require_validated ''Invalid group update_apply_type'' (validate_update_apply_type (v ''update_apply_type'')))
         (seq (require_validated ''Invalid group max_parallel_subclouds''
                 (validate_max_parallel_subclouds (v ''max_parallel_subclouds'')))
           (try_catch
             (on_world (db_io (add_group_row ctx (to_str env (v ''name'')) (to_str env (v ''description''))
                (to_str env (v ''update_apply_type'')) (case int_of (v ''max_parallel_subclouds'') of None \<Rightarrow> 0 | Some n \<Rightarrow> n))))
             (\<lambda>e. if e = DBDuplicateEntry then http_abort 400 ''A subcloud group with this name already exists''
                  else unable_or e ''Unable to create subcloud group'')))))))"

definition when_given :: "json \<Rightarrow> ('s, unit) io \<Rightarrow> ('s, unit) io" where
  "when_given v m = when_io (truthy_json v) m"

definition patch_group :: "'x api_env \<Rightarrow> string option \<Rightarrow> request \<Rightarrow> ('x sm_sys, json) io" where
  "patch_group env ref rq =
     bnd (authorized_as env (GROUP_POLICY_ROOT @ ''modify'')) (\<lambda>ctx.
       case ref of
         None \<Rightarrow> http_abort 400 ''Subcloud Group Name or ID required''
       | Some r \<Rightarrow>
           bnd (eval_payload env rq) (\<lambda>payload.
           bnd (found_group ctx r) (\<lambda>g.
             let v = (\<lambda>k. value_of k payload)
             in seq (abort_if (\<not> list_ex (\<lambda>k. truthy_json (v k))
                   [''name'', ''description'', ''update_apply_type'', ''max_parallel_subclouds'']) 400 ''nothing to update'')
               (seq (when_given (v ''name'')
                      (seq (require_validated ''Invalid group name'' (validate_name (v ''name'')))
                        (abort_if (g_id g = DEFAULT_SUBCLOUD_GROUP_ID) 400 ''Default group name cannot be changed'')))
               (seq (when_given (v ''description'')
                      (require_validated ''Invalid group description'' (validate_description (v ''description''))))
               (seq (when_given (v ''update_apply_type'')
                      (require_validated ''Invalid group update_apply_type''
                        (validate_update_apply_type (v ''update_apply_type''))))
               (seq (when_given (v ''max_parallel_subclouds'')
                      (require_validated ''Invalid group max_parallel_subclouds''
                        (validate_max_parallel_subclouds (v ''max_parallel_subclouds''))))
                 (try_catch
                   (bnd (of_sum (limit_column (v ''max_parallel_subclouds''))) (\<lambda>limit.
                    bnd (on_world (db_io (subcloud_group_update ctx (g_id g) (json_string_of env (v ''name''))
                          (json_string_of env (v ''description'')) (json_string_of env (v ''update_apply_type''))
                          limit))) (\<lambda>g'.
                      ret (JObject (subcloud_group_db_model_to_dict g')))))
                   (\<lambda>e. unable_or e ''Unable to update subcloud group'')))))))))"

text \<open>The answer for a group with subclouds is raised within the \<open>try\<close>.\<close>

definition delete_group :: "'x api_env \<Rightarrow> string option \<Rightarrow> ('x sm_sys, json) io" where
  "delete_group env ref =
     bnd (authorized_as env (GROUP_POLICY_ROOT @ ''delete'')) (\<lambda>ctx.
       case ref of
         None \<Rightarrow> http_abort 400 ''Subcloud Group Name or ID required''
       | Some r \<Rightarrow>
           bnd (found_group ctx r) (\<lambda>g.
             seq (abort_if (g_name g = DEFAULT_SUBCLOUD_GROUP_NAME) 400 ''Default Subcloud Group may not be deleted'')
               (try_catch
                 (bnd (on_world (db_io (subcloud_get_for_group ctx (g_id g)))) (\<lambda>scs.
                  seq (abort_if (scs \<noteq> []) 400 ''Subcloud Group not empty'')
                 (seq (on_world (db_io (subcloud_group_destroy ctx (g_id g))))
                   (ret JNull))))
                 (\<lambda>e. unable_or e ''Unable to delete subcloud group''))))"

section \<open>Options of software updates\<close>

definition OPTIONS_POLICY_ROOT :: string where "OPTIONS_POLICY_ROOT = ''dc_api:sw_update_options:''"

definition options_to_json :: "update_opts \<Rightarrow> json" where
  "options_to_json u =
     JObject [(''name'', JText (uo_name u)), (''storage-apply-type'', JText (uo_storage_apply_type u)),
       (''worker-apply-type'', JText (uo_worker_apply_type u)),
       (''max-parallel-workers'', JNumber (uo_max_parallel_workers u)),
       (''alarm-restriction-type'', JText (uo_alarm_restriction_type u)),
       (''default-instance-action'', JText (uo_default_instance_action u))]"

definition all_options :: "request_context option \<Rightarrow> (db, json) io" where
  "all_options ctx =
     bnd (get_sw_update_opts ctx False None) (\<lambda>default_opts.
     bnd (sw_update_opts_get_all_plus_subcloud_info ctx) (\<lambda>rs.
       ret (JObject [(''sw-update-options'', JArray (map options_to_json (default_opts #
         concat (map (\<lambda>(sc, opts). case opts of None \<Rightarrow> []
           | Some r \<Rightarrow> [sw_update_opts_w_name_db_model_to_dict r (sc_name sc)]) rs))))])))"

definition get_options :: "'x api_env \<Rightarrow> string option \<Rightarrow> ('x sm_sys, json) io" where
  "get_options env ref =
     bnd (authorized_as env (OPTIONS_POLICY_ROOT @ ''get'')) (\<lambda>ctx.
       case ref of
         None \<Rightarrow> on_world (db_io (all_options ctx))
       | Some r \<Rightarrow>
           if r = DEFAULT_REGION_NAME then
             bnd (on_world (db_io (get_sw_update_opts ctx False None))) (\<lambda>u. ret (options_to_json u))
           else bnd (on_world (lookup_subcloud ctx r)) (\<lambda>sc.
             try_catch
               (bnd (on_world (db_io (get_sw_update_opts ctx False (Some (sc_id sc))))) (\<lambda>u. ret (options_to_json u)))
               (\<lambda>e. http_abort 404 (exn_str e))))"

text \<open>The five values of a request. A value that is not of the type of its column is refused by the
  database.\<close>

definition options_of :: "dict \<Rightarrow> exn + opts_values" where
  "options_of payload =
     (case (text_at ''storage-apply-type'' payload, text_at ''worker-apply-type'' payload,
            dict_at ''max-parallel-workers'' payload, text_at ''alarm-restriction-type'' payload,
            text_at ''default-instance-action'' payload) of
        (Inr storage, Inr worker, Inr n, Inr alarm, Inr action) \<Rightarrow>
          (case to_int n of
             Inl _ \<Rightarrow> Inl (PyException ''DataError'')
           | Inr k \<Rightarrow> Inr \<lparr>ov_storage_apply_type = Some storage, ov_worker_apply_type = Some worker,
               ov_max_parallel_workers = Some k, ov_alarm_restriction_type = Some alarm,
               ov_default_instance_action = Some action\<rparr>)
      | _ \<Rightarrow> Inl KeyError)"

definition with_values ::
  "opts_values \<Rightarrow> (string \<Rightarrow> string \<Rightarrow> int \<Rightarrow> string \<Rightarrow> string \<Rightarrow> (db, unit) io) \<Rightarrow> (db, unit) io" where
  "with_values v create =
     (case (ov_storage_apply_type v, ov_worker_apply_type v, ov_max_parallel_workers v,
            ov_alarm_restriction_type v, ov_default_instance_action v) of
        (Some a, Some b, Some n, Some c, Some d) \<Rightarrow> create a b n c d
      | _ \<Rightarrow> raise KeyError)"

definition put_default_options :: "request_context option \<Rightarrow> dict \<Rightarrow> (db, json) io" where
  "put_default_options ctx payload =
     bnd (sw_update_opts_default_get ctx) (\<lambda>old.
     bnd (of_sum (options_of payload)) (\<lambda>v.
       seq (case old of
              Some _ \<Rightarrow> seq (sw_update_opts_default_update ctx v) (ret ())
            | None \<Rightarrow> with_values v (sw_update_opts_default_create ctx))
         (bnd (get_sw_update_opts ctx False None) (\<lambda>u. ret (options_to_json u)))))"

text \<open>The answer names the subcloud as the request does when it was found by name.\<close>

definition put_subcloud_options :: "request_context option \<Rightarrow> subcloud \<Rightarrow> dict \<Rightarrow> (db, json) io" where
  "put_subcloud_options ctx sc payload =
     bnd (sw_update_opts_get ctx (sc_id sc)) (\<lambda>old.
     bnd (of_sum (options_of payload)) (\<lambda>v.
       seq (case old of
              None \<Rightarrow> with_values v (sw_update_opts_create ctx (sc_id sc))
            | Some _ \<Rightarrow> seq (sw_update_opts_update ctx (sc_id sc) v) (ret ()))
         (bnd (get_sw_update_opts ctx False (Some (sc_id sc))) (\<lambda>u. ret (options_to_json u)))))"

definition post_options :: "'x api_env \<Rightarrow> string \<Rightarrow> request \<Rightarrow> ('x sm_sys, json) io" where
  "post_options env ref rq =
     bnd (authorized_as env (OPTIONS_POLICY_ROOT @ ''update'')) (\<lambda>ctx.
     bnd (eval_payload env rq) (\<lambda>payload.
       if ref = DEFAULT_REGION_NAME then on_world (db_io (put_default_options ctx payload))
       else bnd (on_world (lookup_subcloud ctx ref)) (\<lambda>sc.
         on_world (db_io (put_subcloud_options ctx sc payload)))))"

definition delete_options :: "'x api_env \<Rightarrow> string \<Rightarrow> ('x sm_sys, json) io" where
  "delete_options env ref =
     bnd (authorized_as env (OPTIONS_POLICY_ROOT @ ''delete'')) (\<lambda>ctx.
       if ref = DEFAULT_REGION_NAME then
         try_catch (seq (on_world (db_io (sw_update_opts_default_destroy ctx))) (ret JNull)) (\<lambda>_. ret JNull)
       else bnd (on_world (lookup_subcloud ctx ref)) (\<lambda>sc.
         bnd (on_world (db_io (sw_update_opts_get ctx (sc_id sc)))) (\<lambda>old.
           case old of
             None \<Rightarrow> http_abort 404 ''Subcloud patch options not found''
           | Some _ \<Rightarrow> seq (on_world (db_io (sw_update_opts_destroy ctx (sc_id sc)))) (ret JNull))))"

chapter \<open>Backups\<close>

text \<open>
  The requests for backups of subclouds: \<open>dcmanager/api/controllers/v1/subcloud_backup.py\<close>. A request names a
  subcloud or a group; its flags come as text and are made Booleans along the way.
\<close>

section \<open>Payloads\<close>

definition expected_params :: "string \<Rightarrow> string list option" where
  "expected_params verb =
     (if verb = ''create'' then
        Some [''subcloud'', ''group'', ''local_only'', ''registry_images'', ''backup_values'', ''sysadmin_password'']
      else if verb = ''delete'' then
        Some [''release'', ''subcloud'', ''group'', ''local_only'', ''sysadmin_password'']
      else if verb = ''restore'' then
        Some [''with_install'', ''local_only'', ''registry_images'', ''sysadmin_password'', ''restore_values'',
          ''subcloud'', ''group'']
      else None)"

definition only_expected :: "string list \<Rightarrow> dict \<Rightarrow> ('s, dict) io" where
  "only_expected params payload =
     (if fst ` set payload \<subseteq> set params then ret payload else http_abort 400 ''Unexpected parameter received'')"

definition file_params :: "string list" where "file_params = [''backup_values'', ''restore_values'']"

definition load_param ::
  "'x api_env \<Rightarrow> (string \<times> form_item) list \<Rightarrow> string \<Rightarrow> dict \<Rightarrow> ('s, dict) io" where
  "load_param env post param payload =
     (case map_of (rev post) param of
        None \<Rightarrow> ret payload
      | Some v \<Rightarrow> bnd (of_sum (load_file env v)) (\<lambda>data. ret (dict_set param data payload)))"

definition get_multipart_payload :: "'x api_env \<Rightarrow> request \<Rightarrow> string list \<Rightarrow> ('s, dict) io" where
  "get_multipart_payload env rq params =
     bnd (fold_io (load_param env (rq_post rq)) file_params []) (\<lambda>payload.
       only_expected params
         (dict_update (map (\<lambda>(k, v). (k, form_value env v)) (filter (\<lambda>(k, v). k \<notin> set file_params) (rq_post rq))) payload))"

definition get_json_payload :: "'x api_env \<Rightarrow> request \<Rightarrow> string list \<Rightarrow> ('s, dict) io" where
  "get_json_payload env rq params =
     (case sm_json_loads (ae_sm env) (rq_body rq) of
        Inl _ \<Rightarrow> http_abort 400 ''Request body is malformed.''
      | Inr (JObject payload) \<Rightarrow> only_expected params payload
      | Inr _ \<Rightarrow> http_abort 400 ''Invalid request body format'')"

definition get_backup_payload :: "'x api_env \<Rightarrow> request \<Rightarrow> string \<Rightarrow> ('s, dict) io" where
  "get_backup_payload env rq verb =
     (case expected_params verb of
        None \<Rightarrow> http_abort 400 ''Unexpected verb received''
      | Some params \<Rightarrow>
          (case rq_content_type rq of
             None \<Rightarrow> raise AttributeError
           | Some t \<Rightarrow> if contains ''multipart/form-data'' (lower t) then get_multipart_payload env rq params
                       else get_json_payload env rq params))"

definition to_bool :: "string \<Rightarrow> dict \<Rightarrow> ('s, dict) io" where
  "to_bool k payload =
     (let v = payload_value k payload
      in if \<not> truthy_json v then ret (dict_set k (JBoolean False) payload)
         else case v of
           JText s \<Rightarrow>
             if lower s = ''true'' then ret (dict_set k (JBoolean True) payload)
             else if lower s = ''false'' then ret (dict_set k (JBoolean False) payload)
             else http_abort 400 (''Invalid '' @ k @ '' value, should be boolean'')
         | _ \<Rightarrow> raise AttributeError)"

definition convert_param_to_bool :: "string list \<Rightarrow> dict \<Rightarrow> ('s, dict) io" where
  "convert_param_to_bool = fold_io to_bool"

section \<open>The subclouds of a request\<close>

record request_entity =
  re_type :: string
  re_id :: nat
  re_name :: string
  re_subclouds :: "subcloud list"

definition ref_text :: "json \<Rightarrow> ('s, string) io" where
  "ref_text v = (case v of JText s \<Rightarrow> ret s | _ \<Rightarrow> raise AttributeError)"

definition read_entity :: "request_context option \<Rightarrow> dict \<Rightarrow> ('x sm_sys, request_entity) io" where
  "read_entity ctx payload =
     (let subcloud_ref = payload_value ''subcloud'' payload; group_ref = payload_value ''group'' payload
      in if truthy_json subcloud_ref then
           seq (abort_if (truthy_json group_ref) 400
                  ([CHR 0x27] @ ''subcloud' and 'group' parameters '' @ ''should not be given at the same time''))
          (bnd (ref_text subcloud_ref) (\<lambda>ref.
           bnd (on_world (db_io (subcloud_get_by_ref ctx ref))) (\<lambda>found.
             case found of
               None \<Rightarrow> http_abort 400 ''Subcloud not found''
             | Some sc \<Rightarrow> ret \<lparr>re_type = ''subcloud'', re_id = sc_id sc, re_name = ref, re_subclouds = [sc]\<rparr>)))
         else if truthy_json group_ref then
           bnd (ref_text group_ref) (\<lambda>ref.
           bnd (on_world (db_io (subcloud_group_get_by_ref ctx ref))) (\<lambda>found.
             case found of
               None \<Rightarrow> http_abort 404 ''Group not found''
             | Some g \<Rightarrow>
                 bnd (on_world (db_io (subcloud_get_for_group ctx (g_id g)))) (\<lambda>scs.
                   if scs = [] then http_abort 400 ''No subclouds present in group''
                   else ret \<lparr>re_type = ''group'', re_id = g_id g, re_name = ref, re_subclouds = scs\<rparr>)))
         else http_abort 400 ([CHR 0x27] @ ''subcloud' or 'group' parameter is required''))"

text \<open>One subcloud: the error to show when none is valid, and whether one is. The health is only asked for
  when the request names the subcloud.\<close>

definition validate_one ::
  "'x api_env \<Rightarrow> string \<Rightarrow> string \<Rightarrow> subcloud \<Rightarrow> string \<times> bool \<Rightarrow> ('x world, string \<times> bool) io" where
  "validate_one env operation type sc acc =
     (case acc of (error_msg, has_valid) \<Rightarrow>
       bnd (case is_valid_for_backup_operation operation sc of
              Inr is_valid \<Rightarrow>
                if operation = ''create'' then
                  (if is_valid \<and> \<not> backup_ongoing sc then ret (error_msg, True)
                   else ret (''Subcloud(s) already have a backup operation in progress.'', has_valid))
                else ret (error_msg, has_valid \<or> is_valid)
            | Inl (ValidateFail m) \<Rightarrow> ret (m, has_valid)
            | Inl e \<Rightarrow> raise e) (\<lambda>(error_msg, has_valid).
         if operation = ''create'' \<and> has_valid \<and> type = ''subcloud'' then
           bnd (is_subcloud_healthy (ae_sm env) (sc_name sc)) (\<lambda>healthy.
             if healthy then ret (error_msg, has_valid)
             else http_abort 400 (''Subcloud '' @ sc_name sc @ '' must be in good health for subcloud-backup create.''))
         else ret (error_msg, has_valid)))"

definition validate_subclouds :: "'x api_env \<Rightarrow> request_entity \<Rightarrow> string \<Rightarrow> ('x world, unit) io" where
  "validate_subclouds env re operation =
     bnd (fold_io (validate_one env operation (re_type re)) (re_subclouds re)
           (''Subcloud(s) must be in a valid state for backup '' @ operation @ ''.'', False)) (\<lambda>(error_msg, has_valid).
       if has_valid then ret ()
       else http_abort 400
         (if re_type re = ''group'' then
            ''None of the subclouds in group '' @ re_name re @ '' are in a valid state for subcloud-backup '' @ operation
          else error_msg))"

section \<open>The requests\<close>

definition BACKUP_POLICY_ROOT :: string where "BACKUP_POLICY_ROOT = ''dc_api:subcloud_backup:''"

definition authorize_as :: "'x api_env \<Rightarrow> string \<Rightarrow> ('x sm_sys, unit) io" where
  "authorize_as env rule = on_world (ask (ae_authorize env rule))"

definition with_entity :: "request_entity \<Rightarrow> dict \<Rightarrow> dict" where
  "with_entity re payload = dict_set (re_type re) (JNumber (int (re_id re))) payload"

text \<open>The flags are compared as they came, before they are made Booleans: every text that is not empty
  counts as set.\<close>

definition post_backup :: "'x api_env \<Rightarrow> request \<Rightarrow> ('x sm_sys, json) io" where
  "post_backup env rq =
     bnd (on_world (ask (ae_context env))) (\<lambda>ctx.
     bnd (get_backup_payload env rq ''create'') (\<lambda>payload.
     seq (authorize_as env (BACKUP_POLICY_ROOT @ ''create''))
    (bnd (decode_sysadmin_password payload) (\<lambda>payload.
     seq (abort_if (\<not> truthy_json (payload_value ''local_only'' payload) \<and>
              truthy_json (payload_value ''registry_images'' payload)) 400
            (''Option registry_images can not be used without '' @ ''local_only option.''))
    (bnd (read_entity ctx payload) (\<lambda>re.
     seq (on_world (validate_subclouds env re ''create''))
    (bnd (convert_param_to_bool [''local_only'', ''registry_images''] (with_entity re payload)) (\<lambda>payload.
       remote_or ''Unable to backup subcloud''
         (seq (rpc ''backup_subclouds'' (re_name re) (mr_backup_subclouds (ae_rpc env) ctx payload))
           (ret (subcloud_db_list_to_dict (re_subclouds re))))))))))))"

definition delete_backups ::
  "'x api_env \<Rightarrow> request_context option \<Rightarrow> dict \<Rightarrow> string option \<Rightarrow> ('x sm_sys, nat \<times> json) io" where
  "delete_backups env ctx payload release_version =
     (if \<not> truthy_str release_version then http_abort 400 ''Release version required''
      else bnd (convert_param_to_bool [''local_only''] payload) (\<lambda>payload.
        let local = truthy_json (payload_value ''local_only'' payload)
        in bnd (if local then decode_sysadmin_password payload else ret payload) (\<lambda>payload.
           bnd (read_entity ctx payload) (\<lambda>re.
           seq (when_io local (on_world (validate_subclouds env re ''delete'')))
             (remote_or ''Unable to delete subcloud backups''
               (bnd (rpc ''delete_subcloud_backups'' (re_name re)
                      (mr_delete_backups (ae_rpc env) ctx (the release_version) (with_entity re payload))) (\<lambda>message.
                 ret (if truthy_json message then (207, message) else (204, JNull)))))))))"

definition check_restore_image :: "'x api_env \<Rightarrow> dict \<Rightarrow> ('x sm_sys, unit) io" where
  "check_restore_image env payload =
     (if truthy_json (payload_value ''with_install'' payload) then
        bnd (matching_iso env) (\<lambda>(iso, err). if truthy_str err then http_abort 400 (the err) else ret ())
      else ret ())"

definition restore_backups ::
  "'x api_env \<Rightarrow> request_context option \<Rightarrow> dict \<Rightarrow> ('x sm_sys, nat \<times> json) io" where
  "restore_backups env ctx payload =
     seq (abort_if (payload = []) 400 ''Body required'')
    (bnd (decode_sysadmin_password payload) (\<lambda>payload.
     bnd (convert_param_to_bool [''local_only'', ''with_install'', ''registry_images''] payload) (\<lambda>payload.
     seq (abort_if (\<not> truthy_json (payload_value ''local_only'' payload) \<and>
              truthy_json (payload_value ''registry_images'' payload)) 400
            (''Option registry_images cannot be used '' @ ''without local_only option.''))
    (bnd (read_entity ctx payload) (\<lambda>re.
     seq (abort_if (re_subclouds re = []) 400
            (''No subclouds exist under '' @ re_type re @ '' '' @ show_nat (re_id re)))
    (seq (on_world (validate_subclouds env re ''restore''))
    (seq (abort_if (\<not> list_ex (\<lambda>sc. truthy_str (sc_data_install sc)) (re_subclouds re)) 400
            (''Cannot proceed with the restore operation '' @ ''since the subcloud(s) do not contain '' @ ''install data.''))
    (seq (check_restore_image env payload)
      (remote_or ''Unable to restore subcloud''
        (seq (rpc ''restore_subcloud_backups'' (re_name re) (mr_restore_backups (ae_rpc env) ctx (with_entity re payload)))
          (ret (200, subcloud_db_list_to_dict (re_subclouds re)))))))))))))"

definition patch_backup :: "'x api_env \<Rightarrow> string \<Rightarrow> string option \<Rightarrow> request \<Rightarrow> ('x sm_sys, nat \<times> json) io" where
  "patch_backup env verb release_version rq =
     bnd (on_world (ask (ae_context env))) (\<lambda>ctx.
     bnd (get_backup_payload env rq verb) (\<lambda>payload.
       if verb = ''delete'' then
         seq (authorize_as env (BACKUP_POLICY_ROOT @ ''delete'')) (delete_backups env ctx payload release_version)
       else if verb = ''restore'' then
         seq (authorize_as env (BACKUP_POLICY_ROOT @ ''restore'')) (restore_backups env ctx payload)
       else http_abort 400 ''Invalid request''))"

chapter \<open>The update strategy\<close>

text \<open>
  The requests for the software update strategy: \<open>dcmanager/api/controllers/v1/sw_update_strategy.py\<close>, with
  the client of \<open>dcmanager/orchestrator/rpcapi.py\<close> and the orchestrator's manager as its server.
\<close>

section \<open>The strategy and its steps\<close>

definition STRATEGY_POLICY_ROOT :: string where "STRATEGY_POLICY_ROOT = ''dc_api:sw_update_strategy:''"

record 'x orch_rpc =
  or_create :: "request_context option \<Rightarrow> dict \<Rightarrow> ('x sm_sys, json) io"
  or_apply :: "request_context option \<Rightarrow> string option \<Rightarrow> ('x sm_sys, json) io"
  or_abort :: "request_context option \<Rightarrow> string option \<Rightarrow> ('x sm_sys, json) io"
  or_delete :: "request_context option \<Rightarrow> string option \<Rightarrow> ('x sm_sys, json) io"

text \<open>The answer for a strategy. The extra arguments, and the times, are left out.\<close>

definition sw_update_strategy_db_model_to_dict :: "sw_update_strategy \<Rightarrow> dict" where
  "sw_update_strategy_db_model_to_dict st =
     [(''id'', JNumber (int (st_id st))), (''type'', JText (sw_type_str (st_type st))),
      (''subcloud-apply-type'', opt_text (st_subcloud_apply_type st)),
      (''max-parallel-subclouds'', (case st_max_parallel_subclouds st of None \<Rightarrow> JNull | Some n \<Rightarrow> JNumber n)),
      (''stop-on-failure'', JBoolean (st_stop_on_failure st)), (''state'', JText (sw_state_str (st_state st)))]"

definition strategy_step_db_model_to_dict :: "step_view \<Rightarrow> dict" where
  "strategy_step_db_model_to_dict v =
     (case v of (s, sc) \<Rightarrow>
       [(''id'', JNumber (int (sp_id s))),
        (''cloud'', JText (case sc of None \<Rightarrow> SYSTEM_CONTROLLER_NAME | Some r \<Rightarrow> sc_name r)),
        (''stage'', JNumber (int (sp_stage s))), (''state'', JText (step_state_str (sp_state s))),
        (''details'', JText (sp_details s))])"

text \<open>The strategy of a type; a type that does not exist has none.\<close>

definition strategy_of_type :: "request_context option \<Rightarrow> string option \<Rightarrow> (db, sw_update_strategy) io" where
  "strategy_of_type ctx type =
     (case type of
        None \<Rightarrow> sw_update_strategy_get ctx None
      | Some t \<Rightarrow> (case sw_type_of_str t of None \<Rightarrow> raise NotFound | Some ty \<Rightarrow> sw_update_strategy_get ctx (Some ty)))"

definition get_strategy :: "request_context option \<Rightarrow> string option \<Rightarrow> ('x sm_sys, json) io" where
  "get_strategy ctx type =
     try_catch
       (bnd (on_world (db_io (strategy_of_type ctx type))) (\<lambda>st. ret (JObject (sw_update_strategy_db_model_to_dict st))))
       (\<lambda>e. if is_NotFound e then http_abort 404 (case type of None \<Rightarrow> ''Strategy not found''
              | Some t \<Rightarrow> ''Strategy of type '' @ [CHR 0x27] @ t @ [CHR 0x27] @ '' not found'')
            else raise e)"

definition get_step :: "request_context option \<Rightarrow> string \<Rightarrow> (db, step_view) io" where
  "get_step ctx cloud_name =
     (if cloud_name = SYSTEM_CONTROLLER_NAME then
        try_catch (strategy_step_get ctx None)
          (\<lambda>e. case e of StrategyStepNotFound _ \<Rightarrow> http_abort 404 ''Strategy step not found'' | _ \<Rightarrow> raise e)
      else
        try_catch (strategy_step_get_by_name ctx cloud_name)
          (\<lambda>e. case e of StrategyStepNameNotFound _ \<Rightarrow> http_abort 404 ''Strategy step not found'' | _ \<Rightarrow> raise e))"

definition get_sw_update_strategy ::
  "'x api_env \<Rightarrow> string option \<Rightarrow> string option \<Rightarrow> string option \<Rightarrow> ('x sm_sys, json) io" where
  "get_sw_update_strategy env type steps cloud_name =
     bnd (authorized_as env (STRATEGY_POLICY_ROOT @ ''get'')) (\<lambda>ctx.
       if steps = None then get_strategy ctx type
       else if steps = Some ''steps'' then
         (case cloud_name of
            None \<Rightarrow> bnd (on_world (db_io (strategy_step_get_all ctx))) (\<lambda>vs.
              ret (JObject [(''strategy-steps'', JArray (map (\<lambda>v. JObject (strategy_step_db_model_to_dict v)) vs))]))
          | Some c \<Rightarrow> bnd (on_world (db_io (get_step ctx c))) (\<lambda>v. ret (JObject (strategy_step_db_model_to_dict v))))
       else ret JNull)"

section \<open>Creating a strategy\<close>

definition FORCE_ALL_TYPES :: "sw_type list" where
  "FORCE_ALL_TYPES =
     [SW_UPDATE_TYPE_KUBE_ROOTCA_UPDATE, SW_UPDATE_TYPE_KUBERNETES, SW_UPDATE_TYPE_PRESTAGE, SW_UPDATE_TYPE_UPGRADE]"

definition SUPPORTED_STRATEGY_TYPES :: "sw_type list" where
  "SUPPORTED_STRATEGY_TYPES =
     [SW_UPDATE_TYPE_FIRMWARE, SW_UPDATE_TYPE_KUBE_ROOTCA_UPDATE, SW_UPDATE_TYPE_KUBERNETES, SW_UPDATE_TYPE_PATCH,
      SW_UPDATE_TYPE_PRESTAGE, SW_UPDATE_TYPE_UPGRADE]"

definition truth_values :: "json set" where "truth_values = {JText ''true'', JText ''false''}"

definition requested_type :: "dict \<Rightarrow> ('s, sw_type) io" where
  "requested_type payload =
     (let v = value_of ''type'' payload
      in if \<not> truthy_json v then http_abort 400 ''type required''
         else case find (\<lambda>t. v = JText (sw_type_str t)) SUPPORTED_STRATEGY_TYPES of
           None \<Rightarrow> http_abort 400 ''type invalid''
         | Some t \<Rightarrow> ret t)"

definition check_max_parallel :: "json \<Rightarrow> ('s, unit) io" where
  "check_max_parallel v =
     (if v = JNull then ret ()
      else case to_int v of
        Inl e \<Rightarrow> if e = ValueError then http_abort 400 ''max-parallel-subclouds invalid'' else raise e
      | Inr n \<Rightarrow> abort_if (n < 1 \<or> 500 < n) 400 ''max-parallel-subclouds invalid'')"

definition check_force :: "dict \<Rightarrow> sw_type \<Rightarrow> ('s, unit) io" where
  "check_force payload type =
     (let v = value_of ''force'' payload
      in if v = JNull then ret ()
         else if v \<notin> truth_values then http_abort 400 ''force invalid''
         else abort_if (type \<notin> set FORCE_ALL_TYPES \<and> value_of ''cloud_name'' payload = JNull) 400
           (''The --force option can only be applied '' @ ''for a single subcloud. Please specify '' @
            ''the subcloud name.''))"

definition group_ref :: "json \<Rightarrow> ('s, string) io" where
  "group_ref v = (case v of JText s \<Rightarrow> ret s | _ \<Rightarrow> raise AttributeError)"

definition check_group :: "request_context option \<Rightarrow> dict \<Rightarrow> ('x sm_sys, unit) io" where
  "check_group ctx payload =
     (let g = value_of ''subcloud_group'' payload
      in if g = JNull then ret ()
         else seq (abort_if (value_of ''cloud_name'' payload \<noteq> JNull) 400
                (''cloud_name and subcloud_group are '' @ ''mutually exclusive''))
          (seq (abort_if (value_of ''subcloud-apply-type'' payload \<noteq> JNull \<or>
                   value_of ''max-parallel-subclouds'' payload \<noteq> JNull) 400
                (''subcloud-apply-type and '' @ ''max-parallel-subclouds are not '' @ ''supported when subcloud_group is '' @
                 ''applied''))
          (bnd (group_ref g) (\<lambda>ref.
           bnd (on_world (db_io (subcloud_group_get_by_ref ctx ref))) (\<lambda>found.
             abort_if (found = None) 400 ''Invalid group_id'')))))"

definition validate_strategy_payload :: "request_context option \<Rightarrow> dict \<Rightarrow> ('x sm_sys, sw_type) io" where
  "validate_strategy_payload ctx payload =
     bnd (requested_type payload) (\<lambda>type.
     seq (abort_if (value_of ''subcloud-apply-type'' payload \<notin>
              {JNull, JText SUBCLOUD_APPLY_TYPE_PARALLEL, JText SUBCLOUD_APPLY_TYPE_SERIAL}) 400
            ''subcloud-apply-type invalid'')
    (seq (check_max_parallel (value_of ''max-parallel-subclouds'' payload))
    (seq (abort_if (value_of ''stop-on-failure'' payload \<notin> insert JNull truth_values) 400 ''stop-on-failure invalid'')
    (seq (check_force payload type)
    (seq (check_group ctx payload)
      (ret type))))))"

definition create_strategy ::
  "'x api_env \<Rightarrow> 'x orch_rpc \<Rightarrow> request_context option \<Rightarrow> dict \<Rightarrow> ('x sm_sys, json) io" where
  "create_strategy env R ctx payload =
     seq (on_world (ask (ae_authorize env (STRATEGY_POLICY_ROOT @ ''create''))))
    (bnd (validate_strategy_payload ctx payload) (\<lambda>type.
       remote_or ''Unable to create strategy''
         (rpc ''create_sw_update_strategy'' (sw_type_str type) (or_create R ctx payload))))"

definition act_on_strategy ::
  "'x api_env \<Rightarrow> 'x orch_rpc \<Rightarrow> request_context option \<Rightarrow> string option \<Rightarrow> dict \<Rightarrow> ('x sm_sys, json) io" where
  "act_on_strategy env R ctx type payload =
     (let action = value_of ''action'' payload
      in seq (abort_if (\<not> truthy_json action) 400 ''action required'')
        (if action = JText ''apply'' then
           seq (on_world (ask (ae_authorize env (STRATEGY_POLICY_ROOT @ ''apply''))))
             (remote_or ''Unable to apply strategy'' (rpc ''apply_sw_update_strategy'' [] (or_apply R ctx type)))
         else if action = JText ''abort'' then
           seq (on_world (ask (ae_authorize env (STRATEGY_POLICY_ROOT @ ''abort''))))
             (remote_or ''Unable to abort strategy'' (rpc ''abort_sw_update_strategy'' [] (or_abort R ctx type)))
         else ret JNull))"

definition post_strategy ::
  "'x api_env \<Rightarrow> 'x orch_rpc \<Rightarrow> string option \<Rightarrow> string option \<Rightarrow> request \<Rightarrow> ('x sm_sys, json) io" where
  "post_strategy env R type actions rq =
     bnd (on_world (ask (ae_context env))) (\<lambda>ctx.
     bnd (eval_payload env rq) (\<lambda>payload.
       case actions of
         None \<Rightarrow> create_strategy env R ctx payload
       | Some a \<Rightarrow> if a = ''actions'' then act_on_strategy env R ctx type payload else ret JNull))"

definition delete_strategy_request ::
  "'x api_env \<Rightarrow> 'x orch_rpc \<Rightarrow> string option \<Rightarrow> ('x sm_sys, json) io" where
  "delete_strategy_request env R type =
     bnd (authorized_as env (STRATEGY_POLICY_ROOT @ ''delete'')) (\<lambda>ctx.
       remote_or ''Unable to delete strategy'' (rpc ''delete_sw_update_strategy'' [] (or_delete R ctx type)))"

section \<open>The orchestrator as the server\<close>

definition of_type :: "string option \<Rightarrow> (sw_type option \<Rightarrow> ('s, 'a) io) \<Rightarrow> ('s, 'a) io" where
  "of_type type m =
     (case type of
        None \<Rightarrow> m None
      | Some t \<Rightarrow> (case sw_type_of_str t of None \<Rightarrow> raise NotFound | Some ty \<Rightarrow> m (Some ty)))"

definition strategy_answer :: "('x world, sw_update_strategy) io \<Rightarrow> ('x sm_sys, json) io" where
  "strategy_answer m = rpc_call (bnd (on_world m) (\<lambda>st. ret (JObject (sw_update_strategy_db_model_to_dict st))))"

definition orchestrator_of :: "'x manager_env \<Rightarrow> 'x orch_rpc" where
  "orchestrator_of env =
     \<lparr>or_create = (\<lambda>ctx payload. strategy_answer
        (of_type (Some (case value_of ''type'' payload of JText s \<Rightarrow> s | _ \<Rightarrow> []))
          (\<lambda>ty. create_sw_update_strategy env ctx (scalars payload) (the ty)))),
      or_apply = (\<lambda>ctx type. strategy_answer (of_type type (apply_sw_update_strategy ctx))),
      or_abort = (\<lambda>ctx type. strategy_answer (of_type type (abort_sw_update_strategy ctx))),
      or_delete = (\<lambda>ctx type. strategy_answer (of_type type (delete_sw_update_strategy env ctx)))\<rparr>"

end
