(* ===== verification/DC_Loops.thy ===== *)
theory DC_Loops
  imports DC_World
begin

text \<open>
  Computations that may not return. A \<open>prog\<close> is an \<open>io\<close> whose result is None when the code
  never returns; \<open>io_loop\<close> is the \<open>while True\<close> of the source, its body run once per turn on the
  loop's local variables. \<open>io_loop_returns\<close> is the termination rule of the bounded loops.
\<close>

type_synonym ('s, 'a) prog = "'s \<Rightarrow> ((exn + 'a) \<times> 's) option"

definition run :: "('s, 'a) io \<Rightarrow> ('s, 'a) prog" where
  "run m = (\<lambda>s. Some (m s))"

definition bndp :: "('s, 'a) prog \<Rightarrow> ('a \<Rightarrow> ('s, 'b) prog) \<Rightarrow> ('s, 'b) prog" where
  "bndp m f = (\<lambda>s. case m s of
       None \<Rightarrow> None
     | Some (Inl e, t) \<Rightarrow> Some (Inl e, t)
     | Some (Inr x, t) \<Rightarrow> f x t)"

definition seqp :: "('s, 'a) prog \<Rightarrow> ('s, 'b) prog \<Rightarrow> ('s, 'b) prog" where
  "seqp m n = bndp m (\<lambda>_. n)"

definition catchp :: "('s, 'a) prog \<Rightarrow> (exn \<Rightarrow> ('s, 'a) prog) \<Rightarrow> ('s, 'a) prog" where
  "catchp m h = (\<lambda>s. case m s of
       None \<Rightarrow> None
     | Some (Inl e, t) \<Rightarrow> h e t
     | Some (Inr x, t) \<Rightarrow> Some (Inr x, t))"

text \<open>A turn of a loop: go on with new values of the local variables, or leave with a result.\<close>

datatype ('l, 'a) turn = Again 'l | Leave 'a

partial_function (option) io_loop ::
  "('l \<Rightarrow> ('s, ('l, 'a) turn) io) \<Rightarrow> 'l \<Rightarrow> 's \<Rightarrow> ((exn + 'a) \<times> 's) option" where
  "io_loop body l s =
     (case body l s of
        (r, t) \<Rightarrow>
          (case r of
             Inl e \<Rightarrow> Some (Inl e, t)
           | Inr u \<Rightarrow> (case u of Again l' \<Rightarrow> io_loop body l' t | Leave x \<Rightarrow> Some (Inr x, t))))"

declare io_loop.simps [code]

lemma run_apply [simp]: "run m s = Some (m s)"
  by (simp add: run_def)

lemma bndp_run: "bndp (run m) f s = (case m s of (Inl e, t) \<Rightarrow> Some (Inl e, t) | (Inr x, t) \<Rightarrow> f x t)"
  by (simp add: bndp_def split: prod.splits sum.splits)

lemma bndp_Some_iff:
  "bndp m f s = Some (r, t) \<longleftrightarrow>
     (\<exists>e. m s = Some (Inl e, t) \<and> r = Inl e) \<or> (\<exists>x s'. m s = Some (Inr x, s') \<and> f x s' = Some (r, t))"
  by (auto simp: bndp_def split: option.splits prod.splits sum.splits)

subsection \<open>Termination\<close>

definition returnsp :: "('s, 'a) prog \<Rightarrow> bool" where
  "returnsp m \<longleftrightarrow> (\<forall>s. m s \<noteq> None)"

named_theorems returnsp_intros

lemma returnsp_run [returnsp_intros]: "returnsp (run m)"
  by (simp add: returnsp_def)

lemma returnsp_bndp [returnsp_intros]: "returnsp m \<Longrightarrow> (\<And>x. returnsp (f x)) \<Longrightarrow> returnsp (bndp m f)"
  by (auto simp: returnsp_def bndp_def split: option.splits sum.splits)

lemma returnsp_seqp [returnsp_intros]: "returnsp m \<Longrightarrow> returnsp n \<Longrightarrow> returnsp (seqp m n)"
  by (simp add: seqp_def returnsp_bndp)

lemma returnsp_catchp [returnsp_intros]: "returnsp m \<Longrightarrow> (\<And>e. returnsp (h e)) \<Longrightarrow> returnsp (catchp m h)"
  by (auto simp: returnsp_def catchp_def split: option.splits sum.splits)

lemma returnsp_if [returnsp_intros]:
  "(b \<Longrightarrow> returnsp m) \<Longrightarrow> (\<not> b \<Longrightarrow> returnsp n) \<Longrightarrow> returnsp (if b then m else n)"
  by simp

lemma returnsp_case_option [returnsp_intros]:
  "returnsp m \<Longrightarrow> (\<And>y. returnsp (f y)) \<Longrightarrow> returnsp (case x of None \<Rightarrow> m | Some y \<Rightarrow> f y)"
  by (simp split: option.splits)

text \<open>A loop returns when a measure of its local variables goes down each time it goes round.\<close>

lemma io_loop_returns:
  assumes "\<And>l s l' t. body l s = (Inr (Again l'), t) \<Longrightarrow> (l', l) \<in> R" and "wf R"
  shows "returnsp (io_loop body l)"
  using assms(2)
proof (induction l rule: wf_induct_rule)
  case (less l)
  show ?case unfolding returnsp_def
  proof
    fix s
    show "io_loop body l s \<noteq> None"
    proof (cases "\<exists>l' t. body l s = (Inr (Again l'), t)")
      case True
      then obtain l' t where b: "body l s = (Inr (Again l'), t)" by blast
      then have "io_loop body l' t \<noteq> None" using less assms(1) by (simp add: returnsp_def)
      then show ?thesis using b by (subst io_loop.simps) simp
    next
      case False
      then show ?thesis
        by (subst io_loop.simps) (auto split: prod.splits sum.splits turn.splits)
    qed
  qed
qed

text \<open>The same with a measure that may look at the state, under an invariant of the state.\<close>

lemma io_loop_returns_state:
  assumes "\<And>l s l' t. J l s \<Longrightarrow> body l s = (Inr (Again l'), t) \<Longrightarrow> J l' t \<and> ((l', t), (l, s)) \<in> R"
    and "wf R" and "J l s"
  shows "io_loop body l s \<noteq> None"
  using assms(2,3)
proof (induction "(l, s)" arbitrary: l s rule: wf_induct_rule)
  case less
  show ?case
  proof (cases "\<exists>l' t. body l s = (Inr (Again l'), t)")
    case True
    then obtain l' t where b: "body l s = (Inr (Again l'), t)" by blast
    then have "io_loop body l' t \<noteq> None" using less assms(1) by blast
    then show ?thesis using b by (subst io_loop.simps) simp
  next
    case False
    then show ?thesis
      by (subst io_loop.simps) (auto split: prod.splits sum.splits turn.splits)
  qed
qed

subsection \<open>Partial correctness\<close>

definition keepsp :: "('s \<Rightarrow> bool) \<Rightarrow> ('s, 'a) prog \<Rightarrow> bool" where
  "keepsp I m \<longleftrightarrow> (\<forall>s r t. I s \<longrightarrow> m s = Some (r, t) \<longrightarrow> I t)"

named_theorems keepsp_intros

lemma keepsp_run [keepsp_intros]: "keeps I m \<Longrightarrow> keepsp I (run m)"
  by (auto simp: keepsp_def keeps_def)

lemma keepsp_bndp [keepsp_intros]: "keepsp I m \<Longrightarrow> (\<And>x. keepsp I (f x)) \<Longrightarrow> keepsp I (bndp m f)"
  unfolding keepsp_def bndp_Some_iff by blast

lemma keepsp_seqp [keepsp_intros]: "keepsp I m \<Longrightarrow> keepsp I n \<Longrightarrow> keepsp I (seqp m n)"
  by (simp add: seqp_def keepsp_bndp)

lemma keepsp_catchp [keepsp_intros]: "keepsp I m \<Longrightarrow> (\<And>e. keepsp I (h e)) \<Longrightarrow> keepsp I (catchp m h)"
proof -
  assume m: "keepsp I m" and h: "\<And>e. keepsp I (h e)"
  show "keepsp I (catchp m h)" unfolding keepsp_def
  proof (intro allI impI)
    fix s r t assume I: "I s" and run: "catchp m h s = Some (r, t)"
    then obtain r' t' where *: "m s = Some (r', t')"
      by (auto simp: catchp_def split: option.splits)
    then have "I t'" using m I by (simp add: keepsp_def)
    then show "I t" using run * h by (cases r') (auto simp: catchp_def keepsp_def)
  qed
qed

lemma keepsp_if [keepsp_intros]:
  "(b \<Longrightarrow> keepsp I m) \<Longrightarrow> (\<not> b \<Longrightarrow> keepsp I n) \<Longrightarrow> keepsp I (if b then m else n)"
  by simp

lemma keepsp_case_option [keepsp_intros]:
  "keepsp I m \<Longrightarrow> (\<And>y. keepsp I (f y)) \<Longrightarrow> keepsp I (case x of None \<Rightarrow> m | Some y \<Rightarrow> f y)"
  by (simp split: option.splits)

text \<open>What holds of the local variables and the state at every turn, and of the result.\<close>

lemma io_loop_partial:
  assumes "io_loop body l s = Some (r, t)" and "J l s"
    and again: "\<And>l s l' t. J l s \<Longrightarrow> body l s = (Inr (Again l'), t) \<Longrightarrow> J l' t"
    and leave: "\<And>l s x t. J l s \<Longrightarrow> body l s = (Inr (Leave x), t) \<Longrightarrow> Q (Inr x) t"
    and err: "\<And>l s e t. J l s \<Longrightarrow> body l s = (Inl e, t) \<Longrightarrow> Q (Inl e) t"
  shows "Q r t"
proof -
  let ?P = "\<lambda>b l s y. b = body \<longrightarrow> J l s \<longrightarrow> Q (fst y) (snd y)"
  have "?P body l s (r, t)"
  proof (rule io_loop.raw_induct [OF _ assms(1), where P = ?P], intro impI)
    fix rec b l s y
    assume IH: "\<And>l s b y. rec l s b = Some y \<Longrightarrow> ?P l s b y" and b: "b = body" "J l s"
      and step: "(case b l s of (r, t) \<Rightarrow> (case r of Inl e \<Rightarrow> Some (Inl e, t)
         | Inr u \<Rightarrow> (case u of Again l' \<Rightarrow> rec b l' t | Leave x \<Rightarrow> Some (Inr x, t)))) = Some y"
    obtain r t where run: "body l s = (r, t)" by fastforce
    show "Q (fst y) (snd y)"
    proof (cases r)
      case (Inl e)
      then show ?thesis using step b run err by auto
    next
      case (Inr u)
      then show ?thesis using step b run again leave IH by (cases u) auto
    qed
  qed
  then show ?thesis using assms(2) by simp
qed

lemma keepsp_io_loop [keepsp_intros]:
  assumes "\<And>l. keeps I (body l)"
  shows "keepsp I (io_loop body l)"
  unfolding keepsp_def
proof (intro allI impI)
  fix s r t assume I: "I s" and loop: "io_loop body l s = Some (r, t)"
  have step: "I t'" if "I s'" "body k s' = (r', t')" for k s' r' t'
    using keepsD [OF assms that(1), of k] that(2) by simp
  show "I t"
    by (rule io_loop_partial [OF loop, where J = "\<lambda>_. I" and Q = "\<lambda>_. I"])
      (use I step in blast)+
qed

end
