(* ===== verification/DC_OrchEnv.thy ===== *)
theory DC_OrchEnv
  imports DC_Loops DC_Utils
begin

text \<open>
  What the orchestrator's states act on. \<open>orch_env\<close> holds the answers of the other services, of
  the clock and of the stop event; the clients of \<open>states/base.py\<close> are built anew for each call,
  as the source does, so a call first gets a keystone client and an endpoint. \<open>VimClient\<close>
  (\<open>dccommon/drivers/openstack/vim.py\<close>) is modelled over the nfv client library; the sysinv, fm
  and patching drivers, thin wrappers of the REST interfaces, are parameters.
\<close>

section \<open>The environment\<close>

record host =
  h_id :: nat
  h_administrative :: string
  h_operational :: string
  h_availability :: string
  h_personality :: "string option"
  h_uuid :: string
  h_software_load :: string
  h_bm_ip :: "string option"
  h_bm_username :: "string option"
  h_boot_device :: string
  h_rootfs_device :: string
  h_subfunctions :: string
  h_console :: string

record host_response =
  hr_ihost_action :: string
  hr_task :: string

record vim_strategy =
  vs_state :: vim_state
  vs_current_phase :: string
  vs_completion :: nat
  vs_build_reason :: string
  vs_apply_reason :: string

record alarm =
  am_id :: string
  am_mgmt_affecting :: string

record patch =
  pt_sw_version :: string
  pt_repostate :: string
  pt_patchstate :: string

type_synonym patches = "(string \<times> patch) list"

record 'x orch_env =
  oe_now :: "('x, int) io"
  oe_stopped :: "('x, bool) io"
  oe_keystone :: "string \<Rightarrow> ('x, unit) io"
  oe_endpoint :: "string \<Rightarrow> string \<Rightarrow> ('x, unit) io"
  oe_get_host :: "string \<Rightarrow> string \<Rightarrow> ('x, host) io"
  oe_host_action :: "string \<Rightarrow> string \<Rightarrow> nat \<Rightarrow> ('x, host_response) io"
  oe_get_loads :: "string \<Rightarrow> ('x, load list) io"
  oe_get_kube_upgrades :: "string \<Rightarrow> ('x, string list) io"
  oe_get_kube_versions :: "string \<Rightarrow> ('x, kube_version list) io"
  oe_get_kube_rootca_updates :: "string \<Rightarrow> ('x, string list) io"
  oe_kube_rootca_update_start :: "string \<Rightarrow> ('x, string) io"
  oe_kube_rootca_update_upload_cert :: "string \<Rightarrow> string \<Rightarrow> ('x, string option) io"
  oe_get_alarms :: "string \<Rightarrow> ('x, alarm list) io"
  oe_patch_query :: "string \<Rightarrow> ('x, patches) io"
  oe_patch_query_hosts :: "string \<Rightarrow> ('x, bool list) io"
  oe_patch_action :: "string \<Rightarrow> string \<Rightarrow> string list \<Rightarrow> ('x, unit) io"
  oe_nfv_get :: "string \<Rightarrow> string \<Rightarrow> ('x, vim_strategy option) io"
  oe_nfv_create :: "string \<Rightarrow> string \<Rightarrow> update_opts \<Rightarrow> (string \<times> jval) list \<Rightarrow>
                    ('x, vim_strategy option) io"
  oe_nfv_apply :: "string \<Rightarrow> string \<Rightarrow> ('x, vim_strategy option) io"
  oe_nfv_delete :: "string \<Rightarrow> string \<Rightarrow> ('x, bool) io"
  oe_audit_rpc :: "string \<Rightarrow> ('x, unit) io"

definition sleep :: "nat \<Rightarrow> ('x world, unit) io" where
  "sleep n = log_action (Sleep n)"

text \<open>The seconds a log spends asleep.\<close>

definition slept :: "action list \<Rightarrow> nat" where
  "slept l = sum_list (map (\<lambda>a. case a of Sleep n \<Rightarrow> n | _ \<Rightarrow> 0) l)"

lemma slept_simps [simp]:
  "slept [] = 0" "slept (a @ b) = slept a + slept b"
  "slept (x # b) = (case x of Sleep n \<Rightarrow> n | _ \<Rightarrow> 0) + slept b"
  by (simp_all add: slept_def)

section \<open>\<open>states/base.py\<close>\<close>

definition stopped :: "'x orch_env \<Rightarrow> ('x world, bool) io" where
  "stopped env = ask (oe_stopped env)"

definition check_stopped :: "'x orch_env \<Rightarrow> ('x world, unit) io" where
  "check_stopped env = bnd (stopped env) (\<lambda>s. when_io s (raise StrategyStoppedException))"

definition get_region_name :: "step_view \<Rightarrow> ('s, string) io" where
  "get_region_name v =
     (case sp_subcloud_id (fst v) of
        None \<Rightarrow> ret DEFAULT_REGION_NAME
      | Some _ \<Rightarrow> (case snd v of None \<Rightarrow> raise AttributeError | Some sc \<Rightarrow> ret (sc_name sc)))"

text \<open>\<open>strategy_step.subcloud.name\<close>.\<close>

definition step_subcloud_name :: "step_view \<Rightarrow> ('s, string) io" where
  "step_subcloud_name v =
     (case snd v of None \<Rightarrow> raise AttributeError | Some sc \<Rightarrow> ret (sc_name sc))"

definition get_keystone_client :: "'x orch_env \<Rightarrow> string \<Rightarrow> ('x world, unit) io" where
  "get_keystone_client env region = ask (oe_keystone env region)"

definition get_client :: "'x orch_env \<Rightarrow> string \<Rightarrow> string \<Rightarrow> ('x world, unit) io" where
  "get_client env service region =
     seq (get_keystone_client env region) (ask (oe_endpoint env service region))"

definition get_sysinv_client :: "'x orch_env \<Rightarrow> string \<Rightarrow> ('x world, unit) io" where
  "get_sysinv_client env = get_client env ''sysinv''"

definition get_fm_client :: "'x orch_env \<Rightarrow> string \<Rightarrow> ('x world, unit) io" where
  "get_fm_client env = get_client env ''fm''"

definition get_patching_client :: "'x orch_env \<Rightarrow> string \<Rightarrow> ('x world, unit) io" where
  "get_patching_client env = get_client env ''patching''"

definition get_vim_client :: "'x orch_env \<Rightarrow> string \<Rightarrow> ('x world, unit) io" where
  "get_vim_client env = get_client env ''nfv''"

section \<open>\<open>VimClient\<close>\<close>

definition vim_create_strategy ::
  "'x orch_env \<Rightarrow> string \<Rightarrow> string \<Rightarrow> update_opts \<Rightarrow> (string \<times> jval) list \<Rightarrow>
   ('x world, vim_strategy) io" where
  "vim_create_strategy env region name opts kwargs =
     bnd (call (VimAction region ''create'') (oe_nfv_create env region name opts kwargs)) (\<lambda>s.
       case s of
         None \<Rightarrow> raise (PyException (''Strategy:('' @ name @ '') creation failed''))
       | Some s \<Rightarrow> ret s)"

definition vim_get_strategy ::
  "'x orch_env \<Rightarrow> string \<Rightarrow> string \<Rightarrow> bool \<Rightarrow> ('x world, vim_strategy option) io" where
  "vim_get_strategy env region name raise_error_if_missing =
     bnd (ask (oe_nfv_get env region name)) (\<lambda>s.
       if s = None \<and> raise_error_if_missing then raise (PyException ''Get strategy failed'')
       else ret s)"

definition vim_delete_strategy :: "'x orch_env \<Rightarrow> string \<Rightarrow> string \<Rightarrow> ('x world, unit) io" where
  "vim_delete_strategy env region name =
     bnd (call (VimAction region ''delete'') (oe_nfv_delete env region name)) (\<lambda>success.
       unless_io success (raise (PyException ''Delete strategy failed'')))"

definition vim_apply_strategy ::
  "'x orch_env \<Rightarrow> string \<Rightarrow> string \<Rightarrow> ('x world, vim_strategy) io" where
  "vim_apply_strategy env region name =
     bnd (call (VimAction region ''apply'') (oe_nfv_apply env region name)) (\<lambda>s.
       case s of
         None \<Rightarrow> raise (PyException ''Strategy apply failed'')
       | Some s \<Rightarrow> ret s)"

text \<open>A fresh client for one call.\<close>

definition get_strategy ::
  "'x orch_env \<Rightarrow> string \<Rightarrow> string \<Rightarrow> bool \<Rightarrow> ('x world, vim_strategy option) io" where
  "get_strategy env region name must =
     seq (get_vim_client env region) (vim_get_strategy env region name must)"

definition get_host :: "'x orch_env \<Rightarrow> string \<Rightarrow> string \<Rightarrow> ('x world, host) io" where
  "get_host env region name =
     seq (get_sysinv_client env region) (ask (oe_get_host env region name))"

definition host_action ::
  "'x orch_env \<Rightarrow> string \<Rightarrow> string \<Rightarrow> nat \<Rightarrow> ('x world, host_response) io" where
  "host_action env op region i =
     seq (get_sysinv_client env region)
       (call (HostAction region op (show_nat i)) (oe_host_action env op region i))"

section \<open>What the calls leave alone\<close>

text \<open>A computation that touches neither the database nor the files, and only adds to the log.\<close>

definition outside :: "('x world, 'a) io \<Rightarrow> bool" where
  "outside m \<longleftrightarrow> (\<forall>d f. keeps (\<lambda>w. w_db w = d \<and> w_fs w = f) m)"

named_theorems outside_intros

lemma outside_apply: "outside m \<Longrightarrow> m w = (r, w') \<Longrightarrow> w_db w' = w_db w \<and> w_fs w' = w_fs w"
  unfolding outside_def keeps_def by (metis snd_conv)

lemma outside_keeps: "outside m \<Longrightarrow> keeps (\<lambda>w. I (w_db w)) m"
  by (auto simp: outside_def keeps_def)

lemma outside_world_wf: "outside m \<Longrightarrow> keeps world_wf m"
  by (auto simp: outside_def keeps_def world_wf_def)

lemma outside_ret [outside_intros]: "outside (ret x)"
  by (simp add: outside_def keeps_def)

lemma outside_raise [outside_intros]: "outside (raise e)"
  by (simp add: outside_def keeps_def)

lemma outside_ask [outside_intros]: "outside (ask m)"
  by (simp add: outside_def keeps_def ask_apply split: prod.splits)

lemma outside_call [outside_intros]: "outside (call a m)"
  by (simp add: outside_def keeps_def call_apply split: prod.splits)

lemma outside_gets [outside_intros]: "outside (gets f)"
  by (simp add: outside_def keeps_def)

lemma outside_log_action [outside_intros]: "outside (log_action a)"
  by (simp add: outside_def keeps_def log_action_def)

lemma outside_sleep [outside_intros]: "outside (sleep n)"
  by (simp add: sleep_def outside_log_action)

lemma outside_bnd [outside_intros]: "outside m \<Longrightarrow> (\<And>x. outside (f x)) \<Longrightarrow> outside (bnd m f)"
  by (simp add: outside_def keeps_bnd)

lemma outside_seq [outside_intros]: "outside m \<Longrightarrow> outside n \<Longrightarrow> outside (seq m n)"
  by (simp add: seq_def outside_bnd)

lemma outside_try_catch [outside_intros]:
  "outside m \<Longrightarrow> (\<And>e. outside (h e)) \<Longrightarrow> outside (try_catch m h)"
  by (simp add: outside_def keeps_try_catch)

lemma outside_try_else [outside_intros]:
  "outside m \<Longrightarrow> (\<And>e. outside (h e)) \<Longrightarrow> (\<And>x. outside (k x)) \<Longrightarrow> outside (try_else m h k)"
  by (simp add: outside_def keeps_try_else)

lemma outside_if [outside_intros]:
  "(b \<Longrightarrow> outside m) \<Longrightarrow> (\<not> b \<Longrightarrow> outside n) \<Longrightarrow> outside (if b then m else n)"
  by simp

lemma outside_when [outside_intros]: "outside m \<Longrightarrow> outside (when_io b m)"
  by (simp add: when_io_def outside_ret)

lemma outside_unless [outside_intros]: "outside m \<Longrightarrow> outside (unless_io b m)"
  by (simp add: unless_io_def outside_ret)

lemma outside_case_option [outside_intros]:
  "outside m \<Longrightarrow> (\<And>y. outside (f y)) \<Longrightarrow> outside (case x of None \<Rightarrow> m | Some y \<Rightarrow> f y)"
  by (simp split: option.splits)

lemma outside_case_sum [outside_intros]:
  "(\<And>y. outside (f y)) \<Longrightarrow> (\<And>y. outside (g y)) \<Longrightarrow> outside (case x of Inl y \<Rightarrow> f y | Inr y \<Rightarrow> g y)"
  by (simp split: sum.splits)

lemma outside_for_each [outside_intros]: "(\<And>x. outside (f x)) \<Longrightarrow> outside (for_each f xs)"
  by (induction xs) (auto intro!: outside_intros)

lemma outside_clients [outside_intros]:
  "outside (stopped env)" "outside (check_stopped env)"
  "outside (get_region_name v)" "outside (step_subcloud_name v)"
  "outside (get_client env s r)" "outside (get_sysinv_client env r)" "outside (get_fm_client env r)"
  "outside (get_patching_client env r)" "outside (get_vim_client env r)"
  unfolding stopped_def check_stopped_def get_region_name_def step_subcloud_name_def get_client_def
    get_sysinv_client_def get_fm_client_def get_patching_client_def get_vim_client_def
    get_keystone_client_def
  by (intro outside_intros)+

lemma outside_vim [outside_intros]:
  "outside (vim_create_strategy env r n opts kw)" "outside (vim_get_strategy env r n m)"
  "outside (vim_delete_strategy env r n)" "outside (vim_apply_strategy env r n)"
  "outside (get_strategy env r n m)" "outside (get_host env r n)" "outside (host_action env op r i)"
  unfolding vim_create_strategy_def vim_get_strategy_def vim_delete_strategy_def
    vim_apply_strategy_def get_strategy_def get_host_def host_action_def
  by (intro outside_intros)+

text \<open>The same for programs that may not return.\<close>

definition outsidep :: "('x world, 'a) prog \<Rightarrow> bool" where
  "outsidep m \<longleftrightarrow> (\<forall>w r w'. m w = Some (r, w') \<longrightarrow> w_db w' = w_db w \<and> w_fs w' = w_fs w)"

lemma outsidep_keepsp: "outsidep m \<Longrightarrow> keepsp (\<lambda>w. I (w_db w)) m"
  by (auto simp: outsidep_def keepsp_def)

lemma outsidep_run [outside_intros]: "outside m \<Longrightarrow> outsidep (run m)"
  by (auto simp: outsidep_def dest: outside_apply)

lemma outsidep_bndp [outside_intros]:
  "outsidep m \<Longrightarrow> (\<And>x. outsidep (f x)) \<Longrightarrow> outsidep (bndp m f)"
  unfolding outsidep_def bndp_Some_iff by metis

lemma outsidep_seqp [outside_intros]: "outsidep m \<Longrightarrow> outsidep n \<Longrightarrow> outsidep (seqp m n)"
  by (simp add: seqp_def outsidep_bndp)

lemma outsidep_io_loop [outside_intros]:
  assumes "\<And>l. outside (body l)"
  shows "outsidep (io_loop body l)"
  unfolding outsidep_def
proof (intro allI impI)
  fix w r w' assume loop: "io_loop body l w = Some (r, w')"
  let ?J = "\<lambda>v. w_db v = w_db w \<and> w_fs v = w_fs w"
  have step: "?J t" if "?J s" "body k s = (u, t)" for k s u t
    using outside_apply [OF assms that(2)] that(1) by simp
  show "?J w'"
    by (rule io_loop_partial [OF loop, where J = "\<lambda>_. ?J" and Q = "\<lambda>_. ?J"])
      (use step in blast)+
qed

lemma outsidep_if [outside_intros]:
  "(b \<Longrightarrow> outsidep m) \<Longrightarrow> (\<not> b \<Longrightarrow> outsidep n) \<Longrightarrow> outsidep (if b then m else n)"
  by simp

lemma outsidep_case_option [outside_intros]:
  "outsidep m \<Longrightarrow> (\<And>y. outsidep (f y)) \<Longrightarrow> outsidep (case x of None \<Rightarrow> m | Some y \<Rightarrow> f y)"
  by (simp split: option.splits)

end
