(* ===== verification/DC_HostStates.thy ===== *)
theory DC_HostStates
  imports DC_OrchEnv
begin

text \<open>
  The states that act on a host of a subcloud: \<open>states/lock_host.py\<close>, \<open>swact_host.py\<close>,
  \<open>unlock_host.py\<close>, and their instances for an upgrade under \<open>states/upgrade\<close>. Each asks for the
  action when the host is not already as wanted, then polls. The bounds on the polling are
  proved: every state returns, and within a number of seconds.
\<close>

section \<open>Locking\<close>

definition LOCK_MAX_QUERIES :: nat where "LOCK_MAX_QUERIES = 60"
definition LOCK_SLEEP :: nat where "LOCK_SLEEP = 10"

definition is_locked :: "host \<Rightarrow> bool" where
  "is_locked h = (h_administrative h = ''locked'')"

definition lock_turn ::
  "'x orch_env \<Rightarrow> string \<Rightarrow> string \<Rightarrow> nat \<Rightarrow> ('x world, (nat, unit) turn) io" where
  "lock_turn env name hostname counter =
     seq (check_stopped env)
       (bnd (get_host env name hostname) (\<lambda>h.
          if is_locked h then ret (Leave ())
          else if LOCK_MAX_QUERIES \<le> Suc counter then
            raise (PyException (''Timeout waiting for lock to complete. '' @
              ''Please check sysinv.log on the subcloud '' @ ''for details.''))
          else seq (sleep LOCK_SLEEP) (ret (Again (Suc counter)))))"

definition lock_host_state ::
  "'x orch_env \<Rightarrow> step_state \<Rightarrow> string \<Rightarrow> step_view \<Rightarrow> ('x world, step_state) prog" where
  "lock_host_state env next_state hostname v =
     bndp (run (step_subcloud_name v)) (\<lambda>name.
     bndp (run (get_sysinv_client env name)) (\<lambda>_.
     bndp (run (ask (oe_get_host env name hostname))) (\<lambda>h.
       if is_locked h then run (ret next_state)
       else seqp (run (bnd (call (HostAction name ''lock'' hostname) (oe_host_action env ''lock'' name (h_id h)))
              (\<lambda>resp. when_io (hr_ihost_action resp \<noteq> ''lock'' \<or> hr_task resp \<noteq> ''Locking'')
                 (raise (PyException (''Unable to lock host '' @ hostname))))))
            (bndp (io_loop (lock_turn env name hostname) 0) (\<lambda>_. run (ret next_state))))))"

section \<open>Swact\<close>

definition SWACT_MAX_FAILED_QUERIES :: nat where "SWACT_MAX_FAILED_QUERIES = 120"
definition SWACT_FAILED_SLEEP :: nat where "SWACT_FAILED_SLEEP = 10"
definition SWACT_MAX_QUERIES :: nat where "SWACT_MAX_QUERIES = 60"
definition SWACT_QUERY_SLEEP :: nat where "SWACT_QUERY_SLEEP = 10"
definition SWACT_SLEEP :: nat where "SWACT_SLEEP = 180"

definition is_active_controller :: "host \<Rightarrow> bool" where
  "is_active_controller h = (h_personality h = Some ''Controller-Active'')"

text \<open>The local variables are \<open>fail_counter\<close> and \<open>api_counter\<close>.\<close>

definition swact_turn ::
  "'x orch_env \<Rightarrow> string \<Rightarrow> string \<Rightarrow> nat \<times> nat \<Rightarrow> ('x world, (nat \<times> nat, unit) turn) io" where
  "swact_turn env region active = (\<lambda>(fail_counter, api_counter).
     seq (check_stopped env)
       (try_else (get_host env region active)
          (\<lambda>_. if SWACT_MAX_FAILED_QUERIES \<le> Suc fail_counter
               then raise (PyException ''Timeout waiting for swact to complete'')
               else seq (sleep SWACT_FAILED_SLEEP) (ret (Again (Suc fail_counter, api_counter))))
          (\<lambda>h. if is_active_controller h then ret (Leave ())
               else if SWACT_MAX_QUERIES \<le> Suc api_counter
               then raise (PyException (''Timeout waiting for swact to complete. '' @
                      ''Please check sysinv.log on the subcloud '' @ ''for details.''))
               else seq (sleep SWACT_QUERY_SLEEP) (ret (Again (0, Suc api_counter))))))"

definition swact_host_state ::
  "'x orch_env \<Rightarrow> step_state \<Rightarrow> string \<Rightarrow> string \<Rightarrow> step_view \<Rightarrow> ('x world, step_state) prog" where
  "swact_host_state env next_state active standby v =
     bndp (run (get_region_name v)) (\<lambda>region.
     bndp (run (get_host env region active)) (\<lambda>active_host.
     bndp (run (get_host env region standby)) (\<lambda>standby_host.
       if is_active_controller active_host then run (ret next_state)
       else seqp (run (seq (get_sysinv_client env region)
              (bnd (call (HostAction region ''swact'' standby) (oe_host_action env ''swact'' region (h_id standby_host)))
              (\<lambda>resp. when_io (hr_task resp \<noteq> ''Swacting'')
                 (raise (PyException (''Unable to swact to host '' @ active)))))))
            (seqp (io_loop (swact_turn env region active) (0, 0))
              (run (seq (sleep SWACT_SLEEP) (ret next_state)))))))"

section \<open>Unlocking\<close>

definition UNLOCK_MAX_FAILED_QUERIES :: nat where "UNLOCK_MAX_FAILED_QUERIES = 30"
definition UNLOCK_FAILED_SLEEP :: nat where "UNLOCK_FAILED_SLEEP = 60"
definition UNLOCK_MAX_API_QUERIES :: nat where "UNLOCK_MAX_API_QUERIES = 30"
definition UNLOCK_API_SLEEP :: nat where "UNLOCK_API_SLEEP = 60"
definition UNLOCK_MAX_RETRIES :: nat where "UNLOCK_MAX_RETRIES = 10"
definition UNLOCK_SLEEP :: nat where "UNLOCK_SLEEP = 120"

definition PLATFORM_RETRY_MAX_ATTEMPTS :: nat where "PLATFORM_RETRY_MAX_ATTEMPTS = 5"
definition PLATFORM_RETRY_SLEEP :: nat where "PLATFORM_RETRY_SLEEP = 5"

text \<open>\<open>retrying.retry\<close>: the call is repeated after a pause, the last failure is raised.\<close>

definition retry_turn :: "('x world, 'a) io \<Rightarrow> nat \<Rightarrow> ('x world, (nat, 'a) turn) io" where
  "retry_turn m attempt =
     try_else m
       (\<lambda>e. if PLATFORM_RETRY_MAX_ATTEMPTS \<le> Suc attempt then raise e
            else seq (sleep PLATFORM_RETRY_SLEEP) (ret (Again (Suc attempt))))
       (\<lambda>x. ret (Leave x))"

definition get_host_with_retry ::
  "'x orch_env \<Rightarrow> string \<Rightarrow> string \<Rightarrow> ('x world, host) prog" where
  "get_host_with_retry env name hostname = io_loop (retry_turn (get_host env name hostname)) 0"

definition check_host_ready :: "host \<Rightarrow> bool" where
  "check_host_ready h =
     (h_administrative h = ''unlocked'' \<and> h_operational h = ''enabled'' \<and>
      h_availability h = ''available'')"

definition unlock_try_turn ::
  "'x orch_env \<Rightarrow> string \<Rightarrow> string \<Rightarrow> nat \<Rightarrow> nat \<Rightarrow> ('x world, (nat, unit) turn) io" where
  "unlock_try_turn env name hostname i unlock_counter =
     try_else
       (seq (get_sysinv_client env name)
         (bnd (call (HostAction name ''unlock'' hostname) (oe_host_action env ''unlock'' name i))
           (\<lambda>resp. when_io (hr_ihost_action resp \<noteq> ''unlock'' \<or> hr_task resp \<noteq> ''Unlocking'')
              (raise (PyException (''Unable to unlock host '' @ hostname))))))
       (\<lambda>e. if UNLOCK_MAX_RETRIES \<le> unlock_counter then raise e
            else seq (sleep UNLOCK_SLEEP) (ret (Again (Suc unlock_counter))))
       (\<lambda>_. ret (Leave ()))"

definition unlock_turn ::
  "'x orch_env \<Rightarrow> string \<Rightarrow> string \<Rightarrow> nat \<times> nat \<Rightarrow> ('x world, (nat \<times> nat, unit) turn) io" where
  "unlock_turn env name hostname = (\<lambda>(fail_counter, api_counter).
     seq (check_stopped env)
       (try_else (get_host env name hostname)
          (\<lambda>_. if UNLOCK_MAX_FAILED_QUERIES \<le> Suc fail_counter
               then raise (PyException ''Timeout waiting for reboot to complete'')
               else seq (sleep UNLOCK_FAILED_SLEEP) (ret (Again (Suc fail_counter, api_counter))))
          (\<lambda>h. if check_host_ready h then ret (Leave ())
               else if UNLOCK_MAX_API_QUERIES \<le> Suc api_counter
               then raise (PyException ''Timeout waiting for unlock to complete'')
               else seq (sleep UNLOCK_API_SLEEP) (ret (Again (0, Suc api_counter))))))"

definition unlock_host_state ::
  "'x orch_env \<Rightarrow> step_state \<Rightarrow> string \<Rightarrow> step_view \<Rightarrow> ('x world, step_state) prog" where
  "unlock_host_state env next_state hostname v =
     bndp (run (step_subcloud_name v)) (\<lambda>name.
     bndp (get_host_with_retry env name hostname) (\<lambda>h.
       if check_host_ready h then run (ret next_state)
       else seqp
         (if h_administrative h \<noteq> ''unlocked''
          then io_loop (unlock_try_turn env name hostname (h_id h)) 0 else run (ret ()))
         (seqp (io_loop (unlock_turn env name hostname) (0, 0)) (run (ret next_state)))))"

section \<open>The states of an upgrade\<close>

definition lock_simplex_state :: "'x orch_env \<Rightarrow> step_view \<Rightarrow> ('x world, step_state) prog" where
  "lock_simplex_state env = lock_host_state env STRATEGY_STATE_UPGRADING_SIMPLEX ''controller-0''"

definition lock_duplex_state :: "'x orch_env \<Rightarrow> step_view \<Rightarrow> ('x world, step_state) prog" where
  "lock_duplex_state env = lock_host_state env STRATEGY_STATE_UPGRADING_DUPLEX ''controller-1''"

definition unlock_simplex_state :: "'x orch_env \<Rightarrow> step_view \<Rightarrow> ('x world, step_state) prog" where
  "unlock_simplex_state env =
     unlock_host_state env STRATEGY_STATE_ACTIVATING_UPGRADE ''controller-0''"

definition unlock_duplex_state :: "'x orch_env \<Rightarrow> step_view \<Rightarrow> ('x world, step_state) prog" where
  "unlock_duplex_state env =
     unlock_host_state env STRATEGY_STATE_SWACTING_TO_CONTROLLER_1 ''controller-1''"

definition swact_to_controller_0_state :: "'x orch_env \<Rightarrow> step_view \<Rightarrow> ('x world, step_state) prog" where
  "swact_to_controller_0_state env =
     swact_host_state env STRATEGY_STATE_ACTIVATING_UPGRADE ''controller-0'' ''controller-1''"

definition swact_to_controller_1_state :: "'x orch_env \<Rightarrow> step_view \<Rightarrow> ('x world, step_state) prog" where
  "swact_to_controller_1_state env =
     swact_host_state env STRATEGY_STATE_CREATING_VIM_UPGRADE_STRATEGY ''controller-1'' ''controller-0''"

section \<open>Polling loops end\<close>

lemmas host_limits = LOCK_MAX_QUERIES_def LOCK_SLEEP_def SWACT_MAX_FAILED_QUERIES_def
  SWACT_FAILED_SLEEP_def SWACT_MAX_QUERIES_def SWACT_QUERY_SLEEP_def SWACT_SLEEP_def
  UNLOCK_MAX_FAILED_QUERIES_def UNLOCK_FAILED_SLEEP_def UNLOCK_MAX_API_QUERIES_def
  UNLOCK_API_SLEEP_def UNLOCK_MAX_RETRIES_def UNLOCK_SLEEP_def PLATFORM_RETRY_MAX_ATTEMPTS_def
  PLATFORM_RETRY_SLEEP_def

lemma lock_turn_Again:
  "lock_turn env name hn c w = (Inr (Again c'), w') \<Longrightarrow> c' = Suc c \<and> c' < LOCK_MAX_QUERIES"
  by (auto simp: lock_turn_def bnd_Inr_iff seq_Inr_iff split: if_splits)

lemma try_else_Inr_iff:
  "try_else m h k s = (Inr y, t) \<longleftrightarrow>
     (\<exists>e s'. m s = (Inl e, s') \<and> h e s' = (Inr y, t)) \<or> (\<exists>x s'. m s = (Inr x, s') \<and> k x s' = (Inr y, t))"
  by (auto simp: try_else_def split: prod.splits sum.splits)

lemma swact_turn_Again:
  "swact_turn env r a (f, c) w = (Inr (Again (f', c')), w') \<Longrightarrow>
     c' = c \<and> f' = Suc f \<and> f' < SWACT_MAX_FAILED_QUERIES \<or>
     c' = Suc c \<and> f' = 0 \<and> c' < SWACT_MAX_QUERIES"
  by (auto simp: swact_turn_def bnd_Inr_iff seq_Inr_iff try_else_Inr_iff split: if_splits)

lemma unlock_turn_Again:
  "unlock_turn env r a (f, c) w = (Inr (Again (f', c')), w') \<Longrightarrow>
     c' = c \<and> f' = Suc f \<and> f' < UNLOCK_MAX_FAILED_QUERIES \<or>
     c' = Suc c \<and> f' = 0 \<and> c' < UNLOCK_MAX_API_QUERIES"
  by (auto simp: unlock_turn_def bnd_Inr_iff seq_Inr_iff try_else_Inr_iff split: if_splits)

text \<open>Two budgets, the first one renewed each time the second is drawn on.\<close>

lemma budgets_return:
  assumes "\<And>f c w f' c' w'. body (f, c) w = (Inr (Again (f', c')), w') \<Longrightarrow>
      c' = c \<and> f' = Suc f \<and> f' < F \<or> c' = Suc c \<and> f' = 0 \<and> c' < (C :: nat)"
  shows "returnsp (io_loop body (f :: nat, c))"
  by (rule io_loop_returns [where R = "measures [\<lambda>(f, c). C - c, \<lambda>(f, c). F - f]"])
    (use assms in \<open>fastforce\<close>, simp)

lemma counter_returns:
  assumes "\<And>c w c' w'. body c w = (Inr (Again c'), w') \<Longrightarrow> c' = Suc c \<and> c' \<le> (C :: nat)"
  shows "returnsp (io_loop body c)"
  by (rule io_loop_returns [where R = "measure (\<lambda>c. C - c)"]) (use assms in fastforce, simp)

lemma lock_loop_returns [returnsp_intros]: "returnsp (io_loop (lock_turn env name hn) c)"
  by (rule counter_returns [where C = LOCK_MAX_QUERIES]) (auto dest: lock_turn_Again)

lemma swact_loop_returns [returnsp_intros]: "returnsp (io_loop (swact_turn env r a) l)"
  by (cases l, simp, rule budgets_return [OF swact_turn_Again])

lemma unlock_loop_returns [returnsp_intros]: "returnsp (io_loop (unlock_turn env r a) l)"
  by (cases l, simp, rule budgets_return [OF unlock_turn_Again])

lemma retry_loop_returns [returnsp_intros]: "returnsp (io_loop (retry_turn m) c)"
  by (rule counter_returns [where C = PLATFORM_RETRY_MAX_ATTEMPTS])
    (auto simp: retry_turn_def try_else_Inr_iff seq_Inr_iff split: if_splits)

lemma unlock_try_loop_returns [returnsp_intros]: "returnsp (io_loop (unlock_try_turn env n hn i) c)"
  by (rule counter_returns [where C = UNLOCK_MAX_RETRIES])
    (auto simp: unlock_try_turn_def try_else_Inr_iff seq_Inr_iff split: if_splits)

text \<open>Locking, swacting and unlocking a host return, with a next state or an exception,
  whatever the subcloud answers and however long it stays unreachable.\<close>

lemma host_states_return:
  "returnsp (lock_host_state env next hostname v) \<and>
   returnsp (swact_host_state env next active standby v) \<and>
   returnsp (unlock_host_state env next hostname v)"
  unfolding lock_host_state_def swact_host_state_def unlock_host_state_def get_host_with_retry_def
  by (intro conjI returnsp_intros)

section \<open>How long they wait\<close>

text \<open>A computation that makes no entry in the log.\<close>

definition quiet :: "('x world, 'a) io \<Rightarrow> bool" where
  "quiet m \<longleftrightarrow> (\<forall>l. keeps (\<lambda>w. w_log w = l) m)"

lemma quiet_apply: "quiet m \<Longrightarrow> m w = (r, w') \<Longrightarrow> w_log w' = w_log w"
  unfolding quiet_def keeps_def by (metis snd_conv)

lemma quiet_seq: "quiet m \<Longrightarrow> quiet n \<Longrightarrow> quiet (seq m n)"
  by (simp add: quiet_def keeps_seq)

lemma quiet_ask: "quiet (ask m)"
  by (simp add: quiet_def keeps_def ask_apply split: prod.splits)

lemma quiet_clients:
  "quiet (get_client env s r)" "quiet (check_stopped env)" "quiet (get_host env r n)"
  "quiet (get_sysinv_client env r)" "quiet (get_region_name v)" "quiet (step_subcloud_name v)"
  by (auto simp: quiet_def get_client_def check_stopped_def stopped_def get_host_def
      get_sysinv_client_def get_keystone_client_def get_region_name_def step_subcloud_name_def
      intro!: keeps_intros keeps_if split: option.splits)
    (auto simp: keeps_def ask_apply split: prod.splits)

lemma sleep_apply [simp]: "sleep n w = (Inr (), w\<lparr>w_log := w_log w @ [Sleep n]\<rparr>)"
  by (simp add: sleep_def log_action_def)

lemma slept_call: "call a m w = (r, w') \<Longrightarrow> (\<And>n. a \<noteq> Sleep n) \<Longrightarrow> slept (w_log w') = slept (w_log w)"
  by (auto simp: call_apply split: prod.splits action.splits)

text \<open>The seconds a turn sleeps: only when the loop goes round again.\<close>

lemma lock_turn_slept:
  assumes "lock_turn env name hn c w = (r, w')"
  shows "slept (w_log w') = slept (w_log w) + (case r of Inr (Again _) \<Rightarrow> LOCK_SLEEP | _ \<Rightarrow> 0)"
  using assms
  by (auto simp: lock_turn_def seq_apply bnd_apply split: prod.splits sum.splits if_splits
      dest!: quiet_apply [OF quiet_clients(2)] quiet_apply [OF quiet_clients(3)])

lemma swact_turn_slept:
  assumes "swact_turn env rg a (f, c) w = (r, w')"
  shows "slept (w_log w') = slept (w_log w) + (case r of
     Inr (Again (f', c')) \<Rightarrow> if c' = c then SWACT_FAILED_SLEEP else SWACT_QUERY_SLEEP | _ \<Rightarrow> 0)"
  using assms
  by (auto simp: swact_turn_def seq_apply bnd_apply try_else_def split: prod.splits sum.splits if_splits
      dest!: quiet_apply [OF quiet_clients(2)] quiet_apply [OF quiet_clients(3)])

lemma unlock_turn_slept:
  assumes "unlock_turn env rg a (f, c) w = (r, w')"
  shows "slept (w_log w') = slept (w_log w) + (case r of
     Inr (Again (f', c')) \<Rightarrow> if c' = c then UNLOCK_FAILED_SLEEP else UNLOCK_API_SLEEP | _ \<Rightarrow> 0)"
  using assms
  by (auto simp: unlock_turn_def seq_apply bnd_apply try_else_def split: prod.splits sum.splits if_splits
      dest!: quiet_apply [OF quiet_clients(2)] quiet_apply [OF quiet_clients(3)])

lemma counter_slept:
  assumes loop: "io_loop body 0 w = Some (r, w')"
    and again: "\<And>c s c' t. body c s = (Inr (Again c'), t) \<Longrightarrow>
        c' = Suc c \<and> c' \<le> C \<and> slept (w_log t) = slept (w_log s) + (A :: nat)"
    and leave: "\<And>c s x t. body c s = (Inr (Leave x), t) \<Longrightarrow> slept (w_log t) = slept (w_log s)"
    and err: "\<And>c s e t. body c s = (Inl e, t) \<Longrightarrow> slept (w_log t) = slept (w_log s)"
  shows "slept (w_log w') \<le> slept (w_log w) + C * A"
proof (rule io_loop_partial [OF loop, where Q = "\<lambda>_ t. slept (w_log t) \<le> slept (w_log w) + C * A"
      and J = "\<lambda>c t. slept (w_log t) = slept (w_log w) + c * A \<and> c \<le> C"])
  show "slept (w_log w) = slept (w_log w) + 0 * A \<and> 0 \<le> C" by simp
next
  fix c s c' t
  assume "slept (w_log s) = slept (w_log w) + c * A \<and> c \<le> C" "body c s = (Inr (Again c'), t)"
  then show "slept (w_log t) = slept (w_log w) + c' * A \<and> c' \<le> C" using again by fastforce
qed (use leave err in \<open>simp; metis add_left_mono mult_le_mono1\<close>)+

lemma budgets_slept:
  assumes loop: "io_loop body (0, 0) w = Some (r, w')"
    and again: "\<And>f c s f' c' t. body (f, c) s = (Inr (Again (f', c')), t) \<Longrightarrow>
        c' = c \<and> f' = Suc f \<and> f' \<le> F \<and> slept (w_log t) = slept (w_log s) + B \<or>
        c' = Suc c \<and> f' = 0 \<and> c' \<le> C \<and> slept (w_log t) = slept (w_log s) + (A :: nat)"
    and leave: "\<And>l s x t. body l s = (Inr (Leave x), t) \<Longrightarrow> slept (w_log t) = slept (w_log s)"
    and err: "\<And>l s e t. body l s = (Inl e, t) \<Longrightarrow> slept (w_log t) = slept (w_log s)"
  shows "slept (w_log w') \<le> slept (w_log w) + C * (A + F * B) + F * B"
proof -
  let ?J = "\<lambda>l t. slept (w_log t) \<le> slept (w_log w) + snd l * (A + F * B) + fst l * B \<and>
      fst l \<le> F \<and> snd l \<le> C"
  let ?Q = "\<lambda>t. slept (w_log t) \<le> slept (w_log w) + C * (A + F * B) + F * B"
  have J: "?Q t" if "?J l s" "slept (w_log t) = slept (w_log s)" for l s t
  proof -
    have "snd l * (A + F * B) \<le> C * (A + F * B)" "fst l * B \<le> F * B"
      using that by (simp_all add: mult_le_mono1)
    then show ?thesis using that by linarith
  qed
  show ?thesis
  proof (rule io_loop_partial [OF loop, where Q = "\<lambda>_. ?Q" and J = ?J])
    show "?J (0, 0) w" by simp
  next
    fix l s l' t
    assume inv: "?J l s" and run: "body l s = (Inr (Again l'), t)"
    obtain f c f' c' where l: "l = (f, c)" "l' = (f', c')" by fastforce
    from again [OF run [unfolded l]] show "?J l' t"
    proof
      assume "c' = c \<and> f' = Suc f \<and> f' \<le> F \<and> slept (w_log t) = slept (w_log s) + B"
      then show ?thesis using inv l by simp
    next
      assume *: "c' = Suc c \<and> f' = 0 \<and> c' \<le> C \<and> slept (w_log t) = slept (w_log s) + A"
      have "f * B \<le> F * B" using inv l by (simp add: mult_le_mono1)
      moreover have "Suc c * (A + F * B) = c * (A + F * B) + A + F * B" by simp
      ultimately show ?thesis using * inv [unfolded l] unfolding l by (simp only: fst_conv snd_conv) linarith
    qed
  qed (use J leave err in blast)+
qed

definition waits_at_most :: "nat \<Rightarrow> ('x world, 'a) prog \<Rightarrow> bool" where
  "waits_at_most n m \<longleftrightarrow>
     (\<forall>w r w'. m w = Some (r, w') \<longrightarrow> slept (w_log w') \<le> slept (w_log w) + n)"

definition idle :: "('x world, 'a) io \<Rightarrow> bool" where
  "idle m \<longleftrightarrow> (\<forall>t. keeps (\<lambda>w. slept (w_log w) = t) m)"

lemma waits_bndp:
  assumes "waits_at_most a m" and "\<And>x. waits_at_most b (f x)"
  shows "waits_at_most (a + b) (bndp m f)"
  unfolding waits_at_most_def
proof (intro allI impI)
  fix w r w' assume "bndp m f w = Some (r, w')"
  then consider e where "m w = Some (Inl e, w')"
    | x s where "m w = Some (Inr x, s)" "f x s = Some (r, w')"
    by (auto simp: bndp_Some_iff)
  then show "slept (w_log w') \<le> slept (w_log w) + (a + b)"
    using assms by cases (fastforce simp: waits_at_most_def)+
qed

lemma waits_seqp: "waits_at_most a m \<Longrightarrow> waits_at_most b n \<Longrightarrow> waits_at_most (a + b) (seqp m n)"
  by (simp add: seqp_def waits_bndp)

lemma waits_if: "waits_at_most n m \<Longrightarrow> waits_at_most n m' \<Longrightarrow> waits_at_most n (if b then m else m')"
  by simp

lemma waits_mono: "waits_at_most a m \<Longrightarrow> a \<le> b \<Longrightarrow> waits_at_most b m"
  by (fastforce simp: waits_at_most_def)

lemma idle_apply: "idle m \<Longrightarrow> m w = (r, w') \<Longrightarrow> slept (w_log w') = slept (w_log w)"
  unfolding idle_def keeps_def by (metis snd_conv)

lemma waits_run: "idle m \<Longrightarrow> waits_at_most n (run m)"
  by (auto simp: waits_at_most_def dest!: idle_apply)

lemma idle_bnd: "idle m \<Longrightarrow> (\<And>x. idle (f x)) \<Longrightarrow> idle (bnd m f)"
  by (simp add: idle_def keeps_bnd)

lemma idle_seq: "idle m \<Longrightarrow> idle n \<Longrightarrow> idle (seq m n)"
  by (simp add: idle_def keeps_seq)

lemma idle_simple: "idle (ret x)" "idle (raise e)" "idle (ask m)" "idle (call (HostAction a b c) n)"
  "idle (when_io cond (raise e))"
  by (auto simp: idle_def keeps_def ask_apply call_apply when_io_def split: prod.splits)

lemma idle_quiet: "quiet m \<Longrightarrow> idle m"
  by (auto simp: quiet_def idle_def keeps_def)

lemmas idle_intros = idle_bnd idle_seq idle_simple quiet_clients [THEN idle_quiet]

lemma waits_counter:
  assumes again: "\<And>c s c' t. body c s = (Inr (Again c'), t) \<Longrightarrow>
        c' = Suc c \<and> c' \<le> C \<and> slept (w_log t) = slept (w_log s) + (A :: nat)"
    and leave: "\<And>c s x t. body c s = (Inr (Leave x), t) \<Longrightarrow> slept (w_log t) = slept (w_log s)"
    and err: "\<And>c s e t. body c s = (Inl e, t) \<Longrightarrow> slept (w_log t) = slept (w_log s)"
  shows "waits_at_most (C * A) (io_loop body 0)"
  unfolding waits_at_most_def
proof (intro allI impI)
  fix w r w' assume loop: "io_loop body 0 w = Some (r, w')"
  show "slept (w_log w') \<le> slept (w_log w) + C * A"
    by (rule counter_slept [OF loop]) (fact again, fact leave, fact err)
qed

lemma waits_budgets:
  assumes again: "\<And>f c s f' c' t. body (f, c) s = (Inr (Again (f', c')), t) \<Longrightarrow>
        c' = c \<and> f' = Suc f \<and> f' \<le> F \<and> slept (w_log t) = slept (w_log s) + B \<or>
        c' = Suc c \<and> f' = 0 \<and> c' \<le> C \<and> slept (w_log t) = slept (w_log s) + (A :: nat)"
    and leave: "\<And>l s x t. body l s = (Inr (Leave x), t) \<Longrightarrow> slept (w_log t) = slept (w_log s)"
    and err: "\<And>l s e t. body l s = (Inl e, t) \<Longrightarrow> slept (w_log t) = slept (w_log s)"
  shows "waits_at_most (C * (A + F * B) + F * B) (io_loop body (0, 0))"
  unfolding waits_at_most_def
proof (intro allI impI)
  fix w r w' assume loop: "io_loop body (0, 0) w = Some (r, w')"
  show "slept (w_log w') \<le> slept (w_log w) + (C * (A + F * B) + F * B)"
    unfolding add.assoc [symmetric]
    by (rule budgets_slept [OF loop]) (fact again, fact leave, fact err)
qed

lemma waits_lock_loop: "waits_at_most (59 * 10) (io_loop (lock_turn env name hn) 0)"
proof (rule waits_counter)
  fix c s c' and t :: "'a world" assume a: "lock_turn env name hn c s = (Inr (Again c'), t)"
  show "c' = Suc c \<and> c' \<le> 59 \<and> slept (w_log t) = slept (w_log s) + 10"
    using lock_turn_Again [OF a] lock_turn_slept [OF a] by (simp add: host_limits)
qed (auto dest!: lock_turn_slept)

lemma waits_swact_loop:
  "waits_at_most (59 * (10 + 119 * 10) + 119 * 10) (io_loop (swact_turn env rg a) (0, 0))"
proof (rule waits_budgets)
  fix f c s f' c' and t :: "'a world"
  assume a: "swact_turn env rg a (f, c) s = (Inr (Again (f', c')), t)"
  show "c' = c \<and> f' = Suc f \<and> f' \<le> 119 \<and> slept (w_log t) = slept (w_log s) + 10 \<or>
      c' = Suc c \<and> f' = 0 \<and> c' \<le> 59 \<and> slept (w_log t) = slept (w_log s) + 10"
    using swact_turn_Again [OF a] swact_turn_slept [OF a] by (auto simp: host_limits)
qed (auto dest!: swact_turn_slept)

lemma waits_unlock_loop:
  "waits_at_most (29 * (60 + 29 * 60) + 29 * 60) (io_loop (unlock_turn env rg a) (0, 0))"
proof (rule waits_budgets)
  fix f c s f' c' and t :: "'a world"
  assume a: "unlock_turn env rg a (f, c) s = (Inr (Again (f', c')), t)"
  show "c' = c \<and> f' = Suc f \<and> f' \<le> 29 \<and> slept (w_log t) = slept (w_log s) + 60 \<or>
      c' = Suc c \<and> f' = 0 \<and> c' \<le> 29 \<and> slept (w_log t) = slept (w_log s) + 60"
    using unlock_turn_Again [OF a] unlock_turn_slept [OF a] by (auto simp: host_limits)
qed (auto dest!: unlock_turn_slept)

lemma waits_retry_loop: "waits_at_most (4 * 5) (get_host_with_retry env name hn)"
  unfolding get_host_with_retry_def
  by (rule waits_counter)
    (auto simp: retry_turn_def try_else_def seq_apply host_limits split: prod.splits sum.splits if_splits
      dest!: quiet_apply [OF quiet_clients(3)])

lemma unlock_try_idle:
  "idle (seq (get_sysinv_client env name)
     (bnd (call (HostAction name ''unlock'' hn) (oe_host_action env ''unlock'' name i)) (\<lambda>resp.
        when_io (cond resp) (raise e))))"
  by (intro idle_intros)

lemma waits_unlock_try_loop: "waits_at_most (10 * 120) (io_loop (unlock_try_turn env name hn i) 0)"
  by (rule waits_counter)
    (auto simp: unlock_try_turn_def try_else_def seq_apply [where m = "sleep _"] host_limits
      split: prod.splits sum.splits if_splits dest!: idle_apply [OF unlock_try_idle])

text \<open>The time a lock, a swact and an unlock can keep a step waiting is bounded: 590 seconds
  for a lock; for a swact and an unlock the failed queries count anew after every answer, so
  that the bounds are 72,170 seconds and 55,160 seconds.\<close>

theorem host_states_wait:
  "waits_at_most 590 (lock_host_state env next hostname v) \<and>
   waits_at_most 72170 (swact_host_state env next active standby v) \<and>
   waits_at_most 55160 (unlock_host_state env next hostname v)"
proof (intro conjI)
  note loops = waits_lock_loop waits_swact_loop waits_unlock_loop waits_retry_loop waits_unlock_try_loop
  have "waits_at_most (0 + (0 + (0 + (0 + (59 * 10 + 0))))) (lock_host_state env next hostname v)"
    unfolding lock_host_state_def
    by (intro waits_bndp waits_seqp waits_if loops waits_run idle_intros)
  then show "waits_at_most 590 (lock_host_state env next hostname v)" by simp
  have w180: "waits_at_most 180 (run (seq (sleep SWACT_SLEEP) (ret next)) :: ('c world, step_state) prog)"
    by (simp add: waits_at_most_def seq_apply host_limits)
  have "waits_at_most (0 + (0 + (0 + (0 + ((59 * (10 + 119 * 10) + 119 * 10) + 180)))))
      (swact_host_state env next active standby v)"
    unfolding swact_host_state_def
    by (intro waits_bndp waits_seqp waits_if loops w180) (rule waits_run, intro idle_intros)+
  then show "waits_at_most 72170 (swact_host_state env next active standby v)" by simp
  have "waits_at_most (0 + (4 * 5 + (10 * 120 + ((29 * (60 + 29 * 60) + 29 * 60) + 0))))
      (unlock_host_state env next hostname v)"
    unfolding unlock_host_state_def
    by (intro waits_bndp waits_seqp waits_if loops waits_run idle_intros)
  then show "waits_at_most 55160 (unlock_host_state env next hostname v)" by simp
qed

end
