(* ===== verification/DC_VimStates.thy ===== *)
theory DC_VimStates
  imports DC_HostStates
begin

text \<open>
  The states that have the VIM of a subcloud build and apply a strategy:
  \<open>states/creating_vim_strategy.py\<close>, \<open>states/applying_vim_strategy.py\<close>, and their variants for
  patches, kubernetes, kube rootca updates and upgrades. What a subclass overrides are the
  fields of \<open>create_class\<close> and \<open>apply_class\<close>.
\<close>

section \<open>Creating a strategy\<close>

record 'x create_class =
  cv_next_state :: step_state
  cv_strategy_name :: string
  cv_sleep_duration :: nat
  cv_max_queries :: nat
  cv_create :: "step_view \<Rightarrow> string \<Rightarrow> ('x world, vim_strategy) io"
  cv_skip_check :: "vim_strategy \<Rightarrow> step_state option"

definition check_building :: "vim_strategy \<Rightarrow> ('s, vim_strategy) io" where
  "check_building s =
     (if vs_state s \<noteq> VIM_STATE_BUILDING
      then raise (PyException (''Unexpected VIM strategy build state: '' @ vim_state_str (vs_state s)))
      else ret s)"

definition create_with_opts ::
  "'x orch_env \<Rightarrow> string \<Rightarrow> (string \<times> jval) list \<Rightarrow> step_view \<Rightarrow> string \<Rightarrow> ('x world, vim_strategy) io" where
  "create_with_opts env name kwargs v region =
     bnd (db_io (get_sw_update_opts admin_context True (sp_subcloud_id (fst v)))) (\<lambda>opts.
       seq (get_vim_client env region)
         (bnd (vim_create_strategy env region name opts kwargs) check_building))"

definition default_create_vim_strategy ::
  "'x orch_env \<Rightarrow> string \<Rightarrow> step_view \<Rightarrow> string \<Rightarrow> ('x world, vim_strategy) io" where
  "default_create_vim_strategy env name v region = create_with_opts env name [] v region"

definition create_observed ::
  "'x create_class \<Rightarrow> nat \<Rightarrow> vim_strategy \<Rightarrow> ('s, (nat \<times> vim_state, step_state) turn) io" where
  "create_observed c counter s =
     (case cv_skip_check c s of
        Some skip_state \<Rightarrow> ret (Leave skip_state)
      | None \<Rightarrow>
          if vs_state s = VIM_STATE_READY_TO_APPLY then ret (Leave (cv_next_state c))
          else if vs_state s = VIM_STATE_BUILDING then ret (Again (counter, vs_state s))
          else if vs_state s = VIM_STATE_BUILD_FAILED then
            raise (PyException (''VIM strategy build failed: '' @ vim_state_str (vs_state s) @
              ''. '' @ vs_build_reason s @ ''.''))
          else if vs_state s = VIM_STATE_BUILD_TIMEOUT then
            raise (PyException (''VIM strategy build timed out: '' @ vim_state_str (vs_state s) @ ''.''))
          else raise (PyException (''VIM strategy unexpected build state: '' @
                 vim_state_str (vs_state s))))"

text \<open>The local variables of the loop: \<open>counter\<close> and the state of the strategy last seen.\<close>

definition create_turn ::
  "'x orch_env \<Rightarrow> 'x create_class \<Rightarrow> string \<Rightarrow> nat \<times> vim_state \<Rightarrow>
   ('x world, (nat \<times> vim_state, step_state) turn) io" where
  "create_turn env c region = (\<lambda>(counter, last_state).
     seq (check_stopped env)
       (if cv_max_queries c \<le> counter then
          raise (PyException (''Timeout building vim strategy. state: '' @ vim_state_str last_state))
        else seq (sleep (cv_sleep_duration c))
          (bnd (get_strategy env region (cv_strategy_name c) True) (\<lambda>s.
             case s of None \<Rightarrow> raise AttributeError | Some s \<Rightarrow> create_observed c (Suc counter) s))))"

definition creating_vim_strategy_state ::
  "'x orch_env \<Rightarrow> 'x create_class \<Rightarrow> step_view \<Rightarrow> ('x world, step_state) prog" where
  "creating_vim_strategy_state env c v =
     bndp (run (get_region_name v)) (\<lambda>region.
     bndp (run (get_strategy env region (cv_strategy_name c) False)) (\<lambda>existing.
     bndp (run (case existing of
              None \<Rightarrow> cv_create c v region
            | Some s \<Rightarrow>
                if vs_state s \<in> {VIM_STATE_BUILDING, VIM_STATE_APPLYING, VIM_STATE_ABORTING} then
                  raise (PyException (''Failed to create a VIM strategy for '' @ region @ ''. '' @
                    ''There already is an existing strategy in '' @ vim_state_str (vs_state s) @ '' state''))
                else seq (get_vim_client env region)
                  (seq (vim_delete_strategy env region (cv_strategy_name c)) (cv_create c v region))))
       (\<lambda>s. io_loop (create_turn env c region) (0, vs_state s))))"

section \<open>Applying a strategy\<close>

record apply_class =
  av_next_state :: step_state
  av_strategy_name :: string
  av_wait_attempts :: nat
  av_wait_interval :: nat

definition APPLY_MAX_FAILED_QUERIES :: nat where "APPLY_MAX_FAILED_QUERIES = 30"
definition DEFAULT_MAX_WAIT_ATTEMPTS :: nat where "DEFAULT_MAX_WAIT_ATTEMPTS = 60"
definition WAIT_INTERVAL :: nat where "WAIT_INTERVAL = 60"

definition progress_details :: "vim_strategy \<Rightarrow> string" where
  "progress_details s =
     vs_current_phase s @ '' phase is '' @ show_nat (vs_completion s) @ ''% complete''"

definition apply_failed :: "string \<Rightarrow> string \<Rightarrow> vim_strategy \<Rightarrow> exn" where
  "apply_failed word name s =
     (if vs_state s \<in> {VIM_STATE_APPLY_FAILED, VIM_STATE_APPLY_TIMEOUT}
      then PyException (''('' @ name @ '') '' @ word @ '' strategy apply failed. '' @
             vim_state_str (vs_state s) @ ''. '' @ vs_apply_reason s)
      else PyException (''('' @ name @ '') '' @ word @ '' strategy apply failed. Unexpected State: '' @
             vim_state_str (vs_state s) @ ''.''))"

text \<open>The local variables of the loop: \<open>wait_count\<close>, \<open>get_fail_count\<close>, \<open>last_details\<close>.\<close>

type_synonym apply_locals = "nat \<times> nat \<times> string"

definition apply_observed ::
  "apply_class \<Rightarrow> step_view \<Rightarrow> nat \<Rightarrow> string \<Rightarrow> vim_strategy option \<Rightarrow>
   ('x world, (apply_locals, unit) turn) io" where
  "apply_observed c v wait_count last_details observed =
     (case observed of
        None \<Rightarrow> raise (PyException (''('' @ av_strategy_name c @ '') VIM Strategy no longer exists.''))
      | Some s \<Rightarrow>
          if vs_state s = VIM_STATE_APPLYING then
            let new_details = progress_details s
            in if new_details \<noteq> last_details
               then seq (db_io (strategy_step_update admin_context (sp_subcloud_id (fst v))
                           (no_step_values\<lparr>pv_details := Some new_details\<rparr>)))
                      (ret (Again (0, 0, new_details)))
               else ret (Again (wait_count, 0, last_details))
          else if vs_state s = VIM_STATE_APPLIED then ret (Leave ())
          else raise (apply_failed ''Vim'' (av_strategy_name c) s))"

definition apply_turn ::
  "'x orch_env \<Rightarrow> apply_class \<Rightarrow> step_view \<Rightarrow> string \<Rightarrow> apply_locals \<Rightarrow>
   ('x world, (apply_locals, unit) turn) io" where
  "apply_turn env c v region = (\<lambda>(wait_count, get_fail_count, last_details).
     seq (check_stopped env)
       (if av_wait_attempts c \<le> Suc wait_count then
          raise (PyException (''Timeout applying ('' @ av_strategy_name c @ '') vim strategy.''))
        else seq (sleep (av_wait_interval c))
          (try_else (get_strategy env region (av_strategy_name c) False)
             (\<lambda>_. if APPLY_MAX_FAILED_QUERIES \<le> Suc get_fail_count
                  then raise (PyException (''Timeout during recovery of apply '' @
                         ''('' @ av_strategy_name c @ '') Vim strategy.''))
                  else ret (Again (Suc wait_count, Suc get_fail_count, last_details)))
             (apply_observed c v (Suc wait_count) last_details))))"

definition start_apply ::
  "'x orch_env \<Rightarrow> apply_class \<Rightarrow> string \<Rightarrow> ('x world, unit) io" where
  "start_apply env c region =
     bnd (get_strategy env region (av_strategy_name c) False) (\<lambda>s.
       case s of
         None \<Rightarrow> raise (PyException (''('' @ av_strategy_name c @ '') VIM Strategy not found.''))
       | Some s \<Rightarrow>
           if vs_state s = VIM_STATE_READY_TO_APPLY then
             seq (get_vim_client env region)
               (bnd (vim_apply_strategy env region (av_strategy_name c)) (\<lambda>s.
                  if vs_state s \<in> {VIM_STATE_APPLYING, VIM_STATE_APPLIED} then ret ()
                  else raise (apply_failed ''VIM'' (av_strategy_name c) s)))
           else ret ())"

definition applying_vim_strategy_state ::
  "'x orch_env \<Rightarrow> apply_class \<Rightarrow> step_view \<Rightarrow> ('x world, step_state) prog" where
  "applying_vim_strategy_state env c v =
     bndp (run (get_region_name v)) (\<lambda>region.
       seqp (run (start_apply env c region))
         (seqp (io_loop (apply_turn env c v region) (0, 0, []))
            (run (ret (av_next_state c)))))"

section \<open>The strategies of each update type\<close>

definition CREATE_MAX_QUERIES :: nat where "CREATE_MAX_QUERIES = 180"
definition CREATE_SLEEP_DURATION :: nat where "CREATE_SLEEP_DURATION = 10"
definition PATCH_CREATE_MAX_QUERIES :: nat where "PATCH_CREATE_MAX_QUERIES = 12"
definition PATCH_CREATE_SLEEP_DURATION :: nat where "PATCH_CREATE_SLEEP_DURATION = 10"
definition KUBE_ROOTCA_UPDATE_MAX_WAIT_ATTEMPTS :: nat where
  "KUBE_ROOTCA_UPDATE_MAX_WAIT_ATTEMPTS = 120"
definition KUBE_ROOTCA_UPDATE_WAIT_INTERVAL :: nat where
  "KUBE_ROOTCA_UPDATE_WAIT_INTERVAL = 60"

definition default_apply_class :: "step_state \<Rightarrow> vim_strategy_name \<Rightarrow> apply_class" where
  "default_apply_class next_state name =
     \<lparr>av_next_state = next_state, av_strategy_name = vim_strategy_name_str name,
      av_wait_attempts = DEFAULT_MAX_WAIT_ATTEMPTS, av_wait_interval = WAIT_INTERVAL\<rparr>"

definition applying_vim_patch_strategy :: apply_class where
  "applying_vim_patch_strategy =
     default_apply_class STRATEGY_STATE_FINISHING_PATCH_STRATEGY VIM_STRATEGY_NAME_SW_PATCH"

definition applying_vim_kube_upgrade_strategy :: apply_class where
  "applying_vim_kube_upgrade_strategy =
     default_apply_class STRATEGY_STATE_COMPLETE VIM_STRATEGY_NAME_KUBE_UPGRADE"

definition applying_vim_upgrade_strategy :: apply_class where
  "applying_vim_upgrade_strategy =
     default_apply_class STRATEGY_STATE_SWACTING_TO_CONTROLLER_0 VIM_STRATEGY_NAME_SW_UPGRADE"

definition applying_vim_kube_rootca_update_strategy :: apply_class where
  "applying_vim_kube_rootca_update_strategy =
     \<lparr>av_next_state = STRATEGY_STATE_COMPLETE,
      av_strategy_name = vim_strategy_name_str VIM_STRATEGY_NAME_KUBE_ROOTCA_UPDATE,
      av_wait_attempts = KUBE_ROOTCA_UPDATE_MAX_WAIT_ATTEMPTS,
      av_wait_interval = KUBE_ROOTCA_UPDATE_WAIT_INTERVAL\<rparr>"

definition default_create_class ::
  "'x orch_env \<Rightarrow> step_state \<Rightarrow> vim_strategy_name \<Rightarrow> 'x create_class" where
  "default_create_class env next_state name =
     \<lparr>cv_next_state = next_state, cv_strategy_name = vim_strategy_name_str name,
      cv_sleep_duration = CREATE_SLEEP_DURATION, cv_max_queries = CREATE_MAX_QUERIES,
      cv_create = default_create_vim_strategy env (vim_strategy_name_str name),
      cv_skip_check = (\<lambda>_. None)\<rparr>"

definition creating_vim_upgrade_strategy :: "'x orch_env \<Rightarrow> 'x create_class" where
  "creating_vim_upgrade_strategy env =
     default_create_class env STRATEGY_STATE_APPLYING_VIM_UPGRADE_STRATEGY VIM_STRATEGY_NAME_SW_UPGRADE"

definition PATCH_SKIP_REASON :: string where
  "PATCH_SKIP_REASON = ''no software patches need to be applied''"

definition patch_skip_check :: "vim_strategy \<Rightarrow> step_state option" where
  "patch_skip_check s =
     (if vs_state s = VIM_STATE_BUILD_FAILED \<and> vs_build_reason s = PATCH_SKIP_REASON
      then Some STRATEGY_STATE_FINISHING_PATCH_STRATEGY else None)"

definition creating_vim_patch_strategy :: "'x orch_env \<Rightarrow> 'x create_class" where
  "creating_vim_patch_strategy env =
     (default_create_class env STRATEGY_STATE_APPLYING_VIM_PATCH_STRATEGY VIM_STRATEGY_NAME_SW_PATCH)
       \<lparr>cv_sleep_duration := PATCH_CREATE_SLEEP_DURATION, cv_max_queries := PATCH_CREATE_MAX_QUERIES,
        cv_skip_check := patch_skip_check\<rparr>"

definition kube_create_vim_strategy ::
  "'x orch_env \<Rightarrow> string \<Rightarrow> step_view \<Rightarrow> string \<Rightarrow> ('x world, vim_strategy) io" where
  "kube_create_vim_strategy env name v region =
     bnd (seq (get_sysinv_client env region) (ask (oe_get_kube_upgrades env region))) (\<lambda>upgrades.
     bnd (case upgrades of
            u # _ \<Rightarrow> ret (Some u)
          | [] \<Rightarrow> bnd (seq (get_sysinv_client env region) (ask (oe_get_kube_versions env region)))
                    (\<lambda>versions. ret (get_available_kube_version versions)))
       (\<lambda>target. create_with_opts env name
           [(''to_version'', case target of None \<Rightarrow> JNone | Some t \<Rightarrow> JStr t)] v region))"

definition creating_vim_kube_upgrade_strategy :: "'x orch_env \<Rightarrow> 'x create_class" where
  "creating_vim_kube_upgrade_strategy env =
     (default_create_class env STRATEGY_STATE_KUBE_APPLYING_VIM_KUBE_UPGRADE_STRATEGY
        VIM_STRATEGY_NAME_KUBE_UPGRADE)
       \<lparr>cv_create := kube_create_vim_strategy env (vim_strategy_name_str VIM_STRATEGY_NAME_KUBE_UPGRADE)\<rparr>"

text \<open>\<open>extra_args\<close>, or an empty dictionary where the strategy has none.\<close>

definition extra_args_or_empty :: "('x world, extra_args) io" where
  "extra_args_or_empty =
     bnd (db_io (get_sw_update_strategy_extra_args admin_context None)) (\<lambda>x.
       ret (case x of None \<Rightarrow> Map.empty | Some a \<Rightarrow> a))"

definition rootca_create_vim_strategy ::
  "'x orch_env \<Rightarrow> string \<Rightarrow> step_view \<Rightarrow> string \<Rightarrow> ('x world, vim_strategy) io" where
  "rootca_create_vim_strategy env name v region =
     bnd extra_args_or_empty (\<lambda>x.
       create_with_opts env name
         [(''cert_file'', jget x ''cert-file''), (''expiry_date'', jget x ''expiry-date''),
          (''subject'', jget x ''subject'')] v region)"

definition creating_vim_kube_rootca_update_strategy :: "'x orch_env \<Rightarrow> 'x create_class" where
  "creating_vim_kube_rootca_update_strategy env =
     (default_create_class env STRATEGY_STATE_APPLYING_VIM_KUBE_ROOTCA_UPDATE_STRATEGY
        VIM_STRATEGY_NAME_KUBE_ROOTCA_UPDATE)
       \<lparr>cv_create := rootca_create_vim_strategy env
          (vim_strategy_name_str VIM_STRATEGY_NAME_KUBE_ROOTCA_UPDATE)\<rparr>"

section \<open>The loops\<close>

lemma create_observed_Again:
  "create_observed c k s w = (Inr (Again (k', s')), w') \<Longrightarrow> k' = k"
  by (auto simp: create_observed_def split: if_splits option.splits)

lemma create_turn_Again:
  "create_turn env c r (k, s) w = (Inr (Again (k', s')), w') \<Longrightarrow> k' = Suc k \<and> k < cv_max_queries c"
  by (auto simp: create_turn_def bnd_Inr_iff seq_Inr_iff split: if_splits)
    (auto split: option.splits dest!: create_observed_Again)

lemma create_loop_returns [returnsp_intros]: "returnsp (io_loop (create_turn env c r) l)"
proof (rule io_loop_returns [where R = "measure (\<lambda>(k, s). cv_max_queries c - k)"])
  fix l s l' and t :: "'a world" assume "create_turn env c r l s = (Inr (Again l'), t)"
  then show "(l', l) \<in> measure (\<lambda>(k, s). cv_max_queries c - k)"
    by (cases l, cases l') (auto dest!: create_turn_Again)
qed simp

text \<open>Building a VIM strategy always returns, whatever its class overrides and whatever the
  VIM answers.\<close>

lemma creating_vim_strategy_returns: "returnsp (creating_vim_strategy_state env c v)"
  unfolding creating_vim_strategy_state_def by (intro returnsp_intros)

lemma ask_Inr_iff: "ask m w = (Inr x, w') \<longleftrightarrow> (\<exists>s. m (w_ext w) = (Inr x, s) \<and> w' = w\<lparr>w_ext := s\<rparr>)"
  by (auto simp: ask_apply split: prod.splits)

lemma get_strategy_ext:
  "get_strategy env region name must w = (Inr s, w') \<Longrightarrow>
     \<exists>x. oe_nfv_get env region name x = (Inr s, w_ext w')"
  by (auto simp: get_strategy_def vim_get_strategy_def seq_Inr_iff bnd_Inr_iff ask_Inr_iff
      split: if_splits)

lemma apply_observed_Leave:
  "apply_observed c v k d obs w = (Inr (Leave x), w') \<Longrightarrow>
     w' = w \<and> (\<exists>s. obs = Some s \<and> vs_state s = VIM_STATE_APPLIED)"
  by (cases obs) (auto simp: apply_observed_def seq_Inr_iff Let_def split: if_splits)

lemma apply_turn_Leave:
  "apply_turn env c v region l w = (Inr (Leave x), w') \<Longrightarrow>
     \<exists>x s. oe_nfv_get env region (av_strategy_name c) x = (Inr (Some s), w_ext w') \<and>
       vs_state s = VIM_STATE_APPLIED"
  by (cases l) (auto simp: apply_turn_def seq_Inr_iff try_else_Inr_iff split: if_splits
      dest!: apply_observed_Leave get_strategy_ext)

text \<open>The state that applies a VIM strategy moves on only to its next state, and only when
  the last thing it was told by the VIM is that the strategy has been applied.\<close>

theorem applying_vim_strategy_applied:
  assumes "applying_vim_strategy_state env c v w = Some (Inr st, w')"
  shows "st = av_next_state c \<and>
    (\<exists>region x s. fst (get_region_name v w) = Inr region \<and>
       oe_nfv_get env region (av_strategy_name c) x = (Inr (Some s), w_ext w') \<and>
       vs_state s = VIM_STATE_APPLIED)"
proof -
  obtain region l w1 where region: "get_region_name v w = (Inr region, w)"
    and loop: "io_loop (apply_turn env c v region) l w1 = Some (Inr (), w')" and st: "st = av_next_state c"
    using assms outside_clients(3)
    by (auto simp: applying_vim_strategy_state_def seqp_def bndp_Some_iff get_region_name_def
        split: option.splits)
  let ?Q = "\<lambda>t. \<exists>x s. oe_nfv_get env region (av_strategy_name c) x = (Inr (Some s), w_ext t) \<and>
      vs_state s = VIM_STATE_APPLIED"
  have "Inr () = (Inr () :: exn + unit) \<longrightarrow> ?Q w'"
    by (rule io_loop_partial [OF loop, where J = "\<lambda>_ _. True" and Q = "\<lambda>r t. r = Inr () \<longrightarrow> ?Q t"])
      (auto dest: apply_turn_Leave)
  then show ?thesis using region st by auto
qed

section \<open>An example environment\<close>

text \<open>Every service answers; the VIM says that its strategy has been applied.\<close>

definition ex_vim_strategy :: "vim_state \<Rightarrow> vim_strategy" where
  "ex_vim_strategy st = \<lparr>vs_state = st, vs_current_phase = ''apply'', vs_completion = 50,
     vs_build_reason = [], vs_apply_reason = []\<rparr>"

definition ex_orch_env :: "unit orch_env" where
  "ex_orch_env = \<lparr>oe_now = ret 7, oe_stopped = ret False, oe_keystone = (\<lambda>_. ret ()),
     oe_endpoint = (\<lambda>_ _. ret ()),
     oe_get_host = (\<lambda>_ _. ret \<lparr>h_id = 1, h_administrative = ''locked'', h_operational = ''disabled'',
        h_availability = ''online'', h_personality = None, h_uuid = [], h_software_load = [], h_bm_ip = None,
        h_bm_username = None, h_boot_device = [], h_rootfs_device = [], h_subfunctions = [], h_console = []\<rparr>),
     oe_host_action = (\<lambda>_ _ _. raise SubcloudNotOnline), oe_get_loads = (\<lambda>_. ret []),
     oe_get_kube_upgrades = (\<lambda>_. ret []), oe_get_kube_versions = (\<lambda>_. ret []),
     oe_get_kube_rootca_updates = (\<lambda>_. ret []), oe_kube_rootca_update_start = (\<lambda>_. ret []),
     oe_kube_rootca_update_upload_cert = (\<lambda>_ _. ret None), oe_get_alarms = (\<lambda>_. ret []),
     oe_patch_query = (\<lambda>_. ret []), oe_patch_query_hosts = (\<lambda>_. ret []),
     oe_patch_action = (\<lambda>_ _ _. ret ()),
     oe_nfv_get = (\<lambda>_ _. ret (Some (ex_vim_strategy VIM_STATE_APPLIED))),
     oe_nfv_create = (\<lambda>_ _ _ _. ret None), oe_nfv_apply = (\<lambda>_ _. ret None),
     oe_nfv_delete = (\<lambda>_ _. ret True), oe_audit_rpc = (\<lambda>_. ret ())\<rparr>"

definition ex_step :: "nat \<Rightarrow> nat \<Rightarrow> nat \<Rightarrow> step_state \<Rightarrow> strategy_step" where
  "ex_step i sc stage st = \<lparr>sp_id = i, sp_subcloud_id = Some sc, sp_stage = stage, sp_state = st,
     sp_details = [], sp_started_at = None, sp_finished_at = None\<rparr>"

definition ex_orch_world :: "db \<Rightarrow> unit world" where
  "ex_orch_world d = \<lparr>w_db = d, w_fs = \<lparr>fs_files = Map.empty, fs_dirs = {}\<rparr>, w_log = [], w_ext = ()\<rparr>"

definition ex_system_step :: step_view where
  "ex_system_step = ((ex_step 1 1 1 STRATEGY_STATE_APPLYING_VIM_PATCH_STRATEGY)
     \<lparr>sp_subcloud_id := None\<rparr>, None)"

lemma ex_applying_runs:
  "case applying_vim_strategy_state ex_orch_env applying_vim_patch_strategy ex_system_step
     (ex_orch_world empty_db) of Some (Inr st, _) \<Rightarrow> True | _ \<Rightarrow> False"
  by code_simp

theorem applying_vim_strategy_applied_witness:
  "\<exists>st w'. applying_vim_strategy_state ex_orch_env applying_vim_patch_strategy ex_system_step
       (ex_orch_world empty_db) = Some (Inr st, w') \<and> st = STRATEGY_STATE_FINISHING_PATCH_STRATEGY"
proof -
  obtain st w' where run: "applying_vim_strategy_state ex_orch_env applying_vim_patch_strategy
      ex_system_step (ex_orch_world empty_db) = Some (Inr st, w')"
    using ex_applying_runs by (auto split: option.splits prod.splits sum.splits)
  from applying_vim_strategy_applied [OF run]
  have "st = STRATEGY_STATE_FINISHING_PATCH_STRATEGY"
    by (simp add: applying_vim_patch_strategy_def default_apply_class_def)
  with run show ?thesis by blast
qed

end
