(* ===== verification/DC_PatchStates.thy ===== *)
theory DC_PatchStates
  imports DC_VimStates
begin

text \<open>
  The states of patch orchestration under \<open>states/patch\<close>: the alarm pre-check, bringing the
  patches of a subcloud in line with those of the system controller, and the clean-up after the
  VIM strategy. \<open>job_data\<close> is \<open>PatchJobData\<close>, read once before a strategy starts to apply.
\<close>

section \<open>\<open>patch/job_data.py\<close>\<close>

definition PATCH_STATE_AVAILABLE :: string where "PATCH_STATE_AVAILABLE = ''Available''"
definition PATCH_STATE_APPLIED :: string where "PATCH_STATE_APPLIED = ''Applied''"
definition PATCH_STATE_COMMITTED :: string where "PATCH_STATE_COMMITTED = ''Committed''"

lemmas patch_states = PATCH_STATE_AVAILABLE_def PATCH_STATE_APPLIED_def PATCH_STATE_COMMITTED_def

record job_data =
  jd_region_one_patches :: patches
  jd_region_one_applied_patch_ids :: "string list"
  jd_region_one_commited_patch_ids :: "string list"
  jd_extra_args :: "extra_args option"

definition patches_in :: "string list \<Rightarrow> string list \<Rightarrow> patches \<Rightarrow> string list" where
  "patches_in loads repostates ps =
     [i. (i, p) \<leftarrow> ps, pt_sw_version p \<in> set loads \<and> pt_repostate p \<in> set repostates]"

definition job_data_of :: "string list \<Rightarrow> patches \<Rightarrow> extra_args option \<Rightarrow> job_data" where
  "job_data_of installed ps extra_args =
     \<lparr>jd_region_one_patches = ps,
      jd_region_one_applied_patch_ids = patches_in installed [PATCH_STATE_APPLIED, PATCH_STATE_COMMITTED] ps,
      jd_region_one_commited_patch_ids = patches_in installed [PATCH_STATE_COMMITTED] ps,
      jd_extra_args = extra_args\<rparr>"

definition initialize_job_data :: "'x orch_env \<Rightarrow> ('x world, job_data) io" where
  "initialize_job_data env =
     bnd (seq (get_sysinv_client env DEFAULT_REGION_NAME) (ask (oe_get_loads env DEFAULT_REGION_NAME)))
       (\<lambda>loads.
     bnd (seq (get_patching_client env DEFAULT_REGION_NAME) (ask (oe_patch_query env DEFAULT_REGION_NAME)))
       (\<lambda>patches.
     bnd (db_io (get_sw_update_strategy_extra_args admin_context None)) (\<lambda>extra_args.
       ret (job_data_of (get_loads_for_patching loads) patches extra_args))))"

section \<open>\<open>patch/pre_check.py\<close>\<close>

definition IGNORED_ALARMS_IDS :: "string list" where
  "IGNORED_ALARMS_IDS = [''900.001'']"

definition has_mgmt_affecting_alarms ::
  "'x orch_env \<Rightarrow> string \<Rightarrow> string list \<Rightarrow> ('x world, bool) io" where
  "has_mgmt_affecting_alarms env region ignored =
     bnd (seq (get_fm_client env region) (ask (oe_get_alarms env region))) (\<lambda>alarms.
       ret (list_ex (\<lambda>a. am_mgmt_affecting a = ''True'' \<and> am_id a \<notin> set ignored) alarms))"

definition patch_pre_check_state ::
  "'x orch_env \<Rightarrow> string \<Rightarrow> step_view \<Rightarrow> ('x world, step_state) prog" where
  "patch_pre_check_state env region v = run
     (bnd (try_else (has_mgmt_affecting_alarms env region IGNORED_ALARMS_IDS)
            (\<lambda>e. ret (Some (''Failed to obtain subcloud alarm report due to: ('' @ exn_str e @
               ''). Please see /var/log/dcmanager/orchestrator.log for'' @ '' details'')))
            (\<lambda>affecting. ret (if affecting
               then Some (''Subcloud contains one or more management affecting'' @
                  '' alarm(s). It will not be patched. Please resolve'' @
                  '' the alarm condition(s) and try again.'') else None)))
       (\<lambda>message. case message of
          Some m \<Rightarrow> raise (PyException m)
        | None \<Rightarrow> ret STRATEGY_STATE_UPDATING_PATCHES))"

section \<open>\<open>patch/updating_patches.py\<close>\<close>

definition UPDATING_MAX_QUERIES :: nat where "UPDATING_MAX_QUERIES = 6"
definition UPDATING_SLEEP_DURATION :: nat where "UPDATING_SLEEP_DURATION = 10"

definition missing_patches :: "string list \<Rightarrow> patches \<Rightarrow> string list" where
  "missing_patches applied subcloud = filter (\<lambda>i. i \<notin> fst ` set subcloud) applied"

text \<open>The patches to remove and, after those that were missing, to apply.\<close>

fun compare_patches ::
  "string list \<Rightarrow> patches \<Rightarrow> string list \<Rightarrow> string list \<Rightarrow> exn + (string list \<times> string list)" where
  "compare_patches applied [] to_remove to_apply = Inr (to_remove, to_apply)"
| "compare_patches applied ((i, p) # ps) to_remove to_apply =
     (if pt_repostate p = PATCH_STATE_APPLIED then
        compare_patches applied ps (if i \<notin> set applied then to_remove @ [i] else to_remove) to_apply
      else if pt_repostate p = PATCH_STATE_COMMITTED then
        (if i \<notin> set applied
         then Inl (PyException (''Patch '' @ i @ '' is committed in subcloud but '' @
                ''not applied in SystemController''))
         else compare_patches applied ps to_remove to_apply)
      else if pt_repostate p = PATCH_STATE_AVAILABLE then
        compare_patches applied ps to_remove (if i \<in> set applied then to_apply @ [i] else to_apply)
      else Inl (PyException (''Patch '' @ i @ '' in subcloud is in an unexpected state: '' @
             pt_repostate p)))"

definition patch_file :: "string \<Rightarrow> string \<Rightarrow> string" where
  "patch_file sw_version i = PATCH_VAULT_DIR @ ''/'' @ sw_version @ ''/'' @ i @ ''.patch''"

definition patch_action ::
  "'x orch_env \<Rightarrow> string \<Rightarrow> string \<Rightarrow> string list \<Rightarrow> ('x world, unit) io" where
  "patch_action env op region ps =
     seq (get_patching_client env region)
       (call (PatchAction region op ps) (oe_patch_action env op region ps))"

definition upload_patch :: "'x orch_env \<Rightarrow> job_data \<Rightarrow> string \<Rightarrow> string \<Rightarrow> ('x world, unit) io" where
  "upload_patch env jd region i =
     (case map_of (jd_region_one_patches jd) i of
        None \<Rightarrow> raise KeyError
      | Some p \<Rightarrow>
          let file = patch_file (pt_sw_version p) i
          in bnd (gets (\<lambda>w. isfile file (w_fs w))) (\<lambda>there.
               if \<not> there then raise (PyException (''Patch file '' @ file @ '' is missing''))
               else seq (patch_action env ''upload'' region [file]) (check_stopped env)))"

definition updating_turn ::
  "'x orch_env \<Rightarrow> string \<Rightarrow> nat \<Rightarrow> ('x world, (nat, unit) turn) io" where
  "updating_turn env region wait_count =
     bnd (seq (get_patching_client env region) (ask (oe_patch_query_hosts env region))) (\<lambda>hosts.
       if \<not> list_ex (\<lambda>interim. interim) hosts then ret (Leave ())
       else if UPDATING_MAX_QUERIES \<le> Suc wait_count then ret (Leave ())
       else seq (check_stopped env)
              (seq (sleep UPDATING_SLEEP_DURATION) (ret (Again (Suc wait_count)))))"

definition update_plan ::
  "job_data \<Rightarrow> bool \<Rightarrow> patches \<Rightarrow> exn + (string list \<times> string list \<times> string list)" where
  "update_plan jd upload_only subcloud_patches =
     (let applied = jd_region_one_applied_patch_ids jd;
          missing = missing_patches applied subcloud_patches
      in if upload_only then Inr (missing, [], missing)
         else case compare_patches applied subcloud_patches [] missing of
                Inl e \<Rightarrow> Inl e
              | Inr (to_remove, to_apply) \<Rightarrow> Inr (missing, to_remove, to_apply))"

definition updating_patches_state ::
  "'x orch_env \<Rightarrow> job_data \<Rightarrow> string \<Rightarrow> step_view \<Rightarrow> ('x world, step_state) prog" where
  "updating_patches_state env jd region v =
     (case jd_extra_args jd of
        None \<Rightarrow> run (raise AttributeError)
      | Some x \<Rightarrow>
          let upload_only = truthy (jget x ''upload-only'')
          in bndp (run (try_catch
               (seq (get_patching_client env region) (ask (oe_patch_query env region)))
               (\<lambda>_. raise (PyException (''Cannot retrieve subcloud patches. Please see logs for'' @
                     '' details.''))))) (\<lambda>subcloud_patches.
             bndp (run (case update_plan jd upload_only subcloud_patches of
                          Inl e \<Rightarrow> raise e | Inr plan \<Rightarrow> ret plan)) (\<lambda>(to_upload, to_remove, to_apply).
             seqp (run (for_each (upload_patch env jd region) to_upload))
               (if upload_only then run (ret STRATEGY_STATE_COMPLETE)
                else seqp (run (when_io (to_remove \<noteq> []) (patch_action env ''remove'' region to_remove)))
                  (seqp (run (when_io (to_apply \<noteq> []) (patch_action env ''apply'' region to_apply)))
                    (seqp (io_loop (updating_turn env region) 0)
                      (run (ret STRATEGY_STATE_CREATING_VIM_PATCH_STRATEGY))))))))"

section \<open>\<open>patch/finishing_patch_strategy.py\<close>\<close>

definition patches_to_delete :: "patches \<Rightarrow> string list" where
  "patches_to_delete ps = [i. (i, p) \<leftarrow> ps, pt_patchstate p = PATCH_STATE_AVAILABLE]"

definition patches_to_commit :: "string list \<Rightarrow> patches \<Rightarrow> string list" where
  "patches_to_commit committed ps =
     [i. (i, p) \<leftarrow> ps, pt_patchstate p = PATCH_STATE_APPLIED \<and> i \<in> set committed]"

definition finishing_patch_strategy_state ::
  "'x orch_env \<Rightarrow> job_data \<Rightarrow> string \<Rightarrow> step_view \<Rightarrow> ('x world, step_state) prog" where
  "finishing_patch_strategy_state env jd region v = run
     (bnd (seq (get_patching_client env region) (ask (oe_patch_query env region))) (\<lambda>ps.
        let to_delete = patches_to_delete ps;
            to_commit = patches_to_commit (jd_region_one_commited_patch_ids jd) ps
        in seq (when_io (to_delete \<noteq> []) (patch_action env ''delete'' region to_delete))
             (seq (check_stopped env)
               (seq (when_io (to_commit \<noteq> []) (patch_action env ''commit'' region to_commit))
                 (ret STRATEGY_STATE_COMPLETE)))))"

section \<open>What they promise\<close>

lemma updating_turn_Again:
  "updating_turn env region c w = (Inr (Again c'), w') \<Longrightarrow> c' = Suc c \<and> c' < UPDATING_MAX_QUERIES"
  by (auto simp: updating_turn_def bnd_Inr_iff seq_Inr_iff split: if_splits)

lemma updating_loop_returns [returnsp_intros]: "returnsp (io_loop (updating_turn env region) c)"
  by (rule counter_returns [where C = UPDATING_MAX_QUERIES]) (auto dest: updating_turn_Again)

text \<open>Every state of patch orchestration that the orchestrator runs itself returns.\<close>

lemma patch_states_return:
  "returnsp (patch_pre_check_state env region v) \<and>
   returnsp (updating_patches_state env jd region v) \<and>
   returnsp (finishing_patch_strategy_state env jd region v)"
  unfolding patch_pre_check_state_def updating_patches_state_def finishing_patch_strategy_state_def
    Let_def
  by (intro returnsp_intros | simp add: returnsp_run split: prod.splits | intro impI conjI allI)+

text \<open>What a patch of the subcloud turns into when the plan has been carried out.\<close>

definition plan_result :: "string list \<times> string list \<times> string list \<Rightarrow> patches \<Rightarrow> string set" where
  "plan_result plan subcloud =
     (case plan of (to_upload, to_remove, to_apply) \<Rightarrow>
        {i. \<exists>p. (i, p) \<in> set subcloud \<and> pt_repostate p \<in> {PATCH_STATE_APPLIED, PATCH_STATE_COMMITTED}}
          - set to_remove \<union> set to_apply)"

lemma compare_patches_Inr:
  assumes "compare_patches applied ps rm ap = Inr (rm', ap')"
  shows "set rm' = set rm \<union> {i. \<exists>p. (i, p) \<in> set ps \<and> pt_repostate p = PATCH_STATE_APPLIED \<and> i \<notin> set applied} \<and>
    set ap' = set ap \<union> {i. \<exists>p. (i, p) \<in> set ps \<and> pt_repostate p = PATCH_STATE_AVAILABLE \<and> i \<in> set applied} \<and>
    (\<forall>(i, p) \<in> set ps. pt_repostate p \<in> {PATCH_STATE_APPLIED, PATCH_STATE_COMMITTED, PATCH_STATE_AVAILABLE} \<and>
       (pt_repostate p = PATCH_STATE_COMMITTED \<longrightarrow> i \<in> set applied))"
  using assms
  by (induction applied ps rm ap rule: compare_patches.induct)
    (auto simp: patch_states split: if_splits)

text \<open>When a plan is made (no patch of the subcloud is in an unexpected state, none is
  committed that the system controller lacks), carrying it out leaves the subcloud with exactly
  the patches applied that the system controller has applied: every patch to upload was missing,
  nothing the controller has is removed.\<close>

theorem update_plan_aligns:
  assumes "update_plan jd False subcloud = Inr plan" and "distinct (map fst subcloud)"
  shows "plan_result plan subcloud = set (jd_region_one_applied_patch_ids jd) \<and>
    set (fst plan) = set (jd_region_one_applied_patch_ids jd) - fst ` set subcloud \<and>
    set (fst (snd plan)) \<inter> set (jd_region_one_applied_patch_ids jd) = {}"
proof -
  let ?app = "jd_region_one_applied_patch_ids jd"
  obtain rm ap where c: "compare_patches ?app subcloud [] (missing_patches ?app subcloud) = Inr (rm, ap)"
    and plan: "plan = (missing_patches ?app subcloud, rm, ap)"
    using assms(1) by (auto simp: update_plan_def Let_def split: sum.splits)
  note spec = compare_patches_Inr [OF c]
  have uniq: "p = q" if "(i, p) \<in> set subcloud" "(i, q) \<in> set subcloud" for i p q
    using assms(2) that eq_key_imp_eq_value by fastforce
  have "plan_result plan subcloud = set ?app"
  proof (intro set_eqI iffI)
    fix i assume "i \<in> plan_result plan subcloud"
    then show "i \<in> set ?app" using spec
      by (auto simp: plan_result_def plan missing_patches_def)
  next
    fix i assume i: "i \<in> set ?app"
    show "i \<in> plan_result plan subcloud"
    proof (cases "i \<in> fst ` set subcloud")
      case True
      then obtain p where p: "(i, p) \<in> set subcloud" by auto
      then show ?thesis using spec i by (fastforce simp: plan_result_def plan)
    next
      case False
      then show ?thesis using spec i by (auto simp: plan_result_def plan missing_patches_def)
    qed
  qed
  then show ?thesis using spec by (auto simp: plan missing_patches_def)
qed

definition ex_patch :: "string \<Rightarrow> patch" where
  "ex_patch st = \<lparr>pt_sw_version = ''22.12'', pt_repostate = st, pt_patchstate = st\<rparr>"

definition ex_job_data :: job_data where
  "ex_job_data = \<lparr>jd_region_one_patches = [(''P1'', ex_patch ''Applied''), (''P2'', ex_patch ''Applied'')],
     jd_region_one_applied_patch_ids = [''P1'', ''P2''], jd_region_one_commited_patch_ids = [''P1''],
     jd_extra_args = Some Map.empty\<rparr>"

definition ex_patches :: patches where
  "ex_patches = [(''P1'', ex_patch ''Available''), (''P3'', ex_patch ''Applied'')]"

theorem update_plan_aligns_witness:
  "update_plan ex_job_data False ex_patches = Inr ([''P2''], [''P3''], [''P2'', ''P1'']) \<and>
     plan_result ([''P2''], [''P3''], [''P2'', ''P1'']) ex_patches = {''P1'', ''P2''}"
proof -
  have plan: "update_plan ex_job_data False ex_patches = Inr ([''P2''], [''P3''], [''P2'', ''P1''])"
    by code_simp
  have "distinct (map fst ex_patches)" by (simp add: ex_patches_def)
  from update_plan_aligns [OF plan this] plan show ?thesis by (simp add: ex_job_data_def)
qed

text \<open>The clean-up never deletes and commits the same patch, and commits only patches that
  the system controller has committed.\<close>

lemma finishing_choice:
  assumes "distinct (map fst ps)"
  shows "set (patches_to_delete ps) \<inter> set (patches_to_commit committed ps) = {} \<and>
    set (patches_to_commit committed ps) \<subseteq> set committed"
proof -
  have uniq: "p = q" if "(i, p) \<in> set ps" "(i, q) \<in> set ps" for i p q
    using assms that eq_key_imp_eq_value by fastforce
  show ?thesis
    by (auto simp: patches_to_delete_def patches_to_commit_def patch_states dest: uniq)
qed

end
