(* ===== verification/DC_Audits.thy ===== *)
theory DC_Audits
  imports DC_PatchStates
begin

text \<open>
  The audits of one subcloud in \<open>dcmanager/audit\<close>: patches and loads, firmware, kubernetes, the
  kubernetes root certificate, and the summary of its alarms. An audit compares what the subcloud
  answers with the data of RegionOne and posts the sync status of its endpoint to the state
  service: \<open>StateRpc\<close> in the log of the world is such a message.
\<close>

section \<open>The services an audit talks to\<close>

record alarm_summary =
  as_critical :: int
  as_major :: int
  as_minor :: int
  as_warnings :: int

record service_group =
  sg_name :: string
  sg_state :: string

record app =
  ap_name :: string
  ap_active :: bool

type_synonym label = "string \<times> string"

record device_image =
  di_uuid :: string
  di_name :: "string option"
  di_description :: "string option"
  di_image_version :: "string option"
  di_bitstream_type :: string
  di_bitstream_id :: "string option"
  di_bmc :: "bool option"
  di_retimer_included :: "bool option"
  di_key_signature :: "string option"
  di_revoke_key_id :: "nat option"
  di_applied :: bool
  di_pci_vendor :: string
  di_pci_device :: string
  di_applied_labels :: "label list list option"

record pci_device =
  pd_uuid :: string
  pd_enabled :: bool
  pd_pvendor_id :: string
  pd_pdevice_id :: string

record device_image_state =
  is_pcidevice_uuid :: string
  is_image_uuid :: string
  is_status :: string

record device_label =
  dl_pcidevice_uuid :: "string option"
  dl_label_key :: string
  dl_label_value :: string

record 'x audit_env =
  au_orch :: "'x orch_env"
  au_cast_status :: "string \<Rightarrow> endpoint_type \<Rightarrow> sync_status \<Rightarrow> ('x, unit) io"
  au_get_system_version :: "string \<Rightarrow> ('x, string) io"
  au_get_upgrades :: "string \<Rightarrow> ('x, nat) io"
  au_root_ca_alarm_entities :: "string \<Rightarrow> ('x, string list) io"
  au_alarm_summary :: "string \<Rightarrow> ('x, alarm_summary list) io"
  au_service_groups :: "string \<Rightarrow> ('x, service_group list) io"
  au_applications :: "string \<Rightarrow> ('x, app list) io"
  au_device_images :: "string \<Rightarrow> ('x, device_image list) io"
  au_device_image :: "string \<Rightarrow> string \<Rightarrow> ('x, device_image) io"
  au_hosts :: "string \<Rightarrow> ('x, string list) io"
  au_host_devices :: "string \<Rightarrow> string \<Rightarrow> ('x, pci_device list) io"
  au_device_image_states :: "string \<Rightarrow> ('x, device_image_state list) io"
  au_is_uuid_like :: "string \<Rightarrow> bool"
  au_device_labels :: "string \<Rightarrow> ('x, device_label list) io"

definition update_sync_status ::
  "'x audit_env \<Rightarrow> string \<Rightarrow> endpoint_type \<Rightarrow> sync_status \<Rightarrow> ('x world, unit) io" where
  "update_sync_status env name e sync = call (StateRpc name e sync) (au_cast_status env name e sync)"

definition sync_of :: "bool \<Rightarrow> sync_status" where
  "sync_of out_of_sync = (if out_of_sync then SYNC_STATUS_OUT_OF_SYNC else SYNC_STATUS_IN_SYNC)"

text \<open>The exceptions for which an audit gives up on the subcloud and returns.\<close>

definition endpoint_missing :: "exn \<Rightarrow> bool" where
  "endpoint_missing e \<longleftrightarrow> e \<in> {EndpointNotFound, ConnectFailure, ConnectTimeout, IndexError}"

definition skip_or_raise :: "exn \<Rightarrow> ('s, unit) io" where
  "skip_or_raise e = (if endpoint_missing e then ret () else raise e)"

definition audit_keystone :: "'x audit_env \<Rightarrow> string \<Rightarrow> ('x world, unit) io" where
  "audit_keystone env region = get_keystone_client (au_orch env) region"

definition audit_endpoint :: "'x audit_env \<Rightarrow> string \<Rightarrow> string \<Rightarrow> ('x world, unit) io" where
  "audit_endpoint env service region = ask (oe_endpoint (au_orch env) service region)"

section \<open>\<open>patch_audit.py\<close>\<close>

record patch_audit_data =
  pa_patches :: patches
  pa_applied_patch_ids :: "string list"
  pa_committed_patch_ids :: "string list"
  pa_software_version :: string

definition patch_clients :: "'x audit_env \<Rightarrow> string \<Rightarrow> ('x world, unit) io" where
  "patch_clients env region =
     seq (audit_keystone env region)
       (seq (audit_endpoint env ''patching'' region) (audit_endpoint env ''sysinv'' region))"

definition patch_audit_data_of :: "patches \<Rightarrow> string \<Rightarrow> patch_audit_data" where
  "patch_audit_data_of ps version =
     \<lparr>pa_patches = ps,
      pa_applied_patch_ids = [i. (i, p) \<leftarrow> ps, pt_repostate p = PATCH_STATE_APPLIED],
      pa_committed_patch_ids = [i. (i, p) \<leftarrow> ps, pt_repostate p = PATCH_STATE_COMMITTED],
      pa_software_version = version\<rparr>"

definition get_regionone_patch_data :: "'x audit_env \<Rightarrow> ('x world, patch_audit_data option) io" where
  "get_regionone_patch_data env =
     try_else (patch_clients env DEFAULT_REGION_NAME) (\<lambda>_. ret None) (\<lambda>_.
       bnd (ask (oe_patch_query (au_orch env) DEFAULT_REGION_NAME)) (\<lambda>ps.
       bnd (ask (au_get_system_version env DEFAULT_REGION_NAME)) (\<lambda>version.
         ret (Some (patch_audit_data_of ps version)))))"

text \<open>The patches of the subcloud, each in the state that RegionOne calls for.\<close>

fun patches_differ :: "patch_audit_data \<Rightarrow> patches \<Rightarrow> bool \<Rightarrow> bool" where
  "patches_differ data [] out = out"
| "patches_differ data ((i, p) # ps) out =
     (if pt_patchstate p = PATCH_STATE_APPLIED then
        patches_differ data ps (if i \<notin> set (pa_applied_patch_ids data) then True else out)
      else if pt_patchstate p = PATCH_STATE_COMMITTED then
        patches_differ data ps
          (if i \<notin> set (pa_committed_patch_ids data) \<and> i \<notin> set (pa_applied_patch_ids data) then True else out)
      else patches_differ data ps True)"

text \<open>The patches of RegionOne for the loads of the subcloud, each present there. The patch data
  has passed through RPC: an identifier without a patch is a \<open>KeyError\<close>.\<close>

fun patches_missing :: "patch_audit_data \<Rightarrow> string list \<Rightarrow> patches \<Rightarrow> string list \<Rightarrow> bool \<Rightarrow> exn + bool" where
  "patches_missing data loads ps [] out = Inr out"
| "patches_missing data loads ps (i # is) out =
     (case map_of (pa_patches data) i of
        None \<Rightarrow> Inl KeyError
      | Some p \<Rightarrow> patches_missing data loads ps is
          (if pt_sw_version p \<in> set loads \<and> i \<notin> fst ` set ps then True else out))"

definition patch_out_of_sync :: "patch_audit_data \<Rightarrow> string list \<Rightarrow> patches \<Rightarrow> exn + bool" where
  "patch_out_of_sync data loads ps =
     (case patches_missing data loads ps (pa_applied_patch_ids data) (patches_differ data ps False) of
        Inl e \<Rightarrow> Inl e
      | Inr out \<Rightarrow> patches_missing data loads ps (pa_committed_patch_ids data) out)"

definition load_audit :: "'x audit_env \<Rightarrow> string \<Rightarrow> patch_audit_data \<Rightarrow> ('x world, unit) io" where
  "load_audit env name data =
     try_else (ask (au_get_upgrades env name)) (\<lambda>_. ret ()) (\<lambda>upgrades.
       if upgrades = 0 then
         bnd (ask (au_get_system_version env name)) (\<lambda>version.
           update_sync_status env name ENDPOINT_TYPE_LOAD (sync_of (version \<noteq> pa_software_version data)))
       else update_sync_status env name ENDPOINT_TYPE_LOAD SYNC_STATUS_OUT_OF_SYNC)"

definition subcloud_patch_audit ::
  "'x audit_env \<Rightarrow> string \<Rightarrow> patch_audit_data \<Rightarrow> bool \<Rightarrow> ('x world, unit) io" where
  "subcloud_patch_audit env name data do_load_audit =
     try_else (patch_clients env name) skip_or_raise (\<lambda>_.
     try_else (ask (oe_patch_query (au_orch env) name)) (\<lambda>_. ret ()) (\<lambda>ps.
     try_else (ask (oe_get_loads (au_orch env) name)) (\<lambda>_. ret ()) (\<lambda>loads.
       case patch_out_of_sync data (get_loads_for_patching loads) ps of
         Inl e \<Rightarrow> raise e
       | Inr out \<Rightarrow>
           seq (update_sync_status env name ENDPOINT_TYPE_PATCHING (sync_of out))
             (when_io do_load_audit (load_audit env name data)))))"

section \<open>\<open>kubernetes_audit.py\<close>\<close>

definition sysinv_clients :: "'x audit_env \<Rightarrow> string \<Rightarrow> ('x world, unit) io" where
  "sysinv_clients env region = seq (audit_keystone env region) (audit_endpoint env ''sysinv'' region)"

definition get_regionone_kube_data :: "'x audit_env \<Rightarrow> ('x world, kube_version list option) io" where
  "get_regionone_kube_data env =
     try_else (sysinv_clients env DEFAULT_REGION_NAME) (\<lambda>_. ret None) (\<lambda>_.
       bnd (ask (oe_get_kube_versions (au_orch env) DEFAULT_REGION_NAME)) (\<lambda>vs. ret (Some vs)))"

definition active_target :: "kube_version \<Rightarrow> bool" where
  "active_target v \<longleftrightarrow> kv_target v \<and> kv_state v = ''active''"

definition kube_out_of_sync :: "string \<Rightarrow> kube_version list \<Rightarrow> bool" where
  "kube_out_of_sync version vs = (\<not> list_ex (\<lambda>v. active_target v \<and> kv_version v = version) vs)"

definition subcloud_kubernetes_audit ::
  "'x audit_env \<Rightarrow> string \<Rightarrow> kube_version list option \<Rightarrow> ('x world, unit) io" where
  "subcloud_kubernetes_audit env name data =
     (let vs = (case data of None \<Rightarrow> [] | Some vs \<Rightarrow> vs)
      in if vs = [] then update_sync_status env name ENDPOINT_TYPE_KUBERNETES SYNC_STATUS_IN_SYNC
         else try_else (sysinv_clients env name) skip_or_raise (\<lambda>_.
           case find active_target vs of
             None \<Rightarrow> ret ()
           | Some r \<Rightarrow>
               bnd (ask (oe_get_kube_upgrades (au_orch env) name)) (\<lambda>upgrades.
               bnd (if upgrades \<noteq> [] then ret True
                    else bnd (ask (oe_get_kube_versions (au_orch env) name)) (\<lambda>us.
                           ret (kube_out_of_sync (kv_version r) us))) (\<lambda>out.
                 update_sync_status env name ENDPOINT_TYPE_KUBERNETES (sync_of out)))))"

section \<open>\<open>kube_rootca_update_audit.py\<close>\<close>

definition MONITORED_ALARM_ENTITIES :: "string list" where
  "MONITORED_ALARM_ENTITIES = [''system.certificate.kubernetes-root-ca'']"

definition subcloud_rootca_audit :: "'x audit_env \<Rightarrow> string \<Rightarrow> ('x world, unit) io" where
  "subcloud_rootca_audit env name =
     try_else (audit_keystone env name) skip_or_raise (\<lambda>_.
       bnd (ask (au_root_ca_alarm_entities env name)) (\<lambda>entities.
         update_sync_status env name ENDPOINT_TYPE_KUBE_ROOTCA
           (sync_of (list_ex (\<lambda>a. a \<in> set MONITORED_ALARM_ENTITIES) entities))))"

section \<open>\<open>alarm_aggregation.py\<close>\<close>

definition set_cloud_status :: "alarm_summary \<Rightarrow> string" where
  "set_cloud_status a =
     (if as_critical a > 0 then ''critical''
      else if as_major a > 0 \<or> as_minor a > 0 then ''degraded'' else ''OK'')"

definition update_alarm_summary :: "'x audit_env \<Rightarrow> string \<Rightarrow> ('x world, unit) io" where
  "update_alarm_summary env name =
     try_catch
       (bnd (ask (au_alarm_summary env name)) (\<lambda>alarms.
          case alarms of
            [] \<Rightarrow> raise IndexError
          | a # _ \<Rightarrow> db_io (subcloud_alarms_update (au_is_uuid_like env) admin_context name
              \<lparr>lv_critical_alarms = as_critical a, lv_major_alarms = as_major a,
               lv_minor_alarms = as_minor a, lv_warnings = as_warnings a,
               lv_cloud_status = set_cloud_status a\<rparr>)))
       (\<lambda>_. ret ())"

section \<open>\<open>firmware_audit.py\<close>\<close>

text \<open>A failure to read the images of RegionOne leaves none to compare with.\<close>

definition get_regionone_firmware_data ::
  "'x audit_env \<Rightarrow> ('x world, device_image list option) io" where
  "get_regionone_firmware_data env =
     try_else (sysinv_clients env DEFAULT_REGION_NAME) (\<lambda>_. ret None) (\<lambda>_.
       try_else (ask (au_device_images env DEFAULT_REGION_NAME)) (\<lambda>_. ret (Some []))
         (\<lambda>images. ret (Some (filter di_applied images))))"

definition check_for_label_match :: "device_label list \<Rightarrow> string \<Rightarrow> label \<Rightarrow> bool" where
  "check_for_label_match labels uuid l =
     list_ex (\<lambda>d. truthy_str (dl_pcidevice_uuid d) \<and> dl_pcidevice_uuid d = Some uuid \<and>
        dl_label_key d = fst l \<and> dl_label_value d = snd l) labels"

definition check_image_match :: "device_image \<Rightarrow> device_image \<Rightarrow> bool" where
  "check_image_match sub ctl =
     (di_bitstream_type ctl = ''root-key'' \<and> di_key_signature ctl = di_key_signature sub \<or>
      di_bitstream_type ctl = ''functional'' \<and> di_bitstream_id ctl = di_bitstream_id sub \<and>
        di_bmc ctl = di_bmc sub \<and> di_retimer_included ctl = di_retimer_included sub \<or>
      di_bitstream_type ctl = ''key-revocation'' \<and> di_revoke_key_id ctl = di_revoke_key_id sub)"

text \<open>An empty label stands for every device of the vendor and the kind.\<close>

definition apply_to_all_devices :: "device_image \<Rightarrow> bool" where
  "apply_to_all_devices im =
     (case di_applied_labels im of None \<Rightarrow> False | Some ls \<Rightarrow> list_ex (\<lambda>l. l = []) ls)"

text \<open>Only the first key of a label counts; an image without labels cannot be iterated over.\<close>

definition is_device_eligible :: "device_label list \<Rightarrow> device_image \<Rightarrow> pci_device \<Rightarrow> exn + bool" where
  "is_device_eligible labels im d =
     (case di_applied_labels im of
        None \<Rightarrow> Inl TypeError
      | Some ls \<Rightarrow> Inr (list_ex (\<lambda>l. check_for_label_match labels (pd_uuid d) (hd l)) ls))"

text \<open>The first image of the device that matches; None when there is none, or one cannot be read.\<close>

fun find_device_image ::
  "'x audit_env \<Rightarrow> string \<Rightarrow> device_image \<Rightarrow> pci_device \<Rightarrow> device_image_state list \<Rightarrow>
   ('x world, device_image_state option) io" where
  "find_device_image env name im d [] = ret None"
| "find_device_image env name im d (s # ss) =
     (if is_pcidevice_uuid s = pd_uuid d then
        try_else (ask (au_device_image env name (is_image_uuid s))) (\<lambda>_. ret None) (\<lambda>sub.
          if check_image_match sub im then ret (Some s) else find_device_image env name im d ss)
      else find_device_image env name im d ss)"

fun check_subcloud_device_has_image ::
  "'x audit_env \<Rightarrow> string \<Rightarrow> device_image \<Rightarrow> pci_device list \<Rightarrow> device_image_state list \<Rightarrow>
   device_label list \<Rightarrow> ('x world, bool) io" where
  "check_subcloud_device_has_image env name im [] states labels = ret True"
| "check_subcloud_device_has_image env name im (d # ds) states labels =
     (let next = check_subcloud_device_has_image env name im ds states labels
      in if \<not> apply_to_all_devices im \<and> labels = [] then ret True
         else case (if apply_to_all_devices im then Inr True else is_device_eligible labels im d) of
           Inl e \<Rightarrow> raise e
         | Inr eligible \<Rightarrow>
             if \<not> eligible then next
             else if di_pci_vendor im = pd_pvendor_id d \<and> di_pci_device im = pd_pdevice_id d then
               bnd (find_device_image env name im d states) (\<lambda>found.
                 case found of
                   None \<Rightarrow> ret False
                 | Some s \<Rightarrow> if is_status s \<noteq> ''completed'' then ret False else next)
             else next)"

fun enabled_devices ::
  "'x audit_env \<Rightarrow> string \<Rightarrow> string list \<Rightarrow> ('x world, pci_device list) io" where
  "enabled_devices env name [] = ret []"
| "enabled_devices env name (h # hs) =
     bnd (ask (au_host_devices env name h)) (\<lambda>ds.
     bnd (enabled_devices env name hs) (\<lambda>es. ret (filter pd_enabled ds @ es)))"

fun all_images_present ::
  "'x audit_env \<Rightarrow> string \<Rightarrow> device_image list \<Rightarrow> pci_device list \<Rightarrow> device_image_state list \<Rightarrow>
   device_label list \<Rightarrow> ('x world, bool) io" where
  "all_images_present env name [] ds states labels = ret True"
| "all_images_present env name (i # is) ds states labels =
     bnd (check_subcloud_device_has_image env name i ds states labels) (\<lambda>proceed.
       if proceed then all_images_present env name is ds states labels else ret False)"

definition subcloud_firmware_audit ::
  "'x audit_env \<Rightarrow> string \<Rightarrow> device_image list option \<Rightarrow> ('x world, unit) io" where
  "subcloud_firmware_audit env name data =
     (let images = (case data of None \<Rightarrow> [] | Some is \<Rightarrow> is);
          status = update_sync_status env name ENDPOINT_TYPE_FIRMWARE
      in if images = [] then status SYNC_STATUS_IN_SYNC
         else try_else (sysinv_clients env name) skip_or_raise (\<lambda>_.
         try_else (bnd (ask (au_hosts env name)) (enabled_devices env name)) (\<lambda>_. ret ()) (\<lambda>ds.
           if ds = [] then status SYNC_STATUS_IN_SYNC
           else try_else (ask (au_device_image_states env name)) (\<lambda>_. ret ()) (\<lambda>states.
           try_else (ask (au_device_labels env name)) (\<lambda>_. ret ()) (\<lambda>labels.
             bnd (all_images_present env name images ds states labels) (\<lambda>present.
               status (sync_of (\<not> present))))))))"

end
