(* ===== verification/DC_AuditWorker.thy ===== *)
theory DC_AuditWorker
  imports DC_Audits DC_StateManager DC_Prestage
begin

text \<open>
  \<open>SubcloudAuditWorkerManager\<close> of \<open>dcmanager/audit/subcloud_audit_worker_manager.py\<close>: the audit of
  one subcloud, which decides whether it is online, tells the state manager when that changes,
  and runs the audits that are requested. A greenthread is an \<open>audit_job\<close>; the dictionary in which
  the source keeps its greenthreads is never read and is not shown.
\<close>

section \<open>The environment and the requests\<close>

record 'x worker_env =
  wk_audit :: "'x audit_env"
  wk_state :: "'x state_env"
  wk_state_rpc :: "string \<Rightarrow> ('x, unit) io"
  wk_sync_endpoint_rpc :: "string \<Rightarrow> endpoint_type list \<Rightarrow> bool \<Rightarrow> ('x, unit) io"
  wk_os_client :: "string \<Rightarrow> ('x, unit) io"
  wk_utcnow :: "('x, int) io"

record audit_data =
  ad_patch :: "patch_audit_data option"
  ad_firmware :: "device_image list option"
  ad_kubernetes :: "kube_version list option"

record audit_flags =
  af_update_state :: bool
  af_openstack :: bool
  af_patch :: bool
  af_load :: bool
  af_firmware :: bool
  af_kubernetes :: bool
  af_kube_rootca :: bool

record audit_job =
  aj_subcloud :: subcloud
  aj_flags :: audit_flags
  aj_data :: audit_data

section \<open>Availability\<close>

text \<open>Every service group must be active on some controller.\<close>

definition availability_of_groups :: "service_group list \<Rightarrow> availability" where
  "availability_of_groups sgs =
     (let active = map sg_name (filter (\<lambda>g. sg_state g = ''active'') sgs);
          inactive = map sg_name (filter (\<lambda>g. sg_state g \<noteq> ''active'') sgs);
          inactive_only = filter (\<lambda>n. n \<notin> set active) inactive
      in if inactive_only = [] \<and> active \<noteq> [] then AVAILABILITY_ONLINE else AVAILABILITY_OFFLINE)"

definition get_subcloud_availability_status :: "'x worker_env \<Rightarrow> string \<Rightarrow> ('x world, availability) io" where
  "get_subcloud_availability_status env name =
     try_else (ask (au_service_groups (wk_audit env) name)) (\<lambda>_. ret AVAILABILITY_OFFLINE)
       (\<lambda>sgs. ret (availability_of_groups sgs))"

text \<open>Whether the clients of the subcloud could be built; None when the audit ends there.\<close>

definition probe_clients :: "'x worker_env \<Rightarrow> subcloud \<Rightarrow> ('x world, bool option) io" where
  "probe_clients env sc =
     try_else (ask (wk_os_client env (sc_name sc)))
       (\<lambda>e. if endpoint_missing e \<and> sc_availability_status sc = AVAILABILITY_OFFLINE then ret None
            else ret (Some False))
       (\<lambda>_. ret (Some True))"

definition probe_availability :: "'x worker_env \<Rightarrow> subcloud \<Rightarrow> bool \<Rightarrow> ('x world, availability) io" where
  "probe_availability env sc has_clients =
     (if \<not> has_clients then ret AVAILABILITY_OFFLINE
      else if sc_deploy_status sc \<in> {PRESTAGE_STATE_PACKAGES, PRESTAGE_STATE_IMAGES} then
        ret AVAILABILITY_ONLINE
      else get_subcloud_availability_status env (sc_name sc))"

text \<open>The availability to set and the new number of failed audits.\<close>

definition next_availability :: "availability \<Rightarrow> availability \<Rightarrow> nat \<Rightarrow> availability \<times> nat" where
  "next_availability probe current fail_count =
     (if probe = AVAILABILITY_OFFLINE then
        (let n = (if fail_count < AVAIL_FAIL_COUNT_MAX then fail_count + 1 else fail_count)
         in (if current = AVAILABILITY_ONLINE \<and> n < AVAIL_FAIL_COUNT_TO_ALARM
             then AVAILABILITY_ONLINE else AVAILABILITY_OFFLINE, n))
      else (probe, 0))"

definition update_availability_rpc ::
  "'x worker_env \<Rightarrow> string \<Rightarrow> availability option \<Rightarrow> bool \<Rightarrow> nat option \<Rightarrow> ('x world, unit) io" where
  "update_availability_rpc env name avail update_state_only fail_count =
     try_catch (seq (ask (wk_state_rpc env name))
         (update_subcloud_availability (wk_state env) admin_context name avail update_state_only fail_count))
       (\<lambda>_. ret ())"

definition update_subcloud_audit_fail_count :: "subcloud \<Rightarrow> nat \<Rightarrow> ('x world, unit) io" where
  "update_subcloud_audit_fail_count sc n =
     try_else (db_io (subcloud_update admin_context (sc_id sc) (no_values\<lparr>sv_audit_fail_count := Some n\<rparr>)))
       (\<lambda>e. case e of SubcloudNotFound _ \<Rightarrow> ret () | _ \<Rightarrow> raise e) (\<lambda>_. ret ())"

definition record_availability ::
  "'x worker_env \<Rightarrow> subcloud \<Rightarrow> bool \<Rightarrow> availability \<Rightarrow> nat \<Rightarrow> ('x world, unit) io" where
  "record_availability env sc update_state avail n =
     (if avail \<noteq> sc_availability_status sc then
        update_availability_rpc env (sc_name sc) (Some avail) False
          (Some (if avail = AVAILABILITY_ONLINE then 0 else n))
      else if n \<noteq> sc_audit_fail_count sc then update_subcloud_audit_fail_count sc n
      else if update_state then
        update_availability_rpc env (sc_name sc) (Some (sc_availability_status sc)) True None
      else ret ())"

section \<open>The audits of a subcloud that is online\<close>

definition openstack_active :: "app list \<Rightarrow> bool" where
  "openstack_active apps = list_ex (\<lambda>a. suffix ''openstack'' (ap_name a) \<and> ap_active a) apps"

definition audit_subcloud_openstack_app :: "'x worker_env \<Rightarrow> subcloud \<Rightarrow> ('x world, unit) io" where
  "audit_subcloud_openstack_app env sc =
     try_else (ask (au_applications (wk_audit env) (sc_name sc))) (\<lambda>_. ret ()) (\<lambda>apps.
       when_io (openstack_active apps \<noteq> sc_openstack_installed sc)
         (call (OrchRpc (sc_name sc))
           (wk_sync_endpoint_rpc env (sc_name sc) ENDPOINT_TYPES_LIST_OS (openstack_active apps))))"

text \<open>One audit: it is done when it returns, and a failure when it raises.\<close>

type_synonym audit_outcome = "string list \<times> string list"

definition run_audit ::
  "bool \<Rightarrow> string list \<Rightarrow> string list \<Rightarrow> ('x world, unit) io \<Rightarrow> audit_outcome \<Rightarrow>
   ('x world, audit_outcome) io" where
  "run_audit requested done_names failed_names m outcome =
     (case outcome of (audits_done, failures) \<Rightarrow>
       if \<not> requested then ret (audits_done, failures)
       else try_else m (\<lambda>_. ret (audits_done, failures @ failed_names))
              (\<lambda>_. ret (audits_done @ done_names, failures)))"

definition audit_resources ::
  "'x worker_env \<Rightarrow> subcloud \<Rightarrow> bool \<Rightarrow> audit_flags \<Rightarrow> audit_data \<Rightarrow> ('x world, audit_outcome) io" where
  "audit_resources env sc has_clients f data =
     (let name = sc_name sc; au = wk_audit env;
          patch_names = ''patch'' # (if af_load f then [''load''] else [])
      in seq (when_io has_clients (update_alarm_summary au name))
        (bnd (run_audit (af_patch f \<and> ad_patch data \<noteq> None) patch_names patch_names
               (subcloud_patch_audit au name (the (ad_patch data)) (af_load f)) ([], []))
        (\<lambda>r. bnd (run_audit (af_firmware f) [''firmware''] [''firmware'']
               (subcloud_firmware_audit au name (ad_firmware data)) r)
        (\<lambda>r. bnd (run_audit (af_kubernetes f) [''kubernetes''] [''kubernetes'']
               (subcloud_kubernetes_audit au name (ad_kubernetes data)) r)
        (\<lambda>r. bnd (run_audit (af_kube_rootca f) [''kube-rootca-update''] [''kube-rootca-update'']
               (subcloud_rootca_audit au name) r)
        (\<lambda>r. run_audit (af_openstack f \<and> has_clients) [] [''openstack'']
               (audit_subcloud_openstack_app env sc) r))))))"

section \<open>The audit of a subcloud\<close>

definition audit_subcloud ::
  "'x worker_env \<Rightarrow> subcloud \<Rightarrow> audit_flags \<Rightarrow> audit_data \<Rightarrow> ('x world, audit_outcome) io" where
  "audit_subcloud env sc f data =
     bnd (probe_clients env sc) (\<lambda>clients.
       case clients of
         None \<Rightarrow> ret ([], [])
       | Some has_clients \<Rightarrow>
           bnd (probe_availability env sc has_clients) (\<lambda>probe.
             case next_availability probe (sc_availability_status sc) (sc_audit_fail_count sc) of
               (avail, n) \<Rightarrow>
                 seq (record_availability env sc (af_update_state f) avail n)
                   (if sc_management_state sc = MANAGEMENT_MANAGED \<and> avail = AVAILABILITY_ONLINE
                    then audit_resources env sc has_clients f data else ret ([], []))))"

definition do_audit_subcloud :: "'x worker_env \<Rightarrow> audit_job \<Rightarrow> ('x world, unit) io" where
  "do_audit_subcloud env j =
     bnd (try_catch (audit_subcloud env (aj_subcloud j) (aj_flags j) (aj_data j)) (\<lambda>_. ret ([], [])))
       (\<lambda>(audits_done, failures).
         bnd (ask (wk_utcnow env)) (\<lambda>now.
           seq (db_io (subcloud_audits_end_audit admin_context now (sc_id (aj_subcloud j)) audits_done))
             (ret ())))"

definition auditable_deploy_states :: "deploy_state list" where
  "auditable_deploy_states =
     [DEPLOY_STATE_DONE, DEPLOY_STATE_DEPLOYING, DEPLOY_STATE_DEPLOY_FAILED,
      DEPLOY_STATE_INSTALL_FAILED, DEPLOY_STATE_PRE_INSTALL_FAILED,
      DEPLOY_STATE_DATA_MIGRATION_FAILED, DEPLOY_STATE_MIGRATED, DEPLOY_STATE_RESTORING,
      DEPLOY_STATE_RESTORE_PREP_FAILED, DEPLOY_STATE_RESTORE_FAILED]"

definition flags_of :: "bool \<Rightarrow> subcloud_audits \<Rightarrow> audit_flags" where
  "flags_of do_openstack r =
     \<lparr>af_update_state = sa_state_update_requested r, af_openstack = do_openstack,
      af_patch = sa_patch_audit_requested r \<or> sa_load_audit_requested r,
      af_load = sa_load_audit_requested r, af_firmware = sa_firmware_audit_requested r,
      af_kubernetes = sa_kubernetes_audit_requested r,
      af_kube_rootca = sa_kube_rootca_update_audit_requested r\<rparr>"

definition start_audit :: "'x worker_env \<Rightarrow> nat \<Rightarrow> ('x world, (subcloud \<times> subcloud_audits) option) io" where
  "start_audit env i =
     try_else
       (bnd (db_io (subcloud_get admin_context i)) (\<lambda>sc.
        bnd (ask (wk_utcnow env)) (\<lambda>now.
        bnd (db_io (subcloud_audits_get_and_start_audit admin_context now i)) (\<lambda>r. ret (sc, r)))))
       (\<lambda>e. case e of SubcloudNotFound _ \<Rightarrow> ret None | _ \<Rightarrow> raise e)
       (\<lambda>p. ret (Some p))"

text \<open>The greenthreads that the worker starts for the subclouds of a request.\<close>

fun audit_subclouds ::
  "'x worker_env \<Rightarrow> audit_data \<Rightarrow> bool \<Rightarrow> nat list \<Rightarrow> ('x world, audit_job list) io" where
  "audit_subclouds env data do_openstack [] = ret []"
| "audit_subclouds env data do_openstack (i # is) =
     bnd (start_audit env i) (\<lambda>p.
       case p of
         None \<Rightarrow> audit_subclouds env data do_openstack is
       | Some (sc, r) \<Rightarrow>
           if sc_deploy_status sc \<notin> set auditable_deploy_states \<and>
              \<not> is_deploy_status_prestage (sc_deploy_status sc) then
             bnd (ask (wk_utcnow env)) (\<lambda>now.
             seq (db_io (subcloud_audits_end_audit admin_context now i []))
               (audit_subclouds env data do_openstack is))
           else bnd (audit_subclouds env data do_openstack is) (\<lambda>js.
             ret (\<lparr>aj_subcloud = sc, aj_flags = flags_of do_openstack r, aj_data = data\<rparr> # js)))"

end
