(* ===== verification/DC_AuditManager.thy ===== *)
theory DC_AuditManager
  imports DC_AuditWorker
begin

text \<open>
  \<open>SubcloudAuditManager\<close> of \<open>dcmanager/audit/subcloud_audit_manager.py\<close> and \<open>utils.py\<close>: which audits
  are due, and the loop that sends the subclouds in batches to the workers. The counters of the
  manager and the flags of its class are the record \<open>audit_manager\<close>; \<open>audit_conf\<close> holds the
  configuration options it reads. A batch sent is an entry of \<open>ms_sent\<close>.
\<close>

section \<open>State and configuration\<close>

record audit_conf =
  cf_subcloud_audit_interval :: nat
  cf_patch_audit_interval :: nat
  cf_audit_worker_workers :: nat

record audit_manager =
  am_force_patch :: bool
  am_force_firmware :: bool
  am_force_kubernetes :: bool
  am_force_kube_rootca :: bool
  am_audit_count :: int
  am_patch_audit_count :: nat
  am_patch_audit_time :: int

record batch =
  bt_ids :: "nat list"
  bt_data :: audit_data

record 'x manager_sys =
  ms_world :: "'x world"
  ms_manager :: audit_manager
  ms_sent :: "batch list"

record 'x manager_services =
  mg_audit :: "'x audit_env"
  mg_conf :: audit_conf
  mg_time :: "('x, int) io"
  mg_utcnow :: "('x, int) io"
  mg_audit_subclouds :: "nat list \<Rightarrow> audit_data \<Rightarrow> ('x, unit) io"

definition SECONDS_IN_HOUR :: nat where
  "SECONDS_IN_HOUR = 3600"

definition state_update_iterations :: "audit_conf \<Rightarrow> nat" where
  "state_update_iterations c = SECONDS_IN_HOUR div cf_subcloud_audit_interval c"

definition SYSINV_CLIENT_REST_DEFAULT_TIMEOUT :: nat where
  "SYSINV_CLIENT_REST_DEFAULT_TIMEOUT = 600"

definition KUBERNETES_AUDIT_RATE :: nat where "KUBERNETES_AUDIT_RATE = 4"
definition KUBE_ROOTCA_UPDATE_AUDIT_RATE :: nat where "KUBE_ROOTCA_UPDATE_AUDIT_RATE = 4"

definition mworld_io :: "('x world, 'a) io \<Rightarrow> ('x manager_sys, 'a) io" where
  "mworld_io = zoom ms_world (\<lambda>w s. s\<lparr>ms_world := w\<rparr>)"

definition manager_init :: "audit_conf \<Rightarrow> audit_manager" where
  "manager_init c =
     \<lparr>am_force_patch = False, am_force_firmware = False, am_force_kubernetes = False,
      am_force_kube_rootca = False, am_audit_count = int (state_update_iterations c) - 2,
      am_patch_audit_count = 0, am_patch_audit_time = 0\<rparr>"

section \<open>Requests for audits\<close>

definition trigger_firmware_audit :: "audit_manager \<Rightarrow> audit_manager" where
  "trigger_firmware_audit m = m\<lparr>am_force_firmware := True\<rparr>"

definition trigger_kubernetes_audit :: "audit_manager \<Rightarrow> audit_manager" where
  "trigger_kubernetes_audit m = m\<lparr>am_force_kubernetes := True\<rparr>"

definition trigger_kube_rootca_update_audit :: "audit_manager \<Rightarrow> audit_manager" where
  "trigger_kube_rootca_update_audit m = m\<lparr>am_force_kube_rootca := True\<rparr>"

definition trigger_patch_audit :: "audit_manager \<Rightarrow> audit_manager" where
  "trigger_patch_audit m = m\<lparr>am_force_patch := True\<rparr>"

definition asked :: "bool \<Rightarrow> bool option" where
  "asked b = (if b then Some True else None)"

record audits_needed =
  an_patch :: bool
  an_load :: bool
  an_firmware :: bool
  an_kubernetes :: bool
  an_kube_rootca :: bool

definition request_subcloud_audits ::
  "request_context option \<Rightarrow> bool \<Rightarrow> audits_needed \<Rightarrow> ('x world, unit) io" where
  "request_subcloud_audits ctx update_state a =
     seq (db_io (subcloud_audits_update_all ctx
       \<lparr>av_state_update_requested = asked update_state,
        av_patch_audit_requested = asked (an_patch a), av_load_audit_requested = asked (an_load a),
        av_firmware_audit_requested = asked (an_firmware a),
        av_kubernetes_audit_requested = asked (an_kubernetes a),
        av_kube_rootca_update_audit_requested = asked (an_kube_rootca a)\<rparr>))
       (ret ())"

definition trigger_load_audit :: "request_context option \<Rightarrow> ('x world, unit) io" where
  "trigger_load_audit ctx =
     request_subcloud_audits ctx False
       \<lparr>an_patch = False, an_load = True, an_firmware = False, an_kubernetes = False, an_kube_rootca = False\<rparr>"

text \<open>\<open>ENDPOINT_AUDIT_REQUESTS\<close>: the column that an excluded endpoint clears.\<close>

definition exclude_request :: "endpoint_type \<Rightarrow> audit_values \<Rightarrow> audit_values" where
  "exclude_request e v =
     (if e = ENDPOINT_TYPE_FIRMWARE then v\<lparr>av_firmware_audit_requested := Some False\<rparr>
      else if e = ENDPOINT_TYPE_KUBERNETES then v\<lparr>av_kubernetes_audit_requested := Some False\<rparr>
      else if e = ENDPOINT_TYPE_KUBE_ROOTCA then v\<lparr>av_kube_rootca_update_audit_requested := Some False\<rparr>
      else if e = ENDPOINT_TYPE_LOAD then v\<lparr>av_load_audit_requested := Some False\<rparr>
      else if e = ENDPOINT_TYPE_PATCHING then v\<lparr>av_patch_audit_requested := Some False\<rparr>
      else v)"

definition trigger_subcloud_audits ::
  "request_context option \<Rightarrow> nat \<Rightarrow> endpoint_type list \<Rightarrow> ('x world, unit) io" where
  "trigger_subcloud_audits ctx i exclude_endpoints =
     seq (db_io (subcloud_audits_update ctx i (foldl (\<lambda>v e. exclude_request e v)
            \<lparr>av_state_update_requested = None, av_patch_audit_requested = Some True,
             av_load_audit_requested = Some True, av_firmware_audit_requested = Some True,
             av_kubernetes_audit_requested = Some True,
             av_kube_rootca_update_audit_requested = Some True\<rparr> exclude_endpoints)))
       (ret ())"

definition trigger_subcloud_patch_load_audits ::
  "request_context option \<Rightarrow> nat \<Rightarrow> ('x world, unit) io" where
  "trigger_subcloud_patch_load_audits ctx i =
     seq (db_io (subcloud_audits_update ctx i
           (no_audit_values\<lparr>av_patch_audit_requested := Some True, av_load_audit_requested := Some True\<rparr>)))
       (ret ())"

section \<open>The audits that are due\<close>

definition get_audits_needed :: "audit_conf \<Rightarrow> int \<Rightarrow> audit_manager \<Rightarrow> audits_needed \<times> audit_manager" where
  "get_audits_needed c now m =
     (let due = am_force_patch m \<or> now - am_patch_audit_time m \<ge> int (cf_patch_audit_interval c);
          k = am_patch_audit_count m + 1;
          a = \<lparr>an_patch = due, an_load = due \<and> (k mod 2 \<noteq> 0 \<or> am_force_patch m),
               an_firmware = due \<and> k mod 4 = 1,
               an_kubernetes = due \<and> k mod KUBERNETES_AUDIT_RATE = 1,
               an_kube_rootca = due \<and> k mod KUBE_ROOTCA_UPDATE_AUDIT_RATE = 1\<rparr>;
          m1 = (if due then m\<lparr>am_patch_audit_time := now, am_patch_audit_count := k,
                    am_force_firmware := am_force_firmware m \<and> \<not> an_firmware a,
                    am_force_kubernetes := am_force_kubernetes m \<and> \<not> an_kubernetes a,
                    am_force_kube_rootca := am_force_kube_rootca m \<and> \<not> an_kube_rootca a,
                    am_force_patch := False\<rparr> else m)
      in (a\<lparr>an_firmware := an_firmware a \<or> am_force_firmware m1,
            an_kubernetes := an_kubernetes a \<or> am_force_kubernetes m1,
            an_kube_rootca := an_kube_rootca a \<or> am_force_kube_rootca m1\<rparr>,
          m1\<lparr>am_force_firmware := False, am_force_kubernetes := False, am_force_kube_rootca := False\<rparr>))"

definition get_audit_data :: "'x audit_env \<Rightarrow> audits_needed \<Rightarrow> ('x world, audit_data) io" where
  "get_audit_data env a =
     bnd (if an_patch a then get_regionone_patch_data env else ret None) (\<lambda>p.
     bnd (if an_firmware a then get_regionone_firmware_data env else ret None) (\<lambda>f.
     bnd (if an_kubernetes a then get_regionone_kube_data env else ret None) (\<lambda>k.
       ret \<lparr>ad_patch = p, ad_firmware = f, ad_kubernetes = k\<rparr>)))"

section \<open>Batches\<close>

definition chunksize :: "audit_conf \<Rightarrow> nat \<Rightarrow> nat" where
  "chunksize c n = (n + cf_audit_worker_workers c) div cf_audit_worker_workers c"

definition send_batch ::
  "'x manager_services \<Rightarrow> audit_data \<Rightarrow> nat list \<Rightarrow> ('x manager_sys, unit) io" where
  "send_batch sv data ids =
     seq (mworld_io (ask (mg_audit_subclouds sv ids data)))
       (modify (\<lambda>s. s\<lparr>ms_sent := ms_sent s @ [\<lparr>bt_ids = ids, bt_data = data\<rparr>]\<rparr>))"

fun send_batches ::
  "'x manager_services \<Rightarrow> audit_data \<Rightarrow> nat \<Rightarrow> subcloud_audits list \<Rightarrow> nat list \<Rightarrow>
   ('x manager_sys, unit) io" where
  "send_batches sv data chunk [] ids = when_io (0 < length ids) (send_batch sv data ids)"
| "send_batches sv data chunk (r # rs) ids =
     (let ids = ids @ [sa_subcloud_id r]
      in if length ids = chunk then seq (send_batch sv data ids) (send_batches sv data chunk rs [])
         else send_batches sv data chunk rs ids)"

section \<open>The loop\<close>

text \<open>The audits needed, with those that the records of the subclouds ask for.\<close>

definition needed_with_requests :: "audits_needed \<Rightarrow> subcloud_audits list \<Rightarrow> audits_needed" where
  "needed_with_requests a rs =
     a\<lparr>an_patch := an_patch a \<or>
          list_ex (\<lambda>r. sa_patch_audit_requested r \<or> sa_load_audit_requested r) rs,
       an_firmware := an_firmware a \<or> list_ex sa_firmware_audit_requested rs,
       an_kubernetes := an_kubernetes a \<or> list_ex sa_kubernetes_audit_requested rs,
       an_kube_rootca := an_kube_rootca a \<or> list_ex sa_kube_rootca_update_audit_requested rs\<rparr>"

definition update_manager ::
  "(audit_manager \<Rightarrow> 'a \<times> audit_manager) \<Rightarrow> ('x manager_sys, 'a) io" where
  "update_manager f =
     bnd (gets (\<lambda>s. f (ms_manager s))) (\<lambda>(x, m). seq (modify (\<lambda>s. s\<lparr>ms_manager := m\<rparr>)) (ret x))"

definition count_audit :: "audit_conf \<Rightarrow> audit_manager \<Rightarrow> bool \<times> audit_manager" where
  "count_audit c m =
     (if int (state_update_iterations c) \<le> am_audit_count m + 1
      then (True, m\<lparr>am_audit_count := 0\<rparr>)
      else (False, m\<lparr>am_audit_count := am_audit_count m + 1\<rparr>))"

definition periodic_subcloud_audit_loop :: "'x manager_services \<Rightarrow> ('x manager_sys, unit) io" where
  "periodic_subcloud_audit_loop sv =
     (let c = mg_conf sv in
      bnd (update_manager (count_audit c)) (\<lambda>update_state.
      bnd (mworld_io (ask (mg_time sv))) (\<lambda>now.
      bnd (update_manager (get_audits_needed c now)) (\<lambda>a.
      seq (mworld_io (request_subcloud_audits admin_context update_state a))
     (bnd (mworld_io (ask (mg_utcnow sv))) (\<lambda>t.
      seq (mworld_io (db_io (subcloud_audits_fix_expired_audits admin_context
            (t - int (SYSINV_CLIENT_REST_DEFAULT_TIMEOUT + cf_subcloud_audit_interval c)) False)))
     (bnd (mworld_io (db_io (subcloud_audits_get_all_need_audit admin_context
            (t - int (cf_subcloud_audit_interval c))))) (\<lambda>rs.
      bnd (mworld_io (get_audit_data (mg_audit sv) (needed_with_requests a rs))) (\<lambda>data.
        send_batches sv data (chunksize c (length rs)) rs [])))))))))"

text \<open>The set of missing endpoints has no order; the rows are added in some order of the list.\<close>

definition missing_endpoints :: "subcloud_status list \<Rightarrow> endpoint_type list" where
  "missing_endpoints sts = filter (\<lambda>e. e \<notin> ss_endpoint_type ` set sts) ENDPOINT_TYPES_LIST"

definition add_missing_endpoints :: "string \<Rightarrow> ('x world, unit) io" where
  "add_missing_endpoints flag_file =
     bnd (fs_io (gets (isfile flag_file))) (\<lambda>done.
       unless_io done
         (seq (bnd (db_io (subcloud_get_all admin_context)) (for_each (\<lambda>sc.
                 bnd (db_io (subcloud_status_get_all admin_context (sc_id sc))) (\<lambda>sts.
                   for_each (\<lambda>e. db_io (subcloud_status_create admin_context (sc_id sc) e))
                     (missing_endpoints sts)))))
           (fs_io (modify (\<lambda>f. f\<lparr>fs_files := (fs_files f)(flag_file \<mapsto> [])\<rparr>)))))"

text \<open>What the manager does when it starts, and one turn of its endless loop; a failure of the loop
  is logged.\<close>

definition start_auditing :: "'x manager_services \<Rightarrow> string \<Rightarrow> ('x manager_sys, unit) io" where
  "start_auditing sv flag_file =
     seq (mworld_io (add_missing_endpoints flag_file))
       (bnd (mworld_io (ask (mg_utcnow sv))) (\<lambda>now.
         seq (mworld_io (db_io (subcloud_audits_fix_expired_audits admin_context now True))) (ret ())))"

definition periodic_subcloud_audit_turn :: "'x manager_services \<Rightarrow> ('x manager_sys, unit) io" where
  "periodic_subcloud_audit_turn sv =
     seq (mworld_io (log_action (Sleep (cf_subcloud_audit_interval (mg_conf sv)))))
       (try_catch (periodic_subcloud_audit_loop sv) (\<lambda>_. ret ()))"

end
