(* ===== verification/DC_StateProps.thy ===== *)
theory DC_StateProps
  imports DC_StateManager
begin

text \<open>
  What the state manager promises: an endpoint is recorded as in sync only while its subcloud is
  online and managed (online, for the certificate endpoint), an update changes one status and no
  other, and the alarms follow the recorded statuses.
\<close>

section \<open>The invariant\<close>

definition trusted :: "subcloud \<Rightarrow> endpoint_type \<Rightarrow> bool" where
  "trusted sc e \<longleftrightarrow>
     sc_availability_status sc = AVAILABILITY_ONLINE \<and>
     (sc_management_state sc = MANAGEMENT_MANAGED \<or> e = ENDPOINT_TYPE_DC_CERT)"

definition row_ok :: "subcloud list \<Rightarrow> subcloud_status \<Rightarrow> bool" where
  "row_ok scs r \<longleftrightarrow>
     (ss_sync_status r = SYNC_STATUS_IN_SYNC \<longrightarrow>
        (\<forall>sc \<in> set scs. sc_id sc = ss_subcloud_id r \<longrightarrow> trusted sc (ss_endpoint_type r)))"

definition in_sync_ok :: "db \<Rightarrow> bool" where
  "in_sync_ok d \<longleftrightarrow> (\<forall>r \<in> set (rows (subcloud_status_t d)). row_ok (rows (subclouds d)) r)"

definition sync_inv :: "db \<Rightarrow> bool" where
  "sync_inv d \<longleftrightarrow> db_wf d \<and> in_sync_ok d"

text \<open>The invariant while the subclouds are as they were.\<close>

definition sync_at :: "subcloud table \<Rightarrow> db \<Rightarrow> bool" where
  "sync_at t d \<longleftrightarrow> subclouds d = t \<and> sync_inv d"

lemma sync_at_inv: "sync_at t d \<Longrightarrow> sync_inv d"
  by (simp add: sync_at_def)

lemma sync_inv_at: "sync_inv d \<Longrightarrow> sync_at (subclouds d) d"
  by (simp add: sync_at_def)

lemma row_ok_other: "ss_sync_status r \<noteq> SYNC_STATUS_IN_SYNC \<Longrightarrow> row_ok scs r"
  by (simp add: row_ok_def)

section \<open>The updates of the status table\<close>

lemma sync_atI:
  assumes "keeps db_wf m" and "\<And>d. sync_at t d \<Longrightarrow> subclouds (snd (m d)) = t \<and> in_sync_ok (snd (m d))"
  shows "keeps (sync_at t) m"
  using assms by (fastforce simp: keeps_def sync_at_def sync_inv_def)

lemmas context_defs = require_context_def require_admin_context_def is_admin_context_def

lemma subcloud_status_update_effect:
  assumes "subcloud_status_update ctx i e sync d = (x, d')"
  shows "d' = d \<or> (\<exists>r \<in> set (rows (subcloud_status_t d)). ss_subcloud_id r = i \<and> ss_endpoint_type r = e \<and>
    d' = d\<lparr>subcloud_status_t := update_row ss_id (ss_id r) (\<lambda>r. r\<lparr>ss_sync_status := sync\<rparr>) (subcloud_status_t d)\<rparr>)"
  using assms
  by (auto simp: subcloud_status_update_def subcloud_status_get_def context_defs bnd_apply seq_apply
      first_or_apply write_session_def query_first_def status_matches_def find_Some_iff
      split: option.splits if_splits)

lemma subcloud_status_update_at:
  assumes "sync = SYNC_STATUS_IN_SYNC \<Longrightarrow> \<forall>sc \<in> set (rows t). sc_id sc = i \<longrightarrow> trusted sc e"
  shows "keeps (sync_at t) (subcloud_status_update ctx i e sync)"
proof (rule sync_atI [OF subcloud_status_update_wf])
  fix d assume d: "sync_at t d"
  obtain x d' where run: "subcloud_status_update ctx i e sync d = (x, d')" by fastforce
  from subcloud_status_update_effect [OF this]
  show "subclouds (snd (subcloud_status_update ctx i e sync d)) = t \<and>
      in_sync_ok (snd (subcloud_status_update ctx i e sync d))"
  proof
    assume "d' = d" then show ?thesis using run d by (simp add: sync_at_def sync_inv_def)
  next
    assume "\<exists>r \<in> set (rows (subcloud_status_t d)). ss_subcloud_id r = i \<and> ss_endpoint_type r = e \<and>
      d' = d\<lparr>subcloud_status_t := update_row ss_id (ss_id r) (\<lambda>r. r\<lparr>ss_sync_status := sync\<rparr>) (subcloud_status_t d)\<rparr>"
    then obtain r where r: "r \<in> set (rows (subcloud_status_t d))" "ss_subcloud_id r = i"
      "ss_endpoint_type r = e" and d': "d' = d\<lparr>subcloud_status_t :=
        update_row ss_id (ss_id r) (\<lambda>r. r\<lparr>ss_sync_status := sync\<rparr>) (subcloud_status_t d)\<rparr>" by blast
    have "table_wf ss_id (subcloud_status_t d)" using d by (simp add: sync_at_def sync_inv_def db_wf_defs)
    then have "q = r" if "q \<in> set (rows (subcloud_status_t d))" "ss_id q = ss_id r" for q
      using table_wf_key_inj that r(1) by metis
    then have "row_ok (rows t) (if ss_id q = ss_id r then q\<lparr>ss_sync_status := sync\<rparr> else q)"
      if "q \<in> set (rows (subcloud_status_t d))" for q
      using that d r(2,3) assms by (auto simp: sync_at_def sync_inv_def in_sync_ok_def row_ok_def)
    then have "\<forall>q \<in> (\<lambda>q. if ss_id q = ss_id r then q\<lparr>ss_sync_status := sync\<rparr> else q) `
        set (rows (subcloud_status_t d)). row_ok (rows t) q" by blast
    then show ?thesis
      using run d d' by (simp add: sync_at_def in_sync_ok_def rows_update del: if_image_distrib)
  qed
qed

lemma subcloud_status_update_endpoints_effect:
  assumes "subcloud_status_update_endpoints ctx i es sync d = (x, d')"
  shows "d' = d \<or> d' = d\<lparr>subcloud_status_t := map_rows
    (\<lambda>r. if ss_subcloud_id r = i \<and> ss_endpoint_type r \<in> set es then r\<lparr>ss_sync_status := sync\<rparr> else r)
    (subcloud_status_t d)\<rparr>"
  using assms
  by (auto simp: subcloud_status_update_endpoints_def context_defs bnd_apply seq_apply write_session_def
      Let_def split: option.splits if_splits)

lemma subcloud_status_update_endpoints_at:
  assumes "sync = SYNC_STATUS_IN_SYNC \<Longrightarrow>
    \<forall>sc \<in> set (rows t). sc_id sc = i \<longrightarrow> (\<forall>e \<in> set es. trusted sc e)"
  shows "keeps (sync_at t) (subcloud_status_update_endpoints ctx i es sync)"
proof (rule sync_atI [OF subcloud_status_update_endpoints_wf])
  fix d assume d: "sync_at t d"
  obtain x d' where run: "subcloud_status_update_endpoints ctx i es sync d = (x, d')" by fastforce
  show "subclouds (snd (subcloud_status_update_endpoints ctx i es sync d)) = t \<and>
      in_sync_ok (snd (subcloud_status_update_endpoints ctx i es sync d))"
    using subcloud_status_update_endpoints_effect [OF run] run d assms
    by (auto simp: sync_at_def sync_inv_def in_sync_ok_def row_ok_def)
qed

section \<open>The operations on endpoints\<close>

lemma set_or_clear_keeps [keeps_intros]: "keeps (\<lambda>w. I (w_db w)) (set_or_clear env a en c s)"
  unfolding set_or_clear_def by (intro keeps_intros)

lemma update_sync_alarm_keeps [keeps_intros]: "keeps (\<lambda>w. I (w_db w)) (update_sync_alarm env n e s al)"
  unfolding update_sync_alarm_def by (intro keeps_intros)

lemma status_alarm_keeps [keeps_intros]:
  "keeps (\<lambda>w. I (w_db w)) (raise_or_clear_subcloud_status_alarm env n a)"
  unfolding raise_or_clear_subcloud_status_alarm_def by (intro keeps_intros)

lemma update_subcloud_state_keeps [keeps_intros]:
  "keeps (\<lambda>w. I (w_db w)) (update_subcloud_state env n m a)"
  unfolding update_subcloud_state_def by (intro keeps_intros)

lemma update_one_endpoint_at:
  assumes "sync = SYNC_STATUS_IN_SYNC \<Longrightarrow> \<forall>q \<in> set (rows t). sc_id q = sc_id sc \<longrightarrow> trusted q e"
  shows "keeps (\<lambda>w. sync_at t (w_db w)) (update_one_endpoint env ctx sc sts e sync alarmable)"
  unfolding update_one_endpoint_def
  by (intro keeps_intros keeps_db_io subcloud_status_update_at assms)

lemma update_all_endpoints_at:
  assumes "sync = SYNC_STATUS_IN_SYNC \<Longrightarrow> \<forall>q \<in> set (rows t). sc_id q = sc_id sc \<longrightarrow> (\<forall>e. trusted q e)"
  shows "keeps (\<lambda>w. sync_at t (w_db w)) (update_all_endpoints env ctx sc sts sync alarmable ig)"
  unfolding update_all_endpoints_def Let_def
  by (intro keeps_intros keeps_db_io subcloud_status_update_endpoints_at) (use assms in blast)

lemma outer_join_status_found: "(q, st) \<in> set (outer_join_status d s) \<Longrightarrow> q = s"
  by (auto simp: outer_join_status_def split: list.splits)

lemma outer_join_status_nonempty: "outer_join_status d s \<noteq> []"
  by (auto simp: outer_join_status_def split: list.splits)

lemma subcloud_get_with_status_found:
  assumes "subcloud_get_with_status ctx i d = (Inr ps, d')"
  shows "d' = d \<and> ps \<noteq> [] \<and> (\<forall>p \<in> set ps. fst p \<in> set (rows (subclouds d)) \<and> sc_id (fst p) = i)"
  using assms
  by (auto simp: subcloud_get_with_status_def context_defs bnd_apply query_all_def
      dest: outer_join_status_found split: option.splits if_splits)

lemma subcloud_get_by_name_found:
  assumes "subcloud_get_by_name ctx n d = (Inr sc, d')"
  shows "d' = d \<and> sc \<in> set (rows (subclouds d)) \<and> sc_name sc = n"
  using assms
  by (auto simp: subcloud_get_by_name_def context_defs first_or_apply bnd_apply query_first_def
      find_Some_iff split: option.splits if_splits)

lemma do_update_at:
  fixes env :: "'x state_env"
  assumes "sync = SYNC_STATUS_IN_SYNC \<Longrightarrow>
    \<forall>q \<in> set (rows t). sc_id q = i \<longrightarrow> (\<forall>x. e = None \<or> e = Some x \<longrightarrow> trusted q x)"
  shows "keeps (\<lambda>w. sync_at t (w_db w))
    (do_update_subcloud_endpoint_status env ctx i e sync alarmable ig)"
  unfolding do_update_subcloud_endpoint_status_def
proof (rule keeps_bnd_result)
  show "keeps (\<lambda>w. sync_at t (w_db w)) (db_io (subcloud_get_with_status ctx i))"
    unfolding subcloud_get_with_status_def by (intro keeps_db_io keeps_intros)
next
  fix w w' :: "'x world" and ps
  assume run: "db_io (subcloud_get_with_status ctx i) w = (Inr ps, w')"
    and inv: "sync_at t (w_db w')"
  obtain d where "subcloud_get_with_status ctx i (w_db w) = (Inr ps, d)"
    using run by (auto simp: db_io_Inr_iff)
  from subcloud_get_with_status_found [OF this] have "sc_id (fst (last ps)) = i" by simp
  then have "keeps (\<lambda>w. sync_at t (w_db w)) (let sc = fst (last ps); sts = List.map_filter snd ps
     in case e of Some e \<Rightarrow> update_one_endpoint env ctx sc sts e sync alarmable
        | None \<Rightarrow> update_all_endpoints env ctx sc sts sync alarmable ig)"
    unfolding Let_def
    by (intro keeps_case_option update_all_endpoints_at update_one_endpoint_at) (use assms in auto)
  then show "sync_at t (w_db (snd ((let sc = fst (last ps); sts = List.map_filter snd ps
     in case e of Some e \<Rightarrow> update_one_endpoint env ctx sc sts e sync alarmable
        | None \<Rightarrow> update_all_endpoints env ctx sc sts sync alarmable ig) w')))"
    using inv by (rule keepsD)
qed

lemma update_named_at:
  fixes env :: "'x state_env"
  shows "keeps (\<lambda>w. sync_at t (w_db w)) (update_named_endpoint_status env ctx n e sync alarmable ig)"
  unfolding update_named_endpoint_status_def
proof (intro keeps_if keeps_raise, rule keeps_bnd_result)
  show "keeps (\<lambda>w. sync_at t (w_db w)) (db_io (subcloud_get_by_name ctx n))"
    unfolding subcloud_get_by_name_def by (intro keeps_db_io keeps_intros)
next
  fix w w' :: "'x world" and sc
  assume run: "db_io (subcloud_get_by_name ctx n) w = (Inr sc, w')"
    and pre: "sync_at t (w_db w)" and inv: "sync_at t (w_db w')"
  obtain d where "subcloud_get_by_name ctx n (w_db w) = (Inr sc, d)"
    using run by (auto simp: db_io_Inr_iff)
  from subcloud_get_by_name_found [OF this] have sc: "sc \<in> set (rows t)"
    using pre by (simp add: sync_at_def)
  have "table_wf sc_id t" using pre by (auto simp: sync_at_def sync_inv_def db_wf_defs)
  then have same: "q = sc" if "q \<in> set (rows t)" "sc_id q = sc_id sc" for q
    using table_wf_key_inj that sc by metis
  have "keeps (\<lambda>w. sync_at t (w_db w)) (if sync_update_allowed sc e sync then
      do_update_subcloud_endpoint_status env ctx (sc_id sc) e sync alarmable ig else ret ())"
    by (intro keeps_intros do_update_at)
      (use same in \<open>auto simp: sync_update_allowed_def trusted_def\<close>)
  then show "sync_at t (w_db (snd ((if sync_update_allowed sc e sync then
      do_update_subcloud_endpoint_status env ctx (sc_id sc) e sync alarmable ig else ret ()) w')))"
    using inv by (rule keepsD)
qed

lemma update_endpoint_status_at:
  "keeps (\<lambda>w. sync_at t (w_db w)) (update_subcloud_endpoint_status env ctx n e sync alarmable ig)"
  unfolding update_subcloud_endpoint_status_def subcloud_get_all_def
  by (intro keeps_intros update_named_at keeps_db_io)

section \<open>Availability\<close>

lemma subcloud_update_effect:
  assumes "subcloud_update ctx i v d = (x, d')"
  shows "d' = d \<or> d' = d\<lparr>subclouds :=
    map_rows (\<lambda>r. if sc_id r = i then apply_subcloud_values v r else r) (subclouds d)\<rparr>"
  using assms
  by (auto simp: subcloud_update_def subcloud_get_def update_subclouds_where_def context_defs bnd_apply
      seq_apply first_or_apply write_session_def query_first_def find_Some_iff
      split: option.splits if_splits)

text \<open>No endpoint of the subcloud is recorded as in sync.\<close>

definition cleared_but :: "endpoint_type list \<Rightarrow> nat \<Rightarrow> db \<Rightarrow> bool" where
  "cleared_but ig i d \<longleftrightarrow>
     (\<forall>r \<in> set (rows (subcloud_status_t d)). ss_subcloud_id r = i \<longrightarrow> ss_endpoint_type r \<notin> set ig \<longrightarrow>
        ss_sync_status r \<noteq> SYNC_STATUS_IN_SYNC)"

abbreviation cleared :: "nat \<Rightarrow> db \<Rightarrow> bool" where
  "cleared \<equiv> cleared_but []"

lemma subcloud_update_inv:
  assumes "sync_inv d" and "cleared i d \<or> sv_availability_status v \<noteq> Some AVAILABILITY_OFFLINE"
    and "cleared i d \<or> sv_management_state v \<in> {None, Some MANAGEMENT_MANAGED}"
    and "subcloud_update ctx i v d = (x, d')"
  shows "sync_inv d'"
proof -
  have wf: "db_wf d'" using keepsD [OF subcloud_update_wf, of d ctx i v] assms(1,4) by (simp add: sync_inv_def)
  have ids: "sc_id (apply_subcloud_values v r) = sc_id r" for r by (simp add: apply_subcloud_values_def)
  have keep: "trusted (apply_subcloud_values v sc) e" if "trusted sc e"
    "sv_availability_status v \<noteq> Some AVAILABILITY_OFFLINE" "sv_management_state v \<in> {None, Some MANAGEMENT_MANAGED}" for sc e
    using that by (auto simp: trusted_def apply_subcloud_values_def split: option.splits)
      (metis availability.exhaust)+
  have "in_sync_ok d'"
    using subcloud_update_effect [OF assms(4)]
  proof
    assume "d' = d" then show ?thesis using assms(1) by (simp add: sync_inv_def)
  next
    assume d': "d' = d\<lparr>subclouds :=
      map_rows (\<lambda>r. if sc_id r = i then apply_subcloud_values v r else r) (subclouds d)\<rparr>"
    have "row_ok (map (\<lambda>r. if sc_id r = i then apply_subcloud_values v r else r) (rows (subclouds d))) r"
      if "r \<in> set (rows (subcloud_status_t d))" for r
      using that assms(1-3) keep ids by (auto simp: sync_inv_def in_sync_ok_def row_ok_def cleared_but_def)
    then show ?thesis by (simp add: d' in_sync_ok_def)
  qed
  then show ?thesis using wf by (simp add: sync_inv_def)
qed

lemma update_endpoints_admin:
  assumes "rc_is_admin c"
  shows "snd (subcloud_status_update_endpoints (Some c) i es sync d) = d\<lparr>subcloud_status_t := map_rows
    (\<lambda>r. if ss_subcloud_id r = i \<and> ss_endpoint_type r \<in> set es then r\<lparr>ss_sync_status := sync\<rparr> else r)
    (subcloud_status_t d)\<rparr>"
  using assms
  by (simp add: subcloud_status_update_endpoints_def context_defs bnd_apply seq_apply write_session_def
      Let_def)

lemma outer_join_status_covers:
  assumes "r \<in> set (rows (subcloud_status_t d))" and "ss_subcloud_id r = sc_id s"
  shows "(s, Some r) \<in> set (outer_join_status d s)"
proof -
  let ?rs = "query_all (\<lambda>r. ss_subcloud_id r = sc_id s) (subcloud_status_t d)"
  have "r \<in> set ?rs" using assms by (simp add: query_all_def)
  then have "?rs \<noteq> []" by auto
  then have "outer_join_status d s = map (\<lambda>r. (s, Some r)) ?rs"
    unfolding outer_join_status_def by (cases ?rs) auto
  then show ?thesis using \<open>r \<in> set ?rs\<close> by simp
qed

lemma subcloud_get_with_status_covers:
  assumes run: "subcloud_get_with_status ctx i d = (Inr ps, d')"
    and r: "r \<in> set (rows (subcloud_status_t d))" "ss_subcloud_id r = i"
  shows "r \<in> set (List.map_filter snd ps)"
proof -
  note found = subcloud_get_with_status_found [OF run]
  have ps: "ps = concat (map (\<lambda>s. sort_key (map_option ss_endpoint_type \<circ> snd) (outer_join_status d s))
      (query_all (\<lambda>r. sc_id r = i) (subclouds d)))"
    using run by (auto simp: subcloud_get_with_status_def context_defs bnd_apply
        split: option.splits if_splits)
  obtain sc where sc: "sc \<in> set (rows (subclouds d))" "sc_id sc = i"
    using found by (metis last_in_set)
  have "(sc, Some r) \<in> set (outer_join_status d sc)"
    using outer_join_status_covers r sc(2) by simp
  then have "(sc, Some r) \<in> set ps" using sc by (auto simp: ps query_all_def)
  then show ?thesis by (force simp: List.map_filter_def)
qed

lemma update_all_clears:
  assumes "rc_is_admin c"
    and "\<And>r. r \<in> set (rows (subcloud_status_t (w_db w))) \<Longrightarrow> ss_subcloud_id r = sc_id sc \<Longrightarrow> r \<in> set sts"
    and run: "update_all_endpoints env (Some c) sc sts SYNC_STATUS_UNKNOWN al ig w = (Inr u, w')"
  shows "cleared_but ig (sc_id sc) (w_db w')"
proof -
  let ?es = "filter (\<lambda>e. e \<notin> set ig) (map ss_endpoint_type sts)"
  let ?alarms = "for_each (\<lambda>e. update_sync_alarm env (sc_name sc) e SYNC_STATUS_UNKNOWN al) ?es"
  obtain w1 where w1: "?alarms w = (Inr (), w1)"
    using run by (auto simp: update_all_endpoints_def Let_def seq_apply split: sum.splits prod.splits)
  have "keeps (\<lambda>v. w_db v = w_db w) ?alarms"
    by (intro keeps_intros)
  then have db: "w_db w1 = w_db w" using w1 by (auto dest: keepsD)
  show ?thesis
  proof (cases "?es = []")
    case True
    then show ?thesis using assms(2) run
      by (auto simp: cleared_but_def update_all_endpoints_def Let_def when_io_def filter_empty_conv)
  next
    case False
    then have "w_db w' = snd (subcloud_status_update_endpoints (Some c) (sc_id sc) ?es SYNC_STATUS_UNKNOWN (w_db w1))"
      using run w1 by (auto simp: update_all_endpoints_def Let_def seq_apply when_io_def try_catch_def db_io_apply
          split: sum.splits prod.splits)
    then show ?thesis
      using assms(2) by (force simp: db update_endpoints_admin [OF assms(1)] cleared_but_def)
  qed
qed

lemma update_named_clears:
  fixes env :: "'x state_env"
  assumes "rc_is_admin c" and inv: "db_wf (w_db w)" and sc: "sc \<in> set (rows (subclouds (w_db w)))"
    and run: "update_named_endpoint_status env (Some c) (sc_name sc) None SYNC_STATUS_UNKNOWN al ig w = (Inr u, w')"
  shows "cleared_but ig (sc_id sc) (w_db w')"
proof -
  obtain q d where q: "subcloud_get_by_name (Some c) (sc_name sc) (w_db w) = (Inr q, d)"
    and upd: "do_update_subcloud_endpoint_status env (Some c) (sc_id q) None SYNC_STATUS_UNKNOWN al ig
      (w\<lparr>w_db := d\<rparr>) = (Inr u, w')"
    using run by (auto simp: update_named_endpoint_status_def bnd_Inr_iff db_io_Inr_iff
        sync_update_allowed_def split: if_splits)
  note found = subcloud_get_by_name_found [OF q]
  have "distinct (map sc_name (rows (subclouds (w_db w))))" using inv by (auto simp: db_wf_defs)
  then have qsc: "q = sc" using found sc by (auto simp: distinct_map inj_on_def)
  then obtain ps d' where ps: "subcloud_get_with_status (Some c) (sc_id sc) (w_db w) = (Inr ps, d')"
    and all: "update_all_endpoints env (Some c) (fst (last ps)) (List.map_filter snd ps)
       SYNC_STATUS_UNKNOWN al ig (w\<lparr>w_db := d'\<rparr>) = (Inr u, w')"
    using upd found by (auto simp: do_update_subcloud_endpoint_status_def bnd_Inr_iff db_io_Inr_iff Let_def)
  have id: "sc_id (fst (last ps)) = sc_id sc" and d': "d' = w_db w"
    using subcloud_get_with_status_found [OF ps] by auto
  show ?thesis
    using update_all_clears [OF assms(1) _ all] subcloud_get_with_status_covers [OF ps] id d' by simp
qed

definition admin :: "request_context option \<Rightarrow> bool" where
  "admin ctx \<longleftrightarrow> (\<exists>c. ctx = Some c \<and> rc_is_admin c)"

lemma subcloud_update_no_admin: "\<not> admin ctx \<Longrightarrow> snd (subcloud_update ctx i v d) = d"
  by (auto simp: admin_def subcloud_update_def context_defs bnd_apply split: option.splits)

text \<open>What must hold before the new availability is written.\<close>

definition ready :: "subcloud table \<Rightarrow> request_context option \<Rightarrow> nat \<Rightarrow> availability \<Rightarrow> db \<Rightarrow> bool" where
  "ready t ctx i a d \<longleftrightarrow>
     sync_at t d \<and> (a = AVAILABILITY_OFFLINE \<longrightarrow> admin ctx \<longrightarrow> cleared i d)"

lemma ready_inv: "ready t ctx i a d \<Longrightarrow> sync_inv d"
  unfolding ready_def sync_at_def by blast

lemma going_offline_ready:
  assumes "sc \<in> set (rows t)"
  shows "triple (\<lambda>w. sync_at t (w_db w))
    (when_io (a = AVAILABILITY_OFFLINE)
       (update_named_endpoint_status env ctx (sc_name sc) None SYNC_STATUS_UNKNOWN True []))
    (\<lambda>_ w. ready t ctx (sc_id sc) a (w_db w)) (\<lambda>w. sync_inv (w_db w))"
proof (cases "a = AVAILABILITY_OFFLINE")
  case False
  then show ?thesis by (simp add: when_io_def triple_ret ready_def)
next
  case True
  let ?m = "update_named_endpoint_status env ctx (sc_name sc) None SYNC_STATUS_UNKNOWN True []"
  show ?thesis unfolding when_io_def if_P [OF True]
  proof (rule tripleI)
    fix w e w' assume "sync_at t (w_db w)" "?m w = (Inl e, w')"
    then show "sync_inv (w_db w')" using keepsD [OF update_named_at, of t w] sync_at_inv by (metis snd_conv)
  next
    fix w u w' assume w: "sync_at t (w_db w)" and run: "?m w = (Inr u, w')"
    have "sync_at t (w_db w')" using keepsD [OF update_named_at, of t w] w run by (metis snd_conv)
    moreover have "db_wf (w_db w)" "sc \<in> set (rows (subclouds (w_db w)))"
      using w assms by (simp_all add: sync_at_def sync_inv_def)
    then have "cleared (sc_id sc) (w_db w')" if "admin ctx"
      using that update_named_clears [of _ w sc env True "[]" u w'] run
      by (auto simp: admin_def)
    ultimately show "ready t ctx (sc_id sc) a (w_db w')" by (simp add: ready_def)
  qed
qed

lemma write_availability_inv:
  assumes "ready t ctx i a (w_db w)"
  shows "sync_inv (w_db (snd (db_io (subcloud_update ctx i
    (no_values\<lparr>sv_availability_status := Some a, sv_audit_fail_count := n\<rparr>)) w)))"
proof (cases "admin ctx")
  case False
  then show ?thesis
    using subcloud_update_no_admin [of ctx i "no_values\<lparr>sv_availability_status := Some a, sv_audit_fail_count := n\<rparr>"
        "w_db w"] ready_inv [OF assms] by (auto simp: db_io_apply split: prod.splits)
next
  case True
  let ?v = "no_values\<lparr>sv_availability_status := Some a, sv_audit_fail_count := n\<rparr>"
  obtain x d' where run: "subcloud_update ctx i ?v (w_db w) = (x, d')" by fastforce
  have "cleared i (w_db w) \<or> sv_availability_status ?v \<noteq> Some AVAILABILITY_OFFLINE"
    using assms True by (auto simp: ready_def)
  from subcloud_update_inv [OF ready_inv [OF assms] this _ run]
  show ?thesis using run by (simp add: db_io_apply no_values_def)
qed

abbreviation keeps_sync :: "('x world, 'a) io \<Rightarrow> bool" where
  "keeps_sync m \<equiv> keeps (\<lambda>w. sync_inv (w_db w)) m"

lemma subcloud_goes_inv:
  fixes env :: "'x state_env"
  assumes "sc \<in> set (rows t)"
  shows "triple (\<lambda>w. sync_at t (w_db w)) (subcloud_goes env ctx sc (sc_name sc) a n)
    (\<lambda>_ w. sync_inv (w_db w)) (\<lambda>w. sync_inv (w_db w))"
proof -
  let ?I = "\<lambda>w :: 'x world. sync_inv (w_db w)"
  let ?alarm = "raise_or_clear_subcloud_status_alarm env (sc_name sc) a"
  let ?update = "db_io (subcloud_update ctx (sc_id sc)
      (no_values\<lparr>sv_availability_status := Some a, sv_audit_fail_count := n\<rparr>)) :: ('x world, subcloud) io"
  have alarm: "triple (\<lambda>w. sync_at t (w_db w)) ?alarm (\<lambda>_ w. sync_at t (w_db w)) ?I"
    by (rule triple_post [OF triple_keeps [OF status_alarm_keeps]]) (auto intro: sync_at_inv)
  have upd: "triple (\<lambda>w. ready t ctx (sc_id sc) a (w_db w)) ?update (\<lambda>_. ?I) ?I"
    by (rule tripleI) (metis snd_conv write_availability_inv)+
  have handler: "triple ?I (case e of SubcloudNotFound _ \<Rightarrow> ret () | _ \<Rightarrow> raise e) (\<lambda>_. ?I) ?I" for e
    by (cases e) (simp_all add: triple_ret triple_raise)
  have rest: "triple ?I (seq (when_io (a = AVAILABILITY_ONLINE)
        (seq (call (OnlineNotification (sc_name sc)) (se_subcloud_online env (sc_name sc)))
          (call (AuditRpc ''trigger_subcloud_audits'' (Some (sc_id sc))) (se_trigger_subcloud_audits env (sc_id sc)))))
      (update_subcloud_state env (sc_name sc) m (Some a))) (\<lambda>_. ?I) ?I" for m
    by (intro triple_keeps keeps_intros)
  show ?thesis
    unfolding subcloud_goes_def announce_availability_def write_availability_def
    by (rule triple_seq [OF triple_seq [OF alarm going_offline_ready [OF assms]]],
      rule triple_try_else [OF upd handler rest])
qed

lemma update_subcloud_availability_inv:
  fixes env :: "'x state_env"
  shows "keeps_sync (update_subcloud_availability env ctx n a only k)"
  unfolding update_subcloud_availability_def
proof (rule keeps_bnd_result)
  show "keeps_sync (db_io (subcloud_get_by_name ctx n))"
    unfolding subcloud_get_by_name_def by (intro keeps_db_io keeps_intros)
next
  fix w w' :: "'x world" and sc
  assume run: "db_io (subcloud_get_by_name ctx n) w = (Inr sc, w')" and inv: "sync_inv (w_db w')"
  obtain d where "subcloud_get_by_name ctx n (w_db w) = (Inr sc, d)" "w' = w\<lparr>w_db := d\<rparr>"
    using run by (auto simp: db_io_Inr_iff)
  with subcloud_get_by_name_found [OF this(1)]
  have sc: "sc \<in> set (rows (subclouds (w_db w')))" "n = sc_name sc" by auto
  have fails: "keeps_sync (db_io (subcloud_update admin_context (sc_id sc) (no_values\<lparr>sv_audit_fail_count := k\<rparr>)))"
  proof (intro keeps_db_io, rule keepsI)
    fix d assume d: "sync_inv d"
    obtain x d' where "subcloud_update admin_context (sc_id sc) (no_values\<lparr>sv_audit_fail_count := k\<rparr>) d = (x, d')"
      by fastforce
    with subcloud_update_inv [OF d _ _ this]
    show "sync_inv (snd (subcloud_update admin_context (sc_id sc) (no_values\<lparr>sv_audit_fail_count := k\<rparr>) d))"
      by (simp add: no_values_def)
  qed
  have handler: "keeps_sync (case e of SubcloudNotFound _ \<Rightarrow> ret () | _ \<Rightarrow> raise e)" for e
    by (cases e) (simp_all add: keeps_ret keeps_raise)
  have goes: "sync_inv (w_db (snd (subcloud_goes env ctx sc n b k w')))" for b
    using tripleD [OF subcloud_goes_inv [OF sc(1), of env ctx b k] sync_inv_at [OF inv]] sc(2)
    by (metis (mono_tags, lifting) old.sum.exhaust prod.collapse sum.simps(5) sum.simps(6))
  show "sync_inv (w_db (snd ((if only then update_subcloud_state env n (sc_management_state sc) a
      else case a of
         None \<Rightarrow> try_else (db_io (subcloud_update admin_context (sc_id sc) (no_values\<lparr>sv_audit_fail_count := k\<rparr>)))
               (\<lambda>e. case e of SubcloudNotFound _ \<Rightarrow> ret () | _ \<Rightarrow> raise e) (\<lambda>_. ret ())
       | Some b \<Rightarrow> subcloud_goes env ctx sc n b k) w')))"
  proof (cases "only \<or> a = None")
    case True
    have "keeps_sync (if only then update_subcloud_state env n (sc_management_state sc) a
        else try_else (db_io (subcloud_update admin_context (sc_id sc) (no_values\<lparr>sv_audit_fail_count := k\<rparr>)))
               (\<lambda>e. case e of SubcloudNotFound _ \<Rightarrow> ret () | _ \<Rightarrow> raise e) (\<lambda>_. ret ()))"
      by (intro keeps_if keeps_try_else keeps_ret fails handler update_subcloud_state_keeps)
    from keepsD [OF this inv] show ?thesis using True by (auto split: if_splits)
  next
    case False
    then show ?thesis using goes by auto
  qed
qed

section \<open>The endpoints that are synchronised\<close>

lemma status_create_inv: "keeps sync_inv (subcloud_status_create ctx i e)"
proof (rule keepsI)
  fix d assume d: "sync_inv d"
  have "in_sync_ok (snd (subcloud_status_create ctx i e d))"
    using d by (auto simp: subcloud_status_create_def add_status_def context_defs bnd_apply
        write_session_def sync_inv_def in_sync_ok_def row_ok_def split: option.splits)
  then show "sync_inv (snd (subcloud_status_create ctx i e d))"
    using keepsD [OF subcloud_status_create_wf] d by (simp add: sync_inv_def)
qed

lemma status_delete_inv: "keeps sync_inv (subcloud_status_delete ctx i e)"
proof (rule keepsI)
  fix d assume d: "sync_inv d"
  have "in_sync_ok (snd (subcloud_status_delete ctx i e d))"
    using d by (auto simp: subcloud_status_delete_def subcloud_status_get_def context_defs bnd_apply
        first_or_apply write_session_def sync_inv_def in_sync_ok_def split: option.splits)
  then show "sync_inv (snd (subcloud_status_delete ctx i e d))"
    using keepsD [OF subcloud_status_delete_wf] d by (simp add: sync_inv_def)
qed

lemma quiet_update_inv:
  assumes "sv_availability_status v = None" and "sv_management_state v = None"
  shows "keeps sync_inv (subcloud_update ctx i v)"
proof (rule keepsI)
  fix d assume d: "sync_inv d"
  obtain x d' where run: "subcloud_update ctx i v d = (x, d')" by fastforce
  show "sync_inv (snd (subcloud_update ctx i v d))"
    using subcloud_update_inv [OF d _ _ run] assms run by simp
qed

lemma update_sync_endpoint_type_inv: "keeps_sync (update_subcloud_sync_endpoint_type env ctx n es b)"
  unfolding update_subcloud_sync_endpoint_type_def subcloud_get_by_name_def
  by (intro keeps_intros keeps_db_io status_create_inv status_delete_inv quiet_update_inv)
    (simp_all add: no_values_def)

lemma update_named_inv: "keeps_sync (update_named_endpoint_status env ctx n e sync alarmable ig)"
proof (rule keepsI)
  fix w :: "'a world" assume "sync_inv (w_db w)"
  from keepsD [OF update_named_at sync_inv_at [OF this]]
  show "sync_inv (w_db (snd (update_named_endpoint_status env ctx n e sync alarmable ig w)))"
    by (rule sync_at_inv)
qed

lemma update_endpoint_status_inv: "keeps_sync (update_subcloud_endpoint_status env ctx n e sync alarmable ig)"
proof (rule keepsI)
  fix w :: "'a world" assume "sync_inv (w_db w)"
  from keepsD [OF update_endpoint_status_at sync_inv_at [OF this]]
  show "sync_inv (w_db (snd (update_subcloud_endpoint_status env ctx n e sync alarmable ig w)))"
    by (rule sync_at_inv)
qed

text \<open>C8: The operations of the state manager, one at a time, in any order and whatever the other
  services answer or raise: each keeps the invariant however it ends, so that an endpoint is recorded
  as in sync only while its subcloud is online and managed, or online for the dc-cert endpoint.
  (Operations that overlap can break it: \<open>offline_race\<close>.)\<close>

theorem in_sync_only_trusted:
  "keeps_sync (update_subcloud_endpoint_status env ctx name e sync alarmable ignore) \<and>
   keeps_sync (update_subcloud_availability env ctx name' avail only fail_count) \<and>
   keeps_sync (update_subcloud_sync_endpoint_type env ctx name'' es installed)"
  using update_endpoint_status_inv update_subcloud_availability_inv update_sync_endpoint_type_inv
  by blast

end
