(* ===== verification/DC_Stages.thy ===== *)
theory DC_Stages
  imports DC_SwUpdateManager
begin

text \<open>
  What \<open>create_sw_update_strategy\<close> promises of the steps it creates: they are numbered in the
  order the stages run, a stage holds subclouds of one group only and not more of them than the
  group (or the request) allows, one in a serial update, and every step is for a subcloud that
  the request selects and whose sync status calls for the update.
\<close>

section \<open>The contract of a set of steps\<close>

definition at_stage :: "nat \<Rightarrow> strategy_step list \<Rightarrow> strategy_step list" where
  "at_stage k ss = filter (\<lambda>s. sp_stage s = k) ss"

definition step_in_group :: "db \<Rightarrow> nat \<Rightarrow> strategy_step \<Rightarrow> bool" where
  "step_in_group d g s \<longleftrightarrow>
     (\<exists>sc \<in> set (rows (subclouds d)). sp_subcloud_id s = Some (sc_id sc) \<and> sc_group_id sc = Some g)"

definition stage_limit :: "create_params \<Rightarrow> subcloud_group \<Rightarrow> nat" where
  "stage_limit p g =
     (if is_serial (group_apply_type p g) then 1 else nat (max 1 (group_max_parallel p g)))"

definition stage_ok :: "create_params \<Rightarrow> subcloud_group list \<Rightarrow> db \<Rightarrow> strategy_step list \<Rightarrow> nat \<Rightarrow> bool" where
  "stage_ok p gs d ss k \<longleftrightarrow>
     at_stage k ss = [] \<or>
     (\<exists>g \<in> set gs. length (at_stage k ss) \<le> stage_limit p g \<and>
        (\<forall>s \<in> set (at_stage k ss). step_in_group d (g_id g) s))"

text \<open>The subclouds a strategy may have a step for.\<close>

definition selected :: "sw_type \<Rightarrow> create_params \<Rightarrow> db \<Rightarrow> subcloud \<Rightarrow> bool" where
  "selected t p d sc \<longleftrightarrow>
     sc \<in> set (rows (subclouds d)) \<and> \<not> not_targeted p sc \<and>
     (sc_availability_status sc = AVAILABILITY_ONLINE \<or> t = SW_UPDATE_TYPE_UPGRADE \<and> cp_force p) \<and>
     (\<exists>ss \<in> set (rows (subcloud_status_t d)). ss_subcloud_id ss = sc_id sc \<and>
        validate_subcloud_status_sync t ss (cp_force p) (sc_availability_status sc))"

definition step_ok :: "sw_type \<Rightarrow> create_params \<Rightarrow> db \<Rightarrow> strategy_step \<Rightarrow> bool" where
  "step_ok t p d s \<longleftrightarrow>
     sp_state s = STRATEGY_STATE_INITIAL \<and> 1 \<le> sp_stage s \<and>
     (\<exists>sc. selected t p d sc \<and> sp_subcloud_id s = Some (sc_id sc))"

definition steps_ok ::
  "sw_type \<Rightarrow> create_params \<Rightarrow> subcloud_group list \<Rightarrow> db \<Rightarrow> strategy_step list \<Rightarrow> bool" where
  "steps_ok t p gs d ss \<longleftrightarrow>
     sorted (map sp_stage ss) \<and> (\<forall>k. stage_ok p gs d ss k) \<and> (\<forall>s \<in> set ss. step_ok t p d s)"

section \<open>The invariants of the loops\<close>

definition alloc_inv ::
  "sw_type \<Rightarrow> create_params \<Rightarrow> subcloud_group list \<Rightarrow> db \<Rightarrow> stage_alloc \<Rightarrow> strategy_step list \<Rightarrow> bool" where
  "alloc_inv t p gs d a ss \<longleftrightarrow>
     steps_ok t p gs d ss \<and> (\<forall>s \<in> set ss. sp_stage s \<le> gs_counter a) \<and> 1 \<le> gs_counter a \<and>
     (gs_created a \<longleftrightarrow> ss \<noteq> []) \<and> (gs_updated a \<longrightarrow> at_stage (gs_counter a) ss = [])"

definition group_inv ::
  "sw_type \<Rightarrow> create_params \<Rightarrow> subcloud_group list \<Rightarrow> subcloud_group \<Rightarrow> db \<Rightarrow> stage_alloc \<Rightarrow>
   strategy_step list \<Rightarrow> bool" where
  "group_inv t p gs g d a ss \<longleftrightarrow>
     alloc_inv t p gs d a ss \<and>
     (\<forall>s \<in> set (at_stage (gs_counter a) ss). step_in_group d (g_id g) s) \<and>
     length (at_stage (gs_counter a) ss) \<le> (if is_serial (group_apply_type p g) then 0 else gs_size a) \<and>
     (at_stage (gs_counter a) ss \<noteq> [] \<longrightarrow> int (gs_size a) < group_max_parallel p g)"

lemma at_stage_append [simp]: "at_stage k (xs @ ys) = at_stage k xs @ at_stage k ys"
  by (simp add: at_stage_def)

lemma at_stage_one [simp]: "at_stage k [s] = (if sp_stage s = k then [s] else [])"
  by (simp add: at_stage_def)

lemma at_stage_above: "(\<And>s. s \<in> set ss \<Longrightarrow> sp_stage s \<le> c) \<Longrightarrow> c < k \<Longrightarrow> at_stage k ss = []"
  by (fastforce simp: at_stage_def filter_empty_conv)

text \<open>One more step in the current stage, and the stage counter moved as the source moves it.\<close>

lemma advance_group_inv:
  assumes inv: "group_inv t p gs g d a ss" and g: "g \<in> set gs"
    and st: "sp_stage s = gs_counter a" and ok: "step_ok t p d s" and grp: "step_in_group d (g_id g) s"
    and upd: "\<not> gs_updated a"
  shows "group_inv t p gs g d (advance_stage (group_apply_type p g) (group_max_parallel p g) a) (ss @ [s])"
proof -
  let ?c = "gs_counter a" and ?n = "length (at_stage (gs_counter a) ss)"
  let ?b = "advance_stage (group_apply_type p g) (group_max_parallel p g) a"
  have le: "sp_stage x \<le> ?c" if "x \<in> set ss" for x
    using inv that by (simp add: group_inv_def alloc_inv_def)
  have above: "at_stage (Suc ?c) ss = []" by (rule at_stage_above [where c = ?c]) (auto simp: le)
  have lim: "Suc ?n \<le> stage_limit p g"
  proof (cases "is_serial (group_apply_type p g)")
    case True
    then show ?thesis using inv by (simp add: group_inv_def stage_limit_def)
  next
    case False
    then have "?n = 0 \<or> int (Suc ?n) \<le> group_max_parallel p g"
      using inv by (auto simp: group_inv_def)
    then show ?thesis using False by (auto simp: stage_limit_def)
  qed
  have "stage_ok p gs d (ss @ [s]) k" for k
  proof (cases "k = ?c")
    case True
    then show ?thesis using inv g lim grp st
      by (auto simp: stage_ok_def group_inv_def)
  next
    case False
    then show ?thesis using inv st
      by (auto simp: stage_ok_def group_inv_def alloc_inv_def steps_ok_def)
  qed
  then have steps: "steps_ok t p gs d (ss @ [s])"
    using inv ok st le by (auto simp: steps_ok_def group_inv_def alloc_inv_def sorted_append)
  show ?thesis
    using inv steps st le above grp upd
    by (auto simp: group_inv_def alloc_inv_def advance_stage_def Let_def
        dest: le_SucI)
qed

text \<open>While the steps are created only their table changes.\<close>

definition only_steps :: "db \<Rightarrow> db \<Rightarrow> bool" where
  "only_steps d0 d \<longleftrightarrow> d = d0\<lparr>strategy_steps := strategy_steps d\<rparr>"

lemma only_steps_fields:
  "only_steps d0 d \<Longrightarrow> subclouds d = subclouds d0"
  "only_steps d0 d \<Longrightarrow> subcloud_status_t d = subcloud_status_t d0"
  "only_steps d0 d \<Longrightarrow> subcloud_groups d = subcloud_groups d0"
  "only_steps d0 d \<Longrightarrow> sw_update_strategies d = sw_update_strategies d0"
  "only_steps d0 d \<Longrightarrow> only_steps d0 (d\<lparr>strategy_steps := x\<rparr>)"
  by (cases d, cases d0, simp add: only_steps_def)+

lemma require_Inr:
  "require_admin_context ctx m s = (Inr x, t) \<Longrightarrow> m s = (Inr x, t)"
  "require_context ctx m s = (Inr x, t) \<Longrightarrow> m s = (Inr x, t)"
  by (auto simp: require_admin_context_def require_context_def is_admin_context_def bnd_Inr_iff
      split: option.splits if_splits)

lemma strategy_step_create_Inr:
  assumes "strategy_step_create ctx i st s x d = (Inr y, d')"
  shows "Some i \<notin> sp_subcloud_id ` set (rows (strategy_steps d)) \<and>
     d' = d\<lparr>strategy_steps := insert_row
       (\<lambda>k. \<lparr>sp_id = k, sp_subcloud_id = Some i, sp_stage = st, sp_state = s, sp_details = x,
             sp_started_at = None, sp_finished_at = None\<rparr>) (strategy_steps d)\<rparr>"
  using assms unfolding strategy_step_create_def
  by (auto dest!: require_Inr simp: write_session_def bnd_apply split: sum.splits prod.splits if_splits)

section \<open>The loops\<close>

text \<open>A loop invariant over the allocation and the rows of the steps table.\<close>

definition during :: "db \<Rightarrow> (stage_alloc \<Rightarrow> strategy_step list \<Rightarrow> bool) \<Rightarrow> stage_alloc \<Rightarrow> db \<Rightarrow> bool" where
  "during d0 I a d \<longleftrightarrow> only_steps d0 d \<and> I a (rows (strategy_steps d))"

definition sc_inv ::
  "sw_type \<Rightarrow> create_params \<Rightarrow> subcloud_group list \<Rightarrow> subcloud_group \<Rightarrow> db \<Rightarrow> subcloud \<Rightarrow>
   stage_alloc \<Rightarrow> strategy_step list \<Rightarrow> bool" where
  "sc_inv t p gs g d sc a ss \<longleftrightarrow>
     group_inv t p gs g d a ss \<and> (gs_updated a \<longrightarrow> Some (sc_id sc) \<in> sp_subcloud_id ` set ss)"

lemma add_step_for_status_ensures:
  assumes g: "g \<in> set gs" and sc: "sc \<in> set (rows (subclouds d0))" "sc_group_id sc = Some (g_id g)"
    and target: "\<not> not_targeted p sc"
      "sc_availability_status sc = AVAILABILITY_ONLINE \<or> t = SW_UPDATE_TYPE_UPGRADE \<and> cp_force p"
    and status: "status \<in> set (rows (subcloud_status_t d0))" "ss_subcloud_id status = sc_id sc"
  shows "ensures (during d0 (sc_inv t p gs g d0 sc) a)
     (add_step_for_status ctx t (cp_force p) (group_apply_type p g) (group_max_parallel p g) sc status a)
     (during d0 (sc_inv t p gs g d0 sc))"
proof (rule ensuresI)
  fix d b d'
  assume pre: "during d0 (sc_inv t p gs g d0 sc) a d"
    and run: "add_step_for_status ctx t (cp_force p) (group_apply_type p g) (group_max_parallel p g)
       sc status a d = (Inr b, d')"
  show "during d0 (sc_inv t p gs g d0 sc) b d'"
  proof (cases "validate_subcloud_status_sync t status (cp_force p) (sc_availability_status sc)")
    case False
    then show ?thesis using pre run by (simp add: add_step_for_status_def)
  next
    case True
    let ?s = "\<lambda>k. \<lparr>sp_id = k, sp_subcloud_id = Some (sc_id sc), sp_stage = gs_counter a,
        sp_state = STRATEGY_STATE_INITIAL, sp_details = [], sp_started_at = None, sp_finished_at = None\<rparr>"
    let ?s' = "?s (next_id (strategy_steps d))"
    have b: "b = advance_stage (group_apply_type p g) (group_max_parallel p g) a"
      and new: "Some (sc_id sc) \<notin> sp_subcloud_id ` set (rows (strategy_steps d))"
        "d' = d\<lparr>strategy_steps := insert_row ?s (strategy_steps d)\<rparr>"
      using run True by (auto simp: add_step_for_status_def seq_Inr_iff dest!: strategy_step_create_Inr)
    have inv: "group_inv t p gs g d0 a (rows (strategy_steps d))" and upd: "\<not> gs_updated a"
      using pre new(1) by (auto simp: during_def sc_inv_def)
    have "selected t p d0 sc" using sc(1) target status True by (auto simp: selected_def)
    then have ok: "step_ok t p d0 ?s'"
      using inv by (auto simp: step_ok_def group_inv_def alloc_inv_def)
    have grp: "step_in_group d0 (g_id g) ?s'" using sc by (auto simp: step_in_group_def)
    have "group_inv t p gs g d0 b (rows (strategy_steps d) @ [?s'])"
      unfolding b by (rule advance_group_inv [OF inv g _ ok grp upd]) simp
    then show ?thesis using pre new(2)
      by (simp add: during_def sc_inv_def only_steps_fields)
  qed
qed

lemma subcloud_status_get_all_Inr:
  "subcloud_status_get_all ctx i d = (Inr sts, d') \<Longrightarrow>
     d' = d \<and> (\<forall>ss \<in> set sts. ss \<in> set (rows (subcloud_status_t d)) \<and> ss_subcloud_id ss = i)"
  by (auto simp: subcloud_status_get_all_def query_all_def dest!: require_Inr split: if_splits)

lemma subcloud_get_for_group_Inr:
  "subcloud_get_for_group ctx i d = (Inr scs, d') \<Longrightarrow>
     d' = d \<and> (\<forall>sc \<in> set scs. sc \<in> set (rows (subclouds d)) \<and> sc_group_id sc = Some i)"
  by (auto simp: subcloud_get_for_group_def query_all_def dest!: require_Inr)

lemma add_steps_for_subcloud_ensures:
  assumes g: "g \<in> set gs" and sc: "sc \<in> set (rows (subclouds d0))" "sc_group_id sc = Some (g_id g)"
  shows "ensures (during d0 (group_inv t p gs g d0) a)
     (add_steps_for_subcloud ctx t p (group_apply_type p g) (group_max_parallel p g) sc a)
     (during d0 (group_inv t p gs g d0))"
proof (rule ensuresI)
  fix d b d'
  let ?a = "a\<lparr>gs_updated := False\<rparr>"
  assume pre: "during d0 (group_inv t p gs g d0) a d"
    and run: "add_steps_for_subcloud ctx t p (group_apply_type p g) (group_max_parallel p g) sc a d
       = (Inr b, d')"
  have inv: "during d0 (sc_inv t p gs g d0 sc) ?a d"
    using pre by (auto simp: during_def sc_inv_def group_inv_def alloc_inv_def)
  let ?target = "\<not> not_targeted p sc \<and>
    (sc_availability_status sc = AVAILABILITY_ONLINE \<or> t = SW_UPDATE_TYPE_UPGRADE \<and> cp_force p)"
  show "during d0 (group_inv t p gs g d0) b d'"
  proof (cases ?target)
    case False
    then have "b = ?a" "d' = d"
      using run by (auto simp: add_steps_for_subcloud_def Let_def split: if_splits)
    then show ?thesis using inv by (simp add: during_def sc_inv_def)
  next
    case True
    obtain sts where sts: "subcloud_status_get_all ctx (sc_id sc) d = (Inr sts, d)"
      and loop: "fold_io (add_step_for_status ctx t (cp_force p) (group_apply_type p g)
         (group_max_parallel p g) sc) sts ?a d = (Inr b, d')"
      using run True subcloud_status_get_all_Inr
      by (fastforce simp: add_steps_for_subcloud_def Let_def bnd_Inr_iff split: if_splits)
    have "subcloud_status_t d = subcloud_status_t d0"
      using pre by (auto simp: during_def dest: only_steps_fields)
    then have "ensures (during d0 (sc_inv t p gs g d0 sc) ?a) (fold_io (add_step_for_status ctx t
        (cp_force p) (group_apply_type p g) (group_max_parallel p g) sc) sts ?a)
        (during d0 (sc_inv t p gs g d0 sc))"
      using subcloud_status_get_all_Inr [OF sts] True
      by (intro ensures_fold_io add_step_for_status_ensures g sc) auto
    from ensuresD [OF this inv loop] show ?thesis by (simp add: during_def sc_inv_def)
  qed
qed

text \<open>Between groups the current stage is empty, so the next group starts one of its own.\<close>

definition fresh_inv ::
  "sw_type \<Rightarrow> create_params \<Rightarrow> subcloud_group list \<Rightarrow> db \<Rightarrow> stage_alloc \<Rightarrow> strategy_step list \<Rightarrow> bool" where
  "fresh_inv t p gs d a ss \<longleftrightarrow> alloc_inv t p gs d a ss \<and> at_stage (gs_counter a) ss = []"

lemma add_steps_for_group_ensures:
  assumes g: "g \<in> set gs"
  shows "ensures (during d0 (fresh_inv t p gs d0) a) (add_steps_for_group ctx t p g a)
     (during d0 (fresh_inv t p gs d0))"
proof (rule ensuresI)
  fix d b d'
  assume pre: "during d0 (fresh_inv t p gs d0) a d"
    and run: "add_steps_for_group ctx t p g a d = (Inr b, d')"
  let ?at = "group_apply_type p g" and ?mp = "group_max_parallel p g"
  obtain scs c where scs: "subcloud_get_for_group ctx (g_id g) d = (Inr scs, d)"
    and loop: "fold_io (add_steps_for_subcloud ctx t p ?at ?mp) scs a d = (Inr c, d')"
    and b: "b = (let c = c\<lparr>gs_size := 0\<rparr> in if gs_updated c then c else c\<lparr>gs_counter := Suc (gs_counter c)\<rparr>)"
    using run subcloud_get_for_group_Inr by (fastforce simp: add_steps_for_group_def bnd_Inr_iff Let_def)
  have "subclouds d = subclouds d0" using pre by (auto simp: during_def dest: only_steps_fields)
  then have "ensures (during d0 (group_inv t p gs g d0) a)
      (fold_io (add_steps_for_subcloud ctx t p ?at ?mp) scs a) (during d0 (group_inv t p gs g d0))"
    using subcloud_get_for_group_Inr [OF scs]
    by (intro ensures_fold_io add_steps_for_subcloud_ensures g) auto
  moreover have "during d0 (group_inv t p gs g d0) a d"
    using pre by (simp add: during_def fresh_inv_def group_inv_def)
  ultimately have c: "during d0 (group_inv t p gs g d0) c d'" using loop by (rule ensuresD)
  let ?ss = "rows (strategy_steps d')"
  have "at_stage (Suc (gs_counter c)) ?ss = []"
    using c by (intro at_stage_above [where c = "gs_counter c"])
      (auto simp: during_def group_inv_def alloc_inv_def)
  then show "during d0 (fresh_inv t p gs d0) b d'"
    using c by (auto simp: b Let_def during_def fresh_inv_def group_inv_def alloc_inv_def intro: le_SucI)
qed

definition target_groups :: "create_params \<Rightarrow> db \<Rightarrow> subcloud_group list" where
  "target_groups p d =
     (case cp_single_group p of Some g \<Rightarrow> [g] | None \<Rightarrow> sort_key g_id (rows (subcloud_groups d)))"

lemma create_steps_ensures:
  assumes "rows (strategy_steps d) = []" and "create_steps ctx t p d = (Inr a, d')"
  shows "only_steps d d' \<and> steps_ok t p (target_groups p d) d (rows (strategy_steps d')) \<and>
     (gs_created a \<longleftrightarrow> rows (strategy_steps d') \<noteq> [])"
proof -
  let ?a0 = "\<lparr>gs_counter = 1, gs_size = 0, gs_updated = False, gs_created = False\<rparr>"
  let ?gs = "target_groups p d"
  have loop: "fold_io (add_steps_for_group ctx t p) ?gs ?a0 d = (Inr a, d')"
    using assms(2)
    by (auto simp: create_steps_def target_groups_def bnd_Inr_iff subcloud_group_get_all_def
        split: option.splits dest!: require_Inr)
  have "ensures (during d (fresh_inv t p ?gs d) ?a0) (fold_io (add_steps_for_group ctx t p) ?gs ?a0)
      (during d (fresh_inv t p ?gs d))"
    by (intro ensures_fold_io add_steps_for_group_ensures)
  moreover have "during d (fresh_inv t p ?gs d) ?a0 d"
    using assms(1)
    by (simp add: during_def only_steps_def fresh_inv_def alloc_inv_def steps_ok_def stage_ok_def
        at_stage_def)
  ultimately have "during d (fresh_inv t p ?gs d) a d'" using loop by (rule ensuresD)
  then show ?thesis by (simp add: during_def fresh_inv_def alloc_inv_def)
qed

end
