(* ===== verification/DC_Manager_Props.thy ===== *)
theory DC_Manager_Props
  imports DC_Stages
begin

text \<open>
  The properties of the operations on the strategy: when a strategy is created and with which
  steps, in which states it can be applied, aborted and deleted, and what happens to the
  certificate file of a kube rootca update.
\<close>

section \<open>An example system\<close>

text \<open>Two groups, the default one with two subclouds at a time; three managed subclouds that are
  online and whose patches are out of sync. The properties below are applied to it.\<close>

definition ex_group :: "nat \<Rightarrow> string \<Rightarrow> subcloud_group" where
  "ex_group i name = \<lparr>g_id = i, g_name = name, g_description = [],
     g_update_apply_type = SUBCLOUD_APPLY_TYPE_PARALLEL, g_max_parallel_subclouds = 2\<rparr>"

definition ex_subcloud :: "nat \<Rightarrow> string \<Rightarrow> nat \<Rightarrow> subcloud" where
  "ex_subcloud i name g = \<lparr>sc_id = i, sc_name = name, sc_description = [], sc_location = [],
     sc_software_version = ''22.12'', sc_management_state = MANAGEMENT_MANAGED,
     sc_availability_status = AVAILABILITY_ONLINE, sc_data_install = None,
     sc_deploy_status = DEPLOY_STATE_DONE, sc_backup_status = None, sc_backup_datetime = None,
     sc_error_description = ERROR_DESC_EMPTY, sc_data_upgrade = None, sc_management_subnet = [],
     sc_management_gateway_ip = [], sc_management_start_ip = [], sc_management_end_ip = [],
     sc_openstack_installed = False, sc_systemcontroller_gateway_ip = [],
     sc_audit_fail_count = 0, sc_group_id = Some g\<rparr>"

definition ex_status :: "nat \<Rightarrow> nat \<Rightarrow> subcloud_status" where
  "ex_status i sc = \<lparr>ss_id = i, ss_subcloud_id = sc, ss_endpoint_type = ENDPOINT_TYPE_PATCHING,
     ss_sync_status = SYNC_STATUS_OUT_OF_SYNC\<rparr>"

definition ex_strategy :: "sw_state \<Rightarrow> sw_update_strategy" where
  "ex_strategy st = \<lparr>st_id = 1, st_type = SW_UPDATE_TYPE_PATCH, st_subcloud_apply_type = None,
     st_max_parallel_subclouds = None, st_stop_on_failure = False, st_state = st, st_extra_args = None\<rparr>"

definition ex_db :: "sw_update_strategy list \<Rightarrow> db" where
  "ex_db sts = empty_db\<lparr>
     subclouds := \<lparr>rows = [ex_subcloud 1 ''alpha'' 1, ex_subcloud 2 ''beta'' 1, ex_subcloud 3 ''gamma'' 2],
                   next_id = 4\<rparr>,
     subcloud_groups := \<lparr>rows = [ex_group 1 ''Default'', ex_group 2 ''Lab''], next_id = 3\<rparr>,
     subcloud_status_t := \<lparr>rows = [ex_status 1 1, ex_status 2 2, ex_status 3 3], next_id = 4\<rparr>,
     sw_update_strategies := \<lparr>rows = sts, next_id = 2\<rparr>\<rparr>"

definition ex_world :: "db \<Rightarrow> unit world" where
  "ex_world d = \<lparr>w_db = d, w_fs = \<lparr>fs_files = [''/tmp/ca.pem'' \<mapsto> ''pem''], fs_dirs = {}\<rparr>,
     w_log = [], w_ext = ()\<rparr>"

definition ex_manager_env :: "unit manager_env" where
  "ex_manager_env = \<lparr>pe_sw_version = ''22.12'', pe_system_controller_upgrades = ret 0,
     pe_subcloud_info = (\<lambda>_. raise AttributeError), me_now = ret 0, me_cwd = ''/''\<rparr>"

lemmas ex_defs = ex_group_def ex_subcloud_def ex_status_def ex_strategy_def ex_db_def ex_world_def
  ex_manager_env_def

section \<open>The checks before the creation leave the database alone\<close>

lemma keeps_subcloud_group_get_by_ref [keeps_intros]: "keeps I (subcloud_group_get_by_ref ctx r)"
  unfolding subcloud_group_get_by_ref_def
  by (auto intro!: keeps_intros split: exn.splits)

lemma keeps_parse_strategy_payload: "keeps (\<lambda>w. I (w_db w)) (parse_strategy_payload ctx payload)"
  unfolding parse_strategy_payload_def read_int_def Let_def
  by (intro keeps_intros keeps_db_io)

lemma keeps_prestage_error [keeps_intros]: "keeps I m \<Longrightarrow> keeps I (prestage_error_to_bad_request m)"
  unfolding prestage_error_to_bad_request_def
  by (auto intro!: keeps_intros split: exn.splits)

lemma keeps_check_named_subcloud:
  "keeps (\<lambda>w. I (w_db w)) (check_named_subcloud env ctx payload t p)"
  unfolding check_named_subcloud_def
  by (intro keeps_intros keeps_db_io) (auto intro!: keeps_intros split: exn.splits)

lemma keeps_build_extra_args: "keeps (\<lambda>w. I (w_db w)) (build_extra_args env payload t p v)"
  unfolding build_extra_args_def by (intro keeps_intros)

lemma keeps_subclouds_with_status [keeps_intros]: "keeps I (subclouds_with_status ctx g)"
  unfolding subclouds_with_status_def by (intro keeps_intros)

lemma keeps_check_status_known [keeps_intros]: "keeps I (check_status_known t p sb acc)"
  unfolding check_status_known_def
  by (auto intro!: keeps_intros split: exn.splits prod.splits option.splits)

lemma keeps_text_of [keeps_intros]: "keeps I (text_of v)"
  unfolding text_of_def by (auto intro!: keeps_intros split: jval.splits)

lemma keeps_require_valid [keeps_intros]: "keeps I (require_valid r)"
  unfolding require_valid_def by (intro keeps_intros)

lemma keeps_process_extra_args_creation:
  "keeps (\<lambda>w. I (w_db w)) (process_extra_args_creation env t x)"
  unfolding process_extra_args_creation_def Let_def by (intro keeps_intros)

lemma keeps_process_extra_args_deletion:
  "keeps (\<lambda>w. I (w_db w)) (process_extra_args_deletion env s)"
  unfolding process_extra_args_deletion_def by (intro keeps_intros)

lemma keeps_strategy_checks: "keeps (\<lambda>w. I (w_db w)) (strategy_checks env ctx payload t)"
  unfolding strategy_checks_def
  by (intro keeps_intros keeps_db_io keeps_parse_strategy_payload keeps_check_named_subcloud
      keeps_build_extra_args keeps_process_extra_args_creation)

lemma strategy_checks_db: "strategy_checks env ctx payload t w = (r, w') \<Longrightarrow> w_db w' = w_db w"
  using keepsD [OF keeps_strategy_checks [where I = "\<lambda>d. d = w_db w"], of w] by (metis snd_conv)

lemma strategy_checks_params:
  "strategy_checks env ctx payload t w = (Inr (p, x), w') \<Longrightarrow>
     fst (parse_strategy_payload ctx payload w) = Inr p"
  by (auto simp: strategy_checks_def bnd_Inr_iff seq_Inr_iff)

section \<open>The strategy is created once\<close>

lemma strategy_matches_None [simp]: "strategy_matches None s"
  by (simp add: strategy_matches_def)

lemma target_groups_strategies [simp]:
  "target_groups p (d\<lparr>sw_update_strategies := x\<rparr>) = target_groups p d"
  by (cases "cp_single_group p") (simp_all add: target_groups_def)

lemma strategy_get_NotFound:
  assumes "sw_update_strategy_get ctx None d = (Inl e, d')" and "is_NotFound e"
  shows "d' = d \<and> rows (sw_update_strategies d) = []"
proof -
  have "is_admin_context ctx d = (Inl e', d'') \<Longrightarrow> \<not> is_NotFound e'" for e' d''
    by (auto simp: is_admin_context_def split: option.splits)
  then show ?thesis using assms
    by (auto simp: sw_update_strategy_get_def require_context_def first_or_def bnd_apply
        query_first_def is_admin_context_def find_None_iff
        split: option.splits if_splits intro: equals0I)
qed

lemma sw_update_strategy_create_Inr:
  "sw_update_strategy_create ctx t a m f st x d = (Inr s, d') \<Longrightarrow>
     st_type s = t \<and> st_state s = st \<and> st_subcloud_apply_type s = a \<and>
     st_max_parallel_subclouds s = m \<and> st_stop_on_failure s = f \<and> st_extra_args s = x \<and>
     (\<exists>tbl. d' = d\<lparr>sw_update_strategies := tbl\<rparr> \<and> rows tbl = rows (sw_update_strategies d) @ [s])"
  unfolding sw_update_strategy_create_def
  by (auto dest!: require_Inr simp: write_session_def bnd_apply seq_apply Let_def
      split: sum.splits prod.splits if_splits)

lemma steps_ok_strategies [simp]:
  "steps_ok t p gs (d\<lparr>sw_update_strategies := x\<rparr>) ss = steps_ok t p gs d ss"
  by (simp add: steps_ok_def stage_ok_def step_ok_def step_in_group_def selected_def)

lemma create_sw_update_strategy_Inr:
  assumes "create_sw_update_strategy env ctx payload t w = (Inr s, w')"
  obtains p x w1 where
    "rows (sw_update_strategies (w_db w)) = []"
    "strategy_checks env ctx payload t w = (Inr (p, x), w1)" "w_db w1 = w_db w"
    "create_strategy_and_steps env ctx t p x w1 = (Inr s, w')"
proof -
  obtain e d where get: "sw_update_strategy_get ctx None (w_db w) = (Inl e, d)" "is_NotFound e"
    using assms
    by (auto simp: create_sw_update_strategy_def try_else_def db_io_apply
        split: prod.splits sum.splits if_splits)
  from strategy_get_NotFound [OF this]
  have none: "rows (sw_update_strategies (w_db w)) = []" and "d = w_db w" by auto
  then have "bnd (strategy_checks env ctx payload t) (\<lambda>(p, x).
      create_strategy_and_steps env ctx t p x) w = (Inr s, w')"
    using assms get by (simp add: create_sw_update_strategy_def try_else_def db_io_apply)
  then obtain p x w1 where *: "strategy_checks env ctx payload t w = (Inr (p, x), w1)"
    "create_strategy_and_steps env ctx t p x w1 = (Inr s, w')"
    by (auto simp: bnd_Inr_iff)
  show thesis by (rule that [OF none *(1) strategy_checks_db [OF *(1)] *(2)])
qed

lemma create_strategy_and_steps_Inr:
  assumes "create_strategy_and_steps env ctx t p x w = (Inr s, w')"
    and "rows (strategy_steps (w_db w)) = []"
  shows "st_type s = t \<and> st_state s = SW_UPDATE_STATE_INITIAL \<and>
    rows (sw_update_strategies (w_db w')) = rows (sw_update_strategies (w_db w)) @ [s] \<and>
    rows (strategy_steps (w_db w')) \<noteq> [] \<and>
    steps_ok t p (target_groups p (w_db w)) (w_db w) (rows (strategy_steps (w_db w')))"
proof -
  obtain d1 a d2 where
    c: "sw_update_strategy_create ctx t (cp_apply_type p) (cp_max_parallel p) (cp_stop_on_failure p)
          SW_UPDATE_STATE_INITIAL x (w_db w) = (Inr s, d1)"
    and k: "create_steps ctx t p d1 = (Inr a, d2)" and a: "gs_created a" and w': "w_db w' = d2"
    using assms(1)
    by (auto simp: create_strategy_and_steps_def bnd_Inr_iff db_io_Inr_iff seq_Inr_iff
        split: if_splits)
  from sw_update_strategy_create_Inr [OF c] obtain tbl where
    d1: "d1 = (w_db w)\<lparr>sw_update_strategies := tbl\<rparr>"
      "rows tbl = rows (sw_update_strategies (w_db w)) @ [s]"
    and s: "st_type s = t" "st_state s = SW_UPDATE_STATE_INITIAL" by auto
  have "only_steps d1 d2" and "steps_ok t p (target_groups p d1) d1 (rows (strategy_steps d2))"
    and "rows (strategy_steps d2) \<noteq> []"
    using create_steps_ensures [OF _ k] assms(2) a by (simp_all add: d1)
  then show ?thesis using s d1 w' only_steps_fields(4) [of d1 d2]
    by simp
qed

text \<open>C4: A created strategy is in state initial and is the only one, and its steps honour the
  request: they are numbered in the order of the stages, a stage never mixes groups nor exceeds
  the parallelism of its group (one subcloud when serial), and every step is initial and for a
  managed subcloud the request selects, online (or forced, for an upgrade), whose sync status
  asks for the update.\<close>

theorem create_strategy_steps:
  assumes "create_sw_update_strategy env ctx payload t w = (Inr s, w')"
    and "rows (strategy_steps (w_db w)) = []"
  shows "rows (sw_update_strategies (w_db w')) = [s] \<and> st_type s = t \<and>
    st_state s = SW_UPDATE_STATE_INITIAL \<and> rows (strategy_steps (w_db w')) \<noteq> [] \<and>
    (\<exists>p. fst (parse_strategy_payload ctx payload w) = Inr p \<and>
       steps_ok t p (target_groups p (w_db w)) (w_db w) (rows (strategy_steps (w_db w'))))"
  using assms(1)
proof (rule create_sw_update_strategy_Inr)
  fix p x w1
  assume *: "rows (sw_update_strategies (w_db w)) = []"
    "strategy_checks env ctx payload t w = (Inr (p, x), w1)" "w_db w1 = w_db w"
    "create_strategy_and_steps env ctx t p x w1 = (Inr s, w')"
  then show ?thesis
    using create_strategy_and_steps_Inr [OF *(4)] assms(2) strategy_checks_params [OF *(2)] by auto
qed

lemma ex_create_runs:
  "\<not> isl (fst (create_sw_update_strategy ex_manager_env admin_context Map.empty
     SW_UPDATE_TYPE_PATCH (ex_world (ex_db []))))"
  by code_simp

theorem create_strategy_steps_witness:
  "\<exists>s w'. create_sw_update_strategy ex_manager_env admin_context Map.empty SW_UPDATE_TYPE_PATCH
       (ex_world (ex_db [])) = (Inr s, w') \<and> rows (sw_update_strategies (w_db w')) = [s] \<and>
     rows (strategy_steps (w_db w')) \<noteq> []"
proof -
  obtain s w' where run: "create_sw_update_strategy ex_manager_env admin_context Map.empty
      SW_UPDATE_TYPE_PATCH (ex_world (ex_db [])) = (Inr s, w')"
    using ex_create_runs
    by (cases "create_sw_update_strategy ex_manager_env admin_context Map.empty
      SW_UPDATE_TYPE_PATCH (ex_world (ex_db []))", cases "fst (create_sw_update_strategy
      ex_manager_env admin_context Map.empty SW_UPDATE_TYPE_PATCH (ex_world (ex_db [])))") auto
  have "rows (strategy_steps (w_db (ex_world (ex_db [])))) = []"
    by (simp add: ex_defs empty_db_def)
  from create_strategy_steps [OF run this] run show ?thesis by blast
qed

section \<open>The states of the strategy\<close>

lemma strategy_values_state [simp]:
  "strategy_values (Some st) None s = s\<lparr>st_state := st\<rparr>"
  by (simp add: strategy_values_def)

text \<open>The one strategy, seen and changed by the operations.\<close>

definition the_strategy :: "db \<Rightarrow> sw_update_strategy option" where
  "the_strategy d = (case rows (sw_update_strategies d) of [s] \<Rightarrow> Some s | _ \<Rightarrow> None)"

lemma change_strategy_state_spec:
  assumes "the_strategy d = Some s" and "get_type \<in> {None, Some (st_type s)}"
    and "update_type \<in> {None, Some (st_type s)}"
  shows "change_strategy_state admin_context get_type update_type allowed verb st d =
    (if st_state s \<in> set allowed
     then (Inr (s\<lparr>st_state := st\<rparr>),
           d\<lparr>sw_update_strategies := (sw_update_strategies d)\<lparr>rows := [s\<lparr>st_state := st\<rparr>]\<rparr>\<rparr>)
     else (Inl (BadRequest ''strategy'' (''Strategy in state '' @ sw_state_str (st_state s) @
             '' cannot be '' @ verb)), d))"
proof -
  have "rows (sw_update_strategies d) = [s]"
    using assms(1) by (auto simp: the_strategy_def split: list.splits)
  then show ?thesis using assms(2,3)
    by (auto simp: change_strategy_state_def sw_update_strategy_get_def first_or_def bnd_apply
        seq_apply query_first_def strategy_matches_def strategy_error_def
        sw_update_strategy_update_def write_session_def update_row_def map_rows_def)
qed

text \<open>C5: The strategy's state machine as the user drives it: only an initial strategy can be
  applied and becomes applying, only an applying one can be aborted and becomes abort
  requested; in any other state the request is refused and the database is left as it was.\<close>

theorem apply_and_abort_strategy:
  assumes "the_strategy (w_db w) = Some s" and "ty \<in> {None, Some (st_type s)}"
  shows "apply_sw_update_strategy admin_context ty w =
      (if st_state s = SW_UPDATE_STATE_INITIAL
       then (Inr (s\<lparr>st_state := SW_UPDATE_STATE_APPLYING\<rparr>),
             w\<lparr>w_db := (w_db w)\<lparr>sw_update_strategies := (sw_update_strategies (w_db w))
                \<lparr>rows := [s\<lparr>st_state := SW_UPDATE_STATE_APPLYING\<rparr>]\<rparr>\<rparr>\<rparr>)
       else (Inl (BadRequest ''strategy'' (''Strategy in state '' @ sw_state_str (st_state s) @
               '' cannot be applied'')), w)) \<and>
    abort_sw_update_strategy admin_context ty w =
      (if st_state s = SW_UPDATE_STATE_APPLYING
       then (Inr (s\<lparr>st_state := SW_UPDATE_STATE_ABORT_REQUESTED\<rparr>),
             w\<lparr>w_db := (w_db w)\<lparr>sw_update_strategies := (sw_update_strategies (w_db w))
                \<lparr>rows := [s\<lparr>st_state := SW_UPDATE_STATE_ABORT_REQUESTED\<rparr>]\<rparr>\<rparr>\<rparr>)
       else (Inl (BadRequest ''strategy'' (''Strategy in state '' @ sw_state_str (st_state s) @
               '' cannot be aborted'')), w))"
  using assms
  by (auto simp: apply_sw_update_strategy_def abort_sw_update_strategy_def db_io_apply
      change_strategy_state_spec)

theorem apply_and_abort_strategy_witness:
  "apply_sw_update_strategy admin_context None (ex_world (ex_db [ex_strategy SW_UPDATE_STATE_APPLYING])) =
     (Inl (BadRequest ''strategy'' ''Strategy in state applying cannot be applied''),
      ex_world (ex_db [ex_strategy SW_UPDATE_STATE_APPLYING]))"
  using apply_and_abort_strategy [of "ex_world (ex_db [ex_strategy SW_UPDATE_STATE_APPLYING])"
      "ex_strategy SW_UPDATE_STATE_APPLYING" None]
  by (simp add: ex_defs the_strategy_def)

text \<open>C6: A strategy that is being applied or aborted is not deleted under the orchestrator: the
  request is refused and nothing changes. In the resting states the strategy is marked for
  deletion, and only it, and the steps are left for the orchestrator.\<close>

theorem delete_strategy:
  assumes "the_strategy (w_db w) = Some s" and "ty \<in> {None, Some (st_type s)}"
  shows "(st_state s \<in> {SW_UPDATE_STATE_APPLYING, SW_UPDATE_STATE_ABORT_REQUESTED,
            SW_UPDATE_STATE_ABORTING, SW_UPDATE_STATE_DELETING, SW_UPDATE_STATE_DELETED} \<longrightarrow>
          snd (delete_sw_update_strategy env admin_context ty w) = w) \<and>
    (st_state s \<in> {SW_UPDATE_STATE_INITIAL, SW_UPDATE_STATE_COMPLETE, SW_UPDATE_STATE_FAILED,
            SW_UPDATE_STATE_ABORTED} \<longrightarrow>
          w_db (snd (delete_sw_update_strategy env admin_context ty w)) =
            (w_db w)\<lparr>sw_update_strategies := (sw_update_strategies (w_db w))
                \<lparr>rows := [s\<lparr>st_state := SW_UPDATE_STATE_DELETING\<rparr>]\<rparr>\<rparr>)"
proof -
  have del: "w_db (snd (process_extra_args_deletion env s v)) = w_db v" for s :: sw_update_strategy and v
    using keepsD [OF keeps_process_extra_args_deletion [where I = "\<lambda>d. d = w_db v"], of v] by simp
  show ?thesis using assms
    by (auto simp: delete_sw_update_strategy_def db_io_apply change_strategy_state_spec bnd_apply
        seq_apply del split: prod.splits sum.splits) (metis del snd_conv world.select_convs(1) world.surjective world.update_convs(1))+
qed

theorem delete_strategy_witness:
  "snd (delete_sw_update_strategy ex_manager_env admin_context None
       (ex_world (ex_db [ex_strategy SW_UPDATE_STATE_APPLYING])))
     = ex_world (ex_db [ex_strategy SW_UPDATE_STATE_APPLYING])"
  using delete_strategy [of "ex_world (ex_db [ex_strategy SW_UPDATE_STATE_APPLYING])"
      "ex_strategy SW_UPDATE_STATE_APPLYING" None ex_manager_env]
  by (simp add: ex_defs the_strategy_def)

section \<open>The certificate of a kube rootca update\<close>

text \<open>Removing a vault file either does nothing or removes exactly the named file, which then
  lies under the vault directory.\<close>

theorem vault_remove_confined:
  "vault_remove cwd dir f s = (Inr (), s) \<or>
   startswith f (abspath cwd dir @ ''/'') \<and> isfile f s \<and>
     vault_remove cwd dir f s = (Inr (), s\<lparr>fs_files := (fs_files s)(f := None)\<rparr>)"
  by (auto simp: vault_remove_def bnd_apply when_io_def remove_file_def)

lemma abspath_certs: "abspath cwd CERTS_VAULT_DIR = CERTS_VAULT_DIR"
  by (simp add: abspath_def path_join_def CERTS_VAULT_DIR_def norm_step_def)

definition certificate_in_vault :: "string \<Rightarrow> string" where
  "certificate_in_vault f = CERTS_VAULT_DIR @ ''/'' @ basename f"

lemma vault_upload_certs:
  assumes "fs_files s f = Some c" and "f \<noteq> certificate_in_vault f"
  shows "vault_upload CERTS_VAULT_DIR f s =
    (Inr (certificate_in_vault f),
     s\<lparr>fs_files := (fs_files s)(certificate_in_vault f \<mapsto> c),
       fs_dirs := insert CERTS_VAULT_DIR (fs_dirs s)\<rparr>)"
proof -
  have "path_join CERTS_VAULT_DIR (basename f) = certificate_in_vault f"
    using basename_no_slash
    by (simp add: path_join_relative certificate_in_vault_def CERTS_VAULT_DIR_def)
  then show ?thesis using assms
    by (auto simp: vault_upload_def bnd_apply seq_apply unless_io_def isdir_def makedirs_def
        copy_file_def insert_absorb Let_def)
qed

lemma vault_remove_certs:
  "vault_remove cwd CERTS_VAULT_DIR (certificate_in_vault f) s =
    (Inr (), if isfile (certificate_in_vault f) s
             then s\<lparr>fs_files := (fs_files s)(certificate_in_vault f := None)\<rparr> else s)"
  by (simp add: vault_remove_def bnd_apply when_io_def remove_file_def abspath_certs
      certificate_in_vault_def startswith_def)

text \<open>The certificate of a kube rootca strategy is copied to the vault when the strategy is
  created, the strategy remembers the copy, and deleting the strategy removes that copy and no
  other file.\<close>

theorem certificate_roundtrip:
  assumes "jget args EXTRA_ARGS_CERT_FILE = JStr f" and "fs_files (w_fs w) f = Some c"
    and "\<not> truthy (jget args EXTRA_ARGS_EXPIRY_DATE)" and "\<not> truthy (jget args EXTRA_ARGS_SUBJECT)"
    and "f \<noteq> []" and "f \<noteq> certificate_in_vault f"
  shows "\<exists>args' w'.
    process_extra_args_creation env SW_UPDATE_TYPE_KUBE_ROOTCA_UPDATE (Some args) w =
       (Inr (Some args'), w') \<and>
    fs_files (w_fs w') = (fs_files (w_fs w))(certificate_in_vault f \<mapsto> c) \<and>
    (\<forall>s v. st_type s = SW_UPDATE_TYPE_KUBE_ROOTCA_UPDATE \<longrightarrow> st_extra_args s = Some args' \<longrightarrow>
       w_fs v = w_fs w' \<longrightarrow>
       fs_files (w_fs (snd (process_extra_args_deletion env s v))) =
         (fs_files (w_fs w))(certificate_in_vault f := None))"
proof -
  let ?args = "args(EXTRA_ARGS_CERT_FILE \<mapsto> JStr (certificate_in_vault f))"
  let ?w = "w\<lparr>w_fs := (w_fs w)\<lparr>fs_files := (fs_files (w_fs w))(certificate_in_vault f \<mapsto> c),
       fs_dirs := insert CERTS_VAULT_DIR (fs_dirs (w_fs w))\<rparr>\<rparr>"
  have "process_extra_args_creation env SW_UPDATE_TYPE_KUBE_ROOTCA_UPDATE (Some args) w =
      (Inr (Some ?args), ?w)"
    using assms
    by (simp add: process_extra_args_creation_def when_io_def text_of_def bnd_apply fs_io_apply
        vault_upload_certs)
  moreover have "jget ?args EXTRA_ARGS_CERT_FILE = JStr (certificate_in_vault f)"
    by (simp add: jget_def)
  moreover have "certificate_in_vault f \<noteq> []" by (simp add: certificate_in_vault_def)
  ultimately show ?thesis
    by (intro exI [of _ ?args] exI [of _ ?w])
      (simp add: process_extra_args_deletion_def when_io_def text_of_def fs_io_apply
        vault_remove_certs isfile_def)
qed

theorem certificate_roundtrip_witness:
  "\<exists>args' w'. process_extra_args_creation ex_manager_env SW_UPDATE_TYPE_KUBE_ROOTCA_UPDATE
       (Some [EXTRA_ARGS_CERT_FILE \<mapsto> JStr ''/tmp/ca.pem'']) (ex_world (ex_db [])) = (Inr (Some args'), w') \<and>
     fs_files (w_fs w') (certificate_in_vault ''/tmp/ca.pem'') = Some ''pem''"
  using certificate_roundtrip [of "[EXTRA_ARGS_CERT_FILE \<mapsto> JStr ''/tmp/ca.pem'']" "''/tmp/ca.pem''"
      "ex_world (ex_db [])" "''pem''" ex_manager_env]
  by (auto simp: jget_def extra_args_keys ex_defs certificate_in_vault_def CERTS_VAULT_DIR_def)

section \<open>The schema is kept\<close>

lemma keeps_world_strategy_checks: "keeps world_wf (strategy_checks env ctx payload t)"
  unfolding world_wf_def by (rule keeps_strategy_checks)

lemma keeps_world_deletion: "keeps world_wf (process_extra_args_deletion env s)"
  unfolding world_wf_def by (rule keeps_process_extra_args_deletion)

lemma create_steps_wf [db_wf_keeps]: "keeps db_wf (create_steps ctx t p)"
  unfolding create_steps_def add_steps_for_group_def add_steps_for_subcloud_def
    add_step_for_status_def Let_def
  by (intro keeps_intros db_wf_keeps)

lemma change_strategy_state_wf [db_wf_keeps]: "keeps db_wf (change_strategy_state ctx g u a v st)"
  unfolding change_strategy_state_def by (intro keeps_intros db_wf_keeps)

text \<open>However they end, the operations on the strategy leave a database that honours the
  schema: keys unique, at most one strategy of a type, at most one step per subcloud, no step
  for a subcloud that is not there.\<close>

theorem manager_keeps_schema:
  "keeps world_wf (create_sw_update_strategy env ctx payload t) \<and>
   keeps world_wf (delete_sw_update_strategy env ctx ty) \<and>
   keeps world_wf (apply_sw_update_strategy ctx ty) \<and>
   keeps world_wf (abort_sw_update_strategy ctx ty)"
  unfolding create_sw_update_strategy_def create_strategy_and_steps_def delete_sw_update_strategy_def
    apply_sw_update_strategy_def abort_sw_update_strategy_def
  by (intro conjI keeps_intros db_wf_keeps keeps_world_strategy_checks keeps_world_deletion)

end
