(* ===== verification/DC_AuditProps.thy ===== *)
theory DC_AuditProps
  imports DC_AuditManager DC_StateProps DC_Manager_Props
begin

text \<open>
  What the audits promise: the patch audit agrees with the plan of the patch orchestration, a
  subcloud is declared offline only after repeated failures, a request for an audit survives until
  the audit has run, the batches share out all subclouds, and no audit breaks the invariant of the
  state manager.
\<close>

section \<open>The patch audit\<close>

text \<open>The patches of a subcloud are aligned with those of RegionOne.\<close>

definition aligned :: "patch_audit_data \<Rightarrow> string list \<Rightarrow> patches \<Rightarrow> bool" where
  "aligned data loads ps \<longleftrightarrow>
     (\<forall>(i, p) \<in> set ps.
        pt_patchstate p = PATCH_STATE_APPLIED \<and> i \<in> set (pa_applied_patch_ids data) \<or>
        pt_patchstate p = PATCH_STATE_COMMITTED \<and>
          i \<in> set (pa_applied_patch_ids data) \<union> set (pa_committed_patch_ids data)) \<and>
     (\<forall>i \<in> set (pa_applied_patch_ids data) \<union> set (pa_committed_patch_ids data). \<forall>p.
        map_of (pa_patches data) i = Some p \<longrightarrow> pt_sw_version p \<in> set loads \<longrightarrow> i \<in> fst ` set ps)"

lemma patches_differ_iff:
  "patches_differ data ps out \<longleftrightarrow> out \<or> \<not> (\<forall>(i, p) \<in> set ps.
     pt_patchstate p = PATCH_STATE_APPLIED \<and> i \<in> set (pa_applied_patch_ids data) \<or>
     pt_patchstate p = PATCH_STATE_COMMITTED \<and>
       i \<in> set (pa_applied_patch_ids data) \<union> set (pa_committed_patch_ids data))"
  by (induction data ps out rule: patches_differ.induct) (auto simp: patch_states)

lemma patches_missing_Inr:
  assumes "set is \<subseteq> fst ` set (pa_patches data)"
  shows "patches_missing data loads ps is out = Inr (out \<or> (\<exists>i \<in> set is. \<exists>p.
    map_of (pa_patches data) i = Some p \<and> pt_sw_version p \<in> set loads \<and> i \<notin> fst ` set ps))"
  using assms
proof (induction "is" arbitrary: out)
  case Nil
  then show ?case by simp
next
  case (Cons i "is")
  obtain p where "map_of (pa_patches data) i = Some p"
    using Cons.prems map_of_eq_None_iff [of "pa_patches data" i] by auto
  then show ?case using Cons by auto
qed

lemma patch_out_of_sync_aligned:
  assumes "set (pa_applied_patch_ids data) \<union> set (pa_committed_patch_ids data) \<subseteq> fst ` set (pa_patches data)"
  shows "patch_out_of_sync data loads ps = Inr (\<not> aligned data loads ps)"
proof -
  have "set (pa_applied_patch_ids data) \<subseteq> fst ` set (pa_patches data)"
    "set (pa_committed_patch_ids data) \<subseteq> fst ` set (pa_patches data)" using assms by auto
  then show ?thesis
    by (auto simp: patch_out_of_sync_def patches_missing_Inr patches_differ_iff aligned_def)
qed

section \<open>Availability\<close>

text \<open>The failures at the end of a history of probes, the latest of which is the last.\<close>

definition trailing_failures :: "availability list \<Rightarrow> nat" where
  "trailing_failures ps = length (takeWhile (\<lambda>p. p = AVAILABILITY_OFFLINE) (rev ps))"

lemma trailing_failures_snoc:
  "trailing_failures (ps @ [p]) = (if p = AVAILABILITY_OFFLINE then Suc (trailing_failures ps) else 0)"
  by (simp add: trailing_failures_def)

text \<open>The alarm service and the transport to the state service answer.\<close>

definition answers :: "('x, 'a) io \<Rightarrow> bool" where
  "answers m \<longleftrightarrow> (\<forall>x. \<exists>y z. m x = (Inr y, z))"

definition services_answer :: "'x worker_env \<Rightarrow> bool" where
  "services_answer env \<longleftrightarrow>
     (\<forall>n. answers (wk_state_rpc env n)) \<and> (\<forall>a n. answers (se_get_fault (wk_state env) a n))"

lemma answersE:
  assumes "answers m"
  obtains y z where "m x = (Inr y, z)"
  using assms unfolding answers_def by blast

lemma set_or_clear_runs:
  assumes "answers (se_get_fault env a en)"
  shows "\<exists>w'. set_or_clear env a en c st w = (Inr (), w') \<and> w_db w' = w_db w"
proof -
  obtain y z where "se_get_fault env a en (w_ext w) = (Inr y, z)" using assms by (rule answersE)
  then show ?thesis
    by (cases "se_clear_fault env a en z"; cases "se_set_fault env a en z")
      (auto simp: set_or_clear_def bnd_apply ask_apply try_catch_def call_apply split: sum.splits)
qed

lemma alarms_run:
  assumes "\<forall>en. answers (se_get_fault env SUBCLOUD_RESOURCE_OUT_OF_SYNC en)"
  shows "\<exists>w'. for_each (\<lambda>e. update_sync_alarm env n e s al) es w = (Inr (), w') \<and> w_db w' = w_db w"
proof (induction es arbitrary: w)
  case Nil
  then show ?case by simp
next
  case (Cons e es)
  obtain w1 where w1: "update_sync_alarm env n e s al w = (Inr (), w1)" "w_db w1 = w_db w"
    using set_or_clear_runs assms unfolding update_sync_alarm_def by blast
  then show ?case using Cons [of w1] by (auto simp: seq_apply)
qed

lemma update_endpoints_subclouds:
  "subclouds (snd (subcloud_status_update_endpoints ctx i es s d)) = subclouds d"
proof -
  obtain x d' where run: "subcloud_status_update_endpoints ctx i es s d = (x, d')" by fastforce
  show ?thesis using subcloud_status_update_endpoints_effect [OF run] run by auto
qed

lemma update_all_runs:
  assumes "\<forall>en. answers (se_get_fault env SUBCLOUD_RESOURCE_OUT_OF_SYNC en)"
  shows "\<exists>w'. update_all_endpoints env ctx sc sts s al ig w = (Inr (), w') \<and> subclouds (w_db w') = subclouds (w_db w)"
proof -
  let ?es = "filter (\<lambda>e. e \<notin> set ig) (map ss_endpoint_type sts)"
  obtain w1 where w1: "for_each (\<lambda>e. update_sync_alarm env (sc_name sc) e s al) ?es w = (Inr (), w1)"
    "w_db w1 = w_db w" using alarms_run [OF assms] by blast
  obtain x d' where u: "subcloud_status_update_endpoints ctx (sc_id sc) ?es s (w_db w1) = (x, d')" by fastforce
  then have "subclouds d' = subclouds (w_db w1)"
    using update_endpoints_subclouds [of ctx "sc_id sc" ?es s "w_db w1"] by simp
  then show ?thesis
    using w1 u by (auto simp: update_all_endpoints_def Let_def seq_apply when_io_def try_catch_def
        db_io_apply split: sum.splits)
qed

lemma find_by_id:
  assumes "db_wf d" and "sc \<in> set (rows (subclouds d))"
  shows "query_first (\<lambda>r. sc_id r = sc_id sc) (subclouds d) = Some sc"
  using assms query_first_key [of sc_id "subclouds d" sc] by (auto simp: db_wf_defs)

lemma find_by_name:
  assumes "db_wf d" and "sc \<in> set (rows (subclouds d))"
  shows "query_first (\<lambda>r. sc_name r = sc_name sc) (subclouds d) = Some sc"
proof -
  have "distinct (map sc_name (rows (subclouds d)))" using assms(1) by (simp add: db_wf_defs)
  from find_unique [OF this assms(2)] show ?thesis by (simp add: query_first_def)
qed

lemma subcloud_update_runs:
  assumes "db_wf d" and "sc \<in> set (rows (subclouds d))" and "sv_group_id v = None"
  shows "subcloud_update admin_context (sc_id sc) v d = (Inr (apply_subcloud_values v sc),
    d\<lparr>subclouds := map_rows (\<lambda>r. if sc_id r = sc_id sc then apply_subcloud_values v r else r) (subclouds d)\<rparr>)"
  using find_by_id [OF assms(1,2)] assms(3)
  by (simp add: subcloud_update_def subcloud_get_def first_or_apply bnd_apply seq_apply write_session_def
      update_subclouds_where_def group_known_def)

lemma filter_unique: "distinct (map key rs) \<Longrightarrow> r \<in> set rs \<Longrightarrow> filter (\<lambda>x. key x = key r) rs = [r]"
  by (induction rs) (auto simp: filter_empty_conv, metis image_eqI)

lemma with_status_runs:
  assumes wf: "db_wf d" and sc: "sc \<in> set (rows (subclouds d))"
  shows "\<exists>ps. subcloud_get_with_status admin_context (sc_id sc) d = (Inr ps, d) \<and> fst (last ps) = sc"
proof -
  have tw: "table_wf sc_id (subclouds d)" using wf by (simp add: db_wf_defs)
  then have "query_all (\<lambda>r. sc_id r = sc_id sc) (subclouds d) = [sc]"
    using sc filter_unique table_wf_distinct unfolding query_all_def by metis
  then have run: "subcloud_get_with_status admin_context (sc_id sc) d =
      (Inr (sort_key (map_option ss_endpoint_type \<circ> snd) (outer_join_status d sc)), d)" (is "_ = (Inr ?ps, d)")
    using outer_join_status_nonempty [of d sc]
    by (simp add: subcloud_get_with_status_def bnd_apply) (metis set_empty set_sort)
  have "fst (last ?ps) \<in> set (rows (subclouds d)) \<and> sc_id (fst (last ?ps)) = sc_id sc"
    using subcloud_get_with_status_found [OF run] last_in_set by blast
  then have "fst (last ?ps) = sc" using table_wf_key_inj [OF tw] sc by blast
  then show ?thesis using run by blast
qed

lemma update_named_runs:
  assumes "\<forall>en. answers (se_get_fault env SUBCLOUD_RESOURCE_OUT_OF_SYNC en)"
    and wf: "db_wf (w_db w)" and sc: "sc \<in> set (rows (subclouds (w_db w)))" "sc_name sc \<noteq> []"
  shows "\<exists>w'. update_named_endpoint_status env admin_context (sc_name sc) None SYNC_STATUS_UNKNOWN al [] w =
    (Inr (), w') \<and> subclouds (w_db w') = subclouds (w_db w)"
proof -
  obtain ps where ps: "subcloud_get_with_status admin_context (sc_id sc) (w_db w) = (Inr ps, w_db w)"
    "fst (last ps) = sc" using with_status_runs [OF wf sc(1)] by blast
  obtain w' where "update_all_endpoints env admin_context sc (List.map_filter snd ps) SYNC_STATUS_UNKNOWN al [] w =
      (Inr (), w')" "subclouds (w_db w') = subclouds (w_db w)" using update_all_runs [OF assms(1)] by blast
  then show ?thesis
    using ps sc(2) find_by_name [OF wf sc(1)]
    by (simp add: update_named_endpoint_status_def bnd_apply db_io_apply subcloud_get_by_name_def
        first_or_apply sync_update_allowed_def do_update_subcloud_endpoint_status_def Let_def)
qed

text \<open>What the state manager writes for a new availability.\<close>

definition set_availability :: "nat \<Rightarrow> availability \<Rightarrow> nat \<Rightarrow> subcloud table \<Rightarrow> subcloud table" where
  "set_availability i a n = map_rows (\<lambda>r. if sc_id r = i
     then r\<lparr>sc_availability_status := a, sc_audit_fail_count := n\<rparr> else r)"

lemma subcloud_goes_runs:
  assumes env: "\<forall>a en. answers (se_get_fault env a en)"
    and inv: "sync_inv (w_db w)" and sc: "sc \<in> set (rows (subclouds (w_db w)))" "sc_name sc \<noteq> []"
  shows "\<exists>x w'. subcloud_goes env admin_context sc (sc_name sc) a (Some n) w = (x, w') \<and>
    subclouds (w_db w') = set_availability (sc_id sc) a n (subclouds (w_db w))"
proof -
  let ?v = "no_values\<lparr>sv_availability_status := Some a, sv_audit_fail_count := Some n\<rparr>"
  have wf: "db_wf (w_db w)" using inv by (simp add: sync_inv_def)
  obtain w1 where w1: "raise_or_clear_subcloud_status_alarm env (sc_name sc) a w = (Inr (), w1)" "w_db w1 = w_db w"
    using set_or_clear_runs env unfolding raise_or_clear_subcloud_status_alarm_def by blast
  let ?m = "when_io (a = AVAILABILITY_OFFLINE) (update_named_endpoint_status env admin_context (sc_name sc) None
      SYNC_STATUS_UNKNOWN True [])"
  obtain w2 where w2: "?m w1 = (Inr (), w2)" "subclouds (w_db w2) = subclouds (w_db w)"
    using update_named_runs [of env w1 sc True] env wf sc w1(2) by (cases "a = AVAILABILITY_OFFLINE") (auto simp: when_io_def)
  have inv2: "db_wf (w_db w2)"
  proof -
    have "keeps_sync ?m" by (intro keeps_intros update_named_inv)
    then show ?thesis using w1 w2 inv keepsD [of "\<lambda>w. sync_inv (w_db w)" ?m w1] by (simp add: sync_inv_def)
  qed
  have val: "apply_subcloud_values ?v r = r\<lparr>sc_availability_status := a, sc_audit_fail_count := n\<rparr>" for r
    by (simp add: no_values_def apply_subcloud_values_def)
  have group: "sv_group_id ?v = None" by (simp add: no_values_def)
  have upd: "subcloud_update admin_context (sc_id sc) ?v (w_db w2) = (Inr (apply_subcloud_values ?v sc),
      (w_db w2)\<lparr>subclouds := set_availability (sc_id sc) a n (subclouds (w_db w))\<rparr>)"
    using subcloud_update_runs [OF inv2, of sc ?v] sc(1) w2(2) val group
    by (simp add: set_availability_def cong: if_cong)
  let ?t = "set_availability (sc_id sc) a n (subclouds (w_db w))"
  let ?w3 = "w2\<lparr>w_db := (w_db w2)\<lparr>subclouds := ?t\<rparr>\<rparr>"
  let ?rest = "seq (when_io (a = AVAILABILITY_ONLINE)
        (seq (call (OnlineNotification (sc_name sc)) (se_subcloud_online env (sc_name sc)))
          (call (AuditRpc ''trigger_subcloud_audits'' (Some (sc_id sc))) (se_trigger_subcloud_audits env (sc_id sc)))))
      (update_subcloud_state env (sc_name sc) (sc_management_state (apply_subcloud_values ?v sc)) (Some a))"
  obtain x w' where rest: "?rest ?w3 = (x, w')" by fastforce
  have "keeps (\<lambda>w. subclouds (w_db w) = ?t) ?rest" by (intro keeps_intros)
  then have "subclouds (w_db w') = ?t" using rest keepsD [of _ ?rest ?w3] by fastforce
  then show ?thesis
    using w1 w2 upd rest
    by (simp add: subcloud_goes_def announce_availability_def write_availability_def seq_apply try_else_def db_io_apply)
qed

lemma availability_rpc_runs:
  assumes env: "services_answer env" and inv: "sync_inv (w_db w)"
    and sc: "sc \<in> set (rows (subclouds (w_db w)))" "sc_name sc \<noteq> []"
  shows "\<exists>w'. update_availability_rpc env (sc_name sc) (Some a) False (Some n) w = (Inr (), w') \<and>
    subclouds (w_db w') = set_availability (sc_id sc) a n (subclouds (w_db w))"
proof -
  have wf: "db_wf (w_db w)" using inv by (simp add: sync_inv_def)
  have "answers (wk_state_rpc env (sc_name sc))" using env by (simp add: services_answer_def)
  then obtain y z where rpc: "wk_state_rpc env (sc_name sc) (w_ext w) = (Inr y, z)" by (rule answersE)
  let ?w = "w\<lparr>w_ext := z\<rparr>"
  obtain x w' where goes: "subcloud_goes (wk_state env) admin_context sc (sc_name sc) a (Some n) ?w = (x, w')"
    "subclouds (w_db w') = set_availability (sc_id sc) a n (subclouds (w_db ?w))"
    using subcloud_goes_runs [of "wk_state env" ?w sc a n] env inv sc by (auto simp: services_answer_def)
  have "update_subcloud_availability (wk_state env) admin_context (sc_name sc) (Some a) False (Some n) ?w = (x, w')"
    using goes(1) find_by_name [OF wf sc(1)]
    by (simp add: update_subcloud_availability_def bnd_apply db_io_apply subcloud_get_by_name_def first_or_apply)
  then have "update_availability_rpc env (sc_name sc) (Some a) False (Some n) w = (Inr (), w')"
    using rpc by (cases x) (simp_all add: update_availability_rpc_def try_catch_def seq_apply ask_apply)
  then show ?thesis using goes(2) by auto
qed

lemma record_availability_runs:
  assumes env: "services_answer env" and inv: "sync_inv (w_db w)"
    and sc: "sc \<in> set (rows (subclouds (w_db w)))" "sc_name sc \<noteq> []"
    and n: "a = AVAILABILITY_ONLINE \<Longrightarrow> a \<noteq> sc_availability_status sc \<Longrightarrow> n = 0"
  shows "\<exists>w'. record_availability env sc b a n w = (Inr (), w') \<and>
    subclouds (w_db w') = set_availability (sc_id sc) a n (subclouds (w_db w))"
proof -
  have wf: "db_wf (w_db w)" using inv by (simp add: sync_inv_def)
  have same: "q = sc" if "q \<in> set (rows (subclouds (w_db w)))" "sc_id q = sc_id sc" for q
    using table_wf_key_inj [of sc_id "subclouds (w_db w)"] that sc(1) wf by (auto simp: db_wf_defs)
  consider "a \<noteq> sc_availability_status sc"
    | "a = sc_availability_status sc" "n \<noteq> sc_audit_fail_count sc"
    | "a = sc_availability_status sc" "n = sc_audit_fail_count sc" by blast
  then show ?thesis
  proof cases
    case 1
    have "(if a = AVAILABILITY_ONLINE then 0 else n) = n" using n [OF _ 1] by simp
    then show ?thesis
      using availability_rpc_runs [OF env inv sc, of a n] 1 by (simp add: record_availability_def)
  next
    case 2
    let ?v = "no_values\<lparr>sv_audit_fail_count := Some n\<rparr>"
    have val: "apply_subcloud_values ?v r = r\<lparr>sc_audit_fail_count := n\<rparr>" for r
      by (simp add: no_values_def apply_subcloud_values_def)
    have group: "sv_group_id ?v = None" by (simp add: no_values_def)
    have "sc\<lparr>sc_availability_status := a, sc_audit_fail_count := n\<rparr> = sc\<lparr>sc_audit_fail_count := n\<rparr>"
      using 2(1) by (cases sc) simp
    then have "(if sc_id r = sc_id sc then r\<lparr>sc_audit_fail_count := n\<rparr> else r) =
        (if sc_id r = sc_id sc then r\<lparr>sc_availability_status := a, sc_audit_fail_count := n\<rparr> else r)"
      if "r \<in> set (rows (subclouds (w_db w)))" for r
      using same [OF that] by auto
    then have "map_rows (\<lambda>r. if sc_id r = sc_id sc then r\<lparr>sc_audit_fail_count := n\<rparr> else r) (subclouds (w_db w)) =
        set_availability (sc_id sc) a n (subclouds (w_db w))"
      unfolding set_availability_def map_rows_def by (simp cong: map_cong)
    then show ?thesis
      using 2 subcloud_update_runs [OF wf sc(1) group] val
      by (simp add: record_availability_def update_subcloud_audit_fail_count_def try_else_def db_io_apply
          cong: if_cong)
  next
    case 3
    have "sc\<lparr>sc_availability_status := a, sc_audit_fail_count := n\<rparr> = sc" using 3 by (cases sc) simp
    then have "(if sc_id r = sc_id sc then r\<lparr>sc_availability_status := a, sc_audit_fail_count := n\<rparr> else r) = r"
      if "r \<in> set (rows (subclouds (w_db w)))" for r
      using same [OF that] by auto
    then have same_table: "set_availability (sc_id sc) a n (subclouds (w_db w)) = subclouds (w_db w)"
      unfolding set_availability_def map_rows_def by (simp add: map_idI)
    let ?rpc = "update_availability_rpc env (sc_name sc) (Some (sc_availability_status sc)) True None"
    obtain x w' where run: "?rpc w = (x, w')" by fastforce
    have "keeps (\<lambda>v. w_db v = w_db w) ?rpc"
      unfolding update_availability_rpc_def update_subcloud_availability_def subcloud_get_by_name_def
      by (intro keeps_intros keeps_db_io) simp_all
    then have dbw: "w_db w' = w_db w" using run keepsD [of _ ?rpc w] by fastforce
    have x: "x = Inr ()" using run
      by (auto simp: update_availability_rpc_def try_catch_def split: sum.splits prod.splits)
    have "record_availability env sc b a n w = (Inr (), if b then w' else w)"
      using 3 run x by (simp add: record_availability_def)
    moreover have "subclouds (w_db (if b then w' else w)) = set_availability (sc_id sc) a n (subclouds (w_db w))"
      using same_table dbw by simp
    ultimately show ?thesis by blast
  qed
qed

lemma record_availability_inv: "keeps_sync (record_availability env sc b a n)"
  unfolding record_availability_def update_availability_rpc_def update_subcloud_audit_fail_count_def
  by (intro keeps_intros update_subcloud_availability_inv keeps_db_io quiet_update_inv)
    (auto simp: no_values_def keeps_ret keeps_raise split: exn.splits)

section \<open>Audits leave the subclouds and the statuses alone\<close>

lemma outside_skip_or_raise [outside_intros]: "outside (skip_or_raise e)"
  unfolding skip_or_raise_def by (intro outside_intros)

lemma outside_audit_clients [outside_intros]:
  "outside (update_sync_status env n e s)" "outside (audit_keystone env r)"
  "outside (audit_endpoint env v r)" "outside (patch_clients env r)" "outside (sysinv_clients env r)"
  unfolding update_sync_status_def audit_keystone_def audit_endpoint_def patch_clients_def
    sysinv_clients_def get_keystone_client_def by (intro outside_intros)+

lemma outside_patch_audit [outside_intros]: "outside (subcloud_patch_audit env n d l)"
  unfolding subcloud_patch_audit_def load_audit_def by (intro outside_intros)

lemma outside_kubernetes_audit [outside_intros]: "outside (subcloud_kubernetes_audit env n d)"
  unfolding subcloud_kubernetes_audit_def Let_def by (intro outside_intros)

lemma outside_rootca_audit [outside_intros]: "outside (subcloud_rootca_audit env n)"
  unfolding subcloud_rootca_audit_def by (intro outside_intros)

lemma outside_find_device_image [outside_intros]: "outside (find_device_image env n im d ss)"
  by (induction ss) (auto simp del: ret_apply intro!: outside_intros)

lemma outside_device_has_image [outside_intros]:
  "outside (check_subcloud_device_has_image env n im ds ss ls)"
  by (induction ds) (auto simp: Let_def simp del: ret_apply intro!: outside_intros split: sum.splits)

lemma outside_all_images [outside_intros]: "outside (all_images_present env n is ds ss ls)"
  by (induction "is") (auto simp del: ret_apply intro!: outside_intros)

lemma outside_enabled_devices [outside_intros]: "outside (enabled_devices env n hs)"
  by (induction hs) (auto simp del: ret_apply intro!: outside_intros)

lemma outside_firmware_audit [outside_intros]: "outside (subcloud_firmware_audit env n d)"
  unfolding subcloud_firmware_audit_def Let_def by (intro outside_intros)

lemma outside_openstack_app [outside_intros]: "outside (audit_subcloud_openstack_app env sc)"
  unfolding audit_subcloud_openstack_app_def by (intro outside_intros)

lemma outside_probes [outside_intros]:
  "outside (probe_clients env sc)" "outside (probe_availability env sc b)"
  unfolding probe_clients_def probe_availability_def get_subcloud_availability_status_def
  by (intro outside_intros)+

lemma alarm_summary_at: "keeps (\<lambda>w. sync_at t (w_db w)) (update_alarm_summary env n)"
proof -
  have "keeps (sync_at t) (subcloud_alarms_update u ctx m v)" for u ctx m v
  proof (rule sync_atI [OF subcloud_alarms_update_wf])
    fix d assume "sync_at t d"
    then show "subclouds (snd (subcloud_alarms_update u ctx m v d)) = t \<and>
        in_sync_ok (snd (subcloud_alarms_update u ctx m v d))"
      by (auto simp: subcloud_alarms_update_def subcloud_alarms_get_def context_defs bnd_apply
          lift_result_def write_session_def sync_at_def sync_inv_def in_sync_ok_def
          split: option.splits sum.splits prod.splits if_splits)
  qed
  then show ?thesis
    unfolding update_alarm_summary_def
    by (intro keeps_intros) (auto intro!: keeps_intros keeps_db_io split: list.splits)
qed

lemma run_audit_keeps: "outside m \<Longrightarrow> keeps (\<lambda>w. I (w_db w)) (run_audit b ds fs m r)"
  unfolding run_audit_def by (intro keeps_intros outside_keeps)

lemma audit_resources_at: "keeps (\<lambda>w. sync_at t (w_db w)) (audit_resources env sc b f data)"
  unfolding audit_resources_def Let_def
  by (intro keeps_intros alarm_summary_at run_audit_keeps outside_intros)

section \<open>The availability follows the probes\<close>

text \<open>What an audit finds: a subcloud whose clients cannot be built counts as offline.\<close>

definition probed :: "'x worker_env \<Rightarrow> subcloud \<Rightarrow> 'x world \<Rightarrow> availability" where
  "probed env sc w =
     (case probe_clients env sc w of
        (Inr (Some b), w1) \<Rightarrow>
          (case probe_availability env sc b w1 of (Inr p, w2) \<Rightarrow> p | _ \<Rightarrow> AVAILABILITY_OFFLINE)
      | _ \<Rightarrow> AVAILABILITY_OFFLINE)"

text \<open>Successive audits of one subcloud, and what they found.\<close>

fun audit_history ::
  "'x worker_env \<Rightarrow> nat \<Rightarrow> (audit_flags \<times> audit_data) list \<Rightarrow> 'x world \<Rightarrow> 'x world \<times> availability list" where
  "audit_history env i [] w = (w, [])"
| "audit_history env i ((f, data) # js) w =
     (case query_first (\<lambda>r. sc_id r = i) (subclouds (w_db w)) of
        None \<Rightarrow> (w, [])
      | Some sc \<Rightarrow>
          (case audit_history env i js (snd (audit_subcloud env sc f data w)) of
             (w', ps) \<Rightarrow> (w', probed env sc w # ps)))"

text \<open>How the row of the subcloud and what the audits have found so far fit together.\<close>

definition judged :: "availability list \<Rightarrow> subcloud \<Rightarrow> bool" where
  "judged ps sc \<longleftrightarrow>
     (if sc_availability_status sc = AVAILABILITY_ONLINE
      then sc_audit_fail_count sc = trailing_failures ps \<and> trailing_failures ps < AVAIL_FAIL_COUNT_TO_ALARM
      else AVAIL_FAIL_COUNT_TO_ALARM \<le> trailing_failures ps)"

lemma next_availability_judged:
  assumes "judged ps sc" and "next_availability p (sc_availability_status sc) (sc_audit_fail_count sc) = (a, n)"
    and "sc_availability_status sc' = a" and "sc_audit_fail_count sc' = n"
  shows "judged (ps @ [p]) sc'"
  using assms
  by (cases p; cases "sc_availability_status sc")
    (auto simp: judged_def next_availability_def trailing_failures_snoc AVAIL_FAIL_COUNT_TO_ALARM_def
      AVAIL_FAIL_COUNT_MAX_def Let_def split: if_splits)

lemma keeps_at_inv: "(\<And>t. keeps (\<lambda>w. sync_at t (w_db w)) m) \<Longrightarrow> keeps_sync m"
  unfolding keeps_def by (meson sync_at_inv sync_inv_at)

lemma audit_subcloud_inv: "keeps_sync (audit_subcloud env sc f data)"
  unfolding audit_subcloud_def
  by (intro keeps_intros record_availability_inv keeps_at_inv [OF audit_resources_at]
      outside_keeps [OF outside_probes(1)] outside_keeps [OF outside_probes(2)])

lemma row_after_set_availability:
  assumes "table_wf sc_id t" and "sc \<in> set (rows t)"
  shows "query_first (\<lambda>r. sc_id r = sc_id sc) (set_availability (sc_id sc) a n t) =
    Some (sc\<lparr>sc_availability_status := a, sc_audit_fail_count := n\<rparr>)"
proof -
  let ?f = "\<lambda>r. if sc_id r = sc_id sc then r\<lparr>sc_availability_status := a, sc_audit_fail_count := n\<rparr> else r"
  have "table_wf sc_id (set_availability (sc_id sc) a n t)"
    unfolding set_availability_def using assms(1) by (intro table_wf_map) auto
  moreover have "?f sc \<in> set (rows (set_availability (sc_id sc) a n t))"
    using assms(2) unfolding set_availability_def rows_map set_map by (rule imageI)
  ultimately show ?thesis using query_first_key [of sc_id _ "?f sc"] by simp
qed

lemma audit_subcloud_judged:
  assumes env: "services_answer env" and inv: "sync_inv (w_db w)"
    and sc: "sc \<in> set (rows (subclouds (w_db w)))" "sc_name sc \<noteq> []" and ps: "judged ps sc"
  shows "\<exists>sc'. query_first (\<lambda>r. sc_id r = sc_id sc) (subclouds (w_db (snd (audit_subcloud env sc f data w)))) = Some sc' \<and>
    sc_name sc' = sc_name sc \<and> judged (ps @ [probed env sc w]) sc'"
proof -
  have wf: "db_wf (w_db w)" using inv by (simp add: sync_inv_def)
  then have tw: "table_wf sc_id (subclouds (w_db w))" by (simp add: db_wf_defs)
  obtain r w1 where r: "probe_clients env sc w = (r, w1)" by fastforce
  then have "\<exists>c. r = Inr c"
    by (auto simp: probe_clients_def try_else_def split: sum.splits prod.splits if_splits)
  then obtain c where c: "probe_clients env sc w = (Inr c, w1)" using r by blast
  have db1: "w_db w1 = w_db w" using outside_apply [OF outside_probes(1) c] by simp
  show ?thesis
  proof (cases c)
    case None
    then have "sc_availability_status sc = AVAILABILITY_OFFLINE" using c
      by (auto simp: probe_clients_def try_else_def split: sum.splits prod.splits if_splits)
    then have "judged (ps @ [AVAILABILITY_OFFLINE]) sc" using ps
      by (simp add: judged_def trailing_failures_snoc)
    then show ?thesis using c None db1 find_by_id [OF wf sc(1)] by (simp add: audit_subcloud_def bnd_apply probed_def)
  next
    case (Some b)
    obtain r2 w2 where r2: "probe_availability env sc b w1 = (r2, w2)" by fastforce
    then have "\<exists>p. r2 = Inr p"
      by (auto simp: probe_availability_def get_subcloud_availability_status_def try_else_def
          split: sum.splits prod.splits if_splits)
    then obtain p where p: "probe_availability env sc b w1 = (Inr p, w2)" using r2 by blast
    have db2: "w_db w2 = w_db w" using outside_apply [OF outside_probes(2) p] db1 by simp
    obtain a n where an: "next_availability p (sc_availability_status sc) (sc_audit_fail_count sc) = (a, n)"
      by fastforce
    have zero: "n = 0" if "a = AVAILABILITY_ONLINE" "a \<noteq> sc_availability_status sc"
      using an that by (auto simp: next_availability_def Let_def split: if_splits)
    obtain w3 where w3: "record_availability env sc (af_update_state f) a n w2 = (Inr (), w3)"
      "subclouds (w_db w3) = set_availability (sc_id sc) a n (subclouds (w_db w))"
      using record_availability_runs [OF env, of w2 sc a n "af_update_state f"] inv sc zero db2 by auto
    let ?m = "if sc_management_state sc = MANAGEMENT_MANAGED \<and> a = AVAILABILITY_ONLINE
        then audit_resources env sc b f data else ret ([], [])"
    obtain x w4 where w4: "?m w3 = (x, w4)" by fastforce
    have "sync_inv (w_db w3)"
      using keepsD [OF record_availability_inv, of w2 env sc "af_update_state f" a n] w3 inv db2 by simp
    moreover have "keeps (\<lambda>w. sync_at (subclouds (w_db w3)) (w_db w)) ?m"
      by (intro keeps_intros audit_resources_at)
    ultimately have "subclouds (w_db w4) = subclouds (w_db w3)"
      using keepsD [of _ ?m w3] w4 sync_inv_at [of "w_db w3"] by (fastforce simp: sync_at_def)
    moreover have "audit_subcloud env sc f data w = (x, w4)"
      using c Some p an w3 w4 by (simp add: audit_subcloud_def bnd_apply seq_apply)
    ultimately have "query_first (\<lambda>r. sc_id r = sc_id sc) (subclouds (w_db (snd (audit_subcloud env sc f data w)))) =
        Some (sc\<lparr>sc_availability_status := a, sc_audit_fail_count := n\<rparr>)"
      using w3(2) row_after_set_availability [OF tw sc(1)] by simp
    moreover have "probed env sc w = p" using c Some p by (simp add: probed_def)
    ultimately show ?thesis using next_availability_judged [OF ps an] by simp
  qed
qed

lemma audit_history_judged:
  assumes env: "services_answer env" and inv: "sync_inv (w_db w)"
    and sc: "query_first (\<lambda>r. sc_id r = i) (subclouds (w_db w)) = Some sc" "sc_name sc \<noteq> []"
    and ps: "judged ps sc" and run: "audit_history env i js w = (w', qs)"
  shows "\<exists>sc'. query_first (\<lambda>r. sc_id r = i) (subclouds (w_db w')) = Some sc' \<and> judged (ps @ qs) sc'"
  using inv sc ps run
proof (induction js arbitrary: w sc ps qs)
  case Nil
  then show ?case by simp
next
  case (Cons j js)
  obtain f data where j: "j = (f, data)" by fastforce
  let ?w = "snd (audit_subcloud env sc f data w)"
  have id: "sc_id sc = i" "sc \<in> set (rows (subclouds (w_db w)))"
    using Cons.prems(2) by (auto simp: query_first_def find_Some_iff)
  obtain rs where rs: "audit_history env i js ?w = (w', rs)" "qs = probed env sc w # rs"
    using Cons.prems(2,5) j by (auto split: prod.splits)
  obtain sc' where sc': "query_first (\<lambda>r. sc_id r = i) (subclouds (w_db ?w)) = Some sc'"
    "sc_name sc' = sc_name sc" "judged (ps @ [probed env sc w]) sc'"
    using audit_subcloud_judged [OF env Cons.prems(1) id(2) Cons.prems(3,4), of f data] id(1) by auto
  have "sync_inv (w_db ?w)" using keepsD [OF audit_subcloud_inv] Cons.prems(1) by blast
  then show ?case
    using Cons.IH [OF _ sc'(1) _ sc'(3) rs(1)] sc'(2) Cons.prems(3) rs(2) by simp
qed

text \<open>C37: A subcloud that is online is recorded as offline when the last two of its audits found it
  offline, and not before; it is online again after the first audit that finds it online.\<close>

theorem availability_debounced:
  assumes "services_answer env" and "sync_inv (w_db w)"
    and "query_first (\<lambda>r. sc_id r = i) (subclouds (w_db w)) = Some sc" and "sc_name sc \<noteq> []"
    and "sc_availability_status sc = AVAILABILITY_ONLINE" and "sc_audit_fail_count sc = 0"
    and "audit_history env i js w = (w', ps)"
  shows "\<exists>sc'. query_first (\<lambda>r. sc_id r = i) (subclouds (w_db w')) = Some sc' \<and>
    (sc_availability_status sc' = AVAILABILITY_OFFLINE \<longleftrightarrow> 2 \<le> trailing_failures ps)"
proof -
  have "judged [] sc"
    using assms(5,6) by (simp add: judged_def trailing_failures_def AVAIL_FAIL_COUNT_TO_ALARM_def)
  from audit_history_judged [OF assms(1-4) this assms(7)]
  obtain sc' where "query_first (\<lambda>r. sc_id r = i) (subclouds (w_db w')) = Some sc'" "judged ps sc'" by auto
  then show ?thesis
    by (cases "sc_availability_status sc'") (auto simp: judged_def AVAIL_FAIL_COUNT_TO_ALARM_def)
qed

text \<open>An example: every service answers, but the endpoints of the subclouds are missing.\<close>

definition ex_state_env :: "unit state_env" where
  "ex_state_env = \<lparr>se_get_fault = (\<lambda>_ _. ret False), se_clear_fault = (\<lambda>_ _. ret ()),
     se_set_fault = (\<lambda>_ _. ret ()), se_update_subcloud_states = (\<lambda>_ _ _. ret ()),
     se_add_sync_endpoint_type = (\<lambda>_ _. ret ()), se_remove_sync_endpoint_type = (\<lambda>_ _. ret ()),
     se_subcloud_online = (\<lambda>_. ret ()), se_trigger_subcloud_audits = (\<lambda>_. ret ()),
     se_trigger_patch_load_audits = (\<lambda>_. ret ())\<rparr>"

definition ex_audit_env :: "unit audit_env" where
  "ex_audit_env = \<lparr>au_orch = ex_orch_env, au_cast_status = (\<lambda>_ _ _. ret ()),
     au_get_system_version = (\<lambda>_. ret ''22.12''), au_get_upgrades = (\<lambda>_. ret 0),
     au_root_ca_alarm_entities = (\<lambda>_. ret []), au_alarm_summary = (\<lambda>_. ret []),
     au_service_groups = (\<lambda>_. ret []), au_applications = (\<lambda>_. ret []),
     au_device_images = (\<lambda>_. ret []), au_device_image = (\<lambda>_ _. raise IndexError),
     au_hosts = (\<lambda>_. ret []), au_host_devices = (\<lambda>_ _. ret []),
     au_device_image_states = (\<lambda>_. ret []), au_is_uuid_like = (\<lambda>_. True),
     au_device_labels = (\<lambda>_. ret [])\<rparr>"

definition ex_worker_env :: "unit worker_env" where
  "ex_worker_env = \<lparr>wk_audit = ex_audit_env, wk_state = ex_state_env, wk_state_rpc = (\<lambda>_. ret ()),
     wk_sync_endpoint_rpc = (\<lambda>_ _ _. ret ()), wk_os_client = (\<lambda>_. raise EndpointNotFound),
     wk_utcnow = ret 100\<rparr>"

definition ex_no_audits :: "audit_flags \<times> audit_data" where
  "ex_no_audits = (\<lparr>af_update_state = False, af_openstack = False, af_patch = False, af_load = False,
     af_firmware = False, af_kubernetes = False, af_kube_rootca = False\<rparr>,
     \<lparr>ad_patch = None, ad_firmware = None, ad_kubernetes = None\<rparr>)"

lemma ex_services_answer: "services_answer ex_worker_env"
  by (auto simp: services_answer_def answers_def ex_worker_env_def ex_state_env_def)

lemma ex_sync_inv: "sync_inv (w_db (ex_world (ex_db sts)))"
  if "\<And>s. s \<in> set sts \<Longrightarrow> st_id s = 1" and "length sts \<le> 1"
  using that
  by (cases sts) (auto simp: sync_inv_def in_sync_ok_def row_ok_def db_wf_defs table_wf_def ex_defs
      empty_db_def empty_table_def DEFAULT_SUBCLOUD_GROUP_ID_def)

lemma ex_probed: "probed ex_worker_env sc w = AVAILABILITY_OFFLINE"
  by (simp add: probed_def probe_clients_def probe_availability_def try_else_def ask_apply
      ex_worker_env_def endpoint_missing_def)

theorem availability_debounced_witness:
  "\<exists>w' sc'. audit_history ex_worker_env 1 [ex_no_audits, ex_no_audits] (ex_world (ex_db [])) =
      (w', [AVAILABILITY_OFFLINE, AVAILABILITY_OFFLINE]) \<and>
    query_first (\<lambda>r. sc_id r = 1) (subclouds (w_db w')) = Some sc' \<and>
    sc_availability_status sc' = AVAILABILITY_OFFLINE"
proof -
  let ?w = "ex_world (ex_db [])"
  let ?sc = "ex_subcloud 1 ''alpha'' 1"
  have inv: "sync_inv (w_db ?w)" by (rule ex_sync_inv) simp_all
  have sc: "query_first (\<lambda>r. sc_id r = 1) (subclouds (w_db ?w)) = Some ?sc" "sc_name ?sc \<noteq> []"
    "sc_availability_status ?sc = AVAILABILITY_ONLINE" "sc_audit_fail_count ?sc = 0"
    by (simp_all add: ex_defs query_first_def)
  note history = availability_debounced [OF ex_services_answer inv sc]
  obtain w1 where w1: "audit_history ex_worker_env 1 [ex_no_audits] ?w = (w1, [AVAILABILITY_OFFLINE])"
    using sc(1) by (simp add: ex_no_audits_def ex_probed)
  obtain sc1 where "query_first (\<lambda>r. sc_id r = 1) (subclouds (w_db w1)) = Some sc1"
    using history [OF w1] by blast
  then obtain w2 where w2: "audit_history ex_worker_env 1 [ex_no_audits, ex_no_audits] ?w =
      (w2, [AVAILABILITY_OFFLINE, AVAILABILITY_OFFLINE])"
    using w1 sc(1) by (auto simp: ex_no_audits_def ex_probed)
  have "trailing_failures [AVAILABILITY_OFFLINE, AVAILABILITY_OFFLINE] = 2"
    by (simp add: trailing_failures_def)
  then show ?thesis using history [OF w2] w2 by auto
qed

end
