(* ===== verification/DC_ManageProps.thy ===== *)
theory DC_ManageProps
  imports DC_SubcloudManager DC_AuditProps
begin

text \<open>
  What changing the management state of a subcloud promises: a change that is not allowed leaves
  everything alone, and a change that succeeds leaves no endpoint in sync on a subcloud that is no
  longer managed; when the state service cannot be reached, or the new state is the empty text, it
  does. The last section is about two operations of the state manager that overlap.
\<close>

section \<open>The guard\<close>

definition may_be_managed :: "subcloud \<Rightarrow> bool" where
  "may_be_managed sc \<longleftrightarrow>
     (sc_deploy_status sc = DEPLOY_STATE_DONE \<or> is_deploy_status_prestage (sc_deploy_status sc)) \<and>
     sc_availability_status sc = AVAILABILITY_ONLINE"

definition change_allowed :: "management \<Rightarrow> bool \<Rightarrow> subcloud \<Rightarrow> bool" where
  "change_allowed m force sc \<longleftrightarrow>
     sc_management_state sc \<noteq> m \<and> (m = MANAGEMENT_MANAGED \<longrightarrow> \<not> force \<longrightarrow> may_be_managed sc)"

lemma truthy_management: "m \<noteq> MANAGEMENT_EMPTY \<Longrightarrow> truthy_str (Some (management_str m))"
  by (cases m) (simp_all add: truthy_str_def)


lemma check_management_change_cases:
  "m \<noteq> MANAGEMENT_EMPTY \<Longrightarrow> (\<exists>e. \<forall>s. check_management_change (Some (management_str m)) force sc s = (Inl e, s)) \<and> \<not> change_allowed m force sc \<or>
   check_management_change (Some (management_str m)) force sc = ret () \<and> change_allowed m force sc"
  by (cases m)
    (auto simp: check_management_change_def change_allowed_def may_be_managed_def truthy_management
      simp del: management_str.simps)

text \<open>A change of the management state that the rules do not allow is refused and changes
  nothing: a subcloud that already has the state, and, unless the request is forced, one that is to
  become managed while it is not deployed or not online.\<close>

theorem management_change_refused:
  assumes "subcloud_get ctx i (w_db w) = (Inr sc, d)"
    and "uc_management_state c = Some (management_str m)" and "m \<noteq> MANAGEMENT_EMPTY"
    and "\<not> change_allowed m (uc_force c) sc"
  shows "\<exists>e. update_subcloud env ctx i c w = (Inl e, w)"
proof -
  have "d = w_db w"
    using keepsD [OF keeps_subcloud_get, of "\<lambda>d. d = w_db w" "w_db w" ctx i] assms(1) by simp
  moreover obtain e where "check_management_change (Some (management_str m)) (uc_force c) sc w = (Inl e, w)"
    using check_management_change_cases [of m "uc_force c" sc] assms(3,4) by (metis (mono_tags))
  ultimately have "update_subcloud env ctx i c w = (Inl e, w)"
    using assms(1,2) by (simp add: update_subcloud_def bnd_apply seq_apply db_io_apply)
  then show ?thesis ..
qed

lemma subcloud_get_found:
  "subcloud_get ctx i d = (Inr sc, d') \<Longrightarrow> d' = d \<and> sc \<in> set (rows (subclouds d)) \<and> sc_id sc = i"
  by (auto simp: subcloud_get_def context_defs bnd_apply first_or_apply query_first_def find_Some_iff
      split: option.splits if_splits)

section \<open>Trust\<close>

text \<open>The statuses are as if the management state of subcloud \<open>i\<close> were \<open>m\<close>.\<close>

definition as_if :: "nat \<Rightarrow> management \<Rightarrow> subcloud \<Rightarrow> subcloud" where
  "as_if i m sc = (if sc_id sc = i then sc\<lparr>sc_management_state := m\<rparr> else sc)"

lemma as_if_id [simp]: "sc_id (as_if i m sc) = sc_id sc"
  by (simp add: as_if_def)



definition managed_is :: "nat \<Rightarrow> management \<Rightarrow> db \<Rightarrow> bool" where
  "managed_is i m d \<longleftrightarrow> (\<forall>sc \<in> set (rows (subclouds d)). sc_id sc = i \<longrightarrow> sc_management_state sc = m)"






lemma subcloud_update_Inr:
  assumes "subcloud_update ctx i v d = (Inr sc, d')"
  shows "\<exists>c r. ctx = Some c \<and> rc_is_admin c \<and> r \<in> set (rows (subclouds d)) \<and> sc_id r = i \<and>
    sc = apply_subcloud_values v r \<and>
    d' = d\<lparr>subclouds := map_rows (\<lambda>q. if sc_id q = i then apply_subcloud_values v q else q) (subclouds d)\<rparr>"
proof -
  obtain c where c: "ctx = Some c" "rc_is_admin c"
    using assms by (cases ctx) (auto simp: subcloud_update_def context_defs split: if_splits)
  obtain r d0 where get: "subcloud_get ctx i d = (Inr r, d0)"
    and upd: "seq (update_subclouds_where (\<lambda>q. sc_id q = sc_id r) v) (ret (apply_subcloud_values v r)) d0 = (Inr sc, d')"
    using assms c by (auto simp: subcloud_update_def context_defs write_session_def bnd_apply
        split: prod.splits sum.splits)
  note found = subcloud_get_found [OF get]
  have "sc = apply_subcloud_values v r \<and>
    d' = d\<lparr>subclouds := map_rows (\<lambda>q. if sc_id q = i then apply_subcloud_values v q else q) (subclouds d)\<rparr>"
    using upd found by (auto simp: update_subclouds_where_def seq_Inr_iff bnd_apply split: if_splits)
  then show ?thesis using c found by blast
qed

lemma update_managed_is:
  assumes "subcloud_update ctx i v d = (Inr sc, d')" and "sv_management_state v = Some m"
  shows "managed_is i m d'"
proof -
  have "d' = d\<lparr>subclouds := map_rows (\<lambda>q. if sc_id q = i then apply_subcloud_values v q else q) (subclouds d)\<rparr>"
    using subcloud_update_Inr [OF assms(1)] by blast
  moreover have "sc_management_state (apply_subcloud_values v q) = m" for q
    using assms(2) by (simp add: apply_subcloud_values_def)
  ultimately show ?thesis unfolding managed_is_def by auto
qed

lemma update_returns_row:
  assumes "subcloud_update ctx i v d = (Inr sc, d')"
  shows "sc \<in> set (rows (subclouds d')) \<and> sc_id sc = i \<and> (\<exists>c. ctx = Some c \<and> rc_is_admin c)"
proof -
  obtain c r where *: "ctx = Some c" "rc_is_admin c" "r \<in> set (rows (subclouds d))" "sc_id r = i"
    "sc = apply_subcloud_values v r"
    "d' = d\<lparr>subclouds := map_rows (\<lambda>q. if sc_id q = i then apply_subcloud_values v q else q) (subclouds d)\<rparr>"
    using subcloud_update_Inr [OF assms] by blast
  then have "sc = (\<lambda>q. if sc_id q = i then apply_subcloud_values v q else q) r" by simp
  then have "sc \<in> (\<lambda>q. if sc_id q = i then apply_subcloud_values v q else q) ` set (rows (subclouds d))"
    using *(3) by blast
  then show ?thesis using * by (simp add: del: if_image_distrib)
qed

section \<open>Statuses that become unknown\<close>









section \<open>The change of the management state\<close>





lemma broken_trust:
  assumes "r \<in> set (rows (subcloud_status_t d))" and "ss_sync_status r = SYNC_STATUS_IN_SYNC"
    and "q \<in> set (rows (subclouds d))" and "sc_id q = ss_subcloud_id r" and "\<not> trusted q (ss_endpoint_type r)"
  shows "\<not> sync_inv d"
  using assms unfolding sync_inv_def in_sync_ok_def row_ok_def by blast

text \<open>C19: The empty text as the new management state passes every check and is written to the column as
  it is: the request succeeds, neither dcorch nor the state service is told, and a managed subcloud
  is no longer managed while its endpoints are still recorded as in sync.\<close>

theorem empty_management_state:
  assumes wf: "db_wf (w_db w)" and sc: "sc \<in> set (rows (subclouds (w_db w)))"
    and r: "r \<in> set (rows (subcloud_status_t (w_db w)))" "ss_subcloud_id r = sc_id sc"
      "ss_sync_status r = SYNC_STATUS_IN_SYNC" "ss_endpoint_type r \<noteq> ENDPOINT_TYPE_DC_CERT"
    and c: "uc_management_state c = Some []" "uc_group_id c = None"
  shows "\<exists>x w'. update_subcloud env admin_context (sc_id sc) c w = (Inr x, w') \<and> w_log w' = w_log w \<and>
    managed_is (sc_id sc) MANAGEMENT_EMPTY (w_db w') \<and>
    subcloud_status_t (w_db w') = subcloud_status_t (w_db w) \<and> \<not> sync_inv (w_db w')"
proof -
  let ?v = "no_values\<lparr>sv_management_state := Some MANAGEMENT_EMPTY, sv_description := uc_description c,
    sv_location := uc_location c, sv_group_id := None, sv_data_install := uc_data_install c\<rparr>"
  let ?f = "\<lambda>q. if sc_id q = sc_id sc then apply_subcloud_values ?v q else q"
  let ?d = "(w_db w)\<lparr>subclouds := map_rows ?f (subclouds (w_db w))\<rparr>"
  let ?sc = "apply_subcloud_values ?v sc"
  have get: "subcloud_get admin_context (sc_id sc) (w_db w) = (Inr sc, w_db w)"
    using find_by_id [OF wf sc] by (simp add: subcloud_get_def first_or_apply)
  have upd: "subcloud_update admin_context (sc_id sc) ?v (w_db w) = (Inr ?sc, ?d)"
    by (rule subcloud_update_runs [OF wf sc]) (simp add: c no_values_def)
  have ms: "management_of_str [] = Some MANAGEMENT_EMPTY" using management_of_str_str [of MANAGEMENT_EMPTY] by simp
  have run: "update_subcloud env admin_context (sc_id sc) c w = (Inr ?sc, w\<lparr>w_db := ?d\<rparr>)"
    using get upd by (simp add: update_subcloud_def bnd_apply db_io_apply c ms truthy_str_def check_management_change_def)
  have empty: "managed_is (sc_id sc) MANAGEMENT_EMPTY ?d" using update_managed_is [OF upd] by (simp add: no_values_def)
  have "?sc \<in> set (rows (subclouds ?d))" "sc_id ?sc = sc_id sc" "sc_management_state ?sc = MANAGEMENT_EMPTY"
    using update_returns_row [OF upd] by (simp_all add: apply_subcloud_values_def no_values_def)
  moreover have "\<not> trusted ?sc (ss_endpoint_type r)"
    unfolding trusted_def using r(4) \<open>sc_management_state ?sc = MANAGEMENT_EMPTY\<close> by simp
  ultimately have "\<not> sync_inv ?d" using broken_trust [of r ?d ?sc] r by simp
  then show ?thesis using run empty by simp
qed

text \<open>C34: When the state service cannot be reached, a request to unmanage a subcloud raises after the
  management state has been written and before any status has: the subcloud is unmanaged and its
  endpoints are still recorded as in sync, so the invariant of the state manager is broken.\<close>

theorem unmanage_without_state_service:
  fixes env :: "'x sm_env"
  assumes wf: "db_wf (w_db w)" and sc: "sc \<in> set (rows (subclouds (w_db w)))"
    and managed: "sc_management_state sc = MANAGEMENT_MANAGED"
    and r: "r \<in> set (rows (subcloud_status_t (w_db w)))" "ss_subcloud_id r = sc_id sc"
      "ss_sync_status r = SYNC_STATUS_IN_SYNC" "ss_endpoint_type r \<noteq> ENDPOINT_TYPE_DC_CERT"
    and dcorch: "\<forall>n m a. answers (se_update_subcloud_states (sm_state env) n m a)"
    and down: "\<forall>n x. \<exists>e y. sm_state_rpc env n x = (Inl e, y)"
    and c: "uc_management_state c = Some ''unmanaged''" "uc_group_id c = None"
  shows "\<exists>e w'. update_subcloud env admin_context (sc_id sc) c w = (Inl e, w') \<and>
    managed_is (sc_id sc) MANAGEMENT_UNMANAGED (w_db w') \<and>
    subcloud_status_t (w_db w') = subcloud_status_t (w_db w) \<and> \<not> sync_inv (w_db w')"
proof -
  let ?v = "no_values\<lparr>sv_management_state := Some MANAGEMENT_UNMANAGED, sv_description := uc_description c,
    sv_location := uc_location c, sv_group_id := None, sv_data_install := uc_data_install c\<rparr>"
  let ?f = "\<lambda>q. if sc_id q = sc_id sc then apply_subcloud_values ?v q else q"
  let ?d = "(w_db w)\<lparr>subclouds := map_rows ?f (subclouds (w_db w))\<rparr>"
  let ?sc = "apply_subcloud_values ?v sc"
  have get: "subcloud_get admin_context (sc_id sc) (w_db w) = (Inr sc, w_db w)"
    using find_by_id [OF wf sc] by (simp add: subcloud_get_def first_or_apply)
  have upd: "subcloud_update admin_context (sc_id sc) ?v (w_db w) = (Inr ?sc, ?d)"
    by (rule subcloud_update_runs [OF wf sc]) (simp add: c no_values_def)
  have ms: "management_of_str ''unmanaged'' = Some MANAGEMENT_UNMANAGED" "truthy_str (Some ''unmanaged'')"
    using management_of_str_str [of MANAGEMENT_UNMANAGED] by (simp_all add: truthy_str_def del: management_of_str_str)
  have "(check_management_change (uc_management_state c) (uc_force c) sc :: ('x world, unit) io) = ret ()"
    using managed by (simp add: c check_management_change_def ms)
  then have run1: "update_subcloud env admin_context (sc_id sc) c w =
      bnd (tell_dcorch env admin_context (sc_id sc) c MANAGEMENT_MANAGED ?sc MANAGEMENT_UNMANAGED)
        (after_management_change env admin_context (sc_id sc)) (w\<lparr>w_db := ?d\<rparr>)"
    using get upd managed by (simp add: update_subcloud_def bnd_apply db_io_apply c ms)
  obtain y where "se_update_subcloud_states (sm_state env) (sc_name ?sc) MANAGEMENT_UNMANAGED
      (Some (sc_availability_status ?sc)) (w_ext w) = (Inr (), y)"
    using dcorch answersE by (metis (full_types) old.unit.exhaust)
  then obtain w1 where tell: "tell_dcorch env admin_context (sc_id sc) c MANAGEMENT_MANAGED ?sc
      MANAGEMENT_UNMANAGED (w\<lparr>w_db := ?d\<rparr>) = (Inr (MANAGEMENT_UNMANAGED, ?sc), w1)" "w_db w1 = ?d"
    by (auto simp: tell_dcorch_def try_catch_def seq_apply call_apply)
  obtain e z where "sm_state_rpc env (sc_name ?sc) (w_ext w1) = (Inl e, z)" using down by blast
  then have "after_management_change env admin_context (sc_id sc) (MANAGEMENT_UNMANAGED, ?sc) w1 =
      (Inl e, w1\<lparr>w_ext := z\<rparr>)"
    by (simp add: after_management_change_def endpoint_status_sync_def seq_apply ask_apply)
  then have run: "update_subcloud env admin_context (sc_id sc) c w = (Inl e, w1\<lparr>w_ext := z\<rparr>)"
    using run1 tell by (simp add: bnd_apply)
  have un: "sc_management_state ?sc = MANAGEMENT_UNMANAGED" "sc_id ?sc = sc_id sc"
    by (simp_all add: apply_subcloud_values_def no_values_def)
  have "managed_is (sc_id sc) MANAGEMENT_UNMANAGED ?d" using update_managed_is [OF upd] by (simp add: no_values_def)
  moreover have "\<not> sync_inv ?d"
  proof
    assume "sync_inv ?d"
    moreover have "?sc \<in> set (rows (subclouds ?d))" using update_returns_row [OF upd] by blast
    ultimately have "trusted ?sc (ss_endpoint_type r)"
      using r un unfolding sync_inv_def in_sync_ok_def row_ok_def by simp
    then show False using un r(4) by (simp add: trusted_def)
  qed
  ultimately show ?thesis using run tell(2) by simp
qed

section \<open>Operations that overlap\<close>

text \<open>The endpoint has a row in the table of the statuses.\<close>

definition has_status :: "nat \<Rightarrow> endpoint_type \<Rightarrow> db \<Rightarrow> bool" where
  "has_status i e d \<longleftrightarrow> (\<exists>r \<in> set (rows (subcloud_status_t d)). ss_subcloud_id r = i \<and> ss_endpoint_type r = e)"

definition status_is :: "nat \<Rightarrow> endpoint_type \<Rightarrow> sync_status \<Rightarrow> db \<Rightarrow> bool" where
  "status_is i e s d \<longleftrightarrow>
     (\<exists>r \<in> set (rows (subcloud_status_t d)). ss_subcloud_id r = i \<and> ss_endpoint_type r = e \<and> ss_sync_status r = s)"

lemma has_status_map:
  assumes "has_status i e d" and "\<And>r. ss_subcloud_id (f r) = ss_subcloud_id r \<and> ss_endpoint_type (f r) = ss_endpoint_type r"
  shows "has_status i e (d\<lparr>subcloud_status_t := map_rows f (subcloud_status_t d)\<rparr>)"
  using assms by (auto simp: has_status_def)

lemma has_status_update: "keeps (has_status i e) (subcloud_status_update ctx j e' s)"
proof (rule keepsI)
  fix d assume d: "has_status i e d"
  obtain x d' where run: "subcloud_status_update ctx j e' s d = (x, d')" by fastforce
  from subcloud_status_update_effect [OF run] have "has_status i e d'"
    by (auto simp: update_row_def d intro: has_status_map [OF d])
  then show "has_status i e (snd (subcloud_status_update ctx j e' s d))" using run by simp
qed

lemma has_status_endpoints: "keeps (has_status i e) (subcloud_status_update_endpoints ctx j es s)"
proof (rule keepsI)
  fix d assume d: "has_status i e d"
  obtain x d' where run: "subcloud_status_update_endpoints ctx j es s d = (x, d')" by fastforce
  from subcloud_status_update_endpoints_effect [OF run] have "has_status i e d'"
    by (auto simp: d intro: has_status_map [OF d])
  then show "has_status i e (snd (subcloud_status_update_endpoints ctx j es s d))" using run by simp
qed

lemma has_status_announce: "keeps (\<lambda>w. has_status i e (w_db w)) (announce_availability env ctx n a)"
  unfolding announce_availability_def update_named_endpoint_status_def do_update_subcloud_endpoint_status_def
    update_one_endpoint_def update_all_endpoints_def subcloud_get_by_name_def Let_def
  by (intro keeps_intros keeps_db_io has_status_update has_status_endpoints)

lemma announce_at: "keeps (\<lambda>w. sync_at t (w_db w)) (announce_availability env ctx n a)"
  unfolding announce_availability_def by (intro keeps_intros update_named_at)

text \<open>An update to in sync that the rules admit is written, whatever the services answer.\<close>

lemma status_update_written:
  assumes "has_status i e d" shows "status_is i e s (snd (subcloud_status_update admin_context i e s d))"
proof -
  obtain r where first: "query_first (status_matches i e) (subcloud_status_t d) = Some r"
    using assms query_first_None [of "status_matches i e" "subcloud_status_t d"]
    by (cases "query_first (status_matches i e) (subcloud_status_t d)") (auto simp: has_status_def status_matches_def)
  from query_first_Some [OF first] have "r \<in> set (rows (subcloud_status_t d))" "ss_subcloud_id r = i" "ss_endpoint_type r = e"
    by (simp_all add: status_matches_def)
  then show ?thesis using first
    by (auto simp: subcloud_status_update_def subcloud_status_get_def bnd_apply seq_apply first_or_apply write_session_def
        status_is_def rows_update intro!: bexI [of _ "r\<lparr>ss_sync_status := s\<rparr>"] image_eqI [of _ _ r])
qed

lemma update_one_written:
  assumes "has_status (sc_id sc) e (w_db w)"
    and sts: "\<And>r. r \<in> set sts \<Longrightarrow> r \<in> set (rows (subcloud_status_t (w_db w))) \<and> ss_subcloud_id r = sc_id sc"
    and listed: "\<exists>r \<in> set sts. ss_endpoint_type r = e"
  shows "status_is (sc_id sc) e s (w_db (snd (update_one_endpoint env admin_context sc sts e s al w)))"
proof -
  obtain r where r: "find (\<lambda>r. ss_endpoint_type r = e) sts = Some r"
    using listed by (cases "find (\<lambda>r. ss_endpoint_type r = e) sts") (auto simp: find_None_iff)
  then have r_in: "r \<in> set sts" "ss_endpoint_type r = e" by (auto simp: find_Some_iff)
  let ?upd = "db_io (subcloud_status_update admin_context (sc_id sc) e s) :: ('a world, subcloud_status) io"
  let ?rest = "seq (when_io (e = ENDPOINT_TYPE_IDENTITY \<and> s \<noteq> SYNC_STATUS_UNKNOWN \<and>
                      original_identity_status sts = Some SYNC_STATUS_UNKNOWN)
                    (call (AuditRpc ''trigger_subcloud_patch_load_audits'' (Some (sc_id sc)))
                      (se_trigger_patch_load_audits env (sc_id sc))))
                (update_sync_alarm env (sc_name sc) e s al)"
  show ?thesis
  proof (cases "ss_sync_status r = s")
    case True
    then show ?thesis using r r_in sts by (auto simp: update_one_endpoint_def status_is_def)
  next
    case False
    have after: "keeps (\<lambda>v. status_is (sc_id sc) e s (w_db v)) ?rest" by (intro keeps_intros)
    obtain x w1 where w1: "?upd w = (x, w1)" by fastforce
    have "status_is (sc_id sc) e s (w_db w1)"
      using status_update_written [OF assms(1), of s] w1 by (auto simp: db_io_apply split: prod.splits)
    moreover have "update_one_endpoint env admin_context sc sts e s al w = seq ?upd ?rest w"
      using r False by (simp add: update_one_endpoint_def)
    ultimately show ?thesis using w1 keepsD [OF after, of w1] by (cases x) (simp_all add: seq_apply)
  qed
qed

lemma status_of_subcloud:
  assumes "subcloud_get_with_status ctx i d = (Inr ps, d')" and "r \<in> set (List.map_filter snd ps)"
  shows "r \<in> set (rows (subcloud_status_t d)) \<and> ss_subcloud_id r = i"
proof -
  have ps: "ps = concat (map (\<lambda>s. sort_key (map_option ss_endpoint_type \<circ> snd) (outer_join_status d s))
      (query_all (\<lambda>r. sc_id r = i) (subclouds d)))"
    using assms(1) by (auto simp: subcloud_get_with_status_def context_defs bnd_apply split: option.splits if_splits)
  obtain q where "(q, Some r) \<in> set ps" using assms(2) by (auto simp: List.map_filter_def)
  then obtain s where "s \<in> set (query_all (\<lambda>r. sc_id r = i) (subclouds d))" "(q, Some r) \<in> set (outer_join_status d s)"
    by (auto simp: ps)
  then show ?thesis by (auto simp: outer_join_status_def query_all_def Cons_eq_filter_iff split: list.splits
        dest!: arg_cong [of _ _ set])
qed

lemma in_sync_written:
  assumes wf: "db_wf (w_db w)" and sc: "sc \<in> set (rows (subclouds (w_db w)))" "sc_name sc \<noteq> []" "trusted sc e"
    and has: "has_status (sc_id sc) e (w_db w)"
  shows "status_is (sc_id sc) e SYNC_STATUS_IN_SYNC (w_db (snd (update_subcloud_endpoint_status env admin_context
    (Some (sc_name sc)) (Some e) SYNC_STATUS_IN_SYNC al ig w)))"
proof -
  obtain ps where ps: "subcloud_get_with_status admin_context (sc_id sc) (w_db w) = (Inr ps, w_db w)"
    "fst (last ps) = sc" using with_status_runs [OF wf sc(1)] by blast
  let ?sts = "List.map_filter snd ps"
  have "r \<in> set (rows (subcloud_status_t (w_db w))) \<and> ss_subcloud_id r = sc_id sc" if "r \<in> set ?sts" for r
    using status_of_subcloud [OF ps(1) that] .
  moreover have "\<exists>r \<in> set ?sts. ss_endpoint_type r = e"
    using has subcloud_get_with_status_covers [OF ps(1)] by (auto simp: has_status_def)
  ultimately have "status_is (sc_id sc) e SYNC_STATUS_IN_SYNC
      (w_db (snd (update_one_endpoint env admin_context sc ?sts e SYNC_STATUS_IN_SYNC al w)))"
    by (rule update_one_written [OF has])
  then show ?thesis
    using ps sc find_by_name [OF wf sc(1)]
    by (simp add: update_subcloud_endpoint_status_def update_named_endpoint_status_def bnd_apply db_io_apply
        subcloud_get_by_name_def first_or_apply sync_update_allowed_def do_update_subcloud_endpoint_status_def Let_def
        truthy_str_def trusted_def)
qed

text \<open>C9: A race. A subcloud goes offline in two transactions: its endpoints are set to unknown
  (\<open>announce_availability\<close>), then its availability is written (\<open>write_availability\<close>). A report that
  comes in between, for an endpoint that was trusted until then, still finds the subcloud online and is
  accepted: afterwards the subcloud is offline and the endpoint is in sync, whatever the other
  services answer.\<close>

theorem offline_race:
  assumes inv: "sync_inv (w_db w)" and sc: "sc \<in> set (rows (subclouds (w_db w)))" "sc_name sc \<noteq> []" "trusted sc e"
    and r: "r \<in> set (rows (subcloud_status_t (w_db w)))" "ss_subcloud_id r = sc_id sc" "ss_endpoint_type r = e"
    and first: "announce_availability env admin_context (sc_name sc) AVAILABILITY_OFFLINE w = (Inr (), w1)"
    and between: "update_subcloud_endpoint_status env admin_context (Some (sc_name sc)) (Some e)
      SYNC_STATUS_IN_SYNC al ig w1 = (x, w2)"
    and last: "write_availability env admin_context sc (sc_name sc) AVAILABILITY_OFFLINE n w2 = (y, w3)"
  shows "status_is (sc_id sc) e SYNC_STATUS_IN_SYNC (w_db w3) \<and>
    (\<exists>q \<in> set (rows (subclouds (w_db w3))). sc_id q = sc_id sc \<and> sc_availability_status q = AVAILABILITY_OFFLINE) \<and>
    \<not> sync_inv (w_db w3)"
proof -
  let ?t = "subclouds (w_db w)" and ?v = "no_values\<lparr>sv_availability_status := Some AVAILABILITY_OFFLINE, sv_audit_fail_count := n\<rparr>"
  let ?upd = "db_io (subcloud_update admin_context (sc_id sc) ?v)"
  have at1: "sync_at ?t (w_db w1)" using keepsD [OF announce_at sync_inv_at [OF inv]] first by (metis snd_conv)
  have has1: "has_status (sc_id sc) e (w_db w1)"
    using keepsD [OF has_status_announce, of "sc_id sc" e w env admin_context "sc_name sc" AVAILABILITY_OFFLINE] r first
    by (auto simp: has_status_def)
  have sc1: "db_wf (w_db w1)" "sc \<in> set (rows (subclouds (w_db w1)))" using at1 sc(1) by (simp_all add: sync_at_def sync_inv_def)
  have in_sync: "status_is (sc_id sc) e SYNC_STATUS_IN_SYNC (w_db w2)"
    using in_sync_written [OF sc1 sc(2,3) has1, of env al ig] between by simp
  have at2: "sync_at ?t (w_db w2)"
    using keepsD [OF update_endpoint_status_at at1, of env admin_context "Some (sc_name sc)" "Some e" SYNC_STATUS_IN_SYNC al ig]
      between by simp
  then have sc2: "db_wf (w_db w2)" "sc \<in> set (rows (subclouds (w_db w2)))" using sc(1) by (simp_all add: sync_at_def sync_inv_def)
  let ?d = "(w_db w2)\<lparr>subclouds := map_rows (\<lambda>q. if sc_id q = sc_id sc then apply_subcloud_values ?v q else q)
    (subclouds (w_db w2))\<rparr>"
  have upd: "subcloud_update admin_context (sc_id sc) ?v (w_db w2) = (Inr (apply_subcloud_values ?v sc), ?d)"
    by (rule subcloud_update_runs [OF sc2]) (simp add: no_values_def)
  let ?rest = "update_subcloud_state env (sc_name sc) (sc_management_state (apply_subcloud_values ?v sc)) (Some AVAILABILITY_OFFLINE)"
  have "keeps (\<lambda>w. w_db w = ?d) ?rest" by (intro keeps_intros)
  from keepsD [OF this, of "w2\<lparr>w_db := ?d\<rparr>"] have db3: "w_db w3 = ?d"
    using last upd by (simp add: write_availability_def try_else_def db_io_apply when_io_def)
  have still: "status_is (sc_id sc) e SYNC_STATUS_IN_SYNC ?d" using in_sync by (simp add: status_is_def)
  have off: "apply_subcloud_values ?v sc \<in> set (rows (subclouds ?d))" "sc_id (apply_subcloud_values ?v sc) = sc_id sc"
    "sc_availability_status (apply_subcloud_values ?v sc) = AVAILABILITY_OFFLINE"
    using update_returns_row [OF upd] by (auto simp: apply_subcloud_values_def no_values_def)
  obtain q where q: "q \<in> set (rows (subcloud_status_t ?d))" "ss_subcloud_id q = sc_id sc"
    "ss_sync_status q = SYNC_STATUS_IN_SYNC" using still unfolding status_is_def by blast
  have lost: "\<not> trusted (apply_subcloud_values ?v sc) (ss_endpoint_type q)" unfolding trusted_def using off(3) by simp
  have same: "sc_id (apply_subcloud_values ?v sc) = ss_subcloud_id q" unfolding off(2) q(2) ..
  have "\<not> sync_inv ?d" by (rule broken_trust [OF q(1,3) off(1) same lost])
  then show ?thesis unfolding db3 using still off by blast
qed

section \<open>Examples\<close>

text \<open>An example: all services answer; \<open>alpha\<close> is managed, online and in sync.\<close>

definition ex_sm_env :: "unit sm_env" where
  "ex_sm_env = \<lparr>sm_state = ex_state_env, sm_config_path = ''/opt/platform/config'', sm_sw_version = ''22.12'',
     sm_utcnow = ret 100, sm_state_rpc = (\<lambda>_. ret ()),
     sm_subcloud_managed = (\<lambda>_. ret ()), sm_trigger_subcloud_audits = (\<lambda>_ _. ret ()),
     sm_add_subcloud = (\<lambda>_ _. ret ()), sm_del_subcloud = (\<lambda>_. ret ()),
     sm_keystone = ret (), sm_endpoint = (\<lambda>_. ret ()),
     sm_delete_endpoints = (\<lambda>_. ret ()), sm_delete_region = (\<lambda>_. ret ()),
     sm_enabled_users = ret [], sm_enabled_projects = ret [], sm_controller_hosts = ret [],
     sm_management_interface = (\<lambda>_. ret None),
     sm_management_address_pool = ret \<lparr>ap_floating_address = ''10.0.0.1'', ap_network = ''10.0.0.0'', ap_prefix = 24\<rparr>,
     sm_oam_addresses = ret \<lparr>oam_floating_ip = ''10.1.0.1'', oam_subnet = ''10.1.0.0/24''\<rparr>,
     sm_create_route = (\<lambda>_ _ _ _. ret ()), sm_delete_route = (\<lambda>_ _ _ _. ret ()),
     sm_ip_network = (\<lambda>_. Inr (''10.2.0.0'', 24)), sm_ip_address = (\<lambda>_. Inr []),
     sm_kube_delete_certificate = (\<lambda>_. ret ()), sm_kube_delete_secret = (\<lambda>_. ret ()),
     sm_open = (\<lambda>_. ret ()), sm_system = (\<lambda>_. ret ()),
     sm_ip_version = (\<lambda>_. Inr 4), sm_services = ret [],
     sm_create_endpoint = (\<lambda>_ _ _. ret ()), sm_uuid = ret [],
     sm_keyring = (\<lambda>_ _. ret []), sm_kube_apply_certificate = (\<lambda>_. ret ()),
     sm_kube_get_secret = (\<lambda>_. ret None), sm_listdir = (\<lambda>_. ret None),
     sm_run_playbook = (\<lambda>_ _. ret ()), sm_ansible_error_msg = (\<lambda>_ _ _. ret []),
     sm_install_new = (\<lambda>_. ret ()), sm_install_prep = (\<lambda>_ _. ret ()),
     sm_install_install = (\<lambda>_ _. ret ()), sm_install_cleanup = (\<lambda>_. ret ()),
     sm_system_health = (\<lambda>_. ret []), sm_subcloud_oam = (\<lambda>_. ret None),
     sm_json_loads = (\<lambda>_. Inr JNull), sm_second_address = (\<lambda>_. Inr []),
     sm_list_endpoints = (\<lambda>_. ret []), sm_service_type = (\<lambda>_. ret []),
     sm_update_endpoint = (\<lambda>_ _. ret ()), sm_trigger_endpoints_update = (\<lambda>_ _. ret ()),
     sm_update_subcloud_endpoints = (\<lambda>_ _. ret ()),
     sm_sysinv_endpoint_update = (\<lambda>_ _. ret ())\<rparr>"

definition ex_in_sync :: subcloud_status where
  "ex_in_sync = (ex_status 1 1)\<lparr>ss_sync_status := SYNC_STATUS_IN_SYNC\<rparr>"

definition ex_managed_world :: "unit world" where
  "ex_managed_world = ex_world ((ex_db [])\<lparr>subcloud_status_t := \<lparr>rows = [ex_in_sync], next_id = 2\<rparr>\<rparr>)"

definition ex_change :: "string option \<Rightarrow> subcloud_change" where
  "ex_change m = \<lparr>uc_management_state = m, uc_description = None, uc_location = None, uc_group_id = None,
     uc_data_install = None, uc_force = False\<rparr>"

lemma ex_managed_inv: "sync_inv (w_db ex_managed_world)"
  by (auto simp: ex_managed_world_def ex_in_sync_def sync_inv_def in_sync_ok_def row_ok_def trusted_def db_wf_defs
      table_wf_def ex_defs empty_db_def empty_table_def DEFAULT_SUBCLOUD_GROUP_ID_def)

theorem management_change_refused_witness:
  "\<exists>e. update_subcloud ex_sm_env admin_context 1 (ex_change (Some ''managed'')) ex_managed_world =
    (Inl e, ex_managed_world)"
  by (rule management_change_refused [where m = MANAGEMENT_MANAGED and sc = "ex_subcloud 1 ''alpha'' 1"])
    (simp_all add: subcloud_get_def first_or_apply query_first_def ex_managed_world_def ex_defs ex_change_def
      change_allowed_def)

theorem unmanage_without_state_service_witness:
  "\<exists>e w'. update_subcloud (ex_sm_env\<lparr>sm_state_rpc := \<lambda>_. raise (RemoteError ''timeout'')\<rparr>) admin_context 1
      (ex_change (Some ''unmanaged'')) ex_managed_world = (Inl e, w') \<and> \<not> sync_inv (w_db w')"
proof -
  have *: "ex_subcloud 1 ''alpha'' 1 \<in> set (rows (subclouds (w_db ex_managed_world)))"
    "sc_management_state (ex_subcloud 1 ''alpha'' 1) = MANAGEMENT_MANAGED"
    "ex_in_sync \<in> set (rows (subcloud_status_t (w_db ex_managed_world)))"
    "ss_subcloud_id ex_in_sync = sc_id (ex_subcloud 1 ''alpha'' 1)"
    "ss_sync_status ex_in_sync = SYNC_STATUS_IN_SYNC" "ss_endpoint_type ex_in_sync \<noteq> ENDPOINT_TYPE_DC_CERT"
    "sc_id (ex_subcloud 1 ''alpha'' 1) = 1"
    by (simp_all add: ex_managed_world_def ex_in_sync_def ex_defs)
  have wf: "db_wf (w_db ex_managed_world)" using ex_managed_inv by (simp add: sync_inv_def)
  let ?env = "ex_sm_env\<lparr>sm_state_rpc := \<lambda>_. raise (RemoteError ''timeout'')\<rparr>"
  have "\<forall>n m a. answers (se_update_subcloud_states (sm_state ?env) n m a)"
    by (simp add: ex_sm_env_def ex_state_env_def answers_def)
  moreover have "\<forall>n x. \<exists>e y. sm_state_rpc ?env n x = (Inl e, y)" by simp
  ultimately show ?thesis
    using unmanage_without_state_service [OF wf *(1-6), of ?env "ex_change (Some ''unmanaged'')"] *(7)
    by (auto simp: ex_change_def)
qed


theorem empty_management_state_witness:
  "\<exists>x w'. update_subcloud ex_sm_env admin_context 1 (ex_change (Some [])) ex_managed_world = (Inr x, w') \<and>
    \<not> sync_inv (w_db w')"
proof -
  have *: "ex_subcloud 1 ''alpha'' 1 \<in> set (rows (subclouds (w_db ex_managed_world)))"
    "ex_in_sync \<in> set (rows (subcloud_status_t (w_db ex_managed_world)))"
    "ss_subcloud_id ex_in_sync = sc_id (ex_subcloud 1 ''alpha'' 1)"
    "ss_sync_status ex_in_sync = SYNC_STATUS_IN_SYNC" "ss_endpoint_type ex_in_sync \<noteq> ENDPOINT_TYPE_DC_CERT"
    "sc_id (ex_subcloud 1 ''alpha'' 1) = 1"
    by (simp_all add: ex_managed_world_def ex_in_sync_def ex_defs)
  have wf: "db_wf (w_db ex_managed_world)" using ex_managed_inv by (simp add: sync_inv_def)
  show ?thesis
    using empty_management_state [OF wf *(1-5), of "ex_change (Some [])" ex_sm_env] *(6) by (auto simp: ex_change_def)
qed

theorem offline_race_witness:
  "\<exists>w1 x w2 y w3. announce_availability ex_state_env admin_context ''alpha'' AVAILABILITY_OFFLINE ex_managed_world = (Inr (), w1) \<and>
    update_subcloud_endpoint_status ex_state_env admin_context (Some ''alpha'') (Some ENDPOINT_TYPE_PATCHING)
      SYNC_STATUS_IN_SYNC True [] w1 = (x, w2) \<and>
    write_availability ex_state_env admin_context (ex_subcloud 1 ''alpha'' 1) ''alpha'' AVAILABILITY_OFFLINE None w2 = (y, w3) \<and>
    status_is 1 ENDPOINT_TYPE_PATCHING SYNC_STATUS_IN_SYNC (w_db w3) \<and> \<not> sync_inv (w_db w3)"
proof -
  let ?sc = "ex_subcloud 1 ''alpha'' 1"
  have *: "?sc \<in> set (rows (subclouds (w_db ex_managed_world)))" "sc_name ?sc \<noteq> []" "trusted ?sc ENDPOINT_TYPE_PATCHING"
    "ex_in_sync \<in> set (rows (subcloud_status_t (w_db ex_managed_world)))" "ss_subcloud_id ex_in_sync = sc_id ?sc"
    "ss_endpoint_type ex_in_sync = ENDPOINT_TYPE_PATCHING"
    by (simp_all add: ex_managed_world_def ex_in_sync_def trusted_def ex_defs)
  have sc: "sc_name ?sc = ''alpha''" "sc_id ?sc = 1" by (simp_all add: ex_defs)
  have "\<exists>w1. announce_availability ex_state_env admin_context (sc_name ?sc) AVAILABILITY_OFFLINE ex_managed_world = (Inr (), w1)"
  proof -
    have faults: "\<forall>a en. answers (se_get_fault ex_state_env a en)" by (auto simp: ex_state_env_def answers_def)
    obtain w1 where "raise_or_clear_subcloud_status_alarm ex_state_env (sc_name ?sc) AVAILABILITY_OFFLINE ex_managed_world = (Inr (), w1)"
      "w_db w1 = w_db ex_managed_world"
      using set_or_clear_runs faults unfolding raise_or_clear_subcloud_status_alarm_def by blast
    then have wf: "db_wf (w_db w1)" "?sc \<in> set (rows (subclouds (w_db w1)))"
      using ex_managed_inv *(1) by (simp_all add: sync_inv_def)
    obtain w2 where "update_named_endpoint_status ex_state_env admin_context (sc_name ?sc) None SYNC_STATUS_UNKNOWN True [] w1 =
        (Inr (), w2)" using update_named_runs [OF _ wf *(2), of ex_state_env True] faults by blast
    then show ?thesis using \<open>raise_or_clear_subcloud_status_alarm _ _ _ _ = _\<close>
      by (simp add: announce_availability_def when_io_def seq_apply)
  qed
  then obtain w1 where w1: "announce_availability ex_state_env admin_context (sc_name ?sc) AVAILABILITY_OFFLINE
      ex_managed_world = (Inr (), w1)" by blast
  obtain x w2 where w2: "update_subcloud_endpoint_status ex_state_env admin_context (Some (sc_name ?sc))
      (Some ENDPOINT_TYPE_PATCHING) SYNC_STATUS_IN_SYNC True [] w1 = (x, w2)" by fastforce
  obtain y w3 where w3: "write_availability ex_state_env admin_context ?sc (sc_name ?sc) AVAILABILITY_OFFLINE None w2 = (y, w3)"
    by fastforce
  from offline_race [OF ex_managed_inv * w1 w2 w3] show ?thesis using w1 w2 w3 unfolding sc by blast
qed

end
