(* ===== verification/DC_SubcloudProps.thy ===== *)
theory DC_SubcloudProps
  imports DC_ManageProps
begin

text \<open>
  What the subcloud manager promises when a subcloud is deleted, when the service starts, and for the
  data of RegionOne that it caches.
\<close>

section \<open>Steps that leave the database alone\<close>

abbreviation on_db :: "(db \<Rightarrow> bool) \<Rightarrow> 'x sm_sys \<Rightarrow> bool" where
  "on_db I s \<equiv> I (w_db (sm_world s))"

lemma keeps_on_world [keeps_intros]: "keeps I m \<Longrightarrow> keeps (\<lambda>s. I (sm_world s)) (on_world m)"
  by (auto simp: keeps_def on_world_def zoom_apply split: prod.splits)

lemma keeps_set_cache [keeps_intros]: "keeps (\<lambda>s. I (sm_world s)) (set_cache f)"
  by (simp add: keeps_def set_cache_def)

lemma keeps_of_sum [keeps_intros]: "keeps I (of_sum x)"
  by (cases x) (simp_all add: of_sum_def keeps_ret keeps_raise)

lemma keeps_interface_uuids [keeps_intros]: "keeps (\<lambda>w. I (w_db w)) (interface_uuids env hs)"
proof (induction hs)
  case Nil
  show ?case unfolding interface_uuids.simps by (rule keeps_ret)
next
  case (Cons h hs)
  then show ?case unfolding interface_uuids.simps by (intro keeps_intros)
qed

lemma keeps_refresh [keeps_intros]: "keeps (on_db I) (refresh_regionone_data env b)"
  unfolding refresh_regionone_data_def by (intro keeps_intros)

lemma keeps_get_cached [keeps_intros]: "keeps (on_db I) (get_cached_regionone_data env b)"
  unfolding get_cached_regionone_data_def by (intro keeps_intros)

lemma keeps_delete_routes [keeps_intros]: "keeps (on_db I) (delete_subcloud_routes env sc)"
  unfolding delete_subcloud_routes_def by (intro keeps_intros)

lemma keeps_put_file [keeps_intros]: "keeps (\<lambda>w. I (w_db w)) (put_file env p c)"
  unfolding put_file_def fill_file_def by (intro keeps_intros)

lemma keeps_delete_inventory [keeps_intros]: "keeps (\<lambda>w. I (w_db w)) (delete_subcloud_inventory p)"
  unfolding delete_subcloud_inventory_def by (intro keeps_intros)

lemma keeps_delete_cert [keeps_intros]: "keeps (\<lambda>w. I (w_db w)) (delete_subcloud_cert env n)"
  unfolding delete_subcloud_cert_def by (intro keeps_intros)

lemma keeps_delete_backup_data [keeps_intros]: "keeps (\<lambda>w. I (w_db w)) (delete_subcloud_backup_data n)"
  unfolding delete_subcloud_backup_data_def Let_def by (intro keeps_intros)

lemma keeps_ignore_remote [keeps_intros]: "keeps I m \<Longrightarrow> keeps I (ignore_remote_error m)"
  unfolding ignore_remote_error_def
  by (intro keeps_try_catch) (auto intro: keeps_intros split: exn.splits)

lemma outside_clear_alarm [outside_intros]: "outside (clear_alarm env a n)"
  unfolding clear_alarm_def by (intro outside_intros)

section \<open>Deleting a subcloud\<close>

lemma delete_guard:
  assumes "subcloud_get ctx i (w_db (sm_world s)) = (Inr sc, d)"
    and "sc_management_state sc \<noteq> MANAGEMENT_UNMANAGED \<or> sc_availability_status sc = AVAILABILITY_ONLINE"
  shows "\<exists>e. delete_subcloud env ctx i s = (Inl e, s)"
proof -
  have "d = w_db (sm_world s)" using subcloud_get_found [OF assms(1)] by blast
  then show ?thesis
    using assms by (auto simp: delete_subcloud_def bnd_apply on_world_def zoom_apply db_io_apply)
qed

text \<open>A subcloud that is not unmanaged, or online, is not deleted: the request raises and changes nothing.\<close>

theorem delete_subcloud_refused:
  assumes "subcloud_get ctx i (w_db (sm_world s)) = (Inr sc, d)"
    and "sc_management_state sc \<noteq> MANAGEMENT_UNMANAGED \<or> sc_availability_status sc = AVAILABILITY_ONLINE"
  shows "\<exists>e. delete_subcloud env ctx i s = (Inl e, s)"
  using assms by (rule delete_guard)

text \<open>The database without a subcloud and all that refers to it.\<close>

definition without_subcloud :: "subcloud \<Rightarrow> db \<Rightarrow> db" where
  "without_subcloud sc d = d\<lparr>
     subclouds := delete_row sc_id (sc_id sc) (subclouds d),
     subcloud_audits_t := delete_row sa_subcloud_id (sc_id sc) (subcloud_audits_t d),
     subcloud_status_t := delete_row ss_subcloud_id (sc_id sc) (subcloud_status_t d),
     sw_update_opts_t := delete_row so_subcloud_id (sc_id sc) (sw_update_opts_t d),
     strategy_steps := filter_rows (\<lambda>s. sp_subcloud_id s \<noteq> Some (sc_id sc)) (strategy_steps d),
     subcloud_alarms_t := filter_rows (\<lambda>r. al_name r \<noteq> sc_name sc) (subcloud_alarms_t d)\<rparr>"

lemma subcloud_destroy_Inr:
  assumes "subcloud_destroy ctx i d = (Inr u, d')"
  shows "d' = d\<lparr>
     subclouds := delete_row sc_id i (subclouds d),
     subcloud_audits_t := delete_row sa_subcloud_id i (subcloud_audits_t d),
     subcloud_status_t := delete_row ss_subcloud_id i (subcloud_status_t d),
     sw_update_opts_t := delete_row so_subcloud_id i (sw_update_opts_t d),
     strategy_steps := filter_rows (\<lambda>s. sp_subcloud_id s \<noteq> Some i) (strategy_steps d)\<rparr>"
proof -
  obtain c where c: "ctx = Some c" "rc_is_admin c"
    using assms by (cases ctx) (auto simp: subcloud_destroy_def context_defs split: if_splits)
  then show ?thesis
    using assms
    by (auto simp: subcloud_destroy_def context_defs write_session_def bnd_apply
        dest!: subcloud_get_found split: prod.splits sum.splits)
qed

lemma alarms_delete_Inr:
  assumes "ignore_remote_error (db_io (subcloud_alarms_delete ctx n)) w = (Inr u, w')"
  shows "w_db w' = (w_db w)\<lparr>subcloud_alarms_t := filter_rows (\<lambda>r. al_name r \<noteq> n) (subcloud_alarms_t (w_db w))\<rparr>"
  using assms
  by (cases ctx) (auto simp: ignore_remote_error_def subcloud_alarms_delete_def context_defs write_session_def
      try_catch_def db_io_apply split: if_splits)

definition addn_hosts_path :: "'x sm_env \<Rightarrow> string" where
  "addn_hosts_path env = path_join (sm_config_path env) ADDN_HOSTS_DC"

lemma subcloud_get_all_Inr:
  "subcloud_get_all ctx d = (Inr scs, d') \<Longrightarrow> d' = d \<and> scs = rows (subclouds d)"
  by (cases ctx) (auto simp: subcloud_get_all_def context_defs query_all_def split: if_splits)

lemma create_addn_hosts_Inr:
  assumes "create_addn_hosts_dc env ctx w = (Inr u, w')"
  shows "w_db w' = w_db w \<and>
    fs_files (w_fs w') (addn_hosts_path env) = Some (addn_hosts_lines (rows (subclouds (w_db w))))"
proof -
  let ?p = "addn_hosts_path env"
  let ?l = "addn_hosts_lines (rows (subclouds (w_db w)))"
  let ?rename = "\<lambda>l. seq (fs_io (modify (\<lambda>f. f\<lparr>fs_files := (fs_files f)(?p \<mapsto> l, ?p @ ''.temp'' := None)\<rparr>)))
    (call (ShellCommand ''pkill -HUP dnsmasq'') (sm_system env ''pkill -HUP dnsmasq''))"
  obtain scs d where "subcloud_get_all ctx (w_db w) = (Inr scs, d)" and
    "seq (put_file env (?p @ ''.temp'') (addn_hosts_lines scs))
      (bnd (fs_io (gets (\<lambda>f. fs_files f ?p))) (\<lambda>current.
         case current of
           None \<Rightarrow> raise (IOError (''No such file or directory: '' @ ?p))
         | Some content \<Rightarrow> when_io (content \<noteq> addn_hosts_lines scs) (?rename (addn_hosts_lines scs))))
      (w\<lparr>w_db := d\<rparr>) = (Inr u, w')"
    using assms unfolding create_addn_hosts_dc_def Let_def addn_hosts_path_def bnd_Inr_iff db_io_Inr_iff by blast
  then obtain w1 where w1: "put_file env (?p @ ''.temp'') ?l w = (Inr (), w1)" and
    rest: "bnd (fs_io (gets (\<lambda>f. fs_files f ?p))) (\<lambda>current.
         case current of
           None \<Rightarrow> raise (IOError (''No such file or directory: '' @ ?p))
         | Some content \<Rightarrow> when_io (content \<noteq> ?l) (?rename ?l)) w1 = (Inr u, w')"
    by (auto dest!: subcloud_get_all_Inr simp: seq_Inr_iff)
  have "w_db w1 = w_db w" using keepsD [OF keeps_put_file, of "\<lambda>d. d = w_db w" w] w1 by (metis snd_conv)
  moreover have "w_db w' = w_db w1 \<and> fs_files (w_fs w') ?p = Some ?l"
    using rest
    by (auto simp: bnd_apply fs_io_apply when_io_def seq_apply call_apply
        split: option.splits if_splits prod.splits sum.splits)
  ultimately show ?thesis by simp
qed

lemma on_world_Inr_iff:
  "on_world m s = (Inr x, s') \<longleftrightarrow> (\<exists>w'. m (sm_world s) = (Inr x, w') \<and> s' = s\<lparr>sm_world := w'\<rparr>)"
  by (auto simp: on_world_def zoom_apply split: prod.splits)

lemma keeps_run:
  assumes "m s = (r, s')" and "keeps (\<lambda>t. w_db (sm_world t) = w_db (sm_world s)) m"
  shows "w_db (sm_world s') = w_db (sm_world s)"
  using keepsD [OF assms(2), of s] assms(1) by simp

lemma keeps_world_run:
  assumes "m w = (r, w')" and "keeps (\<lambda>v. w_db v = w_db w) m"
  shows "w_db w' = w_db w"
  using keepsD [OF assms(2), of w] assms(1) by simp

lemma remove_subcloud_details_Inr:
  assumes run: "remove_subcloud_details env ctx sc inventory s = (Inr u, s')"
  shows "w_db (sm_world s') = without_subcloud sc (w_db (sm_world s)) \<and>
    fs_files (w_fs (sm_world s')) (addn_hosts_path env) =
      Some (addn_hosts_lines (rows (subclouds (w_db (sm_world s')))))"
proof -
  let ?first = "on_world (ignore_remote_error (call (OrchRpc (sc_name sc)) (sm_del_subcloud env (sc_name sc))))"
  let ?before = "seq (on_world (ask (sm_keystone env)))
    (seq (on_world (call (KeystoneAction ''delete endpoints'' (sc_name sc)) (sm_delete_endpoints env (sc_name sc))))
    (seq (on_world (call (KeystoneAction ''delete region'' (sc_name sc)) (sm_delete_region env (sc_name sc))))
      (delete_subcloud_routes env sc)))"
  let ?after = "seq (delete_subcloud_inventory inventory)
    (seq (delete_subcloud_cert env (sc_name sc)) (delete_subcloud_backup_data (sc_name sc)))"
  obtain s1 w2 s3 w4 w5 where
    s1: "?first s = (Inr (), s1)"
    and w2: "ignore_remote_error (db_io (subcloud_alarms_delete ctx (sc_name sc))) (sm_world s1) = (Inr (), w2)"
    and s3: "?before (s1\<lparr>sm_world := w2\<rparr>) = (Inr (), s3)"
    and w4: "subcloud_destroy ctx (sc_id sc) (w_db (sm_world s3)) = (Inr (), w4)"
    and w5: "?after ((sm_world s3)\<lparr>w_db := w4\<rparr>) = (Inr (), w5)"
    and last_step: "create_addn_hosts_dc env ctx w5 = (Inr u, sm_world s')"
    using run unfolding remove_subcloud_details_def seq_Inr_iff on_world_Inr_iff db_io_Inr_iff
    by (auto 0 3)
  have "w_db (sm_world s1) = w_db (sm_world s)" by (rule keeps_run [where m = ?first, OF s1]) (intro keeps_intros)
  moreover have "w_db (sm_world s3) = w_db (sm_world (s1\<lparr>sm_world := w2\<rparr>))"
    by (rule keeps_run [where m = ?before, OF s3]) (intro keeps_intros)
  moreover have "w_db w5 = w_db ((sm_world s3)\<lparr>w_db := w4\<rparr>)"
    by (rule keeps_world_run [where m = ?after, OF w5]) (intro keeps_intros)
  ultimately show ?thesis
    using alarms_delete_Inr [OF w2] subcloud_destroy_Inr [OF w4] create_addn_hosts_Inr [OF last_step]
    by (simp add: without_subcloud_def)
qed

lemma without_subcloud_inv:
  assumes "sync_inv d" and "sc \<in> set (rows (subclouds d))"
  shows "sync_inv (without_subcloud sc d)"
proof -
  let ?d = "d\<lparr>subcloud_alarms_t := filter_rows (\<lambda>r. al_name r \<noteq> sc_name sc) (subcloud_alarms_t d)\<rparr>"
  have wf: "db_wf ?d"
    using keepsD [OF subcloud_alarms_delete_wf, of d admin_context "sc_name sc"] assms(1)
    by (simp add: subcloud_alarms_delete_def write_session_def sync_inv_def)
  have "query_first (\<lambda>r. sc_id r = sc_id sc) (subclouds ?d) = Some sc"
    by (rule find_by_id [OF wf]) (simp add: assms(2))
  then have "subcloud_destroy admin_context (sc_id sc) ?d = (Inr (), without_subcloud sc d)"
    by (simp add: subcloud_destroy_def subcloud_get_def first_or_apply write_session_def bnd_apply without_subcloud_def)
  then have "db_wf (without_subcloud sc d)"
    using keepsD [OF subcloud_destroy_wf wf, of admin_context "sc_id sc"] by simp
  then show ?thesis
    using assms(1) by (auto simp: sync_inv_def in_sync_ok_def row_ok_def without_subcloud_def)
qed

text \<open>C31: A deletion that succeeds removes the subcloud and every row that refers to it, by its
  identifier or its name, and nothing else; the invariant of the state manager is kept, and the
  hosts file lists exactly the subclouds that are left.\<close>

theorem delete_subcloud_removes_all:
  assumes inv: "sync_inv (w_db (sm_world s))" and run: "delete_subcloud env ctx i s = (Inr u, s')"
  shows "\<exists>sc \<in> set (rows (subclouds (w_db (sm_world s)))). sc_id sc = i \<and>
    sc_management_state sc = MANAGEMENT_UNMANAGED \<and> sc_availability_status sc = AVAILABILITY_OFFLINE \<and>
    w_db (sm_world s') = without_subcloud sc (w_db (sm_world s)) \<and> sync_inv (w_db (sm_world s')) \<and>
    fs_files (w_fs (sm_world s')) (addn_hosts_path env) =
      Some (addn_hosts_lines (rows (subclouds (w_db (sm_world s')))))"
proof -
  let ?clear = "\<lambda>sc. for_each (\<lambda>(alarm, entity). clear_alarm (sm_state env) alarm entity)
    [(SUBCLOUD_OFFLINE, subcloud_entity (sc_name sc)),
     (SUBCLOUD_RESOURCE_OUT_OF_SYNC, endpoint_entity (sc_name sc) ENDPOINT_TYPE_DC_CERT),
     (SUBCLOUD_BACKUP_FAILED, subcloud_entity (sc_name sc))]"
  obtain sc where get: "subcloud_get ctx i (w_db (sm_world s)) = (Inr sc, w_db (sm_world s))"
    using run by (auto simp: delete_subcloud_def bnd_Inr_iff on_world_Inr_iff db_io_Inr_iff
        dest: subcloud_get_found)
  note found = subcloud_get_found [OF get]
  have "\<not> (sc_management_state sc \<noteq> MANAGEMENT_UNMANAGED \<or> sc_availability_status sc = AVAILABILITY_ONLINE)"
  proof
    assume "sc_management_state sc \<noteq> MANAGEMENT_UNMANAGED \<or> sc_availability_status sc = AVAILABILITY_ONLINE"
    from delete_guard [OF get this, of env] run show False by auto
  qed
  then have guard: "sc_management_state sc = MANAGEMENT_UNMANAGED" "sc_availability_status sc = AVAILABILITY_OFFLINE"
    by simp (use \<open>\<not> (_ \<or> _)\<close> in \<open>cases "sc_availability_status sc"; simp\<close>)
  obtain s1 where details: "remove_subcloud_details env ctx sc
      (get_ansible_filename (sc_name sc) INVENTORY_FILE_POSTFIX) s = (Inr (), s1)"
    and clear: "?clear sc (sm_world s1) = (Inr u, sm_world s')"
    using run get guard unfolding delete_subcloud_def bnd_Inr_iff on_world_Inr_iff db_io_Inr_iff seq_Inr_iff
    by (auto simp: seq_Inr_iff on_world_Inr_iff)
  have "outside (?clear sc)" by (rule outside_for_each) (simp add: outside_clear_alarm split: prod.split)
  from outside_apply [OF this clear]
  have "w_db (sm_world s') = w_db (sm_world s1)" "w_fs (sm_world s') = w_fs (sm_world s1)" by blast+
  then show ?thesis
    using remove_subcloud_details_Inr [OF details] without_subcloud_inv [OF inv] found guard
    by (intro bexI [of _ sc]) auto
qed

section \<open>Operations in progress at start-up\<close>

text \<open>How an interrupted operation ends, state by state: the state on the left is written while an
  operation runs, the one on the right says that the operation failed. \<open>not-deployed\<close> is the state
  before the preparation of a deployment has begun.\<close>

definition interrupted :: "deploy_state \<Rightarrow> deploy_state" where
  "interrupted st = (case map_of
     [(DEPLOY_STATE_NONE, DEPLOY_STATE_DEPLOY_PREP_FAILED),
      (DEPLOY_STATE_PRE_DEPLOY, DEPLOY_STATE_DEPLOY_PREP_FAILED),
      (DEPLOY_STATE_PRE_INSTALL, DEPLOY_STATE_PRE_INSTALL_FAILED),
      (DEPLOY_STATE_INSTALLING, DEPLOY_STATE_INSTALL_FAILED),
      (DEPLOY_STATE_BOOTSTRAPPING, DEPLOY_STATE_BOOTSTRAP_FAILED),
      (DEPLOY_STATE_DEPLOYING, DEPLOY_STATE_DEPLOY_FAILED),
      (DEPLOY_STATE_MIGRATING_DATA, DEPLOY_STATE_DATA_MIGRATION_FAILED),
      (DEPLOY_STATE_PRE_RESTORE, DEPLOY_STATE_RESTORE_PREP_FAILED),
      (DEPLOY_STATE_RESTORING, DEPLOY_STATE_RESTORE_FAILED),
      (PRESTAGE_STATE_PREPARE, PRESTAGE_STATE_FAILED),
      (PRESTAGE_STATE_PACKAGES, PRESTAGE_STATE_FAILED),
      (PRESTAGE_STATE_IMAGES, PRESTAGE_STATE_FAILED)] st of None \<Rightarrow> st | Some f \<Rightarrow> f)"

definition interrupted_backup :: "backup_state \<Rightarrow> backup_state" where
  "interrupted_backup b = (case map_of
     [(BACKUP_STATE_VALIDATING, BACKUP_STATE_VALIDATE_FAILED), (BACKUP_STATE_PRE_BACKUP, BACKUP_STATE_PREP_FAILED),
      (BACKUP_STATE_IN_PROGRESS, BACKUP_STATE_FAILED)] b of None \<Rightarrow> b | Some f \<Rightarrow> f)"

text \<open>The states that the operations of the manager write while they run, and those that an operation
  leaves for good when it ends.\<close>

definition under_way :: "deploy_state set" where
  "under_way = {DEPLOY_STATE_PRE_DEPLOY, DEPLOY_STATE_PRE_INSTALL, DEPLOY_STATE_INSTALLING, DEPLOY_STATE_BOOTSTRAPPING,
     DEPLOY_STATE_DEPLOYING, DEPLOY_STATE_MIGRATING_DATA, DEPLOY_STATE_PRE_RESTORE, DEPLOY_STATE_RESTORING,
     DEPLOY_STATE_PRE_REHOME, DEPLOY_STATE_REHOMING, DEPLOY_STATE_RECONFIGURING_NETWORK,
     PRESTAGE_STATE_PREPARE, PRESTAGE_STATE_PACKAGES, PRESTAGE_STATE_IMAGES}"

definition backup_under_way :: "backup_state set" where
  "backup_under_way = {BACKUP_STATE_INITIAL, BACKUP_STATE_VALIDATING, BACKUP_STATE_PRE_BACKUP, BACKUP_STATE_IN_PROGRESS}"

definition settle :: "subcloud \<Rightarrow> subcloud" where
  "settle sc = sc\<lparr>sc_deploy_status := interrupted (sc_deploy_status sc),
     sc_backup_status := map_option interrupted_backup (sc_backup_status sc)\<rparr>"

lemma transitory_interrupted:
  "(case transitory_state st of None \<Rightarrow> st | Some f \<Rightarrow> f) = interrupted st"
  by (cases st) (simp_all add: interrupted_def)

lemma transitory_interrupted_backup:
  "(case Option.bind b transitory_backup_state of None \<Rightarrow> b | Some f \<Rightarrow> Some f) = map_option interrupted_backup b"
proof (cases b)
  case (Some x)
  then show ?thesis by (cases x) (simp_all add: interrupted_backup_def)
qed simp

lemma settle_table:
  "settle sc = sc\<lparr>
     sc_deploy_status := (case transitory_state (sc_deploy_status sc) of None \<Rightarrow> sc_deploy_status sc | Some d \<Rightarrow> d),
     sc_backup_status := (case Option.bind (sc_backup_status sc) transitory_backup_state of
        None \<Rightarrow> sc_backup_status sc | Some b \<Rightarrow> Some b)\<rparr>"
  unfolding settle_def transitory_interrupted transitory_interrupted_backup ..

lemma interrupted_ends: "interrupted st \<in> under_way \<Longrightarrow>
  interrupted st = st \<and> st \<in> {DEPLOY_STATE_PRE_REHOME, DEPLOY_STATE_REHOMING, DEPLOY_STATE_RECONFIGURING_NETWORK}"
  by (cases st) (simp_all add: interrupted_def under_way_def)

lemma interrupted_backup_ends: "interrupted_backup b \<in> backup_under_way \<Longrightarrow> interrupted_backup b = BACKUP_STATE_INITIAL"
  by (cases b) (simp_all add: interrupted_backup_def backup_under_way_def)

text \<open>A subcloud that no operation of the tables is running for.\<close>

definition settled :: "subcloud \<Rightarrow> bool" where
  "settled sc \<longleftrightarrow> transitory_state (sc_deploy_status sc) = None \<and>
     Option.bind (sc_backup_status sc) transitory_backup_state = None"

lemma settle_same: "settled sc \<Longrightarrow> settle sc = sc"
  by (simp add: settled_def settle_table)

lemma fail_operations_runs:
  assumes "db_wf (w_db w)" and "sc \<in> set (rows (subclouds (w_db w)))"
  shows "\<exists>w'. fail_operations_of sc w = (Inr (), w') \<and> db_wf (w_db w') \<and>
    rows (subclouds (w_db w')) = map (\<lambda>q. if q = sc then settle q else q) (rows (subclouds (w_db w)))"
proof (cases "settled sc")
  case True
  then have "fail_operations_of sc w = (Inr (), w)"
    by (simp add: fail_operations_of_def settled_def Let_def when_io_def)
  moreover have "map (\<lambda>q. if q = sc then settle q else q) (rows (subclouds (w_db w))) = rows (subclouds (w_db w))"
    using settle_same [OF True] by (intro map_idI) simp
  ultimately show ?thesis using assms(1) by auto
next
  case False
  let ?v = "no_values\<lparr>
    sv_deploy_status := (case transitory_state (sc_deploy_status sc) of None \<Rightarrow> Some (sc_deploy_status sc) | Some d \<Rightarrow> Some d),
    sv_backup_status := (case Option.bind (sc_backup_status sc) transitory_backup_state of
      None \<Rightarrow> sc_backup_status sc | Some b \<Rightarrow> Some b)\<rparr>"
  let ?d = "(w_db w)\<lparr>subclouds := map_rows (\<lambda>q. if sc_id q = sc_id sc then apply_subcloud_values ?v q else q)
    (subclouds (w_db w))\<rparr>"
  have upd: "subcloud_update admin_context (sc_id sc) ?v (w_db w) = (Inr (apply_subcloud_values ?v sc), ?d)"
    by (rule subcloud_update_runs [OF assms]) (simp add: no_values_def)
  then have "fail_operations_of sc w = (Inr (), w\<lparr>w_db := ?d\<rparr>)"
    using False by (auto simp: fail_operations_of_def settled_def Let_def when_io_def seq_apply db_io_apply)
  moreover have "db_wf ?d"
    using keepsD [OF subcloud_update_wf assms(1), of admin_context "sc_id sc" ?v] upd by simp
  moreover have "table_wf sc_id (subclouds (w_db w))" using assms(1) by (simp add: db_wf_defs)
  then have "sc_id q = sc_id sc \<longleftrightarrow> q = sc" if "q \<in> set (rows (subclouds (w_db w)))" for q
    using table_wf_key_inj that assms(2) by metis
  moreover have "apply_subcloud_values ?v sc = settle sc"
    by (auto simp: apply_subcloud_values_def settle_table no_values_def split: option.splits)
  ultimately show ?thesis by auto
qed

lemma map_if_absent: "x \<notin> set zs \<Longrightarrow> map (\<lambda>q. if q = x then f q else q) zs = zs"
  by (induction zs) auto

lemma fail_all_runs:
  assumes "db_wf (w_db w)" and "rows (subclouds (w_db w)) = ys @ xs"
  shows "\<exists>w'. for_each fail_operations_of xs w = (Inr (), w') \<and> db_wf (w_db w') \<and>
    rows (subclouds (w_db w')) = ys @ map settle xs"
  using assms
proof (induction xs arbitrary: ys w)
  case Nil
  then show ?case by simp
next
  case (Cons x xs)
  then obtain w1 where w1: "fail_operations_of x w = (Inr (), w1)" "db_wf (w_db w1)"
    "rows (subclouds (w_db w1)) = map (\<lambda>q. if q = x then settle q else q) (ys @ x # xs)"
    using fail_operations_runs [of w x] by auto
  have "table_wf sc_id (subclouds (w_db w))" using Cons.prems(1) by (simp add: db_wf_defs)
  from table_wf_distinct [OF this] have "distinct (ys @ x # xs)"
    using Cons.prems(2) distinct_map by metis
  then have "rows (subclouds (w_db w1)) = (ys @ [settle x]) @ xs"
    using w1(3) by (auto simp: map_if_absent)
  from Cons.IH [OF w1(2) this] show ?case using w1(1) by (simp add: seq_apply)
qed

text \<open>C32: The clean-up at start-up always returns. It gives every subcloud whose deployment, data
  migration, restore, prestaging or backup was under way the failed state that belongs to it
  (\<open>interrupted\<close>) and changes nothing else of any subcloud. Of the states that operations write while they run
  (\<open>under_way\<close>) only three survive it, \<open>pre-rehome\<close>, \<open>rehoming\<close> and \<open>reconfiguring-network\<close>, and of
  those of a backup only \<open>initial\<close>: a subcloud found in one of these stays in it.\<close>

theorem startup_settles:
  assumes "db_wf (w_db w)"
  shows "\<exists>w'. handle_subcloud_operations_in_progress w = (Inr (), w') \<and>
    rows (subclouds (w_db w')) = map (\<lambda>sc. sc\<lparr>sc_deploy_status := interrupted (sc_deploy_status sc),
      sc_backup_status := map_option interrupted_backup (sc_backup_status sc)\<rparr>) (rows (subclouds (w_db w))) \<and>
    (\<forall>sc \<in> set (rows (subclouds (w_db w'))).
      (sc_deploy_status sc \<in> under_way \<longrightarrow>
         sc_deploy_status sc \<in> {DEPLOY_STATE_PRE_REHOME, DEPLOY_STATE_REHOMING, DEPLOY_STATE_RECONFIGURING_NETWORK}) \<and>
      (\<forall>b \<in> backup_under_way. sc_backup_status sc = Some b \<longrightarrow> b = BACKUP_STATE_INITIAL))"
proof -
  let ?scs = "rows (subclouds (w_db w))"
  have "handle_subcloud_operations_in_progress w = for_each fail_operations_of ?scs w"
    by (simp add: handle_subcloud_operations_in_progress_def bnd_apply db_io_apply subcloud_get_all_def query_all_def)
  then obtain w' where "handle_subcloud_operations_in_progress w = (Inr (), w')"
    "rows (subclouds (w_db w')) = map settle ?scs" using fail_all_runs [OF assms, of "[]" ?scs] by auto
  then show ?thesis
    by (intro exI [of _ w'])
      (auto simp: settle_def dest!: interrupted_ends dest: interrupted_backup_ends)
qed

section \<open>The cached data of RegionOne\<close>

definition complete :: "regionone_data \<Rightarrow> bool" where
  "complete c \<longleftrightarrow> rd_admin_user_id c \<noteq> None \<and> rd_sysinv_user_id c \<noteq> None \<and> rd_dcmanager_user_id c \<noteq> None \<and>
     rd_admin_project_id c \<noteq> None \<and> rd_services_project_id c \<noteq> None \<and>
     rd_mgmt_interface_uuids c \<noteq> None \<and> rd_mgmt_pool c \<noteq> None \<and> rd_oam_addresses c \<noteq> None \<and> rd_expiry c \<noteq> None"

text \<open>What keystone lists: of the users and projects it answers with, those that the manager needs.\<close>

definition keystone_lists :: "'x sm_env \<Rightarrow> bool" where
  "keystone_lists env \<longleftrightarrow>
     (\<forall>x us x'. sm_enabled_users env x = (Inr us, x') \<longrightarrow> {''admin'', ''sysinv'', ''dcmanager''} \<subseteq> fst ` set us) \<and>
     (\<forall>x ps x'. sm_enabled_projects env x = (Inr ps, x') \<longrightarrow> {''admin'', ''services''} \<subseteq> fst ` set ps)"

text \<open>The keys that are in the cache stay, and the time of expiry is the last that is set.\<close>

lemma set_user_id_fold [simp]:
  "rd_admin_project_id (fold set_user_id us c) = rd_admin_project_id c"
  "rd_services_project_id (fold set_user_id us c) = rd_services_project_id c"
  "rd_mgmt_interface_uuids (fold set_user_id us c) = rd_mgmt_interface_uuids c"
  "rd_mgmt_pool (fold set_user_id us c) = rd_mgmt_pool c"
  "rd_oam_addresses (fold set_user_id us c) = rd_oam_addresses c"
  "rd_expiry (fold set_user_id us c) = rd_expiry c"
  by (induction us arbitrary: c) (auto simp: set_user_id_def)

lemma set_project_id_fold [simp]:
  "rd_admin_user_id (fold set_project_id ps c) = rd_admin_user_id c"
  "rd_sysinv_user_id (fold set_project_id ps c) = rd_sysinv_user_id c"
  "rd_dcmanager_user_id (fold set_project_id ps c) = rd_dcmanager_user_id c"
  "rd_mgmt_interface_uuids (fold set_project_id ps c) = rd_mgmt_interface_uuids c"
  "rd_mgmt_pool (fold set_project_id ps c) = rd_mgmt_pool c"
  "rd_oam_addresses (fold set_project_id ps c) = rd_oam_addresses c"
  "rd_expiry (fold set_project_id ps c) = rd_expiry c"
  by (induction ps arbitrary: c) (auto simp: set_project_id_def)

text \<open>An id that keystone lists is recorded, and one that is recorded stays so.\<close>

lemma user_ids_recorded:
  "rd_admin_user_id (fold set_user_id us c) = None \<longleftrightarrow> ''admin'' \<notin> fst ` set us \<and> rd_admin_user_id c = None"
  "rd_sysinv_user_id (fold set_user_id us c) = None \<longleftrightarrow> ''sysinv'' \<notin> fst ` set us \<and> rd_sysinv_user_id c = None"
  "rd_dcmanager_user_id (fold set_user_id us c) = None \<longleftrightarrow> ''dcmanager'' \<notin> fst ` set us \<and> rd_dcmanager_user_id c = None"
  by (induction us arbitrary: c) (simp_all add: set_user_id_def)

lemma project_ids_recorded:
  "rd_admin_project_id (fold set_project_id ps c) = None \<longleftrightarrow> ''admin'' \<notin> fst ` set ps \<and> rd_admin_project_id c = None"
  "rd_services_project_id (fold set_project_id ps c) = None \<longleftrightarrow>
     ''services'' \<notin> fst ` set ps \<and> rd_services_project_id c = None"
  by (induction ps arbitrary: c) (simp_all add: set_project_id_def)

lemma on_world_apply: "on_world m s = (case m (sm_world s) of (r, w) \<Rightarrow> (r, s\<lparr>sm_world := w\<rparr>))"
  by (simp add: on_world_def zoom_apply)

lemma set_cache_apply: "set_cache f s = (Inr (), s\<lparr>sm_cache := f (sm_cache s)\<rparr>)"
  by (simp add: set_cache_def)

text \<open>A refresh that fails leaves the time of expiry as it was; one that succeeds leaves a complete
  cache when keystone lists what is needed.\<close>

lemma refresh_expiry:
  assumes "refresh_regionone_data env b s = (Inl e, s')"
  shows "rd_expiry (sm_cache s') = rd_expiry (sm_cache s)"
  using assms
  by (auto simp: refresh_regionone_data_def bnd_apply seq_apply on_world_apply set_cache_apply
      split: prod.splits sum.splits)

lemma refresh_complete:
  assumes lists: "keystone_lists env" and run: "refresh_regionone_data env b s = (Inr u, s')"
  shows "complete (sm_cache s')"
proof -
  obtain us x1 where us: "sm_enabled_users env (w_ext (sm_world s)) = (Inr us, x1)"
    using run by (auto simp: refresh_regionone_data_def bnd_apply on_world_apply ask_apply split: prod.splits sum.splits)
  obtain ps x2 where ps: "sm_enabled_projects env x1 = (Inr ps, x2)"
    using run us by (auto simp: refresh_regionone_data_def bnd_apply seq_apply on_world_apply set_cache_apply ask_apply
        split: prod.splits sum.splits)
  let ?c = "fold set_project_id ps (fold set_user_id us (sm_cache s))"
  have "rd_admin_user_id (sm_cache s') = rd_admin_user_id ?c \<and> rd_sysinv_user_id (sm_cache s') = rd_sysinv_user_id ?c \<and>
    rd_dcmanager_user_id (sm_cache s') = rd_dcmanager_user_id ?c \<and>
    rd_admin_project_id (sm_cache s') = rd_admin_project_id ?c \<and>
    rd_services_project_id (sm_cache s') = rd_services_project_id ?c \<and>
    rd_mgmt_interface_uuids (sm_cache s') \<noteq> None \<and> rd_mgmt_pool (sm_cache s') \<noteq> None \<and>
    rd_oam_addresses (sm_cache s') \<noteq> None \<and> rd_expiry (sm_cache s') \<noteq> None"
    using run us ps
    by (auto simp: refresh_regionone_data_def bnd_apply seq_apply on_world_apply set_cache_apply ask_apply
        split: prod.splits sum.splits)
  moreover have "{''admin'', ''sysinv'', ''dcmanager''} \<subseteq> fst ` set us" "{''admin'', ''services''} \<subseteq> fst ` set ps"
    using lists us ps unfolding keystone_lists_def by blast+
  ultimately show ?thesis unfolding complete_def by (simp add: user_ids_recorded project_ids_recorded)
qed

text \<open>C35: The RegionOne data that is returned is complete, with all its nine keys, and is what the cache
  holds: the ids of the three users and two projects, the interfaces, the address pool, the OAM
  addresses and the time of expiry. This holds when the cache was empty or complete before and
  keystone, whenever it answers, lists these users and projects; any service may fail instead of
  answering.\<close>

theorem regionone_data_complete:
  assumes before: "sm_cache s = no_regionone_data \<or> complete (sm_cache s)" and lists: "keystone_lists env"
    and run: "get_cached_regionone_data env b s = (Inr c, s')"
  shows "complete c \<and> sm_cache s' = c"
proof -
  let ?rest = "\<lambda>stale s1. seq (when_io stale (refresh_regionone_data env b)) (gets sm_cache) s1 = (Inr c, s')"
  have "\<exists>stale s1. sm_cache s1 = sm_cache s \<and> (stale \<or> sm_cache s \<noteq> no_regionone_data) \<and> ?rest stale s1"
  proof (cases "sm_cache s = no_regionone_data")
    case True
    then have "?rest True s" using run by (simp add: get_cached_regionone_data_def bnd_apply)
    then show ?thesis by blast
  next
    case False
    then obtain now w y where "ask (sm_utcnow env) (sm_world s) = (Inr now, w)" "rd_expiry (sm_cache s) = Some y"
      "?rest (y \<le> now) (s\<lparr>sm_world := w\<rparr>)"
      using run by (auto simp: get_cached_regionone_data_def bnd_Inr_iff on_world_Inr_iff split: option.splits)
    then show ?thesis using False by (intro exI [of _ "y \<le> now"] exI [of _ "s\<lparr>sm_world := w\<rparr>"]) simp
  qed
  then obtain stale s1 where cache1: "sm_cache s1 = sm_cache s" and stale: "stale \<or> sm_cache s \<noteq> no_regionone_data"
    and rest: "?rest stale s1" by blast
  show ?thesis
  proof (cases stale)
    case False
    then show ?thesis using before stale rest cache1 by (auto simp: when_io_def)
  next
    case True
    then obtain s2 where "refresh_regionone_data env b s1 = (Inr (), s2)" "c = sm_cache s2" "s' = s2"
      using rest by (auto simp: when_io_def seq_Inr_iff)
    then show ?thesis using refresh_complete [OF lists] by blast
  qed
qed

text \<open>A first refresh that fails after it has stored anything is final: the cache is not empty and
  has no time of expiry, so every later request for the data raises, with whatever services, and
  leaves the cache as it is.\<close>

theorem failed_first_refresh_is_final:
  assumes empty: "sm_cache s = no_regionone_data"
    and run: "get_cached_regionone_data env b s = (Inl e, s')" and some: "sm_cache s' \<noteq> no_regionone_data"
    and later: "sm_cache t = sm_cache s'"
  shows "\<exists>e' t'. get_cached_regionone_data env' b' t = (Inl e', t') \<and> sm_cache t' = sm_cache s'"
proof -
  have "refresh_regionone_data env b s = (Inl e, s')"
    using run empty
    by (auto simp: get_cached_regionone_data_def bnd_apply seq_apply when_io_def split: prod.splits sum.splits)
  then have "rd_expiry (sm_cache s') = rd_expiry (sm_cache s)"
    using refresh_expiry [of env b s] by blast
  then have "rd_expiry (sm_cache t) = None" using empty later by (simp add: no_regionone_data_def)
  then show ?thesis
    using some later
    by (cases "sm_utcnow env' (w_ext (sm_world t))")
      (auto simp: get_cached_regionone_data_def bnd_apply on_world_def zoom_apply ask_apply split: sum.splits)
qed

section \<open>Examples\<close>

definition ex_sys :: "db \<Rightarrow> unit sm_sys" where
  "ex_sys d = \<lparr>sm_world = (ex_world d)\<lparr>w_fs := \<lparr>fs_files =
     [''/opt/platform/config/dnsmasq.addn_hosts_dc'' \<mapsto> [] ], fs_dirs = {}\<rparr>\<rparr>, sm_cache = no_regionone_data\<rparr>"

text \<open>A database whose only subcloud is \<open>sc\<close>.\<close>

definition ex_single :: "subcloud \<Rightarrow> db" where
  "ex_single sc = empty_db\<lparr>
     subclouds := \<lparr>rows = [sc], next_id = 2\<rparr>,
     subcloud_groups := \<lparr>rows = [ex_group 1 ''Default''], next_id = 2\<rparr>,
     subcloud_status_t := \<lparr>rows = [ex_status 1 1], next_id = 2\<rparr>\<rparr>"

definition ex_gone :: subcloud where
  "ex_gone = (ex_subcloud 1 ''alpha'' 1)\<lparr>sc_management_state := MANAGEMENT_UNMANAGED,
     sc_availability_status := AVAILABILITY_OFFLINE\<rparr>"

definition ex_interrupted :: subcloud where
  "ex_interrupted = (ex_subcloud 1 ''alpha'' 1)\<lparr>sc_deploy_status := DEPLOY_STATE_INSTALLING,
     sc_backup_status := Some BACKUP_STATE_IN_PROGRESS\<rparr>"

lemma ex_single_inv:
  assumes "sc_id sc = 1" and "sc_group_id sc = Some 1"
  shows "sync_inv (ex_single sc)"
  using assms
  by (auto simp: ex_single_def sync_inv_def in_sync_ok_def row_ok_def db_wf_defs table_wf_def ex_status_def
      ex_group_def empty_db_def empty_table_def DEFAULT_SUBCLOUD_GROUP_ID_def)

theorem delete_subcloud_refused_witness:
  "\<exists>e. delete_subcloud ex_sm_env admin_context 1 (ex_sys (ex_db [])) = (Inl e, ex_sys (ex_db []))"
  by (rule delete_subcloud_refused [where sc = "ex_subcloud 1 ''alpha'' 1"])
    (simp_all add: subcloud_get_def first_or_apply query_first_def ex_sys_def ex_defs)

theorem startup_settles_witness:
  "\<exists>w'. handle_subcloud_operations_in_progress (ex_world (ex_single ex_interrupted)) = (Inr (), w') \<and>
    rows (subclouds (w_db w')) = [(ex_subcloud 1 ''alpha'' 1)\<lparr>sc_deploy_status := DEPLOY_STATE_INSTALL_FAILED,
      sc_backup_status := Some BACKUP_STATE_FAILED\<rparr>]"
proof -
  have "db_wf (w_db (ex_world (ex_single ex_interrupted)))"
    using ex_single_inv [of ex_interrupted] by (simp add: ex_interrupted_def ex_defs sync_inv_def)
  from startup_settles [OF this]
  obtain w' where "handle_subcloud_operations_in_progress (ex_world (ex_single ex_interrupted)) = (Inr (), w')"
    "rows (subclouds (w_db w')) = map (\<lambda>sc. sc\<lparr>sc_deploy_status := interrupted (sc_deploy_status sc),
      sc_backup_status := map_option interrupted_backup (sc_backup_status sc)\<rparr>) [ex_interrupted]"
    by (elim exE conjE) (rule that, assumption, simp add: ex_world_def ex_single_def)
  then show ?thesis
    by (intro exI [of _ w'] conjI)
      (assumption, simp add: interrupted_def interrupted_backup_def ex_interrupted_def ex_subcloud_def)
qed

definition ex_keystone_lists :: "unit sm_env" where
  "ex_keystone_lists = ex_sm_env\<lparr>sm_enabled_users := ret [(''admin'', ''1''), (''sysinv'', ''2''), (''dcmanager'', ''3'')],
     sm_enabled_projects := ret [(''services'', ''5''), (''admin'', ''4'')]\<rparr>"

theorem regionone_data_complete_witness:
  "\<exists>c s'. get_cached_regionone_data ex_keystone_lists True (ex_sys (ex_db [])) = (Inr c, s') \<and> complete c"
proof -
  have "\<exists>c s'. get_cached_regionone_data ex_keystone_lists True (ex_sys (ex_db [])) = (Inr c, s')"
    by (simp add: get_cached_regionone_data_def refresh_regionone_data_def bnd_apply seq_apply when_io_def
        unless_io_def on_world_apply set_cache_apply ask_apply ex_sys_def ex_keystone_lists_def ex_sm_env_def)
  then obtain c s' where run: "get_cached_regionone_data ex_keystone_lists True (ex_sys (ex_db [])) = (Inr c, s')" by blast
  have "keystone_lists ex_keystone_lists" by (simp add: keystone_lists_def ex_keystone_lists_def)
  moreover have "sm_cache (ex_sys (ex_db [])) = no_regionone_data" by (simp add: ex_sys_def)
  ultimately show ?thesis using regionone_data_complete [OF _ _ run] run by blast
qed

text \<open>Keystone answers the first request and not the second.\<close>

definition ex_keystone_fails :: "unit sm_env" where
  "ex_keystone_fails = ex_sm_env\<lparr>sm_enabled_users := ret [(''admin'', ''42'')],
     sm_enabled_projects := raise (RemoteError ''timeout'')\<rparr>"

theorem failed_first_refresh_is_final_witness:
  "\<exists>e s' e' t'. get_cached_regionone_data ex_keystone_fails True (ex_sys (ex_db [])) = (Inl e, s') \<and>
    get_cached_regionone_data ex_sm_env True s' = (Inl e', t') \<and> sm_cache t' = sm_cache s'"
proof -
  obtain e s' where run: "get_cached_regionone_data ex_keystone_fails True (ex_sys (ex_db [])) = (Inl e, s')"
    and some: "rd_admin_user_id (sm_cache s') = Some ''42''"
    by (simp add: get_cached_regionone_data_def refresh_regionone_data_def bnd_apply seq_apply when_io_def
        unless_io_def on_world_apply set_cache_apply ask_apply ex_sys_def ex_keystone_fails_def ex_sm_env_def
        set_user_id_def)
  have "sm_cache (ex_sys (ex_db [])) = no_regionone_data" by (simp add: ex_sys_def)
  moreover have "sm_cache s' \<noteq> no_regionone_data" using some by (auto simp: no_regionone_data_def)
  ultimately show ?thesis using failed_first_refresh_is_final [OF _ run _ refl] run by blast
qed

theorem delete_subcloud_removes_all_witness:
  "\<exists>s'. delete_subcloud ex_sm_env admin_context 1 (ex_sys (ex_single ex_gone)) = (Inr (), s') \<and>
    rows (subclouds (w_db (sm_world s'))) = [] \<and>
    fs_files (w_fs (sm_world s')) ''/opt/platform/config/dnsmasq.addn_hosts_dc'' = Some '' ''"
proof -
  have path: "path_join ''/opt/platform/config'' ADDN_HOSTS_DC = ''/opt/platform/config/dnsmasq.addn_hosts_dc''"
    by (simp add: path_join_def ADDN_HOSTS_DC_def)
  have inv: "sync_inv (w_db (sm_world (ex_sys (ex_single ex_gone))))"
    using ex_single_inv [of ex_gone] by (simp add: ex_sys_def ex_gone_def ex_defs)
  have "\<exists>s'. delete_subcloud ex_sm_env admin_context 1 (ex_sys (ex_single ex_gone)) = (Inr (), s')"
    by (simp add: delete_subcloud_def remove_subcloud_details_def get_cached_regionone_data_def
        refresh_regionone_data_def bnd_apply seq_apply when_io_def unless_io_def on_world_apply set_cache_apply
        ask_apply call_apply db_io_apply fs_io_apply ex_sys_def ex_sm_env_def ex_state_env_def ex_single_def ex_gone_def ex_defs
        subcloud_get_def first_or_apply query_first_def ignore_remote_error_def try_catch_def
        subcloud_alarms_delete_def write_session_def delete_subcloud_routes_def of_sum_def
        subcloud_destroy_def delete_subcloud_inventory_def delete_subcloud_cert_def delete_subcloud_backup_data_def
        Let_def create_addn_hosts_dc_def path subcloud_get_all_def query_all_def put_file_def fill_file_def
        addn_hosts_lines_def clear_alarm_def isfile_def isdir_def CENTRAL_BACKUP_DIR_def path_join_def ADDN_HOSTS_DC_def
        get_ansible_filename_def ANSIBLE_OVERRIDES_PATH_def INVENTORY_FILE_POSTFIX_def)
  then obtain s' where run: "delete_subcloud ex_sm_env admin_context 1 (ex_sys (ex_single ex_gone)) = (Inr (), s')"
    by blast
  then show ?thesis
    using delete_subcloud_removes_all [OF inv run]
    by (auto simp: ex_sys_def ex_single_def ex_gone_def ex_defs without_subcloud_def addn_hosts_path_def path
        ex_sm_env_def addn_hosts_lines_def)
qed

end
