(* ===== verification/DC_BackupProps.thy ===== *)
theory DC_BackupProps
  imports DC_Backups DC_SubcloudProps
begin

text \<open>
  What the backups promise: a subcloud whose backup is under way is left alone by a further request,
  and a request that ends leaves none of its subclouds with a backup under way.
\<close>

section \<open>Rows\<close>

definition row_is :: "subcloud \<Rightarrow> db \<Rightarrow> bool" where
  "row_is sc d \<longleftrightarrow> sc \<in> set (rows (subclouds d))"

definition backup_over :: "nat \<Rightarrow> db \<Rightarrow> bool" where
  "backup_over i d \<longleftrightarrow> (\<forall>r \<in> set (rows (subclouds d)). sc_id r = i \<longrightarrow> \<not> backup_ongoing r)"

lemma bulk_update_effect:
  assumes "subcloud_bulk_update_by_ids ctx ids v d = (x, d')"
  shows "d' = d \<or> d' = d\<lparr>subclouds :=
    map_rows (\<lambda>r. if sc_id r \<in> set ids then apply_subcloud_values v r else r) (subclouds d)\<rparr>"
  using assms
  by (auto simp: subcloud_bulk_update_by_ids_def update_subclouds_where_def context_defs bnd_apply
      write_session_def split: option.splits if_splits)

lemma bulk_update_Inr:
  assumes "subcloud_bulk_update_by_ids ctx ids v d = (Inr u, d')"
  shows "d' = d\<lparr>subclouds :=
    map_rows (\<lambda>r. if sc_id r \<in> set ids then apply_subcloud_values v r else r) (subclouds d)\<rparr>"
  using assms
  by (cases ctx) (auto simp: subcloud_bulk_update_by_ids_def update_subclouds_where_def context_defs bnd_apply
      write_session_def split: if_splits)

text \<open>A predicate on the rows that the update of other subclouds respects.\<close>

definition about :: "nat \<Rightarrow> (db \<Rightarrow> bool) \<Rightarrow> bool" where
  "about i I \<longleftrightarrow> (\<forall>d f. I d \<longrightarrow> (\<forall>r. sc_id (f r) = sc_id r) \<longrightarrow> (\<forall>r. sc_id r = i \<longrightarrow> f r = r) \<longrightarrow>
     I (d\<lparr>subclouds := map_rows f (subclouds d)\<rparr>))"

lemma about_row: "about (sc_id sc) (row_is sc)"
  unfolding about_def row_is_def by (auto simp: image_iff) (metis)

lemma about_over: "about i (backup_over i)"
  unfolding about_def backup_over_def by auto

lemma update_about:
  assumes "about k I" and "k \<noteq> i"
  shows "keeps I (subcloud_update ctx i v)"
proof (rule keepsI)
  fix d assume d: "I d"
  obtain x d' where run: "subcloud_update ctx i v d = (x, d')" by fastforce
  have "I (d\<lparr>subclouds := map_rows (\<lambda>r. if sc_id r = i then apply_subcloud_values v r else r) (subclouds d)\<rparr>)"
    using assms d unfolding about_def by (auto simp: apply_subcloud_values_def)
  then show "I (snd (subcloud_update ctx i v d))" using subcloud_update_effect [OF run] run d by auto
qed

lemma bulk_about:
  assumes "about k I" and "k \<notin> set ids"
  shows "keeps I (subcloud_bulk_update_by_ids ctx ids v)"
proof (rule keepsI)
  fix d assume d: "I d"
  obtain x d' where run: "subcloud_bulk_update_by_ids ctx ids v d = (x, d')" by fastforce
  have "I (d\<lparr>subclouds := map_rows (\<lambda>r. if sc_id r \<in> set ids then apply_subcloud_values v r else r) (subclouds d)\<rparr>)"
    using assms d unfolding about_def by (auto simp: apply_subcloud_values_def)
  then show "I (snd (subcloud_bulk_update_by_ids ctx ids v d))" using bulk_update_effect [OF run] run d by auto
qed

section \<open>The thread of a subcloud\<close>

lemma keeps_create_inventory [keeps_intros]: "keeps (\<lambda>w. I (w_db w)) (create_subcloud_inventory env p f)"
  unfolding create_subcloud_inventory_def fill_file_def by (intro keeps_intros)

lemma keeps_bootstrap_address [keeps_intros]: "keeps (\<lambda>w. I (w_db w)) (bootstrap_address env n data)"
proof -
  have "keeps (\<lambda>w. I (w_db w)) (case the data of JObject d \<Rightarrow>
      ret (case dict_get ''bootstrap_address'' d of None \<Rightarrow> JNull | Some v \<Rightarrow> v) | _ \<Rightarrow> raise AttributeError)"
    by (cases "the data") (simp_all add: keeps_ret keeps_raise)
  then show ?thesis unfolding bootstrap_address_def by (intro keeps_intros) simp_all
qed

lemma keeps_inventory_file [keeps_intros]: "keeps (\<lambda>w. I (w_db w)) (create_subcloud_inventory_file env sc data)"
  unfolding create_subcloud_inventory_file_def Let_def by (intro keeps_intros)

lemma keeps_overrides [keeps_intros]:
  "keeps (\<lambda>w. I (w_db w)) (create_overrides_for_backup_or_restore env op payload n)"
  unfolding create_overrides_for_backup_or_restore_def create_backup_overrides_file_def Let_def
  by (intro keeps_intros)

lemma keeps_healthy [keeps_intros]: "keeps (\<lambda>w. I (w_db w)) (is_subcloud_healthy env n)"
  unfolding is_subcloud_healthy_def by (intro keeps_intros)

lemma keeps_clear_alarm [keeps_intros]: "keeps (\<lambda>w. I (w_db w)) (clear_alarm env a n)"
  unfolding clear_alarm_def by (intro keeps_intros)

lemma keeps_error_text [keeps_intros]: "keeps (\<lambda>w. I (w_db w)) (error_text env n l st)"
  unfolding error_text_def by (intro keeps_intros)

lemma keeps_failure_alarm [keeps_intros]: "keeps (\<lambda>w. I (w_db w)) (set_backup_failure_alarm env sc)"
  unfolding set_backup_failure_alarm_def by (intro keeps_intros)

lemma keeps_on_playbook_failure [keeps_intros]: "keeps I m \<Longrightarrow> keeps I (on_playbook_failure m e)"
  by (cases e) (simp_all add: on_playbook_failure_def keeps_raise)

lemma keeps_run_playbook [keeps_intros]: "keeps (\<lambda>w. I (w_db w)) (run_playbook env l c)"
  unfolding run_playbook_def by (intro keeps_intros)

lemma set_backup_about: "about k I \<Longrightarrow> k \<noteq> i \<Longrightarrow> keeps (\<lambda>w. I (w_db w)) (set_backup ctx i b)"
  unfolding set_backup_def by (intro keeps_intros keeps_db_io update_about)

lemma backup_subcloud_about:
  assumes "about k I" and "k \<noteq> sc_id sc"
  shows "keeps (\<lambda>w. I (w_db w)) (backup_subcloud env ctx payload sc)"
  unfolding backup_subcloud_def prepare_backup_def run_subcloud_backup_create_playbook_def Let_def
    fail_subcloud_backup_operation_def
  by (intro keeps_intros keeps_db_io update_about [OF assms] set_backup_about [OF assms])

lemma group_operation_keeps:
  "(\<And>sc. sc \<in> set scs \<Longrightarrow> keeps I (f sc)) \<Longrightarrow> keeps I (run_parallel_group_operation f scs)"
proof (induction scs)
  case Nil
  show ?case unfolding run_parallel_group_operation.simps by (rule keeps_ret)
next
  case (Cons sc scs)
  then show ?case unfolding run_parallel_group_operation.simps by (intro keeps_intros) simp_all
qed

lemma not_ongoing [simp]:
  "b \<notin> set STATES_FOR_ONGOING_BACKUP \<Longrightarrow> sv_backup_status v = Some b \<Longrightarrow>
   \<not> backup_ongoing (apply_subcloud_values v r)"
  by (simp add: backup_ongoing_def apply_subcloud_values_def)

lemma update_over:
  assumes "subcloud_update ctx i v d = (Inr sc, d')" and "sv_backup_status v = Some b"
    and "b \<notin> set STATES_FOR_ONGOING_BACKUP"
  shows "backup_over i d'"
proof -
  have "d' = d\<lparr>subclouds := map_rows (\<lambda>q. if sc_id q = i then apply_subcloud_values v q else q) (subclouds d)\<rparr>"
    using subcloud_update_Inr [OF assms(1)] by blast
  then show ?thesis
    using not_ongoing [OF assms(3,2)] by (simp add: backup_over_def del: if_image_distrib)
qed

lemma set_backup_over:
  "set_backup ctx i b w = (Inr u, w') \<Longrightarrow> b \<notin> set STATES_FOR_ONGOING_BACKUP \<Longrightarrow> backup_over i (w_db w')"
  by (auto simp: set_backup_def seq_Inr_iff db_io_Inr_iff intro!: update_over simp: no_values_def)

lemma unit_seq_Inr:
  "seq (m :: ('s, unit) io) n s = (Inr y, t) \<longleftrightarrow> (\<exists>s'. m s = (Inr (), s') \<and> n s' = (Inr y, t))"
  by (simp add: seq_Inr_iff)

lemma backup_failure_over:
  assumes "fail_subcloud_backup_operation env ctx l sc w = (Inr u, w')"
  shows "backup_over (sc_id sc) (w_db w')"
proof -
  obtain msg w1 q d where "subcloud_update ctx (sc_id sc) (no_values\<lparr>sv_backup_status := Some BACKUP_STATE_FAILED,
      sv_error_description := Some msg\<rparr>) (w_db w1) = (Inr q, d)"
    and alarm: "set_backup_failure_alarm env sc (w1\<lparr>w_db := d\<rparr>) = (Inr u, w')"
    using assms by (auto simp: fail_subcloud_backup_operation_def bnd_Inr_iff seq_Inr_iff db_io_Inr_iff)
  from update_over [OF this(1)] have "backup_over (sc_id sc) d"
    by (simp add: no_values_def STATES_FOR_ONGOING_BACKUP_def)
  then show ?thesis
    using keepsD [OF keeps_failure_alarm, of "backup_over (sc_id sc)" "w1\<lparr>w_db := d\<rparr>" env sc] alarm by simp
qed

lemma backup_playbook_over:
  assumes "run_subcloud_backup_create_playbook env sc command ctx local_only w = (Inr ok, w')"
  shows "backup_over (sc_id sc) (w_db w')"
proof -
  let ?v = "\<lambda>now. no_values\<lparr>sv_backup_status := Some (if local_only then BACKUP_STATE_COMPLETE_LOCAL
      else BACKUP_STATE_COMPLETE_CENTRAL), sv_backup_datetime := Some now\<rparr>"
  obtain w1 where "try_catch (seq (run_playbook env (log_file_of (sc_name sc)) command)
      (bnd (ask (sm_utcnow env)) (\<lambda>now. seq (db_io (subcloud_update ctx (sc_id sc) (?v now))) (ret True))))
      (on_playbook_failure (seq (fail_subcloud_backup_operation env ctx (log_file_of (sc_name sc)) sc) (ret False)))
      w1 = (Inr ok, w')"
    using assms unfolding run_subcloud_backup_create_playbook_def Let_def seq_Inr_iff [of "db_io _"] by blast
  then consider (done_ok) now w2 q d where "subcloud_update ctx (sc_id sc) (?v now) (w_db w2) = (Inr q, d)" "w' = w2\<lparr>w_db := d\<rparr>"
    | (failed) e w2 where "on_playbook_failure (seq (fail_subcloud_backup_operation env ctx (log_file_of (sc_name sc)) sc)
        (ret False)) e w2 = (Inr ok, w')"
    by (auto simp: try_catch_def bnd_Inr_iff seq_Inr_iff db_io_Inr_iff split: prod.splits sum.splits)
  then show ?thesis
  proof cases
    case done_ok
    from update_over [OF this(1)] show ?thesis
      using done_ok(2) by (simp add: no_values_def STATES_FOR_ONGOING_BACKUP_def)
  next
    case failed
    then show ?thesis
      by (cases e) (auto simp: on_playbook_failure_def seq_Inr_iff dest: backup_failure_over)
  qed
qed

lemma prepare_backup_over:
  assumes "prepare_backup env ctx payload sc w = (Inr None, w')"
  shows "backup_over (sc_id sc) (w_db w')"
proof -
  obtain healthy w1 where "(if \<not> healthy then seq (set_backup ctx (sc_id sc) BACKUP_STATE_VALIDATE_FAILED) (ret None)
    else seq (set_backup ctx (sc_id sc) BACKUP_STATE_PRE_BACKUP)
      (bnd (create_subcloud_inventory_file env sc None) (\<lambda>inventory.
       bnd (create_overrides_for_backup_or_restore env ''create'' payload (sc_name sc)) (\<lambda>overrides.
       seq (clear_alarm (sm_state env) SUBCLOUD_BACKUP_FAILED (subcloud_entity (sc_name sc)))
         (ret (Some (overrides, compose_backup_command (sc_name sc) inventory))))))) w1 = (Inr None, w')"
    using assms unfolding prepare_backup_def bnd_Inr_iff by blast
  then have "set_backup ctx (sc_id sc) BACKUP_STATE_VALIDATE_FAILED w1 = (Inr (), w')"
    by (auto simp: seq_Inr_iff bnd_Inr_iff split: if_splits)
  from set_backup_over [OF this] show ?thesis by (simp add: STATES_FOR_ONGOING_BACKUP_def)
qed

lemma backup_subcloud_over:
  assumes "backup_subcloud env ctx payload sc w = (Inr ok, w')"
  shows "backup_over (sc_id sc) (w_db w')"
proof -
  have "try_else (prepare_backup env ctx payload sc)
      (\<lambda>_. seq (set_backup ctx (sc_id sc) BACKUP_STATE_PREP_FAILED) (ret False))
      (\<lambda>r. case r of None \<Rightarrow> ret False | Some (overrides, command) \<Rightarrow>
        bnd (run_subcloud_backup_create_playbook env sc command ctx (dict_has ''local_only'' payload)) (\<lambda>ok.
          seq (when_io ok (delete_subcloud_inventory overrides)) (ret ok))) w = (Inr ok, w')"
    using assms unfolding backup_subcloud_def .
  then consider (failed) w1 where "set_backup ctx (sc_id sc) BACKUP_STATE_PREP_FAILED w1 = (Inr (), w')"
    | (ill) "prepare_backup env ctx payload sc w = (Inr None, w')"
    | (ran) overrides command w1 ok2 w2 where
        "run_subcloud_backup_create_playbook env sc command ctx (dict_has ''local_only'' payload) w1 = (Inr ok2, w2)"
        "when_io ok2 (delete_subcloud_inventory overrides) w2 = (Inr (), w')"
    by (auto simp: try_else_def seq_Inr_iff bnd_Inr_iff split: prod.splits sum.splits option.splits)
  then show ?thesis
  proof cases
    case failed
    from set_backup_over [OF this] show ?thesis by (simp add: STATES_FOR_ONGOING_BACKUP_def)
  next
    case ill
    then show ?thesis by (rule prepare_backup_over)
  next
    case ran
    have "keeps (\<lambda>w. backup_over (sc_id sc) (w_db w)) (when_io ok2 (delete_subcloud_inventory overrides))"
      by (intro keeps_intros)
    from keepsD [OF this backup_playbook_over [OF ran(1)]] ran(2) show ?thesis by simp
  qed
qed

text \<open>The pool works through its subclouds; what one has finished, the others leave alone.\<close>

lemma group_over:
  assumes "run_parallel_group_operation (backup_subcloud env ctx payload) scs w = (Inr failed, w')"
    and "(\<exists>sc \<in> set scs. sc_id sc = i) \<or> backup_over i (w_db w)"
  shows "backup_over i (w_db w')"
  using assms
proof (induction scs arbitrary: w failed)
  case Nil
  then show ?case by simp
next
  case (Cons sc scs)
  obtain ok w1 rest where w1: "backup_subcloud env ctx payload sc w = (Inr ok, w1)"
    and rest: "run_parallel_group_operation (backup_subcloud env ctx payload) scs w1 = (Inr rest, w')"
    using Cons.prems(1) by (auto simp: bnd_Inr_iff)
  have "(\<exists>q \<in> set scs. sc_id q = i) \<or> backup_over i (w_db w1)"
  proof (cases "sc_id sc = i")
    case True
    then show ?thesis using backup_subcloud_over [OF w1] by simp
  next
    case False
    have "keeps (\<lambda>w. backup_over i (w_db w)) (backup_subcloud env ctx payload sc)"
      by (rule backup_subcloud_about [OF about_over]) (use False in simp)
    from keepsD [OF this, of w] show ?thesis using Cons.prems(2) False w1 by auto
  qed
  with Cons.IH [OF rest] show ?case .
qed

section \<open>A request\<close>

lemma subclouds_of_request_found:
  assumes "subclouds_of_request ctx payload w = (Inr scs, w')"
  shows "w' = w \<and> set scs \<subseteq> set (rows (subclouds (w_db w)))"
proof (cases "payload_id ''subcloud'' payload = 0")
  case True
  then obtain d where "subcloud_get_for_group ctx (payload_id ''group'' payload) (w_db w) = (Inr scs, d)"
    "w' = w\<lparr>w_db := d\<rparr>" using assms by (auto simp: subclouds_of_request_def db_io_Inr_iff)
  then show ?thesis by (auto simp: subcloud_get_for_group_def context_defs query_all_def split: option.splits if_splits)
next
  case False
  then show ?thesis
    using assms by (auto simp: subclouds_of_request_def Let_def bnd_Inr_iff db_io_Inr_iff dest: subcloud_get_found)
qed

lemma keeps_subclouds_of_request: "keeps (\<lambda>w. I (w_db w)) (subclouds_of_request ctx payload)"
  unfolding subclouds_of_request_def Let_def by (intro keeps_intros keeps_db_io)

lemma backups_of_others:
  assumes "about k I" and "\<And>sc. sc \<in> set scs \<Longrightarrow> k \<noteq> sc_id sc"
  shows "keeps (\<lambda>w. I (w_db w)) (seq (update_backup_status ctx scs BACKUP_STATE_INITIAL)
    (seq (update_backup_status ctx scs BACKUP_STATE_VALIDATING)
      (let (valid, invalid) = validate_subclouds_for_backup scs ''create''
       in seq (mark_invalid_subclouds_for_backup ctx invalid)
         (seq (run_parallel_group_operation (backup_subcloud env ctx payload) valid) (ret ())))))"
proof -
  have bulk: "keeps (\<lambda>w. I (w_db w)) (update_backup_status ctx qs b)" if "set qs \<subseteq> set scs" for qs b
    unfolding update_backup_status_def
    by (intro keeps_db_io bulk_about [OF assms(1)]) (use assms(2) that in auto)
  show ?thesis
    unfolding validate_subclouds_for_backup_def mark_invalid_subclouds_for_backup_def Let_def prod.case
    by (intro keeps_intros bulk group_operation_keeps backup_subcloud_about [OF assms(1)])
      (use assms(2) in auto)
qed

text \<open>A further request for a backup leaves a subcloud alone whose backup is under way, also when
  the request is for it or for its group, and whatever becomes of the other backups.\<close>

theorem ongoing_backup_untouched:
  fixes env :: "'x sm_env"
  assumes wf: "db_wf (w_db w)" and sc: "sc \<in> set (rows (subclouds (w_db w)))" and ongoing: "backup_ongoing sc"
  shows "sc \<in> set (rows (subclouds (w_db (snd (create_subcloud_backups env ctx payload w)))))"
proof -
  obtain r w1 where request: "subclouds_of_request ctx payload w = (r, w1)" by fastforce
  have row: "row_is sc (w_db w)" using sc by (simp add: row_is_def)
  have row1: "row_is sc (w_db w1)"
    using keepsD [OF keeps_subclouds_of_request, of "row_is sc" w ctx payload, OF row] request by simp
  have "row_is sc (w_db (snd (create_subcloud_backups env ctx payload w)))"
  proof (cases r)
    case (Inl e)
    then show ?thesis using request row1 by (simp add: create_subcloud_backups_def bnd_apply)
  next
    case (Inr scs)
    let ?scs = "filter_subclouds_with_ongoing_backup scs"
    have found: "w1 = w" "set scs \<subseteq> set (rows (subclouds (w_db w)))"
      using subclouds_of_request_found request Inr by blast+
    have tw: "table_wf sc_id (subclouds (w_db w))" using wf by (simp add: db_wf_defs)
    have other: "sc_id sc \<noteq> sc_id q" if "q \<in> set (filter_subclouds_with_ongoing_backup scs)" for q
    proof
      assume same: "sc_id sc = sc_id q"
      have q: "q \<in> set (rows (subclouds (w_db w)))" "\<not> backup_ongoing q"
        using that found(2) by (auto simp: filter_subclouds_with_ongoing_backup_def)
      from table_wf_key_inj [OF tw sc q(1) same] ongoing q(2) show False by simp
    qed
    have "keeps (\<lambda>w :: 'x world. row_is sc (w_db w)) (seq (update_backup_status ctx ?scs BACKUP_STATE_INITIAL)
      (seq (update_backup_status ctx ?scs BACKUP_STATE_VALIDATING)
        (let (valid, invalid) = validate_subclouds_for_backup ?scs ''create''
         in seq (mark_invalid_subclouds_for_backup ctx invalid)
           (seq (run_parallel_group_operation (backup_subcloud env ctx payload) valid) (ret ())))))"
      by (rule backups_of_others [OF about_row other])
    from keepsD [OF this row1]
    show ?thesis using request Inr by (simp add: create_subcloud_backups_def bnd_apply Let_def)
  qed
  then show ?thesis by (simp add: row_is_def)
qed

text \<open>C33: When a request for backups ends, no subcloud that it took up is left with a backup under way:
  the backup is complete, or it has failed in one of the ways the database records.\<close>

theorem backup_request_settles:
  assumes run: "create_subcloud_backups env ctx payload w = (Inr (), w')"
    and scs: "subclouds_of_request ctx payload w = (Inr scs, w1)"
    and sc: "sc \<in> set scs" "\<not> backup_ongoing sc"
  shows "\<forall>r \<in> set (rows (subclouds (w_db w'))). sc_id r = sc_id sc \<longrightarrow> \<not> backup_ongoing r"
proof -
  let ?scs = "filter_subclouds_with_ongoing_backup scs"
  obtain w2 w3 where "(let (valid, invalid) = validate_subclouds_for_backup ?scs ''create''
      in seq (mark_invalid_subclouds_for_backup ctx invalid)
        (seq (run_parallel_group_operation (backup_subcloud env ctx payload) valid) (ret ()))) w2 = (Inr (), w')"
    using run scs unfolding create_subcloud_backups_def bnd_Inr_iff Let_def seq_Inr_iff by auto
  then obtain w4 failed where
    mark: "mark_invalid_subclouds_for_backup ctx (filter (\<lambda>q. \<not> valid_for_backup ''create'' q) ?scs) w2 = (Inr (), w4)" and
    group: "run_parallel_group_operation (backup_subcloud env ctx payload)
      (filter (valid_for_backup ''create'') ?scs) w4 = (Inr failed, w')"
    by (auto simp: validate_subclouds_for_backup_def seq_Inr_iff)
  have mem: "sc \<in> set ?scs" using sc by (simp add: filter_subclouds_with_ongoing_backup_def)
  have "(\<exists>q \<in> set (filter (valid_for_backup ''create'') ?scs). sc_id q = sc_id sc) \<or> backup_over (sc_id sc) (w_db w4)"
  proof (cases "valid_for_backup ''create'' sc")
    case True
    then show ?thesis using mem by auto
  next
    case False
    let ?bad = "filter (\<lambda>q. \<not> valid_for_backup ''create'' q) ?scs"
    have bad: "sc \<in> set ?bad" using False mem by simp
    then obtain u d where upd: "subcloud_bulk_update_by_ids ctx (map sc_id ?bad)
        (no_values\<lparr>sv_backup_status := Some BACKUP_STATE_VALIDATE_FAILED\<rparr>) (w_db w2) = (Inr u, d)" "w_db w4 = d"
      using mark by (auto simp: mark_invalid_subclouds_for_backup_def update_backup_status_def when_io_def
          db_io_Inr_iff filter_empty_conv split: if_splits)
    have "\<not> backup_ongoing (apply_subcloud_values (no_values\<lparr>sv_backup_status := Some BACKUP_STATE_VALIDATE_FAILED\<rparr>) r)" for r
      by (rule not_ongoing [where b = BACKUP_STATE_VALIDATE_FAILED]) (simp_all add: STATES_FOR_ONGOING_BACKUP_def no_values_def)
    moreover have "sc_id sc \<in> set (map sc_id ?bad)" using bad by force
    ultimately have "backup_over (sc_id sc) d"
      using bulk_update_Inr [OF upd(1)] by (auto simp: backup_over_def simp del: if_image_distrib split: if_splits)
    then show ?thesis using upd(2) by simp
  qed
  from group_over [OF group this] show ?thesis by (simp add: backup_over_def)
qed

section \<open>Examples\<close>

definition ex_backup_request :: dict where
  "ex_backup_request = [(''subcloud'', JNumber 1), (''local_only'', JBoolean False)]"

theorem ongoing_backup_untouched_witness:
  "ex_interrupted \<in> set (rows (subclouds (w_db (snd (create_subcloud_backups ex_sm_env admin_context
     ex_backup_request (ex_world (ex_single ex_interrupted)))))))"
proof (rule ongoing_backup_untouched)
  show "db_wf (w_db (ex_world (ex_single ex_interrupted)))"
    using ex_single_inv [of ex_interrupted] by (simp add: ex_interrupted_def ex_defs sync_inv_def)
qed (simp_all add: ex_world_def ex_single_def ex_interrupted_def backup_ongoing_def STATES_FOR_ONGOING_BACKUP_def)

text \<open>The subcloud is not managed, so it cannot be backed up.\<close>

theorem backup_request_settles_witness:
  "\<exists>w'. create_subcloud_backups ex_sm_env admin_context ex_backup_request (ex_world (ex_single ex_gone)) = (Inr (), w') \<and>
    (\<forall>r \<in> set (rows (subclouds (w_db w'))). sc_id r = 1 \<longrightarrow> \<not> backup_ongoing r)"
proof -
  let ?w = "ex_world (ex_single ex_gone)"
  have row: "query_first (\<lambda>r. sc_id r = 1) (subclouds (ex_single ex_gone)) = Some ex_gone"
    by (simp add: query_first_def ex_single_def ex_gone_def ex_subcloud_def)
  have not: "\<not> backup_ongoing ex_gone" by (simp add: backup_ongoing_def ex_gone_def ex_subcloud_def)
  have invalid: "\<not> valid_for_backup ''create'' ex_gone"
    by (simp add: valid_for_backup_def is_valid_for_backup_operation_def is_valid_for_backup_create_def
        ex_gone_def ex_subcloud_def)
  have scs: "subclouds_of_request admin_context ex_backup_request ?w = (Inr [ex_gone], ?w)"
    using row by (simp add: subclouds_of_request_def payload_id_def ex_backup_request_def dict_get_def bnd_apply
        db_io_apply subcloud_get_def first_or_apply ex_world_def Let_def)
  have "\<exists>w'. create_subcloud_backups ex_sm_env admin_context ex_backup_request ?w = (Inr (), w')"
    using not invalid by (simp add: create_subcloud_backups_def bnd_apply scs Let_def
        filter_subclouds_with_ongoing_backup_def validate_subclouds_for_backup_def seq_apply update_backup_status_def
        mark_invalid_subclouds_for_backup_def when_io_def db_io_apply subcloud_bulk_update_by_ids_def
        update_subclouds_where_def group_known_def no_values_def write_session_def)
  then obtain w' where run: "create_subcloud_backups ex_sm_env admin_context ex_backup_request ?w = (Inr (), w')" ..
  have "sc_id ex_gone = 1" by (simp add: ex_gone_def ex_subcloud_def)
  then show ?thesis using backup_request_settles [OF run scs _ not] run by auto
qed

end
