(* ===== verification/DC_ApiProps.thy ===== *)
theory DC_ApiProps
  imports DC_ApiOthers DC_BackupProps
begin

text \<open>
  What the requests of \<open>DC_Api\<close> promise: what the list of subclouds shows, which
  subnets are accepted, that a refused request leaves the database alone, and what comes of requests
  once the subcloud manager serves the remote calls, a reinstallation with its deployment among them.
\<close>

section \<open>Checks leave the database alone\<close>

lemma keeps_http_abort [keeps_intros]: "keeps I (http_abort n m)"
  by (simp add: http_abort_def keeps_raise)

lemma keeps_abort_if [keeps_intros]: "keeps I (abort_if b n m)"
  unfolding abort_if_def by (intro keeps_intros)

lemma keeps_case_exn_http:
  "keeps I (case e of ValidateFail m \<Rightarrow> http_abort n (f m) | _ \<Rightarrow> raise e)"
  by (cases e) (simp_all add: keeps_intros)

lemma keeps_valid_or_abort [keeps_intros]: "keeps I (valid_or_abort w r)"
  unfolding valid_or_abort_def by (intro keeps_intros keeps_case_exn_http)

lemma keeps_check_range [keeps_intros]: "keeps I (check_range N w k a b)"
  unfolding check_range_def by (intro keeps_intros)

lemma keeps_validate_admin [keeps_intros]: "keeps I (validate_admin_network_config N c ns)"
  unfolding validate_admin_network_config_def by (intro keeps_intros)

lemma keeps_validate_oam [keeps_intros]: "keeps I (validate_oam_network_config N a b c ns)"
  unfolding validate_oam_network_config_def by (intro keeps_intros)

lemma keeps_validate_management [keeps_intros]: "keeps I (validate_management_config N c ns)"
  unfolding validate_management_config_def Let_def by (intro keeps_intros)

lemma keeps_validate_group_id [keeps_intros]: "keeps (\<lambda>w. I (w_db w)) (validate_group_id ctx g)"
  unfolding validate_group_id_def by (intro keeps_intros keeps_db_io)

lemma keeps_validate_gateway [keeps_intros]:
  "keeps (\<lambda>w. I (w_db w)) (validate_systemcontroller_gateway N p g)"
  unfolding validate_systemcontroller_gateway_def by (intro keeps_intros)

lemma keeps_validate_config [keeps_intros]: "keeps (\<lambda>w. I (w_db w)) (validate_subcloud_config N p ctx c)"
  unfolding validate_subcloud_config_def by (intro keeps_intros keeps_db_io)

lemma keeps_get_request_data [keeps_intros]: "keeps I (get_request_data env post)"
  unfolding get_request_data_def Let_def by (intro keeps_intros)

lemma keeps_require_key [keeps_intros]: "keeps I (require_key payload k)"
  unfolding require_key_def by (intro keeps_intros)

lemma keeps_check_payload [keeps_intros]: "keeps I (check_payload payload)"
  unfolding check_payload_def check_gateways_def Let_def by (intro keeps_intros)

lemma keeps_password_or_abort [keeps_intros]: "keeps I (password_or_abort w v)"
  by (simp add: password_or_abort_def keeps_intros split: sum.splits)

lemma keeps_decode_sysadmin_password [keeps_intros]: "keeps I (decode_sysadmin_password payload)"
  unfolding decode_sysadmin_password_def Let_def by (intro keeps_intros)

lemma keeps_check_migrate [keeps_intros]: "keeps I (check_migrate post payload)"
  unfolding check_migrate_def Let_def by (intro keeps_intros)

lemma keeps_matching_iso [keeps_intros]: "keeps (on_db I) (matching_iso env)"
  unfolding matching_iso_def by (intro keeps_intros)

lemma keeps_address_version [keeps_intros]: "keeps I (address_version env w v)"
  unfolding address_version_def by (intro keeps_intros)

lemma keeps_check_network [keeps_intros]: "keeps I (check_network env v values)"
  by (auto simp: check_network_def intro!: keeps_intros split: option.splits json.splits)

lemma keeps_check_values [keeps_intros]: "keeps (on_db I) (check_values env original values)"
  unfolding check_values_def check_size_def check_settle_def check_mandatory_def missing_value_def
    check_gateway_def check_timeout_def Let_def
  by (auto intro!: keeps_intros split: sum.splits)

lemma keeps_validate_install_values [keeps_intros]: "keeps (on_db I) (validate_install_values env payload sc)"
  by (auto simp: validate_install_values_def Let_def intro!: keeps_intros split: json.splits)

lemma keeps_format_address [keeps_intros]: "keeps I (format_address env k d)"
  unfolding format_address_def by (intro keeps_intros)

lemma keeps_format_ip_address [keeps_intros]: "keeps I (format_ip_address env payload)"
  by (auto simp: format_ip_address_def intro!: keeps_intros split: option.splits json.splits list.splits)

lemma keeps_authorized_as [keeps_intros]: "keeps (on_db I) (authorized_as env rule)"
  unfolding authorized_as_def by (intro keeps_intros)

lemma keeps_authorized [keeps_intros]: "keeps (on_db I) (authorized env verb)"
  unfolding authorized_def by (intro keeps_intros)

section \<open>The list of subclouds\<close>

lemma dict_set_set [simp]: "dict_set k v (dict_set k w d) = dict_set k v d"
  by (induction k w d rule: dict_set.induct) auto

lemma dict_set_swap:
  "k \<noteq> k' \<Longrightarrow> dict_get k d \<noteq> None \<Longrightarrow> dict_set k v (dict_set k' w d) = dict_set k' w (dict_set k v d)"
  by (induction k v d rule: dict_set.induct) (auto simp: dict_get_def)

lemma dict_set_same: "dict_get k d = Some v \<Longrightarrow> dict_set k v d = d"
  by (induction k v d rule: dict_set.induct) (auto simp: dict_get_def split: if_splits)

lemma json_id_listed: "dict_get ''id'' (listed_row sc st) = Some (JNumber (int (sc_id sc)))"
  by (simp add: listed_row_def append_static_err_content_def dict_update_def subcloud_status_db_model_to_dict_def
    split: option.split) (simp add: subcloud_db_model_to_dict_def dict_get_def)

definition shown_status :: "subcloud_status option \<Rightarrow> sync_status" where
  "shown_status st = (case st of None \<Rightarrow> SYNC_STATUS_UNKNOWN | Some r \<Rightarrow> ss_sync_status r)"

lemma json_status_listed: "dict_get ''sync_status'' (listed_row sc st) = Some (JText (sync_status_str (shown_status st)))"
  by (simp add: listed_row_def append_static_err_content_def dict_update_def subcloud_status_db_model_to_dict_def
    shown_status_def split: option.split)

text \<open>The answer for one subcloud: the status that its endpoints share, or out of sync.\<close>

definition common_status :: "sync_status list \<Rightarrow> sync_status" where
  "common_status ss = (if \<forall>s \<in> set ss. s = hd ss then hd ss else SYNC_STATUS_OUT_OF_SYNC)"

definition summary_of :: "subcloud \<Rightarrow> subcloud_status option list \<Rightarrow> dict" where
  "summary_of sc sts =
     (let d = dict_set ''sync_status'' (JText (sync_status_str (common_status (map shown_status sts))))
            (listed_row sc (hd sts))
      in if tl sts = [] then d
         else dict_set ''endpoint_sync_status'' (JArray (concat (map endpoint_statuses sts))) d)"

lemma common_status_snoc:
  "ss \<noteq> [] \<Longrightarrow> common_status (ss @ [s]) = (if common_status ss \<noteq> s then SYNC_STATUS_OUT_OF_SYNC else common_status ss)"
  by (cases ss) (auto simp: common_status_def)

lemma summary_id: "sts \<noteq> [] \<Longrightarrow> dict_get ''id'' (summary_of sc sts) = Some (JNumber (int (sc_id sc)))"
  by (simp add: summary_of_def Let_def json_id_listed)

lemma summary_status:
  "dict_get ''sync_status'' (summary_of sc sts) = Some (JText (sync_status_str (common_status (map shown_status sts))))"
  by (simp add: summary_of_def Let_def)

lemma summary_snoc:
  assumes "sts \<noteq> []"
  shows "summary_of sc (sts @ [st]) =
    dict_set ''endpoint_sync_status'' (JArray (concat (map endpoint_statuses sts) @ endpoint_statuses st))
      (if dict_get ''sync_status'' (summary_of sc sts) \<noteq> Some (JText (sync_status_str (shown_status st)))
       then dict_set ''sync_status'' (JText (sync_status_str SYNC_STATUS_OUT_OF_SYNC)) (summary_of sc sts)
       else summary_of sc sts)"
proof -
  have tl: "tl (sts @ [st]) \<noteq> []" "hd (sts @ [st]) = hd sts" using assms by (cases sts; simp)+
  let ?new = "JText (sync_status_str (common_status (map shown_status sts @ [shown_status st])))"
  have "(if dict_get ''sync_status'' (summary_of sc sts) \<noteq> Some (JText (sync_status_str (shown_status st)))
       then dict_set ''sync_status'' (JText (sync_status_str SYNC_STATUS_OUT_OF_SYNC)) (summary_of sc sts)
       else summary_of sc sts) = dict_set ''sync_status'' ?new (summary_of sc sts)" (is "?old = _")
    using assms by (auto simp: summary_status sync_status_str_inj common_status_snoc dict_set_same)
  moreover have "dict_set ''sync_status'' v (dict_set ''endpoint_sync_status'' w (dict_set ''sync_status'' x d)) =
      dict_set ''endpoint_sync_status'' w (dict_set ''sync_status'' v d)" for v w x d
    using dict_set_swap [of "''sync_status''" "''endpoint_sync_status''" "dict_set ''sync_status'' x d" v w] by simp
  ultimately show ?thesis
    unfolding \<open>?old = _\<close> using tl by (simp add: summary_of_def Let_def)
qed

definition statuses_of :: "db \<Rightarrow> subcloud \<Rightarrow> subcloud_status option list" where
  "statuses_of d sc = map snd (outer_join_status d sc)"

lemma outer_join_statuses: "outer_join_status d sc = map (Pair sc) (statuses_of d sc)" "statuses_of d sc \<noteq> []"
  by (auto simp: outer_join_status_def statuses_of_def split: list.split)

lemma list_rest:
  assumes "sts \<noteq> []"
  shows "foldl list_row (ds @ [summary_of sc sts], concat (map endpoint_statuses sts)) (map (Pair sc) rest) =
    (ds @ [summary_of sc (sts @ rest)], concat (map endpoint_statuses (sts @ rest)))"
  using assms
proof (induction rest arbitrary: sts)
  case Nil
  then show ?case by simp
next
  case (Cons st rest)
  have "list_row (ds @ [summary_of sc sts], concat (map endpoint_statuses sts)) (sc, st) =
    (ds @ [summary_of sc (sts @ [st])], concat (map endpoint_statuses (sts @ [st])))"
    using Cons.prems by (simp add: list_row_def Let_def summary_id json_id_listed json_status_listed summary_snoc)
  then show ?case using Cons.IH [of "sts @ [st]"] by simp
qed

lemma list_first:
  assumes "ds = [] \<or> dict_get ''id'' (last ds) \<noteq> Some (JNumber (int (sc_id sc)))"
  shows "list_row (ds, ss) (sc, st) = (ds @ [summary_of sc [st]], concat (map endpoint_statuses [st]))"
proof -
  have "common_status [shown_status st] = shown_status st" by (simp add: common_status_def)
  then have "summary_of sc [st] = listed_row sc st"
    by (simp add: summary_of_def dict_set_same json_status_listed)
  then show ?thesis using assms by (auto simp: list_row_def Let_def json_id_listed)
qed

lemma list_one:
  assumes "ds = [] \<or> dict_get ''id'' (last ds) \<noteq> Some (JNumber (int (sc_id sc)))"
  shows "\<exists>ss'. foldl list_row (ds, ss) (outer_join_status d sc) = (ds @ [summary_of sc (statuses_of d sc)], ss')"
proof -
  obtain st rest where "statuses_of d sc = st # rest" using outer_join_statuses(2) [of d sc] by (cases "statuses_of d sc") auto
  then show ?thesis
    using list_first [OF assms, of ss st] list_rest [of "[st]" ds sc rest] by (simp add: outer_join_statuses(1))
qed

lemma list_all_subclouds:
  assumes "distinct (map sc_id scs)"
    and "ds = [] \<or> (\<forall>sc \<in> set scs. dict_get ''id'' (last ds) \<noteq> Some (JNumber (int (sc_id sc))))"
  shows "\<exists>ss'. foldl list_row (ds, ss) (concat (map (outer_join_status d) scs)) =
    (ds @ map (\<lambda>sc. summary_of sc (statuses_of d sc)) scs, ss')"
  using assms
proof (induction scs arbitrary: ds ss)
  case Nil
  then show ?case by simp
next
  case (Cons sc scs)
  let ?s = "summary_of sc (statuses_of d sc)"
  obtain ss' where one: "foldl list_row (ds, ss) (outer_join_status d sc) = (ds @ [?s], ss')"
    using list_one [of ds sc ss d] Cons.prems(2) by auto
  have "\<forall>q \<in> set scs. dict_get ''id'' (last (ds @ [?s])) \<noteq> Some (JNumber (int (sc_id q)))"
    using Cons.prems(1) by (auto simp: summary_id outer_join_statuses(2))
  then show ?case using Cons.IH [of "ds @ [?s]" ss'] Cons.prems(1) one by simp
qed

lemma same_db:
  assumes "keeps (on_db (\<lambda>d. d = w_db (sm_world s))) m" and "m s = (x, t)"
  shows "w_db (sm_world t) = w_db (sm_world s)"
  using keepsD [OF assms(1), of s] assms(2) by simp

lemmas authorized_db = same_db [OF keeps_authorized]

text \<open>C23: The list holds one answer for each subcloud, in the order of their ids: its columns, the status that
  all its endpoints share or else out of sync, and the endpoints when there are at least two.\<close>

theorem list_has_each_subcloud_once:
  assumes "authorized env ''get'' s = (Inr (Some c), s')" and "rc_is_admin c" and "db_wf (w_db (sm_world s))"
  shows "get_subclouds env None detail s = (Inr (JObject [(''subclouds'', JArray
    (map (\<lambda>sc. JObject (summary_of sc (statuses_of (w_db (sm_world s)) sc)))
      (sort_key sc_id (rows (subclouds (w_db (sm_world s)))))))]), s')"
proof -
  let ?d = "w_db (sm_world s)"
  have db: "w_db (sm_world s') = ?d" by (rule authorized_db [OF assms(1)])
  have "distinct (map sc_id (sort_key sc_id (rows (subclouds ?d))))"
    using assms(3) table_wf_distinct [of sc_id "subclouds ?d"] by (simp add: db_wf_defs distinct_map)
  from list_all_subclouds [OF this, of "[]" "[]" ?d]
  have "list_subclouds (concat (map (outer_join_status ?d) (sort_key sc_id (rows (subclouds ?d))))) =
      map (\<lambda>sc. summary_of sc (statuses_of ?d sc)) (sort_key sc_id (rows (subclouds ?d)))"
    by (auto simp: list_subclouds_def)
  moreover have "subcloud_get_all_with_status (Some c) ?d =
      (Inr (concat (map (outer_join_status ?d) (sort_key sc_id (rows (subclouds ?d))))), ?d)"
    using assms(2) by (simp add: subcloud_get_all_with_status_def context_defs bnd_apply)
  ultimately show ?thesis
    using assms(1) db by (simp add: get_subclouds_def bnd_apply on_world_apply db_io_apply comp_def)
qed

section \<open>Accepted subnets\<close>

text \<open>A network given by an address in a block of \<open>2^k\<close> addresses, aligned to its size.\<close>

definition cidr :: "ip_network \<Rightarrow> bool" where
  "cidr n \<longleftrightarrow> (\<exists>k. 2 ^ k dvd net_first n \<and> Suc (net_last n) = net_first n + 2 ^ k) \<and>
     net_first n \<le> net_ip n \<and> net_ip n \<le> net_last n"

definition overlap :: "ip_network \<Rightarrow> ip_network \<Rightarrow> bool" where
  "overlap m n \<longleftrightarrow> net_version m = net_version n \<and> net_first m \<le> net_last n \<and> net_first n \<le> net_last m"

definition lies_within :: "ip_network \<Rightarrow> ip_network \<Rightarrow> bool" where
  "lies_within m n \<longleftrightarrow> net_first n \<le> net_first m \<and> net_last m \<le> net_last n"

lemma aligned_blocks:
  fixes a b :: nat
  assumes "2 ^ j dvd a" and "2 ^ k dvd b" and "j \<le> k" and "a < b + 2 ^ k" and "b < a + 2 ^ j"
  shows "b \<le> a \<and> a + 2 ^ j \<le> b + 2 ^ k"
proof -
  have "(2::nat) ^ j dvd 2 ^ k" using assms(3) by (rule le_imp_power_dvd)
  then have d: "2 ^ j dvd b" "2 ^ j dvd b + 2 ^ k" using assms(2) by (auto intro: dvd_trans)
  obtain p q r where *: "a = 2 ^ j * p" "b = 2 ^ j * q" "b + 2 ^ k = 2 ^ j * r"
    using assms(1) d by (auto simp: dvd_def)
  have "2 ^ j * p < 2 ^ j * r" "2 ^ j * q < 2 ^ j * Suc p" using assms(4,5) * by simp_all
  then have "p < r" "q < Suc p" by (simp_all only: mult_less_cancel1)
  then have "2 ^ j * q \<le> 2 ^ j * p" "2 ^ j * Suc p \<le> 2 ^ j * r" by (simp_all only: mult_le_mono2 Suc_leI less_Suc_eq_le)
  then show ?thesis using * by simp
qed

lemma overlapping_cidrs:
  assumes "cidr m" and "cidr n" and "overlap m n"
  shows "lies_within m n \<or> lies_within n m"
proof -
  obtain j k where *: "2 ^ j dvd net_first m" "Suc (net_last m) = net_first m + 2 ^ j"
    "2 ^ k dvd net_first n" "Suc (net_last n) = net_first n + 2 ^ k"
    using assms(1,2) by (auto simp: cidr_def)
  have "net_first m < net_first n + 2 ^ k" "net_first n < net_first m + 2 ^ j"
    using assms(3) * by (simp_all add: overlap_def less_Suc_eq_le [symmetric])
  then show ?thesis
    using aligned_blocks [OF *(1,3)] aligned_blocks [OF *(3,1)] * unfolding lies_within_def
    by (metis Suc_le_mono nle_le)
qed

text \<open>C24: A subnet that is accepted beside the existing ones overlaps with one of them only when it
  strictly contains it: the test looks up the new network's own address in the old networks and not
  theirs in the new one.\<close>

theorem accepted_subnet_overlap:
  assumes "validate_network_str N v k existing False = Inr n" and "m \<in> set existing"
    and "cidr m" and "cidr n" and "overlap m n"
  shows "lies_within m n \<and> \<not> lies_within n m"
proof -
  have "\<not> in_network (network_address n) m"
    using assms(1,2) by (auto simp: validate_network_str_def list_ex_iff split: sum.splits if_splits)
  then have "\<not> lies_within n m"
    using assms(4,5) by (auto simp: in_network_def network_address_def lies_within_def cidr_def overlap_def)
  then show ?thesis using overlapping_cidrs [OF assms(3-5)] by blast
qed

section \<open>Refused additions\<close>

lemma keeps_validated_addition [keeps_intros]: "keeps (on_db I) (validated_addition env ctx rq)"
  unfolding validated_addition_def validate_system_controller_patch_status_def
  by (intro keeps_intros)

lemma keeps_find_deploy_file [keeps_intros]: "keeps (on_db I) (find_deploy_file env f)"
  unfolding find_deploy_file_def by (intro keeps_intros)

lemma keeps_upload_file [keeps_intros]: "keeps (on_db I) (upload_config_file env c p t)"
  unfolding upload_config_file_def fill_file_def by (intro keeps_intros)

lemma keeps_upload_deploy [keeps_intros]: "keeps (on_db I) (upload_deploy_config_file env post payload)"
  by (auto simp: upload_deploy_config_file_def get_common_deploy_files_def Let_def
    intro!: keeps_intros split: option.splits form_item.splits)

lemma remote_or_codes: "remote_or msg m s = (Inl (HTTPAbort n d), t) \<Longrightarrow> n = 422 \<or> n = 500"
  by (auto simp: remote_or_def try_catch_def http_abort_def raise_def split: prod.splits sum.splits exn.splits)

lemma bnd_Inl_iff:
  "bnd m f s = (Inl e, t) \<longleftrightarrow> m s = (Inl e, t) \<or> (\<exists>x s'. m s = (Inr x, s') \<and> f x s' = (Inl e, t))"
  by (auto simp: bnd_apply split: prod.splits sum.splits)

text \<open>C21: A request to add a subcloud that is answered with 400 has left the database as it was: all checks, and
  the upload of the files, come before the first write.\<close>

theorem refused_addition_writes_nothing:
  assumes "post_subcloud env ref rq s = (Inl (HTTPAbort 400 msg), t)"
  shows "w_db (sm_world t) = w_db (sm_world s)"
proof -
  let ?add = "\<lambda>ctx name payload. remote_or ''Unable to create subcloud''
    (bnd (add_subcloud_to_database env ctx name payload) (\<lambda>sc.
      seq (rpc ''add_subcloud'' name (mr_add_subcloud (ae_rpc env) ctx payload))
        (ret (JObject (subcloud_db_model_to_dict sc)))))"
  have late: "?add ctx name payload u \<noteq> (Inl (HTTPAbort 400 msg), t)" for ctx name payload u
    using remote_or_codes by fastforce
  have db: "w_db (sm_world u') = w_db (sm_world u)" if "authorized env ''create'' u = (x, u')" for x u u'
    by (rule authorized_db [OF that])
  have val: "w_db (sm_world u') = w_db (sm_world u)" if "validated_addition env ctx rq u = (x, u')" for ctx x u u'
    by (rule same_db [OF keeps_validated_addition that])
  have up: "w_db (sm_world u') = w_db (sm_world u)"
    if "upload_deploy_config_file env post payload u = (x, u')" for post payload x u u'
    by (rule same_db [OF keeps_upload_deploy that])
  show ?thesis
    using assms unfolding post_subcloud_def bnd_Inl_iff
    by (auto simp: bnd_Inl_iff late http_abort_def dest!: db val up split: if_splits)
qed

section \<open>Reinstalling\<close>

lemma keeps_install_values [keeps_intros]: "keeps I (get_subcloud_db_install_values env sc)"
  unfolding get_subcloud_db_install_values_def by (intro keeps_intros)

lemma keeps_reinstall_payload [keeps_intros]: "keeps I (reinstall_payload sc payload)"
  unfolding reinstall_payload_def same_as_column_def Let_def by (intro keeps_intros)

lemma keeps_existing_subnets [keeps_intros]: "keeps (on_db I) (existing_subnets env ctx)"
  unfolding existing_subnets_def by (intro keeps_intros keeps_db_io)

lemma keeps_check_oam [keeps_intros]: "keeps (on_db I) (check_oam env ctx payload)"
  unfolding check_oam_def by (intro keeps_intros)

lemma keeps_reinstall_values [keeps_intros]: "keeps (on_db I) (reinstall_values env values)"
  unfolding reinstall_values_def Let_def by (intro keeps_intros)


lemma keeps_remote_or [keeps_intros]: "keeps I m \<Longrightarrow> keeps I (remote_or msg m)"
  unfolding remote_or_def by (intro keeps_try_catch) (auto intro: keeps_intros split: exn.splits)









section \<open>The manager's half of a reinstallation\<close>

text \<open>No step of the preparation writes the database, and the deployment writes the deploy status
  alone.\<close>

lemma keeps_set_deploy [keeps_intros]: "keeps (\<lambda>w. sync_inv (w_db w)) (set_deploy ctx i st err)"
  unfolding set_deploy_def by (intro keeps_intros keeps_db_io quiet_update_inv) (simp_all add: no_values_def)

lemma keeps_user_passwords [keeps_intros]: "keeps (\<lambda>w. I (w_db w)) (user_passwords env us d)"
  by (induction us arbitrary: d) (simp_all add: keeps_intros)

lemma keeps_wait_for_secret [keeps_intros]: "keeps (\<lambda>w. I (w_db w)) (wait_for_secret env c n p k)"
proof (induction k)
  case (Suc k)
  then show ?case unfolding wait_for_secret.simps by (intro keeps_intros)
next
  case 0
  show ?case unfolding wait_for_secret.simps by (rule keeps_raise)
qed

lemma keeps_ca_cert [keeps_intros]: "keeps (\<lambda>w. I (w_db w)) (create_intermediate_ca_cert env p)"
  unfolding create_intermediate_ca_cert_def by (intro keeps_intros)

lemma keeps_ansible_config [keeps_intros]: "keeps (\<lambda>w. I (w_db w)) (write_subcloud_ansible_config env c p)"
  unfolding write_subcloud_ansible_config_def by (intro keeps_intros)

lemma keeps_deploy_command [keeps_intros]: "keeps (\<lambda>w. I (w_db w)) (deploy_command_of env p n i)"
  unfolding deploy_command_of_def prepare_for_deployment_def write_deploy_files_def Let_def by (intro keeps_intros)

lemma keeps_finish_payload [keeps_intros]: "keeps (\<lambda>w. I (w_db w)) (finish_payload env c i p)"
  unfolding finish_payload_def Let_def by (intro keeps_intros)

lemma keeps_populate_payload [keeps_intros]: "keeps (\<lambda>w. I (w_db w)) (populate_payload env c p)"
  unfolding populate_payload_def by (intro keeps_intros)

lemma keeps_prepare_reinstall [keeps_intros]: "keeps (on_db I) (prepare_reinstall env sc p)"
  unfolding prepare_reinstall_def Let_def by (intro keeps_intros)

lemma reinstall_subcloud_inv [keeps_intros]: "keeps (on_db sync_inv) (reinstall_subcloud env ctx i p)"
  unfolding reinstall_subcloud_def by (intro keeps_intros keeps_db_io keeps_subcloud_get)

lemma keeps_install [keeps_intros]:
  "keeps (\<lambda>w. sync_inv (w_db w)) (run_subcloud_install env ctx sc c l v)"
  unfolding run_subcloud_install_def Let_def by (intro keeps_intros)

lemma keeps_deploy_stage [keeps_intros]:
  "keeps (\<lambda>w. sync_inv (w_db w)) (deploy_stage env ctx sc c l running failed)"
  unfolding deploy_stage_def by (intro keeps_intros)

lemma keeps_rehome_stage [keeps_intros]: "keeps (\<lambda>w. sync_inv (w_db w)) (rehome_stage env ctx sc c l)"
  unfolding rehome_stage_def by (intro keeps_intros)

lemma keeps_optional_stage [keeps_intros]:
  "(\<And>c. keeps I (stage c)) \<Longrightarrow> keeps I m \<Longrightarrow> keeps I (optional_stage command stage m)"
  unfolding optional_stage_def by (intro keeps_intros)

lemma keeps_run_deploy [keeps_intros]: "keeps (\<lambda>w. sync_inv (w_db w)) (run_deploy env ctx j)"
  unfolding run_deploy_def Let_def by (intro keeps_intros)

lemma keeps_start_deploy [keeps_intros]: "keeps (on_db sync_inv) (start_deploy env ctx j)"
  unfolding start_deploy_def by (intro keeps_intros)

lemma keeps_rpc_cast [keeps_intros]: "keeps I m \<Longrightarrow> keeps I (rpc_cast m)"
  unfolding rpc_cast_def by (intro keeps_intros)



section \<open>Changing the admin network\<close>

text \<open>A payload that changes the network and nothing else.\<close>

definition network_only :: "dict \<Rightarrow> bool" where
  "network_only payload \<longleftrightarrow>
     truthy_json (payload_value ''admin_subnet'' payload) \<and>
     list_all (\<lambda>k. \<not> truthy_json (payload_value k payload)) [''management-state'', INSTALL_VALUES] \<and>
     list_all (\<lambda>k. payload_value k payload = JNull) [''force'', ''group_id'']"

lemma network_only_nonempty: "network_only payload \<Longrightarrow> payload \<noteq> []"
  by (auto simp: network_only_def payload_value_def or_none_def dict_get_def)

lemma network_only_set:
  "network_only payload \<Longrightarrow> k \<in> {''name'', ''systemcontroller_gateway_ip'', ''sysadmin_password''} \<Longrightarrow>
   network_only (dict_set k v payload)"
  by (auto simp: network_only_def payload_value_def INSTALL_VALUES_def)

lemma network_only_checks:
  assumes "network_only payload"
  shows "check_state_and_force payload = ret ()" "find_group env ctx payload = ret None"
    "validate_install_values env payload sc = ret (False, payload)"
  using assms
  by (auto simp: network_only_def check_state_and_force_def find_group_def validate_install_values_def
      payload_value_def Let_def abort_if_def fun_eq_iff seq_apply)

definition reconfiguring :: "subcloud_values" where
  "reconfiguring = no_values\<lparr>sv_deploy_status := Some DEPLOY_STATE_RECONFIGURING_NETWORK\<rparr>"

text \<open>The state once the new status and the remote call are recorded.\<close>

definition network_change_recorded :: "subcloud \<Rightarrow> 'x sm_sys \<Rightarrow> 'x sm_sys" where
  "network_change_recorded sc s = s\<lparr>sm_world := (sm_world s)\<lparr>
     w_db := (w_db (sm_world s))\<lparr>subclouds := map_rows (\<lambda>r. if sc_id r = sc_id sc
       then apply_subcloud_values reconfiguring r else r) (subclouds (w_db (sm_world s)))\<rparr>,
     w_log := w_log (sm_world s) @ [ManagerRpc ''update_subcloud_with_network_reconfig'' (sc_name sc)]\<rparr>\<rparr>"

lemma send_network_update:
  assumes wf: "db_wf (w_db (sm_world s))" and sc: "sc \<in> set (rows (subclouds (w_db (sm_world s))))"
    and payload: "network_only payload"
    and answers: "mr_network_reconfig (ae_rpc env) admin_context (sc_id sc) payload (network_change_recorded sc s) = (Inr (), t)"
  shows "send_update env admin_context (sc_id sc) checked g payload s =
    (if sc_management_state checked = MANAGEMENT_UNMANAGED
     then (Inr (JObject (subcloud_db_model_to_dict (apply_subcloud_values reconfiguring sc))), t)
     else (Inl (HTTPAbort 500 ''Unable to update subcloud''), s))"
proof -
  have name: "sc_name (apply_subcloud_values reconfiguring sc) = sc_name sc" by (simp add: apply_subcloud_values_def)
  have upd: "subcloud_update admin_context (sc_id sc) reconfiguring (w_db (sm_world s)) =
      (Inr (apply_subcloud_values reconfiguring sc), (w_db (sm_world s))\<lparr>subclouds :=
        map_rows (\<lambda>r. if sc_id r = sc_id sc then apply_subcloud_values reconfiguring r else r)
          (subclouds (w_db (sm_world s)))\<rparr>)"
    by (rule subcloud_update_runs [OF wf sc]) (simp add: reconfiguring_def no_values_def)
  have "truthy_json (payload_value ''admin_subnet'' payload)"
    "\<not> truthy_json (payload_value ''management-state'' payload)"
    using payload by (simp_all add: network_only_def)
  then show ?thesis
    using answers
    by (simp add: send_update_def remote_or_def try_catch_def abort_if_def http_abort_def raise_def seq_def bnd_def
        on_world_apply db_io_apply reconfiguring_def [symmetric] upd rpc_def log_action_def name
        network_change_recorded_def)
qed

lemma get_patch_data_state: "get_patch_data env rq s = (r, t) \<Longrightarrow> t = s"
  using keepsD [of "\<lambda>u. u = s" "get_patch_data env rq" s]
  by (auto simp: get_patch_data_def intro!: keeps_intros)

text \<open>C25: The management state that decides is the one of the last subcloud in the database, whichever
  subcloud the request is for: a loop over the subclouds uses the variable of the subcloud. A change of a
  managed subcloud is carried out, or the change of an unmanaged one is refused.\<close>

theorem last_subcloud_decides_network_change:
  assumes wf: "db_wf (w_db (sm_world s))" and sc: "sc \<in> set (rows (subclouds (w_db (sm_world s))))"
    and data: "get_patch_data env rq s = (Inr payload, s)" and only: "network_only payload"
    and all: "list_all (\<lambda>k. truthy_json (payload_value k payload)) update_admin_keys"
    and nets: "networks_of (ae_net env) (rows (subclouds (w_db (sm_world s)))) = Inr ns"
    and valid: "validate_admin_network_config (ae_net env)
      \<lparr>ac_subnet = dict_get ''admin_subnet'' payload, ac_start = dict_get ''admin_start_address'' payload,
       ac_end = dict_get ''admin_end_address'' payload, ac_gateway = dict_get ''admin_gateway_ip'' payload\<rparr> ns s = (Inr (), s)"
    and password: "truthy_json (payload_value ''sysadmin_password'' payload)"
      "decode_text (payload_value ''sysadmin_password'' payload) = Inr pw"
    and answers: "\<And>p. \<exists>t. mr_network_reconfig (ae_rpc env) admin_context (sc_id sc) p (network_change_recorded sc s) = (Inr (), t)"
  shows "\<exists>t. patch_update env admin_context sc rq s =
    (if sc_management_state (last (rows (subclouds (w_db (sm_world s))))) = MANAGEMENT_UNMANAGED
     then (Inr (JObject (subcloud_db_model_to_dict (apply_subcloud_values reconfiguring sc))), t)
     else (Inl (HTTPAbort 500 ''Unable to update subcloud''), s))"
proof -
  let ?scs = "rows (subclouds (w_db (sm_world s)))"
  let ?p = "dict_set ''sysadmin_password'' (JText pw) (dict_set ''systemcontroller_gateway_ip''
    (JText (sc_systemcontroller_gateway_ip sc)) (dict_set ''name'' (JText (sc_name sc)) payload))"
  have only': "network_only ?p" using only by (intro network_only_set) simp_all
  obtain t where t: "mr_network_reconfig (ae_rpc env) admin_context (sc_id sc) ?p (network_change_recorded sc s) = (Inr (), t)"
    using answers by blast
  have subnets: "existing_subnets env admin_context s = (Inr (?scs, ns), s)"
    using nets by (simp add: existing_subnets_def subcloud_get_all_def query_all_def bnd_apply on_world_apply db_io_apply
        of_sum_def)
  have decode: "decode_sysadmin_password (dict_set ''systemcontroller_gateway_ip'' x (dict_set ''name'' y payload)) s =
      (Inr (dict_set ''sysadmin_password'' (JText pw) (dict_set ''systemcontroller_gateway_ip'' x (dict_set ''name'' y payload))), s)"
    for x y using password by (simp add: decode_sysadmin_password_def payload_value_def abort_if_def seq_def bnd_def
        password_or_abort_def Let_def)
  have "check_admin_update env admin_context sc payload s = (Inr (last ?scs, ?p), s)"
    using all subnets valid decode sc by (auto simp: check_admin_update_def Let_def bnd_apply seq_apply)
  then have "patch_update env admin_context sc rq s =
      send_update env admin_context (sc_id sc) (last ?scs) None ?p s"
    using data network_only_nonempty [OF only]
    by (simp add: patch_update_def bnd_apply seq_apply abort_if_def network_only_checks [OF only'])
  then show ?thesis using send_network_update [OF wf sc only' t] by auto
qed

text \<open>C26: A subnet without the other addresses of the network skips all checks. The request is answered as
  a success, the handler of the manager fails before it starts anything, and the subcloud stays in the
  state of a change under way, which neither the clean-up at start-up nor \<open>reconfigure\<close> takes it out of.\<close>

theorem incomplete_network_change_stuck:
  assumes wf: "db_wf (w_db (sm_world s))" and sc: "sc \<in> set (rows (subclouds (w_db (sm_world s))))"
    and manager: "ae_rpc env = with_manager sm R"
    and data: "get_patch_data env rq s = (Inr payload, s)" and only: "network_only payload"
    and incomplete: "\<not> list_all (\<lambda>k. truthy_json (payload_value k payload)) update_admin_keys"
    and "dict_get ''name'' payload = None" and "sc_management_state sc = MANAGEMENT_UNMANAGED"
  shows "\<exists>v. patch_update env admin_context sc rq s = (Inr v, network_change_recorded sc s) \<and>
    transitory_state DEPLOY_STATE_RECONFIGURING_NETWORK = None \<and>
    \<not> may_be_reconfigured (apply_subcloud_values reconfiguring sc)"
proof -
  have "mr_network_reconfig (ae_rpc env) admin_context (sc_id sc) payload (network_change_recorded sc s) =
      (Inr (), network_change_recorded sc s)"
    using assms(7) by (simp add: manager with_manager_def rpc_cast_def try_else_def on_world_apply bnd_apply
        update_subcloud_with_network_reconfig_def text_at_def of_sum_def)
  from send_network_update [OF wf sc only this, of sc None]
  have "send_update env admin_context (sc_id sc) sc None payload s =
      (Inr (JObject (subcloud_db_model_to_dict (apply_subcloud_values reconfiguring sc))), network_change_recorded sc s)"
    using assms(8) by simp
  moreover have "check_admin_update env admin_context sc payload s = (Inr (sc, payload), s)"
    using incomplete by (simp add: check_admin_update_def)
  moreover have "\<not> may_be_reconfigured (apply_subcloud_values reconfiguring sc)"
    by (simp add: may_be_reconfigured_def is_deploy_status_prestage_def apply_subcloud_values_def reconfiguring_def)
  ultimately show ?thesis
    using data network_only_nonempty [OF only]
    by (simp add: patch_update_def bnd_apply seq_apply abort_if_def network_only_checks [OF only])
qed

section \<open>Deleting through the manager\<close>

lemma lookup_found:
  assumes wf: "db_wf (w_db w)" and run: "lookup_subcloud ctx ref w = (Inr sc, w')"
  shows "w_db w' = w_db w" "subcloud_get ctx (sc_id sc) (w_db w) = (Inr sc, w_db w)"
proof -
  have "keeps (\<lambda>v. w_db v = w_db w) (lookup_subcloud ctx ref)"
    unfolding lookup_subcloud_def
    by (intro keeps_intros keeps_db_io keeps_try_catch) (auto intro: keeps_intros split: exn.splits)
  from keepsD [OF this, of w] show "w_db w' = w_db w" using run by simp
  have user: "\<And>m. require_context ctx m (w_db w) = m (w_db w)" and sc: "sc \<in> set (rows (subclouds (w_db w)))"
    using run
    by (auto simp: lookup_subcloud_def try_catch_def db_io_apply http_abort_def subcloud_get_def subcloud_get_by_name_def
        context_defs bnd_apply first_or_apply query_first_def find_Some_iff
        split: if_splits option.splits prod.splits sum.splits exn.splits)
  show "subcloud_get ctx (sc_id sc) (w_db w) = (Inr sc, w_db w)"
    by (simp add: subcloud_get_def user first_or_apply find_by_id [OF wf sc])
qed

text \<open>C22: A request to delete a subcloud that is managed or online is answered with 422, and nothing has
  changed but the record of the call.\<close>

theorem deletion_request_refused:
  assumes "authorized env ''delete'' s = (Inr ctx, s1)" and "lookup_subcloud ctx ref (sm_world s1) = (Inr sc, w)"
    and "ae_rpc env = with_manager sm R"
    and "sc_management_state sc = MANAGEMENT_MANAGED \<or> sc_availability_status sc = AVAILABILITY_ONLINE"
    and "db_wf (w_db (sm_world s))"
  shows "\<exists>m t. api_delete_subcloud env ref s = (Inl (HTTPAbort 422 m), t) \<and> w_db (sm_world t) = w_db (sm_world s)"
proof -
  have db: "w_db (sm_world s1) = w_db (sm_world s)" by (rule authorized_db [OF assms(1)])
  note found = lookup_found [OF _ assms(2), unfolded db, OF assms(5)]
  let ?s = "s1\<lparr>sm_world := w\<lparr>w_log := w_log w @ [ManagerRpc ''delete_subcloud'' (sc_name sc)]\<rparr>\<rparr>"
  have "subcloud_get ctx (sc_id sc) (w_db (sm_world ?s)) = (Inr sc, w_db (sm_world s))" using found by simp
  moreover have "sc_management_state sc \<noteq> MANAGEMENT_UNMANAGED \<or> sc_availability_status sc = AVAILABILITY_ONLINE"
    using assms(4) by auto
  ultimately obtain e where "delete_subcloud sm ctx (sc_id sc) ?s = (Inl e, ?s)" using delete_guard by blast
  then show ?thesis
    using assms(1-3) found(1)
    by (simp add: api_delete_subcloud_def bnd_apply seq_apply on_world_apply remote_or_def try_catch_def rpc_def
        log_action_def with_manager_def rpc_call_def http_abort_def)
qed

section \<open>Examples\<close>

text \<open>An example: texts of digits are addresses, and a network has 256 of them.\<close>

definition ex_block :: "nat \<Rightarrow> nat \<Rightarrow> ip_network" where
  "ex_block a n = \<lparr>net_version = 4, net_ip = a, net_first = a, net_last = a + (n - 1), net_prefixlen = 24,
     net_broadcast = None\<rparr>"

definition ex_net_env :: net_env where
  "ex_net_env =
     \<lparr>na_address = (\<lambda>v. case v of JText s \<Rightarrow> Inr \<lparr>ip_version = 4, ip_value = nat_of_digits s\<rparr> | _ \<Rightarrow> Inl AddrFormatError),
      na_network = (\<lambda>v. case v of JText s \<Rightarrow> Inr (ex_block (nat_of_digits s) 256) | _ \<Rightarrow> Inl AddrFormatError),
      na_same = (\<lambda>_ _. False), na_range_length = (\<lambda>a b. Inr (Suc (ip_value b - ip_value a))),
      na_multicast = (\<lambda>_. False), na_format = (\<lambda>a. show_nat (ip_value a)), na_network_str = (\<lambda>_. [])\<rparr>"

definition ex_rpc :: "unit manager_rpc" where
  "ex_rpc =
     \<lparr>mr_add_subcloud = (\<lambda>_ _. ret ()), mr_delete_subcloud = (\<lambda>_ _. ret JNull),
      mr_update_subcloud = (\<lambda>_ _ _. ret JNull), mr_network_reconfig = (\<lambda>_ _ _. ret ()),
      mr_reconfigure_subcloud = (\<lambda>_ _ _. ret JNull), mr_reinstall_subcloud = (\<lambda>_ _ _. ret ()),
      mr_prestage_subcloud = (\<lambda>_ _. ret ()), mr_endpoint_status = (\<lambda>_ _ _ _. ret ()),
      mr_backup_subclouds = (\<lambda>_ _. ret ()), mr_delete_backups = (\<lambda>_ _ _. ret JNull),
      mr_restore_backups = (\<lambda>_ _. ret ())\<rparr>"

definition ex_part :: "string \<times> string \<Rightarrow> part" where
  "ex_part p = \<lparr>pt_headers = [(''Content-Disposition'', ''name='' @ [quote] @ fst p @ [quote])], pt_content = snd p\<rparr>"

definition ex_api_env :: "(string \<times> string) list \<Rightarrow> unit api_env" where
  "ex_api_env inputs =
     \<lparr>ae_sm = ex_sm_env, ae_rpc = with_manager ex_sm_env ex_rpc, ae_authorize = (\<lambda>_. ret ()),
      ae_context = ret admin_context, ae_net = ex_net_env,
      ae_prestage = \<lparr>pe_sw_version = ''22.12'', pe_system_controller_upgrades = ret 0,
        pe_subcloud_info = (\<lambda>_. raise AttributeError)\<rparr>,
      ae_yaml_load = (\<lambda>_. Inr (JObject [])), ae_eval = (\<lambda>_. Inr JNull), ae_multipart = (\<lambda>_ _. Inr (map ex_part inputs)),
      ae_form_object = (\<lambda>_ _. JNull), ae_repr = (\<lambda>_. []), ae_deploy_path = ''/deploy'',
      ae_patch_states = ret [],
      ae_management_pool = ret (\<lparr>ap_floating_address = ''10'', ap_network = ''0'', ap_prefix = 24\<rparr>, ''20'', ''30''),
      ae_oam_floating_ip = (\<lambda>_. ret ''10'')\<rparr>"

definition ex_api_request :: request where
  "ex_api_request = \<lparr>rq_post = [], rq_body = [], rq_content_type = None\<rparr>"

lemma ex_authorized: "authorized (ex_api_env inputs) verb s = (Inr admin_context, s)"
  by (simp add: authorized_def authorized_as_def ex_api_env_def seq_apply on_world_apply ask_apply)

lemma ex_db_wf: "db_wf (w_db (sm_world (ex_sys (ex_db []))))"
  by (auto simp: ex_sys_def ex_defs db_wf_defs table_wf_def empty_db_def empty_table_def DEFAULT_SUBCLOUD_GROUP_ID_def)

theorem list_has_each_subcloud_once_witness:
  "get_subclouds (ex_api_env []) None False (ex_sys (ex_db [])) = (Inr (JObject [(''subclouds'', JArray
    (map (\<lambda>sc. JObject (summary_of sc (statuses_of (w_db (sm_world (ex_sys (ex_db [])))) sc)))
      (sort_key sc_id (rows (subclouds (w_db (sm_world (ex_sys (ex_db [])))))))))]), ex_sys (ex_db []))"
  by (rule list_has_each_subcloud_once [OF ex_authorized [unfolded admin_context_def] _ ex_db_wf]) simp

theorem accepted_subnet_overlap_witness:
  "lies_within (ex_block 512 256) (ex_block 0 1024) \<and> \<not> lies_within (ex_block 0 1024) (ex_block 512 256)"
proof (rule accepted_subnet_overlap)
  show "validate_network_str (ex_net_env\<lparr>na_network := \<lambda>_. Inr (ex_block 0 1024)\<rparr>) JNull 8 [ex_block 512 256] False =
      Inr (ex_block 0 1024)"
    by (simp add: validate_network_str_def ex_block_def net_size_def in_network_def network_address_def)
  show "cidr (ex_block 512 256)"
    by (auto simp: cidr_def ex_block_def intro!: exI [of _ "8::nat"])
  show "cidr (ex_block 0 1024)"
    by (auto simp: cidr_def ex_block_def intro!: exI [of _ "10::nat"])
qed (simp_all add: overlap_def ex_block_def)

theorem refused_addition_writes_nothing_witness:
  "\<exists>msg t. post_subcloud (ex_api_env []) None ex_api_request (ex_sys (ex_db [])) = (Inl (HTTPAbort 400 msg), t) \<and>
    w_db (sm_world t) = w_db (sm_world (ex_sys (ex_db [])))"
proof -
  have "\<exists>msg t. post_subcloud (ex_api_env []) None ex_api_request (ex_sys (ex_db [])) = (Inl (HTTPAbort 400 msg), t)"
    by (simp add: post_subcloud_def bnd_apply ex_authorized validated_addition_def get_request_data_def ex_api_request_def
        http_abort_def)
  then show ?thesis using refused_addition_writes_nothing by blast
qed


definition ex_network :: "(string \<times> string) list" where
  "ex_network = [(''admin_subnet'', ''1000''), (''admin_start_address'', ''1002''), (''admin_end_address'', ''1010''),
     (''admin_gateway_ip'', ''1001''), (''sysadmin_password'', ''QUJD'')]"

text \<open>\<open>alpha\<close> is managed, the last subcloud is not.\<close>

definition ex_two :: "unit sm_sys" where
  "ex_two = ex_sys ((ex_db [])\<lparr>subclouds := \<lparr>rows = [ex_subcloud 1 ''alpha'' 1, ex_subcloud 2 ''beta'' 1,
     (ex_subcloud 3 ''gamma'' 2)\<lparr>sc_management_state := MANAGEMENT_UNMANAGED\<rparr>], next_id = 4\<rparr>\<rparr>)"

lemma ex_field_name: "quote \<notin> set k \<Longrightarrow> get_multipart_field_name (ex_part (k, v)) = Inr k"
proof -
  assume "quote \<notin> set k"
  then have "takeWhile (\<lambda>x. x \<noteq> quote) (k @ [quote]) = k" by (induction k) auto
  then show ?thesis by (simp add: get_multipart_field_name_def ex_part_def startswith_def quote_def)
qed

theorem last_subcloud_decides_network_change_witness:
  "sc_management_state (ex_subcloud 1 ''alpha'' 1) = MANAGEMENT_MANAGED \<and>
   (\<exists>t. patch_update ((ex_api_env ex_network)\<lparr>ae_rpc := ex_rpc\<rparr>) admin_context (ex_subcloud 1 ''alpha'' 1) ex_api_request ex_two =
     (Inr (JObject (subcloud_db_model_to_dict (apply_subcloud_values reconfiguring (ex_subcloud 1 ''alpha'' 1)))), t))"
proof -
  let ?env = "(ex_api_env ex_network)\<lparr>ae_rpc := ex_rpc\<rparr>"
  let ?payload = "map (\<lambda>(k, v). (k, JText v)) ex_network"
  have wf: "db_wf (w_db (sm_world ex_two))"
    by (auto simp: ex_two_def ex_sys_def ex_defs db_wf_defs table_wf_def empty_db_def empty_table_def DEFAULT_SUBCLOUD_GROUP_ID_def)
  have data: "get_patch_data ?env ex_api_request ex_two = (Inr ?payload, ex_two)"
    by (simp add: get_patch_data_def ex_api_env_def ex_network_def ex_field_name quote_def of_sum_def bnd_apply
        INSTALL_VALUES_def) (simp add: ex_part_def)
  have "\<exists>t. patch_update ?env admin_context (ex_subcloud 1 ''alpha'' 1) ex_api_request ex_two =
    (if sc_management_state (last (rows (subclouds (w_db (sm_world ex_two))))) = MANAGEMENT_UNMANAGED
     then (Inr (JObject (subcloud_db_model_to_dict (apply_subcloud_values reconfiguring (ex_subcloud 1 ''alpha'' 1)))), t)
     else (Inl (HTTPAbort 500 ''Unable to update subcloud''), ex_two))"
  proof (rule last_subcloud_decides_network_change [OF wf _ data])
    show "networks_of (ae_net ?env) (rows (subclouds (w_db (sm_world ex_two)))) =
        Inr [ex_block 0 256, ex_block 0 256, ex_block 0 256]"
      by (simp add: ex_two_def ex_sys_def ex_world_def ex_api_env_def ex_net_env_def ex_subcloud_def nat_of_digits_def)
  next
    show "validate_admin_network_config (ae_net ?env)
      \<lparr>ac_subnet = dict_get ''admin_subnet'' ?payload, ac_start = dict_get ''admin_start_address'' ?payload,
       ac_end = dict_get ''admin_end_address'' ?payload, ac_gateway = dict_get ''admin_gateway_ip'' ?payload\<rparr>
      [ex_block 0 256, ex_block 0 256, ex_block 0 256] ex_two = (Inr (), ex_two)"
      by (simp add: validate_admin_network_config_def valid_or_abort_def validate_network_str_def validate_address_str_def
          given_def or_none_def ex_network_def ex_api_env_def ex_net_env_def ex_block_def nat_of_digits_def
          net_size_def in_network_def network_address_def dict_get_def check_range_def between_def ip_less_def
          abort_if_def of_sum_def seq_apply bnd_apply try_catch_def)
  next
    show "decode_text (payload_value ''sysadmin_password'' ?payload) = Inr (map char_of [65, 66, 67 :: nat])"
      by (simp add: decode_text_def payload_value_def or_none_def dict_get_def ex_network_def decode_password_def
          b64_value_def b64_emit_def b64_left_def Let_def)
  qed (simp_all add: ex_two_def ex_sys_def ex_world_def network_only_def update_admin_keys_def payload_value_def or_none_def
      dict_get_def ex_network_def INSTALL_VALUES_def ex_rpc_def)
  then show ?thesis by (simp add: ex_two_def ex_sys_def ex_world_def) (simp add: ex_subcloud_def)
qed

theorem incomplete_network_change_stuck_witness:
  "\<exists>v. patch_update (ex_api_env [(''admin_subnet'', ''1000'')]) admin_context ex_gone ex_api_request (ex_sys (ex_single ex_gone)) =
    (Inr v, network_change_recorded ex_gone (ex_sys (ex_single ex_gone))) \<and>
    transitory_state DEPLOY_STATE_RECONFIGURING_NETWORK = None \<and>
    \<not> may_be_reconfigured (apply_subcloud_values reconfiguring ex_gone)"
proof (rule incomplete_network_change_stuck)
  have "sync_inv (ex_single ex_gone)" by (rule ex_single_inv) (simp_all add: ex_gone_def ex_subcloud_def)
  then show "db_wf (w_db (sm_world (ex_sys (ex_single ex_gone))))" by (simp add: ex_sys_def ex_world_def sync_inv_def)
  show "get_patch_data (ex_api_env [(''admin_subnet'', ''1000'')]) ex_api_request (ex_sys (ex_single ex_gone)) =
      (Inr [(''admin_subnet'', JText ''1000'')], ex_sys (ex_single ex_gone))"
    by (simp add: get_patch_data_def ex_api_env_def ex_field_name quote_def of_sum_def bnd_apply INSTALL_VALUES_def)
      (simp add: ex_part_def)
qed (simp_all add: ex_api_env_def ex_sys_def ex_world_def ex_single_def network_only_def update_admin_keys_def
    payload_value_def or_none_def dict_get_def INSTALL_VALUES_def ex_gone_def)

theorem deletion_request_refused_witness:
  "\<exists>m t. api_delete_subcloud (ex_api_env []) ''alpha'' (ex_sys (ex_db [])) = (Inl (HTTPAbort 422 m), t) \<and>
    w_db (sm_world t) = w_db (sm_world (ex_sys (ex_db [])))"
proof (rule deletion_request_refused [OF ex_authorized _ _ _ ex_db_wf])
  show "lookup_subcloud admin_context ''alpha'' (sm_world (ex_sys (ex_db []))) =
      (Inr (ex_subcloud 1 ''alpha'' 1), sm_world (ex_sys (ex_db [])))"
    by (simp add: lookup_subcloud_def isdigit_def is_digit_def try_catch_def db_io_apply subcloud_get_by_name_def
        first_or_apply query_first_def ex_sys_def ex_defs)
qed (simp_all add: ex_api_env_def ex_subcloud_def)

end
