(* ===== verification/DC_KubeStates.thy ===== *)
theory DC_KubeStates
  imports DC_VimStates
begin

text \<open>
  The states of kubernetes and kube rootca orchestration under \<open>states/kube\<close> and
  \<open>states/kube_rootca\<close> that are not VIM strategies: the pre-checks, starting a rootca update and
  uploading its certificate.
\<close>

section \<open>\<open>kube/pre_check.py\<close>\<close>

definition jval_text :: "jval \<Rightarrow> string option" where
  "jval_text v = (case v of JStr s \<Rightarrow> Some s | _ \<Rightarrow> None)"

definition kube_target_version :: "'x orch_env \<Rightarrow> string \<Rightarrow> ('x world, string option) io" where
  "kube_target_version env region =
     bnd (seq (get_sysinv_client env region) (ask (oe_get_kube_upgrades env region))) (\<lambda>upgrades.
       case upgrades of
         u # _ \<Rightarrow> ret (Some u)
       | [] \<Rightarrow> bnd (seq (get_sysinv_client env region) (ask (oe_get_kube_versions env region)))
                 (\<lambda>versions. ret (get_available_kube_version versions)))"

definition kube_to_version :: "'x orch_env \<Rightarrow> ('x world, string) io" where
  "kube_to_version env =
     bnd extra_args_or_empty (\<lambda>x.
       case jval_text (jget x ''to-version'') of
         Some v \<Rightarrow> ret v
       | None \<Rightarrow>
           bnd (seq (get_sysinv_client env DEFAULT_REGION_NAME)
                 (ask (oe_get_kube_versions env DEFAULT_REGION_NAME))) (\<lambda>versions.
             case get_active_kube_version versions of
               None \<Rightarrow> raise (PyException ''System Controller has no active target kube version'')
             | Some v \<Rightarrow> ret v))"

definition kube_should_skip :: "string option \<Rightarrow> string \<Rightarrow> exn + bool" where
  "kube_should_skip target to_version =
     (case target of
        None \<Rightarrow> Inr True
      | Some _ \<Rightarrow> (case kube_version_compare target (Some to_version) of
           Inl e \<Rightarrow> Inl e | Inr c \<Rightarrow> Inr (c = 1)))"

definition kube_pre_check_state ::
  "'x orch_env \<Rightarrow> string \<Rightarrow> step_view \<Rightarrow> ('x world, step_state) prog" where
  "kube_pre_check_state env region v = run
     (bnd (kube_target_version env region) (\<lambda>target.
      bnd (kube_to_version env) (\<lambda>to_version.
        case kube_should_skip target to_version of
          Inl e \<Rightarrow> raise e
        | Inr skip \<Rightarrow>
            ret (if skip then STRATEGY_STATE_COMPLETE
                 else STRATEGY_STATE_KUBE_CREATING_VIM_KUBE_UPGRADE_STRATEGY))))"

section \<open>\<open>kube_rootca\<close>\<close>

definition KUBE_ROOTCA_UPDATE_STARTED :: string where
  "KUBE_ROOTCA_UPDATE_STARTED = ''update-started''"

definition KUBE_ROOTCA_UPDATE_ABORTED :: string where
  "KUBE_ROOTCA_UPDATE_ABORTED = ''update-aborted''"

definition rootca_pre_check_state ::
  "'x orch_env \<Rightarrow> string \<Rightarrow> step_view \<Rightarrow> ('x world, step_state) prog" where
  "rootca_pre_check_state env region v = run
     (bnd extra_args_or_empty (\<lambda>x.
        ret (if truthy (jget x ''cert-file'') then STRATEGY_STATE_KUBE_ROOTCA_UPDATE_START
             else STRATEGY_STATE_CREATING_VIM_KUBE_ROOTCA_UPDATE_STRATEGY)))"

definition start_kube_rootca_update :: "'x orch_env \<Rightarrow> string \<Rightarrow> ('x world, string) io" where
  "start_kube_rootca_update env region =
     seq (get_sysinv_client env region)
       (call (SysinvAction region ''kube_rootca_update_start'') (oe_kube_rootca_update_start env region))"

definition rootca_start_state ::
  "'x orch_env \<Rightarrow> string \<Rightarrow> step_view \<Rightarrow> ('x world, step_state) prog" where
  "rootca_start_state env region v = run
     (bnd (seq (get_sysinv_client env region) (ask (oe_get_kube_rootca_updates env region))) (\<lambda>updates.
      bnd (case updates of
             u # _ \<Rightarrow> if u = KUBE_ROOTCA_UPDATE_ABORTED then start_kube_rootca_update env region
                      else ret u
           | [] \<Rightarrow> start_kube_rootca_update env region)
        (\<lambda>state. ret (if state = KUBE_ROOTCA_UPDATE_STARTED
            then STRATEGY_STATE_KUBE_ROOTCA_UPDATE_UPLOAD_CERT
            else STRATEGY_STATE_CREATING_VIM_KUBE_ROOTCA_UPDATE_STRATEGY))))"

definition rootca_upload_cert_state ::
  "'x orch_env \<Rightarrow> string \<Rightarrow> step_view \<Rightarrow> ('x world, step_state) prog" where
  "rootca_upload_cert_state env region v = run
     (bnd extra_args_or_empty (\<lambda>x.
      seq (if truthy (jget x ''cert-file'') then
             (case jget x ''cert-file'' of
                JStr f \<Rightarrow>
                  bnd (gets (\<lambda>w. fs_files (w_fs w) f)) (\<lambda>pem.
                    case pem of
                      None \<Rightarrow> raise (IOError (''No such file or directory: '' @ f))
                    | Some content \<Rightarrow>
                        seq (get_sysinv_client env region)
                          (bnd (call (SysinvAction region ''kube_rootca_update_upload_cert'')
                                 (oe_kube_rootca_update_upload_cert env region content)) (\<lambda>err.
                             when_io (truthy_str err)
                               (raise (CertificateUploadError (show_str_opt err))))))
              | _ \<Rightarrow> raise TypeError)
           else ret ())
        (ret STRATEGY_STATE_CREATING_VIM_KUBE_ROOTCA_UPDATE_STRATEGY)))"

section \<open>What they promise\<close>

text \<open>A subcloud is skipped when it has no version to go to, or when the version it would go
  to is greater than the requested one on the fields that both versions name; otherwise, if both
  parse, its upgrade goes on.\<close>

lemma kube_should_skip_iff:
  assumes "version_fields t = Some ts" and "version_fields r = Some rs"
    and "hd t = CHR ''v''" and "hd r = CHR ''v''" and "t \<noteq> []" and "r \<noteq> []"
  shows "kube_should_skip None r = Inr True \<and>
    kube_should_skip (Some t) r =
      Inr (tuple_less (take (min (length ts) (length rs)) rs) (take (min (length ts) (length rs)) ts))"
proof -
  let ?t = "take (min (length ts) (length rs)) ts" and ?r = "take (min (length ts) (length rs)) rs"
  have "(compare_fields ts rs = 1) = tuple_less ?r ?t"
    using tuple_less_asym [of ?r ?t] by (auto simp: compare_fields_def Let_def of_bool_def)
  then show ?thesis using assms
    by (simp add: kube_should_skip_def kube_version_compare_def)
qed

text \<open>Two versions that agree on the fields both name are neither greater: \<open>v1.19\<close> and
  \<open>v1.19.1\<close>.\<close>

lemma kube_versions_agree:
  "kube_version_compare (Some ''v1.19'') (Some ''v1.19.1'') = Inr 0"
  "kube_version_compare (Some ''v1.20.9'') (Some ''v1.19.13'') = Inr 1"
  "kube_version_compare (Some ''v1.19.9'') (Some ''v1.19.13'') = Inr (-1)"
  by code_simp+

end
