(* ===== verification/DC_OrchThread.thy ===== *)
theory DC_OrchThread
  imports DC_PatchStates DC_KubeStates DC_SwUpdateManager
begin

text \<open>
  \<open>OrchThread\<close> of \<open>dcmanager/orchestrator/orch_thread.py\<close>: the thread that executes a strategy of
  one update type. \<open>sys\<close> is its state: the world, the workers it keeps track of, the greenthreads
  it has started and that have not finished, and the data its class keeps. \<open>orch_class\<close> holds
  what a subclass defines; the classes of patches, kubernetes and kube rootca updates are given
  with their state operators. A greenthread is an entry of \<open>sy_jobs\<close>; it runs between two turns
  of the main loop, or while the main loop sleeps.
\<close>

section \<open>The state of a thread and its class\<close>

datatype worker = UpdateWorker step_state | DeleteWorker

datatype job = PerformAction step_view | DeleteSubcloudStrategy step_view

record ('x, 'd) sys =
  sy_world :: "'x world"
  sy_workers :: "(string \<times> worker) list"
  sy_jobs :: "job list"
  sy_setup :: bool
  sy_data :: "'d option"

type_synonym ('x, 'd) operator = "'d option \<Rightarrow> string \<Rightarrow> step_view \<Rightarrow> ('x world, step_state) prog"

record ('x, 'd) orch_class =
  oc_update_type :: sw_type
  oc_vim_strategy_name :: "vim_strategy_name option"
  oc_starting_state :: step_state
  oc_state_operators :: "step_state \<Rightarrow> ('x, 'd) operator option"
  oc_pre_apply_setup :: "('x world, 'd option) io"
  oc_audit :: "string option"
  oc_before_delete :: "('x world, unit) io"

definition world_io :: "('x world, 'a) io \<Rightarrow> (('x, 'd) sys, 'a) io" where
  "world_io = zoom sy_world (\<lambda>w s. s\<lparr>sy_world := w\<rparr>)"

definition get_worker :: "string \<Rightarrow> ('x, 'd) sys \<Rightarrow> worker option" where
  "get_worker region s = map_of (sy_workers s) region"

definition set_worker :: "string \<Rightarrow> worker \<Rightarrow> ('x, 'd) sys \<Rightarrow> ('x, 'd) sys" where
  "set_worker region k s =
     s\<lparr>sy_workers := (region, k) # filter (\<lambda>(r, _). r \<noteq> region) (sy_workers s)\<rparr>"

definition delete_subcloud_worker :: "string \<Rightarrow> (('x, 'd) sys, unit) io" where
  "delete_subcloud_worker region =
     modify (\<lambda>s. s\<lparr>sy_workers := filter (\<lambda>(r, _). r \<noteq> region) (sy_workers s)\<rparr>)"

definition clear_workers :: "(('x, 'd) sys, unit) io" where
  "clear_workers = modify (\<lambda>s. s\<lparr>sy_workers := []\<rparr>)"

definition start_thread :: "job \<Rightarrow> (('x, 'd) sys, unit) io" where
  "start_thread j = modify (\<lambda>s. s\<lparr>sy_jobs := sy_jobs s @ [j]\<rparr>)"

section \<open>Updating a step\<close>

definition format_update_details :: "string option \<Rightarrow> string \<Rightarrow> string" where
  "format_update_details last_state info =
     (let details = (case last_state of
            None \<Rightarrow> info
          | Some s \<Rightarrow> if s = [] then info else s @ '': '' @ info)
      in if 255 < length details then take 253 details @ ''..'' else details)"

definition step_update ::
  "'x orch_env \<Rightarrow> ('x, 'd) orch_class \<Rightarrow> nat option \<Rightarrow> step_state \<Rightarrow> string option \<Rightarrow>
   ('x world, step_view) io" where
  "step_update env c subcloud_id state details =
     bnd (if state = oc_starting_state c then bnd (ask (oe_now env)) (\<lambda>t. ret (Some t, None))
          else if state \<in> {STRATEGY_STATE_COMPLETE, STRATEGY_STATE_ABORTED, STRATEGY_STATE_FAILED}
          then bnd (ask (oe_now env)) (\<lambda>t. ret (None, Some t))
          else ret (None, None)) (\<lambda>(started_at, finished_at).
       db_io (strategy_step_update admin_context subcloud_id
         (no_step_values\<lparr>pv_state := Some state, pv_details := details,
            pv_started_at := started_at, pv_finished_at := finished_at\<rparr>)))"

definition update_strategy_state ::
  "('x, 'd) orch_class \<Rightarrow> sw_state \<Rightarrow> (('x, 'd) sys, unit) io" where
  "update_strategy_state c st =
     seq (world_io (db_io (sw_update_strategy_update admin_context (Some st)
           (Some (oc_update_type c)) None)))
       (ret ())"

definition trigger_audit :: "'x orch_env \<Rightarrow> ('x, 'd) orch_class \<Rightarrow> (('x, 'd) sys, unit) io" where
  "trigger_audit env c =
     (case oc_audit c of
        None \<Rightarrow> ret ()
      | Some a \<Rightarrow> world_io (call (AuditRpc a None) (oe_audit_rpc env a)))"

section \<open>The workers\<close>

text \<open>\<open>perform_state_action\<close>: the body of a greenthread that drives a step through one state.\<close>

definition determine_state_operator ::
  "('x, 'd) orch_class \<Rightarrow> 'd option \<Rightarrow> step_view \<Rightarrow> ('x world, step_view \<Rightarrow> ('x world, step_state) prog) io" where
  "determine_state_operator c data v =
     bnd (get_region_name v) (\<lambda>region.
       case oc_state_operators c (sp_state (fst v)) of
         None \<Rightarrow> raise TypeError
       | Some operator \<Rightarrow> ret (operator data region))"

definition perform_state_action ::
  "'x orch_env \<Rightarrow> ('x, 'd) orch_class \<Rightarrow> 'd option \<Rightarrow> step_view \<Rightarrow> ('x world, unit) prog" where
  "perform_state_action env c data v =
     (let i = sp_subcloud_id (fst v);
          update = \<lambda>st details. run (seq (step_update env c i st (Some details)) (ret ()));
          on_error = \<lambda>st details. seqp (run (get_region_name v)) (update st details)
      in catchp
        (bndp (run (determine_state_operator c data v)) (\<lambda>operator.
          bndp (operator v) (\<lambda>next_state. update next_state [])))
        (\<lambda>e. case e of
            StrategySkippedException d \<Rightarrow>
              on_error STRATEGY_STATE_COMPLETE (format_update_details None (exn_str e))
          | _ \<Rightarrow> on_error STRATEGY_STATE_FAILED
                   (format_update_details (Some (step_state_str (sp_state (fst v)))) (exn_str e))))"

definition process_update_step :: "string \<Rightarrow> step_view \<Rightarrow> (('x, 'd) sys, unit) io" where
  "process_update_step region v =
     (let start = seq (start_thread (PerformAction v))
                    (modify (set_worker region (UpdateWorker (sp_state (fst v)))))
      in bnd (gets (get_worker region)) (\<lambda>k.
           case k of
             None \<Rightarrow> start
           | Some DeleteWorker \<Rightarrow> raise TypeError
           | Some (UpdateWorker st) \<Rightarrow> if st = sp_state (fst v) then ret () else start))"

definition do_delete_subcloud_strategy ::
  "'x orch_env \<Rightarrow> ('x, 'd) orch_class \<Rightarrow> step_view \<Rightarrow> ('x world, unit) io" where
  "do_delete_subcloud_strategy env c v =
     (case oc_vim_strategy_name c of
        None \<Rightarrow> ret ()
      | Some name \<Rightarrow>
          bnd (get_region_name v) (\<lambda>region.
            try_else (get_strategy env region (vim_strategy_name_str name) True)
              (\<lambda>_. ret ())
              (\<lambda>s. case s of
                 None \<Rightarrow> ret ()
               | Some s \<Rightarrow>
                   if vs_state s \<in> {VIM_STATE_BUILDING, VIM_STATE_APPLYING, VIM_STATE_ABORTING}
                   then ret ()
                   else try_catch (seq (get_vim_client env region)
                            (vim_delete_strategy env region (vim_strategy_name_str name)))
                          (\<lambda>_. ret ()))))"

definition delete_subcloud_strategy ::
  "'x orch_env \<Rightarrow> ('x, 'd) orch_class \<Rightarrow> step_view \<Rightarrow> (('x, 'd) sys, unit) io" where
  "delete_subcloud_strategy env c v =
     seq (try_catch (world_io (do_delete_subcloud_strategy env c v)) (\<lambda>_. ret ()))
       (bnd (get_region_name v) delete_subcloud_worker)"

section \<open>Applying a strategy\<close>

datatype scan = ScanReturn | ScanDone bool bool | ScanStage nat "nat option"

text \<open>The first loop of \<open>apply\<close>: which stage is being worked on.\<close>

fun find_stage ::
  "'x orch_env \<Rightarrow> ('x, 'd) orch_class \<Rightarrow> bool \<Rightarrow> step_view list \<Rightarrow> bool \<Rightarrow> bool \<Rightarrow> (('x, 'd) sys, scan) io" where
  "find_stage env c stop_on_failure [] failed aborted = ret (ScanDone failed aborted)"
| "find_stage env c stop_on_failure (v # vs) failed aborted =
     (if sp_state (fst v) = STRATEGY_STATE_COMPLETE then
        seq (bnd (step_subcloud_name v) delete_subcloud_worker)
          (find_stage env c stop_on_failure vs failed aborted)
      else if sp_state (fst v) = STRATEGY_STATE_ABORTED then
        seq (bnd (step_subcloud_name v) delete_subcloud_worker)
          (find_stage env c stop_on_failure vs failed True)
      else if sp_state (fst v) = STRATEGY_STATE_FAILED then
        seq (bnd (step_subcloud_name v) delete_subcloud_worker)
          (if sp_subcloud_id (fst v) = None then
             seq (update_strategy_state c SW_UPDATE_STATE_FAILED)
               (seq (trigger_audit env c) (ret ScanReturn))
           else if stop_on_failure then
             ret (ScanStage (sp_stage (fst v)) (Some (sp_stage (fst v))))
           else find_stage env c stop_on_failure vs True aborted)
      else ret (ScanStage (sp_stage (fst v)) None))"

text \<open>One step of the stage being worked on.\<close>

definition run_step ::
  "'x orch_env \<Rightarrow> ('x, 'd) orch_class \<Rightarrow> string \<Rightarrow> step_view \<Rightarrow> (('x, 'd) sys, unit) io" where
  "run_step env c region v =
     (let s = fst v in
      if sp_state s \<in> {STRATEGY_STATE_FAILED, STRATEGY_STATE_COMPLETE} then
        delete_subcloud_worker region
      else if sp_state s = STRATEGY_STATE_INITIAL then
        (case (sp_subcloud_id s, snd v) of
           (Some i, Some sc) \<Rightarrow>
             if sc_management_state sc = MANAGEMENT_UNMANAGED then
               seq (world_io (step_update env c (Some i) STRATEGY_STATE_FAILED
                     (Some (''Subcloud '' @ sc_name sc @ '' is unmanaged.''))))
                 (ret ())
             else bnd (world_io (step_update env c (sp_subcloud_id s) (oc_starting_state c) None))
                    (process_update_step region)
         | (Some i, None) \<Rightarrow> raise AttributeError
         | (None, _) \<Rightarrow>
             bnd (world_io (step_update env c (sp_subcloud_id s) (oc_starting_state c) None))
               (process_update_step region))
      else process_update_step region v)"

fun run_stage ::
  "'x orch_env \<Rightarrow> ('x, 'd) orch_class \<Rightarrow> nat \<Rightarrow> step_view list \<Rightarrow> (('x, 'd) sys, unit) io" where
  "run_stage env c stage [] = ret ()"
| "run_stage env c stage (v # vs) =
     (if sp_stage (fst v) \<noteq> stage then run_stage env c stage vs
      else bnd (get_region_name v) (\<lambda>region.
        bnd (world_io (stopped env)) (\<lambda>is_stopped.
          if is_stopped then clear_workers
          else seq (run_step env c region v) (run_stage env c stage vs))))"

definition work_remaining :: "nat \<Rightarrow> step_view list \<Rightarrow> bool" where
  "work_remaining stage vs =
     list_ex (\<lambda>v. sp_stage (fst v) = stage \<and> sp_state (fst v) \<noteq> STRATEGY_STATE_COMPLETE \<and>
        sp_state (fst v) \<noteq> STRATEGY_STATE_FAILED) vs"

definition orch_apply ::
  "'x orch_env \<Rightarrow> ('x, 'd) orch_class \<Rightarrow> sw_update_strategy \<Rightarrow> (('x, 'd) sys, unit) io" where
  "orch_apply env c strategy =
     bnd (world_io (db_io (strategy_step_get_all admin_context))) (\<lambda>vs.
     bnd (find_stage env c (st_stop_on_failure strategy) vs False False) (\<lambda>r.
       case r of
         ScanReturn \<Rightarrow> ret ()
       | ScanDone failed aborted \<Rightarrow>
           seq (update_strategy_state c
                 (if failed then SW_UPDATE_STATE_FAILED
                  else if aborted then SW_UPDATE_STATE_ABORTED else SW_UPDATE_STATE_COMPLETE))
             (seq clear_workers (trigger_audit env c))
       | ScanStage stage stop_after \<Rightarrow>
           if stop_after \<noteq> None \<and> \<not> work_remaining stage vs then
             seq (update_strategy_state c SW_UPDATE_STATE_FAILED) (trigger_audit env c)
           else run_stage env c stage vs))"

section \<open>Aborting and deleting a strategy\<close>

definition orch_abort :: "'x orch_env \<Rightarrow> ('x, 'd) orch_class \<Rightarrow> (('x, 'd) sys, unit) io" where
  "orch_abort env c =
     bnd (world_io (db_io (strategy_step_get_all admin_context))) (\<lambda>vs.
       seq (for_each (\<lambda>v. when_io (sp_state (fst v) = STRATEGY_STATE_INITIAL)
              (seq (get_region_name v)
                (seq (world_io (step_update env c (sp_subcloud_id (fst v)) STRATEGY_STATE_ABORTED (Some [])))
                  (ret ())))) vs)
         (update_strategy_state c SW_UPDATE_STATE_ABORTING))"

text \<open>True when the thread was stopped while the deletions were being started.\<close>

fun start_deletes :: "'x orch_env \<Rightarrow> step_view list \<Rightarrow> (('x, 'd) sys, bool) io" where
  "start_deletes env [] = ret False"
| "start_deletes env (v # vs) =
     bnd (get_region_name v) (\<lambda>region.
     bnd (gets (get_worker region)) (\<lambda>k.
     seq (if k \<noteq> None then ret ()
          else seq (start_thread (DeleteSubcloudStrategy v)) (modify (set_worker region DeleteWorker)))
       (bnd (world_io (stopped env)) (\<lambda>is_stopped.
          if is_stopped then ret True else start_deletes env vs))))"

text \<open>The wait for the workers, at most \<open>n\<close> more times; \<open>pause\<close> is what the other greenthreads
  do during a sleep.\<close>

fun wait_for_workers :: "(('x, 'd) sys \<Rightarrow> ('x, 'd) sys) \<Rightarrow> nat \<Rightarrow> (('x, 'd) sys, unit) io" where
  "wait_for_workers pause 0 = ret ()"
| "wait_for_workers pause (Suc n) =
     bnd (gets sy_workers) (\<lambda>ks.
       if ks = [] then ret ()
       else seq (world_io (sleep 10)) (seq (modify pause) (wait_for_workers pause n)))"

definition orch_delete ::
  "'x orch_env \<Rightarrow> ('x, 'd) orch_class \<Rightarrow> (('x, 'd) sys \<Rightarrow> ('x, 'd) sys) \<Rightarrow> (('x, 'd) sys, unit) io" where
  "orch_delete env c pause =
     bnd (world_io (db_io (strategy_step_get_all admin_context))) (\<lambda>vs.
     bnd (start_deletes env vs) (\<lambda>is_stopped.
       if is_stopped then ret ()
       else seq (wait_for_workers pause 19)
         (seq (world_io (db_io (strategy_step_destroy_all admin_context)))
           (world_io (db_io (sw_update_strategy_destroy admin_context None))))))"

section \<open>The main loop\<close>

definition pre_apply_setup :: "('x, 'd) orch_class \<Rightarrow> (('x, 'd) sys, unit) io" where
  "pre_apply_setup c =
     bnd (gets sy_setup) (\<lambda>done.
       unless_io done
         (seq (modify (\<lambda>s. s\<lparr>sy_setup := True\<rparr>))
           (bnd (world_io (oc_pre_apply_setup c)) (\<lambda>d. modify (\<lambda>s. s\<lparr>sy_data := d\<rparr>)))))"

definition post_delete_teardown :: "(('x, 'd) sys, unit) io" where
  "post_delete_teardown =
     bnd (gets sy_setup) (\<lambda>done.
       when_io done (modify (\<lambda>s. s\<lparr>sy_setup := False, sy_data := None\<rparr>)))"

definition run_orch_turn ::
  "'x orch_env \<Rightarrow> ('x, 'd) orch_class \<Rightarrow> (('x, 'd) sys \<Rightarrow> ('x, 'd) sys) \<Rightarrow> (('x, 'd) sys, unit) io" where
  "run_orch_turn env c pause =
     bnd (world_io (db_io (sw_update_strategy_get admin_context (Some (oc_update_type c))))) (\<lambda>strategy.
       when_io (st_type strategy = oc_update_type c)
         (if st_state strategy \<in> {SW_UPDATE_STATE_APPLYING, SW_UPDATE_STATE_ABORTING} then
            seq (pre_apply_setup c) (orch_apply env c strategy)
          else if st_state strategy = SW_UPDATE_STATE_ABORT_REQUESTED then orch_abort env c
          else if st_state strategy = SW_UPDATE_STATE_DELETING then
            seq (seq (world_io (oc_before_delete c)) (orch_delete env c pause)) post_delete_teardown
          else ret ()))"

definition run_orch_iteration ::
  "'x orch_env \<Rightarrow> ('x, 'd) orch_class \<Rightarrow> (('x, 'd) sys \<Rightarrow> ('x, 'd) sys) \<Rightarrow> (('x, 'd) sys, unit) io" where
  "run_orch_iteration env c pause =
     seq (try_catch (run_orch_turn env c pause) (\<lambda>_. ret ())) (world_io (sleep 10))"

section \<open>The classes of threads\<close>

definition patch_state_operators ::
  "'x orch_env \<Rightarrow> step_state \<Rightarrow> ('x, job_data) operator option" where
  "patch_state_operators env st =
     (let with_data = \<lambda>f data region v.
            (case data of None \<Rightarrow> run (raise AttributeError) | Some jd \<Rightarrow> f jd region v)
      in if st = STRATEGY_STATE_PRE_CHECK then
           Some (\<lambda>_ region. patch_pre_check_state env region)
         else if st = STRATEGY_STATE_UPDATING_PATCHES then
           Some (with_data (updating_patches_state env))
         else if st = STRATEGY_STATE_CREATING_VIM_PATCH_STRATEGY then
           Some (\<lambda>_ _. creating_vim_strategy_state env (creating_vim_patch_strategy env))
         else if st = STRATEGY_STATE_APPLYING_VIM_PATCH_STRATEGY then
           Some (\<lambda>_ _. applying_vim_strategy_state env applying_vim_patch_strategy)
         else if st = STRATEGY_STATE_FINISHING_PATCH_STRATEGY then
           Some (with_data (finishing_patch_strategy_state env))
         else None)"

definition patch_orch_thread :: "'x orch_env \<Rightarrow> ('x, job_data) orch_class" where
  "patch_orch_thread env =
     \<lparr>oc_update_type = SW_UPDATE_TYPE_PATCH,
      oc_vim_strategy_name = Some VIM_STRATEGY_NAME_SW_PATCH,
      oc_starting_state = STRATEGY_STATE_PRE_CHECK,
      oc_state_operators = patch_state_operators env,
      oc_pre_apply_setup = bnd (initialize_job_data env) (\<lambda>d. ret (Some d)),
      oc_audit = Some ''trigger_patch_audit'',
      oc_before_delete = ret ()\<rparr>"

definition kube_state_operators :: "'x orch_env \<Rightarrow> step_state \<Rightarrow> ('x, unit) operator option" where
  "kube_state_operators env st =
     (if st = STRATEGY_STATE_KUBE_UPGRADE_PRE_CHECK then
        Some (\<lambda>_ region. kube_pre_check_state env region)
      else if st = STRATEGY_STATE_KUBE_CREATING_VIM_KUBE_UPGRADE_STRATEGY then
        Some (\<lambda>_ _. creating_vim_strategy_state env (creating_vim_kube_upgrade_strategy env))
      else if st = STRATEGY_STATE_KUBE_APPLYING_VIM_KUBE_UPGRADE_STRATEGY then
        Some (\<lambda>_ _. applying_vim_strategy_state env applying_vim_kube_upgrade_strategy)
      else None)"

definition kube_upgrade_orch_thread :: "'x orch_env \<Rightarrow> ('x, unit) orch_class" where
  "kube_upgrade_orch_thread env =
     \<lparr>oc_update_type = SW_UPDATE_TYPE_KUBERNETES,
      oc_vim_strategy_name = Some VIM_STRATEGY_NAME_KUBE_UPGRADE,
      oc_starting_state = STRATEGY_STATE_KUBE_UPGRADE_PRE_CHECK,
      oc_state_operators = kube_state_operators env,
      oc_pre_apply_setup = ret None,
      oc_audit = Some ''trigger_kubernetes_audit'',
      oc_before_delete = ret ()\<rparr>"

definition kube_rootca_state_operators :: "'x orch_env \<Rightarrow> step_state \<Rightarrow> ('x, unit) operator option" where
  "kube_rootca_state_operators env st =
     (if st = STRATEGY_STATE_KUBE_ROOTCA_UPDATE_PRE_CHECK then
        Some (\<lambda>_ region. rootca_pre_check_state env region)
      else if st = STRATEGY_STATE_KUBE_ROOTCA_UPDATE_START then
        Some (\<lambda>_ region. rootca_start_state env region)
      else if st = STRATEGY_STATE_KUBE_ROOTCA_UPDATE_UPLOAD_CERT then
        Some (\<lambda>_ region. rootca_upload_cert_state env region)
      else if st = STRATEGY_STATE_CREATING_VIM_KUBE_ROOTCA_UPDATE_STRATEGY then
        Some (\<lambda>_ _. creating_vim_strategy_state env (creating_vim_kube_rootca_update_strategy env))
      else if st = STRATEGY_STATE_APPLYING_VIM_KUBE_ROOTCA_UPDATE_STRATEGY then
        Some (\<lambda>_ _. applying_vim_strategy_state env applying_vim_kube_rootca_update_strategy)
      else None)"

definition kube_rootca_update_orch_thread :: "'x orch_env \<Rightarrow> ('x, unit) orch_class" where
  "kube_rootca_update_orch_thread env =
     \<lparr>oc_update_type = SW_UPDATE_TYPE_KUBE_ROOTCA_UPDATE,
      oc_vim_strategy_name = Some VIM_STRATEGY_NAME_KUBE_ROOTCA_UPDATE,
      oc_starting_state = STRATEGY_STATE_KUBE_ROOTCA_UPDATE_PRE_CHECK,
      oc_state_operators = kube_rootca_state_operators env,
      oc_pre_apply_setup = ret None,
      oc_audit = Some ''trigger_kube_rootca_update_audit'',
      oc_before_delete = ret ()\<rparr>"

end
