(* ===== verification/DC_Progress.thy ===== *)
theory DC_Progress
  imports DC_Consts
begin

text \<open>
  What a strategy that is being executed promises, apart from threads, workers and tables: the
  state of each step and the greenthreads that are running. A step of a stage begins only when
  the lower stages are done, one greenthread at a time drives a step, and what it leaves behind
  is a state that its table of states allows; steps are dropped when their subclouds are deleted.
  \<open>step_table\<close> is what is asked of such a table.
\<close>

section \<open>The machine\<close>

text \<open>The subcloud of a step, its stage and its state.\<close>

type_synonym brief = "nat \<times> nat \<times> step_state"

record progress =
  pg_steps :: "brief list"
  pg_running :: "(nat \<times> step_state) list"

definition active :: "step_state \<Rightarrow> bool" where
  "active st \<longleftrightarrow> st \<noteq> STRATEGY_STATE_INITIAL \<and> \<not> terminal_step st"

definition move :: "nat \<Rightarrow> step_state \<Rightarrow> brief list \<Rightarrow> brief list" where
  "move i st bs = map (\<lambda>(j, k, s). (j, k, if j = i then st else s)) bs"

definition lower_done :: "nat \<Rightarrow> brief list \<Rightarrow> bool" where
  "lower_done k bs \<longleftrightarrow> (\<forall>(j, l, t) \<in> set bs. l < k \<longrightarrow> terminal_step t)"

inductive progress_move ::
  "step_state \<Rightarrow> (step_state \<Rightarrow> step_state set) \<Rightarrow> progress \<Rightarrow> progress \<Rightarrow> bool"
  for start :: step_state and nexts :: "step_state \<Rightarrow> step_state set" where
  begin_step:
    "(i, k, STRATEGY_STATE_INITIAL) \<in> set (pg_steps p) \<Longrightarrow> lower_done k (pg_steps p) \<Longrightarrow>
     progress_move start nexts p (p\<lparr>pg_steps := move i start (pg_steps p)\<rparr>)"
| give_up:
    "(i, k, STRATEGY_STATE_INITIAL) \<in> set (pg_steps p) \<Longrightarrow>
     st \<in> {STRATEGY_STATE_FAILED, STRATEGY_STATE_ABORTED} \<Longrightarrow>
     progress_move start nexts p (p\<lparr>pg_steps := move i st (pg_steps p)\<rparr>)"
| start_job:
    "(i, k, st) \<in> set (pg_steps p) \<Longrightarrow> st \<noteq> STRATEGY_STATE_INITIAL \<Longrightarrow>
     (active st \<Longrightarrow> i \<notin> fst ` set (pg_running p)) \<Longrightarrow>
     progress_move start nexts p (p\<lparr>pg_running := pg_running p @ [(i, st)]\<rparr>)"
| finish_job:
    "pg_running p = js @ (i, st) # ks \<Longrightarrow> st' \<in> nexts st \<Longrightarrow>
     progress_move start nexts p (p\<lparr>pg_steps := move i st' (pg_steps p), pg_running := js @ ks\<rparr>)"
| lose_job:
    "pg_running p = js @ (i, st) # ks \<Longrightarrow>
     progress_move start nexts p (p\<lparr>pg_running := js @ ks\<rparr>)"

inductive_cases progress_moveE: "progress_move start nexts p q"

text \<open>The machine: its own moves, and steps that are dropped from outside.\<close>

inductive progress_step ::
  "step_state \<Rightarrow> (step_state \<Rightarrow> step_state set) \<Rightarrow> progress \<Rightarrow> progress \<Rightarrow> bool"
  for start :: step_state and nexts :: "step_state \<Rightarrow> step_state set" where
  moves: "progress_move start nexts p q \<Longrightarrow> progress_step start nexts p q"
| drop_steps:
    "progress_step start nexts p (p\<lparr>pg_steps := filter (\<lambda>b. fst b \<in> K) (pg_steps p)\<rparr>)"

lemma moves_steps:
  "(progress_move start nexts)\<^sup>*\<^sup>* p q \<Longrightarrow> (progress_step start nexts)\<^sup>*\<^sup>* p q"
  by (induction rule: rtranclp_induct) (auto intro: progress_step.moves rtranclp.rtrancl_into_rtrancl)

definition disciplined :: "brief list \<Rightarrow> bool" where
  "disciplined bs \<longleftrightarrow> (\<forall>(i, k, st) \<in> set bs. active st \<longrightarrow> lower_done k bs)"

text \<open>A greenthread's step is in the state it was started for, or both are at an end, or the step has
  been dropped.\<close>

definition attended :: "brief list \<Rightarrow> nat \<times> step_state \<Rightarrow> bool" where
  "attended bs = (\<lambda>(i, st). i \<in> fst ` set bs \<longrightarrow> (\<exists>k t. (i, k, t) \<in> set bs \<and>
     (active st \<and> t = st \<or> terminal_step st \<and> terminal_step t)))"

definition pg_ok :: "progress \<Rightarrow> bool" where
  "pg_ok p \<longleftrightarrow>
     distinct (map fst (pg_steps p)) \<and> disciplined (pg_steps p) \<and>
     (\<forall>j \<in> set (pg_running p). attended (pg_steps p) j) \<and>
     distinct (map fst (filter (\<lambda>j. active (snd j)) (pg_running p)))"

lemma active_not_terminal: "active st \<Longrightarrow> \<not> terminal_step st"
  by (simp add: active_def)

lemma step_state_cases: "st = STRATEGY_STATE_INITIAL \<or> terminal_step st \<or> active st"
  by (auto simp: active_def)

lemma fst_move [simp]: "map fst (move i st bs) = map fst bs"
  by (induction bs) (auto simp: move_def)

lemma ids_move [simp]: "fst ` set (move i st bs) = fst ` set bs"
  by (metis fst_move list.set_map)

lemma in_move:
  "(j, k, t) \<in> set (move i st bs) \<longleftrightarrow>
     (\<exists>s. (j, k, s) \<in> set bs \<and> t = (if j = i then st else s))"
  by (force simp: move_def)

lemma distinct_briefs:
  "distinct (map fst bs) \<Longrightarrow> (i, k, s) \<in> set bs \<Longrightarrow> (i, l, t) \<in> set bs \<Longrightarrow> k = l \<and> s = t"
  using eq_key_imp_eq_value by fastforce

text \<open>A move that does not take a step out of a final state.\<close>

definition safe_move :: "nat \<Rightarrow> step_state \<Rightarrow> brief list \<Rightarrow> bool" where
  "safe_move i st bs \<longleftrightarrow> (\<forall>k s. (i, k, s) \<in> set bs \<longrightarrow> terminal_step s \<longrightarrow> terminal_step st)"

lemma lower_done_move: "lower_done k bs \<Longrightarrow> safe_move i st bs \<Longrightarrow> lower_done k (move i st bs)"
  unfolding lower_done_def safe_move_def by (fastforce simp: in_move)

lemma disciplined_move:
  assumes "disciplined bs" and "safe_move i st bs"
    and "\<And>k s. (i, k, s) \<in> set bs \<Longrightarrow> active st \<Longrightarrow> lower_done k bs"
  shows "disciplined (move i st bs)"
proof -
  have "lower_done k (move i st bs)" if t: "(j, k, t) \<in> set (move i st bs)" "active t" for j k t
  proof -
    obtain s where s: "(j, k, s) \<in> set bs" "t = (if j = i then st else s)"
      using t(1) unfolding in_move by blast
    have "lower_done k bs"
      using s t(2) assms(1) assms(3) by (cases "j = i") (auto simp: disciplined_def)
    then show ?thesis using assms(2) by (rule lower_done_move)
  qed
  then show ?thesis unfolding disciplined_def by blast
qed

lemma attended_iff:
  "attended bs (i, st) \<longleftrightarrow> (i \<in> fst ` set bs \<longrightarrow>
     (\<exists>k t. (i, k, t) \<in> set bs \<and> (active st \<and> t = st \<or> terminal_step st \<and> terminal_step t)))"
  by (simp add: attended_def del: terminal_step_iff)

lemma brief_id: "(i, k, t) \<in> set bs \<Longrightarrow> i \<in> fst ` set bs"
  by force

lemma attended_row:
  assumes "attended bs (i, st)" and "distinct (map fst bs)" and "(i, k, t) \<in> set bs"
  shows "active st \<and> t = st \<or> terminal_step st \<and> terminal_step t"
  using assms(1) brief_id [OF assms(3)] distinct_briefs [OF assms(2,3)] unfolding attended_iff by blast

lemma attended_rowI:
  "(i, k, t) \<in> set bs \<Longrightarrow> active st \<and> t = st \<or> terminal_step st \<and> terminal_step t \<Longrightarrow> attended bs (i, st)"
  unfolding attended_iff by blast

lemma move_missing: "i \<notin> fst ` set bs \<Longrightarrow> move i st bs = bs"
  unfolding move_def by (intro map_idI) (auto dest: brief_id)

lemma lower_done_drop: "lower_done k bs \<Longrightarrow> lower_done k (filter p bs)"
  by (auto simp: lower_done_def)

lemma attended_drop: "attended bs j \<Longrightarrow> attended (filter (\<lambda>b. fst b \<in> K) bs) j"
  by (cases j) (force simp: attended_iff simp del: terminal_step_iff)

lemma attended_move:
  assumes "attended bs (j, s)" and "safe_move i st bs" and "active s \<Longrightarrow> j \<noteq> i"
  shows "attended (move i st bs) (j, s)"
proof (cases "j \<in> fst ` set bs")
  case False
  then show ?thesis unfolding attended_iff by simp
next
  case True
  then obtain k t where t: "(j, k, t) \<in> set bs" "active s \<and> t = s \<or> terminal_step s \<and> terminal_step t"
    using assms(1) unfolding attended_iff by blast
  have "(j, k, if j = i then st else t) \<in> set (move i st bs)" using t(1) unfolding in_move by blast
  moreover have "terminal_step t \<Longrightarrow> j = i \<Longrightarrow> terminal_step st"
    using assms(2) t(1) unfolding safe_move_def by blast
  ultimately show ?thesis using t(2) assms(3) attended_rowI
    by (cases "j = i") (auto simp del: terminal_step_iff)
qed

lemma attended_initial:
  assumes "distinct (map fst bs)" and "(i, k, STRATEGY_STATE_INITIAL) \<in> set bs" and "attended bs (j, s)"
  shows "j \<noteq> i"
proof
  assume "j = i"
  then show False using attended_row [OF _ assms(1,2)] assms(3) by (auto simp: active_def)
qed

lemma drop_ok:
  assumes "pg_ok p" shows "pg_ok (p\<lparr>pg_steps := filter (\<lambda>b. fst b \<in> K) (pg_steps p)\<rparr>)"
proof -
  have "disciplined (filter (\<lambda>b. fst b \<in> K) (pg_steps p))"
    using assms lower_done_drop unfolding pg_ok_def disciplined_def by fastforce
  then show ?thesis
    using assms attended_drop by (simp add: pg_ok_def distinct_map_filter)
qed

section \<open>Tables of states\<close>

text \<open>The first state of an update, what may follow a state, and a rank that grows on the way.\<close>

locale step_table =
  fixes start :: step_state and nexts :: "step_state \<Rightarrow> step_state set" and rank :: "step_state \<Rightarrow> nat"
  assumes start_active: "active start"
    and nexts_started: "st' \<in> nexts st \<Longrightarrow> st' \<noteq> STRATEGY_STATE_INITIAL"
    and nexts_terminal: "terminal_step st \<Longrightarrow> st' \<in> nexts st \<Longrightarrow> terminal_step st'"
    and rank_start: "rank STRATEGY_STATE_INITIAL < rank start"
    and rank_nexts: "active st \<Longrightarrow> st' \<in> nexts st \<Longrightarrow> rank st < rank st'"
    and rank_terminal: "terminal_step st \<Longrightarrow> rank st' \<le> rank st"
begin

lemma safe_finish:
  assumes "pg_ok p" and "(i, st) \<in> set (pg_running p)" and "st' \<in> nexts st"
  shows "safe_move i st' (pg_steps p)"
    and "(i, k, s) \<in> set (pg_steps p) \<Longrightarrow> active st' \<Longrightarrow> lower_done k (pg_steps p)"
proof -
  have d: "distinct (map fst (pg_steps p))" using assms(1) by (simp add: pg_ok_def)
  have "attended (pg_steps p) (i, st)" using assms(1,2) unfolding pg_ok_def by blast
  note row = attended_row [OF this d]
  show "safe_move i st' (pg_steps p)"
    unfolding safe_move_def using row nexts_terminal [OF _ assms(3)] active_not_terminal by blast
  show "lower_done k (pg_steps p)" if r: "(i, k, s) \<in> set (pg_steps p)" "active st'"
  proof -
    have "active s" using row [OF r(1)] nexts_terminal [OF _ assms(3)] active_not_terminal [OF r(2)] by blast
    then show ?thesis using assms(1) r(1) unfolding pg_ok_def disciplined_def by blast
  qed
qed

lemma attended_others:
  assumes "pg_ok p" and run: "pg_running p = js @ (i, st) # ks" and "(j, s) \<in> set (js @ ks)"
    and "active s" and row: "i \<in> fst ` set (pg_steps p)"
  shows "j \<noteq> i"
proof
  assume ji: "j = i"
  have d: "distinct (map fst (pg_steps p))" using assms(1) by (simp add: pg_ok_def)
  have att: "attended (pg_steps p) (i, st)" "attended (pg_steps p) (i, s)"
    using assms(1,3) ji unfolding pg_ok_def run by auto
  show False
  proof (cases "active st")
    case True
    then have "i \<notin> fst ` set (filter (\<lambda>j. active (snd j)) (js @ ks))"
      using assms(1) by (auto simp: pg_ok_def run)
    then show False using assms(3,4) ji by force
  next
    case False
    then obtain l t where "(i, l, t) \<in> set (pg_steps p)" "terminal_step t"
      using att(1) row unfolding attended_iff by blast
    moreover obtain l' where "(i, l', s) \<in> set (pg_steps p)"
      using att(2) row assms(4) active_not_terminal unfolding attended_iff by blast
    ultimately show False using distinct_briefs [OF d] assms(4) active_not_terminal by blast
  qed
qed

theorem progress_move_ok:
  assumes "progress_move start nexts p q" and ok: "pg_ok p"
  shows "pg_ok q"
proof -
  have d: "distinct (map fst (pg_steps p))" and disc: "disciplined (pg_steps p)"
    and att: "\<And>j. j \<in> set (pg_running p) \<Longrightarrow> attended (pg_steps p) j"
    and uniq: "distinct (map fst (filter (\<lambda>j. active (snd j)) (pg_running p)))"
    using ok unfolding pg_ok_def by blast+
  have initial: "pg_ok (p\<lparr>pg_steps := move i st (pg_steps p)\<rparr>)"
    if i: "(i, k, STRATEGY_STATE_INITIAL) \<in> set (pg_steps p)"
      and g: "active st \<Longrightarrow> lower_done k (pg_steps p)" for i k st
  proof -
    have same: "l = k \<and> s = STRATEGY_STATE_INITIAL" if "(i, l, s) \<in> set (pg_steps p)" for l s
      using distinct_briefs [OF d that i] .
    have safe: "safe_move i st (pg_steps p)" unfolding safe_move_def using same by fastforce
    have "attended (move i st (pg_steps p)) j" if "j \<in> set (pg_running p)" for j
      using attended_move [OF _ safe] attended_initial [OF d i] att [OF that] by (cases j) blast
    moreover have "disciplined (move i st (pg_steps p))"
      using disciplined_move [OF disc safe] g same by blast
    ultimately show ?thesis using d uniq by (simp add: pg_ok_def)
  qed
  show ?thesis using assms(1)
  proof (cases rule: progress_move.cases)
    case (begin_step i k)
    then show ?thesis using initial by blast
  next
    case (give_up i k st)
    then show ?thesis using initial [of i k st] by (auto simp: active_def)
  next
    case (start_job i k st)
    have "attended (pg_steps p) (i, st)"
      using start_job(2,3) step_state_cases attended_rowI by blast
    moreover have "i \<notin> fst ` set (filter (\<lambda>j. active (snd j)) (pg_running p))" if "active st"
      using start_job(4) [OF that] by auto
    ultimately show ?thesis using start_job(1) d disc att uniq unfolding pg_ok_def by auto
  next
    case (finish_job js i st ks st')
    have mem: "(i, st) \<in> set (pg_running p)" using finish_job(2) by simp
    note safe = safe_finish [OF ok mem finish_job(3)]
    have "attended (move i st' (pg_steps p)) j" if j: "j \<in> set (js @ ks)" for j
    proof (cases j)
      case (Pair k s)
      have "attended (pg_steps p) (k, s)" using att j Pair finish_job(2) by auto
      then show ?thesis
        using attended_move [OF _ safe(1)] attended_others [OF ok finish_job(2)] move_missing j Pair by metis
    qed
    moreover have "disciplined (move i st' (pg_steps p))"
      using disciplined_move [OF disc safe(1)] safe(2) by blast
    moreover have "distinct (map fst (filter (\<lambda>j. active (snd j)) (js @ ks)))"
      using uniq finish_job(2) by (auto split: if_splits)
    ultimately show ?thesis using finish_job(1) d by (simp add: pg_ok_def)
  next
    case (lose_job js i st ks)
    moreover have "distinct (map fst (filter (\<lambda>j. active (snd j)) (js @ ks)))"
      using uniq lose_job(2) by (auto split: if_splits)
    ultimately show ?thesis using d disc att by (simp add: pg_ok_def)
  qed
qed

text \<open>What no move undoes: the plan, a final state, and the rank of a step.\<close>

lemma progress_move_plan:
  "progress_move start nexts p q \<Longrightarrow>
   map (\<lambda>(i, k, s). (i, k)) (pg_steps q) = map (\<lambda>(i, k, s). (i, k)) (pg_steps p)"
  by (erule progress_moveE) (auto simp: move_def)

definition onward :: "step_state \<Rightarrow> step_state \<Rightarrow> bool" where
  "onward s t \<longleftrightarrow> rank s \<le> rank t \<and> (terminal_step s \<longrightarrow> terminal_step t)"

lemma onward_refl: "onward s s"
  by (simp add: onward_def)

lemma onward_trans: "onward s t \<Longrightarrow> onward t u \<Longrightarrow> onward s u"
  by (auto simp: onward_def)

lemma onward_move:
  assumes "(j, k, s) \<in> set bs" and "j = i \<Longrightarrow> onward s st"
  shows "\<exists>t. (j, k, t) \<in> set (move i st bs) \<and> onward s t"
  using assms onward_refl unfolding in_move by (cases "j = i") auto

theorem progress_move_mono:
  assumes step: "progress_move start nexts p q" and ok: "pg_ok p"
    and s: "(j, k, s) \<in> set (pg_steps p)"
  shows "\<exists>t. (j, k, t) \<in> set (pg_steps q) \<and> onward s t"
proof -
  have d: "distinct (map fst (pg_steps p))" using ok by (simp add: pg_ok_def)
  have from_initial: "s = STRATEGY_STATE_INITIAL"
    if "(i, l, STRATEGY_STATE_INITIAL) \<in> set (pg_steps p)" "j = i" for i l
    using distinct_briefs [OF d] s that by blast
  have terminal: "onward STRATEGY_STATE_INITIAL t" if "terminal_step t" for t
    using rank_terminal [OF that] by (simp add: onward_def)
  show ?thesis using step
  proof (cases rule: progress_move.cases)
    case (begin_step i l)
    have "j = i \<Longrightarrow> onward s start"
      using from_initial [OF begin_step(2)] rank_start by (simp add: onward_def)
    then show ?thesis using onward_move [OF s] begin_step(1) by simp
  next
    case (give_up i l st)
    have "j = i \<Longrightarrow> onward s st" using from_initial [OF give_up(2)] terminal give_up(3) by auto
    then show ?thesis using onward_move [OF s] give_up(1) by simp
  next
    case (finish_job js i st ks st')
    have "onward s st'" if "j = i"
    proof -
      have "attended (pg_steps p) (i, st)" using ok finish_job(2) by (simp add: pg_ok_def)
      then have "active st \<and> s = st \<or> terminal_step st \<and> terminal_step s"
        using attended_row [OF _ d] s that by blast
      then show ?thesis
      proof (elim disjE conjE)
        assume "active st" "s = st"
        then show ?thesis
          using rank_nexts [OF _ finish_job(3)] active_not_terminal
          by (simp add: onward_def less_imp_le del: terminal_step_iff)
      next
        assume "terminal_step st" "terminal_step s"
        then show ?thesis
          using nexts_terminal [OF _ finish_job(3)] rank_terminal by (simp add: onward_def)
      qed
    qed
    then show ?thesis using onward_move [OF s] finish_job(1) by simp
  qed (use s onward_refl in auto)
qed

end

end
