(* ===== verification/DC_OrchRefine.thy ===== *)
theory DC_OrchRefine
  imports DC_OrchThread DC_Progress DC_DB_Wf
begin

text \<open>
  The thread of \<open>DC_OrchThread\<close> implements the machine of \<open>DC_Progress\<close>: \<open>progress_of\<close> reads the
  steps and the greenthreads off the state of the thread, \<open>coupled\<close> is what holds between the
  database, the workers and the greenthreads, and every turn of the main loop is a sequence of
  steps of the machine. Turns run to their end between two greenthreads, which is how eventlet
  schedules them as long as the database driver does not yield.
\<close>

section \<open>The progress that a state of the thread shows\<close>

definition step_rows :: "db \<Rightarrow> strategy_step list" where
  "step_rows d = rows (strategy_steps d)"

definition brief_of :: "strategy_step \<Rightarrow> brief" where
  "brief_of r = (the (sp_subcloud_id r), sp_stage r, sp_state r)"

definition running_job :: "job \<Rightarrow> (nat \<times> step_state) list" where
  "running_job j =
     (case j of
        PerformAction v \<Rightarrow> [(the (sp_subcloud_id (fst v)), sp_state (fst v))]
      | DeleteSubcloudStrategy v \<Rightarrow> [])"

definition progress_of :: "('x, 'd) sys \<Rightarrow> progress" where
  "progress_of s =
     \<lparr>pg_steps = map brief_of (step_rows (w_db (sy_world s))),
      pg_running = concat (map running_job (sy_jobs s))\<rparr>"

text \<open>The names by which the thread knows the subclouds.\<close>

definition names :: "db \<Rightarrow> (nat \<times> string) list" where
  "names d = map (\<lambda>r. (sc_id r, sc_name r)) (rows (subclouds d))"

definition steps_wf :: "db \<Rightarrow> bool" where
  "steps_wf d \<longleftrightarrow>
     db_wf d \<and> (\<forall>r \<in> set (step_rows d). sp_subcloud_id r \<noteq> None) \<and>
     sorted (map sp_stage (step_rows d))"

text \<open>A greenthread that updates a subcloud which still has its step has its entry among the workers.\<close>

definition known_job :: "('x, 'd) sys \<Rightarrow> step_view \<Rightarrow> bool" where
  "known_job s v \<longleftrightarrow>
     (\<exists>i. sp_subcloud_id (fst v) = Some i \<and>
        (active (sp_state (fst v)) \<longrightarrow> i \<in> fst ` set (pg_steps (progress_of s)) \<longrightarrow>
           (\<exists>n. (i, n) \<in> set (names (w_db (sy_world s))) \<and>
              get_worker n s = Some (UpdateWorker (sp_state (fst v))))))"

definition coupled :: "('x, 'd) sys \<Rightarrow> bool" where
  "coupled s \<longleftrightarrow>
     steps_wf (w_db (sy_world s)) \<and> pg_ok (progress_of s) \<and>
     (\<forall>v. PerformAction v \<in> set (sy_jobs s) \<longrightarrow> known_job s v)"

section \<open>The steps of a well-formed database\<close>

abbreviation sys_db :: "('x, 'd) sys \<Rightarrow> db" where
  "sys_db s \<equiv> w_db (sy_world s)"

definition view_ok :: "db \<Rightarrow> step_view \<Rightarrow> bool" where
  "view_ok d v \<longleftrightarrow>
     fst v \<in> set (step_rows d) \<and>
     (\<exists>sc. snd v = Some sc \<and> sp_subcloud_id (fst v) = Some (sc_id sc) \<and>
        (sc_id sc, sc_name sc) \<in> set (names d))"

lemma names_id: "db_wf d \<Longrightarrow> (i, n) \<in> set (names d) \<Longrightarrow> (i, m) \<in> set (names d) \<Longrightarrow> n = m"
  using table_wf_key_inj [of sc_id "subclouds d"] by (auto simp: names_def db_wf_defs)

lemma names_name: "db_wf d \<Longrightarrow> (i, n) \<in> set (names d) \<Longrightarrow> (j, n) \<in> set (names d) \<Longrightarrow> i = j"
  using eq_key_imp_eq_value [of "map (\<lambda>r. (sc_name r, sc_id r)) (rows (subclouds d))" n i j]
  by (force simp: names_def db_wf_defs comp_def)

lemma steps_distinct:
  assumes "steps_wf d" shows "distinct (map sp_subcloud_id (step_rows d))"
proof -
  have "map Some (step_subcloud_ids rs) = map sp_subcloud_id rs"
    if "\<forall>r \<in> set rs. sp_subcloud_id r \<noteq> None" for rs
    using that by (induction rs) (auto simp: step_subcloud_ids_def List.map_filter_def)
  then have "map sp_subcloud_id (step_rows d) = map Some (step_subcloud_ids (step_rows d))"
    using assms by (simp add: steps_wf_def)
  moreover have "distinct (step_subcloud_ids (step_rows d))"
    using assms by (simp add: steps_wf_def db_wf_defs step_rows_def)
  ultimately show ?thesis by (simp add: distinct_map)
qed

lemma steps_same_id:
  assumes "steps_wf d" and "r \<in> set (step_rows d)" and "q \<in> set (step_rows d)"
  shows "sp_id q = sp_id r \<longleftrightarrow> q = r" and "sp_subcloud_id q = sp_subcloud_id r \<longleftrightarrow> q = r"
proof -
  have "table_wf sp_id (strategy_steps d)" using assms(1) by (simp add: steps_wf_def db_wf_defs)
  then show "sp_id q = sp_id r \<longleftrightarrow> q = r"
    using assms(2,3) table_wf_key_inj unfolding step_rows_def by metis
  show "sp_subcloud_id q = sp_subcloud_id r \<longleftrightarrow> q = r"
    using steps_distinct [OF assms(1)] assms(2,3) by (auto simp: distinct_map inj_on_def)
qed

lemma load_step_view:
  assumes wf: "steps_wf d" and r: "r \<in> set (step_rows d)"
  shows "view_ok d (load_step d r)"
proof -
  obtain i where i: "sp_subcloud_id r = Some i" using assms by (auto simp: steps_wf_def)
  have "i \<in> subcloud_ids d"
    using wf r i by (auto simp: steps_wf_def db_wf_def refs_wf_def step_rows_def set_step_subcloud_ids)
  then obtain sc where "sc \<in> set (rows (subclouds d))" "sc_id sc = i"
    by (auto simp: subcloud_ids_def)
  then have "query_first (\<lambda>r. sc_id r = i) (subclouds d) = Some sc"
    using query_first_key wf unfolding steps_wf_def db_wf_def keys_wf_def by metis
  then show ?thesis
    using r i \<open>sc \<in> _\<close> \<open>sc_id sc = i\<close> by (auto simp: view_ok_def load_step_def names_def)
qed

lemma strategy_step_update_run:
  assumes wf: "steps_wf d" and r: "r \<in> set (step_rows d)" and i: "sp_subcloud_id r = Some i"
  shows "strategy_step_update admin_context (Some i) v d =
    (Inr (apply_step_values v r, snd (load_step d r)),
     d\<lparr>strategy_steps := update_row sp_id (sp_id r) (apply_step_values v) (strategy_steps d)\<rparr>)"
proof -
  have "find (\<lambda>q. sp_subcloud_id q = Some i) (step_rows d) = Some r"
    using find_unique [OF steps_distinct [OF wf] r] i by simp
  then show ?thesis
    by (simp add: strategy_step_update_def strategy_step_get_def query_first_def step_rows_def
        first_or_apply write_session_def bnd_apply seq_apply load_step_def)
qed

text \<open>What the update of a step's state does to the database, for the rest of this theory.\<close>

definition moved :: "nat \<Rightarrow> step_state \<Rightarrow> strategy_step \<Rightarrow> db \<Rightarrow> step_view \<Rightarrow> db \<Rightarrow> bool" where
  "moved i st r d v' d' \<longleftrightarrow>
     map brief_of (step_rows d') = move i st (map brief_of (step_rows d)) \<and>
     names d' = names d \<and> steps_wf d' \<and>
     view_ok d' v' \<and> sp_state (fst v') = st \<and> sp_subcloud_id (fst v') = Some i \<and>
     snd v' = snd (load_step d r) \<and>
     (\<forall>u. view_ok d u \<longrightarrow> sp_id (fst u) \<noteq> sp_id r \<longrightarrow> view_ok d' u)"

lemma strategy_step_update_moved:
  assumes wf: "steps_wf d" and r: "r \<in> set (step_rows d)" and i: "sp_subcloud_id r = Some i"
    and v: "pv_state v = Some st" "pv_stage v = None"
    and run: "strategy_step_update admin_context (Some i) v d = (x, d')"
  shows "\<exists>v'. x = Inr v' \<and> moved i st r d v' d'"
proof -
  let ?f = "apply_step_values v"
  have d': "d' = d\<lparr>strategy_steps := update_row sp_id (sp_id r) ?f (strategy_steps d)\<rparr>"
    and x: "x = Inr (?f r, snd (load_step d r))"
    using strategy_step_update_run [OF wf r i, of v] run by simp_all
  have rows': "step_rows d' = map (\<lambda>q. if q = r then ?f q else q) (step_rows d)"
    using steps_same_id(1) [OF wf r] by (auto simp: d' step_rows_def rows_update)
  have f: "sp_state (?f r) = st" "sp_stage (?f r) = sp_stage r"
    using v by (simp_all add: apply_step_values_def)
  have "brief_of (if q = r then ?f q else q) =
      (case brief_of q of (j, k, s) \<Rightarrow> (j, k, if j = i then st else s))" if "q \<in> set (step_rows d)" for q
    using that steps_same_id(2) [OF wf r] i f wf by (force simp: brief_of_def steps_wf_def)
  then have briefs: "map brief_of (step_rows d') = move i st (map brief_of (step_rows d))"
    by (simp add: rows' move_def)
  have names: "names d' = names d" by (simp add: d' names_def)
  have "db_wf d'"
    using keepsD [OF strategy_step_update_wf, of d admin_context "Some i" v] wf run
    by (simp add: steps_wf_def)
  moreover have "sorted (map sp_stage (step_rows d'))"
  proof -
    have "map sp_stage (step_rows d') = map sp_stage (step_rows d)" using f by (simp add: rows')
    then show ?thesis using wf by (simp only: steps_wf_def)
  qed
  moreover have "\<forall>q \<in> set (step_rows d'). sp_subcloud_id q \<noteq> None"
    using wf by (auto simp: steps_wf_def rows')
  ultimately have wf': "steps_wf d'" unfolding steps_wf_def by blast
  have mem: "?f r \<in> set (step_rows d')" using r by (auto simp: rows' image_iff)
  have "view_ok d (r, snd (load_step d r))"
    using load_step_view [OF wf r] by (simp add: load_step_def)
  then have "view_ok d' (?f r, snd (load_step d r))"
    using mem by (simp add: view_ok_def names)
  moreover have "view_ok d' u" if "view_ok d u" "sp_id (fst u) \<noteq> sp_id r" for u
    using that by (auto simp: view_ok_def names rows' image_iff)
  ultimately show ?thesis using x briefs names wf' f(1) i by (auto simp: moved_def)
qed

text \<open>The same as the thread sees it; its clock may fail before anything is written.\<close>

lemma step_update_moved:
  assumes wf: "steps_wf (sys_db s)" and v: "view_ok (sys_db s) v"
    and i: "sp_subcloud_id (fst v) = Some i"
    and run: "world_io (step_update env c (Some i) st details) s = (x, s')"
  shows "sy_jobs s' = sy_jobs s \<and> sy_workers s' = sy_workers s \<and>
    ((\<exists>e. x = Inl e) \<and> sys_db s' = sys_db s \<or>
     (\<exists>v'. x = Inr v' \<and> moved i st (fst v) (sys_db s) v' (sys_db s')))"
proof -
  let ?w = "sy_world s"
  obtain y w' where y: "step_update env c (Some i) st details ?w = (y, w')" by fastforce
  then have s': "x = y" "s' = s\<lparr>sy_world := w'\<rparr>" using run by (simp_all add: world_io_def zoom_apply)
  have r: "fst v \<in> set (step_rows (sys_db s))" using v by (simp add: view_ok_def)
  have upd: "(\<exists>e. y = Inl e) \<and> w_db w' = w_db ?w \<or> (\<exists>v'. y = Inr v' \<and> moved i st (fst v) (w_db ?w) v' (w_db w'))"
  proof -
    obtain t w1 where t: "ask (oe_now env) ?w = (t, w1)" by fastforce
    have db: "w_db w1 = w_db ?w" using outside_apply [OF outside_ask t] by simp
    have fin: "(\<exists>v'. y = Inr v' \<and> moved i st (fst v) (w_db ?w) v' (w_db w'))"
      if io: "db_io (strategy_step_update admin_context (Some i)
            (no_step_values\<lparr>pv_state := Some st, pv_details := details,
               pv_started_at := a, pv_finished_at := b\<rparr>)) w2 = (y, w')" and w2: "w_db w2 = w_db ?w" for a b w2
    proof -
      obtain d' where u: "strategy_step_update admin_context (Some i)
            (no_step_values\<lparr>pv_state := Some st, pv_details := details,
               pv_started_at := a, pv_finished_at := b\<rparr>) (w_db ?w) = (y, d')" and d': "w_db w' = d'"
        using io w2 by (auto simp: db_io_apply split: prod.splits)
      show ?thesis
        using strategy_step_update_moved [OF wf r i _ _ u] d' by (simp add: no_step_values_def)
    qed
    show ?thesis
      using y t db fin
      by (auto simp: step_update_def bnd_apply split: if_splits prod.splits sum.splits)
  qed
  then show ?thesis by (simp add: s')
qed

section \<open>What keeps the coupling\<close>

definition sim ::
  "step_state \<Rightarrow> (step_state \<Rightarrow> step_state set) \<Rightarrow> progress \<Rightarrow> ('x, 'd) sys \<Rightarrow> bool" where
  "sim start nexts p s \<longleftrightarrow> coupled s \<and> (progress_move start nexts)\<^sup>*\<^sup>* p (progress_of s)"

definition same_plan :: "db \<Rightarrow> db \<Rightarrow> bool" where
  "same_plan d d' \<longleftrightarrow>
     map brief_of (step_rows d') = map brief_of (step_rows d) \<and> names d' = names d \<and> steps_wf d'"

text \<open>What else may happen to the steps and the names while a strategy is executed: subclouds are
  added, and deleted with their steps; those that keep their step keep their name.\<close>

definition within_plan :: "db \<Rightarrow> db \<Rightarrow> bool" where
  "within_plan d d' \<longleftrightarrow> steps_wf d' \<and>
     (\<exists>K. map brief_of (step_rows d') = filter (\<lambda>b. fst b \<in> K) (map brief_of (step_rows d))) \<and>
     (\<forall>i \<in> fst ` set (map brief_of (step_rows d')). \<forall>n. (i, n) \<in> set (names d') \<longleftrightarrow> (i, n) \<in> set (names d)) \<and>
     (\<forall>i \<in> fst ` set (map brief_of (step_rows d)). i \<notin> fst ` set (map brief_of (step_rows d')) \<longrightarrow>
        i \<notin> fst ` set (names d'))"

lemma same_within_plan: "same_plan d d' \<Longrightarrow> within_plan d d'"
  unfolding within_plan_def same_plan_def by (auto intro: exI [of _ UNIV])

lemma progress_fields [simp]:
  "pg_steps (progress_of s) = map brief_of (step_rows (sys_db s))"
  "pg_running (progress_of s) = concat (map running_job (sy_jobs s))"
  by (simp_all add: progress_of_def)

lemma progress_ofI:
  "pg_steps p = map brief_of (step_rows (sys_db s)) \<Longrightarrow>
   pg_running p = concat (map running_job (sy_jobs s)) \<Longrightarrow> progress_of s = p"
  by (simp add: progress_of_def)

lemma sim_same_plan:
  assumes "sim start nexts p s" and "same_plan (sys_db s) (sys_db s')"
    and "sy_jobs s' = sy_jobs s" and "sy_workers s' = sy_workers s"
  shows "sim start nexts p s'"
proof -
  have "progress_of s' = progress_of s"
    using assms by (intro progress_ofI) (simp_all add: same_plan_def)
  moreover have "known_job s' v = known_job s v" for v
    using assms by (simp add: known_job_def same_plan_def get_worker_def)
  ultimately show ?thesis using assms unfolding sim_def coupled_def same_plan_def by metis
qed

lemma coupled_within_plan:
  assumes c: "coupled s" and plan: "within_plan (sys_db s) (sys_db s')"
    and j: "sy_jobs s' = sy_jobs s" "sy_workers s' = sy_workers s"
  shows "coupled s' \<and> progress_step start nexts (progress_of s) (progress_of s')"
proof -
  obtain K where K: "map brief_of (step_rows (sys_db s')) =
      filter (\<lambda>b. fst b \<in> K) (map brief_of (step_rows (sys_db s)))"
    using plan unfolding within_plan_def by blast
  have p': "progress_of s' = (progress_of s)\<lparr>pg_steps := filter (\<lambda>b. fst b \<in> K) (pg_steps (progress_of s))\<rparr>"
    using K j(1) by (intro progress_ofI) simp_all
  have ids: "fst ` set (pg_steps (progress_of s')) \<subseteq> fst ` set (pg_steps (progress_of s))"
    unfolding p' by auto
  have "known_job s' v" if v: "PerformAction v \<in> set (sy_jobs s)" for v
  proof -
    have "known_job s v" using c v unfolding coupled_def by blast
    then obtain i where i: "sp_subcloud_id (fst v) = Some i"
      "active (sp_state (fst v)) \<Longrightarrow> i \<in> fst ` set (pg_steps (progress_of s)) \<Longrightarrow>
        \<exists>n. (i, n) \<in> set (names (sys_db s)) \<and> get_worker n s = Some (UpdateWorker (sp_state (fst v)))"
      unfolding known_job_def by blast
    have "(i, n) \<in> set (names (sys_db s')) \<longleftrightarrow> (i, n) \<in> set (names (sys_db s))"
      if "i \<in> fst ` set (pg_steps (progress_of s'))" for n
      using plan that unfolding within_plan_def progress_fields by blast
    moreover have "get_worker n s' = get_worker n s" for n using j(2) by (simp add: get_worker_def)
    ultimately show ?thesis
      unfolding known_job_def using i(2) subsetD [OF ids] by (intro exI [of _ i] conjI impI i(1)) simp
  qed
  moreover have "steps_wf (sys_db s')" using plan by (simp add: within_plan_def)
  moreover have "pg_ok (progress_of s')" using drop_ok c unfolding p' coupled_def by blast
  ultimately show ?thesis
    using progress_step.drop_steps [of start nexts "progress_of s" K] j(1) unfolding coupled_def p' by simp
qed

text \<open>A view of the database is one of the steps of the machine.\<close>

lemma view_brief:
  assumes "view_ok d v"
  obtains i n where "sp_subcloud_id (fst v) = Some i" and "(i, n) \<in> set (names d)"
    and "\<And>s :: ('x, 'd) sys. get_region_name v s = (Inr n, s)" and "step_subcloud_name v = ret n"
    and "(i, sp_stage (fst v), sp_state (fst v)) \<in> brief_of ` set (step_rows d)"
proof -
  obtain sc where sc: "snd v = Some sc" "sp_subcloud_id (fst v) = Some (sc_id sc)"
    "(sc_id sc, sc_name sc) \<in> set (names d)" and r: "fst v \<in> set (step_rows d)"
    using assms by (auto simp: view_ok_def)
  have "(sc_id sc, sp_stage (fst v), sp_state (fst v)) \<in> brief_of ` set (step_rows d)"
    using r sc(2) by (force simp: brief_of_def image_iff)
  then show thesis
    using that [OF sc(2,3)] sc by (simp add: get_region_name_def step_subcloud_name_def)
qed

lemma running_jobs:
  "PerformAction v \<in> set (sy_jobs s) \<Longrightarrow>
   (the (sp_subcloud_id (fst v)), sp_state (fst v)) \<in> set (pg_running (progress_of s))"
  by (cases v) (force simp: running_job_def)

text \<open>No greenthread drives a step that is not active.\<close>

lemma idle_step:
  assumes c: "coupled s" and n: "(i, n) \<in> set (names (sys_db s))"
    and r: "(i, k, st) \<in> set (pg_steps (progress_of s))" "\<not> active st"
    and v: "PerformAction v \<in> set (sy_jobs s)" "active (sp_state (fst v))"
    and m: "sp_subcloud_id (fst v) = Some j" "(j, n) \<in> set (names (sys_db s))"
  shows False
proof -
  have wf: "db_wf (sys_db s)" using c by (simp add: coupled_def steps_wf_def)
  then have "j = i" using n m(2) names_name by blast
  moreover have "attended (pg_steps (progress_of s)) (j, sp_state (fst v))"
    using c running_jobs [OF v(1)] m(1) unfolding coupled_def pg_ok_def by force
  moreover have "distinct (map fst (pg_steps (progress_of s)))"
    using c unfolding coupled_def pg_ok_def by blast
  ultimately show False
    using attended_row [OF _ _ r(1)] r(2) v(2) active_not_terminal by blast
qed

lemma get_worker_delete:
  "get_worker n (s\<lparr>sy_workers := filter (\<lambda>(r, _). r \<noteq> m) (sy_workers s)\<rparr>) =
     (if n = m then None else get_worker n s)"
proof -
  have "map_of (filter (\<lambda>(r, _). r \<noteq> m) ks) n = (if n = m then None else map_of ks n)"
    for ks :: "(string \<times> worker) list"
    by (induction ks) auto
  then show ?thesis by (simp add: get_worker_def)
qed

lemma get_worker_set:
  "get_worker n (set_worker m k s) = (if n = m then Some k else get_worker n s)"
  using get_worker_delete [of n m s] by (auto simp: get_worker_def set_worker_def)

lemma sim_delete_worker:
  assumes "sim start nexts p s" and n: "(i, n) \<in> set (names (sys_db s))"
    and r: "(i, k, st) \<in> set (pg_steps (progress_of s))" "\<not> active st"
    and run: "delete_subcloud_worker n s = (x, s')"
  shows "x = Inr () \<and> sim start nexts p s' \<and> sy_world s' = sy_world s \<and> sy_jobs s' = sy_jobs s"
proof -
  have c: "coupled s" using assms(1) by (simp add: sim_def)
  have s': "x = Inr ()" "s' = s\<lparr>sy_workers := filter (\<lambda>(r, _). r \<noteq> n) (sy_workers s)\<rparr>"
    using run by (simp_all add: delete_subcloud_worker_def)
  have "known_job s' v" if v: "PerformAction v \<in> set (sy_jobs s)" for v
  proof -
    have "known_job s v" using c v unfolding coupled_def by blast
    then obtain j where j: "sp_subcloud_id (fst v) = Some j"
      "active (sp_state (fst v)) \<Longrightarrow> j \<in> fst ` set (pg_steps (progress_of s)) \<Longrightarrow>
        \<exists>m. (j, m) \<in> set (names (sys_db s)) \<and> get_worker m s = Some (UpdateWorker (sp_state (fst v)))"
      unfolding known_job_def by blast
    have "\<exists>m. (j, m) \<in> set (names (sys_db s)) \<and> get_worker m s' = Some (UpdateWorker (sp_state (fst v)))"
      if a: "active (sp_state (fst v))" and there: "j \<in> fst ` set (pg_steps (progress_of s))"
    proof -
      obtain m where m: "(j, m) \<in> set (names (sys_db s))"
        "get_worker m s = Some (UpdateWorker (sp_state (fst v)))" using j(2) [OF a there] by blast
      have "m \<noteq> n" using idle_step [OF c n r v a j(1)] m(1) by blast
      then show ?thesis using m by (auto simp: s' get_worker_delete)
    qed
    then show ?thesis unfolding known_job_def using j(1) s'(2) by auto
  qed
  moreover have p: "progress_of s' = progress_of s" by (simp add: s' progress_of_def)
  moreover have "sy_world s' = sy_world s" "sy_jobs s' = sy_jobs s" by (simp_all add: s')
  ultimately show ?thesis using assms(1) s'(1) unfolding sim_def coupled_def p by simp
qed

lemma sim_clear_workers:
  assumes "sim start nexts p s" and "\<forall>(i, k, t) \<in> set (pg_steps (progress_of s)). terminal_step t"
  shows "sim start nexts p (s\<lparr>sy_workers := []\<rparr>)"
proof -
  have c: "coupled s" using assms(1) by (simp add: sim_def)
  have "known_job (s\<lparr>sy_workers := []\<rparr>) v" if v: "PerformAction v \<in> set (sy_jobs s)" for v
  proof -
    have "known_job s v" using c v unfolding coupled_def by blast
    then obtain i where i: "sp_subcloud_id (fst v) = Some i" unfolding known_job_def by blast
    have att: "attended (pg_steps (progress_of s)) (i, sp_state (fst v))"
      using c running_jobs [OF v] i unfolding coupled_def pg_ok_def by force
    have "i \<notin> fst ` set (pg_steps (progress_of s))" if "active (sp_state (fst v))"
      using att that assms(2) active_not_terminal [OF that] active_not_terminal unfolding attended_iff by blast
    then show ?thesis unfolding known_job_def using i by (auto simp: progress_of_def)
  qed
  moreover have p: "progress_of (s\<lparr>sy_workers := []\<rparr>) = progress_of s" by (simp add: progress_of_def)
  ultimately show ?thesis using assms(1) unfolding sim_def coupled_def p by simp
qed

section \<open>One step of a stage\<close>

locale orchestration = step_table start nexts rank
  for start :: step_state and nexts :: "step_state \<Rightarrow> step_state set" and rank :: "step_state \<Rightarrow> nat" +
  fixes c :: "('x, 'd) orch_class"
  assumes starts: "oc_starting_state c = start"
    and setup_db: "keeps (\<lambda>w. w_db w = d) (oc_pre_apply_setup c)"
    and results: "oc_state_operators c st = Some operator \<Longrightarrow>
      operator data region v w = Some (Inr st', w') \<Longrightarrow> st' \<in> nexts st"
    and ends: "STRATEGY_STATE_FAILED \<in> nexts st" "STRATEGY_STATE_COMPLETE \<in> nexts st"
begin

lemma sim_move:
  assumes "sim start nexts p s" and m: "moved i st r (sys_db s) v' (sys_db s')"
    and j: "sy_jobs s' = sy_jobs s" "sy_workers s' = sy_workers s"
    and st: "progress_move start nexts (progress_of s)
      ((progress_of s)\<lparr>pg_steps := move i st (pg_steps (progress_of s))\<rparr>)"
  shows "sim start nexts p s'"
proof -
  have p': "(progress_of s)\<lparr>pg_steps := move i st (pg_steps (progress_of s))\<rparr> = progress_of s'"
    using m j by (intro progress_ofI [symmetric]) (simp_all add: moved_def)
  have "known_job s' v = known_job s v" for v
    using m j by (simp add: known_job_def moved_def get_worker_def del: set_map)
  moreover have "pg_ok (progress_of s')"
    using progress_move_ok [OF st] assms(1) unfolding p' sim_def coupled_def by blast
  ultimately show ?thesis
    using assms(1) m j st unfolding sim_def coupled_def p' moved_def by (auto simp del: split_paired_All)
qed

lemma worker_of_running:
  assumes c: "coupled s" and n: "(i, n) \<in> set (names (sys_db s))"
    and r: "(i, t) \<in> set (pg_running (progress_of s))"
    and k: "(i, k, st) \<in> set (pg_steps (progress_of s))" "active st"
  shows "get_worker n s = Some (UpdateWorker st)"
proof -
  obtain j where j: "j \<in> set (sy_jobs s)" "(i, t) \<in> set (running_job j)" using r by auto
  have "\<exists>v. j = PerformAction v \<and> t = sp_state (fst v) \<and> i = the (sp_subcloud_id (fst v))"
    using j(2) by (cases j) (auto simp: running_job_def)
  then obtain v where v: "PerformAction v \<in> set (sy_jobs s)" "t = sp_state (fst v)"
    "i = the (sp_subcloud_id (fst v))" using j(1) by blast
  have "attended (pg_steps (progress_of s)) (i, t)" "distinct (map fst (pg_steps (progress_of s)))"
    using c r unfolding coupled_def pg_ok_def by blast+
  then have t: "t = st" using attended_row [OF _ _ k(1)] k(2) active_not_terminal by blast
  have "known_job s v" using c v(1) unfolding coupled_def by blast
  then obtain m where m: "(i, m) \<in> set (names (sys_db s))" "get_worker m s = Some (UpdateWorker st)"
    using k(2) brief_id [OF k(1)] t unfolding known_job_def v(2,3) by auto
  moreover have "db_wf (sys_db s)" using c by (simp add: coupled_def steps_wf_def)
  ultimately show ?thesis using names_id [OF _ n m(1)] by blast
qed

lemma sim_process:
  assumes sim: "sim start nexts p s" and v: "view_ok (sys_db s) v"
    and st: "sp_state (fst v) \<noteq> STRATEGY_STATE_INITIAL"
    and n: "sp_subcloud_id (fst v) = Some i" "(i, n) \<in> set (names (sys_db s))"
    and run: "process_update_step n v s = (x, s')"
  shows "sim start nexts p s' \<and> sy_world s' = sy_world s"
proof (cases "s' = s")
  case True
  then show ?thesis using sim by simp
next
  case False
  let ?st = "sp_state (fst v)" and ?k = "UpdateWorker (sp_state (fst v))"
  let ?q = "(progress_of s)\<lparr>pg_running := pg_running (progress_of s) @ [(i, ?st)]\<rparr>"
  have c: "coupled s" using sim by (simp add: sim_def)
  have s': "s' = set_worker n ?k (s\<lparr>sy_jobs := sy_jobs s @ [PerformAction v]\<rparr>)"
    and no: "get_worker n s \<noteq> Some ?k"
    using run False by (auto simp: process_update_step_def bnd_apply seq_apply start_thread_def
        Let_def split: option.splits worker.splits if_splits)
  have "get_worker m s' = (if m = n then Some ?k else get_worker m s)" for m
    unfolding s' get_worker_set by (simp add: get_worker_def)
  then have same: "sy_world s' = sy_world s" "sy_jobs s' = sy_jobs s @ [PerformAction v]"
    "get_worker m s' = (if m = n then Some ?k else get_worker m s)" for m
    by (simp_all add: s' set_worker_def)
  have row: "(i, sp_stage (fst v), ?st) \<in> set (pg_steps (progress_of s))"
    using view_brief [OF v] n(1) by auto
  have q: "progress_of s' = ?q"
    using n(1) same by (intro progress_ofI) (simp_all add: running_job_def)
  have free: "i \<notin> fst ` set (pg_running (progress_of s))" if "active ?st"
    using worker_of_running [OF c n(2) _ row that] no by fastforce
  have step: "progress_move start nexts (progress_of s) ?q"
    by (rule progress_move.start_job [OF row st free])
  have "pg_ok (progress_of s')"
    using progress_move_ok [OF step] c unfolding q coupled_def by blast
  moreover have "known_job s' u" if u: "PerformAction u \<in> set (sy_jobs s')" for u
  proof (cases "PerformAction u \<in> set (sy_jobs s)")
    case True
    then obtain j where j: "sp_subcloud_id (fst u) = Some j"
      "active (sp_state (fst u)) \<Longrightarrow> j \<in> fst ` set (pg_steps (progress_of s)) \<Longrightarrow>
        \<exists>m. (j, m) \<in> set (names (sys_db s)) \<and> get_worker m s = Some (UpdateWorker (sp_state (fst u)))"
      using c unfolding coupled_def known_job_def by blast
    have "\<exists>m. (j, m) \<in> set (names (sys_db s)) \<and> get_worker m s' = Some (UpdateWorker (sp_state (fst u)))"
      if a: "active (sp_state (fst u))" and there: "j \<in> fst ` set (pg_steps (progress_of s))"
    proof -
      obtain m where m: "(j, m) \<in> set (names (sys_db s))"
        "get_worker m s = Some (UpdateWorker (sp_state (fst u)))" using j(2) [OF a there] by blast
      have "m \<noteq> n"
      proof
        assume "m = n"
        then have ji: "j = i" using m(1) n(2) c names_name unfolding coupled_def steps_wf_def by blast
        then have "(i, sp_state (fst u)) \<in> set (pg_running (progress_of s))"
          using running_jobs [OF True] j(1) by simp
        then have "active ?st"
          using idle_step [OF c n(2) row _ True a j(1)] m(1) ji \<open>m = n\<close> by blast
        then show False using free \<open>(i, sp_state (fst u)) \<in> _\<close> by force
      qed
      then show ?thesis using m same(3) [of m] by auto
    qed
    moreover have "pg_steps (progress_of s') = pg_steps (progress_of s)" by (simp add: q)
    ultimately show ?thesis unfolding known_job_def same(1) using j(1) by auto
  next
    case False
    then have "u = v" using u same(2) by simp
    then show ?thesis unfolding known_job_def using n same(1) same(3) [of n] by auto
  qed
  moreover have "(progress_move start nexts)\<^sup>*\<^sup>* p (progress_of s')"
    using sim step unfolding q sim_def by (meson rtranclp.rtrancl_into_rtrancl)
  ultimately show ?thesis using c same(1) unfolding sim_def coupled_def by simp
qed

end

text \<open>What the work on one step of a stage leaves to the work on the others.\<close>

definition left :: "nat \<Rightarrow> step_view \<Rightarrow> db \<Rightarrow> db \<Rightarrow> bool" where
  "left k v d d' \<longleftrightarrow>
     names d' = names d \<and> lower_done k (map brief_of (step_rows d')) \<and>
     (\<forall>u. view_ok d u \<longrightarrow> sp_id (fst u) \<noteq> sp_id (fst v) \<longrightarrow> view_ok d' u)"

definition never_stopped :: "'x orch_env \<Rightarrow> bool" where
  "never_stopped env \<longleftrightarrow> (\<forall>x. \<exists>y. oe_stopped env x = (Inr False, y))"

context orchestration begin

text \<open>An initial step is given up or begun; it is the only step that changes.\<close>

lemma sim_update_initial:
  assumes sim: "sim start nexts p s" and v: "view_ok (sys_db s) v"
    and ini: "sp_state (fst v) = STRATEGY_STATE_INITIAL" and i: "sp_subcloud_id (fst v) = Some i"
    and k: "lower_done k (pg_steps (progress_of s))"
    and st: "st \<in> {STRATEGY_STATE_FAILED, STRATEGY_STATE_ABORTED} \<or> st = start \<and> k = sp_stage (fst v)"
    and run: "world_io (step_update env c (Some i) st details) s = (x, s')"
  shows "sim start nexts p s' \<and> left k v (sys_db s) (sys_db s') \<and>
    (\<forall>v'. x = Inr v' \<longrightarrow> view_ok (sys_db s') v' \<and> sp_state (fst v') = st \<and>
       sp_subcloud_id (fst v') = Some i)"
proof -
  have wf: "steps_wf (sys_db s)" using sim by (simp add: sim_def coupled_def)
  have row: "(i, sp_stage (fst v), STRATEGY_STATE_INITIAL) \<in> set (pg_steps (progress_of s))"
    using view_brief [OF v] i ini by auto
  from step_update_moved [OF wf v i run] show ?thesis
  proof (elim conjE disjE exE)
    fix e assume e: "sy_jobs s' = sy_jobs s" "sy_workers s' = sy_workers s" "x = Inl e" "sys_db s' = sys_db s"
    then have "same_plan (sys_db s) (sys_db s')" using wf by (simp add: same_plan_def)
    then have "sim start nexts p s'" using sim_same_plan [OF sim] e(1,2) by blast
    then show ?thesis using e k by (simp add: left_def)
  next
    fix v' assume m: "sy_jobs s' = sy_jobs s" "sy_workers s' = sy_workers s" "x = Inr v'"
      "moved i st (fst v) (sys_db s) v' (sys_db s')"
    have "progress_move start nexts (progress_of s)
        ((progress_of s)\<lparr>pg_steps := move i st (pg_steps (progress_of s))\<rparr>)"
      using st progress_move.give_up [OF row] progress_move.begin_step [OF row] k by blast
    then have sim': "sim start nexts p s'" using sim_move [OF sim m(4,1,2)] by blast
    have "distinct (map fst (pg_steps (progress_of s)))"
      using sim unfolding sim_def coupled_def pg_ok_def by blast
    then have "safe_move i st (pg_steps (progress_of s))"
      using distinct_briefs [OF _ row] unfolding safe_move_def by fastforce
    then have "lower_done k (move i st (pg_steps (progress_of s)))" using k by (rule lower_done_move [rotated])
    then show ?thesis using sim' m by (simp add: left_def moved_def)
  qed
qed

lemma sim_run_step:
  assumes sim: "sim start nexts p s" and v: "view_ok (sys_db s) v"
    and k: "lower_done (sp_stage (fst v)) (pg_steps (progress_of s))"
    and n: "sp_subcloud_id (fst v) = Some i" "(i, n) \<in> set (names (sys_db s))"
    and run: "run_step env c n v s = (x, s')"
  shows "sim start nexts p s' \<and> left (sp_stage (fst v)) v (sys_db s) (sys_db s')"
proof -
  let ?st = "sp_state (fst v)"
  have row: "(i, sp_stage (fst v), ?st) \<in> set (pg_steps (progress_of s))"
    using view_brief [OF v] n(1) by auto
  have stay: "left (sp_stage (fst v)) v (sys_db s) (sys_db s')" if "sy_world s' = sy_world s"
    using that k by (simp add: left_def)
  obtain sc where sc: "snd v = Some sc" using v by (auto simp: view_ok_def)
  consider (ended) "?st \<in> {STRATEGY_STATE_FAILED, STRATEGY_STATE_COMPLETE}"
    | (initial) "?st = STRATEGY_STATE_INITIAL"
    | (other) "?st \<notin> {STRATEGY_STATE_FAILED, STRATEGY_STATE_COMPLETE, STRATEGY_STATE_INITIAL}"
    by blast
  then show ?thesis
  proof cases
    case ended
    then have "delete_subcloud_worker n s = (x, s')" using run by (auto simp: run_step_def Let_def)
    moreover have "\<not> active ?st" using ended by (auto simp: active_def)
    ultimately show ?thesis using sim_delete_worker [OF sim n(2) row] stay by blast
  next
    case other
    then have "process_update_step n v s = (x, s')" using run by (auto simp: run_step_def Let_def)
    then show ?thesis using sim_process [OF sim v _ n] other stay by blast
  next
    case initial
    show ?thesis
    proof (cases "sc_management_state sc = MANAGEMENT_UNMANAGED")
      case True
      let ?m = "world_io (step_update env c (Some i) STRATEGY_STATE_FAILED
          (Some (''Subcloud '' @ sc_name sc @ '' is unmanaged.'')))"
      obtain y where "?m s = (y, s')"
        using run initial True sc n(1)
        by (auto simp: run_step_def Let_def seq_apply split: prod.splits sum.splits)
      then show ?thesis using sim_update_initial [OF sim v initial n(1) k] by blast
    next
      case False
      let ?m = "world_io (step_update env c (Some i) start None)"
      obtain y t where y: "?m s = (y, t)" by fastforce
      note upd = sim_update_initial [OF sim v initial n(1) k _ y]
      have cont: "y = Inl e \<Longrightarrow> s' = t" "y = Inr v' \<Longrightarrow> process_update_step n v' t = (x, s')" for e v'
        using run initial False sc n(1) y starts
        by (auto simp: run_step_def Let_def bnd_apply split: prod.splits sum.splits)
      show ?thesis
      proof (cases y)
        case (Inl e)
        then show ?thesis using upd cont by blast
      next
        case (Inr v')
        then have v': "sim start nexts p t" "view_ok (sys_db t) v'" "sp_state (fst v') = start"
          "sp_subcloud_id (fst v') = Some i" "left (sp_stage (fst v)) v (sys_db s) (sys_db t)"
          using upd by auto
        then have "(i, n) \<in> set (names (sys_db t))" using n(2) by (simp add: left_def)
        moreover have "sp_state (fst v') \<noteq> STRATEGY_STATE_INITIAL"
          using v'(3) start_active by (auto simp: active_def)
        ultimately have "sim start nexts p s' \<and> sy_world s' = sy_world t"
          using sim_process [OF v'(1,2) _ v'(4)] cont(2) [OF Inr] by blast
        then show ?thesis using v'(5) by simp
      qed
    qed
  qed
qed

end

end
