(* ===== verification/DC_OrchTurn.thy ===== *)
theory DC_OrchTurn
  imports DC_OrchRefine
begin

text \<open>
  Every turn of the orchestration thread is a sequence of steps of the machine of \<open>DC_Progress\<close>:
  the work on a stage, the search for the stage, the abortion of a strategy and the main loop.
\<close>

section \<open>The stage that is worked on\<close>

context orchestration begin

definition stage_work :: "progress \<Rightarrow> nat \<Rightarrow> step_view list \<Rightarrow> ('x, 'd) sys \<Rightarrow> bool" where
  "stage_work p k vs s \<longleftrightarrow>
     sim start nexts p s \<and> lower_done k (pg_steps (progress_of s)) \<and>
     (\<forall>v \<in> set vs. view_ok (sys_db s) v) \<and> distinct (map (\<lambda>v. sp_id (fst v)) vs)"

lemma stage_work_left:
  assumes "stage_work p k (v # vs) s" and "sim start nexts p s'" and "left k v (sys_db s) (sys_db s')"
  shows "stage_work p k vs s'"
proof -
  have "sp_id (fst u) \<noteq> sp_id (fst v)" if "u \<in> set vs" for u
    using assms(1) that unfolding stage_work_def by (auto simp: image_iff)
  then show ?thesis using assms unfolding stage_work_def left_def by auto
qed

lemma sim_run_stage:
  assumes "never_stopped env" and "stage_work p k vs s" and "run_stage env c k vs s = (x, s')"
  shows "sim start nexts p s'"
  using assms(2,3)
proof (induction vs arbitrary: s)
  case Nil
  then show ?case by (simp add: stage_work_def)
next
  case (Cons v vs)
  show ?case
  proof (cases "sp_stage (fst v) = k")
    case False
    then show ?thesis using Cons by (auto simp: stage_work_def)
  next
    case True
    have sim: "sim start nexts p s" and v: "view_ok (sys_db s) v"
      and k: "lower_done k (pg_steps (progress_of s))"
      using Cons.prems(1) by (auto simp: stage_work_def)
    obtain i n where i: "sp_subcloud_id (fst v) = Some i" "(i, n) \<in> set (names (sys_db s))"
      and region: "\<And>s :: ('x, 'd) sys. get_region_name v s = (Inr n, s)"
      using view_brief [OF v] by metis
    obtain t where stop: "world_io (stopped env) s = (Inr False, t)"
      and t: "sys_db t = sys_db s" "sy_jobs t = sy_jobs s" "sy_workers t = sy_workers s"
    proof -
      obtain y where "oe_stopped env (w_ext (sy_world s)) = (Inr False, y)"
        using assms(1) unfolding never_stopped_def by blast
      then show thesis
        using that [of "s\<lparr>sy_world := (sy_world s)\<lparr>w_ext := y\<rparr>\<rparr>"]
        by (simp add: world_io_def zoom_apply stopped_def ask_apply)
    qed
    have same: "same_plan (sys_db s) (sys_db t)"
      using sim t(1) by (simp add: same_plan_def sim_def coupled_def)
    have sim_t: "sim start nexts p t" by (rule sim_same_plan [OF sim same t(2,3)])
    have work_t: "stage_work p k (v # vs) t"
      using Cons.prems(1) sim_t t(1) by (simp add: stage_work_def)
    obtain y u where u: "run_step env c n v t = (y, u)" by fastforce
    have step: "sim start nexts p u" "left k v (sys_db t) (sys_db u)"
      using sim_run_step [OF sim_t _ _ i(1) _ u] v k i(2) t(1) True by simp_all
    show ?thesis
    proof (cases y)
      case (Inl e)
      then show ?thesis
        using Cons.prems(2) True region stop u step(1) by (simp add: bnd_apply seq_apply)
    next
      case (Inr z)
      then have "run_stage env c k vs u = (x, s')"
        using Cons.prems(2) True region stop u by (simp add: bnd_apply seq_apply)
      then show ?thesis using Cons.IH stage_work_left [OF work_t step] by blast
    qed
  qed
qed

section \<open>The search for the stage\<close>

text \<open>What the search tells: before the stage it returns every step is at its end.\<close>

definition found :: "step_view list \<Rightarrow> scan \<Rightarrow> bool" where
  "found vs r \<longleftrightarrow>
     (case r of
        ScanReturn \<Rightarrow> False
      | ScanDone f a \<Rightarrow> \<forall>v \<in> set vs. terminal_step (sp_state (fst v))
      | ScanStage k o' \<Rightarrow> sorted (map (\<lambda>v. sp_stage (fst v)) vs) \<longrightarrow>
          (\<forall>v \<in> set vs. sp_stage (fst v) < k \<longrightarrow> terminal_step (sp_state (fst v))))"

lemma sim_find_stage:
  assumes "sim start nexts p s" and "\<forall>v \<in> set vs. view_ok (sys_db s) v"
    and "find_stage env c stop vs f a s = (x, s')"
  shows "sim start nexts p s' \<and> sy_world s' = sy_world s \<and> (\<forall>r. x = Inr r \<longrightarrow> found vs r)"
  using assms
proof (induction vs arbitrary: s f a)
  case Nil
  then show ?case by (auto simp: found_def)
next
  case (Cons v vs)
  have v: "view_ok (sys_db s) v" using Cons.prems(2) by simp
  obtain i n where i: "sp_subcloud_id (fst v) = Some i" "(i, n) \<in> set (names (sys_db s))"
    and name: "step_subcloud_name v = (ret n :: (('x, 'd) sys, string) io)"
    and row: "(i, sp_stage (fst v), sp_state (fst v)) \<in> set (pg_steps (progress_of s))"
    using view_brief [OF v] by (metis (no_types, lifting) list.set_map progress_fields(1))
  show ?case
  proof (cases "terminal_step (sp_state (fst v))")
    case False
    then have "x = Inr (ScanStage (sp_stage (fst v)) None)" "s' = s" using Cons.prems(3) by auto
    then show ?thesis using Cons.prems(1) by (auto simp: found_def)
  next
    case True
    obtain y t where del: "delete_subcloud_worker n s = (y, t)" by fastforce
    have t: "y = Inr ()" "sim start nexts p t" "sy_world t = sy_world s"
      using sim_delete_worker [OF Cons.prems(1) i(2) row _ del] True active_not_terminal by blast+
    show ?thesis
    proof (cases "sp_state (fst v) = STRATEGY_STATE_FAILED \<and> stop")
      case stop: True
      then have "x = Inr (ScanStage (sp_stage (fst v)) (Some (sp_stage (fst v))))" "s' = t"
        using Cons.prems(3) name del t(1) i(1) by (auto simp: seq_apply)
      then show ?thesis using t by (auto simp: found_def)
    next
      case go_on: False
      have "find_stage env c stop (v # vs) f a s =
          find_stage env c stop vs (if sp_state (fst v) = STRATEGY_STATE_FAILED then True else f)
            (if sp_state (fst v) = STRATEGY_STATE_ABORTED then True else a) t"
        using True go_on name del t(1) i(1) by (elim terminal_step_iff [THEN iffD1, elim_format] disjE)
          (simp_all add: seq_apply)
      then have rest: "find_stage env c stop vs (if sp_state (fst v) = STRATEGY_STATE_FAILED then True else f)
            (if sp_state (fst v) = STRATEGY_STATE_ABORTED then True else a) t = (x, s')"
        using Cons.prems(3) by (rule trans [OF sym])
      have "sim start nexts p s' \<and> sy_world s' = sy_world t \<and> (\<forall>r. x = Inr r \<longrightarrow> found vs r)"
        using Cons.IH [OF t(2) _ rest] Cons.prems(2) t(3) by simp
      moreover have "found (v # vs) r" if "found vs r" for r
        using that True by (cases r) (auto simp: found_def simp del: terminal_step_iff)
      ultimately show ?thesis using t(3) by auto
    qed
  qed
qed

end

section \<open>A turn of the main loop\<close>

lemma seqE:
  assumes "seq m n s = (x, s')"
  obtains z u where "m s = (z, u)" and "s' = u \<or> n u = (x, s')"
  using assms by (auto simp: seq_apply split: prod.splits sum.splits)

text \<open>All the steps as the thread loads them.\<close>

lemma load_all:
  assumes "steps_wf d"
  shows "strategy_step_get_all admin_context d = (Inr (map (load_step d) (step_rows d)), d)"
proof -
  have "table_wf sp_id (strategy_steps d)" using assms by (simp add: steps_wf_def db_wf_defs)
  then have "sort_key sp_id (step_rows d) = step_rows d"
    unfolding step_rows_def by (simp add: sort_key_id_if_sorted table_wf_sorted)
  then show ?thesis by (simp add: strategy_step_get_all_def step_rows_def)
qed

lemma loaded_views:
  assumes "steps_wf d"
  shows "\<forall>v \<in> set (map (load_step d) (step_rows d)). view_ok d v"
    and "distinct (map (\<lambda>v. sp_id (fst v)) (map (load_step d) (step_rows d)))"
    and "sorted (map (\<lambda>v. sp_stage (fst v)) (map (load_step d) (step_rows d)))"
proof -
  show "\<forall>v \<in> set (map (load_step d) (step_rows d)). view_ok d v"
    using load_step_view [OF assms] by auto
  have "distinct (map sp_id (step_rows d))" "sorted (map sp_stage (step_rows d))"
    using assms table_wf_distinct [of sp_id "strategy_steps d"]
    by (simp_all add: steps_wf_def db_wf_defs step_rows_def)
  then show "distinct (map (\<lambda>v. sp_id (fst v)) (map (load_step d) (step_rows d)))"
    "sorted (map (\<lambda>v. sp_stage (fst v)) (map (load_step d) (step_rows d)))"
    by (simp_all add: comp_def load_step_def)
qed

lemma same_plan_refl: "steps_wf d \<Longrightarrow> same_plan d d"
  by (simp add: same_plan_def)

lemma sw_update_strategy_update_same:
  "keeps (same_plan d0) (sw_update_strategy_update ctx st ty args)"
proof -
  have "keeps (\<lambda>d. (strategy_steps d, subclouds d) = x) (sw_update_strategy_update ctx st ty args)" for x
    unfolding sw_update_strategy_update_def by (intro keeps_intros keeps_modify) auto
  then have eq: "(strategy_steps (snd (sw_update_strategy_update ctx st ty args d)),
      subclouds (snd (sw_update_strategy_update ctx st ty args d))) = (strategy_steps d, subclouds d)" for d
    unfolding keeps_def by blast
  show ?thesis
  proof (rule keepsI)
    fix d assume d: "same_plan d0 d"
    have "db_wf (snd (sw_update_strategy_update ctx st ty args d))"
      using keepsD [OF sw_update_strategy_update_wf] d by (simp add: same_plan_def steps_wf_def)
    then show "same_plan d0 (snd (sw_update_strategy_update ctx st ty args d))"
      using d eq [of d] by (simp add: same_plan_def steps_wf_def step_rows_def names_def)
  qed
qed

lemma sim_world:
  assumes sim: "sim start nexts p s" and m: "keeps (\<lambda>w. same_plan (sys_db s) (w_db w)) m"
    and run: "world_io m s = (x, s')"
  shows "sim start nexts p s' \<and> pg_steps (progress_of s') = pg_steps (progress_of s)"
proof -
  have "steps_wf (sys_db s)" using sim by (simp add: sim_def coupled_def)
  moreover obtain w' where w': "m (sy_world s) = (x, w')" "s' = s\<lparr>sy_world := w'\<rparr>"
    using run by (auto simp: world_io_def zoom_apply split: prod.splits)
  ultimately have same: "same_plan (sys_db s) (sys_db s')"
    using keepsD [OF m, of "sy_world s"] same_plan_refl by simp
  moreover have "sy_jobs s' = sy_jobs s" "sy_workers s' = sy_workers s" using w'(2) by simp_all
  ultimately have "sim start nexts p s'" by (intro sim_same_plan [OF sim]) simp_all
  then show ?thesis using same by (simp add: same_plan_def)
qed

lemma sim_update_strategy:
  assumes "sim start nexts p s" and "update_strategy_state c st s = (x, s')"
  shows "sim start nexts p s' \<and> pg_steps (progress_of s') = pg_steps (progress_of s)"
proof -
  obtain y where "world_io (db_io (sw_update_strategy_update admin_context (Some st)
      (Some (oc_update_type c)) None)) s = (y, s')"
    using assms(2) by (auto simp: update_strategy_state_def seq_apply split: prod.splits sum.splits)
  then show ?thesis
    using sim_world [OF assms(1)] keeps_db_io [OF sw_update_strategy_update_same] by blast
qed

lemma sim_trigger_audit:
  assumes "sim start nexts p s" and "trigger_audit env c s = (x, s')"
  shows "sim start nexts p s'"
proof (cases "oc_audit c")
  case None
  then show ?thesis using assms by (simp add: trigger_audit_def)
next
  case (Some a)
  then have "world_io (call (AuditRpc a None) (oe_audit_rpc env a)) s = (x, s')"
    using assms(2) by (simp add: trigger_audit_def)
  then show ?thesis using sim_world [OF assms(1)] keeps_db_call by blast
qed

text \<open>A turn, as long as the strategy is not being deleted.\<close>

definition being_deleted :: "sw_type \<Rightarrow> db \<Rightarrow> bool" where
  "being_deleted ty d \<longleftrightarrow>
     (\<exists>st. query_first (strategy_matches (Some ty)) (sw_update_strategies d) = Some st \<and>
        st_state st = SW_UPDATE_STATE_DELETING)"

context orchestration begin

lemma load_steps:
  assumes "sim start nexts p s"
  shows "world_io (db_io (strategy_step_get_all admin_context)) s =
      (Inr (map (load_step (sys_db s)) (step_rows (sys_db s))), s)"
  using assms load_all [of "sys_db s"]
  by (simp add: world_io_def zoom_apply db_io_apply sim_def coupled_def)

lemma sim_orch_apply:
  assumes stop: "never_stopped env" and sim: "sim start nexts p s"
    and run: "orch_apply env c strategy s = (x, s')"
  shows "sim start nexts p s'"
proof -
  let ?d = "sys_db s"
  let ?vs = "map (load_step ?d) (step_rows ?d)"
  have wf: "steps_wf ?d" using sim by (simp add: sim_def coupled_def)
  note views = loaded_views [OF wf]
  obtain y t where t: "find_stage env c (st_stop_on_failure strategy) ?vs False False s = (y, t)"
    by fastforce
  have sim_t: "sim start nexts p t" and w: "sy_world t = sy_world s" and found: "\<And>r. y = Inr r \<Longrightarrow> found ?vs r"
    using sim_find_stage [OF sim views(1) t] by blast+
  have steps_t: "pg_steps (progress_of t) = map brief_of (step_rows ?d)" using w by simp
  have end_strategy: "sim start nexts p s'"
    if "seq (update_strategy_state c st) (trigger_audit env c) t = (x, s')" for st
    using that
  proof (rule seqE)
    fix z u assume "update_strategy_state c st t = (z, u)" "s' = u \<or> trigger_audit env c u = (x, s')"
    then show ?thesis using sim_update_strategy [OF sim_t] sim_trigger_audit by blast
  qed
  show ?thesis
  proof (cases y)
    case (Inl e)
    then show ?thesis using run t sim_t load_steps [OF sim]
      by (simp add: orch_apply_def bnd_apply)
  next
    case (Inr r)
    show ?thesis
    proof (cases r)
      case ScanReturn
      then show ?thesis using found [OF Inr] by (simp add: found_def)
    next
      case (ScanDone f a)
      have all: "\<forall>(i, k, st) \<in> set (pg_steps (progress_of t)). terminal_step st"
        using found [OF Inr] ScanDone unfolding steps_t
        by (auto simp: found_def brief_of_def load_step_def simp del: terminal_step_iff)
      let ?st = "if f then SW_UPDATE_STATE_FAILED
          else if a then SW_UPDATE_STATE_ABORTED else SW_UPDATE_STATE_COMPLETE"
      obtain z u where u: "update_strategy_state c ?st t = (z, u)" by fastforce
      have sim_u: "sim start nexts p u" and "pg_steps (progress_of u) = pg_steps (progress_of t)"
        using sim_update_strategy [OF sim_t u] by blast+
      then have "sim start nexts p (u\<lparr>sy_workers := []\<rparr>)"
        using sim_clear_workers [OF sim_u] all by simp
      moreover have "(case z of Inl e \<Rightarrow> (Inl e, u)
          | Inr _ \<Rightarrow> trigger_audit env c (u\<lparr>sy_workers := []\<rparr>)) = (x, s')"
        using run t u Inr ScanDone load_steps [OF sim]
        by (auto simp: orch_apply_def bnd_apply seq_apply clear_workers_def split: sum.splits)
      ultimately show ?thesis using sim_u sim_trigger_audit by (auto split: sum.splits)
    next
      case (ScanStage k stop_after)
      show ?thesis
      proof (cases "stop_after \<noteq> None \<and> \<not> work_remaining k ?vs")
        case True
        then show ?thesis using run t Inr ScanStage load_steps [OF sim] end_strategy
          by (simp add: orch_apply_def bnd_apply)
      next
        case False
        have "lower_done k (pg_steps (progress_of t))"
          using found [OF Inr] ScanStage views(3) unfolding steps_t
          by (auto simp: found_def lower_done_def brief_of_def load_step_def simp del: terminal_step_iff)
        then have "stage_work p k ?vs t"
          using sim_t views w by (simp add: stage_work_def)
        moreover have "run_stage env c k ?vs t = (x, s')"
          using run t False Inr ScanStage load_steps [OF sim] by (auto simp: orch_apply_def bnd_apply)
        ultimately show ?thesis using sim_run_stage [OF stop] by blast
      qed
    qed
  qed
qed

lemma sim_orch_abort:
  assumes sim: "sim start nexts p s" and run: "orch_abort env c s = (x, s')"
  shows "sim start nexts p s'"
proof -
  let ?d = "sys_db s"
  let ?vs = "map (load_step ?d) (step_rows ?d)"
  let ?f = "\<lambda>v. when_io (sp_state (fst v) = STRATEGY_STATE_INITIAL)
      (seq (get_region_name v)
        (seq (world_io (step_update env c (sp_subcloud_id (fst v)) STRATEGY_STATE_ABORTED (Some [])))
          (ret ()))) :: (('x, 'd) sys, unit) io"
  have wf: "steps_wf ?d" using sim by (simp add: sim_def coupled_def)
  have loop: "sim start nexts p u" if "stage_work p 0 vs t" "for_each ?f vs t = (y, u)" for vs t y u
    using that
  proof (induction vs arbitrary: t)
    case Nil
    then show ?case by (simp add: stage_work_def)
  next
    case (Cons v vs)
    have sim_t: "sim start nexts p t" and v: "view_ok (sys_db t) v"
      and low: "lower_done 0 (pg_steps (progress_of t))"
      using Cons.prems(1) by (auto simp: stage_work_def)
    obtain i n where i: "sp_subcloud_id (fst v) = Some i"
      and region: "\<And>s :: ('x, 'd) sys. get_region_name v s = (Inr n, s)"
      using view_brief [OF v] by metis
    obtain z t1 where z: "?f v t = (z, t1)" by fastforce
    have step: "sim start nexts p t1 \<and> left 0 v (sys_db t) (sys_db t1)"
    proof (cases "sp_state (fst v) = STRATEGY_STATE_INITIAL")
      case False
      then show ?thesis using z sim_t low by (simp add: when_io_def left_def)
    next
      case True
      obtain q where "world_io (step_update env c (Some i) STRATEGY_STATE_ABORTED (Some [])) t = (q, t1)"
        using z True i region by (auto simp: when_io_def seq_apply split: prod.splits sum.splits)
      then show ?thesis using sim_update_initial [OF sim_t v True i low] by blast
    qed
    then have work: "stage_work p 0 vs t1" using stage_work_left [OF Cons.prems(1)] by blast
    have "seq (?f v) (for_each ?f vs) t = (y, u)" using Cons.prems(2) by (simp only: for_each.simps)
    then show ?case
    proof (rule seqE)
      fix z' t2 assume t2: "?f v t = (z', t2)" "u = t2 \<or> for_each ?f vs t2 = (y, u)"
      then have "t2 = t1" using z by simp
      then show ?thesis using t2(2) step Cons.IH [OF work] by blast
    qed
  qed
  obtain y t where t: "for_each ?f ?vs s = (y, t)" by fastforce
  have "stage_work p 0 ?vs s"
    using sim loaded_views [OF wf] by (simp add: stage_work_def lower_done_def)
  then have sim_t: "sim start nexts p t" using loop t by blast
  have "s' = t \<or> (\<exists>z. update_strategy_state c SW_UPDATE_STATE_ABORTING t = (z, s'))"
    using run t load_steps [OF sim]
    by (auto simp: orch_abort_def bnd_apply seq_apply split: sum.splits)
  then show ?thesis using sim_t sim_update_strategy by blast
qed

lemma sim_pre_apply_setup:
  assumes "sim start nexts p s" and "pre_apply_setup c s = (x, s')"
  shows "sim start nexts p s'"
proof (cases "sy_setup s")
  case True
  then show ?thesis using assms by (simp add: pre_apply_setup_def bnd_apply unless_io_def)
next
  case False
  obtain y w where w: "oc_pre_apply_setup c (sy_world s) = (y, w)" by fastforce
  then have db: "w_db w = sys_db s"
    using keepsD [OF setup_db [of "sys_db s"], of "sy_world s"] by simp
  have "sy_jobs s' = sy_jobs s" "sy_workers s' = sy_workers s" "sys_db s' = sys_db s"
    using assms(2) False w db
    by (auto simp: pre_apply_setup_def bnd_apply seq_apply unless_io_def world_io_def zoom_apply
        split: sum.splits)
  moreover have "steps_wf (sys_db s)" using assms(1) by (simp add: sim_def coupled_def)
  ultimately show ?thesis by (intro sim_same_plan [OF assms(1)]) (simp_all add: same_plan_refl)
qed

theorem sim_turn:
  assumes stop: "never_stopped env" and sim: "sim start nexts p s"
    and del: "\<not> being_deleted (oc_update_type c) (sys_db s)"
    and run: "run_orch_turn env c pause s = (x, s')"
  shows "sim start nexts p s'"
proof -
  let ?get = "query_first (strategy_matches (Some (oc_update_type c))) (sw_update_strategies (sys_db s))"
  have get: "world_io (db_io (sw_update_strategy_get admin_context (Some (oc_update_type c)))) s =
      ((case ?get of None \<Rightarrow> Inl NotFound | Some st \<Rightarrow> Inr st), s)"
    by (simp add: world_io_def zoom_apply db_io_apply sw_update_strategy_get_def first_or_apply
        split: option.splits)
  show ?thesis
  proof (cases ?get)
    case None
    then show ?thesis using run get sim by (simp add: run_orch_turn_def bnd_apply)
  next
    case (Some st)
    have "st_state st \<noteq> SW_UPDATE_STATE_DELETING" using del Some by (auto simp: being_deleted_def)
    then consider "s' = s" | "seq (pre_apply_setup c) (orch_apply env c st) s = (x, s')"
      | "orch_abort env c s = (x, s')"
      using run get Some by (auto simp: run_orch_turn_def bnd_apply when_io_def split: if_splits)
    then show ?thesis
    proof cases
      case 1
      then show ?thesis using sim by simp
    next
      case 2
      then show ?thesis
      proof (rule seqE)
        fix z u assume "pre_apply_setup c s = (z, u)" "s' = u \<or> orch_apply env c st u = (x, s')"
        then show ?thesis using sim_pre_apply_setup [OF sim] sim_orch_apply [OF stop] by blast
      qed
    next
      case 3
      then show ?thesis using sim_orch_abort [OF sim] by blast
    qed
  qed
qed

end

end
