(* ===== verification/DC_Orchestration.thy ===== *)
theory DC_Orchestration
  imports DC_OrchTurn
begin

text \<open>
  The orchestration thread among the other activities: a step relation whose steps are the turns
  of the main loop, the ends of the greenthreads, and whatever the rest of the system does while
  it keeps the plan. The invariants of \<open>DC_Progress\<close> hold in all states it reaches, and the tables
  of the patch, kubernetes and kube rootca threads are interpretations of \<open>orchestration\<close>.
\<close>

section \<open>The end of a greenthread\<close>

text \<open>What \<open>perform_state_action\<close> does once its state operator has returned or raised.\<close>

definition record_failure :: "'x orch_env \<Rightarrow> ('x, 'd) orch_class \<Rightarrow> step_view \<Rightarrow> exn \<Rightarrow> ('x world, unit) io" where
  "record_failure env c v e =
     seq (get_region_name v)
       (seq (case e of
            StrategySkippedException d \<Rightarrow>
              step_update env c (sp_subcloud_id (fst v)) STRATEGY_STATE_COMPLETE
                (Some (format_update_details None (exn_str e)))
          | _ \<Rightarrow> step_update env c (sp_subcloud_id (fst v)) STRATEGY_STATE_FAILED
                   (Some (format_update_details (Some (step_state_str (sp_state (fst v)))) (exn_str e))))
         (ret ()))"

definition record_result ::
  "'x orch_env \<Rightarrow> ('x, 'd) orch_class \<Rightarrow> step_view \<Rightarrow> exn + step_state \<Rightarrow> ('x world, unit) io" where
  "record_result env c v r =
     (case r of
        Inl e \<Rightarrow> record_failure env c v e
      | Inr st \<Rightarrow> try_catch
          (seq (step_update env c (sp_subcloud_id (fst v)) st (Some [])) (ret ()))
          (record_failure env c v))"

definition run_operator ::
  "('x, 'd) orch_class \<Rightarrow> 'd option \<Rightarrow> step_view \<Rightarrow> ('x world, step_state) prog" where
  "run_operator c data v = bndp (run (determine_state_operator c data v)) (\<lambda>operator. operator v)"

lemma seqp_run: "seqp (run m) (run n) = run (seq m n)"
  by (rule ext) (simp add: seqp_def bndp_run seq_apply split: prod.splits sum.splits)

lemma perform_state_action_result:
  "perform_state_action env c data v w =
     (case run_operator c data v w of None \<Rightarrow> None | Some (r, t) \<Rightarrow> Some (record_result env c v r t))"
proof -
  have fail: "(case e of
            StrategySkippedException d \<Rightarrow> seqp (run (get_region_name v))
              (run (seq (step_update env c (sp_subcloud_id (fst v)) STRATEGY_STATE_COMPLETE
                (Some (format_update_details None (exn_str e)))) (ret ())))
          | _ \<Rightarrow> seqp (run (get_region_name v))
              (run (seq (step_update env c (sp_subcloud_id (fst v)) STRATEGY_STATE_FAILED
                   (Some (format_update_details (Some (step_state_str (sp_state (fst v)))) (exn_str e))))
                (ret ())))) = run (record_failure env c v e)" for e
    by (cases e) (simp_all add: record_failure_def seqp_run del: exn_str.simps)
  show ?thesis
    by (auto simp: perform_state_action_def run_operator_def record_result_def Let_def fail
        catchp_def bndp_def try_catch_def seq_apply split: option.splits prod.splits sum.splits)
qed

text \<open>Whatever happens, at most one state is recorded, and it is the operator's or an end.\<close>

definition recorded :: "nat \<Rightarrow> step_state set \<Rightarrow> ('x, 'd) sys \<Rightarrow> ('x, 'd) sys \<Rightarrow> bool" where
  "recorded i sts s s' \<longleftrightarrow>
     sy_jobs s' = sy_jobs s \<and> sy_workers s' = sy_workers s \<and>
     (sys_db s' = sys_db s \<or> (\<exists>st r v. st \<in> sts \<and> moved i st r (sys_db s) v (sys_db s')))"

lemma recorded_refl: "recorded i sts s s"
  by (simp add: recorded_def)

lemma recorded_mono: "recorded i sts s s' \<Longrightarrow> sts \<subseteq> sts' \<Longrightarrow> recorded i sts' s s'"
  unfolding recorded_def by blast

lemma recorded_after:
  "sys_db u = sys_db s \<Longrightarrow> sy_jobs u = sy_jobs s \<Longrightarrow> sy_workers u = sy_workers s \<Longrightarrow>
   recorded i sts u s' \<Longrightarrow> recorded i sts s s'"
  unfolding recorded_def by simp

lemma world_io_seq: "world_io (seq m n) = seq (world_io m) (world_io n)"
  by (rule ext) (auto simp: world_io_def zoom_apply seq_apply split: prod.splits sum.splits)

lemma world_io_try_catch: "world_io (try_catch m h) = try_catch (world_io m) (\<lambda>e. world_io (h e))"
  by (rule ext) (auto simp: world_io_def zoom_apply try_catch_def split: prod.splits sum.splits)

lemma world_io_ret: "world_io (ret x) = ret x"
  by (rule ext) (simp add: world_io_def zoom_apply)

lemma strategy_step_update_missing:
  assumes "i \<notin> fst ` set (map brief_of (step_rows d))"
  shows "\<exists>e. strategy_step_update admin_context (Some i) v d = (Inl e, d)"
proof -
  have "find (\<lambda>q. sp_subcloud_id q = Some i) (step_rows d) = None"
    using assms by (force simp: find_None_iff brief_of_def image_iff)
  then show ?thesis
    by (simp add: strategy_step_update_def strategy_step_get_def query_first_def step_rows_def
        first_or_apply write_session_def bnd_apply seq_apply)
qed

lemma update_missing:
  assumes "i \<notin> fst ` set (pg_steps (progress_of s))"
    and run: "world_io (step_update env c (Some i) st details) s = (x, s')"
  shows "sy_jobs s' = sy_jobs s \<and> sy_workers s' = sy_workers s \<and> sys_db s' = sys_db s"
proof -
  let ?w = "sy_world s"
  obtain w' where w': "step_update env c (Some i) st details ?w = (x, w')" and s': "s' = s\<lparr>sy_world := w'\<rparr>"
    using run by (auto simp: world_io_def zoom_apply split: prod.splits)
  obtain t w1 where t: "ask (oe_now env) ?w = (t, w1)" by fastforce
  have db: "w_db w1 = w_db ?w" using outside_apply [OF outside_ask t] by simp
  have fin: "w_db w' = w_db ?w"
    if io: "db_io (strategy_step_update admin_context (Some i) v) w2 = (x, w')" and w2: "w_db w2 = w_db ?w" for v w2
    using io w2 strategy_step_update_missing [of i "w_db ?w" v] assms(1)
    by (auto simp: db_io_apply split: prod.splits)
  have "w_db w' = w_db ?w"
    using w' t db fin by (auto simp: step_update_def bnd_apply split: if_splits prod.splits sum.splits)
  then show ?thesis by (simp add: s')
qed

lemma update_recorded:
  assumes wf: "steps_wf (sys_db s)"
    and st: "st \<in> sts" and run: "world_io (step_update env c (Some i) st details) s = (x, s')"
  shows "recorded i sts s s'" and "x = Inl e \<Longrightarrow> sys_db s' = sys_db s"
proof -
  have "recorded i sts s s' \<and> (\<forall>e. x = Inl e \<longrightarrow> sys_db s' = sys_db s)"
  proof (cases "i \<in> fst ` set (pg_steps (progress_of s))")
  case False
  then show ?thesis using update_missing [OF _ run] by (simp add: recorded_def)
next
  case True
  then obtain r where r: "r \<in> set (step_rows (sys_db s))" "fst (brief_of r) = i" by auto
  have ri: "sp_subcloud_id r = Some i"
    using r wf by (force simp: brief_of_def steps_wf_def)
  have v: "view_ok (sys_db s) (load_step (sys_db s) r)" "fst (load_step (sys_db s) r) = r"
    using load_step_view [OF wf r(1)] by (simp_all add: load_step_def)
  note out = step_update_moved [OF wf v(1) _ run, unfolded v(2), OF ri]
  show ?thesis using out st unfolding recorded_def by blast
  qed
  then show "recorded i sts s s'" "x = Inl e \<Longrightarrow> sys_db s' = sys_db s" by blast+
qed

lemma record_failure_run:
  assumes "sp_subcloud_id (fst v) = Some i" and "world_io (record_failure env c v e) s = (x, s')"
  shows "s' = s \<or> (\<exists>st details y. st \<in> {STRATEGY_STATE_FAILED, STRATEGY_STATE_COMPLETE} \<and>
    world_io (step_update env c (Some i) st details) s = (y, s'))"
proof (cases "snd v")
  case None
  then show ?thesis using assms
    by (simp add: record_failure_def get_region_name_def world_io_def zoom_apply)
next
  case (Some sc)
  have "\<exists>st details. st \<in> {STRATEGY_STATE_FAILED, STRATEGY_STATE_COMPLETE} \<and>
      record_failure env c v e = seq (step_update env c (Some i) st details) (ret ())"
    using Some assms(1) by (cases e) (auto simp: record_failure_def get_region_name_def
        simp del: exn_str.simps)
  then obtain st details where st: "st \<in> {STRATEGY_STATE_FAILED, STRATEGY_STATE_COMPLETE}"
    "record_failure env c v e = seq (step_update env c (Some i) st details) (ret ())" by blast
  have "seq (world_io (step_update env c (Some i) st details)) (ret ()) s = (x, s')"
    using assms(2) by (simp only: st(2) world_io_seq world_io_ret)
  then show ?thesis using st(1) by (elim seqE) auto
qed

lemma record_failure_recorded:
  assumes "steps_wf (sys_db s)" and "sp_subcloud_id (fst v) = Some i" and "world_io (record_failure env c v e) s = (x, s')"
  shows "recorded i {STRATEGY_STATE_FAILED, STRATEGY_STATE_COMPLETE} s s'"
  using record_failure_run [OF assms(2,3)] update_recorded(1) [OF assms(1)] recorded_refl by blast

lemma record_result_recorded:
  assumes wf: "steps_wf (sys_db s)"
    and v: "sp_subcloud_id (fst v) = Some i" and run: "world_io (record_result env c v r) s = (x, s')"
  shows "recorded i ({STRATEGY_STATE_FAILED, STRATEGY_STATE_COMPLETE} \<union> {st. r = Inr st}) s s'"
proof (cases r)
  case (Inl e)
  then have "world_io (record_failure env c v e) s = (x, s')" using run by (simp add: record_result_def)
  from record_failure_recorded [OF wf v this] show ?thesis by (rule recorded_mono) simp
next
  case (Inr st)
  let ?sts = "{STRATEGY_STATE_FAILED, STRATEGY_STATE_COMPLETE} \<union> {st. r = Inr st}"
  let ?m = "step_update env c (Some i) st (Some [])"
  obtain y u where u: "world_io ?m s = (y, u)" by fastforce
  note upd = update_recorded [OF wf _ u]
  have run': "try_catch (seq (world_io ?m) (ret ())) (\<lambda>e. world_io (record_failure env c v e)) s = (x, s')"
    using run Inr v by (simp add: record_result_def world_io_try_catch world_io_seq world_io_ret)
  show ?thesis
  proof (cases y)
    case (Inr z)
    then have "s' = u" using run' u by (simp add: try_catch_def seq_apply)
    then show ?thesis using upd(1) [of ?sts] \<open>r = Inr st\<close> by simp
  next
    case (Inl e)
    then have fail: "world_io (record_failure env c v e) u = (x, s')"
      using run' u by (simp add: try_catch_def seq_apply)
    have u': "sys_db u = sys_db s" "sy_jobs u = sy_jobs s" "sy_workers u = sy_workers s"
      using upd(2) [of "{st}" e] upd(1) [of "{st}"] Inl by (auto simp: recorded_def)
    have "recorded i {STRATEGY_STATE_FAILED, STRATEGY_STATE_COMPLETE} u s'"
      using record_failure_recorded [OF _ v fail] wf u'(1) by simp
    then have "recorded i {STRATEGY_STATE_FAILED, STRATEGY_STATE_COMPLETE} s s'"
      using recorded_after [OF u'] by blast
    then show ?thesis by (rule recorded_mono) simp
  qed
qed

section \<open>The thread among the other activities\<close>

text \<open>A state of the whole system changes by a turn of the thread (while the strategy is not being
  deleted), by the end of a greenthread with a result that its state operator can give or with an
  exception, or by anything else: progress reports of greenthreads, requests to apply or abort,
  changes of the subclouds, new subclouds, deleted subclouds, whose steps go with them, answers of
  other services. What is ruled out is that another thread writes the state of a step or gives a
  subcloud that has a step another name: no code does that.\<close>

inductive orch_step ::
  "'x orch_env \<Rightarrow> ('x, 'd) orch_class \<Rightarrow> ('x, 'd) sys \<Rightarrow> ('x, 'd) sys \<Rightarrow> bool"
  for env :: "'x orch_env" and c :: "('x, 'd) orch_class" where
  turn:
    "\<not> being_deleted (oc_update_type c) (sys_db s) \<Longrightarrow>
     run_orch_iteration env c pause s = (x, s') \<Longrightarrow> orch_step env c s s'"
| finish:
    "sy_jobs s = js @ PerformAction v # ks \<Longrightarrow>
     (\<And>st. r = Inr st \<Longrightarrow> \<exists>data w w'. run_operator c data v w = Some (Inr st, w')) \<Longrightarrow>
     world_io (record_result env c v r) s = (x, s') \<Longrightarrow>
     orch_step env c s (s'\<lparr>sy_jobs := js @ ks\<rparr>)"
| others:
    "within_plan (sys_db s) (w_db w) \<Longrightarrow> orch_step env c s (s\<lparr>sy_world := w\<rparr>)"

inductive_cases orch_stepE: "orch_step env c s s'"

context orchestration begin

lemma run_operator_nexts:
  assumes "run_operator c data v w = Some (Inr st, w')"
  shows "st \<in> nexts (sp_state (fst v))"
proof -
  obtain operator u where "determine_state_operator c data v w = (Inr operator, u)"
    and run: "operator v u = Some (Inr st, w')"
    using assms by (auto simp: run_operator_def bndp_run split: prod.splits sum.splits)
  then obtain f region where "oc_state_operators c (sp_state (fst v)) = Some f" "operator = f data region"
    by (auto simp: determine_state_operator_def bnd_Inr_iff split: option.splits)
  then show ?thesis using results run by blast
qed

lemma sim_iteration:
  assumes "never_stopped env" and "sim start nexts p s"
    and "\<not> being_deleted (oc_update_type c) (sys_db s)"
    and "run_orch_iteration env c pause s = (x, s')"
  shows "sim start nexts p s'"
proof -
  obtain y u where u: "run_orch_turn env c pause s = (y, u)" by fastforce
  have sim: "sim start nexts p u" by (rule sim_turn [OF assms(1-3) u])
  have "world_io (sleep 10) u = (x, s')"
    using assms(4) u by (auto simp: run_orch_iteration_def seq_apply try_catch_def split: sum.splits)
  then show ?thesis using sim_world [OF sim] outside_keeps [OF outside_sleep] by blast
qed

lemma sim_finish:
  assumes sim: "sim start nexts p s" and jobs: "sy_jobs s = js @ PerformAction v # ks"
    and res: "\<And>st. r = Inr st \<Longrightarrow> \<exists>data w w'. run_operator c data v w = Some (Inr st, w')"
    and run: "world_io (record_result env c v r) s = (x, s')"
  shows "sim start nexts p (s'\<lparr>sy_jobs := js @ ks\<rparr>)"
proof -
  let ?s = "s'\<lparr>sy_jobs := js @ ks\<rparr>" and ?st = "sp_state (fst v)"
  let ?js = "concat (map running_job js)" and ?ks = "concat (map running_job ks)"
  have c: "coupled s" using sim by (simp add: sim_def)
  have job: "PerformAction v \<in> set (sy_jobs s)" using jobs by simp
  have "known_job s v" using c job unfolding coupled_def by blast
  then obtain i where i: "sp_subcloud_id (fst v) = Some i" unfolding known_job_def by blast
  have running: "pg_running (progress_of s) = ?js @ (i, ?st) # ?ks"
    using jobs i by (simp add: running_job_def)
  have wf: "steps_wf (sys_db s)" using c by (simp add: coupled_def)
  have rec: "recorded i ({STRATEGY_STATE_FAILED, STRATEGY_STATE_COMPLETE} \<union> {st. r = Inr st}) s s'"
    by (rule record_result_recorded [OF wf i run])
  have "\<exists>q. progress_move start nexts (progress_of s) q \<and> progress_of ?s = q \<and>
      steps_wf (sys_db ?s) \<and> names (sys_db ?s) = names (sys_db s)"
  proof (cases "sys_db s' = sys_db s")
    case True
    then have q: "progress_of ?s = (progress_of s)\<lparr>pg_running := ?js @ ?ks\<rparr>"
      by (intro progress_ofI) simp_all
    show ?thesis unfolding q using progress_move.lose_job [OF running] True wf by simp
  next
    case False
    then obtain st' r' v' where m: "moved i st' r' (sys_db s) v' (sys_db s')"
      and st': "st' \<in> {STRATEGY_STATE_FAILED, STRATEGY_STATE_COMPLETE} \<union> {st. r = Inr st}"
      using rec unfolding recorded_def by blast
    have st'': "st' \<in> nexts ?st" using st' res run_operator_nexts ends by blast
    have q: "progress_of ?s = (progress_of s)\<lparr>pg_steps := move i st' (pg_steps (progress_of s)),
        pg_running := ?js @ ?ks\<rparr>"
      using m by (intro progress_ofI) (simp_all add: moved_def)
    show ?thesis unfolding q using progress_move.finish_job [OF running, of st' nexts start] st'' m by (simp add: moved_def)
  qed
  then have step: "progress_move start nexts (progress_of s) (progress_of ?s)"
    and db: "steps_wf (sys_db ?s)" "names (sys_db ?s) = names (sys_db s)" by auto
  have "known_job ?s u = known_job s u" for u
  proof -
    have "map brief_of (step_rows (sys_db s')) = map brief_of (step_rows (sys_db s)) \<or>
        (\<exists>st. map brief_of (step_rows (sys_db s')) = move i st (map brief_of (step_rows (sys_db s))))"
      using rec unfolding recorded_def moved_def by auto
    then have "fst ` set (map brief_of (step_rows (sys_db s'))) = fst ` set (map brief_of (step_rows (sys_db s)))"
      by (elim disjE exE) (simp_all only: ids_move)
    then have "fst ` set (pg_steps (progress_of ?s)) = fst ` set (pg_steps (progress_of s))"
      unfolding progress_fields by simp
    then show ?thesis using rec db(2) by (simp add: known_job_def recorded_def get_worker_def del: progress_fields)
  qed
  moreover have "pg_ok (progress_of ?s)" using progress_move_ok [OF step] c by (simp add: coupled_def)
  ultimately have "coupled ?s" using c db(1) jobs unfolding coupled_def by simp
  then show ?thesis using sim step unfolding sim_def by (meson rtranclp.rtrancl_into_rtrancl)
qed

end

text \<open>A step has gone when its subcloud has been deleted.\<close>

definition gone :: "strategy_step \<Rightarrow> db \<Rightarrow> bool" where
  "gone r d \<longleftrightarrow> the (sp_subcloud_id r) \<notin> fst ` set (names d)"

context orchestration begin

lemma moves_onward:
  assumes "(progress_move start nexts)\<^sup>*\<^sup>* p q" and "pg_ok p" and "(j, k, s) \<in> set (pg_steps p)"
  shows "\<exists>t. (j, k, t) \<in> set (pg_steps q) \<and> onward s t"
proof -
  have "pg_ok q \<and> (\<exists>t. (j, k, t) \<in> set (pg_steps q) \<and> onward s t)"
    using assms(1)
  proof (induction rule: rtranclp_induct)
    case base
    then show ?case using assms(2,3) onward_refl by blast
  next
    case (step q r)
    then show ?case using progress_move_ok progress_move_mono onward_trans by blast
  qed
  then show ?thesis by blast
qed

text \<open>Turns and greenthreads make the moves of the machine; everything else at most drops steps.\<close>

lemma orch_step_cases:
  assumes "orch_step env c s s'" and "never_stopped env" and "coupled s"
  shows "coupled s' \<and> (progress_move start nexts)\<^sup>*\<^sup>* (progress_of s) (progress_of s') \<or>
    within_plan (sys_db s) (sys_db s') \<and> sy_jobs s' = sy_jobs s \<and> sy_workers s' = sy_workers s"
proof -
  have sim: "sim start nexts (progress_of s) s" using assms(3) by (simp add: sim_def)
  show ?thesis using assms(1)
  proof (cases rule: orch_step.cases)
    case turn
    then show ?thesis using sim_iteration [OF assms(2) sim] unfolding sim_def by blast
  next
    case finish
    then show ?thesis using sim_finish [OF sim] unfolding sim_def by blast
  next
    case (others w)
    then show ?thesis by simp
  qed
qed

theorem step_coupled:
  assumes "orch_step env c s s'" and "never_stopped env" and "coupled s"
  shows "coupled s' \<and> (progress_step start nexts)\<^sup>*\<^sup>* (progress_of s) (progress_of s')"
  using orch_step_cases [OF assms] moves_steps coupled_within_plan [OF assms(3)] by blast

text \<open>What a reachable state shows.\<close>

lemma steps_coupled:
  "(orch_step env c)\<^sup>*\<^sup>* s s' \<Longrightarrow> never_stopped env \<Longrightarrow> coupled s \<Longrightarrow>
   coupled s' \<and> (progress_step start nexts)\<^sup>*\<^sup>* (progress_of s) (progress_of s')"
proof (induction rule: rtranclp_induct)
  case (step t u)
  then show ?case using step_coupled [OF step(2)] by (meson rtranclp_trans)
qed simp

text \<open>A step of \<open>d\<close> that is still there in \<open>d'\<close>: same subcloud, same stage, and not further back.\<close>

definition still :: "strategy_step \<Rightarrow> db \<Rightarrow> bool" where
  "still r d \<longleftrightarrow> (\<exists>q \<in> set (step_rows d). sp_subcloud_id q = sp_subcloud_id r \<and>
     sp_stage q = sp_stage r \<and> onward (sp_state r) (sp_state q))"

lemma stillI:
  assumes "steps_wf d" and "sp_subcloud_id r \<noteq> None"
    and "(the (sp_subcloud_id r), sp_stage r, t) \<in> set (map brief_of (step_rows d))" and "onward (sp_state r) t"
  shows "still r d"
proof -
  obtain q where q: "q \<in> set (step_rows d)" "the (sp_subcloud_id q) = the (sp_subcloud_id r)"
    "sp_stage q = sp_stage r" "sp_state q = t" using assms(3) by (auto simp: brief_of_def)
  have "sp_subcloud_id q \<noteq> None" using assms(1) q(1) by (simp add: steps_wf_def)
  then have "sp_subcloud_id q = sp_subcloud_id r" using assms(2) q(2) by (metis option.expand)
  then show ?thesis unfolding still_def using q assms(4) by blast
qed

lemma step_still:
  assumes "orch_step env c s s'" and "never_stopped env" and "coupled s" and r: "r \<in> set (step_rows (sys_db s))"
  shows "still r (sys_db s') \<or> gone r (sys_db s')"
proof -
  have some: "sp_subcloud_id r \<noteq> None" using assms(3) r by (simp add: coupled_def steps_wf_def)
  have wf: "steps_wf (sys_db s')" using step_coupled [OF assms(1-3)] by (simp add: coupled_def)
  have brief: "(the (sp_subcloud_id r), sp_stage r, sp_state r) \<in> set (pg_steps (progress_of s))"
    using r by (force simp: brief_of_def)
  from orch_step_cases [OF assms(1-3)] show ?thesis
  proof
    assume "coupled s' \<and> (progress_move start nexts)\<^sup>*\<^sup>* (progress_of s) (progress_of s')"
    moreover have "pg_ok (progress_of s)" using assms(3) by (simp add: coupled_def)
    ultimately obtain t where "(the (sp_subcloud_id r), sp_stage r, t) \<in> set (pg_steps (progress_of s'))"
      "onward (sp_state r) t" using moves_onward brief by blast
    then show ?thesis using stillI [OF wf some] by simp
  next
    assume "within_plan (sys_db s) (sys_db s') \<and> sy_jobs s' = sy_jobs s \<and> sy_workers s' = sy_workers s"
    then obtain K where K: "map brief_of (step_rows (sys_db s')) =
        filter (\<lambda>b. fst b \<in> K) (map brief_of (step_rows (sys_db s)))"
      and off: "\<forall>i \<in> fst ` set (map brief_of (step_rows (sys_db s))).
        i \<notin> fst ` set (map brief_of (step_rows (sys_db s'))) \<longrightarrow> i \<notin> fst ` set (names (sys_db s'))"
      unfolding within_plan_def by blast
    show ?thesis
    proof (cases "the (sp_subcloud_id r) \<in> K")
      case True
      then have "(the (sp_subcloud_id r), sp_stage r, sp_state r) \<in> set (map brief_of (step_rows (sys_db s')))"
        unfolding K using brief by simp
      then show ?thesis using stillI [OF wf some _ onward_refl] by blast
    next
      case False
      then have "the (sp_subcloud_id r) \<notin> fst ` set (map brief_of (step_rows (sys_db s')))"
        unfolding K by auto
      moreover have "the (sp_subcloud_id r) \<in> fst ` set (map brief_of (step_rows (sys_db s)))"
        using brief_id [OF brief] by simp
      ultimately show ?thesis using off unfolding gone_def by blast
    qed
  qed
qed

lemma steps_still:
  assumes "(orch_step env c)\<^sup>*\<^sup>* t u" and "never_stopped env" and "coupled t" and "r \<in> set (step_rows (sys_db t))"
  shows "still r (sys_db u) \<or>
    (\<exists>v. (orch_step env c)\<^sup>*\<^sup>* t v \<and> (orch_step env c)\<^sup>*\<^sup>* v u \<and> gone r (sys_db v))"
  using assms(1)
proof (induction rule: rtranclp_induct)
  case base
  then show ?case using assms(4) onward_refl by (auto simp: still_def)
next
  case (step u w)
  from step.IH show ?case
  proof
    assume "still r (sys_db u)"
    then obtain q where q: "q \<in> set (step_rows (sys_db u))" "sp_subcloud_id q = sp_subcloud_id r"
      "sp_stage q = sp_stage r" "onward (sp_state r) (sp_state q)" unfolding still_def by blast
    have "coupled u" using steps_coupled [OF step.hyps(1) assms(2,3)] by blast
    from step_still [OF step.hyps(2) assms(2) this q(1)] show ?thesis
    proof
      assume "still q (sys_db w)"
      then have "still r (sys_db w)" unfolding still_def using q(2-4) onward_trans by fastforce
      then show ?thesis ..
    next
      assume "gone q (sys_db w)"
      then have "gone r (sys_db w)" using q(2) by (simp add: gone_def)
      moreover have "(orch_step env c)\<^sup>*\<^sup>* t w" using step.hyps by simp
      ultimately show ?thesis by blast
    qed
  next
    assume "\<exists>v. (orch_step env c)\<^sup>*\<^sup>* t v \<and> (orch_step env c)\<^sup>*\<^sup>* v u \<and> gone r (sys_db v)"
    then show ?thesis using step.hyps(2) by (meson rtranclp.rtrancl_into_rtrancl)
  qed
qed

end

text \<open>What is ruled out of \<open>others\<close> is no more than this: the deletion of a subcloud is within the plan,
  and so is every operation that leaves the steps and the names alone.\<close>

lemma destroy_within_plan:
  assumes wf: "steps_wf d" and run: "subcloud_destroy ctx i d = (x, d')"
  shows "within_plan d d'"
proof -
  have wf': "db_wf d'"
    using keepsD [OF subcloud_destroy_wf, of d ctx i] wf run by (simp add: steps_wf_def)
  consider "d' = d" | "step_rows d' = filter (\<lambda>s. sp_subcloud_id s \<noteq> Some i) (step_rows d)"
      "names d' = filter (\<lambda>b. fst b \<noteq> i) (names d)"
    using run
    by (auto simp: subcloud_destroy_def require_admin_context_def require_context_def is_admin_context_def write_session_def bnd_apply step_rows_def names_def
        delete_row_def filter_rows_def filter_map comp_def subcloud_get_def first_or_apply query_first_def
        find_Some_iff split: option.splits if_splits prod.splits sum.splits)
  then show ?thesis
  proof cases
    case 1
    then show ?thesis using wf same_within_plan by (simp add: same_plan_def)
  next
    case 2
    let ?bs = "map brief_of (step_rows d)"
    have "steps_wf d'"
      using wf wf' sorted_filter [of sp_stage "step_rows d"] by (simp add: steps_wf_def 2(1))
    moreover have rows': "map brief_of (step_rows d') = filter (\<lambda>b. fst b \<in> - {i}) ?bs"
      using wf by (auto simp: 2(1) filter_map comp_def brief_of_def steps_wf_def intro!: arg_cong [of _ _ "map brief_of"] filter_cong)
    moreover have "(k, n) \<in> set (names d') \<longleftrightarrow> (k, n) \<in> set (names d)"
      if "k \<in> fst ` set (filter (\<lambda>b. fst b \<in> - {i}) ?bs)" for k n
      using that by (auto simp: 2(2) simp del: set_map)
    moreover have "k \<notin> fst ` set (names d')"
      if "k \<in> fst ` set ?bs" "k \<notin> fst ` set (filter (\<lambda>b. fst b \<in> - {i}) ?bs)" for k
    proof -
      have "k = i" using that by (auto simp del: set_map)
      then show ?thesis by (auto simp: 2(2))
    qed
    ultimately show ?thesis unfolding within_plan_def rows' by blast
  qed
qed

end
