(* ===== verification/DC_OrchTables.thy ===== *)
theory DC_OrchTables
  imports DC_Orchestration
begin

text \<open>
  The tables of states of the patch, kubernetes and kube rootca threads: which states their
  operators can return, proved of the operators themselves. Each thread is an interpretation of
  \<open>orchestration\<close>, from which the properties of the threads follow.
\<close>

section \<open>The tables\<close>

definition ends_too :: "step_state set \<Rightarrow> step_state set" where
  "ends_too sts = {STRATEGY_STATE_FAILED, STRATEGY_STATE_COMPLETE} \<union> sts"

fun patch_nexts :: "step_state \<Rightarrow> step_state set" where
  "patch_nexts STRATEGY_STATE_PRE_CHECK = ends_too {STRATEGY_STATE_UPDATING_PATCHES}"
| "patch_nexts STRATEGY_STATE_UPDATING_PATCHES = ends_too {STRATEGY_STATE_CREATING_VIM_PATCH_STRATEGY}"
| "patch_nexts STRATEGY_STATE_CREATING_VIM_PATCH_STRATEGY =
     ends_too {STRATEGY_STATE_APPLYING_VIM_PATCH_STRATEGY, STRATEGY_STATE_FINISHING_PATCH_STRATEGY}"
| "patch_nexts STRATEGY_STATE_APPLYING_VIM_PATCH_STRATEGY =
     ends_too {STRATEGY_STATE_FINISHING_PATCH_STRATEGY}"
| "patch_nexts _ = ends_too {}"

fun kube_nexts :: "step_state \<Rightarrow> step_state set" where
  "kube_nexts STRATEGY_STATE_KUBE_UPGRADE_PRE_CHECK =
     ends_too {STRATEGY_STATE_KUBE_CREATING_VIM_KUBE_UPGRADE_STRATEGY}"
| "kube_nexts STRATEGY_STATE_KUBE_CREATING_VIM_KUBE_UPGRADE_STRATEGY =
     ends_too {STRATEGY_STATE_KUBE_APPLYING_VIM_KUBE_UPGRADE_STRATEGY}"
| "kube_nexts _ = ends_too {}"

fun rootca_nexts :: "step_state \<Rightarrow> step_state set" where
  "rootca_nexts STRATEGY_STATE_KUBE_ROOTCA_UPDATE_PRE_CHECK =
     ends_too {STRATEGY_STATE_KUBE_ROOTCA_UPDATE_START,
       STRATEGY_STATE_CREATING_VIM_KUBE_ROOTCA_UPDATE_STRATEGY}"
| "rootca_nexts STRATEGY_STATE_KUBE_ROOTCA_UPDATE_START =
     ends_too {STRATEGY_STATE_KUBE_ROOTCA_UPDATE_UPLOAD_CERT,
       STRATEGY_STATE_CREATING_VIM_KUBE_ROOTCA_UPDATE_STRATEGY}"
| "rootca_nexts STRATEGY_STATE_KUBE_ROOTCA_UPDATE_UPLOAD_CERT =
     ends_too {STRATEGY_STATE_CREATING_VIM_KUBE_ROOTCA_UPDATE_STRATEGY}"
| "rootca_nexts STRATEGY_STATE_CREATING_VIM_KUBE_ROOTCA_UPDATE_STRATEGY =
     ends_too {STRATEGY_STATE_APPLYING_VIM_KUBE_ROOTCA_UPDATE_STRATEGY}"
| "rootca_nexts _ = ends_too {}"

text \<open>The place of a state on the way of its update; the ends come last.\<close>

fun place :: "step_state list \<Rightarrow> step_state \<Rightarrow> nat" where
  "place [] st = (if terminal_step st then 2 else 1)"
| "place (s # ss) st = (if st = s then 1 else Suc (place ss st))"

definition rank_of :: "step_state list \<Rightarrow> step_state \<Rightarrow> nat" where
  "rank_of ss st = (if st = STRATEGY_STATE_INITIAL then 0 else place ss st)"

definition patch_states_order :: "step_state list" where
  "patch_states_order = [STRATEGY_STATE_PRE_CHECK, STRATEGY_STATE_UPDATING_PATCHES,
     STRATEGY_STATE_CREATING_VIM_PATCH_STRATEGY, STRATEGY_STATE_APPLYING_VIM_PATCH_STRATEGY,
     STRATEGY_STATE_FINISHING_PATCH_STRATEGY]"

definition kube_states_order :: "step_state list" where
  "kube_states_order = [STRATEGY_STATE_KUBE_UPGRADE_PRE_CHECK,
     STRATEGY_STATE_KUBE_CREATING_VIM_KUBE_UPGRADE_STRATEGY,
     STRATEGY_STATE_KUBE_APPLYING_VIM_KUBE_UPGRADE_STRATEGY]"

definition rootca_states_order :: "step_state list" where
  "rootca_states_order = [STRATEGY_STATE_KUBE_ROOTCA_UPDATE_PRE_CHECK,
     STRATEGY_STATE_KUBE_ROOTCA_UPDATE_START, STRATEGY_STATE_KUBE_ROOTCA_UPDATE_UPLOAD_CERT,
     STRATEGY_STATE_CREATING_VIM_KUBE_ROOTCA_UPDATE_STRATEGY,
     STRATEGY_STATE_APPLYING_VIM_KUBE_ROOTCA_UPDATE_STRATEGY]"

lemmas table_defs = active_def ends_too_def rank_of_def patch_states_order_def kube_states_order_def
  rootca_states_order_def

text \<open>A table is well formed when its states are on a way from the first one to an end.\<close>

lemma step_table_of_order:
  assumes "active start" and "\<And>s st. st \<in> nexts s \<Longrightarrow> st \<noteq> STRATEGY_STATE_INITIAL"
    and "\<And>s st. terminal_step s \<Longrightarrow> st \<in> nexts s \<Longrightarrow> terminal_step st"
    and "\<And>s st. active s \<Longrightarrow> st \<in> nexts s \<Longrightarrow> place order s < place order st"
    and "\<forall>s \<in> set order. active s"
  shows "step_table start nexts (rank_of order)"
proof -
  have pos: "0 < place ss s" for ss s by (induction ss) auto
  have top: "place ss s \<le> place ss t" if "terminal_step t" "\<forall>s \<in> set ss. active s" for ss s t
    using that by (induction ss) (auto simp: active_def)
  have ini: "\<not> terminal_step STRATEGY_STATE_INITIAL" by simp
  show ?thesis
    using assms pos top ini by unfold_locales (auto simp: rank_of_def active_def simp del: terminal_step_iff)
qed

lemma patch_step_table: "step_table STRATEGY_STATE_PRE_CHECK patch_nexts (rank_of patch_states_order)"
proof (rule step_table_of_order)
  show "place patch_states_order s < place patch_states_order st"
    if "active s" "st \<in> patch_nexts s" for s st
    using that by (cases s) (auto simp: table_defs)
  show "st \<noteq> STRATEGY_STATE_INITIAL" if "st \<in> patch_nexts s" for s st
    using that by (cases s) (auto simp: table_defs)
qed (auto simp: table_defs)

lemma kube_step_table:
  "step_table STRATEGY_STATE_KUBE_UPGRADE_PRE_CHECK kube_nexts (rank_of kube_states_order)"
proof (rule step_table_of_order)
  show "place kube_states_order s < place kube_states_order st"
    if "active s" "st \<in> kube_nexts s" for s st
    using that by (cases s) (auto simp: table_defs)
  show "st \<noteq> STRATEGY_STATE_INITIAL" if "st \<in> kube_nexts s" for s st
    using that by (cases s) (auto simp: table_defs)
qed (auto simp: table_defs)

lemma rootca_step_table:
  "step_table STRATEGY_STATE_KUBE_ROOTCA_UPDATE_PRE_CHECK rootca_nexts (rank_of rootca_states_order)"
proof (rule step_table_of_order)
  show "place rootca_states_order s < place rootca_states_order st"
    if "active s" "st \<in> rootca_nexts s" for s st
    using that by (cases s) (auto simp: table_defs)
  show "st \<noteq> STRATEGY_STATE_INITIAL" if "st \<in> rootca_nexts s" for s st
    using that by (cases s) (auto simp: table_defs)
qed (auto simp: table_defs)

section \<open>What the operators return\<close>

definition yields :: "('s, step_state) prog \<Rightarrow> step_state set \<Rightarrow> bool" where
  "yields m sts \<longleftrightarrow> (\<forall>s st t. m s = Some (Inr st, t) \<longrightarrow> st \<in> sts)"

named_theorems yields_intros

lemma yieldsD: "yields m sts \<Longrightarrow> m s = Some (Inr st, t) \<Longrightarrow> st \<in> sts"
  by (auto simp: yields_def)

lemma yields_bndp [yields_intros]: "(\<And>x. yields (f x) sts) \<Longrightarrow> yields (bndp m f) sts"
  by (auto simp: yields_def bndp_Some_iff)

lemma yields_seqp [yields_intros]: "yields n sts \<Longrightarrow> yields (seqp m n) sts"
  by (simp add: seqp_def yields_bndp)

lemma yields_run [yields_intros]: "returns m (\<lambda>st. st \<in> sts) \<Longrightarrow> yields (run m) sts"
  by (auto simp: yields_def returns_def)

lemma yields_if [yields_intros]:
  "(b \<Longrightarrow> yields m sts) \<Longrightarrow> (\<not> b \<Longrightarrow> yields n sts) \<Longrightarrow> yields (if b then m else n) sts"
  by simp

lemma yields_case_option [yields_intros]:
  "yields m sts \<Longrightarrow> (\<And>y. yields (f y) sts) \<Longrightarrow> yields (case x of None \<Rightarrow> m | Some y \<Rightarrow> f y) sts"
  by (simp split: option.splits)

lemma yields_case_prod [yields_intros]:
  "(\<And>a b. yields (f a b) sts) \<Longrightarrow> yields (case x of (a, b) \<Rightarrow> f a b) sts"
  by (simp split: prod.splits)

lemma yields_io_loop [yields_intros]:
  assumes "\<And>l. returns (body l) (\<lambda>u. \<forall>x. u = Leave x \<longrightarrow> x \<in> sts)"
  shows "yields (io_loop body l) sts"
  unfolding yields_def
proof (intro allI impI)
  fix s st t assume loop: "io_loop body l s = Some (Inr st, t)"
  have leave: "x \<in> sts" if "body k u = (Inr (Leave x), u')" for k u u' x
    using returnsD [OF assms that] by blast
  let ?Q = "\<lambda>(r :: exn + step_state) _. \<forall>x. r = Inr x \<longrightarrow> x \<in> sts"
  have "?Q (Inr st) t"
    by (rule io_loop_partial [OF loop, where J = "\<lambda>_ _. True" and Q = ?Q]) (use leave in auto)
  then show "st \<in> sts" by simp
qed

lemma creating_yields:
  assumes "cv_next_state k \<in> sts" and "\<And>s st. cv_skip_check k s = Some st \<Longrightarrow> st \<in> sts"
  shows "yields (creating_vim_strategy_state env k v) sts"
  unfolding creating_vim_strategy_state_def create_turn_def create_observed_def
  using assms by (intro yields_intros returns_case_prod returns_seq returns_if returns_raise
      returns_bnd returns_case_option returns_ret) auto

lemma applying_yields: "av_next_state k \<in> sts \<Longrightarrow> yields (applying_vim_strategy_state env k v) sts"
  unfolding applying_vim_strategy_state_def by (intro yields_intros returns_intros)

lemma extra_args_keeps: "keeps (\<lambda>w. w_db w = d) (db_io (get_sw_update_strategy_extra_args ctx t))"
  unfolding get_sw_update_strategy_extra_args_def by (intro keeps_db_io keeps_intros)

lemma patch_operators_yield:
  assumes "patch_state_operators env st = Some operator"
  shows "yields (operator data region v) (patch_nexts st)"
proof -
  have "yields (patch_pre_check_state env region v) (patch_nexts STRATEGY_STATE_PRE_CHECK)"
    unfolding patch_pre_check_state_def
    by (intro yields_intros returns_intros) (auto simp: ends_too_def split: option.splits)
  moreover have "yields (updating_patches_state env jd region v) (patch_nexts STRATEGY_STATE_UPDATING_PATCHES)"
    for jd
    unfolding updating_patches_state_def Let_def
    by (intro yields_intros returns_intros) (auto simp: ends_too_def)
  moreover have "yields (creating_vim_strategy_state env (creating_vim_patch_strategy env) v)
      (patch_nexts STRATEGY_STATE_CREATING_VIM_PATCH_STRATEGY)"
    by (rule creating_yields)
      (auto simp: creating_vim_patch_strategy_def default_create_class_def patch_skip_check_def
        ends_too_def split: if_splits)
  moreover have "yields (applying_vim_strategy_state env applying_vim_patch_strategy v)
      (patch_nexts STRATEGY_STATE_APPLYING_VIM_PATCH_STRATEGY)"
    by (rule applying_yields) (simp add: applying_vim_patch_strategy_def default_apply_class_def ends_too_def)
  moreover have "yields (finishing_patch_strategy_state env jd region v)
      (patch_nexts STRATEGY_STATE_FINISHING_PATCH_STRATEGY)" for jd
    unfolding finishing_patch_strategy_state_def Let_def
    by (intro yields_intros returns_intros) (auto simp: ends_too_def)
  moreover have "yields (run (raise AttributeError)) sts" for sts
    by (intro yields_intros returns_intros)
  ultimately show ?thesis using assms
    by (auto simp: patch_state_operators_def Let_def split: if_splits option.splits)
qed

lemma kube_operators_yield:
  assumes "kube_state_operators env st = Some operator"
  shows "yields (operator data region v) (kube_nexts st)"
proof -
  have "yields (kube_pre_check_state env region v) (kube_nexts STRATEGY_STATE_KUBE_UPGRADE_PRE_CHECK)"
    unfolding kube_pre_check_state_def
    by (rule yields_run)
      (auto intro!: returns_intros simp: ends_too_def split: sum.splits)
  moreover have "yields (creating_vim_strategy_state env (creating_vim_kube_upgrade_strategy env) v)
      (kube_nexts STRATEGY_STATE_KUBE_CREATING_VIM_KUBE_UPGRADE_STRATEGY)"
    by (rule creating_yields)
      (auto simp: creating_vim_kube_upgrade_strategy_def default_create_class_def ends_too_def)
  moreover have "yields (applying_vim_strategy_state env applying_vim_kube_upgrade_strategy v)
      (kube_nexts STRATEGY_STATE_KUBE_APPLYING_VIM_KUBE_UPGRADE_STRATEGY)"
    by (rule applying_yields)
      (simp add: applying_vim_kube_upgrade_strategy_def default_apply_class_def ends_too_def)
  ultimately show ?thesis using assms by (auto simp: kube_state_operators_def split: if_splits)
qed

lemma rootca_operators_yield:
  assumes "kube_rootca_state_operators env st = Some operator"
  shows "yields (operator data region v) (rootca_nexts st)"
proof -
  have "yields (rootca_pre_check_state env region v) (rootca_nexts STRATEGY_STATE_KUBE_ROOTCA_UPDATE_PRE_CHECK)"
    unfolding rootca_pre_check_state_def
    by (intro yields_intros returns_intros) (auto simp: ends_too_def)
  moreover have "yields (rootca_start_state env region v) (rootca_nexts STRATEGY_STATE_KUBE_ROOTCA_UPDATE_START)"
    unfolding rootca_start_state_def
    by (intro yields_intros returns_intros) (auto simp: ends_too_def)
  moreover have "yields (rootca_upload_cert_state env region v)
      (rootca_nexts STRATEGY_STATE_KUBE_ROOTCA_UPDATE_UPLOAD_CERT)"
    unfolding rootca_upload_cert_state_def
    by (intro yields_intros returns_intros) (auto simp: ends_too_def)
  moreover have "yields (creating_vim_strategy_state env (creating_vim_kube_rootca_update_strategy env) v)
      (rootca_nexts STRATEGY_STATE_CREATING_VIM_KUBE_ROOTCA_UPDATE_STRATEGY)"
    by (rule creating_yields)
      (auto simp: creating_vim_kube_rootca_update_strategy_def default_create_class_def ends_too_def)
  moreover have "yields (applying_vim_strategy_state env applying_vim_kube_rootca_update_strategy v)
      (rootca_nexts STRATEGY_STATE_APPLYING_VIM_KUBE_ROOTCA_UPDATE_STRATEGY)"
    by (rule applying_yields) (simp add: applying_vim_kube_rootca_update_strategy_def ends_too_def)
  ultimately show ?thesis using assms by (auto simp: kube_rootca_state_operators_def split: if_splits)
qed

lemma nexts_end:
  "STRATEGY_STATE_FAILED \<in> patch_nexts st \<and> STRATEGY_STATE_COMPLETE \<in> patch_nexts st"
  "STRATEGY_STATE_FAILED \<in> kube_nexts st \<and> STRATEGY_STATE_COMPLETE \<in> kube_nexts st"
  "STRATEGY_STATE_FAILED \<in> rootca_nexts st \<and> STRATEGY_STATE_COMPLETE \<in> rootca_nexts st"
  by (cases st; simp add: ends_too_def)+

interpretation patch: orchestration STRATEGY_STATE_PRE_CHECK patch_nexts
    "rank_of patch_states_order" "patch_orch_thread env" for env
  unfolding orchestration_def orchestration_axioms_def
  using patch_step_table nexts_end yieldsD [OF patch_operators_yield]
  by (auto simp: patch_orch_thread_def initialize_job_data_def Let_def get_sysinv_client_def
      get_patching_client_def get_client_def get_keystone_client_def
      intro!: keeps_intros keeps_db_ask [where I = "\<lambda>x. x = d" for d] extra_args_keeps)

interpretation kube: orchestration STRATEGY_STATE_KUBE_UPGRADE_PRE_CHECK kube_nexts
    "rank_of kube_states_order" "kube_upgrade_orch_thread env" for env
  unfolding orchestration_def orchestration_axioms_def
  using kube_step_table nexts_end yieldsD [OF kube_operators_yield]
  by (auto simp: kube_upgrade_orch_thread_def intro!: keeps_intros)

interpretation rootca: orchestration STRATEGY_STATE_KUBE_ROOTCA_UPDATE_PRE_CHECK rootca_nexts
    "rank_of rootca_states_order" "kube_rootca_update_orch_thread env" for env
  unfolding orchestration_def orchestration_axioms_def
  using rootca_step_table nexts_end yieldsD [OF rootca_operators_yield]
  by (auto simp: kube_rootca_update_orch_thread_def intro!: keeps_intros)

end
