(* ===== verification/DC_OrchProps.thy ===== *)
theory DC_OrchProps
  imports DC_OrchTables DC_Manager_Props
begin

text \<open>
  The properties of the orchestration threads: stages in order, one greenthread for a step,
  steps that only go on, and the refinement of the abstract machine.
\<close>

section \<open>Executing a strategy\<close>

text \<open>A strategy whose execution starts: nothing runs and every step is initial. Entries of workers
  may be left over from an earlier strategy.\<close>

definition about_to_start :: "('x, 'd) sys \<Rightarrow> bool" where
  "about_to_start s \<longleftrightarrow>
     steps_wf (sys_db s) \<and> sy_jobs s = [] \<and>
     (\<forall>r \<in> set (step_rows (sys_db s)). sp_state r = STRATEGY_STATE_INITIAL)"

definition stages_in_order :: "db \<Rightarrow> bool" where
  "stages_in_order d \<longleftrightarrow>
     (\<forall>a \<in> set (step_rows d). \<forall>b \<in> set (step_rows d).
        active (sp_state a) \<longrightarrow> sp_stage b < sp_stage a \<longrightarrow> terminal_step (sp_state b))"

text \<open>The greenthreads that drive steps which are not at an end yet.\<close>

definition driven :: "('x, 'd) sys \<Rightarrow> step_view list" where
  "driven s = [v. PerformAction v \<leftarrow> sy_jobs s, active (sp_state (fst v))]"

lemma start_coupled: "about_to_start s \<Longrightarrow> coupled s"
proof -
  assume a: "about_to_start s"
  have fst: "fst \<circ> brief_of = (\<lambda>r. the (sp_subcloud_id r))" by (simp add: fun_eq_iff brief_of_def)
  have "distinct (map (\<lambda>r. the (sp_subcloud_id r)) (step_rows (sys_db s)))"
  proof -
    have wf: "steps_wf (sys_db s)" using a by (simp add: about_to_start_def)
    have "inj_on the (set (map sp_subcloud_id (step_rows (sys_db s))))"
      using wf by (intro inj_onI option.expand) (auto simp: steps_wf_def)
    then have "distinct (map the (map sp_subcloud_id (step_rows (sys_db s))))"
      using steps_distinct [OF wf] by (simp only: distinct_map)
    then show ?thesis by (simp add: comp_def)
  qed
  moreover have "disciplined (map brief_of (step_rows (sys_db s)))"
    using a by (auto simp: disciplined_def about_to_start_def brief_of_def active_def)
  ultimately show ?thesis using a by (simp add: coupled_def pg_ok_def about_to_start_def fst)
qed

lemma coupled_order: "coupled s \<Longrightarrow> stages_in_order (sys_db s)"
  by (auto simp: coupled_def pg_ok_def disciplined_def lower_done_def stages_in_order_def brief_of_def
      simp del: terminal_step_iff)

lemma running_driven:
  "filter (\<lambda>j. active (snd j)) (pg_running (progress_of s)) =
   map (\<lambda>v. (the (sp_subcloud_id (fst v)), sp_state (fst v))) (driven s)"
proof -
  have "filter (\<lambda>j. active (snd j)) (concat (map running_job js)) =
      map (\<lambda>v. (the (sp_subcloud_id (fst v)), sp_state (fst v)))
        [v. PerformAction v \<leftarrow> js, active (sp_state (fst v))]" for js
    by (induction js) (auto simp: running_job_def split: job.splits)
  then show ?thesis by (simp add: driven_def)
qed

text \<open>The step a greenthread was started for: still in the state it was started for, or both at an end,
  or gone with its subcloud.\<close>

definition in_charge :: "db \<Rightarrow> step_view \<Rightarrow> bool" where
  "in_charge d v \<longleftrightarrow>
     (\<exists>r \<in> set (step_rows d). sp_subcloud_id r = sp_subcloud_id (fst v) \<and>
        (active (sp_state (fst v)) \<and> sp_state r = sp_state (fst v) \<or>
         terminal_step (sp_state (fst v)) \<and> terminal_step (sp_state r))) \<or>
     sp_subcloud_id (fst v) \<notin> sp_subcloud_id ` set (step_rows d)"

definition one_driver :: "('x, 'd) sys \<Rightarrow> bool" where
  "one_driver s \<longleftrightarrow>
     distinct (map (\<lambda>v. sp_subcloud_id (fst v)) (driven s)) \<and>
     (\<forall>v. PerformAction v \<in> set (sy_jobs s) \<longrightarrow> in_charge (sys_db s) v)"

lemma coupled_one_driver:
  assumes c: "coupled s" shows "one_driver s"
  unfolding one_driver_def
proof (intro conjI allI impI)
  have some: "sp_subcloud_id (fst v) \<noteq> None" if "PerformAction v \<in> set (sy_jobs s)" for v
    using that c unfolding coupled_def known_job_def by blast
  have "distinct (map (\<lambda>v. the (sp_subcloud_id (fst v))) (driven s))"
    using c running_driven [of s] by (simp add: coupled_def pg_ok_def comp_def)
  then show "distinct (map (\<lambda>v. sp_subcloud_id (fst v)) (driven s))"
    by (auto simp: distinct_map inj_on_def)
  fix v assume v: "PerformAction v \<in> set (sy_jobs s)"
  let ?j = "(the (sp_subcloud_id (fst v)), sp_state (fst v))"
  have att: "attended (pg_steps (progress_of s)) ?j" "distinct (map fst (pg_steps (progress_of s)))"
    using c running_jobs [OF v] unfolding coupled_def pg_ok_def by blast+
  show "in_charge (sys_db s) v"
  proof (cases "sp_subcloud_id (fst v) \<in> sp_subcloud_id ` set (step_rows (sys_db s))")
    case False
    then show ?thesis by (simp add: in_charge_def)
  next
    case True
    then obtain r where r: "r \<in> set (step_rows (sys_db s))" "sp_subcloud_id r = sp_subcloud_id (fst v)" by auto
    have "brief_of r \<in> set (pg_steps (progress_of s))" using r(1) by simp
    then have "(the (sp_subcloud_id (fst v)), sp_stage r, sp_state r) \<in> set (pg_steps (progress_of s))"
      unfolding brief_of_def r(2) .
    from attended_row [OF att this] show ?thesis using r unfolding in_charge_def by blast
  qed
qed

text \<open>C1: While a patch, kubernetes or kube rootca strategy is executed, a subcloud is only being
  updated when every subcloud of the earlier stages has reached its end, whatever the order in
  which turns, greenthreads, requests and the rest of the system act.\<close>

theorem stage_discipline:
  assumes "never_stopped env"
  shows "(about_to_start p \<longrightarrow> (orch_step env (patch_orch_thread env))\<^sup>*\<^sup>* p p' \<longrightarrow> stages_in_order (sys_db p')) \<and>
    (about_to_start k \<longrightarrow> (orch_step env (kube_upgrade_orch_thread env))\<^sup>*\<^sup>* k k' \<longrightarrow> stages_in_order (sys_db k')) \<and>
    (about_to_start r \<longrightarrow> (orch_step env (kube_rootca_update_orch_thread env))\<^sup>*\<^sup>* r r' \<longrightarrow> stages_in_order (sys_db r'))"
  using patch.steps_coupled [OF _ assms, of env p p'] kube.steps_coupled [OF _ assms, of env k k']
    rootca.steps_coupled [OF _ assms, of env r r'] start_coupled [of p] start_coupled [of k]
    start_coupled [of r] coupled_order [of p'] coupled_order [of k'] coupled_order [of r']
  by simp

text \<open>The system of the witnesses: two subclouds in two stages, the strategy just applied.\<close>

definition ex_sys :: "(unit, 'd) sys" where
  "ex_sys = \<lparr>sy_world = ex_orch_world ((ex_db [ex_strategy SW_UPDATE_STATE_APPLYING])
       \<lparr>strategy_steps := \<lparr>rows = [ex_step 1 1 1 STRATEGY_STATE_INITIAL, ex_step 2 3 2 STRATEGY_STATE_INITIAL],
          next_id = 3\<rparr>\<rparr>),
     sy_workers = [], sy_jobs = [], sy_setup = False, sy_data = None\<rparr>"

definition ex_turn :: "(unit, job_data) sys \<Rightarrow> (unit, job_data) sys" where
  "ex_turn s = snd (run_orch_iteration ex_orch_env (patch_orch_thread ex_orch_env) (\<lambda>s. s) s)"

lemma ex_never_stopped: "never_stopped ex_orch_env"
  by (simp add: never_stopped_def ex_orch_env_def)

lemma ex_steps_wf: "steps_wf (sys_db ex_sys)"
  by (simp add: steps_wf_def ex_sys_def ex_orch_world_def ex_defs step_rows_def db_wf_defs table_wf_def
      ex_step_def empty_db_def step_subcloud_ids_def List.map_filter_def empty_table_def)

lemma ex_start: "about_to_start ex_sys"
  using ex_steps_wf
  by (simp add: about_to_start_def ex_sys_def ex_orch_world_def ex_defs step_rows_def ex_step_def)

lemma ex_turn_step: "(orch_step ex_orch_env (patch_orch_thread ex_orch_env))\<^sup>*\<^sup>* ex_sys (ex_turn ex_sys)"
proof -
  have "\<not> being_deleted (oc_update_type (patch_orch_thread ex_orch_env)) (sys_db ex_sys)"
    by (simp add: being_deleted_def ex_sys_def ex_orch_world_def ex_defs query_first_def
        patch_orch_thread_def)
  from orch_step.turn [OF this prod.collapse [symmetric]] show ?thesis
    unfolding ex_turn_def by (rule r_into_rtranclp)
qed

lemma ex_turn_states: "map sp_state (step_rows (sys_db (ex_turn ex_sys))) =
    [STRATEGY_STATE_PRE_CHECK, STRATEGY_STATE_INITIAL]"
  by code_simp

theorem stage_discipline_witness:
  "stages_in_order (sys_db (ex_turn ex_sys)) \<and>
   map sp_state (step_rows (sys_db (ex_turn ex_sys))) = [STRATEGY_STATE_PRE_CHECK, STRATEGY_STATE_INITIAL]"
  using stage_discipline [OF ex_never_stopped, of ex_sys "ex_turn ex_sys"] ex_start ex_turn_step
    ex_turn_states by blast

text \<open>C2: While a patch, kubernetes or kube rootca strategy is executed, a step that is being updated is
  driven by one greenthread at a time, and every greenthread finds the step as it was when the
  greenthread was started, so that none overwrites what another has recorded; the exceptions are
  steps at their end, for which greenthreads may be started as well, and steps that have gone with
  their subcloud.\<close>

theorem one_greenthread:
  assumes "never_stopped env"
  shows "(about_to_start p \<longrightarrow> (orch_step env (patch_orch_thread env))\<^sup>*\<^sup>* p p' \<longrightarrow> one_driver p') \<and>
    (about_to_start k \<longrightarrow> (orch_step env (kube_upgrade_orch_thread env))\<^sup>*\<^sup>* k k' \<longrightarrow> one_driver k') \<and>
    (about_to_start r \<longrightarrow> (orch_step env (kube_rootca_update_orch_thread env))\<^sup>*\<^sup>* r r' \<longrightarrow> one_driver r')"
  using patch.steps_coupled [OF _ assms, of env p p'] kube.steps_coupled [OF _ assms, of env k k']
    rootca.steps_coupled [OF _ assms, of env r r'] start_coupled [of p] start_coupled [of k]
    start_coupled [of r] coupled_one_driver [of p'] coupled_one_driver [of k'] coupled_one_driver [of r']
  by simp

lemma ex_driven: "map (\<lambda>v. sp_subcloud_id (fst v)) (driven (ex_turn ex_sys)) = [Some 1]"
  by code_simp

theorem one_greenthread_witness:
  "\<exists>v. PerformAction v \<in> set (sy_jobs (ex_turn ex_sys)) \<and> sp_subcloud_id (fst v) = Some 1 \<and>
     active (sp_state (fst v)) \<and> in_charge (sys_db (ex_turn ex_sys)) v"
proof -
  obtain v where "v \<in> set (driven (ex_turn ex_sys))" "sp_subcloud_id (fst v) = Some 1"
    using ex_driven by (auto simp: map_eq_Cons_conv)
  then have v: "PerformAction v \<in> set (sy_jobs (ex_turn ex_sys))" "active (sp_state (fst v))"
    by (auto simp: driven_def split: job.splits if_splits)
  have "one_driver (ex_turn ex_sys)"
    using one_greenthread [OF ex_never_stopped, of ex_sys "ex_turn ex_sys"] ex_start ex_turn_step by blast
  then show ?thesis using v \<open>sp_subcloud_id (fst v) = Some 1\<close> unfolding one_driver_def by blast
qed




text \<open>C3: The thread, its database and its greenthreads refine the machine of \<open>DC_Progress\<close>: what
  happens in one step of the whole system is a sequence of transitions of the machine, where a
  step begins only when the lower stages are done and moves on as its table allows.\<close>

theorem orch_refines_progress:
  assumes "never_stopped env" and "coupled s" and "orch_step env (patch_orch_thread env) s s'"
  shows "coupled s' \<and>
    (progress_step STRATEGY_STATE_PRE_CHECK patch_nexts)\<^sup>*\<^sup>* (progress_of s) (progress_of s')"
proof -
  from assms(3) have "(orch_step env (patch_orch_thread env))\<^sup>*\<^sup>* s s'" by blast
  from patch.steps_coupled [OF this assms(1,2)] show ?thesis .
qed

theorem orch_refines_progress_witness:
  "(progress_step STRATEGY_STATE_PRE_CHECK patch_nexts)\<^sup>*\<^sup>*
     (progress_of (ex_sys :: (unit, job_data) sys)) (progress_of (ex_turn ex_sys))"
proof -
  have "\<not> being_deleted (oc_update_type (patch_orch_thread ex_orch_env)) (sys_db ex_sys)"
    by (simp add: being_deleted_def ex_sys_def ex_orch_world_def ex_defs query_first_def
        patch_orch_thread_def)
  from orch_step.turn [OF this prod.collapse [symmetric]]
  have "orch_step ex_orch_env (patch_orch_thread ex_orch_env) ex_sys (ex_turn ex_sys)"
    unfolding ex_turn_def .
  from orch_refines_progress [OF ex_never_stopped start_coupled [OF ex_start] this]
  show ?thesis by blast
qed

end
