(* ===== verification/DC_Firmware.thy ===== *)
theory DC_Firmware
  imports DC_Audits DC_OrchThread
begin

text \<open>
  Firmware orchestration: \<open>states/firmware\<close> and \<open>fw_update_orch_thread.py\<close>. A subcloud gets the
  device images that are applied on the system controller, has its VIM build and apply a strategy,
  and is checked at the end. The state operators and the class of the thread are given; the
  device-image calls of sysinv that change a subcloud are the fields of \<open>fw_env\<close>.
\<close>

record 'x fw_env =
  fw_audit :: "'x audit_env"
  fw_remove_device_image :: "string \<Rightarrow> string \<Rightarrow> label list list \<Rightarrow> ('x, unit) io"
  fw_upload_device_image :: "string \<Rightarrow> string \<Rightarrow> (string \<times> string) list \<Rightarrow> ('x, unit) io"
  fw_apply_device_image :: "string \<Rightarrow> string \<Rightarrow> label list list \<Rightarrow> ('x, unit) io"

abbreviation fw_orch :: "'x fw_env \<Rightarrow> 'x orch_env" where
  "fw_orch env \<equiv> au_orch (fw_audit env)"

text \<open>A query with a client of its own.\<close>

definition sysinv_query ::
  "'x orch_env \<Rightarrow> string \<Rightarrow> ('x, 'a) io \<Rightarrow> ('x world, 'a) io" where
  "sysinv_query env region q = seq (get_sysinv_client env region) (ask q)"

definition sysinv_action ::
  "'x orch_env \<Rightarrow> string \<Rightarrow> string \<Rightarrow> ('x, 'a) io \<Rightarrow> ('x world, 'a) io" where
  "sysinv_action env region what m =
     seq (get_sysinv_client env region) (call (SysinvAction region what) m)"

section \<open>\<open>firmware/utils.py\<close>\<close>

definition DEVICE_IMAGE_UPDATE_COMPLETED :: string where
  "DEVICE_IMAGE_UPDATE_COMPLETED = ''completed''"
definition DEVICE_IMAGE_VAULT_DIR :: string where
  "DEVICE_IMAGE_VAULT_DIR = ''/opt/dc-vault/device_images''"

text \<open>The first enabled device the image is for.\<close>

fun matching_device ::
  "device_image \<Rightarrow> pci_device list \<Rightarrow> device_label list \<Rightarrow> exn + pci_device option" where
  "matching_device im [] labels = Inr None"
| "matching_device im (d # ds) labels =
     (if \<not> apply_to_all_devices im \<and> labels = [] then Inr None
      else case (if apply_to_all_devices im then Inr True else is_device_eligible labels im d) of
        Inl e \<Rightarrow> Inl e
      | Inr eligible \<Rightarrow>
          if eligible \<and> di_pci_vendor im = pd_pvendor_id d \<and> di_pci_device im = pd_pdevice_id d
          then Inr (Some d)
          else matching_device im ds labels)"

definition get_device_image_filename :: "device_image \<Rightarrow> string" where
  "get_device_image_filename im =
     di_bitstream_type im @ ''-'' @ di_pci_vendor im @ ''-'' @ di_pci_device im @ ''-'' @ di_uuid im @ ''.bit''"

definition determine_image_file :: "device_image \<Rightarrow> string" where
  "determine_image_file im = path_join DEVICE_IMAGE_VAULT_DIR (get_device_image_filename im)"

definition field :: "string \<Rightarrow> ('a \<Rightarrow> string) \<Rightarrow> 'a option \<Rightarrow> (string \<times> string) list" where
  "field k str v = (case v of None \<Rightarrow> [] | Some x \<Rightarrow> [(k, str x)])"

definition str_bool :: "bool \<Rightarrow> string" where
  "str_bool b = (if b then ''True'' else ''False'')"

definition determine_image_fields :: "device_image \<Rightarrow> (string \<times> string) list" where
  "determine_image_fields im =
     [(''uuid'', di_uuid im), (''bitstream_type'', di_bitstream_type im),
      (''pci_vendor'', di_pci_vendor im), (''pci_device'', di_pci_device im)]
     @ field ''bitstream_id'' id (di_bitstream_id im) @ field ''key_signature'' id (di_key_signature im)
     @ field ''revoke_key_id'' show_nat (di_revoke_key_id im) @ field ''name'' id (di_name im)
     @ field ''description'' id (di_description im) @ field ''image_version'' id (di_image_version im)
     @ field ''bmc'' str_bool (di_bmc im) @ field ''retimer_included'' str_bool (di_retimer_included im)"

section \<open>\<open>firmware/importing_firmware.py\<close>\<close>

definition image_in_list :: "device_image \<Rightarrow> device_image list \<Rightarrow> bool" where
  "image_in_list im ims = list_ex (\<lambda>i. di_uuid i = di_uuid im) ims"

text \<open>The labels of an image that are not empty; an image without labels cannot be iterated over.\<close>

definition image_labels :: "device_image \<Rightarrow> ('s, label list list) io" where
  "image_labels im =
     (case di_applied_labels im of None \<Rightarrow> raise TypeError | Some ls \<Rightarrow> ret (filter (\<lambda>l. l \<noteq> []) ls))"

definition remove_image :: "'x fw_env \<Rightarrow> string \<Rightarrow> device_image \<Rightarrow> ('x world, unit) io" where
  "remove_image env region im =
     bnd (image_labels im) (\<lambda>labels.
       sysinv_action (fw_orch env) region (''remove_device_image '' @ di_uuid im)
         (fw_remove_device_image env region (di_uuid im) labels))"

definition upload_image :: "'x fw_env \<Rightarrow> string \<Rightarrow> device_image \<Rightarrow> ('x world, unit) io" where
  "upload_image env region im =
     (let file = determine_image_file im
      in bnd (gets (\<lambda>w. isfile file (w_fs w))) (\<lambda>there.
           if \<not> there then raise (PyException (''File does not exist: '' @ file))
           else sysinv_action (fw_orch env) region (''upload_device_image '' @ di_uuid im)
                  (fw_upload_device_image env region file (determine_image_fields im))))"

definition apply_image :: "'x fw_env \<Rightarrow> string \<Rightarrow> device_image \<Rightarrow> ('x world, unit) io" where
  "apply_image env region im =
     bnd (image_labels im) (\<lambda>labels.
       sysinv_action (fw_orch env) region (''apply_device_image '' @ di_uuid im)
         (fw_apply_device_image env region (di_uuid im) labels))"

definition has_image_state :: "pci_device \<Rightarrow> device_image \<Rightarrow> device_image_state list \<Rightarrow> bool" where
  "has_image_state d im ss =
     list_ex (\<lambda>s. is_pcidevice_uuid s = pd_uuid d \<and> is_image_uuid s = di_uuid im) ss"

definition import_image ::
  "'x fw_env \<Rightarrow> string \<Rightarrow> device_image list \<Rightarrow> pci_device list \<Rightarrow> device_label list \<Rightarrow>
   device_image_state list \<Rightarrow> device_image \<Rightarrow> ('x world, unit) io" where
  "import_image env region present devices labels states im =
     (case matching_device im devices labels of
        Inl e \<Rightarrow> raise e
      | Inr None \<Rightarrow> ret ()
      | Inr (Some d) \<Rightarrow>
          seq (unless_io (image_in_list im present) (upload_image env region im))
            (unless_io (has_image_state d im states) (apply_image env region im)))"

fun fw_enabled_devices ::
  "'x fw_env \<Rightarrow> string \<Rightarrow> string list \<Rightarrow> ('x world, pci_device list) io" where
  "fw_enabled_devices env region [] = ret []"
| "fw_enabled_devices env region (h # hs) =
     bnd (sysinv_query (fw_orch env) region (au_host_devices (fw_audit env) region h)) (\<lambda>ds.
     bnd (fw_enabled_devices env region hs) (\<lambda>es. ret (filter pd_enabled ds @ es)))"

definition fw_query ::
  "'x fw_env \<Rightarrow> string \<Rightarrow> ('x audit_env \<Rightarrow> string \<Rightarrow> ('x, 'a) io) \<Rightarrow> ('x world, 'a) io" where
  "fw_query env region m = sysinv_query (fw_orch env) region (m (fw_audit env) region)"

definition importing_firmware_state ::
  "'x fw_env \<Rightarrow> step_view \<Rightarrow> ('x world, step_state) prog" where
  "importing_firmware_state env v = run
       (bnd (fw_query env DEFAULT_REGION_NAME au_device_images) (\<lambda>controller_images.
        bnd (get_region_name v) (\<lambda>region.
        bnd (fw_query env region au_device_images) (\<lambda>subcloud_images.
        bnd (fw_query env region au_device_labels) (\<lambda>labels.
        seq (for_each (\<lambda>im. unless_io (image_in_list im (filter di_applied controller_images))
               (remove_image env region im)) (filter di_applied subcloud_images))
       (bnd (fw_query env region au_hosts) (\<lambda>hosts.
        bnd (fw_enabled_devices env region hosts) (\<lambda>devices.
          if devices = [] then ret STRATEGY_STATE_CREATING_FW_UPDATE_STRATEGY
          else bnd (fw_query env region au_device_image_states) (\<lambda>states.
            seq (for_each (import_image env region subcloud_images devices labels states)
                   (filter di_applied controller_images))
              (ret STRATEGY_STATE_CREATING_FW_UPDATE_STRATEGY))))))))))"

section \<open>\<open>firmware/creating_vim_strategy.py\<close>\<close>

text \<open>The options of the subcloud, with two workers in parallel whatever they say.\<close>

definition fw_create_vim_strategy ::
  "'x orch_env \<Rightarrow> string \<Rightarrow> step_view \<Rightarrow> string \<Rightarrow> ('x world, vim_strategy) io" where
  "fw_create_vim_strategy env name v region =
     bnd (db_io (get_sw_update_opts admin_context True (sp_subcloud_id (fst v)))) (\<lambda>opts.
       seq (get_vim_client env region)
         (bnd (vim_create_strategy env region name (opts\<lparr>uo_max_parallel_workers := 2\<rparr>) []) check_building))"

definition creating_fw_vim_strategy :: "'x orch_env \<Rightarrow> 'x create_class" where
  "creating_fw_vim_strategy env =
     (default_create_class env STRATEGY_STATE_APPLYING_FW_UPDATE_STRATEGY VIM_STRATEGY_NAME_FW_UPDATE)
       \<lparr>cv_create := fw_create_vim_strategy env (vim_strategy_name_str VIM_STRATEGY_NAME_FW_UPDATE)\<rparr>"

section \<open>\<open>firmware/applying_vim_strategy.py\<close>\<close>

definition FW_STRATEGY :: string where
  "FW_STRATEGY = vim_strategy_name_str VIM_STRATEGY_NAME_FW_UPDATE"

definition FW_MAX_FAILED_QUERIES :: nat where "FW_MAX_FAILED_QUERIES = 30"
definition FW_MAX_WAIT_ATTEMPTS :: nat where "FW_MAX_WAIT_ATTEMPTS = 60"
definition FW_WAIT_INTERVAL :: nat where "FW_WAIT_INTERVAL = 60"

definition fw_apply_observed ::
  "step_view \<Rightarrow> nat \<Rightarrow> string \<Rightarrow> vim_strategy option \<Rightarrow> ('x world, (apply_locals, unit) turn) io" where
  "fw_apply_observed v wait_count last_details observed =
     (case observed of
        None \<Rightarrow> raise (PyException ''Firmware strategy disappeared while applying'')
      | Some s \<Rightarrow>
          if vs_state s = VIM_STATE_APPLYING then
            let new_details = progress_details s
            in if new_details \<noteq> last_details
               then seq (db_io (strategy_step_update admin_context (sp_subcloud_id (fst v))
                           (no_step_values\<lparr>pv_details := Some new_details\<rparr>)))
                      (ret (Again (0, 0, new_details)))
               else ret (Again (wait_count, 0, last_details))
          else if vs_state s = VIM_STATE_APPLIED then ret (Leave ())
          else if vs_state s \<in> {VIM_STATE_APPLY_FAILED, VIM_STATE_APPLY_TIMEOUT} then
            raise (PyException (''Firmware strategy apply failed. '' @ vim_state_str (vs_state s) @
              ''. '' @ vs_apply_reason s))
          else raise (PyException (''Firmware strategy apply failed. '' @ ''Unexpected State: '' @
                 vim_state_str (vs_state s) @ ''.'')))"

definition fw_apply_turn ::
  "'x orch_env \<Rightarrow> step_view \<Rightarrow> string \<Rightarrow> apply_locals \<Rightarrow> ('x world, (apply_locals, unit) turn) io" where
  "fw_apply_turn env v region = (\<lambda>(wait_count, get_fail_count, last_details).
     seq (check_stopped env)
       (if FW_MAX_WAIT_ATTEMPTS \<le> Suc wait_count then
          raise (PyException ''Timeout applying firmware strategy.'')
        else seq (sleep FW_WAIT_INTERVAL)
          (try_else (get_strategy env region FW_STRATEGY False)
             (\<lambda>_. if FW_MAX_FAILED_QUERIES \<le> Suc get_fail_count
                  then raise (PyException (''Timeout during recovery of apply '' @ ''firmware strategy.''))
                  else ret (Again (Suc wait_count, Suc get_fail_count, last_details)))
             (fw_apply_observed v (Suc wait_count) last_details))))"

text \<open>True when there is a strategy to wait for.\<close>

definition fw_start_apply :: "'x orch_env \<Rightarrow> string \<Rightarrow> ('x world, bool) io" where
  "fw_start_apply env region =
     bnd (get_strategy env region FW_STRATEGY False) (\<lambda>s.
       case s of
         None \<Rightarrow> ret False
       | Some s \<Rightarrow>
           if vs_state s = VIM_STATE_READY_TO_APPLY then
             seq (get_vim_client env region)
               (bnd (vim_apply_strategy env region FW_STRATEGY) (\<lambda>s.
                  if vs_state s = VIM_STATE_APPLYING then ret True
                  else raise (PyException (''VIM strategy apply failed - '' @
                         ''unexpected strategy state '' @ vim_state_str (vs_state s)))))
           else ret True)"

definition applying_fw_vim_strategy_state ::
  "'x orch_env \<Rightarrow> step_view \<Rightarrow> ('x world, step_state) prog" where
  "applying_fw_vim_strategy_state env v =
     bndp (run (get_region_name v)) (\<lambda>region.
     bndp (run (fw_start_apply env region)) (\<lambda>started.
       seqp (if started then io_loop (fw_apply_turn env v region) (0, 0, []) else run (ret ()))
         (run (ret STRATEGY_STATE_FINISHING_FW_UPDATE))))"

section \<open>\<open>firmware/finishing_fw_update.py\<close>\<close>

definition FINISH_MAX_FAILED_QUERIES :: nat where "FINISH_MAX_FAILED_QUERIES = 30"
definition FINISH_FAILED_SLEEP :: nat where "FINISH_FAILED_SLEEP = 60"

definition align_subcloud_status :: "'x fw_env \<Rightarrow> step_view \<Rightarrow> ('x world, unit) io" where
  "align_subcloud_status env v =
     bnd (get_region_name v) (\<lambda>name.
       update_sync_status (fw_audit env) name ENDPOINT_TYPE_FIRMWARE SYNC_STATUS_IN_SYNC)"

text \<open>The enabled devices of the hosts are added to \<open>devices\<close>; when a query fails, those found so
  far stay there.\<close>

fun add_enabled_devices ::
  "'x fw_env \<Rightarrow> string \<Rightarrow> string list \<Rightarrow> pci_device list \<Rightarrow> ('x world, pci_device list \<times> bool) io" where
  "add_enabled_devices env region [] devices = ret (devices, True)"
| "add_enabled_devices env region (h # hs) devices =
     try_else (sysinv_query (fw_orch env) region (au_host_devices (fw_audit env) region h))
       (\<lambda>_. ret (devices, False))
       (\<lambda>ds. add_enabled_devices env region hs (devices @ filter pd_enabled ds))"

definition try_again ::
  "string \<Rightarrow> nat \<Rightarrow> (nat \<Rightarrow> ('l, 'a) turn) \<Rightarrow> ('x world, ('l, 'a) turn) io" where
  "try_again message fail_counter again =
     (if FINISH_MAX_FAILED_QUERIES \<le> fail_counter then raise (PyException message)
      else seq (sleep FINISH_FAILED_SLEEP) (ret (again (Suc fail_counter))))"

definition devices_turn ::
  "'x fw_env \<Rightarrow> string \<Rightarrow> nat \<times> pci_device list \<Rightarrow>
   ('x world, (nat \<times> pci_device list, pci_device list) turn) io" where
  "devices_turn env region = (\<lambda>(fail_counter, devices).
     seq (check_stopped (fw_orch env))
       (bnd (try_else (fw_query env region au_hosts)
              (\<lambda>_. ret (devices, False))
              (\<lambda>hosts. add_enabled_devices env region hosts devices)) (\<lambda>(devices, complete).
          if complete then ret (Leave devices)
          else try_again ''Timeout waiting to query subcloud hosts'' fail_counter
                 (\<lambda>n. Again (n, devices)))))"

definition images_turn ::
  "'x fw_env \<Rightarrow> string \<Rightarrow> nat \<Rightarrow>
   ('x world, (nat, device_image list \<times> device_image_state list) turn) io" where
  "images_turn env region fail_counter =
     seq (check_stopped (fw_orch env))
       (try_else
          (bnd (fw_query env region au_device_images) (\<lambda>images.
           bnd (fw_query env region au_device_image_states) (\<lambda>states.
             ret (filter di_applied images, states))))
          (\<lambda>_. try_again ''Timeout waiting to query subcloud device image info'' fail_counter Again)
          (\<lambda>x. ret (Leave x)))"

definition failed_image_states ::
  "pci_device list \<Rightarrow> device_image list \<Rightarrow> device_image_state list \<Rightarrow> device_image_state list" where
  "failed_image_states devices images states =
     filter (\<lambda>s. device_image_state.is_status s \<noteq> DEVICE_IMAGE_UPDATE_COMPLETED \<and>
        is_pcidevice_uuid s \<in> pd_uuid ` set devices \<and> is_image_uuid s \<in> di_uuid ` set images) states"

definition finishing_fw_update_state ::
  "'x fw_env \<Rightarrow> step_view \<Rightarrow> ('x world, step_state) prog" where
  "finishing_fw_update_state env v =
     (let finish = seq (align_subcloud_status env v) (ret STRATEGY_STATE_COMPLETE)
      in bndp (run (get_region_name v)) (\<lambda>region.
         bndp (io_loop (devices_turn env region) (0, [])) (\<lambda>devices.
           if devices = [] then run finish
           else bndp (io_loop (images_turn env region) 0) (\<lambda>(images, states).
             run (if failed_image_states devices images states \<noteq> []
                  then raise (PyException ''Not all images applied successfully'')
                  else finish)))))"

section \<open>\<open>fw_update_orch_thread.py\<close>\<close>

definition fw_state_operators :: "'x fw_env \<Rightarrow> step_state \<Rightarrow> ('x, unit) operator option" where
  "fw_state_operators env st =
     (if st = STRATEGY_STATE_IMPORTING_FIRMWARE then
        Some (\<lambda>_ _. importing_firmware_state env)
      else if st = STRATEGY_STATE_CREATING_FW_UPDATE_STRATEGY then
        Some (\<lambda>_ _. creating_vim_strategy_state (fw_orch env) (creating_fw_vim_strategy (fw_orch env)))
      else if st = STRATEGY_STATE_APPLYING_FW_UPDATE_STRATEGY then
        Some (\<lambda>_ _. applying_fw_vim_strategy_state (fw_orch env))
      else if st = STRATEGY_STATE_FINISHING_FW_UPDATE then
        Some (\<lambda>_ _. finishing_fw_update_state env)
      else None)"

definition fw_update_orch_thread :: "'x fw_env \<Rightarrow> ('x, unit) orch_class" where
  "fw_update_orch_thread env =
     \<lparr>oc_update_type = SW_UPDATE_TYPE_FIRMWARE,
      oc_vim_strategy_name = Some VIM_STRATEGY_NAME_FW_UPDATE,
      oc_starting_state = STRATEGY_STATE_IMPORTING_FIRMWARE,
      oc_state_operators = fw_state_operators env,
      oc_pre_apply_setup = ret None,
      oc_audit = Some ''trigger_firmware_audit'',
      oc_before_delete = ret ()\<rparr>"

end
