(* ===== verification/DC_PrestageStates.thy ===== *)
theory DC_PrestageStates
  imports "HOL-Library.AList" DC_Deploy DC_OrchThread
begin

text \<open>
  Running a prestage: the operations of \<open>dcmanager/common/prestage.py\<close> that run playbooks, the
  stand-alone prestage of the subcloud manager, and the states of an orchestrated prestage
  (\<open>states/prestage/states.py\<close>, \<open>prestage_orch_thread.py\<close>). A failed preparation leaves a file
  behind that makes the preparations of the other subclouds fail at once.
\<close>

record 'x prestage_run_env = "'x prestage_env" +
  pr_playbook_timeout :: nat
  pr_listdir :: "string \<Rightarrow> ('x, string list) io"
  pr_open :: "string \<Rightarrow> ('x, unit) io"
  pr_run_playbook :: "string \<Rightarrow> string list \<Rightarrow> nat \<Rightarrow> ('x, unit) io"

record prestage_payload =
  pp_sysadmin_password :: jval
  pp_oam_floating_ip :: string

section \<open>Files and names\<close>

definition DEPLOY_DIR :: string where "DEPLOY_DIR = ''/opt/platform/deploy''"
definition PRESTAGING_REPO_DIR :: string where "PRESTAGING_REPO_DIR = ''/var/run/prestaging_repo''"

definition DEPLOY_BASE_DIR :: "('x, 'y) prestage_env_scheme \<Rightarrow> string" where
  "DEPLOY_BASE_DIR env = DEPLOY_DIR @ ''/'' @ pe_sw_version env"

definition PRESTAGE_PREPARATION_COMPLETED_FILE :: string where
  "PRESTAGE_PREPARATION_COMPLETED_FILE = path_join PRESTAGING_REPO_DIR ''.prestage_preparation_completed''"

definition PRESTAGE_PREPARATION_FAILED_FILE :: "('x, 'y) prestage_env_scheme \<Rightarrow> string" where
  "PRESTAGE_PREPARATION_FAILED_FILE env = path_join (DEPLOY_BASE_DIR env) ''.prestage_preparation_failed''"

definition ANSIBLE_PREPARE_PRESTAGE_PACKAGES_PLAYBOOK :: string where
  "ANSIBLE_PREPARE_PRESTAGE_PACKAGES_PLAYBOOK =
     ''/usr/share/ansible/stx-ansible/playbooks/prepare_prestage_packages.yml''"
definition ANSIBLE_PRESTAGE_SUBCLOUD_PACKAGES_PLAYBOOK :: string where
  "ANSIBLE_PRESTAGE_SUBCLOUD_PACKAGES_PLAYBOOK =
     ''/usr/share/ansible/stx-ansible/playbooks/prestage_sw_packages.yml''"
definition ANSIBLE_PRESTAGE_SUBCLOUD_IMAGES_PLAYBOOK :: string where
  "ANSIBLE_PRESTAGE_SUBCLOUD_IMAGES_PLAYBOOK =
     ''/usr/share/ansible/stx-ansible/playbooks/prestage_images.yml''"
definition ANSIBLE_PRESTAGE_INVENTORY_SUFFIX :: string where
  "ANSIBLE_PRESTAGE_INVENTORY_SUFFIX = ''_prestage_inventory.yml''"
definition LAST_SW_VERSION_IN_CENTOS :: string where "LAST_SW_VERSION_IN_CENTOS = ''22.06''"
definition PRESTAGE_PREPARE_TIMEOUT :: nat where "PRESTAGE_PREPARE_TIMEOUT = 900"

definition path_exists :: "string \<Rightarrow> fs \<Rightarrow> bool" where
  "path_exists p f \<longleftrightarrow> isfile p f \<or> isdir p f"

text \<open>\<open>os.remove\<close>, which refuses a directory.\<close>

definition os_remove :: "string \<Rightarrow> (fs, unit) io" where
  "os_remove p = bnd (gets (isfile p)) (\<lambda>there.
     if there then remove_file p else raise (IOError (''Is a directory: '' @ p)))"

definition cleanup_failed_preparation :: "('x, 'y) prestage_env_scheme \<Rightarrow> ('x world, unit) io" where
  "cleanup_failed_preparation env =
     (let file = PRESTAGE_PREPARATION_FAILED_FILE env
      in bnd (fs_io (gets (path_exists file))) (\<lambda>there. when_io there (fs_io (os_remove file))))"

text \<open>The order of strings by code points.\<close>

fun str_less :: "string \<Rightarrow> string \<Rightarrow> bool" where
  "str_less _ [] = False"
| "str_less [] (y # ys) = True"
| "str_less (x # xs) (y # ys) =
     ((of_char x :: nat) < of_char y \<or> x = y \<and> str_less xs ys)"

text \<open>\<open>try: ... finally: ...\<close>\<close>

definition try_finally :: "('s, 'a) io \<Rightarrow> ('s, unit) io \<Rightarrow> ('s, 'a) io" where
  "try_finally m f = try_else m (\<lambda>e. seq f (raise e)) (\<lambda>x. seq f (ret x))"

section \<open>Running the playbooks\<close>

definition create_subcloud_inventory_with_admin_creds ::
  "'x prestage_run_env \<Rightarrow> string \<Rightarrow> string \<Rightarrow> string \<Rightarrow> string \<Rightarrow> ('x world, unit) io" where
  "create_subcloud_inventory_with_admin_creds env name inventory_file address pass =
     seq (delete_subcloud_inventory inventory_file)
    (seq (ask (pr_open env inventory_file))
      (fill_file inventory_file
         (concat (map (\<lambda>l. l @ [CHR 0x0A])
           [''---'', ''all:'', ''  vars:'', ''    ansible_ssh_user: sysadmin'',
            ''    ansible_ssh_pass: '' @ pass, ''    ansible_become_pass: '' @ pass,
            ''    ansible_ssh_extra_args: '' @ [CHR 0x22] @ ''-o UserKnownHostsFile=/dev/null'' @ [CHR 0x22],
            ''  hosts:'', ''    '' @ name @ '':'', ''      ansible_host: '' @ address]))))"

definition decoded :: "jval \<Rightarrow> exn + string" where
  "decoded p =
     (case p of
        JStr s \<Rightarrow> (case decode_password s of Inl e \<Rightarrow> Inl e | Inr bs \<Rightarrow> Inr (map char_of bs))
      | _ \<Rightarrow> Inl TypeError)"

definition is_timeout :: "exn \<Rightarrow> bool" where
  "is_timeout e = (case e of PlaybookExecutionTimeout _ _ \<Rightarrow> True | _ \<Rightarrow> False)"

definition prestage_failed :: "string \<Rightarrow> exn \<Rightarrow> string \<Rightarrow> string \<Rightarrow> exn" where
  "prestage_failed phase e name log_file =
     PyException (''Prestaging '' @ phase @ '' failed'' @ (if is_timeout e then '' (TIMEOUT)'' else []) @
       '' for subcloud '' @ name @ '','' @ '' check individual log at '' @ log_file @
       '' for detailed output.'')"

definition run_ansible ::
  "'x prestage_run_env \<Rightarrow> request_context option \<Rightarrow> string list \<Rightarrow> string \<Rightarrow> subcloud \<Rightarrow> deploy_state \<Rightarrow>
   prestage_payload \<Rightarrow> string \<Rightarrow> nat \<Rightarrow> ('x world, unit) io" where
  "run_ansible env ctx command phase sc st payload inventory timeout =
     (let timeout_seconds = (if timeout = 0 then pr_playbook_timeout env else timeout);
          log_file = log_file_of (sc_name sc)
      in seq (db_io (set_deploy_status ctx (sc_id sc) st))
        (bnd (of_sum (decoded (pp_sysadmin_password payload))) (\<lambda>pass.
           seq (create_subcloud_inventory_with_admin_creds env (sc_name sc) inventory
                  (pp_oam_floating_ip payload) pass)
             (try_finally
                (try_catch (call (Playbook command) (pr_run_playbook env log_file command timeout_seconds))
                   (\<lambda>e. on_playbook_failure (raise (prestage_failed phase e (sc_name sc) log_file)) e))
                (delete_subcloud_inventory inventory)))))"

definition prestage_command :: "string \<Rightarrow> string \<Rightarrow> string \<Rightarrow> string list" where
  "prestage_command playbook inventory extra_vars =
     [''ansible-playbook'', playbook, ''--inventory'', inventory, ''--extra-vars'', extra_vars]"

definition prestage_inventory :: "subcloud \<Rightarrow> string" where
  "prestage_inventory sc = get_ansible_filename (sc_name sc) ANSIBLE_PRESTAGE_INVENTORY_SUFFIX"

definition sync_run_prestage_prepare_packages ::
  "'x prestage_run_env \<Rightarrow> request_context option \<Rightarrow> subcloud \<Rightarrow> prestage_payload \<Rightarrow> ('x world, unit) io" where
  "sync_run_prestage_prepare_packages env ctx sc payload =
     (let file = PRESTAGE_PREPARATION_FAILED_FILE env;
          inventory = prestage_inventory sc;
          extra_vars = ''current_software_version='' @ pe_sw_version env @
            '' previous_software_version='' @ sc_software_version sc
      in bnd (fs_io (gets (path_exists file))) (\<lambda>there.
           if there then raise (PyException (''Aborted due to previous '' @
                deploy_state_str PRESTAGE_STATE_PREPARE @ '' failure''))
           else seq (db_io (set_deploy_status ctx (sc_id sc) PRESTAGE_STATE_PREPARE))
             (try_catch
               (run_ansible env ctx
                  (prestage_command ANSIBLE_PREPARE_PRESTAGE_PACKAGES_PLAYBOOK inventory extra_vars)
                  ''prepare'' sc PRESTAGE_STATE_PREPARE payload inventory PRESTAGE_PREPARE_TIMEOUT)
               (\<lambda>e. seq (ask (pr_open env file))
                 (seq (fs_io (modify (\<lambda>f. f\<lparr>fs_files := (fs_files f)(file \<mapsto>
                          case fs_files f file of None \<Rightarrow> [] | Some t \<Rightarrow> t)\<rparr>)))
                   (raise e))))))"

definition prestage_prepare ::
  "'x prestage_run_env \<Rightarrow> request_context option \<Rightarrow> subcloud \<Rightarrow> prestage_payload \<Rightarrow> ('x world, unit) io" where
  "prestage_prepare env ctx sc payload =
     (if str_less LAST_SW_VERSION_IN_CENTOS (pe_sw_version env) then ret ()
      else if is_upgrade env (sc_software_version sc) then
        bnd (fs_io (gets (path_exists PRESTAGE_PREPARATION_COMPLETED_FILE))) (\<lambda>there.
          unless_io there (sync_run_prestage_prepare_packages env ctx sc payload))
      else ret ())"

definition prestage_packages ::
  "'x prestage_run_env \<Rightarrow> request_context option \<Rightarrow> subcloud \<Rightarrow> prestage_payload \<Rightarrow> ('x world, unit) io" where
  "prestage_packages env ctx sc payload =
     run_ansible env ctx
       (prestage_command ANSIBLE_PRESTAGE_SUBCLOUD_PACKAGES_PLAYBOOK (prestage_inventory sc)
          (''software_version='' @ pe_sw_version env))
       ''packages'' sc PRESTAGE_STATE_PACKAGES payload (prestage_inventory sc) 0"

text \<open>The images of an upgrade are prestaged only when a list of them has been supplied.\<close>

definition get_filename_by_prefix ::
  "'x prestage_run_env \<Rightarrow> string \<Rightarrow> string \<Rightarrow> ('x world, string option) io" where
  "get_filename_by_prefix env dir pre =
     bnd (ask (pr_listdir env dir)) (\<lambda>fs. ret (find (\<lambda>f. startswith f pre) fs))"

definition prestage_images ::
  "'x prestage_run_env \<Rightarrow> request_context option \<Rightarrow> subcloud \<Rightarrow> prestage_payload \<Rightarrow> ('x world, unit) io" where
  "prestage_images env ctx sc payload =
     (let upgrade = is_upgrade env (sc_software_version sc);
          version = ''software_version='' @ pe_sw_version env;
          go = \<lambda>extra_vars. run_ansible env ctx
            (prestage_command ANSIBLE_PRESTAGE_SUBCLOUD_IMAGES_PLAYBOOK (prestage_inventory sc) extra_vars)
            ''images'' sc PRESTAGE_STATE_IMAGES payload (prestage_inventory sc) (pr_playbook_timeout env * 2)
      in if upgrade then
           bnd (get_filename_by_prefix env (DEPLOY_BASE_DIR env) ''prestage_images'') (\<lambda>found.
             case found of
               None \<Rightarrow> ret ()
             | Some name \<Rightarrow>
                 if name = [] then ret ()
                 else go (version @ '' image_list_file='' @ path_join (DEPLOY_BASE_DIR env) name))
         else go version)"

section \<open>The prestage of one subcloud\<close>

definition prestage_standalone_thread ::
  "'x prestage_run_env \<Rightarrow> request_context option \<Rightarrow> subcloud \<Rightarrow> prestage_payload \<Rightarrow> ('x world, unit) io" where
  "prestage_standalone_thread env ctx sc payload =
     try_catch
       (seq (prestage_prepare env ctx sc payload)
       (seq (prestage_packages env ctx sc payload)
       (seq (prestage_images env ctx sc payload)
         (db_io (prestage_complete ctx (sc_id sc))))))
       (\<lambda>e. seq (db_io (prestage_fail ctx (sc_id sc))) (raise e))"

text \<open>The row for which the thread is started.\<close>

definition prestage_subcloud ::
  "'x prestage_run_env \<Rightarrow> request_context option \<Rightarrow> string \<Rightarrow> ('x world, subcloud) io" where
  "prestage_subcloud env ctx name =
     bnd (try_catch (db_io (subcloud_get_by_name ctx name))
            (\<lambda>e. case e of
               SubcloudNameNotFound _ \<Rightarrow>
                 raise (PrestagePreCheckFailedException (Some name) ''Subcloud does not exist'' False)
             | _ \<Rightarrow> raise e)) (\<lambda>sc.
       seq (cleanup_failed_preparation env) (db_io (prestage_start ctx (sc_id sc))))"

section \<open>The states of an orchestrated prestage\<close>

definition prestage_state ::
  "step_state \<Rightarrow> (step_view \<Rightarrow> ('x world, unit) io) \<Rightarrow> step_view \<Rightarrow> ('x world, step_state) prog" where
  "prestage_state next_state action v =
     (let set = \<lambda>st. (case snd v of None \<Rightarrow> raise AttributeError
            | Some sc \<Rightarrow> seq (db_io (set_deploy_status admin_context (sc_id sc) st)) (ret ()))
      in run (seq
        (try_catch (action v) (\<lambda>e. case e of
            StrategySkippedException _ \<Rightarrow>
              seq (set DEPLOY_STATE_DONE) (raise e)
          | _ \<Rightarrow> seq (set PRESTAGE_STATE_FAILED) (raise e)))
        (ret next_state)))"

definition the_extra_args :: "('x world, extra_args option) io" where
  "the_extra_args = db_io (get_sw_update_strategy_extra_args admin_context None)"

text \<open>\<open>extra_args[k]\<close>\<close>

definition arg_at :: "string \<Rightarrow> extra_args option \<Rightarrow> exn + jval" where
  "arg_at k x =
     (case x of None \<Rightarrow> Inl TypeError
      | Some a \<Rightarrow> (case a k of None \<Rightarrow> Inl KeyError | Some v \<Rightarrow> Inr v))"

definition oam_dict_with :: "string \<Rightarrow> string \<Rightarrow> extra_args \<Rightarrow> exn + jval" where
  "oam_dict_with name ip a =
     (case a ''oam_floating_ip_dict'' of
        None \<Rightarrow> Inr (JDict [(name, ip)])
      | Some (JDict d) \<Rightarrow> Inr (JDict (AList.update name ip d))
      | Some _ \<Rightarrow> Inl TypeError)"

definition update_oam_floating_ip :: "string \<Rightarrow> string \<Rightarrow> ('x world, unit) io" where
  "update_oam_floating_ip name ip =
     bnd the_extra_args (\<lambda>x.
       case x of
         None \<Rightarrow> raise TypeError
       | Some a \<Rightarrow> bnd (of_sum (oam_dict_with name ip a)) (\<lambda>d.
           seq (db_io (sw_update_strategy_update admin_context None None
                  (Some [''oam_floating_ip_dict'' \<mapsto> d])))
             (ret ())))"

definition prestage_pre_check_action ::
  "'x prestage_run_env \<Rightarrow> step_view \<Rightarrow> ('x world, unit) io" where
  "prestage_pre_check_action env v =
     bnd the_extra_args (\<lambda>x.
       if x = None then raise (PyException ''Prestage pre-check: missing all mandatory arguments'')
       else bnd (of_sum (arg_at ''sysadmin_password'' x)) (\<lambda>_.
         bnd (of_sum (arg_at ''force'' x)) (\<lambda>force.
         case snd v of
           None \<Rightarrow> raise AttributeError
         | Some sc \<Rightarrow>
             try_catch
               (bnd (validate_prestage env sc (truthy force)) (\<lambda>ip.
                 seq (update_oam_floating_ip (sc_name sc) ip)
                (seq (when_io (sp_stage (fst v) = 1) (cleanup_failed_preparation env))
                (seq (db_io (prestage_start admin_context (sc_id sc))) (ret ())))))
               (\<lambda>e. case e of
                  PrestagePreCheckFailedException _ _ skip \<Rightarrow>
                    raise (if skip then StrategySkippedException (exn_str e) else e)
                | _ \<Rightarrow> raise e))))"

text \<open>The payload of the later states: the address that the pre-check has stored.\<close>

definition prestage_payload_of :: "string \<Rightarrow> extra_args option \<Rightarrow> exn + prestage_payload" where
  "prestage_payload_of name x =
     (case arg_at ''sysadmin_password'' x of
        Inl e \<Rightarrow> Inl e
      | Inr p \<Rightarrow>
          (case arg_at ''oam_floating_ip_dict'' x of
             Inl e \<Rightarrow> Inl e
           | Inr (JDict d) \<Rightarrow>
               (case map_of d name of
                  None \<Rightarrow> Inl KeyError
                | Some ip \<Rightarrow>
                    (case arg_at ''force'' x of
                       Inl e \<Rightarrow> Inl e
                     | Inr _ \<Rightarrow> Inr \<lparr>pp_sysadmin_password = p, pp_oam_floating_ip = ip\<rparr>))
           | Inr _ \<Rightarrow> Inl TypeError))"

definition with_payload ::
  "(subcloud \<Rightarrow> prestage_payload \<Rightarrow> ('x world, unit) io) \<Rightarrow> step_view \<Rightarrow> ('x world, unit) io" where
  "with_payload f v =
     bnd the_extra_args (\<lambda>x.
       case snd v of
         None \<Rightarrow> raise (case arg_at ''sysadmin_password'' x of Inl e \<Rightarrow> e | Inr _ \<Rightarrow>
                  (case arg_at ''oam_floating_ip_dict'' x of Inl e \<Rightarrow> e | Inr _ \<Rightarrow> AttributeError))
       | Some sc \<Rightarrow> bnd (of_sum (prestage_payload_of (sc_name sc) x)) (f sc))"

definition prestage_prepare_action :: "'x prestage_run_env \<Rightarrow> step_view \<Rightarrow> ('x world, unit) io" where
  "prestage_prepare_action env = with_payload (prestage_prepare env admin_context)"

definition prestage_packages_action :: "'x prestage_run_env \<Rightarrow> step_view \<Rightarrow> ('x world, unit) io" where
  "prestage_packages_action env = with_payload (prestage_packages env admin_context)"

definition prestage_images_action :: "'x prestage_run_env \<Rightarrow> step_view \<Rightarrow> ('x world, unit) io" where
  "prestage_images_action env = with_payload (\<lambda>sc payload.
     seq (prestage_images env admin_context sc payload) (db_io (prestage_complete admin_context (sc_id sc))))"

section \<open>\<open>prestage_orch_thread.py\<close>\<close>

definition prestage_state_operators ::
  "'x prestage_run_env \<Rightarrow> step_state \<Rightarrow> ('x, unit) operator option" where
  "prestage_state_operators env st =
     (if st = STRATEGY_STATE_PRESTAGE_PRE_CHECK then
        Some (\<lambda>_ _. prestage_state STRATEGY_STATE_PRESTAGE_PREPARE (prestage_pre_check_action env))
      else if st = STRATEGY_STATE_PRESTAGE_PREPARE then
        Some (\<lambda>_ _. prestage_state STRATEGY_STATE_PRESTAGE_PACKAGES (prestage_prepare_action env))
      else if st = STRATEGY_STATE_PRESTAGE_PACKAGES then
        Some (\<lambda>_ _. prestage_state STRATEGY_STATE_PRESTAGE_IMAGES (prestage_packages_action env))
      else if st = STRATEGY_STATE_PRESTAGE_IMAGES then
        Some (\<lambda>_ _. prestage_state STRATEGY_STATE_COMPLETE (prestage_images_action env))
      else None)"

definition prestage_orch_thread :: "'x prestage_run_env \<Rightarrow> ('x, unit) orch_class" where
  "prestage_orch_thread env =
     \<lparr>oc_update_type = SW_UPDATE_TYPE_PRESTAGE,
      oc_vim_strategy_name = None,
      oc_starting_state = STRATEGY_STATE_PRESTAGE_PRE_CHECK,
      oc_state_operators = prestage_state_operators env,
      oc_pre_apply_setup = ret None,
      oc_audit = None,
      oc_before_delete = ret ()\<rparr>"

end
