(* ===== verification/DC_UpgradeStart.thy ===== *)
theory DC_UpgradeStart
  imports DC_Deploy DC_OrchThread
begin

text \<open>
  The first part of a software upgrade: what its states act on, and the states up to the start of the
  upgrade on the subcloud.
\<close>

chapter \<open>The environment and the caches\<close>

text \<open>
  What the states of a software upgrade act on: the calls of sysinv, barbican and kubernetes they
  make (\<open>upgrade_env\<close>), and the caches of \<open>states/upgrade/cache\<close> through which the greenthreads
  share what is asked of the system controller. The caches are part of the state outside the
  database (\<open>cached\<close>); a greenthread reads them while no other one is fetching.
\<close>

section \<open>The environment\<close>

record license =
  li_content :: string
  li_error :: string

record system_info =
  si_software_version :: string
  si_system_mode :: string
  si_system_type :: string

text \<open>The caches of \<open>SharedCacheRepository\<close>, one for each type of \<open>cache_specifications.py\<close>.\<close>

record 'y cached =
  ca_license :: "license option"
  ca_system :: "system_info option"
  ca_loads :: "load list option"
  ca_patches :: "patches option"
  ca_ext :: 'y

record 'y upgrade_env =
  ug_orch :: "'y cached orch_env"
  ug_sm :: "'y cached sm_env"
  ug_get_license :: "string \<Rightarrow> ('y cached, license) io"
  ug_install_license :: "string \<Rightarrow> string \<Rightarrow> ('y cached, string) io"
  ug_get_system :: "string \<Rightarrow> ('y cached, system_info) io"
  ug_get_upgrades :: "string \<Rightarrow> ('y cached, string list) io"
  ug_upgrade_start :: "string \<Rightarrow> bool \<Rightarrow> ('y cached, unit) io"
  ug_upgrade_activate :: "string \<Rightarrow> ('y cached, unit) io"
  ug_upgrade_complete :: "string \<Rightarrow> ('y cached, string) io"
  ug_upgrade_host :: "string \<Rightarrow> nat \<Rightarrow> ('y cached, unit) io"
  ug_delete_load :: "string \<Rightarrow> nat \<Rightarrow> ('y cached, unit) io"
  ug_get_load :: "string \<Rightarrow> nat \<Rightarrow> ('y cached, load) io"
  ug_import_load :: "string \<Rightarrow> string \<Rightarrow> string option \<Rightarrow> ('y cached, load) io"
  ug_import_load_metadata :: "string \<Rightarrow> string \<times> string \<times> string \<Rightarrow> ('y cached, load) io"
  ug_get_system_health :: "string \<Rightarrow> ('y cached, string) io"
  ug_scratch_size :: "string \<Rightarrow> string \<Rightarrow> ('y cached, nat option) io"
  ug_get_hosts :: "string \<Rightarrow> ('y cached, host list) io"
  ug_update_certificate :: "string \<Rightarrow> string \<Rightarrow> ('y cached, unit) io"
  ug_certificate_from_secret :: "('y cached, string) io"
  ug_host_bmc_password :: "string \<Rightarrow> ('y cached, string option) io"
  ug_local_session :: "('y cached, unit) io"
  ug_vault_dir :: "string \<Rightarrow> string list option"

definition up_client :: "'y upgrade_env \<Rightarrow> string \<Rightarrow> ('y cached world, unit) io" where
  "up_client env region = get_sysinv_client (ug_orch env) region"

text \<open>A query, and a request for a change, each with a client of its own.\<close>

definition up_query :: "'y upgrade_env \<Rightarrow> string \<Rightarrow> ('y cached, 'a) io \<Rightarrow> ('y cached world, 'a) io" where
  "up_query env region q = seq (up_client env region) (ask q)"

definition up_action ::
  "'y upgrade_env \<Rightarrow> string \<Rightarrow> string \<Rightarrow> ('y cached, 'a) io \<Rightarrow> ('y cached world, 'a) io" where
  "up_action env region what m = seq (up_client env region) (call (SysinvAction region what) m)"

section \<open>\<open>cache/shared_client_cache.py\<close>\<close>

definition CLIENT_READ_MAX_ATTEMPTS :: nat where "CLIENT_READ_MAX_ATTEMPTS = 2"

definition client_read_exception :: "exn \<Rightarrow> bool" where
  "client_read_exception e \<longleftrightarrow> e \<in> {SocketTimeout, ServiceUnavailable}"

text \<open>\<open>retrying.retry\<close> with at most \<open>Suc n\<close> attempts.\<close>

fun read_with_retry :: "nat \<Rightarrow> ('x world, 'a) io \<Rightarrow> ('x world, 'a) io" where
  "read_with_retry 0 fetch = fetch"
| "read_with_retry (Suc n) fetch =
     try_catch fetch (\<lambda>e.
       if client_read_exception e then seq (sleep PLATFORM_RETRY_SLEEP) (read_with_retry n fetch)
       else raise e)"

text \<open>\<open>read\<close>: the data of the cache, which is filled when it is empty.\<close>

definition read_shared ::
  "('c \<Rightarrow> 'a option) \<Rightarrow> ('a \<Rightarrow> 'c \<Rightarrow> 'c) \<Rightarrow> ('c world, 'a) io \<Rightarrow> ('c world, 'a) io" where
  "read_shared cache put_cache fetch =
     bnd (ask (gets cache)) (\<lambda>c.
       case c of
         Some x \<Rightarrow> ret x
       | None \<Rightarrow> bnd (read_with_retry (CLIENT_READ_MAX_ATTEMPTS - 1) fetch) (\<lambda>x.
           seq (ask (modify (put_cache x))) (ret x)))"

section \<open>\<open>cache/cache_specifications.py\<close>\<close>

definition read_license :: "'y upgrade_env \<Rightarrow> ('y cached world, license) io" where
  "read_license env = read_shared ca_license (\<lambda>x c. c\<lparr>ca_license := Some x\<rparr>)
     (up_query env DEFAULT_REGION_NAME (ug_get_license env DEFAULT_REGION_NAME))"

definition read_system :: "'y upgrade_env \<Rightarrow> ('y cached world, system_info) io" where
  "read_system env = read_shared ca_system (\<lambda>x c. c\<lparr>ca_system := Some x\<rparr>)
     (up_query env DEFAULT_REGION_NAME (ug_get_system env DEFAULT_REGION_NAME))"

definition read_loads :: "'y upgrade_env \<Rightarrow> ('y cached world, load list) io" where
  "read_loads env = read_shared ca_loads (\<lambda>x c. c\<lparr>ca_loads := Some x\<rparr>)
     (up_query env DEFAULT_REGION_NAME (oe_get_loads (ug_orch env) DEFAULT_REGION_NAME))"

text \<open>The patches, all of them or those in a state.\<close>

definition read_patches :: "'y upgrade_env \<Rightarrow> string option \<Rightarrow> ('y cached world, patches) io" where
  "read_patches env state =
     bnd (read_shared ca_patches (\<lambda>x c. c\<lparr>ca_patches := Some x\<rparr>)
            (seq (get_client (ug_orch env) ''patching'' DEFAULT_REGION_NAME)
              (ask (oe_patch_query (ug_orch env) DEFAULT_REGION_NAME)))) (\<lambda>ps.
       ret (filter (\<lambda>(i, p). state = None \<or> state = Some (pt_repostate p)) ps))"

text \<open>\<open>initialize_caches\<close> makes new caches, empty ones.\<close>

definition initialize_caches :: "('y cached world, unit) io" where
  "initialize_caches = ask (modify (\<lambda>c. c\<lparr>ca_license := None, ca_system := None, ca_loads := None,
     ca_patches := None\<rparr>))"

section \<open>What a cache promises\<close>

lemma read_shared_hit: "cache (w_ext w) = Some x \<Longrightarrow> read_shared cache put_cache fetch w = (Inr x, w)"
  by (simp add: read_shared_def bnd_apply ask_apply)

text \<open>What a read has returned stays in the cache.\<close>

lemma read_shared_stores:
  assumes "\<And>x c. cache (put_cache x c) = Some x" and "read_shared cache put_cache fetch w = (Inr x, w')"
  shows "cache (w_ext w') = Some x"
proof (cases "cache (w_ext w)")
  case (Some y)
  then show ?thesis using assms(2) by (simp add: read_shared_hit)
next
  case None
  then show ?thesis using assms
    by (auto simp: read_shared_def bnd_Inr_iff seq_Inr_iff ask_apply)
qed

lemma outside_read_with_retry [outside_intros]: "outside m \<Longrightarrow> outside (read_with_retry n m)"
  by (induction n) (auto intro!: outside_intros)

lemma outside_read_shared [outside_intros]: "outside m \<Longrightarrow> outside (read_shared c p m)"
  unfolding read_shared_def by (intro outside_intros)

lemma outside_up [outside_intros]:
  "outside (up_client env r)" "outside (up_query env r q)" "outside (up_action env r a m)"
  "outside (read_license env)" "outside (read_system env)" "outside (read_loads env)"
  "outside (read_patches env st)" "outside initialize_caches"
  unfolding up_client_def up_query_def up_action_def read_license_def read_system_def read_loads_def
    read_patches_def initialize_caches_def
  by (intro outside_intros)+

chapter \<open>The states up to the start\<close>

text \<open>
  The states of a software upgrade up to its start on the subcloud: \<open>pre_check.py\<close>, which resumes an
  upgrade where an earlier strategy has left it, \<open>installing_license.py\<close>, \<open>importing_load.py\<close>,
  \<open>updating_patches.py\<close>, \<open>finishing_patch_strategy.py\<close>, \<open>starting_upgrade.py\<close> and
  \<open>transfer_ca_certificate.py\<close> under \<open>states/upgrade\<close>.
\<close>

definition ERROR_DESC_CMD :: string where
  "ERROR_DESC_CMD = ''dcmanager subcloud errors <subcloud-name>''"

text \<open>The id of the step's subcloud in the database calls of a state. A step without a subcloud does
  not come as far as such a call: the state has read the name of its subcloud before.\<close>

definition step_subcloud_id :: "step_view \<Rightarrow> ('s, nat) io" where
  "step_subcloud_id v = (case sp_subcloud_id (fst v) of None \<Rightarrow> raise (SubcloudNotFound 0) | Some i \<Rightarrow> ret i)"

definition update_step_subcloud :: "step_view \<Rightarrow> subcloud_values \<Rightarrow> ('x world, unit) io" where
  "update_step_subcloud v vals =
     bnd (step_subcloud_id v) (\<lambda>i. seq (db_io (subcloud_update admin_context i vals)) (ret ()))"

definition set_error :: "step_view \<Rightarrow> string \<Rightarrow> ('x world, unit) io" where
  "set_error v msg =
     update_step_subcloud v (no_values\<lparr>sv_error_description := Some (take ERROR_DESCRIPTION_LENGTH msg)\<rparr>)"

definition set_status :: "step_view \<Rightarrow> deploy_state \<Rightarrow> ('x world, unit) io" where
  "set_status v st = update_step_subcloud v (no_values\<lparr>sv_deploy_status := Some st\<rparr>)"

definition the_step_subcloud :: "step_view \<Rightarrow> ('s, subcloud) io" where
  "the_step_subcloud v = (case snd v of None \<Rightarrow> raise AttributeError | Some sc \<Rightarrow> ret sc)"

section \<open>\<open>pre_check.py\<close>\<close>

definition VALID_UPGRADE_STATES :: "deploy_state list" where
  "VALID_UPGRADE_STATES = [DEPLOY_STATE_PRE_INSTALL_FAILED, DEPLOY_STATE_INSTALL_FAILED,
     DEPLOY_STATE_DATA_MIGRATION_FAILED]"

definition MIN_SCRATCH_SIZE_REQUIRED_GB :: nat where "MIN_SCRATCH_SIZE_REQUIRED_GB = 16"

definition ALARM_IGNORE_LIST :: "string list" where "ALARM_IGNORE_LIST = [''900.005'']"
definition HOST_ADMINISTRATIVELY_LOCKED_ALARM :: string where
  "HOST_ADMINISTRATIVELY_LOCKED_ALARM = ''200.001''"

text \<open>The verdict on a health report: it passes, it passes unless an alarm that is not ignored
  affects management, or it fails with a text for the subcloud and one for the step.\<close>

datatype health = HealthOk | HealthAlarms | HealthBad string string

definition fails_text :: "nat \<Rightarrow> string" where
  "fails_text n = ''['' @ join '', '' (replicate n ([CHR 0x27] @ ''[Fail]'' @ [CHR 0x27])) @ '']''"

definition health_verdict :: "nat \<Rightarrow> bool \<Rightarrow> string \<Rightarrow> health" where
  "health_verdict ignored upgrading report =
     (let fails = count_matches ''[Fail]'' report;
          alarms_fail = contains ''No alarms: [Fail]'' report;
          no_mgmt = contains ''[0] of which are management affecting'' report
      in if fails = 0 \<or> fails = 1 \<and> alarms_fail \<and> no_mgmt then HealthOk
         else if \<not> alarms_fail then
           HealthBad (''System health check failed. '' @ [CHR 0x0A] @ '' '' @ fails_text fails)
             (''System health check failed. Please run '' @ [CHR 0x27] @ ''system health-query'' @ [CHR 0x27] @
              '' command on the subcloud or '' @ ERROR_DESC_CMD @ '' on central for details'')
         else if upgrading \<and> fails = ignored then HealthOk
         else if fails = 1 then HealthAlarms
         else HealthBad
           (''System health check failed due to multiple failures. '' @ ''Health: '' @ [CHR 0x0A] @ '' '' @ report)
           (''System health check failed due to multiple failures. '' @ ''Please run '' @ [CHR 0x27] @
            ''system health-query'' @ [CHR 0x27] @ '' command on the '' @ ''subcloud or '' @ ERROR_DESC_CMD @
            '' on central for details.''))"

definition alarm_ignore_list :: "host \<Rightarrow> string list \<Rightarrow> string list" where
  "alarm_ignore_list h upgrades =
     (if h_administrative h = ''locked'' \<and> upgrades \<noteq> []
      then ALARM_IGNORE_LIST @ [HOST_ADMINISTRATIVELY_LOCKED_ALARM] else ALARM_IGNORE_LIST)"

definition health_failed :: "step_view \<Rightarrow> string \<Rightarrow> string \<Rightarrow> ('x world, unit) io" where
  "health_failed v error_desc details =
     seq (set_error v error_desc)
       (bnd (step_subcloud_name v) (\<lambda>name. raise (PreCheckFailedException name details)))"

definition check_health ::
  "'y upgrade_env \<Rightarrow> string \<Rightarrow> step_view \<Rightarrow> host \<Rightarrow> string list \<Rightarrow> ('y cached world, unit) io" where
  "check_health env name v h upgrades =
     bnd (ask (ug_get_system_health env name)) (\<lambda>report.
       let ignored = alarm_ignore_list h upgrades
       in seq (update_step_subcloud v (no_values\<lparr>sv_error_description := Some ERROR_DESC_EMPTY\<rparr>))
         (case health_verdict (length ignored) (upgrades \<noteq> []) report of
            HealthOk \<Rightarrow> ret ()
          | HealthBad error_desc details \<Rightarrow> health_failed v error_desc details
          | HealthAlarms \<Rightarrow>
              bnd (ask (oe_get_alarms (ug_orch env) name)) (\<lambda>alarms.
                case find (\<lambda>a. am_id a \<notin> set ignored \<and> am_mgmt_affecting a = ''True'') alarms of
                  None \<Rightarrow> ret ()
                | Some a \<Rightarrow> health_failed v
                    (''System health check failed due to alarm '' @ am_id a @ ''. '' @
                     ''System health: '' @ [CHR 0x0A] @ '' '' @ report)
                    (''System health check failed due to alarm '' @ am_id a @ ''. '' @ ''Please run '' @
                     [CHR 0x27] @ ''system health-query'' @ [CHR 0x27] @ '' '' @
                     ''command on the subcloud or '' @ ERROR_DESC_CMD @ '' on central for details.''))))"

definition check_scratch ::
  "'y upgrade_env \<Rightarrow> string \<Rightarrow> host \<Rightarrow> ('y cached world, unit) io" where
  "check_scratch env name h =
     bnd (ask (ug_scratch_size env name (h_uuid h))) (\<lambda>sz.
       case sz of
         None \<Rightarrow> raise AttributeError
       | Some n \<Rightarrow> when_io (n < MIN_SCRATCH_SIZE_REQUIRED_GB)
           (raise (PreCheckFailedException name
             (''Scratch filesystem size of '' @ show_nat n @ '' does not meet '' @ ''minimum required '' @
              show_nat MIN_SCRATCH_SIZE_REQUIRED_GB))))"

definition perform_subcloud_online_checks ::
  "'y upgrade_env \<Rightarrow> string \<Rightarrow> step_view \<Rightarrow> host \<Rightarrow> string list \<Rightarrow> ('y cached world, unit) io" where
  "perform_subcloud_online_checks env name v h upgrades =
     seq (check_health env name v h upgrades) (check_scratch env name h)"

definition data_install_missing :: "string \<Rightarrow> exn" where
  "data_install_missing name =
     PreCheckFailedException name
       (''Data install values are missing and must be updated '' @ ''via dcmanager subcloud update'')"

definition manual_recovery :: "string \<Rightarrow> string \<Rightarrow> exn" where
  "manual_recovery name what = ManualRecoveryRequiredException name what"

definition deploy_state_text :: "subcloud \<Rightarrow> string" where
  "deploy_state_text sc = ''deploy state: '' @ deploy_state_str (sc_deploy_status sc)"

definition pre_check_simplex ::
  "'y upgrade_env \<Rightarrow> string \<Rightarrow> step_view \<Rightarrow> subcloud \<Rightarrow> host \<Rightarrow> string list \<Rightarrow>
   ('y cached world, step_state) io" where
  "pre_check_simplex env name v sc h upgrades =
     (if \<not> truthy_str (sc_data_install sc) then raise (data_install_missing name)
      else if h_administrative h = ''locked'' \<and>
           sc_deploy_status sc \<in> {DEPLOY_STATE_INSTALL_FAILED, DEPLOY_STATE_PRE_INSTALL_FAILED}
      then ret STRATEGY_STATE_UPGRADING_SIMPLEX
      else if sc_deploy_status sc = DEPLOY_STATE_MIGRATED then ret STRATEGY_STATE_ACTIVATING_UPGRADE
      else seq (perform_subcloud_online_checks env name v h upgrades)
        (if sc_deploy_status sc = DEPLOY_STATE_DATA_MIGRATION_FAILED
         then seq (set_status v DEPLOY_STATE_MIGRATED) (ret STRATEGY_STATE_ACTIVATING_UPGRADE)
         else ret STRATEGY_STATE_INSTALLING_LICENSE))"

definition host_behind :: "string \<Rightarrow> host \<Rightarrow> bool" where
  "host_behind target h \<longleftrightarrow>
     h_software_load h \<noteq> target \<or> h_administrative h = ''locked'' \<or> h_operational h = ''disabled''"

definition activate_or_swact :: "host \<Rightarrow> step_state" where
  "activate_or_swact h =
     (if is_active_controller h then STRATEGY_STATE_ACTIVATING_UPGRADE
      else STRATEGY_STATE_SWACTING_TO_CONTROLLER_0)"

definition resume_duplex ::
  "'y upgrade_env \<Rightarrow> string \<Rightarrow> host \<Rightarrow> string \<Rightarrow> ('y cached world, step_state) io" where
  "resume_duplex env name h upgrade_state =
     (if upgrade_state \<in> {''data-migration-failed'', ''data-migration''} then
        raise (manual_recovery name (''upgrade state: '' @ upgrade_state))
      else if upgrade_state \<in> {''upgrading-controllers'', ''data-migration-complete''} then
        bnd (ask (oe_get_host (ug_orch env) name ''controller-1'')) (\<lambda>h1.
          ret (if h_administrative h1 = ''locked'' then STRATEGY_STATE_UNLOCKING_CONTROLLER_1
               else if is_active_controller h then STRATEGY_STATE_SWACTING_TO_CONTROLLER_1
               else STRATEGY_STATE_CREATING_VIM_UPGRADE_STRATEGY))
      else if upgrade_state = ''upgrading-hosts'' then
        bnd (read_system env) (\<lambda>sys.
        bnd (up_query env name (ug_get_hosts env name)) (\<lambda>hosts.
          ret (if list_ex (host_behind (si_software_version sys)) hosts
               then STRATEGY_STATE_CREATING_VIM_UPGRADE_STRATEGY else activate_or_swact h)))
      else if upgrade_state = ''activation-failed'' then ret (activate_or_swact h)
      else if upgrade_state = ''activation-complete'' then ret STRATEGY_STATE_COMPLETING_UPGRADE
      else ret STRATEGY_STATE_INSTALLING_LICENSE)"

definition pre_check_online ::
  "'y upgrade_env \<Rightarrow> step_view \<Rightarrow> subcloud \<Rightarrow> ('y cached world, step_state) io" where
  "pre_check_online env v sc =
     bnd (step_subcloud_name v) (\<lambda>name.
     seq (try_catch (seq (up_client env name) (get_fm_client (ug_orch env) name))
            (\<lambda>_. raise (manual_recovery name (deploy_state_text sc))))
    (bnd (ask (oe_get_host (ug_orch env) name ''controller-0'')) (\<lambda>h.
     bnd (up_query env name (ug_get_system env name)) (\<lambda>sys.
     bnd (ask (ug_get_upgrades env name)) (\<lambda>upgrades.
       if si_system_mode sys = SYSTEM_MODE_SIMPLEX then pre_check_simplex env name v sc h upgrades
       else case upgrades of
         u # _ \<Rightarrow> resume_duplex env name h u
       | [] \<Rightarrow> seq (perform_subcloud_online_checks env name v h upgrades)
                (ret STRATEGY_STATE_INSTALLING_LICENSE))))))"

definition pre_check_offline :: "step_view \<Rightarrow> subcloud \<Rightarrow> ('s, step_state) io" where
  "pre_check_offline v sc =
     bnd (step_subcloud_name v) (\<lambda>name.
       if sc_deploy_status sc \<in> set VALID_UPGRADE_STATES then
         (if \<not> truthy_str (sc_data_install sc) then raise (data_install_missing name)
          else ret STRATEGY_STATE_UPGRADING_SIMPLEX)
       else if sc_deploy_status sc = DEPLOY_STATE_INSTALLED then ret STRATEGY_STATE_MIGRATING_DATA
       else if sc_deploy_status sc = DEPLOY_STATE_MIGRATED then ret STRATEGY_STATE_ACTIVATING_UPGRADE
       else raise (manual_recovery name (deploy_state_text sc)))"

definition upgrade_pre_check_state ::
  "'y upgrade_env \<Rightarrow> step_view \<Rightarrow> ('y cached world, step_state) prog" where
  "upgrade_pre_check_state env v = run
     (bnd (the_step_subcloud v) (\<lambda>old.
      bnd (db_io (subcloud_get admin_context (sc_id old))) (\<lambda>sc.
        if sc_availability_status sc = AVAILABILITY_ONLINE then pre_check_online env v sc
        else pre_check_offline v sc)))"

section \<open>\<open>installing_license.py\<close>\<close>

definition LICENSE_FILE_NOT_FOUND_SUBSTRING :: string where
  "LICENSE_FILE_NOT_FOUND_SUBSTRING = ''License file not found''"

definition install_license ::
  "'y upgrade_env \<Rightarrow> string \<Rightarrow> step_view \<Rightarrow> string \<Rightarrow> ('y cached world, unit) io" where
  "install_license env name v target =
     bnd (call (SysinvAction name ''install_license'') (ug_install_license env name target)) (\<lambda>err.
       when_io (err \<noteq> [])
         (seq (set_error v (''Error installing license on subcloud '' @ name @ ''. Detail: '' @ err))
           (raise (LicenseInstallError (show_nat_opt (sp_subcloud_id (fst v))) err))))"

definition installing_license_state ::
  "'y upgrade_env \<Rightarrow> step_view \<Rightarrow> ('y cached world, step_state) prog" where
  "installing_license_state env v = run
     (bnd (read_license env) (\<lambda>target.
        if li_error target \<noteq> [] then
          (if contains LICENSE_FILE_NOT_FOUND_SUBSTRING (li_error target) then ret STRATEGY_STATE_IMPORTING_LOAD
           else seq (set_error v (''An unexpected error occurred querying the license '' @
                  SYSTEM_CONTROLLER_NAME @ ''. Detail: '' @ li_error target))
                (raise (LicenseInstallError SYSTEM_CONTROLLER_NAME (li_error target))))
        else bnd (step_subcloud_name v) (\<lambda>name.
          bnd (up_query env name (ug_get_license env name)) (\<lambda>existing.
            if li_error existing = [] \<and> li_content target = li_content existing
            then ret STRATEGY_STATE_IMPORTING_LOAD
            else seq (install_license env name v (li_content target)) (ret STRATEGY_STATE_IMPORTING_LOAD)))))"

section \<open>\<open>importing_load.py\<close>\<close>

definition IMPORT_MAX_QUERIES :: nat where "IMPORT_MAX_QUERIES = 180"
definition IMPORT_SLEEP_DURATION :: nat where "IMPORT_SLEEP_DURATION = 10"
definition IMPORT_MAX_FAILED_RETRIES :: nat where "IMPORT_MAX_FAILED_RETRIES = 5"

datatype load_request = LoadDelete | LoadImport nat

definition import_failed :: exn where
  "import_failed = PyException (''Failed to import load. Please check sysinv.log '' @
     ''on the subcloud for details.'')"

text \<open>The request is done; a query that fails counts as not done yet.\<close>

definition get_load :: "'y upgrade_env \<Rightarrow> string \<Rightarrow> load_request \<Rightarrow> ('y cached world, bool) io" where
  "get_load env name req =
     bnd (try_catch
       (case req of
          LoadDelete \<Rightarrow> bnd (up_query env name (oe_get_loads (ug_orch env) name)) (\<lambda>ls.
            ret (length ls = 1, None))
        | LoadImport i \<Rightarrow> bnd (up_query env name (ug_get_load env name i)) (\<lambda>l.
            ret (ld_state l = ''imported'', Some l)))
       (\<lambda>_. ret (False, None))) (\<lambda>(finished, found).
       if finished then ret True
       else case found of
         None \<Rightarrow> ret False
       | Some l \<Rightarrow> if ld_state l = ''error'' then raise import_failed else ret False)"

definition load_request_str :: "load_request \<Rightarrow> string" where
  "load_request_str req = (case req of LoadDelete \<Rightarrow> ''delete'' | LoadImport _ \<Rightarrow> ''import'')"

definition load_turn ::
  "'y upgrade_env \<Rightarrow> string \<Rightarrow> load_request \<Rightarrow> nat \<Rightarrow> ('y cached world, (nat, unit) turn) io" where
  "load_turn env name req counter =
     seq (check_stopped (ug_orch env))
       (bnd (get_load env name req) (\<lambda>finished.
          if finished then ret (Leave ())
          else if IMPORT_MAX_QUERIES \<le> Suc counter then
            raise (PyException (''Timeout waiting for '' @ load_request_str req @ '' to complete''))
          else seq (sleep IMPORT_SLEEP_DURATION) (ret (Again (Suc counter)))))"

definition wait_for_request_to_complete ::
  "'y upgrade_env \<Rightarrow> string \<Rightarrow> load_request \<Rightarrow> ('y cached world, unit) prog" where
  "wait_for_request_to_complete env name req = io_loop (load_turn env name req) 0"

text \<open>The load of a version when it is there; otherwise the last one that has been imported or has
  failed to be.\<close>

fun load_info :: "string \<Rightarrow> load list \<Rightarrow> (nat \<times> string) option \<Rightarrow> bool \<times> (nat \<times> string) option" where
  "load_info target [] info = (False, info)"
| "load_info target (l # ls) info =
     (let this = Some (ld_id l, ld_software_version l)
      in if ld_software_version l = target then (True, this)
         else if ld_state l \<in> {''imported'', ''error''} then load_info target ls this
         else load_info target ls info)"

definition get_subcloud_load_info ::
  "'y upgrade_env \<Rightarrow> string \<Rightarrow> string \<Rightarrow> ('y cached world, bool \<times> (nat \<times> string) option) io" where
  "get_subcloud_load_info env name target =
     bnd (up_query env name (oe_get_loads (ug_orch env) name)) (\<lambda>ls. ret (load_info target ls None))"

definition import_metadata ::
  "'y upgrade_env \<Rightarrow> string \<Rightarrow> step_view \<Rightarrow> string \<Rightarrow> ('y cached world, unit) io" where
  "import_metadata env name v target =
     bnd (read_loads env) (\<lambda>loads.
       case find (\<lambda>l. ld_software_version l = target) loads of
         None \<Rightarrow> raise IndexError
       | Some l \<Rightarrow>
           try_catch
             (seq (up_action env name ''import_load_metadata'' (ug_import_load_metadata env name
                (ld_software_version l, ld_compatible_version l, ld_required_patches l))) (ret ()))
             (\<lambda>e. seq (set_error v (''Failed to import load metadata. '' @ exn_str e)) (raise e)))"

definition import_turn ::
  "'y upgrade_env \<Rightarrow> string \<Rightarrow> string \<Rightarrow> nat \<Rightarrow> ('y cached world, (nat, load option) turn) io" where
  "import_turn env name target retries =
     seq (check_stopped (ug_orch env))
       (try_else
         (bnd (of_sum (get_vault_load_files (ug_vault_dir env) target)) (\<lambda>(iso_path, sig_path).
            case iso_path of
              None \<Rightarrow> raise (PyException (''Failed to get upgrade load info for subcloud '' @ name))
            | Some iso_path \<Rightarrow> up_action env name ''import_load'' (ug_import_load env name iso_path sig_path)))
         (\<lambda>e. case e of
            VaultLoadMissingError _ _ \<Rightarrow> raise e
          | LoadMaxReached _ \<Rightarrow> ret (Leave None)
          | _ \<Rightarrow> if IMPORT_MAX_FAILED_RETRIES \<le> Suc retries then raise import_failed
                else seq (sleep IMPORT_SLEEP_DURATION) (ret (Again (Suc retries))))
         (\<lambda>l. ret (Leave (Some l))))"

definition imported_load ::
  "'y upgrade_env \<Rightarrow> string \<Rightarrow> string \<Rightarrow> load option \<Rightarrow> ('y cached world, nat) io" where
  "imported_load env name target l =
     bnd (case l of
            Some l \<Rightarrow> ret (ld_id l, ld_software_version l)
          | None \<Rightarrow> bnd (get_subcloud_load_info env name target) (\<lambda>(_, info).
              case info of None \<Rightarrow> raise KeyError | Some i \<Rightarrow> ret i)) (\<lambda>(i, version).
       if i = 0 then raise (PyException ''The subcloud load was not found.'')
       else if version \<noteq> target then raise (PyException ''The imported load was not the expected version.'')
       else ret i)"

definition importing_load_state ::
  "'y upgrade_env \<Rightarrow> step_view \<Rightarrow> ('y cached world, step_state) prog" where
  "importing_load_state env v =
     (let next_state = run (ret STRATEGY_STATE_UPDATING_PATCHES)
      in bndp (run (read_system env)) (\<lambda>sys.
         let target = si_software_version sys
         in bndp (run (step_subcloud_name v)) (\<lambda>name.
            bndp (run (get_subcloud_load_info env name target)) (\<lambda>(applied, info).
              if applied then next_state
              else seqp (case info of
                     None \<Rightarrow> run (ret ())
                   | Some (i, _) \<Rightarrow> seqp (run (up_action env name ''delete_load'' (ug_delete_load env name i)))
                       (wait_for_request_to_complete env name LoadDelete))
                (bndp (run (up_query env name (ug_get_system env name))) (\<lambda>subcloud_system.
                   if si_system_mode subcloud_system = SYSTEM_MODE_SIMPLEX
                   then seqp (run (import_metadata env name v target)) next_state
                   else bndp (io_loop (import_turn env name target) 0) (\<lambda>l.
                        bndp (run (imported_load env name target l)) (\<lambda>i.
                          seqp (catchp (wait_for_request_to_complete env name (LoadImport i))
                                 (\<lambda>_. run (raise import_failed)))
                            next_state))))))))"

section \<open>\<open>updating_patches.py\<close> and \<open>finishing_patch_strategy.py\<close>\<close>

fun up_compare_patches ::
  "string list \<Rightarrow> patches \<Rightarrow> string list \<Rightarrow> string list \<Rightarrow> exn + (string list \<times> string list)" where
  "up_compare_patches applied [] to_remove to_apply = Inr (to_remove, to_apply)"
| "up_compare_patches applied ((i, p) # ps) to_remove to_apply =
     (if pt_repostate p = PATCH_STATE_APPLIED then
        up_compare_patches applied ps (if i \<notin> set applied then to_remove @ [i] else to_remove) to_apply
      else if pt_repostate p = PATCH_STATE_COMMITTED then
        (if i \<notin> set applied
         then Inl (PyException (''Patch '' @ i @ '' is committed in subcloud but '' @
                ''not applied in SystemController''))
         else up_compare_patches applied ps to_remove to_apply)
      else if pt_repostate p = PATCH_STATE_AVAILABLE then
        up_compare_patches applied ps to_remove (if i \<in> set applied then to_apply @ [i] else to_apply)
      else Inl (PyException (''Patch '' @ i @ '' in subcloud in unexpected state '' @ pt_repostate p)))"

text \<open>The patches of the system controller to remove, to upload and to apply.\<close>

definition up_plan ::
  "patches \<Rightarrow> string list \<Rightarrow> patches \<Rightarrow> exn + (string list \<times> string list \<times> string list)" where
  "up_plan regionone installed subcloud =
     (let applied = [i. (i, p) \<leftarrow> regionone, pt_repostate p \<in> {PATCH_STATE_APPLIED, PATCH_STATE_COMMITTED}];
          missing = [i. (i, p) \<leftarrow> regionone, pt_repostate p \<in> {PATCH_STATE_APPLIED, PATCH_STATE_COMMITTED} \<and>
                          pt_sw_version p \<in> set installed \<and> i \<notin> fst ` set subcloud]
      in case up_compare_patches applied subcloud [] [] of
           Inl e \<Rightarrow> Inl e
         | Inr (to_remove, to_apply) \<Rightarrow> Inr (to_remove, missing, to_apply @ missing))"

definition up_upload_patch ::
  "'x orch_env \<Rightarrow> patches \<Rightarrow> string \<Rightarrow> string \<Rightarrow> ('x world, unit) io" where
  "up_upload_patch env regionone region i =
     (case map_of regionone i of
        None \<Rightarrow> raise KeyError
      | Some p \<Rightarrow>
          let file = patch_file (pt_sw_version p) i
          in bnd (gets (\<lambda>w. isfile file (w_fs w))) (\<lambda>there.
               if \<not> there then raise (PyException (''Patch file '' @ file @ '' is missing''))
               else seq (patch_action env ''upload'' region [file]) (check_stopped env)))"

definition up_updating_patches_state ::
  "'y upgrade_env \<Rightarrow> step_view \<Rightarrow> ('y cached world, step_state) prog" where
  "up_updating_patches_state env v =
     (let orch = ug_orch env; next_state = run (ret STRATEGY_STATE_FINISHING_PATCH_STRATEGY)
      in if sp_subcloud_id (fst v) = None then next_state
         else bndp (run (read_patches env None)) (\<lambda>regionone.
           bndp (run (get_region_name v)) (\<lambda>region.
           bndp (run (seq (get_patching_client orch region) (ask (oe_patch_query orch region)))) (\<lambda>subcloud.
           bndp (run (up_query env region (oe_get_loads orch region))) (\<lambda>loads.
           bndp (run (of_sum (up_plan regionone (get_loads_for_patching loads) subcloud)))
             (\<lambda>(to_remove, to_upload, to_apply).
             seqp (run (when_io (to_remove \<noteq> []) (patch_action orch ''remove'' region to_remove)))
            (seqp (run (for_each (up_upload_patch orch regionone region) to_upload))
            (seqp (run (when_io (to_apply \<noteq> []) (patch_action orch ''apply'' region to_apply)))
            (seqp (io_loop (updating_turn orch region) 0) next_state)))))))))"

definition up_finishing_patch_strategy_state ::
  "'y upgrade_env \<Rightarrow> step_view \<Rightarrow> ('y cached world, step_state) prog" where
  "up_finishing_patch_strategy_state env v =
     (let orch = ug_orch env
      in run (if sp_subcloud_id (fst v) = None then ret STRATEGY_STATE_STARTING_UPGRADE
        else bnd (read_patches env (Some PATCH_STATE_COMMITTED)) (\<lambda>committed.
          bnd (step_subcloud_name v) (\<lambda>name.
          bnd (seq (get_patching_client orch name) (ask (oe_patch_query orch name))) (\<lambda>ps.
            let to_delete = patches_to_delete ps; to_commit = patches_to_commit (map fst committed) ps
            in seq (when_io (to_delete \<noteq> []) (patch_action orch ''delete'' name to_delete))
              (seq (check_stopped orch)
                (seq (when_io (to_commit \<noteq> []) (patch_action orch ''commit'' name to_commit))
                  (ret STRATEGY_STATE_STARTING_UPGRADE))))))))"

section \<open>\<open>starting_upgrade.py\<close>\<close>

definition START_MAX_QUERIES :: nat where "START_MAX_QUERIES = 180"
definition START_SLEEP_DURATION :: nat where "START_SLEEP_DURATION = 10"
definition START_MAX_FAILED_RETRIES :: nat where "START_MAX_FAILED_RETRIES = 10"
definition UPGRADE_FAILED :: string where "UPGRADE_FAILED = ''upgrade-failed''"

text \<open>The state of the upgrade; one that cannot be queried counts as failed.\<close>

definition get_upgrade_state ::
  "'y upgrade_env \<Rightarrow> string \<Rightarrow> string \<Rightarrow> exn \<Rightarrow> ('y cached world, string) io" where
  "get_upgrade_state env name failed missing =
     try_else (up_query env name (ug_get_upgrades env name)) (\<lambda>_. ret failed)
       (\<lambda>us. case us of [] \<Rightarrow> raise missing | u # _ \<Rightarrow> ret u)"

definition start_missing :: exn where
  "start_missing = PyException (''Failed to generate upgrade data. Please '' @
     ''check sysinv.log on the subcloud for details.'')"

definition start_turn ::
  "'y upgrade_env \<Rightarrow> string \<Rightarrow> bool \<Rightarrow> nat \<times> nat \<Rightarrow> ('y cached world, (nat \<times> nat, unit) turn) io" where
  "start_turn env name force = (\<lambda>(counter, retries).
     seq (check_stopped (ug_orch env))
       (bnd (get_upgrade_state env name UPGRADE_FAILED start_missing) (\<lambda>st.
          if st = ''started'' then ret (Leave ())
          else let failed = (st = UPGRADE_FAILED); retries' = (if failed then Suc retries else retries)
            in if failed \<and> START_MAX_FAILED_RETRIES \<le> retries' then
                 raise (PyException (''Failed to start upgrade. Please '' @
                   ''check sysinv.log on the subcloud for '' @ ''details.''))
               else seq (when_io failed (try_catch
                      (up_action env name ''upgrade_start'' (ug_upgrade_start env name force)) (\<lambda>_. ret ())))
                 (if START_MAX_QUERIES \<le> Suc counter
                  then raise (PyException ''Timeout waiting for upgrade to start'')
                  else seq (sleep START_SLEEP_DURATION) (ret (Again (Suc counter, retries')))))))"

definition starting_upgrade_state ::
  "'y upgrade_env \<Rightarrow> step_view \<Rightarrow> ('y cached world, step_state) prog" where
  "starting_upgrade_state env v =
     (let next_state = run (ret STRATEGY_STATE_TRANSFERRING_CA_CERTIFICATE)
      in bndp (run (step_subcloud_name v)) (\<lambda>name.
         bndp (run (up_query env name (ug_get_upgrades env name))) (\<lambda>upgrades.
           if upgrades \<noteq> [] then next_state
           else bndp (run (db_io (get_sw_update_opts admin_context True (sp_subcloud_id (fst v))))) (\<lambda>opts.
             let force = (uo_alarm_restriction_type opts = ''relaxed'')
             in seqp (run (up_action env name ''upgrade_start'' (ug_upgrade_start env name force)))
                  (seqp (io_loop (start_turn env name force) (0, 0)) next_state)))))"

section \<open>\<open>transfer_ca_certificate.py\<close>\<close>

definition TRANSFER_MAX_RETRIES :: nat where "TRANSFER_MAX_RETRIES = 3"
definition TRANSFER_SLEEP_DURATION :: nat where "TRANSFER_SLEEP_DURATION = 30"

definition transfer_turn ::
  "'y upgrade_env \<Rightarrow> string \<Rightarrow> nat \<Rightarrow> ('y cached world, (nat, unit) turn) io" where
  "transfer_turn env name retries =
     try_else
       (seq (up_client env name)
         (bnd (ask (ug_certificate_from_secret env)) (\<lambda>cert.
            call (SysinvAction name ''update_certificate'') (ug_update_certificate env name cert))))
       (\<lambda>_. if TRANSFER_MAX_RETRIES < Suc retries
            then raise (PyException (''Failed to transfer CA certificate for subcloud '' @ name @ ''.''))
            else seq (sleep TRANSFER_SLEEP_DURATION) (ret (Again (Suc retries))))
       (\<lambda>_. ret (Leave ()))"

text \<open>The kind of the subcloud, which decides the next state, is read when the state is made.\<close>

definition transfer_ca_certificate_state ::
  "'y upgrade_env \<Rightarrow> string \<Rightarrow> step_view \<Rightarrow> ('y cached world, step_state) prog" where
  "transfer_ca_certificate_state env region v =
     bndp (run (up_query env region (ug_get_system env region))) (\<lambda>sys.
       if si_system_mode sys = SYSTEM_MODE_SIMPLEX then run (ret STRATEGY_STATE_LOCKING_CONTROLLER_0)
       else bndp (run (step_subcloud_name v)) (\<lambda>name.
         seqp (io_loop (transfer_turn env name) 0) (run (ret STRATEGY_STATE_LOCKING_CONTROLLER_1))))"

end
