(* ===== verification/DC_UpgradeRun.thy ===== *)
theory DC_UpgradeRun
  imports DC_UpgradeStart
begin

text \<open>
  The states of a software upgrade from the first host to its end: \<open>upgrading_simplex.py\<close>,
  \<open>upgrading_duplex.py\<close>, \<open>migrating_data.py\<close>, \<open>activating.py\<close>, \<open>completing.py\<close> and
  \<open>deleting_load.py\<close> under \<open>states/upgrade\<close>, and the thread that runs them
  (\<open>sw_upgrade_orch_thread.py\<close>). The operations of \<open>SubcloudInstall\<close>, the playbooks and the files
  are those of the subcloud manager's environment.
\<close>

section \<open>\<open>upgrading_simplex.py\<close>\<close>

definition TEMP_SYSADMIN_PASSWORD :: string where "TEMP_SYSADMIN_PASSWORD = ''St8rlingX*''"

definition json_of :: "string option \<Rightarrow> json" where
  "json_of v = (case v of None \<Rightarrow> JNull | Some s \<Rightarrow> JText s)"

text \<open>\<open>d.get(k)\<close>\<close>

definition dict_or_null :: "string \<Rightarrow> dict \<Rightarrow> json" where
  "dict_or_null k d = (case dict_get k d of None \<Rightarrow> JNull | Some v \<Rightarrow> v)"

definition bmc_data_available :: "dict \<Rightarrow> bool" where
  "bmc_data_available d \<longleftrightarrow>
     dict_has ''bmc_username'' d \<and> dict_has ''bmc_address'' d \<and> dict_has ''bmc_password'' d"

definition get_subcloud_upgrade_load_info :: "'y upgrade_env \<Rightarrow> string \<Rightarrow> exn + dict" where
  "get_subcloud_upgrade_load_info env name =
     (let version = sm_sw_version (ug_sm env)
      in case get_vault_load_files (ug_vault_dir env) version of
           Inl e \<Rightarrow> Inl e
         | Inr (None, _) \<Rightarrow> Inl (PyException (''Failed to get upgrade load info for subcloud '' @ name))
         | Inr (Some iso_path, _) \<Rightarrow> Inr [(''software_version'', JText version), (''image'', JText iso_path)])"

definition optional_bootstrap_parameters :: "string list" where
  "optional_bootstrap_parameters = [''nexthop_gateway'', ''network_address'', ''network_mask'',
     ''bootstrap_vlan'', ''wait_for_timeout'', ''no_check_certificate'', ''rd.net.timeout.ipv6dad'']"

definition upgrade_data_install_of :: "dict \<Rightarrow> dict" where
  "upgrade_data_install_of d =
     [(''ansible_become_pass'', JText TEMP_SYSADMIN_PASSWORD),
      (''ansible_ssh_pass'', JText TEMP_SYSADMIN_PASSWORD),
      (''bootstrap_interface'', dict_or_null ''bootstrap_interface'' d),
      (''bootstrap-address'', dict_or_null ''bootstrap_address'' d),
      (''bootstrap_address'', dict_or_null ''bootstrap_address'' d),
      (''bootstrap_address_prefix'', dict_or_null ''bootstrap_address_prefix'' d),
      (''bmc_username'', dict_or_null ''bmc_username'' d),
      (''bmc_address'', dict_or_null ''bmc_address'' d),
      (''bmc_password'', dict_or_null ''bmc_password'' d)]
     @ (if dict_or_null ''persistent_size'' d = JNull then []
        else [(''persistent_size'', dict_or_null ''persistent_size'' d)])
     @ [(p, v). p \<leftarrow> optional_bootstrap_parameters, v \<leftarrow> (case dict_get p d of None \<Rightarrow> [] | Some v \<Rightarrow> [v])]"

definition get_subcloud_upgrade_data_install ::
  "'y upgrade_env \<Rightarrow> step_view \<Rightarrow> ('y cached world, dict) io" where
  "get_subcloud_upgrade_data_install env v =
     bnd (step_subcloud_id v) (\<lambda>i.
     bnd (db_io (subcloud_get admin_context i)) (\<lambda>sc.
       if \<not> truthy_str (sc_data_install sc) then
         seq (update_step_subcloud v (no_values\<lparr>sv_deploy_status := Some DEPLOY_STATE_PRE_INSTALL_FAILED,
                sv_error_description := Some ''Failed to get upgrade data from install''\<rparr>))
           (raise (PyException ''Failed to get upgrade data from install''))
       else bnd (of_sum (case sc_data_install sc of None \<Rightarrow> Inl TypeError
                 | Some s \<Rightarrow> sm_json_loads (ug_sm env) s)) (\<lambda>j.
         case j of JObject d \<Rightarrow> ret (upgrade_data_install_of d) | _ \<Rightarrow> raise AttributeError)))"

definition get_install_type :: "host \<Rightarrow> int" where
  "get_install_type h =
     (let lowlatency = ''lowlatency'' \<in> set (split_on (CHR '','') (h_subfunctions h));
          graphical = ''graphical'' \<in> set (split_on (CHR '','') (h_console h))
      in if graphical then (if lowlatency then 5 else 3) else (if lowlatency then 4 else 2))"

text \<open>A password from barbican is a text, which \<open>b64encode\<close> refuses.\<close>

definition encoded_bmc_password :: "string option \<Rightarrow> exn + json" where
  "encoded_bmc_password p =
     (case p of None \<Rightarrow> Inr JNull | Some s \<Rightarrow> if s = [] then Inr (JText []) else Inl TypeError)"

definition volatile_data_of :: "host \<Rightarrow> json \<Rightarrow> dict" where
  "volatile_data_of h bmc_password =
     [(''bmc_address'', json_of (h_bm_ip h)), (''bmc_username'', json_of (h_bm_username h)),
      (''bmc_password'', bmc_password), (''install_type'', JNumber (get_install_type h)),
      (''boot_device'', JText (h_boot_device h)), (''rootfs_device'', JText (h_rootfs_device h))]"

text \<open>The clients that could be made: none, sysinv only, or sysinv and barbican.\<close>

datatype clients = NoClient | SysinvOnly | SysinvAndBarbican

definition persisted_upgrade_data ::
  "'y upgrade_env \<Rightarrow> step_view \<Rightarrow> string \<Rightarrow> ('y cached world, dict) io" where
  "persisted_upgrade_data env v name =
     bnd (step_subcloud_id v) (\<lambda>i.
     bnd (db_io (subcloud_get admin_context i)) (\<lambda>sc.
       if truthy_str (sc_data_upgrade sc) then
         bnd (of_sum (case sc_data_upgrade sc of None \<Rightarrow> Inl TypeError
                | Some s \<Rightarrow> sm_json_loads (ug_sm env) s)) (\<lambda>j.
           case j of JObject d \<Rightarrow> ret d | _ \<Rightarrow> raise ValueError)
       else raise (PyException (''Cannot retrieve upgrade data install '' @ ''for subcloud: '' @ name))))"

definition get_subcloud_upgrade_data ::
  "'y upgrade_env \<Rightarrow> step_view \<Rightarrow> string \<Rightarrow> clients \<Rightarrow> ('y cached world, dict) io" where
  "get_subcloud_upgrade_data env v name cs =
     (if cs = NoClient then persisted_upgrade_data env v name
      else bnd (ask (ug_get_system env name)) (\<lambda>sys.
        if si_system_type sys \<noteq> ''All-in-one'' then
          raise (PyException (''subcloud '' @ name @ '' install unsupported for system type: '' @ si_system_type sys))
        else bnd (ask (oe_get_host (ug_orch env) name ''controller-0'')) (\<lambda>h.
          bnd (if cs = SysinvAndBarbican then ask (ug_host_bmc_password env (h_uuid h)) else ret None) (\<lambda>p.
          bnd (of_sum (encoded_bmc_password p)) (\<lambda>bmc_password.
            let volatile = volatile_data_of h bmc_password
            in seq (update_step_subcloud v (no_values\<lparr>sv_data_upgrade := Some (json_dumps (JObject volatile))\<rparr>))
              (bnd (ask (sm_keyring (ug_sm env) ''CGCS'' ''admin'')) (\<lambda>admin_password.
                ret (dict_set ''admin_password'' (JText admin_password) volatile))))))))"

definition get_subcloud_upgrade_install_values ::
  "'y upgrade_env \<Rightarrow> step_view \<Rightarrow> string \<Rightarrow> clients \<Rightarrow> ('y cached world, dict) io" where
  "get_subcloud_upgrade_install_values env v name cs =
     bnd (of_sum (get_subcloud_upgrade_load_info env name)) (\<lambda>load_info.
     bnd (get_subcloud_upgrade_data_install env v) (\<lambda>data_install.
     bnd (get_subcloud_upgrade_data env v name cs) (\<lambda>data.
       let values = dict_update data (dict_update data_install
             (dict_update load_info [(''name'', JText name)]))
       in if bmc_data_available values then ret values
          else if bmc_data_available data_install then
            ret (dict_update [(k, dict_or_null k data_install).
                   k \<leftarrow> [''bmc_address'', ''bmc_username'', ''bmc_password'']] values)
          else raise (PyException (''Failed to get bmc credentials for subcloud '' @ name)))))"

definition install_failed_with ::
  "step_view \<Rightarrow> deploy_state \<Rightarrow> string \<Rightarrow> ('x world, unit) io" where
  "install_failed_with v st msg =
     update_step_subcloud v (no_values\<lparr>sv_deploy_status := Some st,
       sv_error_description := Some (take ERROR_DESCRIPTION_LENGTH msg)\<rparr>)"

definition upgrade_install_command :: "string \<Rightarrow> string \<Rightarrow> string list" where
  "upgrade_install_command name inventory =
     [''ansible-playbook'', ''/usr/share/ansible/stx-ansible/playbooks/install.yml'', ''-i'', inventory,
      ''-e'', ''@'' @ ANSIBLE_OVERRIDES_PATH @ ''/'' @ name @ ''/'' @ ''install_values.yml'']"

text \<open>The clean-up of an installation that could not be made fails on the unbound variable.\<close>

definition perform_subcloud_install ::
  "'y upgrade_env \<Rightarrow> step_view \<Rightarrow> string \<Rightarrow> dict \<Rightarrow> ('y cached world, unit) io" where
  "perform_subcloud_install env v name install_values =
     (let sm = ug_sm env;
          inventory = path_join ANSIBLE_OVERRIDES_PATH (name @ INVENTORY_FILE_POSTFIX);
          command = upgrade_install_command name inventory;
          cleanup = ask (sm_install_cleanup sm name)
      in seq (set_status v DEPLOY_STATE_PRE_INSTALL)
        (seq (ask (ug_local_session env))
        (try_else (ask (sm_install_new sm name))
          (\<lambda>e. seq (install_failed_with v DEPLOY_STATE_PRE_INSTALL_FAILED (exn_str e)) (raise UnboundLocalError))
          (\<lambda>_. try_else (ask (sm_install_prep sm ANSIBLE_OVERRIDES_PATH (JObject install_values)))
            (\<lambda>e. seq (install_failed_with v DEPLOY_STATE_PRE_INSTALL_FAILED (exn_str e)) (seq cleanup (raise e)))
            (\<lambda>_. seq (create_subcloud_inventory sm install_values inventory)
              (seq (set_status v DEPLOY_STATE_INSTALLING)
              (try_else (call (Playbook command) (sm_install_install sm DC_ANSIBLE_LOG_DIR command))
                (\<lambda>e. bnd (ask (sm_ansible_error_msg sm name (log_file_of name)
                          (deploy_state_str DEPLOY_STATE_INSTALLING))) (\<lambda>msg.
                   seq (install_failed_with v DEPLOY_STATE_INSTALL_FAILED msg) (seq cleanup (raise e))))
                (\<lambda>_. seq (set_status v DEPLOY_STATE_INSTALLED) cleanup))))))))"

definition upgrade_clients :: "'y upgrade_env \<Rightarrow> string \<Rightarrow> ('y cached world, clients) io" where
  "upgrade_clients env name =
     try_else (up_client env name) (\<lambda>_. ret NoClient)
       (\<lambda>_. try_else (get_keystone_client (ug_orch env) name) (\<lambda>_. ret SysinvOnly)
         (\<lambda>_. ret SysinvAndBarbican))"

definition check_load_already_active ::
  "'y upgrade_env \<Rightarrow> string \<Rightarrow> string \<Rightarrow> clients \<Rightarrow> ('y cached world, bool) io" where
  "check_load_already_active env name target cs =
     (if cs = NoClient then ret False
      else bnd (ask (oe_get_loads (ug_orch env) name)) (\<lambda>ls.
        ret (list_ex (\<lambda>l. ld_software_version l = target \<and> ld_state l = ''active'') ls)))"

definition upgrading_simplex_state ::
  "'y upgrade_env \<Rightarrow> step_view \<Rightarrow> ('y cached world, step_state) prog" where
  "upgrading_simplex_state env v = run
     (bnd (get_region_name v) (\<lambda>_.
      bnd (step_subcloud_name v) (\<lambda>name.
      bnd (upgrade_clients env name) (\<lambda>cs.
      bnd (check_load_already_active env name (sm_sw_version (ug_sm env)) cs) (\<lambda>active.
        if active then ret STRATEGY_STATE_MIGRATING_DATA
        else bnd (get_subcloud_upgrade_install_values env v name cs) (\<lambda>values.
          seq (get_keystone_client (ug_orch env) DEFAULT_REGION_NAME)
            (seq (perform_subcloud_install env v name values) (ret STRATEGY_STATE_MIGRATING_DATA))))))))"

section \<open>\<open>upgrading_duplex.py\<close>\<close>

definition DUPLEX_MAX_FAILED_QUERIES :: nat where "DUPLEX_MAX_FAILED_QUERIES = 180"
definition DUPLEX_FAILED_SLEEP :: nat where "DUPLEX_FAILED_SLEEP = 10"
definition DUPLEX_MAX_QUERIES :: nat where "DUPLEX_MAX_QUERIES = 180"
definition DUPLEX_SLEEP_DURATION :: nat where "DUPLEX_SLEEP_DURATION = 10"

definition migration_over :: "string list \<Rightarrow> bool" where
  "migration_over us =
     (case us of [] \<Rightarrow> False | u # _ \<Rightarrow> u \<in> {''data-migration-failed'', ''data-migration-complete''})"

definition duplex_turn ::
  "'y upgrade_env \<Rightarrow> string \<Rightarrow> nat \<times> nat \<Rightarrow> ('y cached world, (nat \<times> nat, unit) turn) io" where
  "duplex_turn env region = (\<lambda>(fail_counter, api_counter).
     seq (check_stopped (ug_orch env))
       (try_else (up_query env region (ug_get_upgrades env region))
          (\<lambda>_. if DUPLEX_MAX_FAILED_QUERIES \<le> Suc fail_counter
               then raise (PyException ''Timeout waiting for reboot to complete'')
               else seq (sleep DUPLEX_FAILED_SLEEP) (ret (Again (Suc fail_counter, api_counter))))
          (\<lambda>us. if migration_over us then ret (Leave ())
               else if DUPLEX_MAX_QUERIES \<le> Suc api_counter
               then raise (PyException (''Timeout waiting for update state to be updated to '' @
                      ''updated to '' @ [CHR 0x27] @ ''data-migration-failed'' @ [CHR 0x27] @ '' or '' @ [CHR 0x27] @
                      ''data-migration-complete'' @ [CHR 0x27] @ ''.'' @
                      ''Please check sysinv.log on the subcloud '' @ ''for details.''))
               else seq (sleep DUPLEX_SLEEP_DURATION) (ret (Again (0, Suc api_counter))))))"

definition upgrading_duplex_state ::
  "'y upgrade_env \<Rightarrow> step_view \<Rightarrow> ('y cached world, step_state) prog" where
  "upgrading_duplex_state env v =
     bndp (run (get_region_name v)) (\<lambda>region.
     bndp (run (get_host (ug_orch env) region ''controller-1'')) (\<lambda>h.
       seqp (run (up_action env region ''upgrade_host'' (ug_upgrade_host env region (h_id h))))
      (seqp (io_loop (duplex_turn env region) (0, 0))
      (run (bnd (up_query env region (ug_get_upgrades env region)) (\<lambda>us.
         case us of
           [] \<Rightarrow> raise (PyException ''No upgrades were found'')
         | u # _ \<Rightarrow> if u = ''data-migration-failed''
             then raise (PyException ''Data migration failed on host controller-1'')
             else ret STRATEGY_STATE_UNLOCKING_CONTROLLER_1))))))"

section \<open>\<open>migrating_data.py\<close>\<close>

definition ANSIBLE_UPGRADE_PLAYBOOK :: string where
  "ANSIBLE_UPGRADE_PLAYBOOK = ''/usr/share/ansible/stx-ansible/playbooks/upgrade_platform.yml''"
definition MIGRATE_MAX_FAILED_QUERIES :: nat where "MIGRATE_MAX_FAILED_QUERIES = 30"
definition MIGRATE_FAILED_SLEEP :: nat where "MIGRATE_FAILED_SLEEP = 60"
definition MIGRATE_MAX_API_QUERIES :: nat where "MIGRATE_MAX_API_QUERIES = 30"
definition MIGRATE_API_SLEEP :: nat where "MIGRATE_API_SLEEP = 60"
definition MIGRATE_ANSIBLE_SLEEP :: nat where "MIGRATE_ANSIBLE_SLEEP = 180"

definition migrate_subcloud_data ::
  "'y upgrade_env \<Rightarrow> string list \<Rightarrow> string \<Rightarrow> ('y cached world, unit) io" where
  "migrate_subcloud_data env command log_file =
     try_catch (run_playbook (ug_sm env) log_file command)
       (\<lambda>e. on_playbook_failure (raise (PyException (''Failed to migrate data, check individual '' @
          ''log at '' @ log_file @ '' or run '' @ ERROR_DESC_CMD @ '' for details''))) e)"

definition migration_timeout :: "step_view \<Rightarrow> string \<Rightarrow> ('x world, 'a) io" where
  "migration_timeout v msg =
     seq (set_status v DEPLOY_STATE_DATA_MIGRATION_FAILED) (raise (PyException msg))"

definition migrate_unlock_turn ::
  "'y upgrade_env \<Rightarrow> step_view \<Rightarrow> string \<Rightarrow> nat \<times> nat \<Rightarrow> ('y cached world, (nat \<times> nat, unit) turn) io" where
  "migrate_unlock_turn env v name = (\<lambda>(fail_counter, api_counter).
     seq (check_stopped (ug_orch env))
       (try_else (get_host (ug_orch env) name ''controller-0'')
          (\<lambda>_. if MIGRATE_MAX_FAILED_QUERIES \<le> Suc fail_counter
               then migration_timeout v ''Timeout waiting on reboot to complete''
               else seq (sleep MIGRATE_FAILED_SLEEP) (ret (Again (Suc fail_counter, api_counter))))
          (\<lambda>h. if h_administrative h = ''unlocked'' \<and> h_operational h = ''enabled'' then ret (Leave ())
               else if MIGRATE_MAX_API_QUERIES \<le> Suc api_counter
               then migration_timeout v ''Timeout waiting for unlock to complete''
               else seq (sleep MIGRATE_API_SLEEP) (ret (Again (0, Suc api_counter))))))"

definition migrate_command :: "string \<Rightarrow> string list" where
  "migrate_command name =
     [''ansible-playbook'', ANSIBLE_UPGRADE_PLAYBOOK, ''-i'',
      path_join ANSIBLE_OVERRIDES_PATH (name @ INVENTORY_FILE_POSTFIX), ''-e'',
      ''ansible_ssh_pass='' @ TEMP_SYSADMIN_PASSWORD @ '' ansible_become_pass='' @ TEMP_SYSADMIN_PASSWORD @
      '' skip_patching=true'']"

definition run_migration ::
  "'y upgrade_env \<Rightarrow> step_view \<Rightarrow> string \<Rightarrow> string \<Rightarrow> ('y cached world, unit) io" where
  "run_migration env v name log_file =
     try_catch (migrate_subcloud_data env (migrate_command name) log_file)
       (\<lambda>e. bnd (ask (sm_ansible_error_msg (ug_sm env) name log_file
               (deploy_state_str DEPLOY_STATE_MIGRATING_DATA))) (\<lambda>msg.
          seq (install_failed_with v DEPLOY_STATE_DATA_MIGRATION_FAILED msg) (raise e)))"

definition migrating_data_state ::
  "'y upgrade_env \<Rightarrow> step_view \<Rightarrow> ('y cached world, step_state) prog" where
  "migrating_data_state env v =
     (let next_state = run (ret STRATEGY_STATE_UNLOCKING_CONTROLLER_0)
      in bndp (run (the_step_subcloud v)) (\<lambda>old.
         bndp (run (db_io (subcloud_get admin_context (sc_id old)))) (\<lambda>sc.
           if sc_deploy_status sc \<in> {DEPLOY_STATE_MIGRATED, DEPLOY_STATE_DONE} then next_state
           else if sc_deploy_status sc = DEPLOY_STATE_MIGRATING_DATA then
             run (migration_timeout v (''Previous data migration was abruptly terminated. '' @
               ''Please try again with a new upgrade strategy.''))
           else seqp (run (seq (set_status v DEPLOY_STATE_MIGRATING_DATA)
                   (seq (run_migration env v (sc_name old) (log_file_of (sc_name sc)))
                     (sleep MIGRATE_ANSIBLE_SLEEP))))
             (seqp (io_loop (migrate_unlock_turn env v (sc_name old)) (0, 0))
               (seqp (run (set_status v DEPLOY_STATE_MIGRATED)) next_state)))))"

section \<open>\<open>activating.py\<close>\<close>

definition ACTIVATING_COMPLETED_STATES :: "string list" where
  "ACTIVATING_COMPLETED_STATES = [''activation-complete'', ''aborting'']"
definition ACTIVATING_RETRY_STATES :: "string list" where
  "ACTIVATING_RETRY_STATES = [''activation-failed'']"
definition ACTIVATE_MAX_QUERIES :: nat where "ACTIVATE_MAX_QUERIES = 60"
definition ACTIVATE_SLEEP_DURATION :: nat where "ACTIVATE_SLEEP_DURATION = 60"
definition ACTIVATE_MAX_FAILED_RETRIES :: nat where "ACTIVATE_MAX_FAILED_RETRIES = 10"

definition activation_state :: "'y upgrade_env \<Rightarrow> string \<Rightarrow> ('y cached world, string) io" where
  "activation_state env name =
     get_upgrade_state env name (hd ACTIVATING_RETRY_STATES)
       (PyException ''No upgrades were found to activate'')"

text \<open>The local variables are \<open>audit_counter\<close>, \<open>activate_retry_counter\<close> and \<open>first_activate\<close>.\<close>

type_synonym activate_locals = "nat \<times> nat \<times> bool"

definition activate_observed ::
  "'y upgrade_env \<Rightarrow> string \<Rightarrow> nat \<Rightarrow> nat \<Rightarrow> ('y cached world, (activate_locals, unit) turn) io" where
  "activate_observed env name audit_counter retries =
     bnd (activation_state env name) (\<lambda>st.
       let failed = (st \<in> set ACTIVATING_RETRY_STATES)
       in if \<not> failed \<and> st \<in> set ACTIVATING_COMPLETED_STATES then ret (Leave ())
          else seq (when_io failed (try_catch
                 (up_action env name ''upgrade_activate'' (ug_upgrade_activate env name)) (\<lambda>_. ret ())))
            (if ACTIVATE_MAX_QUERIES \<le> Suc audit_counter
             then raise (PyException (''Timeout waiting for activation to complete. '' @
                    ''Please check sysinv.log on the subcloud for '' @ ''details.''))
             else seq (sleep ACTIVATE_SLEEP_DURATION)
               (ret (Again (Suc audit_counter, if failed then Suc retries else retries, False)))))"

definition activate_turn ::
  "'y upgrade_env \<Rightarrow> string \<Rightarrow> activate_locals \<Rightarrow> ('y cached world, (activate_locals, unit) turn) io" where
  "activate_turn env name = (\<lambda>(audit_counter, retries, first_activate).
     seq (check_stopped (ug_orch env))
       (if ACTIVATE_MAX_FAILED_RETRIES \<le> retries then
          raise (PyException (''Failed to activate upgrade. Please check '' @
            ''sysinv.log on the subcloud for details.''))
        else if first_activate then
          try_else (up_action env name ''upgrade_activate'' (ug_upgrade_activate env name))
            (\<lambda>_. seq (sleep ACTIVATE_SLEEP_DURATION) (ret (Again (audit_counter, Suc retries, True))))
            (\<lambda>_. activate_observed env name audit_counter 0)
        else activate_observed env name audit_counter retries))"

definition activating_upgrade_state ::
  "'y upgrade_env \<Rightarrow> step_view \<Rightarrow> ('y cached world, step_state) prog" where
  "activating_upgrade_state env v =
     bndp (run (step_subcloud_name v)) (\<lambda>name.
     bndp (run (try_else (activation_state env name) (\<lambda>_. ret True)
                 (\<lambda>st. ret (st \<in> set ACTIVATING_COMPLETED_STATES)))) (\<lambda>over.
       seqp (if over then run (ret ()) else io_loop (activate_turn env name) (0, 0, True))
         (run (ret STRATEGY_STATE_COMPLETING_UPGRADE))))"

section \<open>\<open>completing.py\<close>\<close>

definition COMPLETE_MAX_QUERIES :: nat where "COMPLETE_MAX_QUERIES = 60"
definition COMPLETE_SLEEP_DURATION :: nat where "COMPLETE_SLEEP_DURATION = 10"

text \<open>\<open>retrying.retry\<close> with at most \<open>Suc n\<close> attempts, whatever is raised.\<close>

fun retrying :: "nat \<Rightarrow> ('x world, 'a) io \<Rightarrow> ('x world, 'a) io" where
  "retrying 0 m = m"
| "retrying (Suc n) m = try_catch m (\<lambda>_. seq (sleep PLATFORM_RETRY_SLEEP) (retrying n m))"

definition with_retries :: "step_view \<Rightarrow> (string \<Rightarrow> ('x world, 'a) io) \<Rightarrow> ('x world, 'a) io" where
  "with_retries v m = retrying (PLATFORM_RETRY_MAX_ATTEMPTS - 1) (bnd (get_region_name v) m)"

definition upgrades_left :: "'y upgrade_env \<Rightarrow> step_view \<Rightarrow> ('y cached world, string list) io" where
  "upgrades_left env v = with_retries v (\<lambda>region. up_query env region (ug_get_upgrades env region))"

definition finalize_upgrade ::
  "'y upgrade_env \<Rightarrow> step_view \<Rightarrow> ('y cached world, step_state) io" where
  "finalize_upgrade env v =
     bnd (with_retries v (\<lambda>region. up_query env region (ug_get_system env region))) (\<lambda>sys.
       seq (update_step_subcloud v (no_values\<lparr>sv_deploy_status := Some DEPLOY_STATE_DONE,
              sv_software_version := Some (si_software_version sys)\<rparr>))
         (ret STRATEGY_STATE_DELETING_LOAD))"

definition complete_turn ::
  "'y upgrade_env \<Rightarrow> step_view \<Rightarrow> string \<Rightarrow> nat \<Rightarrow> ('y cached world, (nat, unit) turn) io" where
  "complete_turn env v message counter =
     seq (check_stopped (ug_orch env))
       (bnd (upgrades_left env v) (\<lambda>us.
          if us = [] then ret (Leave ())
          else if COMPLETE_MAX_QUERIES \<le> Suc counter then
            let msg = ''Timeout waiting for completion to complete: '' @ message @ '':''
            in seq (set_error v msg) (raise (PyException msg))
          else seq (sleep COMPLETE_SLEEP_DURATION) (ret (Again (Suc counter)))))"

definition completing_upgrade_state ::
  "'y upgrade_env \<Rightarrow> step_view \<Rightarrow> ('y cached world, step_state) prog" where
  "completing_upgrade_state env v =
     bndp (run (upgrades_left env v)) (\<lambda>us.
       if us = [] then run (finalize_upgrade env v)
       else bndp (run (try_catch
            (with_retries v (\<lambda>region. up_action env region ''upgrade_complete'' (ug_upgrade_complete env region)))
            (\<lambda>e. seq (set_error v (''Failed to complete upgrade. '' @ exn_str e)) (raise e)))) (\<lambda>message.
          seqp (io_loop (complete_turn env v message) 0) (run (finalize_upgrade env v))))"

section \<open>\<open>deleting_load.py\<close>\<close>

definition DELETE_LOAD_MAX_QUERIES :: nat where "DELETE_LOAD_MAX_QUERIES = 60"
definition DELETE_LOAD_SLEEP_DURATION :: nat where "DELETE_LOAD_SLEEP_DURATION = 10"

definition delete_load_turn ::
  "'y upgrade_env \<Rightarrow> string \<Rightarrow> nat \<Rightarrow> ('y cached world, (nat, unit) turn) io" where
  "delete_load_turn env name counter =
     seq (check_stopped (ug_orch env))
       (bnd (up_query env name (oe_get_loads (ug_orch env) name)) (\<lambda>ls.
          if length ls = 1 then ret (Leave ())
          else if DELETE_LOAD_MAX_QUERIES \<le> Suc counter then
            raise (PyException ''Timeout waiting for load delete to complete'')
          else seq (sleep DELETE_LOAD_SLEEP_DURATION) (ret (Again (Suc counter)))))"

definition deleting_load_state ::
  "'y upgrade_env \<Rightarrow> step_view \<Rightarrow> ('y cached world, step_state) prog" where
  "deleting_load_state env v =
     (let next_state = run (ret STRATEGY_STATE_COMPLETE)
      in bndp (run (step_subcloud_name v)) (\<lambda>name.
         bndp (run (up_query env name (oe_get_loads (ug_orch env) name))) (\<lambda>ls.
           case find (\<lambda>l. ld_state l = ''imported'') ls of
             None \<Rightarrow> next_state
           | Some l \<Rightarrow>
               if ld_id l = 0 then next_state
               else seqp (run (call (SysinvAction name ''delete_load'') (ug_delete_load env name (ld_id l))))
                 (seqp (io_loop (delete_load_turn env name) 0) next_state))))"

section \<open>\<open>sw_upgrade_orch_thread.py\<close>\<close>

definition upgrade_state_operators ::
  "'y upgrade_env \<Rightarrow> step_state \<Rightarrow> ('y cached, unit) operator option" where
  "upgrade_state_operators env st =
     (let orch = ug_orch env in
      case st of
        STRATEGY_STATE_PRE_CHECK \<Rightarrow> Some (\<lambda>_ _. upgrade_pre_check_state env)
      | STRATEGY_STATE_INSTALLING_LICENSE \<Rightarrow> Some (\<lambda>_ _. installing_license_state env)
      | STRATEGY_STATE_IMPORTING_LOAD \<Rightarrow> Some (\<lambda>_ _. importing_load_state env)
      | STRATEGY_STATE_UPDATING_PATCHES \<Rightarrow> Some (\<lambda>_ _. up_updating_patches_state env)
      | STRATEGY_STATE_FINISHING_PATCH_STRATEGY \<Rightarrow> Some (\<lambda>_ _. up_finishing_patch_strategy_state env)
      | STRATEGY_STATE_STARTING_UPGRADE \<Rightarrow> Some (\<lambda>_ _. starting_upgrade_state env)
      | STRATEGY_STATE_TRANSFERRING_CA_CERTIFICATE \<Rightarrow> Some (\<lambda>_. transfer_ca_certificate_state env)
      | STRATEGY_STATE_LOCKING_CONTROLLER_0 \<Rightarrow> Some (\<lambda>_ _. lock_simplex_state orch)
      | STRATEGY_STATE_LOCKING_CONTROLLER_1 \<Rightarrow> Some (\<lambda>_ _. lock_duplex_state orch)
      | STRATEGY_STATE_UPGRADING_SIMPLEX \<Rightarrow> Some (\<lambda>_ _. upgrading_simplex_state env)
      | STRATEGY_STATE_UPGRADING_DUPLEX \<Rightarrow> Some (\<lambda>_ _. upgrading_duplex_state env)
      | STRATEGY_STATE_MIGRATING_DATA \<Rightarrow> Some (\<lambda>_ _. migrating_data_state env)
      | STRATEGY_STATE_SWACTING_TO_CONTROLLER_0 \<Rightarrow> Some (\<lambda>_ _. swact_to_controller_0_state orch)
      | STRATEGY_STATE_SWACTING_TO_CONTROLLER_1 \<Rightarrow> Some (\<lambda>_ _. swact_to_controller_1_state orch)
      | STRATEGY_STATE_UNLOCKING_CONTROLLER_0 \<Rightarrow> Some (\<lambda>_ _. unlock_simplex_state orch)
      | STRATEGY_STATE_UNLOCKING_CONTROLLER_1 \<Rightarrow> Some (\<lambda>_ _. unlock_duplex_state orch)
      | STRATEGY_STATE_ACTIVATING_UPGRADE \<Rightarrow> Some (\<lambda>_ _. activating_upgrade_state env)
      | STRATEGY_STATE_COMPLETING_UPGRADE \<Rightarrow> Some (\<lambda>_ _. completing_upgrade_state env)
      | STRATEGY_STATE_CREATING_VIM_UPGRADE_STRATEGY \<Rightarrow>
          Some (\<lambda>_ _. creating_vim_strategy_state orch (creating_vim_upgrade_strategy orch))
      | STRATEGY_STATE_APPLYING_VIM_UPGRADE_STRATEGY \<Rightarrow>
          Some (\<lambda>_ _. applying_vim_strategy_state orch applying_vim_upgrade_strategy)
      | STRATEGY_STATE_DELETING_LOAD \<Rightarrow> Some (\<lambda>_ _. deleting_load_state env)
      | _ \<Rightarrow> None)"

definition sw_upgrade_orch_thread :: "'y upgrade_env \<Rightarrow> ('y cached, unit) orch_class" where
  "sw_upgrade_orch_thread env =
     \<lparr>oc_update_type = SW_UPDATE_TYPE_UPGRADE,
      oc_vim_strategy_name = Some VIM_STRATEGY_NAME_SW_UPGRADE,
      oc_starting_state = STRATEGY_STATE_PRE_CHECK,
      oc_state_operators = upgrade_state_operators env,
      oc_pre_apply_setup = ret None,
      oc_audit = Some ''trigger_patch_audit'',
      oc_before_delete = initialize_caches\<rparr>"

end
