(* ===== verification/DC_UpdateTables.thy ===== *)
theory DC_UpdateTables
  imports DC_OrchProps DC_Firmware DC_PrestageStates DC_UpgradeRun
begin

text \<open>
  The tables of states of the firmware, prestage and software upgrade threads, proved of their state
  operators, and their interpretations of \<open>orchestration\<close>: what \<open>DC_Progress\<close> shows of a table holds
  of these threads too. Every state operator of every thread returns, the ones that wait for the
  VIM to apply a strategy excepted: they go on as long as the VIM reports progress.
\<close>

section \<open>The tables\<close>

fun fw_nexts :: "step_state \<Rightarrow> step_state set" where
  "fw_nexts STRATEGY_STATE_IMPORTING_FIRMWARE = ends_too {STRATEGY_STATE_CREATING_FW_UPDATE_STRATEGY}"
| "fw_nexts STRATEGY_STATE_CREATING_FW_UPDATE_STRATEGY =
     ends_too {STRATEGY_STATE_APPLYING_FW_UPDATE_STRATEGY}"
| "fw_nexts STRATEGY_STATE_APPLYING_FW_UPDATE_STRATEGY = ends_too {STRATEGY_STATE_FINISHING_FW_UPDATE}"
| "fw_nexts _ = ends_too {}"

fun prestage_nexts :: "step_state \<Rightarrow> step_state set" where
  "prestage_nexts STRATEGY_STATE_PRESTAGE_PRE_CHECK = ends_too {STRATEGY_STATE_PRESTAGE_PREPARE}"
| "prestage_nexts STRATEGY_STATE_PRESTAGE_PREPARE = ends_too {STRATEGY_STATE_PRESTAGE_PACKAGES}"
| "prestage_nexts STRATEGY_STATE_PRESTAGE_PACKAGES = ends_too {STRATEGY_STATE_PRESTAGE_IMAGES}"
| "prestage_nexts _ = ends_too {}"

text \<open>The pre-check of an upgrade goes on where an earlier strategy has left off.\<close>

definition resume_states :: "step_state set" where
  "resume_states = {STRATEGY_STATE_INSTALLING_LICENSE, STRATEGY_STATE_UPGRADING_SIMPLEX,
     STRATEGY_STATE_MIGRATING_DATA, STRATEGY_STATE_UNLOCKING_CONTROLLER_1,
     STRATEGY_STATE_SWACTING_TO_CONTROLLER_1, STRATEGY_STATE_CREATING_VIM_UPGRADE_STRATEGY,
     STRATEGY_STATE_SWACTING_TO_CONTROLLER_0, STRATEGY_STATE_ACTIVATING_UPGRADE,
     STRATEGY_STATE_COMPLETING_UPGRADE}"

fun upgrade_nexts :: "step_state \<Rightarrow> step_state set" where
  "upgrade_nexts STRATEGY_STATE_PRE_CHECK = ends_too resume_states"
| "upgrade_nexts STRATEGY_STATE_INSTALLING_LICENSE = ends_too {STRATEGY_STATE_IMPORTING_LOAD}"
| "upgrade_nexts STRATEGY_STATE_IMPORTING_LOAD = ends_too {STRATEGY_STATE_UPDATING_PATCHES}"
| "upgrade_nexts STRATEGY_STATE_UPDATING_PATCHES = ends_too {STRATEGY_STATE_FINISHING_PATCH_STRATEGY}"
| "upgrade_nexts STRATEGY_STATE_FINISHING_PATCH_STRATEGY = ends_too {STRATEGY_STATE_STARTING_UPGRADE}"
| "upgrade_nexts STRATEGY_STATE_STARTING_UPGRADE = ends_too {STRATEGY_STATE_TRANSFERRING_CA_CERTIFICATE}"
| "upgrade_nexts STRATEGY_STATE_TRANSFERRING_CA_CERTIFICATE =
     ends_too {STRATEGY_STATE_LOCKING_CONTROLLER_0, STRATEGY_STATE_LOCKING_CONTROLLER_1}"
| "upgrade_nexts STRATEGY_STATE_LOCKING_CONTROLLER_0 = ends_too {STRATEGY_STATE_UPGRADING_SIMPLEX}"
| "upgrade_nexts STRATEGY_STATE_UPGRADING_SIMPLEX = ends_too {STRATEGY_STATE_MIGRATING_DATA}"
| "upgrade_nexts STRATEGY_STATE_MIGRATING_DATA = ends_too {STRATEGY_STATE_UNLOCKING_CONTROLLER_0}"
| "upgrade_nexts STRATEGY_STATE_UNLOCKING_CONTROLLER_0 = ends_too {STRATEGY_STATE_ACTIVATING_UPGRADE}"
| "upgrade_nexts STRATEGY_STATE_LOCKING_CONTROLLER_1 = ends_too {STRATEGY_STATE_UPGRADING_DUPLEX}"
| "upgrade_nexts STRATEGY_STATE_UPGRADING_DUPLEX = ends_too {STRATEGY_STATE_UNLOCKING_CONTROLLER_1}"
| "upgrade_nexts STRATEGY_STATE_UNLOCKING_CONTROLLER_1 = ends_too {STRATEGY_STATE_SWACTING_TO_CONTROLLER_1}"
| "upgrade_nexts STRATEGY_STATE_SWACTING_TO_CONTROLLER_1 =
     ends_too {STRATEGY_STATE_CREATING_VIM_UPGRADE_STRATEGY}"
| "upgrade_nexts STRATEGY_STATE_CREATING_VIM_UPGRADE_STRATEGY =
     ends_too {STRATEGY_STATE_APPLYING_VIM_UPGRADE_STRATEGY}"
| "upgrade_nexts STRATEGY_STATE_APPLYING_VIM_UPGRADE_STRATEGY =
     ends_too {STRATEGY_STATE_SWACTING_TO_CONTROLLER_0}"
| "upgrade_nexts STRATEGY_STATE_SWACTING_TO_CONTROLLER_0 = ends_too {STRATEGY_STATE_ACTIVATING_UPGRADE}"
| "upgrade_nexts STRATEGY_STATE_ACTIVATING_UPGRADE = ends_too {STRATEGY_STATE_COMPLETING_UPGRADE}"
| "upgrade_nexts STRATEGY_STATE_COMPLETING_UPGRADE = ends_too {STRATEGY_STATE_DELETING_LOAD}"
| "upgrade_nexts _ = ends_too {}"

definition fw_states_order :: "step_state list" where
  "fw_states_order = [STRATEGY_STATE_IMPORTING_FIRMWARE, STRATEGY_STATE_CREATING_FW_UPDATE_STRATEGY,
     STRATEGY_STATE_APPLYING_FW_UPDATE_STRATEGY, STRATEGY_STATE_FINISHING_FW_UPDATE]"

definition prestage_states_order :: "step_state list" where
  "prestage_states_order = [STRATEGY_STATE_PRESTAGE_PRE_CHECK, STRATEGY_STATE_PRESTAGE_PREPARE,
     STRATEGY_STATE_PRESTAGE_PACKAGES, STRATEGY_STATE_PRESTAGE_IMAGES]"

definition upgrade_states_order :: "step_state list" where
  "upgrade_states_order = [STRATEGY_STATE_PRE_CHECK, STRATEGY_STATE_INSTALLING_LICENSE,
     STRATEGY_STATE_IMPORTING_LOAD, STRATEGY_STATE_UPDATING_PATCHES,
     STRATEGY_STATE_FINISHING_PATCH_STRATEGY, STRATEGY_STATE_STARTING_UPGRADE,
     STRATEGY_STATE_TRANSFERRING_CA_CERTIFICATE, STRATEGY_STATE_LOCKING_CONTROLLER_0,
     STRATEGY_STATE_UPGRADING_SIMPLEX, STRATEGY_STATE_MIGRATING_DATA,
     STRATEGY_STATE_UNLOCKING_CONTROLLER_0, STRATEGY_STATE_LOCKING_CONTROLLER_1,
     STRATEGY_STATE_UPGRADING_DUPLEX, STRATEGY_STATE_UNLOCKING_CONTROLLER_1,
     STRATEGY_STATE_SWACTING_TO_CONTROLLER_1, STRATEGY_STATE_CREATING_VIM_UPGRADE_STRATEGY,
     STRATEGY_STATE_APPLYING_VIM_UPGRADE_STRATEGY, STRATEGY_STATE_SWACTING_TO_CONTROLLER_0,
     STRATEGY_STATE_ACTIVATING_UPGRADE, STRATEGY_STATE_COMPLETING_UPGRADE, STRATEGY_STATE_DELETING_LOAD]"

lemmas update_table_defs = active_def ends_too_def rank_of_def fw_states_order_def
  prestage_states_order_def upgrade_states_order_def resume_states_def

lemma fw_step_table: "step_table STRATEGY_STATE_IMPORTING_FIRMWARE fw_nexts (rank_of fw_states_order)"
proof (rule step_table_of_order)
  show "place fw_states_order s < place fw_states_order st" if "active s" "st \<in> fw_nexts s" for s st
    using that by (cases s) (auto simp: update_table_defs)
  show "st \<noteq> STRATEGY_STATE_INITIAL" if "st \<in> fw_nexts s" for s st
    using that by (cases s) (auto simp: update_table_defs)
qed (auto simp: update_table_defs)

lemma prestage_step_table:
  "step_table STRATEGY_STATE_PRESTAGE_PRE_CHECK prestage_nexts (rank_of prestage_states_order)"
proof (rule step_table_of_order)
  show "place prestage_states_order s < place prestage_states_order st"
    if "active s" "st \<in> prestage_nexts s" for s st
    using that by (cases s) (auto simp: update_table_defs)
  show "st \<noteq> STRATEGY_STATE_INITIAL" if "st \<in> prestage_nexts s" for s st
    using that by (cases s) (auto simp: update_table_defs)
qed (auto simp: update_table_defs)

lemma upgrade_step_table:
  "step_table STRATEGY_STATE_PRE_CHECK upgrade_nexts (rank_of upgrade_states_order)"
proof (rule step_table_of_order)
  show "place upgrade_states_order s < place upgrade_states_order st"
    if "active s" "st \<in> upgrade_nexts s" for s st
    using that by (cases s) (auto simp: update_table_defs)
  show "st \<noteq> STRATEGY_STATE_INITIAL" if "st \<in> upgrade_nexts s" for s st
    using that by (cases s) (auto simp: update_table_defs)
qed (auto simp: update_table_defs)

section \<open>What the operators return\<close>

lemma returns_case_list [returns_intros]:
  "returns m R \<Longrightarrow> (\<And>y ys. returns (f y ys) R) \<Longrightarrow> returns (case xs of [] \<Rightarrow> m | y # ys \<Rightarrow> f y ys) R"
  by (simp split: list.splits)

lemma returns_weaken: "returns m R \<Longrightarrow> (\<And>x. R x \<Longrightarrow> R' x) \<Longrightarrow> returns m R'"
  by (simp add: returns_def)

lemma fw_operators_yield:
  assumes "fw_state_operators env st = Some operator"
  shows "yields (operator data region v) (fw_nexts st)"
proof -
  have "yields (importing_firmware_state env v) (ends_too {STRATEGY_STATE_CREATING_FW_UPDATE_STRATEGY})"
    unfolding importing_firmware_state_def
    by (intro yields_intros returns_intros) (simp_all add: ends_too_def)
  moreover have "yields (applying_fw_vim_strategy_state (fw_orch env) v) (ends_too {STRATEGY_STATE_FINISHING_FW_UPDATE})"
    unfolding applying_fw_vim_strategy_state_def
    by (intro yields_intros returns_intros) (simp_all add: ends_too_def)
  moreover have "yields (finishing_fw_update_state env v) (ends_too {})"
    unfolding finishing_fw_update_state_def Let_def
    by (intro yields_intros returns_intros) (simp_all add: ends_too_def)
  moreover have "yields (creating_vim_strategy_state (fw_orch env) (creating_fw_vim_strategy (fw_orch env)) v)
      (ends_too {STRATEGY_STATE_APPLYING_FW_UPDATE_STRATEGY})"
    by (rule creating_yields) (auto simp: creating_fw_vim_strategy_def default_create_class_def ends_too_def)
  ultimately show ?thesis using assms by (auto simp: fw_state_operators_def split: if_splits)
qed

lemma prestage_operators_yield:
  assumes "prestage_state_operators env st = Some operator"
  shows "yields (operator data region v) (prestage_nexts st)"
proof -
  have "yields (prestage_state nx action v) sts" if "nx \<in> sts" for nx sts and action :: "step_view \<Rightarrow> ('a world, unit) io"
    unfolding prestage_state_def Let_def using that by (intro yields_intros returns_intros)
  then show ?thesis using assms
    by (auto simp: prestage_state_operators_def ends_too_def split: if_splits)
qed

lemma pre_check_returns:
  "returns (perform_subcloud_online_checks env name v h us) (\<lambda>_. True)"
  "returns (resume_duplex env name h u) (\<lambda>st. st \<in> resume_states)"
  "returns (pre_check_simplex env name v sc h us) (\<lambda>st. st \<in> resume_states)"
  "returns (pre_check_online env v sc) (\<lambda>st. st \<in> resume_states)"
  "returns (pre_check_offline v sc) (\<lambda>st. st \<in> resume_states)"
proof -
  show a: "returns (resume_duplex env name h u) (\<lambda>st. st \<in> resume_states)" for env :: "'a upgrade_env" and name h u
    unfolding resume_duplex_def activate_or_swact_def
    by (intro returns_intros) (auto simp: resume_states_def)
  show b: "returns (pre_check_simplex env name v sc h us) (\<lambda>st. st \<in> resume_states)"
    for env :: "'a upgrade_env" and name v sc h us
    unfolding pre_check_simplex_def by (intro returns_intros) (auto simp: resume_states_def)
  show "returns (pre_check_online env v sc) (\<lambda>st. st \<in> resume_states)"
    unfolding pre_check_online_def by (intro returns_intros a b) (auto simp: resume_states_def)
  show "returns (pre_check_offline v sc) (\<lambda>st. st \<in> resume_states)"
    unfolding pre_check_offline_def by (intro returns_intros) (auto simp: resume_states_def)
qed (simp add: returns_def)

text \<open>What each state can hand on.\<close>

lemma installing_license_yields: "yields (installing_license_state env v) (ends_too {STRATEGY_STATE_IMPORTING_LOAD})"
  unfolding installing_license_state_def Let_def
  by (intro yields_intros returns_intros) (simp_all add: ends_too_def)

lemma importing_load_yields: "yields (importing_load_state env v) (ends_too {STRATEGY_STATE_UPDATING_PATCHES})"
  unfolding importing_load_state_def Let_def
  by (intro yields_intros returns_intros) (simp_all add: ends_too_def)

lemma up_updating_patches_yields: "yields (up_updating_patches_state env v) (ends_too {STRATEGY_STATE_FINISHING_PATCH_STRATEGY})"
  unfolding up_updating_patches_state_def Let_def
  by (intro yields_intros returns_intros) (simp_all add: ends_too_def)

lemma up_finishing_patch_strategy_yields: "yields (up_finishing_patch_strategy_state env v) (ends_too {STRATEGY_STATE_STARTING_UPGRADE})"
  unfolding up_finishing_patch_strategy_state_def Let_def
  by (intro yields_intros returns_intros) (simp_all add: ends_too_def)

lemma starting_upgrade_yields: "yields (starting_upgrade_state env v) (ends_too {STRATEGY_STATE_TRANSFERRING_CA_CERTIFICATE})"
  unfolding starting_upgrade_state_def Let_def
  by (intro yields_intros returns_intros) (simp_all add: ends_too_def)

lemma transfer_ca_certificate_yields: "yields (transfer_ca_certificate_state env region v) (ends_too {STRATEGY_STATE_LOCKING_CONTROLLER_0, STRATEGY_STATE_LOCKING_CONTROLLER_1})"
  unfolding transfer_ca_certificate_state_def Let_def
  by (intro yields_intros returns_intros) (simp_all add: ends_too_def)

lemma upgrading_simplex_yields: "yields (upgrading_simplex_state env v) (ends_too {STRATEGY_STATE_MIGRATING_DATA})"
  unfolding upgrading_simplex_state_def Let_def
  by (intro yields_intros returns_intros) (simp_all add: ends_too_def)

lemma upgrading_duplex_yields: "yields (upgrading_duplex_state env v) (ends_too {STRATEGY_STATE_UNLOCKING_CONTROLLER_1})"
  unfolding upgrading_duplex_state_def Let_def
  by (intro yields_intros returns_intros) (simp_all add: ends_too_def)

lemma migrating_data_yields: "yields (migrating_data_state env v) (ends_too {STRATEGY_STATE_UNLOCKING_CONTROLLER_0})"
  unfolding migrating_data_state_def migration_timeout_def Let_def
  by (intro yields_intros returns_intros) (simp_all add: ends_too_def)

lemma activating_upgrade_yields: "yields (activating_upgrade_state env v) (ends_too {STRATEGY_STATE_COMPLETING_UPGRADE})"
  unfolding activating_upgrade_state_def Let_def
  by (intro yields_intros returns_intros) (simp_all add: ends_too_def)

lemma completing_upgrade_yields: "yields (completing_upgrade_state env v) (ends_too {STRATEGY_STATE_DELETING_LOAD})"
  unfolding completing_upgrade_state_def finalize_upgrade_def Let_def
  by (intro yields_intros returns_intros) (simp_all add: ends_too_def)

lemma deleting_load_yields: "yields (deleting_load_state env v) (ends_too {})"
  unfolding deleting_load_state_def Let_def
  by (intro yields_intros returns_intros) (simp_all add: ends_too_def)

lemma host_states_yield:
  "yields (lock_host_state orch nx hn v) (ends_too {nx})"
  "yields (unlock_host_state orch nx hn v) (ends_too {nx})"
  "yields (swact_host_state orch nx a b v) (ends_too {nx})"
proof -
  show "yields (lock_host_state orch nx hn v) (ends_too {nx})"
    unfolding lock_host_state_def by (intro yields_intros returns_intros) (simp_all add: ends_too_def)
  show "yields (unlock_host_state orch nx hn v) (ends_too {nx})"
    unfolding unlock_host_state_def by (intro yields_intros returns_intros) (simp_all add: ends_too_def)
  show "yields (swact_host_state orch nx a b v) (ends_too {nx})"
    unfolding swact_host_state_def by (intro yields_intros returns_intros) (simp_all add: ends_too_def)
qed

lemma upgrade_pre_check_yields: "yields (upgrade_pre_check_state env v) (ends_too resume_states)"
proof -
  have "returns (pre_check_online env v sc) (\<lambda>st. st \<in> ends_too resume_states)"
    "returns (pre_check_offline v sc) (\<lambda>st. st \<in> ends_too resume_states)" for sc
    by (rule returns_weaken [OF pre_check_returns(4)], simp add: ends_too_def)
      (rule returns_weaken [OF pre_check_returns(5)], simp add: ends_too_def)
  then show ?thesis unfolding upgrade_pre_check_state_def by (intro yields_intros returns_intros)
qed

lemma vim_upgrade_yields:
  "yields (creating_vim_strategy_state orch (creating_vim_upgrade_strategy orch) v)
     (ends_too {STRATEGY_STATE_APPLYING_VIM_UPGRADE_STRATEGY})"
  "yields (applying_vim_strategy_state orch applying_vim_upgrade_strategy v)
     (ends_too {STRATEGY_STATE_SWACTING_TO_CONTROLLER_0})"
proof -
  show "yields (creating_vim_strategy_state orch (creating_vim_upgrade_strategy orch) v)
      (ends_too {STRATEGY_STATE_APPLYING_VIM_UPGRADE_STRATEGY})"
    by (rule creating_yields)
      (auto simp: creating_vim_upgrade_strategy_def default_create_class_def ends_too_def)
  show "yields (applying_vim_strategy_state orch applying_vim_upgrade_strategy v)
      (ends_too {STRATEGY_STATE_SWACTING_TO_CONTROLLER_0})"
    by (rule applying_yields)
      (simp add: applying_vim_upgrade_strategy_def default_apply_class_def ends_too_def)
qed

lemmas upgrade_yields = upgrade_pre_check_yields installing_license_yields importing_load_yields
  up_updating_patches_yields up_finishing_patch_strategy_yields starting_upgrade_yields
  transfer_ca_certificate_yields upgrading_simplex_yields upgrading_duplex_yields
  migrating_data_yields activating_upgrade_yields completing_upgrade_yields deleting_load_yields
  host_states_yield vim_upgrade_yields

lemma upgrade_operators_yield:
  assumes "upgrade_state_operators env st = Some operator"
  shows "yields (operator data region v) (upgrade_nexts st)"
  using assms
  apply (cases st; simp only: upgrade_state_operators_def Let_def step_state.case option.inject option.distinct)
  apply (simp_all only: upgrade_nexts.simps)
  apply (drule sym; simp add: upgrade_yields lock_simplex_state_def lock_duplex_state_def unlock_simplex_state_def
        unlock_duplex_state_def swact_to_controller_0_state_def swact_to_controller_1_state_def)+
  done

section \<open>The threads as orchestrations\<close>

lemma update_nexts_end:
  "STRATEGY_STATE_FAILED \<in> fw_nexts st \<and> STRATEGY_STATE_COMPLETE \<in> fw_nexts st"
  "STRATEGY_STATE_FAILED \<in> prestage_nexts st \<and> STRATEGY_STATE_COMPLETE \<in> prestage_nexts st"
  "STRATEGY_STATE_FAILED \<in> upgrade_nexts st \<and> STRATEGY_STATE_COMPLETE \<in> upgrade_nexts st"
  by (cases st; simp add: ends_too_def)+

interpretation fw: orchestration STRATEGY_STATE_IMPORTING_FIRMWARE fw_nexts
    "rank_of fw_states_order" "fw_update_orch_thread env" for env
  unfolding orchestration_def orchestration_axioms_def
  using fw_step_table update_nexts_end yieldsD [OF fw_operators_yield]
  by (auto simp: fw_update_orch_thread_def intro!: keeps_intros)

interpretation prestage: orchestration STRATEGY_STATE_PRESTAGE_PRE_CHECK prestage_nexts
    "rank_of prestage_states_order" "prestage_orch_thread env" for env
  unfolding orchestration_def orchestration_axioms_def
  using prestage_step_table update_nexts_end yieldsD [OF prestage_operators_yield]
  by (auto simp: prestage_orch_thread_def intro!: keeps_intros)

interpretation upgrade: orchestration STRATEGY_STATE_PRE_CHECK upgrade_nexts
    "rank_of upgrade_states_order" "sw_upgrade_orch_thread env" for env
  unfolding orchestration_def orchestration_axioms_def
  using upgrade_step_table update_nexts_end yieldsD [OF upgrade_operators_yield]
  by (auto simp: sw_upgrade_orch_thread_def intro!: keeps_intros)

end
