(* ===== verification/DC_UpdateEnds.thy ===== *)
theory DC_UpdateEnds
  imports DC_UpdateTables
begin

text \<open>
  Every state operator of every orchestration thread returns, the ones that wait for the VIM to
  apply a strategy excepted: those go on as long as the VIM reports progress.
\<close>

section \<open>The loops of the states\<close>

text \<open>A loop whose turns only go on with smaller local variables.\<close>

lemma descending_loop_returns:
  assumes "wf R" and "\<And>l. returns (body l) (\<lambda>t. \<forall>l'. t = Again l' \<longrightarrow> (l', l) \<in> R)"
  shows "returnsp (io_loop body l)"
  using returnsD [OF assms(2)] by (blast intro: io_loop_returns [OF _ assms(1)])

lemmas counts_up = descending_loop_returns [OF wf_measure [where f = "\<lambda>c. C - c" for C :: nat]]
lemmas budgets_down =
  descending_loop_returns [OF wf_measures [where fs = "[\<lambda>(f, c). C - c, \<lambda>(f, c). F - f]" for C F :: nat]]

lemma load_loop_returns [returnsp_intros]: "returnsp (io_loop (load_turn env name req) c)"
  by (rule counts_up [where C = IMPORT_MAX_QUERIES], unfold load_turn_def)
    (intro returns_intros; simp)

lemma import_loop_returns [returnsp_intros]: "returnsp (io_loop (import_turn env name target) c)"
  by (rule counts_up [where C = IMPORT_MAX_FAILED_RETRIES], unfold import_turn_def)
    (intro returns_intros; auto split: exn.splits intro!: returns_intros)

lemma start_loop_returns [returnsp_intros]: "returnsp (io_loop (start_turn env name force) l)"
  by (rule descending_loop_returns [OF wf_measure [where f = "\<lambda>(c, r). START_MAX_QUERIES - c"]],
      unfold start_turn_def Let_def)
    (intro returns_intros; simp split: prod.splits)

lemma transfer_loop_returns [returnsp_intros]: "returnsp (io_loop (transfer_turn env name) c)"
  by (rule counts_up [where C = "Suc TRANSFER_MAX_RETRIES"], unfold transfer_turn_def)
    (intro returns_intros; simp)

lemma duplex_loop_returns [returnsp_intros]: "returnsp (io_loop (duplex_turn env region) l)"
  by (rule budgets_down [where C = DUPLEX_MAX_QUERIES and F = DUPLEX_MAX_FAILED_QUERIES],
      unfold duplex_turn_def)
    (intro returns_intros; simp split: prod.splits; linarith?)

lemma migrate_unlock_loop_returns [returnsp_intros]: "returnsp (io_loop (migrate_unlock_turn env v name) l)"
  by (rule budgets_down [where C = MIGRATE_MAX_API_QUERIES and F = MIGRATE_MAX_FAILED_QUERIES],
      unfold migrate_unlock_turn_def migration_timeout_def)
    (intro returns_intros; simp split: prod.splits; linarith?)

lemma activate_loop_returns [returnsp_intros]: "returnsp (io_loop (activate_turn env name) l)"
  by (rule descending_loop_returns [OF wf_measures
          [where fs = "[\<lambda>(a, r, b). ACTIVATE_MAX_QUERIES - a, \<lambda>(a, r, b). ACTIVATE_MAX_FAILED_RETRIES - r]"]],
      unfold activate_turn_def activate_observed_def Let_def)
    (intro returns_intros; simp split: prod.splits; linarith?)

lemma complete_loop_returns [returnsp_intros]: "returnsp (io_loop (complete_turn env v msg) c)"
  by (rule counts_up [where C = COMPLETE_MAX_QUERIES], unfold complete_turn_def Let_def)
    (intro returns_intros; simp)

lemma delete_load_loop_returns [returnsp_intros]: "returnsp (io_loop (delete_load_turn env name) c)"
  by (rule counts_up [where C = DELETE_LOAD_MAX_QUERIES], unfold delete_load_turn_def)
    (intro returns_intros; simp)

lemma devices_loop_returns [returnsp_intros]: "returnsp (io_loop (devices_turn env region) l)"
  by (rule descending_loop_returns [OF wf_measure [where f = "\<lambda>(f, ds). Suc FINISH_MAX_FAILED_QUERIES - f"]],
      unfold devices_turn_def try_again_def)
    (intro returns_intros; simp split: prod.splits; linarith?)

lemma images_loop_returns [returnsp_intros]: "returnsp (io_loop (images_turn env region) c)"
  by (rule counts_up [where C = "Suc FINISH_MAX_FAILED_QUERIES"], unfold images_turn_def try_again_def)
    (intro returns_intros; simp; linarith?)

section \<open>The operators\<close>

lemma returnsp_case_list [returnsp_intros]:
  "returnsp m \<Longrightarrow> (\<And>y ys. returnsp (f y ys)) \<Longrightarrow> returnsp (case xs of [] \<Rightarrow> m | y # ys \<Rightarrow> f y ys)"
  by (simp split: list.splits)

lemma returnsp_case_prod [returnsp_intros]:
  "(\<And>a b. returnsp (f a b)) \<Longrightarrow> returnsp (case x of (a, b) \<Rightarrow> f a b)"
  by (simp split: prod.splits)

definition waits_for_vim :: "step_state set" where
  "waits_for_vim = {STRATEGY_STATE_APPLYING_FW_UPDATE_STRATEGY, STRATEGY_STATE_APPLYING_VIM_UPGRADE_STRATEGY,
     STRATEGY_STATE_APPLYING_VIM_PATCH_STRATEGY, STRATEGY_STATE_KUBE_APPLYING_VIM_KUBE_UPGRADE_STRATEGY,
     STRATEGY_STATE_APPLYING_VIM_KUBE_ROOTCA_UPDATE_STRATEGY}"

lemmas state_defs = upgrade_pre_check_state_def installing_license_state_def importing_load_state_def
  up_updating_patches_state_def up_finishing_patch_strategy_state_def starting_upgrade_state_def
  transfer_ca_certificate_state_def upgrading_simplex_state_def upgrading_duplex_state_def
  migrating_data_state_def activating_upgrade_state_def completing_upgrade_state_def
  deleting_load_state_def

lemma upgrade_states_terminate:
  "returnsp (upgrade_pre_check_state env v)" "returnsp (installing_license_state env v)"
  "returnsp (importing_load_state env v)" "returnsp (up_updating_patches_state env v)"
  "returnsp (up_finishing_patch_strategy_state env v)" "returnsp (starting_upgrade_state env v)"
  "returnsp (transfer_ca_certificate_state env region v)" "returnsp (upgrading_simplex_state env v)"
  "returnsp (upgrading_duplex_state env v)" "returnsp (migrating_data_state env v)"
  "returnsp (activating_upgrade_state env v)" "returnsp (completing_upgrade_state env v)"
  "returnsp (deleting_load_state env v)"
  unfolding state_defs Let_def wait_for_request_to_complete_def
  by (intro returnsp_intros)+

lemma fw_states_terminate:
  "returnsp (importing_firmware_state fw v)" "returnsp (finishing_fw_update_state fw v)"
  unfolding importing_firmware_state_def finishing_fw_update_state_def Let_def
  by (intro returnsp_intros)+

definition terminating :: "(step_state \<Rightarrow> ('x, 'd) operator option) \<Rightarrow> bool" where
  "terminating operators \<longleftrightarrow>
     (\<forall>st operator data region v. st \<notin> waits_for_vim \<longrightarrow> operators st = Some operator \<longrightarrow>
        returnsp (operator data region v))"

lemma upgrade_terminates: "terminating (upgrade_state_operators env)"
  unfolding terminating_def
proof (intro allI impI)
  fix st operator data region v
  assume "st \<notin> waits_for_vim" "upgrade_state_operators env st = Some operator"
  then show "returnsp (operator data region v)"
    apply (cases st; simp only: upgrade_state_operators_def Let_def step_state.case option.inject option.distinct)
    apply (drule sym; simp add: upgrade_states_terminate host_states_return creating_vim_strategy_returns
        lock_simplex_state_def lock_duplex_state_def unlock_simplex_state_def unlock_duplex_state_def
        swact_to_controller_0_state_def swact_to_controller_1_state_def waits_for_vim_def)+
    done
qed

lemma other_threads_terminate:
  "terminating (patch_state_operators orch)" "terminating (kube_state_operators orch)"
  "terminating (kube_rootca_state_operators orch)" "terminating (fw_state_operators fw)"
  "terminating (prestage_state_operators pre)"
proof -
  show "terminating (patch_state_operators orch)"
    using creating_vim_strategy_returns
    by (auto simp: terminating_def patch_states_return patch_state_operators_def Let_def
        waits_for_vim_def returnsp_run
        split: if_splits option.splits)
  show "terminating (kube_state_operators orch)"
    using creating_vim_strategy_returns
    by (auto simp: terminating_def returnsp_run kube_state_operators_def kube_pre_check_state_def waits_for_vim_def
        split: if_splits)
  show "terminating (kube_rootca_state_operators orch)"
    using creating_vim_strategy_returns
    by (auto simp: terminating_def returnsp_run kube_rootca_state_operators_def rootca_pre_check_state_def
        rootca_start_state_def rootca_upload_cert_state_def waits_for_vim_def split: if_splits)
  show "terminating (fw_state_operators fw)"
    using creating_vim_strategy_returns fw_states_terminate
    by (auto simp: terminating_def fw_state_operators_def waits_for_vim_def split: if_splits)
  show "terminating (prestage_state_operators pre)"
    by (auto simp: terminating_def prestage_state_operators_def prestage_state_def split: if_splits
        intro!: returnsp_intros)
qed

text \<open>C28: Whatever the subclouds answer and however long they stay unreachable, every state operator
  of the six threads returns, with a next state or an exception, so that a subcloud is never driven
  forever; only the states that wait for the VIM to apply a strategy go on as long as it reports
  progress.\<close>

theorem operators_return:
  "terminating (patch_state_operators orch) \<and> terminating (kube_state_operators orch) \<and>
   terminating (kube_rootca_state_operators orch) \<and> terminating (fw_state_operators fw) \<and>
   terminating (prestage_state_operators pre) \<and> terminating (upgrade_state_operators up)"
  by (intro conjI upgrade_terminates other_threads_terminate)

end
