(* ===== verification/DC_DeployProps.thy ===== *)
theory DC_DeployProps
  imports DC_Deploy DC_SubcloudProps
begin

text \<open>
  What the deployment of a subcloud promises: the playbooks run in order, each only after the one
  before it has succeeded, a thread that ends leaves a final status, and what an override file holds
  can be read back (\<open>read_override\<close>).
\<close>

section \<open>Override files\<close>











section \<open>Reading an override file back\<close>














lemma take_json_string [simp]: "take 1 (json_string s @ rest) = [CHR 0x22]" "json_string s \<noteq> []"
  by (simp_all add: json_string_def)


definition no_digit :: "string \<Rightarrow> bool" where
  "no_digit s \<longleftrightarrow> (case s of [] \<Rightarrow> True | c # _ \<Rightarrow> \<not> is_digit c)"








lemma join_with_Cons: "join_with sep (s # t # ss) = s @ sep @ join_with sep (t # ss)"
  by simp

lemma no_digit_punctuation [simp]:
  "no_digit (CHR '']'' # s)" "no_digit (CHR ''}'' # s)" "no_digit (CHR '','' # s)" "no_digit []"
  by (simp_all add: no_digit_def is_digit_def)











section \<open>The stages of a deployment\<close>

text \<open>The playbooks of a deployment in the order installation, bootstrap, deployment, rehoming, each
  with the state of a subcloud for which it has failed.\<close>

definition later_playbooks :: "deploy_job \<Rightarrow> (deploy_state \<times> string list) list" where
  "later_playbooks j = [(st, c). (st, Some c) \<leftarrow>
     [(DEPLOY_STATE_BOOTSTRAP_FAILED, dj_apply j), (DEPLOY_STATE_DEPLOY_FAILED, dj_deploy j),
      (DEPLOY_STATE_REHOME_FAILED, dj_rehome j)]]"

definition deploy_playbooks :: "deploy_job \<Rightarrow> (deploy_state \<times> string list) list" where
  "deploy_playbooks j =
     (case dj_install j of None \<Rightarrow> [] | Some c \<Rightarrow> [(DEPLOY_STATE_INSTALL_FAILED, c)]) @ later_playbooks j"

text \<open>How the outside answers: \<open>ansible_run env l cs x oks\<close> says that of the playbooks \<open>cs\<close>, the first
  of which is started when the outside is in state \<open>x\<close> and each of the others when the one before
  it has succeeded, those that were started succeeded or failed as \<open>oks\<close> says.\<close>

inductive ansible_run :: "'x sm_env \<Rightarrow> string \<Rightarrow> string list list \<Rightarrow> 'x \<Rightarrow> bool list \<Rightarrow> bool" where
  all_run: "ansible_run env l [] x []"
| succeeded: "sm_run_playbook env l c x = (Inr (), y) \<Longrightarrow> ansible_run env l cs y oks \<Longrightarrow>
    ansible_run env l (c # cs) x (True # oks)"
| broke_off: "sm_run_playbook env l c x = (Inl e, y) \<Longrightarrow> ansible_run env l (c # cs) x [False]"

text \<open>The same with the installation, which goes through \<open>SubcloudInstall\<close>: nothing is started when the
  preparation fails.\<close>

inductive deploy_run :: "'x sm_env \<Rightarrow> deploy_job \<Rightarrow> 'x \<Rightarrow> bool list \<Rightarrow> bool" for env j x where
  not_installed: "dj_install j = None \<Longrightarrow>
    ansible_run env (log_file_of (sc_name (dj_subcloud j))) (map snd (later_playbooks j)) x oks \<Longrightarrow>
    deploy_run env j x oks"
| unprepared: "dj_install j = Some c \<Longrightarrow> dict_at ''install_values'' (dj_payload j) = Inr v \<Longrightarrow>
    sm_install_new env (sc_name (dj_subcloud j)) x = (Inr (), x1) \<Longrightarrow>
    sm_install_prep env ANSIBLE_OVERRIDES_PATH v x1 = (Inl e, x2) \<Longrightarrow> deploy_run env j x []"
| install_fails: "dj_install j = Some c \<Longrightarrow> dict_at ''install_values'' (dj_payload j) = Inr v \<Longrightarrow>
    sm_install_new env (sc_name (dj_subcloud j)) x = (Inr (), x1) \<Longrightarrow>
    sm_install_prep env ANSIBLE_OVERRIDES_PATH v x1 = (Inr (), x2) \<Longrightarrow>
    sm_install_install env DC_ANSIBLE_LOG_DIR c x2 = (Inl e, x3) \<Longrightarrow> deploy_run env j x [False]"
| installed: "dj_install j = Some c \<Longrightarrow> dict_at ''install_values'' (dj_payload j) = Inr v \<Longrightarrow>
    sm_install_new env (sc_name (dj_subcloud j)) x = (Inr (), x1) \<Longrightarrow>
    sm_install_prep env ANSIBLE_OVERRIDES_PATH v x1 = (Inr (), x2) \<Longrightarrow>
    sm_install_install env DC_ANSIBLE_LOG_DIR c x2 = (Inr (), x3) \<Longrightarrow>
    sm_install_cleanup env (sc_name (dj_subcloud j)) x3 = (Inr (), x4) \<Longrightarrow>
    ansible_run env (log_file_of (sc_name (dj_subcloud j))) (map snd (later_playbooks j)) x4 oks \<Longrightarrow>
    deploy_run env j x (True # oks)"

inductive_simps ansible_run_Nil: "ansible_run env l [] x oks"
inductive_simps ansible_run_Cons: "ansible_run env l (c # cs) x oks"

lemma deploy_run_without_install:
  "dj_install j = None \<Longrightarrow> deploy_run env j x oks \<longleftrightarrow>
     ansible_run env (log_file_of (sc_name (dj_subcloud j))) (map snd (later_playbooks j)) x oks"
  by (auto intro: not_installed elim: deploy_run.cases)

lemma ansible_run_stops: "ansible_run env l cs x oks \<Longrightarrow> False \<notin> set (butlast oks) \<and> length oks \<le> length cs"
  by (induction rule: ansible_run.induct) auto

lemma deploy_run_stops: "deploy_run env j x oks \<Longrightarrow> False \<notin> set (butlast oks)"
  by (induction rule: deploy_run.induct) (auto dest: ansible_run_stops)

text \<open>How a deployment can end: it is complete, or a stage has failed; the error text that a failed
  playbook leaves fits the column.\<close>

definition deploy_done :: "nat \<Rightarrow> db \<Rightarrow> bool" where
  "deploy_done i d \<longleftrightarrow> (\<exists>sc \<in> set (rows (subclouds d)). sc_id sc = i \<and>
     sc_deploy_status sc = DEPLOY_STATE_DONE \<and> sc_error_description sc = ERROR_DESC_EMPTY)"

definition deploy_failed :: "nat \<Rightarrow> deploy_state \<Rightarrow> db \<Rightarrow> bool" where
  "deploy_failed i st d \<longleftrightarrow> (\<exists>sc \<in> set (rows (subclouds d)). sc_id sc = i \<and> sc_deploy_status sc = st \<and>
     (st \<in> {DEPLOY_STATE_INSTALL_FAILED, DEPLOY_STATE_BOOTSTRAP_FAILED, DEPLOY_STATE_DEPLOY_FAILED} \<longrightarrow>
      length (sc_error_description sc) \<le> ERROR_DESCRIPTION_LENGTH))"

text \<open>The end that fits the outcomes \<open>oks\<close> of the playbooks \<open>ps\<close>: complete when all were started and
  succeeded, else the failed state of the one that was started last.\<close>

definition settled_as :: "nat \<Rightarrow> (deploy_state \<times> string list) list \<Rightarrow> bool list \<Rightarrow> db \<Rightarrow> bool" where
  "settled_as i ps oks d \<longleftrightarrow> length oks \<le> length ps \<and>
     (if length oks = length ps \<and> False \<notin> set oks then deploy_done i d
      else deploy_failed i (if oks = [] then DEPLOY_STATE_PRE_INSTALL_FAILED else fst (ps ! (length oks - 1))) d)"

lemma settled_as_Cons:
  "settled_as i ps oks d \<Longrightarrow> ansible_run env l (map snd ps) x oks \<Longrightarrow> settled_as i (p # ps) (True # oks) d"
  by (cases ps; cases oks) (auto simp: settled_as_def elim: ansible_run.cases)

text \<open>What is left of a thread runs the playbooks \<open>ps\<close>, and a stage runs one.\<close>

definition runs_through :: "'x sm_env \<Rightarrow> nat \<Rightarrow> string \<Rightarrow> (deploy_state \<times> string list) list \<Rightarrow> ('x world, unit) io \<Rightarrow> bool" where
  "runs_through env i l ps m \<longleftrightarrow> (\<forall>w w'. m w = (Inr (), w') \<longrightarrow>
     (\<exists>oks. ansible_run env l (map snd ps) (w_ext w) oks \<and>
       w_log w' = w_log w @ map Playbook (take (length oks) (map snd ps)) \<and> settled_as i ps oks (w_db w')))"

definition stage_runs :: "'x sm_env \<Rightarrow> nat \<Rightarrow> string \<Rightarrow> deploy_state \<Rightarrow> (string list \<Rightarrow> ('x world, bool) io) \<Rightarrow> bool" where
  "stage_runs env i l st stage \<longleftrightarrow> (\<forall>c w ok w'. stage c w = (Inr ok, w') \<longrightarrow>
     w_log w' = w_log w @ [Playbook c] \<and>
     (if ok then sm_run_playbook env l c (w_ext w) = (Inr (), w_ext w')
      else (\<exists>e y. sm_run_playbook env l c (w_ext w) = (Inl e, y)) \<and> deploy_failed i st (w_db w')))"

lemma stage_runsI:
  assumes "\<And>c w ok w'. stage c w = (Inr ok, w') \<Longrightarrow> w_log w' = w_log w @ [Playbook c] \<and>
    (if ok then sm_run_playbook env l c (w_ext w) = (Inr (), w_ext w')
     else (\<exists>e y. sm_run_playbook env l c (w_ext w) = (Inl e, y)) \<and> deploy_failed i st (w_db w'))"
  shows "stage_runs env i l st stage"
  using assms unfolding stage_runs_def by blast

lemma optional_stage_runs:
  assumes "stage_runs env i l st stage" and "runs_through env i l ps rest"
  shows "runs_through env i l ([(st, x). (st, Some x) \<leftarrow> [(st, c)]] @ ps) (optional_stage c stage rest)"
proof (cases c)
  case None
  then show ?thesis using assms(2) by (simp add: optional_stage_def)
next
  case (Some x)
  have "\<exists>oks. ansible_run env l (x # map snd ps) (w_ext w) oks \<and>
      w_log w' = w_log w @ map Playbook (take (length oks) (x # map snd ps)) \<and> settled_as i ((st, x) # ps) oks (w_db w')"
    if run: "optional_stage c stage rest w = (Inr (), w')" for w w'
  proof -
    obtain ok w1 where w1: "stage x w = (Inr ok, w1)" "(if ok then rest else ret ()) w1 = (Inr (), w')"
      using run Some by (auto simp: optional_stage_def bnd_Inr_iff)
    note stage = assms(1) [unfolded stage_runs_def, rule_format, OF w1(1)]
    show ?thesis
    proof (cases ok)
      case True
      then obtain oks where oks: "ansible_run env l (map snd ps) (w_ext w1) oks"
        "w_log w' = w_log w1 @ map Playbook (take (length oks) (map snd ps))" "settled_as i ps oks (w_db w')"
        using assms(2) w1(2) unfolding runs_through_def by auto
      then show ?thesis using stage True settled_as_Cons [OF oks(3,1)]
        by (intro exI [of _ "True # oks"]) (auto intro: succeeded)
    next
      case False
      then show ?thesis using stage w1(2)
        by (intro exI [of _ "[False]"]) (auto simp: settled_as_def intro: broke_off)
    qed
  qed
  then show ?thesis using Some by (simp add: runs_through_def)
qed

section \<open>Each stage\<close>

lemma set_deploy_Inr:
  assumes "set_deploy ctx i st err w = (Inr u, w')"
  shows "w_log w' = w_log w \<and> w_ext w' = w_ext w \<and> (\<exists>sc \<in> set (rows (subclouds (w_db w'))). sc_id sc = i \<and>
    sc_deploy_status sc = st \<and> (\<forall>e. err = Some e \<longrightarrow> sc_error_description sc = e))"
proof -
  obtain sc d where upd: "subcloud_update ctx i (no_values\<lparr>sv_deploy_status := Some st, sv_error_description := err\<rparr>)
      (w_db w) = (Inr sc, d)" and w': "w' = w\<lparr>w_db := d\<rparr>"
    using assms by (auto simp: set_deploy_def seq_Inr_iff db_io_Inr_iff)
  obtain r where "sc = apply_subcloud_values (no_values\<lparr>sv_deploy_status := Some st, sv_error_description := err\<rparr>) r"
    using subcloud_update_Inr [OF upd] by blast
  then have "sc_deploy_status sc = st \<and> (\<forall>e. err = Some e \<longrightarrow> sc_error_description sc = e)"
    by (auto simp: apply_subcloud_values_def no_values_def)
  then show ?thesis using update_returns_row [OF upd] w' by auto
qed

lemma error_text_Inr:
  "error_text env n log_file st w = (Inr msg, w') \<Longrightarrow>
   w_log w' = w_log w \<and> w_db w' = w_db w \<and> length msg \<le> ERROR_DESCRIPTION_LENGTH"
  by (auto simp: error_text_def bnd_apply ask_apply split: prod.splits sum.splits)

lemma deploy_failed_text:
  assumes "set_deploy ctx i st (Some msg) w = (Inr u, w')" and "length msg \<le> ERROR_DESCRIPTION_LENGTH"
  shows "w_log w' = w_log w \<and> deploy_failed i st (w_db w')"
  using set_deploy_Inr [OF assms(1)] assms(2) unfolding deploy_failed_def by auto

lemma deploy_failed_plain:
  assumes "set_deploy ctx i st None w = (Inr u, w')"
    and "st \<in> {DEPLOY_STATE_PRE_INSTALL_FAILED, DEPLOY_STATE_REHOME_FAILED}"
  shows "w_log w' = w_log w \<and> deploy_failed i st (w_db w')"
  using set_deploy_Inr [OF assms(1)] assms(2) unfolding deploy_failed_def by auto

lemma run_playbook_result:
  "run_playbook env l c w = (r, w') \<Longrightarrow>
   w_log w' = w_log w @ [Playbook c] \<and> sm_run_playbook env l c (w_ext w) = (r, w_ext w')"
  by (auto simp: run_playbook_def call_apply split: prod.splits)

lemma try_else_Inr:
  "try_else m h k s = (Inr x, t) \<Longrightarrow> (\<exists>e s'. m s = (Inl e, s') \<and> h e s' = (Inr x, t)) \<or>
     (\<exists>y s'. m s = (Inr y, s') \<and> k y s' = (Inr x, t))"
  by (auto simp: try_else_def split: prod.splits sum.splits)

lemma on_playbook_failure_Inr: "on_playbook_failure m e s = (Inr x, t) \<Longrightarrow> m s = (Inr x, t)"
  by (cases e) (simp_all add: on_playbook_failure_def)

lemma deploy_stage_runs: "stage_runs env (sc_id sc) l st (\<lambda>c. deploy_stage env ctx sc c l running st)"
proof (rule stage_runsI)
  fix c w ok w'
  assume "deploy_stage env ctx sc c l running st w = (Inr ok, w')"
  then obtain w1 where w1: "set_deploy ctx (sc_id sc) running (Some ERROR_DESC_EMPTY) w = (Inr (), w1)"
    and rest: "try_else (run_playbook env l c)
      (on_playbook_failure (bnd (error_text env (sc_name sc) l (deploy_state_str running)) (\<lambda>msg.
         seq (set_deploy ctx (sc_id sc) st (Some msg)) (ret False))))
      (\<lambda>_. ret True) w1 = (Inr ok, w')"
    by (auto simp: deploy_stage_def seq_Inr_iff)
  have same: "w_log w1 = w_log w" "w_ext w1 = w_ext w" using set_deploy_Inr [OF w1] by simp_all
  from try_else_Inr [OF rest]
  show "w_log w' = w_log w @ [Playbook c] \<and>
    (if ok then sm_run_playbook env l c (w_ext w) = (Inr (), w_ext w')
     else (\<exists>e y. sm_run_playbook env l c (w_ext w) = (Inl e, y)) \<and> deploy_failed (sc_id sc) st (w_db w'))"
  proof (elim disjE exE conjE)
    fix e w2
    assume run: "run_playbook env l c w1 = (Inl e, w2)"
      and handler: "on_playbook_failure (bnd (error_text env (sc_name sc) l (deploy_state_str running))
        (\<lambda>msg. seq (set_deploy ctx (sc_id sc) st (Some msg)) (ret False))) e w2 = (Inr ok, w')"
    obtain msg w3 where w3: "error_text env (sc_name sc) l (deploy_state_str running) w2 = (Inr msg, w3)"
      and set: "set_deploy ctx (sc_id sc) st (Some msg) w3 = (Inr (), w')" and "\<not> ok"
      using on_playbook_failure_Inr [OF handler] by (auto simp: bnd_Inr_iff seq_Inr_iff)
    from deploy_failed_text [OF set] error_text_Inr [OF w3] run_playbook_result [OF run] same \<open>\<not> ok\<close>
    show ?thesis by auto
  next
    fix y w2
    assume run: "run_playbook env l c w1 = (Inr y, w2)" and "ret True w2 = (Inr ok, w')"
    then show ?thesis using run_playbook_result [OF run] same by simp
  qed
qed

lemma rehome_stage_runs:
  "stage_runs env (sc_id sc) l DEPLOY_STATE_REHOME_FAILED (\<lambda>c. rehome_stage env ctx sc c l)"
proof (rule stage_runsI)
  fix c w ok w'
  assume "rehome_stage env ctx sc c l w = (Inr ok, w')"
  then obtain w1 where w1: "set_deploy ctx (sc_id sc) DEPLOY_STATE_REHOMING None w = (Inr (), w1)"
    and rest: "try_else (run_playbook env l c)
      (on_playbook_failure (seq (set_deploy ctx (sc_id sc) DEPLOY_STATE_REHOME_FAILED None) (ret False)))
      (\<lambda>_. ret True) w1 = (Inr ok, w')"
    by (auto simp: rehome_stage_def seq_Inr_iff)
  have same: "w_log w1 = w_log w" "w_ext w1 = w_ext w" using set_deploy_Inr [OF w1] by simp_all
  from try_else_Inr [OF rest]
  show "w_log w' = w_log w @ [Playbook c] \<and>
    (if ok then sm_run_playbook env l c (w_ext w) = (Inr (), w_ext w')
     else (\<exists>e y. sm_run_playbook env l c (w_ext w) = (Inl e, y)) \<and>
       deploy_failed (sc_id sc) DEPLOY_STATE_REHOME_FAILED (w_db w'))"
  proof (elim disjE exE conjE)
    fix e w2
    assume run: "run_playbook env l c w1 = (Inl e, w2)" and handler: "on_playbook_failure
      (seq (set_deploy ctx (sc_id sc) DEPLOY_STATE_REHOME_FAILED None) (ret False)) e w2 = (Inr ok, w')"
    have "set_deploy ctx (sc_id sc) DEPLOY_STATE_REHOME_FAILED None w2 = (Inr (), w')" "\<not> ok"
      using on_playbook_failure_Inr [OF handler] by (auto simp: seq_Inr_iff)
    from deploy_failed_plain [OF this(1)] this(2) run_playbook_result [OF run] same show ?thesis by auto
  next
    fix y w2
    assume run: "run_playbook env l c w1 = (Inr y, w2)" and "ret True w2 = (Inr ok, w')"
    then show ?thesis using run_playbook_result [OF run] same by simp
  qed
qed

lemma seq_unit_iff:
  "seq (m :: ('s, unit) io) n s = (Inr y, t) \<longleftrightarrow> (\<exists>s'. m s = (Inr (), s') \<and> n s' = (Inr y, t))"
  by (simp add: seq_Inr_iff)

lemma ask_result: "ask m w = (r, w') \<Longrightarrow> w_log w' = w_log w \<and> w_db w' = w_db w \<and> m (w_ext w) = (r, w_ext w')"
  by (auto simp: ask_apply split: prod.splits)

lemma call_result: "call a m w = (r, w') \<Longrightarrow> w_log w' = w_log w @ [a] \<and> m (w_ext w) = (r, w_ext w')"
  by (auto simp: call_apply split: prod.splits)

text \<open>What follows the remote installation: the object is cleaned up.\<close>

lemma cleanup_Inr:
  "seq (ask (m :: ('x, unit) io)) (ret b) w = (Inr ok, w') \<Longrightarrow>
   ok = b \<and> w_log w' = w_log w \<and> w_db w' = w_db w \<and> m (w_ext w) = (Inr (), w_ext w')"
  unfolding seq_unit_iff by (elim exE conjE, drule ask_result) (auto simp: ret_def)

text \<open>The installation: nothing is started when it cannot be prepared.\<close>

lemma install_runs:
  assumes "run_subcloud_install env ctx sc c l v w = (Inr ok, w')"
  shows "\<exists>x1 x2. sm_install_new env (sc_name sc) (w_ext w) = (Inr (), x1) \<and>
    ((\<exists>e. sm_install_prep env ANSIBLE_OVERRIDES_PATH v x1 = (Inl e, x2)) \<and> \<not> ok \<and> w_log w' = w_log w \<and>
       deploy_failed (sc_id sc) DEPLOY_STATE_PRE_INSTALL_FAILED (w_db w') \<or>
     sm_install_prep env ANSIBLE_OVERRIDES_PATH v x1 = (Inr (), x2) \<and> w_log w' = w_log w @ [Playbook c] \<and>
       (if ok then \<exists>x3. sm_install_install env DC_ANSIBLE_LOG_DIR c x2 = (Inr (), x3) \<and>
          sm_install_cleanup env (sc_name sc) x3 = (Inr (), w_ext w')
        else (\<exists>e x3. sm_install_install env DC_ANSIBLE_LOG_DIR c x2 = (Inl e, x3)) \<and>
          deploy_failed (sc_id sc) DEPLOY_STATE_INSTALL_FAILED (w_db w')))"
proof -
  let ?i = "sc_id sc" and ?cleanup = "ask (sm_install_cleanup env (sc_name sc)) :: ('a world, unit) io"
  let ?install = "try_else (call (Playbook c) (sm_install_install env DC_ANSIBLE_LOG_DIR c))
     (\<lambda>_. bnd (error_text env (sc_name sc) l (deploy_state_str DEPLOY_STATE_INSTALLING)) (\<lambda>msg.
        seq (set_deploy ctx ?i DEPLOY_STATE_INSTALL_FAILED (Some msg)) (seq ?cleanup (ret False))))
     (\<lambda>_. seq ?cleanup (ret True))"
  obtain w1 w2 where w1: "set_deploy ctx ?i DEPLOY_STATE_PRE_INSTALL None w = (Inr (), w1)"
    and w2: "ask (sm_install_new env (sc_name sc)) w1 = (Inr (), w2)"
    and prep: "try_else (ask (sm_install_prep env ANSIBLE_OVERRIDES_PATH v))
      (\<lambda>_. seq (set_deploy ctx ?i DEPLOY_STATE_PRE_INSTALL_FAILED None) (seq ?cleanup (ret False)))
      (\<lambda>_. seq (set_deploy ctx ?i DEPLOY_STATE_INSTALLING (Some ERROR_DESC_EMPTY)) ?install) w2 = (Inr ok, w')"
  proof -
    obtain w1 where w1: "set_deploy ctx ?i DEPLOY_STATE_PRE_INSTALL None w = (Inr (), w1)"
      and outer: "try_else (ask (sm_install_new env (sc_name sc)))
        (\<lambda>_. seq (set_deploy ctx ?i DEPLOY_STATE_PRE_INSTALL_FAILED None) (raise UnboundLocalError))
        (\<lambda>_. try_else (ask (sm_install_prep env ANSIBLE_OVERRIDES_PATH v))
          (\<lambda>_. seq (set_deploy ctx ?i DEPLOY_STATE_PRE_INSTALL_FAILED None) (seq ?cleanup (ret False)))
          (\<lambda>_. seq (set_deploy ctx ?i DEPLOY_STATE_INSTALLING (Some ERROR_DESC_EMPTY)) ?install)) w1 = (Inr ok, w')"
      using assms unfolding run_subcloud_install_def Let_def seq_unit_iff by blast
    show thesis
      using try_else_Inr [OF outer]
      by (elim disjE exE conjE) (simp add: seq_Inr_iff, rule that [OF w1], simp_all)
  qed
  have new: "w_log w2 = w_log w" "sm_install_new env (sc_name sc) (w_ext w) = (Inr (), w_ext w2)"
    using set_deploy_Inr [OF w1] ask_result [OF w2] by simp_all
  from try_else_Inr [OF prep] show ?thesis
  proof (elim disjE exE conjE)
    fix e w3
    assume w3: "ask (sm_install_prep env ANSIBLE_OVERRIDES_PATH v) w2 = (Inl e, w3)" and
      "seq (set_deploy ctx ?i DEPLOY_STATE_PRE_INSTALL_FAILED None) (seq ?cleanup (ret False)) w3 = (Inr ok, w')"
    then obtain w4 where w4: "set_deploy ctx ?i DEPLOY_STATE_PRE_INSTALL_FAILED None w3 = (Inr (), w4)"
      and clean: "seq ?cleanup (ret False) w4 = (Inr ok, w')" unfolding seq_unit_iff by blast
    show ?thesis using deploy_failed_plain [OF w4] cleanup_Inr [OF clean] ask_result [OF w3] new
      by (intro exI [of _ "w_ext w2"] exI [of _ "w_ext w3"]) auto
  next
    fix y w3
    assume w3: "ask (sm_install_prep env ANSIBLE_OVERRIDES_PATH v) w2 = (Inr y, w3)" and
      "seq (set_deploy ctx ?i DEPLOY_STATE_INSTALLING (Some ERROR_DESC_EMPTY)) ?install w3 = (Inr ok, w')"
    then obtain w4 where w4: "set_deploy ctx ?i DEPLOY_STATE_INSTALLING (Some ERROR_DESC_EMPTY) w3 = (Inr (), w4)"
      and install: "?install w4 = (Inr ok, w')" unfolding seq_unit_iff by blast
    have prepared: "w_log w4 = w_log w" "sm_install_prep env ANSIBLE_OVERRIDES_PATH v (w_ext w2) = (Inr (), w_ext w4)"
      using set_deploy_Inr [OF w4] ask_result [OF w3] new by simp_all
    from try_else_Inr [OF install]
    have "w_log w' = w_log w @ [Playbook c] \<and>
       (if ok then \<exists>x3. sm_install_install env DC_ANSIBLE_LOG_DIR c (w_ext w4) = (Inr (), x3) \<and>
          sm_install_cleanup env (sc_name sc) x3 = (Inr (), w_ext w')
        else (\<exists>e x3. sm_install_install env DC_ANSIBLE_LOG_DIR c (w_ext w4) = (Inl e, x3)) \<and>
          deploy_failed ?i DEPLOY_STATE_INSTALL_FAILED (w_db w'))"
    proof (elim disjE exE conjE)
      fix e w5
      assume w5: "call (Playbook c) (sm_install_install env DC_ANSIBLE_LOG_DIR c) w4 = (Inl e, w5)"
        and "bnd (error_text env (sc_name sc) l (deploy_state_str DEPLOY_STATE_INSTALLING)) (\<lambda>msg.
          seq (set_deploy ctx ?i DEPLOY_STATE_INSTALL_FAILED (Some msg)) (seq ?cleanup (ret False))) w5 = (Inr ok, w')"
      then obtain msg w6 w7 where
        w6: "error_text env (sc_name sc) l (deploy_state_str DEPLOY_STATE_INSTALLING) w5 = (Inr msg, w6)" and
        w7: "set_deploy ctx ?i DEPLOY_STATE_INSTALL_FAILED (Some msg) w6 = (Inr (), w7)" and
        clean: "seq ?cleanup (ret False) w7 = (Inr ok, w')"
        unfolding bnd_Inr_iff seq_unit_iff by blast
      show ?thesis
        using deploy_failed_text [OF w7] error_text_Inr [OF w6] cleanup_Inr [OF clean] call_result [OF w5] prepared by auto
    next
      fix y w5
      assume w5: "call (Playbook c) (sm_install_install env DC_ANSIBLE_LOG_DIR c) w4 = (Inr y, w5)"
        and clean: "seq ?cleanup (ret True) w5 = (Inr ok, w')"
      show ?thesis using cleanup_Inr [OF clean] call_result [OF w5] prepared by auto
    qed
    then show ?thesis using new prepared by (intro exI [of _ "w_ext w2"] exI [of _ "w_ext w4"]) auto
  qed
qed

lemma later_stages_run:
  "runs_through env (sc_id (dj_subcloud j)) (log_file_of (sc_name (dj_subcloud j))) (later_playbooks j)
     (optional_stage (dj_apply j)
        (\<lambda>c. deploy_stage env ctx (dj_subcloud j) c (log_file_of (sc_name (dj_subcloud j)))
           DEPLOY_STATE_BOOTSTRAPPING DEPLOY_STATE_BOOTSTRAP_FAILED)
     (optional_stage (dj_deploy j)
        (\<lambda>c. deploy_stage env ctx (dj_subcloud j) c (log_file_of (sc_name (dj_subcloud j)))
           DEPLOY_STATE_DEPLOYING DEPLOY_STATE_DEPLOY_FAILED)
     (optional_stage (dj_rehome j)
        (\<lambda>c. rehome_stage env ctx (dj_subcloud j) c (log_file_of (sc_name (dj_subcloud j))))
        (set_deploy ctx (sc_id (dj_subcloud j)) DEPLOY_STATE_DONE (Some ERROR_DESC_EMPTY)))))"
proof -
  let ?i = "sc_id (dj_subcloud j)" and ?l = "log_file_of (sc_name (dj_subcloud j))"
  have "runs_through env ?i ?l [] (set_deploy ctx ?i DEPLOY_STATE_DONE (Some ERROR_DESC_EMPTY))"
    unfolding runs_through_def settled_as_def deploy_done_def
    by (auto dest!: set_deploy_Inr intro!: exI [of _ "[]"] all_run)
  then have "runs_through env ?i ?l
      ([(st, x). (st, Some x) \<leftarrow> [(DEPLOY_STATE_BOOTSTRAP_FAILED, dj_apply j)]] @
       [(st, x). (st, Some x) \<leftarrow> [(DEPLOY_STATE_DEPLOY_FAILED, dj_deploy j)]] @
       [(st, x). (st, Some x) \<leftarrow> [(DEPLOY_STATE_REHOME_FAILED, dj_rehome j)]] @ [])
     (optional_stage (dj_apply j)
        (\<lambda>c. deploy_stage env ctx (dj_subcloud j) c ?l DEPLOY_STATE_BOOTSTRAPPING DEPLOY_STATE_BOOTSTRAP_FAILED)
     (optional_stage (dj_deploy j)
        (\<lambda>c. deploy_stage env ctx (dj_subcloud j) c ?l DEPLOY_STATE_DEPLOYING DEPLOY_STATE_DEPLOY_FAILED)
     (optional_stage (dj_rehome j)
        (\<lambda>c. rehome_stage env ctx (dj_subcloud j) c ?l)
        (set_deploy ctx ?i DEPLOY_STATE_DONE (Some ERROR_DESC_EMPTY)))))"
    by (intro optional_stage_runs deploy_stage_runs rehome_stage_runs)
  moreover have "[(st, x). (st, Some x) \<leftarrow> [(DEPLOY_STATE_BOOTSTRAP_FAILED, dj_apply j)]] @
       [(st, x). (st, Some x) \<leftarrow> [(DEPLOY_STATE_DEPLOY_FAILED, dj_deploy j)]] @
       [(st, x). (st, Some x) \<leftarrow> [(DEPLOY_STATE_REHOME_FAILED, dj_rehome j)]] @ [] = later_playbooks j"
    by (simp add: later_playbooks_def)
  ultimately show ?thesis by simp
qed

text \<open>C30: A deployment thread that ends without an exception has started its playbooks in the order
  installation, bootstrap, deployment, rehoming, each only after the one before it had returned
  without failing, with the outcomes \<open>oks\<close> that the outside gave (\<open>deploy_run\<close>). It leaves the
  subcloud complete, with no error text, exactly when all of them were started and succeeded;
  otherwise in the failed state of the one that failed (\<open>pre-install-failed\<close> when the installation
  could not be prepared), with an error text that fits the column.\<close>

theorem run_deploy_stops_at_failure:
  assumes "run_deploy env ctx j w = (Inr (), w')"
  shows "\<exists>oks. deploy_run env j (w_ext w) oks \<and> False \<notin> set (butlast oks) \<and>
    w_log w' = w_log w @ map Playbook (take (length oks) (map snd (deploy_playbooks j))) \<and>
    settled_as (sc_id (dj_subcloud j)) (deploy_playbooks j) oks (w_db w')"
proof -
  let ?l = "log_file_of (sc_name (dj_subcloud j))" and ?i = "sc_id (dj_subcloud j)"
  have "\<exists>oks. deploy_run env j (w_ext w) oks \<and>
    w_log w' = w_log w @ map Playbook (take (length oks) (map snd (deploy_playbooks j))) \<and>
    settled_as ?i (deploy_playbooks j) oks (w_db w')"
  proof (cases "dj_install j")
    case None
    then show ?thesis using assms later_stages_run [of env j ctx, unfolded runs_through_def, rule_format, of w w']
      by (auto simp: run_deploy_def Let_def optional_stage_def deploy_playbooks_def intro: not_installed)
  next
    case (Some c)
    obtain v ok w1 where v: "dict_at ''install_values'' (dj_payload j) = Inr v"
      and w1: "run_subcloud_install env ctx (dj_subcloud j) c ?l v w = (Inr ok, w1)"
      and rest: "(if ok then optional_stage (dj_apply j)
        (\<lambda>c. deploy_stage env ctx (dj_subcloud j) c ?l DEPLOY_STATE_BOOTSTRAPPING DEPLOY_STATE_BOOTSTRAP_FAILED)
       (optional_stage (dj_deploy j)
        (\<lambda>c. deploy_stage env ctx (dj_subcloud j) c ?l DEPLOY_STATE_DEPLOYING DEPLOY_STATE_DEPLOY_FAILED)
       (optional_stage (dj_rehome j)
        (\<lambda>c. rehome_stage env ctx (dj_subcloud j) c ?l)
        (set_deploy ctx ?i DEPLOY_STATE_DONE (Some ERROR_DESC_EMPTY)))) else ret ()) w1 = (Inr (), w')"
      using assms Some unfolding run_deploy_def Let_def optional_stage_def [of "dj_install j"]
      by (cases "dict_at ''install_values'' (dj_payload j)") (auto simp: bnd_Inr_iff of_sum_def)
    have plan: "deploy_playbooks j = (DEPLOY_STATE_INSTALL_FAILED, c) # later_playbooks j"
      using Some by (simp add: deploy_playbooks_def)
    show ?thesis
    proof (cases ok)
      case True
      then obtain oks where oks: "ansible_run env ?l (map snd (later_playbooks j)) (w_ext w1) oks"
        "w_log w' = w_log w1 @ map Playbook (take (length oks) (map snd (later_playbooks j)))"
        "settled_as ?i (later_playbooks j) oks (w_db w')"
        using rest later_stages_run [of env j ctx, unfolded runs_through_def, rule_format, of w1 w'] by auto
      obtain x1 x2 x3 where steps: "sm_install_new env (sc_name (dj_subcloud j)) (w_ext w) = (Inr (), x1)"
        "sm_install_prep env ANSIBLE_OVERRIDES_PATH v x1 = (Inr (), x2)"
        "sm_install_install env DC_ANSIBLE_LOG_DIR c x2 = (Inr (), x3)"
        "sm_install_cleanup env (sc_name (dj_subcloud j)) x3 = (Inr (), w_ext w1)"
        and log1: "w_log w1 = w_log w @ [Playbook c]"
        using install_runs [OF w1] True by auto
      have "deploy_run env j (w_ext w) (True # oks)" by (rule installed [OF Some v steps oks(1)])
      then show ?thesis using settled_as_Cons [OF oks(3,1)] oks(2) log1 plan
        by (intro exI [of _ "True # oks"]) simp
    next
      case False
      then have "w' = w1" using rest by simp
      from install_runs [OF w1] False obtain x1 x2 where
        new: "sm_install_new env (sc_name (dj_subcloud j)) (w_ext w) = (Inr (), x1)"
        and how: "(\<exists>e. sm_install_prep env ANSIBLE_OVERRIDES_PATH v x1 = (Inl e, x2)) \<and> w_log w1 = w_log w \<and>
             deploy_failed ?i DEPLOY_STATE_PRE_INSTALL_FAILED (w_db w1) \<or>
           sm_install_prep env ANSIBLE_OVERRIDES_PATH v x1 = (Inr (), x2) \<and> w_log w1 = w_log w @ [Playbook c] \<and>
             (\<exists>e x3. sm_install_install env DC_ANSIBLE_LOG_DIR c x2 = (Inl e, x3)) \<and>
             deploy_failed ?i DEPLOY_STATE_INSTALL_FAILED (w_db w1)"
        by auto
      from how show ?thesis
      proof (elim disjE conjE exE)
        fix e assume "sm_install_prep env ANSIBLE_OVERRIDES_PATH v x1 = (Inl e, x2)" "w_log w1 = w_log w"
          "deploy_failed ?i DEPLOY_STATE_PRE_INSTALL_FAILED (w_db w1)"
        then show ?thesis using unprepared [OF Some v new] \<open>w' = w1\<close> plan
          by (intro exI [of _ "[]"]) (simp add: settled_as_def)
      next
        fix e x3 assume "sm_install_prep env ANSIBLE_OVERRIDES_PATH v x1 = (Inr (), x2)" "w_log w1 = w_log w @ [Playbook c]"
          "sm_install_install env DC_ANSIBLE_LOG_DIR c x2 = (Inl e, x3)" "deploy_failed ?i DEPLOY_STATE_INSTALL_FAILED (w_db w1)"
        then show ?thesis using install_fails [OF Some v new] \<open>w' = w1\<close> plan
          by (intro exI [of _ "[False]"]) (simp add: settled_as_def)
      qed
    qed
  qed
  then obtain oks where "deploy_run env j (w_ext w) oks"
    "w_log w' = w_log w @ map Playbook (take (length oks) (map snd (deploy_playbooks j)))"
    "settled_as ?i (deploy_playbooks j) oks (w_db w')" by (elim exE conjE)
  then show ?thesis using deploy_run_stops [OF \<open>deploy_run env j (w_ext w) oks\<close>]
    by (intro exI [of _ oks] conjI) assumption+
qed

text \<open>An example: the bootstrap succeeds, and the playbook of the deployment fails.\<close>

definition ex_deploy_job :: deploy_job where
  "ex_deploy_job = \<lparr>dj_subcloud = ex_gone, dj_payload = [], dj_install = None, dj_apply = Some [''bootstrap''],
     dj_deploy = Some [''deploy''], dj_rehome = None\<rparr>"

definition ex_playbook_fails :: "unit sm_env" where
  "ex_playbook_fails = ex_sm_env\<lparr>sm_run_playbook := \<lambda>_ c. if c = [''deploy''] then raise (PlaybookExecutionFailed [])
     else ret ()\<rparr>"

theorem run_deploy_stops_at_failure_witness:
  "\<exists>w' oks. run_deploy ex_playbook_fails admin_context ex_deploy_job (ex_world (ex_single ex_gone)) = (Inr (), w') \<and>
    deploy_run ex_playbook_fails ex_deploy_job () oks \<and> oks = [True, False] \<and>
    w_log w' = [Playbook [''bootstrap''], Playbook [''deploy''] ] \<and> deploy_failed 1 DEPLOY_STATE_DEPLOY_FAILED (w_db w')"
proof -
  have "\<exists>w'. run_deploy ex_playbook_fails admin_context ex_deploy_job (ex_world (ex_single ex_gone)) = (Inr (), w')"
    by (simp add: run_deploy_def ex_deploy_job_def Let_def optional_stage_def deploy_stage_def set_deploy_def
        bnd_apply seq_apply db_io_apply subcloud_update_def write_session_def subcloud_get_def first_or_apply
        query_first_def ex_world_def ex_single_def ex_gone_def ex_subcloud_def update_subclouds_where_def
        group_known_def no_values_def apply_subcloud_values_def map_rows_def try_else_def run_playbook_def
        call_apply ask_apply ex_playbook_fails_def ex_sm_env_def on_playbook_failure_def error_text_def
        ERROR_DESCRIPTION_LENGTH_def)
  then obtain w' where run: "run_deploy ex_playbook_fails admin_context ex_deploy_job (ex_world (ex_single ex_gone)) = (Inr (), w')"
    by (elim exE) (rule that)
  obtain oks where oks: "deploy_run ex_playbook_fails ex_deploy_job () oks"
    "w_log w' = map Playbook (take (length oks) (map snd (deploy_playbooks ex_deploy_job)))"
    "settled_as 1 (deploy_playbooks ex_deploy_job) oks (w_db w')"
    using run_deploy_stops_at_failure [OF run] by (auto simp: ex_deploy_job_def ex_gone_def ex_subcloud_def ex_world_def)
  moreover have "oks = [True, False]"
    using oks(1)
    by (auto simp: deploy_run_without_install ex_deploy_job_def later_playbooks_def ansible_run_Cons ansible_run_Nil
        ex_playbook_fails_def)
  moreover have "deploy_playbooks ex_deploy_job =
      [(DEPLOY_STATE_BOOTSTRAP_FAILED, [''bootstrap'']), (DEPLOY_STATE_DEPLOY_FAILED, [''deploy''])]"
    by (simp add: deploy_playbooks_def later_playbooks_def ex_deploy_job_def)
  ultimately show ?thesis using run by (auto simp: settled_as_def)
qed

end
