(* ===== verification/DC_OrchEnds.thy ===== *)
theory DC_OrchEnds
  imports DC_OrchProps
begin

text \<open>
  How things end: a strategy whose steps are all at an end, a state operator that raises, and the
  deletion of a strategy.
\<close>

section \<open>The end of a strategy\<close>

lemma find_stage_ended:
  assumes "\<forall>v \<in> set vs. terminal_step (sp_state (fst v)) \<and> view_ok d v"
  shows "\<exists>ks. find_stage env c False vs f a s =
    (Inr (ScanDone (f \<or> (\<exists>v \<in> set vs. sp_state (fst v) = STRATEGY_STATE_FAILED))
            (a \<or> (\<exists>v \<in> set vs. sp_state (fst v) = STRATEGY_STATE_ABORTED))),
     s\<lparr>sy_workers := ks\<rparr>)"
  using assms
proof (induction vs arbitrary: s f a)
  case Nil
  show ?case by (intro exI [of _ "sy_workers s"]) simp
next
  case (Cons v vs)
  obtain sc where sc: "snd v = Some sc" "sp_subcloud_id (fst v) = Some (sc_id sc)"
    using Cons.prems by (auto simp: view_ok_def)
  let ?t = "s\<lparr>sy_workers := filter (\<lambda>(r, _). r \<noteq> sc_name sc) (sy_workers s)\<rparr>"
  let ?f = "f \<or> sp_state (fst v) = STRATEGY_STATE_FAILED"
    and ?a = "a \<or> sp_state (fst v) = STRATEGY_STATE_ABORTED"
  have "find_stage env c False (v # vs) f a s = find_stage env c False vs ?f ?a ?t"
    using Cons.prems sc
    by (auto simp: step_subcloud_name_def seq_apply delete_subcloud_worker_def)
  moreover obtain ks where "find_stage env c False vs ?f ?a ?t =
    (Inr (ScanDone (?f \<or> (\<exists>v \<in> set vs. sp_state (fst v) = STRATEGY_STATE_FAILED))
            (?a \<or> (\<exists>v \<in> set vs. sp_state (fst v) = STRATEGY_STATE_ABORTED))),
     ?t\<lparr>sy_workers := ks\<rparr>)" using Cons.IH [of ?f ?a ?t] Cons.prems by auto
  ultimately show ?case by (intro exI [of _ ks]) (simp add: disj_assoc)
qed

definition strategy_outcome :: "strategy_step list \<Rightarrow> sw_state" where
  "strategy_outcome rs =
     (if \<exists>r \<in> set rs. sp_state r = STRATEGY_STATE_FAILED then SW_UPDATE_STATE_FAILED
      else if \<exists>r \<in> set rs. sp_state r = STRATEGY_STATE_ABORTED then SW_UPDATE_STATE_ABORTED
      else SW_UPDATE_STATE_COMPLETE)"

lemma outside_trigger_audit:
  assumes "trigger_audit env c s = (x, s')"
  shows "sys_db s' = sys_db s \<and> sy_workers s' = sy_workers s \<and> sy_jobs s' = sy_jobs s"
  using assms
  by (auto simp: trigger_audit_def world_io_def zoom_apply call_apply
      split: option.splits prod.splits)

text \<open>When every step is at its end, the next turn ends the strategy, and the outcome tells of
  the steps: failed when any failed, else aborted when any was aborted, else complete; the
  workers are forgotten and the steps are kept for the user to see.\<close>

theorem strategy_ends:
  assumes wf: "steps_wf (sys_db s)"
    and ended: "\<forall>r \<in> set (step_rows (sys_db s)). terminal_step (sp_state r)"
    and st: "the_strategy (sys_db s) = Some st" "st_type st = oc_update_type c" "\<not> st_stop_on_failure st"
    and run: "orch_apply env c st s = (x, s')"
  shows "the_strategy (sys_db s') = Some (st\<lparr>st_state := strategy_outcome (step_rows (sys_db s))\<rparr>) \<and>
    step_rows (sys_db s') = step_rows (sys_db s) \<and> sy_workers s' = []"
proof -
  let ?d = "sys_db s"
  let ?vs = "map (load_step ?d) (step_rows ?d)"
  let ?out = "strategy_outcome (step_rows ?d)"
  have load: "world_io (db_io (strategy_step_get_all admin_context)) s = (Inr ?vs, s)"
    using load_all [OF wf] by (simp add: world_io_def zoom_apply db_io_apply)
  have fst: "fst (load_step ?d r) = r" for r by (simp add: load_step_def)
  have "\<forall>v \<in> set ?vs. terminal_step (sp_state (fst v)) \<and> view_ok ?d v"
    using ended loaded_views(1) [OF wf] fst by auto
  from find_stage_ended [OF this, of env c False False s]
  obtain ks where find: "find_stage env c False ?vs False False s =
      (Inr (ScanDone (\<exists>r \<in> set (step_rows ?d). sp_state r = STRATEGY_STATE_FAILED)
        (\<exists>r \<in> set (step_rows ?d). sp_state r = STRATEGY_STATE_ABORTED)), s\<lparr>sy_workers := ks\<rparr>)"
    by (auto simp: fst)
  let ?new = "st\<lparr>st_state := ?out\<rparr>"
  have rows: "rows (sw_update_strategies ?d) = [st]"
    using st(1) by (auto simp: the_strategy_def split: list.splits)
  let ?d' = "?d\<lparr>sw_update_strategies := (sw_update_strategies ?d)\<lparr>rows := [?new]\<rparr>\<rparr>"
  have "sw_update_strategy_update admin_context (Some ?out) (Some (oc_update_type c)) None ?d = (Inr ?new, ?d')"
    using rows st(2) by (simp add: sw_update_strategy_update_def sw_update_strategy_get_def
        write_session_def first_or_apply query_first_def bnd_apply seq_apply strategy_matches_def
        update_row_def map_rows_def)
  then have upd: "update_strategy_state c ?out (s\<lparr>sy_workers := ks\<rparr>) =
      (Inr (), s\<lparr>sy_workers := ks, sy_world := (sy_world s)\<lparr>w_db := ?d'\<rparr>\<rparr>)"
    by (simp add: update_strategy_state_def seq_apply world_io_def zoom_apply db_io_apply)
  obtain f a where fa: "f = (\<exists>r \<in> set (step_rows ?d). sp_state r = STRATEGY_STATE_FAILED)"
    "a = (\<exists>r \<in> set (step_rows ?d). sp_state r = STRATEGY_STATE_ABORTED)" by blast
  have out: "(if f then SW_UPDATE_STATE_FAILED else if a then SW_UPDATE_STATE_ABORTED
      else SW_UPDATE_STATE_COMPLETE) = ?out" by (simp add: strategy_outcome_def fa)
  have "trigger_audit env c (s\<lparr>sy_world := (sy_world s)\<lparr>w_db := ?d'\<rparr>, sy_workers := []\<rparr>) = (x, s')"
    using run st(3) load find [folded fa] upd [folded out]
    by (cases f; cases a) (simp_all add: orch_apply_def bnd_apply seq_apply clear_workers_def out [symmetric])
  from outside_trigger_audit [OF this] show ?thesis
    by (simp add: the_strategy_def step_rows_def)
qed


text \<open>A system with a completed and a failed step.\<close>

definition ex_ended_sys :: "(unit, 'd) sys" where
  "ex_ended_sys = \<lparr>sy_world = ex_orch_world ((ex_db [ex_strategy SW_UPDATE_STATE_APPLYING])
       \<lparr>strategy_steps := \<lparr>rows = [ex_step 1 1 1 STRATEGY_STATE_COMPLETE, ex_step 2 3 2 STRATEGY_STATE_FAILED],
          next_id = 3\<rparr>\<rparr>),
     sy_workers = [(''subcloud1'', UpdateWorker STRATEGY_STATE_PRE_CHECK)], sy_jobs = [],
     sy_setup = False, sy_data = None\<rparr>"

lemma ex_ended_wf: "steps_wf (sys_db ex_ended_sys)"
  by (simp add: steps_wf_def ex_ended_sys_def ex_orch_world_def ex_defs step_rows_def db_wf_defs table_wf_def
      ex_step_def empty_db_def step_subcloud_ids_def List.map_filter_def empty_table_def)

theorem strategy_ends_witness:
  "\<exists>x (s' :: (unit, job_data) sys) st. orch_apply ex_orch_env (patch_orch_thread ex_orch_env)
     (ex_strategy SW_UPDATE_STATE_APPLYING) ex_ended_sys = (x, s') \<and>
   the_strategy (sys_db s') = Some st \<and> st_state st = SW_UPDATE_STATE_FAILED"
proof -
  let ?st = "ex_strategy SW_UPDATE_STATE_APPLYING"
  obtain x and s' :: "(unit, job_data) sys" where run: "orch_apply ex_orch_env
      (patch_orch_thread ex_orch_env) ?st ex_ended_sys = (x, s')" by fastforce
  have rs: "step_rows (sys_db (ex_ended_sys :: (unit, job_data) sys)) =
      [ex_step 1 1 1 STRATEGY_STATE_COMPLETE, ex_step 2 3 2 STRATEGY_STATE_FAILED]"
    by (simp add: ex_ended_sys_def ex_orch_world_def step_rows_def)
  have "the_strategy (sys_db (ex_ended_sys :: (unit, job_data) sys)) = Some ?st"
    by (simp add: ex_ended_sys_def ex_orch_world_def ex_defs the_strategy_def)
  from strategy_ends [OF ex_ended_wf _ this _ _ run]
  have "the_strategy (sys_db s') = Some (?st\<lparr>st_state := SW_UPDATE_STATE_FAILED\<rparr>)"
    by (simp add: rs ex_step_def strategy_outcome_def patch_orch_thread_def ex_strategy_def)
  then show ?thesis using run by fastforce
qed

section \<open>A state operator that raises\<close>

lemma format_update_details_bound: "length (format_update_details l info) \<le> 255"
  by (simp add: format_update_details_def Let_def)

definition failure_state :: "exn \<Rightarrow> step_state" where
  "failure_state e =
     (case e of StrategySkippedException d \<Rightarrow> STRATEGY_STATE_COMPLETE | _ \<Rightarrow> STRATEGY_STATE_FAILED)"

definition failure_details :: "step_state \<Rightarrow> exn \<Rightarrow> string" where
  "failure_details st e =
     format_update_details
       (case e of StrategySkippedException d \<Rightarrow> None | _ \<Rightarrow> Some (step_state_str st)) (exn_str e)"

lemma record_failure_writes:
  assumes wf: "steps_wf (w_db w)" and r: "r \<in> set (step_rows (w_db w))" "sp_subcloud_id r = Some i"
    and v: "sp_subcloud_id (fst v) = Some i" "snd v = Some sc"
    and clock: "oe_now env (w_ext w) = (Inr t, y)" and c: "\<not> terminal_step (oc_starting_state c)"
  shows "\<exists>w'. record_failure env c v e w = (Inr (), w') \<and>
    step_rows (w_db w') = map (\<lambda>q. if q = r then r\<lparr>sp_state := failure_state e,
      sp_details := failure_details (sp_state (fst v)) e, sp_finished_at := Some t\<rparr> else q)
      (step_rows (w_db w))"
proof -
  let ?d = "failure_details (sp_state (fst v)) e"
  let ?v = "no_step_values\<lparr>pv_state := Some (failure_state e),
      pv_details := Some ?d, pv_finished_at := Some t\<rparr>"
  have st: "failure_state e \<in> {STRATEGY_STATE_COMPLETE, STRATEGY_STATE_FAILED}"
    by (simp add: failure_state_def split: exn.splits)
  then have ns: "failure_state e \<noteq> oc_starting_state c" using c by auto
  have "record_failure env c v e = seq (step_update env c (Some i) (failure_state e)
      (Some (failure_details (sp_state (fst v)) e))) (ret ())"
    using v by (cases e) (simp_all add: record_failure_def get_region_name_def failure_state_def
        failure_details_def del: exn_str.simps)
  moreover have "step_update env c (Some i) (failure_state e) (Some ?d) w =
      db_io (strategy_step_update admin_context (Some i) ?v) (w\<lparr>w_ext := y\<rparr>)"
    using st ns clock by (auto simp: step_update_def bnd_apply ask_apply no_step_values_def)
  moreover have "step_rows ((w_db w)\<lparr>strategy_steps := update_row sp_id (sp_id r) (apply_step_values ?v)
        (strategy_steps (w_db w))\<rparr>) =
      map (\<lambda>q. if q = r then r\<lparr>sp_state := failure_state e,
        sp_details := failure_details (sp_state (fst v)) e, sp_finished_at := Some t\<rparr> else q)
        (step_rows (w_db w))"
    using steps_same_id(1) [OF wf r(1)]
    by (auto simp: step_rows_def rows_update apply_step_values_def no_step_values_def)
  ultimately show ?thesis
    using strategy_step_update_run [OF wf r, of ?v] by (simp add: seq_apply db_io_apply)
qed

text \<open>C39: When a state operator raises, or there is none, the step is marked failed (complete when
  the operator asked to skip the subcloud), with the state it was in and the error in at most
  255 characters, the time of the end, and no other step touched.\<close>

theorem operator_error_recorded:
  assumes run: "run_operator c data v w = Some (Inl e, w1)"
    and wf: "steps_wf (w_db w1)" and r: "r \<in> set (step_rows (w_db w1))" "sp_subcloud_id r = Some i"
    and v: "sp_subcloud_id (fst v) = Some i" "snd v = Some sc"
    and clock: "oe_now env (w_ext w1) = (Inr t, y)" and c: "\<not> terminal_step (oc_starting_state c)"
  shows "\<exists>w'. perform_state_action env c data v w = Some (Inr (), w') \<and>
    step_rows (w_db w') = map (\<lambda>q. if q = r then r\<lparr>sp_state := failure_state e,
      sp_details := failure_details (sp_state (fst v)) e, sp_finished_at := Some t\<rparr> else q)
      (step_rows (w_db w1)) \<and>
    length (failure_details (sp_state (fst v)) e) \<le> 255"
  using record_failure_writes [OF wf r v clock c, of e] run
  by (auto simp: perform_state_action_result record_result_def failure_details_def
      format_update_details_bound)

definition ex_lost_step :: "step_view" where
  "ex_lost_step = load_step (sys_db (ex_sys :: (unit, job_data) sys)) (ex_step 1 1 1 STRATEGY_STATE_INITIAL)"

theorem operator_error_recorded_witness:
  "\<exists>w' q. perform_state_action ex_orch_env (patch_orch_thread ex_orch_env) None ex_lost_step
      (sy_world (ex_sys :: (unit, job_data) sys)) = Some (Inr (), w') \<and> q \<in> set (step_rows (w_db w')) \<and>
    sp_state q = STRATEGY_STATE_FAILED \<and> sp_details q = ''initial: TypeError''"
proof -
  let ?w = "sy_world (ex_sys :: (unit, job_data) sys)"
  let ?r = "ex_step 1 1 1 STRATEGY_STATE_INITIAL"
  have run: "run_operator (patch_orch_thread ex_orch_env) None ex_lost_step ?w = Some (Inl TypeError, ?w)"
    by (simp add: run_operator_def determine_state_operator_def patch_orch_thread_def bndp_run
        patch_state_operators_def ex_lost_step_def load_step_def ex_step_def get_region_name_def
        ex_sys_def ex_orch_world_def ex_defs query_first_def)
  have r: "?r \<in> set (step_rows (w_db ?w))" by (simp add: step_rows_def ex_sys_def ex_orch_world_def)
  have v: "sp_subcloud_id (fst ex_lost_step) = Some 1" "snd ex_lost_step = Some (ex_subcloud 1 ''alpha'' 1)"
    by (simp_all add: ex_lost_step_def load_step_def ex_step_def ex_sys_def ex_orch_world_def ex_defs
        query_first_def)
  obtain w' where w': "perform_state_action ex_orch_env (patch_orch_thread ex_orch_env) None ex_lost_step ?w =
      Some (Inr (), w')"
    "step_rows (w_db w') = map (\<lambda>q. if q = ?r then ?r\<lparr>sp_state := failure_state TypeError,
        sp_details := failure_details (sp_state (fst ex_lost_step)) TypeError, sp_finished_at := Some 7\<rparr> else q)
        (step_rows (w_db ?w))"
    using operator_error_recorded [OF run ex_steps_wf r _ v, of ex_orch_env 7 "()"]
    by (auto simp: ex_step_def ex_orch_env_def patch_orch_thread_def)
  show ?thesis
    by (rule exI, rule exI [of _ "?r\<lparr>sp_state := STRATEGY_STATE_FAILED,
        sp_details := ''initial: TypeError'', sp_finished_at := Some 7\<rparr>"])
      (use w' r in \<open>force simp: failure_state_def failure_details_def ex_lost_step_def load_step_def
        ex_step_def format_update_details_def\<close>)
qed

section \<open>The deletion of a strategy\<close>

text \<open>While the thread waits for its workers the rest of the system leaves the strategy there. The
  sleeps of the log are the thread's own.\<close>

definition awaits :: "(('x, 'd) sys \<Rightarrow> ('x, 'd) sys) \<Rightarrow> bool" where
  "awaits pause \<longleftrightarrow> (\<forall>s.
     (the_strategy (sys_db s) \<noteq> None \<longrightarrow> the_strategy (sys_db (pause s)) \<noteq> None) \<and>
     slept (w_log (sy_world (pause s))) = slept (w_log (sy_world s)))"

lemma start_deletes_run:
  assumes "never_stopped env" and "\<forall>v \<in> set vs. view_ok d v"
  shows "\<exists>s'. start_deletes env vs s = (Inr False, s') \<and> sys_db s' = sys_db s \<and>
    w_log (sy_world s') = w_log (sy_world s)"
  using assms(2)
proof (induction vs arbitrary: s)
  case Nil
  show ?case by simp
next
  case (Cons v vs)
  obtain sc where "snd v = Some sc" "sp_subcloud_id (fst v) = Some (sc_id sc)"
    using Cons.prems by (auto simp: view_ok_def)
  then have region: "get_region_name v = (ret (sc_name sc) :: (('x, 'd) sys, string) io)"
    by (simp add: get_region_name_def)
  obtain t where t: "start_deletes env (v # vs) s = start_deletes env vs t"
    "sys_db t = sys_db s" "w_log (sy_world t) = w_log (sy_world s)"
  proof -
    let ?u = "if get_worker (sc_name sc) s \<noteq> None then s
      else set_worker (sc_name sc) DeleteWorker (s\<lparr>sy_jobs := sy_jobs s @ [DeleteSubcloudStrategy v]\<rparr>)"
    obtain y where y: "oe_stopped env (w_ext (sy_world ?u)) = (Inr False, y)"
      using assms(1) unfolding never_stopped_def by blast
    let ?t = "?u\<lparr>sy_world := (sy_world ?u)\<lparr>w_ext := y\<rparr>\<rparr>"
    have "start_deletes env (v # vs) s = start_deletes env vs ?t"
      using y by (cases "get_worker (sc_name sc) s") (simp_all add: region bnd_apply seq_apply
          stopped_def world_io_def zoom_apply ask_apply start_thread_def)
    then show ?thesis by (rule that) (simp_all add: set_worker_def)
  qed
  then show ?case using Cons.IH [of t] Cons.prems by simp
qed

lemma wait_for_workers_run:
  assumes "awaits pause" and "the_strategy (sys_db s) \<noteq> None"
  shows "\<exists>s'. wait_for_workers pause n s = (Inr (), s') \<and> the_strategy (sys_db s') \<noteq> None \<and>
    slept (w_log (sy_world s')) \<le> slept (w_log (sy_world s)) + 10 * n"
  using assms(2)
proof (induction n arbitrary: s)
  case 0
  then show ?case by simp
next
  case (Suc n)
  let ?t = "s\<lparr>sy_world := (sy_world s)\<lparr>w_log := w_log (sy_world s) @ [Sleep 10]\<rparr>\<rparr>"
  have pause: "the_strategy (sys_db (pause ?t)) \<noteq> None"
    "slept (w_log (sy_world (pause ?t))) = slept (w_log (sy_world s)) + 10"
    using assms(1) Suc.prems by (simp_all add: awaits_def)
  show ?case
  proof (cases "sy_workers s = []")
    case True
    then show ?thesis using Suc.prems by (simp add: bnd_apply)
  next
    case False
    then have "wait_for_workers pause (Suc n) s = wait_for_workers pause n (pause ?t)"
      by (simp add: bnd_apply seq_apply world_io_def zoom_apply sleep_def log_action_def)
    then show ?thesis using Suc.IH [OF pause(1)] pause(2) by auto
  qed
qed

lemma delete_all_rows:
  "for_each (\<lambda>(r, _ :: subcloud option). modify (\<lambda>d. d\<lparr>strategy_steps :=
      delete_row sp_id (sp_id r) (strategy_steps d)\<rparr>)) vs d =
   (Inr (), d\<lparr>strategy_steps := (strategy_steps d)\<lparr>rows :=
      filter (\<lambda>q. sp_id q \<notin> (sp_id \<circ> fst) ` set vs) (rows (strategy_steps d))\<rparr>\<rparr>)"
  by (induction vs arbitrary: d) (auto simp: seq_apply delete_row_def filter_rows_def intro!: filter_cong)

lemma destroy_all_run:
  "strategy_step_destroy_all admin_context d =
   (Inr (), d\<lparr>strategy_steps := (strategy_steps d)\<lparr>rows := []\<rparr>\<rparr>)"
  by (auto simp: strategy_step_destroy_all_def write_session_def bnd_apply strategy_step_get_all_def
      delete_all_rows load_step_def image_comp comp_def filter_empty_conv)

lemma destroy_strategy_run:
  assumes "the_strategy d = Some st"
  shows "sw_update_strategy_destroy admin_context None d =
    (Inr (), d\<lparr>sw_update_strategies := (sw_update_strategies d)\<lparr>rows := []\<rparr>\<rparr>)"
proof -
  have "rows (sw_update_strategies d) = [st]"
    using assms by (auto simp: the_strategy_def split: list.splits)
  then show ?thesis
    by (simp add: sw_update_strategy_destroy_def sw_update_strategy_get_def write_session_def
        first_or_apply query_first_def bnd_apply strategy_matches_def delete_row_def
        filter_rows_def)
qed

text \<open>C40: A deletion ends: it waits at most 190 seconds for the workers, even when none of them
  ever finishes, and then neither the strategy nor any of its steps is left.\<close>

theorem deletion_ends:
  assumes never: "never_stopped env" and pause: "awaits pause" and wf: "steps_wf (sys_db s)"
    and st: "the_strategy (sys_db s) \<noteq> None"
  shows "\<exists>s'. orch_delete env c pause s = (Inr (), s') \<and>
    rows (sw_update_strategies (sys_db s')) = [] \<and> step_rows (sys_db s') = [] \<and>
    slept (w_log (sy_world s')) \<le> slept (w_log (sy_world s)) + 190"
proof -
  let ?vs = "map (load_step (sys_db s)) (step_rows (sys_db s))"
  have load: "world_io (db_io (strategy_step_get_all admin_context)) s = (Inr ?vs, s)"
    using load_all [OF wf] by (simp add: world_io_def zoom_apply db_io_apply)
  obtain t where t: "start_deletes env ?vs s = (Inr False, t)" "sys_db t = sys_db s"
    "w_log (sy_world t) = w_log (sy_world s)"
    using start_deletes_run [OF never loaded_views(1) [OF wf], of s] by blast
  obtain u where u: "wait_for_workers pause 19 t = (Inr (), u)" "the_strategy (sys_db u) \<noteq> None"
    "slept (w_log (sy_world u)) \<le> slept (w_log (sy_world t)) + 190"
    using wait_for_workers_run [OF pause, of t 19] st t(2) by auto
  obtain q where q: "the_strategy (sys_db u) = Some q" using u(2) by blast
  then have "the_strategy ((sys_db u)\<lparr>strategy_steps := (strategy_steps (sys_db u))\<lparr>rows := []\<rparr>\<rparr>) = Some q"
    by (simp add: the_strategy_def)
  from destroy_strategy_run [OF this] show ?thesis
    using load t u
    by (simp add: orch_delete_def bnd_apply seq_apply world_io_def zoom_apply db_io_apply
        destroy_all_run step_rows_def)
qed

theorem deletion_ends_witness:
  "\<exists>s'. orch_delete ex_orch_env (patch_orch_thread ex_orch_env) (\<lambda>s. s)
      (ex_sys\<lparr>sy_workers := [(''beta'', DeleteWorker)]\<rparr>) = (Inr (), s') \<and>
    step_rows (sys_db s') = []"
proof -
  let ?s = "ex_sys\<lparr>sy_workers := [(''beta'', DeleteWorker)]\<rparr> :: (unit, job_data) sys"
  have "steps_wf (sys_db ?s)" using ex_steps_wf by simp
  moreover have "the_strategy (sys_db ?s) \<noteq> None"
    by (simp add: ex_sys_def ex_orch_world_def ex_defs the_strategy_def)
  moreover have "awaits (\<lambda>s. s :: (unit, job_data) sys)" by (simp add: awaits_def)
  ultimately show ?thesis
    using deletion_ends [OF ex_never_stopped, of "\<lambda>s. s" ?s "patch_orch_thread ex_orch_env"] by blast
qed

end
