(* ===== verification/DC_UpdateProps.thy ===== *)
theory DC_UpdateProps
  imports DC_UpdateEnds DC_DeployProps DC_OrchEnds DC_AuditProps
begin

text \<open>
  The properties of the firmware, prestage and software upgrade strategies: stages and greenthreads,
  the migration of the data of a simplex subcloud, the end of a firmware update and a preparation
  for a prestage that fails.
\<close>

section \<open>Stages and greenthreads\<close>

text \<open>What holds in every state of the execution of a strategy.\<close>

definition orderly :: "('x, 'd) sys \<Rightarrow> bool" where
  "orderly s \<longleftrightarrow> stages_in_order (sys_db s) \<and> one_driver s"

lemma coupled_orderly: "coupled s \<Longrightarrow> orderly s"
  unfolding orderly_def by (intro conjI coupled_order coupled_one_driver)

text \<open>C27: Firmware, prestage and software upgrade strategies too go stage by stage: a subcloud is only
  being updated when the earlier stages are at their end, by one greenthread, which was started
  for the state its step is in, unless the step has gone with its subcloud.\<close>

theorem update_threads_orderly:
  "(never_stopped env \<and> about_to_start f \<and> (orch_step env (fw_update_orch_thread fw))\<^sup>*\<^sup>* f f' \<longrightarrow> orderly f') \<and>
   (never_stopped env \<and> about_to_start p \<and> (orch_step env (prestage_orch_thread pre))\<^sup>*\<^sup>* p p' \<longrightarrow> orderly p') \<and>
   (never_stopped env' \<and> about_to_start u \<and> (orch_step env' (sw_upgrade_orch_thread up))\<^sup>*\<^sup>* u u' \<longrightarrow> orderly u')"
  using fw.steps_coupled [of env fw f f'] prestage.steps_coupled [of env pre p p']
    upgrade.steps_coupled [of env' up u u'] start_coupled [of f] start_coupled [of p]
    start_coupled [of u] coupled_orderly [of f'] coupled_orderly [of p'] coupled_orderly [of u']
  by simp

definition ex_fw_env :: "unit fw_env" where
  "ex_fw_env = \<lparr>fw_audit = ex_audit_env, fw_remove_device_image = (\<lambda>_ _ _. ret ()),
     fw_upload_device_image = (\<lambda>_ _ _. ret ()), fw_apply_device_image = (\<lambda>_ _ _. ret ())\<rparr>"

definition ex_fw_sys :: "(unit, unit) sys" where
  "ex_fw_sys = \<lparr>sy_world = ex_orch_world ((ex_db [(ex_strategy SW_UPDATE_STATE_APPLYING)\<lparr>st_type := SW_UPDATE_TYPE_FIRMWARE\<rparr>])
       \<lparr>strategy_steps := \<lparr>rows = [ex_step 1 1 1 STRATEGY_STATE_INITIAL, ex_step 2 3 2 STRATEGY_STATE_INITIAL],
          next_id = 3\<rparr>\<rparr>),
     sy_workers = [], sy_jobs = [], sy_setup = False, sy_data = None\<rparr>"

definition ex_fw_turn :: "(unit, unit) sys \<Rightarrow> (unit, unit) sys" where
  "ex_fw_turn s = snd (run_orch_iteration ex_orch_env (fw_update_orch_thread ex_fw_env) (\<lambda>s. s) s)"

lemma ex_fw_start: "about_to_start ex_fw_sys"
  by (simp add: about_to_start_def steps_wf_def ex_fw_sys_def ex_orch_world_def ex_defs step_rows_def
      db_wf_defs table_wf_def ex_step_def empty_db_def step_subcloud_ids_def List.map_filter_def
      empty_table_def)

lemma ex_fw_turn_step:
  "(orch_step ex_orch_env (fw_update_orch_thread ex_fw_env))\<^sup>*\<^sup>* ex_fw_sys (ex_fw_turn ex_fw_sys)"
proof -
  have "\<not> being_deleted (oc_update_type (fw_update_orch_thread ex_fw_env)) (sys_db ex_fw_sys)"
    by (simp add: being_deleted_def ex_fw_sys_def ex_orch_world_def ex_defs query_first_def
        fw_update_orch_thread_def ex_strategy_def)
  from orch_step.turn [OF this prod.collapse [symmetric]] show ?thesis
    unfolding ex_fw_turn_def by (rule r_into_rtranclp)
qed

lemma ex_fw_steps: "map sp_subcloud_id (step_rows (sys_db (ex_fw_turn ex_fw_sys))) = [Some 1, Some 3]"
  by code_simp

lemma ex_fw_driven: "map (\<lambda>v. sp_subcloud_id (fst v)) (driven (ex_fw_turn ex_fw_sys)) = [Some 1]"
  by code_simp

theorem update_threads_orderly_witness:
  "\<exists>r \<in> set (step_rows (sys_db (ex_fw_turn ex_fw_sys))). sp_subcloud_id r = Some 1 \<and>
     sp_state r \<in> (\<lambda>v. sp_state (fst v)) ` set (driven (ex_fw_turn ex_fw_sys))"
proof -
  obtain v where v: "v \<in> set (driven (ex_fw_turn ex_fw_sys))" "sp_subcloud_id (fst v) = Some 1"
    using ex_fw_driven by (auto simp: map_eq_Cons_conv)
  then have job: "PerformAction v \<in> set (sy_jobs (ex_fw_turn ex_fw_sys))" "active (sp_state (fst v))"
    by (auto simp: driven_def split: job.splits if_splits)
  have "orderly (ex_fw_turn ex_fw_sys)"
    using update_threads_orderly ex_never_stopped ex_fw_start ex_fw_turn_step by blast
  then have "in_charge (sys_db (ex_fw_turn ex_fw_sys)) v" using job(1) unfolding orderly_def one_driver_def by blast
  moreover have "Some 1 \<in> sp_subcloud_id ` set (step_rows (sys_db (ex_fw_turn ex_fw_sys)))"
    using arg_cong [OF ex_fw_steps, of set] by simp
  ultimately show ?thesis
    using v job(2) active_not_terminal [OF job(2)] unfolding in_charge_def by (metis (no_types, lifting) imageI)
qed

section \<open>The migration of the data of a simplex subcloud\<close>

definition marked :: "nat \<Rightarrow> deploy_state \<Rightarrow> db \<Rightarrow> bool" where
  "marked i st d \<longleftrightarrow> (\<exists>q \<in> set (rows (subclouds d)). sc_id q = i) \<and>
     (\<forall>q \<in> set (rows (subclouds d)). sc_id q = i \<longrightarrow> sc_deploy_status q = st)"

lemma update_step_run:
  assumes "db_wf (w_db w)" and "sc \<in> set (rows (subclouds (w_db w)))" and "sp_subcloud_id (fst v) = Some (sc_id sc)"
    and "sv_deploy_status vals = Some st" and "sv_group_id vals = None"
  shows "\<exists>w'. update_step_subcloud v vals w = (Inr (), w') \<and> w_log w' = w_log w \<and> marked (sc_id sc) st (w_db w') \<and>
    db_wf (w_db w')"
proof -
  let ?f = "\<lambda>r. if sc_id r = sc_id sc then apply_subcloud_values vals r else r"
  let ?d = "(w_db w)\<lparr>subclouds := map_rows ?f (subclouds (w_db w))\<rparr>"
  have upd: "subcloud_update admin_context (sc_id sc) vals (w_db w) = (Inr (apply_subcloud_values vals sc), ?d)"
    by (rule subcloud_update_runs [OF assms(1,2,5)])
  have f: "sc_id (?f r) = sc_id r" and st: "sc_id r = sc_id sc \<Longrightarrow> sc_deploy_status (?f r) = st" for r
    using assms(4) by (simp_all add: apply_subcloud_values_def)
  have rows: "rows (subclouds ?d) = map ?f (rows (subclouds (w_db w)))" by (simp add: map_rows_def)
  have "marked (sc_id sc) st ?d" unfolding marked_def rows set_map
  proof (intro conjI ballI impI)
    show "\<exists>q \<in> ?f ` set (rows (subclouds (w_db w))). sc_id q = sc_id sc"
      by (rule bexI [of _ "?f sc"], rule f) (rule imageI, rule assms(2))
    show "sc_deploy_status q = st" if "q \<in> ?f ` set (rows (subclouds (w_db w)))" "sc_id q = sc_id sc" for q
    proof -
      note q_in = that
      obtain r where q: "q = ?f r" using q_in(1) by (rule imageE)
      have "sc_id r = sc_id sc" using q_in(2) unfolding q f .
      then show ?thesis unfolding q by (rule st)
    qed
  qed
  moreover have "db_wf ?d" using keepsD [OF subcloud_update_wf [of admin_context "sc_id sc" vals] assms(1)] upd by simp
  ultimately show ?thesis using upd assms(3)
    by (simp add: update_step_subcloud_def step_subcloud_id_def seq_apply db_io_apply)
qed

text \<open>How many playbooks a log has.\<close>

definition is_playbook :: "action \<Rightarrow> bool" where
  "is_playbook a = (case a of Playbook _ \<Rightarrow> True | _ \<Rightarrow> False)"

definition playbooks :: "'x world \<Rightarrow> nat" where
  "playbooks w = length (filter is_playbook (w_log w))"

text \<open>Where a migration stands: the status of the subcloud, and the number of playbooks started.\<close>

definition migration_at :: "nat \<Rightarrow> deploy_state set \<Rightarrow> nat \<Rightarrow> 'x world \<Rightarrow> bool" where
  "migration_at i sts n w \<longleftrightarrow> db_wf (w_db w) \<and> playbooks w = n \<and> (\<exists>st \<in> sts. marked i st (w_db w))"

abbreviation unfinished :: "deploy_state set" where
  "unfinished \<equiv> {DEPLOY_STATE_MIGRATING_DATA, DEPLOY_STATE_DATA_MIGRATION_FAILED}"

lemma migration_update:
  assumes "migration_at i sts n w" and "sp_subcloud_id (fst v) = Some i"
    and "sv_deploy_status vals = Some st" and "sv_group_id vals = None"
  shows "\<exists>w'. update_step_subcloud v vals w = (Inr (), w') \<and> migration_at i {st} n w'"
proof -
  obtain q where "q \<in> set (rows (subclouds (w_db w)))" "sc_id q = i" "db_wf (w_db w)"
    using assms(1) unfolding migration_at_def marked_def by blast
  with update_step_run [of w q v vals st] show ?thesis
    using assms unfolding migration_at_def playbooks_def by auto
qed

lemma migration_status:
  "migration_at i sts n w \<Longrightarrow> sp_subcloud_id (fst v) = Some i \<Longrightarrow>
   \<exists>w'. set_status v st w = (Inr (), w') \<and> migration_at i {st} n w'"
  unfolding set_status_def by (rule migration_update) (simp_all add: no_values_def)

lemma keeps_migration:
  "keeps (migration_at i sts n) (ask m)" "keeps (migration_at i sts n) (sleep k)"
  by (auto simp: keeps_def ask_apply sleep_def log_action_def modify_def migration_at_def playbooks_def is_playbook_def
      split: prod.splits)

lemma migration_kept:
  "keeps (migration_at i sts n) m \<Longrightarrow> migration_at i sts n w \<Longrightarrow> m w = (r, w') \<Longrightarrow> migration_at i sts n w'"
  using keepsD [of "migration_at i sts n" m w] by simp

lemma migration_timeout_marks:
  assumes "migration_at i sts n w" and "sp_subcloud_id (fst v) = Some i" and "migration_timeout v msg w = (r, w')"
  shows "(\<exists>e. r = Inl e) \<and> migration_at i {DEPLOY_STATE_DATA_MIGRATION_FAILED} n w'"
  using migration_status [OF assms(1,2), of DEPLOY_STATE_DATA_MIGRATION_FAILED] assms(3)
  by (auto simp: migration_timeout_def seq_apply)

lemma keeps_get_host: "keeps (migration_at i sts n) (get_host env region name)"
  unfolding get_host_def get_sysinv_client_def get_client_def get_keystone_client_def
  by (intro keeps_intros keeps_migration)

text \<open>The playbook is started once, with the subcloud marked as being migrated.\<close>

lemma run_migration_marks:
  assumes w: "migration_at i {DEPLOY_STATE_MIGRATING_DATA} n w" and v: "sp_subcloud_id (fst v) = Some i"
    and run: "run_migration env v name l w = (r, w')"
  shows "migration_at i (if r = Inr () then {DEPLOY_STATE_MIGRATING_DATA} else unfinished) (Suc n) w'"
proof -
  obtain a w1 where w1: "run_playbook (ug_sm env) l (migrate_command name) w = (a, w1)" by fastforce
  have started: "migration_at i {DEPLOY_STATE_MIGRATING_DATA} (Suc n) w1"
    using w w1 by (auto simp: run_playbook_def call_apply migration_at_def playbooks_def is_playbook_def split: prod.splits)
  show ?thesis
  proof (cases a)
    case (Inr u)
    then have "r = Inr ()" "w' = w1"
      using run w1 by (auto simp: run_migration_def migrate_subcloud_data_def try_catch_def)
    then show ?thesis using started by simp
  next
    case (Inl e)
    have "\<exists>e'. migrate_subcloud_data env (migrate_command name) l w = (Inl e', w1)"
      using w1 Inl by (cases e) (simp_all add: migrate_subcloud_data_def try_catch_def on_playbook_failure_def)
    then obtain e' where "migrate_subcloud_data env (migrate_command name) l w = (Inl e', w1)" by blast
    then have handler: "bnd (ask (sm_ansible_error_msg (ug_sm env) name l (deploy_state_str DEPLOY_STATE_MIGRATING_DATA)))
        (\<lambda>msg. seq (install_failed_with v DEPLOY_STATE_DATA_MIGRATION_FAILED msg) (raise e')) w1 = (r, w')"
      using run by (simp add: run_migration_def try_catch_def)
    obtain b w2 where w2: "ask (sm_ansible_error_msg (ug_sm env) name l (deploy_state_str DEPLOY_STATE_MIGRATING_DATA)) w1 = (b, w2)"
      by fastforce
    have at2: "migration_at i {DEPLOY_STATE_MIGRATING_DATA} (Suc n) w2" by (rule migration_kept [OF keeps_migration(1) started w2])
    show ?thesis
    proof (cases b)
      case (Inl x)
      then show ?thesis using handler w2 at2 by (auto simp: bnd_apply migration_at_def)
    next
      case (Inr msg)
      obtain w3 where "install_failed_with v DEPLOY_STATE_DATA_MIGRATION_FAILED msg w2 = (Inr (), w3)"
        "migration_at i {DEPLOY_STATE_DATA_MIGRATION_FAILED} (Suc n) w3"
        using migration_update [OF at2 v] unfolding install_failed_with_def by (metis (no_types, lifting) no_values_def subcloud_values.select_convs subcloud_values.simps)
      then show ?thesis using handler w2 Inr by (auto simp: bnd_apply seq_apply migration_at_def)
    qed
  qed
qed

text \<open>The wait for the reboot starts nothing; when it gives up, the subcloud is marked.\<close>

lemma unlock_turn_marks:
  assumes w: "migration_at i {DEPLOY_STATE_MIGRATING_DATA} n w" and v: "sp_subcloud_id (fst v) = Some i"
    and turn: "migrate_unlock_turn env v name k w = (r, w')"
  shows "migration_at i (case r of Inl e \<Rightarrow> unfinished | Inr x \<Rightarrow> {DEPLOY_STATE_MIGRATING_DATA}) n w'"
proof -
  let ?at = "migration_at i {DEPLOY_STATE_MIGRATING_DATA} n"
  have loose: "migration_at i unfinished n t" if "migration_at i {st} n t" "st \<in> unfinished" for st t
    using that by (auto simp: migration_at_def)
  obtain fails queries where k: "k = (fails, queries)" by fastforce
  obtain a w1 where w1: "check_stopped (ug_orch env) w = (a, w1)" by fastforce
  have "keeps ?at (check_stopped (ug_orch env))"
    unfolding check_stopped_def stopped_def by (intro keeps_intros keeps_migration)
  from migration_kept [OF this w w1] have at1: "?at w1" .
  obtain b w2 where w2: "get_host (ug_orch env) name ''controller-0'' w1 = (b, w2)" by fastforce
  have at2: "?at w2" by (rule migration_kept [OF keeps_get_host at1 w2])
  have slept: "?at (snd (sleep m w2))" "fst (sleep m w2) = Inr ()" for m
    using keepsD [OF keeps_migration(2) at2] by (simp_all add: sleep_def log_action_def)
  have given_up: "migration_at i unfinished n w'" if "migration_timeout v msg w2 = (r, w')" for msg
    using migration_timeout_marks [OF at2 v that] loose by blast
  have no_return: "(migration_timeout v msg w2 = (Inr y, t)) = False" for msg t and y :: "((nat \<times> nat, unit) turn)"
    using migration_timeout_marks [OF at2 v, of msg "Inr y" t] by auto
  show ?thesis
  proof (cases a)
    case (Inl e)
    then have "r = Inl e" "w' = w1" using turn w1 by (simp_all add: migrate_unlock_turn_def k seq_apply)
    then show ?thesis using loose [OF at1] by simp
  next
    case (Inr u)
    have "r = Inl e' \<Longrightarrow> migration_at i unfinished n w'" "r = Inr x \<Longrightarrow> ?at w'" for e' x
      using turn w1 w2 Inr at2 slept given_up
      by (auto simp: no_return migrate_unlock_turn_def k seq_apply try_else_def split: sum.splits if_splits prod.splits)
    then show ?thesis by (cases r) auto
  qed
qed

lemma unlock_loop_marks:
  assumes "io_loop (migrate_unlock_turn env v name) l w = Some (r, w')"
    and "migration_at i {DEPLOY_STATE_MIGRATING_DATA} n w" and "sp_subcloud_id (fst v) = Some i"
  shows "migration_at i (case r of Inl e \<Rightarrow> unfinished | Inr x \<Rightarrow> {DEPLOY_STATE_MIGRATING_DATA}) n w'"
  by (rule io_loop_partial [OF assms(1), where J = "\<lambda>_. migration_at i {DEPLOY_STATE_MIGRATING_DATA} n" and
        Q = "\<lambda>r. migration_at i (case r of Inl e \<Rightarrow> unfinished | Inr x \<Rightarrow> {DEPLOY_STATE_MIGRATING_DATA}) n"])
    (use assms(2) unlock_turn_marks [OF _ assms(3)] in \<open>fastforce\<close>)+

text \<open>What one run of the state does, by the status it finds.\<close>

lemma migrating_data_run:
  assumes run: "migrating_data_state env v w = Some (r, w')" and wf: "db_wf (w_db w)"
    and v: "snd v = Some old" "sp_subcloud_id (fst v) = Some i" "sc_id old = i" and at: "marked i st (w_db w)"
  shows "if st \<in> {DEPLOY_STATE_MIGRATED, DEPLOY_STATE_DONE} then r = Inr STRATEGY_STATE_UNLOCKING_CONTROLLER_0 \<and> w' = w
    else if st = DEPLOY_STATE_MIGRATING_DATA then
      (\<exists>e. r = Inl e) \<and> migration_at i {DEPLOY_STATE_DATA_MIGRATION_FAILED} (playbooks w) w'
    else if (\<exists>e. r = Inl e) then migration_at i unfinished (Suc (playbooks w)) w'
    else r = Inr STRATEGY_STATE_UNLOCKING_CONTROLLER_0 \<and> migration_at i {DEPLOY_STATE_MIGRATED} (Suc (playbooks w)) w'"
proof -
  obtain sc where sc: "sc \<in> set (rows (subclouds (w_db w)))" "sc_id sc = i" "sc_deploy_status sc = st"
    using at unfolding marked_def by blast
  have get: "db_io (subcloud_get admin_context (sc_id old)) w = (Inr sc, w)"
    using find_by_id [OF wf sc(1)] sc(2) v(3) by (simp add: subcloud_get_def first_or_apply db_io_apply)
  have old: "the_step_subcloud v = ret old" using v by (simp add: the_step_subcloud_def)
  have here: "migration_at i {st} (playbooks w) w" using wf at by (simp add: migration_at_def)
  consider "st \<in> {DEPLOY_STATE_MIGRATED, DEPLOY_STATE_DONE}" | "st = DEPLOY_STATE_MIGRATING_DATA"
    | "st \<notin> {DEPLOY_STATE_MIGRATED, DEPLOY_STATE_DONE, DEPLOY_STATE_MIGRATING_DATA}" by blast
  then show ?thesis
  proof cases
    case 1
    then have "migrating_data_state env v w = Some (Inr STRATEGY_STATE_UNLOCKING_CONTROLLER_0, w)"
      using sc(3) by (simp add: migrating_data_state_def Let_def old bndp_run get)
    then show ?thesis using run 1 by simp
  next
    case 2
    have "migration_timeout v (''Previous data migration was abruptly terminated. '' @
        ''Please try again with a new upgrade strategy.'') w = (r, w')"
      using run 2 sc(3) by (simp add: migrating_data_state_def Let_def old bndp_run get)
    from migration_timeout_marks [OF here v(2) this] show ?thesis using 2 by simp
  next
    case 3
    let ?l = "log_file_of (sc_name sc)"
    have body: "seqp (run (seq (set_status v DEPLOY_STATE_MIGRATING_DATA)
          (seq (run_migration env v (sc_name old) ?l) (sleep MIGRATE_ANSIBLE_SLEEP))))
        (seqp (io_loop (migrate_unlock_turn env v (sc_name old)) (0, 0))
          (seqp (run (set_status v DEPLOY_STATE_MIGRATED)) (run (ret STRATEGY_STATE_UNLOCKING_CONTROLLER_0)))) w = Some (r, w')"
      using run 3 sc(3) by (simp add: migrating_data_state_def Let_def old bndp_run get)
    obtain w1 where w1: "set_status v DEPLOY_STATE_MIGRATING_DATA w = (Inr (), w1)"
      "migration_at i {DEPLOY_STATE_MIGRATING_DATA} (playbooks w) w1" using migration_status [OF here v(2)] by blast
    obtain a w2 where w2: "run_migration env v (sc_name old) ?l w1 = (a, w2)" by fastforce
    note at2 = run_migration_marks [OF w1(2) v(2) w2]
    show ?thesis
    proof (cases a)
      case (Inl e)
      then have "r = Inl e" "w' = w2" using body w1(1) w2 by (simp_all add: seqp_def bndp_run seq_apply)
      then show ?thesis using 3 at2 Inl by simp
    next
      case (Inr u)
      let ?w3 = "snd (sleep MIGRATE_ANSIBLE_SLEEP w2)"
      have at3: "migration_at i {DEPLOY_STATE_MIGRATING_DATA} (Suc (playbooks w)) ?w3"
        using keepsD [OF keeps_migration(2)] at2 Inr by simp
      have rest: "seqp (io_loop (migrate_unlock_turn env v (sc_name old)) (0, 0))
          (seqp (run (set_status v DEPLOY_STATE_MIGRATED)) (run (ret STRATEGY_STATE_UNLOCKING_CONTROLLER_0))) ?w3 = Some (r, w')"
        using body w1(1) w2 Inr by (simp add: seqp_def bndp_run seq_apply sleep_def log_action_def)
      then obtain b w4 where w4: "io_loop (migrate_unlock_turn env v (sc_name old)) (0, 0) ?w3 = Some (b, w4)"
        unfolding seqp_def bndp_Some_iff by blast
      note at4 = unlock_loop_marks [OF w4 at3 v(2)]
      show ?thesis
      proof (cases b)
        case (Inl e)
        then have "r = Inl e" "w' = w4" using rest w4 by (simp_all add: seqp_def bndp_def)
        then show ?thesis using 3 at4 Inl by simp
      next
        case (Inr x)
        then have "migration_at i {DEPLOY_STATE_MIGRATING_DATA} (Suc (playbooks w)) w4" using at4 by simp
        from migration_status [OF this v(2)] obtain w5 where "set_status v DEPLOY_STATE_MIGRATED w4 = (Inr (), w5)"
          "migration_at i {DEPLOY_STATE_MIGRATED} (Suc (playbooks w)) w5" by blast
        then show ?thesis using 3 rest w4 Inr by (auto simp: seqp_def bndp_def)
      qed
    qed
  qed
qed

text \<open>C29: The data of a simplex subcloud is migrated once. A run of the state starts at most one playbook.
  When it returns, the next run on that database, in whatever strategy, goes on to the unlocking at
  once: no playbook, no change. When it raises, the subcloud is either marked as one whose migration
  has failed (only then may a playbook be started again), or it still shows a migration under way,
  and then the next run starts no playbook either: it raises and marks the migration as failed.\<close>

theorem migration_not_repeated:
  assumes run: "migrating_data_state env v w = Some (r, w')" and wf: "db_wf (w_db w)"
    and v: "snd v = Some old" "sp_subcloud_id (fst v) = Some i" "sc_id old = i" and at: "marked i st (w_db w)"
    and run2: "migrating_data_state env2 v2 w2 = Some (r2, w2')" and same: "w_db w2 = w_db w'"
    and v2: "snd v2 = Some old2" "sp_subcloud_id (fst v2) = Some i" "sc_id old2 = i"
  shows "playbooks w' \<le> Suc (playbooks w) \<and>
    (case r of
       Inr nxt \<Rightarrow> nxt = STRATEGY_STATE_UNLOCKING_CONTROLLER_0 \<and> r2 = Inr STRATEGY_STATE_UNLOCKING_CONTROLLER_0 \<and> w2' = w2
     | Inl e \<Rightarrow> marked i DEPLOY_STATE_DATA_MIGRATION_FAILED (w_db w') \<or>
         marked i DEPLOY_STATE_MIGRATING_DATA (w_db w') \<and> (\<exists>e2. r2 = Inl e2) \<and> playbooks w2' = playbooks w2 \<and>
         marked i DEPLOY_STATE_DATA_MIGRATION_FAILED (w_db w2'))"
proof -
  note first = migrating_data_run [OF run wf v at]
  have second: "migration_at i {st2} n w' \<Longrightarrow>
      if st2 \<in> {DEPLOY_STATE_MIGRATED, DEPLOY_STATE_DONE} then r2 = Inr STRATEGY_STATE_UNLOCKING_CONTROLLER_0 \<and> w2' = w2
      else st2 = DEPLOY_STATE_MIGRATING_DATA \<longrightarrow>
        (\<exists>e. r2 = Inl e) \<and> migration_at i {DEPLOY_STATE_DATA_MIGRATION_FAILED} (playbooks w2) w2'" for st2 n
    using migrating_data_run [OF run2 _ v2, of st2] same by (auto simp: migration_at_def split: if_splits)
  consider "st \<in> {DEPLOY_STATE_MIGRATED, DEPLOY_STATE_DONE}" | "st = DEPLOY_STATE_MIGRATING_DATA"
    | "st \<notin> {DEPLOY_STATE_MIGRATED, DEPLOY_STATE_DONE, DEPLOY_STATE_MIGRATING_DATA}" by blast
  then show ?thesis
  proof cases
    case 1
    then have "r = Inr STRATEGY_STATE_UNLOCKING_CONTROLLER_0" "w' = w" using first by auto
    then show ?thesis using second [of st "playbooks w"] 1 wf at by (auto simp: migration_at_def)
  next
    case 2
    then show ?thesis using first by (auto simp: migration_at_def)
  next
    case 3
    show ?thesis
    proof (cases r)
      case (Inl e)
      then have "migration_at i unfinished (Suc (playbooks w)) w'" using first 3 by auto
      then show ?thesis using Inl second [of DEPLOY_STATE_MIGRATING_DATA "Suc (playbooks w)"]
        by (auto simp: migration_at_def)
    next
      case (Inr nxt)
      then have "nxt = STRATEGY_STATE_UNLOCKING_CONTROLLER_0 \<and> migration_at i {DEPLOY_STATE_MIGRATED} (Suc (playbooks w)) w'"
        using first 3 by auto
      then show ?thesis using Inr second [of DEPLOY_STATE_MIGRATED "Suc (playbooks w)"]
        by (auto simp: migration_at_def)
    qed
  qed
qed

text \<open>The witness: a subcloud that has been installed, and whatever the outside answers.\<close>

definition ex_no_reads :: "unit cached" where
  "ex_no_reads = \<lparr>ca_license = None, ca_system = None, ca_loads = None, ca_patches = None, ca_ext = ()\<rparr>"

definition ex_migrating :: subcloud where
  "ex_migrating = (ex_subcloud 1 ''alpha'' 1)\<lparr>sc_deploy_status := DEPLOY_STATE_INSTALLED\<rparr>"

definition ex_migrating_world :: "unit cached world" where
  "ex_migrating_world = \<lparr>w_db = (ex_db [])\<lparr>subclouds := \<lparr>rows = [ex_migrating, ex_subcloud 2 ''beta'' 1, ex_subcloud 3 ''gamma'' 2], next_id = 4\<rparr>\<rparr>,
     w_fs = \<lparr>fs_files = Map.empty, fs_dirs = {}\<rparr>, w_log = [], w_ext = ex_no_reads\<rparr>"

theorem migration_not_repeated_witness:
  "\<forall>env. \<exists>r w' r2 w2. migrating_data_state env (ex_step 1 1 1 STRATEGY_STATE_MIGRATING_DATA, Some ex_migrating)
      ex_migrating_world = Some (r, w') \<and> playbooks w' \<le> 1 \<and>
    migrating_data_state env (ex_step 1 1 1 STRATEGY_STATE_MIGRATING_DATA, Some ex_migrating) w' = Some (r2, w2) \<and>
    ((\<exists>x. r = Inr x) \<longrightarrow> r2 = Inr STRATEGY_STATE_UNLOCKING_CONTROLLER_0 \<and> w2 = w')"
proof (rule allI)
  fix env :: "unit upgrade_env"
  let ?v = "(ex_step 1 1 1 STRATEGY_STATE_MIGRATING_DATA, Some ex_migrating)"
  have wf: "db_wf (w_db ex_migrating_world)"
    by (simp add: ex_migrating_world_def ex_migrating_def db_wf_defs table_wf_def ex_defs empty_db_def
        empty_table_def DEFAULT_SUBCLOUD_GROUP_ID_def)
  have returns: "\<exists>r w'. migrating_data_state env ?v w = Some (r, w')" for w
    using upgrade_states_terminate(10) [of env ?v] unfolding returnsp_def by fastforce
  obtain r w' where run: "migrating_data_state env ?v ex_migrating_world = Some (r, w')" using returns by blast
  obtain r2 w2 where run2: "migrating_data_state env ?v w' = Some (r2, w2)" using returns by blast
  have v: "snd ?v = Some ex_migrating" "sp_subcloud_id (fst ?v) = Some 1" "sc_id ex_migrating = 1"
    by (simp_all add: ex_step_def ex_migrating_def ex_subcloud_def)
  have "marked 1 DEPLOY_STATE_INSTALLED (w_db ex_migrating_world)"
    by (simp add: marked_def ex_migrating_world_def ex_migrating_def ex_subcloud_def)
  from migration_not_repeated [OF run wf v this run2 refl v] have "playbooks w' \<le> Suc (playbooks ex_migrating_world) \<and>
    ((\<exists>x. r = Inr x) \<longrightarrow> r2 = Inr STRATEGY_STATE_UNLOCKING_CONTROLLER_0 \<and> w2 = w')"
    by (auto split: sum.splits)
  then show "\<exists>r w' r2 w2. migrating_data_state env ?v ex_migrating_world = Some (r, w') \<and> playbooks w' \<le> 1 \<and>
      migrating_data_state env ?v w' = Some (r2, w2) \<and>
      ((\<exists>x. r = Inr x) \<longrightarrow> r2 = Inr STRATEGY_STATE_UNLOCKING_CONTROLLER_0 \<and> w2 = w')"
    using run run2 by (simp add: playbooks_def ex_migrating_world_def)
qed

section \<open>The end of a firmware update\<close>

text \<open>The statuses that are sent to the state service.\<close>

definition posts :: "'x world \<Rightarrow> action list" where
  "posts w = filter (\<lambda>a. case a of StateRpc _ _ _ \<Rightarrow> True | _ \<Rightarrow> False) (w_log w)"

lemma silent_basic [keeps_intros]:
  "keeps (\<lambda>w. posts w = l) (ask m)" "keeps (\<lambda>w. posts w = l) (sleep n)"
  by (auto simp: keeps_def posts_def ask_apply sleep_def log_action_def split: prod.splits)

lemma silent_clients [keeps_intros]:
  "keeps (\<lambda>w. posts w = l) (check_stopped env)" "keeps (\<lambda>w. posts w = l) (sysinv_query env region q)"
  unfolding check_stopped_def sysinv_query_def get_sysinv_client_def get_client_def get_keystone_client_def
    stopped_def
  by (intro keeps_intros)+

lemma silent_devices [keeps_intros]:
  "keeps (\<lambda>w. posts w = l) (add_enabled_devices env region hs ds)"
  by (induction hs arbitrary: ds) (auto intro!: keeps_intros)

lemma silent_again [keeps_intros]: "keeps (\<lambda>w. posts w = l) (try_again m n f)"
  unfolding try_again_def by (intro keeps_intros)

lemma silent_devices_turn [keeps_intros]: "keeps (\<lambda>w. posts w = l) (devices_turn env region k)"
  unfolding devices_turn_def fw_query_def by (cases k) (auto intro!: keeps_intros split: prod.splits)

lemma silent_images_turn [keeps_intros]: "keeps (\<lambda>w. posts w = l) (images_turn env region c)"
  unfolding images_turn_def fw_query_def by (intro keeps_intros)

lemma silent_loop:
  "io_loop (devices_turn env region) k w = Some (x, w') \<Longrightarrow> posts w' = posts w"
  "io_loop (images_turn env region) c w = Some (y, w') \<Longrightarrow> posts w' = posts w"
proof -
  have "keepsp (\<lambda>u. posts u = posts w) (io_loop (devices_turn env region) k)"
    "keepsp (\<lambda>u. posts u = posts w) (io_loop (images_turn env region) c)"
    by (intro keepsp_io_loop silent_devices_turn silent_images_turn)+
  then show "io_loop (devices_turn env region) k w = Some (x, w') \<Longrightarrow> posts w' = posts w"
    "io_loop (images_turn env region) c w = Some (y, w') \<Longrightarrow> posts w' = posts w"
    unfolding keepsp_def by blast+
qed

text \<open>The firmware of a subcloud is reported to be in sync by the last state of its update only when
  the hosts of the subcloud were asked and either have no enabled device or, of their devices, none
  is without an image of the applied ones: whatever cannot be queried, or an image that is not
  completely written, ends the step as failed with nothing reported.\<close>

theorem firmware_in_sync_when_applied:
  assumes run: "finishing_fw_update_state env v w = Some (r, w')" and new: "posts w' \<noteq> posts w"
  shows "\<exists>region devices w1. io_loop (devices_turn env region) (0, []) w = Some (Inr devices, w1) \<and>
    posts w' = posts w @ [StateRpc region ENDPOINT_TYPE_FIRMWARE SYNC_STATUS_IN_SYNC] \<and>
    (devices = [] \<or> (\<exists>images states w2. io_loop (images_turn env region) 0 w1 = Some (Inr (images, states), w2) \<and>
       (\<forall>s \<in> set states. is_pcidevice_uuid s \<in> pd_uuid ` set devices \<longrightarrow> is_image_uuid s \<in> di_uuid ` set images \<longrightarrow>
          device_image_state.is_status s = DEVICE_IMAGE_UPDATE_COMPLETED)))"
proof -
  let ?finish = "seq (align_subcloud_status env v) (ret STRATEGY_STATE_COMPLETE)"
  obtain x wr where region: "get_region_name v w = (x, wr)" by fastforce
  have same: "wr = w" using region by (auto simp: get_region_name_def split: option.splits)
  obtain region where name: "get_region_name v w = (Inr region, w)"
    using run new region same by (cases x) (auto simp: finishing_fw_update_state_def Let_def bndp_run)
  have name': "get_region_name v u = (Inr region, u)" for u :: "'a world"
    using name by (auto simp: get_region_name_def split: option.splits)
  have finish: "posts u' = posts u @ [StateRpc region ENDPOINT_TYPE_FIRMWARE SYNC_STATUS_IN_SYNC]"
    if "?finish u = (y, u')" for y u u'
    using that name' [of u]
    by (auto simp: align_subcloud_status_def update_sync_status_def seq_apply bnd_apply call_apply posts_def
        split: prod.splits sum.splits)
  obtain y w1 where ds: "io_loop (devices_turn env region) (0, []) w = Some (y, w1)"
    using devices_loop_returns [of env region "(0, [])"] unfolding returnsp_def by fastforce
  obtain devices where y: "y = Inr devices"
    using run new ds silent_loop(1) [OF ds] name
    by (cases y) (auto simp: finishing_fw_update_state_def Let_def bndp_run bndp_def)
  show ?thesis
  proof (cases "devices = []")
    case True
    then have "?finish w1 = (r, w')"
      using run ds y name by (simp add: finishing_fw_update_state_def Let_def bndp_run bndp_def)
    then show ?thesis using finish silent_loop(1) [OF ds] ds y True by auto
  next
    case False
    obtain z w2 where im: "io_loop (images_turn env region) 0 w1 = Some (z, w2)"
      using images_loop_returns [of env region 0] unfolding returnsp_def by fastforce
    have quiet: "posts w2 = posts w" using silent_loop(1) [OF ds] silent_loop(2) [OF im] by simp
    obtain images states where z: "z = Inr (images, states)"
      using run new ds y im quiet name False
      by (cases z) (auto simp: finishing_fw_update_state_def Let_def bndp_run bndp_def)
    have none: "failed_image_states devices images states = []"
      using run new ds y im z quiet name False
      by (auto simp: finishing_fw_update_state_def Let_def bndp_run bndp_def split: if_splits)
    then have "?finish w2 = (r, w')"
      using run ds y im z name False by (simp add: finishing_fw_update_state_def Let_def bndp_run bndp_def)
    then show ?thesis using finish quiet ds y im z none by (auto simp: failed_image_states_def filter_empty_conv)
  qed
qed

definition ex_fw_step :: step_view where
  "ex_fw_step = (ex_step 1 1 1 STRATEGY_STATE_FINISHING_FW_UPDATE, Some (ex_subcloud 1 ''alpha'' 1))"

lemma ex_fw_finishes:
  "case finishing_fw_update_state ex_fw_env ex_fw_step (ex_orch_world empty_db) of
     Some (_, w') \<Rightarrow> posts w' \<noteq> [] | None \<Rightarrow> False"
  by code_simp

theorem firmware_in_sync_when_applied_witness:
  "\<exists>r w' region. finishing_fw_update_state ex_fw_env ex_fw_step (ex_orch_world empty_db) = Some (r, w') \<and>
     posts w' = [StateRpc region ENDPOINT_TYPE_FIRMWARE SYNC_STATUS_IN_SYNC]"
proof -
  have none: "posts (ex_orch_world empty_db) = []" by (simp add: posts_def ex_orch_world_def)
  obtain r w' where run: "finishing_fw_update_state ex_fw_env ex_fw_step (ex_orch_world empty_db) = Some (r, w')"
    and new: "posts w' \<noteq> []" using ex_fw_finishes by (auto split: option.splits)
  from firmware_in_sync_when_applied [OF run] new none run show ?thesis by auto
qed

section \<open>A preparation for a prestage that fails\<close>

lemma caught_fails: "try_catch m h w = (Inl e, w') \<Longrightarrow> \<exists>e' u. h e' u = (Inl e, w')"
  by (auto simp: try_catch_def split: prod.splits sum.splits)

lemma marker_there:
  assumes "seq (ask m) (seq (fs_io (modify (\<lambda>f. f\<lparr>fs_files := (fs_files f)(p \<mapsto> c f)\<rparr>))) (raise e)) u = (y, u')"
    and "fst (m (w_ext u)) = Inr ()"
  shows "path_exists p (w_fs u')"
proof -
  obtain t where "m (w_ext u) = (Inr (), t)" using assms(2) by (cases "m (w_ext u)") simp
  then have "u' = u\<lparr>w_ext := t, w_fs := (w_fs u)\<lparr>fs_files := (fs_files (w_fs u))(p \<mapsto> c (w_fs u))\<rparr>\<rparr>"
    using assms(1) by (simp add: seq_apply ask_apply fs_io_apply)
  then show ?thesis by (simp add: path_exists_def isfile_def)
qed

text \<open>Once the packages of the system controller could not be prepared for one subcloud, the
  preparation for every other subcloud ends at once with an error, without running a playbook or
  touching the database, until the marker of the failure is cleaned up.\<close>

theorem failed_preparation_stops_others:
  assumes run: "sync_run_prestage_prepare_packages env ctx sc payload w = (Inl e, w')"
    and known: "set_deploy_status ctx (sc_id sc) PRESTAGE_STATE_PREPARE (w_db w) = (Inr x, d)"
    and writable: "\<And>y. fst (pr_open env (PRESTAGE_PREPARATION_FAILED_FILE env) y) = Inr ()"
  shows "\<exists>e'. sync_run_prestage_prepare_packages env ctx sc' payload' w' = (Inl e', w')"
proof -
  let ?file = "PRESTAGE_PREPARATION_FAILED_FILE env"
  have there: "path_exists ?file (w_fs w')"
  proof (cases "path_exists ?file (w_fs w)")
    case True
    then show ?thesis
      using run by (auto simp: sync_run_prestage_prepare_packages_def Let_def bnd_apply fs_io_apply)
  next
    case False
    let ?mark = "\<lambda>e. seq (ask (pr_open env ?file)) (seq (fs_io (modify (\<lambda>f. f\<lparr>fs_files := (fs_files f)(?file \<mapsto>
                          case fs_files f ?file of None \<Rightarrow> [] | Some t \<Rightarrow> t)\<rparr>))) (raise e))"
    have marks: "path_exists ?file (w_fs u')" if "?mark e u = (y, u')" for e u y u'
      by (rule marker_there [OF that writable])
    have "try_catch (run_ansible env ctx
            (prestage_command ANSIBLE_PREPARE_PRESTAGE_PACKAGES_PLAYBOOK (prestage_inventory sc)
               (''current_software_version='' @ pe_sw_version env @ '' previous_software_version='' @ sc_software_version sc))
            ''prepare'' sc PRESTAGE_STATE_PREPARE payload (prestage_inventory sc) PRESTAGE_PREPARE_TIMEOUT)
          ?mark (w\<lparr>w_db := d\<rparr>) = (Inl e, w')"
      using run False known
      by (simp add: sync_run_prestage_prepare_packages_def Let_def bnd_apply fs_io_apply seq_apply db_io_apply)
    then show ?thesis by (elim caught_fails [THEN exE] exE) (rule marks)
  qed
  then show ?thesis
    by (simp add: sync_run_prestage_prepare_packages_def Let_def bnd_apply fs_io_apply)
qed

text \<open>The witness: the playbook fails for the first subcloud.\<close>

definition ex_prestage_env :: "unit prestage_run_env" where
  "ex_prestage_env = \<lparr>pe_sw_version = ''22.06'', pe_system_controller_upgrades = ret 0,
     pe_subcloud_info = (\<lambda>_. raise AttributeError), pr_playbook_timeout = 3600, pr_listdir = (\<lambda>_. ret []),
     pr_open = (\<lambda>_. ret ()), pr_run_playbook = (\<lambda>_ _ _. raise (PlaybookExecutionFailed []))\<rparr>"

definition ex_prestage_payload :: prestage_payload where
  "ex_prestage_payload = \<lparr>pp_sysadmin_password = JNone, pp_oam_floating_ip = ''10.10.10.12''\<rparr>"

theorem failed_preparation_stops_others_witness:
  "\<exists>e e' w'. sync_run_prestage_prepare_packages ex_prestage_env admin_context (ex_subcloud 1 ''alpha'' 1)
       ex_prestage_payload (ex_orch_world (ex_db [])) = (Inl e, w') \<and>
     sync_run_prestage_prepare_packages ex_prestage_env admin_context (ex_subcloud 2 ''beta'' 1)
       ex_prestage_payload w' = (Inl e', w')"
proof -
  let ?w = "ex_orch_world (ex_db [])"
  have "case set_deploy_status admin_context 1 PRESTAGE_STATE_PREPARE (w_db ?w) of
      (Inl _, _) \<Rightarrow> False | (Inr _, _) \<Rightarrow> True" by code_simp
  then obtain d x where known: "set_deploy_status admin_context 1 PRESTAGE_STATE_PREPARE (w_db ?w) = (Inr x, d)"
    by (simp split: prod.splits sum.splits)
  obtain r w' where run: "sync_run_prestage_prepare_packages ex_prestage_env admin_context
      (ex_subcloud 1 ''alpha'' 1) ex_prestage_payload ?w = (r, w')" by fastforce
  have "case sync_run_prestage_prepare_packages ex_prestage_env admin_context (ex_subcloud 1 ''alpha'' 1)
      ex_prestage_payload ?w of (Inl _, _) \<Rightarrow> True | (Inr _, _) \<Rightarrow> False" by code_simp
  then obtain e where "r = Inl e" using run by (cases r) simp_all
  with run known failed_preparation_stops_others [of ex_prestage_env admin_context "ex_subcloud 1 ''alpha'' 1"
      ex_prestage_payload ?w e w' x d]
  show ?thesis by (auto simp: ex_prestage_env_def ex_subcloud_def)
qed

end
