(* ===== verification/DC_AuditSystem.thy ===== *)
theory DC_AuditSystem
  imports DC_AuditProps
begin

text \<open>
  The audit service as a whole: the patch audit against the plan of the patch orchestration, the
  batches that the manager hands to the workers, what becomes of a request for an audit, and the
  processes that share the database (manager, workers, state service, with the messages between
  them) as a step relation.
\<close>

section \<open>The patch audit and the patch orchestration\<close>

lemma audit_ids:
  "set (pa_applied_patch_ids (patch_audit_data_of ps v)) =
     {i. \<exists>p. (i, p) \<in> set ps \<and> pt_repostate p = PATCH_STATE_APPLIED}"
  "set (pa_committed_patch_ids (patch_audit_data_of ps v)) =
     {i. \<exists>p. (i, p) \<in> set ps \<and> pt_repostate p = PATCH_STATE_COMMITTED}"
  "pa_patches (patch_audit_data_of ps v) = ps"
  by (auto simp: patch_audit_data_of_def)

lemma job_ids:
  assumes "\<forall>(i, p) \<in> set ps. pt_sw_version p \<in> set installed"
  shows "set (jd_region_one_applied_patch_ids (job_data_of installed ps x)) =
     {i. \<exists>p. (i, p) \<in> set ps \<and> pt_repostate p \<in> {PATCH_STATE_APPLIED, PATCH_STATE_COMMITTED}}"
    and "set (jd_region_one_commited_patch_ids (job_data_of installed ps x)) =
     {i. \<exists>p. (i, p) \<in> set ps \<and> pt_repostate p = PATCH_STATE_COMMITTED}"
  using assms by (fastforce simp: job_data_of_def patches_in_def)+

text \<open>A plan that changes nothing.\<close>

lemma compare_patches_nothing:
  "compare_patches applied ps [] [] = Inr ([], []) \<longleftrightarrow>
     (\<forall>(i, p) \<in> set ps. pt_repostate p = PATCH_STATE_APPLIED \<and> i \<in> set applied \<or>
        pt_repostate p = PATCH_STATE_COMMITTED \<and> i \<in> set applied \<or>
        pt_repostate p = PATCH_STATE_AVAILABLE \<and> i \<notin> set applied)"
proof -
  have grows: "length rm' \<ge> length rm \<and> length ap' \<ge> length ap"
    if "compare_patches applied qs rm ap = Inr (rm', ap')" for qs rm ap rm' ap'
    using that by (induction applied qs rm ap rule: compare_patches.induct)
      (force split: if_splits)+
  show ?thesis
  proof (induction ps)
    case Nil
    then show ?case by simp
  next
    case (Cons q ps)
    obtain i p where q: "q = (i, p)" by fastforce
    have "compare_patches applied ps [i] [] \<noteq> Inr ([], [])" "compare_patches applied ps [] [i] \<noteq> Inr ([], [])"
      using grows by fastforce+
    then show ?case using Cons by (auto simp: q patch_states)
  qed
qed

lemma update_plan_nothing:
  "update_plan jd False ps = Inr ([], [], []) \<longleftrightarrow>
     set (jd_region_one_applied_patch_ids jd) \<subseteq> fst ` set ps \<and>
     compare_patches (jd_region_one_applied_patch_ids jd) ps [] [] = Inr ([], [])"
proof (cases "missing_patches (jd_region_one_applied_patch_ids jd) ps = []")
  case True
  then show ?thesis
    by (auto simp: update_plan_def Let_def missing_patches_def filter_empty_conv split: sum.splits)
next
  case False
  then show ?thesis
    by (auto simp: update_plan_def Let_def missing_patches_def filter_empty_conv split: sum.splits)
qed

lemma nothing_to_delete:
  "patches_to_delete ps = [] \<longleftrightarrow> (\<forall>(i, p) \<in> set ps. pt_patchstate p \<noteq> PATCH_STATE_AVAILABLE)"
  by (auto simp: patches_to_delete_def split: if_splits)

lemma nothing_to_commit:
  "patches_to_commit committed ps = [] \<longleftrightarrow>
     (\<forall>(i, p) \<in> set ps. \<not> (pt_patchstate p = PATCH_STATE_APPLIED \<and> i \<in> set committed))"
  by (auto simp: patches_to_commit_def split: if_splits)

lemma settled_patches:
  assumes "A \<inter> C = {}"
  shows "(\<forall>(i, p) \<in> set ps. pt_repostate p = PATCH_STATE_APPLIED \<and> i \<in> A \<or>
      pt_repostate p = PATCH_STATE_COMMITTED \<and> i \<in> A \<union> C) \<longleftrightarrow>
    (\<forall>(i, p) \<in> set ps. pt_repostate p = PATCH_STATE_APPLIED \<and> i \<in> A \<union> C \<or>
      pt_repostate p = PATCH_STATE_COMMITTED \<and> i \<in> A \<union> C \<or>
      pt_repostate p = PATCH_STATE_AVAILABLE \<and> i \<notin> A \<union> C) \<and>
    (\<forall>(i, p) \<in> set ps. pt_repostate p \<noteq> PATCH_STATE_AVAILABLE \<and>
      \<not> (pt_repostate p = PATCH_STATE_APPLIED \<and> i \<in> C))"
  unfolding ball_conj_distrib [symmetric]
  by (rule ball_cong [OF refl]) (use assms in \<open>auto simp: patch_states\<close>)

text \<open>C38: The patch audit reports a subcloud in sync exactly when the patch orchestration, in a strategy
  that is not \<open>upload-only\<close>, would find nothing to do there: an empty plan, nothing to delete and
  nothing to commit. This is for a subcloud in which the two states of every patch, that of the
  repository and that of the hosts, are equal, and when every patch of RegionOne is of a release
  that is installed on the system controller and among the loads of the subcloud (the audit
  leaves the patches of other releases out, the plan of the orchestration does not).\<close>

theorem patch_audit_agrees:
  assumes "distinct (map fst ps1)"
    and "\<forall>(i, p) \<in> set ps1. pt_sw_version p \<in> set installed \<and> pt_sw_version p \<in> set loads"
    and "\<forall>(i, p) \<in> set ps. pt_patchstate p = pt_repostate p"
  shows "patch_out_of_sync (patch_audit_data_of ps1 version) loads ps = Inr False \<longleftrightarrow>
    update_plan (job_data_of installed ps1 x) False ps = Inr ([], [], []) \<and>
    patches_to_delete ps = [] \<and>
    patches_to_commit (jd_region_one_commited_patch_ids (job_data_of installed ps1 x)) ps = []"
proof -
  let ?d = "patch_audit_data_of ps1 version"
  let ?jd = "job_data_of installed ps1 x"
  let ?A = "set (pa_applied_patch_ids ?d)"
  let ?C = "set (pa_committed_patch_ids ?d)"
  have "?A \<union> ?C \<subseteq> fst ` set (pa_patches ?d)" by (force simp: audit_ids)
  then have sync: "patch_out_of_sync ?d loads ps = Inr False \<longleftrightarrow> aligned ?d loads ps"
    by (simp add: patch_out_of_sync_aligned)
  have here: "\<forall>(i, p) \<in> set ps1. pt_sw_version p \<in> set installed" using assms(2) by auto
  have jA: "set (jd_region_one_applied_patch_ids ?jd) = ?A \<union> ?C"
    and jC: "set (jd_region_one_commited_patch_ids ?jd) = ?C"
    using job_ids [OF here, of x] by (auto simp: audit_ids)
  have disj: "?A \<inter> ?C = {}"
    using assms(1) eq_key_imp_eq_value by (fastforce simp: audit_ids patch_states)
  have loaded: "pt_sw_version p \<in> set loads" if "map_of (pa_patches ?d) i = Some p" for i p
    using map_of_SomeD [OF that] assms(2) by (auto simp: audit_ids)
  have known: "\<exists>p. map_of (pa_patches ?d) i = Some p" if "i \<in> ?A \<union> ?C" for i
    using that assms(1) by (auto simp: audit_ids)
  have states: "(\<forall>(i, p) \<in> set ps. pt_patchstate p = PATCH_STATE_APPLIED \<and> i \<in> ?A \<or>
      pt_patchstate p = PATCH_STATE_COMMITTED \<and> i \<in> ?A \<union> ?C) \<longleftrightarrow>
    (\<forall>(i, p) \<in> set ps. pt_repostate p = PATCH_STATE_APPLIED \<and> i \<in> ?A \<or>
      pt_repostate p = PATCH_STATE_COMMITTED \<and> i \<in> ?A \<union> ?C)"
    using assms(3) by (intro ball_cong) auto
  have there: "(\<forall>i \<in> ?A \<union> ?C. \<forall>p. map_of (pa_patches ?d) i = Some p \<longrightarrow>
      pt_sw_version p \<in> set loads \<longrightarrow> i \<in> fst ` set ps) \<longleftrightarrow> ?A \<union> ?C \<subseteq> fst ` set ps"
    using loaded known by blast
  have nothing_left: "patches_to_delete ps = [] \<and>
      patches_to_commit (jd_region_one_commited_patch_ids ?jd) ps = [] \<longleftrightarrow>
    (\<forall>(i, p) \<in> set ps. pt_repostate p \<noteq> PATCH_STATE_AVAILABLE \<and>
      \<not> (pt_repostate p = PATCH_STATE_APPLIED \<and> i \<in> ?C))"
    using nothing_to_delete nothing_to_commit assms(3) jC by fastforce
  have "aligned ?d loads ps \<longleftrightarrow> (\<forall>(i, p) \<in> set ps. pt_repostate p = PATCH_STATE_APPLIED \<and> i \<in> ?A \<or>
      pt_repostate p = PATCH_STATE_COMMITTED \<and> i \<in> ?A \<union> ?C) \<and> ?A \<union> ?C \<subseteq> fst ` set ps"
    unfolding aligned_def states there ..
  also have "\<dots> \<longleftrightarrow> update_plan ?jd False ps = Inr ([], [], []) \<and> patches_to_delete ps = [] \<and>
      patches_to_commit (jd_region_one_commited_patch_ids ?jd) ps = []"
    unfolding update_plan_nothing compare_patches_nothing jA nothing_left
    using settled_patches [OF disj, of ps] by blast
  finally show ?thesis using sync by simp
qed

theorem patch_audit_agrees_witness:
  "patch_out_of_sync (patch_audit_data_of [(''P1'', ex_patch ''Applied'')] ''22.12'') [''22.12'']
     [(''P1'', ex_patch ''Applied'')] = Inr False"
  using patch_audit_agrees [of "[(''P1'', ex_patch ''Applied'')]" "[''22.12'']" "[''22.12'']"
      "[(''P1'', ex_patch ''Applied'')]" "''22.12''" None]
  by (simp add: ex_patch_def update_plan_def job_data_of_def patches_in_def missing_patches_def
      patches_to_delete_def patches_to_commit_def patch_states Let_def)

section \<open>Batches\<close>

lemma send_batches_sent:
  assumes "send_batches sv data chunk rs ids s = (Inr (), s')" and "length ids < chunk"
  shows "\<exists>bs. ms_sent s' = ms_sent s @ map (\<lambda>b. \<lparr>bt_ids = b, bt_data = data\<rparr>) bs \<and>
    concat bs = ids @ map sa_subcloud_id rs \<and> (\<forall>b \<in> set bs. b \<noteq> [] \<and> length b \<le> chunk) \<and>
    (\<forall>b \<in> set (butlast bs). length b = chunk)"
  using assms
proof (induction rs arbitrary: ids s)
  case Nil
  then show ?case
    by (auto simp: when_io_def send_batch_def seq_Inr_iff mworld_io_def zoom_def
        intro!: exI [of _ "if ids = [] then [] else [ids]"] split: if_splits sum.splits prod.splits)
next
  case (Cons r rs)
  let ?ids = "ids @ [sa_subcloud_id r]"
  show ?case
  proof (cases "length ?ids = chunk")
    case True
    then obtain s1 where sent: "send_batch sv data ?ids s = (Inr (), s1)"
      and rest: "send_batches sv data chunk rs [] s1 = (Inr (), s')"
      using Cons.prems(1) by (auto simp: Let_def seq_Inr_iff)
    have s1: "ms_sent s1 = ms_sent s @ [\<lparr>bt_ids = ?ids, bt_data = data\<rparr>]"
      using sent by (auto simp: send_batch_def seq_Inr_iff mworld_io_def zoom_def split: prod.splits)
    obtain bs where "ms_sent s' = ms_sent s1 @ map (\<lambda>b. \<lparr>bt_ids = b, bt_data = data\<rparr>) bs"
      "concat bs = map sa_subcloud_id rs" "\<forall>b \<in> set bs. b \<noteq> [] \<and> length b \<le> chunk"
      "\<forall>b \<in> set (butlast bs). length b = chunk"
      using Cons.IH [OF rest] Cons.prems(2) by auto
    then show ?thesis using True s1 by (intro exI [of _ "?ids # bs"]) auto
  next
    case False
    then have "send_batches sv data chunk rs ?ids s = (Inr (), s')"
      using Cons.prems(1) by (simp add: Let_def)
    from Cons.IH [OF this] False Cons.prems(2) show ?thesis by auto
  qed
qed

lemma full_batches:
  assumes "\<forall>b \<in> set (butlast bs). length b = c" and "\<forall>b \<in> set bs. b \<noteq> []" and "bs \<noteq> []"
  shows "(length bs - 1) * c < length (concat bs)"
  using assms
proof (induction bs)
  case (Cons b bs)
  then show ?case by (cases bs) (auto split: if_splits)
qed simp

text \<open>The batches of a turn are the subclouds that are due, each in exactly one batch and in
  their order; no batch is empty or longer than the chunk, and there are no more batches than
  workers.\<close>

theorem batches_share_out:
  assumes "0 < cf_audit_worker_workers c"
    and "send_batches sv data (chunksize c (length rs)) rs [] s = (Inr (), s')"
  shows "\<exists>bs. ms_sent s' = ms_sent s @ map (\<lambda>b. \<lparr>bt_ids = b, bt_data = data\<rparr>) bs \<and>
    concat bs = map sa_subcloud_id rs \<and>
    (\<forall>b \<in> set bs. 0 < length b \<and> length b \<le> chunksize c (length rs)) \<and>
    length bs \<le> cf_audit_worker_workers c"
proof -
  let ?W = "cf_audit_worker_workers c"
  let ?k = "chunksize c (length rs)"
  have "?W \<le> length rs + ?W" by simp
  then have pos: "0 < ?k" using assms(1) by (simp add: chunksize_def div_greater_zero_iff)
  have big: "length rs < ?W * ?k"
  proof -
    have "length rs + ?W < ?W * Suc ?k" using dividend_less_times_div [OF assms(1), of "length rs + ?W"] by (simp add: chunksize_def)
    then show ?thesis by simp
  qed
  obtain bs where bs: "ms_sent s' = ms_sent s @ map (\<lambda>b. \<lparr>bt_ids = b, bt_data = data\<rparr>) bs"
    "concat bs = map sa_subcloud_id rs" "\<forall>b \<in> set bs. b \<noteq> [] \<and> length b \<le> ?k"
    "\<forall>b \<in> set (butlast bs). length b = ?k"
    using send_batches_sent [OF assms(2)] pos by auto
  have "length bs \<le> ?W"
  proof (cases "bs = []")
    case False
    then have "(length bs - 1) * ?k < length (concat bs)" using full_batches bs(3,4) by blast
    moreover have "length (concat bs) = length rs" using bs(2) by simp
    ultimately have "(length bs - 1) * ?k < ?W * ?k" using big by linarith
    then have "length bs - 1 < ?W" using mult_less_cancel2 by blast
    then show ?thesis by linarith
  qed simp
  then show ?thesis using bs by auto
qed

definition ex_manager_services :: "unit manager_services" where
  "ex_manager_services = \<lparr>mg_audit = ex_audit_env,
     mg_conf = \<lparr>cf_subcloud_audit_interval = 30, cf_patch_audit_interval = 900, cf_audit_worker_workers = 2\<rparr>,
     mg_time = ret 1000, mg_utcnow = ret 1000, mg_audit_subclouds = (\<lambda>_ _. ret ())\<rparr>"

definition ex_due :: "nat \<Rightarrow> subcloud_audits" where
  "ex_due i = \<lparr>sa_id = i, sa_subcloud_id = i, sa_audit_started_at = 0, sa_audit_finished_at = 0,
     sa_state_update_requested = False, sa_patch_audit_requested = True,
     sa_load_audit_requested = False, sa_firmware_audit_requested = False,
     sa_kubernetes_audit_requested = False, sa_kube_rootca_update_audit_requested = False\<rparr>"

definition ex_manager_sys :: "unit manager_sys" where
  "ex_manager_sys = \<lparr>ms_world = ex_world (ex_db []), ms_manager = manager_init (mg_conf ex_manager_services),
     ms_sent = []\<rparr>"

theorem batches_share_out_witness:
  "\<exists>s'. send_batches ex_manager_services (snd ex_no_audits) (chunksize (mg_conf ex_manager_services) 3)
      [ex_due 1, ex_due 2, ex_due 3] [] ex_manager_sys = (Inr (), s') \<and>
    concat (map bt_ids (ms_sent s')) = [1, 2, 3] \<and> length (ms_sent s') \<le> 2"
proof -
  let ?c = "mg_conf ex_manager_services"
  let ?rs = "[ex_due 1, ex_due 2, ex_due 3]"
  have facts: "length ?rs = 3" "map sa_subcloud_id ?rs = [1, 2, 3]" "cf_audit_worker_workers ?c = 2"
    "ms_sent ex_manager_sys = []"
    by (simp_all add: ex_due_def ex_manager_services_def ex_manager_sys_def)
  obtain s' where run: "send_batches ex_manager_services (snd ex_no_audits) (chunksize ?c (length ?rs)) ?rs []
      ex_manager_sys = (Inr (), s')"
    by (simp add: Let_def send_batch_def seq_apply mworld_io_def zoom_def ask_apply chunksize_def
        ex_manager_services_def ex_due_def when_io_def)
  have pos: "0 < cf_audit_worker_workers ?c" by (simp add: facts)
  obtain bs where "ms_sent s' = map (\<lambda>b. \<lparr>bt_ids = b, bt_data = snd ex_no_audits\<rparr>) bs"
    "concat bs = [1, 2, 3]" "length bs \<le> 2"
    using batches_share_out [OF pos run] unfolding facts append_Nil by blast
  then have "concat (map bt_ids (ms_sent s')) = [1, 2, 3] \<and> length (ms_sent s') \<le> 2" by (simp add: comp_def)
  then show ?thesis using run unfolding facts by blast
qed

section \<open>What becomes of a request\<close>

text \<open>The audits that a job was started for, by the names that a worker reports them with.\<close>

definition requested_names :: "audit_flags \<Rightarrow> string set" where
  "requested_names f =
     (if af_patch f then {''patch''} else {}) \<union> (if af_patch f \<and> af_load f then {''load''} else {}) \<union>
     (if af_firmware f then {''firmware''} else {}) \<union> (if af_kubernetes f then {''kubernetes''} else {}) \<union>
     (if af_kube_rootca f then {''kube-rootca-update''} else {})"

text \<open>The outcome of a run of audits so far: the names done are disjoint from those that failed.\<close>

definition outcome_within :: "string set \<Rightarrow> audit_outcome \<Rightarrow> bool" where
  "outcome_within N r \<longleftrightarrow> set (fst r) \<subseteq> N \<and> set (snd r) \<subseteq> N \<union> {''openstack''} \<and> set (fst r) \<inter> set (snd r) = {}"

lemma run_audit_within:
  assumes "run_audit b ds fs m r w = (Inr r', w')" and "outcome_within N r"
    and "set ds \<inter> (N \<union> {''openstack''}) = {}" and "set fs \<inter> N = {}" and "set fs \<subseteq> set ds \<union> {''openstack''}"
  shows "outcome_within (N \<union> (if b then set ds else {})) r'"
proof -
  have "r' = r \<or> b \<and> (fst r' = fst r \<and> snd r' = snd r @ fs \<or> fst r' = fst r @ ds \<and> snd r' = snd r)"
    using assms(1) by (auto simp: run_audit_def try_else_def split: if_splits sum.splits prod.splits)
  then show ?thesis
    using assms(2-) unfolding outcome_within_def by (elim disjE conjE) (simp_all, (blast+)?)
qed

lemma audit_resources_within:
  assumes "audit_resources env sc b f data w = (Inr r, w')"
  shows "outcome_within (requested_names f) r"
proof -
  let ?P = "''patch'' # (if af_load f then [''load''] else [])"
  let ?bP = "af_patch f \<and> ad_patch data \<noteq> None"
  let ?N1 = "{} \<union> (if ?bP then set ?P else {})"
  let ?N2 = "?N1 \<union> (if af_firmware f then set [''firmware''] else {})"
  let ?N3 = "?N2 \<union> (if af_kubernetes f then set [''kubernetes''] else {})"
  let ?N4 = "?N3 \<union> (if af_kube_rootca f then set [''kube-rootca-update''] else {})"
  let ?N5 = "?N4 \<union> (if af_openstack f \<and> b then set [] else {})"
  obtain r1 r2 r3 r4 w0 w1 w2 w3 w4 where
    r1: "run_audit ?bP ?P ?P (subcloud_patch_audit (wk_audit env) (sc_name sc) (the (ad_patch data)) (af_load f))
      ([], []) w0 = (Inr r1, w1)" and
    r2: "run_audit (af_firmware f) [''firmware''] [''firmware'']
      (subcloud_firmware_audit (wk_audit env) (sc_name sc) (ad_firmware data)) r1 w1 = (Inr r2, w2)" and
    r3: "run_audit (af_kubernetes f) [''kubernetes''] [''kubernetes'']
      (subcloud_kubernetes_audit (wk_audit env) (sc_name sc) (ad_kubernetes data)) r2 w2 = (Inr r3, w3)" and
    r4: "run_audit (af_kube_rootca f) [''kube-rootca-update''] [''kube-rootca-update'']
      (subcloud_rootca_audit (wk_audit env) (sc_name sc)) r3 w3 = (Inr r4, w4)" and
    r5: "run_audit (af_openstack f \<and> b) [] [''openstack''] (audit_subcloud_openstack_app env sc) r4 w4 = (Inr r, w')"
    using assms by (auto simp: audit_resources_def Let_def seq_Inr_iff bnd_Inr_iff)
  have "outcome_within {} ([], [])" by (simp add: outcome_within_def)
  then have "outcome_within ?N1 r1" by (rule run_audit_within [OF r1]) auto
  then have "outcome_within ?N2 r2" by (rule run_audit_within [OF r2]) auto
  then have "outcome_within ?N3 r3" by (rule run_audit_within [OF r3]) auto
  then have "outcome_within ?N4 r4" by (rule run_audit_within [OF r4]) auto
  then have "outcome_within ?N5 r" by (rule run_audit_within [OF r5]) auto
  moreover have "?N5 \<subseteq> requested_names f" by (auto simp: requested_names_def)
  ultimately show ?thesis unfolding outcome_within_def by blast
qed

abbreviation keeps_audits :: "('x world, 'a) io \<Rightarrow> bool" where
  "keeps_audits m \<equiv> (\<forall>t. keeps (\<lambda>w. subcloud_audits_t (w_db w) = t) m)"

lemma subcloud_update_audits: "keeps (\<lambda>d. subcloud_audits_t d = t) (subcloud_update ctx i v)"
proof (rule keepsI)
  fix d :: db assume "subcloud_audits_t d = t"
  then show "subcloud_audits_t (snd (subcloud_update ctx i v d)) = t"
    using subcloud_update_effect [of ctx i v d] by (cases "subcloud_update ctx i v d") auto
qed

lemma status_update_endpoints_audits:
  "keeps (\<lambda>d. subcloud_audits_t d = t) (subcloud_status_update_endpoints ctx i es s)"
proof (rule keepsI)
  fix d :: db assume "subcloud_audits_t d = t"
  then show "subcloud_audits_t (snd (subcloud_status_update_endpoints ctx i es s d)) = t"
    using subcloud_status_update_endpoints_effect [of ctx i es s d]
    by (cases "subcloud_status_update_endpoints ctx i es s d") auto
qed

lemma status_update_audits: "keeps (\<lambda>d. subcloud_audits_t d = t) (subcloud_status_update ctx i e s)"
proof (rule keepsI)
  fix d :: db assume "subcloud_audits_t d = t"
  then show "subcloud_audits_t (snd (subcloud_status_update ctx i e s d)) = t"
    using subcloud_status_update_effect [of ctx i e s d]
    by (cases "subcloud_status_update ctx i e s d") auto
qed

lemma alarms_update_audits: "keeps (\<lambda>d. subcloud_audits_t d = t) (subcloud_alarms_update u ctx m v)"
  by (rule keepsI)
    (auto simp: subcloud_alarms_update_def subcloud_alarms_get_def context_defs bnd_apply
      lift_result_def write_session_def split: option.splits sum.splits prod.splits if_splits)

lemmas audits_table_keeps = subcloud_update_audits status_update_endpoints_audits status_update_audits
  alarms_update_audits

lemma keeps_ignore_missing:
  "keeps I (case e of SubcloudNotFound _ \<Rightarrow> ret () | _ \<Rightarrow> raise e)"
  by (cases e) (simp_all add: keeps_ret keeps_raise)

lemma keeps_case_list: "keeps I m \<Longrightarrow> (\<And>a as. keeps I (f a as)) \<Longrightarrow> keeps I (case xs of [] \<Rightarrow> m | a # as \<Rightarrow> f a as)"
  by (cases xs) simp_all

lemma alarm_summary_audits: "keeps (\<lambda>w. subcloud_audits_t (w_db w) = t) (update_alarm_summary env n)"
  unfolding update_alarm_summary_def
  by (intro keeps_intros keeps_case_list keeps_db_io audits_table_keeps)

lemma audit_subcloud_audits_table:
  "keeps (\<lambda>w. subcloud_audits_t (w_db w) = t) (audit_subcloud env sc f data)"
proof -
  have named: "keeps (\<lambda>w. subcloud_audits_t (w_db w) = t)
      (update_named_endpoint_status env n e ctx s al ig)" for env :: "'a state_env" and n e ctx s al ig
    unfolding update_named_endpoint_status_def do_update_subcloud_endpoint_status_def
      update_one_endpoint_def update_all_endpoints_def subcloud_get_by_name_def Let_def
    by (intro keeps_intros keeps_db_io audits_table_keeps)
  have avail: "keeps (\<lambda>w. subcloud_audits_t (w_db w) = t)
      (update_availability_rpc env n a only k)" for n a only k
    unfolding update_availability_rpc_def update_subcloud_availability_def subcloud_goes_def
      announce_availability_def write_availability_def subcloud_get_by_name_def
    by (intro keeps_intros keeps_ignore_missing keeps_db_io audits_table_keeps named)
  show ?thesis
    unfolding audit_subcloud_def record_availability_def update_subcloud_audit_fail_count_def
      audit_resources_def Let_def
    by (intro keeps_intros keeps_ignore_missing alarm_summary_audits keeps_db_io audits_table_keeps avail
        run_audit_keeps outside_intros outside_keeps [OF outside_probes(1)] outside_keeps [OF outside_probes(2)])
qed

lemma audit_subcloud_within:
  assumes "audit_subcloud env sc f data w = (Inr r, w')"
  shows "outcome_within (requested_names f) r"
proof -
  have none: "outcome_within (requested_names f) ([], [])" by (simp add: outcome_within_def)
  obtain c w1 where c: "(case c of None \<Rightarrow> ret ([], [])
     | Some b \<Rightarrow> bnd (probe_availability env sc b) (\<lambda>probe.
         case next_availability probe (sc_availability_status sc) (sc_audit_fail_count sc) of (avail, n) \<Rightarrow>
           seq (record_availability env sc (af_update_state f) avail n)
             (if sc_management_state sc = MANAGEMENT_MANAGED \<and> avail = AVAILABILITY_ONLINE
              then audit_resources env sc b f data else ret ([], [])))) w1 = (Inr r, w')"
    using assms unfolding audit_subcloud_def bnd_Inr_iff by blast
  show ?thesis
  proof (cases c)
    case None
    then show ?thesis using c none by simp
  next
    case (Some b)
    then obtain avail w3 where "(if sc_management_state sc = MANAGEMENT_MANAGED \<and> avail = AVAILABILITY_ONLINE
        then audit_resources env sc b f data else ret ([], [])) w3 = (Inr r, w')"
      using c by (simp add: bnd_Inr_iff seq_Inr_iff split: prod.splits) (metis surj_pair)
    then show ?thesis using audit_resources_within [of env sc b f data w3 r w'] none by (auto split: if_splits)
  qed
qed

lemma end_audit_effect:
  assumes "table_wf sa_id (subcloud_audits_t d)" and "query_first (\<lambda>r. sa_subcloud_id r = i) (subcloud_audits_t d) = Some r"
  shows "\<exists>d'. subcloud_audits_end_audit admin_context now i ds d = (Inr (end_audit_row now ds r), d') \<and>
    query_first (\<lambda>r. sa_subcloud_id r = i) (subcloud_audits_t d') = Some (end_audit_row now ds r)"
proof -
  have r: "r \<in> set (rows (subcloud_audits_t d))" "sa_subcloud_id r = i"
    using assms(2) by (auto dest: query_first_Some)
  let ?f = "\<lambda>q. if sa_id q = sa_id r then end_audit_row now ds q else q"
  have ids: "sa_subcloud_id (?f q) = sa_subcloud_id q" for q by simp
  have "find (\<lambda>r. sa_subcloud_id r = i) (map ?f rs) = map_option ?f (find (\<lambda>r. sa_subcloud_id r = i) rs)" for rs
    by (induction rs) auto
  then have "query_first (\<lambda>r. sa_subcloud_id r = i) (update_row sa_id (sa_id r) (end_audit_row now ds) (subcloud_audits_t d)) =
      Some (end_audit_row now ds r)"
    using assms(2) by (simp add: query_first_def rows_update)
  then show ?thesis
    using assms(2) by (simp add: subcloud_audits_end_audit_def subcloud_audits_get_def save_audits_def
        first_or_apply bnd_apply seq_apply write_session_def)
qed

text \<open>When the audit of a subcloud ends, the requests that are cleared are those of audits that
  the worker was asked for and that returned: none when the audit was cut short, and never the
  request of an audit that failed.\<close>

theorem failed_audits_stay_requested:
  assumes "db_wf (w_db w)"
    and "query_first (\<lambda>r. sa_subcloud_id r = sc_id (aj_subcloud j)) (subcloud_audits_t (w_db w)) = Some r"
    and "do_audit_subcloud env j w = (Inr (), w')"
  shows "\<exists>now audits_done. query_first (\<lambda>r. sa_subcloud_id r = sc_id (aj_subcloud j))
      (subcloud_audits_t (w_db w')) = Some (end_audit_row now audits_done r) \<and>
    (case fst (audit_subcloud env (aj_subcloud j) (aj_flags j) (aj_data j) w) of
       Inl _ \<Rightarrow> audits_done = []
     | Inr (returned, failures) \<Rightarrow> audits_done = returned \<and>
         set audits_done \<subseteq> requested_names (aj_flags j) \<and> set audits_done \<inter> set failures = {})"
proof -
  let ?m = "audit_subcloud env (aj_subcloud j) (aj_flags j) (aj_data j)"
  let ?q = "\<lambda>d. query_first (\<lambda>r. sa_subcloud_id r = sc_id (aj_subcloud j)) (subcloud_audits_t d)"
  obtain x w1 where m: "?m w = (x, w1)" by fastforce
  define ds where "ds = (case x of Inl _ \<Rightarrow> [] | Inr (returned, _) \<Rightarrow> returned)"
  obtain now w2 where now: "ask (wk_utcnow env) w1 = (Inr now, w2)" "w_db w2 = w_db w1"
    using assms(3) m by (cases x)
      (auto simp: do_audit_subcloud_def try_catch_def bnd_apply ask_apply split: prod.splits sum.splits)
  have same: "subcloud_audits_t (w_db w1) = subcloud_audits_t (w_db w)"
    using keepsD [OF audit_subcloud_audits_table, of w "subcloud_audits_t (w_db w)"] m by (metis snd_conv)
  then have "?q (w_db w2) = Some r" and "table_wf sa_id (subcloud_audits_t (w_db w2))"
    using assms(1,2) now(2) by (simp_all add: db_wf_defs)
  from end_audit_effect [OF this(2,1), of now ds]
  obtain d' where d': "subcloud_audits_end_audit admin_context now (sc_id (aj_subcloud j)) ds (w_db w2) =
      (Inr (end_audit_row now ds r), d')" "?q d' = Some (end_audit_row now ds r)" by blast
  have "w_db w' = d'"
    using assms(3) m now d'(1)
    by (cases x) (auto simp: do_audit_subcloud_def try_catch_def bnd_apply seq_apply db_io_apply ds_def
        split: prod.splits)
  moreover have "outcome_within (requested_names (aj_flags j)) r'" if "x = Inr r'" for r'
    using audit_subcloud_within m that by blast
  ultimately show ?thesis
    using m d'(2) by (cases x) (auto simp: ds_def outcome_within_def intro!: exI [of _ now])
qed

definition ex_audit_world :: "unit world" where
  "ex_audit_world = ex_world ((ex_db [])\<lparr>subcloud_audits_t := \<lparr>rows = [ex_due 1], next_id = 2\<rparr>\<rparr>)"

definition ex_job :: audit_job where
  "ex_job = \<lparr>aj_subcloud = ex_subcloud 1 ''alpha'' 1, aj_flags = flags_of False (ex_due 1),
     aj_data = \<lparr>ad_patch = Some \<lparr>pa_patches = [], pa_applied_patch_ids = [''P9''],
       pa_committed_patch_ids = [], pa_software_version = ''22.12''\<rparr>, ad_firmware = None,
       ad_kubernetes = None\<rparr>\<rparr>"

lemma ex_audit_wf: "db_wf (w_db ex_audit_world)"
  using ex_sync_inv [of "[]"]
  by (simp add: sync_inv_def ex_audit_world_def db_wf_defs table_wf_def ex_defs ex_due_def empty_db_def)

lemma ex_patch_audit_fails:
  "subcloud_patch_audit ex_audit_env n (the (ad_patch (aj_data ex_job))) load w = (Inl KeyError, w)"
  by (simp add: subcloud_patch_audit_def patch_clients_def audit_keystone_def audit_endpoint_def
      get_keystone_client_def try_else_def seq_apply bnd_apply ask_apply patch_out_of_sync_def
      get_loads_for_patching_def ex_job_def ex_audit_env_def ex_orch_env_def)

lemma ex_audit_fails:
  "\<exists>w. audit_subcloud ex_worker_env (aj_subcloud ex_job) (aj_flags ex_job) (aj_data ex_job) ex_audit_world =
     (Inr ([], [''patch'']), w)"
proof -
  let ?sc = "aj_subcloud ex_job"
  have sc: "sc_availability_status ?sc = AVAILABILITY_ONLINE" "sc_management_state ?sc = MANAGEMENT_MANAGED"
    "sc_audit_fail_count ?sc = 0" "sc_id ?sc = 1" by (simp_all add: ex_job_def ex_defs)
  have flags: "af_patch (aj_flags ex_job)" "\<not> af_load (aj_flags ex_job)" "\<not> af_firmware (aj_flags ex_job)"
    "\<not> af_kubernetes (aj_flags ex_job)" "\<not> af_kube_rootca (aj_flags ex_job)" "\<not> af_openstack (aj_flags ex_job)"
    "ad_patch (aj_data ex_job) \<noteq> None"
    by (simp_all add: ex_job_def flags_of_def ex_due_def)
  have probe: "probe_clients ex_worker_env ?sc w = (Inr (Some False), w)"
    "probe_availability ex_worker_env ?sc False w = (Inr AVAILABILITY_OFFLINE, w)" for w
    using sc by (simp_all add: probe_clients_def probe_availability_def try_else_def ask_apply
        ex_worker_env_def endpoint_missing_def)
  have nxt: "next_availability AVAILABILITY_OFFLINE AVAILABILITY_ONLINE 0 = (AVAILABILITY_ONLINE, 1)"
    by (simp add: next_availability_def AVAIL_FAIL_COUNT_MAX_def AVAIL_FAIL_COUNT_TO_ALARM_def)
  obtain w1 where recorded: "\<forall>b. record_availability ex_worker_env ?sc b AVAILABILITY_ONLINE 1 ex_audit_world = (Inr (), w1)"
  proof -
    have "ex_subcloud 1 ''alpha'' 1 \<in> set (rows (subclouds (w_db ex_audit_world)))"
      by (simp add: ex_audit_world_def ex_defs)
    from subcloud_update_runs [OF ex_audit_wf this, of "no_values\<lparr>sv_audit_fail_count := Some 1\<rparr>"]
    obtain q d where "subcloud_update admin_context 1 (no_values\<lparr>sv_audit_fail_count := Some 1\<rparr>) (w_db ex_audit_world) =
        (Inr q, d)" by (auto simp: no_values_def ex_defs)
    then show ?thesis
      using sc by (intro that) (simp add: record_availability_def update_subcloud_audit_fail_count_def
          try_else_def db_io_apply)
  qed
  have wk: "wk_audit ex_worker_env = ex_audit_env" by (simp add: ex_worker_env_def)
  show ?thesis
    using sc flags by (simp add: audit_subcloud_def bnd_apply probe nxt seq_apply
        recorded [unfolded One_nat_def] when_io_def audit_resources_def wk
        run_audit_def try_else_def ex_patch_audit_fails)
qed

lemma ex_job_returns: "\<exists>w'. do_audit_subcloud ex_worker_env ex_job ex_audit_world = (Inr (), w')"
proof -
  obtain w where fails: "audit_subcloud ex_worker_env (aj_subcloud ex_job) (aj_flags ex_job) (aj_data ex_job)
      ex_audit_world = (Inr ([], [''patch'']), w)" using ex_audit_fails by blast
  have "subcloud_audits_t (w_db w) = subcloud_audits_t (w_db ex_audit_world)"
    using keepsD [OF audit_subcloud_audits_table, of ex_audit_world "subcloud_audits_t (w_db ex_audit_world)"] fails
    by (metis snd_conv)
  then have "table_wf sa_id (subcloud_audits_t (w_db w))"
    "query_first (\<lambda>r. sa_subcloud_id r = 1) (subcloud_audits_t (w_db w)) = Some (ex_due 1)"
    by (simp_all add: ex_audit_world_def ex_world_def table_wf_def query_first_def ex_due_def)
  from end_audit_effect [OF this, of 100 "[]"]
  show ?thesis
    using fails by (auto simp: do_audit_subcloud_def try_catch_def bnd_apply seq_apply ask_apply db_io_apply
        ex_worker_env_def ex_job_def ex_defs)
qed

theorem failed_audits_stay_requested_witness:
  "\<exists>w' q. do_audit_subcloud ex_worker_env ex_job ex_audit_world = (Inr (), w') \<and>
    query_first (\<lambda>r. sa_subcloud_id r = 1) (subcloud_audits_t (w_db w')) = Some q \<and>
    sa_patch_audit_requested q"
proof -
  have id: "sc_id (aj_subcloud ex_job) = 1" by (simp add: ex_job_def ex_defs)
  have r: "query_first (\<lambda>r. sa_subcloud_id r = sc_id (aj_subcloud ex_job)) (subcloud_audits_t (w_db ex_audit_world)) =
      Some (ex_due 1)"
    by (simp add: id ex_audit_world_def ex_defs query_first_def ex_due_def)
  obtain w' where run: "do_audit_subcloud ex_worker_env ex_job ex_audit_world = (Inr (), w')"
    using ex_job_returns by blast
  obtain w where fails: "audit_subcloud ex_worker_env (aj_subcloud ex_job) (aj_flags ex_job) (aj_data ex_job)
      ex_audit_world = (Inr ([], [''patch'']), w)" using ex_audit_fails by blast
  from failed_audits_stay_requested [OF ex_audit_wf r run]
  show ?thesis using run unfolding id fails by (auto simp: end_audit_row_def Let_def ex_due_def)
qed

section \<open>The processes of the audit service\<close>

text \<open>The manager, its workers with the jobs they have started, and the state service share the
  database. Between two steps anything may happen; a message that has been posted may be
  delivered at any later time, more than once or never.\<close>

record 'x audit_service =
  as_manager :: "'x manager_sys"
  as_jobs :: "audit_job list"

definition as_world :: "'x audit_service \<Rightarrow> 'x world" where
  "as_world s = ms_world (as_manager s)"

definition with_world :: "'x world \<Rightarrow> 'x audit_service \<Rightarrow> 'x audit_service" where
  "with_world w s = s\<lparr>as_manager := (as_manager s)\<lparr>ms_world := w\<rparr>\<rparr>"

lemma as_world_with [simp]:
  "as_world (with_world w s) = w" "as_world ((with_world w s)\<lparr>as_jobs := js\<rparr>) = w"
  by (simp_all add: as_world_def with_world_def)

inductive audit_service_step ::
  "'x manager_services \<Rightarrow> 'x worker_env \<Rightarrow> 'x audit_service \<Rightarrow> 'x audit_service \<Rightarrow> bool"
  for sv env where
  manager_turn: "periodic_subcloud_audit_turn sv (as_manager s) = (x, m) \<Longrightarrow>
    audit_service_step sv env s (s\<lparr>as_manager := m\<rparr>)"
| manager_start: "start_auditing sv flag_file (as_manager s) = (x, m) \<Longrightarrow>
    audit_service_step sv env s (s\<lparr>as_manager := m\<rparr>)"
| worker_takes: "b \<in> set (ms_sent (as_manager s)) \<Longrightarrow>
    audit_subclouds env (bt_data b) os (bt_ids b) (as_world s) = (Inr js, w) \<Longrightarrow>
    audit_service_step sv env s ((with_world w s)\<lparr>as_jobs := as_jobs s @ js\<rparr>)"
| worker_fails: "b \<in> set (ms_sent (as_manager s)) \<Longrightarrow>
    audit_subclouds env (bt_data b) os (bt_ids b) (as_world s) = (Inl e, w) \<Longrightarrow>
    audit_service_step sv env s (with_world w s)"
| job_runs: "j \<in> set (as_jobs s) \<Longrightarrow> do_audit_subcloud env j (as_world s) = (x, w) \<Longrightarrow>
    audit_service_step sv env s ((with_world w s)\<lparr>as_jobs := remove1 j (as_jobs s)\<rparr>)"
| status_arrives: "StateRpc n e sync \<in> set (w_log (as_world s)) \<Longrightarrow>
    update_subcloud_endpoint_status (wk_state env) admin_context (Some n) (Some e) sync True [] (as_world s) = (x, w) \<Longrightarrow>
    audit_service_step sv env s (with_world w s)"
| audit_requested: "trigger_subcloud_audits ctx i es (as_world s) = (x, w) \<Longrightarrow>
    audit_service_step sv env s (with_world w s)"
| load_audit_requested: "trigger_load_audit ctx (as_world s) = (x, w) \<Longrightarrow>
    audit_service_step sv env s (with_world w s)"
| patch_load_requested: "trigger_subcloud_patch_load_audits ctx i (as_world s) = (x, w) \<Longrightarrow>
    audit_service_step sv env s (with_world w s)"

abbreviation quiet :: "(db, 'a) io \<Rightarrow> bool" where
  "quiet m \<equiv> (\<forall>p. keeps (\<lambda>d. (subclouds d, subcloud_status_t d) = p) m)"

lemma quiet_inv:
  assumes "keeps db_wf m" and "quiet m"
  shows "keeps sync_inv m"
  using assms by (fastforce simp: keeps_def sync_inv_def in_sync_ok_def)

lemma save_audits_quiet: "keeps (\<lambda>d. (subclouds d, subcloud_status_t d) = p) (save_audits f r)"
  unfolding save_audits_def by (intro keeps_intros keeps_modify) simp

lemma update_audits_quiet: "keeps (\<lambda>d. (subclouds d, subcloud_status_t d) = p) (update_audits_where q f)"
  unfolding update_audits_where_def by (intro keeps_intros keeps_modify) simp

lemma audits_inv:
  "keeps sync_inv (subcloud_audits_update_all ctx v)" "keeps sync_inv (subcloud_audits_update ctx i v)"
  "keeps sync_inv (subcloud_audits_get_and_start_audit ctx t i)" "keeps sync_inv (subcloud_audits_end_audit ctx t i ds)"
  "keeps sync_inv (subcloud_audits_fix_expired_audits ctx t b)"
  "keeps sync_inv (subcloud_audits_get_all_need_audit ctx t)"
  unfolding subcloud_audits_update_all_def subcloud_audits_update_def subcloud_audits_get_and_start_audit_def
    subcloud_audits_end_audit_def subcloud_audits_fix_expired_audits_def subcloud_audits_get_all_need_audit_def
  by (rule quiet_inv,
      (intro keeps_intros update_audits_where_wf save_audits_wf; simp),
      (intro allI keeps_intros save_audits_quiet update_audits_quiet))+

lemma request_audits_inv:
  "keeps_sync (request_subcloud_audits ctx b a)" "keeps_sync (trigger_subcloud_audits ctx i es)"
  "keeps_sync (trigger_load_audit ctx)" "keeps_sync (trigger_subcloud_patch_load_audits ctx i)"
  unfolding request_subcloud_audits_def trigger_subcloud_audits_def trigger_load_audit_def
    trigger_subcloud_patch_load_audits_def
  by (intro keeps_intros keeps_db_io audits_inv)+

lemma do_audit_subcloud_inv: "keeps_sync (do_audit_subcloud env j)"
  unfolding do_audit_subcloud_def
  by (intro keeps_intros keeps_db_io audits_inv audit_subcloud_inv)

lemma start_audit_inv: "keeps_sync (start_audit env i)"
  unfolding start_audit_def
  by (intro keeps_intros keeps_db_io audits_inv) (auto simp: keeps_ret keeps_raise split: exn.splits)

lemma audit_subclouds_inv: "keeps_sync (audit_subclouds env data os is)"
proof (induction "is")
  case Nil
  show ?case unfolding audit_subclouds.simps by (rule keeps_ret)
next
  case (Cons i "is")
  then show ?case
    unfolding audit_subclouds.simps
    by (intro keeps_intros keeps_db_io audits_inv start_audit_inv)
qed

lemma add_missing_endpoints_inv: "keeps_sync (add_missing_endpoints f)"
  unfolding add_missing_endpoints_def
  by (intro keeps_intros keeps_db_io status_create_inv)

text \<open>The operations of the manager.\<close>

abbreviation keeps_manager :: "('x manager_sys, 'a) io \<Rightarrow> bool" where
  "keeps_manager m \<equiv> keeps (\<lambda>s. sync_inv (w_db (ms_world s))) m"

lemma mworld_inv: "keeps_sync m \<Longrightarrow> keeps_manager (mworld_io m)"
  by (fastforce simp: keeps_def mworld_io_def zoom_def split: prod.splits)

lemma update_manager_inv: "keeps_manager (update_manager f)"
  by (auto simp: keeps_def update_manager_def bnd_apply seq_apply split: prod.splits)

lemma get_audit_data_inv: "keeps_sync (get_audit_data env a)"
  unfolding get_audit_data_def get_regionone_patch_data_def get_regionone_firmware_data_def
    get_regionone_kube_data_def
  by (intro keeps_intros outside_keeps [OF outside_audit_clients(4)] outside_keeps [OF outside_audit_clients(5)])

lemma send_batches_inv: "keeps_manager (send_batches sv data chunk rs ids)"
proof (induction rs arbitrary: ids)
  case Nil
  then show ?case
    by (simp add: send_batch_def) (intro keeps_intros mworld_inv keeps_modify, simp)
next
  case (Cons r rs)
  have "keeps_manager (send_batch sv data ids)" for ids
    unfolding send_batch_def by (intro keeps_intros mworld_inv keeps_modify) simp
  then show ?case using Cons by (auto simp: Let_def intro!: keeps_intros)
qed

lemma manager_turn_inv:
  "keeps_manager (periodic_subcloud_audit_turn sv)" "keeps_manager (start_auditing sv flag_file)"
  unfolding periodic_subcloud_audit_turn_def periodic_subcloud_audit_loop_def start_auditing_def Let_def
  by (intro keeps_intros mworld_inv update_manager_inv get_audit_data_inv send_batches_inv keeps_db_io
      audits_inv request_audits_inv add_missing_endpoints_inv)+

lemma service_step_inv:
  assumes "audit_service_step sv env s s'" and "sync_inv (w_db (as_world s))"
  shows "sync_inv (w_db (as_world s'))"
  using assms
proof cases
  case (manager_turn x m)
  then show ?thesis using assms(2) keepsD [OF manager_turn_inv(1), of "as_manager s" sv] by (simp add: as_world_def)
next
  case (manager_start flag_file x m)
  then show ?thesis
    using assms(2) keepsD [OF manager_turn_inv(2), of "as_manager s" sv flag_file] by (simp add: as_world_def)
next
  case (worker_takes b os js w)
  then show ?thesis
    using assms(2) keepsD [OF audit_subclouds_inv, of "as_world s"] by (metis as_world_with snd_conv)
next
  case (worker_fails b os e w)
  then show ?thesis
    using assms(2) keepsD [OF audit_subclouds_inv, of "as_world s"] by (metis as_world_with snd_conv)
next
  case (job_runs j x w)
  then show ?thesis
    using assms(2) keepsD [OF do_audit_subcloud_inv, of "as_world s"] by (metis as_world_with snd_conv)
next
  case (status_arrives n e sync x w)
  then show ?thesis
    using assms(2) keepsD [OF update_endpoint_status_inv, of "as_world s"] by (metis as_world_with snd_conv)
next
  case (audit_requested ctx i es x w)
  then show ?thesis
    using assms(2) keepsD [OF request_audits_inv(2), of "as_world s"] by (metis as_world_with snd_conv)
next
  case (load_audit_requested ctx x w)
  then show ?thesis
    using assms(2) keepsD [OF request_audits_inv(3), of "as_world s"] by (metis as_world_with snd_conv)
next
  case (patch_load_requested ctx i x w)
  then show ?thesis
    using assms(2) keepsD [OF request_audits_inv(4), of "as_world s"] by (metis as_world_with snd_conv)
qed

text \<open>However the manager, the workers and the state service take turns, and whenever a posted
  status arrives, an endpoint is recorded as in sync only while its subcloud is online and managed
  (online, for the dc-cert endpoint).\<close>

theorem audit_service_in_sync:
  assumes "(audit_service_step sv env)\<^sup>*\<^sup>* s s'" and "sync_inv (w_db (as_world s))"
  shows "sync_inv (w_db (as_world s'))"
  using assms by (induction rule: rtranclp_induct) (auto intro: service_step_inv)

theorem audit_service_in_sync_witness:
  "\<exists>s'. audit_service_step ex_manager_services ex_worker_env
      \<lparr>as_manager = ex_manager_sys, as_jobs = [ex_job]\<rparr> s' \<and>
    as_jobs s' = [] \<and> sync_inv (w_db (as_world s'))"
proof -
  let ?s = "\<lparr>as_manager = ex_manager_sys, as_jobs = [ex_job]\<rparr>"
  obtain x w where "do_audit_subcloud ex_worker_env ex_job (as_world ?s) = (x, w)" by fastforce
  then have step: "audit_service_step ex_manager_services ex_worker_env ?s
      ((with_world w ?s)\<lparr>as_jobs := remove1 ex_job (as_jobs ?s)\<rparr>)" (is "audit_service_step _ _ _ ?t")
    by (rule job_runs [rotated]) simp
  have inv: "sync_inv (w_db (as_world ?s))"
    using ex_sync_inv [of "[]"] by (simp add: as_world_def ex_manager_sys_def)
  have path: "(audit_service_step ex_manager_services ex_worker_env)\<^sup>*\<^sup>* ?s ?t"
    using step by blast
  have "as_jobs ?t = []" by simp
  then show ?thesis using step audit_service_in_sync [OF path inv] by blast
qed

end
