(* ===== verification/DO_Models.thy ===== *)
theory DO_Models
  imports DC_Models
begin

text \<open>
  The database of the orchestrator engine, \<open>dcorch/db/sqlalchemy/models.py\<close> with the constants of
  \<open>dcorch/common/consts.py\<close>: one record per table and one field per column the program reads
  or writes. Only \<open>orch_request\<close> is ever soft-deleted, so it alone keeps the column \<open>deleted\<close>;
  in the other tables a row is there or it is not. \<open>schema_ok\<close> is what the database enforces when
  a transaction commits: the unique columns and constraints (of the models and of the
  migrations) and the foreign keys.
\<close>

section \<open>Enumerations\<close>

datatype initial_sync =
    INITIAL_SYNC_STATE_NONE
  | INITIAL_SYNC_STATE_REQUESTED
  | INITIAL_SYNC_STATE_IN_PROGRESS
  | INITIAL_SYNC_STATE_COMPLETED
  | INITIAL_SYNC_STATE_FAILED

datatype request_state =
    ORCH_REQUEST_QUEUED
  | ORCH_REQUEST_IN_PROGRESS
  | ORCH_REQUEST_COMPLETED
  | ORCH_REQUEST_FAILED
  | ORCH_REQUEST_TIMED_OUT
  | ORCH_REQUEST_ABORTED

datatype sync_request_status =
    SYNC_STATUS_NONE
  | SYNC_STATUS_REQUESTED
  | SYNC_STATUS_IN_PROGRESS
  | SYNC_STATUS_COMPLETED
  | SYNC_STATUS_FAILED

datatype audit_status =
    AUDIT_STATUS_NONE
  | AUDIT_STATUS_IN_PROGRESS
  | AUDIT_STATUS_COMPLETED
  | AUDIT_STATUS_FAILED

datatype shared_config = SHARED_CONFIG_STATE_MANAGED | SHARED_CONFIG_STATE_UNMANAGED

datatype operation_type =
    OPERATION_TYPE_CREATE
  | OPERATION_TYPE_POST
  | OPERATION_TYPE_PATCH
  | OPERATION_TYPE_PUT
  | OPERATION_TYPE_DELETE
  | OPERATION_TYPE_ACTION
  | OPERATION_TYPE_GET

definition SYNC_ENDPOINT_TYPES_LIST :: "string list" where
  "SYNC_ENDPOINT_TYPES_LIST = [''platform'', ''identity'']"

section \<open>Rows\<close>

record quota =
  qu_id :: nat
  qu_project_id :: string
  qu_resource :: string
  qu_hard_limit :: "int option"

record quota_class =
  qc_id :: nat
  qc_class_name :: string
  qc_resource :: string
  qc_hard_limit :: "int option"

record service =
  sv_id :: string
  sv_host :: "string option"
  sv_binary :: "string option"
  sv_topic :: "string option"
  sv_updated_at :: int

text \<open>The JSON column \<open>capabilities\<close> of a subcloud: a dictionary of lists of strings. It and
  \<open>software_version\<close> are given when a subcloud is created, as the field types of
  \<open>objects/subcloud.py\<close> require.\<close>

type_synonym capabilities = "string \<rightharpoonup> string list"

record o_subcloud =
  os_id :: nat
  os_uuid :: string
  os_region_name :: string
  os_software_version :: string
  os_management_state :: "management option"
  os_availability_status :: availability
  os_capabilities :: capabilities
  os_initial_sync_state :: initial_sync

record resource =
  rs_id :: nat
  rs_uuid :: string
  rs_resource_type :: string
  rs_master_id :: string

record subcloud_resource =
  sr_id :: nat
  sr_uuid :: string
  sr_shared_config_state :: shared_config
  sr_subcloud_resource_id :: string
  sr_resource_id :: nat
  sr_subcloud_id :: nat

record orch_job =
  oj_id :: nat
  oj_uuid :: string
  oj_endpoint_type :: string
  oj_source_resource_id :: string
  oj_operation_type :: operation_type
  oj_resource_id :: nat
  oj_resource_info :: "string option"

record orch_request =
  or_id :: nat
  or_uuid :: string
  or_state :: "request_state option"
  or_try_count :: nat
  or_target_region_name :: string
  or_orch_job_id :: nat
  or_updated_at :: "int option"
  or_deleted_at :: "int option"
  or_deleted :: nat

record sync_lock =
  sl_id :: nat
  sl_engine_id :: string
  sl_subcloud_name :: string
  sl_endpoint_type :: string
  sl_action :: string

record subcloud_sync =
  sy_id :: nat
  sy_subcloud_id :: "nat option"
  sy_subcloud_name :: string
  sy_endpoint_type :: string
  sy_sync_request :: sync_request_status
  sy_sync_status_reported :: "sync_status option"  \<comment> \<open>\<open>None\<close> is \<open>SYNC_STATUS_NONE\<close>\<close>
  sy_sync_status_report_time :: "int option"
  sy_audit_status :: audit_status
  sy_last_audit_time :: "int option"

section \<open>The database\<close>

text \<open>Beside the tables: the clock \<open>timeutils.utcnow()\<close> reads, and how many uuids were generated.\<close>

record odb =
  od_quotas :: "quota table"
  od_quota_classes :: "quota_class table"
  od_services :: "service list"
  od_subclouds :: "o_subcloud table"
  od_resources :: "resource table"
  od_subcloud_resources :: "subcloud_resource table"
  od_orch_jobs :: "orch_job table"
  od_orch_requests :: "orch_request table"
  od_sync_locks :: "sync_lock table"
  od_subcloud_syncs :: "subcloud_sync table"
  od_now :: int
  od_uuids :: nat

definition empty_odb :: odb where
  "empty_odb = \<lparr>od_quotas = empty_table, od_quota_classes = empty_table, od_services = [],
     od_subclouds = empty_table, od_resources = empty_table, od_subcloud_resources = empty_table,
     od_orch_jobs = empty_table, od_orch_requests = empty_table, od_sync_locks = empty_table,
     od_subcloud_syncs = empty_table, od_now = 0, od_uuids = 0\<rparr>"

section \<open>The schema\<close>

definition unique_ok :: "odb \<Rightarrow> bool" where
  "unique_ok d \<longleftrightarrow>
     distinct (map sv_id (od_services d)) \<and>
     distinct (map os_uuid (rows (od_subclouds d))) \<and>
     distinct (map os_region_name (rows (od_subclouds d))) \<and>
     distinct (map rs_uuid (rows (od_resources d))) \<and>
     distinct (map (\<lambda>r. (rs_resource_type r, rs_master_id r)) (rows (od_resources d))) \<and>
     distinct (map sr_uuid (rows (od_subcloud_resources d))) \<and>
     distinct (map (\<lambda>r. (sr_resource_id r, sr_subcloud_id r)) (rows (od_subcloud_resources d))) \<and>
     distinct (map oj_uuid (rows (od_orch_jobs d))) \<and>
     distinct (map or_uuid (rows (od_orch_requests d))) \<and>
     distinct (map (\<lambda>r. (or_target_region_name r, or_orch_job_id r, or_deleted r))
       (rows (od_orch_requests d))) \<and>
     distinct (map (\<lambda>r. (sl_subcloud_name r, sl_endpoint_type r, sl_action r))
       (rows (od_sync_locks d))) \<and>
     distinct (map (\<lambda>r. (sy_subcloud_name r, sy_endpoint_type r)) (rows (od_subcloud_syncs d)))"

text \<open>Every value of a column is \<open>NULL\<close> or the id of a row.\<close>

definition refer_to :: "('r \<Rightarrow> nat option) \<Rightarrow> 'r table \<Rightarrow> ('q \<Rightarrow> nat) \<Rightarrow> 'q table \<Rightarrow> bool" where
  "refer_to col t key u \<longleftrightarrow>
     list_all (\<lambda>r. case col r of None \<Rightarrow> True | Some i \<Rightarrow> i \<in> set (map key (rows u))) (rows t)"

definition refs_ok :: "odb \<Rightarrow> bool" where
  "refs_ok d \<longleftrightarrow>
     refer_to (\<lambda>r. Some (sr_resource_id r)) (od_subcloud_resources d) rs_id (od_resources d) \<and>
     refer_to (\<lambda>r. Some (sr_subcloud_id r)) (od_subcloud_resources d) os_id (od_subclouds d) \<and>
     refer_to (\<lambda>r. Some (oj_resource_id r)) (od_orch_jobs d) rs_id (od_resources d) \<and>
     refer_to (\<lambda>r. Some (or_orch_job_id r)) (od_orch_requests d) oj_id (od_orch_jobs d) \<and>
     refer_to sy_subcloud_id (od_subcloud_syncs d) os_id (od_subclouds d)"

definition schema_ok :: "odb \<Rightarrow> bool" where
  "schema_ok d \<longleftrightarrow> unique_ok d \<and> refs_ok d"

text \<open>The primary keys come from the sequences of the tables.\<close>

definition okeys_wf :: "odb \<Rightarrow> bool" where
  "okeys_wf d \<longleftrightarrow>
     table_wf qu_id (od_quotas d) \<and> table_wf qc_id (od_quota_classes d) \<and>
     table_wf os_id (od_subclouds d) \<and> table_wf rs_id (od_resources d) \<and>
     table_wf sr_id (od_subcloud_resources d) \<and> table_wf oj_id (od_orch_jobs d) \<and>
     table_wf or_id (od_orch_requests d) \<and> table_wf sl_id (od_sync_locks d) \<and>
     table_wf sy_id (od_subcloud_syncs d)"

definition odb_wf :: "odb \<Rightarrow> bool" where
  "odb_wf d \<longleftrightarrow> okeys_wf d \<and> schema_ok d"

lemma empty_odb_wf: "odb_wf empty_odb"
  by (simp add: odb_wf_def okeys_wf_def schema_ok_def unique_ok_def refs_ok_def refer_to_def
      empty_odb_def)

section \<open>Dictionaries of column values\<close>

text \<open>A \<open>values\<close> dictionary passed to an update is the list of the columns it sets;
  \<open>row.update(values)\<close> sets them one after the other.\<close>

datatype o_subcloud_value =
    SetManagement management
  | SetAvailability availability
  | SetInitialSync initial_sync
  | SetCapabilities capabilities
  | SetVersion string

fun set_o_subcloud :: "o_subcloud_value \<Rightarrow> o_subcloud \<Rightarrow> o_subcloud" where
  "set_o_subcloud (SetManagement m) r = r\<lparr>os_management_state := Some m\<rparr>"
| "set_o_subcloud (SetAvailability a) r = r\<lparr>os_availability_status := a\<rparr>"
| "set_o_subcloud (SetInitialSync i) r = r\<lparr>os_initial_sync_state := i\<rparr>"
| "set_o_subcloud (SetCapabilities c) r = r\<lparr>os_capabilities := c\<rparr>"
| "set_o_subcloud (SetVersion v) r = r\<lparr>os_software_version := v\<rparr>"

datatype orch_request_value =
    SetState request_state
  | SetTryCount nat
  | SetDeleted nat
  | SetDeletedAt int

fun set_orch_request :: "orch_request_value \<Rightarrow> orch_request \<Rightarrow> orch_request" where
  "set_orch_request (SetState s) r = r\<lparr>or_state := Some s\<rparr>"
| "set_orch_request (SetTryCount n) r = r\<lparr>or_try_count := n\<rparr>"
| "set_orch_request (SetDeleted n) r = r\<lparr>or_deleted := n\<rparr>"
| "set_orch_request (SetDeletedAt t) r = r\<lparr>or_deleted_at := Some t\<rparr>"

datatype subcloud_sync_value =
    SetSyncRequest sync_request_status
  | SetReported "sync_status option"
  | SetReportTime "int option"
  | SetAuditStatus audit_status
  | SetLastAudit "int option"
  | SetSubcloudId nat

fun set_subcloud_sync :: "subcloud_sync_value \<Rightarrow> subcloud_sync \<Rightarrow> subcloud_sync" where
  "set_subcloud_sync (SetSyncRequest s) r = r\<lparr>sy_sync_request := s\<rparr>"
| "set_subcloud_sync (SetReported s) r = r\<lparr>sy_sync_status_reported := s\<rparr>"
| "set_subcloud_sync (SetReportTime t) r = r\<lparr>sy_sync_status_report_time := t\<rparr>"
| "set_subcloud_sync (SetAuditStatus a) r = r\<lparr>sy_audit_status := a\<rparr>"
| "set_subcloud_sync (SetLastAudit t) r = r\<lparr>sy_last_audit_time := t\<rparr>"
| "set_subcloud_sync (SetSubcloudId i) r = r\<lparr>sy_subcloud_id := Some i\<rparr>"

lemma set_o_subcloud_keys [simp]:
  "os_id (set_o_subcloud v r) = os_id r"
  "os_uuid (set_o_subcloud v r) = os_uuid r"
  "os_region_name (set_o_subcloud v r) = os_region_name r"
  by (cases v; simp)+

lemma fold_o_subcloud_keys [simp]:
  "os_id (fold set_o_subcloud vs r) = os_id r"
  "os_uuid (fold set_o_subcloud vs r) = os_uuid r"
  "os_region_name (fold set_o_subcloud vs r) = os_region_name r"
  by (induction vs arbitrary: r; simp)+

lemma set_orch_request_keys [simp]:
  "or_id (set_orch_request v r) = or_id r"
  "or_uuid (set_orch_request v r) = or_uuid r"
  "or_target_region_name (set_orch_request v r) = or_target_region_name r"
  "or_orch_job_id (set_orch_request v r) = or_orch_job_id r"
  by (cases v; simp)+

lemma fold_orch_request_keys [simp]:
  "or_id (fold set_orch_request vs r) = or_id r"
  "or_uuid (fold set_orch_request vs r) = or_uuid r"
  "or_target_region_name (fold set_orch_request vs r) = or_target_region_name r"
  "or_orch_job_id (fold set_orch_request vs r) = or_orch_job_id r"
  by (induction vs arbitrary: r; simp)+

lemma set_subcloud_sync_keys [simp]:
  "sy_id (set_subcloud_sync v r) = sy_id r"
  "sy_subcloud_name (set_subcloud_sync v r) = sy_subcloud_name r"
  "sy_endpoint_type (set_subcloud_sync v r) = sy_endpoint_type r"
  by (cases v; simp)+

lemma fold_subcloud_sync_keys [simp]:
  "sy_id (fold set_subcloud_sync vs r) = sy_id r"
  "sy_subcloud_name (fold set_subcloud_sync vs r) = sy_subcloud_name r"
  "sy_endpoint_type (fold set_subcloud_sync vs r) = sy_endpoint_type r"
  by (induction vs arbitrary: r; simp)+

end
