(* ===== verification/DO_DB.thy ===== *)
theory DO_DB
  imports DO_Models DC_DB_Subclouds
begin

text \<open>
  \<open>dcorch/db/sqlalchemy/api.py\<close>: the queries and updates of the orchestrator's database.
  A \<open>with write_session()\<close> block is a \<open>transaction\<close>: what it did is undone when it raises, and
  when it commits the database enforces its schema. \<open>session.add\<close> only registers the row, so a
  duplicate is reported by the commit, after the \<open>try\<close> block around \<open>session.add\<close> has been left:
  the caller sees \<open>DBDuplicateEntry\<close> and not the exception the handler would raise.
\<close>

section \<open>Sessions and identity filters\<close>

text \<open>The functions of \<open>oslo_utils\<close> the queries rely on: \<open>strutils.is_int_like\<close> with the value of
  the text, \<open>uuidutils.is_uuid_like\<close>, and the \<open>n\<close>-th text of \<open>uuidutils.generate_uuid\<close>.\<close>

record ident_env =
  int_like :: "string \<Rightarrow> int option"
  uuid_like :: "string \<Rightarrow> bool"
  uuid_text :: "nat \<Rightarrow> string"

definition transaction :: "(odb, 'a) io \<Rightarrow> (odb, 'a) io" where
  "transaction m = (\<lambda>d. case m d of
       (Inl e, _) \<Rightarrow> (Inl e, d)
     | (Inr x, t) \<Rightarrow>
         if \<not> unique_ok t then (Inl DBDuplicateEntry, d)
         else if \<not> refs_ok t then (Inl DBReferenceError, d)
         else (Inr x, t))"

text \<open>A query: its result, or the exception it raises.\<close>

definition result_of :: "('s \<Rightarrow> exn + 'r) \<Rightarrow> ('s, 'r) io" where
  "result_of q = bnd (gets q) (\<lambda>r. case r of Inl e \<Rightarrow> raise e | Inr x \<Rightarrow> ret x)"

definition new_uuid :: "ident_env \<Rightarrow> string option \<Rightarrow> (odb, string) io" where
  "new_uuid E u =
     (case u of Some x \<Rightarrow> if x \<noteq> [] then ret x else
          bnd (gets od_uuids) (\<lambda>n. seq (modify (\<lambda>d. d\<lparr>od_uuids := Suc n\<rparr>)) (ret (uuid_text E n)))
      | None \<Rightarrow>
          bnd (gets od_uuids) (\<lambda>n. seq (modify (\<lambda>d. d\<lparr>od_uuids := Suc n\<rparr>)) (ret (uuid_text E n))))"

text \<open>\<open>add_identity_filter\<close>: a value is an id when it looks like an integer, a uuid when it looks
  like one, and a name otherwise.\<close>

datatype ident = IdInt nat | IdStr string

definition o_identity_filter ::
  "ident_env \<Rightarrow> ident \<Rightarrow> ('r \<Rightarrow> nat) \<Rightarrow> ('r \<Rightarrow> string) \<Rightarrow> ('r \<Rightarrow> string) \<Rightarrow> 'r \<Rightarrow> bool" where
  "o_identity_filter E v key uuid nm r =
     (case v of
        IdInt n \<Rightarrow> key r = n
      | IdStr s \<Rightarrow>
          (case int_like E s of
             Some i \<Rightarrow> int (key r) = i
           | None \<Rightarrow> if uuid_like E s then uuid r = s else nm r = s))"

text \<open>\<open>add_filter_by_many_identities\<close> on one value: an id or a uuid, anything else is refused.\<close>

definition one_identity_filter ::
  "ident_env \<Rightarrow> ident \<Rightarrow> ('r \<Rightarrow> nat) \<Rightarrow> ('r \<Rightarrow> string) \<Rightarrow> exn + ('r \<Rightarrow> bool)" where
  "one_identity_filter E v key uuid =
     (case v of
        IdInt n \<Rightarrow> Inr (\<lambda>r. key r = n)
      | IdStr s \<Rightarrow>
          (case int_like E s of
             Some i \<Rightarrow> Inr (\<lambda>r. int (key r) = i)
           | None \<Rightarrow> if uuid_like E s then Inr (\<lambda>r. uuid r = s)
                     else Inl (InvalidParameterValue (''Invalid identity filter value '' @ s))))"

text \<open>Python's truth value of an identity: 0, the empty text and None are false.\<close>

definition no_ident :: "ident option \<Rightarrow> bool" where
  "no_ident v = (case v of None \<Rightarrow> True | Some (IdInt n) \<Rightarrow> n = 0 | Some (IdStr s) \<Rightarrow> s = [])"

lemma keeps_result_of [keeps_intros]: "keeps I (result_of q)"
  by (auto simp: result_of_def intro!: keeps_intros split: sum.splits)

lemma result_of_apply:
  "result_of q s = (case q s of Inl e \<Rightarrow> (Inl e, s) | Inr x \<Rightarrow> (Inr x, s))"
  by (simp add: result_of_def bnd_apply split: sum.splits)

lemma transaction_commits:
  "m d = (Inr x, t) \<Longrightarrow> schema_ok t \<Longrightarrow> transaction m d = (Inr x, t)"
  by (simp add: transaction_def schema_ok_def)

lemma transaction_aborts: "m d = (Inl e, t) \<Longrightarrow> transaction m d = (Inl e, d)"
  by (simp add: transaction_def)

lemma keeps_transaction [keeps_intros]: "keeps I m \<Longrightarrow> keeps I (transaction m)"
  by (auto simp: keeps_def transaction_def split: prod.splits sum.splits)

text \<open>Whatever a transaction does, the schema holds afterwards.\<close>

lemma keeps_transaction_schema: "keeps schema_ok (transaction m)"
  by (auto simp: keeps_def transaction_def schema_ok_def split: prod.splits sum.splits)

lemma keeps_transaction_wf: "keeps okeys_wf m \<Longrightarrow> keeps odb_wf (transaction m)"
  by (auto simp: keeps_def transaction_def odb_wf_def schema_ok_def split: prod.splits sum.splits)

section \<open>Quotas\<close>

definition quota_row :: "request_context option \<Rightarrow> string \<Rightarrow> string \<Rightarrow> (odb, quota) io" where
  "quota_row ctx project_id rsrc = require_context ctx
     (result_of (\<lambda>d. case query_first (\<lambda>q. qu_project_id q = project_id \<and> qu_resource q = rsrc)
           (od_quotas d) of
        None \<Rightarrow> Inl (Dcorch (ProjectQuotaNotFound project_id)) | Some q \<Rightarrow> Inr q))"

definition quota_get :: "request_context option \<Rightarrow> string \<Rightarrow> string \<Rightarrow> (odb, quota) io" where
  "quota_get ctx project_id rsrc = require_context ctx (quota_row ctx project_id rsrc)"

text \<open>The result dictionary holds the project's id beside one limit per resource: a later row
  for the same resource replaces an earlier one.\<close>

definition quota_get_all_by_project ::
  "request_context option \<Rightarrow> string \<Rightarrow> (odb, string \<times> (string \<rightharpoonup> int option)) io" where
  "quota_get_all_by_project ctx project_id = require_context ctx
     (gets (\<lambda>d. (project_id,
        map_of (rev (map (\<lambda>q. (qu_resource q, qu_hard_limit q))
          (query_all (\<lambda>q. qu_project_id q = project_id) (od_quotas d)))))))"

definition quota_create ::
  "request_context option \<Rightarrow> string \<Rightarrow> string \<Rightarrow> int option \<Rightarrow> (odb, unit) io" where
  "quota_create ctx project_id rsrc lim = require_admin_context ctx
     (transaction (modify (\<lambda>d. d\<lparr>od_quotas := insert_row (\<lambda>i.
        \<lparr>qu_id = i, qu_project_id = project_id, qu_resource = rsrc, qu_hard_limit = lim\<rparr>)
        (od_quotas d)\<rparr>)))"

definition quota_update ::
  "request_context option \<Rightarrow> string \<Rightarrow> string \<Rightarrow> int option \<Rightarrow> (odb, unit) io" where
  "quota_update ctx project_id rsrc lim = require_admin_context ctx
     (transaction (bnd (quota_row ctx project_id rsrc) (\<lambda>q.
        modify (\<lambda>d. d\<lparr>od_quotas :=
          update_row qu_id (qu_id q) (\<lambda>r. r\<lparr>qu_hard_limit := lim\<rparr>) (od_quotas d)\<rparr>))))"

definition quota_destroy :: "request_context option \<Rightarrow> string \<Rightarrow> string \<Rightarrow> (odb, unit) io" where
  "quota_destroy ctx project_id rsrc = require_admin_context ctx
     (transaction (bnd (quota_row ctx project_id rsrc) (\<lambda>q.
        modify (\<lambda>d. d\<lparr>od_quotas := delete_row qu_id (qu_id q) (od_quotas d)\<rparr>))))"

definition quota_destroy_all :: "request_context option \<Rightarrow> string \<Rightarrow> (odb, unit) io" where
  "quota_destroy_all ctx project_id = require_admin_context ctx
     (transaction (bnd (gets (\<lambda>d. query_all (\<lambda>q. qu_project_id q = project_id) (od_quotas d))) (\<lambda>qs.
        if qs = [] then raise (Dcorch (ProjectQuotaNotFound project_id))
        else for_each (\<lambda>q. modify (\<lambda>d. d\<lparr>od_quotas := delete_row qu_id (qu_id q) (od_quotas d)\<rparr>)) qs)))"

definition quota_class_row :: "request_context option \<Rightarrow> string \<Rightarrow> string \<Rightarrow> (odb, quota_class) io" where
  "quota_class_row ctx cls rsrc = require_context ctx
     (result_of (\<lambda>d. case query_first (\<lambda>q. qc_class_name q = cls \<and> qc_resource q = rsrc)
           (od_quota_classes d) of
        None \<Rightarrow> Inl (Dcorch (QuotaClassNotFound (Some cls))) | Some q \<Rightarrow> Inr q))"

definition quota_class_get :: "request_context option \<Rightarrow> string \<Rightarrow> string \<Rightarrow> (odb, quota_class) io" where
  "quota_class_get ctx cls rsrc = require_context ctx (quota_class_row ctx cls rsrc)"

definition quota_class_get_all_by_name ::
  "request_context option \<Rightarrow> string \<Rightarrow> (odb, string \<times> (string \<rightharpoonup> int option)) io" where
  "quota_class_get_all_by_name ctx cls = require_context ctx
     (gets (\<lambda>d. (cls,
        map_of (rev (map (\<lambda>q. (qc_resource q, qc_hard_limit q))
          (query_all (\<lambda>q. qc_class_name q = cls) (od_quota_classes d)))))))"

definition quota_class_get_default ::
  "request_context option \<Rightarrow> (odb, string \<times> (string \<rightharpoonup> int option)) io" where
  "quota_class_get_default ctx = require_context ctx (quota_class_get_all_by_name ctx ''default'')"

definition quota_class_create ::
  "request_context option \<Rightarrow> string \<Rightarrow> string \<Rightarrow> int option \<Rightarrow> (odb, unit) io" where
  "quota_class_create ctx cls rsrc lim = require_admin_context ctx
     (transaction (modify (\<lambda>d. d\<lparr>od_quota_classes := insert_row (\<lambda>i.
        \<lparr>qc_id = i, qc_class_name = cls, qc_resource = rsrc, qc_hard_limit = lim\<rparr>)
        (od_quota_classes d)\<rparr>)))"

definition quota_class_update ::
  "request_context option \<Rightarrow> string \<Rightarrow> string \<Rightarrow> int option \<Rightarrow> (odb, unit) io" where
  "quota_class_update ctx cls rsrc lim = require_admin_context ctx
     (transaction (bnd (gets (\<lambda>d. query_first (\<lambda>q. qc_class_name q = cls \<and> qc_resource q = rsrc)
            (od_quota_classes d))) (\<lambda>r. case r of
        None \<Rightarrow> raise (Dcorch (QuotaClassNotFound (Some cls)))
      | Some q \<Rightarrow> modify (\<lambda>d. d\<lparr>od_quota_classes :=
          update_row qc_id (qc_id q) (\<lambda>r. r\<lparr>qc_hard_limit := lim\<rparr>) (od_quota_classes d)\<rparr>))))"

definition quota_class_destroy_all :: "request_context option \<Rightarrow> string \<Rightarrow> (odb, unit) io" where
  "quota_class_destroy_all ctx cls = require_admin_context ctx
     (transaction (bnd (gets (\<lambda>d. query_all (\<lambda>q. qc_class_name q = cls) (od_quota_classes d))) (\<lambda>qs.
        if qs = [] then raise (Dcorch (QuotaClassNotFound None))
        else for_each (\<lambda>q. modify (\<lambda>d. d\<lparr>od_quota_classes :=
          delete_row qc_id (qc_id q) (od_quota_classes d)\<rparr>)) qs)))"

section \<open>Engine services\<close>

definition service_create ::
  "string \<Rightarrow> string option \<Rightarrow> string option \<Rightarrow> string option \<Rightarrow> (odb, unit) io" where
  "service_create service_id host binary topic =
     transaction (modify (\<lambda>d. d\<lparr>od_services := od_services d @
       [\<lparr>sv_id = service_id, sv_host = host, sv_binary = binary, sv_topic = topic,
         sv_updated_at = od_now d\<rparr>]\<rparr>))"

text \<open>\<open>service_update\<close> is called without values: it refreshes \<open>updated_at\<close>.\<close>

definition service_update :: "string \<Rightarrow> (odb, service option) io" where
  "service_update service_id =
     transaction (bnd (gets (\<lambda>d. find (\<lambda>s. sv_id s = service_id) (od_services d))) (\<lambda>r. case r of
        None \<Rightarrow> ret None
      | Some s \<Rightarrow>
          bnd (gets od_now) (\<lambda>now.
          seq (modify (\<lambda>d. d\<lparr>od_services :=
                 map (\<lambda>s. if sv_id s = service_id then s\<lparr>sv_updated_at := now\<rparr> else s) (od_services d)\<rparr>))
            (ret (Some (s\<lparr>sv_updated_at := now\<rparr>))))))"

definition service_delete :: "string \<Rightarrow> (odb, unit) io" where
  "service_delete service_id =
     transaction (modify (\<lambda>d. d\<lparr>od_services := filter (\<lambda>s. sv_id s \<noteq> service_id) (od_services d)\<rparr>))"

definition service_get :: "string \<Rightarrow> (odb, service option) io" where
  "service_get service_id = gets (\<lambda>d. find (\<lambda>s. sv_id s = service_id) (od_services d))"

definition service_get_all :: "(odb, service list) io" where
  "service_get_all = gets od_services"

end
