(* ===== verification/DO_Tables.thy ===== *)
theory DO_Tables
  imports DO_DB
begin

text \<open>
  \<open>dcorch/db/sqlalchemy/api.py\<close>, second half: subclouds, resources and their copies in the
  subclouds, orchestration jobs and requests, and the purge of what they no longer need.
\<close>

section \<open>Subclouds\<close>

definition o_subcloud_row ::
  "ident_env \<Rightarrow> request_context option \<Rightarrow> string \<Rightarrow> (odb, o_subcloud) io" where
  "o_subcloud_row E ctx region_id = require_context ctx
     (result_of (\<lambda>d. query_one (Dcorch (SubcloudRegionNotFound region_id))
        (InvalidParameterValue (''Multiple entries found for subcloud '' @ region_id))
        (o_identity_filter E (IdStr region_id) os_id os_uuid os_region_name) (od_subclouds d)))"

definition o_subcloud_get ::
  "ident_env \<Rightarrow> request_context option \<Rightarrow> string \<Rightarrow> (odb, o_subcloud) io" where
  "o_subcloud_get E ctx region_id = require_context ctx (o_subcloud_row E ctx region_id)"

definition o_subcloud_get_all ::
  "ident_env \<Rightarrow> request_context option \<Rightarrow> string option \<Rightarrow> management option \<Rightarrow>
   availability option \<Rightarrow> initial_sync option \<Rightarrow> (odb, o_subcloud list) io" where
  "o_subcloud_get_all E ctx region_name management_state availability_status initial_sync_state =
     require_context ctx (gets (\<lambda>d. query_all (\<lambda>r.
       (truthy_str region_name \<longrightarrow>
          o_identity_filter E (IdStr (the region_name)) os_id os_uuid os_region_name r) \<and>
       (case management_state of None \<Rightarrow> True | Some m \<Rightarrow> os_management_state r = Some m) \<and>
       (case availability_status of None \<Rightarrow> True | Some a \<Rightarrow> os_availability_status r = a) \<and>
       (case initial_sync_state of None \<Rightarrow> True | Some i \<Rightarrow> os_initial_sync_state r = i))
       (od_subclouds d)))"

definition o_subcloud_create ::
  "ident_env \<Rightarrow> request_context option \<Rightarrow> string \<Rightarrow> string option \<Rightarrow> string \<Rightarrow> capabilities \<Rightarrow>
   o_subcloud_value list \<Rightarrow> (odb, o_subcloud) io" where
  "o_subcloud_create E ctx region_name uuid software_version capabilities values =
     require_admin_context ctx (transaction
       (bnd (new_uuid E uuid) (\<lambda>u.
        bnd (gets (\<lambda>d. next_id (od_subclouds d))) (\<lambda>n.
        let r = fold set_o_subcloud values
              \<lparr>os_id = n, os_uuid = u, os_region_name = region_name,
               os_software_version = software_version, os_management_state = None,
               os_availability_status = AVAILABILITY_OFFLINE, os_capabilities = capabilities,
               os_initial_sync_state = INITIAL_SYNC_STATE_NONE\<rparr>
        in seq (modify (\<lambda>d. d\<lparr>od_subclouds := insert_row (\<lambda>i. r\<lparr>os_id := i\<rparr>) (od_subclouds d)\<rparr>))
             (ret r)))))"

definition o_subcloud_update ::
  "ident_env \<Rightarrow> request_context option \<Rightarrow> string \<Rightarrow> o_subcloud_value list \<Rightarrow> (odb, o_subcloud) io" where
  "o_subcloud_update E ctx region_name values = require_admin_context ctx
     (transaction (bnd (o_subcloud_row E ctx region_name) (\<lambda>r.
        seq (modify (\<lambda>d. d\<lparr>od_subclouds :=
               update_row os_id (os_id r) (fold set_o_subcloud values) (od_subclouds d)\<rparr>))
          (ret (fold set_o_subcloud values r)))))"

text \<open>Deleting a subcloud row: the rows of \<open>subcloud_resource\<close> and \<open>subcloud_sync\<close> that refer to
  it go with it (\<open>ON DELETE CASCADE\<close>).\<close>

definition delete_o_subcloud :: "nat \<Rightarrow> odb \<Rightarrow> odb" where
  "delete_o_subcloud i d = d\<lparr>
     od_subclouds := delete_row os_id i (od_subclouds d),
     od_subcloud_resources := filter_rows (\<lambda>r. sr_subcloud_id r \<noteq> i) (od_subcloud_resources d),
     od_subcloud_syncs := filter_rows (\<lambda>r. sy_subcloud_id r \<noteq> Some i) (od_subcloud_syncs d)\<rparr>"

definition o_subcloud_delete :: "request_context option \<Rightarrow> string \<Rightarrow> (odb, unit) io" where
  "o_subcloud_delete ctx region_name = require_admin_context ctx
     (transaction (bnd (gets (\<lambda>d. query_all (\<lambda>r. os_region_name r = region_name) (od_subclouds d))) (\<lambda>rs.
        if rs \<noteq> [] then for_each (\<lambda>r. modify (delete_o_subcloud (os_id r))) rs
        else raise (Dcorch (SubcloudRegionNotFound region_name)))))"

section \<open>Resources\<close>

definition resource_row ::
  "request_context option \<Rightarrow> string \<Rightarrow> string \<Rightarrow> (odb, resource) io" where
  "resource_row ctx resource_type master_id = require_context ctx
     (result_of (\<lambda>d. query_one (Dcorch ResourceNotFound)
        (InvalidParameterValue (''Multiple entries found for resource '' @ master_id))
        (\<lambda>r. rs_resource_type r = resource_type \<and> rs_master_id r = master_id) (od_resources d)))"

definition resource_get_by_type_and_master_id ::
  "request_context option \<Rightarrow> string \<Rightarrow> string \<Rightarrow> (odb, resource) io" where
  "resource_get_by_type_and_master_id ctx resource_type master_id = require_context ctx
     (resource_row ctx resource_type master_id)"

definition resource_get_by_id :: "request_context option \<Rightarrow> nat \<Rightarrow> (odb, resource) io" where
  "resource_get_by_id ctx resource_id = require_context ctx
     (result_of (\<lambda>d. case filter (\<lambda>r. rs_id r = resource_id) (rows (od_resources d)) of
        [] \<Rightarrow> Inl (Dcorch ResourceNotFound)
      | [r] \<Rightarrow> Inr r
      | _ \<Rightarrow> Inl (PyException ''MultipleResultsFound'')))"

definition resource_get_all ::
  "ident_env \<Rightarrow> request_context option \<Rightarrow> string option \<Rightarrow> (odb, resource list) io" where
  "resource_get_all E ctx resource_type = require_context ctx
     (gets (\<lambda>d. query_all (\<lambda>r. truthy_str resource_type \<longrightarrow>
        o_identity_filter E (IdStr (the resource_type)) rs_id rs_uuid rs_resource_type r)
        (od_resources d)))"

definition resource_create ::
  "ident_env \<Rightarrow> request_context option \<Rightarrow> string \<Rightarrow> string option \<Rightarrow> string \<Rightarrow> (odb, resource) io" where
  "resource_create E ctx resource_type uuid master_id = require_admin_context ctx (transaction
     (bnd (new_uuid E uuid) (\<lambda>u.
      bnd (gets (\<lambda>d. next_id (od_resources d))) (\<lambda>n.
      let mk = (\<lambda>i. \<lparr>rs_id = i, rs_uuid = u, rs_resource_type = resource_type,
                    rs_master_id = master_id\<rparr>)
      in seq (modify (\<lambda>d. d\<lparr>od_resources := insert_row mk (od_resources d)\<rparr>)) (ret (mk n))))))"

text \<open>\<open>resource_update\<close> sets the columns a \<open>Resource\<close> object can change.\<close>

definition resource_update ::
  "request_context option \<Rightarrow> nat \<Rightarrow> string option \<Rightarrow> string option \<Rightarrow> (odb, resource) io" where
  "resource_update ctx resource_id resource_type master_id = require_admin_context ctx (transaction
     (bnd (resource_get_by_id ctx resource_id) (\<lambda>r.
      let upd = opt_upd (\<lambda>x r. r\<lparr>rs_resource_type := x\<rparr>) resource_type \<circ>
                opt_upd (\<lambda>x r. r\<lparr>rs_master_id := x\<rparr>) master_id
      in seq (modify (\<lambda>d. d\<lparr>od_resources := update_row rs_id (rs_id r) upd (od_resources d)\<rparr>))
           (ret (upd r)))))"

definition delete_resource_row :: "nat \<Rightarrow> odb \<Rightarrow> odb" where
  "delete_resource_row i d = d\<lparr>
     od_resources := delete_row rs_id i (od_resources d),
     od_subcloud_resources := filter_rows (\<lambda>r. sr_resource_id r \<noteq> i) (od_subcloud_resources d)\<rparr>"

definition resource_delete :: "request_context option \<Rightarrow> string \<Rightarrow> string \<Rightarrow> (odb, unit) io" where
  "resource_delete ctx resource_type master_id = require_admin_context ctx
     (transaction (bnd (gets (\<lambda>d. query_all
          (\<lambda>r. rs_resource_type r = resource_type \<and> rs_master_id r = master_id) (od_resources d))) (\<lambda>rs.
        if rs \<noteq> [] then for_each (\<lambda>r. modify (delete_resource_row (rs_id r))) rs
        else raise (Dcorch ResourceNotFound))))"

section \<open>Copies of resources in subclouds\<close>

definition subcloud_resource_row ::
  "request_context option \<Rightarrow> nat \<Rightarrow> (odb, subcloud_resource) io" where
  "subcloud_resource_row ctx subcloud_resource_id = require_context ctx
     (result_of (\<lambda>d. case filter (\<lambda>r. sr_id r = subcloud_resource_id) (rows (od_subcloud_resources d)) of
        [] \<Rightarrow> Inl (Dcorch (SubcloudResourceNotFound (show_nat subcloud_resource_id)))
      | [r] \<Rightarrow> Inr r
      | _ \<Rightarrow> Inl (PyException ''MultipleResultsFound'')))"

definition subcloud_resource_get ::
  "request_context option \<Rightarrow> nat \<Rightarrow> (odb, subcloud_resource) io" where
  "subcloud_resource_get ctx i = require_context ctx (subcloud_resource_row ctx i)"

text \<open>The two queries that join a parent table: without a value they return every row.\<close>

definition subcloud_resources_get_by_subcloud ::
  "ident_env \<Rightarrow> request_context option \<Rightarrow> ident option \<Rightarrow> (odb, subcloud_resource list) io" where
  "subcloud_resources_get_by_subcloud E ctx subcloud_id = require_context ctx
     (if no_ident subcloud_id then gets (\<lambda>d. rows (od_subcloud_resources d))
      else case one_identity_filter E (the subcloud_id) os_id os_uuid of
        Inl e \<Rightarrow> raise e
      | Inr p \<Rightarrow> gets (\<lambda>d. query_all (\<lambda>r. list_ex (\<lambda>s. os_id s = sr_subcloud_id r \<and> p s)
          (rows (od_subclouds d))) (od_subcloud_resources d)))"

definition subcloud_resources_get_by_resource ::
  "ident_env \<Rightarrow> request_context option \<Rightarrow> ident option \<Rightarrow> (odb, subcloud_resource list) io" where
  "subcloud_resources_get_by_resource E ctx resource_id = require_context ctx
     (if no_ident resource_id then gets (\<lambda>d. rows (od_subcloud_resources d))
      else case one_identity_filter E (the resource_id) rs_id rs_uuid of
        Inl e \<Rightarrow> raise e
      | Inr p \<Rightarrow> gets (\<lambda>d. query_all (\<lambda>r. list_ex (\<lambda>s. rs_id s = sr_resource_id r \<and> p s)
          (rows (od_resources d))) (od_subcloud_resources d)))"

definition subcloud_resources_get_all :: "(odb, subcloud_resource list) io" where
  "subcloud_resources_get_all = gets (\<lambda>d. rows (od_subcloud_resources d))"

definition subcloud_resource_get_by_resource_and_subcloud ::
  "request_context option \<Rightarrow> nat \<Rightarrow> nat \<Rightarrow> (odb, subcloud_resource) io" where
  "subcloud_resource_get_by_resource_and_subcloud ctx resource_id subcloud_id = require_context ctx
     (result_of (\<lambda>d. query_one (Dcorch (SubcloudResourceNotFound ''%(resource)s''))
        (InvalidParameterValue (''Multiple entries found for resource '' @ show_nat resource_id
           @ '' subcloud '' @ show_nat subcloud_id))
        (\<lambda>r. sr_resource_id r = resource_id \<and> sr_subcloud_id r = subcloud_id)
        (od_subcloud_resources d)))"

definition subcloud_resource_create ::
  "ident_env \<Rightarrow> request_context option \<Rightarrow> nat \<Rightarrow> nat \<Rightarrow> string option \<Rightarrow> string \<Rightarrow>
   (odb, subcloud_resource) io" where
  "subcloud_resource_create E ctx subcloud_id resource_id uuid sc_rsrc_id =
     require_admin_context ctx (transaction
       (bnd (new_uuid E uuid) (\<lambda>u.
        bnd (gets (\<lambda>d. next_id (od_subcloud_resources d))) (\<lambda>n.
        let mk = (\<lambda>i. \<lparr>sr_id = i, sr_uuid = u, sr_shared_config_state = SHARED_CONFIG_STATE_MANAGED,
              sr_subcloud_resource_id = sc_rsrc_id, sr_resource_id = resource_id,
              sr_subcloud_id = subcloud_id\<rparr>)
        in seq (modify (\<lambda>d. d\<lparr>od_subcloud_resources := insert_row mk (od_subcloud_resources d)\<rparr>))
             (ret (mk n))))))"

definition subcloud_resource_update ::
  "request_context option \<Rightarrow> nat \<Rightarrow> string \<Rightarrow> (odb, subcloud_resource) io" where
  "subcloud_resource_update ctx i sc_rsrc_id = require_admin_context ctx (transaction
     (bnd (subcloud_resource_row ctx i) (\<lambda>r.
      seq (modify (\<lambda>d. d\<lparr>od_subcloud_resources := update_row sr_id (sr_id r)
             (\<lambda>r. r\<lparr>sr_subcloud_resource_id := sc_rsrc_id\<rparr>) (od_subcloud_resources d)\<rparr>))
        (ret (r\<lparr>sr_subcloud_resource_id := sc_rsrc_id\<rparr>)))))"

definition subcloud_resource_delete :: "request_context option \<Rightarrow> nat \<Rightarrow> (odb, unit) io" where
  "subcloud_resource_delete ctx i = require_admin_context ctx (transaction
     (bnd (subcloud_resource_row ctx i) (\<lambda>r.
      modify (\<lambda>d. d\<lparr>od_subcloud_resources := delete_row sr_id (sr_id r) (od_subcloud_resources d)\<rparr>))))"

section \<open>Jobs\<close>

definition orch_job_row :: "request_context option \<Rightarrow> nat \<Rightarrow> (odb, orch_job) io" where
  "orch_job_row ctx orch_job_id = require_context ctx
     (result_of (\<lambda>d. case filter (\<lambda>r. oj_id r = orch_job_id) (rows (od_orch_jobs d)) of
        [] \<Rightarrow> Inl (Dcorch (OrchJobNotFound (show_nat orch_job_id)))
      | [r] \<Rightarrow> Inr r
      | _ \<Rightarrow> Inl (PyException ''MultipleResultsFound'')))"

definition orch_job_get :: "request_context option \<Rightarrow> nat \<Rightarrow> (odb, orch_job) io" where
  "orch_job_get ctx orch_job_id = require_context ctx (orch_job_row ctx orch_job_id)"

definition orch_job_get_all ::
  "ident_env \<Rightarrow> request_context option \<Rightarrow> ident option \<Rightarrow> (odb, orch_job list) io" where
  "orch_job_get_all E ctx resource_id = require_context ctx
     (if no_ident resource_id then gets (\<lambda>d. rows (od_orch_jobs d))
      else case one_identity_filter E (the resource_id) rs_id rs_uuid of
        Inl e \<Rightarrow> raise e
      | Inr p \<Rightarrow> gets (\<lambda>d. query_all (\<lambda>r. list_ex (\<lambda>s. rs_id s = oj_resource_id r \<and> p s)
          (rows (od_resources d))) (od_orch_jobs d)))"

definition orch_job_create ::
  "ident_env \<Rightarrow> request_context option \<Rightarrow> nat \<Rightarrow> string \<Rightarrow> operation_type \<Rightarrow> string option \<Rightarrow>
   string \<Rightarrow> string option \<Rightarrow> (odb, orch_job) io" where
  "orch_job_create E ctx resource_id endpoint_type op uuid source_resource_id resource_info =
     require_admin_context ctx (transaction
       (bnd (new_uuid E uuid) (\<lambda>u.
        bnd (gets (\<lambda>d. next_id (od_orch_jobs d))) (\<lambda>n.
        let mk = (\<lambda>i. \<lparr>oj_id = i, oj_uuid = u, oj_endpoint_type = endpoint_type,
              oj_source_resource_id = source_resource_id, oj_operation_type = op,
              oj_resource_id = resource_id, oj_resource_info = resource_info\<rparr>)
        in seq (modify (\<lambda>d. d\<lparr>od_orch_jobs := insert_row mk (od_orch_jobs d)\<rparr>)) (ret (mk n))))))"

text \<open>\<open>orch_job_update\<close> sets the resource info, the column an \<open>OrchJob\<close> object may change.\<close>

definition orch_job_update ::
  "request_context option \<Rightarrow> nat \<Rightarrow> string option \<Rightarrow> (odb, orch_job) io" where
  "orch_job_update ctx orch_job_id resource_info = require_admin_context ctx (transaction
     (bnd (orch_job_row ctx orch_job_id) (\<lambda>r.
      seq (modify (\<lambda>d. d\<lparr>od_orch_jobs := update_row oj_id (oj_id r)
             (\<lambda>r. r\<lparr>oj_resource_info := resource_info\<rparr>) (od_orch_jobs d)\<rparr>))
        (ret (r\<lparr>oj_resource_info := resource_info\<rparr>)))))"

text \<open>A job that still has requests cannot be deleted: the relationship would blank the requests'
  \<open>orch_job_id\<close>, which is part of their primary key.\<close>

definition orch_job_delete :: "request_context option \<Rightarrow> nat \<Rightarrow> (odb, unit) io" where
  "orch_job_delete ctx orch_job_id = require_admin_context ctx (transaction
     (bnd (orch_job_row ctx orch_job_id) (\<lambda>r.
      bnd (gets (\<lambda>d. list_ex (\<lambda>q. or_orch_job_id q = oj_id r) (rows (od_orch_requests d)))) (\<lambda>used.
      if used then raise (PyException ''AssertionError'')
      else modify (\<lambda>d. d\<lparr>od_orch_jobs := delete_row oj_id (oj_id r) (od_orch_jobs d)\<rparr>)))))"

end
