(* ===== verification/DO_Requests.thy ===== *)
theory DO_Requests
  imports DO_Tables
begin

text \<open>
  \<open>dcorch/db/sqlalchemy/api.py\<close>, last third: the orchestration requests with their soft
  deletion and the purge, the locks that keep engines apart, and the records of what has to be
  synchronised and audited.
\<close>

section \<open>Requests\<close>

text \<open>The rows with \<open>deleted = 0\<close>.\<close>

definition live :: "orch_request \<Rightarrow> bool" where
  "live r \<longleftrightarrow> or_deleted r = 0"

definition orch_request_row :: "request_context option \<Rightarrow> nat \<Rightarrow> (odb, orch_request) io" where
  "orch_request_row ctx orch_request_id = require_context ctx
     (result_of (\<lambda>d. case filter (\<lambda>r. live r \<and> or_id r = orch_request_id) (rows (od_orch_requests d)) of
        [] \<Rightarrow> Inl (Dcorch (OrchRequestNotFound (show_nat orch_request_id)))
      | [r] \<Rightarrow> Inr r
      | _ \<Rightarrow> Inl (PyException ''MultipleResultsFound'')))"

definition orch_request_get :: "request_context option \<Rightarrow> nat \<Rightarrow> (odb, orch_request) io" where
  "orch_request_get ctx i = require_context ctx (orch_request_row ctx i)"

text \<open>\<open>ORDER BY updated_at DESC\<close>, first row: an unset time sorts first, as in PostgreSQL.\<close>

fun later :: "int option \<Rightarrow> int option \<Rightarrow> bool" where
  "later None (Some _) = True"
| "later (Some a) (Some b) = (b < a)"
| "later _ None = False"

fun latest :: "orch_request list \<Rightarrow> orch_request option" where
  "latest [] = None"
| "latest (r # rs) =
     (case latest rs of
        None \<Rightarrow> Some r
      | Some q \<Rightarrow> if later (or_updated_at q) (or_updated_at r) then Some q else Some r)"

definition orch_request_get_most_recent_failed_request ::
  "request_context option \<Rightarrow> (odb, orch_request option) io" where
  "orch_request_get_most_recent_failed_request ctx = require_context ctx
     (gets (\<lambda>d. latest (query_all (\<lambda>r. live r \<and> or_state r = Some ORCH_REQUEST_FAILED)
        (od_orch_requests d))))"

definition orch_request_get_all ::
  "ident_env \<Rightarrow> request_context option \<Rightarrow> ident option \<Rightarrow> (odb, orch_request list) io" where
  "orch_request_get_all E ctx orch_job_id = require_context ctx
     (if no_ident orch_job_id then gets (\<lambda>d. query_all live (od_orch_requests d))
      else case one_identity_filter E (the orch_job_id) oj_id oj_uuid of
        Inl e \<Rightarrow> raise e
      | Inr p \<Rightarrow> gets (\<lambda>d. query_all (\<lambda>r. live r \<and> list_ex (\<lambda>j. oj_id j = or_orch_job_id r \<and> p j)
          (rows (od_orch_jobs d))) (od_orch_requests d)))"

text \<open>A request with the job it belongs to, as the relationship of the row gives it.\<close>

definition job_of :: "odb \<Rightarrow> orch_request \<Rightarrow> orch_job option" where
  "job_of d r = find (\<lambda>j. oj_id j = or_orch_job_id r) (rows (od_orch_jobs d))"

definition resource_of :: "odb \<Rightarrow> orch_job \<Rightarrow> resource option" where
  "resource_of d j = find (\<lambda>s. rs_id s = oj_resource_id j) (rows (od_resources d))"

definition request_matches ::
  "string \<Rightarrow> string option \<Rightarrow> string option \<Rightarrow> request_state list option \<Rightarrow> odb \<Rightarrow>
   orch_request \<Rightarrow> bool" where
  "request_matches endpoint_type resource_type target_region_name states d r \<longleftrightarrow>
     live r \<and>
     (truthy_str target_region_name \<longrightarrow> Some (or_target_region_name r) = target_region_name) \<and>
     (case states of None \<Rightarrow> True | Some [] \<Rightarrow> True
      | Some ss \<Rightarrow> (case or_state r of None \<Rightarrow> False | Some s \<Rightarrow> s \<in> set ss)) \<and>
     (case job_of d r of
        None \<Rightarrow> False
      | Some j \<Rightarrow> oj_endpoint_type j = endpoint_type \<and>
          (case resource_type of None \<Rightarrow> True
           | Some t \<Rightarrow> (case resource_of d j of None \<Rightarrow> False | Some s \<Rightarrow> rs_resource_type s = t)))"

definition orch_request_get_by_attrs ::
  "request_context option \<Rightarrow> string \<Rightarrow> string option \<Rightarrow> string option \<Rightarrow>
   request_state list option \<Rightarrow> (odb, (orch_request \<times> orch_job) list) io" where
  "orch_request_get_by_attrs ctx endpoint_type resource_type target_region_name states =
     require_context ctx (gets (\<lambda>d.
       map (\<lambda>r. (r, the (job_of d r)))
         (sort_key or_id
           (query_all (request_matches endpoint_type resource_type target_region_name states d)
             (od_orch_requests d)))))"

definition orch_request_create ::
  "ident_env \<Rightarrow> request_context option \<Rightarrow> nat \<Rightarrow> string \<Rightarrow> string option \<Rightarrow>
   orch_request_value list \<Rightarrow> (odb, orch_request) io" where
  "orch_request_create E ctx orch_job_id target_region_name uuid values =
     require_admin_context ctx (transaction
       (bnd (new_uuid E uuid) (\<lambda>u.
        bnd (gets (\<lambda>d. next_id (od_orch_requests d))) (\<lambda>n.
        let mk = (\<lambda>i. fold set_orch_request values
              \<lparr>or_id = i, or_uuid = u, or_state = None, or_try_count = 0,
               or_target_region_name = target_region_name, or_orch_job_id = orch_job_id,
               or_updated_at = None, or_deleted_at = None, or_deleted = 0\<rparr>)
        in seq (modify (\<lambda>d. d\<lparr>od_orch_requests := insert_row mk (od_orch_requests d)\<rparr>))
             (ret (mk n))))))"

text \<open>An \<open>UPDATE\<close> is issued for a row whose columns really change, and it stamps \<open>updated_at\<close>.\<close>

definition stamp_request :: "int \<Rightarrow> orch_request_value list \<Rightarrow> orch_request \<Rightarrow> orch_request" where
  "stamp_request now values r =
     (let r' = fold set_orch_request values r
      in if r' = r then r else r'\<lparr>or_updated_at := Some now\<rparr>)"

definition orch_request_update ::
  "request_context option \<Rightarrow> nat \<Rightarrow> orch_request_value list \<Rightarrow> (odb, orch_request) io" where
  "orch_request_update ctx orch_request_id values = require_admin_context ctx (transaction
     (bnd (orch_request_row ctx orch_request_id) (\<lambda>r.
      bnd (gets od_now) (\<lambda>now.
      seq (modify (\<lambda>d. d\<lparr>od_orch_requests :=
             update_row or_id (or_id r) (stamp_request now values) (od_orch_requests d)\<rparr>))
        (ret (stamp_request now values r))))))"

definition orch_request_destroy :: "request_context option \<Rightarrow> nat \<Rightarrow> (odb, unit) io" where
  "orch_request_destroy ctx orch_request_id = require_admin_context ctx (transaction
     (bnd (orch_request_row ctx orch_request_id) (\<lambda>r.
      modify (\<lambda>d. d\<lparr>od_orch_requests := delete_row or_id (or_id r) (od_orch_requests d)\<rparr>))))"

definition orch_request_delete_by_subcloud :: "request_context option \<Rightarrow> string \<Rightarrow> (odb, unit) io" where
  "orch_request_delete_by_subcloud ctx region_name = require_admin_context ctx (transaction
     (modify (\<lambda>d. d\<lparr>od_orch_requests :=
        filter_rows (\<lambda>r. or_target_region_name r \<noteq> region_name) (od_orch_requests d)\<rparr>)))"

text \<open>The failed requests last updated at or before a time; a comparison with \<open>NULL\<close> is false.\<close>

definition failed_before :: "int option \<Rightarrow> orch_request \<Rightarrow> bool" where
  "failed_before t r \<longleftrightarrow> live r \<and> or_state r = Some ORCH_REQUEST_FAILED \<and>
     (case (or_updated_at r, t) of (Some u, Some t) \<Rightarrow> u \<le> t | _ \<Rightarrow> False)"

definition orch_request_delete_previous_failed_requests ::
  "request_context option \<Rightarrow> int option \<Rightarrow> (odb, unit) io" where
  "orch_request_delete_previous_failed_requests ctx delete_timestamp = require_admin_context ctx
     (transaction (bnd (gets od_now) (\<lambda>now.
        modify (\<lambda>d. d\<lparr>od_orch_requests := map_rows (\<lambda>r.
          if failed_before delete_timestamp r
          then stamp_request now [SetDeleted 1, SetDeletedAt now] r else r) (od_orch_requests d)\<rparr>))))"

text \<open>The purge: requests deleted longer ago than the retention, then the jobs no request refers
  to, then the resources neither a job nor a copy in a subcloud refers to.\<close>

definition purge_requests :: "int \<Rightarrow> odb \<Rightarrow> odb" where
  "purge_requests deleted_age d = d\<lparr>od_orch_requests := filter_rows
     (\<lambda>r. \<not> (or_deleted r = 1 \<and> (case or_deleted_at r of None \<Rightarrow> False | Some t \<Rightarrow> t < deleted_age)))
     (od_orch_requests d)\<rparr>"

definition purge_jobs :: "odb \<Rightarrow> odb" where
  "purge_jobs d = d\<lparr>od_orch_jobs := filter_rows
     (\<lambda>j. list_ex (\<lambda>r. or_orch_job_id r = oj_id j) (rows (od_orch_requests d))) (od_orch_jobs d)\<rparr>"

definition purge_resources :: "odb \<Rightarrow> odb" where
  "purge_resources d = d\<lparr>od_resources := filter_rows
     (\<lambda>s. list_ex (\<lambda>j. oj_resource_id j = rs_id s) (rows (od_orch_jobs d)) \<or>
          list_ex (\<lambda>c. sr_resource_id c = rs_id s) (rows (od_subcloud_resources d))) (od_resources d)\<rparr>"

definition seconds_per_day :: int where
  "seconds_per_day = 86400"

definition purge_deleted_records :: "request_context option \<Rightarrow> int \<Rightarrow> (odb, unit) io" where
  "purge_deleted_records ctx age_in_days = require_admin_context ctx
     (bnd (gets (\<lambda>d. od_now d - age_in_days * seconds_per_day)) (\<lambda>deleted_age.
      transaction
        (seq (modify (purge_requests deleted_age))
        (seq (modify purge_jobs) (modify purge_resources)))))"

section \<open>Locks\<close>

definition lock_held :: "string \<Rightarrow> string \<Rightarrow> string \<Rightarrow> odb \<Rightarrow> bool" where
  "lock_held subcloud_name endpoint_type action d \<longleftrightarrow>
     list_ex (\<lambda>l. sl_subcloud_name l = subcloud_name \<and> sl_endpoint_type l = endpoint_type \<and>
        sl_action l = action) (rows (od_sync_locks d))"

definition db_sync_lock_acquire ::
  "string \<Rightarrow> string \<Rightarrow> string \<Rightarrow> string \<Rightarrow> (odb, bool) io" where
  "db_sync_lock_acquire engine_id subcloud_name endpoint_type action = transaction
     (bnd (gets (lock_held subcloud_name endpoint_type action)) (\<lambda>lock.
      if \<not> lock then
        seq (modify (\<lambda>d. d\<lparr>od_sync_locks := insert_row (\<lambda>i.
               \<lparr>sl_id = i, sl_engine_id = engine_id, sl_subcloud_name = subcloud_name,
                sl_endpoint_type = endpoint_type, sl_action = action\<rparr>) (od_sync_locks d)\<rparr>))
          (ret True)
      else ret False))"

definition db_sync_lock_release :: "string \<Rightarrow> string \<Rightarrow> string \<Rightarrow> (odb, unit) io" where
  "db_sync_lock_release subcloud_name endpoint_type action = transaction
     (modify (\<lambda>d. d\<lparr>od_sync_locks := filter_rows (\<lambda>l. \<not> (sl_subcloud_name l = subcloud_name \<and>
        sl_endpoint_type l = endpoint_type \<and> sl_action l = action)) (od_sync_locks d)\<rparr>))"

definition sync_lock_steal :: "string \<Rightarrow> string \<Rightarrow> string \<Rightarrow> string \<Rightarrow> (odb, bool) io" where
  "sync_lock_steal engine_id subcloud_name endpoint_type action =
     seq (db_sync_lock_release subcloud_name endpoint_type action)
       (db_sync_lock_acquire engine_id subcloud_name endpoint_type action)"

definition sync_lock_delete_by_engine_id :: "string \<Rightarrow> (odb, unit) io" where
  "sync_lock_delete_by_engine_id engine_id = transaction
     (bnd (gets (\<lambda>d. query_all (\<lambda>l. sl_engine_id l = engine_id) (od_sync_locks d))) (\<lambda>ls.
      for_each (\<lambda>l. modify (\<lambda>d. d\<lparr>od_sync_locks :=
        delete_row sl_id (sl_id l) (od_sync_locks d)\<rparr>)) ls))"

definition purge_stale_sync_lock :: "(odb, unit) io" where
  "purge_stale_sync_lock = transaction
     (modify (\<lambda>d. d\<lparr>od_sync_locks := filter_rows
        (\<lambda>l. sl_engine_id l \<in> set (map sv_id (od_services d))) (od_sync_locks d)\<rparr>))"

section \<open>What has to be synchronised\<close>

definition is_sync :: "string \<Rightarrow> string \<Rightarrow> subcloud_sync \<Rightarrow> bool" where
  "is_sync subcloud_name endpoint_type r \<longleftrightarrow>
     sy_subcloud_name r = subcloud_name \<and> sy_endpoint_type r = endpoint_type"

definition subcloud_sync_get :: "string \<Rightarrow> string \<Rightarrow> (odb, subcloud_sync) io" where
  "subcloud_sync_get subcloud_name endpoint_type =
     result_of (\<lambda>d. query_one (Dcorch (SubcloudSyncNotFound subcloud_name endpoint_type))
       (InvalidParameterValue (''Multiple entries found for subcloud '' @ subcloud_name
          @ '' endpoint_type '' @ endpoint_type))
       (is_sync subcloud_name endpoint_type) (od_subcloud_syncs d))"

definition subcloud_sync_create ::
  "string \<Rightarrow> string \<Rightarrow> subcloud_sync_value list \<Rightarrow> (odb, unit) io" where
  "subcloud_sync_create subcloud_name endpoint_type values = transaction
     (modify (\<lambda>d. d\<lparr>od_subcloud_syncs := insert_row (\<lambda>i. fold set_subcloud_sync values
        \<lparr>sy_id = i, sy_subcloud_id = None, sy_subcloud_name = subcloud_name,
         sy_endpoint_type = endpoint_type, sy_sync_request = SYNC_STATUS_NONE,
         sy_sync_status_reported = None, sy_sync_status_report_time = None,
         sy_audit_status = AUDIT_STATUS_NONE, sy_last_audit_time = None\<rparr>) (od_subcloud_syncs d)\<rparr>))"

definition subcloud_sync_update ::
  "string \<Rightarrow> string \<Rightarrow> subcloud_sync_value list \<Rightarrow> (odb, unit) io" where
  "subcloud_sync_update subcloud_name endpoint_type values = transaction
     (bnd (subcloud_sync_get subcloud_name endpoint_type) (\<lambda>r.
      modify (\<lambda>d. d\<lparr>od_subcloud_syncs :=
        update_row sy_id (sy_id r) (fold set_subcloud_sync values) (od_subcloud_syncs d)\<rparr>)))"

definition subcloud_sync_delete :: "string \<Rightarrow> string \<Rightarrow> (odb, unit) io" where
  "subcloud_sync_delete subcloud_name endpoint_type = transaction
     (bnd (gets (\<lambda>d. query_all (is_sync subcloud_name endpoint_type) (od_subcloud_syncs d))) (\<lambda>rs.
      for_each (\<lambda>r. modify (\<lambda>d. d\<lparr>od_subcloud_syncs :=
        delete_row sy_id (sy_id r) (od_subcloud_syncs d)\<rparr>)) rs))"

end
