(* ===== verification/DO_Objects.thy ===== *)
theory DO_Objects
  imports DO_Requests
begin

text \<open>
  \<open>dcorch/objects\<close> and \<open>dcorch/common/utils.py\<close>: the objects are rows read with the
  administrator's context, \<open>create\<close> and \<open>save\<close> write their changed fields back; \<open>enqueue_work\<close>
  records a job for a resource and one queued request per subcloud. Then
  \<open>dcorch/engine/subcloud_lock.py\<close>, the decorator that runs a function under a lock.
\<close>

section \<open>Exceptions\<close>

text \<open>\<open>except Exception\<close> does not catch eventlet's \<open>Timeout\<close>.\<close>

definition is_Exception :: "exn \<Rightarrow> bool" where
  "is_Exception e \<longleftrightarrow> e \<noteq> Dcorch SyncTimeout"

definition except_Exception :: "('s, 'a) io \<Rightarrow> (exn \<Rightarrow> ('s, 'a) io) \<Rightarrow> ('s, 'a) io" where
  "except_Exception m h = try_catch m (\<lambda>e. if is_Exception e then h e else raise e)"

text \<open>The outcome of a \<open>try\<close> block as a value, for handlers that go on differently.\<close>

definition outcome :: "('s, 'a) io \<Rightarrow> ('s, exn + 'a) io" where
  "outcome m = (\<lambda>s. case m s of (r, t) \<Rightarrow> (Inr r, t))"

text \<open>\<open>try: m / finally: f\<close>.\<close>

definition finally_do :: "('s, 'a) io \<Rightarrow> ('s, unit) io \<Rightarrow> ('s, 'a) io" where
  "finally_do m f = bnd (outcome m) (\<lambda>r. seq f (case r of Inl e \<Rightarrow> raise e | Inr x \<Rightarrow> ret x))"

lemma keeps_except_Exception [keeps_intros]:
  "keeps I m \<Longrightarrow> (\<And>e. keeps I (h e)) \<Longrightarrow> keeps I (except_Exception m h)"
  by (auto simp: except_Exception_def intro!: keeps_intros)

lemma keeps_outcome [keeps_intros]: "keeps I m \<Longrightarrow> keeps I (outcome m)"
  by (auto simp: keeps_def outcome_def split: prod.splits)

lemma outcome_apply: "outcome m s = (Inr (fst (m s)), snd (m s))"
  by (simp add: outcome_def split: prod.splits)

lemma keeps_finally [keeps_intros]: "keeps I m \<Longrightarrow> keeps I f \<Longrightarrow> keeps I (finally_do m f)"
  by (auto simp: finally_do_def intro!: keeps_intros split: sum.splits)

section \<open>Subclouds\<close>

definition subcloud_by_name :: "ident_env \<Rightarrow> string \<Rightarrow> (odb, o_subcloud) io" where
  "subcloud_by_name E subcloud_name = o_subcloud_get E admin_context subcloud_name"

definition subcloud_save :: "ident_env \<Rightarrow> o_subcloud \<Rightarrow> o_subcloud_value list \<Rightarrow> (odb, unit) io" where
  "subcloud_save E sc changes =
     seq (o_subcloud_update E admin_context (os_region_name sc) changes) (ret ())"

text \<open>Every exception of the deletion is logged and dropped.\<close>

definition delete_subcloud_by_name :: "string \<Rightarrow> (odb, unit) io" where
  "delete_subcloud_by_name subcloud_name =
     except_Exception (o_subcloud_delete admin_context subcloud_name) (\<lambda>_. ret ())"

text \<open>\<open>Subcloud.delete\<close>: the requests for the subcloud, then its row.\<close>

definition subcloud_obj_delete :: "o_subcloud \<Rightarrow> (odb, unit) io" where
  "subcloud_obj_delete sc =
     seq (except_Exception (orch_request_delete_by_subcloud admin_context (os_region_name sc)) (\<lambda>_. ret ()))
       (except_Exception (o_subcloud_delete admin_context (os_region_name sc)) (\<lambda>_. ret ()))"

definition all_subclouds :: "ident_env \<Rightarrow> (odb, o_subcloud list) io" where
  "all_subclouds E = o_subcloud_get_all E admin_context None None None None"

section \<open>Copies of resources\<close>

definition is_managed :: "subcloud_resource \<Rightarrow> bool" where
  "is_managed r \<longleftrightarrow> sr_shared_config_state r = SHARED_CONFIG_STATE_MANAGED"

section \<open>Requests\<close>

text \<open>\<open>request.save()\<close>: the changed fields are written and the object is refreshed.\<close>

definition request_save ::
  "orch_request \<Rightarrow> orch_request_value list \<Rightarrow> (odb, orch_request) io" where
  "request_save r changes = orch_request_update admin_context (or_id r) changes"

section \<open>Key pairs\<close>

text \<open>A key pair is known as \<open>name/user\<close>. \<open>id.find(delim) > 0\<close> asks for a delimiter that is not the
  first character; \<open>id.split(delim)\<close> splits at every delimiter.\<close>

definition KEYPAIR_ID_DELIM :: char where
  "KEYPAIR_ID_DELIM = CHR 0x2F"

definition keypair_construct_id :: "string \<Rightarrow> string \<Rightarrow> string" where
  "keypair_construct_id nm user_id = nm @ [KEYPAIR_ID_DELIM] @ user_id"

definition keypair_constructed_id :: "string \<Rightarrow> bool" where
  "keypair_constructed_id i \<longleftrightarrow>
     KEYPAIR_ID_DELIM \<in> set i \<and> takeWhile (\<lambda>c. c \<noteq> KEYPAIR_ID_DELIM) i \<noteq> []"

fun split_at :: "char \<Rightarrow> string \<Rightarrow> string \<Rightarrow> string list" where
  "split_at d [] acc = [rev acc]"
| "split_at d (c # cs) acc = (if c = d then rev acc # split_at d cs [] else split_at d cs (c # acc))"

definition keypair_deconstruct_id :: "string \<Rightarrow> string list" where
  "keypair_deconstruct_id i =
     (if keypair_constructed_id i then split_at KEYPAIR_ID_DELIM i [] else [i, ''''])"

section \<open>Enqueueing work\<close>

text \<open>The resource the job is for; None where the function returns because it could not be made.\<close>

definition enqueue_resource ::
  "ident_env \<Rightarrow> string \<Rightarrow> string \<Rightarrow> operation_type \<Rightarrow> (odb, resource option) io" where
  "enqueue_resource E resource_type source_resource_id op =
     (let get = resource_get_by_type_and_master_id admin_context resource_type source_resource_id;
          create = resource_create E admin_context resource_type None source_resource_id
      in if op \<in> {OPERATION_TYPE_CREATE, OPERATION_TYPE_PATCH} then
           bnd (outcome create) (\<lambda>r. case r of
             Inr x \<Rightarrow> ret (Some x)
           | Inl e \<Rightarrow> if e = DBDuplicateEntry then bnd get (\<lambda>x. ret (Some x))
                      else if is_Exception e then ret None else raise e)
         else
           bnd (outcome get) (\<lambda>r. case r of
             Inr x \<Rightarrow> ret (Some x)
           | Inl e \<Rightarrow> if e = Dcorch ResourceNotFound then bnd create (\<lambda>x. ret (Some x))
                      else raise e))"

definition enqueue_requests ::
  "ident_env \<Rightarrow> nat \<Rightarrow> o_subcloud list \<Rightarrow> (odb, unit) io" where
  "enqueue_requests E job_id scs =
     for_each (\<lambda>sc. seq (orch_request_create E admin_context job_id (os_region_name sc) None
        [SetState ORCH_REQUEST_QUEUED]) (ret ())) scs"

definition enqueue_work ::
  "ident_env \<Rightarrow> string \<Rightarrow> string \<Rightarrow> string \<Rightarrow> operation_type \<Rightarrow> string option \<Rightarrow>
   o_subcloud option \<Rightarrow> (odb, unit) io" where
  "enqueue_work E endpoint_type resource_type source_resource_id op resource_info subcloud =
     bnd (enqueue_resource E resource_type source_resource_id op) (\<lambda>r. case r of
       None \<Rightarrow> ret ()
     | Some rsrc \<Rightarrow>
         bnd (orch_job_create E admin_context (rs_id rsrc) endpoint_type op None
                source_resource_id resource_info) (\<lambda>job.
         bnd (case subcloud of Some sc \<Rightarrow> ret [sc] | None \<Rightarrow> all_subclouds E)
           (enqueue_requests E (oj_id job))))"

section \<open>The lock decorator\<close>

text \<open>\<open>subcloud_lock.py\<close>: the function runs, and the lock is released on every exit, when the lock
  could be taken; otherwise nothing happens. A lock that another engine took between the query
  and the commit is reported by the database as a duplicate.\<close>

definition sync_lock_acquire :: "string \<Rightarrow> string \<Rightarrow> string \<Rightarrow> string \<Rightarrow> (odb, bool) io" where
  "sync_lock_acquire engine_id subcloud_name endpoint_type action =
     try_catch (db_sync_lock_acquire engine_id subcloud_name endpoint_type action)
       (\<lambda>e. if e = DBDuplicateEntry then ret False else raise e)"

definition sync_lock_release :: "string \<Rightarrow> string \<Rightarrow> string \<Rightarrow> string \<Rightarrow> (odb, unit) io" where
  "sync_lock_release engine_id subcloud_name endpoint_type action =
     db_sync_lock_release subcloud_name endpoint_type action"

definition sync_subcloud_lock ::
  "((odb, bool) io \<Rightarrow> ('s, bool) io) \<Rightarrow> ((odb, unit) io \<Rightarrow> ('s, unit) io) \<Rightarrow>
   string \<Rightarrow> string \<Rightarrow> string \<Rightarrow> string \<Rightarrow> ('s, unit) io \<Rightarrow> ('s, unit) io" where
  "sync_subcloud_lock lift_b lift_u engine_id subcloud_name endpoint_type action f =
     bnd (lift_b (sync_lock_acquire engine_id subcloud_name endpoint_type action)) (\<lambda>got.
     if got then finally_do f (lift_u (sync_lock_release engine_id subcloud_name endpoint_type action))
     else ret ())"

end
