(* ===== verification/DO_Sync.thy ===== *)
theory DO_Sync
  imports DO_Objects
begin

text \<open>
  \<open>dcorch/engine/sync_thread.py\<close>, the class \<open>SyncThread\<close> up to its method \<open>sync\<close>. An object is
  the pair of a subcloud's name and an endpoint type; what a subclass overrides is a table of
  methods, \<open>sync_class\<close>. The engine's state is its database, the statuses cast to \<open>dcmanager\<close>,
  the class variable with the cached master resources, the manager's dictionary of sync objects
  and its threads, and the state of the outside world the methods act on.
\<close>

section \<open>The engine\<close>

text \<open>A resource as a cloud reports it: its identity and its attributes, those of an object it
  contains by their path, like \<open>local_user.name\<close>, and those that are lists apart. Where the id is
  a number, \<open>xr_number\<close> is that number and \<open>xr_id\<close> its text.\<close>

type_synonym attrs = "(string \<times> string option) list"

record ext_resource =
  xr_id :: string
  xr_attrs :: attrs
  xr_lists :: "(string \<times> string list) list"
  xr_number :: "int option"

text \<open>\<open>d.get(k)\<close> on a dictionary, and an attribute of a resource, which may be None.\<close>

definition aget :: "attrs \<Rightarrow> string \<Rightarrow> string option" where
  "aget d k = (case map_of d k of None \<Rightarrow> None | Some v \<Rightarrow> v)"

definition has_attr :: "ext_resource \<Rightarrow> string \<Rightarrow> bool" where
  "has_attr x k \<longleftrightarrow> map_of (xr_attrs x) k \<noteq> None"

definition attr :: "ext_resource \<Rightarrow> string \<Rightarrow> string option" where
  "attr x k = aget (xr_attrs x) k"

record report =
  rp_subcloud :: string
  rp_endpoint_type :: string
  rp_status :: sync_status
  rp_alarmable :: bool

text \<open>A greenthread for an endpoint of a subcloud: spawned, or over with the exception its \<open>wait()\<close>
  raises.\<close>

datatype gthread = Spawned string string | Ended "exn option"

record 'x engine =
  eg_db :: odb
  eg_reports :: "report list"
  eg_master :: "string \<rightharpoonup> ext_resource list"
  eg_sync_objs :: "(string \<times> string list) list"
  eg_threads :: "gthread list"
  eg_audit_threads :: "gthread list"
  eg_initial_threads :: "(string \<times> gthread) list"
  eg_timers :: "string list"
  eg_ext :: 'x

definition odo :: "(odb, 'a) io \<Rightarrow> ('x engine, 'a) io" where
  "odo m = (\<lambda>s. case m (eg_db s) of (r, d) \<Rightarrow> (r, s\<lparr>eg_db := d\<rparr>))"

lemma odo_apply: "odo m s = (fst (m (eg_db s)), s\<lparr>eg_db := snd (m (eg_db s))\<rparr>)"
  by (simp add: odo_def split: prod.splits)

lemma odo_run: "m (eg_db s) = (r, d) \<Longrightarrow> odo m s = (r, s\<lparr>eg_db := d\<rparr>)"
  by (simp add: odo_def)

lemma keeps_odo [keeps_intros]: "keeps I m \<Longrightarrow> keeps (\<lambda>s. I (eg_db s)) (odo m)"
  by (simp add: keeps_def odo_apply)

section \<open>Classes of sync threads\<close>

record sync_thread =
  th_subcloud_name :: string
  th_endpoint_type :: string

datatype audited = FromDb resource | FromCloud ext_resource

datatype finding = AUDIT_RESOURCE_MISSING | AUDIT_RESOURCE_EXTRA

type_synonym 'x handler = "orch_request \<Rightarrow> orch_job \<Rightarrow> resource \<Rightarrow> ('x engine, unit) io"

record 'x sync_class =
  cl_handlers :: "string \<Rightarrow> 'x handler option"
  cl_audit_resources :: "string list"
  cl_initial_sync :: "('x engine, bool) io"
  cl_post_audit :: "('x engine, unit) io"
  cl_own_resources ::
    "string \<Rightarrow> ('x engine, (ext_resource list \<times> resource list \<times> ext_resource list) option) io option"
  cl_get_subcloud_resources :: "string \<Rightarrow> ('x engine, ext_resource list option) io"
  cl_get_master_resources :: "string \<Rightarrow> ('x engine, ext_resource list option) io"
  cl_same_resource :: "string \<Rightarrow> ext_resource \<Rightarrow> ext_resource \<Rightarrow> ('x engine, bool) io"
  cl_map_subcloud_resource ::
    "string \<Rightarrow> ext_resource \<Rightarrow> resource option \<Rightarrow> ext_resource list \<Rightarrow> ('x engine, bool) io"
  cl_update_resource_refs :: "string \<Rightarrow> ext_resource \<Rightarrow> ('x engine, ext_resource) io"
  cl_audit_dependants :: "string \<Rightarrow> ext_resource \<Rightarrow> ext_resource option \<Rightarrow> ('x engine, nat) io"
  cl_audit_discrepancy :: "string \<Rightarrow> ext_resource \<Rightarrow> ext_resource list \<Rightarrow> ('x engine, bool) io"
  cl_get_resource_id :: "string \<Rightarrow> audited \<Rightarrow> ('x engine, string) io"
  cl_get_resource_info :: "string \<Rightarrow> audited \<Rightarrow> operation_type \<Rightarrow> ('x engine, string option) io"
  cl_resource_exists_in_subcloud :: "subcloud_resource \<Rightarrow> ext_resource list \<Rightarrow> ('x engine, bool) io"
  cl_audit_action :: "string \<Rightarrow> finding \<Rightarrow> audited \<Rightarrow> ('x engine, nat) io"

section \<open>The object's view of the database\<close>

definition should_exit :: "sync_thread \<Rightarrow> ('x engine, bool) io" where
  "should_exit th = try_catch
     (seq (odo (subcloud_sync_get (th_subcloud_name th) (th_endpoint_type th))) (ret False))
     (\<lambda>e. case e of Dcorch (SubcloudSyncNotFound _ _) \<Rightarrow> ret True | _ \<Rightarrow> raise e)"

definition th_is_managed :: "ident_env \<Rightarrow> sync_thread \<Rightarrow> ('x engine, bool) io" where
  "th_is_managed E th = bnd (odo (subcloud_by_name E (th_subcloud_name th))) (\<lambda>sc.
     ret (os_management_state sc = Some MANAGEMENT_MANAGED))"

definition th_is_enabled :: "ident_env \<Rightarrow> sync_thread \<Rightarrow> ('x engine, bool) io" where
  "th_is_enabled E th = bnd (odo (subcloud_by_name E (th_subcloud_name th))) (\<lambda>sc.
     ret (os_availability_status sc = AVAILABILITY_ONLINE \<and>
          os_initial_sync_state sc = INITIAL_SYNC_STATE_COMPLETED))"

text \<open>The record of a resource's copy in this subcloud. When the subcloud is unknown the
  exception is not the one caught.\<close>

definition get_db_subcloud_resource ::
  "ident_env \<Rightarrow> sync_thread \<Rightarrow> nat \<Rightarrow> ('x engine, subcloud_resource option) io" where
  "get_db_subcloud_resource E th rsrc_id =
     bnd (odo (subcloud_by_name E (th_subcloud_name th))) (\<lambda>sc.
     try_catch
       (bnd (odo (subcloud_resource_get_by_resource_and_subcloud admin_context rsrc_id (os_id sc)))
          (\<lambda>r. ret (Some r)))
       (\<lambda>e. case e of Dcorch (SubcloudResourceNotFound _) \<Rightarrow> ret None | _ \<Rightarrow> raise e))"

definition persist_db_subcloud_resource ::
  "ident_env \<Rightarrow> sync_thread \<Rightarrow> nat \<Rightarrow> string \<Rightarrow> ('x engine, string) io" where
  "persist_db_subcloud_resource E th db_rsrc_id subcloud_rsrc_id =
     bnd (get_db_subcloud_resource E th db_rsrc_id) (\<lambda>found. case found of
       None \<Rightarrow>
         bnd (odo (subcloud_by_name E (th_subcloud_name th))) (\<lambda>sc.
         bnd (odo (subcloud_resource_create E admin_context (os_id sc) db_rsrc_id None subcloud_rsrc_id))
           (\<lambda>r. ret (sr_subcloud_resource_id r)))
     | Some r \<Rightarrow>
         if sr_subcloud_resource_id r \<noteq> subcloud_rsrc_id then
           bnd (odo (subcloud_resource_update admin_context (sr_id r) subcloud_rsrc_id))
             (\<lambda>r. ret (sr_subcloud_resource_id r))
         else ret (sr_subcloud_resource_id r))"

section \<open>Reporting the status\<close>

definition log_report :: "report \<Rightarrow> ('x engine, unit) io" where
  "log_report r = modify (\<lambda>s. s\<lparr>eg_reports := eg_reports s @ [r]\<rparr>)"

text \<open>A status is reported for a managed subcloud unless the same one was reported in the last
  hour.\<close>

definition recently_reported :: "sync_status \<Rightarrow> subcloud_sync \<Rightarrow> int \<Rightarrow> bool" where
  "recently_reported st r now \<longleftrightarrow>
     (case sy_sync_status_report_time r of None \<Rightarrow> False
      | Some t \<Rightarrow> now - t < 3600 \<and> sy_sync_status_reported r = Some st)"

definition set_sync_status ::
  "ident_env \<Rightarrow> sync_thread \<Rightarrow> sync_status \<Rightarrow> bool \<Rightarrow> ('x engine, unit) io" where
  "set_sync_status E th st alarmable =
     bnd (th_is_managed E th) (\<lambda>managed.
     if \<not> managed then ret ()
     else
       bnd (odo (subcloud_sync_get (th_subcloud_name th) (th_endpoint_type th))) (\<lambda>r.
       bnd (gets (\<lambda>s. od_now (eg_db s))) (\<lambda>now.
       if recently_reported st r now then ret ()
       else
         seq (log_report \<lparr>rp_subcloud = th_subcloud_name th, rp_endpoint_type = th_endpoint_type th,
                rp_status = st, rp_alarmable = alarmable\<rparr>)
         (bnd (gets (\<lambda>s. od_now (eg_db s))) (\<lambda>now.
          odo (subcloud_sync_update (th_subcloud_name th) (th_endpoint_type th)
            [SetReported (Some st), SetReportTime (Some now)]))))))"

section \<open>Handling a request\<close>

definition sync_resource ::
  "'x sync_class \<Rightarrow> orch_request \<Rightarrow> orch_job \<Rightarrow> ('x engine, unit) io" where
  "sync_resource c r j =
     bnd (odo (resource_get_by_id admin_context (oj_resource_id j))) (\<lambda>rsrc.
     case cl_handlers c (rs_resource_type rsrc) of
       None \<Rightarrow> raise KeyError
     | Some handler \<Rightarrow> handler r j rsrc)"

definition MAX_RETRY :: nat where
  "MAX_RETRY = 3"

definition save_request ::
  "orch_request \<Rightarrow> orch_request_value list \<Rightarrow> ('x engine, orch_request) io" where
  "save_request r changes = odo (request_save r changes)"

text \<open>What is done on success, inside the same \<open>try\<close>: the request is completed and soft-deleted.\<close>

definition sync_and_complete ::
  "'x sync_class \<Rightarrow> orch_request \<Rightarrow> orch_job \<Rightarrow> ('x engine, unit) io" where
  "sync_and_complete c r j =
     seq (sync_resource c r j)
     (bnd (gets (\<lambda>s. od_now (eg_db s))) (\<lambda>now.
      seq (save_request r [SetState ORCH_REQUEST_COMPLETED, SetDeleted 1, SetDeletedAt now])
        (ret ())))"

text \<open>The \<open>while retry_count < MAX_RETRY\<close> loop: its argument is the number of tries left. The result
  is the flag \<open>request_aborted\<close> and whether the endpoint is still reachable: \<open>EndpointNotReachable\<close>
  is caught around the loop over the requests, which keeps the flag.\<close>

fun try_request ::
  "'x sync_class \<Rightarrow> nat \<Rightarrow> orch_request \<Rightarrow> orch_job \<Rightarrow> bool \<Rightarrow> ('x engine, bool \<times> bool) io" where
  "try_request c 0 r j aborted = ret (aborted, True)"
| "try_request c (Suc n) r j aborted =
     bnd (outcome (sync_and_complete c r j)) (\<lambda>out. case out of
       Inr _ \<Rightarrow> ret (aborted, True)
     | Inl (Dcorch (OrchRequestNotFound _)) \<Rightarrow> ret (aborted, True)
     | Inl (Dcorch SyncRequestTimeout) \<Rightarrow>
         bnd (save_request r [SetTryCount (Suc (or_try_count r))]) (\<lambda>r'.
         if n = 0 then ret (aborted, False) else try_request c n r' j aborted)
     | Inl (Dcorch SyncRequestFailedRetry) \<Rightarrow>
         bnd (save_request r [SetTryCount (Suc (or_try_count r)), SetState ORCH_REQUEST_FAILED]) (\<lambda>r'.
         try_request c n r' j aborted)
     | Inl (Dcorch SyncRequestFailed) \<Rightarrow>
         seq (save_request r [SetState ORCH_REQUEST_FAILED]) (ret (aborted, True))
     | Inl (Dcorch SyncRequestAbortedBySystem) \<Rightarrow>
         seq (save_request r [SetState ORCH_REQUEST_FAILED]) (ret (True, True))
     | Inl (Dcorch EndpointNotReachable) \<Rightarrow> ret (aborted, False)
     | Inl e \<Rightarrow> raise e)"

definition request_allowed :: "ident_env \<Rightarrow> sync_thread \<Rightarrow> ('x engine, bool) io" where
  "request_allowed E th = bnd (th_is_enabled E th) (\<lambda>en.
     if \<not> en then ret False else bnd (should_exit th) (\<lambda>ex. ret (\<not> ex)))"

text \<open>The loop over the requests. The result is \<open>request_aborted\<close>.\<close>

fun sync_requests ::
  "ident_env \<Rightarrow> 'x sync_class \<Rightarrow> sync_thread \<Rightarrow> (orch_request \<times> orch_job) list \<Rightarrow> bool \<Rightarrow>
   ('x engine, bool) io" where
  "sync_requests E c th [] aborted = ret aborted"
| "sync_requests E c th ((r, j) # rs) aborted =
     bnd (request_allowed E th) (\<lambda>ok.
     if \<not> ok then ret aborted
     else
       bnd (outcome (save_request r [SetState ORCH_REQUEST_IN_PROGRESS])) (\<lambda>out. case out of
         Inl (Dcorch (OrchRequestNotFound _)) \<Rightarrow> sync_requests E c th rs aborted
       | Inl e \<Rightarrow> raise e
       | Inr r' \<Rightarrow>
           bnd (try_request c MAX_RETRY r' j aborted) (\<lambda>(aborted, reachable).
           if reachable then sync_requests E c th rs aborted else ret aborted)))"

section \<open>The synchronisation of a subcloud's endpoint\<close>

definition PENDING_SYNC_REQUEST_STATES :: "request_state list" where
  "PENDING_SYNC_REQUEST_STATES =
     [ORCH_REQUEST_QUEUED, ORCH_REQUEST_IN_PROGRESS, ORCH_REQUEST_FAILED]"

definition FERNET_REPO_MASTER_ID :: string where
  "FERNET_REPO_MASTER_ID = ''keys''"

definition pending_requests ::
  "sync_thread \<Rightarrow> ('x engine, (orch_request \<times> orch_job) list) io" where
  "pending_requests th = odo (orch_request_get_by_attrs admin_context (th_endpoint_type th) None
     (Some (th_subcloud_name th)) (Some PENDING_SYNC_REQUEST_STATES))"

text \<open>The requests that are tried: failed ones only count for the status.\<close>

definition actual_requests ::
  "(orch_request \<times> orch_job) list \<Rightarrow> (orch_request \<times> orch_job) list" where
  "actual_requests rs = filter (\<lambda>(r, j). or_state r \<noteq> Some ORCH_REQUEST_FAILED) rs"

definition alarmable_requests :: "(orch_request \<times> orch_job) list \<Rightarrow> bool" where
  "alarmable_requests rs \<longleftrightarrow> list_ex (\<lambda>(r, j). or_state r = Some ORCH_REQUEST_FAILED \<or>
     oj_source_resource_id j \<noteq> FERNET_REPO_MASTER_ID) rs"

text \<open>The status at the end, from the status at the start, whether requests are pending and
  whether one was aborted; None when nothing is reported.\<close>

definition final_status :: "sync_status \<Rightarrow> bool \<Rightarrow> bool \<Rightarrow> sync_status option" where
  "final_status start pending aborted =
     (if pending \<and> start \<noteq> SYNC_STATUS_OUT_OF_SYNC then Some SYNC_STATUS_OUT_OF_SYNC
      else if pending \<and> aborted then
        (if start \<noteq> SYNC_STATUS_OUT_OF_SYNC then Some SYNC_STATUS_OUT_OF_SYNC else None)
      else if start \<noteq> SYNC_STATUS_IN_SYNC then Some SYNC_STATUS_IN_SYNC
      else None)"

definition report_final ::
  "ident_env \<Rightarrow> sync_thread \<Rightarrow> sync_status \<Rightarrow> bool \<Rightarrow> ('x engine, unit) io" where
  "report_final E th start aborted =
     bnd (pending_requests th) (\<lambda>rs.
     case final_status start (rs \<noteq> []) aborted of
       None \<Rightarrow> ret ()
     | Some st \<Rightarrow> set_sync_status E th st True)"

definition sync ::
  "ident_env \<Rightarrow> 'x sync_class \<Rightarrow> sync_thread \<Rightarrow> ('x engine, unit) io" where
  "sync E c th =
     bnd (pending_requests th) (\<lambda>rs.
     if rs = [] then set_sync_status E th SYNC_STATUS_IN_SYNC True
     else
       seq (set_sync_status E th SYNC_STATUS_OUT_OF_SYNC (alarmable_requests rs))
       (if actual_requests rs = [] then ret ()
        else
          bnd (th_is_enabled E th) (\<lambda>en.
          if \<not> en then ret ()
          else
            bnd (sync_requests E c th (actual_requests rs) False)
              (report_final E th SYNC_STATUS_OUT_OF_SYNC))))"

end
