(* ===== verification/DO_SyncAudit.thy ===== *)
theory DO_SyncAudit
  imports DO_Sync
begin

text \<open>
  \<open>dcorch/engine/sync_thread.py\<close>, the audit: the resources of the master cloud are compared with
  those recorded in the database and those of the subcloud, and work is enqueued for what is
  missing in the subcloud and for what is there but no longer in the master cloud. At the end
  the methods the base class gives a default for, which together are \<open>base_sync_class\<close>.
\<close>

record audit_cfg =
  ac_ident :: ident_env
  ac_disabled :: "string list"

section \<open>Resources\<close>

text \<open>\<open>get_resource_id\<close>: the master id of a database row, the id of anything else.\<close>

definition base_get_resource_id :: "string \<Rightarrow> audited \<Rightarrow> string" where
  "base_get_resource_id resource_type a =
     (case a of FromDb r \<Rightarrow> rs_master_id r | FromCloud x \<Rightarrow> xr_id x)"

definition get_db_master_resources ::
  "ident_env \<Rightarrow> string \<Rightarrow> ('x engine, resource list) io" where
  "get_db_master_resources E resource_type =
     odo (resource_get_all E admin_context (Some resource_type))"

definition get_cached_master_resources ::
  "'x sync_class \<Rightarrow> string \<Rightarrow> ('x engine, ext_resource list option) io" where
  "get_cached_master_resources c resource_type =
     bnd (gets (\<lambda>s. eg_master s resource_type)) (\<lambda>cached. case cached of
       Some rs \<Rightarrow> ret (Some rs)
     | None \<Rightarrow>
         bnd (cl_get_master_resources c resource_type) (\<lambda>m. case m of
           None \<Rightarrow> ret None
         | Some rs \<Rightarrow> seq (modify (\<lambda>s. s\<lparr>eg_master := (eg_master s)(resource_type \<mapsto> rs)\<rparr>)) (ret (Some rs))))"

text \<open>\<open>get_all_resources\<close>: the resources of the master, of the database and of the subcloud, which
  is asked first; None when the subcloud or the master does not answer, and the audit ends. A class
  may have its own way for some types.\<close>

definition base_get_all_resources ::
  "ident_env \<Rightarrow> 'x sync_class \<Rightarrow> string \<Rightarrow>
   ('x engine, (ext_resource list \<times> resource list \<times> ext_resource list) option) io" where
  "base_get_all_resources E c resource_type =
     bnd (cl_get_subcloud_resources c resource_type) (\<lambda>sc. case sc of
       None \<Rightarrow> ret None
     | Some sc_resources \<Rightarrow>
         bnd (get_db_master_resources E resource_type) (\<lambda>db_resources.
         bnd (get_cached_master_resources c resource_type) (\<lambda>m. case m of
           None \<Rightarrow> ret None
         | Some m_resources \<Rightarrow> ret (Some (m_resources, db_resources, sc_resources)))))"

definition get_all_resources ::
  "ident_env \<Rightarrow> 'x sync_class \<Rightarrow> string \<Rightarrow>
   ('x engine, (ext_resource list \<times> resource list \<times> ext_resource list) option) io" where
  "get_all_resources E c resource_type =
     (case cl_own_resources c resource_type of
        Some m \<Rightarrow> m
      | None \<Rightarrow> base_get_all_resources E c resource_type)"

section \<open>What is missing in the subcloud\<close>

text \<open>The database row of a master resource is taken out of the list.\<close>

fun take_db_resource :: "string \<Rightarrow> resource list \<Rightarrow> resource option \<times> resource list" where
  "take_db_resource master_id [] = (None, [])"
| "take_db_resource master_id (r # rs) =
     (if rs_master_id r = master_id then (Some r, rs)
      else case take_db_resource master_id rs of (found, rest) \<Rightarrow> (found, r # rest))"

text \<open>The loop over the subcloud's resources: the number of jobs its dependants need when the
  same resource is found, None when it is not.\<close>

fun find_same ::
  "'x sync_class \<Rightarrow> string \<Rightarrow> ext_resource \<Rightarrow> ext_resource \<Rightarrow> string \<Rightarrow> ext_resource list \<Rightarrow>
   ('x engine, nat option) io" where
  "find_same c resource_type m_r m_r_updated wanted [] = ret None"
| "find_same c resource_type m_r m_r_updated wanted (sc_r # rs) =
     bnd (cl_get_resource_id c resource_type (FromCloud sc_r)) (\<lambda>sc_id.
     if sc_id = wanted then
       bnd (cl_same_resource c resource_type m_r_updated sc_r) (\<lambda>same.
       if same then bnd (cl_audit_dependants c resource_type m_r (Some sc_r)) (\<lambda>n. ret (Some n))
       else find_same c resource_type m_r m_r_updated wanted rs)
     else find_same c resource_type m_r m_r_updated wanted rs)"

text \<open>A master resource whose row is in the database: the jobs counted so far and whether it is
  missing; None where the loop goes on with the next resource.\<close>

definition check_known ::
  "ident_env \<Rightarrow> 'x sync_class \<Rightarrow> sync_thread \<Rightarrow> string \<Rightarrow> ext_resource \<Rightarrow> resource \<Rightarrow>
   ext_resource list \<Rightarrow> ('x engine, (nat \<times> bool) option) io" where
  "check_known E c th resource_type m_r m_rsrc_db sc_resources =
     bnd (outcome (cl_update_resource_refs c resource_type m_r)) (\<lambda>out. case out of
       Inl (Dcorch (SubcloudResourceNotFound _)) \<Rightarrow> ret None
     | Inl e \<Rightarrow> raise e
     | Inr m_r_updated \<Rightarrow>
         bnd (get_db_subcloud_resource E th (rs_id m_rsrc_db)) (\<lambda>copy. case copy of
           Some db_sc \<Rightarrow>
             if \<not> is_managed db_sc then ret None
             else
               bnd (find_same c resource_type m_r m_r_updated (sr_subcloud_resource_id db_sc)
                      sc_resources) (\<lambda>same. case same of
                 Some n \<Rightarrow> ret (Some (n, False))
               | None \<Rightarrow>
                   bnd (cl_audit_discrepancy c resource_type m_r sc_resources) (\<lambda>missing.
                   ret (Some (0, missing))))
         | None \<Rightarrow>
             bnd (cl_map_subcloud_resource c resource_type m_r_updated (Some m_rsrc_db) sc_resources)
               (\<lambda>mapped. if mapped then ret None else ret (Some (0, True)))))"

definition check_unknown ::
  "'x sync_class \<Rightarrow> string \<Rightarrow> ext_resource \<Rightarrow> ext_resource list \<Rightarrow>
   ('x engine, (nat \<times> bool) option) io" where
  "check_unknown c resource_type m_r sc_resources =
     bnd (cl_map_subcloud_resource c resource_type m_r None sc_resources) (\<lambda>mapped.
     if mapped then ret None else ret (Some (0, True)))"

definition act_on_missing ::
  "'x sync_class \<Rightarrow> string \<Rightarrow> ext_resource \<Rightarrow> ('x engine, nat) io" where
  "act_on_missing c resource_type m_r =
     bnd (cl_audit_action c resource_type AUDIT_RESOURCE_MISSING (FromCloud m_r)) (\<lambda>n.
     bnd (cl_audit_dependants c resource_type m_r None) (\<lambda>k. ret (n + k)))"

text \<open>The loop over the master resources: the number of jobs and the rows that are left, those of
  resources that are not in the master cloud.\<close>

fun audit_find_missing ::
  "ident_env \<Rightarrow> 'x sync_class \<Rightarrow> sync_thread \<Rightarrow> string \<Rightarrow> ext_resource list \<Rightarrow> resource list \<Rightarrow>
   ext_resource list \<Rightarrow> string list \<Rightarrow> nat \<Rightarrow> ('x engine, nat \<times> resource list) io" where
  "audit_find_missing E c th resource_type [] dbs scs aborts jobs = ret (jobs, dbs)"
| "audit_find_missing E c th resource_type (m_r # ms) dbs scs aborts jobs =
     bnd (cl_get_resource_id c resource_type (FromCloud m_r)) (\<lambda>master_id.
     if master_id \<in> set aborts then
       audit_find_missing E c th resource_type ms dbs scs aborts (Suc jobs)
     else
       (case take_db_resource master_id dbs of (found, dbs') \<Rightarrow>
          bnd (case found of
                 Some row \<Rightarrow> check_known E c th resource_type m_r row scs
               | None \<Rightarrow> check_unknown c resource_type m_r scs) (\<lambda>verdict. case verdict of
            None \<Rightarrow> audit_find_missing E c th resource_type ms dbs' scs aborts jobs
          | Some (n, missing) \<Rightarrow>
              bnd (if missing then act_on_missing c resource_type m_r else ret 0) (\<lambda>k.
              audit_find_missing E c th resource_type ms dbs' scs aborts (jobs + n + k)))))"

section \<open>What is no longer in the master cloud\<close>

fun audit_find_extra ::
  "ident_env \<Rightarrow> 'x sync_class \<Rightarrow> sync_thread \<Rightarrow> string \<Rightarrow> resource list \<Rightarrow> ext_resource list \<Rightarrow>
   string list \<Rightarrow> nat \<Rightarrow> ('x engine, nat) io" where
  "audit_find_extra E c th resource_type [] scs aborts jobs = ret jobs"
| "audit_find_extra E c th resource_type (row # rs) scs aborts jobs =
     (if rs_master_id row = [] then audit_find_extra E c th resource_type rs scs aborts jobs
      else if rs_master_id row \<in> set aborts then
        audit_find_extra E c th resource_type rs scs aborts (Suc jobs)
      else
        bnd (get_db_subcloud_resource E th (rs_id row)) (\<lambda>copy. case copy of
          None \<Rightarrow> audit_find_extra E c th resource_type rs scs aborts jobs
        | Some sc \<Rightarrow>
            if \<not> is_managed sc then audit_find_extra E c th resource_type rs scs aborts jobs
            else
              bnd (cl_resource_exists_in_subcloud c sc scs) (\<lambda>there.
              if \<not> there then audit_find_extra E c th resource_type rs scs aborts jobs
              else
                bnd (cl_audit_action c resource_type AUDIT_RESOURCE_EXTRA (FromDb row)) (\<lambda>n.
                audit_find_extra E c th resource_type rs scs aborts (jobs + n)))))"

section \<open>The audit of an endpoint\<close>

definition outstanding_requests ::
  "sync_thread \<Rightarrow> string \<Rightarrow> ('x engine, (orch_request \<times> orch_job) list) io" where
  "outstanding_requests th resource_type = odo (orch_request_get_by_attrs admin_context
     (th_endpoint_type th) (Some resource_type) (Some (th_subcloud_name th))
     (Some [ORCH_REQUEST_QUEUED, ORCH_REQUEST_IN_PROGRESS]))"

text \<open>An exception that the audit of a type logs and drops leaves the jobs counted before it.\<close>

definition or_else :: "('x engine, 'a) io \<Rightarrow> ('x engine, 'b) io \<Rightarrow> ('a \<Rightarrow> ('x engine, 'b) io) \<Rightarrow> ('x engine, 'b) io" where
  "or_else m dflt k = bnd (outcome m) (\<lambda>out. case out of
     Inr x \<Rightarrow> k x
   | Inl e \<Rightarrow> if is_Exception e then dflt else raise e)"

text \<open>The audit of one resource type: None where \<open>sync_audit\<close> returns.\<close>

definition audit_type ::
  "ident_env \<Rightarrow> 'x sync_class \<Rightarrow> sync_thread \<Rightarrow> string \<Rightarrow> ('x engine, nat option) io" where
  "audit_type E c th resource_type =
     bnd (outstanding_requests th resource_type) (\<lambda>reqs.
     let aborts = map (\<lambda>(r, j). oj_source_resource_id j) reqs
     in or_else (get_all_resources E c resource_type) (ret (Some 0)) (\<lambda>all. case all of
          None \<Rightarrow> ret None
        | Some (ms, dbs, scs) \<Rightarrow>
            or_else (audit_find_missing E c th resource_type ms dbs scs aborts 0) (ret (Some 0))
              (\<lambda>(n, rest).
               or_else (audit_find_extra E c th resource_type rest scs aborts 0) (ret (Some n))
                 (\<lambda>k. ret (Some (n + k))))))"

fun audit_types ::
  "ident_env \<Rightarrow> 'x sync_class \<Rightarrow> sync_thread \<Rightarrow> string list \<Rightarrow> nat \<Rightarrow> ('x engine, nat option) io" where
  "audit_types E c th [] jobs_total = ret (Some jobs_total)"
| "audit_types E c th (t # ts) jobs_total =
     bnd (request_allowed E th) (\<lambda>ok.
     if \<not> ok then ret None
     else bnd (audit_type E c th t) (\<lambda>n. case n of
            None \<Rightarrow> ret None
          | Some k \<Rightarrow> audit_types E c th ts (jobs_total + k)))"

definition request_sync :: "string \<Rightarrow> string \<Rightarrow> ('x engine, unit) io" where
  "request_sync subcloud_name endpoint_type =
     odo (subcloud_sync_update subcloud_name endpoint_type [SetSyncRequest SYNC_STATUS_REQUESTED])"

definition sync_audit :: "ident_env \<Rightarrow> 'x sync_class \<Rightarrow> sync_thread \<Rightarrow> ('x engine, unit) io" where
  "sync_audit E c th =
     bnd (odo (orch_request_get_most_recent_failed_request admin_context)) (\<lambda>recent.
     bnd (audit_types E c th (cl_audit_resources c) 0) (\<lambda>jobs_total. case jobs_total of
       None \<Rightarrow> ret ()
     | Some jobs \<Rightarrow>
         seq (case recent of
                None \<Rightarrow> ret ()
              | Some r \<Rightarrow> except_Exception
                  (odo (orch_request_delete_previous_failed_requests admin_context (or_updated_at r)))
                  (\<lambda>_. ret ()))
         (seq (if jobs = 0 then ret () else request_sync (th_subcloud_name th) (th_endpoint_type th))
         (seq (request_sync (th_subcloud_name th) (th_endpoint_type th))
           (cl_post_audit c)))))"

definition thread_run_sync_audit ::
  "audit_cfg \<Rightarrow> 'x sync_class \<Rightarrow> sync_thread \<Rightarrow> ('x engine, unit) io" where
  "thread_run_sync_audit cfg c th =
     (if th_endpoint_type th \<in> set (ac_disabled cfg) then ret () else sync_audit (ac_ident cfg) c th)"

definition thread_enable :: "audit_cfg \<Rightarrow> 'x sync_class \<Rightarrow> sync_thread \<Rightarrow> ('x engine, unit) io" where
  "thread_enable cfg c th = thread_run_sync_audit cfg c th"

section \<open>The methods of the base class\<close>

definition schedule_work ::
  "ident_env \<Rightarrow> sync_thread \<Rightarrow> string \<Rightarrow> string \<Rightarrow> string \<Rightarrow> operation_type \<Rightarrow> string option \<Rightarrow>
   ('x engine, unit) io" where
  "schedule_work E th endpoint_type resource_type source_resource_id op resource_info =
     except_Exception
       (bnd (odo (subcloud_by_name E (th_subcloud_name th))) (\<lambda>sc.
        odo (enqueue_work E endpoint_type resource_type source_resource_id op resource_info (Some sc))))
       (\<lambda>_. ret ())"

definition base_audit_action ::
  "ident_env \<Rightarrow> sync_thread \<Rightarrow> (string \<Rightarrow> audited \<Rightarrow> ('x engine, string) io) \<Rightarrow>
   (string \<Rightarrow> audited \<Rightarrow> operation_type \<Rightarrow> ('x engine, string option) io) \<Rightarrow>
   string \<Rightarrow> finding \<Rightarrow> audited \<Rightarrow> ('x engine, nat) io" where
  "base_audit_action E th get_id get_info resource_type finding a =
     bnd (get_id resource_type a) (\<lambda>resource_id. case finding of
         AUDIT_RESOURCE_MISSING \<Rightarrow>
           bnd (get_info resource_type a OPERATION_TYPE_CREATE) (\<lambda>info.
           seq (schedule_work E th (th_endpoint_type th) resource_type resource_id
                  OPERATION_TYPE_CREATE info) (ret 1))
       | AUDIT_RESOURCE_EXTRA \<Rightarrow>
           seq (schedule_work E th (th_endpoint_type th) resource_type resource_id
                  OPERATION_TYPE_DELETE None) (ret 1))"

text \<open>The default only checks whether the subcloud is still there.\<close>

definition base_audit_dependants ::
  "ident_env \<Rightarrow> sync_thread \<Rightarrow> string \<Rightarrow> ext_resource \<Rightarrow> ext_resource option \<Rightarrow> ('x engine, nat) io" where
  "base_audit_dependants E th resource_type m_r sc_r = bnd (request_allowed E th) (\<lambda>_. ret 0)"

definition base_post_audit :: "('x engine, unit) io" where
  "base_post_audit = modify (\<lambda>s. s\<lparr>eg_master := Map.empty\<rparr>)"

definition base_sync_class :: "ident_env \<Rightarrow> sync_thread \<Rightarrow> 'x sync_class" where
  "base_sync_class E th = \<lparr>
     cl_handlers = Map.empty,
     cl_audit_resources = [],
     cl_initial_sync = ret True,
     cl_post_audit = base_post_audit,
     cl_own_resources = (\<lambda>_. None),
     cl_get_subcloud_resources = (\<lambda>_. ret None),
     cl_get_master_resources = (\<lambda>_. ret None),
     cl_same_resource = (\<lambda>_ _ _. ret True),
     cl_map_subcloud_resource = (\<lambda>_ _ _ _. ret False),
     cl_update_resource_refs = (\<lambda>_ m_r. ret m_r),
     cl_audit_dependants = base_audit_dependants E th,
     cl_audit_discrepancy = (\<lambda>_ _ _. ret True),
     cl_get_resource_id = (\<lambda>t a. ret (base_get_resource_id t a)),
     cl_get_resource_info = (\<lambda>_ _ _. ret (Some '''')),
     cl_resource_exists_in_subcloud = (\<lambda>_ _. ret True),
     cl_audit_action = base_audit_action E th (\<lambda>t a. ret (base_get_resource_id t a)) (\<lambda>_ _ _. ret (Some ''''))\<rparr>"

end
