(* ===== verification/DO_Manager.thy ===== *)
theory DO_Manager
  imports DO_SyncAudit "HOL-Library.AList"
begin

text \<open>
  \<open>dcorch/engine/generic_sync_manager.py\<close>: the sync objects of an engine, the periodic
  synchronisation and audit of the subclouds, and the operations \<open>dcmanager\<close> requests. The
  greenthreads started in one round run before the round has waited for them; \<open>run_spawned\<close> runs
  them one after the other. Waiting for a greenthread raises what ended it.
\<close>

record 'x manager_env =
  me_cfg :: audit_cfg
  me_engine_id :: string
  me_classes :: "string \<Rightarrow> (sync_thread \<Rightarrow> 'x sync_class) option"
  me_shuffle :: "'x engine \<Rightarrow> o_subcloud list \<Rightarrow> o_subcloud list"

definition me_ident :: "'x manager_env \<Rightarrow> ident_env" where
  "me_ident M = ac_ident (me_cfg M)"

section \<open>Sync objects\<close>

definition mk_thread :: "string \<Rightarrow> string \<Rightarrow> sync_thread" where
  "mk_thread subcloud_name endpoint_type =
     \<lparr>th_subcloud_name = subcloud_name, th_endpoint_type = endpoint_type\<rparr>"

definition objs_of :: "string \<Rightarrow> ('x engine, string list option) io" where
  "objs_of subcloud_name = gets (\<lambda>s. map_of (eg_sync_objs s) subcloud_name)"

definition set_objs :: "string \<Rightarrow> string list \<Rightarrow> ('x engine, unit) io" where
  "set_objs subcloud_name epts =
     modify (\<lambda>s. s\<lparr>eg_sync_objs := AList.update subcloud_name epts (eg_sync_objs s)\<rparr>)"

text \<open>The dictionary of a subcloud is a \<open>defaultdict\<close>: it is created when it is looked up.\<close>

definition objs_default :: "string \<Rightarrow> ('x engine, string list) io" where
  "objs_default subcloud_name = bnd (objs_of subcloud_name) (\<lambda>r. case r of
     Some epts \<Rightarrow> ret epts
   | None \<Rightarrow> seq (set_objs subcloud_name []) (ret []))"

definition add_obj :: "'x manager_env \<Rightarrow> string \<Rightarrow> string \<Rightarrow> ('x engine, unit) io" where
  "add_obj M subcloud_name endpoint_type =
     (case me_classes M endpoint_type of
        None \<Rightarrow> raise KeyError
      | Some _ \<Rightarrow> bnd (objs_default subcloud_name) (\<lambda>epts.
          set_objs subcloud_name (if endpoint_type \<in> set epts then epts else epts @ [endpoint_type])))"

definition create_sync_objects ::
  "'x manager_env \<Rightarrow> string \<Rightarrow> capabilities \<Rightarrow> ('x engine, unit) io" where
  "create_sync_objects M subcloud_name caps =
     (case caps ''endpoint_types'' of
        None \<Rightarrow> ret ()
      | Some epts \<Rightarrow>
          if epts = [] then ret ()
          else seq (set_objs subcloud_name []) (for_each (add_obj M subcloud_name) epts))"

definition init_from_db :: "'x manager_env \<Rightarrow> ('x engine, unit) io" where
  "init_from_db M = bnd (odo (all_subclouds (me_ident M)))
     (for_each (\<lambda>sc. create_sync_objects M (os_region_name sc) (os_capabilities sc)))"

text \<open>\<open>self.sync_objs[subcloud_name][endpoint_type]\<close>, with the class of the object.\<close>

definition sync_obj ::
  "'x manager_env \<Rightarrow> string \<Rightarrow> string \<Rightarrow> ('x engine, 'x sync_class) io" where
  "sync_obj M subcloud_name endpoint_type =
     bnd (objs_default subcloud_name) (\<lambda>epts.
     if endpoint_type \<notin> set epts then raise KeyError
     else case me_classes M endpoint_type of
            None \<Rightarrow> raise KeyError
          | Some mk \<Rightarrow> ret (mk (mk_thread subcloud_name endpoint_type)))"

section \<open>Greenthreads\<close>

text \<open>The spawned greenthreads run; what each ended with is kept for whoever waits for it.\<close>

fun run_spawned :: "(string \<Rightarrow> string \<Rightarrow> ('x engine, unit) io) \<Rightarrow> gthread list \<Rightarrow> ('x engine, gthread list) io" where
  "run_spawned f [] = ret []"
| "run_spawned f (Ended e # ts) = bnd (run_spawned f ts) (\<lambda>rs. ret (Ended e # rs))"
| "run_spawned f (Spawned n e # ts) =
     bnd (outcome (f n e)) (\<lambda>out.
     bnd (run_spawned f ts) (\<lambda>rs.
     ret (Ended (case out of Inl x \<Rightarrow> Some x | Inr _ \<Rightarrow> None) # rs)))"

fun wait_all :: "gthread list \<Rightarrow> ('x engine, unit) io" where
  "wait_all [] = ret ()"
| "wait_all (Ended (Some e) # ts) = raise e"
| "wait_all (t # ts) = wait_all ts"

section \<open>Synchronisation\<close>

definition SYNC_WANTED :: "sync_request_status list" where
  "SYNC_WANTED = [SYNC_STATUS_REQUESTED, SYNC_STATUS_FAILED]"

definition start_thread :: "string \<Rightarrow> string \<Rightarrow> ('x engine, unit) io" where
  "start_thread subcloud_name endpoint_type =
     modify (\<lambda>s. s\<lparr>eg_threads := eg_threads s @ [Spawned subcloud_name endpoint_type]\<rparr>)"

definition mutex_start_thread ::
  "string \<Rightarrow> string \<Rightarrow> string \<Rightarrow> string \<Rightarrow> ('x engine, unit) io" where
  "mutex_start_thread engine_id subcloud_name endpoint_type action =
     sync_subcloud_lock odo odo engine_id subcloud_name endpoint_type action
       (bnd (odo (subcloud_sync_get subcloud_name endpoint_type)) (\<lambda>r.
        if sy_sync_request r \<in> set SYNC_WANTED then start_thread subcloud_name endpoint_type
        else ret ()))"

definition sync_subcloud ::
  "string \<Rightarrow> string \<Rightarrow> string \<Rightarrow> string \<Rightarrow> ('x engine, unit) io" where
  "sync_subcloud engine_id subcloud_name endpoint_type action =
     bnd (odo (subcloud_sync_get subcloud_name endpoint_type)) (\<lambda>r.
     if sy_sync_request r \<in> set SYNC_WANTED
     then mutex_start_thread engine_id subcloud_name endpoint_type action
     else ret ())"

text \<open>\<open>_sync_subcloud\<close>, the body of the greenthread.\<close>

definition run_sync :: "'x manager_env \<Rightarrow> string \<Rightarrow> string \<Rightarrow> ('x engine, unit) io" where
  "run_sync M subcloud_name endpoint_type =
     seq (odo (subcloud_sync_update subcloud_name endpoint_type
            [SetSyncRequest SYNC_STATUS_IN_PROGRESS]))
     (bnd (sync_obj M subcloud_name endpoint_type) (\<lambda>obj.
      bnd (outcome (sync (me_ident M) obj (mk_thread subcloud_name endpoint_type))) (\<lambda>out.
      let new_state = (case out of Inl _ \<Rightarrow> SYNC_STATUS_FAILED | Inr _ \<Rightarrow> SYNC_STATUS_COMPLETED)
      in odo (subcloud_sync_update subcloud_name endpoint_type [SetSyncRequest new_state]))))"

text \<open>The endpoints of a subcloud. Removing one changes the dictionary the loop runs over, and the
  loop's next step raises.\<close>

fun sync_endpoints :: "string \<Rightarrow> string \<Rightarrow> string list \<Rightarrow> ('x engine, unit) io" where
  "sync_endpoints engine_id subcloud_name [] = ret ()"
| "sync_endpoints engine_id subcloud_name (ept # epts) =
     bnd (outcome (sync_subcloud engine_id subcloud_name ept ''sync'')) (\<lambda>out. case out of
       Inl (Dcorch (SubcloudSyncNotFound _ _)) \<Rightarrow>
         bnd (objs_default subcloud_name) (\<lambda>now.
         seq (set_objs subcloud_name (remove1 ept now)) (raise (PyException ''RuntimeError'')))
     | Inl e \<Rightarrow> raise e
     | Inr _ \<Rightarrow> sync_endpoints engine_id subcloud_name epts)"

definition enabled_subclouds :: "'x manager_env \<Rightarrow> ('x engine, o_subcloud list) io" where
  "enabled_subclouds M =
     bnd (odo (o_subcloud_get_all (me_ident M) admin_context None (Some MANAGEMENT_MANAGED)
            (Some AVAILABILITY_ONLINE) (Some INITIAL_SYNC_STATE_COMPLETED))) (\<lambda>scs.
     gets (\<lambda>s. me_shuffle M s scs))"

definition sync_subclouds :: "'x manager_env \<Rightarrow> ('x engine, unit) io" where
  "sync_subclouds M =
     bnd (enabled_subclouds M) (\<lambda>scs.
     seq (for_each (\<lambda>sc. bnd (objs_of (os_region_name sc)) (\<lambda>r. case r of
            None \<Rightarrow> ret ()
          | Some epts \<Rightarrow> sync_endpoints (me_engine_id M) (os_region_name sc) epts)) scs)
     (bnd (gets eg_threads) (\<lambda>ts.
      bnd (run_spawned (run_sync M) ts) (\<lambda>ended.
      seq (modify (\<lambda>s. s\<lparr>eg_threads := ended\<rparr>))
      (seq (wait_all ended)
        (modify (\<lambda>s. s\<lparr>eg_threads := []\<rparr>)))))))"

section \<open>Audit\<close>

definition AUDIT_INTERVAL :: int where
  "AUDIT_INTERVAL = 1200"

definition audit_due :: "subcloud_sync \<Rightarrow> int \<Rightarrow> bool" where
  "audit_due r now \<longleftrightarrow>
     (if sy_audit_status r \<in> {AUDIT_STATUS_COMPLETED, AUDIT_STATUS_IN_PROGRESS} then
        (case sy_last_audit_time r of None \<Rightarrow> True | Some t \<Rightarrow> AUDIT_INTERVAL \<le> now - t)
      else sy_audit_status r \<in> {AUDIT_STATUS_NONE, AUDIT_STATUS_FAILED})"

definition gsm_audit_subcloud ::
  "string \<Rightarrow> string \<Rightarrow> string \<Rightarrow> string \<Rightarrow> ('x engine, unit) io" where
  "gsm_audit_subcloud engine_id subcloud_name endpoint_type action =
     sync_subcloud_lock odo odo engine_id subcloud_name endpoint_type action
       (bnd (odo (subcloud_sync_get subcloud_name endpoint_type)) (\<lambda>r.
        bnd (gets (\<lambda>s. od_now (eg_db s))) (\<lambda>now.
        if audit_due r now then
          modify (\<lambda>s. s\<lparr>eg_audit_threads := eg_audit_threads s @ [Spawned subcloud_name endpoint_type]\<rparr>)
        else ret ())))"

text \<open>\<open>_audit_subcloud\<close>, the body of the greenthread.\<close>

definition gsm_run_audit :: "'x manager_env \<Rightarrow> string \<Rightarrow> string \<Rightarrow> ('x engine, unit) io" where
  "gsm_run_audit M subcloud_name endpoint_type =
     bnd (gets (\<lambda>s. od_now (eg_db s))) (\<lambda>now.
     seq (odo (subcloud_sync_update subcloud_name endpoint_type
            [SetAuditStatus AUDIT_STATUS_IN_PROGRESS, SetLastAudit (Some now)]))
     (bnd (sync_obj M subcloud_name endpoint_type) (\<lambda>obj.
      bnd (outcome (thread_run_sync_audit (me_cfg M) obj (mk_thread subcloud_name endpoint_type))) (\<lambda>out.
      let new_state = (case out of Inl _ \<Rightarrow> AUDIT_STATUS_FAILED | Inr _ \<Rightarrow> AUDIT_STATUS_COMPLETED)
      in odo (subcloud_sync_update subcloud_name endpoint_type [SetAuditStatus new_state])))))"

definition default_capabilities :: capabilities where
  "default_capabilities = [''endpoint_types'' \<mapsto> SYNC_ENDPOINT_TYPES_LIST]"

definition audit_endpoints :: "'x manager_env \<Rightarrow> string \<Rightarrow> string list \<Rightarrow> ('x engine, unit) io" where
  "audit_endpoints M subcloud_name epts =
     for_each (\<lambda>e. gsm_audit_subcloud (me_engine_id M) subcloud_name e ''audit'') epts"

definition run_sync_audit :: "'x manager_env \<Rightarrow> ('x engine, unit) io" where
  "run_sync_audit M =
     bnd (enabled_subclouds M) (\<lambda>scs.
     seq (for_each (\<lambda>sc. bnd (objs_of (os_region_name sc)) (\<lambda>r. case r of
            Some epts \<Rightarrow> audit_endpoints M (os_region_name sc) epts
          | None \<Rightarrow>
              seq (create_sync_objects M (os_region_name sc) default_capabilities)
              (bnd (objs_of (os_region_name sc)) (\<lambda>r. case r of
                 Some epts \<Rightarrow> audit_endpoints M (os_region_name sc) epts
               | None \<Rightarrow> ret ())))) scs)
     (bnd (gets eg_audit_threads) (\<lambda>ts.
      bnd (run_spawned (gsm_run_audit M) ts) (\<lambda>ended.
      seq (modify (\<lambda>s. s\<lparr>eg_audit_threads := ended\<rparr>))
      (seq (wait_all ended)
        (modify (\<lambda>s. s\<lparr>eg_audit_threads := []\<rparr>)))))))"

section \<open>Subclouds\<close>

definition gsm_add_subcloud :: "'x manager_env \<Rightarrow> string \<Rightarrow> string \<Rightarrow> ('x engine, unit) io" where
  "gsm_add_subcloud M nm version =
     bnd (odo (o_subcloud_create (me_ident M) admin_context nm None version default_capabilities []))
       (\<lambda>sc.
     seq (for_each (\<lambda>ept. odo (subcloud_sync_create nm ept [SetSubcloudId (os_id sc)]))
            SYNC_ENDPOINT_TYPES_LIST)
       (create_sync_objects M nm default_capabilities))"

definition subcloud_state_matches ::
  "ident_env \<Rightarrow> string \<Rightarrow> management option \<Rightarrow> availability option \<Rightarrow> initial_sync option \<Rightarrow>
   ('x engine, bool) io" where
  "subcloud_state_matches E subcloud_name mgmt avail iss =
     bnd (odo (subcloud_by_name E subcloud_name)) (\<lambda>sc.
     ret ((case mgmt of None \<Rightarrow> True | Some m \<Rightarrow> os_management_state sc = Some m) \<and>
          (case avail of None \<Rightarrow> True | Some a \<Rightarrow> os_availability_status sc = a) \<and>
          (case iss of None \<Rightarrow> True | Some i \<Rightarrow> os_initial_sync_state sc = i)))"

definition opt_list :: "('a \<Rightarrow> 'b) \<Rightarrow> 'a option \<Rightarrow> 'b list" where
  "opt_list f x = (case x of None \<Rightarrow> [] | Some y \<Rightarrow> [f y])"

definition gsm_update_subcloud_state ::
  "ident_env \<Rightarrow> string \<Rightarrow> management option \<Rightarrow> availability option \<Rightarrow> initial_sync option \<Rightarrow>
   ('x engine, unit) io" where
  "gsm_update_subcloud_state E subcloud_name mgmt avail iss =
     bnd (odo (subcloud_by_name E subcloud_name)) (\<lambda>sc.
     odo (subcloud_save E sc
       (opt_list SetManagement mgmt @ opt_list SetAvailability avail @ opt_list SetInitialSync iss)))"

definition gsm_del_subcloud :: "'x manager_env \<Rightarrow> string \<Rightarrow> ('x engine, unit) io" where
  "gsm_del_subcloud M subcloud_name =
     seq (gsm_update_subcloud_state (me_ident M) subcloud_name (Some MANAGEMENT_UNMANAGED)
            (Some AVAILABILITY_OFFLINE) None)
     (seq (modify (\<lambda>s. s\<lparr>eg_sync_objs := AList.delete subcloud_name (eg_sync_objs s)\<rparr>))
       (except_Exception (odo (delete_subcloud_by_name subcloud_name))
          (\<lambda>_. raise (Dcorch (SubcloudRegionNotFound subcloud_name)))))"

definition sync_request :: "'x manager_env \<Rightarrow> string \<Rightarrow> ('x engine, unit) io" where
  "sync_request M endpoint_type =
     bnd (odo (o_subcloud_get_all (me_ident M) admin_context None (Some MANAGEMENT_MANAGED) None None))
       (for_each (\<lambda>sc. request_sync (os_region_name sc) endpoint_type))"

definition init_subcloud_sync_audit :: "string \<Rightarrow> ('x engine, unit) io" where
  "init_subcloud_sync_audit subcloud_name =
     for_each (\<lambda>ept. odo (subcloud_sync_update subcloud_name ept
       [SetAuditStatus AUDIT_STATUS_NONE, SetReported None, SetReportTime None, SetLastAudit None]))
       SYNC_ENDPOINT_TYPES_LIST"

definition with_objs ::
  "'x manager_env \<Rightarrow> string \<Rightarrow> ('x sync_class \<Rightarrow> sync_thread \<Rightarrow> ('x engine, unit) io) \<Rightarrow>
   string list \<Rightarrow> ('x engine, unit) io" where
  "with_objs M subcloud_name f epts =
     for_each (\<lambda>ept. bnd (sync_obj M subcloud_name ept) (\<lambda>obj. f obj (mk_thread subcloud_name ept))) epts"

definition enable_subcloud :: "'x manager_env \<Rightarrow> string \<Rightarrow> ('x engine, unit) io" where
  "enable_subcloud M subcloud_name = bnd (objs_of subcloud_name) (\<lambda>r. case r of
     None \<Rightarrow> ret ()
   | Some epts \<Rightarrow> with_objs M subcloud_name (thread_enable (me_cfg M)) epts)"

definition gsm_is_managed :: "ident_env \<Rightarrow> string \<Rightarrow> ('x engine, bool) io" where
  "gsm_is_managed E subcloud_name = bnd (odo (subcloud_by_name E subcloud_name)) (\<lambda>sc.
     ret (os_management_state sc = Some MANAGEMENT_MANAGED))"

definition gsm_is_enabled :: "ident_env \<Rightarrow> string \<Rightarrow> ('x engine, bool) io" where
  "gsm_is_enabled E subcloud_name = bnd (odo (subcloud_by_name E subcloud_name)) (\<lambda>sc.
     ret (os_availability_status sc = AVAILABILITY_ONLINE \<and>
          os_initial_sync_state sc = INITIAL_SYNC_STATE_COMPLETED))"

definition is_subcloud_ready :: "ident_env \<Rightarrow> string \<Rightarrow> ('x engine, bool) io" where
  "is_subcloud_ready E subcloud_name = bnd (gsm_is_managed E subcloud_name) (\<lambda>m.
     if m then gsm_is_enabled E subcloud_name else ret False)"

section \<open>Endpoint types added and removed\<close>

definition add_names :: "string list \<Rightarrow> string list \<Rightarrow> string list" where
  "add_names new old = fold (\<lambda>e acc. if e \<in> set acc then acc else acc @ [e]) new old"

text \<open>An endpoint type that is not recorded yet. The test for an existing object looks up the value
  of \<open>endpoint_type == endpoint_type\<close>, which is no key, so the object is always made anew.\<close>

definition add_one_endpoint ::
  "'x manager_env \<Rightarrow> string \<Rightarrow> nat \<Rightarrow> string \<Rightarrow> ('x engine, unit) io" where
  "add_one_endpoint M subcloud_name subcloud_id endpoint_type =
     bnd (outcome (odo (subcloud_sync_get subcloud_name endpoint_type))) (\<lambda>out. case out of
       Inr _ \<Rightarrow> ret ()
     | Inl (Dcorch (SubcloudSyncNotFound _ _)) \<Rightarrow>
         seq (objs_default subcloud_name)
         (seq (add_obj M subcloud_name endpoint_type)
         (seq (odo (subcloud_sync_create subcloud_name endpoint_type [SetSubcloudId subcloud_id]))
         (bnd (is_subcloud_ready (me_ident M) subcloud_name) (\<lambda>ready.
          if ready then
            bnd (sync_obj M subcloud_name endpoint_type) (\<lambda>obj.
            seq (thread_enable (me_cfg M) obj (mk_thread subcloud_name endpoint_type))
              (seq (cl_initial_sync obj) (ret ())))
          else ret ()))))
     | Inl e \<Rightarrow> raise e)"

definition add_subcloud_sync_endpoint_type ::
  "'x manager_env \<Rightarrow> string \<Rightarrow> string list \<Rightarrow> ('x engine, unit) io" where
  "add_subcloud_sync_endpoint_type M subcloud_name endpoint_type_list =
     bnd (odo (subcloud_by_name (me_ident M) subcloud_name)) (\<lambda>sc.
     let old = (case os_capabilities sc ''endpoint_types'' of None \<Rightarrow> [] | Some l \<Rightarrow> l);
         caps = (os_capabilities sc)(''endpoint_types'' \<mapsto> add_names endpoint_type_list old)
     in if endpoint_type_list = [] then ret ()
        else
          seq (odo (subcloud_save (me_ident M) sc [SetCapabilities caps]))
            (for_each (add_one_endpoint M subcloud_name (os_id sc)) endpoint_type_list))"

definition remove_subcloud_sync_endpoint_type ::
  "'x manager_env \<Rightarrow> string \<Rightarrow> string list \<Rightarrow> ('x engine, unit) io" where
  "remove_subcloud_sync_endpoint_type M subcloud_name endpoint_type_list =
     seq (for_each (\<lambda>ept.
            bnd (objs_default subcloud_name) (\<lambda>epts.
            seq (set_objs subcloud_name (remove1 ept epts))
              (odo (subcloud_sync_delete subcloud_name ept)))) endpoint_type_list)
     (bnd (odo (subcloud_by_name (me_ident M) subcloud_name)) (\<lambda>sc.
      let old = (case os_capabilities sc ''endpoint_types'' of None \<Rightarrow> [] | Some l \<Rightarrow> l)
      in if endpoint_type_list = [] \<or> old = [] then ret ()
         else odo (subcloud_save (me_ident M) sc [SetCapabilities
           ((os_capabilities sc)(''endpoint_types'' \<mapsto> fold remove1 endpoint_type_list old))])))"

definition update_subcloud_version :: "'x manager_env \<Rightarrow> string \<Rightarrow> string \<Rightarrow> ('x engine, unit) io" where
  "update_subcloud_version M subcloud_name sw_version =
     try_catch
       (bnd (odo (subcloud_by_name (me_ident M) subcloud_name)) (\<lambda>sc.
        odo (subcloud_save (me_ident M) sc [SetVersion sw_version])))
       (\<lambda>e. if e = KeyError then raise (Dcorch (SubcloudRegionNotFound subcloud_name)) else raise e)"

definition gsm_initial_sync :: "'x manager_env \<Rightarrow> string \<Rightarrow> ('x engine, unit) io" where
  "gsm_initial_sync M subcloud_name =
     (let start = (\<lambda>epts. with_objs M subcloud_name (\<lambda>obj _. seq (cl_initial_sync obj) (ret ())) epts)
      in bnd (objs_of subcloud_name) (\<lambda>r. case r of
           Some epts \<Rightarrow> start epts
         | None \<Rightarrow>
             seq (create_sync_objects M subcloud_name default_capabilities)
             (bnd (objs_of subcloud_name) (\<lambda>r. case r of
                Some epts \<Rightarrow> start epts
              | None \<Rightarrow> ret ()))))"

end
