(* ===== verification/DO_InitialSync.thy ===== *)
theory DO_InitialSync
  imports DO_Manager
begin

text \<open>
  \<open>dcorch/engine/fernet_key_manager.py\<close>, the keys copied from the system controller to the
  subclouds, and \<open>dcorch/engine/initial_sync_manager.py\<close>, the first synchronisation of a
  subcloud with its state machine: requested, in progress, completed or failed and requested
  again after a hold-off.
\<close>

section \<open>Fernet keys\<close>

text \<open>The calls of the sysinv client, the rotation command and the JSON text of the keys.\<close>

record 'x fernet_env =
  fe_get_fernet_keys :: "('x engine, (string \<times> string) list) io"
  fe_post_fernet_repo :: "string \<Rightarrow> (string \<times> string) list option \<Rightarrow> ('x engine, unit) io"
  fe_rotate :: "('x engine, unit) io"
  fe_dumps :: "(string \<times> string) list \<Rightarrow> string"

text \<open>A dictionary from the ids of the keys: a later key replaces an earlier one with its id.\<close>

definition to_resource_info :: "(string \<times> string) list \<Rightarrow> (string \<times> string) list" where
  "to_resource_info key_list = fold (\<lambda>(i, k). AList.update i k) key_list []"

definition from_resource_info :: "(string \<times> string) list \<Rightarrow> (string \<times> string) list" where
  "from_resource_info keys = map (\<lambda>(k, v). (k, v)) keys"

definition get_master_keys :: "'x fernet_env \<Rightarrow> ('x engine, (string \<times> string) list) io" where
  "get_master_keys F = except_Exception (fe_get_fernet_keys F) (\<lambda>_. ret [])"

definition update_fernet_repo ::
  "'x fernet_env \<Rightarrow> string \<Rightarrow> (string \<times> string) list option \<Rightarrow> ('x engine, unit) io" where
  "update_fernet_repo F subcloud_name key_list =
     except_Exception (fe_post_fernet_repo F subcloud_name key_list) (\<lambda>_. ret ())"

definition distribute_keys :: "'x fernet_env \<Rightarrow> string \<Rightarrow> ('x engine, unit) io" where
  "distribute_keys F subcloud_name =
     bnd (get_master_keys F) (\<lambda>keys.
     if keys = [] then ret ()
     else update_fernet_repo F subcloud_name (Some (from_resource_info (to_resource_info keys))))"

definition reset_keys :: "'x fernet_env \<Rightarrow> string \<Rightarrow> ('x engine, unit) io" where
  "reset_keys F subcloud_name = update_fernet_repo F subcloud_name None"

definition fernet_schedule_work ::
  "'x manager_env \<Rightarrow> 'x fernet_env \<Rightarrow> operation_type \<Rightarrow> o_subcloud option \<Rightarrow> ('x engine, unit) io" where
  "fernet_schedule_work M F op subcloud =
     bnd (get_master_keys F) (\<lambda>keys.
     if keys = [] then ret ()
     else except_Exception
       (seq (odo (enqueue_work (me_ident M) ''platform'' ''fernet_repo'' FERNET_REPO_MASTER_ID op
               (Some (fe_dumps F (to_resource_info keys))) subcloud))
         (sync_request M ''platform''))
       (\<lambda>_. ret ()))"

definition rotate_fernet_keys :: "'x manager_env \<Rightarrow> 'x fernet_env \<Rightarrow> ('x engine, unit) io" where
  "rotate_fernet_keys M F =
     seq (try_catch (fe_rotate F)
            (\<lambda>e. if e = PyException ''CalledProcessError'' then raise InternalError else raise e))
       (fernet_schedule_work M F OPERATION_TYPE_PUT None)"

section \<open>Start-up\<close>

text \<open>What was in progress when the engine stopped, and what had failed, is requested again.\<close>

definition request_again :: "ident_env \<Rightarrow> initial_sync \<Rightarrow> ('x engine, unit) io" where
  "request_again E st =
     bnd (odo (o_subcloud_get_all E admin_context None None None (Some st)))
       (for_each (\<lambda>sc. gsm_update_subcloud_state E (os_region_name sc) None None
          (Some INITIAL_SYNC_STATE_REQUESTED)))"

definition init_actions :: "ident_env \<Rightarrow> ('x engine, unit) io" where
  "init_actions E = seq (request_again E INITIAL_SYNC_STATE_IN_PROGRESS)
     (request_again E INITIAL_SYNC_STATE_FAILED)"

section \<open>The initial synchronisation of a subcloud\<close>

definition SYNC_FAIL_HOLD_OFF :: nat where
  "SYNC_FAIL_HOLD_OFF = 60"

text \<open>The work itself: the identity is synchronised before the keys.\<close>

definition initial_work ::
  "'x manager_env \<Rightarrow> 'x fernet_env \<Rightarrow> string \<Rightarrow> ('x engine, unit) io" where
  "initial_work M F subcloud_name =
     seq (gsm_initial_sync M subcloud_name)
     (seq (distribute_keys F subcloud_name) (init_subcloud_sync_audit subcloud_name))"

text \<open>The greenthread: nothing is done when the state is no longer \<open>requested\<close>, and the result is
  recorded only when it is still \<open>in-progress\<close>. A timer is started after a failure.\<close>

definition initial_sync_result ::
  "'x manager_env \<Rightarrow> string \<Rightarrow> initial_sync \<Rightarrow> ('x engine, unit) io" where
  "initial_sync_result M subcloud_name new_state =
     bnd (subcloud_state_matches (me_ident M) subcloud_name None None
            (Some INITIAL_SYNC_STATE_IN_PROGRESS)) (\<lambda>same.
     if same then
       seq (gsm_update_subcloud_state (me_ident M) subcloud_name None None (Some new_state))
         (if new_state = INITIAL_SYNC_STATE_COMPLETED then enable_subcloud M subcloud_name
          else if new_state = INITIAL_SYNC_STATE_FAILED then
            modify (\<lambda>s. s\<lparr>eg_timers := eg_timers s @ [subcloud_name]\<rparr>)
          else ret ())
     else ret ())"

definition initial_sync_body ::
  "'x manager_env \<Rightarrow> 'x fernet_env \<Rightarrow> string \<Rightarrow> ('x engine, unit) io" where
  "initial_sync_body M F subcloud_name =
     bnd (subcloud_state_matches (me_ident M) subcloud_name None None
            (Some INITIAL_SYNC_STATE_REQUESTED)) (\<lambda>wanted.
     if \<not> wanted then ret ()
     else
       seq (gsm_update_subcloud_state (me_ident M) subcloud_name None None
              (Some INITIAL_SYNC_STATE_IN_PROGRESS))
       (bnd (outcome (initial_work M F subcloud_name)) (\<lambda>out. case out of
          Inr _ \<Rightarrow> initial_sync_result M subcloud_name INITIAL_SYNC_STATE_COMPLETED
        | Inl e \<Rightarrow> if is_Exception e
            then initial_sync_result M subcloud_name INITIAL_SYNC_STATE_FAILED
            else raise e)))"

definition initial_sync_subcloud ::
  "'x manager_env \<Rightarrow> 'x fernet_env \<Rightarrow> string \<Rightarrow> ('x engine, unit) io" where
  "initial_sync_subcloud M F subcloud_name =
     sync_subcloud_lock odo odo (me_engine_id M) subcloud_name ''none'' ''none''
       (initial_sync_body M F subcloud_name)"

text \<open>The loop over the requested subclouds: their greenthreads are kept by region name.\<close>

definition initial_sync_subclouds ::
  "'x manager_env \<Rightarrow> 'x fernet_env \<Rightarrow> ('x engine, unit) io" where
  "initial_sync_subclouds M F =
     bnd (odo (o_subcloud_get_all (me_ident M) admin_context None None None
            (Some INITIAL_SYNC_STATE_REQUESTED))) (\<lambda>scs.
     seq (for_each (\<lambda>sc. modify (\<lambda>s. s\<lparr>eg_initial_threads :=
            AList.update (os_region_name sc) (Spawned (os_region_name sc) ''none'')
              (eg_initial_threads s)\<rparr>)) scs)
     (bnd (gets eg_initial_threads) (\<lambda>ts.
      bnd (run_spawned (\<lambda>n _. initial_sync_subcloud M F n) (map snd ts)) (\<lambda>ended.
      seq (modify (\<lambda>s. s\<lparr>eg_initial_threads := zip (map fst ts) ended\<rparr>))
      (seq (wait_all ended)
        (modify (\<lambda>s. s\<lparr>eg_initial_threads := []\<rparr>)))))))"

definition reattempt_sync :: "ident_env \<Rightarrow> string \<Rightarrow> ('x engine, unit) io" where
  "reattempt_sync E subcloud_name =
     bnd (subcloud_state_matches E subcloud_name None None (Some INITIAL_SYNC_STATE_FAILED)) (\<lambda>still.
     if \<not> still then ret ()
     else gsm_update_subcloud_state E subcloud_name None None (Some INITIAL_SYNC_STATE_REQUESTED))"

section \<open>The service\<close>

text \<open>\<open>service.py\<close>: a change of the states that \<open>dcmanager\<close> reports asks for an initial
  synchronisation when the subcloud is managed and online, and cancels it otherwise.\<close>

definition update_subcloud_states ::
  "ident_env \<Rightarrow> string \<Rightarrow> management \<Rightarrow> availability \<Rightarrow> ('x engine, unit) io" where
  "update_subcloud_states E subcloud_name mgmt avail =
     bnd (subcloud_state_matches E subcloud_name (Some mgmt) (Some avail) None) (\<lambda>same.
     if same then ret ()
     else if mgmt = MANAGEMENT_MANAGED \<and> avail = AVAILABILITY_ONLINE then
       gsm_update_subcloud_state E subcloud_name (Some mgmt) (Some avail)
         (Some INITIAL_SYNC_STATE_REQUESTED)
     else
       gsm_update_subcloud_state E subcloud_name (Some mgmt) (Some avail)
         (Some INITIAL_SYNC_STATE_NONE))"

text \<open>The registry of the engines: an engine refreshes its row, and makes it when it is not there.\<close>

definition service_registry_report :: "string \<Rightarrow> string \<Rightarrow> string \<Rightarrow> ('x engine, unit) io" where
  "service_registry_report engine_id host topic = except_Exception
     (bnd (odo (service_update engine_id)) (\<lambda>svc. case svc of
        None \<Rightarrow> odo (service_create engine_id (Some host) (Some ''dcorch-engine'') (Some topic))
      | Some _ \<Rightarrow> ret ()))
     (\<lambda>_. ret ())"

definition is_older_than :: "int \<Rightarrow> int \<Rightarrow> int \<Rightarrow> bool" where
  "is_older_than before seconds now \<longleftrightarrow> now - before > seconds"

definition dead_services :: "string \<Rightarrow> int \<Rightarrow> ('x engine, service list) io" where
  "dead_services engine_id report_interval =
     bnd (odo service_get_all) (\<lambda>svcs.
     bnd (gets (\<lambda>s. od_now (eg_db s))) (\<lambda>now.
     ret (filter (\<lambda>v. sv_id v \<noteq> engine_id \<and>
       is_older_than (sv_updated_at v) (2 * report_interval) now) svcs)))"

definition service_registry_cleanup :: "string \<Rightarrow> int \<Rightarrow> ('x engine, unit) io" where
  "service_registry_cleanup engine_id report_interval =
     bnd (dead_services engine_id report_interval) (\<lambda>dead.
     seq (for_each (\<lambda>v. odo (service_delete (sv_id v))) dead)
       (odo purge_stale_sync_lock))"

definition sync_lock_cleanup :: "string \<Rightarrow> int \<Rightarrow> ('x engine, unit) io" where
  "sync_lock_cleanup engine_id report_interval =
     bnd (dead_services engine_id report_interval)
       (for_each (\<lambda>v. odo (sync_lock_delete_by_engine_id (sv_id v))))"

end
