(* ===== verification/DO_Lemmas.thy ===== *)
theory DO_Lemmas
  imports DO_InitialSync
begin

text \<open>
  What the proofs about the orchestrator share: reading leaves the state alone, the updates of
  requests and of synchronisation records commit, and a subcloud whose name is no number and no
  uuid is found by its name.
\<close>

section \<open>Reading\<close>

definition reads :: "('s, 'a) io \<Rightarrow> bool" where
  "reads m \<longleftrightarrow> (\<forall>s. snd (m s) = s)"

named_theorems reads_intros

lemma readsD: "reads m \<Longrightarrow> snd (m s) = s"
  by (simp add: reads_def)

lemma readsI:
  assumes "\<And>I. keeps I m"
  shows "reads m"
  unfolding reads_def
proof
  fix s
  show "snd (m s) = s" using keepsD [OF assms [of "\<lambda>t. t = s"]] by simp
qed

lemma reads_keeps: "reads m \<Longrightarrow> keeps I m"
  by (simp add: reads_def keeps_def)

lemma reads_basic [reads_intros]:
  "reads (ret x)" "reads (raise e)" "reads (gets f)" "reads (result_of q)"
  by (auto intro!: readsI keeps_intros)

lemma reads_bnd [reads_intros]: "reads m \<Longrightarrow> (\<And>x. reads (f x)) \<Longrightarrow> reads (bnd m f)"
  by (auto simp: reads_def bnd_apply split: prod.splits sum.splits) (metis snd_conv)+

lemma reads_seq [reads_intros]: "reads m \<Longrightarrow> reads n \<Longrightarrow> reads (seq m n)"
  by (simp add: seq_def reads_bnd)

lemma reads_if [reads_intros]: "reads m \<Longrightarrow> reads n \<Longrightarrow> reads (if b then m else n)"
  by simp

lemma reads_try [reads_intros]: "reads m \<Longrightarrow> (\<And>e. reads (h e)) \<Longrightarrow> reads (try_catch m h)"
  by (auto simp: reads_def try_catch_def split: prod.splits sum.splits) (metis snd_conv)+

lemma reads_outcome [reads_intros]: "reads m \<Longrightarrow> reads (outcome m)"
  by (simp add: reads_def outcome_apply)

lemma reads_odo [reads_intros]: "reads m \<Longrightarrow> reads (odo m)"
  by (simp add: reads_def odo_apply)

lemma reads_require [reads_intros]:
  "reads m \<Longrightarrow> reads (require_context ctx m)" "reads m \<Longrightarrow> reads (require_admin_context ctx m)"
  unfolding require_context_def require_admin_context_def is_admin_context_def
  by (auto intro!: reads_intros split: option.splits)

lemma reads_queries [reads_intros]:
  "reads (o_subcloud_get E ctx n)" "reads (o_subcloud_get_all E ctx a b c d)"
  "reads (resource_get_by_type_and_master_id ctx t m)" "reads (resource_get_by_id ctx i)"
  "reads (resource_get_all E ctx t')" "reads (orch_job_get ctx i)" "reads (orch_request_get ctx i)"
  "reads (orch_request_get_most_recent_failed_request ctx)"
  "reads (orch_request_get_by_attrs ctx ep rt tr ss)" "reads (subcloud_sync_get n ep)"
  "reads (subcloud_resource_get_by_resource_and_subcloud ctx i k)" "reads (subcloud_by_name E n)"
  "reads (all_subclouds E)"
  unfolding o_subcloud_get_def o_subcloud_row_def o_subcloud_get_all_def
    resource_get_by_type_and_master_id_def resource_row_def resource_get_by_id_def
    resource_get_all_def orch_job_get_def orch_job_row_def orch_request_get_def orch_request_row_def
    orch_request_get_most_recent_failed_request_def orch_request_get_by_attrs_def
    subcloud_sync_get_def subcloud_resource_get_by_resource_and_subcloud_def subcloud_by_name_def
    all_subclouds_def
  by (intro reads_intros)+

lemma reads_thread [reads_intros]:
  "reads (should_exit th)" "reads (th_is_managed E th)" "reads (th_is_enabled E th)"
  "reads (request_allowed E th)" "reads (pending_requests th)" "reads (outstanding_requests th t)"
  "reads (get_db_subcloud_resource E th i)"
  unfolding should_exit_def th_is_managed_def th_is_enabled_def request_allowed_def
    pending_requests_def outstanding_requests_def get_db_subcloud_resource_def
  by (intro reads_intros; auto intro!: reads_intros split: exn.splits dcorch_exn.splits)+

lemma bnd_read: "reads m \<Longrightarrow> bnd m f s = (case fst (m s) of Inl e \<Rightarrow> (Inl e, s) | Inr x \<Rightarrow> f x s)"
  by (auto simp: bnd_apply reads_def split: prod.splits sum.splits) (metis snd_conv)+

section \<open>Rows found by their key\<close>

lemma filter_singleton:
  "distinct (map key rs) \<Longrightarrow> r \<in> set rs \<Longrightarrow> filter (\<lambda>x. key x = key r) rs = [r]"
proof (induction rs)
  case (Cons a rs)
  show ?case
  proof (cases "r = a")
    case True
    then have "key r \<notin> key ` set rs" using Cons.prems(1) by simp
    then have "\<forall>x \<in> set rs. key x \<noteq> key r" by (metis imageI)
    then show ?thesis using True by (simp add: filter_empty_conv)
  next
    case False
    then have "r \<in> set rs" using Cons.prems(2) by simp
    then show ?thesis using Cons by auto
  qed
qed simp

lemma filter_unique_if:
  "distinct (map key rs) \<Longrightarrow> r \<in> set rs \<Longrightarrow> p r \<Longrightarrow> (\<And>x. p x \<Longrightarrow> key x = key r) \<Longrightarrow> filter p rs = [r]"
proof -
  assume a: "distinct (map key rs)" "r \<in> set rs" "p r" "\<And>x. p x \<Longrightarrow> key x = key r"
  have "filter p rs = filter p (filter (\<lambda>x. key x = key r) rs)"
    using a(4) by (auto simp: filter_filter intro: filter_cong)
  then show ?thesis using filter_singleton [OF a(1,2)] a(3) by simp
qed

lemma odb_wf_tables:
  assumes "odb_wf d"
  shows "table_wf os_id (od_subclouds d)" "table_wf rs_id (od_resources d)"
    "table_wf oj_id (od_orch_jobs d)" "table_wf or_id (od_orch_requests d)"
    "table_wf sy_id (od_subcloud_syncs d)" "table_wf sl_id (od_sync_locks d)" "schema_ok d"
  using assms by (simp_all add: odb_wf_def okeys_wf_def)

lemma sync_row_run:
  assumes "odb_wf d" and "y \<in> set (rows (od_subcloud_syncs d))" and "is_sync n ep y"
  shows "subcloud_sync_get n ep d = (Inr y, d)"
proof -
  have "distinct (map (\<lambda>r. (sy_subcloud_name r, sy_endpoint_type r)) (rows (od_subcloud_syncs d)))"
    using assms(1) by (simp add: odb_wf_def schema_ok_def unique_ok_def)
  then have "filter (is_sync n ep) (rows (od_subcloud_syncs d)) = [y]"
    using assms(2,3) by (rule filter_unique_if) (auto simp: is_sync_def assms(3) [unfolded is_sync_def])
  then show ?thesis by (simp add: subcloud_sync_get_def result_of_apply query_one_def)
qed

text \<open>A subcloud that can be found by its name.\<close>

definition proper_name :: "ident_env \<Rightarrow> string \<Rightarrow> bool" where
  "proper_name E n \<longleftrightarrow> int_like E n = None \<and> \<not> uuid_like E n"

lemma subcloud_row_run:
  assumes "odb_wf d" and "proper_name E (os_region_name sc)" and "sc \<in> set (rows (od_subclouds d))"
  shows "subcloud_by_name E (os_region_name sc) d = (Inr sc, d)"
proof -
  have "distinct (map os_region_name (rows (od_subclouds d)))"
    using assms(1) by (simp add: odb_wf_def schema_ok_def unique_ok_def)
  then have found: "filter (o_identity_filter E (IdStr (os_region_name sc)) os_id os_uuid os_region_name)
      (rows (od_subclouds d)) = [sc]"
    using assms(3) by (rule filter_unique_if)
      (use assms(2) in \<open>simp_all add: o_identity_filter_def proper_name_def\<close>)
  show ?thesis
    unfolding subcloud_by_name_def o_subcloud_get_def o_subcloud_row_def require_context_simp
      result_of_apply query_one_def found by simp
qed

lemma resource_row_run:
  assumes "odb_wf d" and "r \<in> set (rows (od_resources d))"
  shows "resource_get_by_id admin_context (rs_id r) d = (Inr r, d)"
  using filter_singleton [OF table_wf_distinct [OF odb_wf_tables(2) [OF assms(1)]] assms(2)]
  by (simp add: resource_get_by_id_def result_of_apply)

section \<open>Updates that commit\<close>

lemma schema_set_requests:
  assumes "schema_ok d"
    and "map or_uuid (rows t) = map or_uuid (rows (od_orch_requests d))"
    and "map or_orch_job_id (rows t) = map or_orch_job_id (rows (od_orch_requests d))"
    and "distinct (map (\<lambda>r. (or_target_region_name r, or_orch_job_id r, or_deleted r)) (rows t))"
  shows "schema_ok (d\<lparr>od_orch_requests := t\<rparr>)"
proof -
  have jobs: "list_all (\<lambda>i. i \<in> set (map oj_id (rows (od_orch_jobs d)))) (map or_orch_job_id (rows t))"
    unfolding assms(3) using assms(1)
    by (simp add: schema_ok_def refs_ok_def refer_to_def list_all_iff)
  then show ?thesis using assms(1,2,4)
    by (simp add: schema_ok_def unique_ok_def refs_ok_def refer_to_def list_all_iff)
qed

lemma schema_set_syncs:
  assumes "schema_ok d"
    and "map (\<lambda>r. (sy_subcloud_name r, sy_endpoint_type r)) (rows t) =
      map (\<lambda>r. (sy_subcloud_name r, sy_endpoint_type r)) (rows (od_subcloud_syncs d))"
    and "map sy_subcloud_id (rows t) = map sy_subcloud_id (rows (od_subcloud_syncs d))"
  shows "schema_ok (d\<lparr>od_subcloud_syncs := t\<rparr>)"
proof -
  have ids: "list_all (\<lambda>c. case c of None \<Rightarrow> True | Some i \<Rightarrow> i \<in> set (map os_id (rows (od_subclouds d))))
      (map sy_subcloud_id (rows t))"
    unfolding assms(3) using assms(1)
    by (simp add: schema_ok_def refs_ok_def refer_to_def list_all_iff)
  then show ?thesis using assms(1,2)
    by (simp add: schema_ok_def unique_ok_def refs_ok_def refer_to_def list_all_iff)
qed

text \<open>There is at most one request of a job for a subcloud, deleted or not.\<close>

definition one_request_each :: "odb \<Rightarrow> bool" where
  "one_request_each d \<longleftrightarrow>
     distinct (map (\<lambda>r. (or_target_region_name r, or_orch_job_id r)) (rows (od_orch_requests d)))"

lemma stamp_request_keys [simp]:
  "or_id (stamp_request now vs r) = or_id r" "or_uuid (stamp_request now vs r) = or_uuid r"
  "or_target_region_name (stamp_request now vs r) = or_target_region_name r"
  "or_orch_job_id (stamp_request now vs r) = or_orch_job_id r"
  by (simp_all add: stamp_request_def Let_def)

lemma distinct_deleted:
  "distinct (map (\<lambda>r. (g r, h r)) rs) \<Longrightarrow> distinct (map (\<lambda>r. (g r, h r, k r)) rs)"
  by (induction rs) auto

text \<open>Any change of request rows that leaves the keys alone commits.\<close>

lemma requests_map_ok:
  assumes "odb_wf d" and "one_request_each d"
    and "\<And>r. or_id (f r) = or_id r" "\<And>r. or_uuid (f r) = or_uuid r"
    and "\<And>r. or_target_region_name (f r) = or_target_region_name r"
    and "\<And>r. or_orch_job_id (f r) = or_orch_job_id r"
  shows "odb_wf (d\<lparr>od_orch_requests := map_rows f (od_orch_requests d)\<rparr>)"
    and "one_request_each (d\<lparr>od_orch_requests := map_rows f (od_orch_requests d)\<rparr>)"
proof -
  let ?d = "d\<lparr>od_orch_requests := map_rows f (od_orch_requests d)\<rparr>"
  show one: "one_request_each ?d"
    using assms(2) by (simp add: one_request_each_def comp_def assms(5,6))
  have "schema_ok ?d"
    by (rule schema_set_requests [OF odb_wf_tables(7) [OF assms(1)]])
      (use one in \<open>simp_all add: comp_def assms one_request_each_def distinct_deleted\<close>)
  moreover have "table_wf or_id (map_rows f (od_orch_requests d))"
    using odb_wf_tables(4) [OF assms(1)] assms(3) by auto
  ultimately show "odb_wf ?d" using assms(1) by (simp add: odb_wf_def okeys_wf_def)
qed

definition with_request :: "orch_request \<Rightarrow> orch_request_value list \<Rightarrow> odb \<Rightarrow> odb" where
  "with_request r vs d = d\<lparr>od_orch_requests :=
     update_row or_id (or_id r) (stamp_request (od_now d) vs) (od_orch_requests d)\<rparr>"

lemma with_request_wf:
  assumes "odb_wf d" and "one_request_each d"
  shows "odb_wf (with_request r vs d)" and "one_request_each (with_request r vs d)"
  unfolding with_request_def update_row_def by (rule requests_map_ok; simp add: assms)+

lemma with_request_frame [simp]:
  "od_subclouds (with_request r vs d) = od_subclouds d" "od_resources (with_request r vs d) = od_resources d"
  "od_orch_jobs (with_request r vs d) = od_orch_jobs d" "od_now (with_request r vs d) = od_now d"
  "od_subcloud_syncs (with_request r vs d) = od_subcloud_syncs d"
  "od_sync_locks (with_request r vs d) = od_sync_locks d"
  by (simp_all add: with_request_def)

lemma with_request_row:
  "r \<in> set (rows (od_orch_requests d)) \<Longrightarrow>
   stamp_request (od_now d) vs r \<in> set (rows (od_orch_requests (with_request r vs d)))"
  by (auto simp: with_request_def rows_update image_iff intro!: bexI [of _ r])

lemma request_save_run:
  assumes "odb_wf d" and "one_request_each d" and "r \<in> set (rows (od_orch_requests d))" and "live r"
  shows "request_save r vs d = (Inr (stamp_request (od_now d) vs r), with_request r vs d)"
proof -
  have "filter (\<lambda>x. live x \<and> or_id x = or_id r) (rows (od_orch_requests d)) = [r]"
    by (rule filter_unique_if [OF table_wf_distinct [OF odb_wf_tables(4) [OF assms(1)]] assms(3)])
      (use assms(4) in auto)
  then have row: "orch_request_row admin_context (or_id r) d = (Inr r, d)"
    by (simp add: orch_request_row_def result_of_apply)
  show ?thesis
    unfolding request_save_def orch_request_update_def require_admin_simp
    by (rule transaction_commits)
      (simp_all add: bnd_apply row seq_apply with_request_def
        odb_wf_tables(7) [OF with_request_wf(1) [OF assms(1,2)], unfolded with_request_def])
qed

definition with_sync :: "subcloud_sync \<Rightarrow> subcloud_sync_value list \<Rightarrow> odb \<Rightarrow> odb" where
  "with_sync y vs d = d\<lparr>od_subcloud_syncs :=
     update_row sy_id (sy_id y) (fold set_subcloud_sync vs) (od_subcloud_syncs d)\<rparr>"

definition keeps_subcloud_id :: "subcloud_sync_value list \<Rightarrow> bool" where
  "keeps_subcloud_id vs \<longleftrightarrow> list_all (\<lambda>v. case v of SetSubcloudId _ \<Rightarrow> False | _ \<Rightarrow> True) vs"

lemma fold_sync_subcloud_id [simp]:
  "keeps_subcloud_id vs \<Longrightarrow> sy_subcloud_id (fold set_subcloud_sync vs r) = sy_subcloud_id r"
  by (induction vs arbitrary: r) (auto simp: keeps_subcloud_id_def split: subcloud_sync_value.splits)

lemma with_sync_frame [simp]:
  "od_subclouds (with_sync y vs d) = od_subclouds d" "od_resources (with_sync y vs d) = od_resources d"
  "od_orch_jobs (with_sync y vs d) = od_orch_jobs d" "od_now (with_sync y vs d) = od_now d"
  "od_orch_requests (with_sync y vs d) = od_orch_requests d"
  "od_sync_locks (with_sync y vs d) = od_sync_locks d"
  "one_request_each (with_sync y vs d) = one_request_each d"
  by (simp_all add: with_sync_def one_request_each_def)

lemma with_sync_wf:
  assumes "odb_wf d" and "keeps_subcloud_id vs"
  shows "odb_wf (with_sync y vs d)"
proof -
  have "schema_ok (with_sync y vs d)"
    unfolding with_sync_def
    by (rule schema_set_syncs [OF odb_wf_tables(7) [OF assms(1)]])
      (simp_all add: rows_update comp_def assms(2) if_distrib cong: if_cong)
  moreover have "table_wf sy_id (od_subcloud_syncs (with_sync y vs d))"
    using odb_wf_tables(5) [OF assms(1)] by (auto simp: with_sync_def)
  ultimately show ?thesis using assms(1) by (simp add: odb_wf_def okeys_wf_def with_sync_def)
qed

lemma with_sync_row:
  "y \<in> set (rows (od_subcloud_syncs d)) \<Longrightarrow>
   fold set_subcloud_sync vs y \<in> set (rows (od_subcloud_syncs (with_sync y vs d)))"
  by (auto simp: with_sync_def rows_update image_iff intro!: bexI [of _ y])

lemma sync_update_run:
  assumes "odb_wf d" and "y \<in> set (rows (od_subcloud_syncs d))" and "is_sync n ep y"
    and "keeps_subcloud_id vs"
  shows "subcloud_sync_update n ep vs d = (Inr (), with_sync y vs d)"
  unfolding subcloud_sync_update_def
  by (rule transaction_commits)
    (simp_all add: bnd_apply sync_row_run [OF assms(1-3)] with_sync_def
      odb_wf_tables(7) [OF with_sync_wf [OF assms(1,4)], unfolded with_sync_def])

end
