(* ===== verification/DO_Sysinv.thy ===== *)
theory DO_Sysinv
  imports DO_InitialSync
begin

text \<open>
  \<open>dcorch/engine/sync_services/sysinv.py\<close>: the sync thread of the platform endpoint. It
  synchronises DNS servers, certificates, the administrator's account and the fernet keys. The
  sysinv client of a region, the JSON and MIME decoding and the parsing of times are parameters;
  \<open>sysinv_class\<close> is the base class with the overridden methods.
\<close>

section \<open>What the thread talks to\<close>

text \<open>The part \<open>payload\<close> of a job's information: a list of patches, a dictionary, or a MIME text.\<close>

datatype sysinv_payload =
    PayloadList "attrs list"
  | PayloadDict attrs
  | PayloadText string
  | NoPayload

record resource_info =
  ri_payload :: sysinv_payload
  ri_content_type :: "string option"

record 'x sysinv_env =
  sv_connect :: "string \<Rightarrow> ('x engine, unit) io"
  sv_delete_region_clients :: "string \<Rightarrow> ('x engine, unit) io"
  sv_delete_audit_clients :: "string \<Rightarrow> ('x engine, unit) io"
  sv_update_dns :: "string \<Rightarrow> string \<Rightarrow> ('x engine, string) io"
  sv_update_certificate ::
    "string \<Rightarrow> string \<Rightarrow> string option \<Rightarrow> (string \<times> string) list \<Rightarrow> ('x engine, string list option) io"
  sv_delete_certificate :: "string \<Rightarrow> ext_resource \<Rightarrow> ('x engine, unit) io"
  sv_update_user ::
    "string \<Rightarrow> string \<Rightarrow> string option \<Rightarrow> string option \<Rightarrow> ('x engine, string) io"
  sv_post_fernet_repo :: "string \<Rightarrow> (string \<times> string) list \<Rightarrow> ('x engine, unit) io"
  sv_put_fernet_repo :: "string \<Rightarrow> (string \<times> string) list \<Rightarrow> ('x engine, unit) io"
  sv_get_dns :: "string \<Rightarrow> ('x engine, ext_resource) io"
  sv_get_certificates :: "string \<Rightarrow> ('x engine, ext_resource list) io"
  sv_get_user :: "string \<Rightarrow> ('x engine, ext_resource) io"
  sv_get_fernet_keys :: "string \<Rightarrow> ('x engine, (string \<times> string) list) io"
  sv_loads :: "string option \<Rightarrow> exn + resource_info"
  sv_loads_keys :: "string option \<Rightarrow> exn + (string \<times> string) list"
  sv_dumps :: "attrs \<Rightarrow> string"
  sv_dumps_payload :: "attrs \<Rightarrow> string"
  sv_multipart :: "string \<Rightarrow> string option \<Rightarrow> exn + (string \<times> string) list"
  sv_parse_isotime :: "string \<Rightarrow> exn + int"
  sv_hash_item :: "string \<times> string option \<Rightarrow> int"
  sv_hash_tuple :: "int list \<Rightarrow> int"

definition lift_sum :: "exn + 'a \<Rightarrow> ('s, 'a) io" where
  "lift_sum r = (case r of Inl e \<Rightarrow> raise e | Inr x \<Rightarrow> ret x)"

definition SYNC_CERTIFICATES :: "string list" where
  "SYNC_CERTIFICATES = [''ssl_ca'', ''openstack_ca'']"

definition CERTIFICATE_SIG_NULL :: string where
  "CERTIFICATE_SIG_NULL = ''NoCertificate''"

definition RESOURCE_UUID_NULL :: string where
  "RESOURCE_UUID_NULL = ''NoResourceUUID''"

definition SYSINV_MODIFY_RESOURCES :: "string list" where
  "SYSINV_MODIFY_RESOURCES = [''idns'', ''iuser'', ''fernet_repo'']"

definition SYSINV_CREATE_RESOURCES :: "string list" where
  "SYSINV_CREATE_RESOURCES = [''certificates'', ''fernet_repo'']"

text \<open>\<open>except (AttributeError, TypeError)\<close> around a call of the client.\<close>

definition retry_on_type_errors :: "('x engine, 'a) io \<Rightarrow> ('x engine, 'a) io" where
  "retry_on_type_errors m = try_catch m (\<lambda>e.
     if e = AttributeError \<or> e = TypeError then raise (Dcorch SyncRequestFailedRetry) else raise e)"

section \<open>DNS servers\<close>

text \<open>The value of the first patch with a path.\<close>

fun first_patch :: "string \<Rightarrow> attrs list \<Rightarrow> string option" where
  "first_patch path [] = None"
| "first_patch path (p # ps) =
     (if aget p ''path'' = Some path then aget p ''value'' else first_patch path ps)"

definition sync_idns ::
  "ident_env \<Rightarrow> 'x sysinv_env \<Rightarrow> sync_thread \<Rightarrow> 'x handler" where
  "sync_idns E S th r j rsrc =
     bnd (lift_sum (sv_loads S (oj_resource_info j))) (\<lambda>info.
     bnd (case ri_payload info of
            PayloadList ps \<Rightarrow> ret (first_patch ''/nameservers'' ps)
          | PayloadDict d \<Rightarrow> ret (aget d ''nameservers'')
          | _ \<Rightarrow> raise AttributeError) (\<lambda>servers.
     bnd (retry_on_type_errors (sv_update_dns S (th_subcloud_name th)
            (case servers of None \<Rightarrow> '''' | Some x \<Rightarrow> x))) (\<lambda>uuid.
     seq (persist_db_subcloud_resource E th (rs_id rsrc) uuid) (ret ()))))"

section \<open>Certificates\<close>

text \<open>The parts of a MIME text, told apart by their \<open>Content-Disposition\<close>; a text that cannot be
  decoded has none. The result is the certificate and the metadata.\<close>

definition part_is :: "string \<Rightarrow> string \<Rightarrow> bool" where
  "part_is nm disposition \<longleftrightarrow> sublist (''name='' @ [CHR 0x22] @ nm @ [CHR 0x22]) disposition"

fun take_parts ::
  "(string \<times> string) list \<Rightarrow> string option \<times> (string \<times> string) list \<Rightarrow>
   string option \<times> (string \<times> string) list" where
  "take_parts [] acc = acc"
| "take_parts ((disposition, content) # ps) (cert, meta) =
     take_parts ps
       (if part_is ''passphrase'' disposition then (cert, AList.update ''passphrase'' content meta)
        else if part_is ''mode'' disposition then (cert, AList.update ''mode'' content meta)
        else if part_is ''file'' disposition then (Some content, meta)
        else (cert, meta))"

definition decode_certificate_payload ::
  "'x sysinv_env \<Rightarrow> resource_info \<Rightarrow> string option \<times> (string \<times> string) list" where
  "decode_certificate_payload S info =
     (case ri_payload info of
        PayloadText t \<Rightarrow>
          (case sv_multipart S t (ri_content_type info) of
             Inl _ \<Rightarrow> (None, [])
           | Inr parts \<Rightarrow> take_parts parts (None, []))
      | _ \<Rightarrow> (None, []))"

text \<open>The expiry date: given as a key of a dictionary, mentioned in a text (which cannot be indexed
  by a key), or not there; None where the method returns.\<close>

definition expiry_of :: "'x sysinv_env \<Rightarrow> sysinv_payload \<Rightarrow> ('x engine, int option) io" where
  "expiry_of S p =
     (case p of
        PayloadDict d \<Rightarrow>
          (case map_of d ''expiry_date'' of
             None \<Rightarrow> ret None
           | Some None \<Rightarrow> raise TypeError
           | Some (Some t) \<Rightarrow> bnd (lift_sum (sv_parse_isotime S t)) (\<lambda>x. ret (Some x)))
      | PayloadText t \<Rightarrow> if sublist ''expiry_date'' t then raise TypeError else ret None
      | _ \<Rightarrow> ret None)"

text \<open>Whether the type of the certificate is one that is synchronised: the type of a dictionary, the
  mode of a MIME text.\<close>

definition synced_type :: "sysinv_payload \<Rightarrow> (string \<times> string) list \<Rightarrow> bool" where
  "synced_type p meta =
     (case p of
        PayloadDict d \<Rightarrow>
          (case aget d ''certtype'' of None \<Rightarrow> False | Some t \<Rightarrow> t \<in> set SYNC_CERTIFICATES)
      | _ \<Rightarrow> (case map_of meta ''mode'' of None \<Rightarrow> False | Some m \<Rightarrow> m \<in> set SYNC_CERTIFICATES))"

definition create_certificate ::
  "ident_env \<Rightarrow> 'x sysinv_env \<Rightarrow> sync_thread \<Rightarrow> 'x handler" where
  "create_certificate E S th r j rsrc =
     bnd (lift_sum (sv_loads S (oj_resource_info j))) (\<lambda>info.
     bnd (expiry_of S (ri_payload info)) (\<lambda>expiry. case expiry of
       None \<Rightarrow> ret ()
     | Some t \<Rightarrow>
         bnd (gets (\<lambda>s. od_now (eg_db s))) (\<lambda>now.
         if now > t then raise (Dcorch CertificateExpiredException)
         else
           (case decode_certificate_payload S info of (cert, meta) \<Rightarrow>
             if \<not> synced_type (ri_payload info) meta then ret ()
             else
               bnd (if rs_master_id rsrc \<noteq> [] \<and> rs_master_id rsrc \<noteq> CERTIFICATE_SIG_NULL then
                      retry_on_type_errors (sv_update_certificate S (th_subcloud_name th)
                        (rs_master_id rsrc) cert meta)
                    else ret None) (\<lambda>updated.
               seq (persist_db_subcloud_resource E th (rs_id rsrc) (rs_master_id rsrc))
                 (case updated of None \<Rightarrow> raise AttributeError | Some _ \<Rightarrow> ret ()))))))"

definition get_certificates_resources ::
  "'x sysinv_env \<Rightarrow> string \<Rightarrow> ('x engine, ext_resource list) io" where
  "get_certificates_resources S region = bnd (sv_get_certificates S region) (\<lambda>cs.
     ret (filter (\<lambda>c. case attr c ''certtype'' of None \<Rightarrow> False | Some t \<Rightarrow> t \<in> set SYNC_CERTIFICATES) cs))"

text \<open>A certificate that is not in the subcloud any more counts as deleted.\<close>

definition delete_certificate ::
  "ident_env \<Rightarrow> 'x sysinv_env \<Rightarrow> sync_thread \<Rightarrow> 'x handler" where
  "delete_certificate E S th r j rsrc =
     bnd (get_db_subcloud_resource E th (rs_id rsrc)) (\<lambda>copy. case copy of
       None \<Rightarrow> ret ()
     | Some sr \<Rightarrow>
         seq (try_catch
                (bnd (get_certificates_resources S (th_subcloud_name th)) (\<lambda>cs.
                 case find (\<lambda>c. attr c ''signature'' = Some (sr_subcloud_resource_id sr)) cs of
                   None \<Rightarrow> raise (Dcorch (CertificateNotFound (th_subcloud_name th)
                     (sr_subcloud_resource_id sr)))
                 | Some c \<Rightarrow> sv_delete_certificate S (th_subcloud_name th) c))
                (\<lambda>e. case e of
                   Dcorch (CertificateNotFound _ _) \<Rightarrow> ret ()
                 | _ \<Rightarrow> if e = AttributeError \<or> e = TypeError
                        then raise (Dcorch SyncRequestFailedRetry) else raise e))
           (odo (subcloud_resource_delete admin_context (sr_id sr))))"

text \<open>The common handler of certificates and keys: an unreachable subcloud is a time-out, any other
  failure is tried again.\<close>

definition sync_failures ::
  "(exn \<Rightarrow> bool) \<Rightarrow> ('x engine, unit) io \<Rightarrow> ('x engine, unit) io" where
  "sync_failures passed m = try_catch m (\<lambda>e.
     if e = ConnectTimeout \<or> e = ConnectFailure then raise (Dcorch SyncRequestTimeout)
     else if passed e then raise e
     else if is_Exception e then raise (Dcorch SyncRequestFailedRetry) else raise e)"

definition sync_certificates ::
  "ident_env \<Rightarrow> 'x sysinv_env \<Rightarrow> sync_thread \<Rightarrow> 'x handler" where
  "sync_certificates E S th r j rsrc =
     (let run = sync_failures (\<lambda>e. e = Dcorch CertificateExpiredException)
      in case oj_operation_type j of
           OPERATION_TYPE_POST \<Rightarrow> run (create_certificate E S th r j rsrc)
         | OPERATION_TYPE_CREATE \<Rightarrow> run (create_certificate E S th r j rsrc)
         | OPERATION_TYPE_DELETE \<Rightarrow> run (delete_certificate E S th r j rsrc)
         | _ \<Rightarrow> raise KeyError)"

section \<open>The administrator's account\<close>

text \<open>The three values of the payload. In a list, a value that is not given is an unbound variable,
  except for the hash; the later patch for a path wins.\<close>

definition last_patch :: "string \<Rightarrow> attrs list \<Rightarrow> string option option" where
  "last_patch path ps =
     (case filter (\<lambda>p. aget p ''path'' = Some path) ps of
        [] \<Rightarrow> None
      | qs \<Rightarrow> Some (aget (last qs) ''value''))"

definition user_values ::
  "sysinv_payload \<Rightarrow> ('x engine, string option \<times> string option \<times> string option) io" where
  "user_values p =
     (case p of
        PayloadList ps \<Rightarrow>
          (case (last_patch ''/root_sig'' ps, last_patch ''/passwd_expiry_days'' ps) of
             (Some sig, Some days) \<Rightarrow>
               ret (case last_patch ''/passwd_hash'' ps of None \<Rightarrow> None | Some h \<Rightarrow> h, sig, days)
           | _ \<Rightarrow> raise UnboundLocalError)
      | PayloadDict d \<Rightarrow> ret (aget d ''passwd_hash'', aget d ''root_sig'', aget d ''passwd_expiry_days'')
      | _ \<Rightarrow> raise AttributeError)"

definition sync_iuser ::
  "ident_env \<Rightarrow> 'x sysinv_env \<Rightarrow> sync_thread \<Rightarrow> 'x handler" where
  "sync_iuser E S th r j rsrc =
     bnd (lift_sum (sv_loads S (oj_resource_info j))) (\<lambda>info.
     bnd (user_values (ri_payload info)) (\<lambda>(hash, sig, days).
     if \<not> truthy_str hash then ret ()
     else
       bnd (retry_on_type_errors (sv_update_user S (th_subcloud_name th) (the hash) sig days)) (\<lambda>uuid.
       seq (persist_db_subcloud_resource E th (rs_id rsrc) uuid) (ret ()))))"

section \<open>Fernet keys\<close>

definition send_fernet_repo ::
  "ident_env \<Rightarrow> 'x sysinv_env \<Rightarrow> (string \<Rightarrow> (string \<times> string) list \<Rightarrow> ('x engine, unit) io) \<Rightarrow>
   sync_thread \<Rightarrow> 'x handler" where
  "send_fernet_repo E S send th r j rsrc =
     bnd (lift_sum (sv_loads_keys S (oj_resource_info j))) (\<lambda>keys.
     retry_on_type_errors
       (seq (send (th_subcloud_name th) (from_resource_info keys))
         (seq (persist_db_subcloud_resource E th (rs_id rsrc) (rs_master_id rsrc)) (ret ()))))"

definition sync_fernet_repo ::
  "ident_env \<Rightarrow> 'x sysinv_env \<Rightarrow> sync_thread \<Rightarrow> 'x handler" where
  "sync_fernet_repo E S th r j rsrc =
     (let run = sync_failures (\<lambda>_. False)
      in case oj_operation_type j of
           OPERATION_TYPE_PUT \<Rightarrow> run (send_fernet_repo E S (sv_put_fernet_repo S) th r j rsrc)
         | OPERATION_TYPE_PATCH \<Rightarrow> run (send_fernet_repo E S (sv_put_fernet_repo S) th r j rsrc)
         | OPERATION_TYPE_CREATE \<Rightarrow> run (send_fernet_repo E S (sv_post_fernet_repo S) th r j rsrc)
         | _ \<Rightarrow> raise KeyError)"

section \<open>The handler of every platform resource\<close>

text \<open>What the handler of a resource raises, as the engine sees it. \<open>SyncRequestTimeout\<close> is not
  among the exceptions named, so the last clause turns it into a retry.\<close>

definition sync_platform_resource ::
  "ident_env \<Rightarrow> 'x sysinv_env \<Rightarrow> sync_thread \<Rightarrow> 'x handler" where
  "sync_platform_resource E S th r j rsrc =
     try_catch
       (seq (sv_connect S (th_subcloud_name th))
         (if rs_resource_type rsrc = ''idns'' then sync_idns E S th r j rsrc
          else if rs_resource_type rsrc = ''certificates'' then sync_certificates E S th r j rsrc
          else if rs_resource_type rsrc = ''iuser'' then sync_iuser E S th r j rsrc
          else if rs_resource_type rsrc = ''fernet_repo'' then sync_fernet_repo E S th r j rsrc
          else raise AttributeError))
       (\<lambda>e. if e = AttributeError then raise (Dcorch SyncRequestFailed)
         else if e = Dcorch CertificateExpiredException then raise (Dcorch SyncRequestAbortedBySystem)
         else if e \<in> {Dcorch ConnectionRefused, Dcorch TimeOut, ConnectTimeout, ConnectFailure}
           then raise (Dcorch SyncRequestTimeout)
         else if e = NotAuthorized then
           seq (sv_delete_region_clients S (th_subcloud_name th)) (raise (Dcorch SyncRequestFailedRetry))
         else if is_Exception e then raise (Dcorch SyncRequestFailedRetry)
         else raise e)"

section \<open>The resources the audit compares\<close>

definition CLOUD_0 :: string where
  "CLOUD_0 = ''RegionOne''"

definition get_fernet_resources :: "'x sysinv_env \<Rightarrow> string \<Rightarrow> ('x engine, ext_resource) io" where
  "get_fernet_resources S region = bnd (sv_get_fernet_keys S region) (\<lambda>keys.
     ret \<lparr>xr_id = [], xr_attrs = map (\<lambda>(k, v). (k, Some v)) (to_resource_info keys), xr_lists = [],
       xr_number = None\<rparr>)"

definition region_resources ::
  "'x sysinv_env \<Rightarrow> string \<Rightarrow> string \<Rightarrow> ('x engine, ext_resource list option) io" where
  "region_resources S region resource_type =
     seq (sv_connect S region)
       (if resource_type = ''idns'' then bnd (sv_get_dns S region) (\<lambda>x. ret (Some [x]))
        else if resource_type = ''certificates'' then
          bnd (get_certificates_resources S region) (\<lambda>xs. ret (Some xs))
        else if resource_type = ''iuser'' then bnd (sv_get_user S region) (\<lambda>x. ret (Some [x]))
        else if resource_type = ''fernet_repo'' then
          bnd (get_fernet_resources S region) (\<lambda>x. ret (Some [x]))
        else ret None)"

definition sysinv_get_master_resources ::
  "'x sysinv_env \<Rightarrow> string \<Rightarrow> ('x engine, ext_resource list option) io" where
  "sysinv_get_master_resources S resource_type =
     except_Exception (region_resources S CLOUD_0 resource_type) (\<lambda>_. ret None)"

text \<open>Every exception ends the audit; a subcloud that refuses the token loses its cached clients.\<close>

definition sysinv_get_subcloud_resources ::
  "'x sysinv_env \<Rightarrow> sync_thread \<Rightarrow> string \<Rightarrow> ('x engine, ext_resource list option) io" where
  "sysinv_get_subcloud_resources S th resource_type =
     except_Exception (region_resources S (th_subcloud_name th) resource_type) (\<lambda>e.
       if e = NotAuthorized
       then seq (sv_delete_region_clients S (th_subcloud_name th)) (ret None)
       else ret None)"

definition sysinv_post_audit :: "'x sysinv_env \<Rightarrow> sync_thread \<Rightarrow> ('x engine, unit) io" where
  "sysinv_post_audit S th = seq base_post_audit
     (seq (sv_delete_audit_clients S (th_subcloud_name th)) (sv_delete_audit_clients S CLOUD_0))"

definition sysinv_get_resource_id :: "string \<Rightarrow> audited \<Rightarrow> string" where
  "sysinv_get_resource_id resource_type a =
     (if resource_type = ''certificates'' then
        (case a of
           FromDb r \<Rightarrow> rs_master_id r
         | FromCloud x \<Rightarrow> (case attr x ''signature'' of None \<Rightarrow> CERTIFICATE_SIG_NULL | Some s \<Rightarrow> s))
      else if resource_type = ''fernet_repo'' then FERNET_REPO_MASTER_ID
      else
        (case a of
           FromDb r \<Rightarrow> rs_uuid r
         | FromCloud x \<Rightarrow> (case attr x ''uuid'' of None \<Rightarrow> RESOURCE_UUID_NULL | Some u \<Rightarrow> u)))"

section \<open>Sameness\<close>

definition same_dns :: "ext_resource \<Rightarrow> ext_resource \<Rightarrow> bool" where
  "same_dns i1 i2 \<longleftrightarrow>
     attr i1 ''nameservers'' = attr i2 ''nameservers'' \<or>
     (\<not> truthy_str (attr i1 ''nameservers'') \<and> \<not> truthy_str (attr i2 ''nameservers''))"

definition date_differs :: "string \<Rightarrow> ext_resource \<Rightarrow> ext_resource \<Rightarrow> bool" where
  "date_differs k i1 i2 \<longleftrightarrow> truthy_str (attr i1 k) \<and> attr i1 k \<noteq> attr i2 k"

definition same_certificate :: "ext_resource \<Rightarrow> ext_resource \<Rightarrow> bool" where
  "same_certificate i1 i2 \<longleftrightarrow>
     (let differs = (truthy_str (attr i1 ''signature'') \<and> attr i1 ''signature'' \<noteq> attr i2 ''signature'')
      in if differs \<and> attr i1 ''signature'' = Some CERTIFICATE_SIG_NULL then True
         else \<not> differs \<and> \<not> date_differs ''expiry_date'' i1 i2 \<and> \<not> date_differs ''start_date'' i1 i2)"

definition same_user :: "ext_resource \<Rightarrow> ext_resource \<Rightarrow> bool" where
  "same_user i1 i2 \<longleftrightarrow> attr i1 ''passwd_hash'' = attr i2 ''passwd_hash'' \<and>
     attr i1 ''passwd_expiry_days'' = attr i2 ''passwd_expiry_days''"

text \<open>\<open>FernetKeyManager.get_resource_hash\<close>: the hash of the sorted hashes of the items.\<close>

definition get_resource_hash :: "'x sysinv_env \<Rightarrow> attrs \<Rightarrow> int" where
  "get_resource_hash S info = sv_hash_tuple S (sort (map (sv_hash_item S) info))"

definition same_fernet_key :: "'x sysinv_env \<Rightarrow> ext_resource \<Rightarrow> ext_resource \<Rightarrow> bool" where
  "same_fernet_key S i1 i2 \<longleftrightarrow>
     get_resource_hash S (xr_attrs i1) = get_resource_hash S (xr_attrs i2)"

definition sysinv_same_resource ::
  "'x sysinv_env \<Rightarrow> string \<Rightarrow> ext_resource \<Rightarrow> ext_resource \<Rightarrow> bool" where
  "sysinv_same_resource S resource_type m_r sc_r =
     (if resource_type = ''idns'' then same_dns m_r sc_r
      else if resource_type = ''certificates'' then same_certificate m_r sc_r
      else if resource_type = ''iuser'' then same_user m_r sc_r
      else if resource_type = ''fernet_repo'' then same_fernet_key S m_r sc_r
      else False)"

section \<open>The audit's actions\<close>

definition sysinv_audit_discrepancy :: "string \<Rightarrow> bool" where
  "sysinv_audit_discrepancy resource_type \<longleftrightarrow>
     resource_type \<in> set SYSINV_MODIFY_RESOURCES \<or> resource_type \<in> set SYSINV_CREATE_RESOURCES"

definition sysinv_get_resource_info ::
  "'x sysinv_env \<Rightarrow> string \<Rightarrow> audited \<Rightarrow> operation_type \<Rightarrow> ('x engine, string option) io" where
  "sysinv_get_resource_info S resource_type a op =
     (if resource_type \<in> {''idns'', ''certificates'', ''iuser''} then
        (case a of
           FromDb _ \<Rightarrow> raise AttributeError
         | FromCloud x \<Rightarrow>
             ret (Some (if has_attr x ''payload'' then sv_dumps S (xr_attrs x)
                        else sv_dumps_payload S (xr_attrs x))))
      else if resource_type = ''fernet_repo'' then
        (case a of FromDb _ \<Rightarrow> raise TypeError | FromCloud x \<Rightarrow> ret (Some (sv_dumps S (xr_attrs x))))
      else ret (Some []))"

text \<open>DNS, user and keys are always updated; a certificate is created or deleted, unless it has no
  identity.\<close>

definition sysinv_audit_action ::
  "ident_env \<Rightarrow> 'x sysinv_env \<Rightarrow> sync_thread \<Rightarrow> string \<Rightarrow> finding \<Rightarrow> audited \<Rightarrow> ('x engine, nat) io" where
  "sysinv_audit_action E S th resource_type finding a =
     (let resource_id = sysinv_get_resource_id resource_type a
      in if resource_type \<in> set SYSINV_MODIFY_RESOURCES then
           (case finding of
              AUDIT_RESOURCE_MISSING \<Rightarrow>
                bnd (sysinv_get_resource_info S resource_type a OPERATION_TYPE_PATCH) (\<lambda>info.
                seq (schedule_work E th (th_endpoint_type th) resource_type resource_id
                       OPERATION_TYPE_PATCH info) (ret 1))
            | AUDIT_RESOURCE_EXTRA \<Rightarrow> ret 0)
         else if resource_type \<in> set SYSINV_CREATE_RESOURCES then
           (if resource_id = CERTIFICATE_SIG_NULL \<or> resource_id = RESOURCE_UUID_NULL then ret 0
            else case finding of
              AUDIT_RESOURCE_MISSING \<Rightarrow>
                bnd (sysinv_get_resource_info S resource_type a OPERATION_TYPE_CREATE) (\<lambda>info.
                seq (schedule_work E th (th_endpoint_type th) resource_type resource_id
                       OPERATION_TYPE_CREATE info) (ret 1))
            | AUDIT_RESOURCE_EXTRA \<Rightarrow>
                seq (schedule_work E th (th_endpoint_type th) resource_type resource_id
                       OPERATION_TYPE_DELETE None) (ret 1))
         else base_audit_action E th (\<lambda>t a. ret (sysinv_get_resource_id t a)) (sysinv_get_resource_info S)
                resource_type finding a)"

definition sysinv_handlers ::
  "ident_env \<Rightarrow> 'x sysinv_env \<Rightarrow> sync_thread \<Rightarrow> string \<Rightarrow> 'x handler option" where
  "sysinv_handlers E S th resource_type =
     (if resource_type \<in> {''idns'', ''certificates'', ''iuser'', ''fernet_repo''}
      then Some (sync_platform_resource E S th) else None)"

definition sysinv_class :: "ident_env \<Rightarrow> 'x sysinv_env \<Rightarrow> sync_thread \<Rightarrow> 'x sync_class" where
  "sysinv_class E S th = (base_sync_class E th)\<lparr>
     cl_handlers := sysinv_handlers E S th,
     cl_audit_resources := [''certificates'', ''idns'', ''iuser'', ''fernet_repo''],
     cl_post_audit := sysinv_post_audit S th,
     cl_get_subcloud_resources := sysinv_get_subcloud_resources S th,
     cl_get_master_resources := sysinv_get_master_resources S,
     cl_same_resource := (\<lambda>t m_r sc_r. ret (sysinv_same_resource S t m_r sc_r)),
     cl_audit_discrepancy := (\<lambda>t _ _. ret (sysinv_audit_discrepancy t)),
     cl_get_resource_id := (\<lambda>t a. ret (sysinv_get_resource_id t a)),
     cl_get_resource_info := sysinv_get_resource_info S,
     cl_audit_action := sysinv_audit_action E S th\<rparr>"

end
