(* ===== verification/DO_SyncProps.thy ===== *)
theory DO_SyncProps
  imports DO_Lemmas DO_Sysinv
begin

text \<open>
  What a synchronisation of an endpoint promises, with a small orchestrator on which the properties are
  tried.
\<close>

chapter \<open>A small orchestrator\<close>

text \<open>
  A small orchestrator on which the properties are tried: one subcloud with a queued request for
  its DNS servers, and a sysinv whose calls succeed or refuse to connect.
\<close>

definition ex_ident :: ident_env where
  "ex_ident = \<lparr>int_like = (\<lambda>_. None), uuid_like = (\<lambda>_. False), uuid_text = show_nat\<rparr>"

definition ex_osubcloud :: "nat \<Rightarrow> string \<Rightarrow> initial_sync \<Rightarrow> o_subcloud" where
  "ex_osubcloud i nm st = \<lparr>os_id = i, os_uuid = nm, os_region_name = nm, os_software_version = ''22.12'',
     os_management_state = Some MANAGEMENT_MANAGED, os_availability_status = AVAILABILITY_ONLINE,
     os_capabilities = default_capabilities, os_initial_sync_state = st\<rparr>"

definition ex_resource :: resource where
  "ex_resource = \<lparr>rs_id = 1, rs_uuid = ''u1'', rs_resource_type = ''idns'', rs_master_id = ''m1''\<rparr>"

definition ex_job :: orch_job where
  "ex_job = \<lparr>oj_id = 1, oj_uuid = ''u1'', oj_endpoint_type = ''platform'', oj_source_resource_id = ''m1'',
     oj_operation_type = OPERATION_TYPE_PATCH, oj_resource_id = 1, oj_resource_info = None\<rparr>"

definition ex_request :: "nat \<Rightarrow> string \<Rightarrow> request_state \<Rightarrow> orch_request" where
  "ex_request i region st = \<lparr>or_id = i, or_uuid = show_nat i, or_state = Some st, or_try_count = 0,
     or_target_region_name = region, or_orch_job_id = 1, or_updated_at = Some 50,
     or_deleted_at = None, or_deleted = 0\<rparr>"

definition ex_sync :: "nat \<Rightarrow> string \<Rightarrow> sync_request_status \<Rightarrow> subcloud_sync" where
  "ex_sync i nm st = \<lparr>sy_id = i, sy_subcloud_id = Some i, sy_subcloud_name = nm, sy_endpoint_type = ''platform'',
     sy_sync_request = st, sy_sync_status_reported = None, sy_sync_status_report_time = None,
     sy_audit_status = AUDIT_STATUS_NONE, sy_last_audit_time = None\<rparr>"

definition ex_odb :: "request_state \<Rightarrow> odb" where
  "ex_odb st = empty_odb\<lparr>
     od_subclouds := \<lparr>rows = [ex_osubcloud 1 ''alpha'' INITIAL_SYNC_STATE_COMPLETED], next_id = 2\<rparr>,
     od_resources := \<lparr>rows = [ex_resource], next_id = 2\<rparr>,
     od_orch_jobs := \<lparr>rows = [ex_job], next_id = 2\<rparr>,
     od_orch_requests := \<lparr>rows = [ex_request 1 ''alpha'' st], next_id = 2\<rparr>,
     od_subcloud_syncs := \<lparr>rows = [ex_sync 1 ''alpha'' SYNC_STATUS_REQUESTED], next_id = 2\<rparr>,
     od_now := 100\<rparr>"

definition ex_engine :: "odb \<Rightarrow> unit engine" where
  "ex_engine d = \<lparr>eg_db = d, eg_reports = [], eg_master = Map.empty, eg_sync_objs = [(''alpha'', [''platform''])],
     eg_threads = [], eg_audit_threads = [], eg_initial_threads = [], eg_timers = [], eg_ext = ()\<rparr>"

definition ex_thread :: sync_thread where
  "ex_thread = mk_thread ''alpha'' ''platform''"

text \<open>A class whose handler always times out, and a sysinv.\<close>

definition ex_timeout_class :: "unit sync_class" where
  "ex_timeout_class = (base_sync_class ex_ident ex_thread)\<lparr>
     cl_handlers := (\<lambda>_. Some (\<lambda>_ _ _. raise (Dcorch SyncRequestTimeout)))\<rparr>"

definition ex_xres :: ext_resource where
  "ex_xres = \<lparr>xr_id = ''m1'', xr_attrs = [(''uuid'', Some ''m1''), (''nameservers'', Some ''8.8.8.8'')], xr_lists = [],
     xr_number = None\<rparr>"

definition ex_sysinv :: "unit sysinv_env" where
  "ex_sysinv = \<lparr>
     sv_connect = (\<lambda>_. ret ()), sv_delete_region_clients = (\<lambda>_. ret ()), sv_delete_audit_clients = (\<lambda>_. ret ()),
     sv_update_dns = (\<lambda>_ _. ret ''m1''), sv_update_certificate = (\<lambda>_ _ _ _. raise ConnectTimeout),
     sv_delete_certificate = (\<lambda>_ _. ret ()), sv_update_user = (\<lambda>_ _ _ _. ret ''m1''),
     sv_post_fernet_repo = (\<lambda>_ _. ret ()), sv_put_fernet_repo = (\<lambda>_ _. raise ConnectTimeout),
     sv_get_dns = (\<lambda>_. ret ex_xres), sv_get_certificates = (\<lambda>_. ret []), sv_get_user = (\<lambda>_. ret ex_xres),
     sv_get_fernet_keys = (\<lambda>_. ret []),
     sv_loads = (\<lambda>_. Inr \<lparr>ri_payload = PayloadDict [(''nameservers'', Some ''8.8.8.8'')], ri_content_type = None\<rparr>),
     sv_loads_keys = (\<lambda>_. Inr []), sv_dumps = (\<lambda>_. []), sv_dumps_payload = (\<lambda>_. []),
     sv_multipart = (\<lambda>_ _. Inr []), sv_parse_isotime = (\<lambda>_. Inr 0),
     sv_hash_item = (\<lambda>_. 0), sv_hash_tuple = (\<lambda>_. 0)\<rparr>"

lemmas ex_odefs = ex_ident_def ex_osubcloud_def ex_resource_def ex_job_def ex_request_def ex_sync_def
  ex_odb_def ex_engine_def ex_thread_def mk_thread_def empty_odb_def

lemma ex_odb_wf: "odb_wf (ex_odb st)" "one_request_each (ex_odb st)"
  by (simp_all add: ex_odefs empty_table_def odb_wf_def okeys_wf_def schema_ok_def unique_ok_def refs_ok_def refer_to_def
      table_wf_def one_request_each_def)

chapter \<open>What a synchronisation does\<close>

text \<open>
  The synchronisation of an endpoint: what is reported, how often a request is tried, and in which
  state it is left.
\<close>

section \<open>A subcloud that is synchronised\<close>

definition sync_target :: "ident_env \<Rightarrow> sync_thread \<Rightarrow> odb \<Rightarrow> bool" where
  "sync_target E th d \<longleftrightarrow> proper_name E (th_subcloud_name th) \<and>
     (\<exists>sc \<in> set (rows (od_subclouds d)). os_region_name sc = th_subcloud_name th \<and>
        os_management_state sc = Some MANAGEMENT_MANAGED \<and>
        os_availability_status sc = AVAILABILITY_ONLINE \<and>
        os_initial_sync_state sc = INITIAL_SYNC_STATE_COMPLETED)"

lemma sync_target_cong: "od_subclouds d = od_subclouds d' \<Longrightarrow> sync_target E th d = sync_target E th d'"
  by (simp add: sync_target_def)

lemma target_runs:
  assumes "odb_wf (eg_db s)" and "sync_target E th (eg_db s)"
  shows "th_is_managed E th s = (Inr True, s)" and "th_is_enabled E th s = (Inr True, s)"
proof -
  obtain sc where sc: "sc \<in> set (rows (od_subclouds (eg_db s)))" "os_region_name sc = th_subcloud_name th"
    "os_management_state sc = Some MANAGEMENT_MANAGED" "os_availability_status sc = AVAILABILITY_ONLINE"
    "os_initial_sync_state sc = INITIAL_SYNC_STATE_COMPLETED" and n: "proper_name E (th_subcloud_name th)"
    using assms(2) by (auto simp: sync_target_def)
  have "odo (subcloud_by_name E (th_subcloud_name th)) s = (Inr sc, s)"
    using subcloud_row_run [OF assms(1), of E sc] sc(1,2) n by (simp add: odo_def)
  then show "th_is_managed E th s = (Inr True, s)" and "th_is_enabled E th s = (Inr True, s)"
    using sc by (simp_all add: th_is_managed_def th_is_enabled_def bnd_apply)
qed

lemma allowed_run:
  assumes "odb_wf (eg_db s)" and "sync_target E th (eg_db s)"
    and "y \<in> set (rows (od_subcloud_syncs (eg_db s)))" and "is_sync (th_subcloud_name th) (th_endpoint_type th) y"
  shows "request_allowed E th s = (Inr True, s)"
proof -
  have "should_exit th s = (Inr False, s)"
    using sync_row_run [OF assms(1,3,4)]
    by (simp add: should_exit_def try_catch_def seq_apply odo_def)
  then show ?thesis
    using target_runs(2) [OF assms(1,2)] by (simp add: request_allowed_def bnd_apply)
qed

definition reported :: "sync_thread \<Rightarrow> sync_status \<Rightarrow> bool \<Rightarrow> report" where
  "reported th st al = \<lparr>rp_subcloud = th_subcloud_name th, rp_endpoint_type = th_endpoint_type th,
     rp_status = st, rp_alarmable = al\<rparr>"

lemma report_run:
  assumes "odb_wf (eg_db s)" and "sync_target E th (eg_db s)"
    and "y \<in> set (rows (od_subcloud_syncs (eg_db s)))" and "is_sync (th_subcloud_name th) (th_endpoint_type th) y"
    and "\<not> recently_reported st y (od_now (eg_db s))"
  shows "set_sync_status E th st al s = (Inr (), s\<lparr>
     eg_db := with_sync y [SetReported (Some st), SetReportTime (Some (od_now (eg_db s)))] (eg_db s),
     eg_reports := eg_reports s @ [reported th st al]\<rparr>)"
proof -
  let ?s = "s\<lparr>eg_reports := eg_reports s @ [reported th st al]\<rparr>"
  have got: "odo (subcloud_sync_get (th_subcloud_name th) (th_endpoint_type th)) s = (Inr y, s)"
    using sync_row_run [OF assms(1,3,4)] by (simp add: odo_def)
  have upd: "odo (subcloud_sync_update (th_subcloud_name th) (th_endpoint_type th)
      [SetReported (Some st), SetReportTime (Some (od_now (eg_db s)))]) ?s =
    (Inr (), ?s\<lparr>eg_db := with_sync y [SetReported (Some st), SetReportTime (Some (od_now (eg_db s)))] (eg_db s)\<rparr>)"
    using sync_update_run [OF assms(1,3,4)] by (simp add: odo_def keeps_subcloud_id_def)
  show ?thesis
    using assms(5) upd
    by (simp add: set_sync_status_def bnd_apply target_runs(1) [OF assms(1,2)] got seq_apply
        log_report_def reported_def)
qed

section \<open>Pending requests\<close>

definition pending_list :: "sync_thread \<Rightarrow> odb \<Rightarrow> (orch_request \<times> orch_job) list" where
  "pending_list th d = map (\<lambda>r. (r, the (job_of d r)))
     (sort_key or_id (query_all (request_matches (th_endpoint_type th) None (Some (th_subcloud_name th))
        (Some PENDING_SYNC_REQUEST_STATES) d) (od_orch_requests d)))"

lemma pending_run: "pending_requests th s = (Inr (pending_list th (eg_db s)), s)"
  by (simp add: pending_requests_def orch_request_get_by_attrs_def odo_def pending_list_def)

text \<open>A request is pending when it is live, for the thread's subcloud, of a job of the thread's
  endpoint type, and queued, in progress or failed.\<close>

definition is_pending :: "sync_thread \<Rightarrow> odb \<Rightarrow> orch_request \<Rightarrow> bool" where
  "is_pending th d r \<longleftrightarrow> request_matches (th_endpoint_type th) None (Some (th_subcloud_name th))
     (Some PENDING_SYNC_REQUEST_STATES) d r"

lemma pending_list_iff:
  "(r, j) \<in> set (pending_list th d) \<longleftrightarrow>
     r \<in> set (rows (od_orch_requests d)) \<and> is_pending th d r \<and> j = the (job_of d r)"
  by (auto simp: pending_list_def is_pending_def query_all_def)

lemma pending_list_cong:
  assumes "od_orch_requests d = od_orch_requests d'" and "od_orch_jobs d = od_orch_jobs d'"
  shows "pending_list th d = pending_list th d'"
proof -
  have "request_matches ep None tr ss d = request_matches ep None tr ss d'" for ep tr ss
    by (rule ext) (simp add: request_matches_def job_of_def assms cong: option.case_cong)
  then show ?thesis by (simp add: pending_list_def job_of_def assms)
qed

lemma is_pending_live: "is_pending th d r \<Longrightarrow> live r"
  by (simp add: is_pending_def request_matches_def)

text \<open>A change of the try count or to a pending state leaves a request pending.\<close>

lemma is_pending_change:
  assumes "is_pending th d r" and "od_orch_jobs d' = od_orch_jobs d"
    and "or_target_region_name r' = or_target_region_name r" "or_orch_job_id r' = or_orch_job_id r"
    and "live r'" and "or_state r' = Some ORCH_REQUEST_IN_PROGRESS"
  shows "is_pending th d' r'"
  using assms
  by (simp add: is_pending_def request_matches_def job_of_def PENDING_SYNC_REQUEST_STATES_def
      split: option.splits)

section \<open>A handler that times out\<close>

definition times_out :: "'x sync_class \<Rightarrow> orch_job \<Rightarrow> odb \<Rightarrow> bool" where
  "times_out c j d \<longleftrightarrow> (\<exists>rsrc \<in> set (rows (od_resources d)). rs_id rsrc = oj_resource_id j \<and>
     (\<exists>h. cl_handlers c (rs_resource_type rsrc) = Some h \<and>
        (\<forall>r s. h r j rsrc s = (Inl (Dcorch SyncRequestTimeout), s))))"

lemma times_out_cong: "od_resources d = od_resources d' \<Longrightarrow> times_out c j d = times_out c j d'"
  by (simp add: times_out_def)

lemma attempt_times_out:
  assumes "odb_wf (eg_db s)" and "times_out c j (eg_db s)"
  shows "sync_and_complete c r j s = (Inl (Dcorch SyncRequestTimeout), s)"
proof -
  obtain rsrc h where r: "rsrc \<in> set (rows (od_resources (eg_db s)))" "rs_id rsrc = oj_resource_id j"
    "cl_handlers c (rs_resource_type rsrc) = Some h" "h r j rsrc s = (Inl (Dcorch SyncRequestTimeout), s)"
    using assms(2) unfolding times_out_def by blast
  have "odo (resource_get_by_id admin_context (oj_resource_id j)) s = (Inr rsrc, s)"
    using resource_row_run [OF assms(1) r(1)] r(2) by (simp add: odo_def)
  then show ?thesis using r(3,4) by (simp add: sync_and_complete_def sync_resource_def seq_apply bnd_apply)
qed

text \<open>What the handling of requests leaves alone.\<close>

definition same_but_requests :: "odb \<Rightarrow> odb \<Rightarrow> bool" where
  "same_but_requests d d' \<longleftrightarrow> od_subclouds d' = od_subclouds d \<and> od_resources d' = od_resources d \<and>
     od_orch_jobs d' = od_orch_jobs d \<and> od_now d' = od_now d \<and>
     od_subcloud_syncs d' = od_subcloud_syncs d"

lemma same_but_requests_with [simp]: "same_but_requests d (with_request r vs d)"
  by (simp add: same_but_requests_def)

lemma same_but_requests_refl [simp]: "same_but_requests d d"
  by (simp add: same_but_requests_def)

lemma same_but_requests_trans:
  "same_but_requests d d' \<Longrightarrow> same_but_requests d' d'' \<Longrightarrow> same_but_requests d d''"
  by (simp add: same_but_requests_def)

lemma stamp_try_count:
  "stamp_request now [SetTryCount (Suc (or_try_count r))] r =
     r\<lparr>or_try_count := Suc (or_try_count r), or_updated_at := Some now\<rparr>"
proof -
  have "r\<lparr>or_try_count := Suc (or_try_count r)\<rparr> \<noteq> r"
  proof
    assume "r\<lparr>or_try_count := Suc (or_try_count r)\<rparr> = r"
    then have "or_try_count (r\<lparr>or_try_count := Suc (or_try_count r)\<rparr>) = or_try_count r" by simp
    then show False by simp
  qed
  then show ?thesis by (simp add: stamp_request_def)
qed

lemma save_run:
  assumes "odb_wf (eg_db s)" and "one_request_each (eg_db s)"
    and "r \<in> set (rows (od_orch_requests (eg_db s)))" and "live r"
  shows "save_request r vs s = (Inr (stamp_request (od_now (eg_db s)) vs r),
     s\<lparr>eg_db := with_request r vs (eg_db s)\<rparr>)"
  using request_save_run [OF assms] by (simp add: save_request_def odo_def)

lemma try_times_out:
  assumes "odb_wf (eg_db s)" and "one_request_each (eg_db s)"
    and "r \<in> set (rows (od_orch_requests (eg_db s)))" and "live r" and "times_out c j (eg_db s)"
  shows "\<exists>r' d'. try_request c (Suc n) r j aborted s = (Inr (aborted, False), s\<lparr>eg_db := d'\<rparr>) \<and>
     odb_wf d' \<and> one_request_each d' \<and> same_but_requests (eg_db s) d' \<and>
     r' \<in> set (rows (od_orch_requests d')) \<and> or_id r' = or_id r \<and> live r' \<and>
     or_state r' = or_state r \<and> or_target_region_name r' = or_target_region_name r \<and>
     or_orch_job_id r' = or_orch_job_id r \<and> or_try_count r' = or_try_count r + Suc n"
  using assms
proof (induction n arbitrary: r s)
  case 0
  let ?vs = "[SetTryCount (Suc (or_try_count r))]"
  have "try_request c (Suc 0) r j aborted s = (Inr (aborted, False), s\<lparr>eg_db := with_request r ?vs (eg_db s)\<rparr>)"
    by (simp add: bnd_apply outcome_apply attempt_times_out [OF "0.prems"(1,5)] save_run [OF "0.prems"(1-4)])
  then show ?case
    using with_request_wf [OF "0.prems"(1,2), of r ?vs] with_request_row [OF "0.prems"(3), of ?vs] "0.prems"(4)
    by (intro exI [of _ "stamp_request (od_now (eg_db s)) ?vs r"] exI [of _ "with_request r ?vs (eg_db s)"])
      (simp add: stamp_try_count live_def)
next
  case (Suc n)
  let ?vs = "[SetTryCount (Suc (or_try_count r))]"
  let ?d = "with_request r ?vs (eg_db s)"
  let ?r = "stamp_request (od_now (eg_db s)) ?vs r"
  let ?s = "s\<lparr>eg_db := ?d\<rparr>"
  have run: "try_request c (Suc (Suc n)) r j aborted s = try_request c (Suc n) ?r j aborted ?s"
    by (simp add: bnd_apply outcome_apply attempt_times_out [OF Suc.prems(1,5)] save_run [OF Suc.prems(1-4)])
  obtain r' d' where IH: "try_request c (Suc n) ?r j aborted ?s = (Inr (aborted, False), ?s\<lparr>eg_db := d'\<rparr>)"
    "odb_wf d'" "one_request_each d'" "same_but_requests ?d d'" "r' \<in> set (rows (od_orch_requests d'))"
    "or_id r' = or_id ?r" "live r'" "or_state r' = or_state ?r"
    "or_target_region_name r' = or_target_region_name ?r" "or_orch_job_id r' = or_orch_job_id ?r"
    "or_try_count r' = or_try_count ?r + Suc n"
  proof -
    have "times_out c j ?d" using Suc.prems(5) by (simp add: times_out_def)
    then show ?thesis
      using Suc.IH [of ?s ?r] with_request_wf [OF Suc.prems(1,2), of r ?vs]
        with_request_row [OF Suc.prems(3), of ?vs] Suc.prems(4) that
      by (auto simp: stamp_try_count live_def)
  qed
  then show ?case
    using same_but_requests_trans [OF same_but_requests_with IH(4)]
    by (intro exI [of _ r'] exI [of _ d']) (simp only: run, simp add: stamp_try_count)
qed

text \<open>The loop over the requests stops at the first one, which stays in progress.\<close>

lemma sync_requests_time_out:
  assumes "odb_wf (eg_db s)" and "one_request_each (eg_db s)" and "sync_target E th (eg_db s)"
    and "y \<in> set (rows (od_subcloud_syncs (eg_db s)))" and "is_sync (th_subcloud_name th) (th_endpoint_type th) y"
    and "r \<in> set (rows (od_orch_requests (eg_db s)))" and "live r" and "times_out c j (eg_db s)"
  shows "\<exists>r' d'. sync_requests E c th ((r, j) # rs) aborted s = (Inr aborted, s\<lparr>eg_db := d'\<rparr>) \<and>
     odb_wf d' \<and> one_request_each d' \<and> same_but_requests (eg_db s) d' \<and>
     r' \<in> set (rows (od_orch_requests d')) \<and> or_id r' = or_id r \<and> live r' \<and>
     or_state r' = Some ORCH_REQUEST_IN_PROGRESS \<and> or_target_region_name r' = or_target_region_name r \<and>
     or_orch_job_id r' = or_orch_job_id r \<and> or_try_count r' = or_try_count r + MAX_RETRY"
proof -
  let ?vs = "[SetState ORCH_REQUEST_IN_PROGRESS]"
  let ?d = "with_request r ?vs (eg_db s)"
  let ?r = "stamp_request (od_now (eg_db s)) ?vs r"
  let ?s = "s\<lparr>eg_db := ?d\<rparr>"
  have r: "live ?r" "or_try_count ?r = or_try_count r" "or_state ?r = Some ORCH_REQUEST_IN_PROGRESS"
    using assms(7) by (auto simp: stamp_request_def Let_def live_def dest: arg_cong [where f = or_state])
  obtain r' d' where t: "try_request c (Suc 2) ?r j aborted ?s = (Inr (aborted, False), ?s\<lparr>eg_db := d'\<rparr>)"
    "odb_wf d'" "one_request_each d'" "same_but_requests ?d d'" "r' \<in> set (rows (od_orch_requests d'))"
    "or_id r' = or_id ?r" "live r'" "or_state r' = or_state ?r"
    "or_target_region_name r' = or_target_region_name ?r" "or_orch_job_id r' = or_orch_job_id ?r"
    "or_try_count r' = or_try_count ?r + Suc 2"
    using try_times_out [of ?s ?r c j 2 aborted] with_request_wf [OF assms(1,2), of r ?vs]
      with_request_row [OF assms(6), of ?vs] r(1) assms(8) by (auto simp: times_out_def)
  have "sync_requests E c th ((r, j) # rs) aborted s = (Inr aborted, s\<lparr>eg_db := d'\<rparr>)"
    using t(1)
    by (simp add: bnd_apply allowed_run [OF assms(1,3-5)] outcome_apply save_run [OF assms(1,2,6,7)]
        MAX_RETRY_def eval_nat_numeral)
  then show ?thesis
    using same_but_requests_trans [OF same_but_requests_with t(4)] t(2,3,5-11) r(2,3)
    by (intro exI [of _ r'] exI [of _ d']) (simp add: MAX_RETRY_def)
qed

lemma final_in_sync: "final_status SYNC_STATUS_OUT_OF_SYNC pending aborted =
    (if pending \<and> aborted then None else Some SYNC_STATUS_IN_SYNC)"
  by (simp add: final_status_def)

text \<open>C17: A subcloud that cannot be reached while its requests are handled is reported as in sync.
  When the first request of a managed and enabled subcloud times out three times, the
  synchronisation ends normally, its last report for the endpoint is in-sync, and the request is
  still pending: in progress, with three more tries counted.\<close>

theorem unreachable_reported_in_sync:
  assumes wf: "odb_wf (eg_db s)" "one_request_each (eg_db s)"
    and target: "sync_target E th (eg_db s)"
    and y: "y \<in> set (rows (od_subcloud_syncs (eg_db s)))"
      "is_sync (th_subcloud_name th) (th_endpoint_type th) y"
    and news: "\<not> recently_reported SYNC_STATUS_OUT_OF_SYNC y (od_now (eg_db s))"
    and first: "actual_requests (pending_list th (eg_db s)) = (r, j) # rest"
    and unreachable: "times_out c j (eg_db s)"
  shows "\<exists>s'. sync E c th s = (Inr (), s') \<and>
    eg_reports s' = eg_reports s @
      [reported th SYNC_STATUS_OUT_OF_SYNC (alarmable_requests (pending_list th (eg_db s))),
       reported th SYNC_STATUS_IN_SYNC True] \<and>
    (\<exists>r'. (r', j) \<in> set (pending_list th (eg_db s')) \<and> or_id r' = or_id r \<and>
      or_state r' = Some ORCH_REQUEST_IN_PROGRESS \<and> or_try_count r' = or_try_count r + MAX_RETRY)"
proof -
  let ?al = "alarmable_requests (pending_list th (eg_db s))"
  let ?vs = "[SetReported (Some SYNC_STATUS_OUT_OF_SYNC), SetReportTime (Some (od_now (eg_db s)))]"
  let ?y = "fold set_subcloud_sync ?vs y"
  define d1 where "d1 = with_sync y ?vs (eg_db s)"
  define s1 where "s1 = s\<lparr>eg_db := d1, eg_reports := eg_reports s @ [reported th SYNC_STATUS_OUT_OF_SYNC ?al]\<rparr>"
  have mem: "(r, j) \<in> set (pending_list th (eg_db s))"
    using arg_cong [OF first, of set] by (auto simp: actual_requests_def)
  then have some: "pending_list th (eg_db s) \<noteq> []" by auto
  have r: "r \<in> set (rows (od_orch_requests (eg_db s)))" "is_pending th (eg_db s) r"
    "j = the (job_of (eg_db s) r)" using mem by (auto simp: pending_list_iff)
  have d1: "odb_wf d1" "one_request_each d1" "sync_target E th d1" "?y \<in> set (rows (od_subcloud_syncs d1))"
    "r \<in> set (rows (od_orch_requests d1))" "times_out c j d1" "od_now d1 = od_now (eg_db s)"
    "od_orch_jobs d1 = od_orch_jobs (eg_db s)"
    using with_sync_wf [OF wf(1), of ?vs y] wf(2) target with_sync_row [OF y(1), of ?vs] r(1) unreachable
    by (simp_all add: d1_def keeps_subcloud_id_def sync_target_def times_out_def)
  have y1: "is_sync (th_subcloud_name th) (th_endpoint_type th) ?y"
    using y(2) by (simp add: is_sync_def)
  have db1: "eg_db s1 = d1" by (simp add: s1_def)
  obtain r' d' where loop: "sync_requests E c th ((r, j) # rest) False s1 = (Inr False, s1\<lparr>eg_db := d'\<rparr>)"
    "odb_wf d'" "one_request_each d'" "same_but_requests d1 d'" "r' \<in> set (rows (od_orch_requests d'))"
    "or_id r' = or_id r" "live r'" "or_state r' = Some ORCH_REQUEST_IN_PROGRESS"
    "or_target_region_name r' = or_target_region_name r" "or_orch_job_id r' = or_orch_job_id r"
    "or_try_count r' = or_try_count r + MAX_RETRY"
    using sync_requests_time_out [of s1 E th ?y r c j rest False, unfolded db1, OF d1(1-4) y1 d1(5)
        is_pending_live [OF r(2)] d1(6)] by blast
  have same: "od_orch_jobs d' = od_orch_jobs (eg_db s)" "sync_target E th d'"
    "?y \<in> set (rows (od_subcloud_syncs d'))" "od_now d' = od_now (eg_db s)"
    using loop(4) d1 by (simp_all add: same_but_requests_def sync_target_def)
  have pend: "(r', j) \<in> set (pending_list th d')"
    using is_pending_change [OF r(2) same(1) loop(9,10,7,8)] loop(5) r(3) same(1) loop(10)
    by (simp add: pending_list_iff job_of_def)
  let ?s2 = "s1\<lparr>eg_db := d'\<rparr>"
  let ?s3 = "?s2\<lparr>eg_db := with_sync ?y [SetReported (Some SYNC_STATUS_IN_SYNC), SetReportTime (Some (od_now d'))] d',
    eg_reports := eg_reports s1 @ [reported th SYNC_STATUS_IN_SYNC True]\<rparr>"
  have final: "report_final E th SYNC_STATUS_OUT_OF_SYNC False ?s2 = (Inr (), ?s3)"
  proof -
    have "set_sync_status E th SYNC_STATUS_IN_SYNC True ?s2 = (Inr (), ?s3)"
      using report_run [of ?s2 E th ?y SYNC_STATUS_IN_SYNC True] loop(2) same(2,3) y1
      by (simp add: recently_reported_def)
    then show ?thesis by (simp add: report_final_def bnd_apply pending_run final_in_sync)
  qed
  have "sync E c th s = (Inr (), ?s3)"
    using report_run [OF wf(1) target y news, of ?al] loop(1) final
    by (simp add: sync_def bnd_apply pending_run some seq_apply first s1_def d1_def
        target_runs(2) [of s1, unfolded db1, OF d1(1,3), unfolded s1_def d1_def])
  moreover have "(r', j) \<in> set (pending_list th (eg_db ?s3))"
    using pend pending_list_cong [of "eg_db ?s3" d' th] by simp
  ultimately show ?thesis
    using loop(6,8,11) by (intro exI [of _ ?s3]) (auto simp: s1_def)
qed

theorem unreachable_reported_in_sync_witness:
  "\<exists>s'. sync ex_ident ex_timeout_class ex_thread (ex_engine (ex_odb ORCH_REQUEST_QUEUED)) = (Inr (), s') \<and>
     map rp_status (eg_reports s') = [SYNC_STATUS_OUT_OF_SYNC, SYNC_STATUS_IN_SYNC] \<and>
     (\<exists>r. (r, ex_job) \<in> set (pending_list ex_thread (eg_db s')) \<and> or_try_count r = 3)"
proof -
  let ?d = "ex_odb ORCH_REQUEST_QUEUED"
  let ?s = "ex_engine ?d"
  have db: "eg_db ?s = ?d" "eg_reports ?s = []" by (simp_all add: ex_engine_def)
  have target: "sync_target ex_ident ex_thread ?d"
    by (simp add: sync_target_def proper_name_def ex_odefs)
  have y: "ex_sync 1 ''alpha'' SYNC_STATUS_REQUESTED \<in> set (rows (od_subcloud_syncs ?d))"
    "is_sync (th_subcloud_name ex_thread) (th_endpoint_type ex_thread) (ex_sync 1 ''alpha'' SYNC_STATUS_REQUESTED)"
    "\<not> recently_reported SYNC_STATUS_OUT_OF_SYNC (ex_sync 1 ''alpha'' SYNC_STATUS_REQUESTED) (od_now ?d)"
    by (simp_all add: ex_odefs is_sync_def recently_reported_def)
  have first: "actual_requests (pending_list ex_thread ?d) = [(ex_request 1 ''alpha'' ORCH_REQUEST_QUEUED, ex_job)]"
    by (simp add: actual_requests_def pending_list_def query_all_def request_matches_def live_def ex_odefs
        job_of_def truthy_str_def PENDING_SYNC_REQUEST_STATES_def)
  have out: "times_out ex_timeout_class ex_job ?d"
    by (simp add: times_out_def ex_timeout_class_def ex_odefs)
  show ?thesis
    using unreachable_reported_in_sync [of ?s ex_ident ex_thread, unfolded db, OF ex_odb_wf target y first out]
    by (auto simp: reported_def ex_request_def MAX_RETRY_def)
qed

section \<open>How requests end\<close>

text \<open>The handlers leave the table of requests alone, keep the database's schema and do not raise the
  exception that says the request is gone.\<close>

definition behaved :: "'x sync_class \<Rightarrow> bool" where
  "behaved c \<longleftrightarrow> (\<forall>t h r j rsrc s. cl_handlers c t = Some h \<longrightarrow> odb_wf (eg_db s) \<longrightarrow>
     odb_wf (eg_db (snd (h r j rsrc s))) \<and>
     od_orch_requests (eg_db (snd (h r j rsrc s))) = od_orch_requests (eg_db s) \<and>
     (\<forall>x. fst (h r j rsrc s) \<noteq> Inl (Dcorch (OrchRequestNotFound x))))"

text \<open>A request has ended: it failed, or it is completed and soft-deleted.\<close>

definition settled :: "nat \<Rightarrow> odb \<Rightarrow> bool" where
  "settled i d \<longleftrightarrow> (\<exists>r \<in> set (rows (od_orch_requests d)). or_id r = i \<and>
     (live r \<and> or_state r = Some ORCH_REQUEST_FAILED \<or>
      or_deleted r = 1 \<and> or_state r = Some ORCH_REQUEST_COMPLETED))"

definition good_db :: "odb \<Rightarrow> bool" where
  "good_db d \<longleftrightarrow> odb_wf d \<and> one_request_each d"

text \<open>The rows of the other requests are the same.\<close>

definition others_same :: "nat \<Rightarrow> odb \<Rightarrow> odb \<Rightarrow> bool" where
  "others_same i d d' \<longleftrightarrow> filter (\<lambda>r. or_id r \<noteq> i) (rows (od_orch_requests d')) =
     filter (\<lambda>r. or_id r \<noteq> i) (rows (od_orch_requests d))"

lemma others_same_refl [simp]: "others_same i d d"
  by (simp add: others_same_def)

lemma others_same_trans: "others_same i d d' \<Longrightarrow> others_same i d' d'' \<Longrightarrow> others_same i d d''"
  by (simp add: others_same_def)

lemma others_same_with: "others_same (or_id r) d (with_request r vs d)"
proof -
  have "filter (\<lambda>x. or_id x \<noteq> or_id r) (map (\<lambda>x. if or_id x = or_id r then f x else x) rs) =
      filter (\<lambda>x. or_id x \<noteq> or_id r) rs" if "\<And>x. or_id (f x) = or_id x" for f and rs :: "orch_request list"
    using that by (induction rs) auto
  then show ?thesis by (simp add: others_same_def with_request_def rows_update)
qed

lemma others_same_in:
  assumes "others_same i d d'" and "or_id q \<noteq> i"
  shows "q \<in> set (rows (od_orch_requests d')) \<longleftrightarrow> q \<in> set (rows (od_orch_requests d))"
proof -
  have "q \<in> set (filter (\<lambda>r. or_id r \<noteq> i) (rows (od_orch_requests d'))) \<longleftrightarrow>
      q \<in> set (filter (\<lambda>r. or_id r \<noteq> i) (rows (od_orch_requests d)))"
    using assms(1) by (simp add: others_same_def)
  then show ?thesis using assms(2) by simp
qed

lemma settled_others: "others_same i d d' \<Longrightarrow> k \<noteq> i \<Longrightarrow> settled k d \<Longrightarrow> settled k d'"
  unfolding settled_def using others_same_in by blast

lemma stamp_cases:
  "stamp_request now vs r = fold set_orch_request vs r \<or>
   stamp_request now vs r = (fold set_orch_request vs r)\<lparr>or_updated_at := Some now\<rparr>"
  by (auto simp: stamp_request_def Let_def)

lemma stamp_fields [simp]:
  "or_state (stamp_request now vs r) = or_state (fold set_orch_request vs r)"
  "or_deleted (stamp_request now vs r) = or_deleted (fold set_orch_request vs r)"
  "or_try_count (stamp_request now vs r) = or_try_count (fold set_orch_request vs r)"
  using stamp_cases [of now vs r] by auto

text \<open>Saving a live row, with what it leaves.\<close>

lemma save_good:
  assumes "good_db (eg_db s)" and "r \<in> set (rows (od_orch_requests (eg_db s)))" and "live r"
  shows "\<exists>r' s'. save_request r vs s = (Inr r', s') \<and> good_db (eg_db s') \<and>
    others_same (or_id r) (eg_db s) (eg_db s') \<and> r' \<in> set (rows (od_orch_requests (eg_db s'))) \<and>
    or_id r' = or_id r \<and> or_state r' = or_state (fold set_orch_request vs r) \<and>
    or_deleted r' = or_deleted (fold set_orch_request vs r)"
  using save_run [of s r vs] with_request_wf [of "eg_db s" r vs] with_request_row [OF assms(2), of vs]
    assms(1,3) assms(2)
  by (intro exI [of _ "stamp_request (od_now (eg_db s)) vs r"] exI [of _ "s\<lparr>eg_db := with_request r vs (eg_db s)\<rparr>"])
    (simp add: good_db_def others_same_with)

lemma settledI:
  "r \<in> set (rows (od_orch_requests d)) \<Longrightarrow> or_id r = i \<Longrightarrow>
   live r \<and> or_state r = Some ORCH_REQUEST_FAILED \<or>
   or_deleted r = 1 \<and> or_state r = Some ORCH_REQUEST_COMPLETED \<Longrightarrow> settled i d"
  by (auto simp: settled_def)

text \<open>One attempt: it succeeds and the request has ended, or it raises and the requests are as
  before.\<close>

lemma attempt_good:
  assumes c: "behaved c" and s: "good_db (eg_db s)" "r \<in> set (rows (od_orch_requests (eg_db s)))" "live r"
    and run: "sync_and_complete c r j s = (out, s')"
  shows "good_db (eg_db s') \<and> others_same (or_id r) (eg_db s) (eg_db s') \<and>
    (case out of Inr _ \<Rightarrow> settled (or_id r) (eg_db s')
     | Inl e \<Rightarrow> od_orch_requests (eg_db s') = od_orch_requests (eg_db s) \<and>
         (\<forall>x. e \<noteq> Dcorch (OrchRequestNotFound x)))"
proof -
  obtain o1 s1 where h: "sync_resource c r j s = (o1, s1)" by fastforce
  have db: "odb_wf (eg_db s1) \<and> od_orch_requests (eg_db s1) = od_orch_requests (eg_db s)"
    and known: "\<forall>x. o1 \<noteq> Inl (Dcorch (OrchRequestNotFound x))"
  proof -
    consider (lost) e where "fst (resource_get_by_id admin_context (oj_resource_id j) (eg_db s)) = Inl e"
      | (found) rsrc where "fst (resource_get_by_id admin_context (oj_resource_id j) (eg_db s)) = Inr rsrc"
      by (cases "fst (resource_get_by_id admin_context (oj_resource_id j) (eg_db s))") auto
    then have "odb_wf (eg_db s1) \<and> od_orch_requests (eg_db s1) = od_orch_requests (eg_db s) \<and>
      (\<forall>x. o1 \<noteq> Inl (Dcorch (OrchRequestNotFound x)))"
    proof cases
      case lost
      then have "\<forall>x. e \<noteq> Dcorch (OrchRequestNotFound x)"
        by (auto simp: resource_get_by_id_def result_of_apply split: list.splits)
      then show ?thesis
        using h s(1) lost
        by (auto simp: good_db_def sync_resource_def bnd_read [OF reads_odo [OF reads_queries(4)]] odo_apply)
    next
      case found
      then have "(o1, s1) = (case cl_handlers c (rs_resource_type rsrc) of
          None \<Rightarrow> (Inl KeyError, s) | Some handler \<Rightarrow> handler r j rsrc s)"
        using h by (auto simp: sync_resource_def bnd_read [OF reads_odo [OF reads_queries(4)]] odo_apply
            split: option.splits)
      then show ?thesis
        using c s(1) unfolding behaved_def good_db_def
        by (cases "cl_handlers c (rs_resource_type rsrc)") (auto, (metis fst_conv snd_conv)+)
    qed
    then show "odb_wf (eg_db s1) \<and> od_orch_requests (eg_db s1) = od_orch_requests (eg_db s)"
      and "\<forall>x. o1 \<noteq> Inl (Dcorch (OrchRequestNotFound x))" by auto
  qed
  have g: "good_db (eg_db s1)" "r \<in> set (rows (od_orch_requests (eg_db s1)))"
    "others_same (or_id r) (eg_db s) (eg_db s1)"
    using s db by (simp_all add: good_db_def one_request_each_def others_same_def)
  show ?thesis
  proof (cases o1)
    case (Inl e)
    then have "(out, s') = (Inl e, s1)" using run h by (simp add: sync_and_complete_def seq_apply)
    then show ?thesis using g db known Inl by simp
  next
    case (Inr u)
    let ?vs = "[SetState ORCH_REQUEST_COMPLETED, SetDeleted 1, SetDeletedAt (od_now (eg_db s1))]"
    obtain r' s2 where w: "save_request r ?vs s1 = (Inr r', s2)" "good_db (eg_db s2)"
      "others_same (or_id r) (eg_db s1) (eg_db s2)" "r' \<in> set (rows (od_orch_requests (eg_db s2)))"
      "or_id r' = or_id r" "or_state r' = Some ORCH_REQUEST_COMPLETED" "or_deleted r' = 1"
      using save_good [OF g(1,2) s(3), of ?vs] by auto
    have "(out, s') = (Inr (), s2)"
      using run h Inr w(1) by (simp add: sync_and_complete_def seq_apply bnd_apply)
    then show ?thesis
      using w settledI [OF w(4,5)] others_same_trans [OF g(3) w(3)] by simp
  qed
qed

text \<open>What the treatment of one request guarantees. \<open>ended\<close> is claimed when it returns and the
  endpoint is still reachable.\<close>

definition treated :: "nat \<Rightarrow> odb \<Rightarrow> odb \<Rightarrow> bool \<Rightarrow> bool" where
  "treated i d d' ended \<longleftrightarrow> good_db d' \<and> others_same i d d' \<and> (ended \<longrightarrow> settled i d')"

lemma treated_trans:
  "treated i d d' e \<Longrightarrow> treated i d' d'' e' \<Longrightarrow> treated i d d'' e'"
  using others_same_trans by (auto simp: treated_def)

definition went_on :: "exn + bool \<times> bool \<Rightarrow> bool" where
  "went_on res \<longleftrightarrow> (case res of Inr (_, reachable) \<Rightarrow> reachable | Inl _ \<Rightarrow> False)"

lemma went_on_simps [simp]: "went_on (Inr (a, b)) = b" "\<not> went_on (Inl e)"
  by (simp_all add: went_on_def)

text \<open>A row that is saved as failed: its treatment may end there.\<close>

lemma save_failed_treated:
  assumes "good_db (eg_db s)" and "r \<in> set (rows (od_orch_requests (eg_db s)))" and "live r"
    and "or_deleted (fold set_orch_request vs r) = or_deleted r"
  shows "\<exists>r' s'. save_request r (vs @ [SetState ORCH_REQUEST_FAILED]) s = (Inr r', s') \<and>
    treated (or_id r) (eg_db s) (eg_db s') True \<and> r' \<in> set (rows (od_orch_requests (eg_db s'))) \<and>
    or_id r' = or_id r \<and> or_state r' = Some ORCH_REQUEST_FAILED \<and> live r'"
proof -
  obtain r' s' where w: "save_request r (vs @ [SetState ORCH_REQUEST_FAILED]) s = (Inr r', s')"
    "good_db (eg_db s')" "others_same (or_id r) (eg_db s) (eg_db s')"
    "r' \<in> set (rows (od_orch_requests (eg_db s')))" "or_id r' = or_id r"
    "or_state r' = or_state (fold set_orch_request (vs @ [SetState ORCH_REQUEST_FAILED]) r)"
    "or_deleted r' = or_deleted (fold set_orch_request (vs @ [SetState ORCH_REQUEST_FAILED]) r)"
    using save_good [OF assms(1-3), of "vs @ [SetState ORCH_REQUEST_FAILED]"] by blast
  have "or_state r' = Some ORCH_REQUEST_FAILED" "live r'"
    using w(6,7) assms(3,4) by (simp_all add: live_def)
  then show ?thesis
    using w(1-5) settledI [OF w(4,5)]
    by (intro exI [of _ r'] exI [of _ s']) (simp add: treated_def)
qed

text \<open>The tries of a request: when they are over the request has ended, or the endpoint counts as
  unreachable.\<close>

lemma try_request_treated:
  assumes c: "behaved c" and s: "good_db (eg_db s)" "r \<in> set (rows (od_orch_requests (eg_db s)))" "live r"
    and zero: "n = 0 \<Longrightarrow> or_state r = Some ORCH_REQUEST_FAILED"
    and run: "try_request c n r j aborted s = (res, s')"
  shows "treated (or_id r) (eg_db s) (eg_db s') (went_on res)"
  using s zero run
proof (induction n arbitrary: r s)
  case 0
  then show ?case using settledI [of r "eg_db s"] by (auto simp: treated_def)
next
  case (Suc n)
  obtain out s1 where a: "sync_and_complete c r j s = (out, s1)" by fastforce
  note att = attempt_good [OF c Suc.prems(1-3) a]
  show ?case
  proof (cases out)
    case (Inr u)
    then show ?thesis using Suc.prems(5) a att by (auto simp: bnd_apply outcome_apply treated_def)
  next
    case (Inl e)
    then have s1: "good_db (eg_db s1)" "r \<in> set (rows (od_orch_requests (eg_db s1)))"
      and o1: "others_same (or_id r) (eg_db s) (eg_db s1)"
      and t1: "treated (or_id r) (eg_db s) (eg_db s1) False"
      using att Suc.prems(2) by (simp_all add: treated_def)
    note step = bnd_apply outcome_apply seq_apply a Inl
    show ?thesis
    proof (cases "e \<in> {Dcorch SyncRequestTimeout, Dcorch SyncRequestFailedRetry, Dcorch SyncRequestFailed,
        Dcorch SyncRequestAbortedBySystem}")
      case False
      have "(res, s') = (Inl e, s1) \<or> (res, s') = (Inr (aborted, False), s1)"
        using Suc.prems(5) False att Inl by (auto simp: step split: exn.splits dcorch_exn.splits)
      then show ?thesis using t1 by auto
    next
      case True
      then consider (timeout) "e = Dcorch SyncRequestTimeout" | (retry) "e = Dcorch SyncRequestFailedRetry"
        | (failed) "e = Dcorch SyncRequestFailed" | (abort) "e = Dcorch SyncRequestAbortedBySystem"
        by auto
      then show ?thesis
      proof cases
        case timeout
        obtain r' s2 where w: "save_request r [SetTryCount (Suc (or_try_count r))] s1 = (Inr r', s2)"
          "good_db (eg_db s2)" "others_same (or_id r) (eg_db s1) (eg_db s2)"
          "r' \<in> set (rows (od_orch_requests (eg_db s2)))" "or_id r' = or_id r" "or_deleted r' = or_deleted r"
          using save_good [OF s1 Suc.prems(3), of "[SetTryCount (Suc (or_try_count r))]"] by auto
        have t2: "treated (or_id r) (eg_db s) (eg_db s2) False"
          using w(2,3) others_same_trans [OF o1] by (simp add: treated_def)
        show ?thesis
        proof (cases "n = 0")
          case True
          then have "(res, s') = (Inr (aborted, False), s2)"
            using Suc.prems(5) timeout w(1) by (simp add: step)
          then show ?thesis using t2 by simp
        next
          case False
          then have "try_request c n r' j aborted s2 = (res, s')"
            using Suc.prems(5) timeout w(1) by (simp add: step)
          then have "treated (or_id r') (eg_db s2) (eg_db s') (went_on res)"
            using Suc.IH [OF w(2,4)] w(6) Suc.prems(3) False by (simp add: live_def)
          then show ?thesis using treated_trans [OF t2] w(5) by simp
        qed
      next
        case retry
        obtain r' s2 where w: "save_request r ([SetTryCount (Suc (or_try_count r))] @ [SetState ORCH_REQUEST_FAILED]) s1
            = (Inr r', s2)" "treated (or_id r) (eg_db s1) (eg_db s2) True"
          "r' \<in> set (rows (od_orch_requests (eg_db s2)))" "or_id r' = or_id r"
          "or_state r' = Some ORCH_REQUEST_FAILED" "live r'"
          using save_failed_treated [OF s1 Suc.prems(3), of "[SetTryCount (Suc (or_try_count r))]"] by auto
        have "try_request c n r' j aborted s2 = (res, s')"
          using Suc.prems(5) retry w(1) by (simp add: step)
        then have "treated (or_id r') (eg_db s2) (eg_db s') (went_on res)"
          using Suc.IH [of s2 r'] w(2-6) by (simp add: treated_def)
        then show ?thesis using treated_trans [OF treated_trans [OF t1 w(2)]] w(4) by simp
      next
        case failed
        obtain r' s2 where w: "save_request r [SetState ORCH_REQUEST_FAILED] s1 = (Inr r', s2)"
          "treated (or_id r) (eg_db s1) (eg_db s2) True"
          using save_failed_treated [OF s1 Suc.prems(3), of "[]"] by auto
        then have "(res, s') = (Inr (aborted, True), s2)"
          using Suc.prems(5) failed by (simp add: step)
        then show ?thesis using treated_trans [OF t1 w(2)] by simp
      next
        case abort
        obtain r' s2 where w: "save_request r [SetState ORCH_REQUEST_FAILED] s1 = (Inr r', s2)"
          "treated (or_id r) (eg_db s1) (eg_db s2) True"
          using save_failed_treated [OF s1 Suc.prems(3), of "[]"] by auto
        then have "(res, s') = (Inr (True, True), s2)"
          using Suc.prems(5) abort by (simp add: step)
        then show ?thesis using treated_trans [OF t1 w(2)] by simp
      qed
    qed
  qed
qed

text \<open>The requests of a list are rows of the table, live and different.\<close>

definition request_rows :: "odb \<Rightarrow> (orch_request \<times> orch_job) list \<Rightarrow> bool" where
  "request_rows d rs \<longleftrightarrow> distinct (map (\<lambda>(r, j). or_id r) rs) \<and>
     list_all (\<lambda>(r, j). r \<in> set (rows (od_orch_requests d)) \<and> live r) rs"

text \<open>A list is handled in order: the requests before some point have ended, those after it are
  untouched.\<close>

definition in_order :: "(orch_request \<times> orch_job) list \<Rightarrow> odb \<Rightarrow> bool" where
  "in_order rs d \<longleftrightarrow> (\<exists>front rest. rs = front @ rest \<and>
     list_all (\<lambda>(r, j). settled (or_id r) d) front \<and>
     list_all (\<lambda>(r, j). r \<in> set (rows (od_orch_requests d))) (tl rest))"

definition outside_same :: "(orch_request \<times> orch_job) list \<Rightarrow> odb \<Rightarrow> odb \<Rightarrow> bool" where
  "outside_same rs d d' \<longleftrightarrow> (\<forall>q. or_id q \<notin> set (map (\<lambda>(r, j). or_id r) rs) \<longrightarrow>
     (q \<in> set (rows (od_orch_requests d')) \<longleftrightarrow> q \<in> set (rows (od_orch_requests d))))"

lemma settled_outside:
  "outside_same rs d d' \<Longrightarrow> i \<notin> set (map (\<lambda>(r, j). or_id r) rs) \<Longrightarrow> settled i d \<Longrightarrow> settled i d'"
  unfolding settled_def outside_same_def by blast

lemma request_rows_tl:
  assumes "request_rows d ((r, j) # rs)" and "others_same (or_id r) d d'"
  shows "request_rows d' rs"
proof -
  have "q \<in> set (rows (od_orch_requests d')) \<and> live q" if "(q, k) \<in> set rs" for q k
  proof -
    have "or_id q \<in> (\<lambda>(r, j). or_id r) ` set rs" using that by force
    then have "or_id q \<noteq> or_id r" using assms(1) by (auto simp: request_rows_def)
    then show ?thesis
      using that assms(1) others_same_in [OF assms(2)] by (auto simp: request_rows_def list_all_iff)
  qed
  then show ?thesis using assms(1) by (auto simp: request_rows_def list_all_iff)
qed

lemma in_order_stop:
  assumes "request_rows d ((r, j) # rs)" and "others_same (or_id r) d d'"
  shows "in_order ((r, j) # rs) d'"
proof -
  have "list_all (\<lambda>(r, j). r \<in> set (rows (od_orch_requests d'))) rs"
    using request_rows_tl [OF assms] by (auto simp: request_rows_def list_all_iff)
  then show ?thesis unfolding in_order_def by (intro exI [of _ "[]"] exI [of _ "(r, j) # rs"]) simp
qed

lemma in_order_cons: "settled (or_id r) d \<Longrightarrow> in_order rs d \<Longrightarrow> in_order ((r, j) # rs) d"
  unfolding in_order_def by (elim exE conjE, rule_tac x = "(r, j) # front" in exI) auto

lemma sync_requests_in_order:
  assumes c: "behaved c" and g: "good_db (eg_db s)" and rs: "request_rows (eg_db s) rs"
    and run: "sync_requests E c th rs aborted s = (Inr b, s')"
  shows "good_db (eg_db s') \<and> in_order rs (eg_db s') \<and> outside_same rs (eg_db s) (eg_db s')"
  using g rs run
proof (induction rs arbitrary: aborted s)
  case Nil
  then show ?case by (auto simp: in_order_def outside_same_def)
next
  case (Cons q rs)
  obtain r j where q: "q = (r, j)" by fastforce
  have r: "r \<in> set (rows (od_orch_requests (eg_db s)))" "live r"
    using Cons.prems(2) by (simp_all add: q request_rows_def)
  have out: "outside_same (q # rs) (eg_db s) d'" if "others_same (or_id r) (eg_db s) d'" for d'
    using others_same_in [OF that] by (simp add: outside_same_def q)
  note read = bnd_read [OF reads_thread(4), of E th]
  show ?case
  proof (cases "fst (request_allowed E th s)")
    case (Inl e)
    then show ?thesis using Cons.prems(3) by (simp add: q read)
  next
    case (Inr ok)
    then have allow: "request_allowed E th s = (Inr ok, s)"
      using readsD [OF reads_thread(4), of E th s] by (simp add: prod_eq_iff)
    show ?thesis
    proof (cases ok)
      case False
      then have "s' = s" using Cons.prems(3) Inr by (simp add: q read)
      then show ?thesis
        using Cons.prems(1) in_order_stop [of "eg_db s" r j rs "eg_db s"] Cons.prems(2) out [of "eg_db s"]
        by (simp add: q)
    next
      case True
      obtain r' s1 where w: "save_request r [SetState ORCH_REQUEST_IN_PROGRESS] s = (Inr r', s1)"
        "good_db (eg_db s1)" "others_same (or_id r) (eg_db s) (eg_db s1)"
        "r' \<in> set (rows (od_orch_requests (eg_db s1)))" "or_id r' = or_id r" "live r'"
        using save_good [OF Cons.prems(1) r, of "[SetState ORCH_REQUEST_IN_PROGRESS]"] r(2)
        by (auto simp: live_def)
      obtain res s2 where t: "try_request c MAX_RETRY r' j aborted s1 = (res, s2)" by fastforce
      have tr: "treated (or_id r) (eg_db s1) (eg_db s2) (went_on res)"
        using try_request_treated [OF c w(2,4,6) _ t] w(5) by (simp add: MAX_RETRY_def)
      have o2: "others_same (or_id r) (eg_db s) (eg_db s2)"
        using tr others_same_trans [OF w(3)] by (simp add: treated_def)
      have step: "(case res of Inl e \<Rightarrow> (Inl e, s2)
          | Inr (a, reachable) \<Rightarrow> if reachable then sync_requests E c th rs a s2 else (Inr a, s2)) = (Inr b, s')"
        using Cons.prems(3) True w(1) t by (auto simp: q bnd_apply allow outcome_apply split: sum.splits prod.splits if_splits)
      then obtain a reachable where res: "res = Inr (a, reachable)" by (auto split: sum.splits)
      show ?thesis
      proof (cases reachable)
        case False
        then have "s' = s2" using step res by simp
        then show ?thesis
          using tr in_order_stop [OF Cons.prems(2) [unfolded q] o2] out [OF o2] by (simp add: q treated_def)
      next
        case True
        have more: "sync_requests E c th rs a s2 = (Inr b, s')" using step res True by simp
        have rows2: "request_rows (eg_db s2) rs"
          by (rule request_rows_tl [OF Cons.prems(2) [unfolded q] o2])
        have good2: "good_db (eg_db s2)" and set2: "settled (or_id r) (eg_db s2)"
          using tr res True by (simp_all add: treated_def)
        note IH = Cons.IH [OF good2 rows2 more]
        have new: "or_id r \<notin> set (map (\<lambda>(r, j). or_id r) rs)"
          using Cons.prems(2) by (simp add: q request_rows_def)
        have "settled (or_id r) (eg_db s')" using settled_outside [OF _ new set2] IH by blast
        then have "in_order (q # rs) (eg_db s')"
          using IH in_order_cons by (simp add: q)
        moreover have "outside_same (q # rs) (eg_db s) (eg_db s')"
          using IH others_same_in [OF o2] by (simp add: outside_same_def q)
        ultimately show ?thesis using IH by simp
      qed
    qed
  qed
qed

section \<open>What a class of sync threads has to promise\<close>

text \<open>The interface between the loop over the requests and the classes of the endpoints: as long as
  the clients of a class, \<open>C\<close>, leave the engine's database alone (\<open>outside C\<close>), its handlers are
  well-behaved. What the loop then does with the requests holds for every class.\<close>

locale sync_service =
  fixes cls :: "ident_env \<Rightarrow> 'c \<Rightarrow> sync_thread \<Rightarrow> 'x sync_class"
    and outside :: "'c \<Rightarrow> bool"
  assumes well_behaved: "outside C \<Longrightarrow> behaved (cls E C th)"
begin

lemma request_treated:
  assumes "outside C" and "good_db (eg_db s)" and "r \<in> set (rows (od_orch_requests (eg_db s)))"
    and "live r" and "try_request (cls E C th) (Suc n) r j aborted s = (res, s')"
  shows "treated (or_id r) (eg_db s) (eg_db s') (went_on res)"
  by (rule try_request_treated [OF well_behaved [OF assms(1)] assms(2-4) _ assms(5)]) simp

lemma requests_in_order:
  assumes "outside C" and "good_db (eg_db s)" and "request_rows (eg_db s) rs"
    and "sync_requests E (cls E C th) th rs aborted s = (Inr b, s')"
  shows "good_db (eg_db s') \<and> in_order rs (eg_db s') \<and> outside_same rs (eg_db s) (eg_db s')"
  by (rule sync_requests_in_order [OF well_behaved [OF assms(1)] assms(2-4)])

end

end
