(* ===== verification/DO_SysinvProps.thy ===== *)
theory DO_SysinvProps
  imports DO_SyncProps
begin

text \<open>
  The platform's handlers: they leave the requests alone and report every failure by one of the
  exceptions the engine's loop handles, so that their requests end in order. With the witnesses
  of the properties of the synchronisation, on a small engine.
\<close>

section \<open>The handlers are well-behaved\<close>

definition leaves_db :: "('x engine, 'a) io \<Rightarrow> bool" where
  "leaves_db m \<longleftrightarrow> (\<forall>s. eg_db (snd (m s)) = eg_db s)"

text \<open>The calls of the sysinv client and of the libraries do not touch the engine's database, and
  dropping the cached clients of a region does not fail.\<close>

definition sysinv_outside :: "'x sysinv_env \<Rightarrow> bool" where
  "sysinv_outside S \<longleftrightarrow>
     (\<forall>r. leaves_db (sv_connect S r)) \<and> (\<forall>r. leaves_db (sv_delete_region_clients S r)) \<and>
     (\<forall>r n. leaves_db (sv_update_dns S r n)) \<and> (\<forall>r g c m. leaves_db (sv_update_certificate S r g c m)) \<and>
     (\<forall>r c. leaves_db (sv_delete_certificate S r c)) \<and> (\<forall>r h g d. leaves_db (sv_update_user S r h g d)) \<and>
     (\<forall>r k. leaves_db (sv_post_fernet_repo S r k)) \<and> (\<forall>r k. leaves_db (sv_put_fernet_repo S r k)) \<and>
     (\<forall>r. leaves_db (sv_get_certificates S r)) \<and>
     (\<forall>r s. fst (sv_delete_region_clients S r s) = Inr ())"

definition calm :: "orch_request table \<Rightarrow> odb \<Rightarrow> bool" where
  "calm R d \<longleftrightarrow> odb_wf d \<and> od_orch_requests d = R"

lemma keeps_leaves_db: "leaves_db m \<Longrightarrow> keeps (\<lambda>s. I (eg_db s)) m"
  by (simp add: keeps_def leaves_db_def)

lemma keeps_calm_transaction:
  assumes "keeps (\<lambda>d. okeys_wf d \<and> od_orch_requests d = R) m"
  shows "keeps (calm R) (transaction m)"
  using assms
  by (auto simp: keeps_def transaction_def calm_def odb_wf_def schema_ok_def split: prod.splits sum.splits)

lemma keeps_new_uuid [keeps_intros]:
  "keeps (\<lambda>d. okeys_wf d \<and> od_orch_requests d = R) (new_uuid E u)"
  by (auto simp: new_uuid_def okeys_wf_def intro!: keeps_intros keeps_modify split: option.splits)

lemma keeps_reads [keeps_intros]: "keeps I (subcloud_by_name E n)" "keeps I (subcloud_resource_row ctx i)"
  "keeps I (subcloud_resource_get_by_resource_and_subcloud ctx i k)"
  unfolding subcloud_by_name_def o_subcloud_get_def o_subcloud_row_def subcloud_resource_row_def
    subcloud_resource_get_by_resource_and_subcloud_def
  by (intro keeps_intros)+

lemma calm_subcloud_resources:
  "keeps (calm R) (subcloud_resource_create E ctx i k u x)"
  "keeps (calm R) (subcloud_resource_update ctx i x)"
  "keeps (calm R) (subcloud_resource_delete ctx i)"
  unfolding subcloud_resource_create_def subcloud_resource_update_def subcloud_resource_delete_def Let_def
  by (intro keeps_intros keeps_calm_transaction keeps_modify; auto simp: okeys_wf_def)+

lemma calm_persist:
  "keeps (\<lambda>s. calm R (eg_db s)) (get_db_subcloud_resource E th i)"
  "keeps (\<lambda>s. calm R (eg_db s)) (persist_db_subcloud_resource E th i x)"
proof -
  show g: "keeps (\<lambda>s. calm R (eg_db s)) (get_db_subcloud_resource E th i)"
    by (rule reads_keeps) (rule reads_thread)
  show "keeps (\<lambda>s. calm R (eg_db s)) (persist_db_subcloud_resource E th i x)"
    unfolding persist_db_subcloud_resource_def
    by (intro keeps_intros g calm_subcloud_resources)
qed

lemma keeps_lift_sum [keeps_intros]: "keeps I (lift_sum r)"
  by (auto simp: lift_sum_def intro!: keeps_intros split: sum.splits)

lemma keeps_retry [keeps_intros]: "keeps I m \<Longrightarrow> keeps I (retry_on_type_errors m)"
  by (auto simp: retry_on_type_errors_def intro!: keeps_intros)

lemma keeps_failures [keeps_intros]: "keeps I m \<Longrightarrow> keeps I (sync_failures p m)"
  by (auto simp: sync_failures_def intro!: keeps_intros)

lemma outside_calm:
  assumes "sysinv_outside S"
  shows "keeps (\<lambda>s. calm R (eg_db s)) (sv_connect S r)"
    "keeps (\<lambda>s. calm R (eg_db s)) (sv_delete_region_clients S r)"
    "keeps (\<lambda>s. calm R (eg_db s)) (sv_update_dns S r n)"
    "keeps (\<lambda>s. calm R (eg_db s)) (sv_update_certificate S r g c m)"
    "keeps (\<lambda>s. calm R (eg_db s)) (sv_delete_certificate S r x)"
    "keeps (\<lambda>s. calm R (eg_db s)) (sv_update_user S r h g' d)"
    "keeps (\<lambda>s. calm R (eg_db s)) (sv_post_fernet_repo S r k)"
    "keeps (\<lambda>s. calm R (eg_db s)) (sv_put_fernet_repo S r k)"
    "keeps (\<lambda>s. calm R (eg_db s)) (sv_get_certificates S r)"
  using assms unfolding sysinv_outside_def by (intro keeps_leaves_db [where I = "calm R"], simp)+

lemma calm_handlers:
  assumes "sysinv_outside S"
  shows "keeps (\<lambda>s. calm R (eg_db s)) (sync_idns E S th r j rsrc)"
    "keeps (\<lambda>s. calm R (eg_db s)) (sync_certificates E S th r j rsrc)"
    "keeps (\<lambda>s. calm R (eg_db s)) (sync_iuser E S th r j rsrc)"
    "keeps (\<lambda>s. calm R (eg_db s)) (sync_fernet_repo E S th r j rsrc)"
proof -
  note out = outside_calm [OF assms]
  show "keeps (\<lambda>s. calm R (eg_db s)) (sync_idns E S th r j rsrc)"
    unfolding sync_idns_def
    by (auto intro!: keeps_intros calm_persist out split: sysinv_payload.splits)
  show "keeps (\<lambda>s. calm R (eg_db s)) (sync_iuser E S th r j rsrc)"
    unfolding sync_iuser_def user_values_def
    by (auto intro!: keeps_intros calm_persist out split: sysinv_payload.splits option.splits)
  have "keeps (\<lambda>s. calm R (eg_db s)) (send_fernet_repo E S (sv_put_fernet_repo S) th r j rsrc)"
    "keeps (\<lambda>s. calm R (eg_db s)) (send_fernet_repo E S (sv_post_fernet_repo S) th r j rsrc)"
    unfolding send_fernet_repo_def by (auto intro!: keeps_intros calm_persist out)
  then show "keeps (\<lambda>s. calm R (eg_db s)) (sync_fernet_repo E S th r j rsrc)"
    unfolding sync_fernet_repo_def Let_def
    by (auto intro!: keeps_intros split: operation_type.splits)
  have "keeps (\<lambda>s. calm R (eg_db s)) (create_certificate E S th r j rsrc)"
    unfolding create_certificate_def expiry_of_def
    by (auto intro!: keeps_intros calm_persist out split: sysinv_payload.splits option.splits prod.splits)
  moreover have "keeps (\<lambda>s. calm R (eg_db s)) (delete_certificate E S th r j rsrc)"
    unfolding delete_certificate_def get_certificates_resources_def
    by (auto intro!: keeps_intros calm_persist out calm_subcloud_resources
        split: option.splits exn.splits dcorch_exn.splits)
  ultimately show "keeps (\<lambda>s. calm R (eg_db s)) (sync_certificates E S th r j rsrc)"
    unfolding sync_certificates_def Let_def
    by (auto intro!: keeps_intros split: operation_type.splits)
qed

text \<open>What the handler of a platform resource raises.\<close>

definition platform_failures :: "exn set" where
  "platform_failures = {Dcorch SyncRequestFailed, Dcorch SyncRequestAbortedBySystem,
     Dcorch SyncRequestTimeout, Dcorch SyncRequestFailedRetry, Dcorch SyncTimeout}"

text \<open>The last handler of \<open>sync_platform_resource\<close>, on its own.\<close>

definition platform_handler :: "'x sysinv_env \<Rightarrow> sync_thread \<Rightarrow> exn \<Rightarrow> ('x engine, unit) io" where
  "platform_handler S th e =
     (if e = AttributeError then raise (Dcorch SyncRequestFailed)
      else if e = Dcorch CertificateExpiredException then raise (Dcorch SyncRequestAbortedBySystem)
      else if e \<in> {Dcorch ConnectionRefused, Dcorch TimeOut, ConnectTimeout, ConnectFailure}
        then raise (Dcorch SyncRequestTimeout)
      else if e = NotAuthorized then
        seq (sv_delete_region_clients S (th_subcloud_name th)) (raise (Dcorch SyncRequestFailedRetry))
      else if is_Exception e then raise (Dcorch SyncRequestFailedRetry)
      else raise e)"

definition platform_work :: "ident_env \<Rightarrow> 'x sysinv_env \<Rightarrow> sync_thread \<Rightarrow> 'x handler" where
  "platform_work E S th r j rsrc =
     (if rs_resource_type rsrc = ''idns'' then sync_idns E S th r j rsrc
      else if rs_resource_type rsrc = ''certificates'' then sync_certificates E S th r j rsrc
      else if rs_resource_type rsrc = ''iuser'' then sync_iuser E S th r j rsrc
      else if rs_resource_type rsrc = ''fernet_repo'' then sync_fernet_repo E S th r j rsrc
      else raise AttributeError)"

lemma sync_platform_resource_parts:
  "sync_platform_resource E S th r j rsrc =
     try_catch (seq (sv_connect S (th_subcloud_name th)) (platform_work E S th r j rsrc)) (platform_handler S th)"
  unfolding sync_platform_resource_def platform_work_def platform_handler_def [abs_def] by (rule refl)

lemma platform_drop:
  assumes "sysinv_outside S"
  shows "seq (sv_delete_region_clients S n) (raise x) t = (Inl x, snd (sv_delete_region_clients S n t))"
proof -
  have "fst (sv_delete_region_clients S n t) = Inr ()" using assms by (simp add: sysinv_outside_def)
  then show ?thesis by (cases "sv_delete_region_clients S n t") (simp add: seq_apply)
qed

lemma platform_handler_raises:
  assumes "sysinv_outside S"
  shows "\<exists>e' \<in> platform_failures. fst (platform_handler S th e t) = Inl e'"
  by (simp add: platform_handler_def platform_failures_def is_Exception_def platform_drop [OF assms])

lemma platform_raises:
  assumes "sysinv_outside S"
  shows "fst (sync_platform_resource E S th r j rsrc s) = Inr () \<or>
    (\<exists>e \<in> platform_failures. fst (sync_platform_resource E S th r j rsrc s) = Inl e)"
proof -
  obtain out t where w: "seq (sv_connect S (th_subcloud_name th)) (platform_work E S th r j rsrc) s = (out, t)"
    by fastforce
  show ?thesis
    using platform_handler_raises [OF assms, of th _ t]
    by (cases out) (simp_all add: sync_platform_resource_parts try_catch_def w)
qed

lemma sysinv_behaved:
  assumes "sysinv_outside S"
  shows "behaved (sysinv_class E S th)"
proof -
  have "keeps (\<lambda>s. calm R (eg_db s)) (sync_platform_resource E S th r j rsrc)" for R r j rsrc
    unfolding sync_platform_resource_def
    by (intro keeps_intros calm_handlers outside_calm assms)
  then have "calm (od_orch_requests (eg_db s)) (eg_db (snd (sync_platform_resource E S th r j rsrc s)))"
    if "odb_wf (eg_db s)" for r j rsrc s
    using that unfolding keeps_def calm_def by blast
  moreover have "fst (sync_platform_resource E S th r j rsrc s) \<noteq> Inl (Dcorch (OrchRequestNotFound x))" for r j rsrc s x
    using platform_raises [OF assms, of E th r j rsrc s] by (auto simp: platform_failures_def)
  ultimately show ?thesis
    unfolding behaved_def sysinv_class_def sysinv_handlers_def by (auto simp: calm_def split: if_splits)
qed

interpretation platform: sync_service sysinv_class sysinv_outside
  by unfold_locales (rule sysinv_behaved)

text \<open>The requests of the platform endpoint are handled in order of their list and each one
  comes to an end before the next is begun: when the loop returns, there is a point in the list
  such that every request before it has failed or is completed and soft-deleted, every request
  after the one at that point is as it was, and no other request has changed.\<close>

theorem platform_requests_in_order:
  assumes "sysinv_outside S" and "good_db (eg_db s)" and "request_rows (eg_db s) rs"
    and "sync_requests E (sysinv_class E S th) th rs False s = (Inr b, s')"
  shows "good_db (eg_db s') \<and> in_order rs (eg_db s') \<and> outside_same rs (eg_db s) (eg_db s')"
  by (rule platform.requests_in_order [OF assms])

lemma ex_sysinv_outside: "sysinv_outside ex_sysinv"
  by (simp add: sysinv_outside_def ex_sysinv_def leaves_db_def)

lemma ex_run: "fst (sync_requests ex_ident (sysinv_class ex_ident ex_sysinv ex_thread) ex_thread
    [(ex_request 1 ''alpha'' ORCH_REQUEST_QUEUED, ex_job)] False (ex_engine (ex_odb ORCH_REQUEST_QUEUED))) = Inr False"
  by code_simp

theorem platform_requests_in_order_witness:
  "in_order [(ex_request 1 ''alpha'' ORCH_REQUEST_QUEUED, ex_job)] (eg_db (snd
     (sync_requests ex_ident (sysinv_class ex_ident ex_sysinv ex_thread) ex_thread
       [(ex_request 1 ''alpha'' ORCH_REQUEST_QUEUED, ex_job)] False (ex_engine (ex_odb ORCH_REQUEST_QUEUED)))))"
proof -
  let ?rs = "[(ex_request 1 ''alpha'' ORCH_REQUEST_QUEUED, ex_job)]"
  let ?s = "ex_engine (ex_odb ORCH_REQUEST_QUEUED)"
  have "good_db (eg_db ?s)" by (simp add: good_db_def ex_odb_wf ex_engine_def)
  moreover have "request_rows (eg_db ?s) ?rs"
    by (simp add: request_rows_def live_def ex_odefs)
  moreover have run: "sync_requests ex_ident (sysinv_class ex_ident ex_sysinv ex_thread) ex_thread ?rs False ?s =
      (Inr False, snd (sync_requests ex_ident (sysinv_class ex_ident ex_sysinv ex_thread) ex_thread ?rs False ?s))"
    by (rule prod_eqI) (simp_all only: ex_run fst_conv snd_conv)
  ultimately show ?thesis
    using platform_requests_in_order [OF ex_sysinv_outside _ _ run] by blast
qed

definition unreachable :: "exn set" where
  "unreachable = {Dcorch ConnectionRefused, Dcorch TimeOut, ConnectTimeout, ConnectFailure}"

text \<open>A subcloud that becomes unreachable while certificates or keys are sent to it never counts
  as unreachable: the time-out that \<open>sync_certificates\<close> and \<open>sync_fernet_repo\<close> raise is turned into
  a retry by the handler around them, so the engine tries the request again and goes on with the
  next ones instead of giving the endpoint up.\<close>

theorem certificates_never_time_out:
  assumes "sysinv_outside S" and "sv_connect S (th_subcloud_name th) s = (Inr (), s1)"
    and "rs_resource_type rsrc = ''certificates'' \<or> rs_resource_type rsrc = ''fernet_repo''"
  shows "fst (sync_platform_resource E S th r j rsrc s) \<noteq> Inl (Dcorch SyncRequestTimeout)"
proof -
  obtain out t where w: "platform_work E S th r j rsrc s1 = (out, t)" by fastforce
  have never: "fst (sync_failures (\<lambda>e. e = Dcorch CertificateExpiredException) m u) \<notin> Inl ` unreachable"
    "fst (sync_failures (\<lambda>_. False) m u) \<notin> Inl ` unreachable" for m u
    by (auto simp: sync_failures_def try_catch_def unreachable_def is_Exception_def split: prod.splits sum.splits)
  have "out \<notin> Inl ` unreachable"
    using never assms(3) arg_cong [OF w, of fst]
    by (auto simp: platform_work_def sync_certificates_def sync_fernet_repo_def Let_def unreachable_def
        split: operation_type.splits if_splits)
  then have "fst (platform_handler S th e t) \<noteq> Inl (Dcorch SyncRequestTimeout)" if "out = Inl e" for e
  proof -
    have "e \<notin> unreachable" using that \<open>out \<notin> Inl ` unreachable\<close> by blast
    then show ?thesis
      by (auto simp: platform_handler_def unreachable_def is_Exception_def platform_drop [OF assms(1)])
  qed
  then show ?thesis
    by (cases out) (simp_all add: sync_platform_resource_parts try_catch_def seq_apply assms(2) w)
qed

theorem certificates_never_time_out_witness:
  "fst (sync_platform_resource ex_ident ex_sysinv ex_thread
     (ex_request 1 ''alpha'' ORCH_REQUEST_QUEUED) (ex_job\<lparr>oj_operation_type := OPERATION_TYPE_PUT\<rparr>)
     (ex_resource\<lparr>rs_resource_type := ''fernet_repo''\<rparr>) (ex_engine (ex_odb ORCH_REQUEST_QUEUED)))
   \<noteq> Inl (Dcorch SyncRequestTimeout)"
  by (rule certificates_never_time_out [OF ex_sysinv_outside]) (simp_all add: ex_sysinv_def)

end
