(* ===== verification/DO_ManagerProps.thy ===== *)
theory DO_ManagerProps
  imports DO_SyncProps
begin

text \<open>
  The engine's rounds and its database over time: a greenthread that died, the requests an audit
  forgets, the purge, and the work an audit enqueues.
\<close>

section \<open>A greenthread that died\<close>

lemma run_spawned_ended:
  "\<exists>rs t. run_spawned f ts s = (Inr rs, t) \<and> (\<forall>x. Ended x \<in> set ts \<longrightarrow> Ended x \<in> set rs)"
proof (induction ts arbitrary: s rule: run_spawned.induct)
  case (2 f e ts)
  obtain rs t where "run_spawned f ts s = (Inr rs, t)" "\<forall>x. Ended x \<in> set ts \<longrightarrow> Ended x \<in> set rs"
    using "2.IH" by blast
  then show ?case by (auto simp: bnd_apply)
next
  case (3 f n e ts)
  obtain rs t where "run_spawned f ts (snd (f n e s)) = (Inr rs, t)" "\<forall>x. Ended x \<in> set ts \<longrightarrow> Ended x \<in> set rs"
    using "3.IH" by blast
  then show ?case by (auto simp: bnd_apply outcome_apply)
qed auto

lemma wait_all_raises: "Ended (Some e) \<in> set ts \<Longrightarrow> \<exists>e'. wait_all ts s = (Inl e', s)"
  by (induction ts rule: wait_all.induct) auto

lemma keeps_threads_odo: "keeps (\<lambda>s. P (eg_threads s)) (odo m)"
  by (simp add: keeps_def odo_apply)

lemma keeps_threads_objs:
  "keeps (\<lambda>s. P (eg_threads s)) (objs_of n)" "keeps (\<lambda>s. P (eg_threads s)) (set_objs n epts)"
  "keeps (\<lambda>s. P (eg_threads s)) (objs_default n)"
proof -
  show o: "keeps (\<lambda>s. P (eg_threads s)) (objs_of n)" and s: "keeps (\<lambda>s. P (eg_threads s)) (set_objs n epts)" for epts
    by (simp_all add: keeps_def objs_of_def set_objs_def)
  show "keeps (\<lambda>s. P (eg_threads s)) (objs_default n)"
    unfolding objs_default_def by (intro keeps_intros o s)
qed

lemma keeps_dead_endpoints:
  "keeps (\<lambda>s. t \<in> set (eg_threads s)) (sync_endpoints engine_id n epts)"
proof -
  have start: "keeps (\<lambda>s. t \<in> set (eg_threads s)) (start_thread n ep)" for ep
    by (simp add: keeps_def start_thread_def)
  have "keeps (\<lambda>s. t \<in> set (eg_threads s)) (sync_subcloud engine_id n ep a)" for ep a
    unfolding sync_subcloud_def mutex_start_thread_def sync_subcloud_lock_def
    by (intro keeps_intros keeps_threads_odo start)
  then show ?thesis
    by (induction epts)
      (auto intro!: keeps_intros keeps_threads_objs split: sum.splits exn.splits dcorch_exn.splits)
qed

lemma reads_enabled: "reads (enabled_subclouds M)"
  unfolding enabled_subclouds_def by (intro reads_intros)

lemma dead_round:
  assumes "Ended (Some e) \<in> set (eg_threads s)"
  shows "(\<exists>e'. fst (sync_subclouds M s) = Inl e') \<and>
    Ended (Some e) \<in> set (eg_threads (snd (sync_subclouds M s)))"
proof (cases "fst (enabled_subclouds M s)")
  case (Inl x)
  then show ?thesis using assms by (simp add: sync_subclouds_def bnd_read [OF reads_enabled])
next
  case (Inr scs)
  then have en: "enabled_subclouds M s = (Inr scs, s)"
    using readsD [OF reads_enabled, of M s] by (simp add: prod_eq_iff)
  let ?loop = "for_each (\<lambda>sc. bnd (objs_of (os_region_name sc)) (\<lambda>r. case r of
            None \<Rightarrow> ret ()
          | Some epts \<Rightarrow> sync_endpoints (me_engine_id M) (os_region_name sc) epts)) scs"
  obtain out s1 where l: "?loop s = (out, s1)" by fastforce
  have k: "keeps (\<lambda>s. Ended (Some e) \<in> set (eg_threads s)) ?loop"
    by (intro keeps_intros keeps_threads_objs keeps_dead_endpoints)
  have s1: "Ended (Some e) \<in> set (eg_threads s1)"
    using keepsD [OF k assms] l by simp
  obtain rs t where r: "run_spawned (run_sync M) (eg_threads s1) s1 = (Inr rs, t)" "Ended (Some e) \<in> set rs"
    using run_spawned_ended [of "run_sync M" "eg_threads s1" s1] s1 by blast
  obtain e' where "wait_all rs (t\<lparr>eg_threads := rs\<rparr>) = (Inl e', t\<lparr>eg_threads := rs\<rparr>)"
    using wait_all_raises [OF r(2)] by blast
  then show ?thesis
    using s1 r by (cases out) (simp_all add: sync_subclouds_def bnd_apply en seq_apply l)
qed

definition rounds :: "'x manager_env \<Rightarrow> nat \<Rightarrow> 'x engine \<Rightarrow> 'x engine" where
  "rounds M n s = ((\<lambda>s. snd (sync_subclouds M s)) ^^ n) s"

text \<open>Once a greenthread of the synchronisation has ended with an exception, no round of the
  engine ever ends well again: every later round raises when it waits for that greenthread, which
  stays in the list because the list is only cleared after the waiting. The rounds then follow
  each other without the pause of five seconds.\<close>

theorem dead_greenthread_stays:
  assumes "Ended (Some e) \<in> set (eg_threads s)"
  shows "\<exists>e'. fst (sync_subclouds M (rounds M n s)) = Inl e'"
proof -
  have "Ended (Some e) \<in> set (eg_threads (rounds M n s))"
    by (induction n) (simp_all add: rounds_def assms dead_round)
  then show ?thesis using dead_round by blast
qed

theorem dead_greenthread_stays_witness:
  "\<forall>M n. \<exists>e'. fst (sync_subclouds M (rounds M n
     (ex_engine (ex_odb ORCH_REQUEST_QUEUED)\<lparr>eg_threads := [Ended (Some (Dcorch SyncTimeout))]\<rparr>))) = Inl e'"
proof (intro allI)
  fix M :: "unit manager_env" and n
  have "Ended (Some (Dcorch SyncTimeout)) \<in> set (eg_threads
     (ex_engine (ex_odb ORCH_REQUEST_QUEUED)\<lparr>eg_threads := [Ended (Some (Dcorch SyncTimeout))]\<rparr>))" by simp
  then show "\<exists>e'. fst (sync_subclouds M (rounds M n
     (ex_engine (ex_odb ORCH_REQUEST_QUEUED)\<lparr>eg_threads := [Ended (Some (Dcorch SyncTimeout))]\<rparr>))) = Inl e'"
    by (rule dead_greenthread_stays)
qed

section \<open>Failed requests\<close>

lemma later_less: "\<not> later b c \<Longrightarrow> \<not> later a b \<Longrightarrow> \<not> later a c"
  by (cases a; cases b; cases c) auto

lemma later_asym: "later a b \<Longrightarrow> \<not> later b a"
  by (cases a; cases b) auto

lemma latest_latest:
  "latest rs = Some r \<Longrightarrow> r \<in> set rs \<and> (\<forall>q \<in> set rs. \<not> later (or_updated_at q) (or_updated_at r))"
proof (induction rs arbitrary: r)
  case (Cons a rs)
  show ?case
  proof (cases "latest rs")
    case None
    then have "rs = []" by (cases rs) (auto split: option.splits if_splits)
    then show ?thesis using Cons.prems by (auto dest: later_asym)
  next
    case (Some q)
    note IH = Cons.IH [OF Some]
    show ?thesis
    proof (cases "later (or_updated_at q) (or_updated_at a)")
      case True
      then show ?thesis using Cons.prems Some IH later_asym by auto
    next
      case False
      then have "r = a" using Cons.prems Some by simp
      moreover have "\<not> later (or_updated_at x) (or_updated_at a)" if "x \<in> set rs" for x
        using IH that later_less [OF False] by blast
      ultimately show ?thesis using later_asym by auto
    qed
  qed
qed simp

text \<open>The end of an audit forgets the failed requests of every subcloud and endpoint: what it
  soft-deletes is not restricted to what it audited, so that no request of any sync thread is
  pending because it failed, and a subcloud whose only requests failed is next reported in sync.\<close>

theorem failed_requests_forgotten:
  assumes "good_db d" and "fst (orch_request_get_most_recent_failed_request admin_context d) = Inr (Some r)"
    and "or_updated_at r = Some t"
  shows "\<exists>d'. orch_request_delete_previous_failed_requests admin_context (or_updated_at r) d = (Inr (), d') \<and>
    good_db d' \<and> (\<forall>th. list_all (\<lambda>(q, j). or_state q \<noteq> Some ORCH_REQUEST_FAILED) (pending_list th d'))"
proof -
  let ?f = "\<lambda>r. if failed_before (Some t) r then stamp_request (od_now d) [SetDeleted 1, SetDeletedAt (od_now d)] r else r"
  let ?d = "d\<lparr>od_orch_requests := map_rows ?f (od_orch_requests d)\<rparr>"
  have wf: "odb_wf d" "one_request_each d" using assms(1) by (simp_all add: good_db_def)
  have ok: "odb_wf ?d" "one_request_each ?d" by (rule requests_map_ok [OF wf]; simp)+
  have "orch_request_delete_previous_failed_requests admin_context (Some t) d = (Inr (), ?d)"
    unfolding orch_request_delete_previous_failed_requests_def require_admin_simp
    by (rule transaction_commits) (simp_all add: bnd_apply odb_wf_tables(7) [OF ok(1)])
  moreover have kept: "or_state q \<noteq> Some ORCH_REQUEST_FAILED" if q: "q \<in> set (rows (od_orch_requests ?d))" "live q" for q
  proof
    assume f: "or_state q = Some ORCH_REQUEST_FAILED"
    obtain p where p: "p \<in> set (rows (od_orch_requests d))" "q = ?f p" using q(1) by auto
    have none: "\<not> failed_before (Some t) p"
      using p(2) q(2) by (auto simp: live_def)
    then have "live p" "or_state p = Some ORCH_REQUEST_FAILED" using p(2) q(2) f by simp_all
    then have "\<not> later (or_updated_at p) (Some t)"
      using latest_latest [of "query_all (\<lambda>r. live r \<and> or_state r = Some ORCH_REQUEST_FAILED) (od_orch_requests d)" r]
        assms(2,3) p(1)
      by (auto simp: orch_request_get_most_recent_failed_request_def query_all_def)
    then show False
      using none \<open>live p\<close> \<open>or_state p = Some ORCH_REQUEST_FAILED\<close>
      by (cases "or_updated_at p") (auto simp: failed_before_def)
  qed
  have "list_all (\<lambda>(q, j). or_state q \<noteq> Some ORCH_REQUEST_FAILED) (pending_list th ?d)" for th
    unfolding list_all_iff
  proof clarify
    fix q j assume "(q, j) \<in> set (pending_list th ?d)" "or_state q = Some ORCH_REQUEST_FAILED"
    then show False using kept [of q] is_pending_live [of th ?d q] pending_list_iff [of q j th ?d] by blast
  qed
  ultimately show ?thesis using ok assms(3) by (auto simp: good_db_def)
qed

theorem failed_requests_forgotten_witness:
  "\<exists>d'. orch_request_delete_previous_failed_requests admin_context (Some 50) (ex_odb ORCH_REQUEST_FAILED) = (Inr (), d') \<and>
    good_db d' \<and> (\<forall>th. list_all (\<lambda>(q, j). or_state q \<noteq> Some ORCH_REQUEST_FAILED) (pending_list th d'))"
proof -
  let ?r = "ex_request 1 ''alpha'' ORCH_REQUEST_FAILED"
  have good: "good_db (ex_odb ORCH_REQUEST_FAILED)" by (simp add: good_db_def ex_odb_wf)
  have r: "fst (orch_request_get_most_recent_failed_request admin_context (ex_odb ORCH_REQUEST_FAILED)) = Inr (Some ?r)"
    by (simp add: orch_request_get_most_recent_failed_request_def query_all_def live_def ex_odefs)
  have t: "or_updated_at ?r = Some 50" by (simp add: ex_request_def)
  show ?thesis using failed_requests_forgotten [OF good r t] t by simp
qed

end
