(* ===== verification/DO_StoreProps.thy ===== *)
theory DO_StoreProps
  imports DO_SyncProps
begin

text \<open>
  The database over time: the purge leaves alone what is still to be synchronised, and work that
  is enqueued for a subcloud becomes pending for its sync thread.
\<close>

section \<open>The purge\<close>

lemma find_filter: "(\<And>x. x \<in> set xs \<Longrightarrow> p x \<Longrightarrow> q x) \<Longrightarrow> find p (filter q xs) = find p xs"
  by (induction xs) auto

definition purged :: "int \<Rightarrow> odb \<Rightarrow> odb" where
  "purged age d = purge_resources (purge_jobs (purge_requests age d))"

lemma purged_rows:
  "rows (od_orch_requests (purged age d)) = filter (\<lambda>r. \<not> (or_deleted r = 1 \<and>
     (case or_deleted_at r of None \<Rightarrow> False | Some t \<Rightarrow> t < age))) (rows (od_orch_requests d))"
  "rows (od_orch_jobs (purged age d)) = filter (\<lambda>j. list_ex (\<lambda>r. or_orch_job_id r = oj_id j)
     (rows (od_orch_requests (purged age d)))) (rows (od_orch_jobs d))"
  "rows (od_resources (purged age d)) = filter (\<lambda>s.
     list_ex (\<lambda>j. oj_resource_id j = rs_id s) (rows (od_orch_jobs (purged age d))) \<or>
     list_ex (\<lambda>c. sr_resource_id c = rs_id s) (rows (od_subcloud_resources d))) (rows (od_resources d))"
  by (simp_all add: purged_def purge_resources_def purge_jobs_def purge_requests_def)

lemma purged_same [simp]:
  "od_subclouds (purged age d) = od_subclouds d" "od_subcloud_resources (purged age d) = od_subcloud_resources d"
  "od_sync_locks (purged age d) = od_sync_locks d" "od_subcloud_syncs (purged age d) = od_subcloud_syncs d"
  "od_services (purged age d) = od_services d" "od_quotas (purged age d) = od_quotas d"
  "od_quota_classes (purged age d) = od_quota_classes d"
  by (simp_all add: purged_def purge_resources_def purge_jobs_def purge_requests_def)

lemma purged_okeys: "okeys_wf d \<Longrightarrow> okeys_wf (purged age d)"
  by (auto simp: okeys_wf_def purged_def purge_resources_def purge_jobs_def purge_requests_def)

lemma purged_wf:
  assumes "odb_wf d"
  shows "odb_wf (purged age d)"
proof -
  have u: "unique_ok (purged age d)"
    using assms by (simp add: odb_wf_def schema_ok_def unique_ok_def purged_rows distinct_map_filter)
  have r: "refs_ok d" using assms by (simp add: odb_wf_def schema_ok_def)
  have "refer_to (\<lambda>r. Some (sr_resource_id r)) (od_subcloud_resources d) rs_id (od_resources (purged age d))"
  proof -
    have "sr_resource_id c \<in> rs_id ` set (rows (od_resources (purged age d)))"
      if c: "c \<in> set (rows (od_subcloud_resources d))" for c
    proof -
      obtain s where s: "s \<in> set (rows (od_resources d))" "rs_id s = sr_resource_id c"
        using r c by (auto simp: refs_ok_def refer_to_def list_all_iff)
      then have "s \<in> set (rows (od_resources (purged age d)))"
        using c by (auto simp: purged_rows(3) list_ex_iff)
      then show ?thesis using s(2) by force
    qed
    then show ?thesis by (simp add: refer_to_def list_all_iff)
  qed
  moreover have "refer_to (\<lambda>r. Some (oj_resource_id r)) (od_orch_jobs (purged age d)) rs_id (od_resources (purged age d))"
  proof -
    have "oj_resource_id j \<in> rs_id ` set (rows (od_resources (purged age d)))"
      if j: "j \<in> set (rows (od_orch_jobs (purged age d)))" for j
    proof -
      have "j \<in> set (rows (od_orch_jobs d))" using j by (simp add: purged_rows(2))
      then obtain s where s: "s \<in> set (rows (od_resources d))" "rs_id s = oj_resource_id j"
        using r by (auto simp: refs_ok_def refer_to_def list_all_iff)
      then have "s \<in> set (rows (od_resources (purged age d)))"
        using j by (auto simp: purged_rows(3) list_ex_iff)
      then show ?thesis using s(2) by force
    qed
    then show ?thesis by (simp add: refer_to_def list_all_iff)
  qed
  moreover have "refer_to (\<lambda>r. Some (or_orch_job_id r)) (od_orch_requests (purged age d)) oj_id (od_orch_jobs (purged age d))"
  proof -
    have "or_orch_job_id q \<in> oj_id ` set (rows (od_orch_jobs (purged age d)))"
      if q: "q \<in> set (rows (od_orch_requests (purged age d)))" for q
    proof -
      have "q \<in> set (rows (od_orch_requests d))" using q by (simp add: purged_rows(1))
      then obtain j where j: "j \<in> set (rows (od_orch_jobs d))" "oj_id j = or_orch_job_id q"
        using r by (auto simp: refs_ok_def refer_to_def list_all_iff)
      then have "j \<in> set (rows (od_orch_jobs (purged age d)))"
        using q by (auto simp: purged_rows(2) list_ex_iff)
      then show ?thesis using j(2) by force
    qed
    then show ?thesis by (simp add: refer_to_def list_all_iff)
  qed
  ultimately have "refs_ok (purged age d)" using r by (simp add: refs_ok_def)
  then show ?thesis using u assms purged_okeys by (simp add: odb_wf_def schema_ok_def)
qed

lemma purged_job_of: "q \<in> set (rows (od_orch_requests (purged age d))) \<Longrightarrow> job_of (purged age d) q = job_of d q"
  unfolding job_of_def purged_rows(2) by (rule find_filter) (auto simp: list_ex_iff)

lemma purged_pending: "pending_list th (purged age d) = pending_list th d"
proof -
  let ?m = "\<lambda>d. request_matches (th_endpoint_type th) None (Some (th_subcloud_name th)) (Some PENDING_SYNC_REQUEST_STATES) d"
  have iff: "q \<in> set (rows (od_orch_requests (purged age d))) \<and> ?m (purged age d) q \<longleftrightarrow> ?m d q"
    if "q \<in> set (rows (od_orch_requests d))" for q
  proof (cases "q \<in> set (rows (od_orch_requests (purged age d)))")
    case True
    then show ?thesis
      by (simp add: request_matches_def purged_job_of cong: option.case_cong)
  next
    case False
    then have "\<not> live q" using that by (auto simp: purged_rows(1) live_def)
    then show ?thesis by (simp add: request_matches_def)
  qed
  have rows: "query_all (?m (purged age d)) (od_orch_requests (purged age d)) = query_all (?m d) (od_orch_requests d)"
    unfolding query_all_def purged_rows(1) filter_filter
    using iff by (intro filter_cong) (auto simp: purged_rows(1))
  have "the (job_of (purged age d) q) = the (job_of d q)"
    if "q \<in> set (query_all (?m d) (od_orch_requests d))" for q
    using that iff [of q] purged_job_of by (auto simp: query_all_def)
  then show ?thesis unfolding pending_list_def rows by (intro map_cong) auto
qed

text \<open>C16: The periodic purge of the orchestrator's database always commits, keeps its schema, and
  takes away nothing that is still to be synchronised: the requests pending for any sync thread,
  with their jobs and in their order, are the same before and after it, whatever the retention.\<close>

theorem purge_keeps_pending:
  assumes "odb_wf d"
  shows "\<exists>d'. purge_deleted_records admin_context days d = (Inr (), d') \<and> odb_wf d' \<and>
    pending_list th d' = pending_list th d"
proof -
  let ?age = "od_now d - days * seconds_per_day"
  have "purge_deleted_records admin_context days d = (Inr (), purged ?age d)"
    unfolding purge_deleted_records_def require_admin_simp
    by (simp add: bnd_apply)
      (rule transaction_commits;
       simp add: seq_apply purged_def [symmetric] odb_wf_tables(7) [OF purged_wf [OF assms]])
  then show ?thesis using purged_wf [OF assms] purged_pending by blast
qed

theorem purge_keeps_pending_witness:
  "\<exists>d'. purge_deleted_records admin_context 30 (ex_odb ORCH_REQUEST_QUEUED) = (Inr (), d') \<and> odb_wf d' \<and>
    pending_list ex_thread d' = [(ex_request 1 ''alpha'' ORCH_REQUEST_QUEUED, ex_job)]"
proof -
  have "pending_list ex_thread (ex_odb ORCH_REQUEST_QUEUED) = [(ex_request 1 ''alpha'' ORCH_REQUEST_QUEUED, ex_job)]"
    by (simp add: pending_list_def query_all_def request_matches_def live_def ex_odefs job_of_def truthy_str_def
        PENDING_SYNC_REQUEST_STATES_def)
  then show ?thesis
    using purge_keeps_pending [OF ex_odb_wf(1) [of ORCH_REQUEST_QUEUED], of 30 ex_thread] by simp
qed

end
