(* ===== verification/DO_LockProps.thy ===== *)
theory DO_LockProps
  imports DO_SyncProps
begin

text \<open>
  Several engines and one database: what the lock of an endpoint excludes, and what it does not.
  The engines are processes that share the database; each transaction is one step. The steps are
  those of \<open>mutex_start_thread\<close> and \<open>_sync_subcloud\<close> in \<open>dcorch/engine/generic_sync_manager.py\<close>
  under the decorator of \<open>dcorch/engine/subcloud_lock.py\<close>, the two ways in which
  \<open>dcorch/engine/service.py\<close> takes locks away, and the death of an engine.
\<close>

section \<open>Engines and an endpoint\<close>

text \<open>Where the main greenthread of an engine is: outside \<open>mutex_start_thread\<close>, in it with the lock
  just taken, or about to release the lock. The greenthreads it has started are kept apart: those
  that have not run yet and those that are synchronising. \<open>en_swept\<close> is a record of the engines
  that a clean-up has left in \<open>mutex_start_thread\<close> without their lock; no step looks at it.\<close>

datatype phase = Idle | Locked | Leaving

record engines =
  en_db :: odb
  en_phase :: "string \<Rightarrow> phase"
  en_spawned :: "string list"
  en_running :: "string list"
  en_swept :: "string set"

definition sync_wanted :: "string \<Rightarrow> string \<Rightarrow> odb \<Rightarrow> bool" where
  "sync_wanted n ep d = (case fst (subcloud_sync_get n ep d) of
     Inr r \<Rightarrow> sy_sync_request r \<in> set SYNC_WANTED | Inl _ \<Rightarrow> False)"

definition endpoint_locks :: "string \<Rightarrow> string \<Rightarrow> odb \<Rightarrow> sync_lock list" where
  "endpoint_locks n ep d = filter (\<lambda>l. sl_subcloud_name l = n \<and> sl_endpoint_type l = ep \<and>
     sl_action l = ''sync'') (rows (od_sync_locks d))"

text \<open>The engines that are in \<open>mutex_start_thread\<close> while the database \<open>d\<close> has no lock of theirs.\<close>

definition bereft :: "string \<Rightarrow> string \<Rightarrow> engines \<Rightarrow> odb \<Rightarrow> string set" where
  "bereft n ep s d =
     {e. en_phase s e \<noteq> Idle \<and> e \<notin> set (map sl_engine_id (endpoint_locks n ep d))}"

text \<open>\<open>sweep\<close> deletes the locks of one engine: \<open>sync_lock_cleanup\<close> does it to every engine that has
  not reported for a while, alive or not, and the remote call \<open>delete_sync_lock\<close> to the one it is
  given. \<open>purge\<close> is the start of an engine: it deletes the locks of all engines that are not in the
  table of services, among them those that have not yet reported for the first time. \<open>die\<close> ends an
  engine where it is, and leaves its lock behind. \<open>others\<close> is all the rest that goes on in the
  database: no other operation writes locks of the action \<open>sync\<close>.\<close>

inductive lock_step :: "string \<Rightarrow> string \<Rightarrow> engines \<Rightarrow> engines \<Rightarrow> bool" for n ep where
  acquire: "en_phase s e = Idle \<Longrightarrow> sync_wanted n ep (en_db s) \<Longrightarrow>
    sync_lock_acquire e n ep ''sync'' (en_db s) = (Inr True, d) \<Longrightarrow>
    lock_step n ep s (s\<lparr>en_db := d, en_phase := (en_phase s)(e := Locked)\<rparr>)"
| start: "en_phase s e = Locked \<Longrightarrow> sync_wanted n ep (en_db s) \<Longrightarrow>
    lock_step n ep s (s\<lparr>en_phase := (en_phase s)(e := Leaving), en_spawned := en_spawned s @ [e]\<rparr>)"
| skip: "en_phase s e = Locked \<Longrightarrow> \<not> sync_wanted n ep (en_db s) \<Longrightarrow>
    lock_step n ep s (s\<lparr>en_phase := (en_phase s)(e := Leaving)\<rparr>)"
| release: "en_phase s e = Leaving \<Longrightarrow>
    sync_lock_release e n ep ''sync'' (en_db s) = (Inr (), d) \<Longrightarrow>
    lock_step n ep s (s\<lparr>en_db := d, en_phase := (en_phase s)(e := Idle)\<rparr>)"
| run: "e \<in> set (en_spawned s) \<Longrightarrow>
    subcloud_sync_update n ep [SetSyncRequest SYNC_STATUS_IN_PROGRESS] (en_db s) = (Inr (), d) \<Longrightarrow>
    lock_step n ep s (s\<lparr>en_db := d, en_spawned := remove1 e (en_spawned s), en_running := en_running s @ [e]\<rparr>)"
| finish: "e \<in> set (en_running s) \<Longrightarrow> st \<in> {SYNC_STATUS_COMPLETED, SYNC_STATUS_FAILED} \<Longrightarrow>
    subcloud_sync_update n ep [SetSyncRequest st] (en_db s) = (Inr (), d) \<Longrightarrow>
    lock_step n ep s (s\<lparr>en_db := d, en_running := remove1 e (en_running s)\<rparr>)"
| sweep: "sync_lock_delete_by_engine_id e (en_db s) = (Inr (), d) \<Longrightarrow>
    lock_step n ep s (s\<lparr>en_db := d, en_swept := en_swept s \<union> bereft n ep s d\<rparr>)"
| purge: "purge_stale_sync_lock (en_db s) = (Inr (), d) \<Longrightarrow>
    lock_step n ep s (s\<lparr>en_db := d, en_swept := en_swept s \<union> bereft n ep s d\<rparr>)"
| die: "lock_step n ep s (s\<lparr>en_phase := (en_phase s)(e := Idle),
    en_spawned := filter (\<lambda>x. x \<noteq> e) (en_spawned s), en_running := filter (\<lambda>x. x \<noteq> e) (en_running s)\<rparr>)"
| others: "odb_wf d \<Longrightarrow> endpoint_locks n ep d = endpoint_locks n ep (en_db s) \<Longrightarrow>
    lock_step n ep s (s\<lparr>en_db := d\<rparr>)"

section \<open>What the lock excludes\<close>

definition lock_inv :: "string \<Rightarrow> string \<Rightarrow> engines \<Rightarrow> bool" where
  "lock_inv n ep s \<longleftrightarrow> odb_wf (en_db s) \<and> (en_swept s = {} \<longrightarrow>
     (\<forall>e. en_phase s e \<noteq> Idle \<longrightarrow> map sl_engine_id (endpoint_locks n ep (en_db s)) = [e]))"

lemma lock_inv_one: "lock_inv n ep s \<Longrightarrow> en_swept s = {} \<Longrightarrow> en_phase s e \<noteq> Idle \<Longrightarrow> en_phase s e' \<noteq> Idle \<Longrightarrow> e' = e"
  unfolding lock_inv_def by (metis list.inject)

lemma lock_held_locks: "lock_held n ep ''sync'' d \<longleftrightarrow> endpoint_locks n ep d \<noteq> []"
  by (auto simp: lock_held_def endpoint_locks_def list_ex_iff filter_empty_conv)

text \<open>What the two operations of the lock do when they commit.\<close>

lemma acquire_commits:
  assumes "odb_wf d" and "sync_lock_acquire e n ep ''sync'' d = (Inr True, d')"
  shows "odb_wf d' \<and> endpoint_locks n ep d = [] \<and> map sl_engine_id (endpoint_locks n ep d') = [e]"
proof -
  let ?row = "\<lambda>i. \<lparr>sl_id = i, sl_engine_id = e, sl_subcloud_name = n, sl_endpoint_type = ep, sl_action = ''sync''\<rparr>"
  let ?d = "d\<lparr>od_sync_locks := insert_row ?row (od_sync_locks d)\<rparr>"
  have free: "\<not> lock_held n ep ''sync'' d" and d': "d' = ?d" and ok: "schema_ok ?d"
    using assms(2)
    by (auto simp: sync_lock_acquire_def try_catch_def db_sync_lock_acquire_def transaction_def bnd_apply
        seq_apply schema_ok_def split: if_splits)
  have "table_wf sl_id (insert_row ?row (od_sync_locks d))"
    by (rule table_wf_insert) (simp_all add: odb_wf_tables(6) [OF assms(1)])
  then have "odb_wf ?d" using assms(1) ok by (simp add: odb_wf_def okeys_wf_def)
  then show ?thesis
    using free lock_held_locks [of n ep d] by (simp add: d' endpoint_locks_def insert_row_def)
qed

lemma release_commits:
  assumes "odb_wf d" and "sync_lock_release e n ep ''sync'' d = (Inr (), d')"
  shows "odb_wf d' \<and> endpoint_locks n ep d' = []"
proof -
  have d': "d' = d\<lparr>od_sync_locks := filter_rows (\<lambda>l. \<not> (sl_subcloud_name l = n \<and>
        sl_endpoint_type l = ep \<and> sl_action l = ''sync'')) (od_sync_locks d)\<rparr>"
    and ok: "schema_ok d'"
    using assms(2)
    by (auto simp: sync_lock_release_def db_sync_lock_release_def transaction_def schema_ok_def split: if_splits)
  have "table_wf sl_id (od_sync_locks d')"
    using odb_wf_tables(6) [OF assms(1)] by (simp add: d' table_wf_filter)
  then have "odb_wf d'" using assms(1) ok by (simp add: odb_wf_def okeys_wf_def d')
  then show ?thesis by (simp add: d' endpoint_locks_def filter_empty_conv)
qed

lemma sync_update_keeps_locks:
  assumes "odb_wf d" and "subcloud_sync_update n ep vs d = (Inr (), d')"
  shows "odb_wf d' \<and> od_sync_locks d' = od_sync_locks d"
proof -
  let ?m = "bnd (subcloud_sync_get n ep) (\<lambda>r. modify (\<lambda>d. d\<lparr>od_subcloud_syncs :=
        update_row sy_id (sy_id r) (fold set_subcloud_sync vs) (od_subcloud_syncs d)\<rparr>))"
  have k: "keeps (\<lambda>t. okeys_wf t \<and> od_sync_locks t = od_sync_locks d) ?m"
    by (intro keeps_intros keeps_modify reads_keeps reads_queries) (auto simp: okeys_wf_def)
  obtain out t where m: "?m d = (out, t)" by fastforce
  have t: "okeys_wf t" "od_sync_locks t = od_sync_locks d"
    using keepsD [OF k, of d] assms(1) m by (simp_all add: odb_wf_def)
  have "d' = t \<and> schema_ok t"
    using assms(2) m
    by (cases out) (auto simp: subcloud_sync_update_def transaction_def schema_ok_def split: if_splits)
  then show ?thesis using t by (simp add: odb_wf_def)
qed

text \<open>The clean-ups take locks away and do nothing else.\<close>

lemma filtered_locks:
  assumes "odb_wf d" and "d' = d\<lparr>od_sync_locks := filter_rows p (od_sync_locks d)\<rparr>"
  shows "odb_wf d'" and "endpoint_locks n ep d' = filter p (endpoint_locks n ep d)"
proof -
  have "schema_ok d'"
    using odb_wf_tables(7) [OF assms(1)]
    by (simp add: assms(2) schema_ok_def unique_ok_def refs_ok_def distinct_map_filter)
  moreover have "table_wf sl_id (od_sync_locks d')"
    using odb_wf_tables(6) [OF assms(1)] by (simp add: assms(2) table_wf_filter)
  ultimately show "odb_wf d'" using assms(1) by (simp add: assms(2) odb_wf_def okeys_wf_def)
  show "endpoint_locks n ep d' = filter p (endpoint_locks n ep d)"
    by (simp add: assms(2) endpoint_locks_def conj_commute)
qed

lemma purge_effect:
  "odb_wf d \<Longrightarrow> purge_stale_sync_lock d = (Inr (), d\<lparr>od_sync_locks := filter_rows
     (\<lambda>l. sl_engine_id l \<in> set (map sv_id (od_services d))) (od_sync_locks d)\<rparr>)"
  unfolding purge_stale_sync_lock_def
  by (rule transaction_commits) (simp_all add: odb_wf_tables(7) [OF filtered_locks(1) [OF _ refl]])

lemma delete_locks:
  "for_each (\<lambda>l. modify (\<lambda>d. d\<lparr>od_sync_locks := delete_row sl_id (sl_id l) (od_sync_locks d)\<rparr>)) ls d =
     (Inr (), d\<lparr>od_sync_locks := filter_rows (\<lambda>r. sl_id r \<notin> sl_id ` set ls) (od_sync_locks d)\<rparr>)"
proof (induction ls arbitrary: d)
  case Nil
  then show ?case by (simp add: filter_rows_def)
next
  case (Cons l ls)
  then show ?case by (simp add: seq_apply delete_row_def filter_rows_def conj_commute)
qed

lemma sweep_effect:
  assumes "sync_lock_delete_by_engine_id e d = (Inr (), d')"
  shows "\<exists>p. d' = d\<lparr>od_sync_locks := filter_rows p (od_sync_locks d)\<rparr>"
proof -
  let ?ls = "query_all (\<lambda>l. sl_engine_id l = e) (od_sync_locks d)"
  have "d' = d\<lparr>od_sync_locks := filter_rows (\<lambda>r. sl_id r \<notin> sl_id ` set ?ls) (od_sync_locks d)\<rparr>"
    using assms
    by (simp add: sync_lock_delete_by_engine_id_def transaction_def bnd_apply delete_locks split: if_splits)
  then show ?thesis by blast
qed

lemma lock_inv_swept:
  assumes "lock_inv n ep s" and "d = (en_db s)\<lparr>od_sync_locks := filter_rows p (od_sync_locks (en_db s))\<rparr>"
  shows "lock_inv n ep (s\<lparr>en_db := d, en_swept := en_swept s \<union> bereft n ep s d\<rparr>)"
proof -
  have "odb_wf (en_db s)" using assms(1) by (simp add: lock_inv_def)
  note f = filtered_locks [OF this assms(2)]
  have "map sl_engine_id (endpoint_locks n ep d) = [e]"
    if quiet: "en_swept s \<union> bereft n ep s d = {}" and e: "en_phase s e \<noteq> Idle" for e
  proof -
    have "map sl_engine_id (endpoint_locks n ep (en_db s)) = [e]"
      using assms(1) quiet e by (simp add: lock_inv_def)
    then obtain l where l: "endpoint_locks n ep (en_db s) = [l]" "sl_engine_id l = e" by auto
    moreover have "e \<in> set (map sl_engine_id (endpoint_locks n ep d))"
      using quiet e by (auto simp: bereft_def)
    ultimately show ?thesis by (auto simp: f(2) split: if_splits)
  qed
  then show ?thesis using f(1) by (simp add: lock_inv_def)
qed

lemma lock_inv_step: "lock_step n ep s s' \<Longrightarrow> lock_inv n ep s \<Longrightarrow> lock_inv n ep s'"
proof (induction rule: lock_step.induct)
  case (acquire s e d)
  then have "odb_wf d" "endpoint_locks n ep (en_db s) = []" "map sl_engine_id (endpoint_locks n ep d) = [e]"
    using acquire_commits [of "en_db s" e n ep d] by (simp_all add: lock_inv_def)
  then show ?case using acquire.prems by (auto simp: lock_inv_def)
next
  case (release s e d)
  have "odb_wf d" "endpoint_locks n ep d = []"
    using release release_commits [of "en_db s" e n ep d] by (simp_all add: lock_inv_def)
  moreover have "en_phase s e' = Idle" if quiet: "en_swept s = {}" and other: "e' \<noteq> e" for e'
    using lock_inv_one [OF release.prems quiet, of e e'] release.hyps(1) other by auto
  ultimately show ?case by (auto simp: lock_inv_def)
next
  case (run e s d)
  then show ?case using sync_update_keeps_locks [of "en_db s" n ep _ d]
    by (auto simp: lock_inv_def endpoint_locks_def)
next
  case (sweep e s d)
  then show ?case using sweep_effect lock_inv_swept by blast
next
  case (purge s d)
  then show ?case using purge_effect [of "en_db s"] lock_inv_swept [of n ep s d]
    by (auto simp: lock_inv_def)
next
  case (finish e s st d)
  then show ?case using sync_update_keeps_locks [of "en_db s" n ep _ d]
    by (auto simp: lock_inv_def endpoint_locks_def)
qed (auto simp: lock_inv_def)

lemma lock_inv_steps: "(lock_step n ep)\<^sup>*\<^sup>* s s' \<Longrightarrow> lock_inv n ep s \<Longrightarrow> lock_inv n ep s'"
  by (induction rule: rtranclp_induct) (auto dest: lock_inv_step)

definition engines_at_rest :: "odb \<Rightarrow> engines" where
  "engines_at_rest d = \<lparr>en_db = d, en_phase = (\<lambda>_. Idle), en_spawned = [], en_running = [], en_swept = {}\<rparr>"

text \<open>C11: However the engines interleave, start, die and clean up behind each other, at most one of them
  is in \<open>mutex_start_thread\<close> for an endpoint, and the only lock of the endpoint is its own, as long
  as no clean-up has taken the lock of an engine that was in there.\<close>

theorem lock_excludes:
  assumes "odb_wf d" and "(lock_step n ep)\<^sup>*\<^sup>* (engines_at_rest d) s"
    and "en_swept s = {}" and "en_phase s e \<noteq> Idle"
  shows "map sl_engine_id (endpoint_locks n ep (en_db s)) = [e] \<and> (\<forall>e'. en_phase s e' \<noteq> Idle \<longrightarrow> e' = e)"
proof -
  have "lock_inv n ep (engines_at_rest d)" using assms(1) by (simp add: lock_inv_def engines_at_rest_def)
  then have "lock_inv n ep s" using lock_inv_steps [OF assms(2)] by blast
  then show ?thesis using assms(3,4) lock_inv_one by (auto simp: lock_inv_def)
qed

section \<open>What it does not exclude\<close>


lemma acquire_run:
  assumes "odb_wf d" and "endpoint_locks n ep d = []"
  shows "\<exists>d'. sync_lock_acquire e n ep ''sync'' d = (Inr True, d') \<and>
    od_subcloud_syncs d' = od_subcloud_syncs d \<and> od_services d' = od_services d"
proof -
  let ?d = "d\<lparr>od_sync_locks := insert_row (\<lambda>i. \<lparr>sl_id = i, sl_engine_id = e, sl_subcloud_name = n,
    sl_endpoint_type = ep, sl_action = ''sync''\<rparr>) (od_sync_locks d)\<rparr>"
  have free: "\<not> (sl_subcloud_name l = n \<and> sl_endpoint_type l = ep \<and> sl_action l = ''sync'')"
    if "l \<in> set (rows (od_sync_locks d))" for l
    using assms(2) that by (auto simp: endpoint_locks_def filter_empty_conv)
  let ?key = "\<lambda>l. (sl_subcloud_name l, sl_endpoint_type l, sl_action l)"
  have "(n, ep, ''sync'') \<notin> ?key ` set (rows (od_sync_locks d))"
  proof
    assume "(n, ep, ''sync'') \<in> ?key ` set (rows (od_sync_locks d))"
    then obtain l where "l \<in> set (rows (od_sync_locks d))" "?key l = (n, ep, ''sync'')"
      by (metis (no_types, lifting) imageE)
    then show False using free [of l] by simp
  qed
  then have "distinct (map ?key (rows (od_sync_locks ?d)))"
    using odb_wf_tables(7) [OF assms(1)] by (simp add: schema_ok_def unique_ok_def insert_row_def)
  then have "schema_ok ?d"
    using odb_wf_tables(7) [OF assms(1)] by (simp add: schema_ok_def unique_ok_def refs_ok_def)
  moreover have "\<not> lock_held n ep ''sync'' d" using assms(2) by (simp add: lock_held_locks)
  ultimately have "db_sync_lock_acquire e n ep ''sync'' d = (Inr True, ?d)"
    unfolding db_sync_lock_acquire_def
    by (intro transaction_commits) (simp_all add: bnd_apply seq_apply)
  then show ?thesis by (simp add: sync_lock_acquire_def try_catch_def)
qed







lemma ex_wanted:
  "ex_sync 1 ''alpha'' SYNC_STATUS_REQUESTED \<in> set (rows (od_subcloud_syncs (ex_odb ORCH_REQUEST_QUEUED)))"
  "is_sync ''alpha'' ''platform'' (ex_sync 1 ''alpha'' SYNC_STATUS_REQUESTED)"
  "sy_sync_request (ex_sync 1 ''alpha'' SYNC_STATUS_REQUESTED) \<in> set SYNC_WANTED"
  "\<not> lock_held ''alpha'' ''platform'' ''sync'' (ex_odb ORCH_REQUEST_QUEUED)"
  by (simp_all add: ex_odefs empty_table_def is_sync_def SYNC_WANTED_def lock_held_def)



lemma ex_acquired:
  "\<exists>s. (lock_step ''alpha'' ''platform'')\<^sup>*\<^sup>* (engines_at_rest (ex_odb ORCH_REQUEST_QUEUED)) s \<and>
     en_phase s ''e1'' = Locked \<and> en_swept s = {}"
proof -
  let ?d = "ex_odb ORCH_REQUEST_QUEUED" and ?s = "engines_at_rest (ex_odb ORCH_REQUEST_QUEUED)"
  have free: "endpoint_locks ''alpha'' ''platform'' ?d = []" using ex_wanted(4) by (simp add: lock_held_locks)
  obtain d1 where d1: "sync_lock_acquire ''e1'' ''alpha'' ''platform'' ''sync'' ?d = (Inr True, d1)"
    using acquire_run [OF ex_odb_wf(1) free] by blast
  have "sync_wanted ''alpha'' ''platform'' ?d"
    using ex_wanted(3) by (simp add: sync_wanted_def sync_row_run [OF ex_odb_wf(1) ex_wanted(1,2)])
  then have "lock_step ''alpha'' ''platform'' ?s (?s\<lparr>en_db := d1, en_phase := (en_phase ?s)(''e1'' := Locked)\<rparr>)"
    by (intro lock_step.acquire) (simp_all add: engines_at_rest_def d1)
  then show ?thesis by (intro exI conjI) (rule r_into_rtranclp, assumption, simp_all add: engines_at_rest_def)
qed

theorem lock_excludes_witness:
  "\<exists>s. (lock_step ''alpha'' ''platform'')\<^sup>*\<^sup>* (engines_at_rest (ex_odb ORCH_REQUEST_QUEUED)) s \<and>
     map sl_engine_id (endpoint_locks ''alpha'' ''platform'' (en_db s)) = [''e1''] \<and>
     (\<forall>e. en_phase s e \<noteq> Idle \<longrightarrow> e = ''e1'')"
proof -
  obtain s where s: "(lock_step ''alpha'' ''platform'')\<^sup>*\<^sup>* (engines_at_rest (ex_odb ORCH_REQUEST_QUEUED)) s"
    "en_phase s ''e1'' = Locked" "en_swept s = {}" using ex_acquired by blast
  then have "en_phase s ''e1'' \<noteq> Idle" by simp
  then show ?thesis using lock_excludes [OF ex_odb_wf(1) s(1,3)] s(1) by blast
qed

end
