(* ===== verification/DO_Identity.thy ===== *)
theory DO_Identity
  imports DO_Manager DC_Json
begin

text \<open>
  \<open>dcorch/engine/sync_services/identity.py\<close>: the sync thread of the identity endpoint. Users,
  groups, projects and roles are copied as rows of the keystone database, by way of the service
  dcdbsync of the subcloud, so that their ids are the same everywhere; role assignments go through
  the API of keystone, and revocations of tokens are copied again as rows.
\<close>

section \<open>What the thread talks to\<close>

text \<open>\<open>dcdbsync/dbsyncclient/exceptions.py\<close>, and two exceptions of keystone's client.\<close>

datatype dbsync_exn =
    DbsConnectTimeout | DbsConnectFailure | DbsUnknownConnectionError | DbsUnauthorized
  | DbsUnauthorizedMaster | DbsNotFound | DbsAPIException

fun dbsync_exn_str :: "dbsync_exn \<Rightarrow> string" where
  "dbsync_exn_str DbsConnectTimeout = ''ConnectTimeOutException occurred''"
| "dbsync_exn_str DbsConnectFailure = ''ConnectFailureException occurred''"
| "dbsync_exn_str DbsUnknownConnectionError = ''UnknownConnectionErrorException occurred''"
| "dbsync_exn_str DbsUnauthorized = ''UnauthorizedException occurred''"
| "dbsync_exn_str DbsUnauthorizedMaster = ''Unauthorized request - master resource''"
| "dbsync_exn_str DbsNotFound = ''NotFoundException occurred''"
| "dbsync_exn_str DbsAPIException = ''APIException''"

definition Dbsync :: "dbsync_exn \<Rightarrow> exn" where
  "Dbsync e = PyException (''dbsyncclient: '' @ dbsync_exn_str e)"

definition KsUnauthorized :: exn where
  "KsUnauthorized = PyException ''keystone: Unauthorized''"

definition KsNotFound :: exn where
  "KsNotFound = PyException ''keystone: NotFound''"

text \<open>The four resources that are copied as rows, with the keys of their records.\<close>

datatype id_kind = Users | Groups | Projects | Roles

fun kind_key :: "id_kind \<Rightarrow> string" where
  "kind_key Users = ''user''"
| "kind_key Groups = ''group''"
| "kind_key Projects = ''project''"
| "kind_key Roles = ''role''"

fun name_key :: "id_kind \<Rightarrow> string" where
  "name_key Users = ''local_user''"
| "name_key k = kind_key k"

datatype actor = UserActor string | GroupActor string

record assignment =
  as_project :: "string option"
  as_actor :: actor
  as_role :: string

datatype event_ref = AuditId json | UserId string

text \<open>The clients of dcdbsync and keystone, by region. A reply of dcdbsync is a JSON document, the
  records of a resource are its text.\<close>

record 'x identity_env =
  ie_os_client :: "string \<Rightarrow> ('x engine, unit) io"
  ie_delete_region_clients :: "string \<Rightarrow> ('x engine, unit) io"
  ie_detail :: "id_kind \<Rightarrow> string \<Rightarrow> string \<Rightarrow> ('x engine, string) io"
  ie_add :: "id_kind \<Rightarrow> string \<Rightarrow> string \<Rightarrow> ('x engine, json) io"
  ie_update :: "id_kind \<Rightarrow> string \<Rightarrow> json \<Rightarrow> string \<Rightarrow> ('x engine, json) io"
  ie_list :: "id_kind \<Rightarrow> string \<Rightarrow> ('x engine, ext_resource list) io"
  ie_event_detail :: "string \<Rightarrow> event_ref \<Rightarrow> ('x engine, string) io"
  ie_event_add :: "string \<Rightarrow> string \<Rightarrow> ('x engine, json) io"
  ie_event_delete :: "string \<Rightarrow> event_ref \<Rightarrow> ('x engine, unit) io"
  ie_event_list :: "string \<Rightarrow> ('x engine, ext_resource list) io"
  ks_update :: "id_kind \<Rightarrow> string \<Rightarrow> string \<Rightarrow> (string \<times> json) list \<Rightarrow> ('x engine, string) io"
  ks_delete :: "id_kind \<Rightarrow> string \<Rightarrow> string \<Rightarrow> ('x engine, unit) io"
  ks_list :: "id_kind \<Rightarrow> string \<Rightarrow> ('x engine, ext_resource list) io"
  ks_domains :: "string \<Rightarrow> ('x engine, string list) io"
  ks_in_domain :: "id_kind \<Rightarrow> string \<Rightarrow> string \<Rightarrow> ('x engine, ext_resource list) io"
  ks_grant :: "string \<Rightarrow> string \<Rightarrow> actor \<Rightarrow> string \<Rightarrow> ('x engine, unit) io"
  ks_revoke :: "string \<Rightarrow> string \<Rightarrow> actor \<Rightarrow> string \<Rightarrow> ('x engine, unit) io"
  ks_assignments ::
    "string \<Rightarrow> (actor \<times> string \<times> string) option \<Rightarrow> ('x engine, assignment list) io"
  ie_loads :: "string option \<Rightarrow> exn + dict"

text \<open>\<open>get_dbs_client\<close> and \<open>get_ks_client\<close>: the client of a region, which may have to be made.\<close>

definition with_client ::
  "'x identity_env \<Rightarrow> string \<Rightarrow> (string \<Rightarrow> ('x engine, 'a) io) \<Rightarrow> ('x engine, 'a) io" where
  "with_client I region f = seq (ie_os_client I region) (f region)"

definition master_region :: string where
  "master_region = ''RegionOne''"

definition sum_io :: "exn + 'a \<Rightarrow> ('s, 'a) io" where
  "sum_io r = (case r of Inl e \<Rightarrow> raise e | Inr x \<Rightarrow> ret x)"

definition ensure :: "bool \<Rightarrow> ('s, unit) io" where
  "ensure ok = (if ok then ret () else raise (Dcorch SyncRequestFailed))"

section \<open>JSON replies\<close>

text \<open>\<open>d.get(k)\<close> and \<open>d.pop(k, None)\<close> on what should be a dictionary.\<close>

definition jget :: "string \<Rightarrow> json \<Rightarrow> exn + json" where
  "jget k v = (case v of
     JObject d \<Rightarrow> Inr (case dict_get k d of None \<Rightarrow> JNull | Some x \<Rightarrow> x)
   | _ \<Rightarrow> Inl AttributeError)"

definition jpop :: "string \<Rightarrow> json \<Rightarrow> exn + json" where
  "jpop k v = (case v of JArray _ \<Rightarrow> Inl TypeError | _ \<Rightarrow> jget k v)"

text \<open>A text as the field of an object coerces it; None is refused.\<close>

fun string_field :: "json \<Rightarrow> string option" where
  "string_field (JText s) = Some s"
| "string_field (JNumber n) = Some (show_int n)"
| "string_field (JBoolean b) = Some (if b then ''True'' else ''False'')"
| "string_field _ = None"

definition persist_ref :: "ident_env \<Rightarrow> sync_thread \<Rightarrow> nat \<Rightarrow> json \<Rightarrow> ('x engine, string) io" where
  "persist_ref E th rsrc_id v =
     (case string_field v of
        Some i \<Rightarrow> persist_db_subcloud_resource E th rsrc_id i
      | None \<Rightarrow> bnd (get_db_subcloud_resource E th rsrc_id) (\<lambda>_. raise ValueError))"

section \<open>Users, groups, projects and roles\<close>

text \<open>The records of a resource of the system controller; a token that is refused there is told
  apart from one that the subcloud refuses.\<close>

definition of_master :: "('x engine, 'a) io \<Rightarrow> ('x engine, 'a) io" where
  "of_master m = try_catch m (\<lambda>e.
     if e = Dbsync DbsUnauthorized then raise (Dbsync DbsUnauthorizedMaster) else raise e)"

definition master_records :: "'x identity_env \<Rightarrow> id_kind \<Rightarrow> string \<Rightarrow> ('x engine, string) io" where
  "master_records I k i =
     bnd (of_master (with_client I master_region (\<lambda>r. ie_detail I k r i))) (\<lambda>records.
     seq (ensure (records \<noteq> [])) (ret records))"

text \<open>What dcdbsync replied: its id is recorded as that of the copy, and the name is logged.\<close>

definition record_reply ::
  "ident_env \<Rightarrow> sync_thread \<Rightarrow> id_kind \<Rightarrow> resource \<Rightarrow> json \<Rightarrow> ('x engine, unit) io" where
  "record_reply E th k rsrc reply =
     seq (ensure (truthy_json reply))
     (bnd (sum_io (jget (kind_key k) reply)) (\<lambda>part.
      bnd (sum_io (jget ''id'' part)) (\<lambda>ref_id.
      seq (persist_ref E th (rs_id rsrc) ref_id)
      (bnd (sum_io (jget (name_key k) reply)) (\<lambda>part.
       seq (sum_io (jget ''name'' part)) (ret ()))))))"

definition post_records ::
  "id_kind \<Rightarrow> ident_env \<Rightarrow> 'x identity_env \<Rightarrow> sync_thread \<Rightarrow> 'x handler" where
  "post_records k E I th r j rsrc =
     seq (ensure (oj_source_resource_id j \<noteq> []))
     (bnd (master_records I k (oj_source_resource_id j)) (\<lambda>records.
      bnd (with_client I (th_subcloud_name th) (\<lambda>sc. ie_add I k sc records))
        (record_reply E th k rsrc)))"

definition put_records ::
  "id_kind \<Rightarrow> ident_env \<Rightarrow> 'x identity_env \<Rightarrow> sync_thread \<Rightarrow> 'x handler" where
  "put_records k E I th r j rsrc =
     seq (ensure (oj_source_resource_id j \<noteq> []))
     (bnd (sum_io (ie_loads I (oj_resource_info j))) (\<lambda>info.
      bnd (sum_io (jpop ''id'' (case dict_get (kind_key k) info of Some d \<Rightarrow> d | None \<Rightarrow> JObject info)))
        (\<lambda>sc_id.
      seq (ensure (truthy_json sc_id))
      (bnd (master_records I k (oj_source_resource_id j)) (\<lambda>records.
       bnd (with_client I (th_subcloud_name th) (\<lambda>sc. ie_update I k sc sc_id records))
         (record_reply E th k rsrc))))))"

text \<open>A patch goes through the API of keystone: the fields it takes, each from its key.\<close>

fun patch_fields :: "id_kind \<Rightarrow> (string \<times> string) list" where
  "patch_fields Users = map (\<lambda>f. (f, f)) [''name'', ''domain'', ''project'', ''password'', ''email'',
     ''description'', ''enabled'', ''default_project'']"
| "patch_fields Groups = map (\<lambda>f. (f, f)) [''name'', ''domain'', ''description'']"
| "patch_fields Projects = [(''name'', ''name''), (''domain'', ''domain_id''),
     (''description'', ''description''), (''enabled'', ''enabled'')]"
| "patch_fields Roles = [(''name'', ''name'')]"

fun pop_fields :: "(string \<times> string) list \<Rightarrow> json \<Rightarrow> exn + (string \<times> json) list" where
  "pop_fields [] d = Inr []"
| "pop_fields ((f, k) # fs) d =
     (case jpop k d of
        Inl e \<Rightarrow> Inl e
      | Inr v \<Rightarrow> (case pop_fields fs d of Inl e \<Rightarrow> Inl e | Inr vs \<Rightarrow> Inr ((f, v) # vs)))"

definition patch_records ::
  "id_kind \<Rightarrow> ident_env \<Rightarrow> 'x identity_env \<Rightarrow> sync_thread \<Rightarrow> 'x handler" where
  "patch_records k E I th r j rsrc =
     bnd (sum_io (ie_loads I (oj_resource_info j))) (\<lambda>info.
     seq (ensure (info \<noteq> []))
     (bnd (sum_io (dict_at (kind_key k) info)) (\<lambda>fields.
      bnd (get_db_subcloud_resource E th (rs_id rsrc)) (\<lambda>copy. case copy of
        None \<Rightarrow> ret ()
      | Some c \<Rightarrow>
          with_client I (th_subcloud_name th) (\<lambda>sc.
            bnd (sum_io (pop_fields (patch_fields k) fields)) (\<lambda>args.
            seq (ks_update I k sc (sr_subcloud_resource_id c) args) (ret ())))))))"

text \<open>A deletion: a resource that is already gone counts as deleted.\<close>

definition delete_records ::
  "id_kind \<Rightarrow> ident_env \<Rightarrow> 'x identity_env \<Rightarrow> sync_thread \<Rightarrow> 'x handler" where
  "delete_records k E I th r j rsrc =
     bnd (get_db_subcloud_resource E th (rs_id rsrc)) (\<lambda>copy. case copy of
       None \<Rightarrow> ret ()
     | Some c \<Rightarrow>
         seq (try_catch (with_client I (th_subcloud_name th) (\<lambda>sc.
                ks_delete I k sc (sr_subcloud_resource_id c)))
              (\<lambda>e. if e = KsNotFound then ret () else raise e))
           (odo (subcloud_resource_delete admin_context (sr_id c))))"

definition post_users :: "ident_env \<Rightarrow> 'x identity_env \<Rightarrow> sync_thread \<Rightarrow> 'x handler" where
  "post_users = post_records Users"

definition put_users :: "ident_env \<Rightarrow> 'x identity_env \<Rightarrow> sync_thread \<Rightarrow> 'x handler" where
  "put_users = put_records Users"

definition patch_users :: "ident_env \<Rightarrow> 'x identity_env \<Rightarrow> sync_thread \<Rightarrow> 'x handler" where
  "patch_users = patch_records Users"

definition delete_users :: "ident_env \<Rightarrow> 'x identity_env \<Rightarrow> sync_thread \<Rightarrow> 'x handler" where
  "delete_users = delete_records Users"

definition post_groups :: "ident_env \<Rightarrow> 'x identity_env \<Rightarrow> sync_thread \<Rightarrow> 'x handler" where
  "post_groups = post_records Groups"

definition put_groups :: "ident_env \<Rightarrow> 'x identity_env \<Rightarrow> sync_thread \<Rightarrow> 'x handler" where
  "put_groups = put_records Groups"

definition patch_groups :: "ident_env \<Rightarrow> 'x identity_env \<Rightarrow> sync_thread \<Rightarrow> 'x handler" where
  "patch_groups = patch_records Groups"

definition delete_groups :: "ident_env \<Rightarrow> 'x identity_env \<Rightarrow> sync_thread \<Rightarrow> 'x handler" where
  "delete_groups = delete_records Groups"

definition post_projects :: "ident_env \<Rightarrow> 'x identity_env \<Rightarrow> sync_thread \<Rightarrow> 'x handler" where
  "post_projects = post_records Projects"

definition put_projects :: "ident_env \<Rightarrow> 'x identity_env \<Rightarrow> sync_thread \<Rightarrow> 'x handler" where
  "put_projects = put_records Projects"

definition patch_projects :: "ident_env \<Rightarrow> 'x identity_env \<Rightarrow> sync_thread \<Rightarrow> 'x handler" where
  "patch_projects = patch_records Projects"

definition delete_projects :: "ident_env \<Rightarrow> 'x identity_env \<Rightarrow> sync_thread \<Rightarrow> 'x handler" where
  "delete_projects = delete_records Projects"

definition post_roles :: "ident_env \<Rightarrow> 'x identity_env \<Rightarrow> sync_thread \<Rightarrow> 'x handler" where
  "post_roles = post_records Roles"

definition put_roles :: "ident_env \<Rightarrow> 'x identity_env \<Rightarrow> sync_thread \<Rightarrow> 'x handler" where
  "put_roles = put_records Roles"

definition patch_roles :: "ident_env \<Rightarrow> 'x identity_env \<Rightarrow> sync_thread \<Rightarrow> 'x handler" where
  "patch_roles = patch_records Roles"

definition delete_roles :: "ident_env \<Rightarrow> 'x identity_env \<Rightarrow> sync_thread \<Rightarrow> 'x handler" where
  "delete_roles = delete_records Roles"

section \<open>Role assignments\<close>

definition ids_of :: "ext_resource list \<Rightarrow> string list" where
  "ids_of rs = map xr_id rs"

text \<open>\<open>_get_all_users\<close> and \<open>_get_all_groups\<close>: those of every domain.\<close>

fun in_domains :: "'x identity_env \<Rightarrow> id_kind \<Rightarrow> string \<Rightarrow> string list \<Rightarrow> ('x engine, ext_resource list) io" where
  "in_domains I k region [] = ret []"
| "in_domains I k region (d # ds) =
     bnd (ks_in_domain I k region d) (\<lambda>here.
     bnd (in_domains I k region ds) (\<lambda>rest. ret (here @ rest)))"

definition get_all_users :: "'x identity_env \<Rightarrow> string \<Rightarrow> ('x engine, ext_resource list) io" where
  "get_all_users I region = bnd (ks_domains I region) (in_domains I Users region)"

definition get_all_groups :: "'x identity_env \<Rightarrow> string \<Rightarrow> ('x engine, ext_resource list) io" where
  "get_all_groups I region = bnd (ks_domains I region) (in_domains I Groups region)"

text \<open>The id of an assignment: those of the project, the user or group, and the role.\<close>

definition assignment_id :: "string \<Rightarrow> string \<Rightarrow> string \<Rightarrow> string" where
  "assignment_id project_id actor_id role_id = project_id @ ''_'' @ actor_id @ ''_'' @ role_id"

definition assignment_tags :: "string \<Rightarrow> (string \<times> string \<times> string) option" where
  "assignment_tags i = (case split_at (CHR ''_'') i [] of p # a # r # _ \<Rightarrow> Some (p, a, r) | _ \<Rightarrow> None)"

definition post_project_role_assignments ::
  "ident_env \<Rightarrow> 'x identity_env \<Rightarrow> sync_thread \<Rightarrow> 'x handler" where
  "post_project_role_assignments E I th r j rsrc =
     (case assignment_tags (rs_master_id rsrc) of
        None \<Rightarrow> raise (Dcorch SyncRequestFailed)
      | Some (project_id, actor_id, role_id) \<Rightarrow>
          with_client I (th_subcloud_name th) (\<lambda>sc.
          bnd (ks_list I Roles sc) (\<lambda>roles.
          seq (ensure (role_id \<in> set (ids_of roles)))
          (bnd (ks_list I Projects sc) (\<lambda>projects.
           seq (ensure (project_id \<in> set (ids_of projects)))
           (bnd (get_all_users I sc) (\<lambda>users.
            bnd (get_all_groups I sc) (\<lambda>groups.
            if actor_id \<in> set (ids_of users) \<or> actor_id \<in> set (ids_of groups) then
              (let who = (if actor_id \<in> set (ids_of users) then UserActor actor_id
                          else GroupActor actor_id)
               in seq (ks_grant I sc role_id who project_id)
                  (bnd (ks_assignments I sc (Some (who, project_id, role_id))) (\<lambda>granted.
                   seq (ensure (granted \<noteq> []))
                   (seq (persist_db_subcloud_resource E th (rs_id rsrc)
                           (assignment_id project_id actor_id role_id)) (ret ())))))
            else raise (Dcorch SyncRequestFailed)))))))))"

definition put_project_role_assignments ::
  "ident_env \<Rightarrow> 'x identity_env \<Rightarrow> sync_thread \<Rightarrow> 'x handler" where
  "put_project_role_assignments E I th r j rsrc = ret ()"

text \<open>The revocation: of a user, and of a group when there is no such assignment of a user.\<close>

definition revoke_assignment ::
  "'x identity_env \<Rightarrow> string \<Rightarrow> string \<Rightarrow> string \<Rightarrow> string \<Rightarrow> ('x engine, actor option) io" where
  "revoke_assignment I region project_id actor_id role_id =
     (let revoke = (\<lambda>who. with_client I region (\<lambda>sc.
            seq (ks_revoke I sc role_id who project_id) (ret (Some who))));
          missing = (\<lambda>k e. if e = KsNotFound then k else raise e)
      in try_catch (revoke (UserActor actor_id))
           (missing (try_catch (revoke (GroupActor actor_id)) (missing (ret None)))))"

definition delete_project_role_assignments ::
  "ident_env \<Rightarrow> 'x identity_env \<Rightarrow> sync_thread \<Rightarrow> 'x handler" where
  "delete_project_role_assignments E I th r j rsrc =
     bnd (get_db_subcloud_resource E th (rs_id rsrc)) (\<lambda>copy. case copy of
       None \<Rightarrow> ret ()
     | Some c \<Rightarrow>
         (let remove = odo (subcloud_resource_delete admin_context (sr_id c))
          in case assignment_tags (sr_subcloud_resource_id c) of
               None \<Rightarrow> remove
             | Some (project_id, actor_id, role_id) \<Rightarrow>
                 bnd (revoke_assignment I (th_subcloud_name th) project_id actor_id role_id) (\<lambda>who.
                 bnd (case who of
                        None \<Rightarrow> ret []
                      | Some w \<Rightarrow> ks_assignments I (th_subcloud_name th) (Some (w, project_id, role_id)))
                   (\<lambda>left. seq (ensure (left = [])) remove))))"

section \<open>Revocations of tokens\<close>

text \<open>The records of a revocation are copied; what is recorded is the audit id that dcdbsync
  replied, or the id of the request for a revocation of a user.\<close>

definition copy_event ::
  "'x identity_env \<Rightarrow> sync_thread \<Rightarrow> event_ref \<Rightarrow> ('x engine, json) io" where
  "copy_event I th ref =
     bnd (of_master (with_client I master_region (\<lambda>m. ie_event_detail I m ref))) (\<lambda>records.
     seq (ensure (records \<noteq> []))
     (bnd (with_client I (th_subcloud_name th) (\<lambda>sc. ie_event_add I sc records)) (\<lambda>reply.
      seq (ensure (truthy_json reply)) (ret reply))))"

definition post_revoke_events :: "ident_env \<Rightarrow> 'x identity_env \<Rightarrow> sync_thread \<Rightarrow> 'x handler" where
  "post_revoke_events E I th r j rsrc =
     bnd (sum_io (ie_loads I (oj_resource_info j))) (\<lambda>info.
     bnd (sum_io (jpop ''audit_id''
            (case dict_get ''token_revoke_event'' info of Some d \<Rightarrow> d | None \<Rightarrow> JObject info))) (\<lambda>audit_id.
     seq (ensure (truthy_json audit_id))
     (bnd (copy_event I th (AuditId audit_id)) (\<lambda>reply.
      bnd (sum_io (jget ''revocation_event'' reply)) (\<lambda>part.
      bnd (sum_io (jget ''audit_id'' part)) (\<lambda>ref_id.
      seq (persist_ref E th (rs_id rsrc) ref_id) (ret ())))))))"

definition post_revoke_events_for_user ::
  "ident_env \<Rightarrow> 'x identity_env \<Rightarrow> sync_thread \<Rightarrow> 'x handler" where
  "post_revoke_events_for_user E I th r j rsrc =
     seq (ensure (oj_source_resource_id j \<noteq> []))
     (seq (copy_event I th (UserId (oj_source_resource_id j)))
     (seq (persist_db_subcloud_resource E th (rs_id rsrc) (oj_source_resource_id j)) (ret ())))"

definition delete_event ::
  "(string \<Rightarrow> event_ref) \<Rightarrow> ident_env \<Rightarrow> 'x identity_env \<Rightarrow> sync_thread \<Rightarrow> 'x handler" where
  "delete_event ref E I th r j rsrc =
     bnd (get_db_subcloud_resource E th (rs_id rsrc)) (\<lambda>copy. case copy of
       None \<Rightarrow> ret ()
     | Some c \<Rightarrow>
         seq (try_catch (with_client I (th_subcloud_name th) (\<lambda>sc.
                ie_event_delete I sc (ref (sr_subcloud_resource_id c))))
              (\<lambda>e. if e = Dbsync DbsNotFound then ret () else raise e))
           (odo (subcloud_resource_delete admin_context (sr_id c))))"

definition delete_revoke_events :: "ident_env \<Rightarrow> 'x identity_env \<Rightarrow> sync_thread \<Rightarrow> 'x handler" where
  "delete_revoke_events = delete_event (\<lambda>i. AuditId (JText i))"

definition delete_revoke_events_for_user ::
  "ident_env \<Rightarrow> 'x identity_env \<Rightarrow> sync_thread \<Rightarrow> 'x handler" where
  "delete_revoke_events_for_user = delete_event UserId"

section \<open>The handler of every identity resource\<close>

text \<open>\<open>getattr(self, operation + '_' + type)\<close>.\<close>

definition identity_handler ::
  "operation_type \<Rightarrow> string \<Rightarrow> (ident_env \<Rightarrow> 'x identity_env \<Rightarrow> sync_thread \<Rightarrow> 'x handler) option" where
  "identity_handler op resource_type =
     map_of
       [((OPERATION_TYPE_POST, ''users''), post_users), ((OPERATION_TYPE_PUT, ''users''), put_users),
        ((OPERATION_TYPE_PATCH, ''users''), patch_users), ((OPERATION_TYPE_DELETE, ''users''), delete_users),
        ((OPERATION_TYPE_POST, ''groups''), post_groups), ((OPERATION_TYPE_PUT, ''groups''), put_groups),
        ((OPERATION_TYPE_PATCH, ''groups''), patch_groups), ((OPERATION_TYPE_DELETE, ''groups''), delete_groups),
        ((OPERATION_TYPE_POST, ''projects''), post_projects), ((OPERATION_TYPE_PUT, ''projects''), put_projects),
        ((OPERATION_TYPE_PATCH, ''projects''), patch_projects),
        ((OPERATION_TYPE_DELETE, ''projects''), delete_projects),
        ((OPERATION_TYPE_POST, ''roles''), post_roles), ((OPERATION_TYPE_PUT, ''roles''), put_roles),
        ((OPERATION_TYPE_PATCH, ''roles''), patch_roles), ((OPERATION_TYPE_DELETE, ''roles''), delete_roles),
        ((OPERATION_TYPE_POST, ''project_role_assignments''), post_project_role_assignments),
        ((OPERATION_TYPE_PUT, ''project_role_assignments''), put_project_role_assignments),
        ((OPERATION_TYPE_DELETE, ''project_role_assignments''), delete_project_role_assignments),
        ((OPERATION_TYPE_POST, ''revoke_events''), post_revoke_events),
        ((OPERATION_TYPE_DELETE, ''revoke_events''), delete_revoke_events),
        ((OPERATION_TYPE_POST, ''revoke_events_for_user''), post_revoke_events_for_user),
        ((OPERATION_TYPE_DELETE, ''revoke_events_for_user''), delete_revoke_events_for_user)]
       (if op = OPERATION_TYPE_CREATE then OPERATION_TYPE_POST else op, resource_type)"

definition not_reachable :: "exn set" where
  "not_reachable = {ConnectTimeout, ConnectFailure, Dbsync DbsConnectTimeout, Dbsync DbsConnectFailure}"

definition sync_identity_resource ::
  "ident_env \<Rightarrow> 'x identity_env \<Rightarrow> sync_thread \<Rightarrow> 'x handler" where
  "sync_identity_resource E I th r j rsrc =
     try_catch
       (case identity_handler (oj_operation_type j) (rs_resource_type rsrc) of
          None \<Rightarrow> raise AttributeError
        | Some h \<Rightarrow> h E I th r j rsrc)
       (\<lambda>e. if e = AttributeError then raise (Dcorch SyncRequestFailed)
         else if e \<in> not_reachable then raise (Dcorch SyncRequestTimeout)
         else if e \<in> {Dbsync DbsUnauthorized, KsUnauthorized, Dbsync DbsUnauthorizedMaster}
           then raise (Dcorch SyncRequestFailedRetry)
         else if e = Dcorch SyncRequestFailed then raise e
         else if is_Exception e then raise (Dcorch SyncRequestFailedRetry)
         else raise e)"

section \<open>The resources the audit compares\<close>

text \<open>The names that are never synchronised.\<close>

definition filtered_audit_resources :: "sync_thread \<Rightarrow> id_kind \<Rightarrow> string list" where
  "filtered_audit_resources th k =
     (case k of
        Users \<Rightarrow> [''dcdbsync'', ''dcorch'', ''heat_admin'', ''smapi'', ''fm'', ''cinder'' @ th_subcloud_name th]
      | Roles \<Rightarrow> [''heat_stack_owner'', ''heat_stack_user'', ''ResellerAdmin'']
      | Projects \<Rightarrow> []
      | Groups \<Rightarrow> [])"

definition not_filtered :: "sync_thread \<Rightarrow> id_kind \<Rightarrow> string \<Rightarrow> ext_resource list \<Rightarrow> ext_resource list" where
  "not_filtered th k name xs =
     filter (\<lambda>x. \<forall>f \<in> set (filtered_audit_resources th k). attr x name \<noteq> Some f) xs"

text \<open>None forces the audit to be skipped.\<close>

definition none_if_unreachable :: "('x engine, 'a) io \<Rightarrow> ('x engine, 'a option) io" where
  "none_if_unreachable m = try_catch (bnd m (\<lambda>x. ret (Some x)))
     (\<lambda>e. if e \<in> not_reachable then ret None else raise e)"

text \<open>A client: the managers of dcdbsync, or keystone.\<close>

datatype id_client = DbsClient string | KsClient string

definition get_users_resource ::
  "'x identity_env \<Rightarrow> sync_thread \<Rightarrow> id_client \<Rightarrow> ('x engine, ext_resource list option) io" where
  "get_users_resource I th c = none_if_unreachable (case c of
     DbsClient region \<Rightarrow> bnd (ie_list I Users region) (\<lambda>xs. ret (not_filtered th Users ''local_user.name'' xs))
   | KsClient region \<Rightarrow> bnd (get_all_users I region) (\<lambda>xs. ret (not_filtered th Users ''name'' xs)))"

definition get_groups_resource ::
  "'x identity_env \<Rightarrow> sync_thread \<Rightarrow> id_client \<Rightarrow> ('x engine, ext_resource list option) io" where
  "get_groups_resource I th c = none_if_unreachable
     (bnd (case c of DbsClient region \<Rightarrow> ie_list I Groups region | KsClient region \<Rightarrow> ks_list I Groups region)
        (\<lambda>xs. ret (not_filtered th Groups ''name'' xs)))"

definition get_roles_resource ::
  "'x identity_env \<Rightarrow> sync_thread \<Rightarrow> id_client \<Rightarrow> ('x engine, ext_resource list option) io" where
  "get_roles_resource I th c = none_if_unreachable
     (bnd (case c of DbsClient region \<Rightarrow> ie_list I Roles region | KsClient region \<Rightarrow> ks_list I Roles region)
        (\<lambda>xs. ret (not_filtered th Roles ''name'' xs)))"

definition get_projects_resource ::
  "'x identity_env \<Rightarrow> sync_thread \<Rightarrow> id_client \<Rightarrow> ('x engine, ext_resource list option) io" where
  "get_projects_resource I th c = none_if_unreachable
     (bnd (case c of DbsClient region \<Rightarrow> ie_list I Projects region | KsClient region \<Rightarrow> ks_list I Projects region)
        (\<lambda>xs. ret (not_filtered th Projects ''name'' xs)))"

text \<open>An assignment with the names of what it refers to; None for one that is skipped. A list that
  could not be read is None, and walking through it raises.\<close>

definition find_id :: "string \<Rightarrow> ext_resource list option \<Rightarrow> exn + ext_resource option" where
  "find_id i xs = (case xs of None \<Rightarrow> Inl TypeError | Some l \<Rightarrow> Inr (find (\<lambda>x. xr_id x = i) l))"

definition name_and_domain :: "string \<Rightarrow> ext_resource \<Rightarrow> attrs" where
  "name_and_domain p x = [(p @ ''.name'', attr x ''name''), (p @ ''.domain_id'', attr x ''domain_id'')]"

fun actor_id :: "actor \<Rightarrow> string" where
  "actor_id (UserActor i) = i"
| "actor_id (GroupActor i) = i"

definition refactor_assignment ::
  "ext_resource list option \<Rightarrow> ext_resource list option \<Rightarrow> ext_resource list option \<Rightarrow>
   ext_resource list option \<Rightarrow> assignment \<Rightarrow> ('s, ext_resource option) io" where
  "refactor_assignment roles projects users groups a =
     (case as_project a of
        None \<Rightarrow> ret None
      | Some project_id \<Rightarrow>
          (let who = actor_id (as_actor a)
           in bnd (sum_io (find_id who users)) (\<lambda>user.
              bnd (case user of Some u \<Rightarrow> ret (Some u) | None \<Rightarrow> sum_io (find_id who groups)) (\<lambda>found.
              case found of None \<Rightarrow> ret None
              | Some act \<Rightarrow>
              bnd (sum_io (find_id (as_role a) roles)) (\<lambda>role. case role of None \<Rightarrow> ret None
              | Some rl \<Rightarrow>
              bnd (sum_io (find_id project_id projects)) (\<lambda>project. case project of None \<Rightarrow> ret None
              | Some pr \<Rightarrow>
                  ret (Some \<lparr>xr_id = assignment_id project_id who (as_role a),
                    xr_attrs = name_and_domain ''actor'' act @ name_and_domain ''role'' rl @
                      name_and_domain ''project'' pr,
                    xr_lists = [], xr_number = None\<rparr>)))))))"

fun refactor_assignments ::
  "ext_resource list option \<Rightarrow> ext_resource list option \<Rightarrow> ext_resource list option \<Rightarrow>
   ext_resource list option \<Rightarrow> assignment list \<Rightarrow> ('s, ext_resource list) io" where
  "refactor_assignments roles projects users groups [] = ret []"
| "refactor_assignments roles projects users groups (a # as) =
     bnd (refactor_assignment roles projects users groups a) (\<lambda>x.
     bnd (refactor_assignments roles projects users groups as) (\<lambda>xs.
     ret (case x of None \<Rightarrow> xs | Some y \<Rightarrow> y # xs)))"

definition get_assignments_resource ::
  "'x identity_env \<Rightarrow> sync_thread \<Rightarrow> string \<Rightarrow> ('x engine, ext_resource list option) io" where
  "get_assignments_resource I th region = none_if_unreachable
     (bnd (ks_assignments I region None) (\<lambda>assignments.
      bnd (get_roles_resource I th (KsClient region)) (\<lambda>roles.
      bnd (get_projects_resource I th (KsClient region)) (\<lambda>projects.
      bnd (get_users_resource I th (KsClient region)) (\<lambda>users.
      bnd (get_groups_resource I th (KsClient region)) (\<lambda>groups.
      refactor_assignments roles projects users groups assignments))))))"

definition get_revoke_events_resource ::
  "'x identity_env \<Rightarrow> string \<Rightarrow> ('x engine, ext_resource list option) io" where
  "get_revoke_events_resource I region = none_if_unreachable
     (bnd (ie_event_list I region) (\<lambda>xs. ret (filter (\<lambda>x. attr x ''audit_id'' \<noteq> None) xs)))"

definition get_revoke_events_for_user_resource ::
  "'x identity_env \<Rightarrow> string \<Rightarrow> ('x engine, ext_resource list option) io" where
  "get_revoke_events_for_user_resource I region = none_if_unreachable
     (bnd (ie_event_list I region) (\<lambda>xs. ret (filter (\<lambda>x. attr x ''user_id'' \<noteq> None) xs)))"

definition is_resource_handled_by_dbs_client :: "string \<Rightarrow> bool" where
  "is_resource_handled_by_dbs_client resource_type \<longleftrightarrow> resource_type \<in>
     {''users'', ''groups'', ''projects'', ''roles'', ''revoke_events'', ''revoke_events_for_user''}"

definition get_resource_audit_handler ::
  "'x identity_env \<Rightarrow> sync_thread \<Rightarrow> string \<Rightarrow> string \<Rightarrow> ('x engine, ext_resource list option) io" where
  "get_resource_audit_handler I th resource_type region =
     (if resource_type = ''users'' then get_users_resource I th (DbsClient region)
      else if resource_type = ''groups'' then get_groups_resource I th (DbsClient region)
      else if resource_type = ''roles'' then get_roles_resource I th (DbsClient region)
      else if resource_type = ''projects'' then get_projects_resource I th (DbsClient region)
      else if resource_type = ''project_role_assignments'' then get_assignments_resource I th region
      else if resource_type = ''revoke_events'' then get_revoke_events_resource I region
      else if resource_type = ''revoke_events_for_user'' then get_revoke_events_for_user_resource I region
      else ret None)"

text \<open>The resources of a region, with one more try when the token was refused. An exception of the
  second try is not caught.\<close>

definition region_identity_resources ::
  "'x identity_env \<Rightarrow> sync_thread \<Rightarrow> string \<Rightarrow> string \<Rightarrow> ('x engine, ext_resource list option) io" where
  "region_identity_resources I th region resource_type =
     (let fetch = with_client I region (get_resource_audit_handler I th resource_type);
          refused = (if is_resource_handled_by_dbs_client resource_type then Dbsync DbsUnauthorized
                     else KsUnauthorized)
      in try_catch fetch (\<lambda>e.
           if e = refused then seq (ie_delete_region_clients I region) fetch
           else if is_Exception e then ret None
           else raise e))"

definition identity_get_master_resources ::
  "'x identity_env \<Rightarrow> sync_thread \<Rightarrow> string \<Rightarrow> ('x engine, ext_resource list option) io" where
  "identity_get_master_resources I th = region_identity_resources I th master_region"

definition identity_get_subcloud_resources ::
  "'x identity_env \<Rightarrow> sync_thread \<Rightarrow> string \<Rightarrow> ('x engine, ext_resource list option) io" where
  "identity_get_subcloud_resources I th = region_identity_resources I th (th_subcloud_name th)"

section \<open>Sameness\<close>

definition same_attrs :: "string list \<Rightarrow> ext_resource \<Rightarrow> ext_resource \<Rightarrow> bool" where
  "same_attrs ks m sc \<longleftrightarrow> list_all (\<lambda>k. attr m k = attr sc k) ks"

definition elements :: "ext_resource \<Rightarrow> string \<Rightarrow> string list" where
  "elements x k = (case map_of (xr_lists x) k of None \<Rightarrow> [] | Some l \<Rightarrow> l)"

text \<open>The passwords are compared by their hashes, without regard to order.\<close>

definition same_identity_user_resource :: "ext_resource \<Rightarrow> ext_resource \<Rightarrow> bool" where
  "same_identity_user_resource m sc \<longleftrightarrow>
     xr_id m = xr_id sc \<and>
     same_attrs [''domain_id'', ''default_project_id'', ''enabled'', ''created_at'', ''last_active_at'', ''extra''] m sc \<and>
     same_attrs [''local_user.domain_id'', ''local_user.name'', ''local_user.user_id''] m sc \<and>
     (let ms = elements m ''local_user.passwords''; scs = elements sc ''local_user.passwords''
      in length ms = length scs \<and> list_all (\<lambda>h. h \<in> set scs) ms)"

definition same_identity_group_resource :: "ext_resource \<Rightarrow> ext_resource \<Rightarrow> bool" where
  "same_identity_group_resource m sc \<longleftrightarrow>
     xr_id m = xr_id sc \<and> same_attrs [''domain_id'', ''description'', ''name'', ''extra''] m sc \<and>
     elements m ''local_user_ids'' = elements sc ''local_user_ids''"

definition same_project_resource :: "ext_resource \<Rightarrow> ext_resource \<Rightarrow> bool" where
  "same_project_resource m sc \<longleftrightarrow>
     xr_id m = xr_id sc \<and>
     same_attrs [''domain_id'', ''name'', ''extra'', ''description'', ''enabled'', ''parent_id'', ''is_domain''] m sc"

definition same_role_resource :: "ext_resource \<Rightarrow> ext_resource \<Rightarrow> bool" where
  "same_role_resource m sc \<longleftrightarrow>
     xr_id m = xr_id sc \<and> same_attrs [''domain_id'', ''name'', ''description'', ''extra''] m sc"

definition same_assignment_resource :: "ext_resource \<Rightarrow> ext_resource \<Rightarrow> bool" where
  "same_assignment_resource m sc \<longleftrightarrow>
     same_attrs [''actor.name'', ''actor.domain_id'', ''role.name'', ''role.domain_id'',
       ''project.name'', ''project.domain_id''] m sc"

definition same_revoke_event_resource :: "ext_resource \<Rightarrow> ext_resource \<Rightarrow> bool" where
  "same_revoke_event_resource m sc \<longleftrightarrow>
     same_attrs [''domain_id'', ''project_id'', ''user_id'', ''role_id'', ''trust_id'', ''consumer_id'',
       ''access_token_id'', ''issued_before'', ''expires_at'', ''revoked_at'', ''audit_id'', ''audit_chain_id''] m sc"

definition has_same_identity_user_ids :: "ext_resource \<Rightarrow> ext_resource \<Rightarrow> bool" where
  "has_same_identity_user_ids m sc \<longleftrightarrow>
     same_attrs [''local_user.name'', ''domain_id''] m sc \<or> xr_id m = xr_id sc"

text \<open>The same for groups, projects and roles.\<close>

definition has_same_identity_group_ids :: "ext_resource \<Rightarrow> ext_resource \<Rightarrow> bool" where
  "has_same_identity_group_ids m sc \<longleftrightarrow> same_attrs [''name'', ''domain_id''] m sc \<or> xr_id m = xr_id sc"

definition has_same_project_ids :: "ext_resource \<Rightarrow> ext_resource \<Rightarrow> bool" where
  "has_same_project_ids m sc \<longleftrightarrow> same_attrs [''name'', ''domain_id''] m sc \<or> xr_id m = xr_id sc"

definition has_same_role_ids :: "ext_resource \<Rightarrow> ext_resource \<Rightarrow> bool" where
  "has_same_role_ids m sc \<longleftrightarrow> same_attrs [''name'', ''domain_id''] m sc \<or> xr_id m = xr_id sc"

text \<open>A comparison of resources of any other type gives None, which is false.\<close>

definition identity_same_resource :: "string \<Rightarrow> ext_resource \<Rightarrow> ext_resource \<Rightarrow> bool" where
  "identity_same_resource t m sc =
     (if t = ''users'' then same_identity_user_resource m sc
      else if t = ''groups'' then same_identity_group_resource m sc
      else if t = ''projects'' then same_project_resource m sc
      else if t = ''roles'' then same_role_resource m sc
      else if t = ''project_role_assignments'' then same_assignment_resource m sc
      else (t = ''revoke_events'' \<or> t = ''revoke_events_for_user'') \<and> same_revoke_event_resource m sc)"

definition has_same_ids :: "string \<Rightarrow> ext_resource \<Rightarrow> ext_resource \<Rightarrow> bool" where
  "has_same_ids t m sc =
     (if t = ''users'' then has_same_identity_user_ids m sc
      else if t = ''groups'' then has_same_identity_group_ids m sc
      else if t = ''projects'' then has_same_project_ids m sc
      else if t = ''roles'' then has_same_role_ids m sc
      else if t = ''project_role_assignments'' then xr_id m = xr_id sc
      else (t = ''revoke_events'' \<or> t = ''revoke_events_for_user'') \<and> same_revoke_event_resource m sc)"

section \<open>What the class gives the audit\<close>

definition opt_json :: "string option \<Rightarrow> json" where
  "opt_json v = (case v of None \<Rightarrow> JNull | Some s \<Rightarrow> JText s)"

text \<open>An id, which is a number for a revocation.\<close>

definition json_id :: "ext_resource \<Rightarrow> json" where
  "json_id x = (case xr_number x of Some n \<Rightarrow> JNumber n | None \<Rightarrow> JText (xr_id x))"

text \<open>The methods \<open>info()\<close> of the client's resources: what a request to create or update them
  carries.\<close>

definition identity_info :: "string \<Rightarrow> ext_resource \<Rightarrow> json" where
  "identity_info t x =
     (let named = (\<lambda>key nm. JObject [(key, JObject [(''name'', opt_json (attr x nm)), (''id'', json_id x),
            (''domain_id'', opt_json (attr x ''domain_id''))])])
      in if t = ''users'' then named ''user'' ''local_user.name''
         else if t = ''groups'' then named ''group'' ''name''
         else if t = ''projects'' then named ''project'' ''name''
         else if t = ''roles'' then named ''role'' ''name''
         else JObject [(''token_revoke_event'', JObject ((''id'', json_id x) #
           map (\<lambda>k. (k, opt_json (attr x k))) [''project_id'', ''user_id'', ''role_id'', ''audit_id'', ''issued_before'']))])"

text \<open>The \<open>else\<close> branch calls the method of the base class without returning its result.\<close>

definition identity_get_resource_info ::
  "string \<Rightarrow> audited \<Rightarrow> operation_type \<Rightarrow> ('x engine, string option) io" where
  "identity_get_resource_info resource_type a op =
     (if op \<in> {OPERATION_TYPE_CREATE, OPERATION_TYPE_POST, OPERATION_TYPE_PUT} \<and>
         resource_type \<noteq> ''project_role_assignments'' then
        (case a of
           FromDb _ \<Rightarrow> raise AttributeError
         | FromCloud x \<Rightarrow> ret (Some (json_dumps (identity_info resource_type x))))
      else ret None)"

text \<open>The id of a revocation for a user is encoded with \<open>base64.urlsafe_b64encode\<close>, which takes bytes
  and raises \<open>TypeError\<close> on the text it is given.\<close>

definition identity_get_resource_id :: "string \<Rightarrow> audited \<Rightarrow> ('x engine, string) io" where
  "identity_get_resource_id resource_type a =
     (case a of
        FromDb r \<Rightarrow> ret (rs_master_id r)
      | FromCloud x \<Rightarrow>
          if resource_type = ''revoke_events'' \<and> truthy_str (attr x ''audit_id'')
          then ret (the (attr x ''audit_id''))
          else if resource_type = ''revoke_events_for_user'' \<and> truthy_str (attr x ''user_id'') \<and>
                  truthy_str (attr x ''issued_before'')
          then raise TypeError
          else ret (xr_id x))"

text \<open>A resource of the subcloud that differs is updated; one that is not there is missing.\<close>

definition identity_audit_discrepancy ::
  "ident_env \<Rightarrow> sync_thread \<Rightarrow> string \<Rightarrow> ext_resource \<Rightarrow> ext_resource list \<Rightarrow> ('x engine, bool) io" where
  "identity_audit_discrepancy E th resource_type m_r sc_resources =
     (case find (has_same_ids resource_type m_r) sc_resources of
        None \<Rightarrow> ret True
      | Some sc_r \<Rightarrow>
          bnd (identity_get_resource_id resource_type (FromCloud m_r)) (\<lambda>i.
          bnd (identity_get_resource_info resource_type (FromCloud sc_r) OPERATION_TYPE_PUT) (\<lambda>info.
          seq (schedule_work E th (th_endpoint_type th) resource_type i OPERATION_TYPE_PUT info)
            (ret False))))"

text \<open>A resource that exists in both clouds already is recorded as a copy, with a row of its own when
  there is none.\<close>

definition identity_map_subcloud_resource ::
  "ident_env \<Rightarrow> sync_thread \<Rightarrow> string \<Rightarrow> ext_resource \<Rightarrow> resource option \<Rightarrow> ext_resource list \<Rightarrow>
   ('x engine, bool) io" where
  "identity_map_subcloud_resource E th resource_type m_r row sc_resources =
     (case find (has_same_ids resource_type m_r) sc_resources of
        None \<Rightarrow> ret False
      | Some sc_r \<Rightarrow>
          bnd (case row of
                 Some r \<Rightarrow> ret r
               | None \<Rightarrow> bnd (identity_get_resource_id resource_type (FromCloud m_r)) (\<lambda>i.
                   odo (resource_create E admin_context resource_type None i))) (\<lambda>r.
          bnd (identity_get_resource_id resource_type (FromCloud sc_r)) (\<lambda>i.
          seq (persist_db_subcloud_resource E th (rs_id r) i) (ret True))))"

text \<open>A number is not equal to any text.\<close>

definition identity_resource_exists_in_subcloud ::
  "subcloud_resource \<Rightarrow> ext_resource list \<Rightarrow> ('x engine, bool) io" where
  "identity_resource_exists_in_subcloud c sc_resources =
     ret (list_ex (\<lambda>x. JText (sr_subcloud_resource_id c) = json_id x) sc_resources)"

section \<open>The initial synchronisation\<close>

text \<open>Same name and domain but another id, or one of the users whose ids are forced at deployment.\<close>

definition initial_users_differ :: "ext_resource \<Rightarrow> ext_resource \<Rightarrow> bool" where
  "initial_users_differ m sc \<longleftrightarrow>
     attr m ''local_user.name'' = attr sc ''local_user.name'' \<and> attr m ''domain_id'' = attr sc ''domain_id'' \<and>
     (xr_id m \<noteq> xr_id sc \<or>
      attr sc ''local_user.name'' \<in> {Some ''admin'', Some ''sysinv'', Some ''dcmanager''})"

definition initial_named_differ :: "ext_resource \<Rightarrow> ext_resource \<Rightarrow> bool" where
  "initial_named_differ m sc \<longleftrightarrow>
     attr m ''name'' = attr sc ''name'' \<and> attr m ''domain_id'' = attr sc ''domain_id'' \<and> xr_id m \<noteq> xr_id sc"

text \<open>The rows of the system controller are pushed down; a token that was refused is renewed once.\<close>

definition initial_push ::
  "'x identity_env \<Rightarrow> sync_thread \<Rightarrow> id_kind \<Rightarrow> ext_resource \<Rightarrow> ext_resource \<Rightarrow> ('x engine, unit) io" where
  "initial_push I th k m sc =
     bnd (ie_detail I k master_region (xr_id m)) (\<lambda>records.
     seq (ensure (records \<noteq> []))
     (let push = ie_update I k (th_subcloud_name th) (JText (xr_id sc)) records
      in bnd (try_catch push (\<lambda>e.
           if e = Dbsync DbsUnauthorized then
             seq (ie_delete_region_clients I (th_subcloud_name th))
               (with_client I (th_subcloud_name th) (\<lambda>_. push))
           else raise e)) (\<lambda>reply. ensure (truthy_json reply))))"

definition initial_pairs ::
  "'x identity_env \<Rightarrow> sync_thread \<Rightarrow> id_kind \<Rightarrow> (ext_resource \<Rightarrow> ext_resource \<Rightarrow> bool) \<Rightarrow>
   ext_resource list \<Rightarrow> ext_resource list \<Rightarrow> ('x engine, unit) io" where
  "initial_pairs I th k differ ms scs =
     seq (ie_os_client I master_region)
     (seq (ie_os_client I (th_subcloud_name th))
       (for_each (\<lambda>m. for_each (\<lambda>sc. if differ m sc then initial_push I th k m sc else ret ()) scs) ms))"

definition initial_sync_users ::
  "'x identity_env \<Rightarrow> sync_thread \<Rightarrow> ext_resource list \<Rightarrow> ext_resource list \<Rightarrow> ('x engine, unit) io" where
  "initial_sync_users I th = initial_pairs I th Users initial_users_differ"

definition initial_sync_groups ::
  "'x identity_env \<Rightarrow> sync_thread \<Rightarrow> ext_resource list \<Rightarrow> ext_resource list \<Rightarrow> ('x engine, unit) io" where
  "initial_sync_groups I th = initial_pairs I th Groups initial_named_differ"

definition initial_sync_projects ::
  "'x identity_env \<Rightarrow> sync_thread \<Rightarrow> ext_resource list \<Rightarrow> ext_resource list \<Rightarrow> ('x engine, unit) io" where
  "initial_sync_projects I th = initial_pairs I th Projects initial_named_differ"

definition initial_sync_roles ::
  "'x identity_env \<Rightarrow> sync_thread \<Rightarrow> ext_resource list \<Rightarrow> ext_resource list \<Rightarrow> ('x engine, unit) io" where
  "initial_sync_roles I th = initial_pairs I th Roles initial_named_differ"

text \<open>A list that is None or empty is refused.\<close>

definition some_resources :: "('x engine, ext_resource list option) io \<Rightarrow> ('x engine, ext_resource list) io" where
  "some_resources m = bnd m (\<lambda>r. case r of
     None \<Rightarrow> raise (Dcorch SyncRequestFailed)
   | Some xs \<Rightarrow> seq (ensure (xs \<noteq> [])) (ret xs))"

definition identity_initial_sync ::
  "'x identity_env \<Rightarrow> sync_thread \<Rightarrow> ('x engine, bool) io" where
  "identity_initial_sync I th =
     (let master = identity_get_master_resources I th; there = identity_get_subcloud_resources I th
      in bnd (some_resources (master ''users'')) (\<lambda>m_users.
         bnd (some_resources (there ''users'')) (\<lambda>sc_users.
         seq (initial_sync_users I th m_users sc_users)
         (bnd (master ''groups'') (\<lambda>m_groups.
          bnd (there ''groups'') (\<lambda>sc_groups.
          seq (case (m_groups, sc_groups) of
                 (Some ms, Some scs) \<Rightarrow> if ms \<noteq> [] \<and> scs \<noteq> [] then initial_sync_groups I th ms scs else ret ()
               | _ \<Rightarrow> ret ())
          (bnd (some_resources (master ''projects'')) (\<lambda>m_projects.
           bnd (some_resources (there ''projects'')) (\<lambda>sc_projects.
           seq (initial_sync_projects I th m_projects sc_projects)
           (bnd (some_resources (master ''roles'')) (\<lambda>m_roles.
            bnd (some_resources (there ''roles'')) (\<lambda>sc_roles.
            seq (initial_sync_roles I th m_roles sc_roles) (ret True)))))))))))))"

section \<open>The class\<close>

definition identity_handlers ::
  "ident_env \<Rightarrow> 'x identity_env \<Rightarrow> sync_thread \<Rightarrow> string \<Rightarrow> 'x handler option" where
  "identity_handlers E I th resource_type =
     (if resource_type \<in> {''users'', ''groups'', ''users_password'', ''roles'', ''projects'',
           ''project_role_assignments'', ''revoke_events'', ''revoke_events_for_user''}
      then Some (sync_identity_resource E I th) else None)"

definition identity_class :: "ident_env \<Rightarrow> 'x identity_env \<Rightarrow> sync_thread \<Rightarrow> 'x sync_class" where
  "identity_class E I th = (base_sync_class E th)\<lparr>
     cl_handlers := identity_handlers E I th,
     cl_audit_resources := [''users'', ''groups'', ''projects'', ''roles'', ''project_role_assignments'',
       ''revoke_events'', ''revoke_events_for_user''],
     cl_initial_sync := identity_initial_sync I th,
     cl_get_subcloud_resources := identity_get_subcloud_resources I th,
     cl_get_master_resources := identity_get_master_resources I th,
     cl_same_resource := (\<lambda>t m_r sc_r. ret (identity_same_resource t m_r sc_r)),
     cl_map_subcloud_resource := identity_map_subcloud_resource E th,
     cl_audit_discrepancy := identity_audit_discrepancy E th,
     cl_get_resource_id := identity_get_resource_id,
     cl_get_resource_info := identity_get_resource_info,
     cl_resource_exists_in_subcloud := identity_resource_exists_in_subcloud,
     cl_audit_action := base_audit_action E th identity_get_resource_id identity_get_resource_info\<rparr>"

end
