(* ===== verification/DO_IdentityProps.thy ===== *)
theory DO_IdentityProps
  imports DO_SysinvProps DO_Identity
begin

text \<open>
  The identity endpoint: its handlers report every failure by an exception the engine's loop
  handles, a copy is recorded with the id that dcdbsync replied, a resource that differs is
  updated, the ids of role assignments can be taken apart, and the revocations for users are never
  audited.
\<close>

section \<open>The handlers are well-behaved\<close>

text \<open>The clients do not touch the engine's database.\<close>

definition identity_outside :: "'x identity_env \<Rightarrow> bool" where
  "identity_outside I \<longleftrightarrow>
     (\<forall>r. leaves_db (ie_os_client I r)) \<and> (\<forall>r. leaves_db (ie_delete_region_clients I r)) \<and>
     (\<forall>k r i. leaves_db (ie_detail I k r i)) \<and> (\<forall>k r x. leaves_db (ie_add I k r x)) \<and>
     (\<forall>k r i x. leaves_db (ie_update I k r i x)) \<and> (\<forall>k r. leaves_db (ie_list I k r)) \<and>
     (\<forall>r v. leaves_db (ie_event_detail I r v)) \<and> (\<forall>r x. leaves_db (ie_event_add I r x)) \<and>
     (\<forall>r v. leaves_db (ie_event_delete I r v)) \<and> (\<forall>r. leaves_db (ie_event_list I r)) \<and>
     (\<forall>k r i x. leaves_db (ks_update I k r i x)) \<and> (\<forall>k r i. leaves_db (ks_delete I k r i)) \<and>
     (\<forall>k r. leaves_db (ks_list I k r)) \<and> (\<forall>r. leaves_db (ks_domains I r)) \<and>
     (\<forall>k r d. leaves_db (ks_in_domain I k r d)) \<and> (\<forall>r a w p. leaves_db (ks_grant I r a w p)) \<and>
     (\<forall>r a w p. leaves_db (ks_revoke I r a w p)) \<and> (\<forall>r f. leaves_db (ks_assignments I r f))"

lemma identity_calls:
  assumes "identity_outside I"
  shows "keeps (\<lambda>s. P (eg_db s)) (ie_os_client I r)" "keeps (\<lambda>s. P (eg_db s)) (ie_delete_region_clients I r)"
    "keeps (\<lambda>s. P (eg_db s)) (ie_detail I k r i)" "keeps (\<lambda>s. P (eg_db s)) (ie_add I k r x)"
    "keeps (\<lambda>s. P (eg_db s)) (ie_update I k r v x)" "keeps (\<lambda>s. P (eg_db s)) (ie_list I k r)"
    "keeps (\<lambda>s. P (eg_db s)) (ie_event_detail I r ev)" "keeps (\<lambda>s. P (eg_db s)) (ie_event_add I r x)"
    "keeps (\<lambda>s. P (eg_db s)) (ie_event_delete I r ev)" "keeps (\<lambda>s. P (eg_db s)) (ie_event_list I r)"
    "keeps (\<lambda>s. P (eg_db s)) (ks_update I k r i fs)" "keeps (\<lambda>s. P (eg_db s)) (ks_delete I k r i)"
    "keeps (\<lambda>s. P (eg_db s)) (ks_list I k r)" "keeps (\<lambda>s. P (eg_db s)) (ks_domains I r)"
    "keeps (\<lambda>s. P (eg_db s)) (ks_in_domain I k r i)" "keeps (\<lambda>s. P (eg_db s)) (ks_grant I r i w x)"
    "keeps (\<lambda>s. P (eg_db s)) (ks_revoke I r i w x)" "keeps (\<lambda>s. P (eg_db s)) (ks_assignments I r f)"
  using assms unfolding identity_outside_def by (intro keeps_leaves_db [where I = P], simp)+

lemma keeps_sum_io [keeps_intros]: "keeps I (sum_io r)"
  by (auto simp: sum_io_def intro!: keeps_intros split: sum.splits)

lemma keeps_ensure [keeps_intros]: "keeps I (ensure b)"
  by (auto simp: ensure_def intro!: keeps_intros)

lemma keeps_of_master [keeps_intros]: "keeps I m \<Longrightarrow> keeps I (of_master m)"
  by (auto simp: of_master_def intro!: keeps_intros)

lemma keeps_with_client [keeps_intros]:
  "keeps J (ie_os_client I region) \<Longrightarrow> keeps J (f region) \<Longrightarrow> keeps J (with_client I region f)"
  unfolding with_client_def by (intro keeps_intros)

lemma calm_persist_ref: "keeps (\<lambda>s. calm R (eg_db s)) (persist_ref E th i v)"
  unfolding persist_ref_def by (auto intro!: keeps_intros calm_persist split: option.splits)

lemma calm_records:
  assumes "identity_outside I"
  shows "keeps (\<lambda>s. calm R (eg_db s)) (post_records k E I th r j rsrc)"
    "keeps (\<lambda>s. calm R (eg_db s)) (put_records k E I th r j rsrc)"
    "keeps (\<lambda>s. calm R (eg_db s)) (patch_records k E I th r j rsrc)"
    "keeps (\<lambda>s. calm R (eg_db s)) (delete_records k E I th r j rsrc)"
  unfolding post_records_def put_records_def patch_records_def delete_records_def master_records_def
    record_reply_def
  by (auto intro!: keeps_intros identity_calls [OF assms] calm_persist calm_persist_ref calm_subcloud_resources
      split: option.splits)

lemma keeps_in_domains:
  assumes "identity_outside I"
  shows "keeps (\<lambda>s. P (eg_db s)) (in_domains I k r ds)"
proof (induction ds)
  case Nil
  show ?case unfolding in_domains.simps by (rule keeps_intros)
next
  case (Cons d ds)
  show ?case
    unfolding in_domains.simps by (intro keeps_intros identity_calls [OF assms] Cons.IH)
qed

lemma calm_assignments:
  assumes "identity_outside I"
  shows "keeps (\<lambda>s. calm R (eg_db s)) (post_project_role_assignments E I th r j rsrc)"
    "keeps (\<lambda>s. calm R (eg_db s)) (delete_project_role_assignments E I th r j rsrc)"
proof -
  have revoke: "keeps (\<lambda>s. calm R (eg_db s)) (revoke_assignment I region p a i)" for region p a i
    unfolding revoke_assignment_def Let_def
    by (auto intro!: keeps_intros identity_calls [OF assms])
  show "keeps (\<lambda>s. calm R (eg_db s)) (post_project_role_assignments E I th r j rsrc)"
    unfolding post_project_role_assignments_def get_all_users_def get_all_groups_def Let_def
    by (auto intro!: keeps_intros identity_calls [OF assms] keeps_in_domains [OF assms] calm_persist
        split: option.splits prod.splits)
  show "keeps (\<lambda>s. calm R (eg_db s)) (delete_project_role_assignments E I th r j rsrc)"
    unfolding delete_project_role_assignments_def Let_def
    by (auto intro!: keeps_intros identity_calls [OF assms] revoke calm_persist calm_subcloud_resources
        split: option.splits prod.splits)
qed

lemma calm_events:
  assumes "identity_outside I"
  shows "keeps (\<lambda>s. calm R (eg_db s)) (post_revoke_events E I th r j rsrc)"
    "keeps (\<lambda>s. calm R (eg_db s)) (post_revoke_events_for_user E I th r j rsrc)"
    "keeps (\<lambda>s. calm R (eg_db s)) (delete_event f E I th r j rsrc)"
  unfolding post_revoke_events_def post_revoke_events_for_user_def delete_event_def copy_event_def
  by (auto intro!: keeps_intros identity_calls [OF assms] calm_persist calm_persist_ref calm_subcloud_resources
      split: option.splits)

lemmas identity_handler_defs = post_users_def put_users_def patch_users_def delete_users_def
  post_groups_def put_groups_def patch_groups_def delete_groups_def post_projects_def put_projects_def
  patch_projects_def delete_projects_def post_roles_def put_roles_def patch_roles_def delete_roles_def
  put_project_role_assignments_def delete_revoke_events_def delete_revoke_events_for_user_def

lemma identity_handler_cases:
  assumes "identity_handler op t = Some h"
  shows "h \<in> {post_users, put_users, patch_users, delete_users, post_groups, put_groups, patch_groups,
    delete_groups, post_projects, put_projects, patch_projects, delete_projects, post_roles, put_roles,
    patch_roles, delete_roles, post_project_role_assignments, put_project_role_assignments,
    delete_project_role_assignments, post_revoke_events, delete_revoke_events,
    post_revoke_events_for_user, delete_revoke_events_for_user}"
  using map_of_SomeD [OF assms [unfolded identity_handler_def]] by auto

lemma calm_identity_handler:
  assumes "identity_outside I" and "identity_handler op t = Some h"
  shows "keeps (\<lambda>s. calm R (eg_db s)) (h E I th r j rsrc)"
  using identity_handler_cases [OF assms(2)]
  by (auto simp: identity_handler_defs calm_records [OF assms(1)] calm_assignments [OF assms(1)]
      calm_events [OF assms(1)] intro: keeps_intros)

definition identity_failures :: "exn set" where
  "identity_failures = {Dcorch SyncRequestFailed, Dcorch SyncRequestTimeout, Dcorch SyncRequestFailedRetry,
     Dcorch SyncTimeout}"

lemma identity_raises:
  "fst (sync_identity_resource E I th r j rsrc s) = Inr () \<or>
   (\<exists>e \<in> identity_failures. fst (sync_identity_resource E I th r j rsrc s) = Inl e)"
proof -
  obtain out t where w: "(case identity_handler (oj_operation_type j) (rs_resource_type rsrc) of
      None \<Rightarrow> raise AttributeError | Some h \<Rightarrow> h E I th r j rsrc) s = (out, t)"
    by fastforce
  show ?thesis
    by (cases out) (auto simp: sync_identity_resource_def try_catch_def w identity_failures_def is_Exception_def)
qed

lemma calm_sync_identity:
  assumes "identity_outside I"
  shows "keeps (\<lambda>s. calm R (eg_db s)) (sync_identity_resource E I th r j rsrc)"
proof -
  have "keeps (\<lambda>s. calm R (eg_db s)) (case identity_handler (oj_operation_type j) (rs_resource_type rsrc) of
      None \<Rightarrow> raise AttributeError | Some h \<Rightarrow> h E I th r j rsrc)"
    by (cases "identity_handler (oj_operation_type j) (rs_resource_type rsrc)")
      (simp_all add: calm_identity_handler [OF assms] keeps_intros)
  then show ?thesis unfolding sync_identity_resource_def by (rule keeps_try_catch) (intro keeps_intros)
qed

lemma identity_behaved:
  assumes "identity_outside I"
  shows "behaved (identity_class E I th)"
proof -
  have "calm (od_orch_requests (eg_db s)) (eg_db (snd (sync_identity_resource E I th r j rsrc s)))"
    if "odb_wf (eg_db s)" for r j rsrc s
    using that calm_sync_identity [OF assms] unfolding keeps_def calm_def by blast
  moreover have "fst (sync_identity_resource E I th r j rsrc s) \<noteq> Inl (Dcorch (OrchRequestNotFound x))" for r j rsrc s x
    using identity_raises [of E I th r j rsrc s] by (auto simp: identity_failures_def)
  ultimately show ?thesis
    unfolding behaved_def identity_class_def identity_handlers_def by (auto simp: calm_def split: if_splits)
qed

interpretation identity: sync_service identity_class identity_outside
  by unfold_locales (rule identity_behaved)

section \<open>What a copy is\<close>

lemmas bnd_Inr = bnd_Inr_iff and seq_Inr = seq_Inr_iff

lemma ensure_Inr: "ensure b s = (Inr x, t) \<longleftrightarrow> b \<and> t = s"
  by (auto simp: ensure_def)

lemma sum_io_Inr: "sum_io r s = (Inr x, t) \<longleftrightarrow> r = Inr x \<and> t = s"
  by (auto simp: sum_io_def split: sum.splits)

text \<open>A row for the copy of a resource in the subcloud of a thread, and a copy with a given id there.\<close>

definition copy_row :: "sync_thread \<Rightarrow> nat \<Rightarrow> subcloud_resource \<Rightarrow> odb \<Rightarrow> bool" where
  "copy_row th rsrc_id c d \<longleftrightarrow> c \<in> set (rows (od_subcloud_resources d)) \<and> sr_resource_id c = rsrc_id \<and>
     (\<exists>sc \<in> set (rows (od_subclouds d)). os_region_name sc = th_subcloud_name th \<and> sr_subcloud_id c = os_id sc)"

definition copied :: "sync_thread \<Rightarrow> nat \<Rightarrow> string \<Rightarrow> odb \<Rightarrow> bool" where
  "copied th rsrc_id i d \<longleftrightarrow> (\<exists>c. copy_row th rsrc_id c d \<and> sr_subcloud_resource_id c = i)"

lemma subcloud_by_name_Inr:
  assumes "subcloud_by_name E n d = (Inr sc, t)" and "proper_name E n"
  shows "t = d \<and> sc \<in> set (rows (od_subclouds d)) \<and> os_region_name sc = n"
  using assms
  by (auto simp: subcloud_by_name_def o_subcloud_get_def o_subcloud_row_def result_of_apply
      o_identity_filter_def proper_name_def split: sum.splits dest!: query_one_Inr)

lemma try_found_Inr:
  assumes "try_catch (bnd m (\<lambda>r. ret (Some r)))
      (\<lambda>e. case e of Dcorch (SubcloudResourceNotFound _) \<Rightarrow> ret None | _ \<Rightarrow> raise e) s = (Inr (Some c), t)"
  shows "m s = (Inr c, t)"
  using assms
  by (cases "m s") (auto simp: try_catch_def bnd_apply split: sum.splits exn.splits dcorch_exn.splits)

lemma odo_Inr:
  assumes "odo m s = (Inr x, t)"
  shows "m (eg_db s) = (Inr x, eg_db t) \<and> t = s\<lparr>eg_db := eg_db t\<rparr>"
  using assms by (cases "m (eg_db s)") (auto simp: odo_def)

lemma copy_found:
  assumes "get_db_subcloud_resource E th i s = (Inr (Some c), t)" and "proper_name E (th_subcloud_name th)"
  shows "t = s \<and> copy_row th i c (eg_db s)"
proof -
  obtain sc u where sc: "odo (subcloud_by_name E (th_subcloud_name th)) s = (Inr sc, u)"
    and c: "odo (subcloud_resource_get_by_resource_and_subcloud admin_context i (os_id sc)) u = (Inr c, t)"
    using assms(1) unfolding get_db_subcloud_resource_def bnd_Inr by (blast dest: try_found_Inr)
  have u: "eg_db u = eg_db s" and sc': "sc \<in> set (rows (od_subclouds (eg_db s)))"
      "os_region_name sc = th_subcloud_name th"
    using subcloud_by_name_Inr [OF _ assms(2)] odo_Inr [OF sc] by blast+
  then have "u = s" using odo_Inr [OF sc] by simp
  moreover have "c \<in> set (rows (od_subcloud_resources (eg_db u)))" "sr_resource_id c = i"
      "sr_subcloud_id c = os_id sc" "eg_db t = eg_db u"
    using odo_Inr [OF c]
    by (auto simp: subcloud_resource_get_by_resource_and_subcloud_def result_of_apply
        split: sum.splits dest!: query_one_Inr)
  ultimately show ?thesis using odo_Inr [OF c] sc' by (auto simp: copy_row_def)
qed

lemma transaction_Inr:
  assumes "transaction m d = (Inr x, t)"
  shows "m d = (Inr x, t)"
  using assms by (auto simp: transaction_def split: prod.splits sum.splits if_splits)

lemma new_uuid_Inr:
  assumes "new_uuid E u d = (Inr x, t)"
  shows "od_subclouds t = od_subclouds d \<and> od_subcloud_resources t = od_subcloud_resources d"
  using assms by (auto simp: new_uuid_def bnd_apply seq_apply split: option.splits if_splits)

lemma created_row:
  assumes "subcloud_resource_create E admin_context k i u x d = (Inr r, t)"
  shows "od_subclouds t = od_subclouds d \<and> r \<in> set (rows (od_subcloud_resources t)) \<and>
    sr_resource_id r = i \<and> sr_subcloud_id r = k \<and> sr_subcloud_resource_id r = x"
proof -
  obtain v d' where v: "new_uuid E u d = (Inr v, d')"
    and t: "t = d'\<lparr>od_subcloud_resources := insert_row (\<lambda>n. \<lparr>sr_id = n, sr_uuid = v,
        sr_shared_config_state = SHARED_CONFIG_STATE_MANAGED, sr_subcloud_resource_id = x, sr_resource_id = i,
        sr_subcloud_id = k\<rparr>) (od_subcloud_resources d')\<rparr>"
    and r: "r = \<lparr>sr_id = next_id (od_subcloud_resources d'), sr_uuid = v,
        sr_shared_config_state = SHARED_CONFIG_STATE_MANAGED, sr_subcloud_resource_id = x, sr_resource_id = i,
        sr_subcloud_id = k\<rparr>"
    using assms
    by (auto simp: subcloud_resource_create_def bnd_Inr seq_Inr Let_def dest!: transaction_Inr)
  show ?thesis using new_uuid_Inr [OF v] by (simp add: t r insert_row_def)
qed

lemma updated_row:
  assumes "subcloud_resource_update admin_context n x d = (Inr r, t)"
    and "copy_row th i c d" and "sr_id c = n"
  shows "copied th i x t \<and> sr_subcloud_resource_id r = x"
proof -
  have t: "t = d\<lparr>od_subcloud_resources := update_row sr_id n
      (\<lambda>r. r\<lparr>sr_subcloud_resource_id := x\<rparr>) (od_subcloud_resources d)\<rparr>" and r: "sr_subcloud_resource_id r = x"
    using assms(1)
    by (auto simp: subcloud_resource_update_def subcloud_resource_row_def bnd_Inr seq_Inr result_of_apply
        filter_eq_Cons_iff split: sum.splits list.splits dest!: transaction_Inr)
  have "c\<lparr>sr_subcloud_resource_id := x\<rparr> \<in> set (rows (od_subcloud_resources t))"
    using assms(2,3) by (force simp: t update_row_def copy_row_def)
  then have "copy_row th i (c\<lparr>sr_subcloud_resource_id := x\<rparr>) t"
    using assms(2) by (simp add: copy_row_def t)
  then show ?thesis using r by (force simp: copied_def)
qed

lemma persisted:
  assumes "persist_db_subcloud_resource E th i x s = (Inr y, t)" and "proper_name E (th_subcloud_name th)"
  shows "copied th i x (eg_db t)"
proof -
  obtain found u where f: "get_db_subcloud_resource E th i s = (Inr found, u)"
    using assms(1) unfolding persist_db_subcloud_resource_def bnd_Inr by blast
  show ?thesis
  proof (cases found)
    case None
    then obtain sc v r where sc: "odo (subcloud_by_name E (th_subcloud_name th)) u = (Inr sc, v)"
      and r: "odo (subcloud_resource_create E admin_context (os_id sc) i None x) v = (Inr r, t)"
      using assms(1) f by (auto simp: persist_db_subcloud_resource_def bnd_Inr)
    have "od_subclouds (eg_db t) = od_subclouds (eg_db v)" "r \<in> set (rows (od_subcloud_resources (eg_db t)))"
        "sr_resource_id r = i" "sr_subcloud_id r = os_id sc" "sr_subcloud_resource_id r = x"
      using created_row odo_Inr [OF r] by blast+
    moreover have "eg_db v = eg_db u \<and> sc \<in> set (rows (od_subclouds (eg_db u))) \<and>
        os_region_name sc = th_subcloud_name th"
      using subcloud_by_name_Inr [OF _ assms(2)] odo_Inr [OF sc] by blast
    ultimately show ?thesis unfolding copied_def copy_row_def by metis
  next
    case (Some c)
    then have c: "u = s" "copy_row th i c (eg_db s)" using copy_found [OF _ assms(2)] f by blast+
    show ?thesis
    proof (cases "sr_subcloud_resource_id c = x")
      case True
      then show ?thesis using assms(1) f Some c
        by (auto simp: persist_db_subcloud_resource_def bnd_Inr copied_def)
    next
      case False
      then obtain r where "odo (subcloud_resource_update admin_context (sr_id c) x) s = (Inr r, t)"
        using assms(1) f Some c by (auto simp: persist_db_subcloud_resource_def bnd_Inr)
      then have "subcloud_resource_update admin_context (sr_id c) x (eg_db s) = (Inr r, eg_db t)"
        by (rule odo_Inr [THEN conjunct1])
      then show ?thesis using updated_row [OF _ c(2) refl] by blast
    qed
  qed
qed

text \<open>The type of the resources of a kind.\<close>

fun kind_type :: "id_kind \<Rightarrow> string" where
  "kind_type Users = ''users''"
| "kind_type Groups = ''groups''"
| "kind_type Projects = ''projects''"
| "kind_type Roles = ''roles''"

lemma kind_handler:
  assumes "op \<in> {OPERATION_TYPE_POST, OPERATION_TYPE_CREATE}"
  shows "identity_handler op (kind_type k) = Some (post_records k)"
  using assms
  by (cases k) (auto simp: identity_handler_def post_users_def post_groups_def post_projects_def post_roles_def)

lemma sync_identity_Inr:
  assumes "sync_identity_resource E I th r j rsrc s = (Inr (), t)"
    and "identity_handler (oj_operation_type j) (rs_resource_type rsrc) = Some h"
  shows "h E I th r j rsrc s = (Inr (), t)"
  using assms
  by (cases "h E I th r j rsrc s")
    (auto simp: sync_identity_resource_def try_catch_def split: sum.splits if_splits)

lemma with_client_Inr:
  "with_client I region f s = (Inr x, t) \<Longrightarrow> \<exists>u. f region u = (Inr x, t)"
  by (auto simp: with_client_def seq_Inr)

lemma of_master_Inr: "of_master m s = (Inr x, u) \<Longrightarrow> m s = (Inr x, u)"
  by (cases "m s") (auto simp: of_master_def try_catch_def split: sum.splits if_splits)

lemma master_records_Inr:
  assumes "master_records I k i s = (Inr records, t)"
  shows "records \<noteq> [] \<and> (\<exists>u. fst (ie_detail I k master_region i u) = Inr records)"
proof -
  have "records \<noteq> []" and "of_master (with_client I master_region (\<lambda>r. ie_detail I k r i)) s = (Inr records, t)"
    using assms unfolding master_records_def bnd_Inr seq_Inr ensure_Inr by auto
  moreover obtain u where "ie_detail I k master_region i u = (Inr records, t)"
    using with_client_Inr [OF of_master_Inr [OF calculation(2)]] by blast
  moreover have "fst (ie_detail I k master_region i u) = Inr records" using calculation(3) by simp
  ultimately show ?thesis by blast
qed

lemma persist_ref_Inr:
  assumes "persist_ref E th i v s = (Inr y, t)" and "proper_name E (th_subcloud_name th)"
  shows "\<exists>x. string_field v = Some x \<and> copied th i x (eg_db t)"
  using assms persisted by (fastforce simp: persist_ref_def bnd_Inr split: option.splits)

lemma record_reply_Inr:
  assumes "record_reply E th k rsrc reply s = (Inr (), t)" and "proper_name E (th_subcloud_name th)"
  shows "\<exists>part ref i. jget (kind_key k) reply = Inr part \<and> jget ''id'' part = Inr ref \<and>
    string_field ref = Some i \<and> copied th (rs_id rsrc) i (eg_db t)"
  using assms(1)
  by (auto simp: record_reply_def bnd_Inr seq_Inr ensure_Inr sum_io_Inr dest!: persist_ref_Inr [OF _ assms(2)])

text \<open>C15: A user, group, project or role is only counted as created in a subcloud when it was copied
  from the system controller and recorded: the records handed to the subcloud's dcdbsync are those
  the system controller's dcdbsync gave for the source of the job, and there is a row for the copy
  of the resource in the thread's subcloud, with the id that the subcloud's dcdbsync replied.\<close>

theorem identity_copy_recorded:
  assumes "sync_identity_resource E I th r j rsrc s = (Inr (), t)"
    and "oj_operation_type j \<in> {OPERATION_TYPE_POST, OPERATION_TYPE_CREATE}"
    and "rs_resource_type rsrc = kind_type k" and "proper_name E (th_subcloud_name th)"
  shows "\<exists>records reply part ref i u v. records \<noteq> [] \<and>
    fst (ie_detail I k master_region (oj_source_resource_id j) u) = Inr records \<and>
    fst (ie_add I k (th_subcloud_name th) records v) = Inr reply \<and>
    jget (kind_key k) reply = Inr part \<and> jget ''id'' part = Inr ref \<and> string_field ref = Some i \<and>
    copied th (rs_id rsrc) i (eg_db t)"
proof -
  have "identity_handler (oj_operation_type j) (rs_resource_type rsrc) = Some (post_records k)"
    unfolding assms(3) by (rule kind_handler [OF assms(2)])
  then have "post_records k E I th r j rsrc s = (Inr (), t)"
    by (rule sync_identity_Inr [OF assms(1)])
  then obtain records reply u v w where m: "master_records I k (oj_source_resource_id j) u = (Inr records, v)"
    and a: "with_client I (th_subcloud_name th) (\<lambda>sc. ie_add I k sc records) v = (Inr reply, w)"
    and r: "record_reply E th k rsrc reply w = (Inr (), t)"
    by (auto simp: post_records_def bnd_Inr seq_Inr)
  obtain v' where "ie_add I k (th_subcloud_name th) records v' = (Inr reply, w)"
    using with_client_Inr [OF a] by blast
  then have "fst (ie_add I k (th_subcloud_name th) records v') = Inr reply" by simp
  with master_records_Inr [OF m] record_reply_Inr [OF r assms(4)] show ?thesis by blast
qed

text \<open>A keystone with one user and one revocation, on which the properties are tried.\<close>

definition ex_event :: ext_resource where
  "ex_event = \<lparr>xr_id = ''7'', xr_attrs = [(''user_id'', Some ''m1''), (''issued_before'', Some ''2023-01-01'')],
     xr_lists = [], xr_number = Some 7\<rparr>"

definition ex_user_reply :: json where
  "ex_user_reply = JObject [(''user'', JObject [(''id'', JText ''m1'')]),
     (''local_user'', JObject [(''name'', JText ''joe'')])]"

definition ex_identity :: "'x identity_env" where
  "ex_identity = \<lparr>
     ie_os_client = (\<lambda>_. ret ()), ie_delete_region_clients = (\<lambda>_. ret ()),
     ie_detail = (\<lambda>_ _ _. ret ''row''), ie_add = (\<lambda>_ _ _. ret ex_user_reply),
     ie_update = (\<lambda>_ _ _ _. ret ex_user_reply), ie_list = (\<lambda>_ _. ret []),
     ie_event_detail = (\<lambda>_ _. ret ''row''), ie_event_add = (\<lambda>_ _. ret JNull), ie_event_delete = (\<lambda>_ _. ret ()),
     ie_event_list = (\<lambda>r. ret (if r = master_region then [ex_event] else [])),
     ks_update = (\<lambda>_ _ _ _. ret ''m1''), ks_delete = (\<lambda>_ _ _. ret ()), ks_list = (\<lambda>_ _. ret []),
     ks_domains = (\<lambda>_. ret []), ks_in_domain = (\<lambda>_ _ _. ret []), ks_grant = (\<lambda>_ _ _ _. ret ()),
     ks_revoke = (\<lambda>_ _ _ _. ret ()), ks_assignments = (\<lambda>_ _. ret []), ie_loads = (\<lambda>_. Inr [])\<rparr>"

definition ex_user_job :: orch_job where
  "ex_user_job = ex_job\<lparr>oj_endpoint_type := ''identity'', oj_operation_type := OPERATION_TYPE_POST\<rparr>"

definition ex_user :: resource where
  "ex_user = ex_resource\<lparr>rs_resource_type := ''users''\<rparr>"

definition ex_identity_thread :: sync_thread where
  "ex_identity_thread = mk_thread ''alpha'' ''identity''"

lemma ex_proper: "proper_name ex_ident (th_subcloud_name ex_identity_thread)"
  by (simp add: proper_name_def ex_ident_def)

abbreviation ex_user_run :: "(exn + unit) \<times> unit engine" where
  "ex_user_run \<equiv> sync_identity_resource ex_ident ex_identity ex_identity_thread
     (ex_request 1 ''alpha'' ORCH_REQUEST_QUEUED) ex_user_job ex_user (ex_engine (ex_odb ORCH_REQUEST_QUEUED))"

lemma ex_user_run_ok: "fst ex_user_run = Inr ()"
  by code_simp

theorem identity_copy_recorded_witness:
  "copied ex_identity_thread 1 ''m1'' (eg_db (snd ex_user_run))"
proof -
  have run: "ex_user_run = (Inr (), snd ex_user_run)"
    by (rule prod_eqI) (simp_all only: ex_user_run_ok fst_conv snd_conv)
  have t: "rs_resource_type ex_user = kind_type Users" by (simp add: ex_user_def)
  have op: "oj_operation_type ex_user_job \<in> {OPERATION_TYPE_POST, OPERATION_TYPE_CREATE}"
    by (simp add: ex_user_job_def)
  show ?thesis
    using identity_copy_recorded [OF run op t ex_proper]
    by (simp add: ex_identity_def ex_user_reply_def jget_def dict_get_def ex_user_def ex_resource_def)
qed

lemma ex_identity_outside: "identity_outside ex_identity"
  by (simp add: identity_outside_def ex_identity_def leaves_db_def)

abbreviation ex_requests :: "(orch_request \<times> orch_job) list" where
  "ex_requests \<equiv> [(ex_request 1 ''alpha'' ORCH_REQUEST_QUEUED, ex_user_job)]"

definition ex_user_odb :: odb where
  "ex_user_odb = (ex_odb ORCH_REQUEST_QUEUED)\<lparr>
     od_resources := \<lparr>rows = [ex_user], next_id = 2\<rparr>, od_orch_jobs := \<lparr>rows = [ex_user_job], next_id = 2\<rparr>,
     od_subcloud_syncs := \<lparr>rows = [(ex_sync 1 ''alpha'' SYNC_STATUS_REQUESTED)\<lparr>sy_endpoint_type := ''identity''\<rparr>],
       next_id = 2\<rparr>\<rparr>"

abbreviation ex_identity_run :: "(exn + bool) \<times> unit engine" where
  "ex_identity_run \<equiv> sync_requests ex_ident (identity_class ex_ident ex_identity ex_identity_thread)
     ex_identity_thread ex_requests False (ex_engine ex_user_odb)"

lemma ex_identity_run_ok: "fst ex_identity_run = Inr False"
  by code_simp

lemma ex_user_odb_good: "good_db ex_user_odb"
  by (simp add: good_db_def ex_user_odb_def ex_user_def ex_user_job_def ex_odefs empty_table_def odb_wf_def
      okeys_wf_def schema_ok_def unique_ok_def refs_ok_def refer_to_def table_wf_def one_request_each_def)

section \<open>Role assignments\<close>

lemma split_at_none: "d \<notin> set cs \<Longrightarrow> split_at d cs acc = [rev acc @ cs]"
  by (induction cs arbitrary: acc) auto

lemma split_at_append: "d \<notin> set cs \<Longrightarrow> split_at d (cs @ d # ds) acc = (rev acc @ cs) # split_at d ds []"
  by (induction cs arbitrary: acc) auto

text \<open>What a deletion of a role assignment revokes is what its creation has granted: the id under
  which the assignment of a role to a user or group in a project is recorded is taken apart again
  into the ids of that project, actor and role, as long as no id has an underscore in it.\<close>

theorem assignment_id_taken_apart:
  assumes "CHR ''_'' \<notin> set project_id" and "CHR ''_'' \<notin> set who" and "CHR ''_'' \<notin> set role_id"
  shows "assignment_tags (assignment_id project_id who role_id) = Some (project_id, who, role_id)"
  using assms by (simp add: assignment_tags_def assignment_id_def split_at_append split_at_none)

theorem assignment_id_taken_apart_witness:
  "assignment_tags (assignment_id ''p1'' ''u1'' ''r1'') = Some (''p1'', ''u1'', ''r1'')"
  by (rule assignment_id_taken_apart) simp_all

section \<open>Revocations for users\<close>

text \<open>When the first revocation that the system controller has for a user names the user and the
  time, the audit of these revocations ends at it: the id under which it would be looked up cannot
  be made, the exception is dropped, and the audit counts no job and asks for no work, whatever the
  subcloud lacks.\<close>

theorem user_revocations_never_audited:
  assumes "outstanding_requests th ''revoke_events_for_user'' s = (Inr reqs, s)"
    and "get_all_resources E (identity_class E I th) ''revoke_events_for_user'' s =
      (Inr (Some (m # ms, dbs, scs)), t)"
    and "truthy_str (attr m ''user_id'')" and "truthy_str (attr m ''issued_before'')"
  shows "audit_type E (identity_class E I th) th ''revoke_events_for_user'' s = (Inr (Some 0), t)"
  using assms
  by (simp add: audit_type_def or_else_def bnd_apply outcome_apply Let_def identity_class_def
      identity_get_resource_id_def is_Exception_def)

abbreviation ex_event_fetch :: "(exn + (ext_resource list \<times> resource list \<times> ext_resource list) option) \<times> unit engine" where
  "ex_event_fetch \<equiv> get_all_resources ex_ident (identity_class ex_ident ex_identity ex_identity_thread)
     ''revoke_events_for_user'' (ex_engine (ex_odb ORCH_REQUEST_QUEUED))"

lemma ex_event_fetched: "fst ex_event_fetch = Inr (Some ([ex_event], [], []))"
  by code_simp

theorem user_revocations_never_audited_witness:
  "fst (audit_type ex_ident (identity_class ex_ident ex_identity ex_identity_thread) ex_identity_thread
     ''revoke_events_for_user'' (ex_engine (ex_odb ORCH_REQUEST_QUEUED))) = Inr (Some 0)"
proof -
  let ?s = "ex_engine (ex_odb ORCH_REQUEST_QUEUED)"
  have "fst (outstanding_requests ex_identity_thread ''revoke_events_for_user'' ?s) = Inr []"
    by code_simp
  then have out: "outstanding_requests ex_identity_thread ''revoke_events_for_user'' ?s = (Inr [], ?s)"
    using readsD [OF reads_thread(6)] by (intro prod_eqI) simp_all
  have fetch: "ex_event_fetch = (Inr (Some (ex_event # [], [], [])), snd ex_event_fetch)"
    by (rule prod_eqI) (simp_all only: ex_event_fetched fst_conv snd_conv)
  have "truthy_str (attr ex_event ''user_id'')" "truthy_str (attr ex_event ''issued_before'')"
    by code_simp+
  then show ?thesis using user_revocations_never_audited [OF out fetch] by simp
qed

end
