(* ===== verification/DO_Quota.thy ===== *)
theory DO_Quota
  imports DO_Manager DC_Json "HOL-Library.AList"
begin

text \<open>
  \<open>dcorch/engine/quota_manager.py\<close> with the counters of \<open>collections\<close> it computes with, the lock of
  \<open>dcorch/engine/dc_orch_lock.py\<close>, the batches and quota checks of \<open>dcorch/common/utils.py\<close>, and the
  methods of \<open>dcorch/drivers/openstack/sdk.py\<close> that read and write quotas. The clients of the
  clouds are parameters. Threads that are started and joined run to their end in order: those of
  a loop share nothing but a queue whose order does not matter, and what one raises is lost.
\<close>

section \<open>Counters\<close>

text \<open>A dictionary of numbers, in the order of its keys. \<open>+\<close> and \<open>-\<close> of \<open>collections.Counter\<close> drop
  every entry that is not positive, and so does \<open>+=\<close>.\<close>

type_synonym counter = "(string \<times> int) list"

definition cnt :: "counter \<Rightarrow> string \<Rightarrow> int" where
  "cnt c k = (case map_of c k of None \<Rightarrow> 0 | Some n \<Rightarrow> n)"

definition counts :: "counter \<Rightarrow> string \<Rightarrow> bool" where
  "counts c k \<longleftrightarrow> k \<in> fst ` set c"

definition keep_positive :: "counter \<Rightarrow> counter" where
  "keep_positive = filter (\<lambda>(k, n). 0 < n)"

definition counter_add :: "counter \<Rightarrow> counter \<Rightarrow> counter" where
  "counter_add a b = keep_positive (map (\<lambda>(k, n). (k, n + cnt b k)) a) @
     keep_positive (filter (\<lambda>(k, n). \<not> counts a k) b)"

definition counter_sub :: "counter \<Rightarrow> counter \<Rightarrow> counter" where
  "counter_sub a b = keep_positive (map (\<lambda>(k, n). (k, n - cnt b k)) a) @
     keep_positive (map (\<lambda>(k, n). (k, - n)) (filter (\<lambda>(k, n). \<not> counts a k) b))"

definition counter_iadd :: "counter \<Rightarrow> counter \<Rightarrow> counter" where
  "counter_iadd a b = keep_positive (fold (\<lambda>(k, n) c. AList.update k (cnt c k + n) c) b a)"

text \<open>\<open>d.update(e)\<close> on dictionaries.\<close>

definition merge_dict :: "(string \<times> 'v) list \<Rightarrow> (string \<times> 'v) list \<Rightarrow> (string \<times> 'v) list" where
  "merge_dict d e = fold (\<lambda>(k, v). AList.update k v) e d"

section \<open>The manager's state\<close>

text \<open>A project and, for the quotas of a user in it, the user.\<close>

type_synonym quota_key = "string \<times> string option"

text \<open>The class variables: for each key the total usage and the usage of each region.\<close>

record quota_caches =
  qc_total :: "(quota_key \<times> counter) list"
  qc_regions :: "(quota_key \<times> (string \<times> counter) list) list"

text \<open>With the lock of the audit and the rest of the world.\<close>

record 'x quota_state =
  qs_caches :: quota_caches
  qs_audit_lock :: bool
  qs_ext :: 'x

text \<open>What the manager calls: the drivers of a region, and the sleep between two tries to get the
  lock. A user or project that keystone does not know is None.\<close>

record 'x quota_env =
  qe_driver :: "string \<Rightarrow> ('x quota_state, unit) io"
  qe_enabled_projects :: "('x quota_state, string list option) io"
  qe_modified :: "('x quota_state, (string \<times> string list) list) io"
  qe_regions :: "string \<Rightarrow> ('x quota_state, string list) io"
  qe_project_by_id :: "string \<Rightarrow> ('x quota_state, string option) io"
  qe_user_by_id :: "string option \<Rightarrow> ('x quota_state, string option) io"
  qe_project_by_name :: "string \<Rightarrow> string \<Rightarrow> ('x quota_state, string option) io"
  qe_user_by_name :: "string \<Rightarrow> string \<Rightarrow> ('x quota_state, string option) io"
  qe_usages :: "string \<Rightarrow> string \<Rightarrow> string option \<Rightarrow> ('x quota_state, counter \<times> counter \<times> counter) io"
  qe_limits :: "string \<Rightarrow> string \<Rightarrow> string option \<Rightarrow> ('x quota_state, counter \<times> counter \<times> counter) io"
  qe_write :: "string \<Rightarrow> string \<Rightarrow> string option \<Rightarrow> (string \<times> counter) list \<Rightarrow> ('x quota_state, unit) io"
  qe_sleep :: "('x quota_state, unit) io"

text \<open>The methods of the driver of \<open>dcorch\<close> that are to read and write quotas raise
  \<open>NotImplementedError\<close>; it has no client for nova.\<close>

definition NotImplementedError :: exn where
  "NotImplementedError = PyException ''NotImplementedError''"

definition get_resource_usages ::
  "string \<Rightarrow> string \<Rightarrow> string option \<Rightarrow> ('x quota_state, counter \<times> counter \<times> counter) io" where
  "get_resource_usages region project_id user_id = raise NotImplementedError"

definition get_quota_limits ::
  "string \<Rightarrow> string \<Rightarrow> string option \<Rightarrow> ('x quota_state, counter \<times> counter \<times> counter) io" where
  "get_quota_limits region project_id user_id = raise NotImplementedError"

definition write_quota_limits ::
  "string \<Rightarrow> string \<Rightarrow> string option \<Rightarrow> (string \<times> counter) list \<Rightarrow> ('x quota_state, unit) io" where
  "write_quota_limits region project_id user_id limits_to_write = raise NotImplementedError"

definition sdk_quotas :: "'x quota_env \<Rightarrow> 'x quota_env" where
  "sdk_quotas Q = Q\<lparr>qe_usages := get_resource_usages, qe_limits := get_quota_limits,
     qe_write := write_quota_limits, qe_modified := raise AttributeError\<rparr>"

text \<open>The region of the system controller, as the services of OpenStack know it.\<close>

definition MASTER_CLOUD :: string where
  "MASTER_CLOUD = ''SystemController''"

definition NOVA_QUOTA_FIELDS :: "string list" where
  "NOVA_QUOTA_FIELDS = [''metadata_items'', ''cores'', ''instances'', ''ram'', ''key_pairs'', ''injected_files'',
     ''injected_file_path_bytes'', ''injected_file_content_bytes'', ''server_group_members'', ''server_groups'']"

definition CINDER_QUOTA_FIELDS :: "string list" where
  "CINDER_QUOTA_FIELDS = [''volumes'', ''volumes_iscsi'', ''volumes_ceph'', ''per_volume_gigabytes'', ''groups'',
     ''snapshots'', ''snapshots_iscsi'', ''snapshots_ceph'', ''gigabytes'', ''gigabytes_iscsi'', ''gigabytes_ceph'',
     ''backups'', ''backup_gigabytes'']"

definition NEUTRON_QUOTA_FIELDS :: "string list" where
  "NEUTRON_QUOTA_FIELDS = [''network'', ''subnet'', ''subnetpool'', ''rbac_policy'', ''trunk'', ''port'', ''router'',
     ''floatingip'', ''security_group'', ''security_group_rule'']"

definition QUOTAS_FOR_MANAGED_RESOURCES :: "string list" where
  "QUOTAS_FOR_MANAGED_RESOURCES = [''key_pairs'', ''security_group'', ''security_group_rule'']"

definition ENDPOINT_QUOTA_MAPPING :: "string \<Rightarrow> string list option" where
  "ENDPOINT_QUOTA_MAPPING = map_of [(''compute'', NOVA_QUOTA_FIELDS), (''network'', NEUTRON_QUOTA_FIELDS),
     (''volume'', CINDER_QUOTA_FIELDS)]"

section \<open>The quotas of a subcloud, from the last audit\<close>

text \<open>The new quotas come from a JSON document; arithmetic with anything but a number raises.\<close>

fun json_int :: "json \<Rightarrow> int option" where
  "json_int (JNumber n) = Some n"
| "json_int (JBoolean b) = Some (if b then 1 else 0)"
| "json_int _ = None"

fun to_counter :: "dict \<Rightarrow> exn + counter" where
  "to_counter [] = Inr []"
| "to_counter ((k, v) # d) = (case json_int v of
     None \<Rightarrow> Inl TypeError
   | Some n \<Rightarrow> (case to_counter d of Inl e \<Rightarrow> Inl e | Inr c \<Rightarrow> Inr ((k, n) # c)))"

text \<open>The usage of the subcloud for the keys of the new quotas. Both levels of the copy are
  dictionaries with a default: a region that is missing gives an empty plain one, in which the
  lookup fails and is caught; a key that is missing in a region's usage gives an empty dictionary,
  with which no sum can be formed.\<close>

definition region_usage ::
  "(string \<times> counter) list option \<Rightarrow> string \<Rightarrow> string list \<Rightarrow> exn + counter" where
  "region_usage regions subcloud ks = (case regions of
     None \<Rightarrow> Inr []
   | Some rs \<Rightarrow> (case map_of rs subcloud of
       None \<Rightarrow> Inr []
     | Some usage \<Rightarrow> if list_all (counts usage) ks then Inr (map (\<lambda>k. (k, cnt usage k)) ks) else Inl TypeError))"

definition calculate_subcloud_project_quotas ::
  "quota_caches \<Rightarrow> string \<Rightarrow> string option \<Rightarrow> dict \<Rightarrow> string \<Rightarrow> exn + counter" where
  "calculate_subcloud_project_quotas C project_id user_id new_global_quotas subcloud =
     (case to_counter new_global_quotas of
        Inl e \<Rightarrow> Inl e
      | Inr quotas \<Rightarrow>
          (let total = (case map_of (qc_total C) (project_id, user_id) of None \<Rightarrow> [] | Some t \<Rightarrow> t);
               unused = counter_sub quotas total
           in case region_usage (map_of (qc_regions C) (project_id, user_id)) subcloud (map fst quotas) of
                Inl e \<Rightarrow> Inl e
              | Inr usage \<Rightarrow> Inr (counter_add unused usage)))"

section \<open>The usage of a project\<close>

text \<open>What a started and joined thread leaves behind.\<close>

definition in_thread :: "('s, 'a) io \<Rightarrow> ('s, 'a option) io" where
  "in_thread m = bnd (outcome m) (\<lambda>out. case out of Inl _ \<Rightarrow> ret None | Inr x \<Rightarrow> ret (Some x))"

definition read_quota_usage ::
  "'x quota_env \<Rightarrow> string \<Rightarrow> string option \<Rightarrow> string \<Rightarrow> ('x quota_state, string \<times> counter) io" where
  "read_quota_usage Q project_id user_id region =
     seq (qe_driver Q region)
     (bnd (qe_usages Q region project_id user_id) (\<lambda>(nova, neutron, cinder).
      ret (region, merge_dict (merge_dict (merge_dict [] nova) neutron) cinder)))"

text \<open>The ids of the project and the user in a subcloud; None when the region is skipped.\<close>

definition ids_in_subcloud ::
  "'x quota_env \<Rightarrow> string option \<Rightarrow> string option \<Rightarrow> string \<Rightarrow> ('x quota_state, (string \<times> string option) option) io" where
  "ids_in_subcloud Q qproject quser region = except_Exception
     (seq (qe_driver Q region)
      (case qproject of
         None \<Rightarrow> raise AttributeError
       | Some name \<Rightarrow>
           bnd (qe_project_by_name Q region name) (\<lambda>sc_project. case sc_project of
             None \<Rightarrow> ret None
           | Some sc_project_id \<Rightarrow>
               (case quser of
                  None \<Rightarrow> ret (Some (sc_project_id, None))
                | Some user \<Rightarrow> bnd (qe_user_by_name Q region user) (\<lambda>sc_user_id.
                    ret (Some (sc_project_id, sc_user_id)))))))
     (\<lambda>_. ret None)"

fun read_regions ::
  "'x quota_env \<Rightarrow> string option \<Rightarrow> string option \<Rightarrow> string list \<Rightarrow> ('x quota_state, (string \<times> counter) list) io" where
  "read_regions Q qproject quser [] = ret []"
| "read_regions Q qproject quser (region # rs) =
     bnd (ids_in_subcloud Q qproject quser region) (\<lambda>ids.
     bnd (case ids of
            None \<Rightarrow> ret None
          | Some (p, u) \<Rightarrow> in_thread (read_quota_usage Q p u region)) (\<lambda>here.
     bnd (read_regions Q qproject quser rs) (\<lambda>rest.
     ret (case here of None \<Rightarrow> rest | Some x \<Rightarrow> x # rest))))"

text \<open>The usages, if every region has given its own.\<close>

definition get_tenant_quota_usage_per_region ::
  "'x quota_env \<Rightarrow> string \<Rightarrow> string option \<Rightarrow> ('x quota_state, (string \<times> counter) list) io" where
  "get_tenant_quota_usage_per_region Q project_id user_id =
     seq (qe_driver Q MASTER_CLOUD)
     (bnd (qe_regions Q project_id) (\<lambda>region_lists.
      bnd (qe_project_by_id Q project_id) (\<lambda>qproject.
      bnd (qe_user_by_id Q user_id) (\<lambda>quser.
      bnd (read_regions Q qproject quser region_lists) (\<lambda>usage_queue.
      ret (if length region_lists = length usage_queue then merge_dict [] usage_queue else []))))))"

definition get_summation :: "(string \<times> counter) list \<Rightarrow> counter" where
  "get_summation regions_dict = fold (\<lambda>(region, usage) c. counter_iadd c usage) regions_dict []"

text \<open>The usage of what the orchestrator manages is only counted in the master cloud.\<close>

definition without_managed :: "string \<times> counter \<Rightarrow> string \<times> counter" where
  "without_managed = (\<lambda>(region, usage).
     (region, if region = MASTER_CLOUD then usage
              else filter (\<lambda>(k, n). k \<notin> set QUOTAS_FOR_MANAGED_RESOURCES) usage))"

definition quota_usage_update ::
  "'x quota_env \<Rightarrow> string \<Rightarrow> string option \<Rightarrow>
   ('x quota_state, (counter \<times> (string \<times> counter) list) option) io" where
  "quota_usage_update Q project_id user_id =
     bnd (get_tenant_quota_usage_per_region Q project_id user_id) (\<lambda>regions_usage_dict.
     if regions_usage_dict = [] then ret None
     else
       (let total = get_summation (map without_managed regions_usage_dict)
        in seq (modify (\<lambda>s. s\<lparr>qs_caches := \<lparr>
                  qc_total = AList.update (project_id, user_id) total (qc_total (qs_caches s)),
                  qc_regions = AList.update (project_id, user_id) regions_usage_dict (qc_regions (qs_caches s))\<rparr>\<rparr>))
             (ret (Some (total, regions_usage_dict)))))"

definition get_usage_for_project_and_user ::
  "'x quota_env \<Rightarrow> string \<Rightarrow> string \<Rightarrow> string option \<Rightarrow> ('x quota_state, counter) io" where
  "get_usage_for_project_and_user Q endpoint_type project_id user_id =
     bnd (gets (\<lambda>s. map_of (qc_total (qs_caches s)) (project_id, user_id))) (\<lambda>cached.
     bnd (case cached of
            Some t \<Rightarrow> ret (Some t)
          | None \<Rightarrow> try_catch
              (bnd (quota_usage_update Q project_id user_id) (\<lambda>r. ret (map_option fst r)))
              (\<lambda>e. if e = PyException ''ProjectNotFound'' then ret (Some []) else raise e)) (\<lambda>total.
     case ENDPOINT_QUOTA_MAPPING endpoint_type of
       None \<Rightarrow> raise KeyError
     | Some desired \<Rightarrow> (case total of
         None \<Rightarrow> raise AttributeError
       | Some t \<Rightarrow> ret (filter (\<lambda>(k, v). k \<in> set desired) t))))"

section \<open>The limits\<close>

definition get_tenant_quota_limits_region ::
  "'x quota_env \<Rightarrow> string \<Rightarrow> string option \<Rightarrow> string \<Rightarrow> ('x quota_state, counter) io" where
  "get_tenant_quota_limits_region Q project_id user_id region =
     seq (qe_driver Q region)
     (bnd (qe_limits Q region project_id user_id) (\<lambda>(nova, neutron, cinder).
      ret (merge_dict (merge_dict (merge_dict [] nova) neutron) cinder)))"

definition get_overall_tenant_quota_limits ::
  "'x quota_env \<Rightarrow> string \<Rightarrow> string option \<Rightarrow> ('x quota_state, counter) io" where
  "get_overall_tenant_quota_limits Q project_id user_id =
     get_tenant_quota_limits_region Q project_id user_id MASTER_CLOUD"

text \<open>The limits of a project in the database, or else those of the configuration, without the
  prefix of their options.\<close>

function remove_all :: "string \<Rightarrow> string \<Rightarrow> string" where
  "remove_all pat [] = []"
| "remove_all pat (c # cs) =
     (if pat \<noteq> [] \<and> take (length pat) (c # cs) = pat then remove_all pat (drop (length pat) (c # cs))
      else c # remove_all pat cs)"
  by pat_completeness auto
termination by (relation "measure (\<lambda>(p, s). length s)") auto

definition get_dc_orch_project_limit ::
  "(string \<times> int) list \<Rightarrow> string \<Rightarrow> (odb, (string \<times> int option) list) io" where
  "get_dc_orch_project_limit conf project_id =
     bnd (try_catch (bnd (quota_get_all_by_project admin_context project_id) (\<lambda>(p, m). ret m))
            (\<lambda>e. case e of Dcorch (ProjectQuotaNotFound _) \<Rightarrow> ret Map.empty | _ \<Rightarrow> raise e)) (\<lambda>limits.
     ret (fold (\<lambda>(option, dflt). let r = remove_all ''quota_'' option
            in AList.update r (case limits r of Some l \<Rightarrow> l | None \<Rightarrow> Some dflt)) conf []))"

definition arrange_quotas_by_service_name :: "counter \<Rightarrow> (string \<times> counter) list" where
  "arrange_quotas_by_service_name region_new_limit =
     (let among = (\<lambda>fields. filter (\<lambda>(k, n). k \<in> set fields) region_new_limit)
      in [(''nova'', among NOVA_QUOTA_FIELDS), (''cinder'', among CINDER_QUOTA_FIELDS),
          (''neutron'', among NEUTRON_QUOTA_FIELDS)])"

definition update_quota_limits ::
  "'x quota_env \<Rightarrow> string \<Rightarrow> string option \<Rightarrow> (string \<times> counter) list \<Rightarrow> string \<Rightarrow> ('x quota_state, unit) io" where
  "update_quota_limits Q project_id user_id region_new_limit region =
     seq (qe_driver Q region) (qe_write Q region project_id user_id region_new_limit)"

section \<open>The synchronisation of the quotas of a project\<close>

text \<open>The new limits of a region: what is left of the global ones and what the region uses.\<close>

definition region_new_limits :: "counter \<Rightarrow> (string \<times> counter) list \<Rightarrow> string \<Rightarrow> counter" where
  "region_new_limits unused regions_usage_dict region =
     counter_add unused (case map_of regions_usage_dict region of None \<Rightarrow> [] | Some u \<Rightarrow> u)"

definition sync_region ::
  "'x quota_env \<Rightarrow> string option \<Rightarrow> string option \<Rightarrow> counter \<Rightarrow> (string \<times> counter) list \<Rightarrow> string \<Rightarrow>
   ('x quota_state, unit) io" where
  "sync_region Q qproject quser unused regions_usage_dict region =
     bnd (ids_in_subcloud Q qproject quser region) (\<lambda>ids. case ids of
       None \<Rightarrow> ret ()
     | Some (p, u) \<Rightarrow> seq (in_thread (update_quota_limits Q p u
         (arrange_quotas_by_service_name (region_new_limits unused regions_usage_dict region)) region)) (ret ()))"

definition quota_sync_for_project ::
  "'x quota_env \<Rightarrow> string \<Rightarrow> string option \<Rightarrow> ('x quota_state, unit) io" where
  "quota_sync_for_project Q project_id user_id =
     seq (qe_driver Q MASTER_CLOUD)
     (bnd (qe_regions Q project_id) (\<lambda>region_lists.
      bnd (quota_usage_update Q project_id user_id) (\<lambda>usages. case usages of
        None \<Rightarrow> ret ()
      | Some (used, regions_usage_dict) \<Rightarrow>
          bnd (get_overall_tenant_quota_limits Q project_id user_id) (\<lambda>limits.
          if MASTER_CLOUD \<notin> set region_lists then raise ValueError
          else
            bnd (qe_project_by_id Q project_id) (\<lambda>qproject.
            bnd (qe_user_by_id Q user_id) (\<lambda>quser.
            for_each (sync_region Q qproject quser (counter_sub limits used) regions_usage_dict)
              (remove1 MASTER_CLOUD region_lists)))))))"

section \<open>The audit\<close>

text \<open>A lock of \<open>threading\<close>, taken without waiting; three more tries, ten seconds apart.\<close>

definition try_lock :: "('x quota_state, bool) io" where
  "try_lock = bnd (gets qs_audit_lock) (\<lambda>held.
     if held then ret False else seq (modify (\<lambda>s. s\<lparr>qs_audit_lock := True\<rparr>)) (ret True))"

fun retry_lock :: "'x quota_env \<Rightarrow> nat \<Rightarrow> ('x quota_state, bool) io" where
  "retry_lock Q 0 = ret False"
| "retry_lock Q (Suc n) = seq (qe_sleep Q) (bnd try_lock (\<lambda>ok. if ok then ret True else retry_lock Q n))"

definition lock_retry_times :: nat where
  "lock_retry_times = 3"

definition quota_lock_acquire :: "'x quota_env \<Rightarrow> ('x quota_state, bool) io" where
  "quota_lock_acquire Q = bnd try_lock (\<lambda>ok. if ok then ret True else retry_lock Q lock_retry_times)"

definition quota_lock_release :: "('x quota_state, unit) io" where
  "quota_lock_release = bnd (gets qs_audit_lock) (\<lambda>held.
     if held then modify (\<lambda>s. s\<lparr>qs_audit_lock := False\<rparr>)
     else raise (PyException ''release unlocked lock''))"

text \<open>\<open>get_batch_projects\<close> of \<open>dcorch/common/utils.py\<close>: tuples of the batch's length, the last one filled up with None.\<close>

function orch_batch_projects :: "nat \<Rightarrow> 'a list \<Rightarrow> 'a option list list" where
  "orch_batch_projects n xs =
     (if n = 0 \<or> xs = [] then []
      else (map Some (take n xs) @ replicate (n - length (take n xs)) None) #
        orch_batch_projects n (drop n xs))"
  by pat_completeness auto
termination by (relation "measure (\<lambda>(n, xs). length xs)") auto

declare orch_batch_projects.simps [simp del]

definition batch_members :: "'a option list \<Rightarrow> 'a list" where
  "batch_members xs = map the (filter (\<lambda>x. x \<noteq> None) xs)"

definition get_projects_users_with_modified_quotas ::
  "'x quota_env \<Rightarrow> ('x quota_state, quota_key list) io" where
  "get_projects_users_with_modified_quotas Q =
     seq (qe_driver Q MASTER_CLOUD)
     (try_catch (bnd (qe_modified Q) (\<lambda>qs. ret (remdups (concat (map (\<lambda>(p, us). map (\<lambda>u. (p, Some u)) us) qs)))))
        (\<lambda>e. if e = AttributeError then ret [] else raise e))"

text \<open>An entry of both caches is removed.\<close>

definition forget_key :: "quota_key \<Rightarrow> ('x quota_state, unit) io" where
  "forget_key k =
     seq (modify (\<lambda>s. s\<lparr>qs_caches := (qs_caches s)\<lparr>qc_regions := AList.delete k (qc_regions (qs_caches s))\<rparr>\<rparr>))
     (bnd (gets (\<lambda>s. k \<in> fst ` set (qc_total (qs_caches s)))) (\<lambda>there.
      if there
      then modify (\<lambda>s. s\<lparr>qs_caches := (qs_caches s)\<lparr>qc_total := AList.delete k (qc_total (qs_caches s))\<rparr>\<rparr>)
      else raise KeyError))"

text \<open>Everything that is not in the list of modified quotas goes, those of the projects included.\<close>

definition forget_others :: "quota_key list \<Rightarrow> ('x quota_state, unit) io" where
  "forget_others kept =
     bnd (gets (\<lambda>s. map fst (qc_regions (qs_caches s)))) (\<lambda>ks.
     for_each forget_key (filter (\<lambda>k. k \<notin> set kept) ks))"

text \<open>The threads of a batch are joined as soon as they are started.\<close>

definition sync_key :: "'x quota_env \<Rightarrow> quota_key \<Rightarrow> ('x quota_state, unit) io" where
  "sync_key Q = (\<lambda>(project_id, user_id).
     if project_id = [] then ret ()
     else seq (in_thread (quota_sync_for_project Q project_id user_id)) (ret ()))"

definition periodic_balance_all :: "nat \<Rightarrow> 'x quota_env \<Rightarrow> ('x quota_state, unit) io" where
  "periodic_balance_all batch_size Q =
     bnd (quota_lock_acquire Q) (\<lambda>lock.
     if \<not> lock then ret ()
     else
       seq (qe_driver Q MASTER_CLOUD)
       (bnd (qe_enabled_projects Q) (\<lambda>projects. case projects of
          None \<Rightarrow> raise TypeError
        | Some ps \<Rightarrow>
            bnd (get_projects_users_with_modified_quotas Q) (\<lambda>modified.
            seq (forget_others modified)
            (seq (for_each (\<lambda>batch. for_each (sync_key Q) (batch_members batch))
                   (orch_batch_projects batch_size (map (\<lambda>p. (p, None)) ps @ modified)))
              quota_lock_release)))))"

section \<open>Quotas that a user gives\<close>

text \<open>\<open>validate_quota_limits\<close> on a dictionary: only known resources, only positive numbers.\<close>

definition validate_quota_limits :: "dict \<Rightarrow> exn + unit" where
  "validate_quota_limits payload =
     (if list_all (\<lambda>(rsrc, v).
           rsrc \<in> set (CINDER_QUOTA_FIELDS @ NOVA_QUOTA_FIELDS @ NEUTRON_QUOTA_FIELDS) \<and>
           (case json_int v of None \<Rightarrow> False | Some n \<Rightarrow> 0 < n)) payload
      then Inr () else Inl (Dcorch InvalidInputError))"

end
