(* ===== verification/DO_QuotaProps.thy ===== *)
theory DO_QuotaProps
  imports DO_Quota DO_Lemmas
begin

text \<open>
  The quotas: what the arithmetic of the counters gives each subcloud, and what becomes of quotas
  that are not positive; that nothing is ever read or written with the drivers as they are; and
  that the lock of the audit stays taken when keystone fails.
\<close>

section \<open>Counters\<close>

definition keyed :: "(string \<times> 'v) list \<Rightarrow> bool" where
  "keyed c \<longleftrightarrow> distinct (map fst c)"

lemma map_of_keep: "distinct (map fst c) \<Longrightarrow>
    map_of (keep_positive c) k = (case map_of c k of Some n \<Rightarrow> if 0 < n then Some n else None | None \<Rightarrow> None)"
  by (induction c) (auto simp: keep_positive_def map_of_eq_None_iff split: option.splits)

lemma fst_change [simp]: "fst \<circ> (\<lambda>(k, n). (k, f k n)) = fst"
  by (auto simp: fun_eq_iff)

lemma map_of_change: "map_of (map (\<lambda>(k, n). (k, f k n)) c) k = map_option (f k) (map_of c k)"
  by (induction c) auto

lemma map_of_others: "map_of (filter (\<lambda>(k, n). P k) c) k = (if P k then map_of c k else None)"
  by (induction c) auto

lemma distinct_others: "distinct (map fst c) \<Longrightarrow> distinct (map fst (filter P c))"
  by (induction c) auto

lemma counts_iff: "counts c k \<longleftrightarrow> map_of c k \<noteq> None"
  by (auto simp: counts_def map_of_eq_None_iff)

lemma cnt_append: "cnt (a @ b) k = (if counts a k then cnt a k else cnt b k)"
  by (auto simp: cnt_def counts_iff map_add_def split: option.splits)

lemma cnt_map_of: "cnt c k = (case map_of c k of None \<Rightarrow> 0 | Some n \<Rightarrow> n)"
  by (rule cnt_def)

lemma counter_add_map:
  assumes "keyed a" and "keyed b"
  shows "map_of (counter_add a b) k = (if 0 < cnt a k + cnt b k then Some (cnt a k + cnt b k) else None)"
proof -
  have "map_of (keep_positive (map (\<lambda>(k, n). (k, n + cnt b k)) a)) k =
      (case map_of a k of None \<Rightarrow> None | Some n \<Rightarrow> if 0 < n + cnt b k then Some (n + cnt b k) else None)"
    using assms(1) by (subst map_of_keep) (simp_all add: keyed_def map_of_change split: option.splits)
  moreover have "map_of (keep_positive (filter (\<lambda>(k, n). \<not> counts a k) b)) k =
      (if counts a k then None else case map_of b k of None \<Rightarrow> None | Some n \<Rightarrow> if 0 < n then Some n else None)"
    using assms(2) by (subst map_of_keep) (simp_all add: keyed_def distinct_others map_of_others)
  ultimately show ?thesis
    by (auto simp: counter_add_def map_add_def cnt_map_of counts_iff split: option.splits)
qed

lemma counter_sub_map:
  assumes "keyed a" and "keyed b"
  shows "map_of (counter_sub a b) k = (if 0 < cnt a k - cnt b k then Some (cnt a k - cnt b k) else None)"
proof -
  have "map_of (keep_positive (map (\<lambda>(k, n). (k, n - cnt b k)) a)) k =
      (case map_of a k of None \<Rightarrow> None | Some n \<Rightarrow> if 0 < n - cnt b k then Some (n - cnt b k) else None)"
    using assms(1) by (subst map_of_keep) (simp_all add: keyed_def map_of_change split: option.splits)
  moreover have "map_of (keep_positive (map (\<lambda>(k, n). (k, - n)) (filter (\<lambda>(k, n). \<not> counts a k) b))) k =
      (if counts a k then None else case map_of b k of None \<Rightarrow> None | Some n \<Rightarrow> if n < 0 then Some (- n) else None)"
    using assms(2)
    by (subst map_of_keep)
      (simp_all add: keyed_def distinct_others map_of_others map_of_change split: option.splits)
  ultimately show ?thesis
    by (auto simp: counter_sub_def map_add_def cnt_map_of counts_iff split: option.splits)
qed

lemma cnt_add: "keyed a \<Longrightarrow> keyed b \<Longrightarrow> cnt (counter_add a b) k = max 0 (cnt a k + cnt b k)"
  by (simp add: cnt_map_of [of "counter_add a b"] counter_add_map max_def)

lemma cnt_sub: "keyed a \<Longrightarrow> keyed b \<Longrightarrow> cnt (counter_sub a b) k = max 0 (cnt a k - cnt b k)"
  by (simp add: cnt_map_of [of "counter_sub a b"] counter_sub_map max_def)

lemma keys_keep: "fst ` set (keep_positive c) \<subseteq> fst ` set c"
  by (auto simp: keep_positive_def)

lemma keyed_keep: "keyed c \<Longrightarrow> keyed (keep_positive c)"
  by (simp add: keyed_def keep_positive_def distinct_others)

lemma keyed_append: "keyed a \<Longrightarrow> keyed b \<Longrightarrow> fst ` set a \<inter> fst ` set b = {} \<Longrightarrow> keyed (a @ b)"
  by (simp add: keyed_def)

lemma keyed_sub:
  assumes "keyed a" and "keyed b"
  shows "keyed (counter_sub a b)"
proof -
  have "keyed (map (\<lambda>(k, n). (k, n - cnt b k)) a)"
    "keyed (map (\<lambda>(k, n). (k, - n)) (filter (\<lambda>(k, n). \<not> counts a k) b))"
    using assms by (simp_all add: keyed_def distinct_others)
  then show ?thesis
    unfolding counter_sub_def
    by (intro keyed_append keyed_keep) (force simp: keep_positive_def counts_def)+
qed

lemma keyed_iadd: "keyed a \<Longrightarrow> keyed (counter_iadd a b)"
proof -
  have "keyed a \<Longrightarrow> keyed (fold (\<lambda>(k, n) c. AList.update k (cnt c k + n) c) b a)"
    by (induction b arbitrary: a) (auto simp: keyed_def AList.distinct_update)
  then show "keyed a \<Longrightarrow> ?thesis" by (simp add: counter_iadd_def keyed_keep)
qed

lemma cnt_update: "cnt (AList.update k n c) k' = (if k' = k then n else cnt c k')"
  by (simp add: cnt_def AList.update_conv')

lemma cnt_fold_update:
  "keyed b \<Longrightarrow> cnt (fold (\<lambda>(k, n) c. AList.update k (cnt c k + n) c) b a) k = cnt a k + cnt b k"
proof (induction b arbitrary: a)
  case (Cons x b)
  obtain k' n where x: "x = (k', n)" by fastforce
  have "keyed b" and k': "map_of b k' = None"
    using Cons.prems by (auto simp: keyed_def x map_of_eq_None_iff)
  then show ?case using Cons.IH [of "AList.update k' (cnt a k' + n) a"]
    by (simp add: x cnt_update) (simp add: cnt_def)
qed (simp add: cnt_def)

lemma cnt_keep: "keyed c \<Longrightarrow> cnt (keep_positive c) k = max 0 (cnt c k)"
  by (simp add: cnt_def keyed_def map_of_keep max_def split: option.splits)

lemma cnt_iadd: "keyed a \<Longrightarrow> keyed b \<Longrightarrow> cnt (counter_iadd a b) k = max 0 (cnt a k + cnt b k)"
proof -
  assume k: "keyed a" "keyed b"
  have "keyed a \<Longrightarrow> keyed (fold (\<lambda>(k, n) c. AList.update k (cnt c k + n) c) b a)"
    by (induction b arbitrary: a) (auto simp: keyed_def AList.distinct_update)
  then show ?thesis using k by (simp add: counter_iadd_def cnt_keep cnt_fold_update)
qed

text \<open>Usages as the regions give them: no number is negative.\<close>

definition usage_ok :: "counter \<Rightarrow> bool" where
  "usage_ok c \<longleftrightarrow> keyed c \<and> list_all (\<lambda>(k, n). 0 \<le> n) c"

lemma usage_cnt: "usage_ok c \<Longrightarrow> 0 \<le> cnt c k"
  by (auto simp: usage_ok_def cnt_def list_all_iff split: option.splits dest!: map_of_SomeD)

definition usage_of :: "(string \<times> counter) list \<Rightarrow> string \<Rightarrow> int" where
  "usage_of regs k = sum_list (map (\<lambda>(r, c). cnt c k) regs)"

lemma usage_of_nonneg: "\<forall>(r, c) \<in> set regs. usage_ok c \<Longrightarrow> 0 \<le> usage_of regs k"
  unfolding usage_of_def by (rule sum_list_nonneg) (auto simp: usage_cnt)

lemma summation_fold:
  assumes "\<forall>(r, c) \<in> set regs. usage_ok c" and "keyed a" and "0 \<le> cnt a k"
  shows "keyed (fold (\<lambda>(region, usage) c. counter_iadd c usage) regs a) \<and>
    cnt (fold (\<lambda>(region, usage) c. counter_iadd c usage) regs a) k = cnt a k + usage_of regs k"
  using assms
proof (induction regs arbitrary: a)
  case (Cons x regs)
  obtain r c where x: "x = (r, c)" by fastforce
  have c: "usage_ok c" "keyed c" using Cons.prems(1) by (auto simp: x usage_ok_def)
  have "cnt (counter_iadd a c) k = cnt a k + cnt c k" "keyed (counter_iadd a c)"
    using cnt_iadd [OF Cons.prems(2) c(2)] usage_cnt [OF c(1), of k] Cons.prems(3) keyed_iadd [OF Cons.prems(2)]
    by simp_all
  then show ?case
    using Cons.IH [of "counter_iadd a c"] Cons.prems usage_cnt [OF c(1), of k] by (simp add: x usage_of_def)
qed (simp add: usage_of_def)

lemma summation:
  assumes "\<forall>(r, c) \<in> set regs. usage_ok c"
  shows "keyed (get_summation regs)" "cnt (get_summation regs) k = usage_of regs k"
  using summation_fold [OF assms, of "[]" k] by (simp_all add: get_summation_def keyed_def cnt_def)

lemma unmanaged:
  assumes "\<forall>(r, c) \<in> set regs. usage_ok c" and "k \<notin> set QUOTAS_FOR_MANAGED_RESOURCES"
  shows "\<forall>(r, c) \<in> set (map without_managed regs). usage_ok c"
    "usage_of (map without_managed regs) k = usage_of regs k"
proof -
  have *: "usage_ok c \<Longrightarrow> usage_ok (filter (\<lambda>(k, n). k \<notin> M) c)" for c M
    by (auto simp: usage_ok_def keyed_def distinct_others list_all_iff)
  show "\<forall>(r, c) \<in> set (map without_managed regs). usage_ok c"
    using assms(1) * by (fastforce simp: without_managed_def split: if_splits)
  have "cnt (snd (without_managed x)) k = cnt (snd x) k" for x
    using assms(2) by (auto simp: without_managed_def cnt_def map_of_others split: prod.splits)
  then show "usage_of (map without_managed regs) k = usage_of regs k"
    by (simp add: usage_of_def split_def comp_def)
qed

lemma usage_of_but_one:
  assumes "distinct (map fst regs)" and "map_of regs r = Some c"
  shows "usage_of (filter (\<lambda>(r', c). r' \<noteq> r) regs) k = usage_of regs k - cnt c k"
  using assms
proof (induction regs)
  case (Cons x regs)
  obtain r' c' where x: "x = (r', c')" by fastforce
  show ?case
  proof (cases "r' = r")
    case True
    then have "filter (\<lambda>(r', c). r' \<noteq> r) regs = regs"
      using Cons.prems(1) by (force simp: x filter_id_conv)
    then show ?thesis using True Cons.prems(2) by (simp add: x usage_of_def)
  next
    case False
    then show ?thesis using Cons by (simp add: x usage_of_def)
  qed
qed simp

lemma merge_dict_keyed: "distinct (map fst d) \<Longrightarrow> distinct (map fst (merge_dict d e))"
  unfolding merge_dict_def
  by (induction e arbitrary: d) (auto simp: AList.distinct_update)

section \<open>What a subcloud is given\<close>

lemma to_counter_keys: "to_counter d = Inr g \<Longrightarrow> map fst g = map fst d"
  by (induction d arbitrary: g) (auto split: option.splits sum.splits)

lemma usage_recorded:
  assumes "quota_usage_update Q p u s = (Inr (Some (t, regs)), s')"
  shows "t = get_summation (map without_managed regs)" "distinct (map fst regs)"
    "map_of (qc_total (qs_caches s')) (p, u) = Some t" "map_of (qc_regions (qs_caches s')) (p, u) = Some regs"
proof -
  obtain s1 where g: "get_tenant_quota_usage_per_region Q p u s = (Inr regs, s1)"
    and t: "t = get_summation (map without_managed regs)"
    and s': "qs_caches s' = \<lparr>qc_total = AList.update (p, u) t (qc_total (qs_caches s1)),
      qc_regions = AList.update (p, u) regs (qc_regions (qs_caches s1))\<rparr>"
    using assms
    by (auto simp: quota_usage_update_def bnd_apply seq_apply Let_def split: prod.splits sum.splits if_splits)
  show "t = get_summation (map without_managed regs)" by (rule t)
  have "returns (get_tenant_quota_usage_per_region Q p u) (\<lambda>r. distinct (map fst r))"
    unfolding get_tenant_quota_usage_per_region_def
    by (intro returns_intros) (simp add: merge_dict_keyed)
  then show "distinct (map fst regs)" using g by (rule returnsD)
  show "map_of (qc_total (qs_caches s')) (p, u) = Some t" "map_of (qc_regions (qs_caches s')) (p, u) = Some regs"
    by (simp_all add: s' AList.update_conv')
qed

lemma region_part:
  assumes "region_usage regions r ks = Inr us" and "distinct ks" and "k \<in> set ks"
    and "regions = Some regs" and "map_of regs r = Some c"
  shows "keyed us" "cnt us k = cnt c k"
  using assms
  by (auto simp: region_usage_def keyed_def comp_def cnt_def map_of_map_restrict restrict_map_def
      split: if_splits)

text \<open>A subcloud that uses up the limit it is given takes its project to the global quota and not
  beyond it: with the usages the audit has just recorded, the limit calculated for the subcloud and
  what the other regions use together are the global quota, or the usage there is already when
  that is more. The resources that the orchestrator itself keeps the same everywhere are counted
  once and are left out of this.\<close>

theorem subcloud_limit_fills_quota:
  assumes "quota_usage_update Q p u s = (Inr (Some (t, regs)), s')" and "\<forall>(r, c) \<in> set regs. usage_ok c"
    and "map_of regs r = Some c" and "to_counter quotas = Inr g" and "distinct (map fst quotas)"
    and "k \<in> fst ` set quotas" and "k \<notin> set QUOTAS_FOR_MANAGED_RESOURCES"
    and "calculate_subcloud_project_quotas (qs_caches s') p u quotas r = Inr lim"
  shows "usage_of (filter (\<lambda>(r', c). r' \<noteq> r) regs) k + cnt lim k = max (cnt g k) (usage_of regs k)"
proof -
  note rec = usage_recorded [OF assms(1)]
  note ks = to_counter_keys [OF assms(4)]
  have g: "keyed g" using assms(5) by (simp add: keyed_def ks)
  have "keyed t" "cnt t k = usage_of regs k"
    using summation(1) [OF unmanaged(1) [OF assms(2,7)]] summation(2) [OF unmanaged(1) [OF assms(2,7)], of k]
      unmanaged(2) [OF assms(2,7)] by (simp_all add: rec(1))
  then have unused: "keyed (counter_sub g t)" "cnt (counter_sub g t) k = max 0 (cnt g k - usage_of regs k)"
    using g by (simp_all add: keyed_sub cnt_sub)
  obtain us where us: "region_usage (Some regs) r (map fst g) = Inr us" and lim: "lim = counter_add (counter_sub g t) us"
    using assms(8) by (auto simp: calculate_subcloud_project_quotas_def assms(4) rec Let_def split: sum.splits)
  have "keyed us" "cnt us k = cnt c k"
    using region_part [OF us _ _ refl assms(3), of k] assms(5,6) by (simp_all add: ks)
  moreover have "0 \<le> cnt c k" using assms(2,3) by (fastforce intro: usage_cnt dest: map_of_SomeD)
  ultimately have "cnt lim k = max 0 (cnt g k - usage_of regs k) + cnt c k"
    using unused by (simp add: lim cnt_add)
  then show ?thesis by (simp add: usage_of_but_one [OF rec(2) assms(3)] max_def)
qed

text \<open>A project with usages in two regions.\<close>

definition ex_quotas :: "unit quota_env" where
  "ex_quotas = \<lparr>qe_driver = (\<lambda>_. ret ()), qe_enabled_projects = ret None, qe_modified = ret [],
     qe_regions = (\<lambda>_. ret [''SystemController'', ''alpha'']), qe_project_by_id = (\<lambda>_. ret (Some ''admin'')),
     qe_user_by_id = (\<lambda>_. ret None), qe_project_by_name = (\<lambda>_ n. ret (Some n)),
     qe_user_by_name = (\<lambda>_ _. ret None),
     qe_usages = (\<lambda>r _ _. ret ([(''cores'', if r = ''alpha'' then 3 else 4)], [], [])),
     qe_limits = (\<lambda>_ _ _. ret ([(''cores'', 10)], [], [])), qe_write = (\<lambda>_ _ _ _. ret ()), qe_sleep = ret ()\<rparr>"

definition ex_quota_state :: "unit quota_state" where
  "ex_quota_state = \<lparr>qs_caches = \<lparr>qc_total = [], qc_regions = []\<rparr>, qs_audit_lock = False, qs_ext = ()\<rparr>"

abbreviation ex_usages :: "(string \<times> counter) list" where
  "ex_usages \<equiv> [(''SystemController'', [(''cores'', 4)]), (''alpha'', [(''cores'', 3)])]"

abbreviation ex_quota_run :: "(exn + (counter \<times> (string \<times> counter) list) option) \<times> unit quota_state" where
  "ex_quota_run \<equiv> quota_usage_update ex_quotas ''p1'' None ex_quota_state"

lemma ex_quota_run_ok: "fst ex_quota_run = Inr (Some ([(''cores'', 7)], ex_usages))"
  by code_simp

lemma ex_quota_limit:
  "calculate_subcloud_project_quotas (qs_caches (snd ex_quota_run)) ''p1'' None [(''cores'', JNumber 10)] ''alpha''
   = Inr [(''cores'', 6)]"
  by code_simp

theorem subcloud_limit_fills_quota_witness:
  "usage_of (filter (\<lambda>(r, c). r \<noteq> ''alpha'') ex_usages) ''cores'' + cnt [(''cores'', 6)] ''cores'' =
   max (cnt [(''cores'', 10)] ''cores'') (usage_of ex_usages ''cores'')"
proof -
  have run: "ex_quota_run = (Inr (Some ([(''cores'', 7)], ex_usages)), snd ex_quota_run)"
    by (rule prod_eqI) (simp_all only: ex_quota_run_ok fst_conv snd_conv)
  show ?thesis
    by (rule subcloud_limit_fills_quota [OF run _ _ _ _ _ _ ex_quota_limit])
      (simp_all add: usage_ok_def keyed_def QUOTAS_FOR_MANAGED_RESOURCES_def)
qed

text \<open>A quota that is not above the usage recorded for the project, as any quota of 0 and every
  unlimited one (-1), is left out of what a subcloud that uses nothing of it is sent, so that the
  subcloud keeps the limit it had before; what a subcloud uses already becomes its limit.\<close>

theorem small_quota_left_out:
  assumes "calculate_subcloud_project_quotas C p u quotas r = Inr lim"
    and "to_counter quotas = Inr g" and "distinct (map fst quotas)"
    and "map_of (qc_total C) (p, u) = Some t" and "keyed t" and "cnt g k \<le> cnt t k"
    and "map_of (qc_regions C) (p, u) = Some regs" and "map_of regs r = Some c" and "k \<in> fst ` set quotas"
  shows "(counts lim k \<longleftrightarrow> 0 < cnt c k) \<and> cnt lim k = max 0 (cnt c k)"
proof -
  have g: "keyed g" and ks: "map fst g = map fst quotas"
    using assms(3) to_counter_keys [OF assms(2)] by (simp_all add: keyed_def)
  obtain us where us: "region_usage (Some regs) r (map fst g) = Inr us" and lim: "lim = counter_add (counter_sub g t) us"
    using assms(1) by (auto simp: calculate_subcloud_project_quotas_def assms(2,4,7) Let_def split: sum.splits)
  have u: "keyed us" "cnt us k = cnt c k"
    using region_part [OF us _ _ refl assms(8), of k] assms(3,9) by (simp_all add: ks)
  have m: "keyed (counter_sub g t)" "cnt (counter_sub g t) k = 0"
    using cnt_sub [OF g assms(5), of k] assms(6) by (simp_all add: keyed_sub g assms(5))
  show ?thesis using u m by (simp_all add: lim cnt_add counts_iff counter_add_map)
qed

theorem small_quota_left_out_witness:
  "(counts [(''ram'', 6)] ''cores'' \<longleftrightarrow> 0 < cnt [(''cores'', 0), (''ram'', 2)] ''cores'') \<and>
   cnt [(''ram'', 6)] ''cores'' = max 0 (cnt [(''cores'', 0), (''ram'', 2)] ''cores'')"
proof -
  let ?C = "\<lparr>qc_total = [((''p1'', None), [(''cores'', 4), (''ram'', 6)])],
    qc_regions = [((''p1'', None), [(''SystemController'', [(''cores'', 4), (''ram'', 4)]), (''alpha'', [(''cores'', 0), (''ram'', 2)])])]\<rparr>"
  have run: "calculate_subcloud_project_quotas ?C ''p1'' None [(''cores'', JNumber (- 1)), (''ram'', JNumber 10)] ''alpha''
    = Inr [(''ram'', 6)]" by code_simp
  have g: "to_counter [(''cores'', JNumber (- 1)), (''ram'', JNumber 10)] = Inr [(''cores'', - 1), (''ram'', 10)]"
    by simp
  show ?thesis
    by (rule small_quota_left_out [OF run g, where t = "[(''cores'', 4), (''ram'', 6)]" and
          regs = "[(''SystemController'', [(''cores'', 4), (''ram'', 4)]), (''alpha'', [(''cores'', 0), (''ram'', 2)])]"])
      (code_simp+)
qed

section \<open>The drivers as they are\<close>

text \<open>The calls of the drivers do not touch the manager's state.\<close>

definition leaves_manager :: "('x quota_state, 'a) io \<Rightarrow> bool" where
  "leaves_manager m \<longleftrightarrow>
     (\<forall>s. qs_caches (snd (m s)) = qs_caches s \<and> qs_audit_lock (snd (m s)) = qs_audit_lock s)"

definition quota_outside :: "'x quota_env \<Rightarrow> bool" where
  "quota_outside Q \<longleftrightarrow>
     (\<forall>r. leaves_manager (qe_driver Q r)) \<and> leaves_manager (qe_enabled_projects Q) \<and>
     (\<forall>p. leaves_manager (qe_regions Q p)) \<and> (\<forall>p. leaves_manager (qe_project_by_id Q p)) \<and>
     (\<forall>u. leaves_manager (qe_user_by_id Q u)) \<and> (\<forall>r n. leaves_manager (qe_project_by_name Q r n)) \<and>
     (\<forall>r n. leaves_manager (qe_user_by_name Q r n)) \<and> leaves_manager (qe_sleep Q)"

definition caches_are :: "quota_caches \<Rightarrow> 'x quota_state \<Rightarrow> bool" where
  "caches_are C s \<longleftrightarrow> qs_caches s = C"

lemma keeps_leaves_manager: "leaves_manager m \<Longrightarrow> keeps (caches_are C) m"
  by (simp add: keeps_def leaves_manager_def caches_are_def)

lemma quota_calls:
  assumes "quota_outside Q"
  shows "keeps (caches_are C) (qe_driver Q r)" "keeps (caches_are C) (qe_enabled_projects Q)"
    "keeps (caches_are C) (qe_regions Q p)" "keeps (caches_are C) (qe_project_by_id Q p)"
    "keeps (caches_are C) (qe_user_by_id Q u)" "keeps (caches_are C) (qe_project_by_name Q r n)"
    "keeps (caches_are C) (qe_user_by_name Q r n)" "keeps (caches_are C) (qe_sleep Q)"
  using assms unfolding quota_outside_def by (auto intro: keeps_leaves_manager)

lemma sdk_calls [simp]:
  "qe_driver (sdk_quotas Q) = qe_driver Q" "qe_enabled_projects (sdk_quotas Q) = qe_enabled_projects Q"
  "qe_regions (sdk_quotas Q) = qe_regions Q" "qe_project_by_id (sdk_quotas Q) = qe_project_by_id Q"
  "qe_user_by_id (sdk_quotas Q) = qe_user_by_id Q" "qe_project_by_name (sdk_quotas Q) = qe_project_by_name Q"
  "qe_user_by_name (sdk_quotas Q) = qe_user_by_name Q" "qe_sleep (sdk_quotas Q) = qe_sleep Q"
  "qe_usages (sdk_quotas Q) = get_resource_usages" "qe_limits (sdk_quotas Q) = get_quota_limits"
  "qe_write (sdk_quotas Q) = write_quota_limits" "qe_modified (sdk_quotas Q) = raise AttributeError"
  by (simp_all add: sdk_quotas_def)

lemma keeps_in_thread [keeps_intros]: "keeps I m \<Longrightarrow> keeps I (in_thread m)"
  by (auto simp: in_thread_def intro!: keeps_intros split: sum.splits)

lemma caches_ids:
  assumes "quota_outside Q"
  shows "keeps (caches_are C) (ids_in_subcloud Q qp qu r)"
  unfolding ids_in_subcloud_def by (intro keeps_intros quota_calls [OF assms])

lemma usage_not_read: "fst (read_quota_usage (sdk_quotas Q) p u r s) \<in> range Inl"
  by (auto simp: read_quota_usage_def get_resource_usages_def seq_apply split: prod.splits sum.splits)

lemma thread_gives_none:
  assumes "fst (m s) \<in> range Inl"
  shows "in_thread m s = (Inr None, snd (m s))"
  using assms by (auto simp: in_thread_def bnd_apply outcome_apply split: sum.splits)

lemma nothing_read: "returns (read_regions (sdk_quotas Q) qp qu rs) (\<lambda>usages. usages = [])"
proof (induction rs)
  case Nil
  show ?case unfolding read_regions.simps by (rule returns_ret) (rule refl)
next
  case (Cons r rs)
  show ?case
    unfolding returns_def
  proof (intro allI impI)
    fix s x t assume run: "read_regions (sdk_quotas Q) qp qu (r # rs) s = (Inr x, t)"
    then obtain ids s1 here s2 rest s3 where
      "(case ids of None \<Rightarrow> ret None | Some (p, u) \<Rightarrow> in_thread (read_quota_usage (sdk_quotas Q) p u r)) s1 = (Inr here, s2)"
      and rest: "read_regions (sdk_quotas Q) qp qu rs s2 = (Inr rest, s3)"
      and x: "x = (case here of None \<Rightarrow> rest | Some y \<Rightarrow> y # rest)"
      by (auto simp: bnd_apply split: prod.splits sum.splits)
    then have "here = None"
      by (auto simp: thread_gives_none [OF usage_not_read] split: option.splits prod.splits)
    then show "x = []" using returnsD [OF Cons.IH rest] x by simp
  qed
qed

lemma no_usage: "returns (get_tenant_quota_usage_per_region (sdk_quotas Q) p u) (\<lambda>r. r = [])"
  unfolding returns_def get_tenant_quota_usage_per_region_def
proof (intro allI impI)
  fix s x t
  assume "seq (qe_driver (sdk_quotas Q) MASTER_CLOUD) (bnd (qe_regions (sdk_quotas Q) p) (\<lambda>region_lists.
      bnd (qe_project_by_id (sdk_quotas Q) p) (\<lambda>qproject. bnd (qe_user_by_id (sdk_quotas Q) u) (\<lambda>quser.
      bnd (read_regions (sdk_quotas Q) qproject quser region_lists) (\<lambda>usage_queue.
      ret (if length region_lists = length usage_queue then merge_dict [] usage_queue else [])))))) s = (Inr x, t)"
  then obtain a b rs s1 us s2 where "read_regions (sdk_quotas Q) a b rs s1 = (Inr us, s2)"
    and x: "x = (if length rs = length us then merge_dict [] us else [])"
    by (auto simp: bnd_apply seq_apply split: prod.splits sum.splits)
  then have "us = []" using returnsD [OF nothing_read] by blast
  then show "x = []" using x by (simp add: merge_dict_def)
qed

lemma keeps_read_regions:
  assumes "quota_outside Q"
  shows "keeps (caches_are C) (read_regions (sdk_quotas Q) qp qu rs)"
proof (induction rs)
  case Nil
  show ?case unfolding read_regions.simps by (rule keeps_intros)
next
  case (Cons r rs)
  have "keeps (caches_are C) (ids_in_subcloud (sdk_quotas Q) qp qu r)"
    unfolding ids_in_subcloud_def by (intro keeps_intros) (simp_all add: quota_calls [OF assms])
  moreover have "keeps (caches_are C) (read_quota_usage (sdk_quotas Q) p u r)" for p u
    unfolding read_quota_usage_def sdk_calls get_resource_usages_def
    by (intro keeps_intros quota_calls [OF assms])
  ultimately show ?case
    unfolding read_regions.simps by (intro keeps_intros Cons.IH)
qed

lemma usage_update_idle:
  assumes "quota_outside Q"
  shows "keeps (caches_are C) (quota_usage_update (sdk_quotas Q) p u)"
    "returns (quota_usage_update (sdk_quotas Q) p u) (\<lambda>r. r = None)"
proof -
  have "keeps (caches_are C) (get_tenant_quota_usage_per_region (sdk_quotas Q) p u)"
    unfolding get_tenant_quota_usage_per_region_def
    by (intro keeps_intros keeps_read_regions assms) (simp_all add: quota_calls [OF assms])
  then show "keeps (caches_are C) (quota_usage_update (sdk_quotas Q) p u)"
    unfolding quota_usage_update_def
    by (rule keeps_bnd_result) (use no_usage in \<open>auto dest: returnsD\<close>)
  show "returns (quota_usage_update (sdk_quotas Q) p u) (\<lambda>r. r = None)"
    unfolding returns_def quota_usage_update_def
    using no_usage by (auto simp: bnd_apply dest: returnsD split: prod.splits sum.splits if_splits)
qed

text \<open>With the drivers as they are, no quota is ever balanced: the synchronisation of the quotas
  of a project stops before it computes a limit, because no usage can be read, and records nothing;
  as the record stays empty, no question for the usage of a project is ever answered with a usage.\<close>

theorem quotas_never_balanced:
  assumes "quota_outside Q" and "qc_total (qs_caches s) = []"
  shows "qs_caches (snd (quota_sync_for_project (sdk_quotas Q) p u s)) = qs_caches s \<and>
    fst (get_usage_for_project_and_user (sdk_quotas Q) endpoint p u s) \<in> insert (Inr []) (range Inl)"
proof
  have "keeps (caches_are C) (quota_sync_for_project (sdk_quotas Q) p u)" for C
    unfolding quota_sync_for_project_def get_overall_tenant_quota_limits_def get_tenant_quota_limits_region_def
      sync_region_def update_quota_limits_def get_quota_limits_def write_quota_limits_def ids_in_subcloud_def sdk_calls
    by (intro keeps_intros usage_update_idle quota_calls assms)
  then show "qs_caches (snd (quota_sync_for_project (sdk_quotas Q) p u s)) = qs_caches s"
    unfolding keeps_def caches_are_def by blast
  have *: "returns (bnd m f) R" if "returns m (\<lambda>t. t = None \<or> t = Some [])" "returns (f None) R" "returns (f (Some [])) R"
    for m :: "('a quota_state, counter option) io" and f :: "counter option \<Rightarrow> ('a quota_state, counter) io" and R
    using that unfolding returns_def by (auto simp: bnd_apply split: prod.splits sum.splits) blast+
  have "returns (try_catch (bnd (quota_usage_update (sdk_quotas Q) p u) (\<lambda>r. ret (map_option fst r)))
      (\<lambda>e. if e = PyException ''ProjectNotFound'' then ret (Some []) else raise e)) (\<lambda>t. t = None \<or> t = Some [])"
  proof (rule returns_try_catch)
    show "returns (bnd (quota_usage_update (sdk_quotas Q) p u) (\<lambda>r. ret (map_option fst r))) (\<lambda>t. t = None \<or> t = Some [])"
      using usage_update_idle(2) [of Q p u, OF assms(1)] unfolding returns_def
      by (auto simp: bnd_apply split: prod.splits sum.splits)
  qed (simp add: returns_ret returns_raise)
  then have "returns (bnd (try_catch (bnd (quota_usage_update (sdk_quotas Q) p u) (\<lambda>r. ret (map_option fst r)))
      (\<lambda>e. if e = PyException ''ProjectNotFound'' then ret (Some []) else raise e)) (\<lambda>total.
     case ENDPOINT_QUOTA_MAPPING endpoint of None \<Rightarrow> raise KeyError
     | Some desired \<Rightarrow> (case total of None \<Rightarrow> raise AttributeError
       | Some t \<Rightarrow> ret (filter (\<lambda>(k, v). k \<in> set desired) t)))) (\<lambda>t. t = [])" (is "returns ?m _")
    by (rule *) (auto intro!: returns_intros)
  moreover have "get_usage_for_project_and_user (sdk_quotas Q) endpoint p u s = ?m s"
    by (simp add: get_usage_for_project_and_user_def bnd_apply [of "gets f" for f] assms(2))
  ultimately show "fst (get_usage_for_project_and_user (sdk_quotas Q) endpoint p u s) \<in> insert (Inr []) (range Inl)"
    by (cases "?m s"; cases "fst (?m s)") (auto dest: returnsD)
qed

lemma ex_quota_outside: "quota_outside ex_quotas"
  by (simp add: quota_outside_def ex_quotas_def leaves_manager_def)

theorem quotas_never_balanced_witness:
  "qs_caches (snd (quota_sync_for_project (sdk_quotas ex_quotas) ''p1'' None ex_quota_state)) = qs_caches ex_quota_state \<and>
   fst (get_usage_for_project_and_user (sdk_quotas ex_quotas) ''compute'' ''p1'' None ex_quota_state)
     \<in> insert (Inr []) (range Inl)"
  by (rule quotas_never_balanced [OF ex_quota_outside]) (simp add: ex_quota_state_def)

section \<open>The lock of the audit\<close>

lemma sleeping:
  assumes "quota_outside Q" and "qs_audit_lock s" and "quota_lock_acquire Q s = (r, t)"
  shows "r \<noteq> Inr True \<and> qs_audit_lock t \<and> qs_caches t = qs_caches s"
proof -
  have retry: "retry_lock Q n s = (r, t) \<Longrightarrow> qs_audit_lock s \<Longrightarrow>
      r \<noteq> Inr True \<and> qs_audit_lock t \<and> qs_caches t = qs_caches s" for n s r t
  proof (induction n arbitrary: s)
    case (Suc n)
    obtain x s1 where sl: "qe_sleep Q s = (x, s1)" by fastforce
    then have s1: "qs_audit_lock s1" "qs_caches s1 = qs_caches s"
      using assms(1) Suc.prems(2) by (auto simp: quota_outside_def leaves_manager_def dest: spec [of _ s])
    show ?case
      using Suc.prems(1) Suc.IH [of s1] s1 by (cases x) (auto simp: seq_apply sl bnd_apply try_lock_def)
  qed auto
  then show ?thesis
    using assms(2,3) retry by (simp add: quota_lock_acquire_def bnd_apply try_lock_def)
qed

text \<open>When keystone cannot tell which projects there are, the audit of the quotas ends with an
  exception and keeps its lock, and from then on no audit does anything: each one gives up after
  its tries to get the lock, and the lock stays taken.\<close>

theorem quota_audit_lock_lost:
  assumes "quota_outside Q" and "\<not> qs_audit_lock s"
    and "qe_driver Q MASTER_CLOUD (s\<lparr>qs_audit_lock := True\<rparr>) = (Inr (), s1)"
    and "qe_enabled_projects Q s1 = (Inr None, s2)" and "qs_audit_lock s3"
    and "periodic_balance_all n Q s3 = (r, s4)"
  shows "fst (periodic_balance_all n Q s) = Inl TypeError \<and> qs_audit_lock (snd (periodic_balance_all n Q s)) \<and>
    qs_audit_lock s4 \<and> qs_caches s4 = qs_caches s3"
proof -
  have "qs_audit_lock s1"
    using assms(1,3) by (auto simp: quota_outside_def leaves_manager_def dest!: spec [of _ "s\<lparr>qs_audit_lock := True\<rparr>"]
        spec [of _ MASTER_CLOUD])
  then have "qs_audit_lock s2"
    using assms(1,4) by (auto simp: quota_outside_def leaves_manager_def dest!: spec [of _ s1])
  moreover have "periodic_balance_all n Q s = (Inl TypeError, s2)"
    using assms(2-4)
    by (simp add: periodic_balance_all_def quota_lock_acquire_def try_lock_def bnd_apply seq_apply)
  moreover obtain x t where l: "quota_lock_acquire Q s3 = (x, t)" by fastforce
  then have "x \<noteq> Inr True" "qs_audit_lock t" "qs_caches t = qs_caches s3"
    using sleeping [OF assms(1,5)] by blast+
  then have "qs_audit_lock s4 \<and> qs_caches s4 = qs_caches s3"
    using assms(6) l by (cases x) (auto simp: periodic_balance_all_def bnd_apply split: if_splits)
  ultimately show ?thesis by simp
qed

theorem quota_audit_lock_lost_witness:
  "fst (periodic_balance_all 3 ex_quotas ex_quota_state) = Inl TypeError \<and>
   qs_audit_lock (snd (periodic_balance_all 3 ex_quotas ex_quota_state)) \<and>
   qs_audit_lock (snd (periodic_balance_all 3 ex_quotas (ex_quota_state\<lparr>qs_audit_lock := True\<rparr>))) \<and>
   qs_caches (snd (periodic_balance_all 3 ex_quotas (ex_quota_state\<lparr>qs_audit_lock := True\<rparr>))) =
     qs_caches (ex_quota_state\<lparr>qs_audit_lock := True\<rparr>)"
  by (rule quota_audit_lock_lost [OF ex_quota_outside, of _ "ex_quota_state\<lparr>qs_audit_lock := True\<rparr>"
        "ex_quota_state\<lparr>qs_audit_lock := True\<rparr>" _ _ "fst (periodic_balance_all 3 ex_quotas (ex_quota_state\<lparr>qs_audit_lock := True\<rparr>))"])
    (simp_all add: ex_quota_state_def ex_quotas_def)

section \<open>Batches\<close>

lemma batches_all: "0 < n \<Longrightarrow> concat (map batch_members (orch_batch_projects n xs)) = xs"
proof (induction n xs rule: orch_batch_projects.induct)
  case (1 n xs)
  have members: "batch_members (map Some ys @ replicate k None) = ys" for ys :: "'a list" and k
    by (simp add: batch_members_def comp_def)
  show ?case
  proof (cases "xs = []")
    case True
    then show ?thesis by (simp add: orch_batch_projects.simps)
  next
    case False
    then have "orch_batch_projects n xs = (map Some (take n xs) @ replicate (n - length (take n xs)) None) #
        orch_batch_projects n (drop n xs)"
      using 1(2) by (subst orch_batch_projects.simps) simp
    moreover have "concat (map batch_members (orch_batch_projects n (drop n xs))) = drop n xs"
      using 1 False by simp
    ultimately show ?thesis by (simp add: members)
  qed
qed

end
