(* ===== verification/DO_Services.thy ===== *)
theory DO_Services
  imports DO_Identity DO_Quota
begin

text \<open>
  The sync threads of the OpenStack services, one chapter for each: cinder, nova and neutron.
\<close>

chapter \<open>Cinder\<close>

text \<open>
  \<open>dcorch/engine/sync_services/volume.py\<close>: the sync thread of cinder, which carries the quotas of
  projects and the default quota class. With what the three threads of OpenStack services share:
  how their handler deals with failures, and the resources that are dictionaries of attributes.
  The clients of a region are parameters, and so are the quota manager's caches, which are part
  of the engine's outside state.
\<close>

section \<open>What the threads of OpenStack services share\<close>

text \<open>The exceptions of the clients that are told apart.\<close>

definition ClientConflict :: "bool \<Rightarrow> exn" where
  "ClientConflict exists = PyException (if exists then ''Conflict: already exists'' else ''Conflict'')"

definition ClientNotFound :: exn where
  "ClientNotFound = PyException ''NotFound (HTTP 404)''"

definition service_failures :: "('x engine, unit) io \<Rightarrow> ('x engine, unit) io" where
  "service_failures m = try_catch m
     (\<lambda>e. if e = AttributeError then raise (Dcorch SyncRequestFailed)
       else if e \<in> {ConnectTimeout, ConnectFailure} then raise (Dcorch SyncRequestTimeout)
       else if e = Dcorch SyncRequestFailed then raise e
       else if is_Exception e then raise (Dcorch SyncRequestFailedRetry)
       else raise e)"

text \<open>The method \<open>operation_type\<close> of a table, which has to be there.\<close>

definition call_method ::
  "((operation_type \<times> string) \<times> 'x handler) list \<Rightarrow> 'x handler" where
  "call_method methods r j rsrc =
     (case map_of methods (oj_operation_type j, rs_resource_type rsrc) of
        None \<Rightarrow> raise AttributeError
      | Some h \<Rightarrow> h r j rsrc)"

text \<open>None when the cloud cannot be reached or anything else goes wrong.\<close>

definition none_on_failure :: "('x engine, 'a) io \<Rightarrow> ('x engine, 'a option) io" where
  "none_on_failure m = except_Exception (bnd m (\<lambda>x. ret (Some x))) (\<lambda>_. ret None)"

text \<open>Two dictionaries with the same entries, and \<open>d.pop(k, None)\<close>.\<close>

definition same_entries :: "(string \<times> 'v) list \<Rightarrow> (string \<times> 'v) list \<Rightarrow> bool" where
  "same_entries a b \<longleftrightarrow> list_all (\<lambda>(k, v). map_of a k = map_of b k) (a @ b)"

text \<open>The row of a resource in the subcloud is deleted, if there is one.\<close>

definition forget_copy :: "ident_env \<Rightarrow> sync_thread \<Rightarrow> resource \<Rightarrow> ('x engine, unit) io" where
  "forget_copy E th rsrc =
     bnd (get_db_subcloud_resource E th (rs_id rsrc)) (\<lambda>copy. case copy of
       None \<Rightarrow> ret ()
     | Some c \<Rightarrow> odo (subcloud_resource_delete admin_context (sr_id c)))"

section \<open>Cinder\<close>

record 'x volume_env =
  vo_initialize_sc_clients :: "('x engine, unit) io"
  vo_update :: "string \<Rightarrow> counter \<Rightarrow> ('x engine, unit) io"
  vo_master_quotas :: "string \<Rightarrow> ('x engine, dict) io"
  vo_update_class :: "string \<Rightarrow> dict \<Rightarrow> ('x engine, unit) io"
  vo_master_class :: "('x engine, ext_resource) io"
  vo_subcloud_class :: "('x engine, ext_resource) io"
  vo_loads :: "string option \<Rightarrow> exn + dict"
  vo_dumps :: "ext_resource \<Rightarrow> string"
  vo_caches :: "'x \<Rightarrow> quota_caches"

text \<open>The limits for this subcloud, from the last audit of the quotas.\<close>

definition volume_limits ::
  "'x volume_env \<Rightarrow> sync_thread \<Rightarrow> string \<Rightarrow> dict \<Rightarrow> ('x engine, counter) io" where
  "volume_limits V th project_id quotas =
     bnd (gets (\<lambda>s. vo_caches V (eg_ext s))) (\<lambda>C.
     sum_io (calculate_subcloud_project_quotas C project_id None quotas (th_subcloud_name th)))"

definition put_volume_quota_set ::
  "ident_env \<Rightarrow> 'x volume_env \<Rightarrow> sync_thread \<Rightarrow> 'x handler" where
  "put_volume_quota_set E V th r j rsrc =
     bnd (sum_io (vo_loads V (oj_resource_info j))) (\<lambda>quota_dict.
     bnd (volume_limits V th (oj_source_resource_id j) (dict_del ''tenant_id'' quota_dict)) (\<lambda>limits.
     seq (vo_update V (oj_source_resource_id j) limits)
     (seq (persist_db_subcloud_resource E th (rs_id rsrc) (rs_master_id rsrc)) (ret ()))))"

definition delete_volume_quota_set ::
  "ident_env \<Rightarrow> 'x volume_env \<Rightarrow> sync_thread \<Rightarrow> 'x handler" where
  "delete_volume_quota_set E V th r j rsrc =
     bnd (vo_master_quotas V (oj_source_resource_id j)) (\<lambda>quota_dict.
     bnd (volume_limits V th (oj_source_resource_id j) (dict_del ''id'' quota_dict)) (\<lambda>limits.
     seq (vo_update V (oj_source_resource_id j) limits) (forget_copy E th rsrc)))"

definition put_volume_quota_class_set ::
  "ident_env \<Rightarrow> 'x volume_env \<Rightarrow> sync_thread \<Rightarrow> 'x handler" where
  "put_volume_quota_class_set E V th r j rsrc =
     bnd (sum_io (vo_loads V (oj_resource_info j))) (\<lambda>quota_dict.
     seq (vo_update_class V (oj_source_resource_id j) (dict_del ''class_name'' (dict_del ''id'' quota_dict)))
     (seq (persist_db_subcloud_resource E th (rs_id rsrc) (rs_master_id rsrc)) (ret ())))"

definition create_volume_quota_class_set ::
  "ident_env \<Rightarrow> 'x volume_env \<Rightarrow> sync_thread \<Rightarrow> 'x handler" where
  "create_volume_quota_class_set E V th r j rsrc = put_volume_quota_class_set E V th r j rsrc"

text \<open>A subcloud without cinder is not an error.\<close>

definition sync_volume_resource ::
  "ident_env \<Rightarrow> 'x volume_env \<Rightarrow> sync_thread \<Rightarrow> 'x handler" where
  "sync_volume_resource E V th r j rsrc =
     seq (vo_initialize_sc_clients V)
       (service_failures (try_catch
         (call_method
            [((OPERATION_TYPE_PUT, ''volume_quota_set''), put_volume_quota_set E V th),
             ((OPERATION_TYPE_DELETE, ''volume_quota_set''), delete_volume_quota_set E V th),
             ((OPERATION_TYPE_PUT, ''quota_class_set''), put_volume_quota_class_set E V th),
             ((OPERATION_TYPE_CREATE, ''quota_class_set''), create_volume_quota_class_set E V th)] r j rsrc)
         (\<lambda>e. if e = EndpointNotFound then ret () else raise e)))"

section \<open>The audit of the quota class\<close>

definition volume_get_resource_id :: "string \<Rightarrow> audited \<Rightarrow> ('x engine, string) io" where
  "volume_get_resource_id resource_type a =
     ret (if resource_type = ''quota_class_set'' then ''default'' else base_get_resource_id resource_type a)"

definition volume_get_resource_info ::
  "'x volume_env \<Rightarrow> string \<Rightarrow> audited \<Rightarrow> operation_type \<Rightarrow> ('x engine, string option) io" where
  "volume_get_resource_info V resource_type a op =
     (if resource_type = ''quota_class_set'' then
        (case a of FromDb _ \<Rightarrow> raise AttributeError | FromCloud x \<Rightarrow> ret (Some (vo_dumps V x)))
      else ret (Some []))"

definition volume_get_quota_class_resources ::
  "('x engine, ext_resource) io \<Rightarrow> ('x engine, ext_resource list option) io" where
  "volume_get_quota_class_resources get_default = none_on_failure (bnd get_default (\<lambda>q. ret [q]))"

definition volume_get_subcloud_resources ::
  "'x volume_env \<Rightarrow> string \<Rightarrow> ('x engine, ext_resource list option) io" where
  "volume_get_subcloud_resources V resource_type =
     (if resource_type = ''quota_class_set''
      then seq (vo_initialize_sc_clients V) (volume_get_quota_class_resources (vo_subcloud_class V))
      else ret None)"

definition volume_get_master_resources ::
  "'x volume_env \<Rightarrow> string \<Rightarrow> ('x engine, ext_resource list option) io" where
  "volume_get_master_resources V resource_type =
     (if resource_type = ''quota_class_set'' then volume_get_quota_class_resources (vo_master_class V)
      else ret None)"

definition volume_same_resource :: "string \<Rightarrow> ext_resource \<Rightarrow> ext_resource \<Rightarrow> bool" where
  "volume_same_resource resource_type m sc \<longleftrightarrow>
     (resource_type = ''quota_class_set'' \<longrightarrow> same_entries (xr_attrs m) (xr_attrs sc))"

definition volume_handlers ::
  "ident_env \<Rightarrow> 'x volume_env \<Rightarrow> sync_thread \<Rightarrow> string \<Rightarrow> 'x handler option" where
  "volume_handlers E V th resource_type =
     (if resource_type \<in> {''volume_quota_set'', ''quota_class_set''} then Some (sync_volume_resource E V th)
      else None)"

definition volume_class :: "ident_env \<Rightarrow> 'x volume_env \<Rightarrow> sync_thread \<Rightarrow> 'x sync_class" where
  "volume_class E V th = (base_sync_class E th)\<lparr>
     cl_handlers := volume_handlers E V th,
     cl_audit_resources := [''quota_class_set''],
     cl_get_subcloud_resources := volume_get_subcloud_resources V,
     cl_get_master_resources := volume_get_master_resources V,
     cl_same_resource := (\<lambda>t m_r sc_r. ret (volume_same_resource t m_r sc_r)),
     cl_get_resource_id := volume_get_resource_id,
     cl_get_resource_info := volume_get_resource_info V,
     cl_audit_action := base_audit_action E th volume_get_resource_id (volume_get_resource_info V)\<rparr>"

chapter \<open>Nova\<close>

text \<open>
  \<open>dcorch/engine/sync_services/compute.py\<close>: the sync thread of nova. Flavors, with the tenants that
  may use them and their extra specifications, key pairs and the default quota class are copied to
  the subclouds; the quotas of a project are given to each subcloud as its share. A flavor is known
  by its attributes, the list \<open>attach_fa\<close> of the tenants and the dictionary \<open>attach_es\<close>; a key pair
  by its name, which is its id, and its attributes, the owner among them.
\<close>

section \<open>What the thread talks to\<close>

text \<open>The arguments of \<open>flavors.create\<close>: name, ram, vcpus, disk and the keyword arguments.\<close>

record flavor_args =
  fa_name :: json
  fa_ram :: json
  fa_vcpus :: json
  fa_disk :: json
  fa_kwargs :: dict

record 'x compute_env =
  cp_initialize_sc_clients :: "('x engine, unit) io"
  cp_create_flavor :: "flavor_args \<Rightarrow> ('x engine, ext_resource option) io"
  cp_delete_flavor :: "string \<Rightarrow> ('x engine, unit) io"
  cp_master_flavor :: "json \<Rightarrow> ('x engine, ext_resource option) io"
  cp_flavors :: "string \<Rightarrow> ('x engine, ext_resource list) io"
  cp_flavor_access :: "string \<Rightarrow> string \<Rightarrow> ('x engine, string list) io"
  cp_flavor_keys :: "string \<Rightarrow> string \<Rightarrow> ('x engine, attrs) io"
  cp_add_access :: "string \<Rightarrow> json \<Rightarrow> ('x engine, unit) io"
  cp_remove_access :: "string \<Rightarrow> json \<Rightarrow> ('x engine, unit) io"
  cp_find_flavor :: "string \<Rightarrow> ('x engine, unit) io"
  cp_set_keys :: "string \<Rightarrow> json \<Rightarrow> ('x engine, unit) io"
  cp_unset_keys :: "string \<Rightarrow> string list \<Rightarrow> ('x engine, unit) io"
  cp_create_keypair :: "string \<Rightarrow> dict \<Rightarrow> ('x engine, bool) io"
  cp_delete_keypair :: "string \<Rightarrow> string \<Rightarrow> ('x engine, unit) io"
  cp_users :: "('x engine, string list) io"
  cp_keypairs :: "string \<Rightarrow> string \<Rightarrow> ('x engine, ext_resource list) io"
  cp_update_quotas :: "string \<Rightarrow> json \<Rightarrow> counter \<Rightarrow> bool \<Rightarrow> ('x engine, unit) io"
  cp_delete_quotas :: "string \<Rightarrow> json \<Rightarrow> ('x engine, unit) io"
  cp_master_quotas :: "string \<Rightarrow> ('x engine, dict) io"
  cp_update_class :: "string \<Rightarrow> dict \<Rightarrow> ('x engine, unit) io"
  cp_class :: "string \<Rightarrow> ('x engine, ext_resource) io"
  cp_loads :: "string option \<Rightarrow> exn + dict"
  cp_dumps :: "string \<Rightarrow> ext_resource \<Rightarrow> string"
  cp_caches :: "'x \<Rightarrow> quota_caches"

section \<open>Flavors\<close>

definition same_flavor :: "ext_resource \<Rightarrow> ext_resource \<Rightarrow> bool" where
  "same_flavor f1 f2 \<longleftrightarrow>
     same_attrs [''name'', ''vcpus'', ''ram'', ''disk'', ''swap'', ''rxtx_factor'', ''is_public'', ''ephemeral''] f1 f2"

text \<open>An argument that is passed on under another name when its key is there.\<close>

definition passed_on :: "string \<Rightarrow> string \<Rightarrow> dict \<Rightarrow> dict" where
  "passed_on arg k d = (case dict_get k d of None \<Rightarrow> [] | Some v \<Rightarrow> [(arg, v)])"

definition flavor_kwargs :: "json \<Rightarrow> dict \<Rightarrow> dict" where
  "flavor_kwargs i d = (''flavorid'', i) # passed_on ''ephemeral'' ''OS-FLV-EXT-DATA:ephemeral'' d @
     (if dict_has ''swap'' d then passed_on ''swap'' ''swap'' d else []) @
     passed_on ''rxtx_factor'' ''rxtx_factor'' d @ passed_on ''is_public'' ''os-flavor-access:is_public'' d"

text \<open>A flavor of the subcloud with the same name or id is taken over when it is like the one of the
  master cloud, and made anew when it is not.\<close>

definition recreate_flavor_if_reqd ::
  "'x compute_env \<Rightarrow> sync_thread \<Rightarrow> flavor_args \<Rightarrow> json \<Rightarrow> ('x engine, ext_resource option) io" where
  "recreate_flavor_if_reqd N th args flavorid = except_Exception
     (bnd (cp_master_flavor N flavorid) (\<lambda>master_flavor.
      bnd (cp_flavors N (th_subcloud_name th)) (\<lambda>sc_flavors.
      case (master_flavor, find (\<lambda>f. fa_name args = opt_json (attr f ''name'') \<or> flavorid = JText (xr_id f)) sc_flavors) of
        (Some m, Some sc) \<Rightarrow>
          if same_flavor m sc then ret (Some sc)
          else seq (cp_delete_flavor N (xr_id sc)) (cp_create_flavor N args)
      | _ \<Rightarrow> ret None)))
     (\<lambda>_. raise (Dcorch SyncRequestFailed))"

definition create_flavor :: "ident_env \<Rightarrow> 'x compute_env \<Rightarrow> sync_thread \<Rightarrow> 'x handler" where
  "create_flavor E N th r j rsrc =
     bnd (sum_io (cp_loads N (oj_resource_info j))) (\<lambda>flavor_dict.
     bnd (sum_io (dict_at ''name'' flavor_dict)) (\<lambda>name.
     bnd (sum_io (dict_at ''ram'' flavor_dict)) (\<lambda>ram.
     bnd (sum_io (dict_at ''vcpus'' flavor_dict)) (\<lambda>vcpus.
     bnd (sum_io (dict_at ''disk'' flavor_dict)) (\<lambda>disk.
     bnd (sum_io (dict_at ''id'' flavor_dict)) (\<lambda>flavorid.
     (let args = \<lparr>fa_name = name, fa_ram = ram, fa_vcpus = vcpus, fa_disk = disk,
           fa_kwargs = flavor_kwargs flavorid flavor_dict\<rparr>
      in bnd (try_catch (cp_create_flavor N args) (\<lambda>e.
                if e = ClientConflict True then recreate_flavor_if_reqd N th args flavorid
                else if e = ClientConflict False then ret None
                else raise e)) (\<lambda>newflavor. case newflavor of
           None \<Rightarrow> raise (Dcorch SyncRequestFailed)
         | Some f \<Rightarrow> seq (persist_db_subcloud_resource E th (rs_id rsrc) (xr_id f)) (ret ())))))))))"

text \<open>A copy whose original is gone from the subcloud counts as deleted.\<close>

definition delete_copy ::
  "ident_env \<Rightarrow> sync_thread \<Rightarrow> (subcloud_resource \<Rightarrow> ('x engine, unit) io) \<Rightarrow> resource \<Rightarrow> ('x engine, unit) io" where
  "delete_copy E th remove rsrc =
     bnd (get_db_subcloud_resource E th (rs_id rsrc)) (\<lambda>copy. case copy of
       None \<Rightarrow> ret ()
     | Some c \<Rightarrow> seq (try_catch (remove c) (\<lambda>e. if e = ClientNotFound then ret () else raise e))
         (odo (subcloud_resource_delete admin_context (sr_id c))))"

definition delete_flavor :: "ident_env \<Rightarrow> 'x compute_env \<Rightarrow> sync_thread \<Rightarrow> 'x handler" where
  "delete_flavor E N th r j rsrc = delete_copy E th (\<lambda>c. cp_delete_flavor N (sr_subcloud_resource_id c)) rsrc"

text \<open>\<open>v[k]\<close> on what should be a dictionary.\<close>

definition json_at :: "string \<Rightarrow> json \<Rightarrow> exn + json" where
  "json_at k v = (case v of JObject d \<Rightarrow> dict_at k d | _ \<Rightarrow> Inl TypeError)"

definition add_tenant_access ::
  "'x compute_env \<Rightarrow> json \<Rightarrow> subcloud_resource \<Rightarrow> ('x engine, unit) io" where
  "add_tenant_access N action_value c =
     bnd (sum_io (json_at ''tenant'' action_value)) (\<lambda>tenant_id.
     try_catch (cp_add_access N (sr_subcloud_resource_id c) tenant_id)
       (\<lambda>e. if e \<in> {ClientConflict True, ClientConflict False} then ret () else raise e))"

definition remove_tenant_access ::
  "'x compute_env \<Rightarrow> json \<Rightarrow> subcloud_resource \<Rightarrow> ('x engine, unit) io" where
  "remove_tenant_access N action_value c =
     bnd (sum_io (json_at ''tenant'' action_value)) (\<lambda>tenant_id.
     try_catch (cp_remove_access N (sr_subcloud_resource_id c) tenant_id)
       (\<lambda>e. if e = ClientNotFound then ret () else raise e))"

definition set_extra_specs ::
  "'x compute_env \<Rightarrow> json \<Rightarrow> subcloud_resource \<Rightarrow> ('x engine, unit) io" where
  "set_extra_specs N action_value c =
     seq (cp_find_flavor N (sr_subcloud_resource_id c)) (cp_set_keys N (sr_subcloud_resource_id c) action_value)"

text \<open>The keys, separated by semicolons.\<close>

definition spec_keys :: "string \<Rightarrow> string list" where
  "spec_keys s = remdups (filter (\<lambda>k. k \<noteq> []) (split_at (CHR '';'') s []))"

definition unset_extra_specs ::
  "'x compute_env \<Rightarrow> json \<Rightarrow> subcloud_resource \<Rightarrow> ('x engine, unit) io" where
  "unset_extra_specs N action_value c =
     seq (cp_find_flavor N (sr_subcloud_resource_id c))
       (case action_value of
          JText s \<Rightarrow> try_catch (cp_unset_keys N (sr_subcloud_resource_id c) (spec_keys s))
            (\<lambda>e. if e = ClientNotFound then ret () else raise e)
        | _ \<Rightarrow> raise AttributeError)"

text \<open>The first key of the action's dictionary names what is to be done.\<close>

definition action_flavor :: "ident_env \<Rightarrow> 'x compute_env \<Rightarrow> sync_thread \<Rightarrow> 'x handler" where
  "action_flavor E N th r j rsrc =
     bnd (sum_io (cp_loads N (oj_resource_info j))) (\<lambda>action_dict.
     bnd (get_db_subcloud_resource E th (rs_id rsrc)) (\<lambda>copy. case copy of
       None \<Rightarrow> ret ()
     | Some c \<Rightarrow>
         (case action_dict of
            [] \<Rightarrow> raise IndexError
          | (action, v) # _ \<Rightarrow>
              if action = ''addTenantAccess'' then add_tenant_access N v c
              else if action = ''removeTenantAccess'' then remove_tenant_access N v c
              else if action = ''extra_specs'' then set_extra_specs N v c
              else if action = ''extra_specs_delete'' then unset_extra_specs N v c
              else ret ())))"

section \<open>Key pairs\<close>

text \<open>\<open>name, user_id = keypair_deconstruct_id(id)\<close>.\<close>

definition keypair_parts :: "string \<Rightarrow> exn + string \<times> string" where
  "keypair_parts i = (case keypair_deconstruct_id i of [n, u] \<Rightarrow> Inr (n, u) | _ \<Rightarrow> Inl ValueError)"

definition recreate_keypair :: "'x compute_env \<Rightarrow> string \<Rightarrow> string \<Rightarrow> dict \<Rightarrow> ('x engine, bool) io" where
  "recreate_keypair N name user_id kwargs = except_Exception
     (seq (cp_delete_keypair N name user_id) (cp_create_keypair N name kwargs))
     (\<lambda>_. raise (Dcorch SyncRequestFailed))"

definition create_keypair :: "ident_env \<Rightarrow> 'x compute_env \<Rightarrow> sync_thread \<Rightarrow> 'x handler" where
  "create_keypair E N th r j rsrc =
     bnd (sum_io (cp_loads N (oj_resource_info j))) (\<lambda>keypair_dict.
     bnd (sum_io (keypair_parts (rs_master_id rsrc))) (\<lambda>(name, user_id).
     (let kwargs = (''user_id'', JText user_id) # passed_on ''public_key'' ''public_key'' keypair_dict @
           passed_on ''key_type'' ''type'' keypair_dict
      in seq (case dict_get ''type'' keypair_dict of
                None \<Rightarrow> ret () | Some (JText _) \<Rightarrow> ret () | Some _ \<Rightarrow> raise TypeError)
         (bnd (try_catch (cp_create_keypair N name kwargs) (\<lambda>e.
                if e \<in> {ClientConflict True, ClientConflict False} then recreate_keypair N name user_id kwargs
                else raise e)) (\<lambda>made.
          if \<not> made then raise (Dcorch SyncRequestFailed)
          else seq (persist_db_subcloud_resource E th (rs_id rsrc) (rs_master_id rsrc)) (ret ()))))))"

definition delete_keypair :: "ident_env \<Rightarrow> 'x compute_env \<Rightarrow> sync_thread \<Rightarrow> 'x handler" where
  "delete_keypair E N th r j rsrc =
     delete_copy E th (\<lambda>c. bnd (sum_io (keypair_parts (rs_master_id rsrc))) (\<lambda>(name, user_id).
       cp_delete_keypair N name user_id)) rsrc"

definition same_keypair :: "ext_resource \<Rightarrow> ext_resource \<Rightarrow> bool" where
  "same_keypair k1 k2 \<longleftrightarrow> same_attrs [''name'', ''type'', ''fingerprint'', ''user_id''] k1 k2"

section \<open>Quotas\<close>

definition compute_limits ::
  "'x compute_env \<Rightarrow> sync_thread \<Rightarrow> string \<Rightarrow> json \<Rightarrow> dict \<Rightarrow> ('x engine, counter) io" where
  "compute_limits N th project_id user_id quotas =
     bnd (gets (\<lambda>s. cp_caches N (eg_ext s))) (\<lambda>C.
     sum_io (calculate_subcloud_project_quotas C project_id (string_field user_id) quotas (th_subcloud_name th)))"

definition pop_user :: "dict \<Rightarrow> json" where
  "pop_user d = (case dict_get ''user_id'' d of None \<Rightarrow> JNull | Some v \<Rightarrow> v)"

text \<open>The update is forced, as the usage may be above the new limits.\<close>

definition put_compute_quota_set :: "ident_env \<Rightarrow> 'x compute_env \<Rightarrow> sync_thread \<Rightarrow> 'x handler" where
  "put_compute_quota_set E N th r j rsrc =
     bnd (sum_io (cp_loads N (oj_resource_info j))) (\<lambda>quota_dict.
     (let user_id = pop_user quota_dict
      in bnd (compute_limits N th (oj_source_resource_id j) user_id (dict_del ''user_id'' quota_dict)) (\<lambda>limits.
         seq (cp_update_quotas N (oj_source_resource_id j) user_id limits True)
         (seq (persist_db_subcloud_resource E th (rs_id rsrc) (rs_master_id rsrc)) (ret ())))))"

text \<open>The deletion of a project's quotas deletes those of its users too; the project gets the limits
  that the defaults of the master cloud leave.\<close>

definition delete_compute_quota_set :: "ident_env \<Rightarrow> 'x compute_env \<Rightarrow> sync_thread \<Rightarrow> 'x handler" where
  "delete_compute_quota_set E N th r j rsrc =
     bnd (sum_io (cp_loads N (oj_resource_info j))) (\<lambda>req_info.
     (let user_id = pop_user req_info; project_id = oj_source_resource_id j
      in seq (cp_delete_quotas N project_id user_id)
         (seq (forget_copy E th rsrc)
         (if user_id \<noteq> JNull then ret ()
          else
            bnd (cp_master_quotas N project_id) (\<lambda>quota_dict.
            bnd (compute_limits N th project_id user_id (dict_del ''id'' quota_dict)) (\<lambda>limits.
            cp_update_quotas N project_id user_id limits True))))))"

definition put_compute_quota_class_set :: "ident_env \<Rightarrow> 'x compute_env \<Rightarrow> sync_thread \<Rightarrow> 'x handler" where
  "put_compute_quota_class_set E N th r j rsrc =
     bnd (sum_io (cp_loads N (oj_resource_info j))) (\<lambda>quota_dict.
     seq (cp_update_class N (oj_source_resource_id j) (dict_del ''id'' quota_dict))
     (seq (persist_db_subcloud_resource E th (rs_id rsrc) (rs_master_id rsrc)) (ret ())))"

definition create_compute_quota_class_set :: "ident_env \<Rightarrow> 'x compute_env \<Rightarrow> sync_thread \<Rightarrow> 'x handler" where
  "create_compute_quota_class_set E N th r j rsrc = put_compute_quota_class_set E N th r j rsrc"

definition sync_compute_resource :: "ident_env \<Rightarrow> 'x compute_env \<Rightarrow> sync_thread \<Rightarrow> 'x handler" where
  "sync_compute_resource E N th r j rsrc =
     seq (cp_initialize_sc_clients N)
       (service_failures (call_method
         [((OPERATION_TYPE_CREATE, ''flavor''), create_flavor E N th),
          ((OPERATION_TYPE_DELETE, ''flavor''), delete_flavor E N th),
          ((OPERATION_TYPE_ACTION, ''flavor''), action_flavor E N th),
          ((OPERATION_TYPE_CREATE, ''keypair''), create_keypair E N th),
          ((OPERATION_TYPE_DELETE, ''keypair''), delete_keypair E N th),
          ((OPERATION_TYPE_PUT, ''compute_quota_set''), put_compute_quota_set E N th),
          ((OPERATION_TYPE_DELETE, ''compute_quota_set''), delete_compute_quota_set E N th),
          ((OPERATION_TYPE_PUT, ''quota_class_set''), put_compute_quota_class_set E N th),
          ((OPERATION_TYPE_CREATE, ''quota_class_set''), create_compute_quota_class_set E N th)] r j rsrc))"

section \<open>The resources the audit compares\<close>

text \<open>A flavor with the tenants that may use it, for one that is not public, and its extra
  specifications.\<close>

definition attach_fa :: "ext_resource \<Rightarrow> string list" where
  "attach_fa f = elements f ''attach_fa''"

definition attach_es :: "ext_resource \<Rightarrow> attrs" where
  "attach_es f = map (\<lambda>(k, v). (drop 10 k, v)) (filter (\<lambda>(k, v). take 10 k = ''attach_es.'') (xr_attrs f))"

definition with_attachments :: "string list \<Rightarrow> attrs \<Rightarrow> ext_resource \<Rightarrow> ext_resource" where
  "with_attachments fa es f = f\<lparr>xr_lists := [(''attach_fa'', fa)],
     xr_attrs := xr_attrs f @ map (\<lambda>(k, v). (''attach_es.'' @ k, v)) es\<rparr>"

definition attach_flavor :: "'x compute_env \<Rightarrow> string \<Rightarrow> ext_resource \<Rightarrow> ('x engine, ext_resource) io" where
  "attach_flavor N region f =
     bnd (if attr f ''is_public'' = Some ''True'' then ret []
          else try_catch (cp_flavor_access N region (xr_id f))
            (\<lambda>e. if e = ClientNotFound then ret [] else raise e)) (\<lambda>fa.
     bnd (cp_flavor_keys N region (xr_id f)) (\<lambda>es. ret (with_attachments fa es f)))"

fun attach_flavors :: "'x compute_env \<Rightarrow> string \<Rightarrow> ext_resource list \<Rightarrow> ('x engine, ext_resource list) io" where
  "attach_flavors N region [] = ret []"
| "attach_flavors N region (f # fs) =
     bnd (attach_flavor N region f) (\<lambda>x. bnd (attach_flavors N region fs) (\<lambda>xs. ret (x # xs)))"

definition get_flavor_resources :: "'x compute_env \<Rightarrow> string \<Rightarrow> ('x engine, ext_resource list option) io" where
  "get_flavor_resources N region = none_on_failure (bnd (cp_flavors N region) (attach_flavors N region))"

definition compute_get_quota_class_resources ::
  "'x compute_env \<Rightarrow> string \<Rightarrow> ('x engine, ext_resource list option) io" where
  "compute_get_quota_class_resources N region = none_on_failure (bnd (cp_class N region) (\<lambda>q. ret [q]))"

definition compute_resources ::
  "'x compute_env \<Rightarrow> string \<Rightarrow> string \<Rightarrow> ('x engine, ext_resource list option) io" where
  "compute_resources N region resource_type =
     (if resource_type = ''flavor'' then get_flavor_resources N region
      else if resource_type = ''quota_class_set'' then compute_get_quota_class_resources N region
      else ret None)"

definition compute_get_subcloud_resources ::
  "'x compute_env \<Rightarrow> sync_thread \<Rightarrow> string \<Rightarrow> ('x engine, ext_resource list option) io" where
  "compute_get_subcloud_resources N th resource_type =
     seq (cp_initialize_sc_clients N) (compute_resources N (th_subcloud_name th) resource_type)"

definition compute_get_master_resources ::
  "'x compute_env \<Rightarrow> string \<Rightarrow> ('x engine, ext_resource list option) io" where
  "compute_get_master_resources N resource_type = compute_resources N MASTER_CLOUD resource_type"

text \<open>The key pairs of a user, and those of all the users that have one in the master cloud.\<close>

definition get_keypair_resources ::
  "'x compute_env \<Rightarrow> string \<Rightarrow> string \<Rightarrow> ('x engine, ext_resource list) io" where
  "get_keypair_resources N region user_id =
     bnd (cp_keypairs N region user_id) (\<lambda>ks.
     ret (map (\<lambda>k. k\<lparr>xr_attrs := (''user_id'', Some user_id) # xr_attrs k\<rparr>) ks))"

fun keypairs_of ::
  "'x compute_env \<Rightarrow> string \<Rightarrow> string list \<Rightarrow> ('x engine, (string \<times> ext_resource list) list) io" where
  "keypairs_of N region [] = ret []"
| "keypairs_of N region (u # us) =
     bnd (get_keypair_resources N region u) (\<lambda>ks.
     bnd (keypairs_of N region us) (\<lambda>rest. ret (if ks = [] then rest else (u, ks) # rest)))"

definition all_keypairs ::
  "ident_env \<Rightarrow> 'x compute_env \<Rightarrow> sync_thread \<Rightarrow>
   ('x engine, (ext_resource list \<times> resource list \<times> ext_resource list) option) io" where
  "all_keypairs E N th = none_on_failure
     (bnd (cp_users N) (\<lambda>users.
      bnd (keypairs_of N MASTER_CLOUD users) (\<lambda>masters.
      bnd (get_db_master_resources E ''keypair'') (\<lambda>db_resources.
      bnd (keypairs_of N (th_subcloud_name th) (remdups (map fst masters))) (\<lambda>subclouds.
      ret (concat (map snd masters), db_resources, concat (map snd subclouds)))))))"

definition compute_get_resource_id :: "string \<Rightarrow> audited \<Rightarrow> ('x engine, string) io" where
  "compute_get_resource_id resource_type a =
     (case a of
        FromDb r \<Rightarrow> ret (rs_master_id r)
      | FromCloud x \<Rightarrow>
          if resource_type = ''keypair'' then
            (case attr x ''user_id'' of
               None \<Rightarrow> raise KeyError
             | Some u \<Rightarrow> ret (keypair_construct_id (xr_id x) u))
          else if resource_type = ''quota_class_set'' then ret ''default''
          else ret (xr_id x))"

definition compute_get_resource_info ::
  "'x compute_env \<Rightarrow> string \<Rightarrow> audited \<Rightarrow> operation_type \<Rightarrow> ('x engine, string option) io" where
  "compute_get_resource_info N resource_type a op =
     (if resource_type \<in> {''flavor'', ''keypair'', ''quota_class_set''} then
        (case a of FromDb _ \<Rightarrow> raise AttributeError | FromCloud x \<Rightarrow> ret (Some (cp_dumps N resource_type x)))
      else ret (Some []))"

definition compute_same_resource :: "string \<Rightarrow> ext_resource \<Rightarrow> ext_resource \<Rightarrow> bool" where
  "compute_same_resource resource_type m sc =
     (if resource_type = ''flavor'' then same_flavor m sc
      else if resource_type = ''keypair'' then same_keypair m sc
      else resource_type = ''quota_class_set'' \<longrightarrow> same_entries (xr_attrs m) (xr_attrs sc))"

text \<open>A flavor or key pair that differs is deleted before it is created again.\<close>

definition compute_audit_discrepancy ::
  "ident_env \<Rightarrow> sync_thread \<Rightarrow> string \<Rightarrow> ext_resource \<Rightarrow> ext_resource list \<Rightarrow> ('x engine, bool) io" where
  "compute_audit_discrepancy E th resource_type m_r sc_resources =
     seq (if resource_type \<in> {''flavor'', ''keypair''} then
            bnd (compute_get_resource_id resource_type (FromCloud m_r)) (\<lambda>i.
            schedule_work E th (th_endpoint_type th) resource_type i OPERATION_TYPE_DELETE None)
          else ret ())
       (ret True)"

section \<open>What depends on a flavor\<close>

text \<open>The tenants that are missing in the subcloud and those it has too many of.\<close>

fun compare_access :: "string list \<Rightarrow> string list \<Rightarrow> string list \<times> string list" where
  "compare_access [] scs = ([], scs)"
| "compare_access (m # ms) scs =
     (if m \<in> set scs then compare_access ms (remove1 m scs)
      else case compare_access ms scs of (missing, extra) \<Rightarrow> (m # missing, extra))"

definition schedule_action ::
  "ident_env \<Rightarrow> sync_thread \<Rightarrow> ext_resource \<Rightarrow> string \<Rightarrow> json \<Rightarrow> ('x engine, unit) io" where
  "schedule_action E th m_r action v =
     schedule_work E th (th_endpoint_type th) ''flavor'' (xr_id m_r) OPERATION_TYPE_ACTION
       (Some (json_dumps (JObject [(action, v)])))"

definition tenant_json :: "string \<Rightarrow> json" where
  "tenant_json t = JObject [(''tenant'', JText t)]"

definition audit_flavor_access ::
  "ident_env \<Rightarrow> sync_thread \<Rightarrow> ext_resource \<Rightarrow> ext_resource option \<Rightarrow> ('x engine, nat) io" where
  "audit_flavor_access E th m_r sc_r =
     (case compare_access (attach_fa m_r) (case sc_r of None \<Rightarrow> [] | Some f \<Rightarrow> attach_fa f) of
        (missing, extra) \<Rightarrow>
          seq (for_each (\<lambda>t. schedule_action E th m_r ''addTenantAccess'' (tenant_json t)) missing)
          (seq (for_each (\<lambda>t. schedule_action E th m_r ''removeTenantAccess'' (tenant_json t)) extra)
            (ret (length missing + length extra))))"

text \<open>The actions for the specifications: to set those that the subcloud does not have with their
  value, and to delete those of the subcloud that the master does not have with their value.\<close>

definition extra_spec_actions :: "attrs \<Rightarrow> attrs \<Rightarrow> (string \<times> json) list" where
  "extra_spec_actions ms scs =
     (let metadata = filter (\<lambda>p. p \<notin> set scs) ms; extra = filter (\<lambda>p. p \<notin> set ms) scs;
          keys_to_delete = concat (map (\<lambda>(k, v). k @ '';'') extra)
      in (if metadata = [] then []
          else [(''extra_specs'', JObject (map (\<lambda>(k, v). (k, opt_json v)) metadata))]) @
         (if keys_to_delete = [] then [] else [(''extra_specs_delete'', JText keys_to_delete)]))"

definition audit_extra_specs ::
  "ident_env \<Rightarrow> sync_thread \<Rightarrow> ext_resource \<Rightarrow> ext_resource option \<Rightarrow> ('x engine, nat) io" where
  "audit_extra_specs E th m_r sc_r =
     (let actions = extra_spec_actions (attach_es m_r) (case sc_r of None \<Rightarrow> [] | Some f \<Rightarrow> attach_es f)
      in seq (for_each (\<lambda>(action, v). schedule_action E th m_r action v) actions) (ret (length actions)))"

definition compute_audit_dependants ::
  "ident_env \<Rightarrow> sync_thread \<Rightarrow> string \<Rightarrow> ext_resource \<Rightarrow> ext_resource option \<Rightarrow> ('x engine, nat) io" where
  "compute_audit_dependants E th resource_type m_r sc_r =
     bnd (request_allowed E th) (\<lambda>ok.
     if \<not> ok then ret 0
     else if resource_type = ''flavor'' then
       bnd (audit_flavor_access E th m_r sc_r) (\<lambda>a.
       bnd (audit_extra_specs E th m_r sc_r) (\<lambda>b. ret (a + b)))
     else ret 0)"

section \<open>The class\<close>

definition compute_handlers ::
  "ident_env \<Rightarrow> 'x compute_env \<Rightarrow> sync_thread \<Rightarrow> string \<Rightarrow> 'x handler option" where
  "compute_handlers E N th resource_type =
     (if resource_type \<in> {''flavor'', ''keypair'', ''compute_quota_set'', ''quota_class_set''}
      then Some (sync_compute_resource E N th) else None)"

definition compute_class :: "ident_env \<Rightarrow> 'x compute_env \<Rightarrow> sync_thread \<Rightarrow> 'x sync_class" where
  "compute_class E N th = (base_sync_class E th)\<lparr>
     cl_handlers := compute_handlers E N th,
     cl_audit_resources := [''quota_class_set'', ''flavor'', ''keypair''],
     cl_own_resources := (\<lambda>t. if t = ''keypair'' then Some (all_keypairs E N th) else None),
     cl_get_subcloud_resources := compute_get_subcloud_resources N th,
     cl_get_master_resources := compute_get_master_resources N,
     cl_same_resource := (\<lambda>t m_r sc_r. ret (compute_same_resource t m_r sc_r)),
     cl_audit_dependants := compute_audit_dependants E th,
     cl_audit_discrepancy := compute_audit_discrepancy E th,
     cl_get_resource_id := compute_get_resource_id,
     cl_get_resource_info := compute_get_resource_info N,
     cl_audit_action := base_audit_action E th compute_get_resource_id (compute_get_resource_info N)\<rparr>"

chapter \<open>Neutron\<close>

text \<open>
  \<open>dcorch/engine/sync_services/network.py\<close>: the sync thread of neutron. Security groups and their
  rules are copied to the subclouds, where a rule refers to the copies of the groups; the quotas
  of a project are given to each subcloud as its share. A group or rule is a dictionary.
\<close>

section \<open>What the thread talks to\<close>

text \<open>The requests take the body of a group or rule, and reply with a JSON document. The name of a
  tenant is asked of keystone, by region and id.\<close>

record 'x network_env =
  nw_initialize_sc_clients :: "('x engine, unit) io"
  nw_update_quota :: "string \<Rightarrow> counter \<Rightarrow> ('x engine, unit) io"
  nw_master_quota :: "string \<Rightarrow> ('x engine, dict) io"
  nw_create_group :: "dict \<Rightarrow> ('x engine, json) io"
  nw_update_group :: "string \<Rightarrow> dict \<Rightarrow> ('x engine, json) io"
  nw_delete_group :: "string \<Rightarrow> ('x engine, unit) io"
  nw_create_rule :: "dict \<Rightarrow> ('x engine, json) io"
  nw_delete_rule :: "string \<Rightarrow> ('x engine, unit) io"
  nw_groups :: "string \<Rightarrow> ('x engine, ext_resource list) io"
  nw_rules :: "string \<Rightarrow> ('x engine, ext_resource list) io"
  nw_tenant_name :: "string \<Rightarrow> string option \<Rightarrow> ('x engine, string option) io"
  nw_loads :: "string option \<Rightarrow> exn + dict"
  nw_dumps :: "attrs \<Rightarrow> string"
  nw_caches :: "'x \<Rightarrow> quota_caches"

section \<open>Quotas\<close>

definition network_limits ::
  "'x network_env \<Rightarrow> sync_thread \<Rightarrow> string \<Rightarrow> dict \<Rightarrow> ('x engine, counter) io" where
  "network_limits N th project_id quotas =
     bnd (gets (\<lambda>s. nw_caches N (eg_ext s))) (\<lambda>C.
     sum_io (calculate_subcloud_project_quotas C project_id None quotas (th_subcloud_name th)))"

definition put_network_quota_set :: "ident_env \<Rightarrow> 'x network_env \<Rightarrow> sync_thread \<Rightarrow> 'x handler" where
  "put_network_quota_set E N th r j rsrc =
     bnd (sum_io (nw_loads N (oj_resource_info j))) (\<lambda>quota_dict.
     bnd (network_limits N th (oj_source_resource_id j) quota_dict) (\<lambda>limits.
     seq (nw_update_quota N (oj_source_resource_id j) limits)
     (seq (persist_db_subcloud_resource E th (rs_id rsrc) (rs_master_id rsrc)) (ret ()))))"

definition delete_network_quota_set :: "ident_env \<Rightarrow> 'x network_env \<Rightarrow> sync_thread \<Rightarrow> 'x handler" where
  "delete_network_quota_set E N th r j rsrc =
     bnd (nw_master_quota N (oj_source_resource_id j)) (\<lambda>quota_dict.
     bnd (network_limits N th (oj_source_resource_id j) quota_dict) (\<lambda>limits.
     seq (nw_update_quota N (oj_source_resource_id j) limits) (forget_copy E th rsrc)))"

section \<open>Security groups\<close>

text \<open>The id in a reply.\<close>

definition reply_id :: "string \<Rightarrow> json \<Rightarrow> exn + json" where
  "reply_id k reply = (case json_at k reply of Inl e \<Rightarrow> Inl e | Inr part \<Rightarrow> json_at ''id'' part)"

definition post_security_group :: "ident_env \<Rightarrow> 'x network_env \<Rightarrow> sync_thread \<Rightarrow> 'x handler" where
  "post_security_group E N th r j rsrc =
     bnd (sum_io (nw_loads N (oj_resource_info j))) (\<lambda>sec_group_dict.
     bnd (nw_create_group N sec_group_dict) (\<lambda>reply.
     bnd (sum_io (reply_id ''security_group'' reply)) (\<lambda>i.
     seq (persist_ref E th (rs_id rsrc) i)
     (seq (sum_io (dict_at ''name'' sec_group_dict)) (ret ())))))"

definition put_security_group :: "ident_env \<Rightarrow> 'x network_env \<Rightarrow> sync_thread \<Rightarrow> 'x handler" where
  "put_security_group E N th r j rsrc =
     bnd (sum_io (nw_loads N (oj_resource_info j))) (\<lambda>sec_group_dict.
     bnd (get_db_subcloud_resource E th (rs_id rsrc)) (\<lambda>copy. case copy of
       None \<Rightarrow> ret ()
     | Some c \<Rightarrow>
         bnd (nw_update_group N (sr_subcloud_resource_id c) sec_group_dict) (\<lambda>reply.
         bnd (sum_io (json_at ''security_group'' reply)) (\<lambda>part.
         seq (sum_io (json_at ''id'' part)) (seq (sum_io (json_at ''name'' part)) (ret ()))))))"

definition delete_security_group :: "ident_env \<Rightarrow> 'x network_env \<Rightarrow> sync_thread \<Rightarrow> 'x handler" where
  "delete_security_group E N th r j rsrc =
     delete_copy E th (\<lambda>c. nw_delete_group N (sr_subcloud_resource_id c)) rsrc"

section \<open>The references of a rule\<close>

text \<open>The copy in the subcloud of the group with a master id: the id of the group's row, and the id
  of the copy if there is one.\<close>

definition group_copy ::
  "ident_env \<Rightarrow> sync_thread \<Rightarrow> string \<Rightarrow> ('x engine, nat \<times> string option) io" where
  "group_copy E th master_id =
     bnd (odo (resource_get_by_type_and_master_id admin_context ''security_group'' master_id)) (\<lambda>g.
     bnd (get_db_subcloud_resource E th (rs_id g)) (\<lambda>copy.
     ret (rs_id g, map_option sr_subcloud_resource_id copy)))"

text \<open>The references of a rule are replaced; the dictionary is given by how a text is looked up and
  set. The exception for a remote group names the row of the group the rule belongs to, a variable
  that may not have been set.\<close>

definition update_resource_refs ::
  "ident_env \<Rightarrow> sync_thread \<Rightarrow> ('d \<Rightarrow> string \<Rightarrow> string option) \<Rightarrow> (string \<Rightarrow> string \<Rightarrow> 'd \<Rightarrow> 'd) \<Rightarrow>
   string \<Rightarrow> 'd \<Rightarrow> ('x engine, 'd) io" where
  "update_resource_refs E th look set_text resource_type m_r =
     (if resource_type \<noteq> ''security_group_rule'' then ret m_r
      else
        bnd (case look m_r ''security_group_id'' of
               None \<Rightarrow> ret (None, m_r)
             | Some i \<Rightarrow> bnd (group_copy E th i) (\<lambda>(row, copy). case copy of
                 Some c \<Rightarrow> ret (Some row, set_text ''security_group_id'' c m_r)
               | None \<Rightarrow> raise (Dcorch (SubcloudResourceNotFound (show_nat row))))) (\<lambda>(row, m_r).
        case look m_r ''remote_group_id'' of
          None \<Rightarrow> ret m_r
        | Some i \<Rightarrow> bnd (group_copy E th i) (\<lambda>(_, copy). case copy of
            Some c \<Rightarrow> ret (set_text ''remote_group_id'' c m_r)
          | None \<Rightarrow> (case row of
              Some n \<Rightarrow> raise (Dcorch (SubcloudResourceNotFound (show_nat n)))
            | None \<Rightarrow> raise UnboundLocalError))))"

definition json_text :: "dict \<Rightarrow> string \<Rightarrow> string option" where
  "json_text d k = (case dict_get k d of None \<Rightarrow> None | Some v \<Rightarrow> string_field v)"

definition set_attr :: "string \<Rightarrow> string \<Rightarrow> ext_resource \<Rightarrow> ext_resource" where
  "set_attr k v x = x\<lparr>xr_attrs := AList.update k (Some v) (xr_attrs x)\<rparr>"

definition network_update_resource_refs ::
  "ident_env \<Rightarrow> sync_thread \<Rightarrow> string \<Rightarrow> ext_resource \<Rightarrow> ('x engine, ext_resource) io" where
  "network_update_resource_refs E th = update_resource_refs E th attr set_attr"

section \<open>Rules\<close>

definition RuntimeError :: exn where
  "RuntimeError = PyException ''dictionary changed size during iteration''"

text \<open>The loop that takes out the fields without a value changes the dictionary it goes through, so
  that the step after the first removal raises.\<close>

definition drop_unset :: "dict \<Rightarrow> exn + dict" where
  "drop_unset d = (if list_ex (\<lambda>(k, v). v = JNull) d then Inl RuntimeError else Inr d)"

definition post_security_group_rule :: "ident_env \<Rightarrow> 'x network_env \<Rightarrow> sync_thread \<Rightarrow> 'x handler" where
  "post_security_group_rule E N th r j rsrc =
     bnd (sum_io (nw_loads N (oj_resource_info j))) (\<lambda>info.
     bnd (sum_io (drop_unset info)) (\<lambda>rule.
     bnd (try_catch
            (update_resource_refs E th json_text (\<lambda>k v. dict_set k (JText v)) ''security_group_rule'' rule)
            (\<lambda>e. case e of Dcorch (SubcloudResourceNotFound _) \<Rightarrow> raise (Dcorch SyncRequestFailed)
              | _ \<Rightarrow> raise e)) (\<lambda>rule.
     bnd (try_catch (bnd (nw_create_rule N rule) (\<lambda>reply. sum_io (reply_id ''security_group_rule'' reply)))
            (\<lambda>e. if e \<in> {ClientConflict True, ClientConflict False} then raise (Dcorch SyncRequestFailed)
              else raise e)) (\<lambda>rule_id.
     seq (persist_ref E th (rs_id rsrc) rule_id) (ret ())))))"

definition delete_security_group_rule :: "ident_env \<Rightarrow> 'x network_env \<Rightarrow> sync_thread \<Rightarrow> 'x handler" where
  "delete_security_group_rule E N th r j rsrc =
     delete_copy E th (\<lambda>c. nw_delete_rule N (sr_subcloud_resource_id c)) rsrc"

definition create_security_group :: "ident_env \<Rightarrow> 'x network_env \<Rightarrow> sync_thread \<Rightarrow> 'x handler" where
  "create_security_group E N th r j rsrc = post_security_group E N th r j rsrc"

definition create_security_group_rule :: "ident_env \<Rightarrow> 'x network_env \<Rightarrow> sync_thread \<Rightarrow> 'x handler" where
  "create_security_group_rule E N th r j rsrc = post_security_group_rule E N th r j rsrc"

definition sync_network_resource :: "ident_env \<Rightarrow> 'x network_env \<Rightarrow> sync_thread \<Rightarrow> 'x handler" where
  "sync_network_resource E N th r j rsrc =
     seq (nw_initialize_sc_clients N)
       (service_failures (call_method
         [((OPERATION_TYPE_PUT, ''network_quota_set''), put_network_quota_set E N th),
          ((OPERATION_TYPE_DELETE, ''network_quota_set''), delete_network_quota_set E N th),
          ((OPERATION_TYPE_POST, ''security_group''), post_security_group E N th),
          ((OPERATION_TYPE_CREATE, ''security_group''), create_security_group E N th),
          ((OPERATION_TYPE_PUT, ''security_group''), put_security_group E N th),
          ((OPERATION_TYPE_DELETE, ''security_group''), delete_security_group E N th),
          ((OPERATION_TYPE_POST, ''security_group_rule''), post_security_group_rule E N th),
          ((OPERATION_TYPE_CREATE, ''security_group_rule''), create_security_group_rule E N th),
          ((OPERATION_TYPE_DELETE, ''security_group_rule''), delete_security_group_rule E N th)] r j rsrc))"

section \<open>The resources the audit compares\<close>

definition is_network_resource :: "string \<Rightarrow> bool" where
  "is_network_resource resource_type \<longleftrightarrow> resource_type \<in> {''security_group'', ''security_group_rule''}"

text \<open>No other type is audited.\<close>

definition network_get_resource_id :: "string \<Rightarrow> audited \<Rightarrow> ('x engine, string) io" where
  "network_get_resource_id resource_type a =
     (case a of FromDb r \<Rightarrow> ret (rs_master_id r) | FromCloud x \<Rightarrow> ret (xr_id x))"

definition network_get_resource_info ::
  "'x network_env \<Rightarrow> string \<Rightarrow> audited \<Rightarrow> operation_type \<Rightarrow> ('x engine, string option) io" where
  "network_get_resource_info N resource_type a op =
     (if is_network_resource resource_type then
        (case a of
           FromDb _ \<Rightarrow> raise AttributeError
         | FromCloud x \<Rightarrow> ret (Some (nw_dumps N (filter (\<lambda>(k, v). k \<noteq> ''id'') (xr_attrs x)))))
      else ret (Some []))"

definition get_security_groups :: "'x network_env \<Rightarrow> string \<Rightarrow> ('x engine, ext_resource list option) io" where
  "get_security_groups N region = none_on_failure (nw_groups N region)"

text \<open>A rule without the fields that cannot be given when one is made, and an empty description
  turned into none.\<close>

definition clean_rule :: "ext_resource \<Rightarrow> exn + ext_resource" where
  "clean_rule x =
     (if list_all (has_attr x) [''created_at'', ''updated_at'', ''revision_number'', ''description''] then
        Inr (x\<lparr>xr_attrs := map (\<lambda>(k, v). (k, if k = ''description'' \<and> v = Some [] then None else v))
          (filter (\<lambda>(k, v). k \<notin> {''created_at'', ''updated_at'', ''revision_number'', ''tags''}) (xr_attrs x))\<rparr>)
      else Inl KeyError)"

fun clean_rules :: "ext_resource list \<Rightarrow> exn + ext_resource list" where
  "clean_rules [] = Inr []"
| "clean_rules (x # xs) =
     (case clean_rule x of
        Inl e \<Rightarrow> Inl e
      | Inr y \<Rightarrow> (case clean_rules xs of Inl e \<Rightarrow> Inl e | Inr ys \<Rightarrow> Inr (y # ys)))"

definition get_security_group_rules ::
  "'x network_env \<Rightarrow> string \<Rightarrow> ('x engine, ext_resource list option) io" where
  "get_security_group_rules N region = none_on_failure (bnd (nw_rules N region) (\<lambda>rs. sum_io (clean_rules rs)))"

definition network_get_resources ::
  "'x network_env \<Rightarrow> string \<Rightarrow> string \<Rightarrow> ('x engine, ext_resource list option) io" where
  "network_get_resources N resource_type region =
     (if resource_type = ''security_group'' then get_security_groups N region
      else if resource_type = ''security_group_rule'' then get_security_group_rules N region
      else ret None)"

definition network_get_subcloud_resources ::
  "'x network_env \<Rightarrow> sync_thread \<Rightarrow> string \<Rightarrow> ('x engine, ext_resource list option) io" where
  "network_get_subcloud_resources N th resource_type =
     seq (nw_initialize_sc_clients N) (network_get_resources N resource_type (th_subcloud_name th))"

definition network_get_master_resources ::
  "'x network_env \<Rightarrow> string \<Rightarrow> ('x engine, ext_resource list option) io" where
  "network_get_master_resources N resource_type = network_get_resources N resource_type MASTER_CLOUD"

text \<open>A conjunction of comparisons \<open>qc1[k] == qc2[k]\<close>, from left to right.\<close>

definition item :: "ext_resource \<Rightarrow> string \<Rightarrow> exn + string option" where
  "item x k = (case map_of (xr_attrs x) k of None \<Rightarrow> Inl KeyError | Some v \<Rightarrow> Inr v)"

fun same_items :: "string list \<Rightarrow> ext_resource \<Rightarrow> ext_resource \<Rightarrow> exn + bool" where
  "same_items [] m sc = Inr True"
| "same_items (k # ks) m sc =
     (case (item m k, item sc k) of
        (Inr a, Inr b) \<Rightarrow> if a = b then same_items ks m sc else Inr False
      | _ \<Rightarrow> Inl KeyError)"

definition tenant_name ::
  "'x network_env \<Rightarrow> string \<Rightarrow> ext_resource \<Rightarrow> ('x engine, string) io" where
  "tenant_name N region x =
     bnd (sum_io (item x ''tenant_id'')) (\<lambda>i.
     bnd (nw_tenant_name N region i) (\<lambda>n. case n of None \<Rightarrow> raise AttributeError | Some nm \<Rightarrow> ret nm))"

text \<open>The ids of tenants differ between regions: their names are compared.\<close>

definition same_with_tenant ::
  "'x network_env \<Rightarrow> sync_thread \<Rightarrow> string list \<Rightarrow> string list \<Rightarrow> ext_resource \<Rightarrow> ext_resource \<Rightarrow> ('x engine, bool) io" where
  "same_with_tenant N th before after m sc =
     bnd (tenant_name N MASTER_CLOUD m) (\<lambda>m_name.
     bnd (tenant_name N (th_subcloud_name th) sc) (\<lambda>sc_name.
     bnd (sum_io (same_items before m sc)) (\<lambda>same.
     if \<not> same \<or> m_name \<noteq> sc_name then ret False else sum_io (same_items after m sc))))"

definition same_security_group ::
  "'x network_env \<Rightarrow> sync_thread \<Rightarrow> ext_resource \<Rightarrow> ext_resource \<Rightarrow> ('x engine, bool) io" where
  "same_security_group N th = same_with_tenant N th [''description''] [''name'']"

definition same_security_group_rule ::
  "'x network_env \<Rightarrow> sync_thread \<Rightarrow> ext_resource \<Rightarrow> ext_resource \<Rightarrow> ('x engine, bool) io" where
  "same_security_group_rule N th = same_with_tenant N th [''description'']
     [''project_id'', ''direction'', ''protocol'', ''ethertype'', ''remote_group_id'', ''security_group_id'',
      ''remote_ip_prefix'', ''port_range_min'', ''port_range_max'']"

definition network_same_resource ::
  "'x network_env \<Rightarrow> sync_thread \<Rightarrow> string \<Rightarrow> ext_resource \<Rightarrow> ext_resource \<Rightarrow> ('x engine, bool) io" where
  "network_same_resource N th resource_type m sc =
     (if resource_type = ''security_group'' then same_security_group N th m sc
      else if resource_type = ''security_group_rule'' then same_security_group_rule N th m sc
      else ret True)"

definition network_audit_discrepancy ::
  "ident_env \<Rightarrow> sync_thread \<Rightarrow> string \<Rightarrow> ext_resource \<Rightarrow> ext_resource list \<Rightarrow> ('x engine, bool) io" where
  "network_audit_discrepancy E th resource_type m_r sc_resources =
     seq (if is_network_resource resource_type then
            bnd (network_get_resource_id resource_type (FromCloud m_r)) (\<lambda>i.
            schedule_work E th (th_endpoint_type th) resource_type i OPERATION_TYPE_DELETE None)
          else ret ())
       (ret True)"

text \<open>The first resource of the subcloud that is the same.\<close>

fun find_same_resource ::
  "'x network_env \<Rightarrow> sync_thread \<Rightarrow> string \<Rightarrow> ext_resource \<Rightarrow> ext_resource list \<Rightarrow>
   ('x engine, ext_resource option) io" where
  "find_same_resource N th resource_type m_r [] = ret None"
| "find_same_resource N th resource_type m_r (sc # scs) =
     bnd (network_same_resource N th resource_type m_r sc) (\<lambda>same.
     if same then ret (Some sc) else find_same_resource N th resource_type m_r scs)"

definition network_map_subcloud_resource ::
  "ident_env \<Rightarrow> 'x network_env \<Rightarrow> sync_thread \<Rightarrow> string \<Rightarrow> ext_resource \<Rightarrow> resource option \<Rightarrow>
   ext_resource list \<Rightarrow> ('x engine, bool) io" where
  "network_map_subcloud_resource E N th resource_type m_r row sc_resources =
     (if \<not> is_network_resource resource_type then ret False
      else
        bnd (find_same_resource N th resource_type m_r sc_resources) (\<lambda>found. case found of
          None \<Rightarrow> ret False
        | Some sc_r \<Rightarrow>
            bnd (case row of
                   Some r \<Rightarrow> ret r
                 | None \<Rightarrow> bnd (network_get_resource_id resource_type (FromCloud m_r)) (\<lambda>i.
                     odo (resource_create E admin_context resource_type None i))) (\<lambda>r.
            seq (persist_db_subcloud_resource E th (rs_id r) (xr_id sc_r)) (ret True))))"

section \<open>The class\<close>

definition network_handlers ::
  "ident_env \<Rightarrow> 'x network_env \<Rightarrow> sync_thread \<Rightarrow> string \<Rightarrow> 'x handler option" where
  "network_handlers E N th resource_type =
     (if resource_type \<in> {''network_quota_set'', ''security_group'', ''security_group_rule''}
      then Some (sync_network_resource E N th) else None)"

definition network_class :: "ident_env \<Rightarrow> 'x network_env \<Rightarrow> sync_thread \<Rightarrow> 'x sync_class" where
  "network_class E N th = (base_sync_class E th)\<lparr>
     cl_handlers := network_handlers E N th,
     cl_audit_resources := [''security_group'', ''security_group_rule''],
     cl_get_subcloud_resources := network_get_subcloud_resources N th,
     cl_get_master_resources := network_get_master_resources N,
     cl_same_resource := network_same_resource N th,
     cl_map_subcloud_resource := network_map_subcloud_resource E N th,
     cl_update_resource_refs := network_update_resource_refs E th,
     cl_audit_discrepancy := network_audit_discrepancy E th,
     cl_get_resource_id := network_get_resource_id,
     cl_get_resource_info := network_get_resource_info N,
     cl_audit_action := base_audit_action E th network_get_resource_id (network_get_resource_info N)\<rparr>"

end
