(* ===== verification/DO_ServiceProps.thy ===== *)
theory DO_ServiceProps
  imports DO_IdentityProps DO_QuotaProps DO_Services
begin

text \<open>
  The endpoints of OpenStack's services: their requests end in order like the platform's; the
  ids of key pairs and what becomes of a changed specification of a flavor; and the rules of
  security groups that cannot be created.
\<close>

section \<open>The handlers are well-behaved\<close>

text \<open>The clients do not touch the engine's database, and making them does not look like a request
  that is gone.\<close>

definition makes_clients :: "('x engine, unit) io \<Rightarrow> bool" where
  "makes_clients m \<longleftrightarrow> leaves_db m \<and> (\<forall>s i. fst (m s) \<noteq> Inl (Dcorch (OrchRequestNotFound i)))"

definition volume_outside :: "'x volume_env \<Rightarrow> bool" where
  "volume_outside V \<longleftrightarrow> makes_clients (vo_initialize_sc_clients V) \<and> (\<forall>p c. leaves_db (vo_update V p c)) \<and>
     (\<forall>p. leaves_db (vo_master_quotas V p)) \<and> (\<forall>c d. leaves_db (vo_update_class V c d))"

definition compute_outside :: "'x compute_env \<Rightarrow> bool" where
  "compute_outside N \<longleftrightarrow> makes_clients (cp_initialize_sc_clients N) \<and>
     (\<forall>a. leaves_db (cp_create_flavor N a)) \<and> (\<forall>i. leaves_db (cp_delete_flavor N i)) \<and>
     (\<forall>i. leaves_db (cp_master_flavor N i)) \<and> (\<forall>r. leaves_db (cp_flavors N r)) \<and>
     (\<forall>i t. leaves_db (cp_add_access N i t)) \<and> (\<forall>i t. leaves_db (cp_remove_access N i t)) \<and>
     (\<forall>i. leaves_db (cp_find_flavor N i)) \<and> (\<forall>i v. leaves_db (cp_set_keys N i v)) \<and>
     (\<forall>i ks. leaves_db (cp_unset_keys N i ks)) \<and> (\<forall>n kw. leaves_db (cp_create_keypair N n kw)) \<and>
     (\<forall>n u. leaves_db (cp_delete_keypair N n u)) \<and> (\<forall>p u c f. leaves_db (cp_update_quotas N p u c f)) \<and>
     (\<forall>p u. leaves_db (cp_delete_quotas N p u)) \<and> (\<forall>p. leaves_db (cp_master_quotas N p)) \<and>
     (\<forall>c d. leaves_db (cp_update_class N c d))"

definition network_outside :: "'x network_env \<Rightarrow> bool" where
  "network_outside N \<longleftrightarrow> makes_clients (nw_initialize_sc_clients N) \<and> (\<forall>p c. leaves_db (nw_update_quota N p c)) \<and>
     (\<forall>p. leaves_db (nw_master_quota N p)) \<and> (\<forall>b. leaves_db (nw_create_group N b)) \<and>
     (\<forall>i b. leaves_db (nw_update_group N i b)) \<and> (\<forall>i. leaves_db (nw_delete_group N i)) \<and>
     (\<forall>b. leaves_db (nw_create_rule N b)) \<and> (\<forall>i. leaves_db (nw_delete_rule N i))"

lemma volume_calls:
  assumes "volume_outside V"
  shows "keeps (\<lambda>s. P (eg_db s)) (vo_initialize_sc_clients V)" "keeps (\<lambda>s. P (eg_db s)) (vo_update V p c)"
    "keeps (\<lambda>s. P (eg_db s)) (vo_master_quotas V p)" "keeps (\<lambda>s. P (eg_db s)) (vo_update_class V i d)"
  using assms unfolding volume_outside_def makes_clients_def by (intro keeps_leaves_db [where I = P], simp)+

lemma compute_calls:
  assumes "compute_outside N"
  shows "keeps (\<lambda>s. P (eg_db s)) (cp_initialize_sc_clients N)" "keeps (\<lambda>s. P (eg_db s)) (cp_create_flavor N a)"
    "keeps (\<lambda>s. P (eg_db s)) (cp_delete_flavor N i)" "keeps (\<lambda>s. P (eg_db s)) (cp_master_flavor N v)"
    "keeps (\<lambda>s. P (eg_db s)) (cp_flavors N i)" "keeps (\<lambda>s. P (eg_db s)) (cp_add_access N i v)"
    "keeps (\<lambda>s. P (eg_db s)) (cp_remove_access N i v)" "keeps (\<lambda>s. P (eg_db s)) (cp_find_flavor N i)"
    "keeps (\<lambda>s. P (eg_db s)) (cp_set_keys N i v)" "keeps (\<lambda>s. P (eg_db s)) (cp_unset_keys N i ks)"
    "keeps (\<lambda>s. P (eg_db s)) (cp_create_keypair N i d)" "keeps (\<lambda>s. P (eg_db s)) (cp_delete_keypair N i n)"
    "keeps (\<lambda>s. P (eg_db s)) (cp_update_quotas N i v c b)" "keeps (\<lambda>s. P (eg_db s)) (cp_delete_quotas N i v)"
    "keeps (\<lambda>s. P (eg_db s)) (cp_master_quotas N i)" "keeps (\<lambda>s. P (eg_db s)) (cp_update_class N i d)"
  using assms unfolding compute_outside_def makes_clients_def by (intro keeps_leaves_db [where I = P], simp)+

lemma network_calls:
  assumes "network_outside N"
  shows "keeps (\<lambda>s. P (eg_db s)) (nw_initialize_sc_clients N)" "keeps (\<lambda>s. P (eg_db s)) (nw_update_quota N i c)"
    "keeps (\<lambda>s. P (eg_db s)) (nw_master_quota N i)" "keeps (\<lambda>s. P (eg_db s)) (nw_create_group N d)"
    "keeps (\<lambda>s. P (eg_db s)) (nw_update_group N i d)" "keeps (\<lambda>s. P (eg_db s)) (nw_delete_group N i)"
    "keeps (\<lambda>s. P (eg_db s)) (nw_create_rule N d)" "keeps (\<lambda>s. P (eg_db s)) (nw_delete_rule N i)"
  using assms unfolding network_outside_def makes_clients_def by (intro keeps_leaves_db [where I = P], simp)+

lemma keeps_service_failures [keeps_intros]: "keeps I m \<Longrightarrow> keeps I (service_failures m)"
  by (auto simp: service_failures_def intro!: keeps_intros)

lemma keeps_call_method:
  assumes "\<And>h. h \<in> snd ` set ms \<Longrightarrow> keeps I (h r j rsrc)"
  shows "keeps I (call_method ms r j rsrc)"
  unfolding call_method_def using assms
  by (auto intro!: keeps_intros split: option.splits dest!: map_of_SomeD) force

lemma calm_copies:
  "(\<And>c. keeps (\<lambda>s. calm R (eg_db s)) (remove c)) \<Longrightarrow> keeps (\<lambda>s. calm R (eg_db s)) (delete_copy E th remove rsrc)"
  "keeps (\<lambda>s. calm R (eg_db s)) (forget_copy E th rsrc)"
  unfolding delete_copy_def forget_copy_def
  by (auto intro!: keeps_intros calm_persist calm_subcloud_resources split: option.splits)

lemma calm_volume:
  assumes "volume_outside V"
  shows "keeps (\<lambda>s. calm R (eg_db s)) (sync_volume_resource E V th r j rsrc)"
  unfolding sync_volume_resource_def
  by (intro keeps_intros keeps_call_method volume_calls [OF assms])
    (auto simp: put_volume_quota_set_def delete_volume_quota_set_def put_volume_quota_class_set_def
      create_volume_quota_class_set_def volume_limits_def
      intro!: keeps_intros volume_calls [OF assms] calm_persist calm_copies)

lemma calm_compute:
  assumes "compute_outside N"
  shows "keeps (\<lambda>s. calm R (eg_db s)) (sync_compute_resource E N th r j rsrc)"
proof -
  note calls = compute_calls [OF assms]
  have limits: "keeps (\<lambda>s. calm R (eg_db s)) (compute_limits N th p u q)" for p u q
    unfolding compute_limits_def by (intro keeps_intros)
  have recreate: "keeps (\<lambda>s. calm R (eg_db s)) (recreate_flavor_if_reqd N th a i)"
    "keeps (\<lambda>s. calm R (eg_db s)) (recreate_keypair N n u kw)" for a i n u kw
    unfolding recreate_flavor_if_reqd_def recreate_keypair_def
    by (auto intro!: keeps_intros calls split: option.splits)
  have "keeps (\<lambda>s. calm R (eg_db s)) (create_flavor E N th r j rsrc)"
    unfolding create_flavor_def Let_def
    by (auto intro!: keeps_intros calls recreate calm_persist split: option.splits)
  moreover have "keeps (\<lambda>s. calm R (eg_db s)) (delete_flavor E N th r j rsrc)"
    unfolding delete_flavor_def by (intro calm_copies calls)
  moreover have "keeps (\<lambda>s. calm R (eg_db s)) (action_flavor E N th r j rsrc)"
    unfolding action_flavor_def add_tenant_access_def remove_tenant_access_def set_extra_specs_def
      unset_extra_specs_def
    by (auto intro!: keeps_intros calls calm_persist split: option.splits list.splits json.splits)
  moreover have "keeps (\<lambda>s. calm R (eg_db s)) (create_keypair E N th r j rsrc)"
    unfolding create_keypair_def Let_def
    by (auto intro!: keeps_intros calls recreate calm_persist split: option.splits json.splits)
  moreover have "keeps (\<lambda>s. calm R (eg_db s)) (delete_keypair E N th r j rsrc)"
    unfolding delete_keypair_def by (auto intro!: calm_copies keeps_intros calls)
  moreover have "keeps (\<lambda>s. calm R (eg_db s)) (put_compute_quota_set E N th r j rsrc)"
    "keeps (\<lambda>s. calm R (eg_db s)) (delete_compute_quota_set E N th r j rsrc)"
    "keeps (\<lambda>s. calm R (eg_db s)) (put_compute_quota_class_set E N th r j rsrc)"
    unfolding put_compute_quota_set_def delete_compute_quota_set_def put_compute_quota_class_set_def Let_def
    by (auto intro!: keeps_intros calls limits calm_persist calm_copies)
  ultimately show ?thesis
    unfolding sync_compute_resource_def
    by (intro keeps_intros keeps_call_method calls) (auto simp: create_compute_quota_class_set_def)
qed

lemma reads_group_copy: "reads (group_copy E th i)"
  unfolding group_copy_def by (intro reads_intros)

lemma reads_update_refs: "reads (update_resource_refs E th look put_text t m_r)"
  unfolding update_resource_refs_def
  by (auto intro!: reads_intros reads_group_copy split: option.splits prod.splits)

lemma calm_network:
  assumes "network_outside N"
  shows "keeps (\<lambda>s. calm R (eg_db s)) (sync_network_resource E N th r j rsrc)"
proof -
  note calls = network_calls [OF assms]
  have "keeps (\<lambda>s. calm R (eg_db s)) (put_network_quota_set E N th r j rsrc)"
    "keeps (\<lambda>s. calm R (eg_db s)) (delete_network_quota_set E N th r j rsrc)"
    unfolding put_network_quota_set_def delete_network_quota_set_def network_limits_def
    by (auto intro!: keeps_intros calls calm_persist calm_copies)
  moreover have "keeps (\<lambda>s. calm R (eg_db s)) (post_security_group E N th r j rsrc)"
    "keeps (\<lambda>s. calm R (eg_db s)) (put_security_group E N th r j rsrc)"
    unfolding post_security_group_def put_security_group_def
    by (auto intro!: keeps_intros calls calm_persist calm_persist_ref split: option.splits)
  moreover have "keeps (\<lambda>s. calm R (eg_db s)) (delete_security_group E N th r j rsrc)"
    "keeps (\<lambda>s. calm R (eg_db s)) (delete_security_group_rule E N th r j rsrc)"
    unfolding delete_security_group_def delete_security_group_rule_def by (intro calm_copies calls)+
  moreover have "keeps (\<lambda>s. calm R (eg_db s)) (post_security_group_rule E N th r j rsrc)"
    unfolding post_security_group_rule_def
    by (auto intro!: keeps_intros reads_keeps [OF reads_update_refs] calls calm_persist_ref
        split: exn.splits dcorch_exn.splits)
  ultimately show ?thesis
    unfolding sync_network_resource_def
    by (intro keeps_intros keeps_call_method calls)
      (auto simp: create_security_group_def create_security_group_rule_def)
qed

lemma service_failures_never:
  assumes "makes_clients init"
  shows "fst (seq init (service_failures m) s) \<noteq> Inl (Dcorch (OrchRequestNotFound x))"
proof -
  obtain a u where i: "init s = (a, u)" by fastforce
  have "a \<noteq> Inl (Dcorch (OrchRequestNotFound x))"
    using assms i unfolding makes_clients_def by (metis fst_conv)
  moreover have "fst (service_failures m u) \<noteq> Inl (Dcorch (OrchRequestNotFound x))"
    by (cases "m u") (auto simp: service_failures_def try_catch_def is_Exception_def split: sum.splits)
  ultimately show ?thesis by (cases a) (simp_all add: seq_apply i)
qed

lemma one_handler_behaved:
  assumes "\<And>t h'. cl_handlers c t = Some h' \<Longrightarrow> h' = h"
    and "\<And>R r j rsrc. keeps (\<lambda>s. calm R (eg_db s)) (h r j rsrc)"
    and "\<And>r j rsrc s x. fst (h r j rsrc s) \<noteq> Inl (Dcorch (OrchRequestNotFound x))"
  shows "behaved c"
proof -
  have "calm (od_orch_requests (eg_db s)) (eg_db (snd (h r j rsrc s)))" if "odb_wf (eg_db s)" for r j rsrc s
    using that assms(2) unfolding keeps_def calm_def by blast
  then show ?thesis
    unfolding behaved_def using assms(1,3) by (auto simp: calm_def)
qed

lemma volume_behaved: "volume_outside V \<Longrightarrow> behaved (volume_class E V th)"
  by (rule one_handler_behaved [where h = "sync_volume_resource E V th"])
    (simp add: volume_class_def volume_handlers_def split: if_splits, rule calm_volume,
      simp_all add: sync_volume_resource_def volume_outside_def service_failures_never)

lemma compute_behaved: "compute_outside N \<Longrightarrow> behaved (compute_class E N th)"
  by (rule one_handler_behaved [where h = "sync_compute_resource E N th"])
    (simp add: compute_class_def compute_handlers_def split: if_splits, rule calm_compute,
      simp_all add: sync_compute_resource_def compute_outside_def service_failures_never)

lemma network_behaved: "network_outside N \<Longrightarrow> behaved (network_class E N th)"
  by (rule one_handler_behaved [where h = "sync_network_resource E N th"])
    (simp add: network_class_def network_handlers_def split: if_splits, rule calm_network,
      simp_all add: sync_network_resource_def network_outside_def service_failures_never)

interpretation volume: sync_service volume_class volume_outside
  by unfold_locales (rule volume_behaved)

interpretation compute: sync_service compute_class compute_outside
  by unfold_locales (rule compute_behaved)

interpretation network: sync_service network_class network_outside
  by unfold_locales (rule network_behaved)

text \<open>The sync threads of the endpoints, each with clients that leave the engine's database alone.\<close>

definition service_class :: "ident_env \<Rightarrow> sync_thread \<Rightarrow> 'x sync_class \<Rightarrow> bool" where
  "service_class E th c \<longleftrightarrow>
     (\<exists>S. sysinv_outside S \<and> c = sysinv_class E S th) \<or>
     (\<exists>I. identity_outside I \<and> c = identity_class E I th) \<or> (\<exists>V. volume_outside V \<and> c = volume_class E V th) \<or>
     (\<exists>N. compute_outside N \<and> c = compute_class E N th) \<or> (\<exists>N. network_outside N \<and> c = network_class E N th)"

text \<open>C10: The requests of an endpoint, be it that of the platform or that for identity, volumes,
  compute or network, are handled in the order of their list, whichever of them fail: when the loop returns, there is a point in the list
  such that every request before it has failed or is completed and soft-deleted, every request
  after the one at that point is as it was, and no other request has changed.\<close>

theorem service_requests_in_order:
  assumes "service_class E th c" and "good_db (eg_db s)" and "request_rows (eg_db s) rs"
    and "sync_requests E c th rs False s = (Inr b, s')"
  shows "good_db (eg_db s') \<and> in_order rs (eg_db s') \<and> outside_same rs (eg_db s) (eg_db s')"
  using assms platform.requests_in_order identity.requests_in_order volume.requests_in_order
    compute.requests_in_order network.requests_in_order
  unfolding service_class_def by metis

theorem service_requests_in_order_witness:
  "in_order ex_requests (eg_db (snd ex_identity_run))"
proof -
  have run: "ex_identity_run = (Inr False, snd ex_identity_run)"
    by (rule prod_eqI) (simp_all only: ex_identity_run_ok fst_conv snd_conv)
  have "service_class ex_ident ex_identity_thread (identity_class ex_ident ex_identity ex_identity_thread)"
    using ex_identity_outside by (auto simp: service_class_def)
  moreover have "good_db (eg_db (ex_engine ex_user_odb))" using ex_user_odb_good by (simp add: ex_engine_def)
  moreover have "request_rows (eg_db (ex_engine ex_user_odb)) ex_requests"
    by (simp add: request_rows_def live_def ex_user_odb_def ex_user_job_def ex_odefs)
  ultimately show ?thesis
    using service_requests_in_order [OF _ _ _ run] by blast
qed

section \<open>Key pairs\<close>

lemma split_at_length: "length (split_at d cs acc) = Suc (length (filter (\<lambda>c. c = d) cs))"
  by (induction d cs acc rule: split_at.induct) auto

text \<open>The id under which a key pair is recorded can be taken apart into its name and its owner
  exactly when the name is not empty and neither has a slash in it; for any other one the handlers
  fail or work on another key pair.\<close>

theorem keypair_id_taken_apart:
  "keypair_parts (keypair_construct_id name user_id) = Inr (name, user_id) \<longleftrightarrow>
     name \<noteq> [] \<and> KEYPAIR_ID_DELIM \<notin> set name \<and> KEYPAIR_ID_DELIM \<notin> set user_id"
proof -
  let ?i = "keypair_construct_id name user_id"
  have n: "length (filter (\<lambda>c. c = KEYPAIR_ID_DELIM) ?i) =
      Suc (length (filter (\<lambda>c. c = KEYPAIR_ID_DELIM) name) + length (filter (\<lambda>c. c = KEYPAIR_ID_DELIM) user_id))"
    by (simp add: keypair_construct_id_def)
  show ?thesis
  proof (cases "keypair_constructed_id ?i")
    case False
    then have "keypair_parts ?i = Inr (?i, [])"
      by (simp add: keypair_parts_def keypair_deconstruct_id_def)
    moreover have "?i \<noteq> name" by (simp add: keypair_construct_id_def)
    moreover have "\<not> (name \<noteq> [] \<and> KEYPAIR_ID_DELIM \<notin> set name)"
      using False by (auto simp: keypair_constructed_id_def keypair_construct_id_def takeWhile_append takeWhile_eq_Nil_iff
          split: if_splits)
    ultimately show ?thesis by auto
  next
    case True
    then have d: "keypair_deconstruct_id ?i = split_at KEYPAIR_ID_DELIM ?i []"
      by (simp add: keypair_deconstruct_id_def)
    show ?thesis
    proof (cases "KEYPAIR_ID_DELIM \<in> set name \<or> KEYPAIR_ID_DELIM \<in> set user_id")
      case True
      then have "length (filter (\<lambda>c. c = KEYPAIR_ID_DELIM) name) + length (filter (\<lambda>c. c = KEYPAIR_ID_DELIM) user_id) \<noteq> 0"
        by (auto simp: filter_empty_conv)
      then have "length (keypair_deconstruct_id ?i) \<noteq> 2"
        by (simp add: d split_at_length n)
      then have "keypair_parts ?i = Inl ValueError"
        by (auto simp: keypair_parts_def split: list.splits)
      then show ?thesis using True by auto
    next
      case no: False
      then have "keypair_parts ?i = Inr (name, user_id)"
        by (simp add: keypair_parts_def d) (simp add: keypair_construct_id_def split_at_append split_at_none)
      moreover have "name \<noteq> []"
        using True by (auto simp: keypair_constructed_id_def keypair_construct_id_def)
      ultimately show ?thesis using no by simp
    qed
  qed
qed

section \<open>Rules of security groups\<close>

text \<open>A rule that has a field without a value, as nearly every rule of neutron has, is never created
  in a subcloud: taking the field out disturbs the loop that does it, and the handler asks for
  another try without having asked anything of the subcloud.\<close>

theorem rule_with_unset_field_never_created:
  assumes "nw_initialize_sc_clients N s = (Inr (), s1)" and "nw_loads N (oj_resource_info j) = Inr d"
    and "(k, JNull) \<in> set d" and "rs_resource_type rsrc = ''security_group_rule''"
    and "oj_operation_type j \<in> {OPERATION_TYPE_POST, OPERATION_TYPE_CREATE}"
  shows "sync_network_resource E N th r j rsrc s = (Inl (Dcorch SyncRequestFailedRetry), s1)"
proof -
  have "drop_unset d = Inl RuntimeError"
    using assms(3) by (force simp: drop_unset_def list_ex_iff)
  then have "post_security_group_rule E N th r j rsrc s1 = (Inl RuntimeError, s1)"
    by (simp add: post_security_group_rule_def assms(2) sum_io_def)
  then show ?thesis
    using assms(5)
    by (auto simp: sync_network_resource_def seq_apply assms(1,4) service_failures_def try_catch_def
        call_method_def create_security_group_rule_def RuntimeError_def is_Exception_def)
qed

definition ex_network :: "unit network_env" where
  "ex_network = \<lparr>nw_initialize_sc_clients = ret (), nw_update_quota = (\<lambda>_ _. ret ()), nw_master_quota = (\<lambda>_. ret []),
     nw_create_group = (\<lambda>_. ret JNull), nw_update_group = (\<lambda>_ _. ret JNull), nw_delete_group = (\<lambda>_. ret ()),
     nw_create_rule = (\<lambda>_. ret (JObject [(''security_group_rule'', JObject [(''id'', JText ''r1'')])])),
     nw_delete_rule = (\<lambda>_. ret ()), nw_groups = (\<lambda>_. ret []), nw_rules = (\<lambda>_. ret []),
     nw_tenant_name = (\<lambda>_ _. ret None),
     nw_loads = (\<lambda>_. Inr [(''direction'', JText ''ingress''), (''remote_ip_prefix'', JNull)]),
     nw_dumps = (\<lambda>_. []), nw_caches = (\<lambda>_. \<lparr>qc_total = [], qc_regions = []\<rparr>)\<rparr>"

theorem rule_with_unset_field_never_created_witness:
  "sync_network_resource ex_ident ex_network ex_thread (ex_request 1 ''alpha'' ORCH_REQUEST_QUEUED)
     (ex_job\<lparr>oj_operation_type := OPERATION_TYPE_POST\<rparr>) (ex_resource\<lparr>rs_resource_type := ''security_group_rule''\<rparr>)
     (ex_engine (ex_odb ORCH_REQUEST_QUEUED)) =
   (Inl (Dcorch SyncRequestFailedRetry), ex_engine (ex_odb ORCH_REQUEST_QUEUED))"
  by (rule rule_with_unset_field_never_created [where k = "''remote_ip_prefix''" and
        d = "[(''direction'', JText ''ingress''), (''remote_ip_prefix'', JNull)]"])
    (simp_all add: ex_network_def)

section \<open>Specifications of flavors\<close>

lemma split_concat:
  "\<forall>k \<in> set ks. d \<notin> set k \<Longrightarrow> split_at d (concat (map (\<lambda>k. k @ [d]) ks)) [] = ks @ [[]]"
  by (induction ks) (simp_all add: split_at_append)

lemma spec_keys_joined:
  assumes "\<forall>(k, v) \<in> set extra. CHR '';'' \<notin> set k" and "(k, v) \<in> set extra" and "k \<noteq> []"
  shows "k \<in> set (spec_keys (concat (map (\<lambda>(k, v). k @ '';'') extra)))"
proof -
  have "concat (map (\<lambda>(k, v). k @ '';'') extra) = concat (map (\<lambda>k. k @ [CHR '';'']) (map fst extra))"
    by (simp add: comp_def split_def)
  moreover have "\<forall>k \<in> set (map fst extra). CHR '';'' \<notin> set k" using assms(1) by auto
  ultimately have "split_at (CHR '';'') (concat (map (\<lambda>(k, v). k @ '';'') extra)) [] = map fst extra @ [[]]"
    using split_concat by metis
  then show ?thesis using assms(2,3) by (force simp: spec_keys_def)
qed

text \<open>A specification of a flavor whose value has changed in the system controller is deleted from
  the subcloud by the audit that is to update it: of the two actions asked for, in this order, the
  first sets its new value and the second one deletes its key, because the old value counts as one
  the subcloud has too many.\<close>

theorem changed_spec_deleted:
  assumes "(k, v) \<in> set ms" and "(k, w) \<in> set scs" and "distinct (map fst ms)" and "distinct (map fst scs)"
    and "v \<noteq> w" and "k \<noteq> []" and "\<forall>(k, v) \<in> set scs. CHR '';'' \<notin> set k"
  shows "\<exists>d ks. extra_spec_actions ms scs = [(''extra_specs'', JObject d), (''extra_specs_delete'', JText ks)] \<and>
    (k, opt_json v) \<in> set d \<and> k \<in> set (spec_keys ks)"
proof -
  let ?d = "filter (\<lambda>p. p \<notin> set scs) ms" and ?x = "filter (\<lambda>p. p \<notin> set ms) scs"
  have "(k, v) \<notin> set scs" "(k, w) \<notin> set ms"
    using assms(1-5) by (meson eq_key_imp_eq_value)+
  then have d: "(k, v) \<in> set ?d" and x: "(k, w) \<in> set ?x" using assms(1,2) by auto
  have k: "k \<in> set (spec_keys (concat (map (\<lambda>(k, v). k @ '';'') ?x)))"
    by (rule spec_keys_joined [OF _ x assms(6)]) (use assms(7) in auto)
  have "concat (map (\<lambda>(k, v). k @ '';'') ?x) \<noteq> []" using x by force
  moreover have "?d \<noteq> []" using d by force
  moreover have "(k, opt_json v) \<in> set (map (\<lambda>(k, v). (k, opt_json v)) ?d)" using d by force
  ultimately show ?thesis using k by (simp add: extra_spec_actions_def Let_def)
qed

theorem changed_spec_deleted_witness:
  "\<exists>d ks. extra_spec_actions [(''hw:cpu'', Some ''2'')] [(''hw:cpu'', Some ''1'')] =
     [(''extra_specs'', JObject d), (''extra_specs_delete'', JText ks)] \<and>
     (''hw:cpu'', opt_json (Some ''2'')) \<in> set d \<and> ''hw:cpu'' \<in> set (spec_keys ks)"
  by (rule changed_spec_deleted [where w = "Some ''1''"]) auto

end
