(* ===== verification/DS_Store.thy ===== *)
theory DS_Store
  imports DO_Identity DC_DB_Subclouds
begin

text \<open>
  \<open>dcdbsync/db/identity/sqlalchemy/api.py\<close>: the rows of the keystone database of a region, read and
  written by the service dcdbsync, so that users, groups, projects and roles have the same ids in
  every region. The decorators that ask for a context are those of \<open>dcmanager\<close>, copied.
\<close>

section \<open>Statements\<close>

text \<open>The tables by name. The code does not declare them: it reflects their columns from the
  database, which is keystone's. What the database makes of a statement besides its effect on the
  rows it names is a parameter: it may refuse it, and it fills in generated ids and defaults and
  lets changes cascade. The order in which rows are found, which SQL leaves open, is that of the table.\<close>

type_synonym keystone = "string \<Rightarrow> dict list"

datatype statement =
    Insert string "dict list"
  | Delete string string json
  | Update string string json dict

record store_env =
  se_columns :: "string \<Rightarrow> string list"
  se_enforce :: "statement \<Rightarrow> keystone \<Rightarrow> exn + keystone"

definition row_of :: "string list \<Rightarrow> dict \<Rightarrow> dict" where
  "row_of cols d = map (\<lambda>c. (c, case dict_get c d of None \<Rightarrow> JNull | Some v \<Rightarrow> v)) cols"

definition col :: "string \<Rightarrow> dict \<Rightarrow> json" where
  "col c r = (case dict_get c r of None \<Rightarrow> JNull | Some v \<Rightarrow> v)"

text \<open>\<open>index2column\<close> gives None for a name that is no column; None is only equal to None.\<close>

definition matches :: "string list \<Rightarrow> string \<Rightarrow> json \<Rightarrow> dict \<Rightarrow> bool" where
  "matches cols idx v r = (if idx \<in> set cols then dict_get idx r = Some v else v = JNull)"

text \<open>An insertion of no rows is sent without parameters, which makes a row of defaults.\<close>

fun effect :: "store_env \<Rightarrow> statement \<Rightarrow> keystone \<Rightarrow> keystone" where
  "effect E (Insert t ds) K = K(t := K t @ map (row_of (se_columns E t)) (if ds = [] then [[]] else ds))"
| "effect E (Delete t idx v) K = K(t := filter (\<lambda>r. \<not> matches (se_columns E t) idx v r) (K t))"
| "effect E (Update t idx v d) K = K(t := map (\<lambda>r. if matches (se_columns E t) idx v r
     then map (\<lambda>(c, x). (c, case dict_get c d of None \<Rightarrow> x | Some y \<Rightarrow> y)) r else r) (K t))"

definition execute :: "store_env \<Rightarrow> statement \<Rightarrow> (keystone, unit) io" where
  "execute E st = (\<lambda>K. case se_enforce E st (effect E st K) of Inl e \<Rightarrow> (Inl e, K) | Inr K' \<Rightarrow> (Inr (), K'))"

definition insert_rows :: "store_env \<Rightarrow> string \<Rightarrow> dict list \<Rightarrow> (keystone, unit) io" where
  "insert_rows E t ds = execute E (Insert t ds)"

definition delete_rows :: "store_env \<Rightarrow> string \<Rightarrow> string \<Rightarrow> json \<Rightarrow> (keystone, unit) io" where
  "delete_rows E t idx v = execute E (Delete t idx v)"

definition update_rows :: "store_env \<Rightarrow> string \<Rightarrow> string \<Rightarrow> json \<Rightarrow> dict \<Rightarrow> (keystone, unit) io" where
  "update_rows E t idx v d = execute E (Update t idx v d)"

text \<open>A value that is None or empty selects every row.\<close>

definition query_rows :: "store_env \<Rightarrow> string \<Rightarrow> (string \<times> json) option \<Rightarrow> (keystone, dict list) io" where
  "query_rows E t by = gets (\<lambda>K. map (row_of (se_columns E t)) (case by of
     None \<Rightarrow> K t
   | Some (idx, v) \<Rightarrow> if truthy_json v then filter (matches (se_columns E t) idx v) (K t) else K t))"

section \<open>Exceptions and payloads\<close>

text \<open>\<open>dcdbsync/common/exceptions.py\<close>; the id in their texts is left out.\<close>

datatype store_exn = UserNotFound | GroupNotFound | ProjectNotFound | RoleNotFound | RevokeEventNotFound

fun store_exn_str :: "store_exn \<Rightarrow> string" where
  "store_exn_str UserNotFound = ''User doesn't exist.''"
| "store_exn_str GroupNotFound = ''Group doesn't exist.''"
| "store_exn_str ProjectNotFound = ''Project doesn't exist.''"
| "store_exn_str RoleNotFound = ''Role doesn't exist.''"
| "store_exn_str RevokeEventNotFound = ''Token revocation event doesn't exist.''"

definition Store :: "store_exn \<Rightarrow> exn" where
  "Store e = PyException (''dcdbsync: '' @ store_exn_str e)"

definition as_object :: "json \<Rightarrow> exn + dict" where
  "as_object v = (case v of JObject d \<Rightarrow> Inr d | _ \<Rightarrow> Inl AttributeError)"

fun as_objects :: "json list \<Rightarrow> exn + dict list" where
  "as_objects [] = Inr []"
| "as_objects (v # vs) = (case as_object v of Inl e \<Rightarrow> Inl e | Inr d \<Rightarrow>
     (case as_objects vs of Inl e \<Rightarrow> Inl e | Inr ds \<Rightarrow> Inr (d # ds)))"

definition as_list :: "json \<Rightarrow> exn + json list" where
  "as_list v = (case v of JArray vs \<Rightarrow> Inr vs | _ \<Rightarrow> Inl TypeError)"

text \<open>\<open>payload[k]\<close> as an object, as a list, and as a list of objects.\<close>

definition object_at :: "string \<Rightarrow> dict \<Rightarrow> ('s, dict) io" where
  "object_at k d = bnd (sum_io (dict_at k d)) (\<lambda>v. sum_io (as_object v))"

definition list_at :: "string \<Rightarrow> dict \<Rightarrow> ('s, json list) io" where
  "list_at k d = bnd (sum_io (dict_at k d)) (\<lambda>v. sum_io (as_list v))"

definition objects_at :: "string \<Rightarrow> dict \<Rightarrow> ('s, dict list) io" where
  "objects_at k d = bnd (list_at k d) (\<lambda>vs. sum_io (as_objects vs))"

definition first_row :: "exn \<Rightarrow> dict list \<Rightarrow> ('s, dict) io" where
  "first_row e rs = (case rs of [] \<Rightarrow> raise e | r # _ \<Rightarrow> ret r)"

section \<open>Users\<close>

text \<open>A user is its row with those of its local user and their passwords.\<close>

definition user_record :: "dict list \<Rightarrow> dict list \<Rightarrow> dict \<Rightarrow> dict" where
  "user_record users passwords local_user =
     (''local_user'', JObject local_user) #
     (case filter (\<lambda>u. col ''id'' u = col ''user_id'' local_user) users of
        [] \<Rightarrow> [] | us \<Rightarrow> [(''user'', JObject (last us))]) @
     [(''password'', JArray (map JObject (filter (\<lambda>p. col ''local_user_id'' p = col ''id'' local_user) passwords)))]"

definition user_get_all :: "store_env \<Rightarrow> request_context option \<Rightarrow> (keystone, dict list) io" where
  "user_get_all E ctx = require_context ctx
     (bnd (query_rows E ''user'' None) (\<lambda>users.
      bnd (query_rows E ''local_user'' None) (\<lambda>local_users.
      bnd (query_rows E ''password'' None) (\<lambda>passwords.
      ret (map (user_record users passwords) local_users)))))"

definition user_get :: "store_env \<Rightarrow> request_context option \<Rightarrow> json \<Rightarrow> (keystone, dict) io" where
  "user_get E ctx user_id = require_context ctx
     (bnd (query_rows E ''user'' (Some (''id'', user_id))) (\<lambda>users.
      bnd (first_row (Store UserNotFound) users) (\<lambda>user.
      bnd (query_rows E ''local_user'' (Some (''user_id'', user_id))) (\<lambda>local_users.
      bnd (first_row (Store UserNotFound) local_users) (\<lambda>local_user.
      bnd (if local_user = [] then ret []
           else query_rows E ''password'' (Some (''local_user_id'', col ''id'' local_user))) (\<lambda>passwords.
      ret [(''user'', JObject user), (''local_user'', JObject local_user),
           (''password'', JArray (map JObject passwords))]))))))"

definition user_create :: "store_env \<Rightarrow> request_context option \<Rightarrow> dict \<Rightarrow> (keystone, dict) io" where
  "user_create E ctx payload = require_admin_context ctx
     (bnd (object_at ''user'' payload) (\<lambda>user.
      bnd (object_at ''local_user'' payload) (\<lambda>local_user.
      bnd (objects_at ''password'' payload) (\<lambda>passwords.
      seq (write_session
        (seq (insert_rows E ''user'' [user])
        (seq (insert_rows E ''local_user'' [dict_del ''id'' local_user])
        (bnd (sum_io (dict_at ''user_id'' local_user)) (\<lambda>user_id.
         bnd (query_rows E ''local_user'' (Some (''user_id'', user_id))) (\<lambda>inserted.
         bnd (first_row (Store UserNotFound) inserted) (\<lambda>row.
         insert_rows E ''password''
           (map (\<lambda>p. dict_set ''local_user_id'' (col ''id'' row) (dict_del ''id'' p)) passwords))))))))
      (bnd (sum_io (dict_at ''id'' user)) (user_get E ctx))))))"

text \<open>The row of a user: when its id changes, the options that refer to the old id are taken out
  before; of those the last one is put back.\<close>

definition update_user_row :: "store_env \<Rightarrow> json \<Rightarrow> dict \<Rightarrow> (keystone, json) io" where
  "update_user_row E user_id payload =
     (case dict_get ''user'' payload of
        None \<Rightarrow> ret user_id
      | Some v \<Rightarrow>
          bnd (sum_io (as_object v)) (\<lambda>user.
            let new_user_id = col ''id'' user in
            if user_id \<noteq> new_user_id then
              bnd (query_rows E ''user_option'' (Some (''user_id'', user_id))) (\<lambda>user_options.
              seq (delete_rows E ''user_option'' ''user_id'' user_id)
              (seq (update_rows E ''user'' ''id'' user_id user)
              (seq (if user_options = [] then ret ()
                    else insert_rows E ''user_option'' [dict_set ''user_id'' new_user_id (last user_options)])
                (ret new_user_id))))
            else seq (update_rows E ''user'' ''id'' user_id (dict_del ''id'' user)) (ret new_user_id)))"

definition update_passwords :: "store_env \<Rightarrow> json \<Rightarrow> dict \<Rightarrow> (keystone, unit) io" where
  "update_passwords E local_user_id payload =
     (if dict_get ''password'' payload = None then ret ()
      else
        seq (delete_rows E ''password'' ''local_user_id'' local_user_id)
        (bnd (objects_at ''password'' payload) (for_each (\<lambda>p.
           insert_rows E ''password'' [dict_set ''local_user_id'' local_user_id (dict_del ''id'' p)]))))"

definition update_local_user :: "store_env \<Rightarrow> json \<Rightarrow> json \<Rightarrow> dict \<Rightarrow> (keystone, unit) io" where
  "update_local_user E user_id new_user_id payload =
     (case dict_get ''local_user'' payload of
        None \<Rightarrow> ret ()
      | Some v \<Rightarrow>
          bnd (sum_io (as_object v)) (\<lambda>local_user.
          seq (update_rows E ''local_user'' ''user_id'' user_id (dict_del ''id'' local_user))
          (bnd (query_rows E ''local_user'' (Some (''user_id'', new_user_id))) (\<lambda>updated.
           case updated of
             [] \<Rightarrow> seq (sum_io (dict_at ''user_id'' local_user)) (raise (Store UserNotFound))
           | row # _ \<Rightarrow> update_passwords E (col ''id'' row) payload))))"

definition rename_user :: "store_env \<Rightarrow> json \<Rightarrow> json \<Rightarrow> (keystone, unit) io" where
  "rename_user E user_id new_user_id =
     (if user_id = new_user_id then ret ()
      else seq (update_rows E ''assignment'' ''actor_id'' user_id [(''actor_id'', new_user_id)])
        (seq (update_rows E ''system_assignment'' ''actor_id'' user_id [(''actor_id'', new_user_id)])
          (update_rows E ''user_group_membership'' ''user_id'' user_id [(''user_id'', new_user_id)])))"

definition user_update :: "store_env \<Rightarrow> request_context option \<Rightarrow> json \<Rightarrow> dict \<Rightarrow> (keystone, dict) io" where
  "user_update E ctx user_id payload = require_admin_context ctx
     (bnd (write_session
        (bnd (update_user_row E user_id payload) (\<lambda>new_user_id.
         seq (update_local_user E user_id new_user_id payload)
         (seq (rename_user E user_id new_user_id) (ret new_user_id)))))
       (user_get E ctx))"

section \<open>Groups\<close>

fun text_of :: "json \<Rightarrow> string" where
  "text_of (JText s) = s"
| "text_of _ = []"

definition sort_ids :: "json list \<Rightarrow> json list" where
  "sort_ids = sort_key text_of"

definition group_record :: "dict list \<Rightarrow> dict \<Rightarrow> dict" where
  "group_record memberships g =
     [(''group'', JObject g),
      (''local_user_ids'', JArray (sort_ids (map (col ''user_id'')
         (filter (\<lambda>m. col ''group_id'' m = col ''id'' g) memberships))))]"

definition group_get_all :: "store_env \<Rightarrow> request_context option \<Rightarrow> (keystone, dict list) io" where
  "group_get_all E ctx = require_context ctx
     (bnd (query_rows E ''group'' None) (\<lambda>groups.
      bnd (query_rows E ''user_group_membership'' None) (\<lambda>memberships.
      ret (map (group_record memberships) groups))))"

text \<open>A member that is no local user is an error.\<close>

fun local_members :: "store_env \<Rightarrow> json list \<Rightarrow> (keystone, json list) io" where
  "local_members E [] = ret []"
| "local_members E (user_id # ids) =
     bnd (query_rows E ''local_user'' (Some (''user_id'', user_id))) (\<lambda>local_user.
     bnd (first_row (Store UserNotFound) local_user) (\<lambda>row.
     bnd (local_members E ids) (\<lambda>rest. ret (col ''user_id'' row # rest))))"

definition group_get :: "store_env \<Rightarrow> request_context option \<Rightarrow> json \<Rightarrow> (keystone, dict) io" where
  "group_get E ctx group_id = require_context ctx
     (bnd (query_rows E ''group'' (Some (''id'', group_id))) (\<lambda>groups.
      bnd (first_row (Store GroupNotFound) groups) (\<lambda>g.
      bnd (query_rows E ''user_group_membership'' (Some (''group_id'', group_id))) (\<lambda>memberships.
      bnd (local_members E (map (col ''user_id'') memberships)) (\<lambda>ids.
      ret [(''group'', JObject g), (''local_user_ids'', JArray ids)])))))"

definition add_members :: "store_env \<Rightarrow> json \<Rightarrow> json list \<Rightarrow> (keystone, unit) io" where
  "add_members E group_id = for_each (\<lambda>user_id.
     insert_rows E ''user_group_membership'' [[(''user_id'', user_id), (''group_id'', group_id)]])"

definition group_create :: "store_env \<Rightarrow> request_context option \<Rightarrow> dict \<Rightarrow> (keystone, dict) io" where
  "group_create E ctx payload = require_admin_context ctx
     (bnd (object_at ''group'' payload) (\<lambda>g.
      bnd (list_at ''local_user_ids'' payload) (\<lambda>local_user_ids.
      seq (write_session
        (seq (insert_rows E ''group'' [g])
          (if local_user_ids = [] then ret ()
           else bnd (sum_io (dict_at ''id'' g)) (\<lambda>group_id. add_members E group_id local_user_ids))))
      (bnd (sum_io (dict_at ''id'' g)) (group_get E ctx)))))"

definition update_group_rows :: "store_env \<Rightarrow> json \<Rightarrow> dict \<Rightarrow> (keystone, json) io" where
  "update_group_rows E group_id payload =
     (case (dict_get ''group'' payload, dict_get ''local_user_ids'' payload) of
        (Some v, Some ids) \<Rightarrow>
          bnd (sum_io (as_object v)) (\<lambda>g.
          let new_group_id = col ''id'' g in
          bnd (query_rows E ''user_group_membership'' (Some (''group_id'', group_id))) (\<lambda>memberships.
          let changed = (group_id \<noteq> new_group_id \<or>
                ids \<noteq> JArray (sort_ids (map (col ''user_id'') memberships))) in
          seq (if changed then delete_rows E ''user_group_membership'' ''group_id'' group_id else ret ())
          (seq (update_rows E ''group'' ''id'' group_id g)
          (seq (if changed then bnd (sum_io (as_list ids)) (add_members E new_group_id) else ret ())
            (ret new_group_id)))))
      | _ \<Rightarrow> ret group_id)"

definition group_update :: "store_env \<Rightarrow> request_context option \<Rightarrow> json \<Rightarrow> dict \<Rightarrow> (keystone, dict) io" where
  "group_update E ctx group_id payload = require_admin_context ctx
     (bnd (write_session
        (bnd (update_group_rows E group_id payload) (\<lambda>new_group_id.
         seq (if group_id = new_group_id then ret ()
              else seq (update_rows E ''assignment'' ''actor_id'' group_id [(''actor_id'', new_group_id)])
                (update_rows E ''system_assignment'' ''actor_id'' group_id [(''actor_id'', new_group_id)]))
           (ret new_group_id))))
       (group_get E ctx))"

section \<open>Projects\<close>

definition record_all :: "string \<Rightarrow> string \<Rightarrow> store_env \<Rightarrow> request_context option \<Rightarrow> (keystone, dict list) io" where
  "record_all t key E ctx = require_context ctx
     (bnd (query_rows E t None) (\<lambda>rs. ret (map (\<lambda>r. [(key, JObject r)]) rs)))"

definition project_get_all :: "store_env \<Rightarrow> request_context option \<Rightarrow> (keystone, dict list) io" where
  "project_get_all = record_all ''project'' ''project''"

definition project_get :: "store_env \<Rightarrow> request_context option \<Rightarrow> json \<Rightarrow> (keystone, dict) io" where
  "project_get E ctx project_id = require_context ctx
     (bnd (query_rows E ''project'' (Some (''id'', project_id))) (\<lambda>projects.
      bnd (first_row (Store ProjectNotFound) projects) (\<lambda>r. ret [(''project'', JObject r)])))"

definition project_create :: "store_env \<Rightarrow> request_context option \<Rightarrow> dict \<Rightarrow> (keystone, dict) io" where
  "project_create E ctx payload = require_admin_context ctx
     (bnd (object_at ''project'' payload) (\<lambda>project.
      seq (write_session (insert_rows E ''project'' [project]))
      (bnd (sum_io (dict_at ''id'' project)) (project_get E ctx))))"

definition put_back :: "store_env \<Rightarrow> string \<Rightarrow> dict list \<Rightarrow> (keystone, unit) io" where
  "put_back E t rs = (if rs = [] then ret () else insert_rows E t rs)"

text \<open>The rows that refer to the project by one field are put back with its new id there, and in
  the other field where that one refers to it too.\<close>

definition referring_to :: "json \<Rightarrow> json \<Rightarrow> string \<Rightarrow> string \<Rightarrow> dict \<Rightarrow> dict" where
  "referring_to old new field other r =
     (let r = dict_set field new r in if col other r = old then dict_set other new r else r)"

text \<open>What is taken out: the projects of the domain, those under the project, and the users of the
  domain; the local users are only read, since they go with the users.\<close>

definition take_out_references ::
  "store_env \<Rightarrow> json \<Rightarrow> (keystone, dict list \<times> dict list \<times> dict list \<times> dict list) io" where
  "take_out_references E project_id =
     bnd (query_rows E ''project'' (Some (''domain_id'', project_id))) (\<lambda>domain_projects.
     seq (delete_rows E ''project'' ''domain_id'' project_id)
     (bnd (query_rows E ''project'' (Some (''parent_id'', project_id))) (\<lambda>parent_projects.
      seq (delete_rows E ''project'' ''parent_id'' project_id)
      (bnd (query_rows E ''user'' (Some (''domain_id'', project_id))) (\<lambda>users.
       bnd (query_rows E ''local_user'' (Some (''domain_id'', project_id))) (\<lambda>local_users.
       seq (delete_rows E ''user'' ''domain_id'' project_id)
         (ret (domain_projects, parent_projects, users, local_users))))))))"

definition update_project_rows :: "store_env \<Rightarrow> json \<Rightarrow> dict \<Rightarrow> (keystone, json) io" where
  "update_project_rows E project_id payload =
     (case dict_get ''project'' payload of
        None \<Rightarrow> ret project_id
      | Some v \<Rightarrow>
          bnd (sum_io (as_object v)) (\<lambda>project.
          let new_id = col ''id'' project in
          bnd (if project_id \<noteq> new_id then take_out_references E project_id else ret ([], [], [], []))
            (\<lambda>(domain_projects, parent_projects, users, local_users).
          seq (update_rows E ''project'' ''id'' project_id project)
          (seq (put_back E ''project'' (map (referring_to project_id new_id ''domain_id'' ''parent_id'') domain_projects))
          (seq (put_back E ''project'' (map (referring_to project_id new_id ''parent_id'' ''domain_id'') parent_projects))
          (seq (put_back E ''user'' (map (dict_set ''domain_id'' new_id) users))
          (seq (put_back E ''local_user'' (map (dict_set ''domain_id'' new_id) local_users))
            (ret new_id))))))))"

definition project_update :: "store_env \<Rightarrow> request_context option \<Rightarrow> json \<Rightarrow> dict \<Rightarrow> (keystone, dict) io" where
  "project_update E ctx project_id payload = require_admin_context ctx
     (bnd (write_session
        (bnd (update_project_rows E project_id payload) (\<lambda>new_id.
         seq (if project_id = new_id then ret ()
              else update_rows E ''assignment'' ''target_id'' project_id [(''target_id'', new_id)])
           (ret new_id))))
       (project_get E ctx))"

section \<open>Roles\<close>

definition role_get_all :: "store_env \<Rightarrow> request_context option \<Rightarrow> (keystone, dict list) io" where
  "role_get_all = record_all ''role'' ''role''"

definition role_get :: "store_env \<Rightarrow> request_context option \<Rightarrow> json \<Rightarrow> (keystone, dict) io" where
  "role_get E ctx role_id = require_context ctx
     (bnd (query_rows E ''role'' (Some (''id'', role_id))) (\<lambda>roles.
      bnd (first_row (Store RoleNotFound) roles) (\<lambda>r. ret [(''role'', JObject r)])))"

definition role_create :: "store_env \<Rightarrow> request_context option \<Rightarrow> dict \<Rightarrow> (keystone, dict) io" where
  "role_create E ctx payload = require_admin_context ctx
     (bnd (object_at ''role'' payload) (\<lambda>role.
      seq (write_session (insert_rows E ''role'' [role]))
      (bnd (sum_io (dict_at ''id'' role)) (role_get E ctx))))"

text \<open>The rows that a query finds, deleted.\<close>

definition take_out :: "store_env \<Rightarrow> string \<Rightarrow> string \<Rightarrow> json \<Rightarrow> (keystone, dict list) io" where
  "take_out E t idx v =
     bnd (query_rows E t (Some (idx, v))) (\<lambda>rs. seq (delete_rows E t idx v) (ret rs))"

definition update_role_rows :: "store_env \<Rightarrow> json \<Rightarrow> dict \<Rightarrow> (keystone, json) io" where
  "update_role_rows E role_id payload =
     (case dict_get ''role'' payload of
        None \<Rightarrow> ret role_id
      | Some v \<Rightarrow>
          bnd (sum_io (as_object v)) (\<lambda>role.
          let new_id = col ''id'' role in
          if role_id \<noteq> new_id then
            bnd (take_out E ''implied_role'' ''prior_role_id'' role_id) (\<lambda>prior_roles.
            bnd (take_out E ''implied_role'' ''implied_role_id'' role_id) (\<lambda>implied_roles.
            bnd (take_out E ''role_option'' ''role_id'' role_id) (\<lambda>role_options.
            seq (update_rows E ''role'' ''id'' role_id role)
            (seq (put_back E ''implied_role'' (map (dict_set ''prior_role_id'' new_id) prior_roles))
            (seq (put_back E ''implied_role'' (map (dict_set ''implied_role_id'' new_id) implied_roles))
            (seq (if role_options = [] then ret ()
                  else insert_rows E ''role_option'' [dict_set ''role_id'' new_id (last role_options)])
              (ret new_id)))))))
          else seq (update_rows E ''role'' ''id'' role_id (dict_del ''id'' role)) (ret new_id)))"

definition role_update :: "store_env \<Rightarrow> request_context option \<Rightarrow> json \<Rightarrow> dict \<Rightarrow> (keystone, dict) io" where
  "role_update E ctx role_id payload = require_admin_context ctx
     (bnd (write_session
        (bnd (update_role_rows E role_id payload) (\<lambda>new_id.
         seq (if role_id = new_id then ret ()
              else seq (update_rows E ''assignment'' ''role_id'' role_id [(''role_id'', new_id)])
                (update_rows E ''system_assignment'' ''role_id'' role_id [(''role_id'', new_id)]))
           (ret new_id))))
       (role_get E ctx))"

section \<open>Revocations of tokens\<close>

definition revoke_event_get_all :: "store_env \<Rightarrow> request_context option \<Rightarrow> (keystone, dict list) io" where
  "revoke_event_get_all = record_all ''revocation_event'' ''revocation_event''"

definition revoke_event_get_by_audit ::
  "store_env \<Rightarrow> request_context option \<Rightarrow> json \<Rightarrow> (keystone, dict) io" where
  "revoke_event_get_by_audit E ctx audit_id = require_context ctx
     (bnd (query_rows E ''revocation_event'' (Some (''audit_id'', audit_id))) (\<lambda>events.
      bnd (first_row (Store RevokeEventNotFound) events) (\<lambda>r. ret [(''revocation_event'', JObject r)])))"

text \<open>\<open>str(x) == y\<close>: a moment, which is a text here, is compared as text.\<close>

definition same_text :: "json \<Rightarrow> json \<Rightarrow> bool" where
  "same_text x y \<longleftrightarrow> y = JText (case string_field x of Some s \<Rightarrow> s | None \<Rightarrow> ''None'')"

definition revoke_event_get_by_user ::
  "store_env \<Rightarrow> request_context option \<Rightarrow> json \<Rightarrow> json \<Rightarrow> (keystone, dict) io" where
  "revoke_event_get_by_user E ctx user_id issued_before = require_context ctx
     (bnd (query_rows E ''revocation_event'' (Some (''user_id'', user_id))) (\<lambda>events.
      bnd (first_row (Store RevokeEventNotFound)
        (filter (\<lambda>e. same_text (col ''issued_before'' e) issued_before) events))
      (\<lambda>r. ret [(''revocation_event'', JObject r)])))"

definition revoke_event_create :: "store_env \<Rightarrow> request_context option \<Rightarrow> dict \<Rightarrow> (keystone, dict) io" where
  "revoke_event_create E ctx payload = require_admin_context ctx
     (bnd (object_at ''revocation_event'' payload) (\<lambda>event.
      seq (write_session (insert_rows E ''revocation_event'' [dict_del ''id'' event]))
      (if col ''audit_id'' event \<noteq> JNull then revoke_event_get_by_audit E ctx (col ''audit_id'' event)
       else if col ''user_id'' event \<noteq> JNull \<and> col ''issued_before'' event \<noteq> JNull
       then revoke_event_get_by_user E ctx (col ''user_id'' event) (col ''issued_before'' event)
       else ret [])))"

definition revoke_event_delete_by_audit ::
  "store_env \<Rightarrow> request_context option \<Rightarrow> json \<Rightarrow> (keystone, unit) io" where
  "revoke_event_delete_by_audit E ctx audit_id = require_admin_context ctx
     (write_session (delete_rows E ''revocation_event'' ''audit_id'' audit_id))"

definition revoke_event_delete_by_user ::
  "store_env \<Rightarrow> request_context option \<Rightarrow> json \<Rightarrow> json \<Rightarrow> (keystone, unit) io" where
  "revoke_event_delete_by_user E ctx user_id issued_before = require_admin_context ctx
     (bnd (revoke_event_get_by_user E ctx user_id issued_before) (\<lambda>result.
      bnd (object_at ''revocation_event'' result) (\<lambda>event.
      bnd (sum_io (dict_at ''id'' event)) (\<lambda>event_id.
      write_session (delete_rows E ''revocation_event'' ''id'' event_id)))))"

end
