(* ===== verification/DS_Api.thy ===== *)
theory DS_Api
  imports DS_Store
begin

text \<open>
  The service dcdbsync of a region and its clients: \<open>dcdbsync/api/controllers\<close>, which answers requests
  over the rows of \<open>DS_Store\<close>, and \<open>dcdbsync/dbsyncclient\<close>, which the sync thread of the identity
  endpoint calls. Put together they stand for the clients that \<open>DO_Identity\<close> leaves open.
\<close>

section \<open>Requests\<close>

text \<open>What the authentication in front of the service tells of a request: whether one of the two
  statuses is \<open>Confirmed\<close>, and the headers with the roles, the user and the project.\<close>

record environ =
  ev_confirmed :: bool
  ev_role :: "string option"
  ev_user :: "string option"
  ev_project :: "string option"

type_synonym response = "nat \<times> json"

definition extract_context_from_environ :: "environ \<Rightarrow> exn + request_context" where
  "extract_context_from_environ ev =
     (case ev_role ev of
        None \<Rightarrow> Inl AttributeError
      | Some roles \<Rightarrow> Inr \<lparr>rc_is_admin = (''admin'' \<in> set (split_at (CHR '','') roles [])),
          rc_user = ev_user ev, rc_project = ev_project ev\<rparr>)"

text \<open>\<open>pecan.abort\<close>: the reply has the status; its text is left out. What a controller raises is
  answered with 500.\<close>

definition abort :: "nat \<Rightarrow> ('s, response) io" where
  "abort status = ret (status, JNull)"

definition answer :: "environ \<Rightarrow> (request_context option \<Rightarrow> ('s, response) io) \<Rightarrow> ('s, response) io" where
  "answer ev m =
     (if \<not> ev_confirmed ev then abort 401
      else try_catch (bnd (sum_io (extract_context_from_environ ev)) (\<lambda>ctx. m (Some ctx))) (\<lambda>_. abort 500))"

text \<open>\<open>json.loads(request.body)\<close>, which is a parameter, and the check that there is something in it.\<close>

definition with_body ::
  "(string \<Rightarrow> json option) \<Rightarrow> string \<Rightarrow> (json \<Rightarrow> ('s, response) io) \<Rightarrow> ('s, response) io" where
  "with_body loads body m =
     (case loads body of
        None \<Rightarrow> abort 400
      | Some payload \<Rightarrow> if truthy_json payload then m payload else abort 400)"

section \<open>Users, groups, projects and roles\<close>

fun store_get_all :: "id_kind \<Rightarrow> store_env \<Rightarrow> request_context option \<Rightarrow> (keystone, dict list) io" where
  "store_get_all Users = user_get_all"
| "store_get_all Groups = group_get_all"
| "store_get_all Projects = project_get_all"
| "store_get_all Roles = role_get_all"

fun store_get :: "id_kind \<Rightarrow> store_env \<Rightarrow> request_context option \<Rightarrow> json \<Rightarrow> (keystone, dict) io" where
  "store_get Users = user_get"
| "store_get Groups = group_get"
| "store_get Projects = project_get"
| "store_get Roles = role_get"

fun store_create :: "id_kind \<Rightarrow> store_env \<Rightarrow> request_context option \<Rightarrow> dict \<Rightarrow> (keystone, dict) io" where
  "store_create Users = user_create"
| "store_create Groups = group_create"
| "store_create Projects = project_create"
| "store_create Roles = role_create"

fun store_update ::
  "id_kind \<Rightarrow> store_env \<Rightarrow> request_context option \<Rightarrow> json \<Rightarrow> dict \<Rightarrow> (keystone, dict) io" where
  "store_update Users = user_update"
| "store_update Groups = group_update"
| "store_update Projects = project_update"
| "store_update Roles = role_update"

fun not_found :: "id_kind \<Rightarrow> exn" where
  "not_found Users = Store UserNotFound"
| "not_found Groups = Store GroupNotFound"
| "not_found Projects = Store ProjectNotFound"
| "not_found Roles = Store RoleNotFound"

definition records_get ::
  "id_kind \<Rightarrow> store_env \<Rightarrow> string option \<Rightarrow> request_context option \<Rightarrow> (keystone, response) io" where
  "records_get k E ref ctx = try_catch
     (case ref of
        None \<Rightarrow> bnd (store_get_all k E ctx) (\<lambda>rs. ret (200, JArray (map JObject rs)))
      | Some i \<Rightarrow> bnd (store_get k E ctx (JText i)) (\<lambda>r. ret (200, JObject r)))
     (\<lambda>e. if e = not_found k then abort 404 else abort 500)"

definition records_post ::
  "id_kind \<Rightarrow> store_env \<Rightarrow> (string \<Rightarrow> json option) \<Rightarrow> string \<Rightarrow> request_context option \<Rightarrow> (keystone, response) io" where
  "records_post k E loads body ctx = with_body loads body (\<lambda>payload.
     bnd (sum_io (jget (name_key k) payload)) (\<lambda>part.
     bnd (sum_io (jget ''name'' part)) (\<lambda>name.
     if \<not> truthy_json name then abort 400
     else try_catch
       (bnd (sum_io (as_object payload)) (\<lambda>p. bnd (store_create k E ctx p) (\<lambda>r. ret (201, JObject r))))
       (\<lambda>_. abort 500))))"

text \<open>\<open>key in payload\<close> for a payload that is no object: an array may hold the key, a text may have it
  in it, and then \<open>payload[key]\<close> raises.\<close>

fun named_in :: "id_kind \<Rightarrow> (string \<Rightarrow> bool) \<Rightarrow> bool" where
  "named_in Users p \<longleftrightarrow> p ''user'' \<or> p ''local_user''"
| "named_in Groups p \<longleftrightarrow> p ''group'' \<and> p ''local_user_ids''"
| "named_in k p \<longleftrightarrow> p (kind_key k)"

definition update_payload :: "id_kind \<Rightarrow> json \<Rightarrow> exn + dict" where
  "update_payload k payload =
     (case payload of
        JObject d \<Rightarrow> Inr d
      | JArray vs \<Rightarrow> if named_in k (\<lambda>key. JText key \<in> set vs) then Inl TypeError else Inr []
      | JText s \<Rightarrow> if named_in k (\<lambda>key. sublist key s) then Inl TypeError else Inr []
      | _ \<Rightarrow> Inl TypeError)"

definition records_put ::
  "id_kind \<Rightarrow> store_env \<Rightarrow> (string \<Rightarrow> json option) \<Rightarrow> string option \<Rightarrow> string \<Rightarrow> request_context option \<Rightarrow>
   (keystone, response) io" where
  "records_put k E loads ref body ctx =
     (case ref of
        None \<Rightarrow> abort 400
      | Some i \<Rightarrow> with_body loads body (\<lambda>payload. try_catch
          (bnd (sum_io (update_payload k payload)) (\<lambda>p.
           bnd (store_update k E ctx (JText i) p) (\<lambda>r. ret (200, JObject r))))
          (\<lambda>e. if e = not_found k then abort 404 else abort 500)))"

text \<open>The controllers of the four kinds.\<close>

definition users_get ::
  "store_env \<Rightarrow> string option \<Rightarrow> request_context option \<Rightarrow> (keystone, response) io" where
  "users_get = records_get Users"

definition groups_get ::
  "store_env \<Rightarrow> string option \<Rightarrow> request_context option \<Rightarrow> (keystone, response) io" where
  "groups_get = records_get Groups"

definition projects_get ::
  "store_env \<Rightarrow> string option \<Rightarrow> request_context option \<Rightarrow> (keystone, response) io" where
  "projects_get = records_get Projects"

definition roles_get ::
  "store_env \<Rightarrow> string option \<Rightarrow> request_context option \<Rightarrow> (keystone, response) io" where
  "roles_get = records_get Roles"

fun controller_get ::
  "id_kind \<Rightarrow> store_env \<Rightarrow> string option \<Rightarrow> request_context option \<Rightarrow> (keystone, response) io" where
  "controller_get Users = users_get"
| "controller_get Groups = groups_get"
| "controller_get Projects = projects_get"
| "controller_get Roles = roles_get"

definition users_post ::
  "store_env \<Rightarrow> (string \<Rightarrow> json option) \<Rightarrow> string \<Rightarrow> request_context option \<Rightarrow> (keystone, response) io" where
  "users_post = records_post Users"

definition groups_post ::
  "store_env \<Rightarrow> (string \<Rightarrow> json option) \<Rightarrow> string \<Rightarrow> request_context option \<Rightarrow> (keystone, response) io" where
  "groups_post = records_post Groups"

definition projects_post ::
  "store_env \<Rightarrow> (string \<Rightarrow> json option) \<Rightarrow> string \<Rightarrow> request_context option \<Rightarrow> (keystone, response) io" where
  "projects_post = records_post Projects"

definition roles_post ::
  "store_env \<Rightarrow> (string \<Rightarrow> json option) \<Rightarrow> string \<Rightarrow> request_context option \<Rightarrow> (keystone, response) io" where
  "roles_post = records_post Roles"

fun controller_post ::
  "id_kind \<Rightarrow> store_env \<Rightarrow> (string \<Rightarrow> json option) \<Rightarrow> string \<Rightarrow> request_context option \<Rightarrow> (keystone, response) io" where
  "controller_post Users = users_post"
| "controller_post Groups = groups_post"
| "controller_post Projects = projects_post"
| "controller_post Roles = roles_post"

definition users_put ::
  "store_env \<Rightarrow> (string \<Rightarrow> json option) \<Rightarrow> string option \<Rightarrow> string \<Rightarrow> request_context option \<Rightarrow>
   (keystone, response) io" where
  "users_put = records_put Users"

definition groups_put ::
  "store_env \<Rightarrow> (string \<Rightarrow> json option) \<Rightarrow> string option \<Rightarrow> string \<Rightarrow> request_context option \<Rightarrow>
   (keystone, response) io" where
  "groups_put = records_put Groups"

definition projects_put ::
  "store_env \<Rightarrow> (string \<Rightarrow> json option) \<Rightarrow> string option \<Rightarrow> string \<Rightarrow> request_context option \<Rightarrow>
   (keystone, response) io" where
  "projects_put = records_put Projects"

definition roles_put ::
  "store_env \<Rightarrow> (string \<Rightarrow> json option) \<Rightarrow> string option \<Rightarrow> string \<Rightarrow> request_context option \<Rightarrow>
   (keystone, response) io" where
  "roles_put = records_put Roles"

fun controller_put ::
  "id_kind \<Rightarrow> store_env \<Rightarrow> (string \<Rightarrow> json option) \<Rightarrow> string option \<Rightarrow> string \<Rightarrow> request_context option \<Rightarrow>
   (keystone, response) io" where
  "controller_put Users = users_put"
| "controller_put Groups = groups_put"
| "controller_put Projects = projects_put"
| "controller_put Roles = roles_put"

lemma controllers:
  "controller_get k = records_get k" "controller_post k = records_post k" "controller_put k = records_put k"
  by (cases k; simp add: users_get_def groups_get_def projects_get_def roles_get_def users_post_def groups_post_def
    projects_post_def roles_post_def users_put_def groups_put_def projects_put_def roles_put_def)+

section \<open>Revocations of tokens\<close>

definition events_get :: "store_env \<Rightarrow> request_context option \<Rightarrow> (keystone, response) io" where
  "events_get E ctx = try_catch
     (bnd (revoke_event_get_all E ctx) (\<lambda>rs. ret (200, JArray (map JObject rs)))) (\<lambda>_. abort 500)"

definition events_post ::
  "store_env \<Rightarrow> (string \<Rightarrow> json option) \<Rightarrow> string \<Rightarrow> request_context option \<Rightarrow> (keystone, response) io" where
  "events_post E loads body ctx = with_body loads body (\<lambda>payload. try_catch
     (bnd (sum_io (as_object payload)) (\<lambda>p. bnd (revoke_event_create E ctx p) (\<lambda>r. ret (201, JObject r))))
     (\<lambda>_. abort 500))"

definition audits_get ::
  "store_env \<Rightarrow> string option \<Rightarrow> request_context option \<Rightarrow> (keystone, response) io" where
  "audits_get E audit_id ctx =
     (case audit_id of
        None \<Rightarrow> abort 400
      | Some i \<Rightarrow> try_catch
          (bnd (revoke_event_get_by_audit E ctx (JText i)) (\<lambda>r. ret (200, JObject r)))
          (\<lambda>e. if e = Store RevokeEventNotFound then abort 404 else abort 500))"

text \<open>A deletion without a body is answered with 204.\<close>

definition audits_delete ::
  "store_env \<Rightarrow> string option \<Rightarrow> request_context option \<Rightarrow> (keystone, response) io" where
  "audits_delete E audit_id ctx =
     (case audit_id of
        None \<Rightarrow> abort 400
      | Some i \<Rightarrow> try_catch
          (seq (revoke_event_delete_by_audit E ctx (JText i)) (ret (204, JNull)))
          (\<lambda>e. if e = Store RevokeEventNotFound then abort 404 else abort 500))"

text \<open>The id of a revocation for a user is decoded to bytes, and \<open>split('_')\<close> on bytes raises
  \<open>TypeError\<close>; an id that is no base64 text raises before.\<close>

definition event_tags :: "(string \<Rightarrow> bool) \<Rightarrow> string \<Rightarrow> ('s, string list) io" where
  "event_tags is_base64 event_id = (if is_base64 event_id then raise TypeError else raise ValueError)"

definition by_user ::
  "(string \<Rightarrow> bool) \<Rightarrow> string option \<Rightarrow> (json \<Rightarrow> json \<Rightarrow> ('s, response) io) \<Rightarrow> ('s, response) io" where
  "by_user is_base64 event_id m =
     (case event_id of
        None \<Rightarrow> abort 400
      | Some i \<Rightarrow> try_catch
          (bnd (event_tags is_base64 i) (\<lambda>tags. case tags of
             user_id # issued_before # _ \<Rightarrow> m (JText user_id) (JText issued_before)
           | _ \<Rightarrow> raise IndexError))
          (\<lambda>e. if e \<in> {IndexError, TypeError, Store RevokeEventNotFound} then abort 404 else abort 500))"

definition user_events_get ::
  "store_env \<Rightarrow> (string \<Rightarrow> bool) \<Rightarrow> string option \<Rightarrow> request_context option \<Rightarrow> (keystone, response) io" where
  "user_events_get E is_base64 event_id ctx = by_user is_base64 event_id (\<lambda>user_id issued_before.
     bnd (revoke_event_get_by_user E ctx user_id issued_before) (\<lambda>r. ret (200, JObject r)))"

definition user_events_delete ::
  "store_env \<Rightarrow> (string \<Rightarrow> bool) \<Rightarrow> string option \<Rightarrow> request_context option \<Rightarrow> (keystone, response) io" where
  "user_events_delete E is_base64 event_id ctx = by_user is_base64 event_id (\<lambda>user_id issued_before.
     seq (revoke_event_delete_by_user E ctx user_id issued_before) (ret (204, JNull)))"

section \<open>The clients\<close>

text \<open>Each region has a keystone database and a dcdbsync in front of it.\<close>

record sites =
  st_store :: "string \<Rightarrow> store_env"
  st_environ :: "string \<Rightarrow> environ"
  st_loads :: "string \<Rightarrow> json option"
  st_is_base64 :: "string \<Rightarrow> bool"
  st_connect :: "string \<Rightarrow> exn option"

type_synonym keystones = "string \<Rightarrow> keystone"

definition at_region :: "string \<Rightarrow> (keystone, 'a) io \<Rightarrow> (keystones engine, 'a) io" where
  "at_region r m = (\<lambda>s. case m (eg_ext s r) of (a, K) \<Rightarrow> (a, s\<lparr>eg_ext := (eg_ext s)(r := K)\<rparr>))"

text \<open>A request to the dcdbsync of a region, which may not be reached, and what the client makes of
  the status.\<close>

definition send ::
  "sites \<Rightarrow> string \<Rightarrow> nat \<Rightarrow> (request_context option \<Rightarrow> (keystone, response) io) \<Rightarrow> (keystones engine, json) io" where
  "send D r expected m =
     (case st_connect D r of
        Some e \<Rightarrow> raise e
      | None \<Rightarrow> bnd (at_region r (answer (st_environ D r) m)) (\<lambda>(status, body).
          if status = 401 then raise (Dbsync DbsUnauthorized)
          else if status \<noteq> expected then raise (Dbsync DbsAPIException)
          else ret body))"

definition dbs_create :: "sites \<Rightarrow> id_kind \<Rightarrow> string \<Rightarrow> string \<Rightarrow> (keystones engine, json) io" where
  "dbs_create D k r data = send D r 201 (controller_post k (st_store D r) (st_loads D) data)"

definition dbs_detail :: "sites \<Rightarrow> id_kind \<Rightarrow> string \<Rightarrow> string \<Rightarrow> (keystones engine, string) io" where
  "dbs_detail D k r ref =
     bnd (send D r 200 (controller_get k (st_store D r) (if ref = [] then None else Some ref)))
       (\<lambda>v. ret (json_dumps v))"

text \<open>Without a reference the address is that of the list. The reference of an update is formatted into the address: a text as it is.\<close>

definition dbs_update :: "sites \<Rightarrow> id_kind \<Rightarrow> string \<Rightarrow> json \<Rightarrow> string \<Rightarrow> (keystones engine, json) io" where
  "dbs_update D k r ref data =
     send D r 200 (controller_put k (st_store D r) (st_loads D)
       (Some (case string_field ref of Some i \<Rightarrow> i | None \<Rightarrow> ''None'')) data)"

text \<open>The lists, as the resources that the audit compares: \<open>users_list\<close> and so on.\<close>

definition column_attr :: "string \<Rightarrow> dict \<Rightarrow> string \<times> string option" where
  "column_attr c r = (c, string_field (col c r))"

definition columns_of :: "string list \<Rightarrow> dict \<Rightarrow> exn + attrs" where
  "columns_of cs r = (if list_all (\<lambda>c. dict_get c r \<noteq> None) cs then Inr (map (\<lambda>c. column_attr c r) cs) else Inl KeyError)"

fun kind_columns :: "id_kind \<Rightarrow> string list" where
  "kind_columns Users = [''id'', ''domain_id'', ''default_project_id'', ''enabled'', ''created_at'', ''last_active_at'', ''extra'']"
| "kind_columns Groups = [''id'', ''domain_id'', ''name'', ''extra'', ''description'']"
| "kind_columns Projects = [''id'', ''domain_id'', ''name'', ''extra'', ''description'', ''enabled'', ''parent_id'', ''is_domain'']"
| "kind_columns Roles = [''id'', ''domain_id'', ''name'', ''description'', ''extra'']"

definition resource_of_columns :: "attrs \<Rightarrow> ext_resource" where
  "resource_of_columns as = \<lparr>xr_id = (case aget as ''id'' of Some i \<Rightarrow> i | None \<Rightarrow> []), xr_attrs = as,
     xr_lists = [], xr_number = None\<rparr>"

text \<open>A project or role: one object. A user has its local user and the hashes of its passwords with
  it, a group its members.\<close>

definition plain_resource :: "id_kind \<Rightarrow> dict \<Rightarrow> exn + ext_resource" where
  "plain_resource k record =
     (case dict_at (kind_key k) record of
        Inl e \<Rightarrow> Inl e
      | Inr v \<Rightarrow> (case as_object v of Inl e \<Rightarrow> Inl e | Inr row \<Rightarrow>
          (case columns_of (kind_columns k) row of Inl e \<Rightarrow> Inl e | Inr as \<Rightarrow> Inr (resource_of_columns as))))"

definition local_user_columns :: "string list" where
  "local_user_columns = [''id'', ''domain_id'', ''name'', ''user_id'', ''failed_auth_count'', ''failed_auth_at'']"

definition password_columns :: "string list" where
  "password_columns = [''id'', ''local_user_id'', ''self_service'', ''password_hash'', ''created_at'',
     ''created_at_int'', ''expires_at'', ''expires_at_int'']"

fun password_hashes :: "dict list \<Rightarrow> exn + string list" where
  "password_hashes [] = Inr []"
| "password_hashes (p # ps) =
     (if p = [] then password_hashes ps
      else case columns_of password_columns p of
        Inl e \<Rightarrow> Inl e
      | Inr as \<Rightarrow> (case password_hashes ps of Inl e \<Rightarrow> Inl e
          | Inr hs \<Rightarrow> Inr ((case aget as ''password_hash'' of Some h \<Rightarrow> h | None \<Rightarrow> []) # hs)))"

definition user_resource :: "dict \<Rightarrow> ('s, ext_resource) io" where
  "user_resource record =
     bnd (objects_at ''password'' record) (\<lambda>passwords.
     bnd (sum_io (password_hashes passwords)) (\<lambda>hashes.
     bnd (object_at ''local_user'' record) (\<lambda>local_user.
     bnd (sum_io (columns_of local_user_columns local_user)) (\<lambda>ls.
     bnd (sum_io (plain_resource Users record)) (\<lambda>x.
     ret (x\<lparr>xr_attrs := xr_attrs x @ map (\<lambda>(c, v). (''local_user.'' @ c, v)) ls,
            xr_lists := [(''local_user.passwords'', hashes)]\<rparr>))))))"

definition group_resource :: "dict \<Rightarrow> ('s, ext_resource) io" where
  "group_resource record =
     bnd (sum_io (plain_resource Groups record)) (\<lambda>x.
     bnd (list_at ''local_user_ids'' record) (\<lambda>ids.
     ret (x\<lparr>xr_lists := [(''local_user_ids'', map text_of ids)]\<rparr>)))"

fun resource_of :: "id_kind \<Rightarrow> dict \<Rightarrow> ('s, ext_resource) io" where
  "resource_of Users = user_resource"
| "resource_of Groups = group_resource"
| "resource_of k = (\<lambda>record. sum_io (plain_resource k record))"

fun map_io :: "('a \<Rightarrow> ('s, 'b) io) \<Rightarrow> 'a list \<Rightarrow> ('s, 'b list) io" where
  "map_io f [] = ret []"
| "map_io f (x # xs) = bnd (f x) (\<lambda>y. bnd (map_io f xs) (\<lambda>ys. ret (y # ys)))"

definition dbs_list :: "sites \<Rightarrow> id_kind \<Rightarrow> string \<Rightarrow> (keystones engine, ext_resource list) io" where
  "dbs_list D k r =
     bnd (send D r 200 (controller_get k (st_store D r) None)) (\<lambda>v.
     bnd (sum_io (as_list v)) (\<lambda>vs.
     bnd (sum_io (as_objects vs)) (map_io (resource_of k))))"

text \<open>The managers of the client, one for each kind.\<close>

definition add_user :: "sites \<Rightarrow> string \<Rightarrow> string \<Rightarrow> (keystones engine, json) io" where
  "add_user D = dbs_create D Users"

definition add_group :: "sites \<Rightarrow> string \<Rightarrow> string \<Rightarrow> (keystones engine, json) io" where
  "add_group D = dbs_create D Groups"

definition add_project :: "sites \<Rightarrow> string \<Rightarrow> string \<Rightarrow> (keystones engine, json) io" where
  "add_project D = dbs_create D Projects"

definition add_role :: "sites \<Rightarrow> string \<Rightarrow> string \<Rightarrow> (keystones engine, json) io" where
  "add_role D = dbs_create D Roles"

fun manager_create :: "sites \<Rightarrow> id_kind \<Rightarrow> string \<Rightarrow> string \<Rightarrow> (keystones engine, json) io" where
  "manager_create D Users = add_user D"
| "manager_create D Groups = add_group D"
| "manager_create D Projects = add_project D"
| "manager_create D Roles = add_role D"

definition user_detail :: "sites \<Rightarrow> string \<Rightarrow> string \<Rightarrow> (keystones engine, string) io" where
  "user_detail D = dbs_detail D Users"

definition group_detail :: "sites \<Rightarrow> string \<Rightarrow> string \<Rightarrow> (keystones engine, string) io" where
  "group_detail D = dbs_detail D Groups"

definition project_detail :: "sites \<Rightarrow> string \<Rightarrow> string \<Rightarrow> (keystones engine, string) io" where
  "project_detail D = dbs_detail D Projects"

definition role_detail :: "sites \<Rightarrow> string \<Rightarrow> string \<Rightarrow> (keystones engine, string) io" where
  "role_detail D = dbs_detail D Roles"

fun manager_detail :: "sites \<Rightarrow> id_kind \<Rightarrow> string \<Rightarrow> string \<Rightarrow> (keystones engine, string) io" where
  "manager_detail D Users = user_detail D"
| "manager_detail D Groups = group_detail D"
| "manager_detail D Projects = project_detail D"
| "manager_detail D Roles = role_detail D"

definition update_user :: "sites \<Rightarrow> string \<Rightarrow> json \<Rightarrow> string \<Rightarrow> (keystones engine, json) io" where
  "update_user D = dbs_update D Users"

definition update_group :: "sites \<Rightarrow> string \<Rightarrow> json \<Rightarrow> string \<Rightarrow> (keystones engine, json) io" where
  "update_group D = dbs_update D Groups"

definition update_project :: "sites \<Rightarrow> string \<Rightarrow> json \<Rightarrow> string \<Rightarrow> (keystones engine, json) io" where
  "update_project D = dbs_update D Projects"

definition update_role :: "sites \<Rightarrow> string \<Rightarrow> json \<Rightarrow> string \<Rightarrow> (keystones engine, json) io" where
  "update_role D = dbs_update D Roles"

fun manager_update :: "sites \<Rightarrow> id_kind \<Rightarrow> string \<Rightarrow> json \<Rightarrow> string \<Rightarrow> (keystones engine, json) io" where
  "manager_update D Users = update_user D"
| "manager_update D Groups = update_group D"
| "manager_update D Projects = update_project D"
| "manager_update D Roles = update_role D"

definition list_users :: "sites \<Rightarrow> string \<Rightarrow> (keystones engine, ext_resource list) io" where
  "list_users D = dbs_list D Users"

definition list_groups :: "sites \<Rightarrow> string \<Rightarrow> (keystones engine, ext_resource list) io" where
  "list_groups D = dbs_list D Groups"

definition list_projects :: "sites \<Rightarrow> string \<Rightarrow> (keystones engine, ext_resource list) io" where
  "list_projects D = dbs_list D Projects"

definition list_roles :: "sites \<Rightarrow> string \<Rightarrow> (keystones engine, ext_resource list) io" where
  "list_roles D = dbs_list D Roles"

fun manager_list :: "sites \<Rightarrow> id_kind \<Rightarrow> string \<Rightarrow> (keystones engine, ext_resource list) io" where
  "manager_list D Users = list_users D"
| "manager_list D Groups = list_groups D"
| "manager_list D Projects = list_projects D"
| "manager_list D Roles = list_roles D"

lemma managers:
  "manager_create D = dbs_create D" "manager_detail D = dbs_detail D" "manager_update D = dbs_update D"
  "manager_list D = dbs_list D"
  by (rule ext, rename_tac k, case_tac k; simp add: add_user_def add_group_def add_project_def add_role_def user_detail_def group_detail_def project_detail_def role_detail_def update_user_def update_group_def update_project_def update_role_def list_users_def list_groups_def list_projects_def list_roles_def)+

definition event_columns :: "string list" where
  "event_columns = [''id'', ''domain_id'', ''project_id'', ''user_id'', ''role_id'', ''trust_id'', ''consumer_id'',
     ''access_token_id'', ''issued_before'', ''expires_at'', ''revoked_at'', ''audit_id'', ''audit_chain_id'']"

definition event_resource :: "dict \<Rightarrow> ('s, ext_resource) io" where
  "event_resource record =
     bnd (object_at ''revocation_event'' record) (\<lambda>row.
     bnd (sum_io (columns_of event_columns row)) (\<lambda>as.
     ret ((resource_of_columns as)\<lparr>xr_number := (case col ''id'' row of JNumber n \<Rightarrow> Some n | _ \<Rightarrow> None)\<rparr>)))"

definition dbs_event_list :: "sites \<Rightarrow> string \<Rightarrow> (keystones engine, ext_resource list) io" where
  "dbs_event_list D r =
     bnd (send D r 200 (events_get (st_store D r))) (\<lambda>v.
     bnd (sum_io (as_list v)) (\<lambda>vs.
     bnd (sum_io (as_objects vs)) (map_io event_resource)))"

definition dbs_event_create :: "sites \<Rightarrow> string \<Rightarrow> string \<Rightarrow> (keystones engine, json) io" where
  "dbs_event_create D r data = send D r 201 (events_post (st_store D r) (st_loads D) data)"

definition illegal_argument :: exn where
  "illegal_argument = PyException ''dbsyncclient: Token revocation event user ID or audit ID required.''"

definition event_request ::
  "sites \<Rightarrow> (string \<Rightarrow> request_context option \<Rightarrow> (keystone, response) io) \<Rightarrow>
   (string \<Rightarrow> request_context option \<Rightarrow> (keystone, response) io) \<Rightarrow> event_ref \<Rightarrow>
   (request_context option \<Rightarrow> (keystone, response) io) option" where
  "event_request D by_id by_audit ref =
     (case ref of
        UserId i \<Rightarrow> if i = [] then None else Some (by_id i)
      | AuditId v \<Rightarrow> if truthy_json v
          then Some (by_audit (case string_field v of Some i \<Rightarrow> i | None \<Rightarrow> [])) else None)"

definition dbs_event_detail :: "sites \<Rightarrow> string \<Rightarrow> event_ref \<Rightarrow> (keystones engine, string) io" where
  "dbs_event_detail D r ref =
     (case event_request D (\<lambda>i. user_events_get (st_store D r) (st_is_base64 D) (Some i))
             (\<lambda>i. audits_get (st_store D r) (Some i)) ref of
        None \<Rightarrow> raise illegal_argument
      | Some m \<Rightarrow> bnd (send D r 200 m) (\<lambda>v. ret (json_dumps v)))"

text \<open>Only a deletion tells 404 apart.\<close>

definition dbs_event_delete :: "sites \<Rightarrow> string \<Rightarrow> event_ref \<Rightarrow> (keystones engine, unit) io" where
  "dbs_event_delete D r ref =
     (case event_request D (\<lambda>i. user_events_delete (st_store D r) (st_is_base64 D) (Some i))
             (\<lambda>i. audits_delete (st_store D r) (Some i)) ref of
        None \<Rightarrow> raise illegal_argument
      | Some m \<Rightarrow>
          (case st_connect D r of
             Some e \<Rightarrow> raise e
           | None \<Rightarrow> bnd (at_region r (answer (st_environ D r) m)) (\<lambda>(status, body).
               if status = 401 then raise (Dbsync DbsUnauthorized)
               else if status = 404 then raise (Dbsync DbsNotFound)
               else if status \<noteq> 204 then raise (Dbsync DbsAPIException)
               else ret ())))"

text \<open>The clients that the sync thread of the identity endpoint talks to.\<close>

definition with_dbsync :: "sites \<Rightarrow> keystones identity_env \<Rightarrow> keystones identity_env" where
  "with_dbsync D I = I\<lparr>
     ie_detail := manager_detail D, ie_add := manager_create D, ie_update := manager_update D,
     ie_list := manager_list D,
     ie_event_detail := dbs_event_detail D, ie_event_add := dbs_event_create D,
     ie_event_delete := dbs_event_delete D, ie_event_list := dbs_event_list D\<rparr>"

end
