(* ===== verification/DS_Props.thy ===== *)
theory DS_Props
  imports DS_Api DO_IdentityProps DC_Stages
begin

text \<open>
  What the copy of an identity resource comes to: the sync thread of the orchestrator put together
  with the dcdbsync of the system controller and of the subcloud.
\<close>

section \<open>Steps that succeed\<close>

lemma write_session_Inr: "write_session m s = (Inr x, t) \<longleftrightarrow> m s = (Inr x, t)"
  by (auto simp: write_session_def split: prod.splits sum.splits)

lemma query_rows_Inr: "query_rows E t by K = (Inr rs, K') \<longleftrightarrow> K' = K \<and> query_rows E t by K = (Inr rs, K)"
  by (auto simp: query_rows_def)

lemma execute_Inr:
  "execute E st K = (Inr x, K') \<longleftrightarrow> se_enforce E st (effect E st K) = Inr K'"
  by (auto simp: execute_def split: sum.splits)

lemma query_by:
  assumes "truthy_json v"
  shows "query_rows E t (Some (idx, v)) K =
    (Inr (map (row_of (se_columns E t)) (filter (matches (se_columns E t) idx v) (K t))), K)"
  using assms by (simp add: query_rows_def)

lemma first_row_Inr: "first_row e rs s = (Inr r, t) \<longleftrightarrow> t = s \<and> (\<exists>rest. rs = r # rest)"
  by (cases rs) (auto simp: first_row_def)

lemma row_of_row:
  assumes "map fst r = cols" and "distinct cols"
  shows "row_of cols r = r"
proof -
  have "row_of cols r = map (\<lambda>p. (fst p, case map_of r (fst p) of None \<Rightarrow> JNull | Some v \<Rightarrow> v)) r"
    by (simp add: row_of_def dict_get_def flip: assms(1))
  also have "\<dots> = r" using assms by (auto intro!: map_idI)
  finally show ?thesis .
qed

lemma dict_get_row_of: "dict_get c (row_of cols d) = (if c \<in> set cols then Some (col c d) else None)"
  by (simp add: row_of_def dict_get_def map_of_map_restrict restrict_map_def o_def col_def)

lemma handler_status:
  assumes "try_catch m h s = (Inr (n, v), t)" and "\<And>e u. fst (h e u) \<noteq> Inr (n, v)"
  shows "m s = (Inr (n, v), t)"
proof (cases "m s")
  case (Pair out u)
  show ?thesis
  proof (cases out)
    case (Inl e)
    then have "fst (h e u) = Inr (n, v)" using assms(1) Pair by (simp add: try_catch_def)
    then show ?thesis using assms(2) by blast
  next
    case (Inr x)
    then show ?thesis using assms(1) Pair by (simp add: try_catch_def)
  qed
qed

lemma send_Inr:
  assumes "send D r n m s = (Inr v, t)" and "n \<notin> {401, 500}"
  shows "\<exists>K ctx. m ctx (eg_ext s r) = (Inr (n, v), K) \<and> t = s\<lparr>eg_ext := (eg_ext s)(r := K)\<rparr>"
proof -
  obtain K where a: "answer (st_environ D r) m (eg_ext s r) = (Inr (n, v), K)"
    and t: "t = s\<lparr>eg_ext := (eg_ext s)(r := K)\<rparr>"
    using assms(1) by (auto simp: send_def bnd_Inr at_region_def split: option.splits if_splits prod.splits)
  have "try_catch (bnd (sum_io (extract_context_from_environ (st_environ D r))) (\<lambda>ctx. m (Some ctx)))
      (\<lambda>_. abort 500) (eg_ext s r) = (Inr (n, v), K)"
    using a assms(2) by (auto simp: answer_def abort_def split: if_splits)
  from handler_status [OF this] have "bnd (sum_io (extract_context_from_environ (st_environ D r)))
      (\<lambda>ctx. m (Some ctx)) (eg_ext s r) = (Inr (n, v), K)"
    using assms(2) by (simp add: abort_def)
  then show ?thesis using t by (auto simp: bnd_Inr sum_io_Inr)
qed

section \<open>Projects and roles\<close>

text \<open>The tables of projects and roles are the same in two regions, the rows of the system controller
  have all their columns, and what is sent as JSON arrives as it was.\<close>

definition twin_tables :: "sites \<Rightarrow> string \<Rightarrow> string \<Rightarrow> keystones \<Rightarrow> bool" where
  "twin_tables D sc t Ks \<longleftrightarrow>
     (let cols = se_columns (st_store D master_region) t
      in distinct cols \<and> ''id'' \<in> set cols \<and> se_columns (st_store D sc) t = cols \<and>
         (\<forall>row \<in> set (Ks master_region t). map fst row = cols \<and>
            st_loads D (json_dumps (JObject [(t, JObject row)])) = Some (JObject [(t, JObject row)])))"

text \<open>A row that is inserted with a value for every column is stored as it is.\<close>

definition stores_given :: "store_env \<Rightarrow> string \<Rightarrow> bool" where
  "stores_given E t \<longleftrightarrow> (\<forall>d K K'. map fst d = se_columns E t \<longrightarrow>
     se_enforce E (Insert t [d]) K = Inr K' \<longrightarrow> K' t = K t)"

text \<open>Making a client changes no keystone.\<close>

definition quiet_clients :: "keystones identity_env \<Rightarrow> bool" where
  "quiet_clients I \<longleftrightarrow> (\<forall>r s. eg_ext (snd (ie_os_client I r s)) = eg_ext s)"

lemma plain_get_Inr:
  assumes "store_get k E ctx v K = (Inr d, K')" and "k \<in> {Projects, Roles}" and "truthy_json v"
  shows "K' = K \<and> (\<exists>r \<in> set (K (kind_key k)). matches (se_columns E (kind_key k)) ''id'' v r \<and>
    d = [(kind_key k, JObject (row_of (se_columns E (kind_key k)) r))])"
proof -
  let ?cols = "se_columns E (kind_key k)"
  have "bnd (query_rows E (kind_key k) (Some (''id'', v)))
      (\<lambda>rs. bnd (first_row (not_found k) rs) (\<lambda>r. ret [(kind_key k, JObject r)])) K = (Inr d, K')"
    using assms(1,2) by (auto simp: project_get_def role_get_def dest: require_Inr)
  then obtain r rest where "K' = K" "d = [(kind_key k, JObject r)]"
    and "map (row_of ?cols) (filter (matches ?cols ''id'' v) (K (kind_key k))) = r # rest"
    by (auto simp: bnd_Inr query_by [OF assms(3)] first_row_Inr)
  then show ?thesis by (auto simp: map_eq_Cons_conv filter_eq_Cons_iff)
qed

lemma plain_create_Inr:
  assumes "store_create k E ctx p K = (Inr d, K')" and "k \<in> {Projects, Roles}"
  shows "\<exists>row v K1. dict_get (kind_key k) p = Some (JObject row) \<and> dict_get ''id'' row = Some v \<and>
    se_enforce E (Insert (kind_key k) [row]) (effect E (Insert (kind_key k) [row]) K) = Inr K1 \<and>
    store_get k E ctx v K1 = (Inr d, K')"
proof -
  have "bnd (object_at (kind_key k) p) (\<lambda>row. seq (write_session (insert_rows E (kind_key k) [row]))
      (bnd (sum_io (dict_at ''id'' row)) (store_get k E ctx))) K = (Inr d, K')"
    using assms by (auto simp: project_create_def role_create_def dest: require_Inr)
  then show ?thesis
    by (auto simp: bnd_Inr seq_Inr write_session_Inr insert_rows_def execute_Inr object_at_def sum_io_Inr
        dict_at_def as_object_def split: option.splits json.splits)
qed

text \<open>What the dcdbsync of the system controller hands out for an id.\<close>

lemma detail_Inr:
  assumes "dbs_detail D k r i s = (Inr text, t)" and "k \<in> {Projects, Roles}" and "i \<noteq> []"
  shows "t = s \<and> (\<exists>row \<in> set (eg_ext s r (kind_key k)).
    matches (se_columns (st_store D r) (kind_key k)) ''id'' (JText i) row \<and>
    text = json_dumps (JObject [(kind_key k, JObject (row_of (se_columns (st_store D r) (kind_key k)) row))]))"
proof -
  obtain v where v: "send D r 200 (records_get k (st_store D r) (Some i)) s = (Inr v, t)" "text = json_dumps v"
    using assms(1,3) by (auto simp: dbs_detail_def controllers bnd_Inr)
  obtain K ctx where get: "records_get k (st_store D r) (Some i) ctx (eg_ext s r) = (Inr (200, v), K)"
    and t: "t = s\<lparr>eg_ext := (eg_ext s)(r := K)\<rparr>"
    using send_Inr [OF v(1)] by auto
  have "bnd (store_get k (st_store D r) ctx (JText i)) (\<lambda>d. ret (200 :: nat, JObject d)) (eg_ext s r) = (Inr (200, v), K)"
    by (rule handler_status [OF get [unfolded records_get_def option.case]]) (simp add: abort_def)
  then obtain d where d: "store_get k (st_store D r) ctx (JText i) (eg_ext s r) = (Inr d, K)" "v = JObject d"
    by (auto simp: bnd_Inr)
  show ?thesis
    using plain_get_Inr [OF d(1) assms(2)] assms(3) t v(2) d(2) by (cases s) auto
qed

text \<open>What a request to create a row does to the keystone of the subcloud, and what it answers.\<close>

lemma create_Inr:
  assumes "dbs_create D k r text s = (Inr reply, t)" and "k \<in> {Projects, Roles}"
    and "st_loads D text = Some (JObject [(kind_key k, JObject row)])"
    and "map fst row = se_columns (st_store D r) (kind_key k)" and "distinct (map fst row)"
    and "dict_get ''id'' row = Some (JText i)" and "i \<noteq> []" and "stores_given (st_store D r) (kind_key k)"
    and "''id'' \<in> set (map fst row)"
  shows "eg_db t = eg_db s \<and> row \<in> set (eg_ext t r (kind_key k)) \<and>
    (\<exists>row'. reply = JObject [(kind_key k, JObject row')] \<and> dict_get ''id'' row' = Some (JText i))"
proof -
  let ?E = "st_store D r" and ?key = "kind_key k"
  obtain K ctx where post: "records_post k ?E (st_loads D) text ctx (eg_ext s r) = (Inr (201, reply), K)"
    and t: "t = s\<lparr>eg_ext := (eg_ext s)(r := K)\<rparr>"
    using send_Inr [of D r 201] assms(1) unfolding dbs_create_def controllers by fastforce
  have "try_catch (bnd (sum_io (as_object (JObject [(?key, JObject row)])))
      (\<lambda>p. bnd (store_create k ?E ctx p) (\<lambda>d. ret (201, JObject d)))) (\<lambda>_. abort 500) (eg_ext s r) =
      (Inr (201, reply), K)"
    using post by (auto simp: records_post_def with_body_def assms(3) bnd_Inr sum_io_Inr abort_def split: if_splits)
  then have "bnd (sum_io (as_object (JObject [(?key, JObject row)])))
      (\<lambda>p. bnd (store_create k ?E ctx p) (\<lambda>d. ret (201 :: nat, JObject d))) (eg_ext s r) = (Inr (201, reply), K)"
    by (rule handler_status) (simp add: abort_def)
  then obtain d where create: "store_create k ?E ctx [(?key, JObject row)] (eg_ext s r) = (Inr d, K)"
    and reply: "reply = JObject d"
    by (auto simp: bnd_Inr sum_io_Inr as_object_def)
  obtain K1 where K1: "se_enforce ?E (Insert ?key [row]) (effect ?E (Insert ?key [row]) (eg_ext s r)) = Inr K1"
    and get: "store_get k ?E ctx (JText i) K1 = (Inr d, K)"
    using plain_create_Inr [OF create assms(2)] assms(6) by (auto simp: dict_get_def)
  have K: "K = K1" and "\<exists>x \<in> set (K1 ?key). matches (se_columns ?E ?key) ''id'' (JText i) x \<and>
      d = [(?key, JObject (row_of (se_columns ?E ?key) x))]"
    using plain_get_Inr [OF get assms(2)] assms(7) by simp_all
  then obtain x where x: "matches (se_columns ?E ?key) ''id'' (JText i) x"
    and d: "d = [(?key, JObject (row_of (se_columns ?E ?key) x))]" by blast
  have "K1 ?key = effect ?E (Insert ?key [row]) (eg_ext s r) ?key"
    using K1 assms(4,8) unfolding stores_given_def by blast
  then have "K1 ?key = eg_ext s r ?key @ [row]"
    using row_of_row [OF assms(4)] assms(4,5) by simp
  then have "row \<in> set (eg_ext t r ?key)" by (simp add: t K)
  moreover have "dict_get ''id'' (row_of (se_columns ?E ?key) x) = Some (JText i)"
    using x assms(4,9) by (simp add: matches_def dict_get_row_of col_def)
  ultimately show ?thesis using reply d by (simp add: t)
qed

lemma keeps_ext_odo: "keeps (\<lambda>s. eg_ext s = X) (odo m)"
  by (simp add: keeps_def odo_apply)

lemma keeps_ext_persist: "keeps (\<lambda>s. eg_ext s = X) (persist_ref E th i v)"
  unfolding persist_ref_def persist_db_subcloud_resource_def get_db_subcloud_resource_def
  by (auto intro!: keeps_intros keeps_ext_odo split: option.splits exn.splits dcorch_exn.splits)

lemma keeps_ext_reply: "keeps (\<lambda>s. eg_ext s = X) (record_reply E th k rsrc reply)"
  unfolding record_reply_def by (intro keeps_intros keeps_ext_persist)

text \<open>C14: A project or role that the sync thread counts as created in a subcloud is there as it is in
  the system controller: the row with the id of the job's source in the keystone of the system
  controller is a row of the keystone of the subcloud, and the orchestrator has recorded that id as
  the one of the copy. The sync thread, the dcdbsync clients and the dcdbsync services of the two
  regions are put together.\<close>

theorem identity_copy_reaches_subcloud:
  assumes "sync_identity_resource E (with_dbsync D I) th r j rsrc s = (Inr (), t)"
    and "oj_operation_type j \<in> {OPERATION_TYPE_POST, OPERATION_TYPE_CREATE}"
    and "rs_resource_type rsrc = kind_type k" and "k \<in> {Projects, Roles}"
    and "proper_name E (th_subcloud_name th)" and "th_subcloud_name th \<noteq> master_region"
    and "quiet_clients I" and "twin_tables D (th_subcloud_name th) (kind_key k) (eg_ext s)"
    and "stores_given (st_store D (th_subcloud_name th)) (kind_key k)"
  shows "\<exists>row \<in> set (eg_ext s master_region (kind_key k)).
    dict_get ''id'' row = Some (JText (oj_source_resource_id j)) \<and>
    row \<in> set (eg_ext t (th_subcloud_name th) (kind_key k)) \<and>
    copied th (rs_id rsrc) (oj_source_resource_id j) (eg_db t)"
proof -
  let ?I = "with_dbsync D I" and ?sc = "th_subcloud_name th" and ?key = "kind_key k"
  let ?i = "oj_source_resource_id j"
  have "identity_handler (oj_operation_type j) (rs_resource_type rsrc) = Some (post_records k)"
    unfolding assms(3) by (rule kind_handler [OF assms(2)])
  then have "post_records k E ?I th r j rsrc s = (Inr (), t)"
    by (rule sync_identity_Inr [OF assms(1)])
  then obtain records reply v w where i: "?i \<noteq> []"
    and m: "master_records ?I k ?i s = (Inr records, v)"
    and a: "with_client ?I ?sc (\<lambda>sc. ie_add ?I k sc records) v = (Inr reply, w)"
    and rr: "record_reply E th k rsrc reply w = (Inr (), t)"
    by (auto simp: post_records_def bnd_Inr seq_Inr ensure_Inr)

  have quiet: "eg_ext u = eg_ext x" if "ie_os_client I q x = (y, u)" for q x y u
  proof -
    have "eg_ext (snd (ie_os_client I q x)) = eg_ext x" using assms(7) by (simp add: quiet_clients_def)
    then show ?thesis by (simp add: that)
  qed
  have "with_client ?I master_region (\<lambda>r. ie_detail ?I k r ?i) s = (Inr records, v)"
    using m by (auto simp: master_records_def bnd_Inr seq_Inr ensure_Inr dest!: of_master_Inr)
  then obtain u where u: "ie_os_client I master_region s = (Inr (), u)"
    and detail: "dbs_detail D k master_region ?i u = (Inr records, v)"
    by (auto simp: with_client_def seq_Inr with_dbsync_def managers)
  then obtain row where row: "row \<in> set (eg_ext s master_region ?key)" and v: "eg_ext v = eg_ext s"
    and id: "matches (se_columns (st_store D master_region) ?key) ''id'' (JText ?i) row"
    and recs: "records = json_dumps (JObject [(?key, JObject (row_of (se_columns (st_store D master_region) ?key) row))])"
    using detail_Inr [OF detail assms(4) i] quiet [OF u] by auto
  obtain x where x: "ie_os_client I ?sc v = (Inr (), x)" and add: "dbs_create D k ?sc records x = (Inr reply, w)"
    using a by (auto simp: with_client_def seq_Inr with_dbsync_def managers)
  have cols: "map fst row = se_columns (st_store D ?sc) ?key" "distinct (map fst row)"
    "''id'' \<in> set (map fst row)" "se_columns (st_store D master_region) ?key = map fst row"
    and loads: "st_loads D (json_dumps (JObject [(?key, JObject row)])) = Some (JObject [(?key, JObject row)])"
    using assms(8) row by (auto simp: twin_tables_def Let_def)
  have "records = json_dumps (JObject [(?key, JObject row)])"
    using recs row_of_row [OF cols(4) [symmetric]] cols(2,4) by simp
  moreover have src: "dict_get ''id'' row = Some (JText ?i)" using id cols(3,4) by (simp add: matches_def)
  ultimately obtain row' where w: "row \<in> set (eg_ext w ?sc ?key)"
    and reply: "reply = JObject [(?key, JObject row')]" "dict_get ''id'' row' = Some (JText ?i)"
    using create_Inr [OF add assms(4) _ cols(1,2) _ i assms(9) cols(3)] loads by blast
  have "eg_ext t = eg_ext w"
    using keepsD [OF keeps_ext_reply, of w "eg_ext w" E th k rsrc reply] by (simp add: rr)
  moreover have "copied th (rs_id rsrc) ?i (eg_db t)"
    using record_reply_Inr [OF rr assms(5)] reply by (auto simp: jget_def dict_get_def)
  ultimately show ?thesis using row w src by auto
qed

text \<open>Two regions: the system controller has a role that the subcloud does not have yet.\<close>

definition ex_role_row :: dict where
  "ex_role_row = [(''id'', JText ''m1''), (''name'', JText ''operator''), (''domain_id'', JText ''none'')]"

definition ex_store :: store_env where
  "ex_store = \<lparr>se_columns = (\<lambda>t. if t = ''role'' then [''id'', ''name'', ''domain_id''] else []),
     se_enforce = (\<lambda>_ K. Inr K)\<rparr>"

definition ex_sites :: sites where
  "ex_sites = \<lparr>st_store = (\<lambda>_. ex_store),
     st_environ = (\<lambda>_. \<lparr>ev_confirmed = True, ev_role = Some ''admin,member'', ev_user = None, ev_project = None\<rparr>),
     st_loads = (\<lambda>text. if text = json_dumps (JObject [(''role'', JObject ex_role_row)])
       then Some (JObject [(''role'', JObject ex_role_row)]) else None),
     st_is_base64 = (\<lambda>_. True), st_connect = (\<lambda>_. None)\<rparr>"

definition ex_keystones :: keystones where
  "ex_keystones = (\<lambda>r t. if r = master_region \<and> t = ''role'' then [ex_role_row] else [])"

definition ex_regions :: "keystones engine" where
  "ex_regions = \<lparr>eg_db = ex_odb ORCH_REQUEST_QUEUED, eg_reports = [], eg_master = Map.empty, eg_sync_objs = [],
     eg_threads = [], eg_audit_threads = [], eg_initial_threads = [], eg_timers = [], eg_ext = ex_keystones\<rparr>"

definition ex_role :: resource where
  "ex_role = ex_resource\<lparr>rs_resource_type := ''roles''\<rparr>"

definition ex_role_job :: orch_job where
  "ex_role_job = ex_user_job\<lparr>oj_source_resource_id := ''m1''\<rparr>"

abbreviation ex_role_run :: "(exn + unit) \<times> keystones engine" where
  "ex_role_run \<equiv> sync_identity_resource ex_ident (with_dbsync ex_sites ex_identity) ex_identity_thread
     (ex_request 1 ''alpha'' ORCH_REQUEST_QUEUED) ex_role_job ex_role ex_regions"

lemma ex_role_run_ok: "fst ex_role_run = Inr ()"
  by code_simp

theorem identity_copy_reaches_subcloud_witness:
  "ex_role_row \<in> set (eg_ext (snd ex_role_run) ''alpha'' ''role'') \<and>
   copied ex_identity_thread 1 ''m1'' (eg_db (snd ex_role_run))"
proof -
  have run: "ex_role_run = (Inr (), snd ex_role_run)"
    by (rule prod_eqI) (simp_all only: ex_role_run_ok fst_conv snd_conv)
  have op: "oj_operation_type ex_role_job \<in> {OPERATION_TYPE_POST, OPERATION_TYPE_CREATE}"
    by (simp add: ex_role_job_def ex_user_job_def)
  have kind: "rs_resource_type ex_role = kind_type Roles" by (simp add: ex_role_def)
  have name: "th_subcloud_name ex_identity_thread = ''alpha''"
    by (simp add: ex_identity_thread_def mk_thread_def)
  then have other: "th_subcloud_name ex_identity_thread \<noteq> master_region" by (simp add: master_region_def)
  have quiet: "quiet_clients (ex_identity :: keystones identity_env)"
    by (simp add: quiet_clients_def ex_identity_def)
  have twins: "twin_tables ex_sites (th_subcloud_name ex_identity_thread) (kind_key Roles) (eg_ext ex_regions)"
    by (simp add: twin_tables_def ex_sites_def ex_store_def ex_regions_def ex_keystones_def ex_role_row_def)
  have given: "stores_given (st_store ex_sites (th_subcloud_name ex_identity_thread)) (kind_key Roles)"
    by (simp add: stores_given_def ex_sites_def ex_store_def)
  have "eg_ext ex_regions master_region (kind_key Roles) = [ex_role_row]"
    by (simp add: ex_regions_def ex_keystones_def)
  then show ?thesis
    using identity_copy_reaches_subcloud [OF run op kind _ ex_proper other quiet twins given]
    by (simp add: name ex_role_def ex_resource_def ex_role_job_def)
qed

section \<open>Options of a user\<close>

text \<open>The database leaves the options of users alone unless a statement names them; an update of a
  user deletes no user, so nothing cascades to them.\<close>

definition leaves_options :: "store_env \<Rightarrow> bool" where
  "leaves_options E \<longleftrightarrow> (\<forall>st K K'. se_enforce E st K = Inr K' \<longrightarrow> K' ''user_option'' = K ''user_option'')"

abbreviation options_of :: "store_env \<Rightarrow> json \<Rightarrow> dict \<Rightarrow> bool" where
  "options_of E v \<equiv> matches (se_columns E ''user_option'') ''user_id'' v"

lemma execute_options:
  "leaves_options E \<Longrightarrow> execute E st K = (Inr (), K') \<Longrightarrow> K' ''user_option'' = effect E st K ''user_option''"
  by (auto simp: execute_Inr leaves_options_def)

lemma keeps_execute_options:
  assumes "leaves_options E" and "\<And>K. effect E st K ''user_option'' = K ''user_option''"
  shows "keeps (\<lambda>K. K ''user_option'' = X) (execute E st)"
proof -
  have "K' ''user_option'' = K ''user_option''" if "se_enforce E st (effect E st K) = Inr K'" for K K'
    using assms that unfolding leaves_options_def by metis
  then show ?thesis by (auto simp: keeps_def execute_def split: sum.splits)
qed

lemma keeps_options:
  assumes "leaves_options E" and "t \<noteq> ''user_option''"
  shows "keeps (\<lambda>K. K ''user_option'' = X) (insert_rows E t ds)"
    "keeps (\<lambda>K. K ''user_option'' = X) (delete_rows E t idx v)"
    "keeps (\<lambda>K. K ''user_option'' = X) (update_rows E t idx v d)"
  using assms unfolding insert_rows_def delete_rows_def update_rows_def
  by (auto intro!: keeps_execute_options)

lemma keeps_query [keeps_intros]: "keeps P (query_rows E t by)"
  by (simp add: keeps_def query_rows_def)

lemma keeps_user_get: "keeps P (user_get E ctx v)"
  unfolding user_get_def first_row_def
  by (auto intro!: keeps_intros split: list.splits)

lemma keeps_local_user_options:
  assumes "leaves_options E"
  shows "keeps (\<lambda>K. K ''user_option'' = X) (update_local_user E v w payload)"
  unfolding update_local_user_def update_passwords_def objects_at_def list_at_def
  by (auto intro!: keeps_intros keeps_options [OF assms] split: option.splits list.splits)

text \<open>When the id of a user changes, the options of the user are taken out of the table and only
  the last of them is put back, under the new id: an update that succeeds loses the others.\<close>

theorem last_option_kept:
  assumes "user_update E ctx (JText i) payload K = (Inr u, K')" and "leaves_options E"
    and "dict_get ''user'' payload = Some (JObject user)" and "col ''id'' user \<noteq> JText i" and "i \<noteq> []"
  shows "K' ''user_option'' = filter (\<lambda>r. \<not> options_of E (JText i) r) (K ''user_option'') @
    (case rev (filter (options_of E (JText i)) (K ''user_option'')) of
       [] \<Rightarrow> []
     | r # _ \<Rightarrow> [row_of (se_columns E ''user_option'')
         (dict_set ''user_id'' (col ''id'' user) (row_of (se_columns E ''user_option'') r))])"
proof -
  let ?old = "JText i" and ?new = "col ''id'' user"
  let ?rest = "\<lambda>new. seq (update_local_user E ?old new payload) (seq (rename_user E ?old new) (ret new))"
  obtain new K1 K2 where row: "update_user_row E ?old payload K = (Inr new, K1)"
    and rest: "?rest new K1 = (Inr new, K2)" and get: "user_get E ctx new K2 = (Inr u, K')"
    using assms(1) by (auto simp: user_update_def bnd_Inr seq_Inr write_session_Inr dest!: require_Inr)
  have "keeps (\<lambda>K. K ''user_option'' = K1 ''user_option'') (?rest new)"
    unfolding rename_user_def
    by (intro keeps_intros keeps_local_user_options keeps_options assms(2)) simp_all
  from keepsD [OF this, of K1] have "K2 ''user_option'' = K1 ''user_option''" by (simp add: rest)
  moreover have "K' = K2" using keepsD [OF keeps_user_get, of "\<lambda>K. K = K2" K2 E ctx new] get by simp
  moreover have "K1 ''user_option'' = filter (\<lambda>r. \<not> options_of E ?old r) (K ''user_option'') @
    (case rev (filter (options_of E ?old) (K ''user_option'')) of
       [] \<Rightarrow> []
     | r # _ \<Rightarrow> [row_of (se_columns E ''user_option'')
         (dict_set ''user_id'' ?new (row_of (se_columns E ''user_option'') r))])"
  proof -
    obtain K3 K4 where d: "delete_rows E ''user_option'' ''user_id'' ?old K = (Inr (), K3)"
      and up: "update_rows E ''user'' ''id'' ?old user K3 = (Inr (), K4)"
      and ins: "(let os = map (row_of (se_columns E ''user_option'')) (filter (options_of E ?old) (K ''user_option''))
        in if os = [] then ret () else insert_rows E ''user_option'' [dict_set ''user_id'' ?new (last os)]) K4 =
          (Inr (), K1)"
      using row assms(4,5)
      by (auto simp: update_user_row_def assms(3) sum_io_Inr as_object_def bnd_Inr seq_Inr query_by Let_def)
    have "K4 ''user_option'' = filter (\<lambda>r. \<not> options_of E ?old r) (K ''user_option'')"
      using execute_options [OF assms(2) d [unfolded delete_rows_def]]
        execute_options [OF assms(2) up [unfolded update_rows_def]] by simp
    then show ?thesis
      using execute_options [OF assms(2), of _ K4 K1] ins
      by (cases "filter (options_of E ?old) (K ''user_option'')" rule: rev_cases)
        (auto simp: insert_rows_def Let_def)
  qed
  ultimately show ?thesis by simp
qed

text \<open>A user with two options gets a new id.\<close>

definition ex_users :: store_env where
  "ex_users = \<lparr>se_columns = (\<lambda>t. if t = ''user'' then [''id''] else if t = ''local_user'' then [''user_id''] else
       if t = ''user_option'' then [''user_id'', ''option_id''] else [''actor_id'', ''user_id'']),
     se_enforce = (\<lambda>_ K. Inr K)\<rparr>"

definition ex_user_tables :: keystone where
  "ex_user_tables = (\<lambda>t. if t = ''user'' then [[(''id'', JText ''u1'')]]
     else if t = ''local_user'' then [[(''user_id'', JText ''m1'')]]
     else if t = ''user_option'' then [[(''user_id'', JText ''u1''), (''option_id'', JText ''1000'')],
       [(''user_id'', JText ''u1''), (''option_id'', JText ''1001'')]] else [])"

abbreviation ex_user_update :: "(exn + dict) \<times> keystone" where
  "ex_user_update \<equiv> user_update ex_users admin_context (JText ''u1'')
     [(''user'', JObject [(''id'', JText ''m1'')])] ex_user_tables"

lemma ex_user_update_ok: "fst ex_user_update = Inr [(''user'', JObject [(''id'', JText ''m1'')]),
    (''local_user'', JObject [(''user_id'', JText ''m1'')]), (''password'', JArray [])]"
  by code_simp

theorem last_option_kept_witness:
  "snd ex_user_update ''user_option'' = [[(''user_id'', JText ''m1''), (''option_id'', JText ''1001'')]]"
proof -
  have run: "ex_user_update = (Inr [(''user'', JObject [(''id'', JText ''m1'')]),
      (''local_user'', JObject [(''user_id'', JText ''m1'')]), (''password'', JArray [])], snd ex_user_update)"
    by (rule prod_eqI) (simp_all only: ex_user_update_ok fst_conv snd_conv)
  have "leaves_options ex_users" by (simp add: leaves_options_def ex_users_def)
  moreover have "dict_get ''user'' [(''user'', JObject [(''id'', JText ''m1'')])] = Some (JObject [(''id'', JText ''m1'')])"
    by (simp add: dict_get_def)
  ultimately have "snd ex_user_update ''user_option'' =
      filter (\<lambda>r. \<not> options_of ex_users (JText ''u1'') r) (ex_user_tables ''user_option'') @
      (case rev (filter (options_of ex_users (JText ''u1'')) (ex_user_tables ''user_option'')) of
         [] \<Rightarrow> []
       | r # _ \<Rightarrow> [row_of (se_columns ex_users ''user_option'')
           (dict_set ''user_id'' (col ''id'' [(''id'', JText ''m1'')]) (row_of (se_columns ex_users ''user_option'') r))])"
    by (rule last_option_kept [OF run]) (simp_all add: col_def dict_get_def)
  then show ?thesis
    by (simp add: ex_users_def ex_user_tables_def matches_def dict_get_def row_of_def col_def)
qed

section \<open>Groups\<close>

text \<open>The rows of a group and its members, written to a database that takes the statements as they are.\<close>

definition group_rows :: "store_env \<Rightarrow> dict \<Rightarrow> json list \<Rightarrow> keystone \<Rightarrow> keystone" where
  "group_rows E g ids K = K(
     ''group'' := K ''group'' @ [row_of (se_columns E ''group'') g],
     ''user_group_membership'' := K ''user_group_membership'' @ map (\<lambda>i. row_of (se_columns E ''user_group_membership'')
       [(''user_id'', i), (''group_id'', col ''id'' g)]) ids)"

definition takes_all :: "store_env \<Rightarrow> bool" where
  "takes_all E \<longleftrightarrow> (\<forall>st K. se_enforce E st K = Inr K)"

lemma insert_taken: "takes_all E \<Longrightarrow> insert_rows E t [d] K = (Inr (), K(t := K t @ [row_of (se_columns E t) d]))"
  by (simp add: insert_rows_def execute_def takes_all_def)

lemma add_members_run:
  assumes "takes_all E"
  shows "add_members E v ids K = (Inr (), K(''user_group_membership'' := K ''user_group_membership'' @
    map (\<lambda>i. row_of (se_columns E ''user_group_membership'') [(''user_id'', i), (''group_id'', v)]) ids))"
  unfolding add_members_def
  by (induction ids arbitrary: K) (simp_all add: seq_apply insert_taken [OF assms] fun_upd_idem)

lemma remote_member:
  assumes "uid \<in> set ids" and "truthy_json uid" and "query_rows E ''local_user'' (Some (''user_id'', uid)) K = (Inr [], K)"
  shows "\<exists>e. local_members E ids K = (Inl e, K)"
  using assms(1)
proof (induction ids)
  case (Cons i ids)
  obtain rs where rs: "query_rows E ''local_user'' (Some (''user_id'', i)) K = (Inr rs, K)"
    by (auto simp: query_rows_def)
  show ?case
  proof (cases rs)
    case Nil
    then show ?thesis by (auto simp: bnd_apply rs first_row_def)
  next
    case (Cons r rest)
    then have "i \<noteq> uid" using rs assms(3) by auto
    then obtain e where "local_members E ids K = (Inl e, K)" using Cons.IH Cons.prems by auto
    then show ?thesis using Cons by (auto simp: bnd_apply rs first_row_def)
  qed
qed simp

text \<open>A group with a member that is no local user (one of another identity backend) is answered with
  500 when it is created, although its rows have been written and stay: the answer is composed
  after the transaction, by reading the group, which fails for such a member. The sync thread, which
  is told that the copy failed, does not record it.\<close>

theorem group_with_remote_member:
  assumes "takes_all E" and "rc_is_admin ctx"
    and "loads body = Some (JObject [(''group'', JObject g), (''local_user_ids'', JArray ids)])"
    and "dict_get ''name'' g = Some (JText n)" and "n \<noteq> []"
    and "dict_get ''id'' g = Some (JText i)" and "i \<noteq> []"
    and "''id'' \<in> set (se_columns E ''group'')"
    and "{''user_id'', ''group_id''} \<subseteq> set (se_columns E ''user_group_membership'')"
    and "uid \<in> set ids" and "truthy_json uid"
    and "\<not> list_ex (matches (se_columns E ''local_user'') ''user_id'' uid) (K ''local_user'')"
  shows "records_post Groups E loads body (Some ctx) K = (Inr (500, JNull), group_rows E g ids K)"
proof -
  let ?K = "group_rows E g ids K" and ?gc = "se_columns E ''group''" and ?mc = "se_columns E ''user_group_membership''"
  let ?payload = "[(''group'', JObject g), (''local_user_ids'', JArray ids)]"
  let ?member = "\<lambda>u. row_of ?mc [(''user_id'', u), (''group_id'', JText i)]"
  have written: "write_session (seq (insert_rows E ''group'' [g])
      (if ids = [] then ret () else bnd (sum_io (dict_at ''id'' g)) (\<lambda>v. add_members E v ids))) K = (Inr (), ?K)"
    using assms(6)
    by (simp add: write_session_def seq_apply insert_taken [OF assms(1)] dict_at_def sum_io_def
        add_members_run [OF assms(1)] group_rows_def col_def fun_upd_idem)
  have "matches ?gc ''id'' (JText i) (row_of ?gc g)"
    using assms(6,8) by (simp add: matches_def dict_get_row_of col_def)
  then obtain r rest where r: "filter (matches ?gc ''id'' (JText i)) (?K ''group'') = r # rest"
    by (cases "filter (matches ?gc ''id'' (JText i)) (?K ''group'')") (auto simp: group_rows_def filter_empty_conv)
  let ?ms = "filter (matches ?mc ''group_id'' (JText i)) (?K ''user_group_membership'')"
  have "?member uid \<in> set ?ms"
  proof -
    have "dict_get ''group_id'' (?member uid) = Some (JText i)"
      using assms(9) by (simp add: dict_get_row_of) (simp add: col_def dict_get_def)
    moreover have "col ''id'' g = JText i" using assms(6) by (simp add: col_def)
    ultimately show ?thesis using assms(9,10) by (simp add: group_rows_def matches_def)
  qed
  then have "col ''user_id'' (row_of ?mc (?member uid)) \<in> set (map (col ''user_id'') (map (row_of ?mc) ?ms))"
    by (simp add: image_iff) blast
  moreover have "col ''user_id'' (row_of ?mc (?member uid)) = uid"
    using assms(9) by (simp add: col_def [of "''user_id''" "row_of _ _"] dict_get_row_of) (simp add: col_def dict_get_def)
  ultimately have mem: "uid \<in> set (map (col ''user_id'') (map (row_of ?mc) ?ms))" by simp
  have "query_rows E ''local_user'' (Some (''user_id'', uid)) ?K = (Inr [], ?K)"
    using assms(12) by (simp add: query_by [OF assms(11)] group_rows_def filter_empty_conv list_ex_iff)
  from remote_member [OF mem assms(11) this]
  obtain e where e: "local_members E (map (col ''user_id'') (map (row_of ?mc) ?ms)) ?K = (Inl e, ?K)" ..
  have "group_get E (Some ctx) (JText i) ?K = (Inl e, ?K)"
    using assms(2,7) e r
    by (simp add: group_get_def require_context_def is_admin_context_def bnd_apply query_by first_row_def)
  then have "group_create E (Some ctx) ?payload K = (Inl e, ?K)"
    using assms(2,6) written
    by (simp add: group_create_def require_admin_context_def is_admin_context_def object_at_def list_at_def
        dict_at_def dict_get_def as_object_def as_list_def sum_io_def bnd_apply seq_apply)
  then show ?thesis
    using assms(4,5)
    by (simp add: records_post_def with_body_def assms(3) jget_def dict_get_def sum_io_def as_object_def
        try_catch_def bnd_apply abort_def)
qed

definition ex_groups :: store_env where
  "ex_groups = \<lparr>se_columns = (\<lambda>t. if t = ''user_group_membership'' then [''user_id'', ''group_id'']
       else if t = ''local_user'' then [''id'', ''user_id''] else [''id'', ''name'']),
     se_enforce = (\<lambda>_ K. Inr K)\<rparr>"

theorem group_with_remote_member_witness:
  "records_post Groups ex_groups
     (\<lambda>_. Some (JObject [(''group'', JObject [(''id'', JText ''g1''), (''name'', JText ''ops'')]),
        (''local_user_ids'', JArray [JText ''ldap1''])]))
     [] admin_context (\<lambda>_. []) =
   (Inr (500, JNull), (\<lambda>_. [])(''group'' := [[(''id'', JText ''g1''), (''name'', JText ''ops'')]],
      ''user_group_membership'' := [[(''user_id'', JText ''ldap1''), (''group_id'', JText ''g1'')]]))"
proof -
  have "records_post Groups ex_groups
     (\<lambda>_. Some (JObject [(''group'', JObject [(''id'', JText ''g1''), (''name'', JText ''ops'')]),
        (''local_user_ids'', JArray [JText ''ldap1''])]))
     [] admin_context (\<lambda>_. []) =
    (Inr (500, JNull), group_rows ex_groups [(''id'', JText ''g1''), (''name'', JText ''ops'')] [JText ''ldap1''] (\<lambda>_. []))"
    unfolding admin_context_def
    by (rule group_with_remote_member [where n = "''ops''" and i = "''g1''" and uid = "JText ''ldap1''"])
      (simp_all add: takes_all_def ex_groups_def dict_get_def)
  then show ?thesis by (simp add: group_rows_def ex_groups_def row_of_def dict_get_def col_def)
qed

end
