(* ===== verification/Spec2Isabelle.thy ===== *)
theory Spec2Isabelle
  imports DC_ApiProps DC_UpdateProps DC_BackupProps DC_Manager_Props DC_AuditSystem
    DO_SysinvProps DO_ManagerProps DO_StoreProps DO_LockProps DO_ServiceProps DS_Props
begin

text \<open>
  A verification development of the StarlingX distributed cloud: the manager
  (\<open>src/distributedcloud/dcmanager\<close>, theories \<open>DC_*\<close>) and the orchestrator that copies the
  configuration of the system controller to its subclouds (\<open>src/distributedcloud/dcorch\<close>,
  theories \<open>DO_*\<close>), with the service that copies rows of
  keystone between them (\<open>src/distributedcloud/dcdbsync\<close>, theories \<open>DS_*\<close>).

  \<^bold>\<open>The program.\<close> A system controller manages subclouds. Its REST API (\<open>api/controllers/v1\<close>) checks each
  request and hands it to the services below. Its database keeps the subclouds, their groups,
  the sync status of each endpoint and the strategies that update their software
  (\<open>db/sqlalchemy\<close>). \<open>SwUpdateManager\<close> creates a strategy with one step for each subcloud to update,
  orders the steps in stages, and records requests to apply, abort or delete it. One thread per kind
  of strategy (\<open>OrchThread\<close>) works through the stages: for each step it starts a greenthread
  which runs a state operator (\<open>orchestrator/states\<close>) and records the next state of the step.
  The audit service (\<open>audit\<close>) decides which subclouds are due, probes whether they are online, and
  compares their patches, loads, firmware, kubernetes and certificates with those of the system
  controller; the state service (\<open>state\<close>) records the results, raises alarms and tells dcorch. The
  subcloud manager (\<open>manager\<close>) adds, deploys, manages, backs up and deletes subclouds, with ansible
  playbooks in threads of its own.

  The orchestrator keeps what has to be copied in a database of its own: a resource of the system
  controller, a job for each change of it, and a request for each job and subcloud. Its engines
  take the subclouds that are managed, online and initially synchronised, take a lock for each
  endpoint, and work through the pending requests with the handlers of a class for that endpoint
  (\<open>engine/sync_services\<close>); an audit compares the resources and enqueues the work that is missing.
  What it finds is reported to the state service of dcmanager.

  \<^bold>\<open>The theories and what they model.\<close>
  \<^item> \<open>DC_Prelude\<close>: computations \<open>('s, 'a) io\<close> with a state and exceptions (\<open>common/exceptions.py\<close>),
    tables of rows with identifiers, the collection \<open>keeps_intros\<close> of rules for invariants.
  \<^item> \<open>DC_Consts\<close>, \<open>DC_Models\<close>, \<open>DC_DB_Subclouds\<close>, \<open>DC_DB_Strategy\<close>, \<open>DC_DB_Wf\<close>: the constants, the tables,
    every query and update of the database API, and the schema (\<open>db_wf\<close>) that all of them keep.
  \<^item> \<open>DC_World\<close>: a service's world: database, files, the log of its calls, and the other services,
    which are parameters that may answer and raise anything.
  \<^item> \<open>DC_Utils\<close>, \<open>DC_Prestage\<close>, \<open>DC_SwUpdateManager\<close>, \<open>DC_Stages\<close>, \<open>DC_Manager_Props\<close>: the utilities, the
    validation of prestaging, the operations of the strategy manager, how it assigns stages,
    and its properties.
  \<^item> \<open>DC_Loops\<close>: polling loops that may not end (\<open>io_loop\<close>, a partial function whose value None
    stands for not returning) and the locale of loops with a measure.
  \<^item> \<open>DC_OrchEnv\<close>, \<open>DC_HostStates\<close>, \<open>DC_VimStates\<close>, \<open>DC_PatchStates\<close>, \<open>DC_KubeStates\<close>: the clients and the
    state operators of patch, kubernetes and kube rootca strategies; \<open>DC_Firmware\<close>, \<open>DC_PrestageStates\<close>,
    \<open>DC_UpgradeStart\<close>, \<open>DC_UpgradeRun\<close>: those of firmware, prestage and software upgrade strategies,
    with the caches the upgrades share. \<open>DC_UpdateTables\<close>, \<open>DC_UpdateEnds\<close>, \<open>DC_UpdateProps\<close>: their
    state tables against the abstract machine, that every operator returns, and what they promise.
  \<^item> \<open>DC_OrchThread\<close>: the main loop, \<open>apply\<close>, \<open>abort\<close>, \<open>delete\<close>, the workers and the greenthreads, with
    the state tables of patch, kubernetes and kube rootca strategies.
  \<^item> \<open>DC_Progress\<close>: an abstract machine of what an orchestration promises: a step begins only when
    the lower stages are done, moves on by its table, is run by one job at most while it is being
    updated, and drops out only when its subcloud is deleted.
  \<^item> \<open>DC_OrchRefine\<close>, \<open>DC_OrchTurn\<close>, \<open>DC_Orchestration\<close>, \<open>DC_OrchTables\<close>: the thread refines that machine.
    \<open>orch_step\<close> is the step relation of the whole system: turns of the thread, ends of greenthreads,
    and anything else that stays within the plan (\<open>within_plan\<close>: subclouds come, and go with their
    steps). The locale \<open>orchestration\<close> is interpreted on the three threads.
  \<^item> \<open>DC_OrchProps\<close>, \<open>DC_OrchEnds\<close>: what follows for the system, and how strategies, failures and
    deletions end.

  \<^item> \<open>DC_StateManager\<close>, \<open>DC_StateProps\<close>: the state manager; \<open>sync_inv\<close> says that an endpoint is recorded as
    in sync only while its subcloud is online and managed (online, for dc-cert). Its operations keep
    it when they run one at a time; \<open>offline_race\<close> in \<open>DC_ManageProps\<close> is what becomes of it when a
    report falls between the two transactions by which a subcloud goes offline.
  \<^item> \<open>DC_Audits\<close>, \<open>DC_AuditWorker\<close>, \<open>DC_AuditManager\<close>: the audits, the worker and the manager of the audit
    service. \<open>DC_AuditProps\<close>: availability follows the probes; \<open>DC_AuditSystem\<close>: the patch audit against
    the patch orchestration, batches, requests, and the service as a step relation whose processes
    share the database (\<open>audit_service_step\<close>; the audit of a subcloud is one step there).
  \<^item> \<open>DC_Json\<close>, \<open>DC_SubcloudManager\<close>, \<open>DC_Deploy\<close>, \<open>DC_Backups\<close>, \<open>DC_Network\<close>: the subcloud manager
    (\<open>manager/subcloud_manager.py\<close>) with its payloads as JSON dictionaries: management state, deletion,
    start-up and the cache of RegionOne; adding and deploying; backups; a new admin network. A thread
    that is started is a value (\<open>deploy_job\<close>, \<open>network_job\<close>); threads of a pool run one after the other.
  \<^item> \<open>DC_ManageProps\<close>, \<open>DC_SubcloudProps\<close>, \<open>DC_DeployProps\<close>, \<open>DC_BackupProps\<close>: what they promise, over the same
    invariant \<open>sync_inv\<close>, and where a change of the management state breaks it (\<open>empty_management_state\<close>);
    the files that ansible reads, with a reader for them (\<open>read_override\<close>); which playbooks run after
    which outcomes (\<open>deploy_run\<close>); how deployments, interrupted operations and backups end.
  \<^item> \<open>DC_Requests\<close>, \<open>DC_Api\<close>, \<open>DC_ApiOthers\<close>: the REST API (\<open>api/controllers/v1\<close>): what a request for a subcloud
    carries and the checks of its networks and install values; the operations of the controller of
    subclouds; groups, options, backups and the strategy. \<open>api_env\<close> holds what they call: the policy,
    \<open>netaddr\<close> (\<open>net_env\<close>), the parsers, and the remote calls (\<open>manager_rpc\<close>, \<open>orch_rpc\<close>), which \<open>with_manager\<close> and
    \<open>orchestrator_of\<close> fill with the services modelled here. \<open>DC_ApiProps\<close>: what the requests promise.

  \<^item> \<open>DO_Models\<close>, \<open>DO_DB\<close>, \<open>DO_Tables\<close>, \<open>DO_Requests\<close>, \<open>DO_Objects\<close>: the orchestrator's database with its
    schema (\<open>odb_wf\<close>), every query and update of \<open>db/sqlalchemy/api.py\<close> as a transaction, the objects
    over them, \<open>enqueue_work\<close> and the lock.
  \<^item> \<open>DO_Sync\<close>, \<open>DO_SyncAudit\<close>: the sync thread of an endpoint and its audit. What a class of threads may
    override is a record of methods (\<open>sync_class\<close>); \<open>engine\<close> is the state of an engine: database, reports,
    sync objects and greenthreads. \<open>DO_Manager\<close>, \<open>DO_InitialSync\<close>: the rounds of the engine, the initial
    synchronisation, fernet keys and the registry of engines. \<open>DO_Sysinv\<close>: the class for the platform.
  \<^item> \<open>DO_Lemmas\<close>, \<open>DO_SyncProps\<close>, \<open>DO_SysinvProps\<close>, \<open>DO_ManagerProps\<close>, \<open>DO_StoreProps\<close>: how
    transactions commit, a small orchestrator on which the properties are tried, and what the
    synchronisation reports, in which order and how requests end, and what the database keeps.
  \<^item> \<open>DO_Identity\<close>: the class for identity (\<open>sync_services/identity.py\<close>): users, groups, projects, roles,
    role assignments and token revocations, copied by way of \<open>dcdbsync\<close>, whose clients are parameters
    that may answer and raise anything (\<open>identity_env\<close>). \<open>DO_Services\<close>: the classes
    for quota sets of volumes; for flavors, key pairs and quota sets; for security groups and rules.
  \<^item> \<open>DO_Quota\<close>: the quota manager (\<open>engine/quota_manager.py\<close>): counters as association lists, the caches
    of the usage, the quota audit lock, and the drivers as they are in \<open>drivers/openstack/sdk.py\<close>.
  \<^item> \<open>DO_LockProps\<close>: engines that interleave at each transaction of \<open>mutex_start_thread\<close>, die, and clean up
    behind each other (\<open>lock_step\<close>): what the lock excludes, what it does not, and that a clean-up can
    take the lock of a live engine away. \<open>DO_IdentityProps\<close>, \<open>DO_QuotaProps\<close>, \<open>DO_ServiceProps\<close>: when an
    identity counts as copied, the limits of a subcloud against the global quota, and what holds for
    the classes of all endpoints (the locale \<open>sync_service\<close> is interpreted on each of them).
  \<^item> \<open>DS_Store\<close>, \<open>DS_Api\<close>: \<open>dcdbsync\<close>: the rows of keystone with the statements that change them, the
    controllers of the service, and the clients that the sync thread of the identity endpoint calls.
    What keystone's database makes of a statement (refusals, generated ids, cascades) is a parameter.
    \<open>with_dbsync\<close> puts them in the place of the clients that \<open>DO_Identity\<close> leaves open.
  \<^item> \<open>DS_Props\<close>: the sync thread together with the services of two regions, and rows that get lost.

  \<^bold>\<open>Assumptions.\<close> \<open>never_stopped\<close>: the service is not shut down (a stopped thread does nothing
  more). \<open>about_to_start\<close>: no step has begun and no greenthread runs. A turn is atomic between two
  sleeps: greenthreads switch at blocking calls, and the turn's own are database calls. The properties
  of the orchestration hold from the start of a strategy until its deletion begins (\<open>orch_step\<close> has no
  turns while a strategy is being deleted; \<open>deletion_ends\<close> is about those). Between the steps of the
  thread and its greenthreads anything may happen to the database that keeps the schema, the states
  and stages of the steps, and the names of their subclouds; a step may go, but only with its subcloud.
  The other operations of dcmanager are modelled as they run alone: two that run at the same time are
  only considered where a theorem says so.

  The greenthreads of a round of the orchestrator run one after another, and a time limit that ends
  a greenthread is an exception of the call it interrupts; an engine's round is otherwise atomic,
  except in \<open>DO_LockProps\<close>, where the engines interleave. The threads that the quota manager starts and
  joins run in the order in which they are started; its \<open>usage_lock\<close> is not modelled, since the
  sections under it are atomic. A driver's answer is read anew for each use: the lists that
  \<open>attach_fa\<close> and \<open>attach_es\<close> share within one audit of a flavor are not aliased.

  \<^bold>\<open>Not modelled.\<close> Logging; the engine set-up and migrations of the databases; what the ansible
  playbooks do (that they succeed or fail is a parameter); \<open>SubcloudInstall\<close>; greenthreads that read
  the shared caches while another one fetches; in dcorch the API proxy, which forwards requests to
  the services of OpenStack; the text of the exceptions that the database driver and the clients of the
  other services raise (\<open>exn_str\<close> gives the name of the class for them); in dcmanager's API the lock that makes a request atomic, alarm summaries,
  notifications, the upload of deployment files and the times in the answers; the routing of requests, and
  the glue of remote calls and drivers over third-party libraries.
\<close>

end
